(* ===== verification/Prelude.thy ===== *)
theory Prelude
  imports Main "HOL-Library.Word" "HOL-Library.Monad_Syntax" "HOL-Library.AList"
    "HOL-Library.Multiset" "HOL-Library.Sublist"
begin

text \<open>
  Shared vocabulary of the development.

  Go values.  A \<open>[]byte\<close> and a Go \<open>string\<close> are both \<^typ>\<open>string\<close> (an Isabelle \<^typ>\<open>char\<close> is
  a byte), so the conversions between them are the identity.  Machine integers keep their
  width as words; signed types are words read through \<^const>\<open>sint\<close>.  A \<open>*big.Int\<close> is
  an \<^typ>\<open>int option\<close>, with \<^const>\<open>None\<close> the nil pointer.

  Go maps.  A map is an association list with distinct keys; the order of the list is the
  order in which one particular \<open>range\<close> loop visits the entries.

  Panics.  An operation that can panic returns an option, \<^const>\<open>None\<close> being the panic;
  the operations are composed in the option monad with the state passed explicitly.
\<close>

type_synonym u64 = "64 word"
type_synonym u32 = "32 word"
type_synonym i32 = "32 word"
type_synonym i64 = "64 word"
type_synonym bytes = string
type_synonym address = string
type_synonym bigint = "int option"

type_synonym ('k, 'v) gomap = "('k \<times> 'v) list"

named_theorems go_simps \<open>evaluation rules for Go maps, slices and the panic monad\<close>
named_theorems frame \<open>fields an operation leaves alone\<close>

abbreviation MaxUint64 :: u64 where "MaxUint64 \<equiv> - 1"
abbreviation MaxInt64 :: u64 where "MaxInt64 \<equiv> 0x7FFFFFFFFFFFFFFF"

subsection \<open>Go maps\<close>

abbreviation go_get :: "('k, 'v) gomap \<Rightarrow> 'k \<Rightarrow> 'v option" where
  "go_get \<equiv> map_of"

abbreviation go_set :: "'k \<Rightarrow> 'v \<Rightarrow> ('k, 'v) gomap \<Rightarrow> ('k, 'v) gomap" where
  "go_set \<equiv> AList.update"

abbreviation go_delete :: "'k \<Rightarrow> ('k, 'v) gomap \<Rightarrow> ('k, 'v) gomap" where
  "go_delete \<equiv> AList.delete"

definition wf_gomap :: "('k, 'v) gomap \<Rightarrow> bool" where
  "wf_gomap m \<longleftrightarrow> distinct (map fst m)"

lemma wf_gomap_Nil [simp]: "wf_gomap []"
  by (simp add: wf_gomap_def)

lemma wf_gomap_set [simp]: "wf_gomap m \<Longrightarrow> wf_gomap (go_set k v m)"
  by (simp add: wf_gomap_def distinct_update)

lemma wf_gomap_delete [simp]: "wf_gomap m \<Longrightarrow> wf_gomap (go_delete k m)"
  by (simp add: wf_gomap_def distinct_delete)

lemma go_get_set [go_simps]: "go_get (go_set k v m) k' = (if k' = k then Some v else go_get m k')"
  by (simp add: update_conv')

lemma go_get_delete [go_simps]: "go_get (go_delete k m) k' = (if k' = k then None else go_get m k')"
  by (simp add: delete_conv')

lemma go_get_map_snd:
  "go_get (map (\<lambda>(k, v). (k, f k v)) m) k = map_option (f k) (go_get m k)"
  by (induction m) auto

text \<open>Overwriting the value of a key that is present keeps the iteration order.\<close>

lemma map_fst_go_set_present:
  "go_get m k \<noteq> None \<Longrightarrow> map fst (go_set k v m) = map fst m"
  by (induction m) (auto split: if_splits)

lemma go_set_absent: "go_get m k = None \<Longrightarrow> go_set k v m = m @ [(k, v)]"
  by (induction m) (auto split: if_splits)

lemma go_set_same: "go_get m k = Some v \<Longrightarrow> go_set k v m = m"
  by (induction m) (auto split: if_splits)

lemma go_set_set: "go_set k v (go_set k w m) = go_set k v m"
  by (induction m) auto

lemma length_go_set:
  "length (go_set k v m) = (if go_get m k = None then Suc (length m) else length m)"
  by (induction m) auto

text \<open>A sum over the values of a map, and how writing one key changes it.\<close>

lemma sum_list_go_set:
  fixes f :: "'v \<Rightarrow> int"
  assumes "wf_gomap m"
  shows "(\<Sum>(k, v)\<leftarrow>go_set k x m. f v) =
    (\<Sum>(k, v)\<leftarrow>m. f v) + f x - (case go_get m k of None \<Rightarrow> 0 | Some y \<Rightarrow> f y)"
  using assms by (induction m) (auto simp: wf_gomap_def split: option.splits)

lemma sum_list_gomap:
  fixes f :: "'v \<Rightarrow> 'b::comm_monoid_add"
  assumes "wf_gomap m"
  shows "(\<Sum>(k, v)\<leftarrow>m. f v) = (\<Sum>k\<in>fst ` set m. f (the (go_get m k)))"
  using assms
proof (induction m)
  case (Cons x m)
  obtain k v where x: "x = (k, v)" by (cases x)
  with Cons.prems have wf: "wf_gomap m" and k: "k \<notin> fst ` set m"
    by (auto simp: wf_gomap_def)
  have "(\<Sum>j\<in>fst ` set m. f (the (go_get m j))) = (\<Sum>j\<in>fst ` set m. f (the (go_get (x # m) j)))"
    using k x by (intro sum.cong) auto
  with Cons.IH [OF wf] k x show ?case by simp
qed simp

lemma list_all_go_set: "list_all P m \<Longrightarrow> P (k, v) \<Longrightarrow> list_all P (go_set k v m)"
  by (induction m) auto

lemma list_all_go_delete: "list_all P m \<Longrightarrow> list_all P (go_delete k m)"
  by (induction m) auto

lemma in_keys_iff: "k \<in> fst ` set m \<longleftrightarrow> go_get m k \<noteq> None"
  by (metis map_of_eq_None_iff)

subsection \<open>The panic monad\<close>

lemma bind_Some_iff [go_simps]:
  "Option.bind x f = Some y \<longleftrightarrow> (\<exists>a. x = Some a \<and> f a = Some y)"
  by (cases x) auto

lemma bind_not_None: "Option.bind x f \<noteq> None \<Longrightarrow> x \<noteq> None"
  by (cases x) auto

subsection \<open>Words\<close>

lemma unat_MaxUint64 [simp]: "unat (MaxUint64) = 2 ^ 64 - 1"
  by (simp add: unsigned_minus_1_eq_mask mask_eq_exp_minus_1)

lemma unat_u64_bound: "unat (x :: u64) < 2 ^ 64"
  using unsigned_less [of x] by simp

lemma unat_u64_le: "unat (x :: u64) \<le> 2 ^ 64 - 1"
  using unat_u64_bound [of x] by linarith

lemma u64_le_iff: "(x :: u64) \<le> y \<longleftrightarrow> unat x \<le> unat y"
  by (rule word_le_nat_alt)

lemma u64_less_iff: "(x :: u64) < y \<longleftrightarrow> unat x < unat y"
  by (rule word_less_nat_alt)

lemma unat_u64_diff: "(y :: u64) \<le> x \<Longrightarrow> unat (x - y) = unat x - unat y"
  by (simp add: unat_sub)

end
