(* ===== verification/GoMath.thy ===== *)
theory GoMath
  imports Prelude
begin

text \<open>
  The overflow-aware arithmetic of \<open>src/math/overflow.go\<close>, which every gas computation of the
  VM uses.  The functions are translated as written, on words of the Go width; the lemmas
  characterise them over the naturals (unsigned) and the integers (signed), and show that
  saturating addition is a commutative monoid, so that a total over a Go map does not depend
  on the iteration order.
\<close>

datatype math_error = ErrAdditionOverflow | ErrMultiplicationOverflow

definition AddUint64WithErr :: "u64 \<Rightarrow> u64 \<Rightarrow> u64 \<times> math_error option" where
  "AddUint64WithErr a b =
     (let s = a + b
      in if s \<ge> a \<and> s \<ge> b then (s, None) else (s, Some ErrAdditionOverflow))"

definition AddUint64 :: "u64 \<Rightarrow> u64 \<Rightarrow> u64" where
  "AddUint64 a b =
     (let (res, err) = AddUint64WithErr a b
      in if err \<noteq> None then MaxUint64 else res)"

definition AddInt64 :: "i64 \<Rightarrow> i64 \<Rightarrow> i64" where
  "AddInt64 a b =
     (let res = a + b
      in if (sint res > sint a) = (sint b > 0) then res else MaxInt64)"

definition SubUint64 :: "u64 \<Rightarrow> u64 \<Rightarrow> u64 \<times> u64" where
  "SubUint64 a b = (if a \<ge> b then (a - b, 0) else (0, b - a))"

definition MulUint64WithErr :: "u64 \<Rightarrow> u64 \<Rightarrow> u64 \<times> math_error option" where
  "MulUint64WithErr a b =
     (let res = a * b
      in if a = 0 \<or> b = 0 \<or> a = res div b then (res, None) else (0, Some ErrMultiplicationOverflow))"

definition MulUint64 :: "u64 \<Rightarrow> u64 \<Rightarrow> u64" where
  "MulUint64 a b =
     (let (res, err) = MulUint64WithErr a b
      in if err \<noteq> None then MaxUint64 else res)"

definition AddInt32WithError :: "i32 \<Rightarrow> i32 \<Rightarrow> i32 \<times> math_error option" where
  "AddInt32WithError a b =
     (let res = a + b
      in if (sint res > sint a) = (sint b > 0) then (res, None) else (0, Some ErrAdditionOverflow))"

definition AddInt32 :: "i32 \<Rightarrow> i32 \<Rightarrow> i32" where
  "AddInt32 a b =
     (let (res, err) = AddInt32WithError a b
      in if err \<noteq> None then 0x7FFFFFFF else res)"

definition SubInt :: "i64 \<Rightarrow> i64 \<Rightarrow> i64" where
  "SubInt a b =
     (let res = a - b
      in if (sint res < sint a) = (sint b > 0) then res else 0x8000000000000000)"

subsection \<open>Unsigned operations over the naturals\<close>

lemma word_add_no_overflow_iff:
  fixes a b :: u64
  shows "a + b \<ge> a \<longleftrightarrow> unat a + unat b < 2 ^ 64"
    and "a + b \<ge> b \<longleftrightarrow> unat a + unat b < 2 ^ 64"
  using unat_u64_bound [of a] unat_u64_bound [of b]
  by (auto simp: u64_le_iff unat_word_ariths mod_if)

lemma AddUint64WithErr_iff:
  "AddUint64WithErr a b = (a + b, if unat a + unat b < 2 ^ 64 then None else Some ErrAdditionOverflow)"
  by (simp add: AddUint64WithErr_def Let_def word_add_no_overflow_iff)

lemma unat_AddUint64: "unat (AddUint64 a b) = min (unat a + unat b) (2 ^ 64 - 1)"
  by (auto simp: AddUint64_def AddUint64WithErr_iff unat_word_ariths min_def)

lemma SubUint64_fst [simp]: "unat (fst (SubUint64 a b)) = unat a - unat b"
  by (auto simp: SubUint64_def u64_le_iff unat_u64_diff)

lemma SubUint64_snd [simp]: "unat (snd (SubUint64 a b)) = unat b - unat a"
  by (auto simp: SubUint64_def u64_le_iff unat_u64_diff)

lemma SubUint64_0 [simp]: "SubUint64 a 0 = (a, 0)"
  by (simp add: SubUint64_def)

text \<open>
  The overflow test of the multiplication divides the wrapped product back: when the true
  product does not fit, the wrapped quotient is strictly smaller than the first factor.
\<close>

lemma mul_overflow_quotient:
  fixes x y M :: nat
  assumes "0 < y" "M \<le> x * y" "0 < M"
  shows "(x * y) mod M div y < x"
proof -
  have "(x * y) mod M \<le> x * y - M"
    using assms by (simp add: le_mod_geq)
  also have "\<dots> < x * y" using assms by linarith
  finally show ?thesis using assms(1) by (simp add: less_mult_imp_div_less)
qed

lemma MulUint64_test:
  fixes a b :: u64
  assumes "b \<noteq> 0"
  shows "a = a * b div b \<longleftrightarrow> unat a * unat b < 2 ^ 64"
proof -
  have y: "0 < unat b" using assms by (simp add: unat_gt_0)
  have q: "unat (a * b div b) = (unat a * unat b) mod 2 ^ 64 div unat b"
    by (simp add: unat_div_distrib unat_word_ariths)
  show ?thesis
  proof (cases "unat a * unat b < 2 ^ 64")
    case True
    then have "unat (a * b div b) = unat a" using y q by simp
    then show ?thesis using True by (metis word_unat_eq_iff)
  next
    case False
    then have "unat (a * b div b) < unat a"
      using q mul_overflow_quotient [OF y, of "2 ^ 64" "unat a"] by simp
    then show ?thesis using False by (metis less_irrefl)
  qed
qed

lemma unat_MulUint64: "unat (MulUint64 a b) = min (unat a * unat b) (2 ^ 64 - 1)"
proof (cases "b = 0")
  case True
  then show ?thesis by (simp add: MulUint64_def MulUint64WithErr_def)
next
  case False
  then show ?thesis
    by (auto simp: MulUint64_def MulUint64WithErr_def Let_def MulUint64_test unat_word_ariths min_def)
qed

subsection \<open>Saturating addition is a commutative monoid\<close>

lemma AddUint64_assoc: "AddUint64 (AddUint64 a b) c = AddUint64 a (AddUint64 b c)"
  by (rule word_unat_eq_iff [THEN iffD2]) (simp add: unat_AddUint64 min_def)

lemma AddUint64_commute: "AddUint64 a b = AddUint64 b a"
  by (rule word_unat_eq_iff [THEN iffD2]) (simp add: unat_AddUint64 add.commute)

lemma AddUint64_0_right [simp]: "AddUint64 a 0 = a"
  by (rule word_unat_eq_iff [THEN iffD2]) (use unat_u64_le [of a] in \<open>simp add: unat_AddUint64\<close>)

lemma AddUint64_0_left [simp]: "AddUint64 0 a = a"
  by (simp add: AddUint64_commute [of 0])

interpretation sat: comm_monoid_mset AddUint64 "0 :: u64"
  by unfold_locales (fact AddUint64_assoc, fact AddUint64_commute, fact AddUint64_0_right)

lemma AddUint64_ge: "a \<le> AddUint64 a b" "b \<le> AddUint64 a b"
  using unat_u64_le [of a] unat_u64_le [of b] by (simp_all add: u64_le_iff unat_AddUint64)

lemma AddUint64_mono: "a \<le> a' \<Longrightarrow> b \<le> b' \<Longrightarrow> AddUint64 a b \<le> AddUint64 a' b'"
  by (simp add: u64_le_iff unat_AddUint64)

subsection \<open>Signed operations over the integers\<close>

lemma wrap_signed:
  fixes k :: int
  assumes "- (2 ^ Suc n) \<le> k" "k < 2 ^ Suc n"
  shows "signed_take_bit n k =
    (if k < - (2 ^ n) then k + 2 ^ Suc n else if 2 ^ n \<le> k then k - 2 ^ Suc n else k)"
proof -
  consider (lo) "k < - (2 ^ n)" | (hi) "2 ^ n \<le> k" | (mid) "- (2 ^ n) \<le> k" "k < 2 ^ n" by linarith
  then have "(k + 2 ^ n) mod 2 ^ Suc n =
    (if k < - (2 ^ n) then k + 2 ^ n + 2 ^ Suc n else if 2 ^ n \<le> k then k + 2 ^ n - 2 ^ Suc n else k + 2 ^ n)"
  proof cases
    case lo
    with assms show ?thesis by (auto intro: int_mod_pos_eq [where q = "-1"])
  next
    case hi
    with assms have "(k + 2 ^ n) mod 2 ^ Suc n = k + 2 ^ n - 2 ^ Suc n"
      by (intro int_mod_pos_eq [where q = 1]) auto
    moreover have "\<not> k < - (2 ^ n)" using hi zero_less_power [of "2::int" n] by linarith
    ultimately show ?thesis using hi by simp
  next
    case mid
    then show ?thesis by (auto simp: mod_pos_pos_trivial)
  qed
  then show ?thesis
    by (simp add: signed_take_bit_eq_take_bit_shift take_bit_eq_mod)
qed

lemma sint_bounds: "- (2 ^ (LENGTH('l) - 1)) \<le> sint (x :: 'l::len word)" "sint (x :: 'l::len word) < 2 ^ (LENGTH('l) - 1)"
  using sint_ge [of x] sint_lt [of x] by simp_all

lemma sint_add32: 
  fixes a b :: i32
  shows "sint (a + b) = (if sint a + sint b < - (2 ^ 31) then sint a + sint b + 2 ^ 32
    else if 2 ^ 31 \<le> sint a + sint b then sint a + sint b - 2 ^ 32 else sint a + sint b)"
  using sint_bounds [of a] sint_bounds [of b] wrap_signed [of 31 "sint a + sint b"]
  by (simp add: sint_word_ariths)

lemma sint_add64:
  fixes a b :: i64
  shows "sint (a + b) = (if sint a + sint b < - (2 ^ 63) then sint a + sint b + 2 ^ 64
    else if 2 ^ 63 \<le> sint a + sint b then sint a + sint b - 2 ^ 64 else sint a + sint b)"
  using sint_bounds [of a] sint_bounds [of b] wrap_signed [of 63 "sint a + sint b"]
  by (simp add: sint_word_ariths)

lemma sint_sub64:
  fixes a b :: i64
  shows "sint (a - b) = (if sint a - sint b < - (2 ^ 63) then sint a - sint b + 2 ^ 64
    else if 2 ^ 63 \<le> sint a - sint b then sint a - sint b - 2 ^ 64 else sint a - sint b)"
  using sint_bounds [of a] sint_bounds [of b] wrap_signed [of 63 "sint a - sint b"]
  by (simp add: sint_word_ariths)

lemma sint_AddInt32:
  "sint (AddInt32 a b) =
    (if - (2 ^ 31) \<le> sint a + sint b \<and> sint a + sint b < 2 ^ 31 then sint a + sint b else 2 ^ 31 - 1)"
  using sint_bounds [of a] sint_bounds [of b]
  by (auto simp: AddInt32_def AddInt32WithError_def Let_def sint_add32)

lemma sint_AddInt64:
  "sint (AddInt64 a b) =
    (if - (2 ^ 63) \<le> sint a + sint b \<and> sint a + sint b < 2 ^ 63 then sint a + sint b else 2 ^ 63 - 1)"
  using sint_bounds [of a] sint_bounds [of b]
  by (auto simp: AddInt64_def Let_def sint_add64)

lemma sint_SubInt:
  "sint (SubInt a b) =
    (if - (2 ^ 63) \<le> sint a - sint b \<and> sint a - sint b < 2 ^ 63 then sint a - sint b else - (2 ^ 63))"
  using sint_bounds [of a] sint_bounds [of b]
  by (auto simp: SubInt_def Let_def sint_sub64)

lemma sint_nonneg_unat: "0 \<le> sint (x :: i64) \<Longrightarrow> unat x = nat (sint x)"
proof -
  assume a: "0 \<le> sint x"
  have b: "0 \<le> uint x" "uint x < 2 ^ 64" using unsigned_less [of x, where ?'a = int] by simp_all
  have "sint x = (if 2 ^ 63 \<le> uint x then uint x - 2 ^ 64 else uint x)"
    using wrap_signed [of 63 "uint x"] b by (simp add: sint_uint)
  with a b have "sint x = uint x" by (auto split: if_splits)
  then show ?thesis by simp
qed

subsection \<open>Properties\<close>

text \<open>The unsigned helpers saturate.  A sum or a product that does not fit into 64 bits is
  replaced by the largest 64-bit value, the error result reports exactly these cases, and a
  subtraction returns the two truncated differences.\<close>

lemma saturating_arithmetic:
  "unat (AddUint64 a b) = min (unat a + unat b) (2 ^ 64 - 1) \<and>
   unat (MulUint64 a b) = min (unat a * unat b) (2 ^ 64 - 1) \<and>
   (snd (AddUint64WithErr a b) = Some ErrAdditionOverflow \<longleftrightarrow> 2 ^ 64 \<le> unat a + unat b) \<and>
   (snd (MulUint64WithErr a b) = Some ErrMultiplicationOverflow \<longleftrightarrow> 2 ^ 64 \<le> unat a * unat b) \<and>
   unat (fst (SubUint64 a b)) = unat a - unat b \<and> unat (snd (SubUint64 a b)) = unat b - unat a"
  using MulUint64_test [of b a] unat_u64_bound [of a]
  by (cases "b = 0") (auto simp: unat_AddUint64 unat_MulUint64 AddUint64WithErr_iff MulUint64WithErr_def Let_def)

text \<open>The signed helpers are exact when the result fits, and otherwise return one fixed
  bound: an addition the largest value, whether it overflowed or underflowed, a subtraction the
  smallest.\<close>

lemma signed_arithmetic:
  "sint (AddInt32 a b) = (if - (2 ^ 31) \<le> sint a + sint b \<and> sint a + sint b < 2 ^ 31 then sint a + sint b else 2 ^ 31 - 1) \<and>
   sint (AddInt64 c d) = (if - (2 ^ 63) \<le> sint c + sint d \<and> sint c + sint d < 2 ^ 63 then sint c + sint d else 2 ^ 63 - 1) \<and>
   sint (SubInt c d) = (if - (2 ^ 63) \<le> sint c - sint d \<and> sint c - sint d < 2 ^ 63 then sint c - sint d else - (2 ^ 63))"
  by (simp only: sint_AddInt32 sint_AddInt64 sint_SubInt simp_thms)

end
