(* ===== verification/GoStd.thy ===== *)
theory GoStd
  imports Prelude
begin

text \<open>
  The parts of the Go standard library the VM calls: \<open>math/big\<close> byte conversions
  (\<open>SetBytes\<close>, \<open>Bytes\<close>, \<open>Int64\<close>, \<open>SetUint64\<close>), \<open>encoding/hex\<close> (\<open>EncodeToString\<close>),
  \<open>bytes.HasPrefix\<close> and the integer conversions, with the round trips the rest of the
  development relies on.
\<close>

subsection \<open>Integer conversions\<close>

definition uint64_of_int :: "int \<Rightarrow> u64" where
  \<comment> \<open>\<open>uint64(x.Int64())\<close>, and every narrowing conversion to 64 bits\<close>
  "uint64_of_int x = word_of_int x"

definition int64_of_uint64 :: "u64 \<Rightarrow> int" where
  \<comment> \<open>\<open>int64(x)\<close>\<close>
  "int64_of_uint64 x = sint x"

definition len :: "'a list \<Rightarrow> u64" where
  \<comment> \<open>\<open>uint64(len(xs))\<close>\<close>
  "len xs = of_nat (length xs)"

lemma uint64_int64_roundtrip [simp]: "uint64_of_int (int64_of_uint64 x) = x"
  by (simp add: uint64_of_int_def int64_of_uint64_def)

lemma unat_len: "length xs < 2 ^ 64 \<Longrightarrow> unat (len xs) = length xs"
  by (simp add: len_def unat_of_nat take_bit_nat_eq_self)

lemma sint_len: "length xs < 2 ^ 63 \<Longrightarrow> sint (len xs) = int (length xs)"
  by (simp add: len_def signed_of_nat signed_take_bit_int_eq_self)

lemma len_Nil [simp]: "len [] = 0"
  by (simp add: len_def)

subsection \<open>Decimal printing\<close>

fun nat_decimal :: "nat \<Rightarrow> string" where
  "nat_decimal n = (if n < 10 then [char_of (48 + n)] else nat_decimal (n div 10) @ [char_of (48 + n mod 10)])"

declare nat_decimal.simps [simp del]

definition decimal :: "int \<Rightarrow> string" where
  \<comment> \<open>the verb \<open>%d\<close> of \<open>fmt\<close>\<close>
  "decimal i = (if i < 0 then CHR ''-'' # nat_decimal (nat (- i)) else nat_decimal (nat i))"

subsection \<open>math/big: big-endian magnitude bytes\<close>

definition SetBytes :: "bytes \<Rightarrow> int" where
  "SetBytes bs = int (foldl (\<lambda>acc c. acc * 256 + of_char c) 0 bs)"

fun nat_bytes :: "nat \<Rightarrow> bytes" where
  "nat_bytes n = (if n = 0 then [] else nat_bytes (n div 256) @ [char_of (n mod 256)])"

declare nat_bytes.simps [simp del]

definition Bytes :: "int \<Rightarrow> bytes" where
  "Bytes x = nat_bytes (nat \<bar>x\<bar>)"

lemma nat_bytes_0 [simp]: "nat_bytes 0 = []"
  by (simp add: nat_bytes.simps)

lemma foldl_nat_bytes: "foldl (\<lambda>acc c. acc * 256 + of_char c) 0 (nat_bytes n) = n"
proof (induction n rule: nat_bytes.induct)
  case (1 n)
  then show ?case
    by (cases "n = 0") (simp_all add: nat_bytes.simps [of n] del: nat_bytes.simps)
qed

lemma SetBytes_Bytes: "SetBytes (Bytes x) = \<bar>x\<bar>"
  by (simp add: SetBytes_def Bytes_def foldl_nat_bytes)

lemma SetBytes_nonneg [simp]: "0 \<le> SetBytes bs"
  by (simp add: SetBytes_def)

lemma SetBytes_Nil [simp]: "SetBytes [] = 0"
  by (simp add: SetBytes_def)

lemma Bytes_0 [simp]: "Bytes 0 = []"
  by (simp add: Bytes_def)

text \<open>The representation is minimal: no leading zero byte.\<close>

lemma nat_bytes_Nil_iff [simp]: "nat_bytes n = [] \<longleftrightarrow> n = 0"
  by (subst nat_bytes.simps) simp

lemma hd_nat_bytes: "n \<noteq> 0 \<Longrightarrow> of_char (hd (nat_bytes n)) \<noteq> (0 :: nat)"
proof (induction n rule: nat_bytes.induct)
  case (1 n)
  show ?case
  proof (cases "n div 256 = 0")
    case True
    with 1 show ?thesis by (simp add: nat_bytes.simps [of n])
  next
    case False
    with 1 have "of_char (hd (nat_bytes (n div 256))) \<noteq> (0 :: nat)" by simp
    with False 1 show ?thesis by (simp add: nat_bytes.simps [of n] hd_append)
  qed
qed

subsection \<open>encoding/hex\<close>

definition hex_digit :: "nat \<Rightarrow> char" where
  "hex_digit n = ''0123456789abcdef'' ! n"

definition hex_byte :: "char \<Rightarrow> string" where
  "hex_byte c = [hex_digit (of_char c div 16), hex_digit (of_char c mod 16)]"

definition EncodeToString :: "bytes \<Rightarrow> string" where
  "EncodeToString bs = concat (map hex_byte bs)"

fun hex_value :: "char \<Rightarrow> nat" where
  "hex_value c = (if of_char c < (97 :: nat) then of_char c - 48 else of_char c - 87)"

fun DecodeHex :: "string \<Rightarrow> bytes" where
  "DecodeHex (a # b # cs) = char_of (16 * hex_value a + hex_value b) # DecodeHex cs"
| "DecodeHex _ = []"

lemma hex_digits_table:
  "list_all (\<lambda>n. hex_value (hex_digit n) = n \<and> hex_digit n \<noteq> CHR ''@'') [0..<16]"
  by code_simp

lemma hex_value_digit: "n < 16 \<Longrightarrow> hex_value (hex_digit n) = n"
  using hex_digits_table by (simp add: list_all_iff del: hex_value.simps)

lemma DecodeHex_EncodeToString: "DecodeHex (EncodeToString bs) = bs"
proof (induction bs)
  case Nil
  then show ?case by (simp add: EncodeToString_def)
next
  case (Cons c bs)
  have "of_char c div 16 < (16 :: nat)" by (simp add: less_mult_imp_div_less)
  then show ?case
    using Cons by (simp add: EncodeToString_def hex_byte_def hex_value_digit del: hex_value.simps)
qed

lemma EncodeToString_inject: "EncodeToString a = EncodeToString b \<longleftrightarrow> a = b"
  by (metis DecodeHex_EncodeToString)

lemma length_EncodeToString [simp]: "length (EncodeToString bs) = 2 * length bs"
  by (induction bs) (auto simp: EncodeToString_def hex_byte_def)

lemma hex_digit_not_at: "n < 16 \<Longrightarrow> hex_digit n \<noteq> CHR ''@''"
  using hex_digits_table by (simp add: list_all_iff del: hex_value.simps)

lemma EncodeToString_no_at: "CHR ''@'' \<notin> set (EncodeToString bs)"
proof (induction bs)
  case Nil
  then show ?case by (simp add: EncodeToString_def)
next
  case (Cons c bs)
  have "of_char c div 16 < (16 :: nat)" by (simp add: less_mult_imp_div_less)
  then show ?case
    using Cons hex_digit_not_at [of "of_char c div 16"] hex_digit_not_at [of "of_char c mod 16"]
    by (auto simp: EncodeToString_def hex_byte_def)
qed

subsection \<open>Call data: a function name and its hex arguments joined by at-signs\<close>

definition at_args :: "bytes list \<Rightarrow> bytes" where
  \<comment> \<open>the loop \<open>for arg := range args (data += "@" + hex.EncodeToString(arg))\<close>\<close>
  "at_args args = concat (map (\<lambda>a. CHR ''@'' # EncodeToString a) args)"

lemma at_args_Nil [simp]: "at_args [] = []"
  by (simp add: at_args_def)

lemma at_args_Cons [simp]: "at_args (a # as) = CHR ''@'' # EncodeToString a @ at_args as"
  by (simp add: at_args_def)

lemma at_args_append [simp]: "at_args (as @ bs) = at_args as @ at_args bs"
  by (simp add: at_args_def)

lemma takeWhile_at: "CHR ''@'' \<notin> set xs \<Longrightarrow> takeWhile (\<lambda>c. c \<noteq> CHR ''@'') (xs @ at_args as) = xs"
  by (cases as) (auto simp: takeWhile_tail)

lemma at_args_inject: "at_args as = at_args bs \<longleftrightarrow> as = bs"
proof (induction as arbitrary: bs)
  case Nil
  then show ?case by (cases bs) auto
next
  case (Cons a as)
  show ?case
  proof (cases bs)
    case Nil
    then show ?thesis by simp
  next
    case (Cons b bs')
    have "a = b \<and> at_args as = at_args bs'"
      if eq: "EncodeToString a @ at_args as = EncodeToString b @ at_args bs'"
    proof -
      have "EncodeToString a = EncodeToString b"
        using arg_cong [OF eq, of "takeWhile (\<lambda>c. c \<noteq> CHR ''@'')"]
        by (simp add: takeWhile_at EncodeToString_no_at)
      with eq show ?thesis by (simp add: EncodeToString_inject)
    qed
    with Cons Cons.IH show ?thesis by auto
  qed
qed

subsection \<open>bytes.HasPrefix\<close>

definition HasPrefix :: "bytes \<Rightarrow> bytes \<Rightarrow> bool" where
  "HasPrefix s p \<longleftrightarrow> length p \<le> length s \<and> take (length p) s = p"

lemma HasPrefix_iff: "HasPrefix s p \<longleftrightarrow> prefix p s"
  unfolding HasPrefix_def prefix_def by (metis append_eq_conv_conj append_take_drop_id length_append le_add1)

end
