(* ===== verification/VMTypes.thy ===== *)
theory VMTypes
  imports GoMath GoStd
begin

text \<open>
  The data of the VM: the error values of \<open>src/vmhost/errors.go\<close> with their wrapping chains,
  the enums and structs of \<open>src/vmhost/common.go\<close>, the \<open>vmcommon\<close> structs in the fields the VM
  uses, one record per context of \<open>src/vmhost/contexts/\<close>, the Wasmer instance heap, and the
  record \<open>env\<close> of everything that is not VM code (the blockchain hook, the Wasmer engine, the
  call-data parser, JSON, the epoch flags), which every operation takes as its first argument.
\<close>

subsection \<open>Errors\<close>

datatype (plugins only: code size) err =
    ErrReturnCodeNotOk | ErrInvalidCallOnReadOnlyMode | ErrNotEnoughGas
  | ErrUnhandledRuntimeBreakpoint | ErrSignalError | ErrExecutionFailed
  | ErrBadBounds | ErrBadLowerBounds | ErrBadUpperBounds | ErrNegativeLength
  | ErrFailedTransfer | ErrTransferInsufficientFunds | ErrTransferNegativeValue
  | ErrUpgradeFailed | ErrInvalidUpgradeArguments
  | ErrInvalidFunction | ErrInitFuncCalledInRun | ErrCallBackFuncCalledInRun
  | ErrCallBackFuncNotExpected | ErrFuncNotFound | ErrInvalidFunctionName | ErrFunctionNonvoidSignature
  | ErrContractInvalid | ErrContractNotFound | ErrMemoryDeclarationMissing | ErrMaxInstancesReached
  | ErrStoreReservedKey | ErrCannotWriteProtectedKey
  | ErrNonPayableFunctionRewa | ErrNonPayableFunctionDcdt
  | ErrArgIndexOutOfRange | ErrArgOutOfRange | ErrStorageValueOutOfRange
  | ErrDivZero | ErrBitwiseNegative | ErrShiftNegative
  | ErrAsyncContextDoesNotExist | ErrInvalidAccount | ErrDeploymentOverExistingAccount
  | ErrAccountNotPayable | ErrInvalidPublicKeySize | ErrNilCallbackFunction
  | ErrUpgradeNotAllowed | ErrNilContract | ErrBuiltinCallOnSameContextDisallowed
  | ErrSyncExecutionNotInSameShard | ErrInputAndOutputGasDoesNotMatch | ErrTransferValueOnDCDTCall
  | ErrNilEnableEpochsHandler
  | ErrMath math_error               \<comment> \<open>\<open>math.ErrAdditionOverflow\<close>, \<open>math.ErrMultiplicationOverflow\<close>\<close>
  | ErrWithPrefix string err         \<comment> \<open>\<open>fmt.Errorf("...: %w", err)\<close>\<close>
  | ErrWithSuffix err string         \<comment> \<open>\<open>fmt.Errorf("%w: %s", err, name)\<close>\<close>
  | ErrPlain string                  \<comment> \<open>\<open>errors.New(message)\<close>\<close>
  | ErrExternal string               \<comment> \<open>an error value made outside the VM\<close>

text \<open>What \<open>errors.Unwrap\<close> returns: the \<open>%w\<close> operand the error was built from.\<close>

definition Unwrap :: "err \<Rightarrow> err option" where
  "Unwrap e = (case e of
      ErrBadLowerBounds \<Rightarrow> Some ErrBadBounds
    | ErrBadUpperBounds \<Rightarrow> Some ErrBadBounds
    | ErrTransferInsufficientFunds \<Rightarrow> Some ErrFailedTransfer
    | ErrTransferNegativeValue \<Rightarrow> Some ErrFailedTransfer
    | ErrInvalidUpgradeArguments \<Rightarrow> Some ErrUpgradeFailed
    | ErrInitFuncCalledInRun \<Rightarrow> Some ErrInvalidFunction
    | ErrCallBackFuncCalledInRun \<Rightarrow> Some ErrInvalidFunction
    | ErrCallBackFuncNotExpected \<Rightarrow> Some ErrInvalidFunction
    | ErrFuncNotFound \<Rightarrow> Some ErrInvalidFunction
    | ErrInvalidFunctionName \<Rightarrow> Some ErrInvalidFunction
    | ErrFunctionNonvoidSignature \<Rightarrow> Some ErrInvalidFunction
    | ErrContractNotFound \<Rightarrow> Some ErrContractInvalid
    | ErrMemoryDeclarationMissing \<Rightarrow> Some ErrContractInvalid
    | ErrMaxInstancesReached \<Rightarrow> Some ErrExecutionFailed
    | ErrWithPrefix _ e \<Rightarrow> Some e
    | ErrWithSuffix e _ \<Rightarrow> Some e
    | _ \<Rightarrow> None)"

text \<open>\<open>errors.Is\<close> walks the chain; a static error unwraps at most once.\<close>

fun errorsIs :: "err \<Rightarrow> err \<Rightarrow> bool" where
  "errorsIs e t \<longleftrightarrow> e = t \<or>
     (case e of ErrWithPrefix _ e' \<Rightarrow> errorsIs e' t
      | ErrWithSuffix e' _ \<Rightarrow> errorsIs e' t
      | _ \<Rightarrow> Unwrap e = Some t)"

primrec Error :: "err \<Rightarrow> string" where
  "Error ErrReturnCodeNotOk = ''return code is not ok''"
| "Error ErrInvalidCallOnReadOnlyMode = ''operation not permitted in read only mode''"
| "Error ErrNotEnoughGas = ''not enough gas''"
| "Error ErrUnhandledRuntimeBreakpoint = ''unhandled runtime breakpoint''"
| "Error ErrSignalError = ''error signalled by smartcontract''"
| "Error ErrExecutionFailed = ''execution failed''"
| "Error ErrBadBounds = ''bad bounds''"
| "Error ErrBadLowerBounds = ''bad bounds (lower)''"
| "Error ErrBadUpperBounds = ''bad bounds (upper)''"
| "Error ErrNegativeLength = ''negative length''"
| "Error ErrFailedTransfer = ''failed transfer''"
| "Error ErrTransferInsufficientFunds = ''failed transfer (insufficient funds)''"
| "Error ErrTransferNegativeValue = ''failed transfer (negative value)''"
| "Error ErrUpgradeFailed = ''upgrade failed''"
| "Error ErrInvalidUpgradeArguments = ''upgrade failed (invalid arguments)''"
| "Error ErrInvalidFunction = ''invalid function''"
| "Error ErrInitFuncCalledInRun = ''invalid function (calling init() directly is forbidden)''"
| "Error ErrCallBackFuncCalledInRun = ''invalid function (calling callBack() directly is forbidden)''"
| "Error ErrCallBackFuncNotExpected = ''invalid function (unexpected callback was received)''"
| "Error ErrFuncNotFound = ''invalid function (not found)''"
| "Error ErrInvalidFunctionName = ''invalid function (invalid name)''"
| "Error ErrFunctionNonvoidSignature = ''invalid function (nonvoid signature)''"
| "Error ErrContractInvalid = ''invalid contract code''"
| "Error ErrContractNotFound = ''invalid contract code (not found)''"
| "Error ErrMemoryDeclarationMissing = ''invalid contract code (missing memory declaration)''"
| "Error ErrMaxInstancesReached = ''execution failed (max instances reached)''"
| "Error ErrStoreReservedKey = ''cannot write to storage under reserved key''"
| "Error ErrCannotWriteProtectedKey = ''cannot write to protected key''"
| "Error ErrNonPayableFunctionRewa = ''function does not accept REWA payment''"
| "Error ErrNonPayableFunctionDcdt = ''function does not accept DCDT payment''"
| "Error ErrArgIndexOutOfRange = ''argument index out of range''"
| "Error ErrArgOutOfRange = ''argument out of range''"
| "Error ErrStorageValueOutOfRange = ''storage value out of range''"
| "Error ErrDivZero = ''division by 0''"
| "Error ErrBitwiseNegative = ''bitwise operations only allowed on positive integers''"
| "Error ErrShiftNegative = ''bitwise shift operations only allowed on positive integers and by a positive amount''"
| "Error ErrAsyncContextDoesNotExist = ''async context does not exist''"
| "Error ErrInvalidAccount = ''account does not exist''"
| "Error ErrDeploymentOverExistingAccount = ''cannot deploy over existing account''"
| "Error ErrAccountNotPayable = ''sending value to non payable contract''"
| "Error ErrInvalidPublicKeySize = ''invalid public key size''"
| "Error ErrNilCallbackFunction = ''nil callback function''"
| "Error ErrUpgradeNotAllowed = ''upgrade not allowed''"
| "Error ErrNilContract = ''nil contract''"
| "Error ErrBuiltinCallOnSameContextDisallowed = ''calling built-in function on the same context is disallowed''"
| "Error ErrSyncExecutionNotInSameShard = ''sync execution request is not in the same shard''"
| "Error ErrInputAndOutputGasDoesNotMatch = ''input and output gas does not match''"
| "Error ErrTransferValueOnDCDTCall = ''transfer value on dcdt call''"
| "Error ErrNilEnableEpochsHandler = ''nil enable epochs handler''"
| "Error (ErrMath m) = (case m of ErrAdditionOverflow \<Rightarrow> ''addition overflow''
                                | ErrMultiplicationOverflow \<Rightarrow> ''multiplication overflow'')"
| "Error (ErrWithPrefix p e) = p @ Error e"
| "Error (ErrWithSuffix e p) = Error e @ '': '' @ p"
| "Error (ErrPlain m) = m"
| "Error (ErrExternal m) = m"

subsection \<open>Enums\<close>

datatype ReturnCodeT = Ok | FunctionNotFound | FunctionWrongSignature | ContractNotFound
  | UserError | OutOfGas | OutOfFunds | ContractInvalid | ExecutionFailed | UpgradeFailed
  | OtherCode nat \<comment> \<open>the codes of \<open>vmcommon\<close> that the VM itself never sets\<close>

datatype CallTypeT = DirectCall | AsynchronousCall | AsynchronousCallBack | DCDTTransferAndExecute

datatype BreakpointValue = BreakpointNone | BreakpointExecutionFailed | BreakpointAsyncCall
  | BreakpointSignalError | BreakpointOutOfGas | BreakpointOther u64

datatype AsyncCallExecutionMode = SyncCall | AsyncBuiltinFuncIntraShard | AsyncBuiltinFuncCrossShard
  | DCDTTransferOnCallBack | AsyncUnknown

datatype AsyncCallStatus = AsyncCallPending | AsyncCallResolved | AsyncCallRejected

datatype StorageStatus = StorageUnchanged | StorageModified | StorageAdded | StorageDeleted

text \<open>The numeric value of a breakpoint, as Wasmer stores it, and back.\<close>

fun breakpoint_to_u64 :: "BreakpointValue \<Rightarrow> u64" where
  "breakpoint_to_u64 BreakpointNone = 0"
| "breakpoint_to_u64 BreakpointExecutionFailed = 1"
| "breakpoint_to_u64 BreakpointAsyncCall = 2"
| "breakpoint_to_u64 BreakpointSignalError = 3"
| "breakpoint_to_u64 BreakpointOutOfGas = 4"
| "breakpoint_to_u64 (BreakpointOther n) = n"

definition breakpoint_of_u64 :: "u64 \<Rightarrow> BreakpointValue" where
  "breakpoint_of_u64 n =
     (if n = 0 then BreakpointNone else if n = 1 then BreakpointExecutionFailed
      else if n = 2 then BreakpointAsyncCall else if n = 3 then BreakpointSignalError
      else if n = 4 then BreakpointOutOfGas else BreakpointOther n)"

definition AddressLen :: nat where "AddressLen = 32"
definition HashLen :: nat where "HashLen = 32"
definition BalanceLen :: nat where "BalanceLen = 32"
definition CodeMetadataLen :: nat where "CodeMetadataLen = 2"
definition CallbackFunctionName :: string where "CallbackFunctionName = ''callBack''"
definition InitFunctionName :: string where "InitFunctionName = ''init''"
definition InitFunctionNameEth :: string where "InitFunctionNameEth = ''solidity.ctor''"
definition UpgradeFunctionName :: string where "UpgradeFunctionName = ''upgradeContract''"
definition ProtectedStoragePrefix :: string where "ProtectedStoragePrefix = ''ANDES@''"
definition TimeLockKeyPrefix :: string where "TimeLockKeyPrefix = ProtectedStoragePrefix @ ''TIMELOCK''"
definition AsyncDataPrefix :: string where "AsyncDataPrefix = ProtectedStoragePrefix @ ''ASYNC''"

subsection \<open>Inputs and outputs\<close>

record DCDTTransfer =
  DCDTValue :: bigint
  DCDTTokenName :: bytes
  DCDTTokenType :: u32
  DCDTTokenNonce :: u64

record VMInput =
  CallerAddr :: address
  Arguments :: "bytes list"
  CallValue :: bigint
  CallType :: CallTypeT
  GasPrice :: u64
  GasProvided :: u64
  GasLocked :: u64
  OriginalTxHash :: bytes
  CurrentTxHash :: bytes
  PrevTxHash :: bytes
  DCDTTransfers :: "DCDTTransfer list"

record ContractCallInput =
  cci_VMInput :: VMInput
  RecipientAddr :: address
  Function :: string
  AllowInitFunction :: bool

record ContractCreateInput =
  cri_VMInput :: VMInput
  cri_ContractCode :: bytes
  cri_ContractCodeMetadata :: bytes

record CodeDeployInput =
  ContractCode :: bytes
  ContractCodeMetadata :: bytes
  ContractAddress :: address
  CodeDeployer :: address

record OutputTransfer =
  ot_Value :: bigint
  ot_GasLimit :: u64
  ot_GasLocked :: u64
  ot_Data :: bytes
  ot_CallType :: CallTypeT
  ot_SenderAddress :: address

record StorageUpdate =
  su_Offset :: bytes
  su_Data :: bytes

record LogEntry =
  le_Identifier :: bytes
  le_Address :: address
  le_Topics :: "bytes list"
  le_Data :: "bytes list"

record OutputAccount =
  Address :: address
  Nonce :: u64
  Balance :: bigint
  BalanceDelta :: bigint
  StorageUpdates :: "(bytes, StorageUpdate) gomap"
  Code :: bytes
  CodeMetadata :: bytes
  CodeDeployerAddress :: "address option"
  OutputTransfers :: "OutputTransfer list"
  GasUsed :: u64

record VMOutput =
  ReturnData :: "bytes list"
  ReturnCode :: ReturnCodeT
  ReturnMessage :: string
  GasRemaining :: u64
  GasRefund :: bigint
  OutputAccounts :: "(address, OutputAccount) gomap"
  DeletedAccounts :: "address list"
  TouchedAccounts :: "address list"
  Logs :: "LogEntry list"

subsection \<open>Asynchronous calls\<close>

record AsyncCallInfo =
  aci_Destination :: address
  aci_Data :: bytes
  aci_GasLimit :: u64
  aci_GasLocked :: u64
  aci_ValueBytes :: bytes

record AsyncGeneratedCall =
  Status :: AsyncCallStatus
  Destination :: address
  agc_Data :: bytes
  GasLimit :: u64
  ValueBytes :: bytes
  SuccessCallback :: string
  ErrorCallback :: string
  ProvidedGas :: u64

record AsyncContext =
  Callback :: string
  AsyncCalls :: "AsyncGeneratedCall list"

record AsyncContextInfo =
  aci_CallerAddr :: address
  aci_ReturnData :: bytes
  AsyncContextMap :: "(string, AsyncContext) gomap"

subsection \<open>Gas schedule (the fields the modelled operations read)\<close>

record BaseOperationCost =
  StorePerByte :: u64
  ReleasePerByte :: u64
  DataCopyPerByte :: u64
  PersistPerByte :: u64
  CompilePerByte :: u64
  AoTPreparePerByte :: u64
  GetCodeCost :: u64

record GasCost =
  baseOperationCost :: BaseOperationCost
  AsyncCallStep :: u64
  AsyncCallbackGasLock :: u64
  CreateContract :: u64
  apiCost :: "string \<Rightarrow> u64" \<comment> \<open>the per-call cost of an API function, by its section and field\<close>

subsection \<open>Wasmer instances\<close>

record instance_t =
  inst_code :: bytes                                \<comment> \<open>the bytecode the instance was made from\<close>
  inst_points :: u64
  inst_breakpoint :: u64
  inst_gasLimit :: u64
  inst_memory :: "bytes option"                     \<comment> \<open>None: no exported memory\<close>
  inst_exports :: "string list"
  inst_signatures :: "(string, nat \<times> nat) gomap"   \<comment> \<open>input and output arity\<close>
  inst_imports :: "string list"
  inst_cleaned :: bool

type_synonym inst_ref = nat

subsection \<open>The contexts\<close>

record bigIntContext =
  bi_values :: "(i32, int) gomap"
  bigInt_stateStack :: "(i32, int) gomap list"

record outputContext =
  outputState :: VMOutput
  output_stateStack :: "VMOutput list"
  codeUpdates :: "address set"

record contractGasState =
  forwarded :: u64
  returned :: u64

record meteringState =
  ms_initialGasProvided :: u64
  ms_initialCost :: u64
  ms_gasForExecution :: u64

record meteringContext =
  metering_stateStack :: "meteringState list"
  gasSchedule :: GasCost
  blockGasLimit :: u64
  initialGasProvided :: u64
  initialCost :: u64
  gasForExecution :: u64
  gasStates :: "(address, contractGasState) gomap"
  totalUsedGas :: u64

record storageContext =
  st_address :: address
  storage_stateStack :: "address list"
  ProtectedKeyPrefix :: bytes
  vmStorageProtectionEnabled :: bool

record runtimeState =
  rs_vmInput :: VMInput
  rs_scAddress :: address
  rs_callFunction :: string
  rs_readOnly :: bool
  rs_asyncCallInfo :: "AsyncCallInfo option"
  rs_asyncContextInfo :: AsyncContextInfo

record runtimeContext =
  inst :: "inst_ref option"
  vmInput :: VMInput
  scAddress :: address
  codeSize :: u64
  callFunction :: string
  vmType :: bytes
  readOnly :: bool
  verifyCode :: bool
  runtime_stateStack :: "runtimeState list"
  instanceStack :: "inst_ref option list"
  maxWasmerInstances :: u64
  asyncCallInfo :: "AsyncCallInfo option"
  asyncContextInfo :: AsyncContextInfo
  reserved :: "string set"
  useWarmInstance :: bool
  warmInstanceAddress :: "address option"
  warmInstance :: "inst_ref option"

text \<open>What the VM has told the node so far, in order; the node's answers depend on it.\<close>

datatype hookEvent = BuiltInCall ContractCallInput | AddressRequested address u64 bytes | CompiledCodeSaved bytes bytes | CompiledCodesCleared

record vm =
  bigIntCtx :: bigIntContext
  outputCtx :: outputContext
  meteringCtx :: meteringContext
  runtimeCtx :: runtimeContext
  storageCtx :: storageContext
  instances :: "inst_ref \<Rightarrow> instance_t"
  nextInstance :: inst_ref
  hookLog :: "hookEvent list"

subsection \<open>What is outside the VM\<close>

record userAccount =
  ua_Balance :: int
  ua_Nonce :: u64
  ua_CodeHash :: bytes
  ua_CodeMetadata :: bytes
  ua_OwnerAddress :: address
  ua_Address :: address
  ua_RootHash :: bytes
  ua_DeveloperReward :: int
  ua_UserName :: bytes

record MetaData =
  md_Name :: bytes
  md_Creator :: bytes
  md_Royalties :: u32
  md_Hash :: bytes
  md_URIs :: "bytes list"
  md_Attributes :: bytes

record DCDigitalToken =
  dt_Value :: bigint
  dt_Properties :: bytes
  dt_TokenMetaData :: "MetaData option"

record env =
  \<comment> \<open>epoch flags and the names of the protocol's built-in functions\<close>
  IsFlagEnabled :: "string \<Rightarrow> bool"
  protocolBuiltinFunctions :: "string set"
  \<comment> \<open>blockchain hook\<close>
  hook_GetUserAccount :: "hookEvent list \<Rightarrow> address \<Rightarrow> err + userAccount option"
  hook_GetCode :: "userAccount \<Rightarrow> bytes"
  hook_GetStorageData :: "hookEvent list \<Rightarrow> address \<Rightarrow> bytes \<Rightarrow> bytes"
  hook_NewAddress :: "address \<Rightarrow> u64 \<Rightarrow> bytes \<Rightarrow> err + address"
  hook_GetShardOfAddress :: "address \<Rightarrow> u32"
  hook_IsSmartContract :: "address \<Rightarrow> bool"
  hook_IsPayable :: "hookEvent list \<Rightarrow> address \<Rightarrow> err + bool"
  hook_GetBlockhash :: "u64 \<Rightarrow> err + bytes"
  hook_GetDCDTToken :: "hookEvent list \<Rightarrow> address \<Rightarrow> bytes \<Rightarrow> u64 \<Rightarrow> err + DCDigitalToken option"
  hook_CurrentTimeStamp :: u64
  hook_CurrentNonce :: u64
  hook_CurrentRound :: u64
  hook_CurrentEpoch :: u32
  hook_CurrentRandomSeed :: bytes
  hook_LastTimeStamp :: u64
  hook_LastNonce :: u64
  hook_LastRound :: u64
  hook_LastEpoch :: u32
  hook_LastRandomSeed :: bytes
  hook_GetStateRootHash :: bytes
  hook_GetCompiledCode :: "hookEvent list \<Rightarrow> bytes \<Rightarrow> bytes option"
  hook_ProcessBuiltInFunction :: "hookEvent list \<Rightarrow> ContractCallInput \<Rightarrow> err option \<times> VMOutput option"
  metadata_Upgradeable :: "bytes \<Rightarrow> bool"
  metadata_Readable :: "bytes \<Rightarrow> bool"
  \<comment> \<open>constants and codecs of the core and vm-common packages\<close>
  BuiltInFunctionDCDTTransfer :: string
  BuiltInFunctionDCDTNFTTransfer :: string
  MinLenArgumentsDCDTTransfer :: nat
  MinLenArgumentsDCDTNFTTransfer :: nat
  Fungible :: u32
  NonFungible :: u32
  core_ProtectedKeyPrefix :: string
  DCDTNFTLatestNonceIdentifier :: string
  ReturnCode_int :: "ReturnCodeT \<Rightarrow> int"
  ReturnCode_String :: "ReturnCodeT \<Rightarrow> string"
  ParseData :: "bytes \<Rightarrow> err + string \<times> bytes list"
  json_Marshal :: "AsyncContextInfo \<Rightarrow> err + bytes"
  json_Unmarshal :: "bytes \<Rightarrow> err + AsyncContextInfo"
  twos_ToBytes :: "int \<Rightarrow> bytes"
  twos_SetBytes :: "bytes \<Rightarrow> int"
  \<comment> \<open>hashing and signatures\<close>
  Sha256 :: "bytes \<Rightarrow> err + bytes"
  Keccak256 :: "bytes \<Rightarrow> err + bytes"
  Ripemd160 :: "bytes \<Rightarrow> err + bytes"
  VerifyBLS :: "bytes \<Rightarrow> bytes \<Rightarrow> bytes \<Rightarrow> err option"
  VerifyEd25519 :: "bytes \<Rightarrow> bytes \<Rightarrow> bytes \<Rightarrow> err option"
  VerifySecp256k1 :: "bytes \<Rightarrow> bytes \<Rightarrow> bytes \<Rightarrow> err option"
  \<comment> \<open>Wasmer\<close>
  wasmer_NewInstance :: "bytes \<Rightarrow> u64 \<Rightarrow> err + instance_t"
  wasmer_NewInstanceFromCompiled :: "bytes \<Rightarrow> u64 \<Rightarrow> err + instance_t"
  wasmer_Cache :: "instance_t \<Rightarrow> err + bytes"
  wasmer_Grow :: "bytes \<Rightarrow> err + bytes"

subsection \<open>Host accessors shared by the contexts\<close>

definition IsVMV2Enabled :: "env \<Rightarrow> bool" where
  "IsVMV2Enabled e = IsFlagEnabled e ''SCDeployFlag''"

definition IsVMV3Enabled :: "env \<Rightarrow> bool" where
  "IsVMV3Enabled e = IsFlagEnabled e ''RepairCallbackFlag''"

definition IsAheadOfTimeCompileEnabled :: "env \<Rightarrow> bool" where
  "IsAheadOfTimeCompileEnabled e = IsFlagEnabled e ''AheadOfTimeGasUsageFlag''"

definition IsDynamicGasLockingEnabled :: "env \<Rightarrow> bool" where
  "IsDynamicGasLockingEnabled e = IsFlagEnabled e ''SCDeployFlag''"

definition IsDCDTFunctionsEnabled :: "env \<Rightarrow> bool" where
  "IsDCDTFunctionsEnabled e = IsFlagEnabled e ''BuiltInFunctionsFlag''"

definition IsBuiltinFunctionName :: "env \<Rightarrow> string \<Rightarrow> bool" where
  "IsBuiltinFunctionName e f \<longleftrightarrow> f \<in> protocolBuiltinFunctions e"

definition AreInSameShard :: "env \<Rightarrow> address \<Rightarrow> address \<Rightarrow> bool" where
  "AreInSameShard e l r \<longleftrightarrow> hook_GetShardOfAddress e l = hook_GetShardOfAddress e r"

lemma breakpoint_roundtrip [simp]: "breakpoint_to_u64 (breakpoint_of_u64 n) = n"
  by (simp add: breakpoint_of_u64_def)

end
