(* ===== verification/SampleState.thy ===== *)
theory SampleState
  imports VMTypes
begin

text \<open>
  A small concrete world, on which the properties of the development are exercised: a node with
  two user accounts and a contract, and a host in the middle of a call to that contract, with
  one running instance.
\<close>

definition sampleAccount :: userAccount where
  "sampleAccount = \<lparr>ua_Balance = 100, ua_Nonce = 3, ua_CodeHash = ''hash'', ua_CodeMetadata = ''m'',
     ua_OwnerAddress = ''alice'', ua_Address = ''account'', ua_RootHash = [], ua_DeveloperReward = 0, ua_UserName = []\<rparr>"

definition sampleInstance :: instance_t where
  "sampleInstance = \<lparr>inst_code = ''code'', inst_points = 10, inst_breakpoint = 0, inst_gasLimit = 1000,
     inst_memory = Some ''abcdefgh'', inst_exports = [''init'', ''get'', ''callBack''],
     inst_signatures = [(''init'', (0, 0)), (''get'', (0, 0)), (''callBack'', (0, 0))],
     inst_imports = [''finish''], inst_cleaned = False\<rparr>"

definition sampleEnv :: env where
  "sampleEnv = \<lparr>IsFlagEnabled = (\<lambda>_. True), protocolBuiltinFunctions = {''DCDTTransfer'', ''ClaimRewards''},
     hook_GetUserAccount = (\<lambda>_ a. if a = ''nobody'' then Inr None else Inr (Some sampleAccount)),
     hook_GetCode = (\<lambda>_. ''code''),
     hook_GetStorageData = (\<lambda>_ a k. if k = ''counter'' then ''1'' else []),
     hook_NewAddress = (\<lambda>creator nonce _. Inr (creator @ ''-new'')),
     hook_GetShardOfAddress = (\<lambda>_. 0),
     hook_IsSmartContract = (\<lambda>a. a = ''contract''),
     hook_IsPayable = (\<lambda>_ _. Inr True),
     hook_GetBlockhash = (\<lambda>_. Inr ''block''),
     hook_GetDCDTToken = (\<lambda>_ a t n. if t = ''TOK'' then Inr (Some \<lparr>dt_Value = Some 42, dt_Properties = [], dt_TokenMetaData = None\<rparr>)
       else Inl (ErrExternal ''token'')),
     hook_CurrentTimeStamp = 5000, hook_CurrentNonce = 77, hook_CurrentRound = 80, hook_CurrentEpoch = 2,
     hook_CurrentRandomSeed = ''seed'', hook_LastTimeStamp = 4994, hook_LastNonce = 76, hook_LastRound = 79,
     hook_LastEpoch = 2, hook_LastRandomSeed = ''dees'', hook_GetStateRootHash = ''root'',
     hook_GetCompiledCode = (\<lambda>_ _. None),
     hook_ProcessBuiltInFunction = (\<lambda>_ _. (Some (ErrExternal ''built-in''), None)),
     metadata_Upgradeable = (\<lambda>_. True), metadata_Readable = (\<lambda>_. True),
     BuiltInFunctionDCDTTransfer = ''DCDTTransfer'', BuiltInFunctionDCDTNFTTransfer = ''DCDTNFTTransfer'',
     MinLenArgumentsDCDTTransfer = 2, MinLenArgumentsDCDTNFTTransfer = 4, Fungible = 0, NonFungible = 1,
     core_ProtectedKeyPrefix = ''NUMBAT'', DCDTNFTLatestNonceIdentifier = ''nonce'',
     ReturnCode_int = (\<lambda>c. if c = Ok then 0 else 4), ReturnCode_String = (\<lambda>c. if c = Ok then ''ok'' else ''user error''),
     ParseData = (\<lambda>d. Inr (d, [])),
     json_Marshal = (\<lambda>_. Inr ''json''), json_Unmarshal = (\<lambda>_. Inl (ErrExternal ''json'')),
     twos_ToBytes = (\<lambda>x. (if 0 \<le> x then CHR 0x00 else CHR 0x01) # Bytes x),
     twos_SetBytes = (\<lambda>b. case b of [] \<Rightarrow> 0 | c # cs \<Rightarrow> if c = CHR 0x01 then - SetBytes cs else SetBytes cs),
     Sha256 = (\<lambda>b. Inr b), Keccak256 = (\<lambda>b. Inr (rev b)), Ripemd160 = (\<lambda>b. Inr (take 20 b)),
     VerifyBLS = (\<lambda>k m g. if g = m then None else Some (ErrExternal ''bls'')),
     VerifyEd25519 = (\<lambda>k m g. if g = m then None else Some (ErrExternal ''ed25519'')),
     VerifySecp256k1 = (\<lambda>k m g. if g = m then None else Some (ErrExternal ''secp256k1'')),
     wasmer_NewInstance = (\<lambda>c g. Inr (sampleInstance\<lparr>inst_code := c, inst_points := 0, inst_gasLimit := g\<rparr>)),
     wasmer_NewInstanceFromCompiled = (\<lambda>c g. Inl (ErrExternal ''cache'')),
     wasmer_Cache = (\<lambda>i. Inr (inst_code i)),
     wasmer_Grow = (\<lambda>m. if length m < 100 then Inr (m @ replicate 8 (CHR 0x00)) else Inl (ErrExternal ''grow''))\<rparr>"

definition sampleInput :: VMInput where
  "sampleInput = \<lparr>CallerAddr = ''alice'', Arguments = [''x''], CallValue = Some 5, CallType = DirectCall,
     GasPrice = 1, GasProvided = 1000, GasLocked = 0, OriginalTxHash = ''tx'', CurrentTxHash = ''tx'',
     PrevTxHash = [], DCDTTransfers = []\<rparr>"

definition sampleCosts :: GasCost where
  "sampleCosts = \<lparr>baseOperationCost = \<lparr>StorePerByte = 4, ReleasePerByte = 2, DataCopyPerByte = 1, PersistPerByte = 3,
       CompilePerByte = 2, AoTPreparePerByte = 1, GetCodeCost = 7\<rparr>,
     AsyncCallStep = 20, AsyncCallbackGasLock = 30, CreateContract = 40, apiCost = (\<lambda>_. 1)\<rparr>"

definition sampleOutput :: VMOutput where
  "sampleOutput = \<lparr>ReturnData = [], ReturnCode = Ok, ReturnMessage = [], GasRemaining = 0, GasRefund = Some 0,
     OutputAccounts = [], DeletedAccounts = [], TouchedAccounts = [], Logs = []\<rparr>"

definition sampleVM :: vm where
  "sampleVM = \<lparr>bigIntCtx = \<lparr>bi_values = [(0, 7)], bigInt_stateStack = []\<rparr>,
     outputCtx = \<lparr>outputState = sampleOutput, output_stateStack = [], codeUpdates = {}\<rparr>,
     meteringCtx = \<lparr>metering_stateStack = [], gasSchedule = sampleCosts, blockGasLimit = 10000,
       initialGasProvided = 1000, initialCost = 11, gasForExecution = 989, gasStates = [], totalUsedGas = 0\<rparr>,
     runtimeCtx = \<lparr>inst = Some 0, vmInput = sampleInput, scAddress = ''contract'', codeSize = 4,
       callFunction = ''get'', vmType = ''vm'', readOnly = False, verifyCode = False, runtime_stateStack = [],
       instanceStack = [], maxWasmerInstances = 10, asyncCallInfo = None,
       asyncContextInfo = \<lparr>aci_CallerAddr = ''alice'', aci_ReturnData = [], AsyncContextMap = []\<rparr>,
       reserved = {''upgradeContract''}, useWarmInstance = False, warmInstanceAddress = None, warmInstance = None\<rparr>,
     storageCtx = \<lparr>st_address = ''contract'', storage_stateStack = [], ProtectedKeyPrefix = ''NUMBAT'',
       vmStorageProtectionEnabled = True\<rparr>,
     instances = (\<lambda>_. sampleInstance), nextInstance = 1, hookLog = []\<rparr>"

lemmas sample_defs = sampleVM_def sampleOutput_def sampleCosts_def sampleInput_def sampleEnv_def
  sampleInstance_def sampleAccount_def

end
