(* ===== verification/StateStack.thy ===== *)
theory StateStack
  imports Prelude
begin

text \<open>
  The interface \<open>StateStack\<close> of \<open>src/vmhost/interface.go\<close>, which five contexts of the VM
  implement: a saved part of the state (\<open>view\<close>) that \<open>PushState\<close> copies on a stack, that
  \<open>PopSetActiveState\<close> restores, and that \<open>PopDiscard\<close> forgets.  The host relies on it to run
  a nested contract call and to undo it.  The laws are the locale's assumptions; each context
  interprets the locale on its own operations.
\<close>

locale state_stack =
  fixes push :: "'s \<Rightarrow> 's" and popset :: "'s \<Rightarrow> 's" and discard :: "'s \<Rightarrow> 's" and clear :: "'s \<Rightarrow> 's"
    and view :: "'s \<Rightarrow> 'v" and stack :: "'s \<Rightarrow> 'v list" and inv :: "'s \<Rightarrow> bool"
  assumes stack_push: "inv s \<Longrightarrow> stack (push s) = view s # stack s"
    and view_push: "inv s \<Longrightarrow> view (push s) = view s"
    and stack_popset: "stack (popset s) = tl (stack s)"
    and view_popset: "inv s \<Longrightarrow> stack s \<noteq> [] \<Longrightarrow> view (popset s) = hd (stack s)"
    and popset_empty: "stack s = [] \<Longrightarrow> popset s = s"
    and stack_discard: "stack (discard s) = tl (stack s)"
    and view_discard: "view (discard s) = view s"
    and stack_clear: "stack (clear s) = []"
    and view_clear: "view (clear s) = view s"
    and inv_push: "inv s \<Longrightarrow> inv (push s)"
    and inv_popset: "inv s \<Longrightarrow> inv (popset s)"
    and inv_discard: "inv s \<Longrightarrow> inv (discard s)"
begin

lemmas stack_simps = stack_push view_push stack_popset view_popset stack_discard view_discard
  stack_clear view_clear

text \<open>Whatever runs between a push and the pop, the pop restores the view and the stack,
  provided the run leaves the stack as it found it.\<close>

lemma push_body_popset:
  assumes "inv s" "inv t" "stack t = stack (push s)"
  shows "view (popset t) = view s" "stack (popset t) = stack s"
  using assms by (simp_all add: stack_simps)

lemma push_body_discard:
  assumes "inv s" "stack t = stack (push s)"
  shows "view (discard t) = view t" "stack (discard t) = stack s"
  using assms by (simp_all add: stack_simps)

text \<open>Well-bracketed runs: what the host does with a context during nested calls.\<close>

inductive balanced :: "('s \<Rightarrow> 's) \<Rightarrow> bool" where
  act: "(\<And>s. inv s \<Longrightarrow> inv (f s) \<and> stack (f s) = stack s) \<Longrightarrow> balanced f"
| seq: "balanced f \<Longrightarrow> balanced g \<Longrightarrow> balanced (\<lambda>s. g (f s))"
| undone: "balanced f \<Longrightarrow> balanced (\<lambda>s. popset (f (push s)))"
| kept: "balanced f \<Longrightarrow> balanced (\<lambda>s. discard (f (push s)))"

lemma balanced_keeps_stack:
  "balanced f \<Longrightarrow> inv s \<Longrightarrow> stack (f s) = stack s \<and> inv (f s)"
proof (induction arbitrary: s rule: balanced.induct)
  case (undone f)
  then show ?case by (simp add: stack_simps inv_push inv_popset)
next
  case (kept f)
  then show ?case by (simp add: stack_simps inv_push inv_discard)
qed simp_all

lemma balanced_undone_restores:
  assumes "balanced f" "inv s"
  shows "view (popset (f (push s))) = view s"
  using assms by (simp add: push_body_popset balanced_keeps_stack inv_push)

end

end
