(* ===== verification/OutputContext.thy ===== *)
theory OutputContext
  imports SampleState StateStack
begin

text \<open>
  \<open>src/vmhost/contexts/output.go\<close>, the part that works on the output state alone: the output
  accounts, the state stack and the merging of outputs, the return data, the logs, error
  outputs and the gas total.  Transfers and the final \<open>GetVMOutput\<close>, which call the other
  contexts, are in the theory \<open>OutputTransfers\<close>.

  An account pointer obtained from \<open>GetOutputAccount\<close> is written through by updating the map
  at its address (\<open>setAccount\<close>); every account is reachable under one key only.
\<close>

subsection \<open>Construction\<close>

definition newVMOutput :: VMOutput where
  "newVMOutput = \<lparr>ReturnData = [], ReturnCode = Ok, ReturnMessage = [], GasRemaining = 0,
     GasRefund = Some 0, OutputAccounts = [], DeletedAccounts = [], TouchedAccounts = [], Logs = []\<rparr>"

definition NewVMOutputAccount :: "address \<Rightarrow> OutputAccount" where
  "NewVMOutputAccount a = \<lparr>Address = a, Nonce = 0, Balance = None, BalanceDelta = Some 0,
     StorageUpdates = [], Code = [], CodeMetadata = [], CodeDeployerAddress = None,
     OutputTransfers = [], GasUsed = 0\<rparr>"

definition emptyOutputAccount :: OutputAccount where
  \<comment> \<open>the zero value \<open>&vmcommon.OutputAccount{}\<close>\<close>
  "emptyOutputAccount = (NewVMOutputAccount [])\<lparr>BalanceDelta := None\<rparr>"

subsection \<open>Merging\<close>

definition mergeStorageUpdates ::
  "(bytes, StorageUpdate) gomap \<Rightarrow> (bytes, StorageUpdate) gomap \<Rightarrow> (bytes, StorageUpdate) gomap" where
  "mergeStorageUpdates left right = foldl (\<lambda>m (k, u). go_set k u m) left right"

definition mergeOutputAccounts :: "OutputAccount \<Rightarrow> OutputAccount \<Rightarrow> OutputAccount" where
  "mergeOutputAccounts left right =
    \<lparr>Address = (if Address right \<noteq> [] then Address right else Address left),
     Nonce = (if Nonce right > Nonce left then Nonce right else Nonce left),
     Balance = (if Balance right \<noteq> None then Balance right else Balance left),
     BalanceDelta = (if BalanceDelta right \<noteq> None then BalanceDelta right
                     else if BalanceDelta left = None then Some 0 else BalanceDelta left),
     StorageUpdates = mergeStorageUpdates (StorageUpdates left) (StorageUpdates right),
     Code = (if length (Code right) > 0 then Code right else Code left),
     CodeMetadata = (if length (CodeMetadata right) > 0 then CodeMetadata right else CodeMetadata left),
     CodeDeployerAddress = (if CodeDeployerAddress right \<noteq> None then CodeDeployerAddress right
                            else CodeDeployerAddress left),
     OutputTransfers =
       (let lenLeft = length (OutputTransfers left)
        in if length (OutputTransfers right) > lenLeft
           then OutputTransfers left @ drop lenLeft (OutputTransfers right) else OutputTransfers left),
     GasUsed = GasUsed right\<rparr>"

definition mergeAccountInto :: "(address, OutputAccount) gomap \<Rightarrow> OutputAccount \<Rightarrow> (address, OutputAccount) gomap" where
  \<comment> \<open>the body of the loop over the right accounts\<close>
  "mergeAccountInto accounts rightAccount =
     (let leftAccount = (case go_get accounts (Address rightAccount) of
                           None \<Rightarrow> emptyOutputAccount | Some a \<Rightarrow> a)
      in go_set (Address rightAccount) (mergeOutputAccounts leftAccount rightAccount) accounts)"

definition mergeVMOutputs :: "VMOutput \<Rightarrow> VMOutput \<Rightarrow> VMOutput" where
  "mergeVMOutputs left right =
     left\<lparr>OutputAccounts := foldl mergeAccountInto (OutputAccounts left) (map snd (OutputAccounts right)),
          Logs := Logs left @ Logs right,
          ReturnData := ReturnData left @ ReturnData right,
          GasRemaining := GasRemaining right,
          GasRefund := (if GasRefund right = None then Some 0 else GasRefund right),
          ReturnCode := ReturnCode right,
          ReturnMessage := ReturnMessage right\<rparr>"

subsection \<open>State stack\<close>

definition output_InitState :: "outputContext \<Rightarrow> outputContext" where
  "output_InitState c = c\<lparr>outputState := newVMOutput, codeUpdates := {}\<rparr>"

definition output_PushState :: "outputContext \<Rightarrow> outputContext" where
  "output_PushState c =
     c\<lparr>output_stateStack := mergeVMOutputs newVMOutput (outputState c) # output_stateStack c\<rparr>"

definition output_PopSetActiveState :: "outputContext \<Rightarrow> outputContext" where
  "output_PopSetActiveState c =
     (case output_stateStack c of
        [] \<Rightarrow> c
      | prevState # rest \<Rightarrow> c\<lparr>output_stateStack := rest, outputState := prevState\<rparr>)"

definition output_PopMergeActiveState :: "outputContext \<Rightarrow> outputContext" where
  "output_PopMergeActiveState c =
     (case output_stateStack c of
        [] \<Rightarrow> c
      | prevState # rest \<Rightarrow>
          c\<lparr>output_stateStack := rest,
            outputState := mergeVMOutputs newVMOutput (mergeVMOutputs prevState (outputState c))\<rparr>)"

definition output_PopDiscard :: "outputContext \<Rightarrow> outputContext" where
  "output_PopDiscard c =
     (case output_stateStack c of [] \<Rightarrow> c | _ # rest \<Rightarrow> c\<lparr>output_stateStack := rest\<rparr>)"

definition output_ClearStateStack :: "outputContext \<Rightarrow> outputContext" where
  "output_ClearStateStack c = c\<lparr>output_stateStack := []\<rparr>"

definition CensorVMOutput :: "outputContext \<Rightarrow> outputContext" where
  "CensorVMOutput c =
     c\<lparr>outputState := (outputState c)\<lparr>ReturnData := [], ReturnCode := Ok, ReturnMessage := [],
         GasRemaining := 0, GasRefund := Some 0, Logs := []\<rparr>\<rparr>"

definition ResetGas :: "outputContext \<Rightarrow> outputContext" where
  \<comment> \<open>the inner loop of the source ranges over a slice of structs and assigns to its copies:
     the transfers themselves keep their gas\<close>
  "ResetGas c =
     c\<lparr>outputState := (outputState c)\<lparr>OutputAccounts :=
         map (\<lambda>(k, outAcc). (k, outAcc\<lparr>GasUsed := 0\<rparr>)) (OutputAccounts (outputState c))\<rparr>\<rparr>"

subsection \<open>Accounts\<close>

definition setAccount :: "address \<Rightarrow> OutputAccount \<Rightarrow> outputContext \<Rightarrow> outputContext" where
  "setAccount a acc c =
     c\<lparr>outputState := (outputState c)\<lparr>OutputAccounts := go_set a acc (OutputAccounts (outputState c))\<rparr>\<rparr>"

definition GetOutputAccount :: "address \<Rightarrow> outputContext \<Rightarrow> (OutputAccount \<times> bool) \<times> outputContext" where
  "GetOutputAccount a c =
     (case go_get (OutputAccounts (outputState c)) a of
        Some account \<Rightarrow> ((account, False), c)
      | None \<Rightarrow> ((NewVMOutputAccount a, True), setAccount a (NewVMOutputAccount a) c))"

definition DeleteOutputAccount :: "address \<Rightarrow> outputContext \<Rightarrow> outputContext" where
  "DeleteOutputAccount a c =
     c\<lparr>outputState := (outputState c)\<lparr>OutputAccounts := go_delete a (OutputAccounts (outputState c))\<rparr>,
       codeUpdates := codeUpdates c - {a}\<rparr>"

definition AddTxValueToAccount :: "address \<Rightarrow> bigint \<Rightarrow> outputContext \<Rightarrow> outputContext option" where
  "AddTxValueToAccount a val c =
     (let ((destAcc, _), c) = GetOutputAccount a c
      in do { delta \<leftarrow> BalanceDelta destAcc; v \<leftarrow> val;
              Some (setAccount a (destAcc\<lparr>BalanceDelta := Some (delta + v)\<rparr>) c) })"

definition DeployCode :: "CodeDeployInput \<Rightarrow> outputContext \<Rightarrow> outputContext" where
  "DeployCode input c =
     (let ((newSCAccount, _), c) = GetOutputAccount (ContractAddress input) c;
          newSCAccount = newSCAccount\<lparr>Code := ContractCode input, CodeMetadata := ContractCodeMetadata input,
            CodeDeployerAddress := Some (CodeDeployer input)\<rparr>;
          c = setAccount (ContractAddress input) newSCAccount c
      in c\<lparr>codeUpdates := insert (ContractAddress input) (codeUpdates c)\<rparr>)"

definition removeNonUpdatedCode :: "address set \<Rightarrow> VMOutput \<Rightarrow> VMOutput" where
  "removeNonUpdatedCode updates vmOutput =
     vmOutput\<lparr>OutputAccounts :=
       map (\<lambda>(a, account). (a, if a \<in> updates then account
              else account\<lparr>Code := [], CodeMetadata := [], CodeDeployerAddress := None\<rparr>))
         (OutputAccounts vmOutput)\<rparr>"

subsection \<open>Return values, refund and logs\<close>

definition GetRefund :: "outputContext \<Rightarrow> u64 option" where
  "GetRefund c = map_option uint64_of_int (GasRefund (outputState c))"

definition SetRefund :: "u64 \<Rightarrow> outputContext \<Rightarrow> outputContext" where
  "SetRefund refund c = c\<lparr>outputState := (outputState c)\<lparr>GasRefund := Some (int64_of_uint64 refund)\<rparr>\<rparr>"

definition SetReturnCode :: "ReturnCodeT \<Rightarrow> outputContext \<Rightarrow> outputContext" where
  "SetReturnCode code c = c\<lparr>outputState := (outputState c)\<lparr>ReturnCode := code\<rparr>\<rparr>"

definition SetReturnMessage :: "string \<Rightarrow> outputContext \<Rightarrow> outputContext" where
  "SetReturnMessage msg c = c\<lparr>outputState := (outputState c)\<lparr>ReturnMessage := msg\<rparr>\<rparr>"

definition ClearReturnData :: "outputContext \<Rightarrow> outputContext" where
  "ClearReturnData c = c\<lparr>outputState := (outputState c)\<lparr>ReturnData := []\<rparr>\<rparr>"

definition Finish :: "bytes \<Rightarrow> outputContext \<Rightarrow> outputContext" where
  "Finish data c = c\<lparr>outputState := (outputState c)\<lparr>ReturnData := ReturnData (outputState c) @ [data]\<rparr>\<rparr>"

definition PrependFinish :: "bytes \<Rightarrow> outputContext \<Rightarrow> outputContext" where
  "PrependFinish data c = c\<lparr>outputState := (outputState c)\<lparr>ReturnData := data # ReturnData (outputState c)\<rparr>\<rparr>"

definition WriteLog :: "address \<Rightarrow> bytes list \<Rightarrow> bytes \<Rightarrow> vm \<Rightarrow> vm" where
  "WriteLog a topics data s =
     (if readOnly (runtimeCtx s) then s
      else
        let newLogEntry = (case topics of
              [] \<Rightarrow> \<lparr>le_Identifier = [], le_Address = a, le_Topics = [], le_Data = [data]\<rparr>
            | t # ts \<Rightarrow> \<lparr>le_Identifier = t, le_Address = a, le_Topics = ts, le_Data = [data]\<rparr>);
            c = outputCtx s
        in s\<lparr>outputCtx := c\<lparr>outputState := (outputState c)\<lparr>Logs := Logs (outputState c) @ [newLogEntry]\<rparr>\<rparr>\<rparr>)"

subsection \<open>Errors\<close>

definition resolveReturnCodeFromError :: "err option \<Rightarrow> ReturnCodeT" where
  "resolveReturnCodeFromError err =
     (case err of None \<Rightarrow> Ok
      | Some err \<Rightarrow>
          if errorsIs err ErrSignalError then UserError
          else if errorsIs err ErrFuncNotFound then FunctionNotFound
          else if errorsIs err ErrFunctionNonvoidSignature then FunctionWrongSignature
          else if errorsIs err ErrInvalidFunction then UserError
          else if errorsIs err ErrNotEnoughGas then OutOfGas
          else if errorsIs err ErrContractNotFound then ContractNotFound
          else if errorsIs err ErrContractInvalid then ContractInvalid
          else if errorsIs err ErrUpgradeFailed then UpgradeFailed
          else if errorsIs err ErrTransferInsufficientFunds then OutOfFunds
          else ExecutionFailed)"

definition CreateVMOutputInCaseOfError :: "err \<Rightarrow> outputContext \<Rightarrow> VMOutput" where
  "CreateVMOutputInCaseOfError err c =
     (let message =
        (if errorsIs err ErrSignalError then ReturnMessage (outputState c)
         else if length (ReturnMessage (outputState c)) > 0 then ReturnMessage (outputState c)
         else Error err)
      in \<lparr>ReturnData = [], ReturnCode = resolveReturnCodeFromError (Some err), ReturnMessage = message,
          GasRemaining = 0, GasRefund = Some 0, OutputAccounts = [], DeletedAccounts = [],
          TouchedAccounts = [], Logs = []\<rparr>)"

subsection \<open>Merging the output of a built-in function\<close>

fun addRightAccounts ::
  "(address, OutputAccount) gomap \<Rightarrow> (address, OutputAccount) gomap
   \<Rightarrow> ((address, OutputAccount) gomap \<times> (address, OutputAccount) gomap) option" where
  \<comment> \<open>the loop of \<open>AddToActiveState\<close>: the right accounts as they become, and the left map\<close>
  "addRightAccounts left [] = Some ([], left)"
| "addRightAccounts left ((k, rightAccount) # rest) =
     (case go_get left (Address rightAccount) of
        None \<Rightarrow> do { (right', left') \<leftarrow> addRightAccounts left rest; Some ((k, rightAccount) # right', left') }
      | Some leftAccount \<Rightarrow> do {
          rightDelta \<leftarrow> (case BalanceDelta rightAccount of
              None \<Rightarrow> Some None
            | Some r \<Rightarrow> do { l \<leftarrow> BalanceDelta leftAccount; Some (Some (r + l)) });
          let leftAccount' =
            (if length (OutputTransfers rightAccount) > 0
             then leftAccount\<lparr>OutputTransfers := OutputTransfers leftAccount @ OutputTransfers rightAccount\<rparr>
             else leftAccount);
          (right', left') \<leftarrow> addRightAccounts (go_set (Address rightAccount) leftAccount' left) rest;
          Some ((k, rightAccount\<lparr>BalanceDelta := rightDelta\<rparr>) # right', left') })"

definition AddToActiveState :: "VMOutput \<Rightarrow> outputContext \<Rightarrow> outputContext option" where
  "AddToActiveState rightOutput c = do {
     let rightOutput = rightOutput\<lparr>GasRemaining := 0\<rparr>;
     refund \<leftarrow> (case GasRefund rightOutput of
         None \<Rightarrow> Some None
       | Some r \<Rightarrow> do { l \<leftarrow> GasRefund (outputState c); Some (Some (r + l)) });
     (rightAccounts, leftAccounts) \<leftarrow> addRightAccounts (OutputAccounts (outputState c)) (OutputAccounts rightOutput);
     let rightOutput = rightOutput\<lparr>GasRefund := refund, OutputAccounts := rightAccounts\<rparr>;
     Some (c\<lparr>outputState := mergeVMOutputs ((outputState c)\<lparr>OutputAccounts := leftAccounts\<rparr>) rightOutput\<rparr>) }"

subsection \<open>Gas total\<close>

definition addTransferGas :: "u64 \<times> bool \<Rightarrow> OutputTransfer \<Rightarrow> u64 \<times> bool" where
  "addTransferGas acc t =
     (let (gasUsed, lockSent) = acc
      in (AddUint64 (AddUint64 gasUsed (ot_GasLimit t)) (ot_GasLocked t), lockSent \<or> ot_GasLocked t > 0))"

definition addAccountGas :: "u64 \<times> bool \<Rightarrow> OutputAccount \<Rightarrow> u64 \<times> bool" where
  "addAccountGas acc outputAccount =
     (let (gasUsed, lockSent) = acc
      in foldl addTransferGas (AddUint64 gasUsed (GasUsed outputAccount), lockSent) (OutputTransfers outputAccount))"

definition GetCurrentTotalUsedGas :: "outputContext \<Rightarrow> u64 \<times> bool" where
  "GetCurrentTotalUsedGas c = foldl addAccountGas (0, False) (map snd (OutputAccounts (outputState c)))"

subsection \<open>Well-formed outputs\<close>

definition wf_account :: "OutputAccount \<Rightarrow> bool" where
  "wf_account a \<longleftrightarrow> BalanceDelta a \<noteq> None \<and> wf_gomap (StorageUpdates a)"

definition wf_accounts :: "(address, OutputAccount) gomap \<Rightarrow> bool" where
  "wf_accounts m \<longleftrightarrow> wf_gomap m \<and> list_all (\<lambda>(k, a). Address a = k \<and> wf_account a) m"

definition wf_VMOutput :: "VMOutput \<Rightarrow> bool" where
  "wf_VMOutput out \<longleftrightarrow> wf_accounts (OutputAccounts out) \<and> GasRefund out \<noteq> None \<and>
     DeletedAccounts out = [] \<and> TouchedAccounts out = []"

definition wf_output :: "outputContext \<Rightarrow> bool" where
  "wf_output c \<longleftrightarrow> wf_VMOutput (outputState c) \<and> list_all wf_VMOutput (output_stateStack c)"

lemma wf_VMOutput_new [simp]: "wf_VMOutput newVMOutput"
  by (simp add: wf_VMOutput_def wf_accounts_def newVMOutput_def)

lemma wf_account_new [simp]: "wf_account (NewVMOutputAccount a)"
  by (simp add: wf_account_def NewVMOutputAccount_def)

lemma wf_accounts_get: "wf_accounts m \<Longrightarrow> go_get m a = Some acc \<Longrightarrow> Address acc = a \<and> wf_account acc"
  by (auto simp: wf_accounts_def list_all_iff dest!: map_of_SomeD)

lemma wf_accounts_get_delta:
  "wf_accounts m \<Longrightarrow> go_get m a = Some acc \<Longrightarrow> BalanceDelta acc = Some (the (BalanceDelta acc))"
  by (auto simp: wf_account_def dest!: wf_accounts_get)

lemma wf_accounts_gomap: "wf_accounts m \<Longrightarrow> wf_gomap m"
  by (simp add: wf_accounts_def)

lemma wf_accounts_set [simp]:
  "wf_accounts m \<Longrightarrow> Address acc = a \<Longrightarrow> wf_account acc \<Longrightarrow> wf_accounts (go_set a acc m)"
  by (simp add: wf_accounts_def list_all_go_set)

lemma wf_accounts_Nil [simp]: "wf_accounts []"
  by (simp add: wf_accounts_def)

lemma wf_accounts_Cons:
  "wf_accounts ((k, a) # m) \<longleftrightarrow> go_get m k = None \<and> Address a = k \<and> wf_account a \<and> wf_accounts m"
  by (auto simp: wf_accounts_def wf_gomap_def map_of_eq_None_iff)

subsection \<open>Merging, entry by entry\<close>

lemma go_get_mergeStorageUpdates:
  "go_get (mergeStorageUpdates l r) k =
     (case go_get (rev r) k of None \<Rightarrow> go_get l k | Some u \<Rightarrow> Some u)"
proof (induction r arbitrary: l)
  case (Cons x r)
  then show ?case
    by (cases x) (auto simp: mergeStorageUpdates_def go_simps map_of_append split: option.splits)
qed (simp add: mergeStorageUpdates_def)

lemma mergeStorageUpdates_Nil [simp]: "wf_gomap r \<Longrightarrow> mergeStorageUpdates [] r = r"
proof (induction r rule: rev_induct)
  case (snoc x r)
  then have "wf_gomap r" "go_get r (fst x) = None"
    by (auto simp: wf_gomap_def map_of_eq_None_iff)
  with snoc show ?case by (cases x) (simp add: mergeStorageUpdates_def go_set_absent)
qed (simp add: mergeStorageUpdates_def)

lemma wf_mergeStorageUpdates [simp]: "wf_gomap l \<Longrightarrow> wf_gomap (mergeStorageUpdates l r)"
  by (induction r arbitrary: l) (auto simp: mergeStorageUpdates_def)

lemma merge_into_empty_account:
  "wf_account a \<Longrightarrow> mergeOutputAccounts emptyOutputAccount a = a"
  by (cases a) (auto simp: mergeOutputAccounts_def emptyOutputAccount_def NewVMOutputAccount_def
    wf_account_def Let_def word_gt_0)

lemma wf_account_merge [simp]: "wf_account a \<Longrightarrow> wf_account (mergeOutputAccounts a b)"
  by (auto simp: wf_account_def mergeOutputAccounts_def)

lemma wf_account_merge_right:
  "wf_gomap (StorageUpdates a) \<Longrightarrow> wf_account (mergeOutputAccounts a b)"
  by (auto simp: wf_account_def mergeOutputAccounts_def)

lemma foldl_mergeAccountInto_get:
  assumes "wf_accounts r"
  shows "go_get (foldl mergeAccountInto l (map snd r)) a =
     (case go_get r a of None \<Rightarrow> go_get l a
      | Some ra \<Rightarrow> Some (mergeOutputAccounts (case go_get l a of None \<Rightarrow> emptyOutputAccount | Some la \<Rightarrow> la) ra))"
  using assms
proof (induction r arbitrary: l)
  case (Cons x r)
  obtain k ra where x: "x = (k, ra)" by (cases x)
  with Cons.prems have "go_get r k = None" "Address ra = k" "wf_accounts r"
    by (auto simp: wf_accounts_Cons)
  with Cons.IH x show ?case
    by (auto simp: mergeAccountInto_def Let_def go_simps split: option.splits)
qed simp

lemma foldl_mergeAccountInto_Nil:
  "wf_accounts r \<Longrightarrow> foldl mergeAccountInto [] (map snd r) = r"
proof (induction r rule: rev_induct)
  case (snoc x r)
  obtain k ra where x: "x = (k, ra)" by (cases x)
  with snoc.prems have *: "wf_accounts r" "go_get r k = None" "Address ra = k" "wf_account ra"
    by (auto simp: wf_accounts_def wf_gomap_def list_all_iff map_of_eq_None_iff)
  then show ?case
    using snoc.IH x by (simp add: mergeAccountInto_def go_set_absent merge_into_empty_account)
qed simp

lemma wf_accounts_mergeAccountInto:
  assumes "wf_accounts l"
  shows "wf_accounts (mergeAccountInto l ra)"
proof -
  let ?la = "case go_get l (Address ra) of None \<Rightarrow> emptyOutputAccount | Some a \<Rightarrow> a"
  have "wf_gomap (StorageUpdates ?la)"
    using assms by (auto simp: emptyOutputAccount_def NewVMOutputAccount_def wf_account_def
      dest: wf_accounts_get split: option.splits)
  moreover have "Address (mergeOutputAccounts ?la ra) = Address ra"
    using assms by (auto simp: mergeOutputAccounts_def emptyOutputAccount_def NewVMOutputAccount_def
      dest: wf_accounts_get split: option.splits)
  ultimately show ?thesis
    using assms by (simp add: mergeAccountInto_def wf_account_merge_right)
qed

lemma wf_VMOutput_merge [simp]:
  assumes "wf_VMOutput l"
  shows "wf_VMOutput (mergeVMOutputs l r)"
proof -
  have "wf_accounts (foldl mergeAccountInto (OutputAccounts l) ras)" for ras
    using assms by (induction ras rule: rev_induct)
      (auto simp: wf_VMOutput_def wf_accounts_mergeAccountInto)
  with assms show ?thesis by (simp add: wf_VMOutput_def mergeVMOutputs_def)
qed

text \<open>Copying a well-formed output into a new one, as \<open>PushState\<close> does, yields the same output.\<close>

lemma mergeVMOutputs_new:
  "wf_VMOutput out \<Longrightarrow> mergeVMOutputs newVMOutput out = out"
  by (cases out) (auto simp: mergeVMOutputs_def newVMOutput_def wf_VMOutput_def foldl_mergeAccountInto_Nil)

subsection \<open>The state stack\<close>

lemmas output_stack_defs = output_PushState_def output_PopSetActiveState_def output_PopDiscard_def
  output_ClearStateStack_def

interpretation outputStack: state_stack output_PushState output_PopSetActiveState output_PopDiscard
  output_ClearStateStack outputState output_stateStack wf_output
  by unfold_locales
    (auto simp: output_stack_defs wf_output_def mergeVMOutputs_new split: list.splits)

lemma output_PopMerge:
  assumes "wf_output c" "output_stateStack c = prev # rest"
  shows "output_PopMergeActiveState c =
    c\<lparr>output_stateStack := rest, outputState := mergeVMOutputs prev (outputState c)\<rparr>"
  using assms by (simp add: output_PopMergeActiveState_def wf_output_def mergeVMOutputs_new)

subsection \<open>Well-formedness is kept\<close>

lemma wf_VMOutput_accounts: "wf_VMOutput out \<Longrightarrow> wf_accounts (OutputAccounts out)"
  by (simp add: wf_VMOutput_def)

lemma wf_setAccount [simp]:
  "wf_output c \<Longrightarrow> Address acc = a \<Longrightarrow> wf_account acc \<Longrightarrow> wf_output (setAccount a acc c)"
  by (simp add: wf_output_def wf_VMOutput_def setAccount_def)

lemma GetOutputAccount_wf:
  assumes "wf_output c" "GetOutputAccount a c = ((acc, new), c')"
  shows "wf_output c'" "Address acc = a" "wf_account acc" "go_get (OutputAccounts (outputState c')) a = Some acc"
  using assms wf_accounts_get [of "OutputAccounts (outputState c)" a]
  by (auto simp: GetOutputAccount_def NewVMOutputAccount_def setAccount_def wf_output_def wf_VMOutput_def
    go_simps wf_account_def split: option.splits)

lemma wf_CensorVMOutput [simp]: "wf_output c \<Longrightarrow> wf_output (CensorVMOutput c)"
  by (simp add: wf_output_def wf_VMOutput_def CensorVMOutput_def)

lemma wf_ResetGas [simp]: "wf_output c \<Longrightarrow> wf_output (ResetGas c)"
  by (auto simp: wf_output_def wf_VMOutput_def ResetGas_def wf_accounts_def wf_gomap_def list_all_iff
    wf_account_def comp_def case_prod_beta)

lemma wf_output_InitState [simp]: "wf_output c \<Longrightarrow> wf_output (output_InitState c)"
  by (simp add: wf_output_def output_InitState_def)

lemma wf_DeleteOutputAccount [simp]: "wf_output c \<Longrightarrow> wf_output (DeleteOutputAccount a c)"
  by (simp add: wf_output_def wf_VMOutput_def DeleteOutputAccount_def wf_accounts_def list_all_go_delete)

lemma wf_output_simple [simp]:
  "wf_output (SetRefund r c) = (wf_output (c\<lparr>outputState := (outputState c)\<lparr>GasRefund := Some 0\<rparr>\<rparr>))"
  "wf_output (SetReturnCode code c) = wf_output c"
  "wf_output (SetReturnMessage m c) = wf_output c"
  "wf_output (ClearReturnData c) = wf_output c"
  "wf_output (Finish d c) = wf_output c"
  "wf_output (PrependFinish d c) = wf_output c"
  by (simp_all add: wf_output_def wf_VMOutput_def SetRefund_def SetReturnCode_def SetReturnMessage_def
    ClearReturnData_def Finish_def PrependFinish_def)

subsection \<open>The gas total\<close>

definition transferGas :: "OutputTransfer \<Rightarrow> nat" where
  "transferGas t = unat (ot_GasLimit t) + unat (ot_GasLocked t)"

definition accountGas :: "OutputAccount \<Rightarrow> nat" where
  \<comment> \<open>gas recorded for an account: what it used and what was sent to it\<close>
  "accountGas a = unat (GasUsed a) + (\<Sum>t\<leftarrow>OutputTransfers a. transferGas t)"

lemma foldl_addTransferGas:
  "unat (fst (foldl addTransferGas (g, b) ts)) = min (unat g + (\<Sum>t\<leftarrow>ts. transferGas t)) (2 ^ 64 - 1)"
  "snd (foldl addTransferGas (g, b) ts) \<longleftrightarrow> b \<or> (\<exists>t\<in>set ts. ot_GasLocked t \<noteq> 0)"
proof (induction ts arbitrary: g b)
  case Nil
  { case 1 then show ?case using unat_u64_le [of g] by simp }
  { case 2 then show ?case by simp }
next
  case (Cons t ts)
  { case 1 show ?case using Cons [of "AddUint64 (AddUint64 g (ot_GasLimit t)) (ot_GasLocked t)"]
      by (simp add: addTransferGas_def unat_AddUint64 transferGas_def min_def) }
  { case 2 show ?case using Cons [of "AddUint64 (AddUint64 g (ot_GasLimit t)) (ot_GasLocked t)"]
      by (auto simp: addTransferGas_def word_gt_0) }
qed

lemma addAccountGas_step:
  "unat (fst (addAccountGas (g, b) a)) = min (unat g + accountGas a) (2 ^ 64 - 1)"
  "snd (addAccountGas (g, b) a) \<longleftrightarrow> b \<or> (\<exists>t\<in>set (OutputTransfers a). ot_GasLocked t \<noteq> 0)"
  using foldl_addTransferGas [of "AddUint64 g (GasUsed a)" b "OutputTransfers a"]
  by (simp_all add: addAccountGas_def unat_AddUint64 accountGas_def min_def)

lemma foldl_addAccountGas:
  "unat (fst (foldl addAccountGas gb as)) = min (unat (fst gb) + (\<Sum>a\<leftarrow>as. accountGas a)) (2 ^ 64 - 1) \<and>
   (snd (foldl addAccountGas gb as) \<longleftrightarrow>
     snd gb \<or> (\<exists>a\<in>set as. \<exists>t\<in>set (OutputTransfers a). ot_GasLocked t \<noteq> 0))"
proof (induction as arbitrary: gb)
  case Nil
  then show ?case using unat_u64_le [of "fst gb"] by simp
next
  case (Cons a as)
  show ?case
    using Cons.IH [of "addAccountGas gb a"] addAccountGas_step [of "fst gb" "snd gb" a]
    by (auto simp: min_def)
qed

lemma GetCurrentTotalUsedGas_unat:
  "unat (fst (GetCurrentTotalUsedGas c)) =
     min (\<Sum>(_, acc)\<leftarrow>OutputAccounts (outputState c). accountGas acc) (2 ^ 64 - 1)"
  using foldl_addAccountGas [of "(0, False)"]
  by (simp add: GetCurrentTotalUsedGas_def comp_def case_prod_beta')

lemma GetCurrentTotalUsedGas_locked:
  "snd (GetCurrentTotalUsedGas c) \<longleftrightarrow>
     (\<exists>a\<in>snd ` set (OutputAccounts (outputState c)). \<exists>t\<in>set (OutputTransfers a). ot_GasLocked t \<noteq> 0)"
  using foldl_addAccountGas [of "(0, False)"] by (simp add: GetCurrentTotalUsedGas_def)

subsection \<open>The sum of the balance changes\<close>

definition totalDelta :: "outputContext \<Rightarrow> int" where
  "totalDelta c = (\<Sum>(_, acc)\<leftarrow>OutputAccounts (outputState c). the (BalanceDelta acc))"

lemma totalDelta_setAccount:
  assumes "wf_output c"
  shows "totalDelta (setAccount a acc c) = totalDelta c + the (BalanceDelta acc) -
    (case go_get (OutputAccounts (outputState c)) a of None \<Rightarrow> 0 | Some old \<Rightarrow> the (BalanceDelta old))"
  using assms unfolding totalDelta_def setAccount_def
  by (simp add: sum_list_go_set wf_output_def wf_VMOutput_def wf_accounts_gomap)

lemma totalDelta_GetOutputAccount:
  "wf_output c \<Longrightarrow> totalDelta (snd (GetOutputAccount a c)) = totalDelta c"
  by (auto simp: GetOutputAccount_def totalDelta_setAccount NewVMOutputAccount_def split: option.splits)

lemma totalDelta_keys:
  assumes "wf_output c"
  shows "totalDelta c = (\<Sum>a\<in>fst ` set (OutputAccounts (outputState c)).
    the (BalanceDelta (the (go_get (OutputAccounts (outputState c)) a))))"
  unfolding totalDelta_def
  by (rule sum_list_gomap) (use assms in \<open>simp add: wf_output_def wf_VMOutput_def wf_accounts_gomap\<close>)

text \<open>Merging a child's output into the caller's keeps the child's balance changes when the child
  started from the caller's accounts.\<close>

lemma totalDelta_merge:
  assumes wf: "wf_output c" "wf_VMOutput prev"
    and sub: "fst ` set (OutputAccounts prev) \<subseteq> fst ` set (OutputAccounts (outputState c))"
  shows "totalDelta (c\<lparr>outputState := mergeVMOutputs prev (outputState c)\<rparr>) = totalDelta c"
proof -
  let ?cur = "OutputAccounts (outputState c)" and ?m = "OutputAccounts (mergeVMOutputs prev (outputState c))"
  have cur: "wf_accounts ?cur" using wf by (simp add: wf_output_def wf_VMOutput_def)
  have get: "go_get ?m a = (case go_get ?cur a of None \<Rightarrow> go_get (OutputAccounts prev) a
      | Some ra \<Rightarrow> Some (mergeOutputAccounts (case go_get (OutputAccounts prev) a of None \<Rightarrow> emptyOutputAccount | Some la \<Rightarrow> la) ra))" for a
    using foldl_mergeAccountInto_get [OF cur] by (simp add: mergeVMOutputs_def)
  have keys: "a \<in> fst ` set ?m \<longleftrightarrow> a \<in> fst ` set ?cur" for a
    using get [of a] sub by (auto simp: in_keys_iff subset_iff split: option.splits)
  have delta: "the (BalanceDelta (the (go_get ?m a))) = the (BalanceDelta (the (go_get ?cur a)))"
    if a: "a \<in> fst ` set ?cur" for a
  proof -
    from a obtain ra where "go_get ?cur a = Some ra" by (auto simp: in_keys_iff)
    with wf_accounts_get_delta [OF cur this] get [of a] show ?thesis
      by (simp add: mergeOutputAccounts_def) (metis option.distinct(1))
  qed
  have "wf_output (c\<lparr>outputState := mergeVMOutputs prev (outputState c)\<rparr>)"
    using wf by (simp add: wf_output_def)
  moreover have "fst ` set ?m = fst ` set ?cur" using keys by blast
  ultimately show ?thesis
    using totalDelta_keys [OF wf(1)] delta by (simp add: totalDelta_keys cong: sum.cong)
qed

subsection \<open>Errors and return codes\<close>

fun rootErr :: "err \<Rightarrow> err" where
  \<comment> \<open>the error inside all the wrappings\<close>
  "rootErr (ErrWithPrefix _ e) = rootErr e"
| "rootErr (ErrWithSuffix e _) = rootErr e"
| "rootErr e = e"

definition unwrapped :: "err \<Rightarrow> bool" where
  "unwrapped t \<longleftrightarrow> (case t of ErrWithPrefix _ _ \<Rightarrow> False | ErrWithSuffix _ _ \<Rightarrow> False | _ \<Rightarrow> True)"

lemma errorsIs_root: "unwrapped t \<Longrightarrow> errorsIs e t \<longleftrightarrow> rootErr e = t \<or> Unwrap (rootErr e) = Some t"
proof (induction e rule: rootErr.induct)
qed (auto simp: unwrapped_def)

text \<open>The return code of an error depends on the error it wraps, however often it has been
  wrapped: running out of gas, out of funds, a failed upgrade and a missing contract are each
  reported by their own code exactly when that error is inside, and no error is reported as
  success.\<close>

lemma return_code_of_error:
  "(resolveReturnCodeFromError (Some err) = OutOfGas \<longleftrightarrow> errorsIs err ErrNotEnoughGas) \<and>
   (resolveReturnCodeFromError (Some err) = OutOfFunds \<longleftrightarrow> errorsIs err ErrTransferInsufficientFunds) \<and>
   (resolveReturnCodeFromError (Some err) = UpgradeFailed \<longleftrightarrow> errorsIs err ErrUpgradeFailed) \<and>
   (resolveReturnCodeFromError (Some err) = ContractNotFound \<longleftrightarrow> errorsIs err ErrContractNotFound) \<and>
   (resolveReturnCodeFromError (Some err) = FunctionNotFound \<longleftrightarrow> errorsIs err ErrFuncNotFound) \<and>
   resolveReturnCodeFromError (Some err) \<noteq> Ok"
  by (cases "rootErr err")
    (simp_all add: resolveReturnCodeFromError_def errorsIs_root unwrapped_def Unwrap_def del: errorsIs.simps)

subsection \<open>The output of a built-in function\<close>

definition withTransfers :: "OutputAccount \<Rightarrow> OutputAccount \<Rightarrow> OutputAccount" where
  \<comment> \<open>the left account after the loop of \<open>AddToActiveState\<close>\<close>
  "withTransfers l r = (if length (OutputTransfers r) > 0
     then l\<lparr>OutputTransfers := OutputTransfers l @ OutputTransfers r\<rparr> else l)"

definition withDelta :: "OutputAccount \<Rightarrow> OutputAccount \<Rightarrow> OutputAccount" where
  \<comment> \<open>the right account after it\<close>
  "withDelta l r = r\<lparr>BalanceDelta := Some (the (BalanceDelta r) + the (BalanceDelta l))\<rparr>"

lemma wf_withTransfers [simp]:
  "wf_account (withTransfers l r) = wf_account l" "Address (withTransfers l r) = Address l"
  by (simp_all add: withTransfers_def wf_account_def)

lemma addRightAccounts_effect:
  assumes "wf_accounts left" "wf_accounts right"
  shows "\<exists>right' left'. addRightAccounts left right = Some (right', left') \<and> wf_accounts right' \<and> wf_accounts left' \<and>
    fst ` set right' = fst ` set right \<and>
    (\<forall>a. go_get right' a = (case go_get right a of None \<Rightarrow> None | Some r \<Rightarrow>
       Some (case go_get left a of None \<Rightarrow> r | Some l \<Rightarrow> withDelta l r))) \<and>
    (\<forall>a. go_get left' a = (case go_get left a of None \<Rightarrow> None | Some l \<Rightarrow>
       Some (case go_get right a of None \<Rightarrow> l | Some r \<Rightarrow> withTransfers l r)))"
  using assms
proof (induction right arbitrary: left)
  case (Cons x right)
  obtain k r where x: "x = (k, r)" by (cases x)
  with Cons.prems have r: "go_get right k = None" "Address r = k" "wf_account r" "wf_accounts right"
    by (auto simp: wf_accounts_Cons)
  then have keys: "k \<notin> fst ` set right" by (simp add: map_of_eq_None_iff)
  show ?case
  proof (cases "go_get left k")
    case None
    from Cons.IH [OF Cons.prems(1) r(4)] obtain right' left' where
      IH: "addRightAccounts left right = Some (right', left')" "wf_accounts right'" "wf_accounts left'"
      "fst ` set right' = fst ` set right"
      "\<And>a. go_get right' a = (case go_get right a of None \<Rightarrow> None | Some r' \<Rightarrow>
         Some (case go_get left a of None \<Rightarrow> r' | Some l \<Rightarrow> withDelta l r'))"
      "\<And>a. go_get left' a = (case go_get left a of None \<Rightarrow> None | Some l \<Rightarrow>
         Some (case go_get right a of None \<Rightarrow> l | Some r' \<Rightarrow> withTransfers l r'))" by blast
    show ?thesis
    proof (intro exI conjI)
      show "addRightAccounts left (x # right) = Some ((k, r) # right', left')" using IH(1) None r(2) x by simp
      show "wf_accounts ((k, r) # right')" using IH(2,4) keys r by (auto simp: wf_accounts_Cons map_of_eq_None_iff)
    qed (use IH(3,4) None x in \<open>auto simp: IH(5,6) split: option.split\<close>)
  next
    case (Some l)
    have l: "wf_account l" "Address l = k" using wf_accounts_get [OF Cons.prems(1) Some] by auto
    then obtain d dl where d: "BalanceDelta r = Some d" "BalanceDelta l = Some dl" using r by (auto simp: wf_account_def)
    have "wf_accounts (go_set k (withTransfers l r) left)" using Cons.prems(1) l by simp
    from Cons.IH [OF this r(4)] obtain right' left' where
      IH: "addRightAccounts (go_set k (withTransfers l r) left) right = Some (right', left')" "wf_accounts right'" "wf_accounts left'"
      "fst ` set right' = fst ` set right"
      "\<And>a. go_get right' a = (case go_get right a of None \<Rightarrow> None | Some r' \<Rightarrow>
         Some (case go_get (go_set k (withTransfers l r) left) a of None \<Rightarrow> r' | Some l \<Rightarrow> withDelta l r'))"
      "\<And>a. go_get left' a = (case go_get (go_set k (withTransfers l r) left) a of None \<Rightarrow> None | Some l \<Rightarrow>
         Some (case go_get right a of None \<Rightarrow> l | Some r' \<Rightarrow> withTransfers l r'))" by blast
    show ?thesis
    proof (intro exI conjI)
      show "addRightAccounts left (x # right) = Some ((k, withDelta l r) # right', left')"
        using IH(1) Some d r(2) x by (simp add: withTransfers_def withDelta_def)
      show "wf_accounts ((k, withDelta l r) # right')"
        using IH(2,4) keys r by (auto simp: wf_accounts_Cons map_of_eq_None_iff withDelta_def wf_account_def)
    qed (use IH(3,4) Some r(1) x in \<open>auto simp: IH(5,6) go_simps split: option.split\<close>)
  qed
qed (simp split: option.split)

text \<open>The output of a built-in function is added to the active output without a panic: the
  balance changes of an account that both have are added, its transfers are appended to those it
  had, accounts of one side only are kept, return data and logs are appended and the gas refunds
  are added.\<close>

lemma AddToActiveState_adds:
  assumes "wf_output c" "wf_VMOutput out"
  shows "\<exists>c'. AddToActiveState out c = Some c' \<and> wf_output c' \<and>
    (\<forall>a l r. go_get (OutputAccounts (outputState c)) a = Some l \<and> go_get (OutputAccounts out) a = Some r \<longrightarrow>
       (\<exists>m. go_get (OutputAccounts (outputState c')) a = Some m \<and> OutputTransfers m = OutputTransfers l @ OutputTransfers r \<and>
          the (BalanceDelta m) = the (BalanceDelta l) + the (BalanceDelta r))) \<and>
    (\<forall>a l. go_get (OutputAccounts (outputState c)) a = Some l \<and> go_get (OutputAccounts out) a = None \<longrightarrow>
       go_get (OutputAccounts (outputState c')) a = Some l) \<and>
    (\<forall>a r. go_get (OutputAccounts (outputState c)) a = None \<and> go_get (OutputAccounts out) a = Some r \<longrightarrow>
       go_get (OutputAccounts (outputState c')) a = Some r) \<and>
    ReturnData (outputState c') = ReturnData (outputState c) @ ReturnData out \<and>
    Logs (outputState c') = Logs (outputState c) @ Logs out \<and>
    GasRefund (outputState c') = Some (the (GasRefund out) + the (GasRefund (outputState c)))"
proof -
  let ?l = "OutputAccounts (outputState c)" and ?r = "OutputAccounts out"
  have wf: "wf_accounts ?l" "wf_accounts ?r" using assms by (simp_all add: wf_output_def wf_VMOutput_accounts)
  obtain g h where g: "GasRefund out = Some g" "GasRefund (outputState c) = Some h"
    using assms by (auto simp: wf_output_def wf_VMOutput_def)
  from addRightAccounts_effect [OF wf] obtain r' l' where
    rl: "addRightAccounts ?l ?r = Some (r', l')" "wf_accounts r'" "wf_accounts l'"
    and get: "\<And>a. go_get r' a = (case go_get ?r a of None \<Rightarrow> None | Some r \<Rightarrow>
       Some (case go_get ?l a of None \<Rightarrow> r | Some l \<Rightarrow> withDelta l r))"
      "\<And>a. go_get l' a = (case go_get ?l a of None \<Rightarrow> None | Some l \<Rightarrow>
       Some (case go_get ?r a of None \<Rightarrow> l | Some r \<Rightarrow> withTransfers l r))" by blast
  let ?out = "out\<lparr>GasRemaining := 0, GasRefund := Some (g + h), OutputAccounts := r'\<rparr>"
  let ?c = "c\<lparr>outputState := mergeVMOutputs ((outputState c)\<lparr>OutputAccounts := l'\<rparr>) ?out\<rparr>"
  have c': "AddToActiveState out c = Some ?c" using rl(1) g by (simp add: AddToActiveState_def)
  have "wf_output ?c" using assms rl(3) by (simp add: wf_output_def wf_VMOutput_def [of "outputState c"] wf_VMOutput_def [of "_\<lparr>OutputAccounts := l'\<rparr>"])
  moreover have merged: "go_get (OutputAccounts (outputState ?c)) a = (case go_get r' a of None \<Rightarrow> go_get l' a
      | Some ra \<Rightarrow> Some (mergeOutputAccounts (case go_get l' a of None \<Rightarrow> emptyOutputAccount | Some la \<Rightarrow> la) ra))" for a
    using foldl_mergeAccountInto_get [OF rl(2)] by (simp add: mergeVMOutputs_def)
  moreover have "\<exists>m. go_get (OutputAccounts (outputState ?c)) a = Some m \<and> OutputTransfers m = OutputTransfers l @ OutputTransfers r \<and>
      the (BalanceDelta m) = the (BalanceDelta l) + the (BalanceDelta r)" if "go_get ?l a = Some l" "go_get ?r a = Some r" for a l r
    using that merged [of a] get [of a] by (simp add: mergeOutputAccounts_def withDelta_def withTransfers_def)
  moreover have "go_get (OutputAccounts (outputState ?c)) a = Some r" if "go_get ?l a = None" "go_get ?r a = Some r" for a r
    using that merged [of a] get [of a] wf_accounts_get [OF wf(2) that(2)] by (simp add: merge_into_empty_account)
  moreover have "go_get (OutputAccounts (outputState ?c)) a = Some l" if "go_get ?l a = Some l" "go_get ?r a = None" for a l
    using that merged [of a] get [of a] by simp
  moreover have "ReturnData (outputState ?c) = ReturnData (outputState c) @ ReturnData out"
      "Logs (outputState ?c) = Logs (outputState c) @ Logs out" "GasRefund (outputState ?c) = Some (the (GasRefund out) + the (GasRefund (outputState c)))"
    using g by (simp_all add: mergeVMOutputs_def)
  ultimately show ?thesis using c' by blast
qed

lemma sample_wf_output: "wf_output (outputCtx sampleVM)"
  by (simp add: wf_output_def wf_VMOutput_def sample_defs)

definition aliceGains :: "int \<Rightarrow> VMOutput" where
  \<comment> \<open>an output in which the sample account's balance changes\<close>
  "aliceGains v = sampleOutput\<lparr>OutputAccounts := [(''alice'', (NewVMOutputAccount ''alice'')\<lparr>BalanceDelta := Some v\<rparr>)]\<rparr>"

lemma wf_aliceGains: "wf_VMOutput (aliceGains v)"
  by (simp add: aliceGains_def wf_VMOutput_def wf_accounts_Cons wf_account_def NewVMOutputAccount_def sample_defs)

lemma AddToActiveState_adds_example:
  "\<exists>c' m. AddToActiveState (aliceGains 5) ((outputCtx sampleVM)\<lparr>outputState := aliceGains 7\<rparr>) = Some c' \<and>
     go_get (OutputAccounts (outputState c')) ''alice'' = Some m \<and> the (BalanceDelta m) = 12"
proof -
  let ?a = "\<lambda>v. (NewVMOutputAccount ''alice'')\<lparr>BalanceDelta := Some v\<rparr>"
  have "wf_output ((outputCtx sampleVM)\<lparr>outputState := aliceGains 7\<rparr>)"
    using sample_wf_output by (simp add: wf_output_def wf_aliceGains)
  from AddToActiveState_adds [OF this wf_aliceGains [of 5]] obtain c' where
    c': "AddToActiveState (aliceGains 5) ((outputCtx sampleVM)\<lparr>outputState := aliceGains 7\<rparr>) = Some c'"
    and m: "\<And>a l r. go_get (OutputAccounts (aliceGains 7)) a = Some l \<and> go_get (OutputAccounts (aliceGains 5)) a = Some r \<Longrightarrow>
      \<exists>m. go_get (OutputAccounts (outputState c')) a = Some m \<and> OutputTransfers m = OutputTransfers l @ OutputTransfers r \<and>
        the (BalanceDelta m) = the (BalanceDelta l) + the (BalanceDelta r)" by auto
  from m [of "''alice''" "?a 7" "?a 5"] c' show ?thesis by (auto simp: aliceGains_def)
qed

subsection \<open>Merging and totals\<close>

text \<open>Merging the output of a call into its caller's output works entry by entry.  An account of
  one side only is kept; of an account both have, the storage updates of the right output win key
  by key, the larger nonce is kept, the balance change and the gas used are the right ones, and the
  transfers are those of the left with what the right has beyond them; return data and logs are
  appended.\<close>

lemma mergeVMOutputs_entries:
  assumes "wf_VMOutput right" "go_get (OutputAccounts left) a = Some l" "go_get (OutputAccounts right) a = Some r"
  shows "\<exists>m. go_get (OutputAccounts (mergeVMOutputs left right)) a = Some m \<and>
    (\<forall>k. go_get (StorageUpdates m) k = (case go_get (StorageUpdates r) k of None \<Rightarrow> go_get (StorageUpdates l) k | Some u \<Rightarrow> Some u)) \<and>
    Nonce m = max (Nonce l) (Nonce r) \<and> BalanceDelta m = BalanceDelta r \<and> GasUsed m = GasUsed r \<and>
    OutputTransfers m = OutputTransfers l @ drop (length (OutputTransfers l)) (OutputTransfers r) \<and>
    (\<forall>b. b = a \<or> go_get (OutputAccounts right) b \<noteq> None \<or>
       go_get (OutputAccounts (mergeVMOutputs left right)) b = go_get (OutputAccounts left) b) \<and>
    ReturnData (mergeVMOutputs left right) = ReturnData left @ ReturnData right \<and>
    Logs (mergeVMOutputs left right) = Logs left @ Logs right"
proof -
  have wf: "wf_accounts (OutputAccounts right)" using assms(1) by (rule wf_VMOutput_accounts)
  have r: "wf_gomap (StorageUpdates r)" "BalanceDelta r \<noteq> None"
    using wf_accounts_get [OF wf assms(3)] by (auto simp: wf_account_def)
  have rev: "go_get (rev m) k = go_get m k" if "wf_gomap m" for m :: "(bytes, StorageUpdate) gomap" and k
    using that map_of_inject_set [of "rev m" m] by (simp add: wf_gomap_def rev_map [symmetric])
  have get: "go_get (OutputAccounts (mergeVMOutputs left right)) b = (case go_get (OutputAccounts right) b of
      None \<Rightarrow> go_get (OutputAccounts left) b
    | Some ra \<Rightarrow> Some (mergeOutputAccounts (case go_get (OutputAccounts left) b of None \<Rightarrow> emptyOutputAccount | Some la \<Rightarrow> la) ra))" for b
    using foldl_mergeAccountInto_get [OF wf] by (simp add: mergeVMOutputs_def)
  then have "go_get (OutputAccounts (mergeVMOutputs left right)) a = Some (mergeOutputAccounts l r)" using assms(2,3) by simp
  moreover have "go_get (StorageUpdates (mergeOutputAccounts l r)) k =
      (case go_get (StorageUpdates r) k of None \<Rightarrow> go_get (StorageUpdates l) k | Some u \<Rightarrow> Some u)" for k
    using rev [OF r(1)] by (simp add: mergeOutputAccounts_def go_get_mergeStorageUpdates)
  moreover have "Nonce (mergeOutputAccounts l r) = max (Nonce l) (Nonce r)" "BalanceDelta (mergeOutputAccounts l r) = BalanceDelta r"
      "GasUsed (mergeOutputAccounts l r) = GasUsed r"
      "OutputTransfers (mergeOutputAccounts l r) = OutputTransfers l @ drop (length (OutputTransfers l)) (OutputTransfers r)"
    using r(2) by (auto simp: mergeOutputAccounts_def max_def Let_def)
  moreover have "go_get (OutputAccounts (mergeVMOutputs left right)) b = go_get (OutputAccounts left) b"
    if "go_get (OutputAccounts right) b = None" for b using get [of b] that by simp
  moreover have "ReturnData (mergeVMOutputs left right) = ReturnData left @ ReturnData right"
      "Logs (mergeVMOutputs left right) = Logs left @ Logs right" by (simp_all add: mergeVMOutputs_def)
  ultimately show ?thesis by blast
qed

lemma mergeVMOutputs_entries_example:
  "\<exists>m. go_get (OutputAccounts (mergeVMOutputs (aliceGains 7) (aliceGains 5))) ''alice'' = Some m \<and> BalanceDelta m = Some 5"
  using mergeVMOutputs_entries [OF wf_aliceGains, of "aliceGains 7" "''alice''" "(NewVMOutputAccount ''alice'')\<lparr>BalanceDelta := Some 7\<rparr>"
      5 "(NewVMOutputAccount ''alice'')\<lparr>BalanceDelta := Some 5\<rparr>"]
  by (auto simp: aliceGains_def)

text \<open>\<open>GetCurrentTotalUsedGas\<close> is the sum, over all output accounts, of the gas they used and of
  the gas limits and locks of the transfers to them, cut off at the largest 64-bit value; its flag
  tells whether any transfer locks gas.\<close>

lemma total_used_gas:
  "unat (fst (GetCurrentTotalUsedGas c)) = min (\<Sum>(_, acc)\<leftarrow>OutputAccounts (outputState c). accountGas acc) (2 ^ 64 - 1) \<and>
   (snd (GetCurrentTotalUsedGas c) \<longleftrightarrow>
     (\<exists>acc. acc \<in> snd ` set (OutputAccounts (outputState c)) \<and> (\<exists>t. t \<in> set (OutputTransfers acc) \<and> ot_GasLocked t \<noteq> 0)))"
  unfolding GetCurrentTotalUsedGas_unat GetCurrentTotalUsedGas_locked by blast

end
