(* ===== verification/Validator.thy ===== *)
theory Validator
  imports SampleState
begin

text \<open>
  \<open>src/vmhost/contexts/validator.go\<close> and \<open>reservedFunctions.go\<close>: what a new contract's exports
  must satisfy before it is deployed.  The loop over the exports map is modelled over the list of
  exported names, in iteration order.
\<close>

definition NewReservedFunctions :: "string set \<Rightarrow> string set \<Rightarrow> string set" where
  "NewReservedFunctions scAPINames builtinFunctions = insert UpgradeFunctionName (builtinFunctions \<union> scAPINames)"

definition IsReserved :: "string set \<Rightarrow> string \<Rightarrow> bool" where
  "IsReserved names f \<longleftrightarrow> f \<in> names"

definition verifyMemoryDeclaration :: "instance_t \<Rightarrow> err option" where
  "verifyMemoryDeclaration i = (if inst_memory i = None then Some ErrMemoryDeclarationMissing else None)"

fun isASCIIString :: "string \<Rightarrow> bool" where
  "isASCIIString [] = True"
| "isASCIIString (c # cs) = (if of_char c > (127 :: nat) then False else isASCIIString cs)"

definition verifyValidFunctionName :: "string set \<Rightarrow> string \<Rightarrow> err option" where
  "verifyValidFunctionName names f =
     (let errInvalidName = Some (ErrWithSuffix ErrInvalidFunctionName f)
      in if length f = 0 then errInvalidName
         else if length f \<ge> 256 then errInvalidName
         else if \<not> isASCIIString f then errInvalidName
         else if IsReserved names f then errInvalidName
         else None)"

definition getInputArity :: "instance_t \<Rightarrow> string \<Rightarrow> err + nat" where
  "getInputArity i f =
     (case go_get (inst_signatures i) f of
        None \<Rightarrow> Inl (ErrWithSuffix ErrFuncNotFound f) | Some (inArity, _) \<Rightarrow> Inr inArity)"

definition getOutputArity :: "instance_t \<Rightarrow> string \<Rightarrow> err + nat" where
  "getOutputArity i f =
     (case go_get (inst_signatures i) f of
        None \<Rightarrow> Inl (ErrWithSuffix ErrFuncNotFound f) | Some (_, outArity) \<Rightarrow> Inr outArity)"

definition verifyVoidFunction :: "instance_t \<Rightarrow> string \<Rightarrow> err option" where
  "verifyVoidFunction i f =
     (case getInputArity i f of
        Inl err \<Rightarrow> Some err
      | Inr inArity \<Rightarrow>
          (case getOutputArity i f of
             Inl err \<Rightarrow> Some err
           | Inr outArity \<Rightarrow>
               if inArity = 0 \<and> outArity = 0 then None
               else Some (ErrWithSuffix ErrFunctionNonvoidSignature f)))"

fun verifyFunctionList :: "string set \<Rightarrow> instance_t \<Rightarrow> string list \<Rightarrow> err option" where
  "verifyFunctionList names i [] = None"
| "verifyFunctionList names i (f # fs) =
     (case verifyValidFunctionName names f of
        Some err \<Rightarrow> Some err
      | None \<Rightarrow> (case verifyVoidFunction i f of
                  Some err \<Rightarrow> Some err
                | None \<Rightarrow> verifyFunctionList names i fs))"

definition verifyFunctions :: "string set \<Rightarrow> instance_t \<Rightarrow> err option" where
  "verifyFunctions names i = verifyFunctionList names i (inst_exports i)"

subsection \<open>What an accepted contract looks like\<close>

definition valid_export :: "string set \<Rightarrow> instance_t \<Rightarrow> string \<Rightarrow> bool" where
  "valid_export names i f \<longleftrightarrow> 0 < length f \<and> length f < 256 \<and> list_all (\<lambda>c. of_char c < (128 :: nat)) f \<and>
     f \<notin> names \<and> go_get (inst_signatures i) f = Some (0, 0)"

lemma isASCIIString_iff: "isASCIIString f \<longleftrightarrow> list_all (\<lambda>c. of_char c < (128 :: nat)) f"
  by (induction f) auto

lemma verify_export_iff:
  "verifyValidFunctionName names f = None \<and> verifyVoidFunction i f = None \<longleftrightarrow> valid_export names i f"
  by (auto simp: verifyValidFunctionName_def verifyVoidFunction_def getInputArity_def getOutputArity_def
    valid_export_def isASCIIString_iff IsReserved_def Let_def split: option.splits prod.splits sum.splits if_splits)

lemma verifyFunctionList_iff:
  "verifyFunctionList names i fs = None \<longleftrightarrow> list_all (valid_export names i) fs"
proof (induction fs)
  case (Cons f fs)
  then show ?case using verify_export_iff [of names f i] by (auto split: option.splits)
qed simp

lemma verifyFunctionList_error:
  "verifyFunctionList names i fs = Some err \<Longrightarrow> errorsIs err ErrInvalidFunction"
proof (induction fs)
  case (Cons f fs)
  then show ?case
    by (auto simp: verifyValidFunctionName_def verifyVoidFunction_def getInputArity_def getOutputArity_def
      Let_def Unwrap_def split: option.splits prod.splits sum.splits if_splits)
qed simp

text \<open>A contract passes the validation of its exports exactly when every exported function has
  a name of 1 to 255 ASCII characters that is not reserved, and takes and returns nothing; every
  rejection is reported as an invalid function.\<close>

lemma verifyFunctions_accepts:
  "(verifyFunctions names i = None \<longleftrightarrow> list_all (valid_export names i) (inst_exports i)) \<and>
   (verifyFunctions names i = Some err \<longrightarrow> errorsIs err ErrInvalidFunction)"
  using verifyFunctionList_error [of names i "inst_exports i" err]
  by (simp add: verifyFunctions_def verifyFunctionList_iff)

lemma verifyFunctions_accepts_example:
  "verifyFunctions {} sampleInstance = None \<and>
   (\<exists>err. verifyFunctions {''get''} sampleInstance = Some err \<and> errorsIs err ErrInvalidFunction)"
proof -
  have "verifyFunctions {''get''} sampleInstance \<noteq> None"
    by (simp add: verifyFunctions_accepts [THEN conjunct1] valid_export_def sample_defs)
  moreover have "verifyFunctions {} sampleInstance = None"
    by (simp add: verifyFunctions_accepts [THEN conjunct1] valid_export_def sample_defs)
  ultimately show ?thesis using verifyFunctions_accepts [of "{''get''}" sampleInstance] by auto
qed

end
