(* ===== verification/RuntimeContext.thy ===== *)
theory RuntimeContext
  imports OutputContext Validator
begin

text \<open>
  \<open>src/vmhost/contexts/runtime.go\<close>: the running Wasmer instance, the call input, the state and
  instance stacks, breakpoints and the instance memory.  Instances live in a heap
  (\<^const>\<open>instances\<close>) and are referred to by reference, because the same instance can be both
  the running one and on the instance stack, and the gas it is charged in one role is read in
  the other.  A method call on a nil instance panics.

  The operations that start an instance or prepare an asynchronous call, which need the metering
  and blockchain contexts, are in the theory \<open>RuntimeExec\<close>.
\<close>

subsection \<open>The running instance\<close>

definition updInstance :: "inst_ref \<Rightarrow> (instance_t \<Rightarrow> instance_t) \<Rightarrow> vm \<Rightarrow> vm" where
  "updInstance r f s = s\<lparr>instances := (instances s)(r := f (instances s r))\<rparr>"

definition GetPointsUsed :: "vm \<Rightarrow> u64" where
  "GetPointsUsed s = (case inst (runtimeCtx s) of None \<Rightarrow> 0 | Some r \<Rightarrow> inst_points (instances s r))"

definition SetPointsUsed :: "u64 \<Rightarrow> vm \<Rightarrow> vm option" where
  "SetPointsUsed gasPoints s = do {
     let gasPoints = (if gasPoints > MaxInt64 then MaxInt64 else gasPoints);
     r \<leftarrow> inst (runtimeCtx s);
     Some (updInstance r (\<lambda>i. i\<lparr>inst_points := gasPoints\<rparr>) s) }"

definition SetRuntimeBreakpointValue :: "BreakpointValue \<Rightarrow> vm \<Rightarrow> vm option" where
  "SetRuntimeBreakpointValue bp s = do {
     r \<leftarrow> inst (runtimeCtx s);
     Some (updInstance r (\<lambda>i. i\<lparr>inst_breakpoint := breakpoint_to_u64 bp\<rparr>) s) }"

definition GetRuntimeBreakpointValue :: "vm \<Rightarrow> BreakpointValue option" where
  "GetRuntimeBreakpointValue s = do {
     r \<leftarrow> inst (runtimeCtx s);
     Some (breakpoint_of_u64 (inst_breakpoint (instances s r))) }"

definition IsWarmInstance :: "vm \<Rightarrow> bool" where
  "IsWarmInstance s \<longleftrightarrow> inst (runtimeCtx s) \<noteq> None \<and> inst (runtimeCtx s) = warmInstance (runtimeCtx s)"

definition CleanWasmerInstance :: "vm \<Rightarrow> vm" where
  "CleanWasmerInstance s =
     (case inst (runtimeCtx s) of
        None \<Rightarrow> s
      | Some r \<Rightarrow>
          if IsWarmInstance s then s
          else (updInstance r (\<lambda>i. i\<lparr>inst_cleaned := True\<rparr>) s)\<lparr>runtimeCtx := (runtimeCtx s)\<lparr>inst := None\<rparr>\<rparr>)"

definition ResetWarmInstance :: "vm \<Rightarrow> vm" where
  "ResetWarmInstance s =
     (case inst (runtimeCtx s) of
        None \<Rightarrow> s
      | Some r \<Rightarrow>
          (updInstance r (\<lambda>i. i\<lparr>inst_cleaned := True\<rparr>) s)
            \<lparr>runtimeCtx := (runtimeCtx s)\<lparr>inst := None, warmInstanceAddress := None, warmInstance := None\<rparr>\<rparr>)"

definition MustVerifyNextContractCode :: "vm \<Rightarrow> vm" where
  "MustVerifyNextContractCode s = s\<lparr>runtimeCtx := (runtimeCtx s)\<lparr>verifyCode := True\<rparr>\<rparr>"

definition SetMaxInstanceCount :: "u64 \<Rightarrow> vm \<Rightarrow> vm" where
  "SetMaxInstanceCount n s = s\<lparr>runtimeCtx := (runtimeCtx s)\<lparr>maxWasmerInstances := n\<rparr>\<rparr>"

definition RunningInstancesCount :: "vm \<Rightarrow> u64" where
  "RunningInstancesCount s = len (instanceStack (runtimeCtx s))"

subsection \<open>Call input\<close>

definition emptyVMInput :: VMInput where
  "emptyVMInput = \<lparr>CallerAddr = [], Arguments = [], CallValue = None, CallType = DirectCall,
     GasPrice = 0, GasProvided = 0, GasLocked = 0, OriginalTxHash = [], CurrentTxHash = [],
     PrevTxHash = [], DCDTTransfers = []\<rparr>"

definition emptyAsyncContextInfo :: AsyncContextInfo where
  "emptyAsyncContextInfo = \<lparr>aci_CallerAddr = [], aci_ReturnData = [], AsyncContextMap = []\<rparr>"

text \<open>The copy \<open>SetVMInput\<close> makes: every field it names, and no other.\<close>

definition copyDCDTTransfer :: "DCDTTransfer \<Rightarrow> DCDTTransfer option" where
  "copyDCDTTransfer t = do {
     v \<leftarrow> DCDTValue t;
     Some \<lparr>DCDTValue = Some v, DCDTTokenName = DCDTTokenName t, DCDTTokenType = DCDTTokenType t,
       DCDTTokenNonce = DCDTTokenNonce t\<rparr> }"

definition copyVMInput :: "VMInput \<Rightarrow> VMInput option" where
  "copyVMInput v = do {
     transfers \<leftarrow> those (map copyDCDTTransfer (DCDTTransfers v));
     Some \<lparr>CallerAddr = CallerAddr v, Arguments = Arguments v,
       CallValue = Some (case CallValue v of None \<Rightarrow> 0 | Some x \<Rightarrow> x), CallType = CallType v,
       GasPrice = GasPrice v, GasProvided = GasProvided v, GasLocked = GasLocked v,
       OriginalTxHash = OriginalTxHash v, CurrentTxHash = CurrentTxHash v, PrevTxHash = [],
       DCDTTransfers = transfers\<rparr> }"

definition SetVMInput :: "VMInput \<Rightarrow> vm \<Rightarrow> vm option" where
  "SetVMInput v s = do { v' \<leftarrow> copyVMInput v; Some (s\<lparr>runtimeCtx := (runtimeCtx s)\<lparr>vmInput := v'\<rparr>\<rparr>) }"

definition SetSCAddress :: "address \<Rightarrow> vm \<Rightarrow> vm" where
  "SetSCAddress a s = s\<lparr>runtimeCtx := (runtimeCtx s)\<lparr>scAddress := a\<rparr>\<rparr>"

definition SetCustomCallFunction :: "string \<Rightarrow> vm \<Rightarrow> vm" where
  "SetCustomCallFunction f s = s\<lparr>runtimeCtx := (runtimeCtx s)\<lparr>callFunction := f\<rparr>\<rparr>"

definition SetReadOnly :: "bool \<Rightarrow> vm \<Rightarrow> vm" where
  "SetReadOnly b s = s\<lparr>runtimeCtx := (runtimeCtx s)\<lparr>readOnly := b\<rparr>\<rparr>"

definition runtime_InitState :: "vm \<Rightarrow> vm" where
  "runtime_InitState s =
     s\<lparr>runtimeCtx := (runtimeCtx s)\<lparr>vmInput := emptyVMInput, scAddress := [], callFunction := [],
         verifyCode := False, readOnly := False, asyncCallInfo := None,
         asyncContextInfo := emptyAsyncContextInfo\<rparr>\<rparr>"

definition runtime_InitStateFromContractCallInput :: "ContractCallInput \<Rightarrow> vm \<Rightarrow> vm option" where
  "runtime_InitStateFromContractCallInput input s = do {
     s \<leftarrow> SetVMInput (cci_VMInput input) s;
     Some (s\<lparr>runtimeCtx := (runtimeCtx s)\<lparr>scAddress := RecipientAddr input, callFunction := Function input,
       asyncContextInfo := emptyAsyncContextInfo\<lparr>aci_CallerAddr := CallerAddr (cci_VMInput input)\<rparr>\<rparr>\<rparr>) }"

definition ExtractCodeUpgradeFromArgs :: "vm \<Rightarrow> (err + bytes \<times> bytes) \<times> vm" where
  "ExtractCodeUpgradeFromArgs s =
     (case Arguments (vmInput (runtimeCtx s)) of
        code # codeMetadata # rest \<Rightarrow>
          (Inr (code, codeMetadata),
           s\<lparr>runtimeCtx := (runtimeCtx s)\<lparr>vmInput := (vmInput (runtimeCtx s))\<lparr>Arguments := rest\<rparr>\<rparr>\<rparr>)
      | _ \<Rightarrow> (Inl ErrInvalidUpgradeArguments, s))"

subsection \<open>State stack and instance stack\<close>

definition pushInstance :: "vm \<Rightarrow> vm" where
  "pushInstance s = s\<lparr>runtimeCtx := (runtimeCtx s)\<lparr>instanceStack := inst (runtimeCtx s) # instanceStack (runtimeCtx s)\<rparr>\<rparr>"

definition popInstance :: "vm \<Rightarrow> vm" where
  "popInstance s =
     (case instanceStack (runtimeCtx s) of
        [] \<Rightarrow> s
      | prevInstance # rest \<Rightarrow>
          let s = s\<lparr>runtimeCtx := (runtimeCtx s)\<lparr>instanceStack := rest\<rparr>\<rparr>
          in if prevInstance = inst (runtimeCtx s) then s
             else let s = CleanWasmerInstance s
                  in s\<lparr>runtimeCtx := (runtimeCtx s)\<lparr>inst := prevInstance\<rparr>\<rparr>)"

definition runtime_PushState :: "vm \<Rightarrow> vm option" where
  "runtime_PushState s = do {
     let rt = runtimeCtx s;
     v \<leftarrow> copyVMInput (vmInput rt);
     let newState = \<lparr>rs_vmInput = v, rs_scAddress = scAddress rt, rs_callFunction = callFunction rt,
       rs_readOnly = readOnly rt, rs_asyncCallInfo = asyncCallInfo rt, rs_asyncContextInfo = asyncContextInfo rt\<rparr>;
     Some (pushInstance (s\<lparr>runtimeCtx := rt\<lparr>runtime_stateStack := newState # runtime_stateStack rt\<rparr>\<rparr>)) }"

definition runtime_PopSetActiveState :: "vm \<Rightarrow> vm option" where
  "runtime_PopSetActiveState s =
     (case runtime_stateStack (runtimeCtx s) of
        [] \<Rightarrow> Some s
      | prevState # rest \<Rightarrow> do {
          let s = s\<lparr>runtimeCtx := (runtimeCtx s)\<lparr>runtime_stateStack := rest\<rparr>\<rparr>;
          s \<leftarrow> SetVMInput (rs_vmInput prevState) s;
          Some (popInstance (s\<lparr>runtimeCtx := (runtimeCtx s)\<lparr>scAddress := rs_scAddress prevState,
            callFunction := rs_callFunction prevState, readOnly := rs_readOnly prevState,
            asyncCallInfo := rs_asyncCallInfo prevState, asyncContextInfo := rs_asyncContextInfo prevState\<rparr>\<rparr>)) })"

definition runtime_PopDiscard :: "vm \<Rightarrow> vm" where
  "runtime_PopDiscard s =
     (case runtime_stateStack (runtimeCtx s) of
        [] \<Rightarrow> s
      | _ # rest \<Rightarrow> popInstance (s\<lparr>runtimeCtx := (runtimeCtx s)\<lparr>runtime_stateStack := rest\<rparr>\<rparr>))"

definition runtime_ClearStateStack :: "vm \<Rightarrow> vm" where
  "runtime_ClearStateStack s = s\<lparr>runtimeCtx := (runtimeCtx s)\<lparr>runtime_stateStack := []\<rparr>\<rparr>"

definition IsContractOnTheStack :: "address \<Rightarrow> vm \<Rightarrow> bool" where
  "IsContractOnTheStack a s \<longleftrightarrow> list_ex (\<lambda>st. a = rs_scAddress st) (runtime_stateStack (runtimeCtx s))"

subsection \<open>Failing\<close>

definition FailExecution :: "err option \<Rightarrow> vm \<Rightarrow> vm option" where
  "FailExecution err s =
     (let s = s\<lparr>outputCtx := SetReturnCode ExecutionFailed (outputCtx s)\<rparr>;
          message = (case err of Some e \<Rightarrow> Error e | None \<Rightarrow> ''execution failed'');
          s = s\<lparr>outputCtx := SetReturnMessage message (outputCtx s)\<rparr>
      in SetRuntimeBreakpointValue BreakpointExecutionFailed s)"

definition SignalUserError :: "string \<Rightarrow> vm \<Rightarrow> vm option" where
  "SignalUserError message s =
     (let s = s\<lparr>outputCtx := SetReturnCode UserError (outputCtx s)\<rparr>;
          s = s\<lparr>outputCtx := SetReturnMessage message (outputCtx s)\<rparr>
      in SetRuntimeBreakpointValue BreakpointSignalError s)"

definition BaseOpsErrorShouldFailExecution :: bool where
  "BaseOpsErrorShouldFailExecution = True"

definition SyncExecAPIErrorShouldFailExecution :: bool where
  "SyncExecAPIErrorShouldFailExecution = True"

definition BigIntAPIErrorShouldFailExecution :: bool where
  "BigIntAPIErrorShouldFailExecution = True"

definition CryptoAPIErrorShouldFailExecution :: bool where
  "CryptoAPIErrorShouldFailExecution = True"

subsection \<open>Exports and code verification\<close>

definition GetFunctionToCall :: "vm \<Rightarrow> (err + string) option" where
  \<comment> \<open>the callback is named by the instance and the exported function\<close>
  "GetFunctionToCall s = do {
     r \<leftarrow> inst (runtimeCtx s);
     let f = callFunction (runtimeCtx s);
     Some (if f \<in> set (inst_exports (instances s r)) then Inr f
           else if f = CallbackFunctionName then Inl ErrNilCallbackFunction
           else Inl ErrFuncNotFound) }"

definition GetInitFunction :: "vm \<Rightarrow> string option option" where
  "GetInitFunction s = do {
     r \<leftarrow> inst (runtimeCtx s);
     Some (if InitFunctionName \<in> set (inst_exports (instances s r)) then Some InitFunctionName else None) }"

definition HasCallbackMethod :: "vm \<Rightarrow> bool option" where
  "HasCallbackMethod s = do {
     r \<leftarrow> inst (runtimeCtx s);
     Some (CallbackFunctionName \<in> set (inst_exports (instances s r))) }"

definition backwardIncompatibleImports :: "string list" where
  "backwardIncompatibleImports = [''transferDCDTExecute'', ''transferDCDTNFTExecute'', ''transferValueExecute'',
     ''getDCDTBalance'', ''getDCDTTokenData'', ''getDCDTTokenType'', ''getDCDTTokenNonce'',
     ''getCurrentDCDTNFTNonce'', ''getDCDTNFTNameLength'', ''getDCDTNFTAttributeLength'',
     ''getDCDTNFTURILength'', ''bigIntGetDCDTExternalBalance'']"

definition checkBackwardCompatibility :: "env \<Rightarrow> instance_t \<Rightarrow> err option" where
  "checkBackwardCompatibility e i =
     (if IsDCDTFunctionsEnabled e then None
      else if list_ex (\<lambda>f. f \<in> set (inst_imports i)) backwardIncompatibleImports then Some ErrContractInvalid
      else None)"

definition VerifyContractCode :: "env \<Rightarrow> vm \<Rightarrow> (err option \<times> vm) option" where
  "VerifyContractCode e s =
     (if \<not> verifyCode (runtimeCtx s) then Some (None, s)
      else do {
        let s = s\<lparr>runtimeCtx := (runtimeCtx s)\<lparr>verifyCode := False\<rparr>\<rparr>;
        r \<leftarrow> inst (runtimeCtx s);
        let i = instances s r;
        Some (case verifyMemoryDeclaration i of
            Some err \<Rightarrow> (Some err, s)
          | None \<Rightarrow> (case verifyFunctions (reserved (runtimeCtx s)) i of
                       Some err \<Rightarrow> (Some err, s)
                     | None \<Rightarrow> (checkBackwardCompatibility e i, s))) })"

subsection \<open>Asynchronous call bookkeeping\<close>

definition SetAsyncCallInfo :: "AsyncCallInfo option \<Rightarrow> vm \<Rightarrow> vm" where
  "SetAsyncCallInfo info s = s\<lparr>runtimeCtx := (runtimeCtx s)\<lparr>asyncCallInfo := info\<rparr>\<rparr>"

definition AddAsyncContextCall :: "bytes \<Rightarrow> AsyncGeneratedCall \<Rightarrow> vm \<Rightarrow> vm" where
  "AddAsyncContextCall contextIdentifier asyncCall s =
     (let info = asyncContextInfo (runtimeCtx s);
          context = (case go_get (AsyncContextMap info) contextIdentifier of
              None \<Rightarrow> \<lparr>Callback = [], AsyncCalls = []\<rparr> | Some c \<Rightarrow> c);
          context = context\<lparr>AsyncCalls := AsyncCalls context @ [asyncCall]\<rparr>
      in s\<lparr>runtimeCtx := (runtimeCtx s)\<lparr>asyncContextInfo :=
            info\<lparr>AsyncContextMap := go_set contextIdentifier context (AsyncContextMap info)\<rparr>\<rparr>\<rparr>)"

definition GetAsyncContext :: "bytes \<Rightarrow> vm \<Rightarrow> err + AsyncContext" where
  "GetAsyncContext contextIdentifier s =
     (case go_get (AsyncContextMap (asyncContextInfo (runtimeCtx s))) contextIdentifier of
        None \<Rightarrow> Inl ErrAsyncContextDoesNotExist | Some c \<Rightarrow> Inr c)"

subsection \<open>Frame lemmas\<close>

lemma updInstance_frame [simp]:
  "bigIntCtx (updInstance r f s) = bigIntCtx s" "outputCtx (updInstance r f s) = outputCtx s"
  "meteringCtx (updInstance r f s) = meteringCtx s" "runtimeCtx (updInstance r f s) = runtimeCtx s"
  "storageCtx (updInstance r f s) = storageCtx s" "nextInstance (updInstance r f s) = nextInstance s"
  "hookLog (updInstance r f s) = hookLog s"
  "instances (updInstance r f s) = (instances s)(r := f (instances s r))"
  by (simp_all add: updInstance_def)

definition savedRuntime :: "runtimeContext \<Rightarrow> runtimeState" where
  \<comment> \<open>the part of the runtime context that the state stack saves\<close>
  "savedRuntime rt = \<lparr>rs_vmInput = the (copyVMInput (vmInput rt)), rs_scAddress = scAddress rt,
     rs_callFunction = callFunction rt, rs_readOnly = readOnly rt, rs_asyncCallInfo = asyncCallInfo rt,
     rs_asyncContextInfo = asyncContextInfo rt\<rparr>"

lemma CleanWasmerInstance_frame [simp]:
  "bigIntCtx (CleanWasmerInstance s) = bigIntCtx s" "outputCtx (CleanWasmerInstance s) = outputCtx s"
  "meteringCtx (CleanWasmerInstance s) = meteringCtx s" "storageCtx (CleanWasmerInstance s) = storageCtx s"
  "hookLog (CleanWasmerInstance s) = hookLog s" "nextInstance (CleanWasmerInstance s) = nextInstance s"
  "(runtimeCtx (CleanWasmerInstance s))\<lparr>inst := x\<rparr> = (runtimeCtx s)\<lparr>inst := x\<rparr>"
  "inst_points (instances (CleanWasmerInstance s) r) = inst_points (instances s r)"
  by (simp_all add: CleanWasmerInstance_def split: option.splits)

lemma popInstance_frame [simp]:
  "bigIntCtx (popInstance s) = bigIntCtx s" "outputCtx (popInstance s) = outputCtx s"
  "meteringCtx (popInstance s) = meteringCtx s" "storageCtx (popInstance s) = storageCtx s"
  "hookLog (popInstance s) = hookLog s" "nextInstance (popInstance s) = nextInstance s"
  "runtimeCtx (popInstance s) = (runtimeCtx s)\<lparr>inst := (case instanceStack (runtimeCtx s) of
       [] \<Rightarrow> inst (runtimeCtx s) | i # _ \<Rightarrow> i), instanceStack := tl (instanceStack (runtimeCtx s))\<rparr>"
  "inst_points (instances (popInstance s) r) = inst_points (instances s r)"
  by (simp_all add: popInstance_def Let_def split: list.splits)

subsection \<open>Copies of the call input\<close>

lemma copyDCDTTransfer_Some: "copyDCDTTransfer t = Some t' \<longleftrightarrow> t' = t \<and> DCDTValue t \<noteq> None"
  by (cases t) (auto simp: copyDCDTTransfer_def bind_Some_iff)

lemma those_copy: "those (map copyDCDTTransfer ts) = Some ts' \<longleftrightarrow> ts' = ts \<and> (\<forall>t\<in>set ts. DCDTValue t \<noteq> None)"
proof (induction ts arbitrary: ts')
  case (Cons t ts)
  have split: "those (x # xs) = Some ys \<longleftrightarrow> (\<exists>z zs. x = Some z \<and> those xs = Some zs \<and> ys = z # zs)"
    for x :: "DCDTTransfer option" and xs ys by (auto split: option.splits)
  show ?case by (auto simp: split Cons.IH copyDCDTTransfer_Some simp del: those.simps)
qed auto

lemma copyVMInput_Some:
  "copyVMInput v = Some v' \<longleftrightarrow> (\<forall>t\<in>set (DCDTTransfers v). DCDTValue t \<noteq> None) \<and>
     v' = v\<lparr>CallValue := Some (case CallValue v of None \<Rightarrow> 0 | Some x \<Rightarrow> x), PrevTxHash := []\<rparr>"
  by (cases v) (auto simp: copyVMInput_def bind_Some_iff those_copy)

lemma copyVMInput_idem: "copyVMInput v = Some v' \<Longrightarrow> copyVMInput v' = Some v'"
  by (auto simp: copyVMInput_Some)

lemma copyVMInput_not_None: "copyVMInput v \<noteq> None \<longleftrightarrow> (\<forall>t\<in>set (DCDTTransfers v). DCDTValue t \<noteq> None)"
  by (auto simp: not_None_eq copyVMInput_Some)

subsection \<open>The state stack\<close>

definition wf_runtime :: "vm \<Rightarrow> bool" where
  "wf_runtime s \<longleftrightarrow> copyVMInput (vmInput (runtimeCtx s)) \<noteq> None \<and>
     list_all (\<lambda>st. copyVMInput (rs_vmInput st) = Some (rs_vmInput st)) (runtime_stateStack (runtimeCtx s))"

lemma runtime_PushState_eq:
  assumes "copyVMInput (vmInput (runtimeCtx s)) \<noteq> None"
  shows "runtime_PushState s = Some (s\<lparr>runtimeCtx := (runtimeCtx s)
    \<lparr>runtime_stateStack := savedRuntime (runtimeCtx s) # runtime_stateStack (runtimeCtx s),
     instanceStack := inst (runtimeCtx s) # instanceStack (runtimeCtx s)\<rparr>\<rparr>)"
  using assms by (auto simp: runtime_PushState_def savedRuntime_def pushInstance_def Let_def bind_eq_Some_conv)

lemma runtime_PushState_None: "copyVMInput (vmInput (runtimeCtx s)) = None \<Longrightarrow> runtime_PushState s = None"
  by (simp add: runtime_PushState_def Let_def)

definition runtime_push :: "vm \<Rightarrow> vm" where
  "runtime_push s = (case runtime_PushState s of None \<Rightarrow> s | Some t \<Rightarrow> t)"

definition runtime_popset :: "vm \<Rightarrow> vm" where
  "runtime_popset s = (case runtime_PopSetActiveState s of None \<Rightarrow> s\<lparr>runtimeCtx := (runtimeCtx s)
     \<lparr>runtime_stateStack := tl (runtime_stateStack (runtimeCtx s))\<rparr>\<rparr> | Some t \<Rightarrow> t)"

lemma runtime_PopSetActiveState_eq:
  assumes "wf_runtime s" "runtime_stateStack (runtimeCtx s) = prev # rest"
  shows "runtime_PopSetActiveState s = Some (popInstance (s\<lparr>runtimeCtx := (runtimeCtx s)\<lparr>runtime_stateStack := rest,
    vmInput := rs_vmInput prev, scAddress := rs_scAddress prev, callFunction := rs_callFunction prev,
    readOnly := rs_readOnly prev, asyncCallInfo := rs_asyncCallInfo prev,
    asyncContextInfo := rs_asyncContextInfo prev\<rparr>\<rparr>))"
  using assms by (simp add: runtime_PopSetActiveState_def SetVMInput_def wf_runtime_def)

lemma runtime_push_no_panic: "wf_runtime s \<Longrightarrow> runtime_PushState s = Some (runtime_push s)"
  by (auto simp: runtime_push_def wf_runtime_def runtime_PushState_eq)

lemma runtime_popset_no_panic: "wf_runtime s \<Longrightarrow> runtime_PopSetActiveState s = Some (runtime_popset s)"
  by (cases "runtime_stateStack (runtimeCtx s)")
    (auto simp: runtime_popset_def runtime_PopSetActiveState_eq, simp add: runtime_PopSetActiveState_def)

lemma copy_savedRuntime:
  "copyVMInput (vmInput rt) \<noteq> None \<Longrightarrow> copyVMInput (rs_vmInput (savedRuntime rt)) = Some (rs_vmInput (savedRuntime rt))"
  by (auto simp: savedRuntime_def copyVMInput_idem)

interpretation runtimeStack: state_stack runtime_push runtime_popset runtime_PopDiscard runtime_ClearStateStack
  "\<lambda>s. savedRuntime (runtimeCtx s)" "\<lambda>s. runtime_stateStack (runtimeCtx s)" wf_runtime
proof (unfold_locales, goal_cases)
  case (1 s) then show ?case by (auto simp: runtime_push_def wf_runtime_def runtime_PushState_eq)
next
  case (2 s) then show ?case by (auto simp: runtime_push_def wf_runtime_def runtime_PushState_eq savedRuntime_def)
next
  case (3 s) then show ?case
    by (auto simp: runtime_popset_def runtime_PopSetActiveState_def SetVMInput_def bind_eq_Some_conv Let_def
      split: option.splits list.splits)
next
  case (4 s)
  then obtain prev rest where st: "runtime_stateStack (runtimeCtx s) = prev # rest"
    by (cases "runtime_stateStack (runtimeCtx s)") auto
  with 4 show ?case
    by (cases prev) (auto simp: runtime_popset_def runtime_PopSetActiveState_eq savedRuntime_def wf_runtime_def)
next
  case (5 s) then show ?case by (simp add: runtime_popset_def runtime_PopSetActiveState_def)
next
  case (6 s) then show ?case by (auto simp: runtime_PopDiscard_def split: list.splits)
next
  case (7 s) then show ?case by (auto simp: runtime_PopDiscard_def savedRuntime_def split: list.splits)
next
  case (8 s) then show ?case by (simp add: runtime_ClearStateStack_def)
next
  case (9 s) then show ?case by (simp add: runtime_ClearStateStack_def savedRuntime_def)
next
  case (10 s) then show ?case
    by (auto simp: runtime_push_def wf_runtime_def runtime_PushState_eq copy_savedRuntime [unfolded not_None_eq])
next
  case (11 s)
  then show ?case
  proof (cases "runtime_stateStack (runtimeCtx s)")
    case Nil
    with 11 show ?thesis by (simp add: runtime_popset_def runtime_PopSetActiveState_def)
  next
    case (Cons prev rest)
    with 11 show ?thesis by (auto simp: runtime_popset_def runtime_PopSetActiveState_eq wf_runtime_def)
  qed
next
  case (12 s) then show ?case
    by (auto simp: runtime_PopDiscard_def wf_runtime_def split: list.splits)
qed

end
