(* ===== verification/MeteringContext.thy ===== *)
theory MeteringContext
  imports RuntimeContext
begin

text \<open>
  \<open>src/vmhost/contexts/metering.go\<close>: gas charged to the running instance, the gas forwarded
  between contracts, and the costs deducted before execution.  Gas used lives in the instance
  (\<open>GetPointsUsed\<close>, \<open>SetPointsUsed\<close>), so charging gas panics when no instance is running.
\<close>

subsection \<open>State\<close>

definition metering_InitState :: "meteringContext \<Rightarrow> meteringContext" where
  "metering_InitState c = c\<lparr>gasStates := [], initialGasProvided := 0, initialCost := 0, gasForExecution := 0\<rparr>"

definition savedMetering :: "meteringContext \<Rightarrow> meteringState" where
  "savedMetering c = \<lparr>ms_initialGasProvided = initialGasProvided c, ms_initialCost = initialCost c,
     ms_gasForExecution = gasForExecution c\<rparr>"

definition metering_PushState :: "meteringContext \<Rightarrow> meteringContext" where
  "metering_PushState c = c\<lparr>metering_stateStack := savedMetering c # metering_stateStack c\<rparr>"

definition metering_PopSetActiveState :: "meteringContext \<Rightarrow> meteringContext" where
  "metering_PopSetActiveState c =
     (case metering_stateStack c of
        [] \<Rightarrow> c
      | prevState # rest \<Rightarrow>
          c\<lparr>metering_stateStack := rest, initialGasProvided := ms_initialGasProvided prevState,
            initialCost := ms_initialCost prevState, gasForExecution := ms_gasForExecution prevState\<rparr>)"

definition metering_PopDiscard :: "meteringContext \<Rightarrow> meteringContext" where
  "metering_PopDiscard c =
     (case metering_stateStack c of [] \<Rightarrow> c | _ # rest \<Rightarrow> c\<lparr>metering_stateStack := rest\<rparr>)"

definition metering_ClearStateStack :: "meteringContext \<Rightarrow> meteringContext" where
  "metering_ClearStateStack c = c\<lparr>metering_stateStack := []\<rparr>"

definition unlockGasIfAsyncCallback :: "VMInput \<Rightarrow> meteringContext \<Rightarrow> VMInput \<times> meteringContext" where
  "unlockGasIfAsyncCallback input c =
     (if CallType input \<noteq> AsynchronousCallBack then (input, c)
      else let gasProvided = AddUint64 (GasProvided input) (GasLocked input)
           in (input\<lparr>GasProvided := gasProvided, GasLocked := 0\<rparr>, c\<lparr>gasForExecution := gasProvided\<rparr>))"

definition metering_InitStateFromContractCallInput :: "VMInput \<Rightarrow> meteringContext \<Rightarrow> VMInput \<times> meteringContext" where
  \<comment> \<open>the input is passed by pointer and changed in place: the caller's input is the returned one\<close>
  "metering_InitStateFromContractCallInput input c =
     (let (input, c) = unlockGasIfAsyncCallback input c
      in (input, c\<lparr>initialGasProvided := GasProvided input, gasForExecution := GasProvided input, initialCost := 0\<rparr>))"

subsection \<open>Charging gas\<close>

definition UseGas :: "u64 \<Rightarrow> vm \<Rightarrow> vm option" where
  "UseGas gas s = SetPointsUsed (AddUint64 (GetPointsUsed s) gas) s"

definition RestoreGas :: "u64 \<Rightarrow> vm \<Rightarrow> vm option" where
  "RestoreGas gas s =
     (let gasUsed = GetPointsUsed s
      in if gas \<le> gasUsed then SetPointsUsed (gasUsed - gas) s else Some s)"

definition FreeGas :: "u64 \<Rightarrow> vm \<Rightarrow> vm option" where
  "FreeGas gas s = do {
     refund \<leftarrow> GetRefund (outputCtx s);
     Some (s\<lparr>outputCtx := SetRefund (AddUint64 refund gas) (outputCtx s)\<rparr>) }"

definition GasLeft :: "vm \<Rightarrow> u64" where
  "GasLeft s =
     (let gasProvided = gasForExecution (meteringCtx s); gasUsed = GetPointsUsed s
      in if gasProvided < gasUsed then 0 else gasProvided - gasUsed)"

definition UseGasBounded :: "u64 \<Rightarrow> vm \<Rightarrow> (err option \<times> vm) option" where
  "UseGasBounded gasToUse s =
     (if GasLeft s \<le> gasToUse then Some (Some ErrNotEnoughGas, s)
      else do { s \<leftarrow> UseGas gasToUse s; Some (None, s) })"

definition BoundGasLimit :: "i64 \<Rightarrow> vm \<Rightarrow> u64" where
  "BoundGasLimit val s = (let gasLeft = GasLeft s; limit = val in if gasLeft < limit then gasLeft else limit)"

definition UseGasForAsyncStep :: "vm \<Rightarrow> (err option \<times> vm) option" where
  "UseGasForAsyncStep s = UseGasBounded (AsyncCallStep (gasSchedule (meteringCtx s))) s"

subsection \<open>Gas forwarded to other contracts\<close>

definition getContractGasState :: "address \<Rightarrow> meteringContext \<Rightarrow> contractGasState \<times> meteringContext" where
  "getContractGasState a c =
     (case go_get (gasStates c) a of
        Some st \<Rightarrow> (st, c)
      | None \<Rightarrow> let st = \<lparr>forwarded = 0, returned = 0\<rparr> in (st, c\<lparr>gasStates := go_set a st (gasStates c)\<rparr>))"

definition addForwardedGas :: "address \<Rightarrow> u64 \<Rightarrow> meteringContext \<Rightarrow> meteringContext" where
  "addForwardedGas a gas c =
     (let (st, c) = getContractGasState a c
      in c\<lparr>gasStates := go_set a (st\<lparr>forwarded := AddUint64 (forwarded st) gas\<rparr>) (gasStates c)\<rparr>)"

definition addReturnedGas :: "address \<Rightarrow> u64 \<Rightarrow> meteringContext \<Rightarrow> meteringContext" where
  "addReturnedGas a gas c =
     (let (st, c) = getContractGasState a c
      in c\<lparr>gasStates := go_set a (st\<lparr>returned := AddUint64 (returned st) gas\<rparr>) (gasStates c)\<rparr>)"

definition getTotalForwardedGas :: "address \<Rightarrow> meteringContext \<Rightarrow> u64 \<times> meteringContext" where
  "getTotalForwardedGas a c =
     (let (st, c) = getContractGasState a c in (fst (SubUint64 (forwarded st) (returned st)), c))"

definition ForwardGas :: "address \<Rightarrow> address \<Rightarrow> u64 \<Rightarrow> vm \<Rightarrow> vm" where
  "ForwardGas sourceAddress destAddress gas s =
     (let c = addForwardedGas sourceAddress gas (meteringCtx s);
          selfCall = (sourceAddress = destAddress);
          alreadyOnExecutionStack = IsContractOnTheStack destAddress s;
          c = (if selfCall \<or> alreadyOnExecutionStack then addReturnedGas destAddress gas c else c)
      in s\<lparr>meteringCtx := c\<rparr>)"

subsection \<open>Gas used\<close>

definition GasUsedByContract :: "env \<Rightarrow> vm \<Rightarrow> (u64 \<times> u64) \<times> vm" where
  "GasUsedByContract e s =
     (let executionGasUsed = GetPointsUsed s;
          gasUsed = (if IsVMV2Enabled e then initialCost (meteringCtx s) else 0);
          gasUsed = AddUint64 gasUsed executionGasUsed;
          (totalGasForwarded, c) = getTotalForwardedGas (scAddress (runtimeCtx s)) (meteringCtx s)
      in (SubUint64 gasUsed totalGasForwarded, s\<lparr>meteringCtx := c\<rparr>))"

definition GasUsedForExecution :: "env \<Rightarrow> vm \<Rightarrow> u64 \<times> vm" where
  "GasUsedForExecution e s =
     (let ((gasUsed, _), s) = GasUsedByContract e s
      in (fst (SubUint64 gasUsed (initialCost (meteringCtx s))), s))"

definition GasSpentByContract :: "env \<Rightarrow> vm \<Rightarrow> u64" where
  "GasSpentByContract e s =
     AddUint64 (if IsVMV2Enabled e then initialCost (meteringCtx s) else 0) (GetPointsUsed s)"

definition GetGasLocked :: "vm \<Rightarrow> u64" where
  "GetGasLocked s = GasLocked (vmInput (runtimeCtx s))"

definition ComputeGasLockedForAsync :: "env \<Rightarrow> vm \<Rightarrow> u64" where
  "ComputeGasLockedForAsync e s =
     (let gs = gasSchedule (meteringCtx s);
          costPerByte = (if IsAheadOfTimeCompileEnabled e then AoTPreparePerByte (baseOperationCost gs)
                         else CompilePerByte (baseOperationCost gs));
          compilationGasLock = (if IsDynamicGasLockingEnabled e
                                then MulUint64 (codeSize (runtimeCtx s)) costPerByte else 0);
          executionGasLock = AddUint64 (AsyncCallStep gs) (AsyncCallbackGasLock gs)
      in AddUint64 compilationGasLock executionGasLock)"

subsection \<open>Costs deducted before execution\<close>

definition deductInitialGas :: "bytes \<Rightarrow> u64 \<Rightarrow> u64 \<Rightarrow> vm \<Rightarrow> err option \<times> vm" where
  "deductInitialGas code baseCost costPerByte s =
     (let input = vmInput (runtimeCtx s);
          codeCost = MulUint64 (len code) costPerByte;
          cost = AddUint64 baseCost codeCost
      in if cost > GasProvided input then (Some ErrNotEnoughGas, s)
         else (None, s\<lparr>meteringCtx := (meteringCtx s)\<lparr>initialCost := cost, gasForExecution := GasProvided input - cost\<rparr>\<rparr>))"

definition DeductInitialGasForExecution :: "env \<Rightarrow> bytes \<Rightarrow> vm \<Rightarrow> err option \<times> vm" where
  "DeductInitialGasForExecution e contract s =
     (let base = baseOperationCost (gasSchedule (meteringCtx s))
      in if IsAheadOfTimeCompileEnabled e
         then deductInitialGas contract (GetCodeCost base) (AoTPreparePerByte base) s
         else deductInitialGas contract 0 (CompilePerByte base) s)"

definition DeductInitialGasForDirectDeployment :: "CodeDeployInput \<Rightarrow> vm \<Rightarrow> err option \<times> vm" where
  "DeductInitialGasForDirectDeployment input s =
     deductInitialGas (ContractCode input) (CreateContract (gasSchedule (meteringCtx s)))
       (CompilePerByte (baseOperationCost (gasSchedule (meteringCtx s)))) s"

definition DeductInitialGasForIndirectDeployment :: "CodeDeployInput \<Rightarrow> vm \<Rightarrow> err option \<times> vm" where
  "DeductInitialGasForIndirectDeployment input s =
     deductInitialGas (ContractCode input) 0 (CompilePerByte (baseOperationCost (gasSchedule (meteringCtx s)))) s"

definition SetTotalUsedGas :: "u64 \<Rightarrow> vm \<Rightarrow> vm" where
  "SetTotalUsedGas gas s = s\<lparr>meteringCtx := (meteringCtx s)\<lparr>totalUsedGas := gas\<rparr>\<rparr>"

subsection \<open>The state stack\<close>

lemmas metering_stack_defs = metering_PushState_def metering_PopSetActiveState_def metering_PopDiscard_def
  metering_ClearStateStack_def

interpretation meteringStack: state_stack metering_PushState metering_PopSetActiveState metering_PopDiscard
  metering_ClearStateStack savedMetering metering_stateStack "\<lambda>_. True"
  by unfold_locales (auto simp: metering_stack_defs savedMetering_def split: list.splits)

subsection \<open>Charging, restoring and bounding\<close>

abbreviation pointsOf :: "vm \<Rightarrow> nat" where
  "pointsOf s \<equiv> unat (GetPointsUsed s)"

definition running :: "vm \<Rightarrow> bool" where
  \<comment> \<open>an instance is running\<close>
  "running s \<longleftrightarrow> inst (runtimeCtx s) \<noteq> None"

lemma unat_MaxInt64 [simp]: "unat MaxInt64 = 2 ^ 63 - 1"
  by simp

lemma SetPointsUsed_eq:
  "inst (runtimeCtx s) = Some r \<Longrightarrow>
   SetPointsUsed g s = Some (updInstance r (\<lambda>i. i\<lparr>inst_points := min g MaxInt64\<rparr>) s)"
  by (simp add: SetPointsUsed_def Let_def min_def)

lemma GetPointsUsed_upd:
  "inst (runtimeCtx s) = Some r \<Longrightarrow> GetPointsUsed (updInstance r (\<lambda>i. i\<lparr>inst_points := g\<rparr>) s) = g"
  by (simp add: GetPointsUsed_def)

lemma unat_min: "unat (min a b :: u64) = min (unat a) (unat b)"
  by (simp add: min_def u64_le_iff)

lemma UseGas_points:
  assumes "UseGas g s = Some s'"
  shows "pointsOf s' = min (pointsOf s + unat g) (2 ^ 63 - 1)"
  using assms
  by (auto simp: UseGas_def SetPointsUsed_def bind_Some_iff Let_def GetPointsUsed_upd unat_AddUint64
    u64_less_iff min_def split: if_splits)

lemma UseGas_no_panic: "UseGas g s \<noteq> None \<longleftrightarrow> running s"
  by (cases "inst (runtimeCtx s)") (auto simp: UseGas_def SetPointsUsed_def running_def Let_def)

lemma UseGas_frame [frame]:
  assumes "UseGas g s = Some s'"
  shows "bigIntCtx s' = bigIntCtx s" "outputCtx s' = outputCtx s" "meteringCtx s' = meteringCtx s"
    "runtimeCtx s' = runtimeCtx s" "storageCtx s' = storageCtx s" "hookLog s' = hookLog s"
    "nextInstance s' = nextInstance s"
  using assms by (auto simp: UseGas_def SetPointsUsed_def bind_Some_iff Let_def)

lemma unat_GasLeft: "unat (GasLeft s) = unat (gasForExecution (meteringCtx s)) - pointsOf s"
  by (auto simp: GasLeft_def Let_def u64_less_iff u64_le_iff unat_u64_diff)

lemma UseGas_GasLeft:
  assumes "UseGas g s = Some s'" "unat (gasForExecution (meteringCtx s)) \<le> 2 ^ 63 - 1"
  shows "unat (GasLeft s') = unat (GasLeft s) - unat g"
  using UseGas_points [OF assms(1)] UseGas_frame [OF assms(1)] assms(2) by (simp add: unat_GasLeft min_def)

lemma UseGasBounded_ok:
  assumes "UseGasBounded g s = Some (None, s')"
  shows "unat g < unat (GasLeft s)" "UseGas g s = Some s'"
  using assms by (auto simp: UseGasBounded_def u64_le_iff bind_Some_iff split: if_splits)

lemma BoundGasLimit_min: "unat (BoundGasLimit g s) = min (unat (GasLeft s)) (unat g)"
  by (simp add: BoundGasLimit_def Let_def u64_less_iff min_def)

lemma RestoreGas_points:
  assumes "RestoreGas g s = Some s'" "pointsOf s \<le> 2 ^ 63 - 1"
  shows "pointsOf s' = (if unat g \<le> pointsOf s then pointsOf s - unat g else pointsOf s)"
  using assms
  by (auto simp: RestoreGas_def SetPointsUsed_def bind_Some_iff Let_def GetPointsUsed_upd u64_less_iff
    u64_le_iff unat_u64_diff split: if_splits)

lemma RestoreGas_frame [frame]:
  assumes "RestoreGas g s = Some s'"
  shows "bigIntCtx s' = bigIntCtx s" "outputCtx s' = outputCtx s" "meteringCtx s' = meteringCtx s"
    "runtimeCtx s' = runtimeCtx s" "storageCtx s' = storageCtx s" "hookLog s' = hookLog s"
    "nextInstance s' = nextInstance s"
  using assms by (auto simp: RestoreGas_def SetPointsUsed_def bind_Some_iff Let_def split: if_splits)

subsection \<open>Forwarded gas\<close>

definition forwardedTo :: "address \<Rightarrow> meteringContext \<Rightarrow> nat" where
  "forwardedTo a c = (case go_get (gasStates c) a of None \<Rightarrow> 0 | Some st \<Rightarrow> unat (forwarded st))"

definition returnedTo :: "address \<Rightarrow> meteringContext \<Rightarrow> nat" where
  "returnedTo a c = (case go_get (gasStates c) a of None \<Rightarrow> 0 | Some st \<Rightarrow> unat (returned st))"

lemma addForwardedGas_effect:
  "forwardedTo b (addForwardedGas a g c) =
     (if b = a then min (forwardedTo a c + unat g) (2 ^ 64 - 1) else forwardedTo b c)"
  "returnedTo b (addForwardedGas a g c) = returnedTo b c"
  using unat_u64_le [of g]
  by (auto simp: addForwardedGas_def getContractGasState_def Let_def forwardedTo_def returnedTo_def go_simps
    unat_AddUint64 split: option.splits)

lemma addReturnedGas_effect:
  "returnedTo b (addReturnedGas a g c) =
     (if b = a then min (returnedTo a c + unat g) (2 ^ 64 - 1) else returnedTo b c)"
  "forwardedTo b (addReturnedGas a g c) = forwardedTo b c"
  using unat_u64_le [of g]
  by (auto simp: addReturnedGas_def getContractGasState_def Let_def forwardedTo_def returnedTo_def go_simps
    unat_AddUint64 split: option.splits)

lemma getTotalForwardedGas_value:
  "unat (fst (getTotalForwardedGas a c)) = forwardedTo a c - returnedTo a c"
  by (auto simp: getTotalForwardedGas_def getContractGasState_def Let_def forwardedTo_def returnedTo_def
    split: option.splits)

lemma getTotalForwardedGas_frame:
  "initialCost (snd (getTotalForwardedGas a c)) = initialCost c"
  "gasForExecution (snd (getTotalForwardedGas a c)) = gasForExecution c"
  "initialGasProvided (snd (getTotalForwardedGas a c)) = initialGasProvided c"
  "totalUsedGas (snd (getTotalForwardedGas a c)) = totalUsedGas c"
  "metering_stateStack (snd (getTotalForwardedGas a c)) = metering_stateStack c"
  "gasSchedule (snd (getTotalForwardedGas a c)) = gasSchedule c"
  "blockGasLimit (snd (getTotalForwardedGas a c)) = blockGasLimit c"
  "forwardedTo b (snd (getTotalForwardedGas a c)) = forwardedTo b c"
  "returnedTo b (snd (getTotalForwardedGas a c)) = returnedTo b c"
  by (auto simp: getTotalForwardedGas_def getContractGasState_def Let_def forwardedTo_def returnedTo_def go_simps
    split: option.splits)

lemma ForwardGas_frame [simp]:
  "bigIntCtx (ForwardGas a b g s) = bigIntCtx s" "outputCtx (ForwardGas a b g s) = outputCtx s"
  "runtimeCtx (ForwardGas a b g s) = runtimeCtx s" "storageCtx (ForwardGas a b g s) = storageCtx s"
  "instances (ForwardGas a b g s) = instances s" "hookLog (ForwardGas a b g s) = hookLog s"
  "nextInstance (ForwardGas a b g s) = nextInstance s"
  "savedMetering (meteringCtx (ForwardGas a b g s)) = savedMetering (meteringCtx s)"
  "metering_stateStack (meteringCtx (ForwardGas a b g s)) = metering_stateStack (meteringCtx s)"
  "GetPointsUsed (ForwardGas a b g s) = GetPointsUsed s"
  by (auto simp: ForwardGas_def Let_def addForwardedGas_def addReturnedGas_def getContractGasState_def
    savedMetering_def GetPointsUsed_def split: option.splits)

subsection \<open>Properties\<close>

text \<open>Charging gas within bounds.  \<open>UseGasBounded\<close> charges the gas exactly when strictly more is
  left, and then lowers what is left by as much; otherwise it reports that the gas is not enough
  and changes nothing.  \<open>BoundGasLimit\<close> never grants more than what is left.\<close>

lemma UseGasBounded_charges:
  assumes "running s" "unat (gasForExecution (meteringCtx s)) \<le> 2 ^ 63 - 1"
  shows "\<exists>r s'. UseGasBounded g s = Some (r, s') \<and>
    (if unat g < unat (GasLeft s) then r = None \<and> unat (GasLeft s') = unat (GasLeft s) - unat g
     else r = Some ErrNotEnoughGas \<and> s' = s) \<and>
    unat (BoundGasLimit l s) = min (unat (GasLeft s)) (unat l)"
proof (cases "unat g < unat (GasLeft s)")
  case True
  obtain t where t: "UseGas g s = Some t" using assms(1) UseGas_no_panic [of g s] by auto
  with True UseGas_GasLeft [OF t assms(2)] show ?thesis
    by (auto simp: UseGasBounded_def u64_le_iff BoundGasLimit_min)
next
  case False
  then show ?thesis by (simp add: UseGasBounded_def u64_le_iff BoundGasLimit_min)
qed

lemma sample_running: "running sampleVM"
  by (simp add: running_def sample_defs)

lemma sample_gas: "unat (gasForExecution (meteringCtx sampleVM)) \<le> 2 ^ 63 - 1" "unat (GasLeft sampleVM) = 979"
    "pointsOf sampleVM = 10"
  by (simp_all add: unat_GasLeft GetPointsUsed_def) (simp_all add: sample_defs)

lemma UseGasBounded_charges_example:
  "(\<exists>s'. UseGasBounded 100 sampleVM = Some (None, s') \<and> unat (GasLeft s') = 879) \<and>
   UseGasBounded 979 sampleVM = Some (Some ErrNotEnoughGas, sampleVM)"
  using UseGasBounded_charges [OF sample_running sample_gas(1), of 100 0]
    UseGasBounded_charges [OF sample_running sample_gas(1), of 979 0] by (auto simp: sample_gas(2))

text \<open>The cost deducted before an execution is the code's length times the price of a byte, and
  the price of fetching it when code is compiled ahead of time.  The deduction succeeds exactly when
  the provided gas covers that cost, and then the cost and the gas left for the execution add up to
  the gas provided.\<close>

lemma initial_gas_deducted:
  assumes "length code < 2 ^ 64" "unat (GasProvided (vmInput (runtimeCtx s))) < 2 ^ 64 - 1"
    "base = baseOperationCost (gasSchedule (meteringCtx s))"
    "cost = (if IsAheadOfTimeCompileEnabled e then unat (GetCodeCost base) + length code * unat (AoTPreparePerByte base)
             else length code * unat (CompilePerByte base))"
  shows "\<exists>r s'. DeductInitialGasForExecution e code s = (r, s') \<and>
    (if cost \<le> unat (GasProvided (vmInput (runtimeCtx s)))
     then r = None \<and> unat (initialCost (meteringCtx s')) = cost \<and>
       cost + unat (gasForExecution (meteringCtx s')) = unat (GasProvided (vmInput (runtimeCtx s)))
     else r = Some ErrNotEnoughGas \<and> s' = s)"
proof -
  let ?p = "GasProvided (vmInput (runtimeCtx s))"
  have deduct: "\<exists>r s'. deductInitialGas code b c s = (r, s') \<and>
      (if unat b + length code * unat c \<le> unat ?p
       then r = None \<and> unat (initialCost (meteringCtx s')) = unat b + length code * unat c \<and>
         unat b + length code * unat c + unat (gasForExecution (meteringCtx s')) = unat ?p
       else r = Some ErrNotEnoughGas \<and> s' = s)" for b c
  proof -
    let ?c = "AddUint64 b (MulUint64 (len code) c)"
    have c: "unat ?c = min (unat b + length code * unat c) (2 ^ 64 - 1)"
      using assms(1) by (simp add: unat_AddUint64 unat_MulUint64 unat_len min_def)
    have "?c > ?p \<longleftrightarrow> \<not> unat b + length code * unat c \<le> unat ?p"
      using assms(2) by (auto simp: u64_less_iff c min_def)
    then show ?thesis
      using c assms(2) by (auto simp: deductInitialGas_def Let_def unat_u64_diff u64_le_iff min_def)
  qed
  let ?b = "if IsAheadOfTimeCompileEnabled e then GetCodeCost base else 0"
  let ?c = "if IsAheadOfTimeCompileEnabled e then AoTPreparePerByte base else CompilePerByte base"
  have "DeductInitialGasForExecution e code s = deductInitialGas code ?b ?c s" "cost = unat ?b + length code * unat ?c"
    using assms(3,4) by (simp_all add: DeductInitialGasForExecution_def Let_def)
  with deduct [of ?b ?c] show ?thesis by (simp only:)
qed

lemma initial_gas_deducted_example:
  "\<exists>s'. DeductInitialGasForExecution sampleEnv ''code'' sampleVM = (None, s') \<and>
    unat (initialCost (meteringCtx s')) = 11 \<and> unat (gasForExecution (meteringCtx s')) = 989"
  using initial_gas_deducted [of "''code''" sampleVM _ _ sampleEnv, OF _ _ refl refl]
  by (simp add: IsAheadOfTimeCompileEnabled_def sample_defs)

text \<open>A call is charged for the gas it was given and refunded the gas it did not use: afterwards
  the caller has paid exactly the difference.\<close>

lemma charge_then_restore:
  assumes "running s" "pointsOf s + unat given \<le> 2 ^ 63 - 1" "unat unused \<le> unat given"
  shows "\<exists>t s'. UseGas given s = Some t \<and> RestoreGas unused t = Some s' \<and>
    pointsOf s' = pointsOf s + (unat given - unat unused)"
proof -
  obtain t where t: "UseGas given s = Some t" using assms(1) UseGas_no_panic [of given s] by auto
  have p: "pointsOf t = pointsOf s + unat given" using UseGas_points [OF t] assms(2) by simp
  have "inst (runtimeCtx t) \<noteq> None" using assms(1) UseGas_frame(4) [OF t] by (simp add: running_def)
  then obtain s' where s': "RestoreGas unused t = Some s'"
    by (cases "RestoreGas unused t") (auto simp: RestoreGas_def SetPointsUsed_def Let_def split: if_splits)
  from RestoreGas_points [OF s'] p assms(2,3) t s' show ?thesis by auto
qed

lemma charge_then_restore_example:
  "\<exists>t s'. UseGas 200 sampleVM = Some t \<and> RestoreGas 150 t = Some s' \<and> pointsOf s' = 60"
  using charge_then_restore [OF sample_running, of 200 150] by (auto simp: sample_gas(3))

text \<open>Gas forwarded by a caller to a callee is added to what the caller has forwarded; when the
  callee is the caller itself or a contract that is already executing, it is also recorded as
  returned to it; no other contract's record changes.\<close>

lemma ForwardGas_accounting:
  "forwardedTo b (meteringCtx (ForwardGas src dst g s)) =
     (if b = src then min (forwardedTo src (meteringCtx s) + unat g) (2 ^ 64 - 1) else forwardedTo b (meteringCtx s)) \<and>
   returnedTo b (meteringCtx (ForwardGas src dst g s)) =
     (if b = dst \<and> (src = dst \<or> IsContractOnTheStack dst s) then min (returnedTo dst (meteringCtx s) + unat g) (2 ^ 64 - 1)
      else returnedTo b (meteringCtx s)) \<and>
   unat (fst (getTotalForwardedGas b (meteringCtx s))) = forwardedTo b (meteringCtx s) - returnedTo b (meteringCtx s)"
  by (simp add: ForwardGas_def Let_def addForwardedGas_effect addReturnedGas_effect getTotalForwardedGas_value)

end
