(* ===== verification/BlockchainContext.thy ===== *)
theory BlockchainContext
  imports MeteringContext
begin

text \<open>
  \<open>src/vmhost/contexts/blockchain.go\<close>: accounts as the VM sees them, the node's account plus the
  changes recorded in the output account.  Looking an account up creates its output account, and
  a balance, nonce or code read from the node is cached there.  A nil account is
  \<open>Inr None\<close>.  The operations that only forward a call to the hook are the hook itself.
\<close>

definition outAccounts :: "vm \<Rightarrow> (address, OutputAccount) gomap" where
  "outAccounts s = OutputAccounts (outputState (outputCtx s))"

definition host_GetOutputAccount :: "address \<Rightarrow> vm \<Rightarrow> (OutputAccount \<times> bool) \<times> vm" where
  "host_GetOutputAccount a s =
     (let (r, c) = GetOutputAccount a (outputCtx s) in (r, s\<lparr>outputCtx := c\<rparr>))"

definition host_setAccount :: "address \<Rightarrow> OutputAccount \<Rightarrow> vm \<Rightarrow> vm" where
  "host_setAccount a acc s = s\<lparr>outputCtx := setAccount a acc (outputCtx s)\<rparr>"

definition AccountExists :: "env \<Rightarrow> address \<Rightarrow> vm \<Rightarrow> bool" where
  "AccountExists e a s =
     (case hook_GetUserAccount e (hookLog s) a of
        Inl _ \<Rightarrow> False | Inr None \<Rightarrow> False | Inr (Some _) \<Rightarrow> True)"

definition GetBalanceBigInt :: "env \<Rightarrow> address \<Rightarrow> vm \<Rightarrow> (int \<times> vm) option" where
  "GetBalanceBigInt e a s =
     (let ((outputAccount, isNew), s) = host_GetOutputAccount a s
      in if \<not> isNew then
           (case Balance outputAccount of
              Some bal \<Rightarrow> do { delta \<leftarrow> BalanceDelta outputAccount; Some (bal + delta, s) }
            | None \<Rightarrow>
                (case hook_GetUserAccount e (hookLog s) a of
                   Inr (Some account) \<Rightarrow> do {
                     let outputAccount = outputAccount\<lparr>Balance := Some (ua_Balance account)\<rparr>;
                     let s = host_setAccount a outputAccount s;
                     delta \<leftarrow> BalanceDelta outputAccount;
                     Some (ua_Balance account + delta, s) }
                 | _ \<Rightarrow> Some (0, s)))
         else
           (case hook_GetUserAccount e (hookLog s) a of
              Inr (Some account) \<Rightarrow>
                Some (ua_Balance account, host_setAccount a (outputAccount\<lparr>Balance := Some (ua_Balance account)\<rparr>) s)
            | _ \<Rightarrow> Some (0, s)))"

definition GetBalance :: "env \<Rightarrow> address \<Rightarrow> vm \<Rightarrow> (bytes \<times> vm) option" where
  "GetBalance e a s = do { (balance, s) \<leftarrow> GetBalanceBigInt e a s; Some (Bytes balance, s) }"

definition GetNonce :: "env \<Rightarrow> address \<Rightarrow> vm \<Rightarrow> (u64 \<times> err option) \<times> vm" where
  "GetNonce e a s =
     (let ((outputAccount, isNew), s) = host_GetOutputAccount a s;
          readNonceFromBlockChain = (isNew \<or> (Nonce outputAccount = 0 \<and> IsVMV3Enabled e))
      in if \<not> readNonceFromBlockChain then ((Nonce outputAccount, None), s)
         else (case hook_GetUserAccount e (hookLog s) a of
                 Inl err \<Rightarrow> ((0, Some err), s)
               | Inr None \<Rightarrow> ((0, None), s)
               | Inr (Some account) \<Rightarrow>
                   ((ua_Nonce account, None), host_setAccount a (outputAccount\<lparr>Nonce := ua_Nonce account\<rparr>) s)))"

definition IncreaseNonce :: "env \<Rightarrow> address \<Rightarrow> vm \<Rightarrow> vm" where
  "IncreaseNonce e a s =
     (let ((nonce, _), s) = GetNonce e a s;
          ((outputAccount, _), s) = host_GetOutputAccount a s
      in host_setAccount a (outputAccount\<lparr>Nonce := nonce + 1\<rparr>) s)"

definition NewAddress :: "env \<Rightarrow> address \<Rightarrow> vm \<Rightarrow> (err + address) \<times> vm" where
  "NewAddress e creatorAddress s =
     (let ((nonce, err), s) = GetNonce e creatorAddress s
      in case err of
           Some err \<Rightarrow> (Inl err, s)
         | None \<Rightarrow>
             let isIndirectDeployment = (hook_IsSmartContract e creatorAddress \<and> IsVMV3Enabled e);
                 nonce = (if \<not> isIndirectDeployment \<and> nonce > 0 then nonce - 1 else nonce)
             in (hook_NewAddress e creatorAddress nonce (vmType (runtimeCtx s)),
                 s\<lparr>hookLog := hookLog s @ [AddressRequested creatorAddress nonce (vmType (runtimeCtx s))]\<rparr>))"

definition GetCodeHash :: "env \<Rightarrow> address \<Rightarrow> vm \<Rightarrow> bytes" where
  "GetCodeHash e a s =
     (case hook_GetUserAccount e (hookLog s) a of
        Inl _ \<Rightarrow> [] | Inr None \<Rightarrow> [] | Inr (Some account) \<Rightarrow> ua_CodeHash account)"

definition GetCode :: "env \<Rightarrow> address \<Rightarrow> vm \<Rightarrow> (err + bytes) \<times> vm" where
  "GetCode e a s =
     (let ((outputAccount, isNew), s) = host_GetOutputAccount a s;
          hasCode = (\<not> isNew \<and> length (Code outputAccount) > 0)
      in if hasCode then (Inr (Code outputAccount), s)
         else (case hook_GetUserAccount e (hookLog s) a of
                 Inl err \<Rightarrow> (Inl err, s)
               | Inr None \<Rightarrow> (Inl ErrInvalidAccount, s)
               | Inr (Some account) \<Rightarrow>
                   let code = hook_GetCode e account
                   in if length code = 0 then (Inl ErrContractNotFound, s)
                      else (Inr code, host_setAccount a (outputAccount\<lparr>Code := code\<rparr>) s)))"

definition GetCodeSize :: "env \<Rightarrow> address \<Rightarrow> vm \<Rightarrow> i32 \<times> err option" where
  "GetCodeSize e a s =
     (case hook_GetUserAccount e (hookLog s) a of
        Inl err \<Rightarrow> (0, Some err) | Inr None \<Rightarrow> (0, None)
      | Inr (Some account) \<Rightarrow> (of_nat (length (hook_GetCode e account)), None))"

definition BlockHash :: "env \<Rightarrow> i64 \<Rightarrow> bytes" where
  "BlockHash e number =
     (if sint number < 0 then [] else case hook_GetBlockhash e number of Inl _ \<Rightarrow> [] | Inr block \<Rightarrow> block)"

definition GetOwnerAddress :: "env \<Rightarrow> vm \<Rightarrow> err + address" where
  "GetOwnerAddress e s =
     (case hook_GetUserAccount e (hookLog s) (scAddress (runtimeCtx s)) of
        Inl err \<Rightarrow> Inl err | Inr None \<Rightarrow> Inr [] | Inr (Some account) \<Rightarrow> Inr (ua_OwnerAddress account))"

definition GetDCDTToken :: "env \<Rightarrow> address \<Rightarrow> bytes \<Rightarrow> u64 \<Rightarrow> vm \<Rightarrow> err + DCDigitalToken option" where
  "GetDCDTToken e a tokenID nonce s = hook_GetDCDTToken e (hookLog s) a tokenID nonce"

definition CurrentEpoch :: "env \<Rightarrow> u32" where "CurrentEpoch e = hook_CurrentEpoch e"
definition CurrentNonce :: "env \<Rightarrow> u64" where "CurrentNonce e = hook_CurrentNonce e"
definition GetStateRootHash :: "env \<Rightarrow> bytes" where "GetStateRootHash e = hook_GetStateRootHash e"
definition LastTimeStamp :: "env \<Rightarrow> u64" where "LastTimeStamp e = hook_LastTimeStamp e"
definition LastNonce :: "env \<Rightarrow> u64" where "LastNonce e = hook_LastNonce e"
definition LastRound :: "env \<Rightarrow> u64" where "LastRound e = hook_LastRound e"
definition LastEpoch :: "env \<Rightarrow> u32" where "LastEpoch e = hook_LastEpoch e"
definition CurrentRound :: "env \<Rightarrow> u64" where "CurrentRound e = hook_CurrentRound e"
definition CurrentTimeStamp :: "env \<Rightarrow> u64" where "CurrentTimeStamp e = hook_CurrentTimeStamp e"
definition LastRandomSeed :: "env \<Rightarrow> bytes" where "LastRandomSeed e = hook_LastRandomSeed e"
definition CurrentRandomSeed :: "env \<Rightarrow> bytes" where "CurrentRandomSeed e = hook_CurrentRandomSeed e"
definition GetShardOfAddress :: "env \<Rightarrow> address \<Rightarrow> u32" where "GetShardOfAddress e a = hook_GetShardOfAddress e a"
definition IsSmartContract :: "env \<Rightarrow> address \<Rightarrow> bool" where "IsSmartContract e a = hook_IsSmartContract e a"

subsection \<open>Effect on the output accounts\<close>

definition deltaOf :: "address \<Rightarrow> vm \<Rightarrow> int" where
  "deltaOf a s = (case go_get (outAccounts s) a of None \<Rightarrow> 0
     | Some acc \<Rightarrow> (case BalanceDelta acc of None \<Rightarrow> 0 | Some d \<Rightarrow> d))"

definition wf_vm :: "vm \<Rightarrow> bool" where
  "wf_vm s \<longleftrightarrow> wf_output (outputCtx s) \<and> wf_runtime s"

lemma wf_vm_output: "wf_vm s \<Longrightarrow> wf_output (outputCtx s)"
  by (simp add: wf_vm_def)

text \<open>Looking an account up, or caching something in it, changes no balance change and nothing but
  the output accounts.\<close>

definition setAccounts :: "(address, OutputAccount) gomap \<Rightarrow> vm \<Rightarrow> vm" where
  "setAccounts m s = s\<lparr>outputCtx := (outputCtx s)\<lparr>outputState := (outputState (outputCtx s))\<lparr>OutputAccounts := m\<rparr>\<rparr>\<rparr>"

lemma setAccounts_simps [simp]:
  "setAccounts n (setAccounts m s) = setAccounts n s" "outAccounts (setAccounts m s) = m"
  "setAccounts (outAccounts s) s = s"
  by (simp_all add: setAccounts_def outAccounts_def)

definition only_accounts :: "vm \<Rightarrow> vm \<Rightarrow> bool" where
  \<comment> \<open>the states differ in the active output accounts at most\<close>
  "only_accounts s s' \<longleftrightarrow> s' = setAccounts (outAccounts s') s"

lemma only_accounts_refl [simp]: "only_accounts s s"
  by (simp add: only_accounts_def)

lemma only_accounts_trans: "only_accounts s t \<Longrightarrow> only_accounts t u \<Longrightarrow> only_accounts s u"
  unfolding only_accounts_def by (metis setAccounts_simps(1))

lemma only_accounts_frame:
  assumes "only_accounts s s'"
  shows "bigIntCtx s' = bigIntCtx s" "meteringCtx s' = meteringCtx s" "runtimeCtx s' = runtimeCtx s"
    "storageCtx s' = storageCtx s" "instances s' = instances s" "hookLog s' = hookLog s"
    "output_stateStack (outputCtx s') = output_stateStack (outputCtx s)"
    "codeUpdates (outputCtx s') = codeUpdates (outputCtx s)" "nextInstance s' = nextInstance s"
    "ReturnCode (outputState (outputCtx s')) = ReturnCode (outputState (outputCtx s))"
    "ReturnMessage (outputState (outputCtx s')) = ReturnMessage (outputState (outputCtx s))"
    "ReturnData (outputState (outputCtx s')) = ReturnData (outputState (outputCtx s))"
    "Logs (outputState (outputCtx s')) = Logs (outputState (outputCtx s))"
    "GasRefund (outputState (outputCtx s')) = GasRefund (outputState (outputCtx s))"
  by (subst assms [unfolded only_accounts_def], simp add: setAccounts_def)+

lemma only_accounts_set [simp]: "only_accounts s (host_setAccount a acc s)"
  by (simp add: only_accounts_def setAccounts_def host_setAccount_def setAccount_def outAccounts_def)

lemma only_accounts_get [simp]: "only_accounts s (snd (host_GetOutputAccount a s))"
  by (auto simp: only_accounts_def setAccounts_def host_GetOutputAccount_def GetOutputAccount_def setAccount_def outAccounts_def
    split: option.splits)

definition same_but_cache :: "vm \<Rightarrow> vm \<Rightarrow> bool" where
  "same_but_cache s s' \<longleftrightarrow>
     only_accounts s s' \<and> wf_accounts (outAccounts s') \<and> (\<forall>a. deltaOf a s' = deltaOf a s) \<and>
     totalDelta (outputCtx s') = totalDelta (outputCtx s)"

lemma same_but_cache_refl: "wf_output (outputCtx s) \<Longrightarrow> same_but_cache s s"
  by (auto simp: same_but_cache_def wf_output_def wf_VMOutput_def outAccounts_def)

lemma same_but_cache_trans: "same_but_cache s t \<Longrightarrow> same_but_cache t u \<Longrightarrow> same_but_cache s u"
  by (auto simp: same_but_cache_def intro: only_accounts_trans)

lemma only_accounts_wf:
  "only_accounts s s' \<Longrightarrow> wf_accounts (outAccounts s') \<Longrightarrow> wf_output (outputCtx s) \<Longrightarrow> wf_output (outputCtx s')"
  unfolding only_accounts_def by (erule ssubst) (simp add: setAccounts_def wf_output_def wf_VMOutput_def)

lemma same_but_cache_wf: "same_but_cache s s' \<Longrightarrow> wf_output (outputCtx s) \<Longrightarrow> wf_output (outputCtx s')"
  by (auto simp: same_but_cache_def intro: only_accounts_wf)

lemma same_but_cache_frame:
  assumes "same_but_cache s s'"
  shows "bigIntCtx s' = bigIntCtx s" "meteringCtx s' = meteringCtx s" "runtimeCtx s' = runtimeCtx s"
    "storageCtx s' = storageCtx s" "instances s' = instances s" "hookLog s' = hookLog s"
    "output_stateStack (outputCtx s') = output_stateStack (outputCtx s)"
    "deltaOf a s' = deltaOf a s" "totalDelta (outputCtx s') = totalDelta (outputCtx s)"
  using assms by (auto simp: same_but_cache_def only_accounts_frame)

lemma host_GetOutputAccount_cache:
  assumes "wf_output (outputCtx s)" "host_GetOutputAccount a s = ((acc, isNew), s')"
  shows "same_but_cache s s'" "go_get (outAccounts s') a = Some acc" "Address acc = a" "wf_account acc"
proof -
  obtain c where c: "GetOutputAccount a (outputCtx s) = ((acc, isNew), c)" and s': "s' = s\<lparr>outputCtx := c\<rparr>"
    using assms(2) by (auto simp: host_GetOutputAccount_def split: prod.splits)
  note wf = GetOutputAccount_wf [OF assms(1) c]
  show "go_get (outAccounts s') a = Some acc" "Address acc = a" "wf_account acc"
    using wf s' by (simp_all add: outAccounts_def)
  have "totalDelta c = totalDelta (outputCtx s)"
    using totalDelta_GetOutputAccount [OF assms(1), of a] c by simp
  moreover have "only_accounts s s'"
    using only_accounts_get [of s a] assms(2) by simp
  moreover have "deltaOf b s' = deltaOf b s" for b
    using c s' by (cases "b = a") (auto simp: GetOutputAccount_def setAccount_def deltaOf_def outAccounts_def go_simps
      NewVMOutputAccount_def split: option.splits)
  moreover have "wf_accounts (outAccounts s')"
    using wf(1) s' by (simp add: wf_output_def wf_VMOutput_def outAccounts_def)
  ultimately show "same_but_cache s s'" using s' by (auto simp: same_but_cache_def)
qed

lemma host_setAccount_cache:
  assumes "wf_output (outputCtx s)" "go_get (outAccounts s) a = Some old"
    "BalanceDelta acc = BalanceDelta old" "Address acc = a" "wf_account acc"
  shows "same_but_cache s (host_setAccount a acc s)"
  unfolding same_but_cache_def
  using assms totalDelta_setAccount [OF assms(1), of a acc] only_accounts_set [of s a acc]
  by (auto simp: host_setAccount_def setAccount_def deltaOf_def outAccounts_def go_simps
    wf_output_def wf_VMOutput_def)

lemma GetBalanceBigInt_cache:
  assumes "wf_output (outputCtx s)" "GetBalanceBigInt e a s = Some (bal, s')"
  shows "same_but_cache s s'"
proof -
  obtain acc isNew t where t: "host_GetOutputAccount a s = ((acc, isNew), t)"
    by (metis prod.collapse)
  note acc = host_GetOutputAccount_cache [OF assms(1) t]
  have wf: "wf_output (outputCtx t)" using acc(1) assms(1) by (rule same_but_cache_wf)
  have "same_but_cache t (host_setAccount a (acc\<lparr>Balance := b\<rparr>) t)" for b
    using wf acc by (intro host_setAccount_cache) (auto simp: wf_account_def)
  then have "same_but_cache t s'"
    using assms(2) t same_but_cache_refl [OF wf]
    by (auto simp: GetBalanceBigInt_def Let_def bind_Some_iff split: if_splits option.splits sum.splits)
  with acc(1) show ?thesis by (rule same_but_cache_trans)
qed

lemma GetBalanceBigInt_no_panic:
  assumes "wf_output (outputCtx s)"
  shows "GetBalanceBigInt e a s \<noteq> None"
proof -
  obtain acc isNew t where t: "host_GetOutputAccount a s = ((acc, isNew), t)"
    by (metis prod.collapse)
  have "wf_account acc" using host_GetOutputAccount_cache [OF assms t] by simp
  with t show ?thesis
    by (auto simp: GetBalanceBigInt_def Let_def wf_account_def split: option.splits sum.splits)
qed

text \<open>The balance the VM sees is the node's balance plus the change recorded so far.\<close>

lemma GetBalanceBigInt_value:
  assumes "wf_output (outputCtx s)" "GetBalanceBigInt e a s = Some (bal, s')"
    "hook_GetUserAccount e (hookLog s) a = Inr (Some account)"
    "\<forall>acc b. go_get (outAccounts s) a = Some acc \<and> Balance acc = Some b \<longrightarrow> b = ua_Balance account"
  shows "bal = ua_Balance account + deltaOf a s"
  using assms(2-4)
  by (auto simp: GetBalanceBigInt_def host_GetOutputAccount_def GetOutputAccount_def outAccounts_def deltaOf_def
    Let_def bind_Some_iff split: option.splits if_splits)

lemma GetNonce_cache:
  assumes "wf_output (outputCtx s)" "GetNonce e a s = (r, s')"
  shows "same_but_cache s s'"
proof -
  obtain acc isNew t where t: "host_GetOutputAccount a s = ((acc, isNew), t)"
    by (metis prod.collapse)
  note acc = host_GetOutputAccount_cache [OF assms(1) t]
  have wf: "wf_output (outputCtx t)" using acc(1) assms(1) by (rule same_but_cache_wf)
  have "same_but_cache t (host_setAccount a (acc\<lparr>Nonce := b\<rparr>) t)" for b
    using wf acc by (intro host_setAccount_cache) (auto simp: wf_account_def)
  then have "same_but_cache t s'"
    using assms(2) t same_but_cache_refl [OF wf]
    by (auto simp: GetNonce_def Let_def split: if_splits option.splits sum.splits)
  with acc(1) show ?thesis by (rule same_but_cache_trans)
qed

lemma GetCode_cache:
  assumes "wf_output (outputCtx s)" "GetCode e a s = (r, s')"
  shows "same_but_cache s s'"
proof -
  obtain acc isNew t where t: "host_GetOutputAccount a s = ((acc, isNew), t)"
    by (metis prod.collapse)
  note acc = host_GetOutputAccount_cache [OF assms(1) t]
  have wf: "wf_output (outputCtx t)" using acc(1) assms(1) by (rule same_but_cache_wf)
  have "same_but_cache t (host_setAccount a (acc\<lparr>Code := b\<rparr>) t)" for b
    using wf acc by (intro host_setAccount_cache) (auto simp: wf_account_def)
  then have "same_but_cache t s'"
    using assms(2) t same_but_cache_refl [OF wf]
    by (auto simp: GetCode_def Let_def split: if_splits option.splits sum.splits)
  with acc(1) show ?thesis by (rule same_but_cache_trans)
qed

text \<open>The balance of an account as the VM sees it is the node's balance plus the change recorded
  so far in the output; reading it never panics and changes no balance.\<close>

lemma balance_is_node_plus_delta:
  assumes "wf_output (outputCtx s)" "hook_GetUserAccount e (hookLog s) a = Inr (Some account)"
    "\<forall>acc b. go_get (outAccounts s) a = Some acc \<and> Balance acc = Some b \<longrightarrow> b = ua_Balance account"
  shows "\<exists>s'. GetBalanceBigInt e a s = Some (ua_Balance account + deltaOf a s, s') \<and>
    (\<forall>b. deltaOf b s' = deltaOf b s) \<and> totalDelta (outputCtx s') = totalDelta (outputCtx s)"
proof -
  obtain bal s' where s': "GetBalanceBigInt e a s = Some (bal, s')"
    using GetBalanceBigInt_no_panic [OF assms(1), of e a] by auto
  from GetBalanceBigInt_value [OF assms(1) s' assms(2,3)] GetBalanceBigInt_cache [OF assms(1) s'] s' show ?thesis
    by (auto simp: same_but_cache_frame)
qed

lemma balance_is_node_plus_delta_example:
  "\<exists>s'. GetBalanceBigInt sampleEnv ''alice'' (sampleVM\<lparr>outputCtx := (outputCtx sampleVM)\<lparr>outputState := aliceGains 7\<rparr>\<rparr>) = Some (107, s')"
proof -
  let ?s = "sampleVM\<lparr>outputCtx := (outputCtx sampleVM)\<lparr>outputState := aliceGains 7\<rparr>\<rparr>"
  have "wf_output (outputCtx ?s)" using sample_wf_output by (simp add: wf_output_def wf_aliceGains)
  moreover have "hook_GetUserAccount sampleEnv (hookLog ?s) ''alice'' = Inr (Some sampleAccount)" by (simp add: sampleEnv_def)
  moreover have "Balance acc = Some b \<Longrightarrow> False" if "go_get (outAccounts ?s) ''alice'' = Some acc" for acc b
    using that by (simp add: outAccounts_def aliceGains_def NewVMOutputAccount_def) (metis OutputAccount.select_convs(3) OutputAccount.update_convs(4) option.distinct(1))
  moreover have "ua_Balance sampleAccount + deltaOf ''alice'' ?s = 107"
    by (simp add: deltaOf_def outAccounts_def aliceGains_def sampleAccount_def)
  ultimately show ?thesis using balance_is_node_plus_delta [of ?s sampleEnv "''alice''" sampleAccount] by metis
qed

end
