(* ===== verification/OutputTransfers.thy ===== *)
theory OutputTransfers
  imports BlockchainContext
begin

text \<open>
  The operations of \<open>src/vmhost/contexts/output.go\<close> that involve the other contexts: value
  transfers, and \<open>GetVMOutput\<close> with its gas check.
\<close>

subsection \<open>Value transfers\<close>

definition hasSufficientBalance :: "env \<Rightarrow> address \<Rightarrow> int \<Rightarrow> vm \<Rightarrow> (bool \<times> vm) option" where
  "hasSufficientBalance e a val s = do { (senderBalance, s) \<leftarrow> GetBalanceBigInt e a s; Some (senderBalance \<ge> val, s) }"

definition addToDelta :: "address \<Rightarrow> int \<Rightarrow> vm \<Rightarrow> vm option" where
  \<comment> \<open>\<open>acc.BalanceDelta = big.NewInt(0).Add(acc.BalanceDelta, v)\<close> through the pointer of the account\<close>
  "addToDelta a v s = do {
     acc \<leftarrow> go_get (outAccounts s) a;
     d \<leftarrow> BalanceDelta acc;
     Some (host_setAccount a (acc\<lparr>BalanceDelta := Some (d + v)\<rparr>) s) }"

definition moveValue :: "address \<Rightarrow> address \<Rightarrow> int \<Rightarrow> vm \<Rightarrow> vm option" where
  \<comment> \<open>the two accounts are fetched before either is changed; they may be the same account\<close>
  "moveValue destination sender val s = do {
     let (_, s) = host_GetOutputAccount sender s;
     let (_, s) = host_GetOutputAccount destination s;
     s \<leftarrow> addToDelta sender (- val) s;
     addToDelta destination val s }"

definition TransferValueOnly :: "env \<Rightarrow> address \<Rightarrow> address \<Rightarrow> bigint \<Rightarrow> bool \<Rightarrow> vm \<Rightarrow> (err option \<times> vm) option" where
  "TransferValueOnly e destination sender bigval checkPayable s = do {
     val \<leftarrow> bigval;
     if val < 0 then Some (Some ErrTransferNegativeValue, s)
     else do {
       (sufficient, s) \<leftarrow> hasSufficientBalance e sender val s;
       if \<not> sufficient then Some (Some ErrTransferInsufficientFunds, s)
       else (case hook_IsPayable e (hookLog s) destination of
           Inl err \<Rightarrow> Some (Some err, s)
         | Inr payable \<Rightarrow>
             let isAsyncCall = (IsVMV3Enabled e \<and> CallType (vmInput (runtimeCtx s)) = AsynchronousCall);
                 checkPayable = (checkPayable \<or> \<not> IsDCDTFunctionsEnabled e);
                 hasValue = (val > 0)
             in if checkPayable \<and> \<not> payable \<and> hasValue \<and> \<not> isAsyncCall
                then Some (Some ErrAccountNotPayable, s)
                else do { s \<leftarrow> moveValue destination sender val s; Some (None, s) }) } }"

definition appendTransfer :: "address \<Rightarrow> OutputTransfer \<Rightarrow> vm \<Rightarrow> vm" where
  "appendTransfer a t s =
     (let ((destAcc, _), s) = host_GetOutputAccount a s
      in host_setAccount a (destAcc\<lparr>OutputTransfers := OutputTransfers destAcc @ [t]\<rparr>) s)"

definition Transfer :: "env \<Rightarrow> address \<Rightarrow> address \<Rightarrow> u64 \<Rightarrow> u64 \<Rightarrow> bigint \<Rightarrow> bytes \<Rightarrow> CallTypeT \<Rightarrow> vm \<Rightarrow> (err option \<times> vm) option" where
  "Transfer e destination sender gasLimit gasLocked val input callType s = do {
     let checkPayableIfNotCallback = (gasLimit > 0 \<and> callType \<noteq> AsynchronousCallBack);
     (err, s) \<leftarrow> TransferValueOnly e destination sender val checkPayableIfNotCallback s;
     case err of
       Some err \<Rightarrow> Some (Some err, s)
     | None \<Rightarrow>
         Some (None, appendTransfer destination \<lparr>ot_Value = val, ot_GasLimit = gasLimit, ot_GasLocked = gasLocked,
           ot_Data = input, ot_CallType = callType, ot_SenderAddress = sender\<rparr> s) }"

subsection \<open>The final output\<close>

definition isBuiltInExecution :: "env \<Rightarrow> vm \<Rightarrow> bool" where
  "isBuiltInExecution e s \<longleftrightarrow>
     IsBuiltinFunctionName e (callFunction (runtimeCtx s)) \<or> length (DCDTTransfers (vmInput (runtimeCtx s))) > 0"

definition setGasRemaining :: "u64 \<Rightarrow> vm \<Rightarrow> vm" where
  "setGasRemaining g s =
     s\<lparr>outputCtx := (outputCtx s)\<lparr>outputState := (outputState (outputCtx s))\<lparr>GasRemaining := g\<rparr>\<rparr>\<rparr>"

definition checkGas :: "env \<Rightarrow> u64 \<Rightarrow> vm \<Rightarrow> err option \<times> vm" where
  "checkGas e remainedFromForwarded s =
     (if \<not> IsVMV2Enabled e then (None, s)
      else
        let previousGasUsed = totalUsedGas (meteringCtx s);
            (gasUsed, gasLockSentForward) = GetCurrentTotalUsedGas (outputCtx s);
            gasProvided = initialGasProvided (meteringCtx s);
            wasBuiltInFuncWhichForwardedGas = (gasLockSentForward \<and> isBuiltInExecution e s);
            gasProvided = (if wasBuiltInFuncWhichForwardedGas then AddUint64 gasProvided (GetGasLocked s) else gasProvided);
            (gasRemaining, remainedFromForwarded) = SubUint64 (GasRemaining (outputState (outputCtx s))) remainedFromForwarded;
            s = setGasRemaining gasRemaining s;
            totalGas = AddUint64 gasUsed gasRemaining;
            (totalGas, _) = SubUint64 totalGas remainedFromForwarded;
            (totalGas, _) = SubUint64 totalGas previousGasUsed
        in if totalGas > gasProvided then (Some ErrInputAndOutputGasDoesNotMatch, s) else (None, s))"

definition finishOutput :: "env \<Rightarrow> u64 \<Rightarrow> vm \<Rightarrow> VMOutput \<times> vm" where
  \<comment> \<open>the end of \<open>GetVMOutput\<close>: drop code that was not deployed, check the gas\<close>
  "finishOutput e remainedFromForwarded s =
     (let c = outputCtx s;
          s = s\<lparr>outputCtx := c\<lparr>outputState := removeNonUpdatedCode (codeUpdates c) (outputState c)\<rparr>\<rparr>;
          (err, s) = checkGas e remainedFromForwarded s
      in case err of
           Some err \<Rightarrow> (CreateVMOutputInCaseOfError err (outputCtx s), s)
         | None \<Rightarrow> (outputState (outputCtx s), s))"

definition GetVMOutput :: "env \<Rightarrow> vm \<Rightarrow> VMOutput \<times> vm" where
  "GetVMOutput e s =
     (let scAddr = scAddress (runtimeCtx s);
          ((account, _), s) = host_GetOutputAccount scAddr s
      in if ReturnCode (outputState (outputCtx s)) = Ok then
           let ((gasUsed, remainedFromForwarded), s) = GasUsedByContract e s;
               s = host_setAccount scAddr (account\<lparr>GasUsed := gasUsed\<rparr>) s;
               s = setGasRemaining (GasLeft s) s
           in if \<not> IsVMV2Enabled e \<and> gasUsed > initialGasProvided (meteringCtx s)
              then (CreateVMOutputInCaseOfError ErrNotEnoughGas (outputCtx s), s)
              else finishOutput e remainedFromForwarded s
         else
           let s = host_setAccount scAddr (account\<lparr>GasUsed := AddUint64 (GasUsed account) (initialGasProvided (meteringCtx s))\<rparr>) s
           in finishOutput e 0 s)"

subsection \<open>Transfers move value and conserve it\<close>

lemma addToDelta_effect:
  assumes "wf_output (outputCtx s)" "go_get (outAccounts s) a \<noteq> None"
  shows "\<exists>s'. addToDelta a v s = Some s' \<and> wf_output (outputCtx s') \<and>
    (\<forall>b. deltaOf b s' = deltaOf b s + (if b = a then v else 0)) \<and>
    totalDelta (outputCtx s') = totalDelta (outputCtx s) + v \<and>
    (\<forall>b. go_get (outAccounts s) b \<noteq> None \<longrightarrow> go_get (outAccounts s') b \<noteq> None) \<and>
    only_accounts s s'"
proof -
  from assms(2) obtain acc where acc: "go_get (outAccounts s) a = Some acc" by auto
  have wf: "Address acc = a" "wf_account acc"
    using wf_accounts_get [of "outAccounts s" a acc] acc assms(1)
    by (auto simp: wf_output_def wf_VMOutput_def outAccounts_def)
  then obtain d where d: "BalanceDelta acc = Some d" by (auto simp: wf_account_def)
  let ?acc = "acc\<lparr>BalanceDelta := Some (d + v)\<rparr>"
  have "addToDelta a v s = Some (host_setAccount a ?acc s)" by (simp add: addToDelta_def acc d)
  moreover have "wf_output (outputCtx (host_setAccount a ?acc s))"
    using assms(1) wf by (simp add: host_setAccount_def wf_account_def)
  moreover have "totalDelta (outputCtx (host_setAccount a ?acc s)) = totalDelta (outputCtx s) + v"
    using totalDelta_setAccount [OF assms(1), of a ?acc] acc d by (simp add: host_setAccount_def outAccounts_def)
  ultimately show ?thesis
    using acc d only_accounts_set [of s a ?acc]
    by (auto simp: deltaOf_def outAccounts_def host_setAccount_def setAccount_def go_simps split: option.splits)
qed

lemma GetOutputAccount_two:
  assumes "wf_output (outputCtx s)" "host_GetOutputAccount a s = (r, t)" "host_GetOutputAccount b t = (q, u)"
  shows "same_but_cache s u" "go_get (outAccounts u) a \<noteq> None" "go_get (outAccounts u) b \<noteq> None"
proof -
  obtain r1 r2 q1 q2 where r: "r = (r1, r2)" and q: "q = (q1, q2)" by (metis surj_pair)
  note 1 = host_GetOutputAccount_cache [OF assms(1) assms(2) [unfolded r]]
  have wf: "wf_output (outputCtx t)" using 1(1) assms(1) by (rule same_but_cache_wf)
  note 2 = host_GetOutputAccount_cache [OF wf assms(3) [unfolded q]]
  show "same_but_cache s u" using 1(1) 2(1) by (rule same_but_cache_trans)
  show "go_get (outAccounts u) b \<noteq> None" using 2 by simp
  show "go_get (outAccounts u) a \<noteq> None"
    using 1(2) assms(3) q by (auto simp: host_GetOutputAccount_def GetOutputAccount_def outAccounts_def setAccount_def
      go_simps split: option.splits)
qed

lemma TransferValueOnly_SomeD:
  assumes "TransferValueOnly e dest sender v chk s = Some (r, s')"
  shows "\<exists>val. v = Some val \<and> (val < 0 \<and> r = Some ErrTransferNegativeValue \<and> s' = s \<or>
    0 \<le> val \<and> (\<exists>bal t. GetBalanceBigInt e sender s = Some (bal, t) \<and>
      (r \<noteq> None \<and> s' = t \<or> r = None \<and> val \<le> bal \<and> moveValue dest sender val t = Some s')))"
proof -
  from assms obtain val where val: "v = Some val" by (auto simp: TransferValueOnly_def bind_Some_iff)
  show ?thesis
  proof (cases "val < 0")
    case True
    with assms val show ?thesis by (simp add: TransferValueOnly_def)
  next
    case False
    with assms val obtain bal t where t: "GetBalanceBigInt e sender s = Some (bal, t)"
      by (auto simp: TransferValueOnly_def hasSufficientBalance_def bind_Some_iff)
    show ?thesis
      using assms val False t
      by (cases "hook_IsPayable e (hookLog t) dest")
        (auto simp: TransferValueOnly_def hasSufficientBalance_def bind_Some_iff Let_def split: if_splits)
  qed
qed

lemma TransferValueOnly_error_frame:
  assumes "wf_output (outputCtx s)" "TransferValueOnly e dest sender v chk s = Some (Some err, s')"
  shows "same_but_cache s s'"
  using TransferValueOnly_SomeD [OF assms(2)] GetBalanceBigInt_cache [OF assms(1)] same_but_cache_refl [OF assms(1)]
  by auto

lemma TransferValueOnly_moves:
  assumes "wf_output (outputCtx s)" "TransferValueOnly e dest sender v chk s = Some (None, s')"
  shows "\<exists>val. v = Some val \<and> 0 \<le> val \<and> wf_output (outputCtx s') \<and>
    (\<forall>a. deltaOf a s' = deltaOf a s - (if a = sender then val else 0) + (if a = dest then val else 0)) \<and>
    totalDelta (outputCtx s') = totalDelta (outputCtx s) \<and>
    only_accounts s s'"
proof -
  from assms(2) obtain val bal t where val: "v = Some val" "0 \<le> val"
    and t: "GetBalanceBigInt e sender s = Some (bal, t)"
    and rest: "moveValue dest sender val t = Some s'"
    using TransferValueOnly_SomeD by fastforce
  obtain r u q w where u: "host_GetOutputAccount sender t = (r, u)" and w: "host_GetOutputAccount dest u = (q, w)"
    by (metis surj_pair)
  have st: "same_but_cache s t" using GetBalanceBigInt_cache [OF assms(1) t] .
  note two = GetOutputAccount_two [OF same_but_cache_wf [OF st assms(1)] u w]
  have sw: "same_but_cache s w" using st two(1) by (rule same_but_cache_trans)
  obtain x where x: "addToDelta sender (- val) w = Some x" "wf_output (outputCtx x)"
      "\<forall>b. deltaOf b x = deltaOf b w + (if b = sender then - val else 0)"
      "totalDelta (outputCtx x) = totalDelta (outputCtx w) - val" "go_get (outAccounts x) dest \<noteq> None"
      "only_accounts w x"
    using addToDelta_effect [OF same_but_cache_wf [OF sw assms(1)] two(2), of "- val"] two(3) by auto
  obtain y where y: "addToDelta dest val x = Some y" "wf_output (outputCtx y)"
      "\<forall>b. deltaOf b y = deltaOf b x + (if b = dest then val else 0)"
      "totalDelta (outputCtx y) = totalDelta (outputCtx x) + val"
      "only_accounts x y"
    using addToDelta_effect [OF x(2,5), of val] by auto
  have s': "s' = y" using rest u w x(1) y(1) by (simp add: moveValue_def)
  have "only_accounts s y" using sw x(6) y(5) unfolding same_but_cache_def by (blast intro: only_accounts_trans)
  with val x(3,4) y(2,3,4) same_but_cache_frame(8,9) [OF sw] show ?thesis unfolding s' by auto
qed

subsection \<open>The gas of the final output\<close>

lemma checkGas_V2:
  assumes "IsVMV2Enabled e"
  shows "checkGas e remained s =
    (let gasUsed = fst (GetCurrentTotalUsedGas (outputCtx s));
         provided = (if snd (GetCurrentTotalUsedGas (outputCtx s)) \<and> isBuiltInExecution e s
           then AddUint64 (initialGasProvided (meteringCtx s)) (GetGasLocked s) else initialGasProvided (meteringCtx s));
         left = SubUint64 (GasRemaining (outputState (outputCtx s))) remained;
         total_gas = fst (SubUint64 (fst (SubUint64 (AddUint64 gasUsed (fst left)) (snd left))) (totalUsedGas (meteringCtx s)))
     in (if total_gas > provided then Some ErrInputAndOutputGasDoesNotMatch else None, setGasRemaining (fst left) s))"
  using assms by (simp add: checkGas_def Let_def case_prod_beta setGasRemaining_def)

lemma checkGas_ok:
  assumes "checkGas e remained s = (None, s')" "IsVMV2Enabled e"
  shows "min ((\<Sum>(_, acc)\<leftarrow>outAccounts s. accountGas acc) + (unat (GasRemaining (outputState (outputCtx s))) - unat remained))
      (2 ^ 64 - 1) \<le> unat (initialGasProvided (meteringCtx s)) + unat (GetGasLocked s) + unat (totalUsedGas (meteringCtx s))
        + (unat remained - unat (GasRemaining (outputState (outputCtx s))))"
    "s' = setGasRemaining (fst (SubUint64 (GasRemaining (outputState (outputCtx s))) remained)) s"
proof -
  let ?g = "fst (GetCurrentTotalUsedGas (outputCtx s))"
  let ?p = "if snd (GetCurrentTotalUsedGas (outputCtx s)) \<and> isBuiltInExecution e s
           then AddUint64 (initialGasProvided (meteringCtx s)) (GetGasLocked s) else initialGasProvided (meteringCtx s)"
  let ?l = "SubUint64 (GasRemaining (outputState (outputCtx s))) remained"
  let ?t = "fst (SubUint64 (fst (SubUint64 (AddUint64 ?g (fst ?l)) (snd ?l))) (totalUsedGas (meteringCtx s)))"
  from assms(1) have le: "\<not> ?t > ?p" and s': "s' = setGasRemaining (fst ?l) s"
    unfolding checkGas_V2 [OF assms(2)] Let_def by (auto split: if_splits)
  show "s' = setGasRemaining (fst ?l) s" by (rule s')
  have p: "unat ?p \<le> unat (initialGasProvided (meteringCtx s)) + unat (GetGasLocked s)"
    by (simp add: unat_AddUint64)
  have g: "unat ?g = min (\<Sum>(_, acc)\<leftarrow>outAccounts s. accountGas acc) (2 ^ 64 - 1)"
    by (simp add: GetCurrentTotalUsedGas_unat outAccounts_def)
  have "unat ?t \<le> unat ?p" using le by (simp add: u64_less_iff)
  then have "min (unat ?g + unat (fst ?l)) (2 ^ 64 - 1) \<le> unat ?p + unat (totalUsedGas (meteringCtx s)) + unat (snd ?l)"
    by (simp add: unat_AddUint64)
  with p g show "min ((\<Sum>(_, acc)\<leftarrow>outAccounts s. accountGas acc) + (unat (GasRemaining (outputState (outputCtx s))) - unat remained))
      (2 ^ 64 - 1) \<le> unat (initialGasProvided (meteringCtx s)) + unat (GetGasLocked s) + unat (totalUsedGas (meteringCtx s))
        + (unat remained - unat (GasRemaining (outputState (outputCtx s))))"
    by (simp add: min_def split: if_splits)
qed

definition recordedGas :: "VMOutput \<Rightarrow> nat" where
  \<comment> \<open>the gas the output accounts for: used by its accounts, sent with its transfers, and remaining\<close>
  "recordedGas out = (\<Sum>(_, acc)\<leftarrow>OutputAccounts out. accountGas acc) + unat (GasRemaining out)"

lemma removeNonUpdatedCode_gas:
  "(\<Sum>(_, acc)\<leftarrow>OutputAccounts (removeNonUpdatedCode u out). accountGas acc) = (\<Sum>(_, acc)\<leftarrow>OutputAccounts out. accountGas acc)"
proof -
  have "(\<Sum>(_, acc)\<leftarrow>map (\<lambda>(a, account). (a, if a \<in> u then account
          else account\<lparr>Code := [], CodeMetadata := [], CodeDeployerAddress := None\<rparr>)) m. accountGas acc) =
        (\<Sum>(_, acc)\<leftarrow>m. accountGas acc)" for m :: "(address, OutputAccount) gomap"
    by (induction m) (auto simp: accountGas_def)
  then show ?thesis by (simp add: removeNonUpdatedCode_def)
qed

lemma GasRemaining_removeNonUpdatedCode [simp]: "GasRemaining (removeNonUpdatedCode u out) = GasRemaining out"
  by (simp add: removeNonUpdatedCode_def)

lemma ReturnCode_error [simp]: "ReturnCode (CreateVMOutputInCaseOfError err c) \<noteq> Ok"
  by (simp add: CreateVMOutputInCaseOfError_def resolveReturnCodeFromError_def Let_def del: errorsIs.simps)

lemma finishOutput_gas:
  assumes "finishOutput e remained s = (out, s')" "IsVMV2Enabled e" "ReturnCode out = Ok"
  shows "min (recordedGas out) (2 ^ 64 - 1) \<le> unat (initialGasProvided (meteringCtx s)) + unat (GetGasLocked s) +
    unat (totalUsedGas (meteringCtx s)) + (unat remained - unat (GasRemaining (outputState (outputCtx s))))"
proof -
  let ?c = "outputCtx s"
  let ?s = "s\<lparr>outputCtx := ?c\<lparr>outputState := removeNonUpdatedCode (codeUpdates ?c) (outputState ?c)\<rparr>\<rparr>"
  obtain err t where t: "checkGas e remained ?s = (err, t)" by (metis prod.collapse)
  have err: "err = None"
    using assms(1,3) t by (auto simp: finishOutput_def Let_def split: option.splits)
  with assms(1) t have out: "out = outputState (outputCtx t)" by (auto simp: finishOutput_def Let_def)
  note ok = checkGas_ok [OF t [unfolded err] assms(2)]
  show ?thesis
    using ok(1) unfolding recordedGas_def out ok(2)
    by (simp add: setGasRemaining_def outAccounts_def removeNonUpdatedCode_gas GetGasLocked_def)
qed

lemma GasUsedByContract_frame:
  assumes "GasUsedByContract e s = (r, s')"
  shows "outputCtx s' = outputCtx s" "runtimeCtx s' = runtimeCtx s" "instances s' = instances s"
    "initialGasProvided (meteringCtx s') = initialGasProvided (meteringCtx s)"
    "totalUsedGas (meteringCtx s') = totalUsedGas (meteringCtx s)"
    "gasForExecution (meteringCtx s') = gasForExecution (meteringCtx s)"
    "initialCost (meteringCtx s') = initialCost (meteringCtx s)"
  using assms getTotalForwardedGas_frame [where a = "scAddress (runtimeCtx s)" and c = "meteringCtx s"]
  by (auto simp: GasUsedByContract_def Let_def case_prod_beta)

lemma GetVMOutput_gas:
  assumes "GetVMOutput e s = (out, s')" "IsVMV2Enabled e" "ReturnCode out = Ok"
  shows "min (recordedGas out) (2 ^ 64 - 1) \<le> unat (initialGasProvided (meteringCtx s)) + unat (GetGasLocked s) +
    unat (totalUsedGas (meteringCtx s)) + (unat (snd (fst (GasUsedByContract e s))) - unat (GasLeft s))"
proof -
  let ?a = "scAddress (runtimeCtx s)"
  obtain acc new t where t: "host_GetOutputAccount ?a s = ((acc, new), t)" by (metis prod.collapse)
  then have "only_accounts s t" using only_accounts_get [of s ?a] by simp
  note fr = only_accounts_frame [OF this]
  obtain g r u where u: "GasUsedByContract e t = ((g, r), u)" by (metis prod.collapse)
  note gu = GasUsedByContract_frame [OF u]
  have "GetPointsUsed t = GetPointsUsed s" using fr by (simp add: GetPointsUsed_def cong: option.case_cong)
  then have r: "r = snd (fst (GasUsedByContract e s))"
    using u fr assms(2) by (auto simp: GasUsedByContract_def Let_def case_prod_beta)
  let ?v = "host_setAccount ?a (acc\<lparr>GasUsed := g\<rparr>) u"
  have left: "GasLeft ?v = GasLeft s"
    using fr gu by (simp add: GasLeft_def GetPointsUsed_def host_setAccount_def cong: option.case_cong)
  show ?thesis
  proof (cases "ReturnCode (outputState (outputCtx t)) = Ok")
    case True
    with assms(1,2) t u have "finishOutput e r (setGasRemaining (GasLeft ?v) ?v) = (out, s')"
      by (simp add: GetVMOutput_def Let_def)
    from finishOutput_gas [OF this assms(2,3)] left show ?thesis
      using fr gu r by (simp add: setGasRemaining_def host_setAccount_def GetGasLocked_def)
  next
    case False
    let ?w = "host_setAccount ?a (acc\<lparr>GasUsed := AddUint64 (GasUsed acc) (initialGasProvided (meteringCtx t))\<rparr>) t"
    from False assms(1) t have "finishOutput e 0 ?w = (out, s')" by (simp add: GetVMOutput_def Let_def)
    from finishOutput_gas [OF this assms(2,3)] show ?thesis using fr by (simp add: host_setAccount_def GetGasLocked_def)
  qed
qed

subsection \<open>Code in the final output\<close>

lemma checkGas_accounts: "checkGas e g s = (r, s') \<Longrightarrow> outAccounts s' = outAccounts s"
  by (auto simp: checkGas_def Let_def case_prod_beta setGasRemaining_def outAccounts_def split: if_splits)

lemma finishOutput_code:
  assumes "finishOutput e g s = (out, s')" "(a, acc) \<in> set (OutputAccounts out)" "a \<notin> codeUpdates (outputCtx s)"
  shows "Code acc = []" "CodeDeployerAddress acc = None"
proof -
  let ?c = "outputCtx s"
  let ?s = "s\<lparr>outputCtx := ?c\<lparr>outputState := removeNonUpdatedCode (codeUpdates ?c) (outputState ?c)\<rparr>\<rparr>"
  obtain err t where t: "checkGas e g ?s = (err, t)" by (metis prod.collapse)
  have "OutputAccounts out = [] \<or> OutputAccounts out = outAccounts t"
    using assms(1) t by (auto simp: finishOutput_def Let_def outAccounts_def CreateVMOutputInCaseOfError_def split: option.splits)
  with assms(2) checkGas_accounts [OF t] have "(a, acc) \<in> set (outAccounts ?s)" by auto
  with assms(3) show "Code acc = []" "CodeDeployerAddress acc = None"
    by (auto simp: outAccounts_def removeNonUpdatedCode_def)
qed

lemma GetVMOutput_code:
  assumes "GetVMOutput e s = (out, s')" "(a, acc) \<in> set (OutputAccounts out)" "a \<notin> codeUpdates (outputCtx s)"
  shows "Code acc = []" "CodeDeployerAddress acc = None"
proof -
  let ?a = "scAddress (runtimeCtx s)"
  obtain ac new t where t: "host_GetOutputAccount ?a s = ((ac, new), t)" by (metis prod.collapse)
  then have ct: "codeUpdates (outputCtx t) = codeUpdates (outputCtx s)"
    using only_accounts_get [of s ?a] by (simp add: only_accounts_frame)
  obtain g r u where u: "GasUsedByContract e t = ((g, r), u)" by (metis prod.collapse)
  note gu = GasUsedByContract_frame [OF u]
  from assms(1) t u consider
      "out = CreateVMOutputInCaseOfError ErrNotEnoughGas (outputCtx (setGasRemaining (GasLeft
          (host_setAccount ?a (ac\<lparr>GasUsed := g\<rparr>) u)) (host_setAccount ?a (ac\<lparr>GasUsed := g\<rparr>) u)))"
    | x b where "finishOutput e x b = (out, s')" "codeUpdates (outputCtx b) = codeUpdates (outputCtx s)"
    using ct gu by (fastforce simp: GetVMOutput_def Let_def host_setAccount_def setAccount_def setGasRemaining_def split: if_splits)
  then show "Code acc = []" "CodeDeployerAddress acc = None"
    using assms(2,3) finishOutput_code by (cases; auto simp: CreateVMOutputInCaseOfError_def; metis)+
qed

subsection \<open>Properties\<close>

text \<open>C4: a transfer of value conserves it.  On success the value, which is not negative and not more
  than the sender's balance, leaves the sender and reaches the receiver, nobody else's balance change
  moves, and the sum of all changes stays the same; on an error no balance changes at all.  In both
  cases nothing outside the output accounts is touched.\<close>

theorem TransferValueOnly_conserves:
  assumes "wf_output (outputCtx s)" "TransferValueOnly e dest sender (Some v) chk s = Some (r, s')"
  shows "wf_output (outputCtx s') \<and> totalDelta (outputCtx s') = totalDelta (outputCtx s) \<and> only_accounts s s' \<and>
    (\<forall>a. deltaOf a s' = deltaOf a s + (if r = None then (if a = dest then v else 0) - (if a = sender then v else 0) else 0)) \<and>
    (r = None \<longrightarrow> 0 \<le> v \<and> (\<exists>bal t. GetBalanceBigInt e sender s = Some (bal, t) \<and> v \<le> bal))"
proof (cases r)
  case None
  from TransferValueOnly_moves [OF assms(1) assms(2) [unfolded None]] TransferValueOnly_SomeD [OF assms(2)] None
  show ?thesis by auto
next
  case (Some err)
  have "same_but_cache s s'" using TransferValueOnly_error_frame assms Some by blast
  with Some same_but_cache_wf [OF this assms(1)] show ?thesis by (auto simp: same_but_cache_def)
qed

lemma sample_transfer: "\<exists>s'. TransferValueOnly sampleEnv ''bob'' ''alice'' (Some 30) False sampleVM = Some (None, s')"
  by (simp add: TransferValueOnly_def hasSufficientBalance_def GetBalanceBigInt_def host_GetOutputAccount_def GetOutputAccount_def
    host_setAccount_def setAccount_def moveValue_def addToDelta_def outAccounts_def NewVMOutputAccount_def Let_def sample_defs)

theorem TransferValueOnly_conserves_witness:
  "\<exists>s'. TransferValueOnly sampleEnv ''bob'' ''alice'' (Some 30) False sampleVM = Some (None, s') \<and>
     deltaOf ''bob'' s' = 30 \<and> deltaOf ''alice'' s' = -30 \<and> totalDelta (outputCtx s') = 0"
proof -
  obtain s' where s': "TransferValueOnly sampleEnv ''bob'' ''alice'' (Some 30) False sampleVM = Some (None, s')"
    using sample_transfer by blast
  from TransferValueOnly_conserves [OF sample_wf_output this] s' show ?thesis
    by (auto simp: deltaOf_def [of _ sampleVM] totalDelta_def [of "outputCtx sampleVM"]) (simp_all add: outAccounts_def sample_defs)
qed

text \<open>C7: an output that reports success does not account for more gas than there was.  With the gas
  checks of version 2, the gas used by all accounts, the gas sent with all transfers and the gas
  remaining together are at most the gas provided and locked, the gas used before the call and the
  gas that was forwarded but came back unused, as long as that bound is below \<open>2 ^ 64 - 1\<close>.  The code adds with saturation
  at \<open>2 ^ 64 - 1\<close>: when the bound reaches it, the check says nothing about the recorded gas.\<close>

theorem final_output_gas:
  assumes "GetVMOutput e s = (out, s')" "IsVMV2Enabled e" "ReturnCode out = Ok"
    "bound = unat (initialGasProvided (meteringCtx s)) + unat (GetGasLocked s) +
      unat (totalUsedGas (meteringCtx s)) + (unat (snd (fst (GasUsedByContract e s))) - unat (GasLeft s))"
    "bound < 2 ^ 64 - 1"
  shows "recordedGas out \<le> bound"
  using GetVMOutput_gas [OF assms(1-3)] assms(4,5) by (simp add: min_def split: if_splits)

theorem final_output_gas_witness:
  "recordedGas (fst (GetVMOutput sampleEnv sampleVM)) = 1000 \<and> recordedGas (fst (GetVMOutput sampleEnv sampleVM)) \<le> 1000"
proof -
  have ok: "ReturnCode (fst (GetVMOutput sampleEnv sampleVM)) = Ok" by code_simp
  have v2: "IsVMV2Enabled sampleEnv" by (simp add: IsVMV2Enabled_def sampleEnv_def)
  from final_output_gas [OF surjective_pairing v2 ok, of 1000] have "recordedGas (fst (GetVMOutput sampleEnv sampleVM)) \<le> 1000"
    by (simp add: GasUsedByContract_def getTotalForwardedGas_def getContractGasState_def GetPointsUsed_def GetGasLocked_def
      IsVMV2Enabled_def AddUint64_def AddUint64WithErr_def SubUint64_def GasLeft_def Let_def sample_defs)
  moreover have "recordedGas (fst (GetVMOutput sampleEnv sampleVM)) = 1000" by code_simp
  ultimately show ?thesis by blast
qed

text \<open>The final output carries code only for contracts deployed or upgraded during the execution.
  Code that was fetched from the node and cached in an account is removed from it.\<close>

lemma output_code_only_deployed:
  assumes "GetVMOutput e s = (out, s')" "(a, acc) \<in> set (OutputAccounts out)" "a \<notin> codeUpdates (outputCtx s)"
  shows "Code acc = [] \<and> CodeDeployerAddress acc = None"
  using GetVMOutput_code [OF assms] by simp

definition cachedCodeVM :: vm where
  \<comment> \<open>the sample host after it has fetched the contract's code\<close>
  "cachedCodeVM = snd (GetCode sampleEnv ''contract'' sampleVM)"

lemma output_code_only_deployed_example:
  "\<exists>acc. map_option Code (go_get (outAccounts cachedCodeVM) ''contract'') = Some ''code'' \<and>
     (''contract'', acc) \<in> set (OutputAccounts (fst (GetVMOutput sampleEnv cachedCodeVM))) \<and> Code acc = []"
proof -
  have "''contract'' \<in> fst ` set (OutputAccounts (fst (GetVMOutput sampleEnv cachedCodeVM)))" by code_simp
  then obtain acc where acc: "(''contract'', acc) \<in> set (OutputAccounts (fst (GetVMOutput sampleEnv cachedCodeVM)))" by auto
  have "''contract'' \<notin> codeUpdates (outputCtx cachedCodeVM)" by code_simp
  note code = output_code_only_deployed [OF surjective_pairing acc this]
  have "map_option Code (go_get (outAccounts cachedCodeVM) ''contract'') = Some ''code''" by code_simp
  with code acc show ?thesis by blast
qed

end
