(* ===== verification/KeyValue.thy ===== *)
theory KeyValue
  imports Prelude
begin

text \<open>
  The contract a contract's storage keeps towards the code that uses it: an abstract store, a
  total map from keys to byte strings, which a load reads and a store updates.  A store is
  either accepted, and then changes exactly its key, or refused, and then changes nothing.  The
  client lemmas run whole sequences of operations against the abstract map.
\<close>

datatype kv_op = Load bytes | Store bytes bytes

locale key_value =
  fixes abs :: "'s \<Rightarrow> bytes \<Rightarrow> bytes"
    and load :: "bytes \<Rightarrow> 's \<Rightarrow> (bytes \<times> 's) option"
    and store :: "bytes \<Rightarrow> bytes \<Rightarrow> 's \<Rightarrow> 's option"
    and accepts :: "'c \<Rightarrow> bytes \<Rightarrow> bool" \<comment> \<open>the keys a configuration lets be written\<close>
    and config :: "'s \<Rightarrow> 'c"
    and inv :: "'s \<Rightarrow> bool"
  assumes load_law: "inv s \<Longrightarrow>
      \<exists>s'. load k s = Some (abs s k, s') \<and> abs s' = abs s \<and> inv s' \<and> config s' = config s"
    and store_law: "inv s \<Longrightarrow>
      \<exists>s'. store k v s = Some s' \<and> abs s' = (if accepts (config s) k then (abs s)(k := v) else abs s) \<and>
        inv s' \<and> config s' = config s"
begin

primrec spec_op :: "'c \<Rightarrow> kv_op \<Rightarrow> (bytes \<Rightarrow> bytes) \<Rightarrow> bytes list \<times> (bytes \<Rightarrow> bytes)" where
  "spec_op c (Load k) m = ([m k], m)"
| "spec_op c (Store k v) m = ([], if accepts c k then m(k := v) else m)"

primrec impl_op :: "kv_op \<Rightarrow> 's \<Rightarrow> (bytes list \<times> 's) option" where
  "impl_op (Load k) s = do { (v, s) \<leftarrow> load k s; Some ([v], s) }"
| "impl_op (Store k v) s = do { s \<leftarrow> store k v s; Some ([], s) }"

fun spec_run :: "'c \<Rightarrow> kv_op list \<Rightarrow> (bytes \<Rightarrow> bytes) \<Rightarrow> bytes list \<times> (bytes \<Rightarrow> bytes)" where
  "spec_run c [] m = ([], m)"
| "spec_run c (x # xs) m = (let (r, m) = spec_op c x m; (rs, m) = spec_run c xs m in (r @ rs, m))"

fun impl_run :: "kv_op list \<Rightarrow> 's \<Rightarrow> (bytes list \<times> 's) option" where
  "impl_run [] s = Some ([], s)"
| "impl_run (x # xs) s = do { (r, s) \<leftarrow> impl_op x s; (rs, s) \<leftarrow> impl_run xs s; Some (r @ rs, s) }"

lemma impl_op_refines:
  assumes "inv s"
  shows "\<exists>r s'. impl_op x s = Some (r, s') \<and> spec_op (config s) x (abs s) = (r, abs s') \<and>
    inv s' \<and> config s' = config s"
proof (cases x)
  case (Load k)
  with load_law [OF assms, of k] show ?thesis by auto
next
  case (Store k v)
  with store_law [OF assms, of k v] show ?thesis by auto
qed

text \<open>Every sequence of operations runs to its end and returns what the abstract map returns.\<close>

lemma run_refines:
  "inv s \<Longrightarrow> \<exists>rs s'. impl_run xs s = Some (rs, s') \<and> spec_run (config s) xs (abs s) = (rs, abs s') \<and> inv s'"
proof (induction xs arbitrary: s)
  case (Cons x xs)
  obtain r t where t: "impl_op x s = Some (r, t)" "spec_op (config s) x (abs s) = (r, abs t)" "inv t"
      "config t = config s" using impl_op_refines [OF Cons.prems] by blast
  from Cons.IH [OF t(3)] t show ?case by auto
qed simp

end

end
