(* ===== verification/StorageContext.thy ===== *)
theory StorageContext
  imports OutputTransfers KeyValue
begin

text \<open>
  \<open>src/vmhost/contexts/storage.go\<close>: a contract's storage as the node's data overlaid with the
  updates recorded in the output account, the two kinds of protected keys, and the gas of reads
  and writes.  The abstraction is \<open>storageOf\<close>, the value every key has at present.
\<close>

subsection \<open>State stack\<close>

definition storage_PushState :: "storageContext \<Rightarrow> storageContext" where
  "storage_PushState c = c\<lparr>storage_stateStack := st_address c # storage_stateStack c\<rparr>"

definition storage_PopSetActiveState :: "storageContext \<Rightarrow> storageContext" where
  "storage_PopSetActiveState c =
     (case storage_stateStack c of
        [] \<Rightarrow> c | prevAddress # rest \<Rightarrow> c\<lparr>storage_stateStack := rest, st_address := prevAddress\<rparr>)"

definition storage_PopDiscard :: "storageContext \<Rightarrow> storageContext" where
  "storage_PopDiscard c =
     (case storage_stateStack c of [] \<Rightarrow> c | _ # rest \<Rightarrow> c\<lparr>storage_stateStack := rest\<rparr>)"

definition storage_ClearStateStack :: "storageContext \<Rightarrow> storageContext" where
  "storage_ClearStateStack c = c\<lparr>storage_stateStack := []\<rparr>"

definition SetAddress :: "address \<Rightarrow> storageContext \<Rightarrow> storageContext" where
  "SetAddress a c = c\<lparr>st_address := a\<rparr>"

subsection \<open>Reading\<close>

definition GetStorageUpdates :: "address \<Rightarrow> vm \<Rightarrow> (bytes, StorageUpdate) gomap \<times> vm" where
  "GetStorageUpdates a s = (let ((account, _), s) = host_GetOutputAccount a s in (StorageUpdates account, s))"

definition putStorageUpdate :: "address \<Rightarrow> bytes \<Rightarrow> StorageUpdate \<Rightarrow> vm \<Rightarrow> vm" where
  \<comment> \<open>\<open>storageUpdates[string(key)] = update\<close> on the map of the account\<close>
  "putStorageUpdate a key update s =
     (let ((account, _), s) = host_GetOutputAccount a s
      in host_setAccount a (account\<lparr>StorageUpdates := go_set key update (StorageUpdates account)\<rparr>) s)"

definition getStorageFromAddressUnmetered :: "env \<Rightarrow> address \<Rightarrow> bytes \<Rightarrow> vm \<Rightarrow> bytes \<times> vm" where
  "getStorageFromAddressUnmetered e a key s =
     (let (storageUpdates, s) = GetStorageUpdates a s
      in case go_get storageUpdates key of
           Some storageUpdate \<Rightarrow> (su_Data storageUpdate, s)
         | None \<Rightarrow>
             let val = hook_GetStorageData e (hookLog s) a key
             in (val, putStorageUpdate a key \<lparr>su_Offset = key, su_Data = val\<rparr> s))"

definition GetStorageUnmetered :: "env \<Rightarrow> bytes \<Rightarrow> vm \<Rightarrow> bytes \<times> vm" where
  "GetStorageUnmetered e key s = getStorageFromAddressUnmetered e (st_address (storageCtx s)) key s"

definition isVMProtectedKey :: "bytes \<Rightarrow> bool" where
  "isVMProtectedKey key = HasPrefix key ProtectedStoragePrefix"

definition isProtocolProtectedKey :: "vm \<Rightarrow> bytes \<Rightarrow> bool" where
  "isProtocolProtectedKey s key = HasPrefix key (ProtectedKeyPrefix (storageCtx s))"

definition useGasForExtraKeyBytes :: "bytes \<Rightarrow> vm \<Rightarrow> vm option" where
  \<comment> \<open>\<open>extraBytes := len(key) - vmhost.AddressLen; if extraBytes > 0\<close>\<close>
  "useGasForExtraKeyBytes key s =
     (if int (length key) - int AddressLen > 0
      then UseGas (MulUint64 (DataCopyPerByte (baseOperationCost (gasSchedule (meteringCtx s))))
                     (of_nat (length key - AddressLen))) s
      else Some s)"

definition useGasPerByte :: "(BaseOperationCost \<Rightarrow> u64) \<Rightarrow> u64 \<Rightarrow> vm \<Rightarrow> vm option" where
  "useGasPerByte cost n s = UseGas (MulUint64 (cost (baseOperationCost (gasSchedule (meteringCtx s)))) n) s"

definition freeGasPerByte :: "(BaseOperationCost \<Rightarrow> u64) \<Rightarrow> u64 \<Rightarrow> vm \<Rightarrow> vm option" where
  "freeGasPerByte cost n s = FreeGas (MulUint64 (cost (baseOperationCost (gasSchedule (meteringCtx s)))) n) s"

definition GetStorage :: "env \<Rightarrow> bytes \<Rightarrow> vm \<Rightarrow> (bytes \<times> vm) option" where
  "GetStorage e key s = do {
     s \<leftarrow> useGasForExtraKeyBytes key s;
     let (val, s) = GetStorageUnmetered e key s;
     s \<leftarrow> useGasPerByte DataCopyPerByte (len val) s;
     Some (val, s) }"

definition GetStorageFromAddress :: "env \<Rightarrow> address \<Rightarrow> bytes \<Rightarrow> vm \<Rightarrow> (bytes \<times> vm) option" where
  "GetStorageFromAddress e a key s = do {
     s \<leftarrow> useGasForExtraKeyBytes key s;
     let readable = (a = st_address (storageCtx s) \<or>
       (case hook_GetUserAccount e (hookLog s) a of
          Inr (Some userAcc) \<Rightarrow> metadata_Readable e (ua_CodeMetadata userAcc) | _ \<Rightarrow> False));
     if \<not> readable then Some ([], s)
     else do {
       let (val, s) = (if isProtocolProtectedKey s key then (hook_GetStorageData e (hookLog s) a key, s)
                       else getStorageFromAddressUnmetered e a key s);
       s \<leftarrow> useGasPerByte DataCopyPerByte (len val) s;
       Some (val, s) } }"

subsection \<open>Writing\<close>

definition chargeModified :: "u64 \<Rightarrow> u64 \<Rightarrow> vm \<Rightarrow> vm option" where
  \<comment> \<open>the gas of replacing a value of one length by one of another\<close>
  "chargeModified newLength lengthOldValue s =
     (let newValueExtraLength = SubInt newLength lengthOldValue
      in do {
        s \<leftarrow> (if sint newValueExtraLength > 0 then
               let base = baseOperationCost (gasSchedule (meteringCtx s));
                   useGas = MulUint64 (PersistPerByte base) lengthOldValue;
                   newValStoreUseGas = MulUint64 (StorePerByte base) newValueExtraLength
               in UseGas (AddUint64 useGas newValStoreUseGas) s
             else Some s);
        (if sint newValueExtraLength < 0 then do {
             let newValueExtraLength = - newValueExtraLength;
             s \<leftarrow> useGasPerByte PersistPerByte newLength s;
             freeGasPerByte ReleasePerByte newValueExtraLength s }
         else Some s) })"

definition SetStorage :: "env \<Rightarrow> bytes \<Rightarrow> bytes \<Rightarrow> vm \<Rightarrow> ((StorageStatus \<times> err option) \<times> vm) option" where
  "SetStorage e key val s =
     (if readOnly (runtimeCtx s) then Some ((StorageUnchanged, None), s)
      else if isProtocolProtectedKey s key then Some ((StorageUnchanged, Some ErrStoreReservedKey), s)
      else if isVMProtectedKey key \<and> vmStorageProtectionEnabled (storageCtx s)
      then Some ((StorageUnchanged, Some ErrCannotWriteProtectedKey), s)
      else do {
        s \<leftarrow> useGasForExtraKeyBytes key s;
        let a = st_address (storageCtx s);
        let (storageUpdates, s) = GetStorageUpdates a s;
        let (oldValue, s) =
          (case go_get storageUpdates key of
             None \<Rightarrow> (let (oldValue, s) = GetStorageUnmetered e key s
                      in (oldValue, putStorageUpdate a key \<lparr>su_Offset = key, su_Data = oldValue\<rparr> s))
           | Some update \<Rightarrow> (su_Data update, s));
        if oldValue = val then do {
          s \<leftarrow> useGasPerByte DataCopyPerByte (len val) s;
          Some ((StorageUnchanged, None), s) }
        else do {
          let s = putStorageUpdate a key \<lparr>su_Offset = key, su_Data = val\<rparr> s;
          if oldValue = [] then do {
            s \<leftarrow> useGasPerByte StorePerByte (len val) s;
            Some ((StorageAdded, None), s) }
          else if val = [] then do {
            s \<leftarrow> freeGasPerByte ReleasePerByte (len oldValue) s;
            Some ((StorageDeleted, None), s) }
          else do {
            s \<leftarrow> chargeModified (len val) (len oldValue) s;
            Some ((StorageModified, None), s) } } })"

definition SetProtectedStorage :: "env \<Rightarrow> bytes \<Rightarrow> bytes \<Rightarrow> vm \<Rightarrow> ((StorageStatus \<times> err option) \<times> vm) option" where
  "SetProtectedStorage e key val s = do {
     (r, s) \<leftarrow> SetStorage e key val (s\<lparr>storageCtx := (storageCtx s)\<lparr>vmStorageProtectionEnabled := False\<rparr>\<rparr>);
     Some (r, s\<lparr>storageCtx := (storageCtx s)\<lparr>vmStorageProtectionEnabled := True\<rparr>\<rparr>) }"

subsection \<open>The state stack\<close>

lemmas storage_stack_defs = storage_PushState_def storage_PopSetActiveState_def storage_PopDiscard_def
  storage_ClearStateStack_def

interpretation storageStack: state_stack storage_PushState storage_PopSetActiveState storage_PopDiscard
  storage_ClearStateStack st_address storage_stateStack "\<lambda>_. True"
  by unfold_locales (auto simp: storage_stack_defs split: list.splits)

subsection \<open>The value of a key\<close>

definition storageOf :: "env \<Rightarrow> address \<Rightarrow> vm \<Rightarrow> bytes \<Rightarrow> bytes" where
  \<comment> \<open>the update recorded for the key, or else the node's value\<close>
  "storageOf e a s key =
     (case go_get (outAccounts s) a of
        None \<Rightarrow> hook_GetStorageData e (hookLog s) a key
      | Some acc \<Rightarrow> (case go_get (StorageUpdates acc) key of
                       None \<Rightarrow> hook_GetStorageData e (hookLog s) a key | Some u \<Rightarrow> su_Data u))"

definition storage_inv :: "vm \<Rightarrow> bool" where
  "storage_inv s \<longleftrightarrow> running s \<and> wf_output (outputCtx s)"

definition kept :: "vm \<Rightarrow> vm \<Rightarrow> bool" where
  \<comment> \<open>what every storage operation leaves alone\<close>
  "kept s s' \<longleftrightarrow> storageCtx s' = storageCtx s \<and> runtimeCtx s' = runtimeCtx s \<and> meteringCtx s' = meteringCtx s \<and>
     bigIntCtx s' = bigIntCtx s \<and> hookLog s' = hookLog s \<and> (\<forall>a. deltaOf a s' = deltaOf a s) \<and> storage_inv s'"

lemma kept_trans: "kept s t \<Longrightarrow> kept t u \<Longrightarrow> kept s u"
  by (simp add: kept_def)

lemma kept_refl: "storage_inv s \<Longrightarrow> kept s s"
  by (simp add: kept_def)

lemma kept_D: "kept s s' \<Longrightarrow> storage_inv s'"
  "kept s s' \<Longrightarrow> storageCtx s' = storageCtx s" "kept s s' \<Longrightarrow> runtimeCtx s' = runtimeCtx s"
  "kept s s' \<Longrightarrow> meteringCtx s' = meteringCtx s" "kept s s' \<Longrightarrow> hookLog s' = hookLog s"
  by (simp_all add: kept_def)

lemma cache_kept:
  assumes "same_but_cache s s'" "storage_inv s"
  shows "kept s s'"
  using assms same_but_cache_frame [OF assms(1)] same_but_cache_wf [OF assms(1)]
  by (auto simp: kept_def storage_inv_def running_def)

definition charges :: "(vm \<Rightarrow> vm option) \<Rightarrow> bool" where
  \<comment> \<open>an operation that returns, and changes gas only\<close>
  "charges f \<longleftrightarrow> (\<forall>s. storage_inv s \<longrightarrow> (\<exists>s'. f s = Some s' \<and> kept s s' \<and> outAccounts s' = outAccounts s))"

lemma chargesE:
  assumes "charges f" "storage_inv s"
  obtains s' where "f s = Some s'" "kept s s'" "outAccounts s' = outAccounts s"
  using assms by (auto simp: charges_def)

lemma charges_UseGas: "charges (UseGas g)"
  unfolding charges_def
proof (intro allI impI)
  fix s assume inv: "storage_inv s"
  then obtain s' where s': "UseGas g s = Some s'"
    using UseGas_no_panic [of g s] by (auto simp: storage_inv_def)
  from UseGas_frame [OF this] inv show "\<exists>s'. UseGas g s = Some s' \<and> kept s s' \<and> outAccounts s' = outAccounts s"
    by (intro exI [of _ s']) (simp add: s' kept_def storage_inv_def running_def outAccounts_def deltaOf_def)
qed

lemma charges_FreeGas: "charges (FreeGas g)"
  unfolding charges_def
  by (auto simp: storage_inv_def running_def FreeGas_def GetRefund_def wf_output_def wf_VMOutput_def SetRefund_def
    kept_def outAccounts_def deltaOf_def)

lemma charges_Some: "charges Some"
  by (simp add: charges_def kept_refl)

lemma charges_bind:
  assumes "charges f" "charges g"
  shows "charges (\<lambda>s. f s \<bind> g)"
  unfolding charges_def
proof (intro allI impI)
  fix s assume "storage_inv s"
  with assms(1) obtain t where t: "f s = Some t" "kept s t" "outAccounts t = outAccounts s" by (rule chargesE)
  from assms(2) kept_D(1) [OF t(2)] obtain u where "g t = Some u" "kept t u" "outAccounts u = outAccounts t"
    by (rule chargesE)
  with t show "\<exists>s'. f s \<bind> g = Some s' \<and> kept s s' \<and> outAccounts s' = outAccounts s"
    by (auto intro: kept_trans)
qed

lemma charges_UseGas_by: "charges (\<lambda>s. UseGas (g s) s)"
  using charges_UseGas by (simp add: charges_def)

lemma charges_FreeGas_by: "charges (\<lambda>s. FreeGas (g s) s)"
  using charges_FreeGas by (simp add: charges_def)

lemma charges_if: "charges f \<Longrightarrow> charges g \<Longrightarrow> charges (\<lambda>s. if c then f s else g s)"
  by (cases c) simp_all

lemma charges_useGasForExtraKeyBytes: "charges (useGasForExtraKeyBytes key)"
  unfolding useGasForExtraKeyBytes_def [abs_def] by (rule charges_if [OF charges_UseGas_by charges_Some])

lemma charges_useGasPerByte: "charges (useGasPerByte cost n)"
  unfolding useGasPerByte_def [abs_def] by (rule charges_UseGas_by)

lemma charges_freeGasPerByte: "charges (freeGasPerByte cost n)"
  unfolding freeGasPerByte_def [abs_def] by (rule charges_FreeGas_by)

lemmas charges_ops = charges_useGasForExtraKeyBytes charges_useGasPerByte charges_freeGasPerByte

lemma charges_chargeModified: "charges (chargeModified n m)"
  unfolding chargeModified_def [abs_def] Let_def
  by (rule charges_bind
    [OF charges_if [OF charges_UseGas_by charges_Some]
        charges_if [OF charges_bind [OF charges_useGasPerByte charges_freeGasPerByte] charges_Some]])

lemma storageOf_cong:
  "outAccounts s' = outAccounts s \<Longrightarrow> hookLog s' = hookLog s \<Longrightarrow> storageOf e a s' = storageOf e a s"
  unfolding storageOf_def [abs_def] by (simp cong: option.case_cong)

subsection \<open>Reads and writes on the abstraction\<close>

lemma GetStorageUpdates_effect:
  assumes "storage_inv s" "GetStorageUpdates a s = (m, s')"
  shows "kept s s'" "storageOf e b s' = storageOf e b s" "instances s' = instances s"
    "storageOf e a s key = (case go_get m key of None \<Rightarrow> hook_GetStorageData e (hookLog s) a key | Some u \<Rightarrow> su_Data u)"
proof -
  obtain acc isNew where t: "host_GetOutputAccount a s = ((acc, isNew), s')" and m: "m = StorageUpdates acc"
    using assms(2) by (auto simp: GetStorageUpdates_def split: prod.splits)
  have cache: "same_but_cache s s'"
    using host_GetOutputAccount_cache [OF _ t] assms(1) by (simp add: storage_inv_def)
  then show "kept s s'" using assms(1) by (rule cache_kept)
  show "instances s' = instances s" using same_but_cache_frame [OF cache] by simp
  show "storageOf e b s' = storageOf e b s"
    using t by (cases "b = a") (auto simp: fun_eq_iff host_GetOutputAccount_def GetOutputAccount_def storageOf_def outAccounts_def
      setAccount_def go_simps NewVMOutputAccount_def split: option.splits)
  show "storageOf e a s key = (case go_get m key of None \<Rightarrow> hook_GetStorageData e (hookLog s) a key | Some u \<Rightarrow> su_Data u)"
    using t m by (auto simp: host_GetOutputAccount_def GetOutputAccount_def storageOf_def outAccounts_def
      NewVMOutputAccount_def split: option.splits)
qed

lemma putStorageUpdate_effect:
  assumes "storage_inv s"
  shows "kept s (putStorageUpdate a key u s)" "instances (putStorageUpdate a key u s) = instances s"
    "storageOf e b (putStorageUpdate a key u s) = (if b = a then (storageOf e a s)(key := su_Data u) else storageOf e b s)"
proof -
  obtain acc isNew t where t: "host_GetOutputAccount a s = ((acc, isNew), t)" by (metis prod.collapse)
  note acc = host_GetOutputAccount_cache [OF _ t]
  have wf: "wf_output (outputCtx s)" using assms by (simp add: storage_inv_def)
  let ?acc = "acc\<lparr>StorageUpdates := go_set key u (StorageUpdates acc)\<rparr>"
  have "same_but_cache t (host_setAccount a ?acc t)"
    using acc(1) [OF wf] acc(2-4) [OF wf] wf
    by (intro host_setAccount_cache) (auto simp: wf_account_def intro: same_but_cache_wf)
  with acc(1) [OF wf] have cache: "same_but_cache s (host_setAccount a ?acc t)" by (rule same_but_cache_trans)
  then show "instances (putStorageUpdate a key u s) = instances s"
    using t by (simp add: putStorageUpdate_def same_but_cache_frame)
  from cache show "kept s (putStorageUpdate a key u s)"
    using assms t by (simp add: putStorageUpdate_def cache_kept)
  show "storageOf e b (putStorageUpdate a key u s) = (if b = a then (storageOf e a s)(key := su_Data u) else storageOf e b s)"
    using t by (auto simp: fun_eq_iff putStorageUpdate_def host_setAccount_def host_GetOutputAccount_def
      GetOutputAccount_def storageOf_def outAccounts_def setAccount_def go_simps NewVMOutputAccount_def
      split: option.splits)
qed

lemma getStorage_effect:
  assumes "storage_inv s"
  shows "\<exists>s'. getStorageFromAddressUnmetered e a key s = (storageOf e a s key, s') \<and> kept s s' \<and>
    (\<forall>b. storageOf e b s' = storageOf e b s) \<and> instances s' = instances s"
proof -
  obtain m t where t: "GetStorageUpdates a s = (m, t)" by (metis prod.collapse)
  note eff = GetStorageUpdates_effect [OF assms t]
  show ?thesis
  proof (cases "go_get m key")
    case (Some u)
    with t eff show ?thesis by (simp add: getStorageFromAddressUnmetered_def)
  next
    case None
    let ?u = "\<lparr>su_Offset = key, su_Data = hook_GetStorageData e (hookLog t) a key\<rparr>"
    have log: "hookLog t = hookLog s" using eff(1) by (rule kept_D)
    have val: "storageOf e a s key = hook_GetStorageData e (hookLog s) a key" using None eff(4) by simp
    note put = putStorageUpdate_effect [OF kept_D(1) [OF eff(1)], where a = a and key = key and u = ?u]
    have "kept s (putStorageUpdate a key ?u t)" using eff(1) put(1) by (rule kept_trans)
    moreover have "storageOf e b (putStorageUpdate a key ?u t) = storageOf e b s" for b
      using put(3) [where e = e and b = b] eff(2) [of e] val log by (auto simp: fun_eq_iff)
    moreover have "instances (putStorageUpdate a key ?u t) = instances s" using put(2) eff(3) by simp
    ultimately show ?thesis
      using None t val log by (simp add: getStorageFromAddressUnmetered_def Let_def)
  qed
qed

lemma GetStorage_effect:
  assumes "storage_inv s"
  shows "\<exists>s'. GetStorage e key s = Some (storageOf e (st_address (storageCtx s)) s key, s') \<and> kept s s' \<and>
    (\<forall>b. storageOf e b s' = storageOf e b s)"
proof -
  let ?a = "st_address (storageCtx s)"
  obtain t where t: "useGasForExtraKeyBytes key s = Some t" "kept s t" "outAccounts t = outAccounts s"
    using charges_ops(1) assms by (rule chargesE)
  have tv: "storageOf e b t = storageOf e b s" for b
    using t kept_D(5) [OF t(2)] by (intro storageOf_cong)
  obtain u where u: "getStorageFromAddressUnmetered e ?a key t = (storageOf e ?a t key, u)" "kept t u"
      "\<forall>b. storageOf e b u = storageOf e b t"
    using getStorage_effect [OF kept_D(1) [OF t(2)]] by blast
  obtain w where w: "useGasPerByte DataCopyPerByte (len (storageOf e ?a t key)) u = Some w" "kept u w"
      "outAccounts w = outAccounts u"
    using charges_ops(2) kept_D(1) [OF u(2)] by (rule chargesE)
  have "storageOf e b w = storageOf e b u" for b
    using w kept_D(5) [OF w(2)] by (intro storageOf_cong)
  with t u w tv show ?thesis
    by (auto simp: GetStorage_def GetStorageUnmetered_def kept_D(2) intro: kept_trans)
qed

subsection \<open>Writes\<close>

definition mayWrite :: "bool \<times> bytes \<times> bool \<Rightarrow> bytes \<Rightarrow> bool" where
  \<comment> \<open>in terms of the read-only flag, the node's key prefix and the VM's protection flag\<close>
  "mayWrite c key \<longleftrightarrow> (case c of (ro, nodePrefix, protected) \<Rightarrow>
     \<not> ro \<and> \<not> HasPrefix key nodePrefix \<and> \<not> (isVMProtectedKey key \<and> protected))"

definition storageConfig :: "vm \<Rightarrow> bool \<times> bytes \<times> bool" where
  "storageConfig s = (readOnly (runtimeCtx s), ProtectedKeyPrefix (storageCtx s), vmStorageProtectionEnabled (storageCtx s))"

lemma kept_config: "kept s s' \<Longrightarrow> storageConfig s' = storageConfig s"
  by (simp add: kept_def storageConfig_def)

lemma SetStorage_refused:
  assumes "\<not> mayWrite (storageConfig s) key"
  shows "\<exists>err. SetStorage e key val s = Some ((StorageUnchanged, err), s)"
  using assms by (auto simp: SetStorage_def mayWrite_def storageConfig_def isProtocolProtectedKey_def)

definition readOld :: "env \<Rightarrow> bytes \<Rightarrow> vm \<Rightarrow> bytes \<times> vm" where
  \<comment> \<open>the middle of \<open>SetStorage\<close>: the old value, cached\<close>
  "readOld e key s =
     (let a = st_address (storageCtx s); (storageUpdates, s) = GetStorageUpdates a s
      in case go_get storageUpdates key of
           None \<Rightarrow> (let (oldValue, s) = GetStorageUnmetered e key s
                    in (oldValue, putStorageUpdate a key \<lparr>su_Offset = key, su_Data = oldValue\<rparr> s))
         | Some update \<Rightarrow> (su_Data update, s))"

definition writeNew :: "address \<Rightarrow> bytes \<Rightarrow> bytes \<Rightarrow> bytes \<Rightarrow> vm \<Rightarrow> ((StorageStatus \<times> err option) \<times> vm) option" where
  \<comment> \<open>the end of \<open>SetStorage\<close>: the write and its gas\<close>
  "writeNew a key oldValue val s =
     (if oldValue = val then do {
        s \<leftarrow> useGasPerByte DataCopyPerByte (len val) s;
        Some ((StorageUnchanged, None), s) }
      else do {
        let s = putStorageUpdate a key \<lparr>su_Offset = key, su_Data = val\<rparr> s;
        if oldValue = [] then do {
          s \<leftarrow> useGasPerByte StorePerByte (len val) s;
          Some ((StorageAdded, None), s) }
        else if val = [] then do {
          s \<leftarrow> freeGasPerByte ReleasePerByte (len oldValue) s;
          Some ((StorageDeleted, None), s) }
        else do {
          s \<leftarrow> chargeModified (len val) (len oldValue) s;
          Some ((StorageModified, None), s) } })"

lemma SetStorage_accepted:
  assumes "mayWrite (storageConfig s) key"
  shows "SetStorage e key val s = do {
    s \<leftarrow> useGasForExtraKeyBytes key s;
    let (oldValue, t) = readOld e key s;
    writeNew (st_address (storageCtx s)) key oldValue val t }"
  using assms
  by (cases "useGasForExtraKeyBytes key s")
    (auto simp: SetStorage_def mayWrite_def storageConfig_def isProtocolProtectedKey_def readOld_def
      writeNew_def Let_def split: prod.splits option.splits)

lemma readOld_effect:
  assumes "storage_inv s"
  shows "\<exists>s'. readOld e key s = (storageOf e (st_address (storageCtx s)) s key, s') \<and> kept s s' \<and>
    (\<forall>b. storageOf e b s' = storageOf e b s) \<and> instances s' = instances s"
proof -
  let ?a = "st_address (storageCtx s)"
  obtain m t where t: "GetStorageUpdates ?a s = (m, t)" by (metis prod.collapse)
  note eff = GetStorageUpdates_effect [OF assms t]
  have ta: "st_address (storageCtx t) = ?a" using kept_D(2) [OF eff(1)] by simp
  show ?thesis
  proof (cases "go_get m key")
    case (Some v)
    with t eff show ?thesis by (simp add: readOld_def)
  next
    case None
    let ?v = "storageOf e ?a s key"
    obtain u where u: "getStorageFromAddressUnmetered e ?a key t = (?v, u)" "kept t u"
        "\<forall>b. storageOf e b u = storageOf e b s" "instances u = instances t"
      using getStorage_effect [OF kept_D(1) [OF eff(1)], of e ?a key] eff(2) by auto
    let ?w = "putStorageUpdate ?a key \<lparr>su_Offset = key, su_Data = ?v\<rparr> u"
    note put = putStorageUpdate_effect [OF kept_D(1) [OF u(2)], where a = ?a and key = key
        and u = "\<lparr>su_Offset = key, su_Data = ?v\<rparr>"]
    have "readOld e key s = (?v, ?w)" using None t u(1) ta by (simp add: readOld_def GetStorageUnmetered_def Let_def)
    moreover have "kept s ?w" using kept_trans [OF kept_trans [OF eff(1) u(2)] put(1)] .
    moreover have "storageOf e b ?w = storageOf e b s" for b
      using put(3) [where e = e and b = b] u(3) by (auto simp: fun_eq_iff)
    moreover have "instances ?w = instances s" using put(2) u(4) eff(3) by simp
    ultimately show ?thesis by blast
  qed
qed

definition statusOf :: "bytes \<Rightarrow> bytes \<Rightarrow> StorageStatus" where
  "statusOf old val = (if old = val then StorageUnchanged else if old = [] then StorageAdded
     else if val = [] then StorageDeleted else StorageModified)"

lemma writeNew_effect:
  assumes "storage_inv s" "storageOf e a s key = old"
  shows "\<exists>s'. writeNew a key old val s = Some ((statusOf old val, None), s') \<and> kept s s' \<and>
    (\<forall>b. storageOf e b s' = (if b = a then (storageOf e a s)(key := val) else storageOf e b s))"
proof -
  let ?s = "if old = val then s else putStorageUpdate a key \<lparr>su_Offset = key, su_Data = val\<rparr> s"
  let ?charge = "if old = val then useGasPerByte DataCopyPerByte (len val)
    else if old = [] then useGasPerByte StorePerByte (len val)
    else if val = [] then freeGasPerByte ReleasePerByte (len old) else chargeModified (len val) (len old)"
  have s: "kept s ?s" "storageOf e b ?s = (if b = a then (storageOf e a s)(key := val) else storageOf e b s)" for b
    using putStorageUpdate_effect [OF assms(1), where a = a and key = key and u = "\<lparr>su_Offset = key, su_Data = val\<rparr>"]
      kept_refl [OF assms(1)] assms(2) by auto
  have "charges ?charge" by (simp add: charges_ops charges_chargeModified)
  then obtain t where t: "?charge ?s = Some t" "kept ?s t" "outAccounts t = outAccounts ?s"
    using kept_D(1) [OF s(1)] by (rule chargesE)
  have "writeNew a key old val s = Some ((statusOf old val, None), t)"
    using t(1) by (auto simp: writeNew_def statusOf_def Let_def split: if_splits)
  moreover have "storageOf e b t = storageOf e b ?s" for b
    using t(3) kept_D(5) [OF t(2)] by (rule storageOf_cong)
  ultimately show ?thesis using kept_trans [OF s(1) t(2)] s(2) by auto
qed

lemma SetStorage_effect:
  assumes "storage_inv s" "mayWrite (storageConfig s) key"
  shows "\<exists>s'. SetStorage e key val s = Some ((statusOf (storageOf e (st_address (storageCtx s)) s key) val, None), s') \<and>
    kept s s' \<and> (\<forall>b. storageOf e b s' = (if b = st_address (storageCtx s) then (storageOf e b s)(key := val)
      else storageOf e b s))"
proof -
  let ?a = "st_address (storageCtx s)"
  obtain t where t: "useGasForExtraKeyBytes key s = Some t" "kept s t" "outAccounts t = outAccounts s"
    using charges_ops(1) assms(1) by (rule chargesE)
  have tv: "storageOf e b t = storageOf e b s" for b
    using t(3) kept_D(5) [OF t(2)] by (rule storageOf_cong)
  have ta: "st_address (storageCtx t) = ?a" using kept_D(2) [OF t(2)] by simp
  obtain u where u: "readOld e key t = (storageOf e ?a s key, u)" "kept t u"
      "\<forall>b. storageOf e b u = storageOf e b s"
    using readOld_effect [OF kept_D(1) [OF t(2)], of e key] tv ta by auto
  have uold: "storageOf e ?a u key = storageOf e ?a s key" using u(3) by simp
  obtain w where w: "writeNew ?a key (storageOf e ?a s key) val u = Some ((statusOf (storageOf e ?a s key) val, None), w)"
      "kept u w" "\<forall>b. storageOf e b w = (if b = ?a then (storageOf e ?a u)(key := val) else storageOf e b u)"
    using writeNew_effect [OF kept_D(1) [OF u(2)] uold] by blast
  have "SetStorage e key val s = Some ((statusOf (storageOf e ?a s key) val, None), w)"
    using SetStorage_accepted [OF assms(2)] t(1) u(1) w(1) ta by simp
  moreover have "kept s w" using kept_trans [OF kept_trans [OF t(2) u(2)] w(2)] .
  ultimately show ?thesis using w(3) u(3) by auto
qed

definition store :: "env \<Rightarrow> bytes \<Rightarrow> bytes \<Rightarrow> vm \<Rightarrow> vm option" where
  "store e key val s = map_option snd (SetStorage e key val s)"

interpretation contractStorage: key_value "\<lambda>s. storageOf e (st_address (storageCtx s)) s" "GetStorage e" "store e"
  mayWrite storageConfig storage_inv for e
proof
  fix s k assume inv: "storage_inv s"
  show "\<exists>s'. GetStorage e k s = Some (storageOf e (st_address (storageCtx s)) s k, s') \<and>
      storageOf e (st_address (storageCtx s')) s' = storageOf e (st_address (storageCtx s)) s \<and>
      storage_inv s' \<and> storageConfig s' = storageConfig s"
    using GetStorage_effect [OF inv, of e k] kept_D kept_config by fastforce
next
  fix s k v assume inv: "storage_inv s"
  show "\<exists>s'. store e k v s = Some s' \<and> storageOf e (st_address (storageCtx s')) s' =
      (if mayWrite (storageConfig s) k then (storageOf e (st_address (storageCtx s)) s)(k := v)
       else storageOf e (st_address (storageCtx s)) s) \<and>
      storage_inv s' \<and> storageConfig s' = storageConfig s"
  proof (cases "mayWrite (storageConfig s) k")
    case True
    from SetStorage_effect [OF inv True, of e v] show ?thesis
      using True kept_D kept_config by (fastforce simp: store_def)
  next
    case False
    from SetStorage_refused [OF False, of e v] show ?thesis using False inv by (auto simp: store_def)
  qed
qed

subsection \<open>The gas of a write\<close>

lemma points_cong: "instances s' = instances s \<Longrightarrow> runtimeCtx s' = runtimeCtx s \<Longrightarrow> pointsOf s' = pointsOf s"
  by (simp add: GetPointsUsed_def cong: option.case_cong)

lemma min_sat: "min (p + min x (2 ^ 64 - 1)) (2 ^ 63 - 1) = min (p + x) (2 ^ 63 - 1 :: nat)"
  by (simp add: min_def)

lemma FreeGas_instances: "FreeGas g s = Some s' \<Longrightarrow> instances s' = instances s \<and> runtimeCtx s' = runtimeCtx s \<and>
    meteringCtx s' = meteringCtx s"
  by (auto simp: FreeGas_def bind_Some_iff)

abbreviation baseCost :: "vm \<Rightarrow> BaseOperationCost" where
  "baseCost s \<equiv> baseOperationCost (gasSchedule (meteringCtx s))"

lemma useGasPerByte_points:
  assumes "useGasPerByte cost n s = Some s'"
  shows "pointsOf s' = min (pointsOf s + unat (cost (baseCost s)) * unat n) (2 ^ 63 - 1)"
  using UseGas_points [OF assms [unfolded useGasPerByte_def]] by (simp only: unat_MulUint64 min_sat)

lemma freeGasPerByte_points:
  assumes "freeGasPerByte cost n s = Some s'"
  shows "pointsOf s' = pointsOf s"
  using FreeGas_instances [OF assms [unfolded freeGasPerByte_def]] by (blast intro: points_cong)

lemma useGasForExtraKeyBytes_points:
  assumes "useGasForExtraKeyBytes key s = Some s'" "length key < 2 ^ 63" "pointsOf s \<le> 2 ^ 63 - 1"
  shows "pointsOf s' = min (pointsOf s + unat (DataCopyPerByte (baseCost s)) * (length key - AddressLen)) (2 ^ 63 - 1)"
proof (cases "length key > AddressLen")
  case True
  then have "unat (of_nat (length key - AddressLen) :: u64) = length key - AddressLen"
    using assms(2) by (simp add: unat_of_nat take_bit_nat_eq_self del: of_nat_diff)
  moreover have "UseGas (MulUint64 (DataCopyPerByte (baseCost s)) (of_nat (length key - AddressLen))) s = Some s'"
    using True assms(1) by (simp add: useGasForExtraKeyBytes_def)
  ultimately show ?thesis by (simp only: UseGas_points unat_MulUint64 min_sat)
next
  case False
  with assms show ?thesis by (simp add: useGasForExtraKeyBytes_def)
qed

lemma SubInt_len:
  assumes "length val < 2 ^ 63" "length old < 2 ^ 63"
  shows "sint (SubInt (len val) (len old)) = int (length val) - int (length old)"
  using assms by (simp add: sint_SubInt sint_len)

definition writeGas :: "BaseOperationCost \<Rightarrow> bytes \<Rightarrow> bytes \<Rightarrow> nat" where
  \<comment> \<open>the price list of a write, in exact arithmetic\<close>
  "writeGas base old val =
     (if old = val then unat (DataCopyPerByte base) * length val
      else if old = [] then unat (StorePerByte base) * length val
      else if val = [] then 0
      else if length val > length old
      then unat (PersistPerByte base) * length old + unat (StorePerByte base) * (length val - length old)
      else if length val < length old then unat (PersistPerByte base) * length val else 0)"

lemma chargeModified_points:
  assumes "chargeModified (len val) (len old) s = Some s'" "length val < 2 ^ 63" "length old < 2 ^ 63"
    "pointsOf s \<le> 2 ^ 63 - 1" "old \<noteq> val" "old \<noteq> []" "val \<noteq> []"
  shows "pointsOf s' = min (pointsOf s + writeGas (baseCost s) old val) (2 ^ 63 - 1)"
proof -
  note diff = SubInt_len [OF assms(2,3)]
  have l: "unat (len val) = length val" "unat (len old) = length old" using assms by (simp_all add: unat_len)
  consider (grow) "length val > length old" | (shrink) "length val < length old" | (same) "length val = length old"
    by linarith
  then show ?thesis
  proof cases
    case grow
    then have "unat (SubInt (len val) (len old)) = length val - length old"
      using diff by (subst sint_nonneg_unat) auto
    with grow diff assms l show ?thesis
      by (auto simp: chargeModified_def Let_def bind_Some_iff writeGas_def unat_MulUint64 unat_AddUint64 min_def
        dest!: UseGas_points)
  next
    case shrink
    with diff assms l show ?thesis
      by (auto simp: chargeModified_def Let_def bind_Some_iff writeGas_def
        dest!: useGasPerByte_points freeGasPerByte_points)
  next
    case same
    with diff assms show ?thesis by (simp add: chargeModified_def writeGas_def)
  qed
qed

lemma writeNew_points:
  assumes "writeNew a key old val s = Some (r, s')" "storage_inv s" "length val < 2 ^ 63" "length old < 2 ^ 63"
    "pointsOf s \<le> 2 ^ 63 - 1"
  shows "pointsOf s' = min (pointsOf s + writeGas (baseCost s) old val) (2 ^ 63 - 1)"
proof -
  let ?t = "putStorageUpdate a key \<lparr>su_Offset = key, su_Data = val\<rparr> s"
  note put = putStorageUpdate_effect [OF assms(2), where a = a and key = key and u = "\<lparr>su_Offset = key, su_Data = val\<rparr>"]
  have t: "pointsOf ?t = pointsOf s" "meteringCtx ?t = meteringCtx s"
    using points_cong [OF put(2) kept_D(3) [OF put(1)]] kept_D(4) [OF put(1)] by simp_all
  have l: "unat (len val) = length val" using assms by (simp add: unat_len)
  consider "old = val" | "old \<noteq> val" "old = []" | "old \<noteq> val" "old \<noteq> []" "val = []"
    | "old \<noteq> val" "old \<noteq> []" "val \<noteq> []" by blast
  then show ?thesis
  proof cases
    case 1
    with assms l show ?thesis
      by (auto simp: writeNew_def writeGas_def bind_Some_iff dest!: useGasPerByte_points)
  next
    case 2
    with assms l t show ?thesis
      by (auto simp: writeNew_def writeGas_def bind_Some_iff Let_def dest!: useGasPerByte_points)
  next
    case 3
    with assms t show ?thesis
      by (auto simp: writeNew_def writeGas_def bind_Some_iff Let_def dest!: freeGasPerByte_points)
  next
    case 4
    with assms(1) obtain u where "chargeModified (len val) (len old) ?t = Some u" "u = s'"
      by (auto simp: writeNew_def bind_Some_iff Let_def)
    with chargeModified_points [OF this(1) assms(3,4)] assms(5) 4 t show ?thesis by simp
  qed
qed

lemma SetStorage_points:
  assumes "SetStorage e key val s = Some (r, s')" "storage_inv s" "mayWrite (storageConfig s) key"
    "length key < 2 ^ 63" "length val < 2 ^ 63" "length old < 2 ^ 63" "pointsOf s \<le> 2 ^ 63 - 1"
    and old: "old = storageOf e (st_address (storageCtx s)) s key"
  shows "pointsOf s' = min (pointsOf s + unat (DataCopyPerByte (baseCost s)) * (length key - AddressLen)
    + writeGas (baseCost s) old val) (2 ^ 63 - 1)"
proof -
  obtain t where t: "useGasForExtraKeyBytes key s = Some t" "kept s t" "outAccounts t = outAccounts s"
    using charges_ops(1) assms(2) by (rule chargesE)
  have tv: "storageOf e b t = storageOf e b s" for b
    using t(3) kept_D(5) [OF t(2)] by (rule storageOf_cong)
  obtain u where u: "readOld e key t = (old, u)" "kept t u" "instances u = instances t"
    using readOld_effect [OF kept_D(1) [OF t(2)], of e key] tv kept_D(2) [OF t(2)] old by auto
  have w: "writeNew (st_address (storageCtx t)) key old val u = Some (r, s')"
    using assms(1) SetStorage_accepted [OF assms(3)] t(1) u(1) by simp
  note tp = useGasForExtraKeyBytes_points [OF t(1) assms(4,7)]
  have up: "pointsOf u = pointsOf t" using u(3) kept_D(3) [OF u(2)] by (rule points_cong)
  have cost: "baseCost u = baseCost s" using kept_D(4) [OF u(2)] kept_D(4) [OF t(2)] by simp
  have "pointsOf u \<le> 2 ^ 63 - 1" using tp up by simp
  from writeNew_points [OF w kept_D(1) [OF u(2)] assms(5,6) this] tp up cost show ?thesis
    by (simp add: min_def)
qed

subsection \<open>Protected writes\<close>

lemma SetProtectedStorage_flag:
  assumes "SetProtectedStorage e key val s = Some (r, s')"
  shows "vmStorageProtectionEnabled (storageCtx s')"
  using assms by (auto simp: SetProtectedStorage_def bind_Some_iff)

subsection \<open>Properties\<close>

lemma storage_inv_sample: "storage_inv sampleVM"
  by (simp add: storage_inv_def running_def wf_output_def wf_VMOutput_def sample_defs)

text \<open>C3: the storage of a contract behaves like a map from keys to byte strings.  Every sequence of
  loads and stores runs to its end without a panic, and returns what the same sequence returns on an
  abstract map, where a store to a key that must not be written is ignored; at the end the storage
  is the abstract map.\<close>

theorem storage_run_refines:
  assumes "storage_inv s"
  shows "\<exists>rs s'. contractStorage.impl_run e ops s = Some (rs, s') \<and>
    contractStorage.spec_run (storageConfig s) ops (storageOf e (st_address (storageCtx s)) s) =
      (rs, storageOf e (st_address (storageCtx s')) s')"
  using contractStorage.run_refines [OF assms] by blast

theorem storage_run_refines_witness:
  "\<exists>s'. contractStorage.impl_run sampleEnv [Store ''k'' ''v'', Load ''k'', Load ''counter''] sampleVM = Some ([''v'', ''1''], s')"
proof -
  have "fst (contractStorage.spec_run (storageConfig sampleVM) [Store ''k'' ''v'', Load ''k'', Load ''counter'']
      (storageOf sampleEnv (st_address (storageCtx sampleVM)) sampleVM)) = [''v'', ''1'']"
    by (simp add: mayWrite_def storageConfig_def isVMProtectedKey_def ProtectedStoragePrefix_def HasPrefix_def
      storageOf_def outAccounts_def Let_def sample_defs)
  with storage_run_refines [OF storage_inv_sample, of sampleEnv "[Store ''k'' ''v'', Load ''k'', Load ''counter'']"]
  show ?thesis by auto
qed

text \<open>C5: what a store costs.  Every key byte beyond the length of an address and every byte written
  unchanged costs the copying of a byte, a byte added costs its storing, a byte that is kept in a
  value that grows or shrinks costs its persisting, and a deletion is free, as is replacing a value by
  another one of the same length.\<close>

theorem SetStorage_gas:
  assumes "SetStorage e key val s = Some (r, s')" "storage_inv s" "mayWrite (storageConfig s) key"
    "length key < 2 ^ 63" "length val < 2 ^ 63" "length old < 2 ^ 63" "pointsOf s \<le> 2 ^ 63 - 1"
    and old: "old = storageOf e (st_address (storageCtx s)) s key"
  shows "pointsOf s' = min (pointsOf s + unat (DataCopyPerByte (baseCost s)) * (length key - AddressLen)
    + writeGas (baseCost s) old val) (2 ^ 63 - 1)"
  using assms by (rule SetStorage_points)

lemma sample_mayWrite: "mayWrite (storageConfig sampleVM) ''counter''"
  by (simp add: mayWrite_def storageConfig_def isVMProtectedKey_def ProtectedStoragePrefix_def HasPrefix_def sample_defs)

lemma sample_counter: "storageOf sampleEnv (st_address (storageCtx sampleVM)) sampleVM ''counter'' = ''1''"
  by (simp add: storageOf_def outAccounts_def Let_def sample_defs)

theorem SetStorage_gas_witness:
  "\<exists>r s'. SetStorage sampleEnv ''counter'' ''123'' sampleVM = Some (r, s') \<and> pointsOf s' = 10 + 3 + 4 * 2"
proof -
  from SetStorage_effect [OF storage_inv_sample sample_mayWrite, of sampleEnv "''123''"] obtain r s' where
    s': "SetStorage sampleEnv ''counter'' ''123'' sampleVM = Some (r, s')" by blast
  from SetStorage_gas [OF this storage_inv_sample sample_mayWrite _ _ _ _ refl] have "pointsOf s' = 10 + 3 + 4 * 2"
    unfolding sample_counter by (simp add: sample_gas(3) writeGas_def AddressLen_def) (simp add: sample_defs)
  with s' show ?thesis by blast
qed

text \<open>C6: who may write.  A store in read-only mode, to a key of the node or to a key of the VM while
  its protection is on changes nothing at all; any other store succeeds, and changes the storage of
  the running contract at that key and no other storage.\<close>

theorem SetStorage_protection:
  assumes "storage_inv s"
  shows "\<exists>st err s'. SetStorage e key val s = Some ((st, err), s') \<and>
    (if readOnly (runtimeCtx s) \<or> HasPrefix key (ProtectedKeyPrefix (storageCtx s)) \<or>
        HasPrefix key ProtectedStoragePrefix \<and> vmStorageProtectionEnabled (storageCtx s)
     then st = StorageUnchanged \<and> s' = s
     else err = None \<and> (\<forall>a k. storageOf e a s' k =
       (if a = st_address (storageCtx s) \<and> k = key then val else storageOf e a s k)))"
proof (cases "mayWrite (storageConfig s) key")
  case True
  then have "\<not> (readOnly (runtimeCtx s) \<or> HasPrefix key (ProtectedKeyPrefix (storageCtx s)) \<or>
      HasPrefix key ProtectedStoragePrefix \<and> vmStorageProtectionEnabled (storageCtx s))"
    by (auto simp: mayWrite_def storageConfig_def isVMProtectedKey_def)
  moreover from SetStorage_effect [OF assms True, of e val] obtain st s' where
    "SetStorage e key val s = Some ((st, None), s')"
    "\<forall>b. storageOf e b s' = (if b = st_address (storageCtx s) then (storageOf e b s)(key := val) else storageOf e b s)" by blast
  ultimately show ?thesis by (intro exI [of _ st] exI [of _ None] exI [of _ s']) auto
next
  case False
  then have "readOnly (runtimeCtx s) \<or> HasPrefix key (ProtectedKeyPrefix (storageCtx s)) \<or>
      HasPrefix key ProtectedStoragePrefix \<and> vmStorageProtectionEnabled (storageCtx s)"
    by (auto simp: mayWrite_def storageConfig_def isVMProtectedKey_def)
  with SetStorage_refused [OF False, of e val] show ?thesis by auto
qed

theorem SetStorage_protection_witness:
  "\<exists>err. SetStorage sampleEnv ''ANDES@x'' ''v'' sampleVM = Some ((StorageUnchanged, err), sampleVM)"
  using SetStorage_protection [OF storage_inv_sample, of sampleEnv "''ANDES@x''" "''v''"]
  by (auto simp: HasPrefix_def ProtectedStoragePrefix_def) (simp_all add: sample_defs)

end
