(* ===== verification/RuntimeMemory.thy ===== *)
theory RuntimeMemory
  imports StorageContext
begin

text \<open>
  Access to the linear memory of the running instance (\<open>MemLoad\<close>, \<open>MemLoadMultiple\<close> and
  \<open>MemStore\<close> of \<open>src/vmhost/contexts/runtime.go\<close>).  Offsets and lengths are \<open>int32\<close> values;
  the end of a request saturates (\<open>math.AddInt32\<close>), and is compared as \<open>uint32\<close> with the size
  of the memory.  Slicing with bounds out of order panics.
\<close>

definition instMemory :: "vm \<Rightarrow> bytes option" where
  "instMemory s = do { r \<leftarrow> inst (runtimeCtx s); inst_memory (instances s r) }"

definition memLength :: "bytes \<Rightarrow> u32" where
  "memLength mem = of_nat (length mem)"

definition copyInto :: "nat \<Rightarrow> bytes \<Rightarrow> bytes" where
  \<comment> \<open>\<open>result := make([]byte, n); copy(result, src)\<close>\<close>
  "copyInto n src = take n src @ replicate (n - length src) (CHR 0x00)"

definition MemLoad :: "i32 \<Rightarrow> i32 \<Rightarrow> vm \<Rightarrow> (err + bytes) option" where
  "MemLoad offset n s =
     (if n = 0 then Some (Inr [])
      else do {
        memoryView \<leftarrow> instMemory s;
        let memoryLength = memLength memoryView;
        let requestedEnd = AddInt32 offset n;
        let isOffsetTooSmall = sint offset < 0;
        let isOffsetTooLarge = offset > memoryLength;
        let isRequestedEndTooLarge = requestedEnd > memoryLength;
        let isLengthNegative = sint n < 0;
        Some (if isOffsetTooSmall \<or> isOffsetTooLarge then Inl (ErrWithPrefix ''mem load: '' ErrBadBounds)
          else if isLengthNegative then Inl (ErrWithPrefix ''mem load: '' ErrNegativeLength)
          else if isRequestedEndTooLarge then Inr (copyInto (unat n) (drop (unat offset) memoryView))
          else Inr (copyInto (unat n) (take (unat requestedEnd - unat offset) (drop (unat offset) memoryView)))) })"

fun MemLoadMultiple :: "i32 \<Rightarrow> i32 list \<Rightarrow> vm \<Rightarrow> (err + bytes list) option" where
  "MemLoadMultiple offset [] s = Some (Inr [])"
| "MemLoadMultiple offset (n # ns) s =
     (case MemLoad offset n s of
        None \<Rightarrow> None
      | Some (Inl err) \<Rightarrow> Some (Inl err)
      | Some (Inr result) \<Rightarrow>
          (case MemLoadMultiple (offset + n) ns s of
             None \<Rightarrow> None
           | Some (Inl err) \<Rightarrow> Some (Inl err)
           | Some (Inr results) \<Rightarrow> Some (Inr (result # results))))"

definition setMemory :: "bytes \<Rightarrow> vm \<Rightarrow> vm" where
  "setMemory mem s = (case inst (runtimeCtx s) of
     None \<Rightarrow> s | Some r \<Rightarrow> updInstance r (\<lambda>i. i\<lparr>inst_memory := Some mem\<rparr>) s)"

definition MemStore :: "env \<Rightarrow> i32 \<Rightarrow> bytes \<Rightarrow> vm \<Rightarrow> (err option \<times> vm) option" where
  "MemStore e offset data s =
     (let dataLength = of_nat (length data) :: i32
      in if dataLength = 0 then Some (None, s)
         else do {
           memoryView \<leftarrow> instMemory s;
           let requestedEnd = AddInt32 offset dataLength;
           let isOffsetTooSmall = sint offset < 0;
           let isNewPageNecessary = requestedEnd > memLength memoryView;
           if isOffsetTooSmall then Some (Some ErrBadLowerBounds, s)
           else (case (if isNewPageNecessary then wasmer_Grow e memoryView else Inr memoryView) of
               Inl err \<Rightarrow> Some (Some err, s)
             | Inr memoryView \<Rightarrow>
                 (let s = setMemory memoryView s;
                      isRequestedEndTooLarge = requestedEnd > memLength memoryView
                  in if isRequestedEndTooLarge then Some (Some ErrBadUpperBounds, s)
                     else if sint requestedEnd < sint offset then None
                     else let i = unat offset; n = min (unat requestedEnd - i) (length data)
                          in Some (None, setMemory (take i memoryView @ take n data @ drop (i + n) memoryView) s))) })"

subsection \<open>Loads\<close>

lemma i32_nonneg: "0 \<le> sint (x :: i32) \<Longrightarrow> unat x = nat (sint x)"
proof -
  assume a: "0 \<le> sint x"
  have b: "0 \<le> uint x" "uint x < 2 ^ 32" using unsigned_less [of x, where ?'a = int] by simp_all
  have "sint x = (if 2 ^ 31 \<le> uint x then uint x - 2 ^ 32 else uint x)"
    using wrap_signed [of 31 "uint x"] b by (simp add: sint_uint)
  with a b have "sint x = uint x" by (auto split: if_splits)
  then show ?thesis by simp
qed

lemma unat_memLength: "length mem < 2 ^ 32 \<Longrightarrow> unat (memLength mem) = length mem"
  by (simp add: memLength_def unat_of_nat take_bit_nat_eq_self)

definition byteAt :: "bytes \<Rightarrow> nat \<Rightarrow> char" where
  "byteAt mem i = (if i < length mem then mem ! i else CHR 0x00)"

lemma copyInto_bytes: "copyInto n src = map (byteAt src) [0..<n]"
  by (rule nth_equalityI) (auto simp: copyInto_def byteAt_def nth_append)

lemma byteAt_drop: "byteAt (drop k mem) i = byteAt mem (k + i)"
  by (auto simp: byteAt_def)

lemma end_of_request:
  assumes "0 \<le> sint offset" "0 \<le> sint n"
  shows "unat (AddInt32 offset n) = min (unat offset + unat n) (2 ^ 31 - 1)"
proof -
  have "0 \<le> sint (AddInt32 offset n)" using assms by (simp add: sint_AddInt32)
  from i32_nonneg [OF this] i32_nonneg [OF assms(1)] i32_nonneg [OF assms(2)] assms show ?thesis
    by (auto simp: sint_AddInt32 min_def split: if_splits)
qed

lemma MemLoad_Inr_iff:
  assumes "instMemory s = Some mem" "length mem < 2 ^ 31 - 1"
  shows "MemLoad offset n s = Some (Inr bs) \<longleftrightarrow>
    bs = map (\<lambda>i. byteAt mem (unat offset + i)) [0..<unat n] \<and>
    (n = 0 \<or> 0 \<le> sint offset \<and> unat offset \<le> length mem \<and> 0 < sint n)"
proof (cases "0 \<le> sint offset \<and> unat offset \<le> length mem \<and> 0 < sint n")
  case True
  then have n0: "n \<noteq> 0" by auto
  note fin = end_of_request [of offset n]
  have lt: "unat n < 2 ^ 31" using i32_nonneg [of n] True sint_bounds(2) [of n] by simp
  have load: "MemLoad offset n s = Some (Inr (copyInto (unat n) (
      if AddInt32 offset n > memLength mem then drop (unat offset) mem
      else take (unat (AddInt32 offset n) - unat offset) (drop (unat offset) mem))))"
    using True n0 assms unat_memLength [of mem] by (auto simp: MemLoad_def Let_def word_less_nat_alt)
  have "copyInto (unat n) (if AddInt32 offset n > memLength mem then drop (unat offset) mem
      else take (unat (AddInt32 offset n) - unat offset) (drop (unat offset) mem)) =
    map (\<lambda>i. byteAt mem (unat offset + i)) [0..<unat n]"
  proof (cases "AddInt32 offset n > memLength mem")
    case True
    then show ?thesis by (simp add: copyInto_bytes byteAt_drop)
  next
    case False
    then have "unat (AddInt32 offset n) = unat offset + unat n"
      using fin True assms unat_memLength [of mem] by (auto simp: word_less_nat_alt min_def split: if_splits)
    with False show ?thesis by (auto simp: copyInto_bytes byteAt_def)
  qed
  with load True n0 show ?thesis by auto
next
  case False
  show ?thesis
  proof (cases "n = 0")
    case True
    then show ?thesis by (auto simp: MemLoad_def)
  next
    case n: False
    have "sint n \<noteq> 0" using n by (metis signed_0 signed_word_eqI)
    with False n assms unat_memLength [of mem] show ?thesis
      by (auto simp: MemLoad_def Let_def word_less_nat_alt)
  qed
qed

subsection \<open>Stores\<close>

definition zeroGrow :: "env \<Rightarrow> bool" where
  \<comment> \<open>what WebAssembly says of \<open>memory.grow\<close>: the new memory is the old one followed by zeros\<close>
  "zeroGrow e \<longleftrightarrow> (\<forall>mem mem'. wasmer_Grow e mem = Inr mem' \<longrightarrow> (\<exists>k. mem' = mem @ replicate k (CHR 0x00)))"

lemma instMemory_set: "instMemory s \<noteq> None \<Longrightarrow> instMemory (setMemory mem s) = Some mem"
  by (auto simp: instMemory_def setMemory_def bind_Some_iff)

lemma setMemory_frame [simp]:
  "bigIntCtx (setMemory m s) = bigIntCtx s" "outputCtx (setMemory m s) = outputCtx s"
  "meteringCtx (setMemory m s) = meteringCtx s" "runtimeCtx (setMemory m s) = runtimeCtx s"
  "storageCtx (setMemory m s) = storageCtx s" "hookLog (setMemory m s) = hookLog s"
  "GetPointsUsed (setMemory m s) = GetPointsUsed s"
  by (simp_all add: setMemory_def GetPointsUsed_def split: option.splits)

lemma setMemory_twice: "setMemory m (setMemory m' s) = setMemory m s"
  by (simp add: setMemory_def updInstance_def split: option.splits)

lemma byteAt_zeros: "byteAt (mem @ replicate k (CHR 0x00)) = byteAt mem"
  by (auto simp: byteAt_def fun_eq_iff nth_append)

lemma sint_int32_length: "length data < 2 ^ 31 \<Longrightarrow> sint (of_nat (length data) :: i32) = int (length data)"
  by (simp add: signed_of_nat signed_take_bit_int_eq_self)

lemma memLength_le: "unat (memLength mem) \<le> length mem"
  by (simp add: memLength_def unat_of_nat take_bit_nat_eq_self_iff)

text \<open>A store that ends below 2 GiB, where the sum of offset and length does not saturate, writes all its data.\<close>

lemma MemStore_SomeD:
  assumes "MemStore e offset data s = Some (None, s')" "sint offset + int (length data) < 2 ^ 31" "data \<noteq> []"
  obtains mem mem' where "instMemory s = Some mem" "mem' = mem \<or> wasmer_Grow e mem = Inr mem'" "0 \<le> sint offset"
    "length data < 2 ^ 31" "unat offset + length data \<le> unat (memLength mem')" "unat offset + length data < 2 ^ 31"
    "s' = setMemory (take (unat offset) mem' @ data @ drop (unat offset + length data) mem') s"
proof -
  let ?n = "of_nat (length data) :: i32" and ?e = "AddInt32 offset (of_nat (length data))"
  have "length data < 2 ^ 32" using assms(2) sint_bounds(1) [of offset] by simp
  then have "unat ?n = length data" by (simp add: unat_of_nat take_bit_nat_eq_self)
  with assms(3) have n: "?n \<noteq> 0" by (metis length_0_conv unat_0)
  with assms(1) have off: "0 \<le> sint offset" by (auto simp: MemStore_def Let_def bind_Some_iff split: if_splits)
  have len: "length data < 2 ^ 31" using assms(2) off by simp
  have sum: "unat offset + length data < 2 ^ 31" unfolding i32_nonneg [OF off] using assms(2) off by simp
  note sn = sint_int32_length [OF len]
  then have un: "unat ?n = length data" using i32_nonneg [of ?n] by simp
  have fin: "unat ?e = unat offset + length data"
    using end_of_request [OF off, of ?n] sn un sum by simp
  then have ord: "\<not> sint ?e < sint offset"
    using off sint_bounds(2) [of offset] by (auto simp: sint_AddInt32 sn min_def)
  from assms(1) n obtain mem where mem: "instMemory s = Some mem" by (auto simp: MemStore_def Let_def bind_Some_iff)
  then obtain mem' where mem': "(if ?e > memLength mem then wasmer_Grow e mem else Inr mem) = Inr mem'"
    using assms(1) n off by (auto simp: MemStore_def Let_def split: if_splits sum.splits)
  have le: "\<not> ?e > memLength mem'"
    using assms(1) mem n off mem' by (auto simp: MemStore_def Let_def split: if_splits)
  then have fit: "unat offset + length data \<le> unat (memLength mem')" by (simp add: word_less_nat_alt fin)
  have "s' = setMemory (take (unat offset) mem' @ data @ drop (unat offset + length data) mem') s"
    using assms(1) mem n off mem' le fin ord by (auto simp: MemStore_def Let_def setMemory_twice split: if_splits)
  moreover have "mem' = mem \<or> wasmer_Grow e mem = Inr mem'" using mem' by (auto split: if_splits)
  ultimately show ?thesis using that mem off len sum fit by blast
qed

lemma byteAt_write:
  assumes "i + length data \<le> length mem"
  shows "byteAt (take i mem @ data @ drop (i + length data) mem) j =
    (if i \<le> j \<and> j < i + length data then data ! (j - i) else byteAt mem j)"
  using assms by (auto simp: byteAt_def nth_append)

text \<open>A successful store changes exactly the bytes it names, and a load then reads them back.\<close>

lemma MemStore_bytes:
  assumes "MemStore e offset data s = Some (None, s')" "sint offset + int (length data) < 2 ^ 31"
    "instMemory s = Some mem" "zeroGrow e"
  shows "\<exists>mem'. instMemory s' = Some mem' \<and>
    (\<forall>j. byteAt mem' j = (if unat offset \<le> j \<and> j < unat offset + length data then data ! (j - unat offset) else byteAt mem j))"
proof (cases "data = []")
  case True
  with assms show ?thesis by (auto simp: MemStore_def)
next
  case False
  from MemStore_SomeD [OF assms(1,2) False] assms(3) obtain mem' where
    m: "mem' = mem \<or> wasmer_Grow e mem = Inr mem'" "unat offset + length data \<le> unat (memLength mem')"
      "s' = setMemory (take (unat offset) mem' @ data @ drop (unat offset + length data) mem') s" by (metis option.inject)
  then have len: "unat offset + length data \<le> length mem'" using memLength_le [of mem'] by linarith
  have "byteAt mem' = byteAt mem" using m(1) assms(4) by (auto simp: zeroGrow_def byteAt_zeros dest!: spec)
  moreover have "instMemory s' = Some (take (unat offset) mem' @ data @ drop (unat offset + length data) mem')"
    using m(3) assms(3) by (simp add: instMemory_set)
  ultimately show ?thesis using byteAt_write [OF len] by auto
qed

lemma MemStore_MemLoad:
  assumes "MemStore e offset data s = Some (None, s')" "sint offset + int (length data) < 2 ^ 31"
  shows "MemLoad offset (of_nat (length data)) s' = Some (Inr data)"
proof (cases "data = []")
  case False
  from MemStore_SomeD [OF assms False] obtain mem mem' where m: "instMemory s = Some mem" "0 \<le> sint offset" "length data < 2 ^ 31"
    "unat offset + length data \<le> unat (memLength mem')" "unat offset + length data < 2 ^ 31"
    "s' = setMemory (take (unat offset) mem' @ data @ drop (unat offset + length data) mem') s" .
  let ?n = "of_nat (length data) :: i32" and ?mem = "take (unat offset) mem' @ data @ drop (unat offset + length data) mem'"
  have sn: "sint ?n = int (length data)" by (rule sint_int32_length [OF m(3)])
  then have un: "unat ?n = length data" using i32_nonneg [of ?n] by simp
  have fin: "unat (AddInt32 offset ?n) = unat offset + length data"
    using end_of_request [OF m(2), of ?n] sn un m(5) by simp
  have len: "unat offset + length data \<le> length mem'" using m(4) memLength_le [of mem'] by linarith
  then have same: "memLength ?mem = memLength mem'" by (simp add: memLength_def)
  have "instMemory s' = Some ?mem" using m(1,6) by (simp add: instMemory_set)
  moreover have "?n \<noteq> 0" using un False by (metis length_0_conv unat_0)
  ultimately show ?thesis
    using m(2,4) sn un fin len same by (simp add: MemLoad_def Let_def word_less_nat_alt copyInto_def)
qed (simp add: MemLoad_def)

subsection \<open>Properties\<close>

text \<open>A successful store changes exactly the bytes it names: they become the data, every other
  byte of the memory stays, and a memory that had to grow reads as zero elsewhere.\<close>

lemma MemStore_changes_only_range:
  assumes "MemStore e offset data s = Some (None, s')" "sint offset + int (length data) < 2 ^ 31"
    "instMemory s = Some mem" "zeroGrow e"
  shows "\<exists>mem'. instMemory s' = Some mem' \<and>
    (\<forall>j. byteAt mem' j = (if unat offset \<le> j \<and> j < unat offset + length data then data ! (j - unat offset) else byteAt mem j))"
  using MemStore_bytes [OF assms] by blast

lemma sample_grow: "zeroGrow sampleEnv"
  by (auto simp: zeroGrow_def sampleEnv_def split: if_splits)

lemma sample_memory: "instMemory sampleVM = Some ''abcdefgh''"
  by (simp add: instMemory_def sample_defs)

lemma sample_store: "\<exists>s'. MemStore sampleEnv 6 ''XYZ'' sampleVM = Some (None, s')"
  by (simp add: MemStore_def sample_memory) (simp add: sample_defs memLength_def AddInt32_def AddInt32WithError_def Let_def)

lemma MemStore_changes_only_range_example:
  "\<exists>s' mem'. MemStore sampleEnv 6 ''XYZ'' sampleVM = Some (None, s') \<and> instMemory s' = Some mem' \<and>
    byteAt mem' 5 = CHR ''f'' \<and> byteAt mem' 8 = CHR ''Z'' \<and> byteAt mem' 9 = CHR 0x00"
proof -
  obtain s' where s': "MemStore sampleEnv 6 ''XYZ'' sampleVM = Some (None, s')" using sample_store by blast
  from MemStore_changes_only_range [OF this _ sample_memory sample_grow] obtain mem' where
    m: "instMemory s' = Some mem'" "\<forall>j. byteAt mem' j = (if 6 \<le> j \<and> j < 9 then ''XYZ'' ! (j - 6) else byteAt ''abcdefgh'' j)"
    by auto
  then have "byteAt mem' 5 = CHR ''f''" "byteAt mem' 8 = CHR ''Z''" "byteAt mem' 9 = CHR 0x00"
    by (simp_all add: byteAt_def)
  with s' m(1) show ?thesis by blast
qed

text \<open>A load succeeds exactly when its length is zero, or its offset lies inside the memory and
  its length is positive; it returns the bytes of the memory, and zeros beyond its end, so it never
  reads past the memory.\<close>

lemma MemLoad_reads_memory:
  assumes "instMemory s = Some mem" "length mem < 2 ^ 31 - 1"
  shows "MemLoad offset n s = Some (Inr bs) \<longleftrightarrow>
    bs = map (\<lambda>i. byteAt mem (unat offset + i)) [0..<unat n] \<and>
    (n = 0 \<or> 0 \<le> sint offset \<and> unat offset \<le> length mem \<and> 0 < sint n)"
  using assms by (rule MemLoad_Inr_iff)

lemma MemLoad_reads_memory_example: "MemLoad 6 4 sampleVM = Some (Inr [CHR ''g'', CHR ''h'', CHR 0x00, CHR 0x00])"
  using MemLoad_reads_memory [OF sample_memory, of 6 4] by (simp add: byteAt_def upt_rec)

text \<open>C38: what a successful store wrote, a load of the same offset and length reads back, however the memory grew, when the
  end of the request, offset plus length, stays below 2 GiB, the bound of \<open>int32\<close>.  (Beyond it \<open>math.AddInt32\<close> saturates, and a store into
  a memory of that size is cut off without an error.)\<close>

theorem MemStore_MemLoad_roundtrip:
  assumes "MemStore e offset data s = Some (None, s')" "sint offset + int (length data) < 2 ^ 31"
  shows "MemLoad offset (of_nat (length data)) s' = Some (Inr data)"
  using assms by (rule MemStore_MemLoad)

theorem MemStore_MemLoad_roundtrip_witness:
  "\<exists>s'. MemStore sampleEnv 6 ''XYZ'' sampleVM = Some (None, s') \<and> MemLoad 6 3 s' = Some (Inr ''XYZ'')"
  using sample_store MemStore_MemLoad_roundtrip [of sampleEnv 6 "''XYZ''" sampleVM] by fastforce

text \<open>The bound is needed: at the end of a memory of 2 GiB a store that succeeds may write only the beginning of its data.\<close>

lemma MemStore_cut_off:
  assumes "instMemory s = Some mem" "length mem = 2 ^ 31"
  shows "MemStore e (of_nat (2 ^ 31 - 2)) ''XYZ'' s = Some (None, setMemory (take (2 ^ 31 - 2) mem @ ''X'' @ drop (2 ^ 31 - 1) mem) s)"
proof -
  have "sint (of_nat (2 ^ 31 - 2) :: i32) = 2 ^ 31 - 2" by simp
  moreover from this have "unat (AddInt32 (of_nat (2 ^ 31 - 2)) (3 :: i32)) = 2 ^ 31 - 1" "sint (AddInt32 (of_nat (2 ^ 31 - 2)) (3 :: i32)) = 2 ^ 31 - 1"
    using end_of_request [of "of_nat (2 ^ 31 - 2)" 3] by (simp_all add: sint_AddInt32)
  moreover have "unat (memLength mem) = 2 ^ 31" using unat_memLength [of mem] assms(2) by simp
  ultimately show ?thesis
    using assms by (simp add: MemStore_def Let_def word_less_nat_alt setMemory_twice)
qed

end
