(* ===== verification/Helpers.thy ===== *)
theory Helpers
  imports RuntimeMemory
begin

text \<open>
  The helper functions of \<open>src/vmhost/helpers.go\<close>: guarded slices, padding and reversal of byte
  strings, LEB128, and the fault handling every API function uses.
\<close>

unbundle bit_operations_syntax

definition CustomStorageKey :: "string \<Rightarrow> bytes \<Rightarrow> bytes" where
  "CustomStorageKey keyType associatedKey = associatedKey @ keyType"

definition BooleanToInt :: "bool \<Rightarrow> int" where
  "BooleanToInt b = (if b then 1 else 0)"

definition GuardedMakeByteSlice2D :: "i32 \<Rightarrow> err + bytes list" where
  "GuardedMakeByteSlice2D n =
     (if sint n < 0 then Inl (ErrPlain (''GuardedMakeByteSlice2D: negative length ('' @ decimal (sint n) @ '')''))
      else Inr (replicate (unat n) []))"

definition GuardedGetBytesSlice :: "bytes \<Rightarrow> i32 \<Rightarrow> i32 \<Rightarrow> err + bytes" where
  "GuardedGetBytesSlice data offset n =
     (let dataLength = of_nat (length data) :: u32;
          isOffsetTooSmall = sint offset < 0;
          isOffsetTooLarge = offset > dataLength;
          requestedEnd = AddInt32 offset n;
          isRequestedEndTooLarge = requestedEnd > dataLength;
          isLengthNegative = sint n < 0
      in if isOffsetTooSmall \<or> isOffsetTooLarge \<or> isRequestedEndTooLarge
         then Inl (ErrPlain ''GuardedGetBytesSlice: bad bounds'')
         else if isLengthNegative then Inl (ErrPlain ''GuardedGetBytesSlice: negative length'')
         else Inr (take (unat requestedEnd - unat offset) (drop (unat offset) data)))"

definition PadBytesLeft :: "bytes \<Rightarrow> i64 \<Rightarrow> bytes" where
  "PadBytesLeft data width =
     (if length data = 0 then []
      else let padSize = SubInt width (of_nat (length data))
           in if sint padSize \<le> 0 then data else replicate (nat (sint padSize)) (CHR 0x00) @ data)"

fun inverseInto :: "bytes \<Rightarrow> nat \<Rightarrow> bytes \<Rightarrow> bytes" where
  \<comment> \<open>the loop \<open>invBytes[length-i-1] = data[i]\<close> from index \<open>i\<close> on\<close>
  "inverseInto [] i invBytes = invBytes"
| "inverseInto (b # bs) i invBytes = inverseInto bs (Suc i) (invBytes[length invBytes - i - 1 := b])"

definition InverseBytes :: "bytes \<Rightarrow> bytes" where
  "InverseBytes data = inverseInto data 0 (replicate (length data) (CHR 0x00))"

function U64ToLEB128 :: "u64 \<Rightarrow> bytes" where
  "U64ToLEB128 n =
     (let b = n AND 0x7F; n = drop_bit 7 n
      in if n = 0 then [char_of (unat b)] else char_of (unat (b OR 0x80)) # U64ToLEB128 n)"
  by auto

lemma unat_drop7: "unat (drop_bit 7 (n :: u64)) = unat n div 128"
  by (simp add: drop_bit_eq_div unat_div_distrib)

termination U64ToLEB128
proof (relation "measure unat", goal_cases)
  case (2 n b m)
  then have "unat n div 128 \<noteq> 0" by (metis unat_drop7 unat_0 word_unat_eq_iff)
  with 2 show ?case by (simp add: unat_drop7)
qed simp

declare U64ToLEB128.simps [simp del]

definition WithFault :: "err option \<Rightarrow> bool \<Rightarrow> vm \<Rightarrow> (bool \<times> vm) option" where
  "WithFault err failExecution s =
     (if err = None then Some (False, s)
      else if failExecution then do {
        s \<leftarrow> UseGas (GasLeft s) s;
        s \<leftarrow> FailExecution err s;
        Some (True, s) }
      else Some (True, s))"

subsection \<open>Byte strings\<close>

lemma inverseInto_eq:
  "length out = length fin + length bs \<Longrightarrow> drop (length bs) out = rev fin \<Longrightarrow>
   inverseInto bs (length fin) out = rev (fin @ bs)"
proof (induction bs arbitrary: fin out)
  case (Cons b bs)
  let ?out = "out[length out - length fin - 1 := b]"
  have idx: "length out - length fin - 1 = length bs" using Cons.prems by simp
  have "drop (length bs) ?out = b # drop (Suc (length bs)) out"
    using Cons.prems(1) unfolding idx by (subst drop_update_swap) (auto simp: Cons_nth_drop_Suc [symmetric])
  then have "inverseInto bs (length (fin @ [b])) ?out = rev ((fin @ [b]) @ bs)"
    using Cons.prems by (intro Cons.IH) simp_all
  then show ?case by simp
qed simp

lemma InverseBytes_rev: "InverseBytes data = rev data"
  using inverseInto_eq [of "replicate (length data) (CHR 0x00)" "[]" data] by (simp add: InverseBytes_def)

subsection \<open>LEB128\<close>

fun leb128 :: "bytes \<Rightarrow> nat" where
  \<comment> \<open>the value of an unsigned LEB128 string\<close>
  "leb128 [] = 0"
| "leb128 (c # cs) = of_char c mod 128 + (if of_char c < (128 :: nat) then 0 else 128 * leb128 cs)"

lemma unat_and7F: "unat (n AND 0x7F :: u64) = unat n mod 128"
proof -
  have "n AND 0x7F = take_bit 7 n" by (simp add: take_bit_eq_mask mask_numeral)
  then show ?thesis by (simp add: unsigned_take_bit_eq take_bit_nat_def)
qed

lemma unat_or80: "unat ((n AND 0x7F) OR 0x80 :: u64) = unat n mod 128 + 128"
proof -
  have "(n AND 0x7F) AND 0x80 = (0 :: u64)" by (simp add: and.assoc)
  then have "(n AND 0x7F) OR 0x80 = (n AND 0x7F) + (0x80 :: u64)" by (simp add: disjunctive_add_eq_or)
  moreover have "unat ((n AND 0x7F) + (0x80 :: u64)) = unat (n AND 0x7F) + 128"
    using unat_and7F [of n] by (simp add: unat_word_ariths)
  ultimately show ?thesis by (simp add: unat_and7F)
qed

lemma leb128_roundtrip: "leb128 (U64ToLEB128 n) = unat n"
proof (induction n rule: U64ToLEB128.induct)
  case (1 n)
  show ?case
  proof (cases "drop_bit 7 n = 0")
    case True
    then have "unat n div 128 = 0" by (metis unat_drop7 unat_0)
    then show ?thesis using True by (simp add: U64ToLEB128.simps [of n] unat_and7F)
  next
    case False
    then have "leb128 (U64ToLEB128 (drop_bit 7 n)) = unat n div 128" using 1 by (simp add: unat_drop7)
    then show ?thesis using False by (simp add: U64ToLEB128.simps [of n] unat_or80)
  qed
qed

lemma length_leb128: "unat n < 128 ^ k \<Longrightarrow> 0 < k \<Longrightarrow> length (U64ToLEB128 n) \<le> k"
proof (induction k arbitrary: n)
  case (Suc k)
  show ?case
  proof (cases "drop_bit 7 n = 0")
    case True
    then show ?thesis by (simp add: U64ToLEB128.simps [of n])
  next
    case False
    then have "unat n div 128 \<noteq> 0" by (metis unat_drop7 unat_0 word_unat_eq_iff)
    then have "0 < k" using Suc.prems by (cases k) auto
    moreover have "unat (drop_bit 7 n) < 128 ^ k"
      using Suc.prems by (simp add: unat_drop7 less_mult_imp_div_less mult.commute)
    ultimately show ?thesis using Suc.IH [of "drop_bit 7 n"] False by (simp add: U64ToLEB128.simps [of n])
  qed
qed simp

subsection \<open>Properties\<close>

lemma length_leb128_10: "length (U64ToLEB128 n) \<le> 10"
  using length_leb128 [of n 10] unat_u64_bound [of n] by simp

text \<open>Decoding an unsigned LEB128 string gives back the number that \<open>U64ToLEB128\<close> encoded,
  and no 64-bit number takes more than ten bytes.\<close>

lemma U64ToLEB128_roundtrip: "leb128 (U64ToLEB128 n) = unat n \<and> length (U64ToLEB128 n) \<le> 10"
  by (simp add: leb128_roundtrip length_leb128_10)

lemma GuardedGetBytesSlice_iff:
  assumes "length data < 2 ^ 31 - 1"
  shows "GuardedGetBytesSlice data offset n = Inr bs \<longleftrightarrow>
    0 \<le> sint offset \<and> 0 \<le> sint n \<and> nat (sint offset) + nat (sint n) \<le> length data \<and>
    bs = take (nat (sint n)) (drop (nat (sint offset)) data)"
proof (cases "0 \<le> sint offset \<and> 0 \<le> sint n")
  case True
  have len: "unat (of_nat (length data) :: u32) = length data"
    using assms by (simp add: unat_of_nat take_bit_nat_eq_self)
  have "unat offset = nat (sint offset)" "unat n = nat (sint n)" using True i32_nonneg by auto
  moreover have "unat (AddInt32 offset n) = min (unat offset + unat n) (2 ^ 31 - 1)"
    using True end_of_request by simp
  ultimately show ?thesis
    using True assms len by (auto simp: GuardedGetBytesSlice_def Let_def word_less_nat_alt min_def)
next
  case False
  then show ?thesis by (auto simp: GuardedGetBytesSlice_def Let_def)
qed

text \<open>\<open>GuardedGetBytesSlice\<close> returns a slice exactly when the requested range is not negative
  and lies inside the data, also when the end of the range does not fit into 32 bits, and what it
  returns is that range.\<close>

lemma GuardedGetBytesSlice_bounds:
  assumes "length data < 2 ^ 31 - 1"
  shows "GuardedGetBytesSlice data offset n = Inr bs \<longleftrightarrow>
    0 \<le> sint offset \<and> 0 \<le> sint n \<and> nat (sint offset) + nat (sint n) \<le> length data \<and>
    bs = take (nat (sint n)) (drop (nat (sint offset)) data)"
  using assms by (rule GuardedGetBytesSlice_iff)

lemma GuardedGetBytesSlice_bounds_example: "GuardedGetBytesSlice ''abcdef'' 2 3 = Inr ''cde''"
  by (subst GuardedGetBytesSlice_bounds) simp_all

end
