(* ===== verification/RuntimeExec.thy ===== *)
theory RuntimeExec
  imports RuntimeMemory
begin

text \<open>
  Starting Wasmer instances and preparing asynchronous calls: the operations of
  \<open>src/vmhost/contexts/runtime.go\<close> that use the blockchain and metering contexts.  The
  compilation options of the source are constants but for the gas limit, which is passed on.
\<close>

definition allocInstance :: "instance_t \<Rightarrow> vm \<Rightarrow> vm" where
  \<comment> \<open>a new instance becomes the running one\<close>
  "allocInstance i s =
     s\<lparr>instances := (instances s)(nextInstance s := i), nextInstance := Suc (nextInstance s),
       runtimeCtx := (runtimeCtx s)\<lparr>inst := Some (nextInstance s)\<rparr>\<rparr>"

definition setInst :: "inst_ref option \<Rightarrow> vm \<Rightarrow> vm" where
  "setInst i s = s\<lparr>runtimeCtx := (runtimeCtx s)\<lparr>inst := i\<rparr>\<rparr>"

definition setWarmInstanceWhenNeeded :: "u64 \<Rightarrow> vm \<Rightarrow> (bool \<times> vm) option" where
  "setWarmInstanceWhenNeeded gasLimit s =
     (let rt = runtimeCtx s
      in if useWarmInstance rt \<and> warmInstanceAddress rt = Some (scAddress rt) then do {
           let s = setInst (warmInstance rt) s;
           s \<leftarrow> SetPointsUsed 0 s;
           r \<leftarrow> inst (runtimeCtx s);
           let s = updInstance r (\<lambda>i. i\<lparr>inst_gasLimit := gasLimit\<rparr>) s;
           s \<leftarrow> SetRuntimeBreakpointValue BreakpointNone s;
           Some (True, s) }
         else Some (False, s))"

definition makeInstanceFromCompiledCode :: "env \<Rightarrow> bytes \<Rightarrow> u64 \<Rightarrow> bool \<Rightarrow> vm \<Rightarrow> bool \<times> vm" where
  "makeInstanceFromCompiledCode e codeHash gasLimit newCode s =
     (if \<not> IsAheadOfTimeCompileEnabled e then (False, s)
      else if newCode \<or> length codeHash = 0 then (False, s)
      else (case hook_GetCompiledCode e (hookLog s) codeHash of
              None \<Rightarrow> (False, s)
            | Some compiledCode \<Rightarrow>
                (case wasmer_NewInstanceFromCompiled e compiledCode gasLimit of
                   Inl err \<Rightarrow> (False, s)
                 | Inr newInstance \<Rightarrow>
                     let s = allocInstance newInstance s
                     in (True, s\<lparr>runtimeCtx := (runtimeCtx s)\<lparr>verifyCode := False\<rparr>\<rparr>))))"

definition saveCompiledCode :: "env \<Rightarrow> bytes \<Rightarrow> vm \<Rightarrow> vm option" where
  "saveCompiledCode e codeHash s = do {
     r \<leftarrow> inst (runtimeCtx s);
     Some (case wasmer_Cache e (instances s r) of
             Inl err \<Rightarrow> s
           | Inr compiledCode \<Rightarrow> s\<lparr>hookLog := hookLog s @ [CompiledCodeSaved codeHash compiledCode]\<rparr>) }"

definition setWarm :: "vm \<Rightarrow> vm" where
  "setWarm s =
     (if useWarmInstance (runtimeCtx s)
      then s\<lparr>runtimeCtx := (runtimeCtx s)\<lparr>warmInstanceAddress := Some (scAddress (runtimeCtx s)),
              warmInstance := inst (runtimeCtx s)\<rparr>\<rparr>
      else s)"

definition makeInstanceFromContractByteCode ::
  "env \<Rightarrow> bytes \<Rightarrow> bytes \<Rightarrow> u64 \<Rightarrow> bool \<Rightarrow> vm \<Rightarrow> (err option \<times> vm) option" where
  "makeInstanceFromContractByteCode e contract codeHash gasLimit newCode s =
     (case wasmer_NewInstance e contract gasLimit of
        Inl err \<Rightarrow> Some (Some err, setInst None s)
      | Inr newInstance \<Rightarrow>
          (let s = allocInstance newInstance s
           in case (if newCode \<or> length codeHash = 0 then Sha256 e contract else Inr codeHash) of
                Inl err \<Rightarrow> Some (Some err, CleanWasmerInstance s)
              | Inr codeHash \<Rightarrow> do {
                  s \<leftarrow> saveCompiledCode e codeHash s;
                  (err, s) \<leftarrow> (if newCode then VerifyContractCode e s else Some (None, s));
                  case err of
                    Some err \<Rightarrow> Some (Some err, CleanWasmerInstance s)
                  | None \<Rightarrow> Some (None, setWarm s) }))"

definition StartWasmerInstance :: "env \<Rightarrow> bytes \<Rightarrow> u64 \<Rightarrow> bool \<Rightarrow> vm \<Rightarrow> (err option \<times> vm) option" where
  "StartWasmerInstance e contract gasLimit newCode s =
     (if RunningInstancesCount s \<ge> maxWasmerInstances (runtimeCtx s)
      then Some (Some ErrMaxInstancesReached, setInst None s)
      else do {
        (warmInstanceUsed, s) \<leftarrow> setWarmInstanceWhenNeeded gasLimit s;
        if warmInstanceUsed then Some (None, s)
        else
          let codeHash = GetCodeHash e (scAddress (runtimeCtx s)) s;
              (compiledCodeUsed, s) = makeInstanceFromCompiledCode e codeHash gasLimit newCode s
          in if compiledCodeUsed then Some (None, s)
             else makeInstanceFromContractByteCode e contract codeHash gasLimit newCode s })"

definition GetSCCode :: "env \<Rightarrow> vm \<Rightarrow> (err + bytes) \<times> vm" where
  "GetSCCode e s =
     (let (r, s) = GetCode e (scAddress (runtimeCtx s)) s
      in case r of
           Inl err \<Rightarrow> (Inl err, s)
         | Inr code \<Rightarrow> (Inr code, s\<lparr>runtimeCtx := (runtimeCtx s)\<lparr>codeSize := len code\<rparr>\<rparr>))"

definition ExecuteAsyncCall :: "env \<Rightarrow> address \<Rightarrow> bytes \<Rightarrow> bytes \<Rightarrow> vm \<Rightarrow> (err option \<times> vm) option" where
  "ExecuteAsyncCall e a data val s = do {
     (err, s) \<leftarrow> UseGasForAsyncStep s;
     case err of
       Some err \<Rightarrow> Some (Some err, s)
     | None \<Rightarrow> do {
         hasCallback \<leftarrow> HasCallbackMethod s;
         let shouldLockGas = (hasCallback \<or> \<not> IsDynamicGasLockingEnabled e);
         let gasToLock = (if shouldLockGas then ComputeGasLockedForAsync e s else 0);
         (err, s) \<leftarrow> (if shouldLockGas then UseGasBounded gasToLock s else Some (None, s));
         case err of
           Some err \<Rightarrow> Some (Some err, s)
         | None \<Rightarrow> do {
             let s = SetAsyncCallInfo (Some \<lparr>aci_Destination = a, aci_Data = data, aci_GasLimit = GasLeft s,
               aci_GasLocked = gasToLock, aci_ValueBytes = val\<rparr>) s;
             s \<leftarrow> SetRuntimeBreakpointValue BreakpointAsyncCall s;
             Some (None, s) } } }"

subsection \<open>The gas of an asynchronous call\<close>

lemma ExecuteAsyncCall_gas:
  assumes "ExecuteAsyncCall e a d v s = Some (None, s')" "unat (gasForExecution (meteringCtx s)) \<le> 2 ^ 63 - 1"
  shows "\<exists>info. asyncCallInfo (runtimeCtx s') = Some info \<and> aci_Destination info = a \<and> aci_Data info = d \<and>
    unat (aci_GasLimit info) + unat (aci_GasLocked info) + unat (AsyncCallStep (gasSchedule (meteringCtx s))) = unat (GasLeft s) \<and>
    0 < unat (aci_GasLimit info)"
proof -
  from assms(1) obtain t where t: "UseGasBounded (AsyncCallStep (gasSchedule (meteringCtx s))) s = Some (None, t)"
    by (auto simp: ExecuteAsyncCall_def UseGasForAsyncStep_def bind_Some_iff split: option.splits)
  note b1 = UseGasBounded_ok [OF t]
  note g1 = UseGas_GasLeft [OF b1(2) assms(2)] and f1 = UseGas_frame [OF b1(2)]
  from assms(1) t obtain h where h: "HasCallbackMethod t = Some h"
    by (auto simp: ExecuteAsyncCall_def UseGasForAsyncStep_def bind_Some_iff)
  define lock where "lock = (h \<or> \<not> IsDynamicGasLockingEnabled e)"
  define g where "g = (if lock then ComputeGasLockedForAsync e t else 0)"
  from assms(1) t h obtain u where u: "(if lock then UseGasBounded g t else Some (None, t)) = Some (None, u)"
    by (auto simp: ExecuteAsyncCall_def UseGasForAsyncStep_def bind_Some_iff lock_def g_def Let_def split: option.splits if_splits)
  have left: "unat (GasLeft u) + unat g = unat (GasLeft t)" "0 < unat (GasLeft u)"
  proof -
    have "unat (gasForExecution (meteringCtx t)) \<le> 2 ^ 63 - 1" using assms(2) f1 by simp
    then show "unat (GasLeft u) + unat g = unat (GasLeft t)" "0 < unat (GasLeft u)"
      using u b1(1) g1 UseGasBounded_ok [of g t u] UseGas_GasLeft [of g t u] by (auto simp: g_def split: if_splits)
  qed
  have "asyncCallInfo (runtimeCtx s') = Some \<lparr>aci_Destination = a, aci_Data = d, aci_GasLimit = GasLeft u,
      aci_GasLocked = g, aci_ValueBytes = v\<rparr>"
    using assms(1) t h u
    by (auto simp: ExecuteAsyncCall_def UseGasForAsyncStep_def bind_Some_iff lock_def g_def Let_def SetAsyncCallInfo_def
      SetRuntimeBreakpointValue_def split: option.splits if_splits)
  with left g1 b1(1) show ?thesis by auto
qed

subsection \<open>New code is verified\<close>

lemma StartWasmerInstance_limit:
  "RunningInstancesCount s \<ge> maxWasmerInstances (runtimeCtx s) \<Longrightarrow>
   StartWasmerInstance e c g b s = Some (Some ErrMaxInstancesReached, setInst None s)"
  by (simp add: StartWasmerInstance_def)

lemma VerifyContractCode_ok:
  assumes "VerifyContractCode e s = Some (None, s')" "verifyCode (runtimeCtx s)"
  shows "\<exists>r. inst (runtimeCtx s) = Some r \<and> inst (runtimeCtx s') = Some r \<and> instances s' = instances s \<and>
    inst_memory (instances s r) \<noteq> None \<and>
    list_all (valid_export (reserved (runtimeCtx s)) (instances s r)) (inst_exports (instances s r))"
  using assms
  by (auto simp: VerifyContractCode_def bind_Some_iff Let_def verifyMemoryDeclaration_def verifyFunctions_def
    verifyFunctionList_iff split: option.splits if_splits)

lemma saveCompiledCode_frame:
  assumes "saveCompiledCode e h s = Some s'"
  shows "runtimeCtx s' = runtimeCtx s" "instances s' = instances s" "meteringCtx s' = meteringCtx s" "outputCtx s' = outputCtx s"
proof -
  from assms obtain r where "inst (runtimeCtx s) = Some r" by (auto simp: saveCompiledCode_def bind_Some_iff)
  with assms show "runtimeCtx s' = runtimeCtx s" "instances s' = instances s" "meteringCtx s' = meteringCtx s"
      "outputCtx s' = outputCtx s"
    by (cases "wasmer_Cache e (instances s r)"; auto simp: saveCompiledCode_def)+
qed

lemma makeInstance_new_code:
  assumes "makeInstanceFromContractByteCode e c h g True s = Some (None, s')" "verifyCode (runtimeCtx s)"
  shows "\<exists>r. inst (runtimeCtx s') = Some r \<and> inst_memory (instances s' r) \<noteq> None \<and>
    list_all (valid_export (reserved (runtimeCtx s)) (instances s' r)) (inst_exports (instances s' r)) \<and>
    wasmer_NewInstance e c g = Inr (instances s' r)"
proof -
  from assms(1) obtain i where i: "wasmer_NewInstance e c g = Inr i"
    by (cases "wasmer_NewInstance e c g") (auto simp: makeInstanceFromContractByteCode_def)
  from assms(1) i obtain h' where h': "Sha256 e c = Inr h'"
    by (cases "Sha256 e c") (auto simp: makeInstanceFromContractByteCode_def Let_def)
  let ?s = "allocInstance i s"
  from assms(1) i h' obtain t u where t: "saveCompiledCode e h' ?s = Some t"
      and u: "VerifyContractCode e t = Some (None, u)" and s': "s' = setWarm u"
    by (auto simp: makeInstanceFromContractByteCode_def Let_def bind_Some_iff split: option.splits)
  note tf = saveCompiledCode_frame [OF t]
  have "verifyCode (runtimeCtx t)" using tf(1) assms(2) by (simp add: allocInstance_def)
  from VerifyContractCode_ok [OF u this] tf i s' show ?thesis
    by (auto simp: allocInstance_def setWarm_def)
qed

lemma StartWasmerInstance_new_code:
  assumes "StartWasmerInstance e c g True s = Some (None, s')" "verifyCode (runtimeCtx s)"
    "\<not> (useWarmInstance (runtimeCtx s) \<and> warmInstanceAddress (runtimeCtx s) = Some (scAddress (runtimeCtx s)))"
  shows "\<exists>r. inst (runtimeCtx s') = Some r \<and> inst_memory (instances s' r) \<noteq> None \<and>
    list_all (valid_export (reserved (runtimeCtx s)) (instances s' r)) (inst_exports (instances s' r)) \<and>
    wasmer_NewInstance e c g = Inr (instances s' r)"
proof -
  have "makeInstanceFromContractByteCode e c (GetCodeHash e (scAddress (runtimeCtx s)) s) g True s = Some (None, s')"
    using assms(1,3) by (auto simp: StartWasmerInstance_def setWarmInstanceWhenNeeded_def makeInstanceFromCompiledCode_def Let_def
      split: if_splits)
  from makeInstance_new_code [OF this assms(2)] show ?thesis .
qed

text \<open>With a warm instance of the same address the new code is not instantiated at all.\<close>

lemma StartWasmerInstance_warm:
  assumes "useWarmInstance (runtimeCtx s)" "warmInstanceAddress (runtimeCtx s) = Some (scAddress (runtimeCtx s))"
    "warmInstance (runtimeCtx s) = Some r" "RunningInstancesCount s < maxWasmerInstances (runtimeCtx s)"
  shows "\<exists>s'. StartWasmerInstance e c g b s = Some (None, s') \<and> inst (runtimeCtx s') = Some r \<and>
    inst_code (instances s' r) = inst_code (instances s r) \<and> inst_points (instances s' r) = 0 \<and>
    verifyCode (runtimeCtx s') = verifyCode (runtimeCtx s)"
  using assms by (auto simp: StartWasmerInstance_def setWarmInstanceWhenNeeded_def setInst_def SetPointsUsed_def
    SetRuntimeBreakpointValue_def Let_def)

subsection \<open>What starting an instance leaves alone\<close>

definition callState :: "vm \<Rightarrow> string \<times> VMInput \<times> address" where
  "callState s = (callFunction (runtimeCtx s), vmInput (runtimeCtx s), scAddress (runtimeCtx s))"

lemma callState_simps [simp]:
  "callState (updInstance r f s) = callState s" "callState (setInst i s) = callState s"
  "callState (allocInstance j s) = callState s" "callState (CleanWasmerInstance s) = callState s"
  "callState (setWarm s) = callState s" "callState (s\<lparr>outputCtx := c\<rparr>) = callState s"
  by (simp_all add: callState_def updInstance_def setInst_def allocInstance_def CleanWasmerInstance_def setWarm_def split: option.splits)

lemma callState_VerifyContractCode: "VerifyContractCode e s = Some (r, s') \<Longrightarrow> callState s' = callState s"
  by (auto simp: VerifyContractCode_def bind_Some_iff Let_def callState_def split: if_splits option.splits)

lemma callState_byteCode:
  assumes "makeInstanceFromContractByteCode e c h g b s = Some (r, s')"
  shows "callState s' = callState s"
proof (cases "wasmer_NewInstance e c g")
  case (Inl err)
  with assms show ?thesis by (auto simp: makeInstanceFromContractByteCode_def)
next
  case (Inr i)
  show ?thesis
  proof (cases "if b \<or> length h = 0 then Sha256 e c else Inr h")
    case (Inl err)
    with assms Inr show ?thesis by (auto simp: makeInstanceFromContractByteCode_def Let_def)
  next
    case h: (Inr h')
    from assms Inr h obtain t where t: "saveCompiledCode e h' (allocInstance i s) = Some t"
      by (auto simp: makeInstanceFromContractByteCode_def Let_def bind_Some_iff)
    then have "callState t = callState s" using saveCompiledCode_frame(1) [OF t] by (simp add: callState_def allocInstance_def)
    with assms Inr h t show ?thesis
      by (auto simp: makeInstanceFromContractByteCode_def Let_def bind_Some_iff dest!: callState_VerifyContractCode
        split: if_splits option.splits)
  qed
qed

lemma callState_StartWasmerInstance:
  assumes "StartWasmerInstance e c g b s = Some (r, s')"
  shows "callState s' = callState s"
proof -
  have warm: "callState t = callState s" if "setWarmInstanceWhenNeeded g s = Some (x, t)" for x t
    using that by (auto simp: setWarmInstanceWhenNeeded_def SetPointsUsed_def SetRuntimeBreakpointValue_def
      bind_Some_iff Let_def split: if_splits)
  have comp: "callState t = callState u" if "makeInstanceFromCompiledCode e h g b u = (x, t)" for h u x t
    using that by (auto simp: makeInstanceFromCompiledCode_def Let_def callState_def allocInstance_def
      split: if_splits option.splits sum.splits)
  show ?thesis
    using assms by (auto simp: StartWasmerInstance_def bind_Some_iff Let_def dest!: warm comp callState_byteCode
      split: if_splits prod.splits)
qed

lemma callState_GetSCCode: "callState (snd (GetSCCode e s)) = callState s"
proof -
  have "only_accounts s (snd (GetCode e (scAddress (runtimeCtx s)) s))"
    by (auto simp: GetCode_def Let_def case_prod_beta split: sum.splits option.splits
      intro: only_accounts_trans [OF only_accounts_get only_accounts_set])
  from only_accounts_frame(3) [OF this] show ?thesis
    by (auto simp: GetSCCode_def callState_def case_prod_beta split: sum.splits)
qed

subsection \<open>Properties\<close>

text \<open>C22: code that is deployed or upgraded is verified before it runs, where the host starts it as new code: after
  \<open>MustVerifyNextContractCode\<close>, with \<open>newCode\<close> true, as \<open>doRunSmartContractCreate\<close> and \<open>executeUpgrade\<close> do.
  When that start succeeds, and no warm instance of the address is in the way, the instance was made from that very
  code, declares a memory, and every function it exports has a valid name and takes and returns
  nothing.  A contract that is deployed by a contract is not started this way: \<open>CreateNewContract\<close> asks for the verification too, but its
  code is started like any code that is called, with \<open>newCode\<close> false, and then nothing is verified.\<close>

theorem new_code_is_verified:
  assumes "StartWasmerInstance e c g True (MustVerifyNextContractCode s) = Some (None, s')"
    "\<not> (useWarmInstance (runtimeCtx s) \<and> warmInstanceAddress (runtimeCtx s) = Some (scAddress (runtimeCtx s)))"
  shows "\<exists>r. inst (runtimeCtx s') = Some r \<and> wasmer_NewInstance e c g = Inr (instances s' r) \<and>
    inst_memory (instances s' r) \<noteq> None \<and>
    list_all (valid_export (reserved (runtimeCtx s)) (instances s' r)) (inst_exports (instances s' r))"
  using StartWasmerInstance_new_code [OF assms(1)] assms(2) by (auto simp: MustVerifyNextContractCode_def)

lemma sample_start: "map_option fst (StartWasmerInstance sampleEnv ''code'' 900 True (MustVerifyNextContractCode sampleVM)) = Some None"
  by code_simp

theorem new_code_is_verified_witness:
  "\<exists>s' r. StartWasmerInstance sampleEnv ''code'' 900 True (MustVerifyNextContractCode sampleVM) = Some (None, s') \<and> inst (runtimeCtx s') = Some r \<and>
     inst_memory (instances s' r) \<noteq> None"
proof -
  obtain s' where s': "StartWasmerInstance sampleEnv ''code'' 900 True (MustVerifyNextContractCode sampleVM) = Some (None, s')"
    using sample_start by auto
  have "\<not> useWarmInstance (runtimeCtx sampleVM)" by (simp add: sample_defs)
  with new_code_is_verified [OF s'] s' show ?thesis by auto
qed

text \<open>Code started with \<open>newCode\<close> false is not verified, even when its verification was asked for: whatever the compiler makes of
  it is started, without a memory or with exports that a contract must not have.\<close>

lemma code_called_not_verified:
  assumes "wasmer_NewInstance e c g = Inr i" "Sha256 e c = Inr h" "\<not> IsAheadOfTimeCompileEnabled e"
    "\<not> useWarmInstance (runtimeCtx s)" "RunningInstancesCount s < maxWasmerInstances (runtimeCtx s)"
  shows "\<exists>s' r. StartWasmerInstance e c g False (MustVerifyNextContractCode s) = Some (None, s') \<and> inst (runtimeCtx s') = Some r \<and> instances s' r = i"
proof -
  let ?s = "MustVerifyNextContractCode s" and ?hash = "GetCodeHash e (scAddress (runtimeCtx s)) (MustVerifyNextContractCode s)"
  obtain h' where h': "(if length ?hash = 0 then Sha256 e c else Inr ?hash) = Inr h'" using assms(2) by (cases "length ?hash = 0") simp_all
  obtain t where t: "saveCompiledCode e h' (allocInstance i ?s) = Some t" by (simp add: saveCompiledCode_def allocInstance_def)
  note f = saveCompiledCode_frame(1,2) [OF t]
  have "StartWasmerInstance e c g False ?s = Some (None, setWarm t)"
    using assms h' t by (auto simp: StartWasmerInstance_def setWarmInstanceWhenNeeded_def makeInstanceFromCompiledCode_def
        makeInstanceFromContractByteCode_def Let_def RunningInstancesCount_def MustVerifyNextContractCode_def split: if_splits)
  then show ?thesis using f assms(4) by (auto simp: setWarm_def allocInstance_def MustVerifyNextContractCode_def)
qed

text \<open>C39: with a warm instance of the same address, starting new code runs the old code: the warm
  instance is taken over as it is, the new code is neither instantiated nor verified, and the gas used
  so far by that instance is forgotten.\<close>

theorem warm_instance_ignores_new_code:
  assumes "useWarmInstance (runtimeCtx s)" "warmInstanceAddress (runtimeCtx s) = Some (scAddress (runtimeCtx s))"
    "warmInstance (runtimeCtx s) = Some r" "RunningInstancesCount s < maxWasmerInstances (runtimeCtx s)"
  shows "\<exists>s'. StartWasmerInstance e newCode g True s = Some (None, s') \<and> inst (runtimeCtx s') = Some r \<and>
    inst_code (instances s' r) = inst_code (instances s r) \<and> inst_points (instances s' r) = 0 \<and>
    verifyCode (runtimeCtx s') = verifyCode (runtimeCtx s)"
  using StartWasmerInstance_warm [OF assms] .

theorem warm_instance_ignores_new_code_witness:
  "\<exists>s'. StartWasmerInstance sampleEnv ''new code'' 900 True (sampleVM\<lparr>runtimeCtx := (runtimeCtx sampleVM)\<lparr>useWarmInstance := True,
       warmInstanceAddress := Some ''contract'', warmInstance := Some 0\<rparr>\<rparr>) = Some (None, s') \<and> inst_code (instances s' 0) = ''code''"
  using warm_instance_ignores_new_code [of "sampleVM\<lparr>runtimeCtx := (runtimeCtx sampleVM)\<lparr>useWarmInstance := True,
       warmInstanceAddress := Some ''contract'', warmInstance := Some 0\<rparr>\<rparr>" 0 sampleEnv "''new code''" 900]
  by (auto simp: RunningInstancesCount_def) (auto simp: sample_defs)

text \<open>The gas of an asynchronous call.  The gas limit of the call, the gas locked for its callback
  and the price of the step add up to the gas that was left before it, so the call takes all of it and
  no more, and its gas limit is not zero.\<close>

lemma async_call_takes_gas_left:
  assumes "ExecuteAsyncCall e a d v s = Some (None, s')" "unat (gasForExecution (meteringCtx s)) \<le> 2 ^ 63 - 1"
  shows "\<exists>info. asyncCallInfo (runtimeCtx s') = Some info \<and> aci_Destination info = a \<and> aci_Data info = d \<and>
    unat (aci_GasLimit info) + unat (aci_GasLocked info) + unat (AsyncCallStep (gasSchedule (meteringCtx s))) = unat (GasLeft s) \<and>
    0 < unat (aci_GasLimit info)"
  using assms by (rule ExecuteAsyncCall_gas)

lemma sample_async: "map_option fst (ExecuteAsyncCall sampleEnv ''bob'' ''f'' [] sampleVM) = Some None"
  by code_simp

lemma async_call_takes_gas_left_example:
  "\<exists>s' info. ExecuteAsyncCall sampleEnv ''bob'' ''f'' [] sampleVM = Some (None, s') \<and> asyncCallInfo (runtimeCtx s') = Some info \<and>
     unat (aci_GasLimit info) + unat (aci_GasLocked info) = 959"
proof -
  obtain s' where s': "ExecuteAsyncCall sampleEnv ''bob'' ''f'' [] sampleVM = Some (None, s')" using sample_async by auto
  from async_call_takes_gas_left [OF this sample_gas(1)] s' show ?thesis
    by (auto simp: sample_gas(2)) (auto simp: sample_defs)
qed

text \<open>The depth of nested executions is limited: with as many instances on the stack as allowed,
  no further instance is started, whether a warm one, a compiled one or new code, and the attempt
  fails.\<close>

lemma instance_limit:
  assumes "RunningInstancesCount s \<ge> maxWasmerInstances (runtimeCtx s)"
  shows "StartWasmerInstance e c g b s = Some (Some ErrMaxInstancesReached, setInst None s)"
  using assms by (rule StartWasmerInstance_limit)

lemma instance_limit_example:
  "\<exists>s'. StartWasmerInstance sampleEnv ''code'' 900 False (SetMaxInstanceCount 0 sampleVM) = Some (Some ErrMaxInstancesReached, s')"
  using instance_limit [of "SetMaxInstanceCount 0 sampleVM" sampleEnv "''code''" 900 False] by (simp add: SetMaxInstanceCount_def)

end
