(* ===== verification/BigIntContext.thy ===== *)
theory BigIntContext
  imports SampleState StateStack
begin

text \<open>
  \<open>src/vmhost/contexts/bigint.go\<close>: the map from handles to big integers.  A handle owns its
  \<open>*big.Int\<close> alone (every entry is made by \<open>big.NewInt\<close>), so a write through the pointer is a
  write of the map at the handle.  \<open>Put\<close> looks for a free handle from the size of the map on,
  with \<open>int32\<close> wrap-around; the loop is modelled with fuel, the size of the map plus one, which
  \<open>freeHandle_enough\<close> shows to be enough.
\<close>

definition bigInt_InitState :: "bigIntContext \<Rightarrow> bigIntContext" where
  "bigInt_InitState c = c\<lparr>bi_values := []\<rparr>"

definition bigInt_PushState :: "bigIntContext \<Rightarrow> bigIntContext" where
  "bigInt_PushState c = c\<lparr>bigInt_stateStack := bi_values c # bigInt_stateStack c\<rparr>"

definition bigInt_PopSetActiveState :: "bigIntContext \<Rightarrow> bigIntContext" where
  "bigInt_PopSetActiveState c =
     (case bigInt_stateStack c of
        [] \<Rightarrow> c
      | prevValues # rest \<Rightarrow> c\<lparr>bigInt_stateStack := rest, bi_values := prevValues\<rparr>)"

definition bigInt_PopDiscard :: "bigIntContext \<Rightarrow> bigIntContext" where
  "bigInt_PopDiscard c =
     (case bigInt_stateStack c of [] \<Rightarrow> c | _ # rest \<Rightarrow> c\<lparr>bigInt_stateStack := rest\<rparr>)"

definition bigInt_ClearStateStack :: "bigIntContext \<Rightarrow> bigIntContext" where
  "bigInt_ClearStateStack c = c\<lparr>bigInt_stateStack := []\<rparr>"

fun freeHandle :: "nat \<Rightarrow> (i32, int) gomap \<Rightarrow> i32 \<Rightarrow> i32 option" where
  "freeHandle 0 m h = None"
| "freeHandle (Suc n) m h = (if go_get m h = None then Some h else freeHandle n m (h + 1))"

definition bigInt_Put :: "i64 \<Rightarrow> bigIntContext \<Rightarrow> (i32 \<times> bigIntContext) option" where
  "bigInt_Put value c =
     (case freeHandle (Suc (length (bi_values c))) (bi_values c) (of_nat (length (bi_values c))) of
        None \<Rightarrow> None
      | Some newHandle \<Rightarrow>
          Some (newHandle, c\<lparr>bi_values := go_set newHandle (sint value) (bi_values c)\<rparr>))"

definition bigInt_GetOne :: "i32 \<Rightarrow> bigIntContext \<Rightarrow> int \<times> bigIntContext" where
  "bigInt_GetOne handle c =
     (case go_get (bi_values c) handle of
        Some v \<Rightarrow> (v, c)
      | None \<Rightarrow> (0, c\<lparr>bi_values := go_set handle 0 (bi_values c)\<rparr>))"

definition bigInt_GetTwo :: "i32 \<Rightarrow> i32 \<Rightarrow> bigIntContext \<Rightarrow> (int \<times> int) \<times> bigIntContext" where
  "bigInt_GetTwo h1 h2 c =
     (let (v1, c) = bigInt_GetOne h1 c; (v2, c) = bigInt_GetOne h2 c in ((v1, v2), c))"

definition bigInt_GetThree :: "i32 \<Rightarrow> i32 \<Rightarrow> i32 \<Rightarrow> bigIntContext \<Rightarrow> (int \<times> int \<times> int) \<times> bigIntContext" where
  "bigInt_GetThree h1 h2 h3 c =
     (let (v1, c) = bigInt_GetOne h1 c; (v2, c) = bigInt_GetOne h2 c; (v3, c) = bigInt_GetOne h3 c
      in ((v1, v2, v3), c))"

text \<open>Writing through the pointer a handle owns.\<close>

definition bigInt_Set :: "i32 \<Rightarrow> int \<Rightarrow> bigIntContext \<Rightarrow> bigIntContext" where
  "bigInt_Set handle v c = c\<lparr>bi_values := go_set handle v (bi_values c)\<rparr>"

subsection \<open>The state stack\<close>

lemmas bigInt_stack_defs = bigInt_PushState_def bigInt_PopSetActiveState_def bigInt_PopDiscard_def
  bigInt_ClearStateStack_def

interpretation bigIntStack: state_stack bigInt_PushState bigInt_PopSetActiveState bigInt_PopDiscard
  bigInt_ClearStateStack bi_values bigInt_stateStack "\<lambda>_. True"
  by unfold_locales (auto simp: bigInt_stack_defs split: list.splits)

subsection \<open>Handles\<close>

lemma freeHandle_fresh: "freeHandle n m h = Some h' \<Longrightarrow> go_get m h' = None"
  by (induction n arbitrary: h) (auto split: if_splits)

lemma freeHandle_None: "freeHandle n m h = None \<Longrightarrow> i < n \<Longrightarrow> h + of_nat i \<in> fst ` set m"
proof (induction n arbitrary: h i)
  case (Suc n)
  then have h: "h \<in> fst ` set m" and rest: "freeHandle n m (h + 1) = None"
    by (auto simp: map_of_eq_None_iff split: if_splits)
  show ?case
  proof (cases i)
    case 0
    with h show ?thesis by simp
  next
    case (Suc j)
    with Suc.prems Suc.IH [OF rest, of j] show ?thesis by (simp add: add.assoc)
  qed
qed simp

text \<open>Consecutive handles are distinct below the wrap-around, so by the pigeonhole principle
  a map of \<open>n\<close> entries leaves one of any \<open>n + 1\<close> of them free.\<close>

lemma freeHandle_enough:
  assumes "length m < 2 ^ 32"
  shows "\<exists>h'. freeHandle (Suc (length m)) m h = Some h'"
proof (rule ccontr)
  assume "\<not> ?thesis"
  then have none: "freeHandle (Suc (length m)) m h = None" by (cases "freeHandle (Suc (length m)) m h") auto
  have "inj_on (\<lambda>i. h + of_nat i :: i32) {..<Suc (length m)}"
    using assms by (auto intro!: inj_onI simp: word_of_nat_eq_iff take_bit_nat_eq_self)
  then have "Suc (length m) = card ((\<lambda>i. h + of_nat i :: i32) ` {..<Suc (length m)})"
    by (simp add: card_image)
  also have "\<dots> \<le> card (fst ` set m)"
    using freeHandle_None [OF none] by (intro card_mono) auto
  also have "\<dots> \<le> length m"
    by (metis card_image_le card_length finite_set le_trans)
  finally show False by simp
qed

lemma bigInt_GetOne_value: "fst (bigInt_GetOne h c) = (case go_get (bi_values c) h of None \<Rightarrow> 0 | Some v \<Rightarrow> v)"
  by (simp add: bigInt_GetOne_def split: option.splits)

lemma bigInt_Put_fresh:
  assumes "length (bi_values c) < 2 ^ 32"
  shows "\<exists>h c'. bigInt_Put v c = Some (h, c') \<and> go_get (bi_values c) h = None \<and>
    fst (bigInt_GetOne h c') = sint v \<and> (\<forall>k. k = h \<or> go_get (bi_values c') k = go_get (bi_values c) k)"
proof -
  from freeHandle_enough [OF assms, of "of_nat (length (bi_values c))"] obtain h where
    h: "freeHandle (Suc (length (bi_values c))) (bi_values c) (of_nat (length (bi_values c))) = Some h" by blast
  with freeHandle_fresh [OF h] show ?thesis
    by (auto simp: bigInt_Put_def bigInt_GetOne_value go_simps)
qed

text \<open>Below the 2^32 handles there are, \<open>Put\<close> always returns; the handle it returns was not in
  use, reading it gives the value that was put, and every other handle keeps its value.\<close>

lemma bigInt_Put_returns_fresh_handle:
  assumes "length (bi_values c) < 2 ^ 32"
  shows "\<exists>h c'. bigInt_Put v c = Some (h, c') \<and> go_get (bi_values c) h = None \<and>
    fst (bigInt_GetOne h c') = sint v \<and> (\<forall>k. k = h \<or> go_get (bi_values c') k = go_get (bi_values c) k)"
  using assms by (rule bigInt_Put_fresh)

lemma bigInt_Put_returns_fresh_handle_example:
  "\<exists>h c'. bigInt_Put 5 (bigIntCtx sampleVM) = Some (h, c') \<and> go_get (bi_values (bigIntCtx sampleVM)) h = None \<and>
    fst (bigInt_GetOne h c') = 5"
proof -
  have "length (bi_values (bigIntCtx sampleVM)) < 2 ^ 32" by (simp add: sample_defs)
  from bigInt_Put_returns_fresh_handle [OF this, of 5] show ?thesis by auto
qed

end
