(* ===== verification/HostBuiltin.thy ===== *)
theory HostBuiltin
  imports RuntimeExec Helpers BigIntContext
begin

text \<open>
  Calls of the protocol's built-in functions and token transfers
  (\<open>src/vmhost/hostCore/execution.go\<close>, and \<open>TransferDCDT\<close> of \<open>output.go\<close>).  The node runs
  the function (\<^const>\<open>hook_ProcessBuiltInFunction\<close>); the host accounts for its gas, merges
  its output, and finds out whether a contract is to be executed after it.
\<close>

definition ProcessBuiltInFunction :: "env \<Rightarrow> ContractCallInput \<Rightarrow> vm \<Rightarrow> (err option \<times> VMOutput option) \<times> vm" where
  \<comment> \<open>the call changes the node: it is recorded in the log the node's later answers depend on\<close>
  "ProcessBuiltInFunction e input s =
     (hook_ProcessBuiltInFunction e (hookLog s) input, s\<lparr>hookLog := hookLog s @ [BuiltInCall input]\<rparr>)"

definition goIndex :: "'a list \<Rightarrow> nat \<Rightarrow> 'a option" where
  \<comment> \<open>indexing a slice, which panics out of range\<close>
  "goIndex xs i = (if i < length xs then Some (xs ! i) else None)"

definition isDCDTTransfer :: "env \<Rightarrow> string \<Rightarrow> bool" where
  "isDCDTTransfer e f \<longleftrightarrow> f = BuiltInFunctionDCDTTransfer e \<or> f = BuiltInFunctionDCDTNFTTransfer e"

subsection \<open>After a built-in function\<close>

definition fillWithDCDTValue :: "env \<Rightarrow> ContractCallInput \<Rightarrow> ContractCallInput \<Rightarrow> ContractCallInput option" where
  "fillWithDCDTValue e fullVMInput newVMInput =
     (if \<not> isDCDTTransfer e (Function fullVMInput) then Some newVMInput
      else do {
        let args = Arguments (cci_VMInput fullVMInput);
        name \<leftarrow> goIndex args 0;
        arg1 \<leftarrow> goIndex args 1;
        let t = \<lparr>DCDTValue = Some (SetBytes arg1), DCDTTokenName = name, DCDTTokenType = 0, DCDTTokenNonce = 0\<rparr>;
        t \<leftarrow> (if Function fullVMInput = BuiltInFunctionDCDTNFTTransfer e then do {
                arg2 \<leftarrow> goIndex args 2;
                Some (t\<lparr>DCDTTokenNonce := uint64_of_int (SetBytes arg1), DCDTValue := Some (SetBytes arg2),
                  DCDTTokenType := NonFungible e\<rparr>) }
              else Some t);
        Some (newVMInput\<lparr>cci_VMInput := (cci_VMInput newVMInput)\<lparr>DCDTTransfers := [t]\<rparr>\<rparr>) })"

definition isSCExecutionAfterBuiltInFunc ::
  "env \<Rightarrow> ContractCallInput \<Rightarrow> VMOutput \<Rightarrow> (err + ContractCallInput option) option" where
  "isSCExecutionAfterBuiltInFunc e input vmOutput =
     (if ReturnCode vmOutput \<noteq> Ok then Some (Inr None)
      else do {
        let vmIn = cci_VMInput input;
        recipient \<leftarrow> (if Function input = BuiltInFunctionDCDTNFTTransfer e \<and> CallerAddr vmIn = RecipientAddr input
                     then goIndex (Arguments vmIn) 3 else Some (RecipientAddr input));
        if \<not> AreInSameShard e (CallerAddr vmIn) recipient then Some (Inr None)
        else if \<not> hook_IsSmartContract e recipient then Some (Inr None)
        else (case go_get (OutputAccounts vmOutput) recipient of
            None \<Rightarrow> Some (Inr None)
          | Some outAcc \<Rightarrow>
              (case OutputTransfers outAcc of
                 [scCallOutTransfer] \<Rightarrow>
                   (case ParseData e (ot_Data scCallOutTransfer) of
                      Inl err \<Rightarrow> Some (Inl err)
                    | Inr (function, arguments) \<Rightarrow> do {
                        newVMInput \<leftarrow> fillWithDCDTValue e input
                          \<lparr>cci_VMInput = \<lparr>CallerAddr = CallerAddr vmIn, Arguments = arguments, CallValue = Some 0,
                             CallType = CallType vmIn, GasPrice = GasPrice vmIn,
                             GasProvided = ot_GasLimit scCallOutTransfer, GasLocked = ot_GasLocked scCallOutTransfer,
                             OriginalTxHash = OriginalTxHash vmIn, CurrentTxHash = CurrentTxHash vmIn,
                             PrevTxHash = [], DCDTTransfers = []\<rparr>,
                           RecipientAddr = recipient, Function = function, AllowInitFunction = False\<rparr>;
                        Some (Inr (Some newVMInput)) })
               | _ \<Rightarrow> Some (Inr None))) })"

definition addOutputTransferToVMOutput ::
  "string \<Rightarrow> bytes list \<Rightarrow> address \<Rightarrow> address \<Rightarrow> CallTypeT \<Rightarrow> VMOutput \<Rightarrow> VMOutput" where
  "addOutputTransferToVMOutput function arguments sender recipient callType vmOutput =
     (let outTransfer = \<lparr>ot_Value = Some 0, ot_GasLimit = 0, ot_GasLocked = 0, ot_Data = function @ at_args arguments,
            ot_CallType = callType, ot_SenderAddress = sender\<rparr>;
          outAcc = (case go_get (OutputAccounts vmOutput) recipient of
              None \<Rightarrow> emptyOutputAccount\<lparr>Address := recipient\<rparr> | Some outAcc \<Rightarrow> outAcc);
          outAcc = outAcc\<lparr>OutputTransfers := OutputTransfers outAcc @ [outTransfer]\<rparr>
      in vmOutput\<lparr>OutputAccounts := go_set recipient outAcc (OutputAccounts vmOutput)\<rparr>)"

definition addDCDTTransferToVMOutputSCIntraShardCall :: "env \<Rightarrow> ContractCallInput \<Rightarrow> VMOutput \<Rightarrow> VMOutput" where
  "addDCDTTransferToVMOutputSCIntraShardCall e input vmOutput =
     (let vmIn = cci_VMInput input; args = Arguments vmIn
      in if ReturnCode vmOutput \<noteq> Ok then vmOutput
         else if \<not> AreInSameShard e (RecipientAddr input) (CallerAddr vmIn) then vmOutput
         else if \<not> isDCDTTransfer e (Function input) then vmOutput
         else if Function input = BuiltInFunctionDCDTNFTTransfer e \<and> length args \<noteq> 4 then vmOutput
         else
           let recipientAddr = (if Function input = BuiltInFunctionDCDTNFTTransfer e then args ! 3 else RecipientAddr input)
           in addOutputTransferToVMOutput (Function input) args (CallerAddr vmIn) recipientAddr (CallType vmIn) vmOutput)"

subsection \<open>Calling one\<close>

definition computeGasUsedInExecutionBeforeReset :: "env \<Rightarrow> ContractCallInput \<Rightarrow> vm \<Rightarrow> u64 \<times> vm" where
  "computeGasUsedInExecutionBeforeReset e input s =
     (let (gasUsed, s) = GasUsedForExecution e s in (fst (SubUint64 gasUsed (GasLocked (cci_VMInput input))), s))"

definition accountForwarded :: "ContractCallInput \<Rightarrow> u64 \<times> vm \<Rightarrow> OutputTransfer \<Rightarrow> u64 \<times> vm" where
  \<comment> \<open>the inner loop body of \<open>callBuiltinFunction\<close>\<close>
  "accountForwarded input acc outTransfer =
     (let (gasConsumed, s) = acc
      in if ot_GasLimit outTransfer > 0 \<or> ot_GasLocked outTransfer > 0 then
           let gasForwarded = AddUint64 (ot_GasLocked outTransfer) (ot_GasLimit outTransfer);
               gasConsumed = AddUint64 gasConsumed (ot_GasLocked outTransfer)
           in if CallType (cci_VMInput input) \<noteq> AsynchronousCallBack
              then (gasConsumed, ForwardGas (scAddress (runtimeCtx s)) [] gasForwarded s)
              else (fst (SubUint64 gasConsumed (ot_GasLimit outTransfer)), s)
         else (gasConsumed, s))"

definition finishBuiltinCall ::
  "env \<Rightarrow> ContractCallInput \<Rightarrow> u64 \<Rightarrow> VMOutput \<Rightarrow> vm \<Rightarrow> (((err + ContractCallInput option) \<times> u64) \<times> vm) option" where
  \<comment> \<open>the end of \<open>callBuiltinFunction\<close>: the contract to execute next, and the merge of the output\<close>
  "finishBuiltinCall e input gasConsumedForExecution vmOutput s = do {
     newVMInput \<leftarrow> isSCExecutionAfterBuiltInFunc e input vmOutput;
     case newVMInput of
       Inl err \<Rightarrow> Some ((Inl err, gasConsumedForExecution), s)
     | Inr newVMInput \<Rightarrow> do {
         let vmOutput = (if newVMInput \<noteq> None
           then vmOutput\<lparr>OutputAccounts := map (\<lambda>(k, outAcc). (k, outAcc\<lparr>OutputTransfers := []\<rparr>)) (OutputAccounts vmOutput)\<rparr>
           else vmOutput);
         let vmOutput = addDCDTTransferToVMOutputSCIntraShardCall e input vmOutput;
         c \<leftarrow> AddToActiveState vmOutput (outputCtx s);
         Some ((Inr newVMInput, gasConsumedForExecution), s\<lparr>outputCtx := c\<rparr>) } }"

definition allTransfers :: "VMOutput \<Rightarrow> OutputTransfer list" where
  \<comment> \<open>what the nested loops over the accounts and their transfers visit\<close>
  "allTransfers vmOutput = concat (map (\<lambda>(_, outAcc). OutputTransfers outAcc) (OutputAccounts vmOutput))"

definition callBuiltinFunction ::
  "env \<Rightarrow> ContractCallInput \<Rightarrow> vm \<Rightarrow> (((err + ContractCallInput option) \<times> u64) \<times> vm) option" where
  "callBuiltinFunction e input s = do {
     let (gasConsumedForExecution, s) = computeGasUsedInExecutionBeforeReset e input s;
     s \<leftarrow> SetPointsUsed 0 s;
     let ((err, vmOutput), s) = ProcessBuiltInFunction e input s;
     case err of
       Some err \<Rightarrow> do {
         s \<leftarrow> UseGas (GasProvided (cci_VMInput input)) s;
         Some ((Inl err, gasConsumedForExecution), s) }
     | None \<Rightarrow> do {
         vmOutput \<leftarrow> vmOutput;
         let (gasConsumed, _) = SubUint64 (GasProvided (cci_VMInput input)) (GasRemaining vmOutput);
         let (gasConsumed, s) = foldl (accountForwarded input) (gasConsumed, s) (allTransfers vmOutput);
         s \<leftarrow> (if GasRemaining vmOutput < GasProvided (cci_VMInput input) then UseGas gasConsumed s else Some s);
         finishBuiltinCall e input gasConsumedForExecution vmOutput s } }"

definition failWith :: "err \<Rightarrow> vm \<Rightarrow> vm option" where
  \<comment> \<open>\<open>metering.UseGas(metering.GasLeft()); runtime.FailExecution(err)\<close>\<close>
  "failWith err s = do { s \<leftarrow> UseGas (GasLeft s) s; FailExecution (Some err) s }"

definition RevertDCDTTransfer :: "env \<Rightarrow> ContractCallInput \<Rightarrow> vm \<Rightarrow> vm option" where
  "RevertDCDTTransfer e input s =
     (let vmIn = cci_VMInput input;
          isNFT = (Function input = BuiltInFunctionDCDTNFTTransfer e);
          numArgsForTransfer = (if isNFT then MinLenArgumentsDCDTNFTTransfer e else MinLenArgumentsDCDTTransfer e)
      in if \<not> isDCDTTransfer e (Function input) then Some s
         else if CallType vmIn = AsynchronousCallBack then Some s
         else if length (Arguments vmIn) < numArgsForTransfer then Some s
         else do {
           let revertArgs = take numArgsForTransfer (Arguments vmIn);
           (caller, recipient, revertArgs) \<leftarrow>
             (if isNFT then do {
                actualSender \<leftarrow> goIndex (Arguments vmIn) (numArgsForTransfer - 1);
                Some (actualSender, actualSender, revertArgs[numArgsForTransfer - 1 := CallerAddr vmIn]) }
              else Some (RecipientAddr input, CallerAddr vmIn, revertArgs));
           let revertInput = \<lparr>cci_VMInput = \<lparr>CallerAddr = caller, Arguments = revertArgs, CallValue = Some 0,
                 CallType = AsynchronousCallBack, GasPrice = GasPrice vmIn, GasProvided = blockGasLimit (meteringCtx s),
                 GasLocked = 0, OriginalTxHash = OriginalTxHash vmIn, CurrentTxHash = CurrentTxHash vmIn,
                 PrevTxHash = [], DCDTTransfers = []\<rparr>,
               RecipientAddr = recipient, Function = Function input, AllowInitFunction = False\<rparr>;
           let ((err, vmOutput), s) = ProcessBuiltInFunction e revertInput s;
           case err of
             Some err \<Rightarrow> failWith err s
           | None \<Rightarrow> (case vmOutput of
                 Some vmOutput \<Rightarrow> (if ReturnCode vmOutput \<noteq> Ok then failWith (ErrPlain (ReturnMessage vmOutput)) s else Some s)
               | None \<Rightarrow> Some s) })"

subsection \<open>Token transfers\<close>

definition ExecuteDCDTTransfer ::
  "env \<Rightarrow> address \<Rightarrow> address \<Rightarrow> bytes \<Rightarrow> u64 \<Rightarrow> bigint \<Rightarrow> CallTypeT \<Rightarrow> bool \<Rightarrow> vm
   \<Rightarrow> ((VMOutput option \<times> u64 \<times> err option) \<times> vm) option" where
  "ExecuteDCDTTransfer e destination sender tokenIdentifier nonce bigval callType isRevert s = do {
     val \<leftarrow> bigval;
     let gasProvided = (if isRevert then blockGasLimit (meteringCtx s) else GasLeft s);
     let transferInput = \<lparr>cci_VMInput = \<lparr>CallerAddr = sender,
           Arguments = (if nonce > 0 then [tokenIdentifier, Bytes (uint nonce), Bytes val, destination]
                        else [tokenIdentifier, Bytes val]),
           CallValue = Some 0, CallType = callType, GasPrice = GasPrice (vmInput (runtimeCtx s)),
           GasProvided = gasProvided, GasLocked = 0, OriginalTxHash = [], CurrentTxHash = [], PrevTxHash = [],
           DCDTTransfers = []\<rparr>,
         RecipientAddr = (if nonce > 0 then sender else destination),
         Function = (if nonce > 0 then BuiltInFunctionDCDTNFTTransfer e else BuiltInFunctionDCDTTransfer e),
         AllowInitFunction = False\<rparr>;
     let ((err, vmOutput), s) = ProcessBuiltInFunction e transferInput s;
     case err of
       Some err \<Rightarrow> Some ((vmOutput, gasProvided, Some err), s)
     | None \<Rightarrow> do {
         out \<leftarrow> vmOutput;
         if ReturnCode out \<noteq> Ok then Some ((vmOutput, gasProvided, Some ErrExecutionFailed), s)
         else do {
           let (gasConsumed, _) = SubUint64 gasProvided (GasRemaining out);
           let gasConsumed = foldl (\<lambda>g t. fst (SubUint64 g (ot_GasLimit t))) gasConsumed (allTransfers out);
           if callType \<noteq> AsynchronousCallBack \<and> \<not> isRevert then
             (if GasLeft s < gasConsumed then Some ((vmOutput, gasProvided, Some ErrNotEnoughGas), s)
              else do { s \<leftarrow> UseGas gasConsumed s; Some ((vmOutput, gasConsumed, None), s) })
           else Some ((vmOutput, gasConsumed, None), s) } } }"

definition dcdtTransferData :: "env \<Rightarrow> bool \<Rightarrow> address \<Rightarrow> bytes \<Rightarrow> u64 \<Rightarrow> int \<Rightarrow> VMOutput option \<Rightarrow> bytes option" where
  \<comment> \<open>the data field of the recorded transfer, before the call data\<close>
  "dcdtTransferData e sameShard destination tokenIdentifier nonce val vmOutput =
     (if nonce > 0 then
        if sameShard then Some (BuiltInFunctionDCDTNFTTransfer e @ at_args [tokenIdentifier, Bytes (uint nonce), Bytes val, destination])
        else do {
          out \<leftarrow> vmOutput;
          Some (case go_get (OutputAccounts out) destination of
                  Some outTransfer \<Rightarrow>
                    (case OutputTransfers outTransfer of
                       [t] \<Rightarrow> ot_Data t
                     | _ \<Rightarrow> BuiltInFunctionDCDTNFTTransfer e @ at_args [tokenIdentifier, Bytes (uint nonce), Bytes val])
                | None \<Rightarrow> BuiltInFunctionDCDTNFTTransfer e @ at_args [tokenIdentifier, Bytes (uint nonce), Bytes val]) }
      else Some (BuiltInFunctionDCDTTransfer e @ at_args [tokenIdentifier, Bytes val]))"

definition TransferDCDT ::
  "env \<Rightarrow> address \<Rightarrow> address \<Rightarrow> bytes \<Rightarrow> u64 \<Rightarrow> bigint \<Rightarrow> ContractCallInput option \<Rightarrow> vm
   \<Rightarrow> ((u64 \<times> err option) \<times> vm) option" where
  "TransferDCDT e destination sender tokenIdentifier nonce bigval callInput s = do {
     let isSmartContract = hook_IsSmartContract e destination;
     let sameShard = AreInSameShard e sender destination;
     let isExecution = (isSmartContract \<and> callInput \<noteq> None);
     let callType = (if isExecution then DCDTTransferAndExecute else DirectCall);
     ((vmOutput, gasConsumedByTransfer, err), s) \<leftarrow>
       ExecuteDCDTTransfer e destination sender tokenIdentifier nonce bigval callType False s;
     if err \<noteq> None then Some ((0, err), s)
     else do {
       let callGas = (case callInput of None \<Rightarrow> 0 | Some input \<Rightarrow> GasProvided (cci_VMInput input));
       let gasRemaining = (if isExecution then callGas - gasConsumedByTransfer else 0);
       if isExecution \<and> gasConsumedByTransfer > callGas then Some ((0, Some ErrNotEnoughGas), s)
       else if isExecution \<and> gasRemaining > GasLeft s then Some ((0, Some ErrNotEnoughGas), s)
       else do {
         s \<leftarrow> (if isExecution \<and> \<not> sameShard then UseGas gasRemaining (ForwardGas sender destination gasRemaining s) else Some s);
         val \<leftarrow> bigval;
         txData \<leftarrow> dcdtTransferData e sameShard destination tokenIdentifier nonce val vmOutput;
         let callData = (case callInput of None \<Rightarrow> [] | Some input \<Rightarrow> at_args (Function input # Arguments (cci_VMInput input)));
         Some ((gasRemaining, None), appendTransfer destination \<lparr>ot_Value = Some 0,
           ot_GasLimit = (if sameShard then 0 else gasRemaining), ot_GasLocked = 0, ot_Data = txData @ callData,
           ot_CallType = DirectCall, ot_SenderAddress = sender\<rparr> s) } } }"

subsection \<open>Properties\<close>

text \<open>The data of a recorded transfer of fungible tokens determines what was transferred and
  called: two transfers with the same data have the same token, the same value, and the same function
  and arguments to call.\<close>

lemma transfer_data_injective:
  assumes "dcdtTransferData e b d tok 0 v out = Some x" "dcdtTransferData e b' d' tok' 0 v' out' = Some y"
    "0 \<le> v" "0 \<le> v'" "x @ at_args call = y @ at_args call'"
  shows "tok = tok' \<and> v = v' \<and> call = call'"
proof -
  have "at_args ([tok, Bytes v] @ call) = at_args ([tok', Bytes v'] @ call')"
    using assms unfolding at_args_append by (auto simp: dcdtTransferData_def)
  then have "[tok, Bytes v] @ call = [tok', Bytes v'] @ call'" by (simp only: at_args_inject)
  then have "tok = tok'" "Bytes v = Bytes v'" "call = call'" by auto
  moreover from this(2) have "\<bar>v\<bar> = \<bar>v'\<bar>" by (metis SetBytes_Bytes)
  ultimately show ?thesis using assms(3,4) by simp
qed

lemma transfer_data_injective_example:
  "dcdtTransferData sampleEnv False ''bob'' ''TOK'' 0 300 None \<noteq> dcdtTransferData sampleEnv False ''bob'' ''TOK'' 0 301 None"
proof
  assume eq: "dcdtTransferData sampleEnv False ''bob'' ''TOK'' 0 300 None = dcdtTransferData sampleEnv False ''bob'' ''TOK'' 0 301 None"
  have d: "dcdtTransferData sampleEnv False ''bob'' ''TOK'' 0 v None = Some (''DCDTTransfer'' @ at_args [''TOK'', Bytes v])" for v
    by (simp add: dcdtTransferData_def sampleEnv_def)
  have "''DCDTTransfer'' @ at_args [''TOK'', Bytes 300] = ''DCDTTransfer'' @ at_args [''TOK'', Bytes 301]"
    using eq unfolding d by (rule option.inject [THEN iffD1])
  then show False using transfer_data_injective [OF d [of 300] d [of 301], of "[]" "[]"] by simp
qed

end
