(* ===== verification/HookOps.thy ===== *)
theory HookOps
  imports Helpers HostBuiltin
begin

text \<open>
  The idioms of \<open>src/vmhost/vmhooks/\<close>.  A VM hook is a function that a contract imports.  It reads
  and changes the VM, returns a value and may panic, so it is a \<open>'a hook\<close>.  Nearly every hook is a
  sequence of the same few steps: charge a cost of the gas schedule, load from the memory of the
  instance, call an operation of a context, and after each call that can fail hand the error to
  \<open>WithFault\<close> and return early.  The combinators below are these steps, each with the rest of the
  hook as its last argument.
\<close>

type_synonym 'a hook = "vm \<Rightarrow> ('a \<times> vm) option"

definition ret :: "'a \<Rightarrow> 'a hook" where
  "ret x s = Some (x, s)"

definition bindH :: "'x hook \<Rightarrow> ('x \<Rightarrow> 'a hook) \<Rightarrow> 'a hook" where
  \<comment> \<open>call an operation that returns a value\<close>
  "bindH m k s = do { (x, s) \<leftarrow> m s; k x s }"

definition thenH :: "(vm \<Rightarrow> vm option) \<Rightarrow> 'a hook \<Rightarrow> 'a hook" where
  \<comment> \<open>call an operation that returns nothing\<close>
  "thenH m k s = do { s \<leftarrow> m s; k s }"

definition updH :: "(vm \<Rightarrow> vm) \<Rightarrow> 'a hook \<Rightarrow> 'a hook" where
  \<comment> \<open>the same for one that cannot panic\<close>
  "updH f k s = k (f s)"

definition readH :: "(vm \<Rightarrow> 'x) \<Rightarrow> ('x \<Rightarrow> 'a hook) \<Rightarrow> 'a hook" where
  "readH f k s = k (f s) s"

definition needH :: "(vm \<Rightarrow> 'x option) \<Rightarrow> ('x \<Rightarrow> 'a hook) \<Rightarrow> 'a hook" where
  \<comment> \<open>read through a pointer or index that may be bad\<close>
  "needH f k s = do { x \<leftarrow> f s; k x s }"

definition useApi :: "string \<Rightarrow> 'a hook \<Rightarrow> 'a hook" where
  \<comment> \<open>\<open>metering.UseGas(metering.GasSchedule().<name>)\<close>\<close>
  "useApi name = thenH (\<lambda>s. UseGas (apiCost (gasSchedule (meteringCtx s)) name) s)"

definition useApiAndBytes :: "string \<Rightarrow> (BaseOperationCost \<Rightarrow> u64) \<Rightarrow> u64 \<Rightarrow> 'a hook \<Rightarrow> 'a hook" where
  \<comment> \<open>a fixed cost and a cost per byte, added up and charged at once\<close>
  "useApiAndBytes name cost n = thenH (\<lambda>s. UseGas (AddUint64 (apiCost (gasSchedule (meteringCtx s)) name)
     (MulUint64 (cost (baseOperationCost (gasSchedule (meteringCtx s)))) n)) s)"

definition faultH :: "bool \<Rightarrow> err option \<Rightarrow> 'a \<Rightarrow> 'a hook \<Rightarrow> 'a hook" where
  \<comment> \<open>\<open>if vmhost.WithFault(err, context, fail) { return x }\<close>\<close>
  "faultH failExecution err x k s = do {
     (failed, s) \<leftarrow> WithFault err failExecution s;
     if failed then Some (x, s) else k s }"

definition checkH :: "bool \<Rightarrow> err + 'x \<Rightarrow> 'a \<Rightarrow> ('x \<Rightarrow> 'a hook) \<Rightarrow> 'a hook" where
  \<comment> \<open>the same for a result that is an error or a value\<close>
  "checkH failExecution r x k = (case r of Inl err \<Rightarrow> faultH failExecution (Some err) x (ret x) | Inr y \<Rightarrow> k y)"

definition memLoad :: "bool \<Rightarrow> i32 \<Rightarrow> i32 \<Rightarrow> 'a \<Rightarrow> (bytes \<Rightarrow> 'a hook) \<Rightarrow> 'a hook" where
  "memLoad failExecution offset n x k = needH (MemLoad offset n) (\<lambda>r. checkH failExecution r x k)"

definition memStore :: "env \<Rightarrow> bool \<Rightarrow> i32 \<Rightarrow> bytes \<Rightarrow> 'a \<Rightarrow> 'a hook \<Rightarrow> 'a hook" where
  "memStore e failExecution offset data x k = bindH (MemStore e offset data) (\<lambda>err. faultH failExecution err x k)"

abbreviation baseFail :: bool where "baseFail \<equiv> BaseOpsErrorShouldFailExecution"
abbreviation syncFail :: bool where "syncFail \<equiv> SyncExecAPIErrorShouldFailExecution"
abbreviation bigFail :: bool where "bigFail \<equiv> BigIntAPIErrorShouldFailExecution"
abbreviation cryptoFail :: bool where "cryptoFail \<equiv> CryptoAPIErrorShouldFailExecution"

abbreviation addressLen :: i32 where "addressLen \<equiv> of_nat AddressLen"
abbreviation balanceLen :: i32 where "balanceLen \<equiv> of_nat BalanceLen"
abbreviation hashLen :: i32 where "hashLen \<equiv> of_nat HashLen"

definition int32_len :: "'a list \<Rightarrow> i32" where
  \<comment> \<open>\<open>int32(len(xs))\<close>\<close>
  "int32_len xs = of_nat (length xs)"

definition indexArg :: "i32 \<Rightarrow> 'a list \<Rightarrow> 'a option" where
  \<comment> \<open>\<open>xs[id]\<close>, a panic when the index is negative or too large\<close>
  "indexArg i xs = (if 0 \<le> sint i \<and> nat (sint i) < length xs then Some (xs ! nat (sint i)) else None)"

subsection \<open>Interfaces\<close>

definition relates :: "(vm \<Rightarrow> vm \<Rightarrow> bool) \<Rightarrow> 'a hook \<Rightarrow> bool" where
  \<comment> \<open>the states before and after a call are always related\<close>
  "relates R m \<longleftrightarrow> (\<forall>s x s'. m s = Some (x, s') \<longrightarrow> R s s')"

definition relates_step :: "(vm \<Rightarrow> vm \<Rightarrow> bool) \<Rightarrow> (vm \<Rightarrow> vm option) \<Rightarrow> bool" where
  "relates_step R m \<longleftrightarrow> (\<forall>s s'. m s = Some s' \<longrightarrow> R s s')"

lemma relatesI: "(\<And>s x s'. m s = Some (x, s') \<Longrightarrow> R s s') \<Longrightarrow> relates R m"
  by (auto simp: relates_def)

lemma relates_stepI: "(\<And>s s'. m s = Some s' \<Longrightarrow> R s s') \<Longrightarrow> relates_step R m"
  by (auto simp: relates_step_def)

lemma relatesD: "relates R m \<Longrightarrow> m s = Some (x, s') \<Longrightarrow> R s s'"
  by (auto simp: relates_def)

lemma relates_stepD: "relates_step R m \<Longrightarrow> m s = Some s' \<Longrightarrow> R s s'"
  by (auto simp: relates_step_def)

named_theorems hook_rules \<open>a relation that the steps of a hook respect, the hook respects\<close>

text \<open>
  A relation between VM states that the operations available to every hook respect: charging gas,
  failing, writing the memory of the instance, the caches that reading a balance or a storage entry
  fills, the table of big integers and the return data.  Every hook that uses nothing else
  respects the relation; the extensions add the operations that change storage, send value and
  log, and those that move tokens or call other contracts.
\<close>

locale hook_relation =
  fixes R :: "vm \<Rightarrow> vm \<Rightarrow> bool" and e :: env
  assumes refl: "R s s"
    and trans: "R s t \<Longrightarrow> R t u \<Longrightarrow> R s u"
    and gas: "UseGas g s = Some s' \<Longrightarrow> R s s'"
    and breakpoint: "SetRuntimeBreakpointValue b s = Some s' \<Longrightarrow> R s s'"
    and code_message: "R s (s\<lparr>outputCtx := SetReturnMessage m (SetReturnCode c (outputCtx s))\<rparr>)"
    and memory: "MemStore e offset d s = Some (r, s') \<Longrightarrow> R s s'"
    and bigInts: "R s (s\<lparr>bigIntCtx := (bigIntCtx s)\<lparr>bi_values := v\<rparr>\<rparr>)"
    and finish: "R s (s\<lparr>outputCtx := Finish d (outputCtx s)\<rparr>)"
    and balance: "GetBalanceBigInt e a s = Some (x, s') \<Longrightarrow> R s s'"
    and storageRead: "getStorageFromAddressUnmetered e a key s = (v', s') \<Longrightarrow> R s s'"
begin

lemma relates_ret [hook_rules]: "relates R (ret x)"
  by (simp add: relates_def ret_def refl)

lemma relates_after: "R s t \<Longrightarrow> relates R m \<Longrightarrow> m t = Some (x, s') \<Longrightarrow> R s s'"
  by (blast intro: trans dest: relatesD)

lemma relates_bindH [hook_rules]: "relates R m \<Longrightarrow> (\<And>x. relates R (k x)) \<Longrightarrow> relates R (bindH m k)"
  by (rule relatesI) (auto simp: bindH_def bind_Some_iff dest!: relatesD intro: trans)

lemma relates_thenH [hook_rules]: "relates_step R m \<Longrightarrow> relates R k \<Longrightarrow> relates R (thenH m k)"
  by (rule relatesI) (auto simp: thenH_def bind_Some_iff dest!: relatesD relates_stepD intro: trans)

lemma relates_updH [hook_rules]: "(\<And>s. R s (f s)) \<Longrightarrow> relates R k \<Longrightarrow> relates R (updH f k)"
  by (rule relatesI) (auto simp: updH_def dest!: relatesD intro: trans)

lemma relates_readH [hook_rules]: "(\<And>x. relates R (k x)) \<Longrightarrow> relates R (readH f k)"
  by (rule relatesI) (auto simp: readH_def dest: relatesD)

lemma relates_needH [hook_rules]: "(\<And>x. relates R (k x)) \<Longrightarrow> relates R (needH f k)"
  by (rule relatesI) (auto simp: needH_def bind_Some_iff dest: relatesD)

lemma relates_if [hook_rules]: "(b \<Longrightarrow> relates R m) \<Longrightarrow> (\<not> b \<Longrightarrow> relates R m') \<Longrightarrow> relates R (if b then m else m')"
  by simp

lemma relates_option [hook_rules]:
  "relates R m \<Longrightarrow> (\<And>x. relates R (k x)) \<Longrightarrow> relates R (case y of None \<Rightarrow> m | Some x \<Rightarrow> k x)"
  by (simp split: option.split)

lemma relates_sum [hook_rules]:
  "(\<And>x. relates R (j x)) \<Longrightarrow> (\<And>x. relates R (k x)) \<Longrightarrow> relates R (case y of Inl x \<Rightarrow> j x | Inr x \<Rightarrow> k x)"
  by (simp split: sum.split)

lemma relates_prod [hook_rules]: "(\<And>x z. relates R (k x z)) \<Longrightarrow> relates R (case y of (x, z) \<Rightarrow> k x z)"
  by (simp split: prod.split)

lemma relates_let [hook_rules]: "(\<And>x. relates R (k x)) \<Longrightarrow> relates R (let x = y in k x)"
  by simp

lemma step_gas [hook_rules]: "relates_step R (\<lambda>s. UseGas (g s) s)" "relates_step R (UseGas h)"
  by (auto intro!: relates_stepI dest: gas)

lemma step_bytes [hook_rules]: "relates_step R (useGasPerByte c n)"
  by (auto intro!: relates_stepI simp: useGasPerByte_def dest: gas)

lemma step_breakpoint [hook_rules]: "relates_step R (SetRuntimeBreakpointValue b)"
  by (auto intro!: relates_stepI dest: breakpoint)

lemma step_FailExecution [hook_rules]: "relates_step R (FailExecution err)"
proof (rule relates_stepI)
  fix s s' assume "FailExecution err s = Some s'"
  then have "\<exists>m. SetRuntimeBreakpointValue BreakpointExecutionFailed
      (s\<lparr>outputCtx := SetReturnMessage m (SetReturnCode ExecutionFailed (outputCtx s))\<rparr>) = Some s'"
    by (auto simp: FailExecution_def Let_def)
  then show "R s s'" by (blast intro: trans code_message breakpoint)
qed

lemma step_SignalUserError [hook_rules]: "relates_step R (SignalUserError m)"
  by (rule relates_stepI) (auto simp: SignalUserError_def Let_def intro: trans code_message breakpoint)

lemma hook_WithFault [hook_rules]: "relates R (WithFault err b)"
  by (rule relatesI)
    (auto simp: WithFault_def bind_Some_iff refl intro: trans gas dest: relates_stepD [OF step_FailExecution] split: if_splits)

lemma hook_faultH [hook_rules]: "relates R k \<Longrightarrow> relates R (faultH b err x k)"
  by (rule relatesI)
    (auto simp: faultH_def bind_Some_iff dest!: relatesD [OF hook_WithFault] relatesD intro: trans split: if_splits)

lemma hook_checkH [hook_rules]: "(\<And>y. relates R (k y)) \<Longrightarrow> relates R (checkH b r x k)"
  unfolding checkH_def by (intro hook_rules)

lemma hook_memLoad [hook_rules]: "(\<And>d. relates R (k d)) \<Longrightarrow> relates R (memLoad b offset n x k)"
  unfolding memLoad_def by (intro hook_rules)

lemma hook_MemStore [hook_rules]: "relates R (MemStore e offset d)"
  by (rule relatesI) (rule memory)

lemma hook_memStore [hook_rules]: "relates R k \<Longrightarrow> relates R (memStore e b offset d x k)"
  unfolding memStore_def by (intro hook_rules)

lemma hook_useApi [hook_rules]: "relates R k \<Longrightarrow> relates R (useApi name k)"
  unfolding useApi_def by (intro hook_rules)

lemma hook_useApiAndBytes [hook_rules]: "relates R k \<Longrightarrow> relates R (useApiAndBytes name c n k)"
  unfolding useApiAndBytes_def by (intro hook_rules)

lemma hook_GetBalance [hook_rules]: "relates R (GetBalance e a)"
  by (rule relatesI) (auto simp: GetBalance_def bind_Some_iff dest: balance)

lemma hook_GetStorageUnmetered [hook_rules]: "relates R (\<lambda>s. Some (GetStorageUnmetered e key s))"
  by (rule relatesI) (auto simp: GetStorageUnmetered_def intro: storageRead)

lemma step_extraKeyBytes [hook_rules]: "relates_step R (useGasForExtraKeyBytes key)"
  by (rule relates_stepI) (auto simp: useGasForExtraKeyBytes_def Let_def refl dest: gas split: if_splits)

lemma storageRead_snd: "R s (snd (getStorageFromAddressUnmetered e a key s))"
  by (rule storageRead [OF prod.collapse [symmetric]])

lemma trans_read: "R s t \<Longrightarrow> R (snd (getStorageFromAddressUnmetered e a key t)) u \<Longrightarrow> R s u"
  by (rule trans [OF trans [OF _ storageRead_snd]])

lemma hook_GetStorage [hook_rules]: "relates R (GetStorage e key)"
  by (rule relatesI) (auto simp: GetStorage_def GetStorageUnmetered_def bind_Some_iff Let_def case_prod_beta
    dest!: relates_stepD [OF step_extraKeyBytes] relates_stepD [OF step_bytes] intro: trans trans_read)

lemma hook_GetStorageFromAddress [hook_rules]: "relates R (GetStorageFromAddress e a key)"
  by (rule relatesI) (auto simp: GetStorageFromAddress_def bind_Some_iff Let_def case_prod_beta
    dest!: relates_stepD [OF step_extraKeyBytes] relates_stepD [OF step_bytes] intro: trans trans_read
    split: if_splits)

lemma upd_finish [hook_rules]: "R s (s\<lparr>outputCtx := Finish d (outputCtx s)\<rparr>)"
  by (rule finish)

end

text \<open>The operations by which a hook changes storage, sends value, logs or starts an asynchronous call.\<close>

locale write_relation = hook_relation +
  assumes storageWrite: "SetStorage e key v s = Some (st, s') \<Longrightarrow> R s s'"
    and protectedWrite: "SetProtectedStorage e key v s = Some (st, s') \<Longrightarrow> R s s'"
    and transfer: "Transfer e d a g l val i t s = Some (r, s') \<Longrightarrow> R s s'"
    and log: "R s (WriteLog a topics data s)"
    and asyncInfo: "R s (SetAsyncCallInfo info s)"
    and asyncCall: "ExecuteAsyncCall e a data val' s = Some (r, s') \<Longrightarrow> R s s'"
begin

lemma hook_SetStorage [hook_rules]: "relates R (SetStorage e key v)"
  by (rule relatesI) (rule storageWrite)

lemma hook_SetProtectedStorage [hook_rules]: "relates R (SetProtectedStorage e key v)"
  by (rule relatesI) (rule protectedWrite)

lemma hook_Transfer [hook_rules]: "relates R (Transfer e d a g l val i t)"
  by (rule relatesI) (rule transfer)

lemma hook_ExecuteAsyncCall [hook_rules]: "relates R (ExecuteAsyncCall e a data val)"
  by (rule relatesI) (rule asyncCall)

end

end
