(* ===== verification/VMHooks.thy ===== *)
theory VMHooks
  imports HookOps
begin

text \<open>
  The hooks of \<open>src/vmhost/vmhooks/baseOps.go\<close> that do not call into the host: the contract's own
  address, caller, arguments and call value, the accounts and tokens of the node, the block, storage
  and its time locks, transfers of value, asynchronous calls, logs and return data.  Offsets and
  lengths are \<open>int32\<close>, kept as words and read through \<^const>\<open>sint\<close>.  The hooks that execute other
  contracts are in the theory \<open>VMHooksExec\<close>.
\<close>

subsection \<open>Arguments in memory\<close>

definition LittleEndian_Uint32 :: "bytes \<Rightarrow> u32" where
  "LittleEndian_Uint32 raw = of_nat (foldr (\<lambda>c acc. of_char c + 256 * acc) raw 0)"

function fillInts :: "bytes \<Rightarrow> nat \<Rightarrow> i32 list \<Rightarrow> i32 list option" where
  \<comment> \<open>the loop of \<open>createInt32Array\<close>, from its cursor on\<close>
  "fillInts raw index integers =
     (if raw = [] then Some integers
      else if length raw < 4 \<or> length integers \<le> index then None
      else fillInts (drop 4 raw) (Suc index) (integers[index := LittleEndian_Uint32 (take 4 raw)]))"
  by pat_completeness auto
termination by (relation "measure (\<lambda>(raw, _). length raw)") auto

declare fillInts.simps [simp del]

definition createInt32Array :: "bytes \<Rightarrow> i32 \<Rightarrow> i32 list option" where
  "createInt32Array rawData numIntegers =
     (if sint numIntegers < 0 then None else fillInts rawData 0 (replicate (unat numIntegers) 0))"

definition getArgumentsFromMemory :: "i32 \<Rightarrow> i32 \<Rightarrow> i32 \<Rightarrow> vm \<Rightarrow> (err + bytes list \<times> i32) option" where
  "getArgumentsFromMemory numArguments argumentsLengthOffset dataOffset s =
     (if sint numArguments < 0
      then Some (Inl (ErrPlain (''negative numArguments ('' @ decimal (sint numArguments) @ '')'')))
      else do {
        r \<leftarrow> MemLoad argumentsLengthOffset (numArguments * 4) s;
        case r of
          Inl err \<Rightarrow> Some (Inl err)
        | Inr argumentsLengthData \<Rightarrow> do {
            argumentLengths \<leftarrow> createInt32Array argumentsLengthData numArguments;
            r \<leftarrow> MemLoadMultiple dataOffset argumentLengths s;
            case r of
              Inl err \<Rightarrow> Some (Inl err)
            | Inr data \<Rightarrow> Some (Inr (data, foldl (+) 0 argumentLengths)) } })"

definition actualLen :: "err + bytes list \<times> i32 \<Rightarrow> i32" where
  \<comment> \<open>the second result, 0 beside an error\<close>
  "actualLen r = (case r of Inl _ \<Rightarrow> 0 | Inr (_, n) \<Rightarrow> n)"

subsection \<open>Accounts and tokens of the node\<close>

definition v1_2_getGasLeft :: "i64 hook" where
  "v1_2_getGasLeft = useApi ''BaseOpsAPICost.GetGasLeft'' (readH GasLeft ret)"

definition v1_2_getSCAddress :: "env \<Rightarrow> i32 \<Rightarrow> unit hook" where
  "v1_2_getSCAddress e resultOffset = useApi ''BaseOpsAPICost.GetSCAddress''
     (readH (\<lambda>s. scAddress (runtimeCtx s)) (\<lambda>owner.
      memStore e baseFail resultOffset owner () (ret ())))"

definition v1_2_getOwnerAddress :: "env \<Rightarrow> i32 \<Rightarrow> unit hook" where
  "v1_2_getOwnerAddress e resultOffset = useApi ''BaseOpsAPICost.GetOwnerAddress''
     (readH (GetOwnerAddress e) (\<lambda>r.
      checkH baseFail r () (\<lambda>owner.
      memStore e baseFail resultOffset owner () (ret ()))))"

definition v1_2_getShardOfAddress :: "env \<Rightarrow> i32 \<Rightarrow> i32 hook" where
  "v1_2_getShardOfAddress e addressOffset = useApi ''BaseOpsAPICost.GetShardOfAddress''
     (memLoad baseFail addressOffset addressLen 0 (\<lambda>a. ret (GetShardOfAddress e a)))"

definition v1_2_isSmartContract :: "env \<Rightarrow> i32 \<Rightarrow> i32 hook" where
  "v1_2_isSmartContract e addressOffset = useApi ''BaseOpsAPICost.IsSmartContract''
     (memLoad baseFail addressOffset addressLen 0 (\<lambda>a. ret (of_int (BooleanToInt (IsSmartContract e a)))))"

definition v1_2_signalError :: "i32 \<Rightarrow> i32 \<Rightarrow> unit hook" where
  "v1_2_signalError messageOffset messageLength = useApi ''BaseOpsAPICost.SignalError''
     (memLoad baseFail messageOffset messageLength () (\<lambda>message.
      thenH (SignalUserError message) (ret ())))"

definition v1_2_getExternalBalance :: "env \<Rightarrow> i32 \<Rightarrow> i32 \<Rightarrow> unit hook" where
  "v1_2_getExternalBalance e addressOffset resultOffset = useApi ''BaseOpsAPICost.GetExternalBalance''
     (memLoad baseFail addressOffset addressLen () (\<lambda>a.
      bindH (GetBalance e a) (\<lambda>balance.
      memStore e baseFail resultOffset balance () (ret ()))))"

definition v1_2_blockHash :: "env \<Rightarrow> i64 \<Rightarrow> i32 \<Rightarrow> i32 hook" where
  "v1_2_blockHash e nonce resultOffset = useApi ''BaseOpsAPICost.GetBlockHash''
     (memStore e baseFail resultOffset (BlockHash e nonce) 1 (ret 0))"

definition isBuiltInCall :: "env \<Rightarrow> bytes \<Rightarrow> bool" where
  "isBuiltInCall e data = IsBuiltinFunctionName e (case ParseData e data of Inl _ \<Rightarrow> [] | Inr (functionName, _) \<Rightarrow> functionName)"

definition getDCDTDataFromBlockchainHook ::
  "env \<Rightarrow> i32 \<Rightarrow> i32 \<Rightarrow> i32 \<Rightarrow> i64 \<Rightarrow> (err + DCDigitalToken option) hook" where
  "getDCDTDataFromBlockchainHook e addressOffset tokenIDOffset tokenIDLen nonce = useApi ''BaseOpsAPICost.GetExternalBalance''
     (needH (MemLoad addressOffset addressLen) (\<lambda>r. case r of Inl err \<Rightarrow> ret (Inl err) | Inr a \<Rightarrow>
      needH (MemLoad tokenIDOffset tokenIDLen) (\<lambda>r. case r of Inl err \<Rightarrow> ret (Inl err) | Inr tokenID \<Rightarrow>
      readH (GetDCDTToken e a tokenID nonce) ret)))"

definition tokenValue :: "DCDigitalToken option \<Rightarrow> int option" where
  \<comment> \<open>\<open>dcdtData.Value\<close>, a panic when either pointer is nil\<close>
  "tokenValue dcdtData = do { token \<leftarrow> dcdtData; dt_Value token }"

definition tokenMetaData :: "DCDigitalToken option \<Rightarrow> MetaData option" where
  \<comment> \<open>\<open>None\<close> when \<open>dcdtData == nil || dcdtData.TokenMetaData == nil\<close>\<close>
  "tokenMetaData dcdtData = do { token \<leftarrow> dcdtData; dt_TokenMetaData token }"

definition v1_2_getDCDTBalance :: "env \<Rightarrow> i32 \<Rightarrow> i32 \<Rightarrow> i32 \<Rightarrow> i64 \<Rightarrow> i32 \<Rightarrow> i32 hook" where
  "v1_2_getDCDTBalance e addressOffset tokenIDOffset tokenIDLen nonce resultOffset =
     bindH (getDCDTDataFromBlockchainHook e addressOffset tokenIDOffset tokenIDLen nonce) (\<lambda>r.
     checkH baseFail r 0 (\<lambda>dcdtData.
     needH (\<lambda>_. tokenValue dcdtData) (\<lambda>val.
     memStore e baseFail resultOffset (Bytes val) 0 (ret (int32_len (Bytes val))))))"

definition v1_2_getDCDTNFTNameLength :: "env \<Rightarrow> i32 \<Rightarrow> i32 \<Rightarrow> i32 \<Rightarrow> i64 \<Rightarrow> i32 hook" where
  "v1_2_getDCDTNFTNameLength e addressOffset tokenIDOffset tokenIDLen nonce =
     bindH (getDCDTDataFromBlockchainHook e addressOffset tokenIDOffset tokenIDLen nonce) (\<lambda>r.
     checkH baseFail r 0 (\<lambda>dcdtData.
     ret (case tokenMetaData dcdtData of None \<Rightarrow> 0 | Some md \<Rightarrow> int32_len (md_Name md))))"

definition v1_2_getDCDTNFTAttributeLength :: "env \<Rightarrow> i32 \<Rightarrow> i32 \<Rightarrow> i32 \<Rightarrow> i64 \<Rightarrow> i32 hook" where
  "v1_2_getDCDTNFTAttributeLength e addressOffset tokenIDOffset tokenIDLen nonce =
     bindH (getDCDTDataFromBlockchainHook e addressOffset tokenIDOffset tokenIDLen nonce) (\<lambda>r.
     checkH baseFail r 0 (\<lambda>dcdtData.
     ret (case tokenMetaData dcdtData of None \<Rightarrow> 0 | Some md \<Rightarrow> int32_len (md_Attributes md))))"

definition v1_2_getDCDTNFTURILength :: "env \<Rightarrow> i32 \<Rightarrow> i32 \<Rightarrow> i32 \<Rightarrow> i64 \<Rightarrow> i32 hook" where
  "v1_2_getDCDTNFTURILength e addressOffset tokenIDOffset tokenIDLen nonce =
     bindH (getDCDTDataFromBlockchainHook e addressOffset tokenIDOffset tokenIDLen nonce) (\<lambda>r.
     checkH baseFail r 0 (\<lambda>dcdtData.
     ret (case tokenMetaData dcdtData of None \<Rightarrow> 0
          | Some md \<Rightarrow> (case md_URIs md of [] \<Rightarrow> 0 | uri # _ \<Rightarrow> int32_len uri))))"

definition v1_2_getDCDTTokenData ::
  "env \<Rightarrow> i32 \<Rightarrow> i32 \<Rightarrow> i32 \<Rightarrow> i64 \<Rightarrow> i32 \<Rightarrow> i32 \<Rightarrow> i32 \<Rightarrow> i32 \<Rightarrow> i32 \<Rightarrow> i32 \<Rightarrow> i32 \<Rightarrow> i32 \<Rightarrow> i32 hook" where
  "v1_2_getDCDTTokenData e addressOffset tokenIDOffset tokenIDLen nonce valueOffset propertiesOffset hashOffset
       nameOffset attributesOffset creatorOffset royaltiesOffset urisOffset =
     bindH (getDCDTDataFromBlockchainHook e addressOffset tokenIDOffset tokenIDLen nonce) (\<lambda>r.
     checkH baseFail r 0 (\<lambda>dcdtData.
     needH (\<lambda>_. tokenValue dcdtData) (\<lambda>val.
     needH (\<lambda>_. dcdtData) (\<lambda>token.
     memStore e baseFail valueOffset (Bytes val) 0
     (memStore e baseFail propertiesOffset (dt_Properties token) 0
     (case dt_TokenMetaData token of
        None \<Rightarrow> ret (int32_len (Bytes val))
      | Some md \<Rightarrow>
          memStore e baseFail hashOffset (md_Hash md) 0
          (memStore e baseFail nameOffset (md_Name md) 0
          (memStore e baseFail attributesOffset (md_Attributes md) 0
          (memStore e baseFail creatorOffset (md_Creator md) 0
          (memStore e baseFail royaltiesOffset (Bytes (uint (md_Royalties md))) 0
          (if md_URIs md = [] then ret (int32_len (Bytes val))
           else memStore e baseFail urisOffset (hd (md_URIs md)) 0 (ret (int32_len (Bytes val))))))))))))))"

subsection \<open>Transfers and asynchronous calls\<close>

definition v1_2_transferValue :: "env \<Rightarrow> i32 \<Rightarrow> i32 \<Rightarrow> i32 \<Rightarrow> i32 \<Rightarrow> i32 hook" where
  "v1_2_transferValue e destOffset valueOffset dataOffset n = useApi ''BaseOpsAPICost.TransferValue''
     (readH (\<lambda>s. scAddress (runtimeCtx s)) (\<lambda>send.
      memLoad baseFail destOffset addressLen 1 (\<lambda>dest.
      memLoad baseFail valueOffset balanceLen 1 (\<lambda>valueBytes.
      thenH (useGasPerByte PersistPerByte (scast n))
      (memLoad baseFail dataOffset n 1 (\<lambda>data.
      if isBuiltInCall e data then ret 1
      else bindH (Transfer e dest send 0 0 (Some (SetBytes valueBytes)) data DirectCall) (\<lambda>err.
           faultH baseFail err 1 (ret 0))))))))"

definition makeCrossShardCallFromInput :: "ContractCallInput option \<Rightarrow> string" where
  "makeCrossShardCallFromInput vmInp = (case vmInp of None \<Rightarrow> []
     | Some input \<Rightarrow> Function input @ at_args (Arguments (cci_VMInput input)))"

definition v1_2_transferDCDT :: "i32 \<Rightarrow> i32 \<Rightarrow> i32 \<Rightarrow> i32 \<Rightarrow> i64 \<Rightarrow> i32 \<Rightarrow> i32 \<Rightarrow> i32 hook" where
  "v1_2_transferDCDT destOffset tokenIDOffset tokenIDLen valueOffset gasLimit dataOffset n =
     useApi ''BaseOpsAPICost.TransferValue'' (thenH (useGasPerByte PersistPerByte (scast n)) (ret 1))"

definition v1_2_createAsyncCall ::
  "i32 \<Rightarrow> i32 \<Rightarrow> i32 \<Rightarrow> i32 \<Rightarrow> i32 \<Rightarrow> i32 \<Rightarrow> i32 \<Rightarrow> i32 \<Rightarrow> i32 \<Rightarrow> i32 \<Rightarrow> i64 \<Rightarrow> unit hook" where
  "v1_2_createAsyncCall asyncContextIdentifier identifierLength destOffset valueOffset dataOffset n
       successOffset successLength errorOffset errorLength gas =
     memLoad baseFail asyncContextIdentifier identifierLength () (\<lambda>acIdentifier.
     memLoad baseFail destOffset addressLen () (\<lambda>calledSCAddress.
     memLoad baseFail valueOffset balanceLen () (\<lambda>value.
     memLoad baseFail dataOffset n () (\<lambda>data.
     memLoad baseFail successOffset successLength () (\<lambda>successFunc.
     memLoad baseFail errorOffset errorLength () (\<lambda>errorFunc.
     updH (AddAsyncContextCall acIdentifier \<lparr>Status = AsyncCallPending, Destination = calledSCAddress, agc_Data = data,
         GasLimit = 0, ValueBytes = value, SuccessCallback = successFunc, ErrorCallback = errorFunc, ProvidedGas = gas\<rparr>)
     (ret ())))))))"

definition setContextCallback :: "bytes \<Rightarrow> string \<Rightarrow> vm \<Rightarrow> vm" where
  \<comment> \<open>the assignment \<open>asyncContext.Callback = ...\<close> through the pointer in the map\<close>
  "setContextCallback acIdentifier callback s =
     (let info = asyncContextInfo (runtimeCtx s)
      in case go_get (AsyncContextMap info) acIdentifier of
           None \<Rightarrow> s
         | Some c \<Rightarrow> s\<lparr>runtimeCtx := (runtimeCtx s)\<lparr>asyncContextInfo :=
             info\<lparr>AsyncContextMap := go_set acIdentifier (c\<lparr>Callback := callback\<rparr>) (AsyncContextMap info)\<rparr>\<rparr>\<rparr>)"

definition v1_2_setAsyncContextCallback :: "i32 \<Rightarrow> i32 \<Rightarrow> i32 \<Rightarrow> i32 \<Rightarrow> i32 hook" where
  "v1_2_setAsyncContextCallback asyncContextIdentifier identifierLength callback callbackLength =
     memLoad baseFail asyncContextIdentifier identifierLength (- 1) (\<lambda>acIdentifier.
     readH (GetAsyncContext acIdentifier) (\<lambda>r.
     checkH baseFail r (- 1) (\<lambda>_.
     memLoad baseFail callback callbackLength (- 1) (\<lambda>callbackFunc.
     updH (setContextCallback acIdentifier callbackFunc) (ret 0)))))"

definition minAsyncCallCost :: "GasCost \<Rightarrow> u64" where
  "minAsyncCallCost costs = AddUint64 (MulUint64 2 (AsyncCallStep costs)) (AsyncCallbackGasLock costs)"

definition v1_2_upgradeContract ::
  "i32 \<Rightarrow> i64 \<Rightarrow> i32 \<Rightarrow> i32 \<Rightarrow> i32 \<Rightarrow> i32 \<Rightarrow> i32 \<Rightarrow> i32 \<Rightarrow> i32 \<Rightarrow> unit hook" where
  "v1_2_upgradeContract destOffset gasLimit valueOffset codeOffset codeMetadataOffset n numArguments
       argumentsLengthOffset dataOffset =
     thenH (\<lambda>s. UseGas (CreateContract (gasSchedule (meteringCtx s))) s)
     (memLoad baseFail valueOffset balanceLen () (\<lambda>value.
      memLoad baseFail codeOffset n () (\<lambda>code.
      memLoad baseFail codeMetadataOffset (of_nat CodeMetadataLen) () (\<lambda>codeMetadata.
      needH (getArgumentsFromMemory numArguments argumentsLengthOffset dataOffset) (\<lambda>r.
      thenH (useGasPerByte DataCopyPerByte (scast (actualLen r)))
      (checkH baseFail r () (\<lambda>(data, _).
      thenH (\<lambda>s. UseGas (AsyncCallStep (gasSchedule (meteringCtx s))) s)
      (memLoad baseFail destOffset addressLen () (\<lambda>calledSCAddress.
      thenH (useGasPerByte DataCopyPerByte (scast n))
      (readH (\<lambda>s. minAsyncCallCost (gasSchedule (meteringCtx s))) (\<lambda>minCost.
      if gasLimit < minCost then thenH (SetRuntimeBreakpointValue BreakpointOutOfGas) (ret ())
      else
        updH (SetAsyncCallInfo (Some \<lparr>aci_Destination = calledSCAddress,
            aci_Data = UpgradeFunctionName @ ''@'' @ EncodeToString code @ ''@'' @ EncodeToString codeMetadata
              @ concat (map (\<lambda>arg. CHR ''@'' # arg) data),
            aci_GasLimit = gasLimit, aci_GasLocked = 0, aci_ValueBytes = value\<rparr>))
        (thenH (SetRuntimeBreakpointValue BreakpointAsyncCall) (ret ())))))))))))))"

definition v1_2_asyncCall :: "env \<Rightarrow> i32 \<Rightarrow> i32 \<Rightarrow> i32 \<Rightarrow> i32 \<Rightarrow> unit hook" where
  "v1_2_asyncCall e destOffset valueOffset dataOffset n =
     thenH (\<lambda>s. UseGas (AsyncCallStep (gasSchedule (meteringCtx s))) s)
     (memLoad baseFail destOffset addressLen () (\<lambda>calledSCAddress.
      memLoad baseFail valueOffset balanceLen () (\<lambda>value.
      thenH (useGasPerByte DataCopyPerByte (scast n))
      (memLoad baseFail dataOffset n () (\<lambda>data.
      bindH (ExecuteAsyncCall e calledSCAddress data value) (\<lambda>err.
      if (case err of None \<Rightarrow> False | Some er \<Rightarrow> errorsIs er ErrNotEnoughGas)
      then thenH (SetRuntimeBreakpointValue BreakpointOutOfGas) (ret ())
      else faultH baseFail err () (ret ())))))))"

subsection \<open>The call\<close>

definition callArguments :: "vm \<Rightarrow> bytes list" where
  \<comment> \<open>\<open>runtime.Arguments()\<close>\<close>
  "callArguments s = Arguments (vmInput (runtimeCtx s))"

definition v1_2_getArgumentLength :: "i32 \<Rightarrow> i32 hook" where
  "v1_2_getArgumentLength i = useApi ''BaseOpsAPICost.GetArgument''
     (readH callArguments (\<lambda>args.
      if sint i < 0 \<or> sint (int32_len args) \<le> sint i then ret (- 1)
      else needH (\<lambda>_. indexArg i args) (\<lambda>arg. ret (int32_len arg))))"

definition v1_2_getArgument :: "env \<Rightarrow> i32 \<Rightarrow> i32 \<Rightarrow> i32 hook" where
  "v1_2_getArgument e i argOffset = useApi ''BaseOpsAPICost.GetArgument''
     (readH callArguments (\<lambda>args.
      if sint i < 0 \<or> sint (int32_len args) \<le> sint i then ret (- 1)
      else needH (\<lambda>_. indexArg i args) (\<lambda>arg.
           memStore e baseFail argOffset arg (- 1) (ret (int32_len arg)))))"

definition v1_2_getFunction :: "env \<Rightarrow> i32 \<Rightarrow> i32 hook" where
  "v1_2_getFunction e functionOffset = useApi ''BaseOpsAPICost.GetFunction''
     (readH (\<lambda>s. callFunction (runtimeCtx s)) (\<lambda>function.
      memStore e baseFail functionOffset function (- 1) (ret (int32_len function))))"

definition v1_2_getNumArguments :: "i32 hook" where
  "v1_2_getNumArguments = useApi ''BaseOpsAPICost.GetNumArguments'' (readH callArguments (\<lambda>args. ret (int32_len args)))"

subsection \<open>Storage\<close>

primrec storageStatus_int :: "StorageStatus \<Rightarrow> i32" where
  "storageStatus_int StorageUnchanged = 0"
| "storageStatus_int StorageModified = 1"
| "storageStatus_int StorageAdded = 2"
| "storageStatus_int StorageDeleted = 3"

definition v1_2_storageStore :: "env \<Rightarrow> i32 \<Rightarrow> i32 \<Rightarrow> i32 \<Rightarrow> i32 \<Rightarrow> i32 hook" where
  "v1_2_storageStore e keyOffset keyLength dataOffset dataLength = useApi ''BaseOpsAPICost.StorageStore''
     (memLoad baseFail keyOffset keyLength (- 1) (\<lambda>key.
      memLoad baseFail dataOffset dataLength (- 1) (\<lambda>data.
      bindH (SetStorage e key data) (\<lambda>(storageStatus, err).
      faultH baseFail err (- 1) (ret (storageStatus_int storageStatus))))))"

definition v1_2_storageLoadLength :: "env \<Rightarrow> i32 \<Rightarrow> i32 \<Rightarrow> i32 hook" where
  "v1_2_storageLoadLength e keyOffset keyLength = useApi ''BaseOpsAPICost.StorageLoad''
     (memLoad baseFail keyOffset keyLength (- 1) (\<lambda>key.
      bindH (\<lambda>s. Some (GetStorageUnmetered e key s)) (\<lambda>data. ret (int32_len data))))"

definition v1_2_storageLoadFromAddress :: "env \<Rightarrow> i32 \<Rightarrow> i32 \<Rightarrow> i32 \<Rightarrow> i32 \<Rightarrow> i32 hook" where
  "v1_2_storageLoadFromAddress e addressOffset keyOffset keyLength dataOffset = useApi ''BaseOpsAPICost.StorageLoad''
     (memLoad baseFail keyOffset keyLength (- 1) (\<lambda>key.
      memLoad baseFail addressOffset addressLen (- 1) (\<lambda>a.
      bindH (GetStorageFromAddress e a key) (\<lambda>data.
      memStore e baseFail dataOffset data (- 1) (ret (int32_len data))))))"

definition v1_2_storageLoad :: "env \<Rightarrow> i32 \<Rightarrow> i32 \<Rightarrow> i32 \<Rightarrow> i32 hook" where
  "v1_2_storageLoad e keyOffset keyLength dataOffset = useApi ''BaseOpsAPICost.StorageLoad''
     (memLoad baseFail keyOffset keyLength (- 1) (\<lambda>key.
      bindH (GetStorage e key) (\<lambda>data.
      memStore e baseFail dataOffset data (- 1) (ret (int32_len data)))))"

definition v1_2_setStorageLock :: "env \<Rightarrow> i32 \<Rightarrow> i32 \<Rightarrow> i64 \<Rightarrow> i32 hook" where
  "v1_2_setStorageLock e keyOffset keyLength lockTimestamp = useApi ''BaseOpsAPICost.Int64StorageStore''
     (memLoad baseFail keyOffset keyLength (- 1) (\<lambda>key.
      bindH (SetProtectedStorage e (CustomStorageKey TimeLockKeyPrefix key) (Bytes (sint lockTimestamp))) (\<lambda>(storageStatus, err).
      faultH baseFail err (- 1) (ret (storageStatus_int storageStatus)))))"

definition v1_2_getStorageLock :: "env \<Rightarrow> i32 \<Rightarrow> i32 \<Rightarrow> i64 hook" where
  "v1_2_getStorageLock e keyOffset keyLength = useApi ''BaseOpsAPICost.StorageLoad''
     (memLoad baseFail keyOffset keyLength (- 1) (\<lambda>key.
      bindH (GetStorage e (CustomStorageKey TimeLockKeyPrefix key)) (\<lambda>data. ret (word_of_int (SetBytes data)))))"

definition v1_2_getBlockTimestamp :: "env \<Rightarrow> i64 hook" where
  "v1_2_getBlockTimestamp e = useApi ''BaseOpsAPICost.GetBlockTimeStamp'' (ret (CurrentTimeStamp e))"

definition v1_2_isStorageLocked :: "env \<Rightarrow> i32 \<Rightarrow> i32 \<Rightarrow> i32 hook" where
  "v1_2_isStorageLocked e keyOffset keyLength =
     bindH (v1_2_getStorageLock e keyOffset keyLength) (\<lambda>timeLock.
     if sint timeLock < 0 then ret (- 1)
     else bindH (v1_2_getBlockTimestamp e) (\<lambda>currentTimestamp.
          if sint timeLock \<le> sint currentTimestamp then ret 0 else ret 1))"

definition v1_2_clearStorageLock :: "env \<Rightarrow> i32 \<Rightarrow> i32 \<Rightarrow> i32 hook" where
  "v1_2_clearStorageLock e keyOffset keyLength = v1_2_setStorageLock e keyOffset keyLength 0"

subsection \<open>Caller and call value\<close>

definition v1_2_getCaller :: "env \<Rightarrow> i32 \<Rightarrow> unit hook" where
  "v1_2_getCaller e resultOffset = useApi ''BaseOpsAPICost.GetCaller''
     (readH (\<lambda>s. CallerAddr (vmInput (runtimeCtx s))) (\<lambda>caller.
      memStore e baseFail resultOffset caller () (ret ())))"

definition v1_2_checkNoPayment :: "unit hook" where
  "v1_2_checkNoPayment = useApi ''BaseOpsAPICost.GetCallValue''
     (needH (\<lambda>s. CallValue (vmInput (runtimeCtx s))) (\<lambda>callValue.
      if callValue > 0 then faultH baseFail (Some ErrNonPayableFunctionRewa) () (ret ())
      else readH (\<lambda>s. DCDTTransfers (vmInput (runtimeCtx s))) (\<lambda>transfers.
           if transfers \<noteq> [] then faultH baseFail (Some ErrNonPayableFunctionDcdt) () (ret ())
           else ret ())))"

definition v1_2_callValue :: "env \<Rightarrow> i32 \<Rightarrow> i32 hook" where
  "v1_2_callValue e resultOffset = useApi ''BaseOpsAPICost.GetCallValue''
     (needH (\<lambda>s. CallValue (vmInput (runtimeCtx s))) (\<lambda>callValue.
      let val = PadBytesLeft (Bytes callValue) (of_nat BalanceLen)
      in memStore e baseFail resultOffset val (- 1) (ret (int32_len val))))"

definition getFirstDCDTTransferIfExist :: "vm \<Rightarrow> DCDTTransfer" where
  "getFirstDCDTTransferIfExist s = (case DCDTTransfers (vmInput (runtimeCtx s)) of
     t # _ \<Rightarrow> t | [] \<Rightarrow> \<lparr>DCDTValue = Some 0, DCDTTokenName = [], DCDTTokenType = 0, DCDTTokenNonce = 0\<rparr>)"

definition v1_2_getDCDTValue :: "env \<Rightarrow> i32 \<Rightarrow> i32 hook" where
  "v1_2_getDCDTValue e resultOffset = useApi ''BaseOpsAPICost.GetCallValue''
     (needH (\<lambda>s. DCDTValue (getFirstDCDTTransferIfExist s)) (\<lambda>dcdtValue.
      let val = (if dcdtValue > 0 then PadBytesLeft (Bytes dcdtValue) (of_nat BalanceLen) else [])
      in memStore e baseFail resultOffset val (- 1) (ret (int32_len val))))"

definition v1_2_getDCDTTokenName :: "env \<Rightarrow> i32 \<Rightarrow> i32 hook" where
  "v1_2_getDCDTTokenName e resultOffset = useApi ''BaseOpsAPICost.GetCallValue''
     (readH (\<lambda>s. DCDTTokenName (getFirstDCDTTransferIfExist s)) (\<lambda>tokenName.
      memStore e baseFail resultOffset tokenName (- 1) (ret (int32_len tokenName))))"

definition v1_2_getDCDTTokenNonce :: "i64 hook" where
  "v1_2_getDCDTTokenNonce = useApi ''BaseOpsAPICost.GetCallValue''
     (readH (\<lambda>s. DCDTTokenNonce (getFirstDCDTTransferIfExist s)) ret)"

definition v1_2_getCurrentDCDTNFTNonce :: "env \<Rightarrow> i32 \<Rightarrow> i32 \<Rightarrow> i32 \<Rightarrow> i64 hook" where
  "v1_2_getCurrentDCDTNFTNonce e addressOffset tokenIDOffset tokenIDLen = useApi ''BaseOpsAPICost.StorageLoad''
     (needH (MemLoad addressOffset addressLen) (\<lambda>r. case r of Inl _ \<Rightarrow> ret 0 | Inr destination \<Rightarrow>
      needH (MemLoad tokenIDOffset tokenIDLen) (\<lambda>r. case r of Inl _ \<Rightarrow> ret 0 | Inr tokenID \<Rightarrow>
      bindH (GetStorageFromAddress e destination
               (core_ProtectedKeyPrefix e @ DCDTNFTLatestNonceIdentifier e @ tokenID)) (\<lambda>data.
      ret (word_of_int (SetBytes data))))))"

definition v1_2_getDCDTTokenType :: "i32 hook" where
  "v1_2_getDCDTTokenType = useApi ''BaseOpsAPICost.GetCallValue''
     (readH (\<lambda>s. DCDTTokenType (getFirstDCDTTransferIfExist s)) ret)"

definition goCopy :: "'a list \<Rightarrow> 'a list \<Rightarrow> 'a list" where
  \<comment> \<open>\<open>dst\<close> after \<open>copy(dst, src)\<close>: as many elements as both slices are long\<close>
  "goCopy dst src = take (length dst) src @ drop (length src) dst"

definition v1_2_getCallValueTokenName :: "env \<Rightarrow> i32 \<Rightarrow> i32 \<Rightarrow> i32 hook" where
  "v1_2_getCallValueTokenName e callValueOffset tokenNameOffset = useApi ''BaseOpsAPICost.GetCallValue''
     (needH (\<lambda>s. CallValue (vmInput (runtimeCtx s))) (\<lambda>callValue.
      readH getFirstDCDTTransferIfExist (\<lambda>dcdtTransfer.
      needH (\<lambda>_. if length (DCDTTokenName dcdtTransfer) > 0
                  then do { v \<leftarrow> DCDTValue dcdtTransfer; Some (goCopy [] (DCDTTokenName dcdtTransfer), Bytes v) }
                  else Some ([], Bytes callValue)) (\<lambda>(tokenName, callValue).
      memStore e baseFail tokenNameOffset tokenName (- 1)
      (memStore e baseFail callValueOffset (PadBytesLeft callValue (of_nat BalanceLen)) (- 1)
      (ret (int32_len tokenName)))))))"

subsection \<open>Logs and return data\<close>

fun loadTopics :: "nat \<Rightarrow> i32 \<Rightarrow> 'a \<Rightarrow> (bytes list \<Rightarrow> 'a hook) \<Rightarrow> 'a hook" where
  \<comment> \<open>the loop over the topics, each of the length of a hash\<close>
  "loadTopics 0 topicPtr x k = k []"
| "loadTopics (Suc n) topicPtr x k = memLoad baseFail topicPtr hashLen x (\<lambda>topic.
     loadTopics n (topicPtr + hashLen) x (\<lambda>topics. k (topic # topics)))"

definition v1_2_writeLog :: "i32 \<Rightarrow> i32 \<Rightarrow> i32 \<Rightarrow> i32 \<Rightarrow> unit hook" where
  "v1_2_writeLog dataPointer dataLength topicPtr numTopics =
     useApiAndBytes ''BaseOpsAPICost.Log'' PersistPerByte (scast (numTopics * hashLen + dataLength))
     (memLoad baseFail dataPointer dataLength () (\<lambda>log.
      checkH baseFail (GuardedMakeByteSlice2D numTopics) () (\<lambda>slots.
      loadTopics (length slots) topicPtr () (\<lambda>topics.
      readH (\<lambda>s. scAddress (runtimeCtx s)) (\<lambda>a.
      updH (WriteLog a topics log) (ret ()))))))"

definition v1_2_writeEventLog :: "i32 \<Rightarrow> i32 \<Rightarrow> i32 \<Rightarrow> i32 \<Rightarrow> i32 \<Rightarrow> unit hook" where
  "v1_2_writeEventLog numTopics topicLengthsOffset topicOffset dataOffset dataLength =
     needH (getArgumentsFromMemory numTopics topicLengthsOffset topicOffset) (\<lambda>r.
     checkH baseFail r () (\<lambda>(topics, topicDataTotalLen).
     memLoad baseFail dataOffset dataLength () (\<lambda>data.
     useApiAndBytes ''BaseOpsAPICost.Log'' DataCopyPerByte (scast (topicDataTotalLen + dataLength))
     (readH (\<lambda>s. scAddress (runtimeCtx s)) (\<lambda>a.
      updH (WriteLog a topics data) (ret ()))))))"

definition v1_2_returnData :: "i32 \<Rightarrow> i32 \<Rightarrow> unit hook" where
  "v1_2_returnData pointer n = useApiAndBytes ''BaseOpsAPICost.Finish'' PersistPerByte (scast n)
     (memLoad baseFail pointer n () (\<lambda>data.
      updH (\<lambda>s. s\<lparr>outputCtx := Finish data (outputCtx s)\<rparr>) (ret ())))"

definition returnDataOf :: "vm \<Rightarrow> bytes list" where
  \<comment> \<open>\<open>output.ReturnData()\<close>\<close>
  "returnDataOf s = ReturnData (outputState (outputCtx s))"

definition v1_2_getNumReturnData :: "i32 hook" where
  "v1_2_getNumReturnData = useApi ''BaseOpsAPICost.GetNumReturnData'' (readH returnDataOf (\<lambda>returnData. ret (int32_len returnData)))"

definition v1_2_getReturnDataSize :: "i32 \<Rightarrow> i32 hook" where
  "v1_2_getReturnDataSize resultID = useApi ''BaseOpsAPICost.GetReturnDataSize''
     (readH returnDataOf (\<lambda>returnData.
      if sint (int32_len returnData) \<le> sint resultID then ret 0
      else needH (\<lambda>_. indexArg resultID returnData) (\<lambda>data. ret (int32_len data))))"

definition v1_2_getReturnData :: "env \<Rightarrow> i32 \<Rightarrow> i32 \<Rightarrow> i32 hook" where
  "v1_2_getReturnData e resultID dataOffset = useApi ''BaseOpsAPICost.GetReturnData''
     (readH returnDataOf (\<lambda>returnData.
      if sint (int32_len returnData) \<le> sint resultID then ret 0
      else needH (\<lambda>_. indexArg resultID returnData) (\<lambda>data.
           memStore e baseFail dataOffset data 0 (ret (int32_len data)))))"

definition v1_2_getOriginalTxHash :: "env \<Rightarrow> i32 \<Rightarrow> unit hook" where
  "v1_2_getOriginalTxHash e dataOffset = useApi ''BaseOpsAPICost.GetBlockHash''
     (readH (\<lambda>s. OriginalTxHash (vmInput (runtimeCtx s))) (\<lambda>h. memStore e baseFail dataOffset h () (ret ())))"

subsection \<open>The block\<close>

definition v1_2_getBlockNonce :: "env \<Rightarrow> i64 hook" where
  "v1_2_getBlockNonce e = useApi ''BaseOpsAPICost.GetBlockNonce'' (ret (CurrentNonce e))"

definition v1_2_getBlockRound :: "env \<Rightarrow> i64 hook" where
  "v1_2_getBlockRound e = useApi ''BaseOpsAPICost.GetBlockRound'' (ret (CurrentRound e))"

definition v1_2_getBlockEpoch :: "env \<Rightarrow> i64 hook" where
  "v1_2_getBlockEpoch e = useApi ''BaseOpsAPICost.GetBlockEpoch'' (ret (ucast (CurrentEpoch e)))"

definition v1_2_getBlockRandomSeed :: "env \<Rightarrow> i32 \<Rightarrow> unit hook" where
  "v1_2_getBlockRandomSeed e pointer = useApi ''BaseOpsAPICost.GetBlockRandomSeed''
     (memStore e baseFail pointer (CurrentRandomSeed e) () (ret ()))"

definition v1_2_getStateRootHash :: "env \<Rightarrow> i32 \<Rightarrow> unit hook" where
  "v1_2_getStateRootHash e pointer = useApi ''BaseOpsAPICost.GetStateRootHash''
     (memStore e baseFail pointer (GetStateRootHash e) () (ret ()))"

definition v1_2_getPrevBlockTimestamp :: "env \<Rightarrow> i64 hook" where
  "v1_2_getPrevBlockTimestamp e = useApi ''BaseOpsAPICost.GetBlockTimeStamp'' (ret (LastTimeStamp e))"

definition v1_2_getPrevBlockNonce :: "env \<Rightarrow> i64 hook" where
  "v1_2_getPrevBlockNonce e = useApi ''BaseOpsAPICost.GetBlockNonce'' (ret (LastNonce e))"

definition v1_2_getPrevBlockRound :: "env \<Rightarrow> i64 hook" where
  "v1_2_getPrevBlockRound e = useApi ''BaseOpsAPICost.GetBlockRound'' (ret (LastRound e))"

definition v1_2_getPrevBlockEpoch :: "env \<Rightarrow> i64 hook" where
  "v1_2_getPrevBlockEpoch e = useApi ''BaseOpsAPICost.GetBlockEpoch'' (ret (ucast (LastEpoch e)))"

definition v1_2_getPrevBlockRandomSeed :: "env \<Rightarrow> i32 \<Rightarrow> unit hook" where
  "v1_2_getPrevBlockRandomSeed e pointer = useApi ''BaseOpsAPICost.GetBlockRandomSeed''
     (memStore e baseFail pointer (LastRandomSeed e) () (ret ()))"

subsection \<open>Relations the hooks respect\<close>

context hook_relation
begin

lemma hook_tokenData [hook_rules]: "relates R (getDCDTDataFromBlockchainHook e addressOffset tokenIDOffset tokenIDLen nonce)"
  unfolding getDCDTDataFromBlockchainHook_def by (intro hook_rules)

lemma block_hooks [hook_rules]:
  "relates R (v1_2_getBlockTimestamp e)" "relates R (v1_2_getBlockNonce e)" "relates R (v1_2_getBlockRound e)"
  "relates R (v1_2_getBlockEpoch e)" "relates R (v1_2_getBlockRandomSeed e a')"
  "relates R (v1_2_getStateRootHash e a')" "relates R (v1_2_getPrevBlockTimestamp e)"
  "relates R (v1_2_getPrevBlockNonce e)" "relates R (v1_2_getPrevBlockRound e)"
  "relates R (v1_2_getPrevBlockEpoch e)" "relates R (v1_2_getPrevBlockRandomSeed e a')"
  unfolding v1_2_getBlockTimestamp_def v1_2_getBlockNonce_def v1_2_getBlockRound_def v1_2_getBlockEpoch_def
    v1_2_getBlockRandomSeed_def v1_2_getStateRootHash_def v1_2_getPrevBlockTimestamp_def v1_2_getPrevBlockNonce_def
    v1_2_getPrevBlockRound_def v1_2_getPrevBlockEpoch_def v1_2_getPrevBlockRandomSeed_def
  by (intro hook_rules)+

lemma token_hooks [hook_rules]:
  "relates R (v1_2_getDCDTNFTNameLength e a' b' c' u')"
  "relates R (v1_2_getDCDTNFTAttributeLength e a' b' c' u')" "relates R (v1_2_getDCDTNFTURILength e a' b' c' u')"
  "relates R (v1_2_getDCDTBalance e a' b' c' u' d')"
  "relates R (v1_2_getDCDTTokenData e a' b' c' u' d' f' g' h' i' j' k' l')"
  unfolding v1_2_getDCDTNFTNameLength_def v1_2_getDCDTNFTAttributeLength_def v1_2_getDCDTNFTURILength_def
    v1_2_getDCDTBalance_def v1_2_getDCDTTokenData_def
  by (intro hook_rules)+

lemma read_hooks [hook_rules]:
  "relates R v1_2_getGasLeft" "relates R (v1_2_getSCAddress e a')" "relates R (v1_2_getOwnerAddress e a')"
  "relates R (v1_2_getShardOfAddress e a')" "relates R (v1_2_isSmartContract e a')"
  "relates R (v1_2_signalError a' b')" "relates R (v1_2_getExternalBalance e a' b')"
  "relates R (v1_2_blockHash e u' a')" "relates R (v1_2_transferDCDT a' b' c' d' u' f' g')"
  "relates R (v1_2_getArgumentLength a')" "relates R (v1_2_getArgument e a' b')"
  "relates R (v1_2_getFunction e a')" "relates R v1_2_getNumArguments"
  "relates R (v1_2_storageLoadLength e a' b')" "relates R (v1_2_storageLoadFromAddress e a' b' c' d')"
  "relates R (v1_2_storageLoad e a' b' c')" "relates R (v1_2_getStorageLock e a' b')"
  "relates R (v1_2_getCaller e a')" "relates R v1_2_checkNoPayment" "relates R (v1_2_callValue e a')"
  "relates R (v1_2_getDCDTValue e a')" "relates R (v1_2_getDCDTTokenName e a')"
  "relates R v1_2_getDCDTTokenNonce" "relates R (v1_2_getCurrentDCDTNFTNonce e a' b' c')"
  "relates R v1_2_getDCDTTokenType" "relates R (v1_2_getCallValueTokenName e a' b')"
  "relates R (v1_2_returnData a' b')" "relates R v1_2_getNumReturnData" "relates R (v1_2_getReturnDataSize a')"
  "relates R (v1_2_getReturnData e a' b')" "relates R (v1_2_getOriginalTxHash e a')"
  unfolding v1_2_getGasLeft_def v1_2_getSCAddress_def v1_2_getOwnerAddress_def v1_2_getShardOfAddress_def
    v1_2_isSmartContract_def v1_2_signalError_def v1_2_getExternalBalance_def v1_2_blockHash_def
    v1_2_transferDCDT_def v1_2_getArgumentLength_def v1_2_getArgument_def v1_2_getFunction_def
    v1_2_getNumArguments_def v1_2_storageLoadLength_def v1_2_storageLoadFromAddress_def v1_2_storageLoad_def
    v1_2_getStorageLock_def v1_2_getCaller_def v1_2_checkNoPayment_def v1_2_callValue_def v1_2_getDCDTValue_def
    v1_2_getDCDTTokenName_def v1_2_getDCDTTokenNonce_def v1_2_getCurrentDCDTNFTNonce_def v1_2_getDCDTTokenType_def
    v1_2_getCallValueTokenName_def v1_2_returnData_def v1_2_getNumReturnData_def v1_2_getReturnDataSize_def
    v1_2_getReturnData_def v1_2_getOriginalTxHash_def
  by (intro hook_rules)+

lemma lock_hooks [hook_rules]:
  "relates R (v1_2_isStorageLocked e a' b')"
  unfolding v1_2_isStorageLocked_def
  by (intro hook_rules)+

lemma hook_loadTopics [hook_rules]: "(\<And>ts. relates R (k ts)) \<Longrightarrow> relates R (loadTopics n p x k)"
  by (induction n arbitrary: p k) (simp_all add: hook_memLoad)

end

context write_relation
begin

lemma upd_log [hook_rules]: "R s (WriteLog a topics data s)"
  by (rule log)

lemma upd_async [hook_rules]: "R s (SetAsyncCallInfo info s)"
  by (rule asyncInfo)

lemma write_hooks [hook_rules]:
  "relates R (v1_2_transferValue e a' b' c' d')" "relates R (v1_2_upgradeContract a' u' b' c' d' f' g' h' i')"
  "relates R (v1_2_asyncCall e a' b' c' d')" "relates R (v1_2_storageStore e a' b' c' d')"
  "relates R (v1_2_setStorageLock e a' b' u')" "relates R (v1_2_writeLog a' b' c' d')"
  "relates R (v1_2_writeEventLog a' b' c' d' f')"
  unfolding v1_2_transferValue_def v1_2_upgradeContract_def v1_2_asyncCall_def v1_2_storageStore_def
    v1_2_setStorageLock_def v1_2_writeLog_def v1_2_writeEventLog_def
  by (intro hook_rules)+

lemma clear_hooks [hook_rules]:
  "relates R (v1_2_clearStorageLock e a' b')"
  unfolding v1_2_clearStorageLock_def
  by (intro hook_rules)+

end

end
