(* ===== verification/HostAsync.thy ===== *)
theory HostAsync
  imports HostBuiltin
begin

text \<open>
  Asynchronous calls (\<open>src/vmhost/hostCore/asyncCall.go\<close>) and breakpoints
  (\<open>src/vmhost/hostCore/breakpoints.go\<close>).

  The host runs contract functions and calls itself recursively (\<open>ExecuteOnDestContext\<close>).
  Both are arguments here, the fields of a record \<open>callee\<close>; the theory \<open>HostExecution\<close> ties
  the knot.

  A pending call is passed around by pointer and changed in place (status, gas limit): the
  operations return the changed calls.
\<close>

record dest_result =
  dr_output :: VMOutput
  dr_asyncInfo :: "AsyncContextInfo option"
  dr_gasUsedBeforeReset :: u64
  dr_err :: "err option"

record callee =
  run_function :: "string \<Rightarrow> vm \<Rightarrow> (err option \<times> vm) option"        \<comment> \<open>an exported function of the running instance\<close>
  exec_dest :: "ContractCallInput \<Rightarrow> vm \<Rightarrow> (dest_result \<times> vm) option" \<comment> \<open>\<open>host.ExecuteOnDestContext\<close>\<close>

definition generatedInfo :: "AsyncGeneratedCall \<Rightarrow> AsyncCallInfo" where
  \<comment> \<open>what the getters of \<open>AsyncGeneratedCall\<close> return\<close>
  "generatedInfo c = \<lparr>aci_Destination = Destination c, aci_Data = agc_Data c, aci_GasLimit = GasLimit c,
     aci_GasLocked = 0, aci_ValueBytes = ValueBytes c\<rparr>"

subsection \<open>Where and how a call is executed\<close>

definition determineAsyncCallExecutionMode :: "env \<Rightarrow> AsyncCallInfo \<Rightarrow> vm \<Rightarrow> (err + AsyncCallExecutionMode) \<times> vm" where
  "determineAsyncCallExecutionMode e info s =
     (case ParseData e (aci_Data info) of
        Inl err \<Rightarrow> (Inl err, s)
      | Inr (functionName, _) \<Rightarrow>
          let sameShard = AreInSameShard e (scAddress (runtimeCtx s)) (aci_Destination info)
          in if IsBuiltinFunctionName e functionName then
               if sameShard then
                 if isDCDTTransfer e functionName \<and> CallType (vmInput (runtimeCtx s)) = AsynchronousCall \<and>
                   CallerAddr (vmInput (runtimeCtx s)) = aci_Destination info
                 then (Inr DCDTTransferOnCallBack, s)
                 else (Inr AsyncBuiltinFuncIntraShard, s)
               else (Inr AsyncBuiltinFuncCrossShard, s)
             else
               let (code, s) = GetCode e (aci_Destination info) s
               in (Inr (case code of Inr code \<Rightarrow> if length code > 0 then SyncCall else AsyncUnknown
                                   | Inl _ \<Rightarrow> AsyncUnknown), s))"

definition canExecuteSynchronously :: "env \<Rightarrow> address \<Rightarrow> vm \<Rightarrow> bool \<times> vm" where
  "canExecuteSynchronously e destination s =
     (let (code, s) = GetCode e destination s
      in ((case code of Inr code \<Rightarrow> length code > 0 | Inl _ \<Rightarrow> False), s))"

definition isDCDTTransferOnReturnDataWithNoAdditionalData :: "env \<Rightarrow> VMOutput \<Rightarrow> bool \<times> string \<times> bytes list" where
  "isDCDTTransferOnReturnDataWithNoAdditionalData e destinationVMOutput =
     (case ReturnData destinationVMOutput of
        [] \<Rightarrow> (False, [], [])
      | d # _ \<Rightarrow>
          (case ParseData e d of
             Inl _ \<Rightarrow> (False, [], [])
           | Inr (functionName, args) \<Rightarrow>
               if functionName = BuiltInFunctionDCDTTransfer e \<and> length args = 2 then (True, functionName, args)
               else if functionName = BuiltInFunctionDCDTNFTTransfer e \<and> length args = 4 then (True, functionName, args)
               else (False, functionName, args)))"

subsection \<open>Call inputs\<close>

definition createDestinationContractCallInput :: "env \<Rightarrow> AsyncCallInfo \<Rightarrow> vm \<Rightarrow> err + ContractCallInput" where
  "createDestinationContractCallInput e info s =
     (case ParseData e (aci_Data info) of
        Inl err \<Rightarrow> Inl err
      | Inr (function, arguments) \<Rightarrow>
          Inr \<lparr>cci_VMInput = \<lparr>CallerAddr = scAddress (runtimeCtx s), Arguments = arguments,
                 CallValue = Some (SetBytes (aci_ValueBytes info)), CallType = AsynchronousCall,
                 GasPrice = GasPrice (vmInput (runtimeCtx s)), GasProvided = GasLeft s, GasLocked = aci_GasLocked info,
                 OriginalTxHash = OriginalTxHash (vmInput (runtimeCtx s)),
                 CurrentTxHash = CurrentTxHash (vmInput (runtimeCtx s)), PrevTxHash = [], DCDTTransfers = []\<rparr>,
               RecipientAddr = aci_Destination info, Function = function, AllowInitFunction = False\<rparr>)"

definition computeCallValueFromLastOutputTransfer :: "env \<Rightarrow> VMOutput \<Rightarrow> vm \<Rightarrow> int option" where
  "computeCallValueFromLastOutputTransfer e destinationVMOutput s =
     (if \<not> IsVMV3Enabled e then Some 0
      else if length (ReturnData destinationVMOutput) > 0 then Some 0
      else (case go_get (OutputAccounts destinationVMOutput) (scAddress (runtimeCtx s)) of
              None \<Rightarrow> Some 0
            | Some outAcc \<Rightarrow>
                if length (OutputTransfers outAcc) = 0 then Some 0
                else let lastOutTransfer = last (OutputTransfers outAcc)
                     in if length (ot_Data lastOutTransfer) = 0 then ot_Value lastOutTransfer else Some 0))"

definition computeDataLengthFromArguments :: "string \<Rightarrow> bytes list \<Rightarrow> u64" where
  "computeDataLengthFromArguments function arguments =
     foldl (\<lambda>dataLength element. AddUint64 dataLength (len element))
       (AddUint64 (len function) (len arguments)) arguments"

definition createCallbackContractCallInput ::
  "env \<Rightarrow> AsyncCallInfo option \<Rightarrow> VMOutput option \<Rightarrow> address \<Rightarrow> string \<Rightarrow> err option \<Rightarrow> vm
   \<Rightarrow> (err + ContractCallInput) option" where
  \<comment> \<open>a nil handler, or a nil output, is None and panics where it is used\<close>
  "createCallbackContractCallInput e info destinationVMOutput callbackInitiator callbackFunction destinationErr s = do {
     out \<leftarrow> destinationVMOutput;
     let returnCodeArg = Bytes (ReturnCode_int e (ReturnCode out));
     let ok = (destinationErr = None \<and> ReturnCode out = Ok);
     let (isDCDTOnCallBack, functionName, dcdtArgs) =
       (if ok then isDCDTTransferOnReturnDataWithNoAdditionalData e out else (False, [], []));
     let arguments = returnCodeArg # (if ok then ReturnData out else [ReturnMessage out]);
     info \<leftarrow> info;
     let gasLimit = GasRemaining out + aci_GasLocked info;
     let dataLength = computeDataLengthFromArguments callbackFunction arguments;
     let gs = gasSchedule (meteringCtx s);
     let gasToUse = AddUint64 (AsyncCallStep gs) (MulUint64 (DataCopyPerByte (baseOperationCost gs)) dataLength);
     if gasLimit \<le> gasToUse then Some (Inl ErrNotEnoughGas)
     else do {
       callValue \<leftarrow> computeCallValueFromLastOutputTransfer e out s;
       let (function, arguments) =
         (if isDCDTOnCallBack then
            (functionName,
             take 2 dcdtArgs @
             (if functionName = BuiltInFunctionDCDTNFTTransfer e then take 2 (drop 2 dcdtArgs) else []) @
             [callbackFunction, returnCodeArg] @
             (if length (ReturnData out) > 1 then tl (ReturnData out) else []))
          else (callbackFunction, arguments));
       Some (Inr \<lparr>cci_VMInput = \<lparr>CallerAddr = callbackInitiator, Arguments = arguments, CallValue = Some callValue,
              CallType = AsynchronousCallBack, GasPrice = GasPrice (vmInput (runtimeCtx s)),
              GasProvided = gasLimit - gasToUse, GasLocked = 0, OriginalTxHash = OriginalTxHash (vmInput (runtimeCtx s)),
              CurrentTxHash = CurrentTxHash (vmInput (runtimeCtx s)), PrevTxHash = [], DCDTTransfers = []\<rparr>,
            RecipientAddr = scAddress (runtimeCtx s), Function = function, AllowInitFunction = False\<rparr>) } }"

subsection \<open>Sending calls and callbacks to other shards\<close>

definition transferOrFail ::
  "env \<Rightarrow> address \<Rightarrow> u64 \<Rightarrow> u64 \<Rightarrow> bigint \<Rightarrow> bytes \<Rightarrow> CallTypeT \<Rightarrow> vm \<Rightarrow> (err option \<times> vm) option" where
  \<comment> \<open>the transfer from the running contract that the three senders share, with their error path\<close>
  "transferOrFail e destination gasLimit gasLocked val data callType s = do {
     (err, s) \<leftarrow> Transfer e destination (scAddress (runtimeCtx s)) gasLimit gasLocked val data callType s;
     case err of
       Some err \<Rightarrow> do { s \<leftarrow> failWith err s; Some (Some err, s) }
     | None \<Rightarrow> Some (None, s) }"

definition sendAsyncCallToDestination :: "env \<Rightarrow> AsyncCallInfo \<Rightarrow> vm \<Rightarrow> (err option \<times> vm) option" where
  "sendAsyncCallToDestination e info s = do {
     (err, s) \<leftarrow> transferOrFail e (aci_Destination info) (aci_GasLimit info) (aci_GasLocked info)
       (Some (SetBytes (aci_ValueBytes info))) (aci_Data info) AsynchronousCall s;
     case err of
       Some err \<Rightarrow> Some (Some err, s)
     | None \<Rightarrow> do {
         let gasLeft = GasLeft s;
         let s = ForwardGas (scAddress (runtimeCtx s)) (aci_Destination info) (gasLeft + aci_GasLocked info) s;
         s \<leftarrow> UseGas gasLeft s;
         Some (None, s) } }"

definition sendCallbackToCurrentCaller :: "env \<Rightarrow> vm \<Rightarrow> (err option \<times> vm) option" where
  "sendCallbackToCurrentCaller e s = do {
     let currentCall = vmInput (runtimeCtx s);
     let out = outputState (outputCtx s);
     let retData = at_args (ReturnCode_String e (ReturnCode out) # ReturnData out);
     (err, s) \<leftarrow> transferOrFail e (CallerAddr currentCall) (GasLeft s) 0 (CallValue currentCall) retData AsynchronousCallBack s;
     case err of
       Some err \<Rightarrow> Some (Some err, s)
     | None \<Rightarrow> do {
         let gasLeft = GasLeft s;
         let s = ForwardGas (scAddress (runtimeCtx s)) (CallerAddr currentCall) gasLeft s;
         s \<leftarrow> UseGas gasLeft s;
         Some (None, s) } }"

definition sendStorageCallbackToDestination :: "env \<Rightarrow> address \<Rightarrow> bytes \<Rightarrow> vm \<Rightarrow> (err option \<times> vm) option" where
  "sendStorageCallbackToDestination e callerAddress returnData s =
     transferOrFail e callerAddress (GasLeft s) 0 (CallValue (vmInput (runtimeCtx s))) returnData AsynchronousCallBack s"

subsection \<open>The asynchronous call a contract stops at\<close>

definition executeSyncDestinationCall ::
  "callee \<Rightarrow> env \<Rightarrow> AsyncCallInfo \<Rightarrow> vm \<Rightarrow> ((VMOutput option \<times> u64 \<times> err option) \<times> vm) option" where
  "executeSyncDestinationCall k e info s =
     (case createDestinationContractCallInput e info s of
        Inl err \<Rightarrow> Some ((None, 0, Some err), s)
      | Inr destinationCallInput \<Rightarrow> do {
          (r, s) \<leftarrow> exec_dest k destinationCallInput s;
          Some ((Some (dr_output r), dr_gasUsedBeforeReset r, dr_err r), s) })"

definition executeSyncCallbackCall ::
  "callee \<Rightarrow> env \<Rightarrow> AsyncCallInfo \<Rightarrow> VMOutput option \<Rightarrow> err option \<Rightarrow> AsyncCallExecutionMode \<Rightarrow> vm
   \<Rightarrow> ((VMOutput option \<times> err option) \<times> vm) option" where
  "executeSyncCallbackCall k e info destinationVMOutput destinationErr execMode s = do {
     input \<leftarrow> createCallbackContractCallInput e (Some info) destinationVMOutput (aci_Destination info)
       CallbackFunctionName destinationErr s;
     case input of
       Inl err \<Rightarrow> Some ((None, Some err), s)
     | Inr callbackCallInput \<Rightarrow> do {
         let (gasConsumedForExecution, s) = computeGasUsedInExecutionBeforeReset e callbackCallInput s;
         s \<leftarrow> SetPointsUsed 0 s;
         (r, s) \<leftarrow> exec_dest k callbackCallInput s;
         let noErrorOnCallback = (dr_err r = None \<and> ReturnCode (dr_output r) = Ok);
         let noErrorOnAsyncCall = (destinationErr = None \<and> map_option ReturnCode destinationVMOutput = Some Ok);
         s \<leftarrow> (if noErrorOnCallback \<and> noErrorOnAsyncCall \<and> execMode \<noteq> AsyncBuiltinFuncIntraShard
               then UseGas gasConsumedForExecution s else Some s);
         Some ((Some (dr_output r), dr_err r), s) } }"

definition processCallbackVMOutput :: "env \<Rightarrow> VMOutput option \<Rightarrow> err option \<Rightarrow> vm \<Rightarrow> vm" where
  \<comment> \<open>the source always returns nil\<close>
  "processCallbackVMOutput e callbackVMOutput callBackErr s =
     (case callBackErr of
        None \<Rightarrow> s
      | Some err \<Rightarrow>
          let s = s\<lparr>runtimeCtx := (runtimeCtx s)\<lparr>vmInput := (vmInput (runtimeCtx s))\<lparr>GasProvided := 0\<rparr>\<rparr>\<rparr>;
              out = (case callbackVMOutput of None \<Rightarrow> CreateVMOutputInCaseOfError err (outputCtx s) | Some out \<Rightarrow> out);
              c = SetReturnMessage (ReturnMessage out) (outputCtx s);
              c = Finish (ReturnCode_String e (ReturnCode out)) c;
              c = Finish (CurrentTxHash (vmInput (runtimeCtx s))) c
          in s\<lparr>outputCtx := c\<rparr>)"

definition handleAsyncCallBreakpoint :: "callee \<Rightarrow> env \<Rightarrow> vm \<Rightarrow> (err option \<times> vm) option" where
  "handleAsyncCallBreakpoint k e s = do {
     s \<leftarrow> SetRuntimeBreakpointValue BreakpointNone s;
     info \<leftarrow> asyncCallInfo (runtimeCtx s);
     let (execMode, s) = determineAsyncCallExecutionMode e info s;
     case execMode of
       Inl err \<Rightarrow> Some (Some err, s)
     | Inr execMode \<Rightarrow>
         (if execMode = AsyncUnknown then sendAsyncCallToDestination e info s
          else if execMode = AsyncBuiltinFuncCrossShard then do {
            ((vmOutput, gasUsedBeforeReset, err), s) \<leftarrow> executeSyncDestinationCall k e info s;
            s \<leftarrow> (if err = None \<and> map_option ReturnCode vmOutput = Some Ok then UseGas gasUsedBeforeReset s else Some s);
            Some (err, s) }
          else if execMode = DCDTTransferOnCallBack then
            Some (None, s\<lparr>outputCtx := PrependFinish (aci_Data info) (outputCtx s)\<rparr>)
          else do {
            ((destinationVMOutput, _, destinationErr), s) \<leftarrow> executeSyncDestinationCall k e info s;
            ((callbackVMOutput, callBackErr), s) \<leftarrow>
              executeSyncCallbackCall k e info destinationVMOutput destinationErr execMode s;
            Some (None, processCallbackVMOutput e callbackVMOutput callBackErr s) }) }"

subsection \<open>Breakpoints\<close>

definition handleBreakpoint :: "callee \<Rightarrow> env \<Rightarrow> BreakpointValue \<Rightarrow> vm \<Rightarrow> (err option \<times> vm) option" where
  "handleBreakpoint k e breakpointValue s =
     (if breakpointValue = BreakpointAsyncCall then handleAsyncCallBreakpoint k e s
      else if breakpointValue = BreakpointExecutionFailed then Some (Some ErrExecutionFailed, s)
      else if breakpointValue = BreakpointSignalError then Some (Some ErrSignalError, s)
      else if breakpointValue = BreakpointOutOfGas then Some (Some ErrNotEnoughGas, s)
      else Some (Some ErrUnhandledRuntimeBreakpoint, s))"

definition handleBreakpointIfAny :: "callee \<Rightarrow> env \<Rightarrow> err option \<Rightarrow> vm \<Rightarrow> (err option \<times> vm) option" where
  "handleBreakpointIfAny k e executionErr s =
     (if executionErr = None then Some (None, s)
      else do {
        breakpointValue \<leftarrow> GetRuntimeBreakpointValue s;
        if breakpointValue \<noteq> BreakpointNone then handleBreakpoint k e breakpointValue s
        else Some (executionErr, s) })"

subsection \<open>Generated calls\<close>

definition getPendingAsyncCalls :: "AsyncContextInfo \<Rightarrow> AsyncContextInfo" where
  "getPendingAsyncCalls info =
     \<lparr>aci_CallerAddr = aci_CallerAddr info, aci_ReturnData = aci_ReturnData info,
      AsyncContextMap = concat (map (\<lambda>(identifier, ctx).
        let pending = filter (\<lambda>c. Status c = AsyncCallPending) (AsyncCalls ctx)
        in if pending = [] then [] else [(identifier, \<lparr>Callback = Callback ctx, AsyncCalls = pending\<rparr>)])
        (AsyncContextMap info))\<rparr>"

fun setupCalls :: "u64 \<Rightarrow> u64 \<times> u64 \<Rightarrow> AsyncGeneratedCall list \<Rightarrow> (err + u64 \<times> u64) \<times> AsyncGeneratedCall list" where
  \<comment> \<open>the first loop of \<open>setupAsyncCallsGas\<close> over the calls of one context\<close>
  "setupCalls gasLeft (gasNeeded, zeroes) [] = (Inr (gasNeeded, zeroes), [])"
| "setupCalls gasLeft (gasNeeded, zeroes) (c # cs) =
     (let (gasNeeded, err) = AddUint64WithErr gasNeeded (ProvidedGas c)
      in case err of
           Some err \<Rightarrow> (Inl (ErrMath err), c # cs)
         | None \<Rightarrow>
             if gasNeeded > gasLeft then (Inl ErrNotEnoughGas, c # cs)
             else if ProvidedGas c = 0 then
               (let (r, cs) = setupCalls gasLeft (gasNeeded, zeroes + 1) cs in (r, c # cs))
             else (let (r, cs) = setupCalls gasLeft (gasNeeded, zeroes) cs in (r, c\<lparr>GasLimit := ProvidedGas c\<rparr> # cs)))"

fun setupContexts :: "u64 \<Rightarrow> u64 \<times> u64 \<Rightarrow> (string, AsyncContext) gomap \<Rightarrow> (err + u64 \<times> u64) \<times> (string, AsyncContext) gomap" where
  "setupContexts gasLeft acc [] = (Inr acc, [])"
| "setupContexts gasLeft acc ((identifier, ctx) # m) =
     (let (r, calls) = setupCalls gasLeft acc (AsyncCalls ctx); entry = (identifier, ctx\<lparr>AsyncCalls := calls\<rparr>)
      in case r of
           Inl err \<Rightarrow> (Inl err, entry # m)
         | Inr acc \<Rightarrow> (let (r, m) = setupContexts gasLeft acc m in (r, entry # m)))"

definition shareGas :: "u64 \<Rightarrow> (string, AsyncContext) gomap \<Rightarrow> (string, AsyncContext) gomap" where
  \<comment> \<open>the second loop\<close>
  "shareGas gasShare m =
     map (\<lambda>(identifier, ctx). (identifier, ctx\<lparr>AsyncCalls :=
       map (\<lambda>c. if ProvidedGas c = 0 then c\<lparr>GasLimit := gasShare\<rparr> else c) (AsyncCalls ctx)\<rparr>)) m"

definition setupAsyncCallsGas :: "u64 \<Rightarrow> AsyncContextInfo \<Rightarrow> err option \<times> AsyncContextInfo" where
  \<comment> \<open>the first argument is \<open>host.Metering().GasLeft()\<close>\<close>
  "setupAsyncCallsGas gasLeft info =
     (let (r, m) = setupContexts gasLeft (0, 0) (AsyncContextMap info); info = info\<lparr>AsyncContextMap := m\<rparr>
      in case r of
           Inl err \<Rightarrow> (Some err, info)
         | Inr (gasNeeded, callsWithZeroGas) \<Rightarrow>
             if callsWithZeroGas = 0 then (None, info)
             else if gasLeft \<le> gasNeeded then (Some ErrNotEnoughGas, info)
             else (None, info\<lparr>AsyncContextMap := shareGas ((gasLeft - gasNeeded) div callsWithZeroGas) m\<rparr>))"

definition asyncStorageKey :: "vm \<Rightarrow> bytes" where
  "asyncStorageKey s = CustomStorageKey AsyncDataPrefix (OriginalTxHash (vmInput (runtimeCtx s)))"

definition savePendingAsyncCalls :: "env \<Rightarrow> AsyncContextInfo \<Rightarrow> vm \<Rightarrow> (err option \<times> vm) option" where
  "savePendingAsyncCalls e pending s =
     (if length (AsyncContextMap pending) = 0 then Some (None, s)
      else (case json_Marshal e pending of
              Inl err \<Rightarrow> Some (Some err, s)
            | Inr data \<Rightarrow> do {
                ((_, err), s) \<leftarrow> SetProtectedStorage e (asyncStorageKey s) data s;
                Some (err, s) }))"

definition callbackAsync ::
  "callee \<Rightarrow> env \<Rightarrow> AsyncGeneratedCall \<Rightarrow> VMOutput \<Rightarrow> err option \<Rightarrow> vm
   \<Rightarrow> ((err option \<times> AsyncGeneratedCall) \<times> vm) option" where
  "callbackAsync k e asyncCall vmOutput executionError s = do {
     let ok = (ReturnCode vmOutput = Ok);
     let asyncCall = asyncCall\<lparr>Status := (if ok then AsyncCallResolved else AsyncCallRejected)\<rparr>;
     let callbackFunction = (if ok then SuccessCallback asyncCall else ErrorCallback asyncCall);
     input \<leftarrow> createCallbackContractCallInput e (Some (generatedInfo asyncCall)) (Some vmOutput) (Destination asyncCall)
       callbackFunction executionError s;
     case input of
       Inl err \<Rightarrow> Some ((Some err, asyncCall), s)
     | Inr callbackCallInput \<Rightarrow> do {
         (r, s) \<leftarrow> exec_dest k callbackCallInput s;
         Some ((None, asyncCall), processCallbackVMOutput e (Some (dr_output r)) (dr_err r) s) } }"

definition processAsyncCall ::
  "callee \<Rightarrow> env \<Rightarrow> AsyncGeneratedCall \<Rightarrow> vm \<Rightarrow> ((err option \<times> AsyncGeneratedCall) \<times> vm) option" where
  \<comment> \<open>the error of \<open>createDestinationContractCallInput\<close> is dropped, and its nil input then panics;
     so does the nil async info of a call that fails before its contract has run\<close>
  "processAsyncCall k e asyncCall s =
     (case createDestinationContractCallInput e (generatedInfo asyncCall) s of
        Inl _ \<Rightarrow> None
      | Inr input \<Rightarrow> do {
          (r, s) \<leftarrow> exec_dest k input s;
          asyncMap \<leftarrow> dr_asyncInfo r;
          if AsyncContextMap (getPendingAsyncCalls asyncMap) = []
          then callbackAsync k e asyncCall (dr_output r) (dr_err r) s
          else Some ((dr_err r, asyncCall), s) })"

fun processCalls ::
  "callee \<Rightarrow> env \<Rightarrow> AsyncGeneratedCall list \<Rightarrow> vm \<Rightarrow> ((err option \<times> AsyncGeneratedCall list) \<times> vm) option" where
  "processCalls k e [] s = Some ((None, []), s)"
| "processCalls k e (c # cs) s = do {
     let (can, s) = canExecuteSynchronously e (Destination c) s;
     ((err, c), s) \<leftarrow> (if can then processAsyncCall k e c s else Some ((None, c), s));
     case err of
       Some err \<Rightarrow> Some ((Some err, c # cs), s)
     | None \<Rightarrow> do { ((err, cs), s) \<leftarrow> processCalls k e cs s; Some ((err, c # cs), s) } }"

fun processContexts ::
  "callee \<Rightarrow> env \<Rightarrow> (string, AsyncContext) gomap \<Rightarrow> vm \<Rightarrow> ((err option \<times> (string, AsyncContext) gomap) \<times> vm) option" where
  "processContexts k e [] s = Some ((None, []), s)"
| "processContexts k e ((identifier, ctx) # m) s = do {
     ((err, calls), s) \<leftarrow> processCalls k e (AsyncCalls ctx) s;
     let entry = (identifier, ctx\<lparr>AsyncCalls := calls\<rparr>);
     case err of
       Some err \<Rightarrow> Some ((Some err, entry # m), s)
     | None \<Rightarrow> do { ((err, m), s) \<leftarrow> processContexts k e m s; Some ((err, entry # m), s) } }"

fun sendCalls :: "env \<Rightarrow> AsyncGeneratedCall list \<Rightarrow> vm \<Rightarrow> (err option \<times> vm) option" where
  \<comment> \<open>the last loop of \<open>processAsyncInfo\<close>, over the calls of all contexts\<close>
  "sendCalls e [] s = Some (None, s)"
| "sendCalls e (c # cs) s = do {
     let (can, s) = canExecuteSynchronously e (Destination c) s;
     (err, s) \<leftarrow> (if can then Some (None, s) else sendAsyncCallToDestination e (generatedInfo c) s);
     case err of Some err \<Rightarrow> Some (Some err, s) | None \<Rightarrow> sendCalls e cs s }"

definition contextCalls :: "AsyncContextInfo \<Rightarrow> AsyncGeneratedCall list" where
  "contextCalls info = concat (map (\<lambda>(_, ctx). AsyncCalls ctx) (AsyncContextMap info))"

definition sendPendingCalls :: "env \<Rightarrow> AsyncContextInfo \<Rightarrow> vm \<Rightarrow> ((err + AsyncContextInfo) \<times> vm) option" where
  \<comment> \<open>the second step of \<open>processAsyncInfo\<close>: save the pending calls, split the gas that is left, send them\<close>
  "sendPendingCalls e pendingMapInfo s = do {
     (err, s) \<leftarrow> savePendingAsyncCalls e pendingMapInfo s;
     case err of
       Some err \<Rightarrow> Some (Inl err, s)
     | None \<Rightarrow>
         (let (err, pendingMapInfo) = setupAsyncCallsGas (GasLeft s) pendingMapInfo
          in case err of
               Some err \<Rightarrow> Some (Inl err, s)
             | None \<Rightarrow> do {
                 (sendErr, s) \<leftarrow> sendCalls e (contextCalls pendingMapInfo) s;
                 Some (case sendErr of Some err \<Rightarrow> Inl err | None \<Rightarrow> Inr pendingMapInfo, s) }) }"

definition processAsyncInfo ::
  "callee \<Rightarrow> env \<Rightarrow> AsyncContextInfo \<Rightarrow> vm \<Rightarrow> (((err + AsyncContextInfo) \<times> AsyncContextInfo) \<times> vm) option" where
  \<comment> \<open>the pending calls, and the given info as it was changed in place (the gas limits of the
     second split go to calls of which only the status is read afterwards)\<close>
  "processAsyncInfo k e asyncInfo s =
     (if length (AsyncContextMap asyncInfo) = 0 then Some ((Inr asyncInfo, asyncInfo), s)
      else
        let (err, asyncInfo) = setupAsyncCallsGas (GasLeft s) asyncInfo
        in case err of
             Some err \<Rightarrow> Some ((Inl err, asyncInfo), s)
           | None \<Rightarrow> do {
               ((procErr, m), s) \<leftarrow> processContexts k e (AsyncContextMap asyncInfo) s;
               let asyncInfo = asyncInfo\<lparr>AsyncContextMap := m\<rparr>;
               case procErr of
                 Some err \<Rightarrow> Some ((Inl err, asyncInfo), s)
               | None \<Rightarrow>
                   (let pendingMapInfo = getPendingAsyncCalls asyncInfo
                    in if length (AsyncContextMap pendingMapInfo) = 0 then Some ((Inr pendingMapInfo, asyncInfo), s)
                       else do { (r, s) \<leftarrow> sendPendingCalls e pendingMapInfo s; Some ((r, asyncInfo), s) }) })"

subsection \<open>Callbacks received from other shards\<close>

definition getCurrentAsyncInfo :: "env \<Rightarrow> vm \<Rightarrow> (err + AsyncContextInfo) \<times> vm" where
  "getCurrentAsyncInfo e s =
     (let (buff, s) = GetStorageUnmetered e (asyncStorageKey s) s
      in if length buff = 0 then (Inr emptyAsyncContextInfo, s) else (json_Unmarshal e buff, s))"

fun findCallback :: "address \<Rightarrow> AsyncGeneratedCall list \<Rightarrow> string option" where
  \<comment> \<open>the success callback of the first call to an address\<close>
  "findCallback a [] = None"
| "findCallback a (c # cs) = (if a = Destination c then Some (SuccessCallback c) else findCallback a cs)"

definition getFunctionByCallType :: "env \<Rightarrow> CallTypeT \<Rightarrow> vm \<Rightarrow> ((err + string option) \<times> vm) option" where
  \<comment> \<open>a nil function is \<open>Inr None\<close>\<close>
  "getFunctionByCallType e callType s =
     (if callType \<noteq> AsynchronousCallBack then do {
        f \<leftarrow> GetFunctionToCall s;
        Some (case f of Inl err \<Rightarrow> Inl err | Inr f \<Rightarrow> Inr (Some f), s) }
      else
        let (asyncInfo, s) = getCurrentAsyncInfo e s
        in case asyncInfo of
             Inl err \<Rightarrow> Some (Inl err, s)
           | Inr asyncInfo \<Rightarrow> do {
               let custom = findCallback (CallerAddr (vmInput (runtimeCtx s))) (contextCalls asyncInfo);
               let s = (case custom of None \<Rightarrow> s | Some f \<Rightarrow> SetCustomCallFunction f s);
               f \<leftarrow> GetFunctionToCall s;
               Some (case f of
                       Inl err \<Rightarrow> if custom = None then Inl ErrNilCallbackFunction else Inr None
                     | Inr f \<Rightarrow> Inr (Some f), s) })"

fun callPosition :: "address \<Rightarrow> AsyncGeneratedCall list \<Rightarrow> nat option" where
  "callPosition a [] = None"
| "callPosition a (c # cs) = (if a = Destination c then Some 0 else map_option Suc (callPosition a cs))"

fun findContext :: "address \<Rightarrow> string \<Rightarrow> (string, AsyncContext) gomap \<Rightarrow> string" where
  \<comment> \<open>the identifier found by the loop of \<open>processCallbackStack\<close>, which goes on while it is empty\<close>
  "findContext a current [] = current"
| "findContext a current ((identifier, ctx) # m) =
     (let current = (if callPosition a (AsyncCalls ctx) \<noteq> None then identifier else current)
      in if length current > 0 then current else findContext a current m)"

definition processCallbackStack :: "callee \<Rightarrow> env \<Rightarrow> vm \<Rightarrow> (err option \<times> vm) option" where
  \<comment> \<open>of the calls of the context that was found only their number matters afterwards\<close>
  "processCallbackStack k e s = do {
     let storageKey = asyncStorageKey s;
     let (buff, s) = GetStorageUnmetered e storageKey s;
     if length buff = 0 then Some (None, s)
     else (case json_Unmarshal e buff of
         Inl err \<Rightarrow> Some (Some err, s)
       | Inr asyncInfo \<Rightarrow>
           (let identifier = findContext (CallerAddr (vmInput (runtimeCtx s))) [] (AsyncContextMap asyncInfo)
            in if length identifier = 0 then Some (Some ErrCallBackFuncNotExpected, s)
               else do {
                 ctx \<leftarrow> go_get (AsyncContextMap asyncInfo) identifier;
                 let m = (if length (AsyncCalls ctx) - 1 = 0 then go_delete identifier (AsyncContextMap asyncInfo)
                          else AsyncContextMap asyncInfo);
                 if length m > 0 then Some (None, s)
                 else do {
                   ((_, err), s) \<leftarrow> SetProtectedStorage e storageKey [] s;
                   case err of
                     Some err \<Rightarrow> Some (Some err, s)
                   | None \<Rightarrow>
                       (let (can, s) = canExecuteSynchronously e (aci_CallerAddr asyncInfo) s
                        in if \<not> can
                           then sendStorageCallbackToDestination e (aci_CallerAddr asyncInfo) (aci_ReturnData asyncInfo) s
                           else do {
                             let (vmOutput, s) = GetVMOutput e s;
                             input \<leftarrow> createCallbackContractCallInput e None (Some vmOutput) (aci_CallerAddr asyncInfo)
                               CallbackFunctionName None s;
                             case input of
                               Inl err \<Rightarrow> Some (Some err, s)
                             | Inr callbackCallInput \<Rightarrow> do {
                                 (r, s) \<leftarrow> exec_dest k callbackCallInput s;
                                 Some (None, processCallbackVMOutput e (Some (dr_output r)) (dr_err r) s) } }) } })) }"

subsection \<open>The gas of generated calls\<close>

definition callsOf :: "(string, AsyncContext) gomap \<Rightarrow> AsyncGeneratedCall list" where
  "callsOf m = concat (map (\<lambda>(_, ctx). AsyncCalls ctx) m)"

definition providedGas :: "AsyncGeneratedCall list \<Rightarrow> nat" where
  "providedGas cs = (\<Sum>c\<leftarrow>cs. unat (ProvidedGas c))"

definition zeroGasCalls :: "AsyncGeneratedCall list \<Rightarrow> nat" where
  "zeroGasCalls cs = length (filter (\<lambda>c. ProvidedGas c = 0) cs)"

definition giveProvided :: "AsyncGeneratedCall \<Rightarrow> AsyncGeneratedCall" where
  "giveProvided c = (if ProvidedGas c = 0 then c else c\<lparr>GasLimit := ProvidedGas c\<rparr>)"

lemma callsOf_simps [simp]: "callsOf [] = []" "callsOf ((i, ctx) # m) = AsyncCalls ctx @ callsOf m"
  by (simp_all add: callsOf_def)

lemma providedGas_simps [simp]: "providedGas [] = 0" "providedGas (c # cs) = unat (ProvidedGas c) + providedGas cs"
  "providedGas (as @ bs) = providedGas as + providedGas bs"
  by (simp_all add: providedGas_def)

lemma zeroGasCalls_simps [simp]: "zeroGasCalls [] = 0"
  "zeroGasCalls (c # cs) = (if ProvidedGas c = 0 then Suc (zeroGasCalls cs) else zeroGasCalls cs)"
  "zeroGasCalls (as @ bs) = zeroGasCalls as + zeroGasCalls bs"
  by (simp_all add: zeroGasCalls_def)

lemma callsOf_map:
  "callsOf (map (\<lambda>(i, ctx). (i, ctx\<lparr>AsyncCalls := map f (AsyncCalls ctx)\<rparr>)) m) = map f (callsOf m)"
  by (induction m) auto

lemma setupCalls_Inr:
  "setupCalls gl (n, z) cs = (Inr (n', z'), cs') \<Longrightarrow> n \<le> gl \<Longrightarrow>
   unat n' = unat n + providedGas cs \<and> n' \<le> gl \<and> z' = z + of_nat (zeroGasCalls cs) \<and> cs' = map giveProvided cs"
proof (induction cs arbitrary: n z cs')
  case (Cons c cs)
  obtain m err where m: "AddUint64WithErr n (ProvidedGas c) = (m, err)" by (metis prod.collapse)
  with Cons.prems have err: "err = None" "\<not> m > gl" by (auto split: option.splits if_splits)
  with m have um: "unat m = unat n + unat (ProvidedGas c)"
    by (auto simp: AddUint64WithErr_iff unat_word_ariths split: if_splits)
  from Cons.prems m err Cons.IH um show ?case
    by (fastforce simp: giveProvided_def split: if_splits prod.splits)
qed auto

lemma setupContexts_Inr:
  "setupContexts gl (n, z) m = (Inr (n', z'), m') \<Longrightarrow> n \<le> gl \<Longrightarrow>
   unat n' = unat n + providedGas (callsOf m) \<and> n' \<le> gl \<and> z' = z + of_nat (zeroGasCalls (callsOf m)) \<and>
   m' = map (\<lambda>(i, ctx). (i, ctx\<lparr>AsyncCalls := map giveProvided (AsyncCalls ctx)\<rparr>)) m"
proof (induction m arbitrary: n z m')
  case (Cons x m)
  obtain i ctx where x: "x = (i, ctx)" by (cases x)
  obtain r cs where r: "setupCalls gl (n, z) (AsyncCalls ctx) = (r, cs)" by (metis prod.collapse)
  with Cons.prems x obtain n1 z1 where r': "r = Inr (n1, z1)" by (cases r) auto
  note one = setupCalls_Inr [OF r [unfolded r'] Cons.prems(2)]
  obtain r2 m2 where r2: "setupContexts gl (n1, z1) m = (r2, m2)" by (metis prod.collapse)
  with Cons.prems x r r' have "r2 = Inr (n', z')" "m' = (i, ctx\<lparr>AsyncCalls := cs\<rparr>) # m2" by auto
  with Cons.IH [of n1 z1 m2] r2 one x show ?case by auto
qed auto

text \<open>The limits given to the calls: what the developer asked for, or an equal share of the rest.\<close>

lemma setupAsyncCallsGas_ok:
  assumes "setupAsyncCallsGas gl info = (None, info')" "length (callsOf (AsyncContextMap info)) < 2 ^ 64"
  shows "\<exists>share. callsOf (AsyncContextMap info') = map (\<lambda>c. giveProvided (if ProvidedGas c = 0 then c\<lparr>GasLimit := share\<rparr> else c))
      (callsOf (AsyncContextMap info)) \<and>
    (zeroGasCalls (callsOf (AsyncContextMap info)) \<noteq> 0 \<longrightarrow>
       unat share = (unat gl - providedGas (callsOf (AsyncContextMap info))) div zeroGasCalls (callsOf (AsyncContextMap info))) \<and>
    providedGas (callsOf (AsyncContextMap info)) \<le> unat gl"
proof -
  let ?m = "AsyncContextMap info"
  obtain r m where r: "setupContexts gl (0, 0) ?m = (r, m)" by (metis prod.collapse)
  with assms(1) obtain n z where nz: "r = Inr (n, z)" by (cases r) (auto simp: setupAsyncCallsGas_def)
  have "(0 :: u64) \<le> gl" by simp
  from setupContexts_Inr [OF r [unfolded nz] this] have
    n: "unat n = providedGas (callsOf ?m)" "n \<le> gl" and z: "z = of_nat (zeroGasCalls (callsOf ?m))"
    and m: "m = map (\<lambda>(i, ctx). (i, ctx\<lparr>AsyncCalls := map giveProvided (AsyncCalls ctx)\<rparr>)) ?m" by auto
  have "zeroGasCalls (callsOf ?m) \<le> length (callsOf ?m)" by (simp add: zeroGasCalls_def)
  then have uz: "unat z = zeroGasCalls (callsOf ?m)"
    using z assms(2) by (simp add: unat_of_nat take_bit_nat_eq_self)
  have calls: "callsOf m = map giveProvided (callsOf ?m)"
    unfolding m by (rule callsOf_map)
  have share: "callsOf (shareGas g m) = map (\<lambda>c. giveProvided (if ProvidedGas c = 0 then c\<lparr>GasLimit := g\<rparr> else c)) (callsOf ?m)" for g
    unfolding shareGas_def callsOf_map calls by (simp add: giveProvided_def)
  show ?thesis
  proof (cases "z = 0")
    case True
    then have "zeroGasCalls (callsOf ?m) = 0" using uz by simp
    then have "map (\<lambda>c. giveProvided (if ProvidedGas c = 0 then c\<lparr>GasLimit := 0\<rparr> else c)) (callsOf ?m) = map giveProvided (callsOf ?m)"
      by (auto simp: zeroGasCalls_def filter_empty_conv)
    with True assms(1) r nz calls n uz show ?thesis
      by (intro exI [of _ 0]) (auto simp: setupAsyncCallsGas_def u64_le_iff)
  next
    case False
    with assms(1) r nz have info': "AsyncContextMap info' = shareGas ((gl - n) div z) m"
      by (auto simp: setupAsyncCallsGas_def Let_def split: if_splits)
    have "unat ((gl - n) div z) = (unat gl - providedGas (callsOf ?m)) div zeroGasCalls (callsOf ?m)"
      using n uz by (simp add: unat_div_distrib unat_u64_diff)
    with info' share n show ?thesis by (intro exI [of _ "(gl - n) div z"]) (simp add: u64_le_iff)
  qed
qed

lemma sum_shared:
  "(\<Sum>c\<leftarrow>cs. unat (GasLimit (giveProvided (if ProvidedGas c = 0 then c\<lparr>GasLimit := share\<rparr> else c)))) =
   providedGas cs + zeroGasCalls cs * unat share"
  by (induction cs) (auto simp: giveProvided_def)

lemma setupAsyncCallsGas_bound:
  assumes "setupAsyncCallsGas gl info = (None, info')" "length (callsOf (AsyncContextMap info)) < 2 ^ 64"
  shows "(\<Sum>c\<leftarrow>callsOf (AsyncContextMap info'). unat (GasLimit c)) \<le> unat gl"
proof -
  let ?cs = "callsOf (AsyncContextMap info)"
  from setupAsyncCallsGas_ok [OF assms] obtain share where
    cs: "callsOf (AsyncContextMap info') = map (\<lambda>c. giveProvided (if ProvidedGas c = 0 then c\<lparr>GasLimit := share\<rparr> else c)) ?cs"
    and share: "zeroGasCalls ?cs \<noteq> 0 \<longrightarrow> unat share = (unat gl - providedGas ?cs) div zeroGasCalls ?cs"
    and le: "providedGas ?cs \<le> unat gl" by blast
  have "zeroGasCalls ?cs * unat share \<le> unat gl - providedGas ?cs"
    using share by (cases "zeroGasCalls ?cs = 0") simp_all
  moreover have "(\<Sum>c\<leftarrow>callsOf (AsyncContextMap info'). unat (GasLimit c)) = providedGas ?cs + zeroGasCalls ?cs * unat share"
    unfolding cs using sum_shared [of share ?cs] by (simp add: comp_def)
  ultimately show ?thesis using le by simp
qed

subsection \<open>Properties\<close>

text \<open>C8: the gas given to the asynchronous calls a contract generated never exceeds the gas that is
  left.  After a successful set-up, every call that named its gas has exactly that; each of the others has the gas left
  that nobody named, divided by the number of these calls; nothing else of a call changes; and the gas limits of all calls together stay
  within the gas left.  (For less than \<open>2 ^ 64\<close> calls, which are counted in a \<open>uint64\<close>.)\<close>

theorem async_gas_bound:
  assumes "setupAsyncCallsGas gl info = (None, info')" "length (callsOf (AsyncContextMap info)) < 2 ^ 64"
  shows "callsOf (AsyncContextMap info') = map (\<lambda>c. c\<lparr>GasLimit := if ProvidedGas c = 0
      then of_nat ((unat gl - (\<Sum>d\<leftarrow>callsOf (AsyncContextMap info). unat (ProvidedGas d))) div
        length (filter (\<lambda>d. ProvidedGas d = 0) (callsOf (AsyncContextMap info))))
      else ProvidedGas c\<rparr>) (callsOf (AsyncContextMap info)) \<and>
    (\<Sum>c\<leftarrow>callsOf (AsyncContextMap info'). unat (GasLimit c)) \<le> unat gl"
proof -
  let ?cs = "callsOf (AsyncContextMap info)"
  from setupAsyncCallsGas_ok [OF assms] obtain share where
    cs: "callsOf (AsyncContextMap info') = map (\<lambda>c. giveProvided (if ProvidedGas c = 0 then c\<lparr>GasLimit := share\<rparr> else c)) ?cs"
    and share: "zeroGasCalls ?cs \<noteq> 0 \<longrightarrow> unat share = (unat gl - providedGas ?cs) div zeroGasCalls ?cs" by blast
  have "giveProvided (if ProvidedGas c = 0 then c\<lparr>GasLimit := share\<rparr> else c) =
      c\<lparr>GasLimit := if ProvidedGas c = 0 then of_nat ((unat gl - providedGas ?cs) div zeroGasCalls ?cs) else ProvidedGas c\<rparr>" if "c \<in> set ?cs" for c
  proof (cases "ProvidedGas c = 0")
    case True
    with that have "zeroGasCalls ?cs \<noteq> 0" by (auto simp: zeroGasCalls_def filter_empty_conv)
    with share have "unat share = (unat gl - providedGas ?cs) div zeroGasCalls ?cs" by simp
    then have "share = of_nat ((unat gl - providedGas ?cs) div zeroGasCalls ?cs)" by (metis of_nat_unat ucast_id)
    with True show ?thesis by (simp add: giveProvided_def)
  qed (simp add: giveProvided_def)
  with cs setupAsyncCallsGas_bound [OF assms] show ?thesis by (simp add: providedGas_def zeroGasCalls_def)
qed

definition sampleGenerated :: "u64 \<Rightarrow> AsyncCallStatus \<Rightarrow> AsyncGeneratedCall" where
  "sampleGenerated g st = \<lparr>Status = st, Destination = ''bob'', agc_Data = ''f'', GasLimit = 0, ValueBytes = [],
     SuccessCallback = ''ok'', ErrorCallback = ''err'', ProvidedGas = g\<rparr>"

definition sampleAsyncInfo :: AsyncContextInfo where
  "sampleAsyncInfo = \<lparr>aci_CallerAddr = ''alice'', aci_ReturnData = [], AsyncContextMap =
     [(''a'', \<lparr>Callback = ''cb'', AsyncCalls = [sampleGenerated 30 AsyncCallPending, sampleGenerated 0 AsyncCallResolved]\<rparr>),
      (''b'', \<lparr>Callback = ''cb'', AsyncCalls = [sampleGenerated 0 AsyncCallResolved]\<rparr>)]\<rparr>"

theorem async_gas_bound_witness:
  "\<exists>info'. setupAsyncCallsGas 101 sampleAsyncInfo = (None, info') \<and> map GasLimit (callsOf (AsyncContextMap info')) = [30, 35, 35] \<and>
     (\<Sum>c\<leftarrow>callsOf (AsyncContextMap info'). unat (GasLimit c)) \<le> 101"
proof -
  have "fst (setupAsyncCallsGas 101 sampleAsyncInfo) = None" by code_simp
  then obtain info' where i: "setupAsyncCallsGas 101 sampleAsyncInfo = (None, info')" by (metis prod.collapse)
  have "(71 :: nat) div Suc (Suc 0) = 35" by (simp flip: numeral_2_eq_2)
  with async_gas_bound [OF i] i show ?thesis by (auto simp: sampleAsyncInfo_def sampleGenerated_def)
qed

lemma callsOf_pending: "callsOf (AsyncContextMap (getPendingAsyncCalls info)) =
    filter (\<lambda>c. Status c = AsyncCallPending) (callsOf (AsyncContextMap info))"
proof -
  let ?p = "\<lambda>(identifier, ctx). let pending = filter (\<lambda>c. Status c = AsyncCallPending) (AsyncCalls ctx)
      in if pending = [] then [] else [(identifier, \<lparr>Callback = Callback ctx, AsyncCalls = pending\<rparr>)]"
  have "callsOf (concat (map ?p m)) = filter (\<lambda>c. Status c = AsyncCallPending) (callsOf m)" for m
    by (induction m) (auto simp: Let_def)
  then show ?thesis by (simp add: getPendingAsyncCalls_def)
qed

lemma pending_nonempty: "ctx \<in> snd ` set (AsyncContextMap (getPendingAsyncCalls info)) \<Longrightarrow> AsyncCalls ctx \<noteq> []"
  by (auto simp: getPendingAsyncCalls_def Let_def split: if_splits)

text \<open>The pending calls of an asynchronous context are its calls that have neither been resolved
  nor rejected, in their order; no context without a pending call is kept, so the map of contexts is
  empty exactly when nothing is pending.\<close>

lemma pending_async_calls:
  "callsOf (AsyncContextMap (getPendingAsyncCalls info)) =
     filter (\<lambda>c. Status c = AsyncCallPending) (callsOf (AsyncContextMap info)) \<and>
   (AsyncContextMap (getPendingAsyncCalls info) = [] \<longleftrightarrow>
     filter (\<lambda>c. Status c = AsyncCallPending) (callsOf (AsyncContextMap info)) = [])"
proof -
  have "AsyncContextMap (getPendingAsyncCalls info) = []" if "callsOf (AsyncContextMap (getPendingAsyncCalls info)) = []"
    using that pending_nonempty [of _ info] by (cases "AsyncContextMap (getPendingAsyncCalls info)") auto
  then show ?thesis using callsOf_pending [of info] by fastforce
qed

end
