(* ===== verification/HostExecution.thy ===== *)
theory HostExecution
  imports HostAsync
begin

text \<open>
  Nested and top-level execution (\<open>src/vmhost/hostCore/execution.go\<close> and \<open>host.go\<close>).

  What a contract function does is code of the contract, run by Wasmer: it is a parameter, the
  \<open>engine\<close>, which is given the entry points of the host a contract can call back
  (\<open>ExecuteOnDestContext\<close>, \<open>ExecuteOnSameContext\<close>, \<open>CreateNewContract\<close>).  The recursion
  through the contracts is cut by a depth (\<open>calleeAt\<close>), 0 standing for a call that is too deep.
  A call that panics, or is too deep, has no result.

  Deferred functions run on every return path, so they are written after the body; a panic is
  caught by \<open>TryCatch\<close> at the top level only.
\<close>

subsection \<open>Calling functions of the running instance\<close>

definition isInitFunctionBeingCalled :: "vm \<Rightarrow> bool" where
  "isInitFunctionBeingCalled s \<longleftrightarrow>
     callFunction (runtimeCtx s) = InitFunctionName \<or> callFunction (runtimeCtx s) = InitFunctionNameEth"

definition verifyAllowedFunctionCall :: "vm \<Rightarrow> err option" where
  "verifyAllowedFunctionCall s =
     (let functionName = callFunction (runtimeCtx s);
          isInit = (functionName = InitFunctionName \<or> functionName = InitFunctionNameEth);
          isCallBack = (functionName = CallbackFunctionName);
          isInAsyncCallBack = (CallType (vmInput (runtimeCtx s)) = AsynchronousCallBack)
      in if isInit then Some ErrInitFuncCalledInRun
         else if isCallBack \<and> \<not> isInAsyncCallBack then Some ErrCallBackFuncCalledInRun
         else None)"

definition checkFinalGasAfterExit :: "env \<Rightarrow> vm \<Rightarrow> err option" where
  "checkFinalGasAfterExit e s =
     (if \<not> IsVMV2Enabled e then None
      else if GetPointsUsed s > gasForExecution (meteringCtx s) then Some ErrNotEnoughGas
      else None)"

definition runWithBreakpoints :: "callee \<Rightarrow> env \<Rightarrow> string \<Rightarrow> vm \<Rightarrow> (err option \<times> vm) option" where
  \<comment> \<open>\<open>_, err = function(); if err != nil (err = host.handleBreakpointIfAny(err))\<close>\<close>
  "runWithBreakpoints k e f s = do {
     (err, s) \<leftarrow> run_function k f s;
     if err \<noteq> None then handleBreakpointIfAny k e err s else Some (None, s) }"

definition callInitFunction :: "callee \<Rightarrow> env \<Rightarrow> vm \<Rightarrow> (err option \<times> vm) option" where
  "callInitFunction k e s = do {
     init \<leftarrow> GetInitFunction s;
     case init of
       None \<Rightarrow> Some (None, s)
     | Some f \<Rightarrow> do {
         (err, s) \<leftarrow> runWithBreakpoints k e f s;
         Some (if err = None then checkFinalGasAfterExit e s else err, s) } }"

definition callSCMethodIndirect :: "callee \<Rightarrow> env \<Rightarrow> vm \<Rightarrow> (err option \<times> vm) option" where
  "callSCMethodIndirect k e s = do {
     f \<leftarrow> GetFunctionToCall s;
     case f of
       Inl err \<Rightarrow> Some (if errorsIs err ErrNilCallbackFunction then None else Some err, s)
     | Inr f \<Rightarrow> runWithBreakpoints k e f s }"

definition setAsyncContextInfo :: "AsyncContextInfo \<Rightarrow> vm \<Rightarrow> vm" where
  "setAsyncContextInfo info s = s\<lparr>runtimeCtx := (runtimeCtx s)\<lparr>asyncContextInfo := info\<rparr>\<rparr>"

definition processCurrentAsyncInfo ::
  "callee \<Rightarrow> env \<Rightarrow> vm \<Rightarrow> (((err + AsyncContextInfo) \<times> AsyncContextInfo) \<times> vm) option" where
  \<comment> \<open>\<open>host.processAsyncInfo(runtime.GetAsyncContextInfo())\<close>, which changes that info in place\<close>
  "processCurrentAsyncInfo k e s = do {
     ((r, info), s) \<leftarrow> processAsyncInfo k e (asyncContextInfo (runtimeCtx s)) s;
     Some ((r, info), setAsyncContextInfo info s) }"

definition callSCMethod :: "callee \<Rightarrow> env \<Rightarrow> vm \<Rightarrow> (err option \<times> vm) option" where
  "callSCMethod k e s =
     (case verifyAllowedFunctionCall s of
        Some err \<Rightarrow> Some (Some err, s)
      | None \<Rightarrow> do {
          let callType = CallType (vmInput (runtimeCtx s));
          (f, s) \<leftarrow> getFunctionByCallType e callType s;
          case f of
            Inl err \<Rightarrow>
              (if callType = AsynchronousCallBack \<and> errorsIs err ErrNilCallbackFunction then processCallbackStack k e s
               else Some (Some err, s))
          | Inr f \<Rightarrow> do {
              f \<leftarrow> f;
              (err, s) \<leftarrow> runWithBreakpoints k e f s;
              case (if err = None then checkFinalGasAfterExit e s else err) of
                Some err \<Rightarrow> Some (Some err, s)
              | None \<Rightarrow>
                  (case callType of
                     AsynchronousCall \<Rightarrow> do {
                       ((r, _), s) \<leftarrow> processCurrentAsyncInfo k e s;
                       case r of
                         Inl err \<Rightarrow> Some (Some err, s)
                       | Inr pendingMap \<Rightarrow>
                           (if length (AsyncContextMap pendingMap) = 0 then sendCallbackToCurrentCaller e s else Some (None, s)) }
                   | AsynchronousCallBack \<Rightarrow> processCallbackStack k e s
                   | _ \<Rightarrow> do {
                       ((r, _), s) \<leftarrow> processCurrentAsyncInfo k e s;
                       Some (case r of Inl err \<Rightarrow> Some err | Inr _ \<Rightarrow> None, s) }) } })"

subsection \<open>Indirect execution\<close>

definition checkUpgradePermission :: "env \<Rightarrow> ContractCallInput \<Rightarrow> vm \<Rightarrow> err option" where
  "checkUpgradePermission e input s =
     (case hook_GetUserAccount e (hookLog s) (RecipientAddr input) of
        Inl err \<Rightarrow> Some err
      | Inr None \<Rightarrow> Some ErrNilContract
      | Inr (Some contract) \<Rightarrow>
          let isUpgradeable = metadata_Upgradeable e (ua_CodeMetadata contract);
              isCallerOwner = (CallerAddr (cci_VMInput input) = ua_OwnerAddress contract)
          in if isUpgradeable \<and> isCallerOwner then None else Some ErrUpgradeNotAllowed)"

definition outputReturnCode :: "vm \<Rightarrow> ReturnCodeT" where
  "outputReturnCode s = ReturnCode (outputState (outputCtx s))"

definition setReturnCode :: "ReturnCodeT \<Rightarrow> vm \<Rightarrow> vm" where
  "setReturnCode code s = s\<lparr>outputCtx := SetReturnCode code (outputCtx s)\<rparr>"

definition executeUpgrade :: "callee \<Rightarrow> env \<Rightarrow> ContractCallInput \<Rightarrow> vm \<Rightarrow> (err option \<times> vm) option" where
  "executeUpgrade k e input s =
     (case checkUpgradePermission e input s of
        Some err \<Rightarrow> Some (Some err, s)
      | None \<Rightarrow>
          (let (r, s) = ExtractCodeUpgradeFromArgs s
           in case r of
                Inl _ \<Rightarrow> Some (Some ErrInvalidUpgradeArguments, s)
              | Inr (code, codeMetadata) \<Rightarrow>
                  (let deployInput = \<lparr>ContractCode = code, ContractCodeMetadata = codeMetadata,
                         ContractAddress = RecipientAddr input, CodeDeployer = CallerAddr (cci_VMInput input)\<rparr>;
                       (err, s) = DeductInitialGasForDirectDeployment deployInput s
                   in case err of
                        Some err \<Rightarrow> Some (Some err, setReturnCode OutOfGas s)
                      | None \<Rightarrow> do {
                          (err, s) \<leftarrow> StartWasmerInstance e code (gasForExecution (meteringCtx s)) True
                            (MustVerifyNextContractCode s);
                          if err \<noteq> None then Some (Some ErrContractInvalid, s)
                          else do {
                            (err, s) \<leftarrow> callInitFunction k e s;
                            if err \<noteq> None then Some (err, s)
                            else
                              let s = s\<lparr>outputCtx := DeployCode deployInput (outputCtx s)\<rparr>
                              in Some (if outputReturnCode s \<noteq> Ok then Some ErrReturnCodeNotOk else None, s) } })))"

definition executeSmartContractCall :: "callee \<Rightarrow> env \<Rightarrow> ContractCallInput \<Rightarrow> bool \<Rightarrow> vm \<Rightarrow> (err option \<times> vm) option" where
  "executeSmartContractCall k e input withInitialGasDeduct s =
     (if isInitFunctionBeingCalled s \<and> \<not> AllowInitFunction input then Some (Some ErrInitFuncCalledInRun, s)
      else do {
        s \<leftarrow> UseGas (GasProvided (cci_VMInput input)) s;
        if Function input = UpgradeFunctionName then executeUpgrade k e input s
        else
          let (code, s) = GetSCCode e s
          in case code of
               Inl err \<Rightarrow> Some (Some err, s)
             | Inr contract \<Rightarrow>
                 (let (err, s) = (if withInitialGasDeduct then DeductInitialGasForExecution e contract s else (None, s))
                  in if err \<noteq> None then Some (err, s)
                     else do {
                       (err, s) \<leftarrow> StartWasmerInstance e contract (gasForExecution (meteringCtx s)) False s;
                       if err \<noteq> None then Some (err, s)
                       else do {
                         (err, s) \<leftarrow> callSCMethodIndirect k e s;
                         if err \<noteq> None then Some (err, s)
                         else Some (if outputReturnCode s \<noteq> Ok then Some ErrReturnCodeNotOk else None, s) } }) })"

definition initFromInput :: "ContractCallInput \<Rightarrow> vm \<Rightarrow> (ContractCallInput \<times> vm) option" where
  \<comment> \<open>\<open>metering.InitStateFromContractCallInput(&input.VMInput)\<close>: the input as it becomes\<close>
  "initFromInput input s =
     (let (v, c) = metering_InitStateFromContractCallInput (cci_VMInput input) (meteringCtx s)
      in Some (input\<lparr>cci_VMInput := v\<rparr>, s\<lparr>meteringCtx := c\<rparr>))"

definition setStorageAddress :: "vm \<Rightarrow> vm" where
  \<comment> \<open>\<open>storage.SetAddress(runtime.GetSCAddress())\<close>\<close>
  "setStorageAddress s = s\<lparr>storageCtx := SetAddress (scAddress (runtimeCtx s)) (storageCtx s)\<rparr>"

definition execute :: "callee \<Rightarrow> env \<Rightarrow> ContractCallInput \<Rightarrow> vm \<Rightarrow> ((u64 \<times> err option) \<times> vm) option" where
  "execute k e input s =
     (if IsBuiltinFunctionName e (callFunction (runtimeCtx s)) then do {
        ((r, gasUsedBeforeReset), s) \<leftarrow> callBuiltinFunction e input s;
        case r of
          Inl err \<Rightarrow> Some ((gasUsedBeforeReset, Some err), s)
        | Inr None \<Rightarrow> Some ((gasUsedBeforeReset, None), s)
        | Inr (Some newVMInput) \<Rightarrow> do {
            s \<leftarrow> runtime_InitStateFromContractCallInput newVMInput s;
            (newVMInput, s) \<leftarrow> initFromInput newVMInput s;
            (err, s) \<leftarrow> executeSmartContractCall k e newVMInput False (setStorageAddress s);
            s \<leftarrow> (if err \<noteq> None then RevertDCDTTransfer e input s else Some s);
            Some ((gasUsedBeforeReset, err), s) } }
      else do {
        (err, s) \<leftarrow> executeSmartContractCall k e input True s;
        Some ((0, err), s) })"

definition copyTxHashesFromContext :: "bool \<Rightarrow> VMInput \<Rightarrow> ContractCallInput \<Rightarrow> ContractCallInput" where
  "copyTxHashesFromContext copyEnabled current input =
     (if \<not> copyEnabled then input
      else
        let v = cci_VMInput input;
            v = (if length (OriginalTxHash current) > 0 then v\<lparr>OriginalTxHash := OriginalTxHash current\<rparr> else v);
            v = (if length (CurrentTxHash current) > 0 then v\<lparr>CurrentTxHash := CurrentTxHash current\<rparr> else v);
            v = (if length (PrevTxHash current) > 0 then v\<lparr>PrevTxHash := PrevTxHash current\<rparr> else v)
        in input\<lparr>cci_VMInput := v\<rparr>)"

definition computeGasUsedBefore :: "vm \<Rightarrow> vm" where
  "computeGasUsedBefore s = SetTotalUsedGas (fst (GetCurrentTotalUsedGas (outputCtx s))) s"

definition finishExecuteOnDestContext :: "env \<Rightarrow> err option \<Rightarrow> vm \<Rightarrow> (VMOutput \<times> vm) option" where
  "finishExecuteOnDestContext e executeErr s = do {
     let (vmOutput, s) = (case executeErr of
         Some err \<Rightarrow> (CreateVMOutputInCaseOfError err (outputCtx s), s)
       | None \<Rightarrow> GetVMOutput e s);
     let childContract = scAddress (runtimeCtx s);
     let gasSpentByChildContract = (if ReturnCode vmOutput \<noteq> Ok then 0 else GasSpentByContract e s);
     let s = s\<lparr>bigIntCtx := bigInt_PopSetActiveState (bigIntCtx s),
               meteringCtx := metering_PopSetActiveState (meteringCtx s)\<rparr>;
     s \<leftarrow> runtime_PopSetActiveState s;
     let s = s\<lparr>storageCtx := storage_PopSetActiveState (storageCtx s)\<rparr>;
     s \<leftarrow> RestoreGas (GasRemaining vmOutput) s;
     let s = ForwardGas (scAddress (runtimeCtx s)) childContract gasSpentByChildContract s;
     let s = s\<lparr>outputCtx := (if ReturnCode vmOutput = Ok then output_PopMergeActiveState (outputCtx s)
                             else output_PopSetActiveState (outputCtx s))\<rparr>;
     Some (vmOutput, s) }"

definition enterDestContext :: "env \<Rightarrow> ContractCallInput \<Rightarrow> vm \<Rightarrow> (ContractCallInput \<times> vm) option" where
  \<comment> \<open>the beginning of \<open>ExecuteOnDestContext\<close>: save every context, start the new ones\<close>
  "enterDestContext e input s = do {
     let s = s\<lparr>bigIntCtx := bigInt_InitState (bigInt_PushState (bigIntCtx s)),
               outputCtx := CensorVMOutput (output_PushState (outputCtx s))\<rparr>;
     let input = copyTxHashesFromContext (IsDCDTFunctionsEnabled e) (vmInput (runtimeCtx s)) input;
     s \<leftarrow> runtime_PushState s;
     s \<leftarrow> runtime_InitStateFromContractCallInput input s;
     (input, s) \<leftarrow> initFromInput input (s\<lparr>meteringCtx := metering_PushState (meteringCtx s)\<rparr>);
     let s = computeGasUsedBefore s;
     Some (input, setStorageAddress (s\<lparr>storageCtx := storage_PushState (storageCtx s)\<rparr>)) }"

definition bodyOnDestContext ::
  "callee \<Rightarrow> env \<Rightarrow> ContractCallInput \<Rightarrow> vm \<Rightarrow> ((AsyncContextInfo option \<times> u64 \<times> err option) \<times> vm) option" where
  \<comment> \<open>the middle of \<open>ExecuteOnDestContext\<close>: the transfer, the execution, the generated calls\<close>
  "bodyOnDestContext k e input s = do {
     callValue0 \<leftarrow> (if CallType (cci_VMInput input) \<noteq> AsynchronousCallBack then Some True
                   else do { v \<leftarrow> CallValue (cci_VMInput input); Some (v = 0) });
     (err, s) \<leftarrow> (if callValue0
       then TransferValueOnly e (RecipientAddr input) (CallerAddr (cci_VMInput input)) (CallValue (cci_VMInput input)) False s
       else Some (None, s));
     if err \<noteq> None then Some ((None, 0, err), s)
     else do {
       ((gasUsedBeforeReset, err), s) \<leftarrow> execute k e input s;
       if err \<noteq> None then Some ((None, gasUsedBeforeReset, err), s)
       else do {
         ((r, info), s) \<leftarrow> processCurrentAsyncInfo k e s;
         Some ((Some info, gasUsedBeforeReset, case r of Inl err \<Rightarrow> Some err | Inr _ \<Rightarrow> None), s) } } }"

definition ExecuteOnDestContext :: "callee \<Rightarrow> env \<Rightarrow> ContractCallInput \<Rightarrow> vm \<Rightarrow> (dest_result \<times> vm) option" where
  "ExecuteOnDestContext k e input s = do {
     (input, s) \<leftarrow> enterDestContext e input s;
     ((asyncInfo, gasUsedBeforeReset, err), s) \<leftarrow> bodyOnDestContext k e input s;
     (vmOutput, s) \<leftarrow> finishExecuteOnDestContext e err s;
     let s = SetTotalUsedGas 0 s;
     let err = (if err = None \<and> ReturnCode vmOutput \<noteq> Ok then Some ErrExecutionFailed else err);
     Some (\<lparr>dr_output = vmOutput, dr_asyncInfo = asyncInfo, dr_gasUsedBeforeReset = gasUsedBeforeReset, dr_err = err\<rparr>, s) }"

definition finishExecuteOnSameContext :: "env \<Rightarrow> err option \<Rightarrow> vm \<Rightarrow> vm option" where
  "finishExecuteOnSameContext e executeErr s =
     (if outputReturnCode s \<noteq> Ok \<or> executeErr \<noteq> None then
        runtime_PopSetActiveState (s\<lparr>bigIntCtx := bigInt_PopSetActiveState (bigIntCtx s),
          meteringCtx := metering_PopSetActiveState (meteringCtx s),
          outputCtx := output_PopSetActiveState (outputCtx s)\<rparr>)
      else do {
        let childContract = scAddress (runtimeCtx s);
        let (vmOutput, s) = GetVMOutput e s;
        let gasSpentByContract = (if ReturnCode vmOutput \<noteq> Ok then 0 else GasSpentByContract e s);
        s \<leftarrow> runtime_PopSetActiveState (s\<lparr>bigIntCtx := bigInt_PopDiscard (bigIntCtx s),
          outputCtx := output_PopDiscard (outputCtx s), meteringCtx := metering_PopSetActiveState (meteringCtx s)\<rparr>);
        s \<leftarrow> RestoreGas (GasRemaining vmOutput) s;
        Some (ForwardGas (scAddress (runtimeCtx s)) childContract gasSpentByContract s) })"

definition ExecuteOnSameContext ::
  "callee \<Rightarrow> env \<Rightarrow> ContractCallInput \<Rightarrow> vm \<Rightarrow> ((AsyncContextInfo option \<times> err option) \<times> vm) option" where
  "ExecuteOnSameContext k e input s =
     (if IsBuiltinFunctionName e (Function input) then Some ((None, Some ErrBuiltinCallOnSameContextDisallowed), s)
      else do {
        let s = s\<lparr>bigIntCtx := bigInt_PushState (bigIntCtx s), outputCtx := output_PushState (outputCtx s)\<rparr>;
        let input = copyTxHashesFromContext (IsDCDTFunctionsEnabled e) (vmInput (runtimeCtx s)) input;
        s \<leftarrow> runtime_PushState s;
        s \<leftarrow> runtime_InitStateFromContractCallInput input s;
        (input, s) \<leftarrow> initFromInput input (s\<lparr>meteringCtx := metering_PushState (meteringCtx s)\<rparr>);
        (err, s) \<leftarrow> TransferValueOnly e (RecipientAddr input) (CallerAddr (cci_VMInput input))
          (CallValue (cci_VMInput input)) False s;
        ((asyncInfo, err), s) \<leftarrow> (if err \<noteq> None then Some ((None, err), s)
          else do {
            ((_, err), s) \<leftarrow> execute k e input s;
            Some ((if err \<noteq> None then None else Some (asyncContextInfo (runtimeCtx s)), err), s) });
        s \<leftarrow> finishExecuteOnSameContext e err s;
        Some ((asyncInfo, err), s) })"

definition CreateNewContract :: "callee \<Rightarrow> env \<Rightarrow> ContractCreateInput \<Rightarrow> vm \<Rightarrow> ((err + address) \<times> vm) option" where
  "CreateNewContract k e input s =
     (let vmIn = cri_VMInput input;
          deployInput = \<lparr>ContractCode = cri_ContractCode input, ContractCodeMetadata = cri_ContractCodeMetadata input,
            ContractAddress = [], CodeDeployer = CallerAddr vmIn\<rparr>;
          (err, s) = DeductInitialGasForIndirectDeployment deployInput s
      in case err of
           Some err \<Rightarrow> Some (Inl err, s)
         | None \<Rightarrow>
             if readOnly (runtimeCtx s) then Some (Inl ErrInvalidCallOnReadOnlyMode, s)
             else
               let (r, s) = NewAddress e (CallerAddr vmIn) s
               in case r of
                    Inl err \<Rightarrow> Some (Inl err, s)
                  | Inr newContractAddress \<Rightarrow>
                      if AccountExists e newContractAddress s then Some (Inl ErrDeploymentOverExistingAccount, s)
                      else do {
                        let s = s\<lparr>outputCtx := DeployCode (deployInput\<lparr>ContractAddress := newContractAddress\<rparr>) (outputCtx s)\<rparr>;
                        let s = MustVerifyNextContractCode s;
                        let initCallInput = \<lparr>cci_VMInput = vmIn, RecipientAddr = newContractAddress,
                          Function = InitFunctionName, AllowInitFunction = True\<rparr>;
                        (r, s) \<leftarrow> exec_dest k initCallInput s;
                        case dr_err r of
                          Some err \<Rightarrow> Some (Inl err, s\<lparr>outputCtx := DeleteOutputAccount newContractAddress (outputCtx s)\<rparr>)
                        | None \<Rightarrow> Some (Inr newContractAddress, IncreaseNonce e (CallerAddr vmIn) s) })"

subsection \<open>The recursion through contracts\<close>

record reentry =
  re_ExecuteOnDestContext :: "ContractCallInput \<Rightarrow> vm \<Rightarrow> (dest_result \<times> vm) option"
  re_ExecuteOnSameContext :: "ContractCallInput \<Rightarrow> vm \<Rightarrow> ((AsyncContextInfo option \<times> err option) \<times> vm) option"
  re_CreateNewContract :: "ContractCreateInput \<Rightarrow> vm \<Rightarrow> ((err + address) \<times> vm) option"

type_synonym engine = "reentry \<Rightarrow> string \<Rightarrow> vm \<Rightarrow> (err option \<times> vm) option"

definition reentryOf :: "callee \<Rightarrow> env \<Rightarrow> reentry" where
  "reentryOf k e = \<lparr>re_ExecuteOnDestContext = ExecuteOnDestContext k e,
     re_ExecuteOnSameContext = ExecuteOnSameContext k e, re_CreateNewContract = CreateNewContract k e\<rparr>"

fun calleeAt :: "engine \<Rightarrow> env \<Rightarrow> nat \<Rightarrow> callee" where
  "calleeAt w e 0 = \<lparr>run_function = (\<lambda>_ _. None), exec_dest = (\<lambda>_ _. None)\<rparr>"
| "calleeAt w e (Suc n) = \<lparr>run_function = w (reentryOf (calleeAt w e n) e), exec_dest = ExecuteOnDestContext (calleeAt w e n) e\<rparr>"

subsection \<open>Top-level execution\<close>

definition initContexts :: "vm \<Rightarrow> vm" where
  "initContexts s =
     (let s = s\<lparr>bigIntCtx := bigInt_ClearStateStack (bigIntCtx s), outputCtx := output_ClearStateStack (outputCtx s),
            meteringCtx := metering_ClearStateStack (meteringCtx s)\<rparr>;
          s = runtime_ClearStateStack s;
          s = s\<lparr>storageCtx := storage_ClearStateStack (storageCtx s)\<rparr>;
          s = s\<lparr>bigIntCtx := bigInt_InitState (bigIntCtx s), outputCtx := output_InitState (outputCtx s),
            meteringCtx := metering_InitState (meteringCtx s)\<rparr>
      in runtime_InitState s)"

definition Clean :: "vm \<Rightarrow> vm" where
  "Clean s = (if IsWarmInstance s then s else CleanWasmerInstance s)"

definition errorOutput :: "err \<Rightarrow> vm \<Rightarrow> VMOutput \<times> vm" where
  \<comment> \<open>\<open>return output.CreateVMOutputInCaseOfError(err)\<close>, followed by the deferred \<open>host.Clean()\<close>\<close>
  "errorOutput err s = (CreateVMOutputInCaseOfError err (outputCtx s), Clean s)"

definition addTxValue :: "address \<Rightarrow> bigint \<Rightarrow> vm \<Rightarrow> vm option" where
  "addTxValue a val s = do { c \<leftarrow> AddTxValueToAccount a val (outputCtx s); Some (s\<lparr>outputCtx := c\<rparr>) }"

definition performCodeDeployment :: "callee \<Rightarrow> env \<Rightarrow> CodeDeployInput \<Rightarrow> vm \<Rightarrow> ((err + VMOutput) \<times> vm) option" where
  "performCodeDeployment k e input s =
     (let (err, s) = DeductInitialGasForDirectDeployment input s
      in case err of
           Some err \<Rightarrow> Some (Inl err, setReturnCode OutOfGas s)
         | None \<Rightarrow> do {
             (err, s) \<leftarrow> StartWasmerInstance e (ContractCode input) (gasForExecution (meteringCtx s)) True
               (MustVerifyNextContractCode s);
             if err \<noteq> None then Some (Inl ErrContractInvalid, s)
             else do {
               (err, s) \<leftarrow> callInitFunction k e s;
               case err of
                 Some err \<Rightarrow> Some (Inl err, s)
               | None \<Rightarrow>
                   let s = s\<lparr>outputCtx := DeployCode input (outputCtx s)\<rparr>;
                       (vmOutput, s) = GetVMOutput e s
                   in Some (Inr vmOutput, CleanWasmerInstance s) } })"

definition doRunSmartContractCreate :: "callee \<Rightarrow> env \<Rightarrow> ContractCreateInput \<Rightarrow> vm \<Rightarrow> (VMOutput \<times> vm) option" where
  "doRunSmartContractCreate k e input s =
     (let s = initContexts s;
          vmIn = cri_VMInput input;
          (r, s) = NewAddress e (CallerAddr vmIn) s
      in case r of
           Inl err \<Rightarrow> Some (errorOutput err s)
         | Inr newAddress \<Rightarrow> do {
             s \<leftarrow> SetVMInput vmIn s;
             let s = SetSCAddress newAddress s;
             let (vmIn, c) = metering_InitStateFromContractCallInput vmIn (meteringCtx s);
             s \<leftarrow> addTxValue newAddress (CallValue vmIn) (s\<lparr>meteringCtx := c\<rparr>);
             (r, s) \<leftarrow> performCodeDeployment k e \<lparr>ContractCode = cri_ContractCode input,
               ContractCodeMetadata = cri_ContractCodeMetadata input, ContractAddress = newAddress,
               CodeDeployer = CallerAddr vmIn\<rparr> (setStorageAddress s);
             Some (case r of Inl err \<Rightarrow> errorOutput err s | Inr vmOutput \<Rightarrow> (vmOutput, Clean s)) })"

definition enterTopLevel :: "ContractCallInput \<Rightarrow> vm \<Rightarrow> (ContractCallInput \<times> vm) option" where
  \<comment> \<open>what an upgrade and a call begin with\<close>
  "enterTopLevel input s = do {
     s \<leftarrow> runtime_InitStateFromContractCallInput input (initContexts s);
     (input, s) \<leftarrow> initFromInput input s;
     s \<leftarrow> addTxValue (RecipientAddr input) (CallValue (cci_VMInput input)) s;
     Some (input, setStorageAddress s) }"

definition doRunSmartContractUpgrade :: "callee \<Rightarrow> env \<Rightarrow> ContractCallInput \<Rightarrow> vm \<Rightarrow> (VMOutput \<times> vm) option" where
  "doRunSmartContractUpgrade k e input s = do {
     (input, s) \<leftarrow> enterTopLevel input s;
     let (r, s) = ExtractCodeUpgradeFromArgs s;
     case r of
       Inl _ \<Rightarrow> Some (errorOutput ErrInvalidUpgradeArguments s)
     | Inr (code, codeMetadata) \<Rightarrow> do {
         (r, s) \<leftarrow> performCodeDeployment k e \<lparr>ContractCode = code, ContractCodeMetadata = codeMetadata,
           ContractAddress = RecipientAddr input, CodeDeployer = CallerAddr (cci_VMInput input)\<rparr> s;
         Some (case r of Inl err \<Rightarrow> errorOutput err s | Inr vmOutput \<Rightarrow> (vmOutput, Clean s)) } }"

definition checkGasForGetCode :: "env \<Rightarrow> ContractCallInput \<Rightarrow> vm \<Rightarrow> err option" where
  "checkGasForGetCode e input s =
     (if \<not> IsVMV2Enabled e then None
      else if GasProvided (cci_VMInput input) < GetCodeCost (baseCost s) then Some ErrNotEnoughGas else None)"

definition doRunSmartContractCall :: "callee \<Rightarrow> env \<Rightarrow> ContractCallInput \<Rightarrow> vm \<Rightarrow> (VMOutput \<times> vm) option" where
  "doRunSmartContractCall k e input s = do {
     (input, s) \<leftarrow> enterTopLevel input s;
     if checkGasForGetCode e input s \<noteq> None then Some (errorOutput ErrNotEnoughGas s)
     else
       let (code, s) = GetSCCode e s
       in case code of
            Inl _ \<Rightarrow> Some (errorOutput ErrContractNotFound s)
          | Inr contract \<Rightarrow>
              (let (err, s) = DeductInitialGasForExecution e contract s
               in if err \<noteq> None then Some (errorOutput ErrNotEnoughGas s)
                  else do {
                    (err, s) \<leftarrow> StartWasmerInstance e contract (gasForExecution (meteringCtx s)) False s;
                    if err \<noteq> None then Some (errorOutput ErrContractInvalid s)
                    else do {
                      (err, s) \<leftarrow> callSCMethod k e s;
                      Some (case err of
                              Some err \<Rightarrow> errorOutput err s
                            | None \<Rightarrow> let (vmOutput, s) = GetVMOutput e s in (vmOutput, Clean (CleanWasmerInstance s))) } }) }"

definition hasRetriableExecutionError :: "VMOutput \<Rightarrow> vm \<Rightarrow> bool" where
  "hasRetriableExecutionError vmOutput s \<longleftrightarrow> IsWarmInstance s \<and> ReturnMessage vmOutput = ''allocation error''"

text \<open>The results of the two entry points: None is a caught panic, for which the source returns
  no output and an error.\<close>

definition RunSmartContractCreate :: "callee \<Rightarrow> env \<Rightarrow> ContractCreateInput \<Rightarrow> vm \<Rightarrow> (VMOutput \<times> vm) option" where
  "RunSmartContractCreate k e input s = doRunSmartContractCreate k e input s"

definition RunSmartContractCall :: "callee \<Rightarrow> env \<Rightarrow> ContractCallInput \<Rightarrow> vm \<Rightarrow> (VMOutput \<times> vm) option" where
  "RunSmartContractCall k e input s =
     (if Function input = UpgradeFunctionName then doRunSmartContractUpgrade k e input s
      else do {
        (vmOutput, s) \<leftarrow> doRunSmartContractCall k e input s;
        Some (vmOutput, if hasRetriableExecutionError vmOutput s then ResetWarmInstance s else s) })"

subsection \<open>Functions that cannot be called directly\<close>

definition forbidden :: "string \<Rightarrow> CallTypeT \<Rightarrow> bool" where
  \<comment> \<open>the initialiser always, the callback unless an asynchronous call returns\<close>
  "forbidden f t \<longleftrightarrow> f = InitFunctionName \<or> f = InitFunctionNameEth \<or> (f = CallbackFunctionName \<and> t \<noteq> AsynchronousCallBack)"

lemma verifyAllowedFunctionCall_iff:
  "verifyAllowedFunctionCall s \<noteq> None \<longleftrightarrow> forbidden (callFunction (runtimeCtx s)) (CallType (vmInput (runtimeCtx s)))"
  by (auto simp: verifyAllowedFunctionCall_def forbidden_def Let_def)

lemma callSCMethod_forbidden:
  assumes "forbidden (callFunction (runtimeCtx s)) (CallType (vmInput (runtimeCtx s)))"
  shows "\<exists>err. callSCMethod k e s = Some (Some err, s)"
  using verifyAllowedFunctionCall_iff [of s] assms by (auto simp: callSCMethod_def)

lemma callState_deduct: "callState (snd (DeductInitialGasForExecution e c s)) = callState s"
  by (simp add: DeductInitialGasForExecution_def deductInitialGas_def Let_def callState_def)

lemma callState_enterTopLevel:
  assumes "enterTopLevel input s = Some (i, s')"
  shows "callFunction (runtimeCtx s') = Function input" "CallType (vmInput (runtimeCtx s')) = CallType (cci_VMInput input)"
  using assms
  by (auto simp: enterTopLevel_def bind_Some_iff runtime_InitStateFromContractCallInput_def SetVMInput_def initFromInput_def
    addTxValue_def setStorageAddress_def copyVMInput_Some Let_def split: prod.splits)

definition startCall :: "env \<Rightarrow> ContractCallInput \<Rightarrow> vm \<Rightarrow> ((VMOutput \<times> vm) + vm) option" where
  \<comment> \<open>\<open>doRunSmartContractCall\<close> up to the call of the contract's function: an error output, or the
     state in which the function is called\<close>
  "startCall e input s = do {
     (input, s) \<leftarrow> enterTopLevel input s;
     if checkGasForGetCode e input s \<noteq> None then Some (Inl (errorOutput ErrNotEnoughGas s))
     else
       let (code, s) = GetSCCode e s
       in case code of
            Inl _ \<Rightarrow> Some (Inl (errorOutput ErrContractNotFound s))
          | Inr contract \<Rightarrow>
              (let (err, s) = DeductInitialGasForExecution e contract s
               in if err \<noteq> None then Some (Inl (errorOutput ErrNotEnoughGas s))
                  else do {
                    (err, s) \<leftarrow> StartWasmerInstance e contract (gasForExecution (meteringCtx s)) False s;
                    Some (if err \<noteq> None then Inl (errorOutput ErrContractInvalid s) else Inr s) }) }"

lemma doRunSmartContractCall_start:
  "doRunSmartContractCall k e input s = do {
     r \<leftarrow> startCall e input s;
     case r of
       Inl out \<Rightarrow> Some out
     | Inr s \<Rightarrow> do {
         (err, s) \<leftarrow> callSCMethod k e s;
         Some (case err of Some err \<Rightarrow> errorOutput err s
           | None \<Rightarrow> let (vmOutput, s) = GetVMOutput e s in (vmOutput, Clean (CleanWasmerInstance s))) } }"
proof (cases "enterTopLevel input s")
  case None
  then show ?thesis by (simp add: doRunSmartContractCall_def startCall_def)
next
  case (Some p)
  obtain i t where p: "p = (i, t)" by (cases p)
  show ?thesis
  proof (cases "checkGasForGetCode e i t")
    case None
    obtain code u where u: "GetSCCode e t = (code, u)" by (metis prod.collapse)
    show ?thesis
    proof (cases code)
      case (Inl err)
      with Some p None u show ?thesis by (simp add: doRunSmartContractCall_def startCall_def)
    next
      case (Inr c)
      obtain err v where v: "DeductInitialGasForExecution e c u = (err, v)" by (metis prod.collapse)
      with Some p None u Inr show ?thesis
        by (cases "StartWasmerInstance e c (gasForExecution (meteringCtx v)) False v")
          (auto simp: doRunSmartContractCall_def startCall_def)
    qed
  qed (use Some p in \<open>simp add: doRunSmartContractCall_def startCall_def\<close>)
qed

lemma startCall_Inr:
  assumes "startCall e input s = Some (Inr s')"
  shows "callFunction (runtimeCtx s') = Function input" "CallType (vmInput (runtimeCtx s')) = CallType (cci_VMInput input)"
proof -
  from assms obtain i t where t: "enterTopLevel input s = Some (i, t)" by (auto simp: startCall_def bind_Some_iff)
  obtain code u where u: "GetSCCode e t = (code, u)" by (metis prod.collapse)
  with assms t obtain c where c: "code = Inr c" by (cases code) (auto simp: startCall_def split: if_splits)
  obtain err v where v: "DeductInitialGasForExecution e c u = (err, v)" by (metis prod.collapse)
  with assms t u c obtain err' where "StartWasmerInstance e c (gasForExecution (meteringCtx v)) False v = Some (err', s')"
    by (auto simp: startCall_def bind_Some_iff split: if_splits)
  from callState_StartWasmerInstance [OF this] callState_deduct [of e c u] callState_GetSCCode [of e t]
  have "callState s' = callState t" using u v by simp
  with callState_enterTopLevel [OF t] show "callFunction (runtimeCtx s') = Function input"
      "CallType (vmInput (runtimeCtx s')) = CallType (cci_VMInput input)" by (simp_all add: callState_def)
qed

lemma errorOutput_simps: "ReturnCode (fst (errorOutput err s)) \<noteq> Ok" "OutputAccounts (fst (errorOutput err s)) = []"
  "GasRemaining (fst (errorOutput err s)) = 0"
  by (simp add: errorOutput_def, simp_all add: errorOutput_def CreateVMOutputInCaseOfError_def Let_def)

lemma startCall_Inl:
  assumes "startCall e input s = Some (Inl out)"
  shows "\<exists>err t. out = errorOutput err t"
proof -
  from assms obtain i t where t: "enterTopLevel input s = Some (i, t)" by (auto simp: startCall_def bind_Some_iff)
  obtain code u where u: "GetSCCode e t = (code, u)" by (metis prod.collapse)
  show ?thesis
    using assms t u by (cases code) (auto simp: startCall_def bind_Some_iff case_prod_beta Let_def split: if_splits)
qed

lemma forbidden_call:
  assumes "forbidden (Function input) (CallType (cci_VMInput input))" "doRunSmartContractCall k e input s = Some (out, s')"
  shows "doRunSmartContractCall k' e input s = Some (out, s')" "ReturnCode out \<noteq> Ok" "OutputAccounts out = []"
proof -
  from assms(2) obtain r where r: "startCall e input s = Some r" by (auto simp: doRunSmartContractCall_start bind_Some_iff)
  have "doRunSmartContractCall k' e input s = Some (out, s') \<and> (\<exists>err t. (out, s') = errorOutput err t)"
  proof (cases r)
    case (Inl x)
    with r assms(2) have "x = (out, s')" by (simp add: doRunSmartContractCall_start)
    with r Inl startCall_Inl [of e input s x] show ?thesis by (simp add: doRunSmartContractCall_start)
  next
    case (Inr t)
    have "forbidden (callFunction (runtimeCtx t)) (CallType (vmInput (runtimeCtx t)))"
      using startCall_Inr [OF r [unfolded Inr]] assms(1) by simp
    then obtain err where "verifyAllowedFunctionCall t = Some err" using verifyAllowedFunctionCall_iff [of t] by auto
    with r Inr assms(2) have "errorOutput err t = (out, s')" by (simp add: doRunSmartContractCall_start callSCMethod_def)
    then show ?thesis using r Inr \<open>verifyAllowedFunctionCall t = Some err\<close>
      by (auto simp: doRunSmartContractCall_start callSCMethod_def intro: sym)
  qed
  then obtain err t where "doRunSmartContractCall k' e input s = Some (out, s')" "(out, s') = errorOutput err t" by blast
  then show "doRunSmartContractCall k' e input s = Some (out, s')" "ReturnCode out \<noteq> Ok" "OutputAccounts out = []"
    using errorOutput_simps [of err t] by (metis fst_conv)+
qed

subsection \<open>Upgrades\<close>

lemma checkUpgradePermission_iff:
  "checkUpgradePermission e i s = None \<longleftrightarrow> (\<exists>c. hook_GetUserAccount e (hookLog s) (RecipientAddr i) = Inr (Some c) \<and>
     metadata_Upgradeable e (ua_CodeMetadata c) \<and> CallerAddr (cci_VMInput i) = ua_OwnerAddress c)"
  by (auto simp: checkUpgradePermission_def Let_def split: sum.splits option.splits)

lemma executeUpgrade_refused:
  "checkUpgradePermission e i s = Some err \<Longrightarrow> executeUpgrade k e i s = Some (Some err, s)"
  by (simp add: executeUpgrade_def)

subsection \<open>New contracts\<close>

lemma CreateNewContract_error:
  assumes "CreateNewContract k e i s = Some (Inl err, s')"
    "NewAddress e (CallerAddr (cri_VMInput i)) (snd (DeductInitialGasForIndirectDeployment \<lparr>ContractCode = cri_ContractCode i,
       ContractCodeMetadata = cri_ContractCodeMetadata i, ContractAddress = [], CodeDeployer = CallerAddr (cri_VMInput i)\<rparr> s)) = (Inr a, u)"
  shows "codeUpdates (outputCtx s') = codeUpdates (outputCtx s) \<or>
    a \<notin> codeUpdates (outputCtx s') \<and> go_get (outAccounts s') a = None"
proof -
  let ?d = "\<lparr>ContractCode = cri_ContractCode i, ContractCodeMetadata = cri_ContractCodeMetadata i, ContractAddress = [],
    CodeDeployer = CallerAddr (cri_VMInput i)\<rparr>"
  obtain er t where t: "DeductInitialGasForIndirectDeployment ?d s = (er, t)" by (metis prod.collapse)
  have ct: "outputCtx t = outputCtx s"
    using t by (auto simp: DeductInitialGasForIndirectDeployment_def deductInitialGas_def Let_def split: if_splits)
  have n: "NewAddress e (CallerAddr (cri_VMInput i)) t = (Inr a, u)" using assms(2) t by simp
  have "only_accounts t (snd (GetNonce e (CallerAddr (cri_VMInput i)) t))"
    by (auto simp: GetNonce_def Let_def case_prod_beta split: option.splits sum.splits
      intro: only_accounts_trans [OF only_accounts_get only_accounts_set])
  moreover have "outputCtx u = outputCtx (snd (GetNonce e (CallerAddr (cri_VMInput i)) t))"
    using n by (auto simp: NewAddress_def Let_def case_prod_beta split: option.splits)
  ultimately have cu: "codeUpdates (outputCtx u) = codeUpdates (outputCtx s)" using ct by (simp add: only_accounts_frame)
  from assms(1) t n ct cu show ?thesis
    by (auto simp: CreateNewContract_def Let_def bind_Some_iff DeleteOutputAccount_def outAccounts_def go_simps
      split: option.splits if_splits)
qed

lemma CreateNewContract_readOnly:
  assumes "readOnly (runtimeCtx s)" "CreateNewContract k e i s = Some (r, s')"
  shows "\<exists>err. r = Inl err" "outputCtx s' = outputCtx s" "hookLog s' = hookLog s"
proof -
  let ?d = "\<lparr>ContractCode = cri_ContractCode i, ContractCodeMetadata = cri_ContractCodeMetadata i, ContractAddress = [],
    CodeDeployer = CallerAddr (cri_VMInput i)\<rparr>"
  obtain er t where t: "DeductInitialGasForIndirectDeployment ?d s = (er, t)" by (metis prod.collapse)
  have ct: "outputCtx t = outputCtx s" "runtimeCtx t = runtimeCtx s" "hookLog t = hookLog s"
    using t by (auto simp: DeductInitialGasForIndirectDeployment_def deductInitialGas_def Let_def split: if_splits)
  with assms t show "\<exists>err. r = Inl err" "outputCtx s' = outputCtx s" "hookLog s' = hookLog s"
    by (auto simp: CreateNewContract_def Let_def split: option.splits)
qed

subsection \<open>Properties\<close>

definition sampleCall :: "bytes list \<Rightarrow> ContractCallInput" where
  \<comment> \<open>a call of the sample contract\<close>
  "sampleCall args = \<lparr>cci_VMInput = sampleInput\<lparr>Arguments := args, GasProvided := 100 + 100 * of_nat (length args)\<rparr>,
     RecipientAddr = ''contract'', Function = ''get'', AllowInitFunction = False\<rparr>"

definition sampleEngine :: engine where
  \<comment> \<open>a contract that calls itself with one argument less, and finishes when it has no argument left\<close>
  "sampleEngine re f s = (case Arguments (vmInput (runtimeCtx s)) of
       [] \<Rightarrow> do { s \<leftarrow> UseGas 7 s; Some (None, s\<lparr>outputCtx := Finish ''data'' (outputCtx s)\<rparr>) }
     | _ # args \<Rightarrow> do { (r, s) \<leftarrow> re_ExecuteOnDestContext re (sampleCall args) s; Some (dr_err r, s) })"

text \<open>C9: a contract's initialiser, and its callback outside of the return of an asynchronous call,
  cannot be called from outside.  Such a call runs no code of the contract: whatever the contracts do,
  its result is the same, an error output without any effect.\<close>

theorem forbidden_functions_not_run:
  assumes "forbidden (Function input) (CallType (cci_VMInput input))" "doRunSmartContractCall k e input s = Some (out, s')"
  shows "doRunSmartContractCall k' e input s = Some (out, s') \<and> ReturnCode out \<noteq> Ok \<and> OutputAccounts out = []"
  using forbidden_call [OF assms] by blast

lemma sample_forbidden:
  "map_option (ReturnMessage \<circ> fst) (doRunSmartContractCall (calleeAt sampleEngine sampleEnv 0) sampleEnv
      ((sampleCall [])\<lparr>Function := ''init''\<rparr>) sampleVM) = Some ''invalid function (calling init() directly is forbidden)''"
  by code_simp

theorem forbidden_functions_not_run_witness:
  "\<exists>out s'. doRunSmartContractCall (calleeAt sampleEngine sampleEnv 1) sampleEnv ((sampleCall [])\<lparr>Function := ''init''\<rparr>) sampleVM =
     Some (out, s') \<and> ReturnCode out \<noteq> Ok"
proof -
  obtain out s' where r: "doRunSmartContractCall (calleeAt sampleEngine sampleEnv 0) sampleEnv ((sampleCall [])\<lparr>Function := ''init''\<rparr>) sampleVM =
      Some (out, s')" using sample_forbidden by auto
  have "forbidden (Function ((sampleCall [])\<lparr>Function := ''init''\<rparr>)) (CallType (cci_VMInput ((sampleCall [])\<lparr>Function := ''init''\<rparr>)))"
    by (simp add: forbidden_def InitFunctionName_def)
  from forbidden_functions_not_run [OF this r, of "calleeAt sampleEngine sampleEnv 1"] show ?thesis by blast
qed

text \<open>C10: a contract is upgraded by another contract only on behalf of its owner and only if its
  metadata allow it; any other upgrade fails before anything changes.\<close>

theorem upgrade_needs_owner:
  assumes "\<nexists>c. hook_GetUserAccount e (hookLog s) (RecipientAddr i) = Inr (Some c) \<and>
     metadata_Upgradeable e (ua_CodeMetadata c) \<and> CallerAddr (cci_VMInput i) = ua_OwnerAddress c"
  shows "\<exists>err. executeUpgrade k e i s = Some (Some err, s)"
  using assms checkUpgradePermission_iff [of e i s] executeUpgrade_refused [of e i s] by blast

theorem upgrade_needs_owner_witness:
  "\<exists>err. executeUpgrade (calleeAt sampleEngine sampleEnv 0) sampleEnv ((sampleCall [])\<lparr>cci_VMInput := sampleInput\<lparr>CallerAddr := ''mallory''\<rparr>\<rparr>) sampleVM =
     Some (Some err, sampleVM)"
proof (rule upgrade_needs_owner)
  show "\<nexists>c. hook_GetUserAccount sampleEnv (hookLog sampleVM) (RecipientAddr ((sampleCall [])\<lparr>cci_VMInput := sampleInput\<lparr>CallerAddr := ''mallory''\<rparr>\<rparr>)) = Inr (Some c) \<and>
     metadata_Upgradeable sampleEnv (ua_CodeMetadata c) \<and> CallerAddr (cci_VMInput ((sampleCall [])\<lparr>cci_VMInput := sampleInput\<lparr>CallerAddr := ''mallory''\<rparr>\<rparr>)) = ua_OwnerAddress c"
    by (simp add: sampleCall_def sampleEnv_def sampleAccount_def)
qed

text \<open>In read-only mode no contract is created: the attempt fails, deploys no code, calls no
  initialiser and records nothing in the output.\<close>

lemma no_deployment_in_readOnly:
  assumes "readOnly (runtimeCtx s)" "CreateNewContract k e i s = Some (r, s')"
  shows "(\<exists>err. r = Inl err) \<and> outputCtx s' = outputCtx s \<and> hookLog s' = hookLog s"
  using CreateNewContract_readOnly [OF assms] by blast

lemma no_deployment_in_readOnly_example:
  "\<exists>err s'. CreateNewContract (calleeAt sampleEngine sampleEnv 0) sampleEnv
     \<lparr>cri_VMInput = sampleInput, cri_ContractCode = ''code'', cri_ContractCodeMetadata = []\<rparr>
     (sampleVM\<lparr>runtimeCtx := (runtimeCtx sampleVM)\<lparr>readOnly := True\<rparr>\<rparr>) = Some (Inl err, s')"
proof -
  let ?s = "sampleVM\<lparr>runtimeCtx := (runtimeCtx sampleVM)\<lparr>readOnly := True\<rparr>\<rparr>"
  let ?i = "\<lparr>cri_VMInput = sampleInput, cri_ContractCode = ''code'', cri_ContractCodeMetadata = []\<rparr>"
  have ro: "readOnly (runtimeCtx ?s)" by simp
  have "CreateNewContract (calleeAt sampleEngine sampleEnv 0) sampleEnv ?i ?s \<noteq> None"
    by (simp add: CreateNewContract_def case_prod_beta DeductInitialGasForIndirectDeployment_def deductInitialGas_def Let_def
      split: option.split)
  then obtain r s' where "CreateNewContract (calleeAt sampleEngine sampleEnv 0) sampleEnv ?i ?s = Some (r, s')" by auto
  with no_deployment_in_readOnly [OF ro this] show ?thesis by blast
qed

end
