(* ===== verification/VMHooksExec.thy ===== *)
theory VMHooksExec
  imports VMHooks HostExecution
begin

text \<open>
  The hooks of \<open>src/vmhost/vmhooks/baseOps.go\<close> that call other contracts: they build a call input from
  the memory of the instance and re-enter the host through \<open>ExecuteOnDestContext\<close>,
  \<open>ExecuteOnSameContext\<close> or \<open>CreateNewContract\<close>, which are the fields of the record \<^typ>\<open>reentry\<close>.
\<close>

subsection \<open>Call inputs from memory\<close>

definition indirectInput :: "address \<Rightarrow> bytes list \<Rightarrow> bigint \<Rightarrow> u64 \<Rightarrow> VMInput" where
  \<comment> \<open>a \<open>vmcommon.VMInput\<close> literal with these four fields set\<close>
  "indirectInput sender args value gas = \<lparr>CallerAddr = sender, Arguments = args, CallValue = value, CallType = DirectCall,
     GasPrice = 0, GasProvided = gas, GasLocked = 0, OriginalTxHash = [], CurrentTxHash = [], PrevTxHash = [], DCDTTransfers = []\<rparr>"

definition prepareIndirectContractCallInput ::
  "env \<Rightarrow> address \<Rightarrow> bigint \<Rightarrow> i64 \<Rightarrow> i32 \<Rightarrow> i32 \<Rightarrow> i32 \<Rightarrow> i32 \<Rightarrow> i32 \<Rightarrow> i32 \<Rightarrow> bool \<Rightarrow> (err + ContractCallInput) hook" where
  "prepareIndirectContractCallInput e sender value gasLimit addressOffset functionOffset functionLength numArguments
       argumentsLengthOffset dataOffset syncExecutionRequired =
     needH (MemLoad addressOffset addressLen) (\<lambda>r. case r of Inl err \<Rightarrow> ret (Inl err) | Inr destination \<Rightarrow>
     readH (\<lambda>s. scAddress (runtimeCtx s)) (\<lambda>self.
     if syncExecutionRequired \<and> \<not> AreInSameShard e self destination then ret (Inl ErrSyncExecutionNotInSameShard)
     else
       needH (MemLoad functionOffset functionLength) (\<lambda>r. case r of Inl err \<Rightarrow> ret (Inl err) | Inr function \<Rightarrow>
       needH (getArgumentsFromMemory numArguments argumentsLengthOffset dataOffset) (\<lambda>r.
       thenH (useGasPerByte DataCopyPerByte (scast (actualLen r)))
       (case r of Inl err \<Rightarrow> ret (Inl err) | Inr args \<Rightarrow>
        readH (BoundGasLimit gasLimit) (\<lambda>gas.
        ret (Inr \<lparr>cci_VMInput = indirectInput sender (fst args) value gas, RecipientAddr = destination, Function = function,
          AllowInitFunction = False\<rparr>)))))))"

definition detectSyncDCDTTransfer :: "env \<Rightarrow> i32 \<Rightarrow> i32 \<Rightarrow> (err + string \<times> bool) hook" where
  "detectSyncDCDTTransfer e functionOffset functionLength =
     (if \<not> IsDCDTFunctionsEnabled e then ret (Inr ([], False))
      else needH (MemLoad functionOffset functionLength) (\<lambda>r. case r of Inl err \<Rightarrow> ret (Inl err) | Inr function \<Rightarrow>
        if function = BuiltInFunctionDCDTTransfer e \<or> function = BuiltInFunctionDCDTNFTTransfer e
        then ret (Inr (function, True)) else ret (Inr ([], False))))"

definition getDestinationAndArguments :: "env \<Rightarrow> i32 \<Rightarrow> i32 \<Rightarrow> i32 \<Rightarrow> i32 \<Rightarrow> (err + address \<times> bytes list) hook" where
  "getDestinationAndArguments e numArguments argumentsLengthOffset addressOffset dataOffset =
     needH (MemLoad addressOffset addressLen) (\<lambda>r. case r of Inl err \<Rightarrow> ret (Inl err) | Inr destination \<Rightarrow>
     readH (\<lambda>s. scAddress (runtimeCtx s)) (\<lambda>self.
     if \<not> AreInSameShard e self destination then ret (Inl ErrSyncExecutionNotInSameShard)
     else needH (getArgumentsFromMemory numArguments argumentsLengthOffset dataOffset) (\<lambda>r.
       case r of Inl err \<Rightarrow> ret (Inl err) | Inr args \<Rightarrow>
       thenH (useGasPerByte DataCopyPerByte (scast (snd args))) (ret (Inr (destination, fst args))))))"

definition withOptionalCall ::
  "i32 \<Rightarrow> (err + ContractCallInput) hook \<Rightarrow> 'a \<Rightarrow> (ContractCallInput option \<Rightarrow> 'a hook) \<Rightarrow> 'a hook" where
  \<comment> \<open>\<open>if functionLength > 0 { contractCallInput, err = prepare(...); if WithFault(err) { return x } }\<close>\<close>
  "withOptionalCall functionLength prepare x k =
     (if sint functionLength > 0 then bindH prepare (\<lambda>r. checkH syncFail r x (\<lambda>input. k (Some input))) else k None)"

subsection \<open>Token transfers with execution\<close>

definition revertTokens :: "env \<Rightarrow> address \<Rightarrow> address \<Rightarrow> bytes \<Rightarrow> u64 \<Rightarrow> int \<Rightarrow> i32 hook" where
  \<comment> \<open>the tokens go back after the execution failed; when that fails too, so does the caller\<close>
  "revertTokens e sender dest tokenID nonce val =
     bindH (ExecuteDCDTTransfer e sender dest tokenID nonce (Some val) AsynchronousCallBack True) (\<lambda>(_, _, err).
     faultH True err 1 (ret 1))"

definition v1_2_transferDCDTNFTExecute ::
  "env \<Rightarrow> reentry \<Rightarrow> i32 \<Rightarrow> i32 \<Rightarrow> i32 \<Rightarrow> i32 \<Rightarrow> i64 \<Rightarrow> i64 \<Rightarrow> i32 \<Rightarrow> i32 \<Rightarrow> i32 \<Rightarrow> i32 \<Rightarrow> i32 \<Rightarrow> i32 hook" where
  "v1_2_transferDCDTNFTExecute e re destOffset tokenIDOffset tokenIDLen valueOffset nonce gasLimit functionOffset functionLength
       numArguments argumentsLengthOffset dataOffset = useApi ''BaseOpsAPICost.TransferValue''
     (readH (\<lambda>s. scAddress (runtimeCtx s)) (\<lambda>sender.
      memLoad baseFail destOffset addressLen 1 (\<lambda>dest.
      memLoad baseFail valueOffset balanceLen 1 (\<lambda>valueBytes.
      memLoad baseFail tokenIDOffset tokenIDLen 1 (\<lambda>tokenIdentifier.
      withOptionalCall functionLength
        (prepareIndirectContractCallInput e sender (Some 0) gasLimit destOffset functionOffset functionLength
           numArguments argumentsLengthOffset dataOffset False) 1 (\<lambda>prepared.
      let contractCallInput = map_option (\<lambda>input. input\<lparr>cci_VMInput := (cci_VMInput input)\<lparr>DCDTTransfers :=
           [\<lparr>DCDTValue = Some (SetBytes valueBytes), DCDTTokenName = tokenIdentifier,
             DCDTTokenType = (if sint nonce > 0 then NonFungible e else Fungible e), DCDTTokenNonce = nonce\<rparr>]\<rparr>\<rparr>) prepared
      in
       bindH (TransferDCDT e dest sender tokenIdentifier nonce (Some (SetBytes valueBytes)) contractCallInput) (\<lambda>(gasLimitForExec, err).
       faultH baseFail err 1
       (case contractCallInput of
          None \<Rightarrow> ret 0
        | Some input \<Rightarrow>
            if AreInSameShard e sender dest \<and> IsSmartContract e dest
            then bindH (re_ExecuteOnDestContext re (input\<lparr>cci_VMInput := (cci_VMInput input)\<lparr>GasProvided := gasLimitForExec\<rparr>\<rparr>)) (\<lambda>r.
                 if dr_err r \<noteq> None then revertTokens e sender dest tokenIdentifier nonce (SetBytes valueBytes) else ret 0)
            else ret 0))))))))"

definition v1_2_transferDCDTExecute ::
  "env \<Rightarrow> reentry \<Rightarrow> i32 \<Rightarrow> i32 \<Rightarrow> i32 \<Rightarrow> i32 \<Rightarrow> i64 \<Rightarrow> i32 \<Rightarrow> i32 \<Rightarrow> i32 \<Rightarrow> i32 \<Rightarrow> i32 \<Rightarrow> i32 hook" where
  "v1_2_transferDCDTExecute e re destOffset tokenIDOffset tokenIDLen valueOffset gasLimit functionOffset functionLength
       numArguments argumentsLengthOffset dataOffset =
     v1_2_transferDCDTNFTExecute e re destOffset tokenIDOffset tokenIDLen valueOffset 0 gasLimit functionOffset functionLength
       numArguments argumentsLengthOffset dataOffset"

definition v1_2_transferValueExecute ::
  "env \<Rightarrow> reentry \<Rightarrow> i32 \<Rightarrow> i32 \<Rightarrow> i64 \<Rightarrow> i32 \<Rightarrow> i32 \<Rightarrow> i32 \<Rightarrow> i32 \<Rightarrow> i32 \<Rightarrow> i32 hook" where
  "v1_2_transferValueExecute e re destOffset valueOffset gasLimit functionOffset functionLength numArguments
       argumentsLengthOffset dataOffset = useApi ''BaseOpsAPICost.TransferValue''
     (readH (\<lambda>s. scAddress (runtimeCtx s)) (\<lambda>send.
      memLoad baseFail destOffset addressLen 1 (\<lambda>dest.
      memLoad baseFail valueOffset balanceLen 1 (\<lambda>valueBytes.
      withOptionalCall functionLength
        (prepareIndirectContractCallInput e send (Some (SetBytes valueBytes)) gasLimit destOffset functionOffset
           functionLength numArguments argumentsLengthOffset dataOffset False) 1 (\<lambda>contractCallInput.
       if (case contractCallInput of None \<Rightarrow> False | Some input \<Rightarrow> IsBuiltinFunctionName e (Function input)) then ret 1
       else if AreInSameShard e send dest \<and> contractCallInput \<noteq> None \<and> IsSmartContract e dest
       then bindH (re_ExecuteOnDestContext re (the contractCallInput)) (\<lambda>r. if dr_err r \<noteq> None then ret 1 else ret 0)
       else bindH (Transfer e dest send gasLimit 0 (Some (SetBytes valueBytes)) (makeCrossShardCallFromInput contractCallInput)
              DirectCall) (\<lambda>err. faultH baseFail err 1 (ret 0)))))))"

definition fillContractCallInputFromArgs :: "ContractCallInput \<Rightarrow> bytes list \<Rightarrow> nat \<Rightarrow> ContractCallInput" where
  "fillContractCallInputFromArgs contractCallInput args startLength =
     (let input = (if length args > startLength then contractCallInput\<lparr>Function := args ! startLength\<rparr> else contractCallInput)
      in if length args > startLength + 1
         then input\<lparr>cci_VMInput := (cci_VMInput input)\<lparr>Arguments := drop (startLength + 1) args\<rparr>\<rparr> else input)"

definition dcdtSwitch ::
  "env \<Rightarrow> address \<Rightarrow> string \<Rightarrow> bytes list \<Rightarrow> ContractCallInput \<Rightarrow> (u64 \<Rightarrow> int \<Rightarrow> u32 \<Rightarrow> ContractCallInput \<Rightarrow> i32 hook) \<Rightarrow> i32 hook" where
  \<comment> \<open>the \<open>switch function\<close> of \<open>doDCDTTransferAndExecuteSynchronously\<close>\<close>
  "dcdtSwitch e destination function args input k =
     (if function = BuiltInFunctionDCDTTransfer e then
        faultH syncFail (if length args < MinLenArgumentsDCDTTransfer e then Some ErrArgOutOfRange else None) 1
        (needH (\<lambda>_. goIndex args 1) (\<lambda>val.
         k 0 (SetBytes val) (Fungible e) (fillContractCallInputFromArgs input args (MinLenArgumentsDCDTTransfer e))))
      else if function = BuiltInFunctionDCDTNFTTransfer e then
        faultH syncFail (if length args < MinLenArgumentsDCDTNFTTransfer e then Some ErrArgOutOfRange else None) 1
        (needH (\<lambda>_. goIndex args 1) (\<lambda>nonce.
         needH (\<lambda>_. goIndex args 2) (\<lambda>val.
         needH (\<lambda>_. goIndex args 3) (\<lambda>dest.
         faultH syncFail (if destination \<noteq> dest then Some ErrFailedTransfer else None) 1
         (k (word_of_int (SetBytes nonce)) (SetBytes val) (NonFungible e)
            (fillContractCallInputFromArgs input args (MinLenArgumentsDCDTNFTTransfer e)))))))
      else faultH syncFail (Some ErrFuncNotFound) 1 (k 0 0 0 input))"

definition doDCDTTransferAndExecuteSynchronously ::
  "env \<Rightarrow> reentry \<Rightarrow> address \<Rightarrow> int \<Rightarrow> string \<Rightarrow> bytes list \<Rightarrow> i64 \<Rightarrow> i32 hook" where
  "doDCDTTransferAndExecuteSynchronously e re destination value function args gasLimit =
     faultH syncFail (if value > 0 then Some ErrTransferValueOnDCDTCall else None) 1
     (faultH syncFail (if length args < 1 then Some ErrArgOutOfRange else None) 1
     (readH (\<lambda>s. scAddress (runtimeCtx s)) (\<lambda>sender.
      readH (BoundGasLimit gasLimit) (\<lambda>gas.
      needH (\<lambda>_. goIndex args 0) (\<lambda>tokenID.
      dcdtSwitch e destination function args
        \<lparr>cci_VMInput = indirectInput sender [] (Some 0) gas, RecipientAddr = destination, Function = [], AllowInitFunction = False\<rparr>
        (\<lambda>nonce dcdtValue tokenType input.
      let input = input\<lparr>cci_VMInput := (cci_VMInput input)\<lparr>DCDTTransfers := [\<lparr>DCDTValue = Some dcdtValue, DCDTTokenName = tokenID,
            DCDTTokenType = tokenType, DCDTTokenNonce = nonce\<rparr>]\<rparr>\<rparr>;
          contractCallInput = (if length (Function input) = 0 then None else Some input)
      in bindH (TransferDCDT e destination sender tokenID nonce (Some dcdtValue) contractCallInput) (\<lambda>(gasLimitForExec, err).
         faultH baseFail err 1
         (if contractCallInput \<noteq> None \<and> IsSmartContract e destination
          then bindH (re_ExecuteOnDestContext re (input\<lparr>cci_VMInput := (cci_VMInput input)\<lparr>GasProvided := gasLimitForExec\<rparr>\<rparr>)) (\<lambda>r.
               bindH (WithFault (dr_err r) syncFail) (\<lambda>failed.
               if failed then revertTokens e sender destination tokenID nonce dcdtValue else ret 0))
          else ret 0))))))))"

subsection \<open>Synchronous execution\<close>

definition v1_2_executeOnSameContext ::
  "env \<Rightarrow> reentry \<Rightarrow> i64 \<Rightarrow> i32 \<Rightarrow> i32 \<Rightarrow> i32 \<Rightarrow> i32 \<Rightarrow> i32 \<Rightarrow> i32 \<Rightarrow> i32 \<Rightarrow> i32 hook" where
  "v1_2_executeOnSameContext e re gasLimit addressOffset valueOffset functionOffset functionLength numArguments
       argumentsLengthOffset dataOffset = useApi ''BaseOpsAPICost.ExecuteOnSameContext''
     (memLoad syncFail valueOffset balanceLen 1 (\<lambda>value.
      readH (\<lambda>s. scAddress (runtimeCtx s)) (\<lambda>sender.
      bindH (prepareIndirectContractCallInput e sender (Some (SetBytes value)) gasLimit addressOffset functionOffset functionLength
               numArguments argumentsLengthOffset dataOffset True) (\<lambda>r.
      checkH syncFail r 1 (\<lambda>contractCallInput.
      if isBuiltInCall e (Function contractCallInput) then ret 1
      else bindH (re_ExecuteOnSameContext re contractCallInput) (\<lambda>(_, err). faultH syncFail err 1 (ret 0)))))))"

definition v1_2_executeOnDestContext ::
  "env \<Rightarrow> reentry \<Rightarrow> i64 \<Rightarrow> i32 \<Rightarrow> i32 \<Rightarrow> i32 \<Rightarrow> i32 \<Rightarrow> i32 \<Rightarrow> i32 \<Rightarrow> i32 \<Rightarrow> i32 hook" where
  "v1_2_executeOnDestContext e re gasLimit addressOffset valueOffset functionOffset functionLength numArguments
       argumentsLengthOffset dataOffset = useApi ''BaseOpsAPICost.ExecuteOnDestContext''
     (memLoad syncFail valueOffset balanceLen 1 (\<lambda>value.
      bindH (detectSyncDCDTTransfer e functionOffset functionLength) (\<lambda>r.
      checkH syncFail r 1 (\<lambda>detected.
      if snd detected then
        bindH (getDestinationAndArguments e numArguments argumentsLengthOffset addressOffset dataOffset) (\<lambda>r.
        checkH syncFail r 1 (\<lambda>target.
        doDCDTTransferAndExecuteSynchronously e re (fst target) (SetBytes value) (fst detected) (snd target) gasLimit))
      else
        readH (\<lambda>s. scAddress (runtimeCtx s)) (\<lambda>sender.
        bindH (prepareIndirectContractCallInput e sender (Some (SetBytes value)) gasLimit addressOffset functionOffset functionLength
                 numArguments argumentsLengthOffset dataOffset True) (\<lambda>r.
        checkH syncFail r 1 (\<lambda>contractCallInput.
        bindH (re_ExecuteOnDestContext re contractCallInput) (\<lambda>r.
        faultH syncFail (dr_err r) 1
        (thenH (UseGas (dr_gasUsedBeforeReset r)) (ret 0))))))))))"

definition v1_2_executeOnDestContextByCaller ::
  "env \<Rightarrow> reentry \<Rightarrow> i64 \<Rightarrow> i32 \<Rightarrow> i32 \<Rightarrow> i32 \<Rightarrow> i32 \<Rightarrow> i32 \<Rightarrow> i32 \<Rightarrow> i32 \<Rightarrow> i32 hook" where
  "v1_2_executeOnDestContextByCaller e re gasLimit addressOffset valueOffset functionOffset functionLength numArguments
       argumentsLengthOffset dataOffset = useApi ''BaseOpsAPICost.ExecuteOnDestContext''
     (memLoad syncFail valueOffset balanceLen 1 (\<lambda>value.
      readH (\<lambda>s. CallerAddr (vmInput (runtimeCtx s))) (\<lambda>sender.
      bindH (prepareIndirectContractCallInput e sender (Some (SetBytes value)) gasLimit addressOffset functionOffset functionLength
               numArguments argumentsLengthOffset dataOffset True) (\<lambda>r.
      checkH syncFail r 1 (\<lambda>contractCallInput.
      if isBuiltInCall e (Function contractCallInput) then ret 1
      else bindH (re_ExecuteOnDestContext re contractCallInput) (\<lambda>r. faultH syncFail (dr_err r) 1 (ret 0)))))))"

definition v1_2_delegateExecution ::
  "env \<Rightarrow> reentry \<Rightarrow> i64 \<Rightarrow> i32 \<Rightarrow> i32 \<Rightarrow> i32 \<Rightarrow> i32 \<Rightarrow> i32 \<Rightarrow> i32 \<Rightarrow> i32 hook" where
  "v1_2_delegateExecution e re gasLimit addressOffset functionOffset functionLength numArguments
       argumentsLengthOffset dataOffset = useApi ''BaseOpsAPICost.DelegateExecution''
     (readH (\<lambda>s. scAddress (runtimeCtx s)) (\<lambda>sender.
      needH (\<lambda>s. CallValue (vmInput (runtimeCtx s))) (\<lambda>value.
      bindH (prepareIndirectContractCallInput e sender (Some value) gasLimit addressOffset functionOffset functionLength
               numArguments argumentsLengthOffset dataOffset True) (\<lambda>r.
      checkH syncFail r 1 (\<lambda>contractCallInput.
      if isBuiltInCall e (Function contractCallInput) then ret 1
      else bindH (re_ExecuteOnSameContext re contractCallInput) (\<lambda>(_, err). faultH syncFail err 1 (ret 0)))))))"

definition v1_2_executeReadOnly ::
  "env \<Rightarrow> reentry \<Rightarrow> i64 \<Rightarrow> i32 \<Rightarrow> i32 \<Rightarrow> i32 \<Rightarrow> i32 \<Rightarrow> i32 \<Rightarrow> i32 \<Rightarrow> i32 hook" where
  "v1_2_executeReadOnly e re gasLimit addressOffset functionOffset functionLength numArguments
       argumentsLengthOffset dataOffset = useApi ''BaseOpsAPICost.ExecuteReadOnly''
     (readH (\<lambda>s. scAddress (runtimeCtx s)) (\<lambda>sender.
      needH (\<lambda>s. CallValue (vmInput (runtimeCtx s))) (\<lambda>value.
      bindH (prepareIndirectContractCallInput e sender (Some value) gasLimit addressOffset functionOffset functionLength
               numArguments argumentsLengthOffset dataOffset True) (\<lambda>r.
      checkH syncFail r 1 (\<lambda>contractCallInput.
      if isBuiltInCall e (Function contractCallInput) then ret 1
      else
        updH (SetReadOnly True)
        (bindH (re_ExecuteOnSameContext re contractCallInput) (\<lambda>(_, err).
        updH (SetReadOnly False)
        (faultH syncFail err 1 (ret 0)))))))))"

definition v1_2_createContract ::
  "env \<Rightarrow> reentry \<Rightarrow> i64 \<Rightarrow> i32 \<Rightarrow> i32 \<Rightarrow> i32 \<Rightarrow> i32 \<Rightarrow> i32 \<Rightarrow> i32 \<Rightarrow> i32 \<Rightarrow> i32 \<Rightarrow> i32 hook" where
  "v1_2_createContract e re gasLimit valueOffset codeOffset codeMetadataOffset n resultOffset numArguments
       argumentsLengthOffset dataOffset =
     thenH (\<lambda>s. UseGas (CreateContract (gasSchedule (meteringCtx s))) s)
     (readH (\<lambda>s. scAddress (runtimeCtx s)) (\<lambda>sender.
      memLoad baseFail valueOffset balanceLen 1 (\<lambda>value.
      memLoad baseFail codeOffset n 1 (\<lambda>code.
      memLoad baseFail codeMetadataOffset (of_nat CodeMetadataLen) 1 (\<lambda>codeMetadata.
      needH (getArgumentsFromMemory numArguments argumentsLengthOffset dataOffset) (\<lambda>r.
      thenH (useGasPerByte DataCopyPerByte (scast (actualLen r)))
      (checkH baseFail r 1 (\<lambda>args.
      readH (BoundGasLimit gasLimit) (\<lambda>gas.
      bindH (re_CreateNewContract re \<lparr>cri_VMInput = indirectInput sender (fst args) (Some (SetBytes value)) gas,
               cri_ContractCode = code, cri_ContractCodeMetadata = codeMetadata\<rparr>) (\<lambda>r.
      case r of Inl err \<Rightarrow> ret 1 | Inr newAddress \<Rightarrow>
      memStore e baseFail resultOffset newAddress 1 (ret 0)))))))))))"

subsection \<open>Relations the hooks respect\<close>

text \<open>The operations of the host that a hook re-enters, beside those that move tokens.\<close>

locale call_relation = write_relation +
  fixes re :: reentry
  assumes destCall: "re_ExecuteOnDestContext re input s = Some (dr, s') \<Longrightarrow> R s s'"
    and sameCall: "re_ExecuteOnSameContext re input s = Some (sr, s') \<Longrightarrow> R s s'"
    and createCall: "re_CreateNewContract re create s = Some (cr, s') \<Longrightarrow> R s s'"
    and tokens: "TransferDCDT e d a tok nonce val callInput s = Some (tr, s') \<Longrightarrow> R s s'"
    and tokensBack: "ExecuteDCDTTransfer e d a tok nonce val ct isRevert s = Some (br, s') \<Longrightarrow> R s s'"
    and mode: "R s (SetReadOnly b s)"
begin

lemma hook_host [hook_rules]:
  "relates R (re_ExecuteOnDestContext re input)" "relates R (re_ExecuteOnSameContext re input)"
  "relates R (re_CreateNewContract re create)" "relates R (TransferDCDT e d a tok nonce val callInput)"
  "relates R (ExecuteDCDTTransfer e d a tok nonce val ct isRevert)"
  by (blast intro: relatesI destCall sameCall createCall tokens tokensBack)+

lemma upd_mode [hook_rules]: "R s (SetReadOnly b s)"
  by (rule mode)

lemma hook_withOptionalCall [hook_rules]:
  "relates R prepare \<Longrightarrow> (\<And>c. relates R (k c)) \<Longrightarrow> relates R (withOptionalCall n prepare x k)"
  unfolding withOptionalCall_def by (intro hook_rules)

lemma hook_inputs [hook_rules]:
  "relates R (prepareIndirectContractCallInput e a' v' u' b' c' d' f' g' h' i')"
  "relates R (detectSyncDCDTTransfer e b' c')" "relates R (getDestinationAndArguments e b' c' d' f')"
  unfolding prepareIndirectContractCallInput_def detectSyncDCDTTransfer_def getDestinationAndArguments_def
  by (intro hook_rules)+

lemma hook_revertTokens [hook_rules]: "relates R (revertTokens e a' b' tok nonce val)"
  unfolding revertTokens_def by (intro hook_rules)

lemma hook_dcdtSwitch [hook_rules]:
  "(\<And>n v t i. relates R (k n v t i)) \<Longrightarrow> relates R (dcdtSwitch e d f args input k)"
  unfolding dcdtSwitch_def by (intro hook_rules)

lemma hook_doDCDT [hook_rules]: "relates R (doDCDTTransferAndExecuteSynchronously e re d val f args g)"
  unfolding doDCDTTransferAndExecuteSynchronously_def by (intro hook_rules)

lemma call_hooks [hook_rules]:
  "relates R (v1_2_transferDCDTNFTExecute e re a' b' c' d' u' v' f' g' h' i' j')"
  "relates R (v1_2_transferValueExecute e re a' b' u' c' d' f' g' h')"
  "relates R (v1_2_executeOnSameContext e re u' a' b' c' d' f' g' h')"
  "relates R (v1_2_executeOnDestContext e re u' a' b' c' d' f' g' h')"
  "relates R (v1_2_executeOnDestContextByCaller e re u' a' b' c' d' f' g' h')"
  "relates R (v1_2_delegateExecution e re u' a' b' c' d' f' g')"
  "relates R (v1_2_executeReadOnly e re u' a' b' c' d' f' g')"
  "relates R (v1_2_createContract e re u' a' b' c' d' f' g' h' i')"
  unfolding v1_2_transferDCDTNFTExecute_def
    v1_2_transferValueExecute_def
    v1_2_executeOnSameContext_def
    v1_2_executeOnDestContext_def
    v1_2_executeOnDestContextByCaller_def
    v1_2_delegateExecution_def
    v1_2_executeReadOnly_def
    v1_2_createContract_def
  by (intro hook_rules)+

lemma transferDCDT_hook [hook_rules]:
  "relates R (v1_2_transferDCDTExecute e re a' b' c' d' u' f' g' h' i' j')"
  unfolding v1_2_transferDCDTExecute_def by (intro hook_rules)

end

end
