(* ===== verification/BigIntOps.thy ===== *)
theory BigIntOps
  imports VMHooks
begin

text \<open>
  \<open>src/vmhost/vmhooks/bigIntOps.go\<close>: arithmetic, bitwise operations and conversions on the big integers a
  contract holds by handle.  \<open>GetOne\<close>, \<open>GetTwo\<close> and \<open>GetThree\<close> return pointers into the table, creating
  the entries that are missing; a method call on such a pointer writes the table.
\<close>

unbundle bit_operations_syntax

subsection \<open>math/big\<close>

fun bitLen_nat :: "nat \<Rightarrow> nat" where
  "bitLen_nat n = (if n = 0 then 0 else Suc (bitLen_nat (n div 2)))"

declare bitLen_nat.simps [simp del]

definition BitLen :: "int \<Rightarrow> nat" where
  "BitLen x = bitLen_nat (nat \<bar>x\<bar>)"

definition Quo :: "int \<Rightarrow> int \<Rightarrow> int" where
  \<comment> \<open>division truncated towards zero\<close>
  "Quo a b = sgn a * sgn b * (\<bar>a\<bar> div \<bar>b\<bar>)"

definition Rem :: "int \<Rightarrow> int \<Rightarrow> int" where
  "Rem a b = sgn a * (\<bar>a\<bar> mod \<bar>b\<bar>)"

definition Div :: "int \<Rightarrow> int \<Rightarrow> int" where
  \<comment> \<open>Euclidean division\<close>
  "Div a b = (if b < 0 then - (a div (- b)) else a div b)"

definition Mod :: "int \<Rightarrow> int \<Rightarrow> int" where
  "Mod a b = a mod \<bar>b\<bar>"

definition IsInt64 :: "int \<Rightarrow> bool" where
  "IsInt64 x \<longleftrightarrow> - (2 ^ 63) \<le> x \<and> x < 2 ^ 63"

definition IsUint64 :: "int \<Rightarrow> bool" where
  "IsUint64 x \<longleftrightarrow> 0 \<le> x \<and> x < 2 ^ 64"

subsection \<open>The table\<close>

definition getOneH :: "i32 \<Rightarrow> (int \<Rightarrow> 'a hook) \<Rightarrow> 'a hook" where
  "getOneH h k s = (case bigInt_GetOne h (bigIntCtx s) of (v, c) \<Rightarrow> k v (s\<lparr>bigIntCtx := c\<rparr>))"

definition getTwoH :: "i32 \<Rightarrow> i32 \<Rightarrow> (int \<Rightarrow> int \<Rightarrow> 'a hook) \<Rightarrow> 'a hook" where
  "getTwoH h1 h2 k s = (case bigInt_GetTwo h1 h2 (bigIntCtx s) of ((v1, v2), c) \<Rightarrow> k v1 v2 (s\<lparr>bigIntCtx := c\<rparr>))"

definition getThreeH :: "i32 \<Rightarrow> i32 \<Rightarrow> i32 \<Rightarrow> (int \<Rightarrow> int \<Rightarrow> int \<Rightarrow> 'a hook) \<Rightarrow> 'a hook" where
  "getThreeH h1 h2 h3 k s =
     (case bigInt_GetThree h1 h2 h3 (bigIntCtx s) of ((v1, v2, v3), c) \<Rightarrow> k v1 v2 v3 (s\<lparr>bigIntCtx := c\<rparr>))"

definition setBigH :: "i32 \<Rightarrow> int \<Rightarrow> 'a hook \<Rightarrow> 'a hook" where
  \<comment> \<open>a method that sets the value behind the pointer of a handle\<close>
  "setBigH h v = updH (\<lambda>s. s\<lparr>bigIntCtx := bigInt_Set h v (bigIntCtx s)\<rparr>)"

definition maxBigIntByteLenForNormalCost :: nat where
  "maxBigIntByteLenForNormalCost = 32"

fun useExtraGasForOperations :: "int list \<Rightarrow> vm \<Rightarrow> vm option" where
  "useExtraGasForOperations [] s = Some s"
| "useExtraGasForOperations (v # vs) s =
     (let byteLen = BitLen v div 8
      in if byteLen > maxBigIntByteLenForNormalCost
         then do { s \<leftarrow> UseGas (MulUint64 (of_nat byteLen) (DataCopyPerByte (baseOperationCost (gasSchedule (meteringCtx s))))) s;
                   useExtraGasForOperations vs s }
         else useExtraGasForOperations vs s)"

subsection \<open>Arguments, storage and balances\<close>

definition v1_2_bigIntGetUnsignedArgument :: "i32 \<Rightarrow> i32 \<Rightarrow> unit hook" where
  "v1_2_bigIntGetUnsignedArgument i destination = useApi ''BigIntAPICost.BigIntGetUnsignedArgument''
     (readH callArguments (\<lambda>args.
      if sint (int32_len args) \<le> sint i then ret ()
      else getOneH destination (\<lambda>_. needH (\<lambda>_. indexArg i args) (\<lambda>arg. setBigH destination (SetBytes arg) (ret ())))))"

definition v1_2_bigIntGetSignedArgument :: "env \<Rightarrow> i32 \<Rightarrow> i32 \<Rightarrow> unit hook" where
  "v1_2_bigIntGetSignedArgument e i destination = useApi ''BigIntAPICost.BigIntGetSignedArgument''
     (readH callArguments (\<lambda>args.
      if sint (int32_len args) \<le> sint i then ret ()
      else getOneH destination (\<lambda>_. needH (\<lambda>_. indexArg i args) (\<lambda>arg. setBigH destination (twos_SetBytes e arg) (ret ())))))"

definition v1_2_bigIntStorageStoreUnsigned :: "env \<Rightarrow> i32 \<Rightarrow> i32 \<Rightarrow> i32 \<Rightarrow> i32 hook" where
  "v1_2_bigIntStorageStoreUnsigned e keyOffset keyLength source = useApi ''BigIntAPICost.BigIntStorageStoreUnsigned''
     (memLoad bigFail keyOffset keyLength 0 (\<lambda>key.
      getOneH source (\<lambda>val.
      bindH (SetStorage e key (Bytes val)) (\<lambda>(storageStatus, err).
      faultH bigFail err (- 1) (ret (storageStatus_int storageStatus))))))"

definition v1_2_bigIntStorageLoadUnsigned :: "env \<Rightarrow> i32 \<Rightarrow> i32 \<Rightarrow> i32 \<Rightarrow> i32 hook" where
  "v1_2_bigIntStorageLoadUnsigned e keyOffset keyLength destination = useApi ''BigIntAPICost.BigIntStorageLoadUnsigned''
     (memLoad bigFail keyOffset keyLength 0 (\<lambda>key.
      bindH (GetStorage e key) (\<lambda>data.
      getOneH destination (\<lambda>_.
      setBigH destination (SetBytes data) (ret (int32_len data))))))"

definition v1_2_bigIntGetCallValue :: "i32 \<Rightarrow> unit hook" where
  "v1_2_bigIntGetCallValue destination = useApi ''BigIntAPICost.BigIntGetCallValue''
     (getOneH destination (\<lambda>_.
      needH (\<lambda>s. CallValue (vmInput (runtimeCtx s))) (\<lambda>val. setBigH destination val (ret ()))))"

definition v1_2_bigIntGetDCDTCallValue :: "i32 \<Rightarrow> unit hook" where
  "v1_2_bigIntGetDCDTCallValue destination = useApi ''BigIntAPICost.BigIntGetCallValue''
     (getOneH destination (\<lambda>_.
      needH (\<lambda>s. DCDTValue (getFirstDCDTTransferIfExist s)) (\<lambda>val. setBigH destination val (ret ()))))"

definition v1_2_bigIntGetExternalBalance :: "env \<Rightarrow> i32 \<Rightarrow> i32 \<Rightarrow> unit hook" where
  "v1_2_bigIntGetExternalBalance e addressOffset result = useApi ''BigIntAPICost.BigIntGetExternalBalance''
     (memLoad bigFail addressOffset addressLen () (\<lambda>a.
      bindH (GetBalance e a) (\<lambda>balance.
      getOneH result (\<lambda>_. setBigH result (SetBytes balance) (ret ())))))"

definition v1_2_bigIntGetDCDTExternalBalance :: "env \<Rightarrow> i32 \<Rightarrow> i32 \<Rightarrow> i32 \<Rightarrow> i64 \<Rightarrow> i32 \<Rightarrow> unit hook" where
  "v1_2_bigIntGetDCDTExternalBalance e addressOffset tokenIDOffset tokenIDLen nonce result =
     useApi ''BigIntAPICost.BigIntGetExternalBalance''
     (bindH (getDCDTDataFromBlockchainHook e addressOffset tokenIDOffset tokenIDLen nonce) (\<lambda>r.
      checkH bigFail r () (\<lambda>dcdtData.
      if dcdtData = None then ret ()
      else getOneH result (\<lambda>_. needH (\<lambda>_. tokenValue dcdtData) (\<lambda>val. setBigH result val (ret ()))))))"

subsection \<open>Creation and conversions\<close>

definition v1_2_bigIntNew :: "i64 \<Rightarrow> i32 hook" where
  "v1_2_bigIntNew smallValue = useApi ''BigIntAPICost.BigIntNew''
     (bindH (\<lambda>s. do { (h, c) \<leftarrow> bigInt_Put smallValue (bigIntCtx s); Some (h, s\<lparr>bigIntCtx := c\<rparr>) }) ret)"

definition v1_2_bigIntUnsignedByteLength :: "i32 \<Rightarrow> i32 hook" where
  "v1_2_bigIntUnsignedByteLength reference = useApi ''BigIntAPICost.BigIntUnsignedByteLength''
     (getOneH reference (\<lambda>val. ret (int32_len (Bytes val))))"

definition v1_2_bigIntSignedByteLength :: "env \<Rightarrow> i32 \<Rightarrow> i32 hook" where
  "v1_2_bigIntSignedByteLength e reference = useApi ''BigIntAPICost.BigIntSignedByteLength''
     (getOneH reference (\<lambda>val. ret (int32_len (twos_ToBytes e val))))"

definition v1_2_bigIntGetUnsignedBytes :: "env \<Rightarrow> i32 \<Rightarrow> i32 \<Rightarrow> i32 hook" where
  "v1_2_bigIntGetUnsignedBytes e reference byteOffset = useApi ''BigIntAPICost.BigIntGetUnsignedBytes''
     (getOneH reference (\<lambda>val.
      memStore e bigFail byteOffset (Bytes val) 0
      (thenH (useGasPerByte DataCopyPerByte (len (Bytes val))) (ret (int32_len (Bytes val))))))"

definition v1_2_bigIntGetSignedBytes :: "env \<Rightarrow> i32 \<Rightarrow> i32 \<Rightarrow> i32 hook" where
  "v1_2_bigIntGetSignedBytes e reference byteOffset = useApi ''BigIntAPICost.BigIntGetSignedBytes''
     (getOneH reference (\<lambda>val.
      memStore e bigFail byteOffset (twos_ToBytes e val) 0
      (thenH (useGasPerByte DataCopyPerByte (len (twos_ToBytes e val))) (ret (int32_len (twos_ToBytes e val))))))"

definition v1_2_bigIntSetUnsignedBytes :: "i32 \<Rightarrow> i32 \<Rightarrow> i32 \<Rightarrow> unit hook" where
  "v1_2_bigIntSetUnsignedBytes destination byteOffset byteLength = useApi ''BigIntAPICost.BigIntSetUnsignedBytes''
     (memLoad bigFail byteOffset byteLength () (\<lambda>bs.
      getOneH destination (\<lambda>_.
      setBigH destination (SetBytes bs)
      (thenH (useGasPerByte DataCopyPerByte (len bs)) (ret ())))))"

definition v1_2_bigIntSetSignedBytes :: "env \<Rightarrow> i32 \<Rightarrow> i32 \<Rightarrow> i32 \<Rightarrow> unit hook" where
  "v1_2_bigIntSetSignedBytes e destination byteOffset byteLength = useApi ''BigIntAPICost.BigIntSetSignedBytes''
     (memLoad bigFail byteOffset byteLength () (\<lambda>bs.
      getOneH destination (\<lambda>_.
      setBigH destination (twos_SetBytes e bs)
      (thenH (useGasPerByte DataCopyPerByte (len bs)) (ret ())))))"

definition v1_2_bigIntIsInt64 :: "i32 \<Rightarrow> i32 hook" where
  "v1_2_bigIntIsInt64 destination = useApi ''BigIntAPICost.BigIntIsInt64''
     (getOneH destination (\<lambda>val. if IsInt64 val then ret 1 else ret 0))"

definition v1_2_bigIntGetInt64 :: "i32 \<Rightarrow> i64 hook" where
  "v1_2_bigIntGetInt64 destination = useApi ''BigIntAPICost.BigIntGetInt64''
     (getOneH destination (\<lambda>val. ret (word_of_int val)))"

definition v1_2_bigIntSetInt64 :: "i32 \<Rightarrow> i64 \<Rightarrow> unit hook" where
  "v1_2_bigIntSetInt64 destination value = useApi ''BigIntAPICost.BigIntSub''
     (getOneH destination (\<lambda>_. setBigH destination (sint value) (ret ())))"

subsection \<open>Arithmetic\<close>

definition v1_2_bigIntAdd :: "i32 \<Rightarrow> i32 \<Rightarrow> i32 \<Rightarrow> unit hook" where
  "v1_2_bigIntAdd destination op1 op2 = useApi ''BigIntAPICost.BigIntSub''
     (getThreeH destination op1 op2 (\<lambda>dest a b.
      thenH (useExtraGasForOperations [dest, a, b]) (setBigH destination (a + b) (ret ()))))"

definition v1_2_bigIntSub :: "i32 \<Rightarrow> i32 \<Rightarrow> i32 \<Rightarrow> unit hook" where
  "v1_2_bigIntSub destination op1 op2 = useApi ''BigIntAPICost.BigIntSub''
     (getThreeH destination op1 op2 (\<lambda>dest a b.
      thenH (useExtraGasForOperations [dest, a, b]) (setBigH destination (a - b) (ret ()))))"

definition v1_2_bigIntMul :: "i32 \<Rightarrow> i32 \<Rightarrow> i32 \<Rightarrow> unit hook" where
  "v1_2_bigIntMul destination op1 op2 = useApi ''BigIntAPICost.BigIntMul''
     (getThreeH destination op1 op2 (\<lambda>dest a b.
      thenH (useExtraGasForOperations [dest, a, b]) (setBigH destination (a * b) (ret ()))))"

definition v1_2_bigIntTDiv :: "i32 \<Rightarrow> i32 \<Rightarrow> i32 \<Rightarrow> unit hook" where
  "v1_2_bigIntTDiv destination op1 op2 = useApi ''BigIntAPICost.BigIntTDiv''
     (getThreeH destination op1 op2 (\<lambda>dest a b.
      thenH (useExtraGasForOperations [dest, a, b])
      (if b = 0 then faultH bigFail (Some ErrDivZero) () (ret ())
       else setBigH destination (Quo a b) (ret ()))))"

definition v1_2_bigIntTMod :: "i32 \<Rightarrow> i32 \<Rightarrow> i32 \<Rightarrow> unit hook" where
  "v1_2_bigIntTMod destination op1 op2 = useApi ''BigIntAPICost.BigIntSub''
     (getThreeH destination op1 op2 (\<lambda>dest a b.
      thenH (useExtraGasForOperations [dest, a, b])
      (if b = 0 then faultH bigFail (Some ErrDivZero) () (ret ())
       else setBigH destination (Rem a b) (ret ()))))"

definition v1_2_bigIntEDiv :: "i32 \<Rightarrow> i32 \<Rightarrow> i32 \<Rightarrow> unit hook" where
  "v1_2_bigIntEDiv destination op1 op2 = useApi ''BigIntAPICost.BigIntSub''
     (getThreeH destination op1 op2 (\<lambda>dest a b.
      thenH (useExtraGasForOperations [dest, a, b])
      (if b = 0 then faultH bigFail (Some ErrDivZero) () (ret ())
       else setBigH destination (Div a b) (ret ()))))"

definition v1_2_bigIntEMod :: "i32 \<Rightarrow> i32 \<Rightarrow> i32 \<Rightarrow> unit hook" where
  "v1_2_bigIntEMod destination op1 op2 = useApi ''BigIntAPICost.BigIntSub''
     (getThreeH destination op1 op2 (\<lambda>dest a b.
      thenH (useExtraGasForOperations [dest, a, b])
      (if b = 0 then faultH bigFail (Some ErrDivZero) () (ret ())
       else setBigH destination (Mod a b) (ret ()))))"

definition v1_2_bigIntAbs :: "i32 \<Rightarrow> i32 \<Rightarrow> unit hook" where
  "v1_2_bigIntAbs destination op = useApi ''BigIntAPICost.BigIntSub''
     (getTwoH destination op (\<lambda>dest a.
      thenH (useExtraGasForOperations [dest, a]) (setBigH destination \<bar>a\<bar> (ret ()))))"

definition v1_2_bigIntNeg :: "i32 \<Rightarrow> i32 \<Rightarrow> unit hook" where
  "v1_2_bigIntNeg destination op = useApi ''BigIntAPICost.BigIntSub''
     (getTwoH destination op (\<lambda>dest a.
      thenH (useExtraGasForOperations [dest, a]) (setBigH destination (- a) (ret ()))))"

definition v1_2_bigIntSign :: "i32 \<Rightarrow> i32 hook" where
  "v1_2_bigIntSign op = useApi ''BigIntAPICost.BigIntSign''
     (getOneH op (\<lambda>a. thenH (useExtraGasForOperations [a]) (ret (of_int (sgn a)))))"

definition v1_2_bigIntCmp :: "i32 \<Rightarrow> i32 \<Rightarrow> i32 hook" where
  "v1_2_bigIntCmp op1 op2 = useApi ''BigIntAPICost.BigIntCmp''
     (getTwoH op1 op2 (\<lambda>a b. thenH (useExtraGasForOperations [a, b]) (ret (of_int (sgn (a - b))))))"

subsection \<open>Bitwise operations\<close>

definition v1_2_bigIntNot :: "i32 \<Rightarrow> i32 \<Rightarrow> unit hook" where
  "v1_2_bigIntNot destination op = useApi ''BigIntAPICost.BigIntSub''
     (getTwoH destination op (\<lambda>dest a.
      thenH (useExtraGasForOperations [dest, a])
      (if a < 0 then faultH bigFail (Some ErrBitwiseNegative) () (ret ())
       else setBigH destination (NOT a) (ret ()))))"

definition v1_2_bigIntAnd :: "i32 \<Rightarrow> i32 \<Rightarrow> i32 \<Rightarrow> unit hook" where
  "v1_2_bigIntAnd destination op1 op2 = useApi ''BigIntAPICost.BigIntSub''
     (getThreeH destination op1 op2 (\<lambda>dest a b.
      thenH (useExtraGasForOperations [a, b])
      (if a < 0 \<or> b < 0 then faultH bigFail (Some ErrBitwiseNegative) () (ret ())
       else setBigH destination (a AND b) (ret ()))))"

definition v1_2_bigIntOr :: "i32 \<Rightarrow> i32 \<Rightarrow> i32 \<Rightarrow> unit hook" where
  "v1_2_bigIntOr destination op1 op2 = useApi ''BigIntAPICost.BigIntSub''
     (getThreeH destination op1 op2 (\<lambda>dest a b.
      thenH (useExtraGasForOperations [a, b])
      (if a < 0 \<or> b < 0 then faultH bigFail (Some ErrBitwiseNegative) () (ret ())
       else setBigH destination (a OR b) (ret ()))))"

definition v1_2_bigIntXor :: "i32 \<Rightarrow> i32 \<Rightarrow> i32 \<Rightarrow> unit hook" where
  "v1_2_bigIntXor destination op1 op2 = useApi ''BigIntAPICost.BigIntSub''
     (getThreeH destination op1 op2 (\<lambda>dest a b.
      thenH (useExtraGasForOperations [a, b])
      (if a < 0 \<or> b < 0 then faultH bigFail (Some ErrBitwiseNegative) () (ret ())
       else setBigH destination (a XOR b) (ret ()))))"

definition v1_2_bigIntShr :: "i32 \<Rightarrow> i32 \<Rightarrow> i32 \<Rightarrow> unit hook" where
  "v1_2_bigIntShr destination op bits = useApi ''BigIntAPICost.BigIntSub''
     (getTwoH destination op (\<lambda>dest a.
      thenH (useExtraGasForOperations [a])
      (if a < 0 \<or> sint bits < 0 then faultH bigFail (Some ErrShiftNegative) () (ret ())
       else let v = drop_bit (unat bits) a
            in setBigH destination v (thenH (useExtraGasForOperations [v]) (ret ())))))"

definition v1_2_bigIntShl :: "i32 \<Rightarrow> i32 \<Rightarrow> i32 \<Rightarrow> unit hook" where
  "v1_2_bigIntShl destination op bits = useApi ''BigIntAPICost.BigIntSub''
     (getTwoH destination op (\<lambda>dest a.
      thenH (useExtraGasForOperations [a])
      (if a < 0 \<or> sint bits < 0 then faultH bigFail (Some ErrShiftNegative) () (ret ())
       else let v = push_bit (unat bits) a
            in setBigH destination v (thenH (useExtraGasForOperations [v]) (ret ())))))"

subsection \<open>Return data\<close>

definition v1_2_bigIntFinishUnsigned :: "i32 \<Rightarrow> unit hook" where
  "v1_2_bigIntFinishUnsigned reference = useApi ''BigIntAPICost.BigIntFinishUnsigned''
     (getOneH reference (\<lambda>val.
      updH (\<lambda>s. s\<lparr>outputCtx := Finish (Bytes val) (outputCtx s)\<rparr>)
      (thenH (useGasPerByte PersistPerByte (len (Bytes val))) (ret ()))))"

definition v1_2_bigIntFinishSigned :: "env \<Rightarrow> i32 \<Rightarrow> unit hook" where
  "v1_2_bigIntFinishSigned e reference = useApi ''BigIntAPICost.BigIntFinishSigned''
     (getOneH reference (\<lambda>val.
      updH (\<lambda>s. s\<lparr>outputCtx := Finish (twos_ToBytes e val) (outputCtx s)\<rparr>)
      (thenH (useGasPerByte PersistPerByte (len (twos_ToBytes e val))) (ret ()))))"

subsection \<open>Relations the hooks respect\<close>

lemma bigInt_values_only:
  "\<exists>v. snd (bigInt_GetOne h c) = c\<lparr>bi_values := v\<rparr>" "\<exists>v. snd (bigInt_GetTwo h h' c) = c\<lparr>bi_values := v\<rparr>"
  "\<exists>v. snd (bigInt_GetThree h h' h'' c) = c\<lparr>bi_values := v\<rparr>" "\<exists>v. bigInt_Set h x c = c\<lparr>bi_values := v\<rparr>"
proof -
  have one: "\<exists>v. snd (bigInt_GetOne h c) = c\<lparr>bi_values := v\<rparr>" for h c
    by (cases c) (auto simp: bigInt_GetOne_def split: option.splits)
  have two: "\<exists>v. snd (bigInt_GetTwo h h' c) = c\<lparr>bi_values := v\<rparr>" for h h' c
    using one [of h c] one [of h' "snd (bigInt_GetOne h c)"] by (auto simp: bigInt_GetTwo_def Let_def case_prod_beta)
  show "\<exists>v. snd (bigInt_GetOne h c) = c\<lparr>bi_values := v\<rparr>" by (rule one)
  show "\<exists>v. snd (bigInt_GetTwo h h' c) = c\<lparr>bi_values := v\<rparr>" by (rule two)
  show "\<exists>v. snd (bigInt_GetThree h h' h'' c) = c\<lparr>bi_values := v\<rparr>"
    using two [of h h' c] one [of h'' "snd (bigInt_GetTwo h h' c)"]
    by (auto simp: bigInt_GetThree_def bigInt_GetTwo_def Let_def case_prod_beta)
  show "\<exists>v. bigInt_Set h x c = c\<lparr>bi_values := v\<rparr>" by (auto simp: bigInt_Set_def)
qed

context hook_relation
begin

lemma bigInt_related: "\<exists>v. c = (bigIntCtx s)\<lparr>bi_values := v\<rparr> \<Longrightarrow> R s (s\<lparr>bigIntCtx := c\<rparr>)"
  using bigInts by auto

lemma hook_getOneH [hook_rules]: "(\<And>v. relates R (k v)) \<Longrightarrow> relates R (getOneH h k)"
  by (rule relatesI) (auto simp: getOneH_def case_prod_beta intro: relates_after [OF bigInt_related [OF bigInt_values_only(1)]])

lemma hook_getTwoH [hook_rules]: "(\<And>v w. relates R (k v w)) \<Longrightarrow> relates R (getTwoH h h' k)"
  by (rule relatesI) (auto simp: getTwoH_def case_prod_beta intro: relates_after [OF bigInt_related [OF bigInt_values_only(2)]])

lemma hook_getThreeH [hook_rules]: "(\<And>v w u. relates R (k v w u)) \<Longrightarrow> relates R (getThreeH h h' h'' k)"
  by (rule relatesI) (auto simp: getThreeH_def case_prod_beta intro: relates_after [OF bigInt_related [OF bigInt_values_only(3)]])

lemma hook_setBigH [hook_rules]: "relates R k \<Longrightarrow> relates R (setBigH h v k)"
  unfolding setBigH_def by (intro relates_updH bigInt_related bigInt_values_only)

lemma step_useExtraGas [hook_rules]: "relates_step R (useExtraGasForOperations vs)"
proof (rule relates_stepI)
  show "useExtraGasForOperations vs s = Some s' \<Longrightarrow> R s s'" for s s'
    by (induction vs arbitrary: s) (auto simp: Let_def bind_Some_iff refl intro: trans gas split: if_splits)
qed

lemma hook_Put [hook_rules]:
  "relates R (\<lambda>s. do { (h, c) \<leftarrow> bigInt_Put v (bigIntCtx s); Some (h, s\<lparr>bigIntCtx := c\<rparr>) })"
  by (rule relatesI) (auto simp: bigInt_Put_def bind_Some_iff intro: bigInts split: option.splits)

lemma bigInt_hooks [hook_rules]:
  "relates R (v1_2_bigIntGetUnsignedArgument a' b')" "relates R (v1_2_bigIntGetSignedArgument e a' b')"
  "relates R (v1_2_bigIntStorageLoadUnsigned e a' b' c')" "relates R (v1_2_bigIntGetCallValue a')"
  "relates R (v1_2_bigIntGetDCDTCallValue a')" "relates R (v1_2_bigIntGetExternalBalance e a' b')"
  "relates R (v1_2_bigIntGetDCDTExternalBalance e a' b' c' u' d')" "relates R (v1_2_bigIntNew u')"
  "relates R (v1_2_bigIntUnsignedByteLength a')" "relates R (v1_2_bigIntSignedByteLength e a')"
  "relates R (v1_2_bigIntGetUnsignedBytes e a' b')" "relates R (v1_2_bigIntGetSignedBytes e a' b')"
  "relates R (v1_2_bigIntSetUnsignedBytes a' b' c')" "relates R (v1_2_bigIntSetSignedBytes e a' b' c')"
  "relates R (v1_2_bigIntIsInt64 a')" "relates R (v1_2_bigIntGetInt64 a')"
  "relates R (v1_2_bigIntSetInt64 a' u')" "relates R (v1_2_bigIntAdd a' b' c')"
  "relates R (v1_2_bigIntSub a' b' c')" "relates R (v1_2_bigIntMul a' b' c')"
  "relates R (v1_2_bigIntTDiv a' b' c')" "relates R (v1_2_bigIntTMod a' b' c')"
  "relates R (v1_2_bigIntEDiv a' b' c')" "relates R (v1_2_bigIntEMod a' b' c')"
  "relates R (v1_2_bigIntAbs a' b')" "relates R (v1_2_bigIntNeg a' b')" "relates R (v1_2_bigIntSign a')"
  "relates R (v1_2_bigIntCmp a' b')" "relates R (v1_2_bigIntNot a' b')" "relates R (v1_2_bigIntAnd a' b' c')"
  "relates R (v1_2_bigIntOr a' b' c')" "relates R (v1_2_bigIntXor a' b' c')"
  "relates R (v1_2_bigIntShr a' b' c')" "relates R (v1_2_bigIntShl a' b' c')"
  "relates R (v1_2_bigIntFinishUnsigned a')" "relates R (v1_2_bigIntFinishSigned e a')"
  unfolding v1_2_bigIntGetUnsignedArgument_def v1_2_bigIntGetSignedArgument_def v1_2_bigIntStorageLoadUnsigned_def
    v1_2_bigIntGetCallValue_def v1_2_bigIntGetDCDTCallValue_def v1_2_bigIntGetExternalBalance_def
    v1_2_bigIntGetDCDTExternalBalance_def v1_2_bigIntNew_def v1_2_bigIntUnsignedByteLength_def
    v1_2_bigIntSignedByteLength_def v1_2_bigIntGetUnsignedBytes_def v1_2_bigIntGetSignedBytes_def
    v1_2_bigIntSetUnsignedBytes_def v1_2_bigIntSetSignedBytes_def v1_2_bigIntIsInt64_def v1_2_bigIntGetInt64_def
    v1_2_bigIntSetInt64_def v1_2_bigIntAdd_def v1_2_bigIntSub_def v1_2_bigIntMul_def v1_2_bigIntTDiv_def
    v1_2_bigIntTMod_def v1_2_bigIntEDiv_def v1_2_bigIntEMod_def v1_2_bigIntAbs_def v1_2_bigIntNeg_def
    v1_2_bigIntSign_def v1_2_bigIntCmp_def v1_2_bigIntNot_def v1_2_bigIntAnd_def v1_2_bigIntOr_def
    v1_2_bigIntXor_def v1_2_bigIntShr_def v1_2_bigIntShl_def v1_2_bigIntFinishUnsigned_def
    v1_2_bigIntFinishSigned_def
  by (intro hook_rules)+

end

context write_relation
begin

lemma bigInt_store_hooks [hook_rules]:
  "relates R (v1_2_bigIntStorageStoreUnsigned e a' b' c')"
  unfolding v1_2_bigIntStorageStoreUnsigned_def
  by (intro hook_rules)+

end

end
