(* ===== verification/SmallIntOps.thy ===== *)
theory SmallIntOps
  imports BigIntOps
begin

text \<open>
  \<open>src/vmhost/vmhooks/smallIntOps.go\<close>: arguments, storage entries and return data as 64-bit integers, signed
  and unsigned.
\<close>

definition v1_2_smallIntGetUnsignedArgument :: "i32 \<Rightarrow> i64 hook" where
  "v1_2_smallIntGetUnsignedArgument i = useApi ''BaseOpsAPICost.Int64GetArgument''
     (readH callArguments (\<lambda>args.
      if sint i < 0 \<or> sint i \<ge> sint (int32_len args) then faultH baseFail (Some ErrArgIndexOutOfRange) 0 (ret 0)
      else needH (\<lambda>_. indexArg i args) (\<lambda>arg.
           let argBigInt = SetBytes arg
           in if \<not> IsUint64 argBigInt then faultH baseFail (Some ErrArgOutOfRange) 0 (ret 0)
              else ret (word_of_int argBigInt))))"

definition v1_2_smallIntGetSignedArgument :: "env \<Rightarrow> i32 \<Rightarrow> i64 hook" where
  "v1_2_smallIntGetSignedArgument e i = useApi ''BaseOpsAPICost.Int64GetArgument''
     (readH callArguments (\<lambda>args.
      if sint i < 0 \<or> sint i \<ge> sint (int32_len args) then faultH baseFail (Some ErrArgIndexOutOfRange) 0 (ret 0)
      else needH (\<lambda>_. indexArg i args) (\<lambda>arg.
           let argBigInt = twos_SetBytes e arg
           in if \<not> IsInt64 argBigInt then faultH baseFail (Some ErrArgOutOfRange) 0 (ret 0)
              else ret (word_of_int argBigInt))))"

definition v1_2_smallIntFinishUnsigned :: "i64 \<Rightarrow> unit hook" where
  "v1_2_smallIntFinishUnsigned value = useApi ''BaseOpsAPICost.Int64Finish''
     (updH (\<lambda>s. s\<lparr>outputCtx := Finish (Bytes (uint value)) (outputCtx s)\<rparr>) (ret ()))"

definition v1_2_smallIntFinishSigned :: "env \<Rightarrow> i64 \<Rightarrow> unit hook" where
  "v1_2_smallIntFinishSigned e value = useApi ''BaseOpsAPICost.Int64Finish''
     (updH (\<lambda>s. s\<lparr>outputCtx := Finish (twos_ToBytes e (sint value)) (outputCtx s)\<rparr>) (ret ()))"

definition v1_2_smallIntStorageStoreUnsigned :: "env \<Rightarrow> i32 \<Rightarrow> i32 \<Rightarrow> i64 \<Rightarrow> i32 hook" where
  "v1_2_smallIntStorageStoreUnsigned e keyOffset keyLength value = useApi ''BaseOpsAPICost.Int64StorageStore''
     (memLoad baseFail keyOffset keyLength (- 1) (\<lambda>key.
      bindH (SetStorage e key (Bytes (uint value))) (\<lambda>(storageStatus, err).
      faultH baseFail err (- 1) (ret (storageStatus_int storageStatus)))))"

definition v1_2_smallIntStorageStoreSigned :: "env \<Rightarrow> i32 \<Rightarrow> i32 \<Rightarrow> i64 \<Rightarrow> i32 hook" where
  "v1_2_smallIntStorageStoreSigned e keyOffset keyLength value = useApi ''BaseOpsAPICost.Int64StorageStore''
     (memLoad baseFail keyOffset keyLength (- 1) (\<lambda>key.
      bindH (SetStorage e key (twos_ToBytes e (sint value))) (\<lambda>(storageStatus, err).
      faultH baseFail err (- 1) (ret (storageStatus_int storageStatus)))))"

definition v1_2_smallIntStorageLoadUnsigned :: "env \<Rightarrow> i32 \<Rightarrow> i32 \<Rightarrow> i64 hook" where
  "v1_2_smallIntStorageLoadUnsigned e keyOffset keyLength = useApi ''BaseOpsAPICost.Int64StorageLoad''
     (memLoad baseFail keyOffset keyLength 0 (\<lambda>key.
      bindH (GetStorage e key) (\<lambda>data.
      let valueBigInt = SetBytes data
      in if \<not> IsUint64 valueBigInt then faultH baseFail (Some ErrStorageValueOutOfRange) 0 (ret 0)
         else ret (word_of_int valueBigInt))))"

definition v1_2_smallIntStorageLoadSigned :: "env \<Rightarrow> i32 \<Rightarrow> i32 \<Rightarrow> i64 hook" where
  "v1_2_smallIntStorageLoadSigned e keyOffset keyLength = useApi ''BaseOpsAPICost.Int64StorageLoad''
     (memLoad baseFail keyOffset keyLength 0 (\<lambda>key.
      bindH (GetStorage e key) (\<lambda>data.
      let valueBigInt = twos_SetBytes e data
      in if \<not> IsInt64 valueBigInt then faultH baseFail (Some ErrStorageValueOutOfRange) 0 (ret 0)
         else ret (word_of_int valueBigInt))))"

definition v1_2_int64getArgument :: "env \<Rightarrow> i32 \<Rightarrow> i64 hook" where
  "v1_2_int64getArgument e i = v1_2_smallIntGetSignedArgument e i"

definition v1_2_int64finish :: "env \<Rightarrow> i64 \<Rightarrow> unit hook" where
  "v1_2_int64finish e value = v1_2_smallIntFinishSigned e value"

definition v1_2_int64storageStore :: "env \<Rightarrow> i32 \<Rightarrow> i32 \<Rightarrow> i64 \<Rightarrow> i32 hook" where
  "v1_2_int64storageStore e keyOffset keyLength value = v1_2_smallIntStorageStoreUnsigned e keyOffset keyLength value"

definition v1_2_int64storageLoad :: "env \<Rightarrow> i32 \<Rightarrow> i32 \<Rightarrow> i64 hook" where
  "v1_2_int64storageLoad e keyOffset keyLength = v1_2_smallIntStorageLoadUnsigned e keyOffset keyLength"

subsection \<open>Relations the hooks respect\<close>

context hook_relation
begin

lemma smallInt_hooks [hook_rules]:
  "relates R (v1_2_smallIntGetUnsignedArgument a')" "relates R (v1_2_smallIntGetSignedArgument e a')"
  "relates R (v1_2_smallIntFinishUnsigned u')" "relates R (v1_2_smallIntFinishSigned e u')"
  "relates R (v1_2_smallIntStorageLoadUnsigned e a' b')" "relates R (v1_2_smallIntStorageLoadSigned e a' b')"
  unfolding v1_2_smallIntGetUnsignedArgument_def v1_2_smallIntGetSignedArgument_def v1_2_smallIntFinishUnsigned_def
    v1_2_smallIntFinishSigned_def v1_2_smallIntStorageLoadUnsigned_def v1_2_smallIntStorageLoadSigned_def
  by (intro hook_rules)+

lemma int64_hooks [hook_rules]:
  "relates R (v1_2_int64getArgument e a')" "relates R (v1_2_int64finish e u')"
  "relates R (v1_2_int64storageLoad e a' b')"
  unfolding v1_2_int64getArgument_def v1_2_int64finish_def v1_2_int64storageLoad_def
  by (intro hook_rules)+

end

context write_relation
begin

lemma smallInt_store_hooks [hook_rules]:
  "relates R (v1_2_smallIntStorageStoreUnsigned e a' b' u')"
  "relates R (v1_2_smallIntStorageStoreSigned e a' b' u')"
  unfolding v1_2_smallIntStorageStoreUnsigned_def v1_2_smallIntStorageStoreSigned_def
  by (intro hook_rules)+

lemma int64_store_hooks [hook_rules]:
  "relates R (v1_2_int64storageStore e a' b' u')"
  unfolding v1_2_int64storageStore_def
  by (intro hook_rules)+

end

end
