(* ===== verification/CryptoAPI.thy ===== *)
theory CryptoAPI
  imports VMHooks
begin

text \<open>
  \<open>src/vmhost/cryptoapi/cryptoei.go\<close>: hashing and signature checks for contracts.  The hash functions and the
  signature schemes themselves (\<open>src/crypto/\<close>) call third-party packages and are fields of \<^typ>\<open>env\<close>.
\<close>

definition blsPublicKeyLength :: i32 where "blsPublicKeyLength = 96"
definition blsSignatureLength :: i32 where "blsSignatureLength = 48"
definition ed25519PublicKeyLength :: i32 where "ed25519PublicKeyLength = 32"
definition ed25519SignatureLength :: i32 where "ed25519SignatureLength = 64"
definition secp256k1CompressedPublicKeyLength :: i32 where "secp256k1CompressedPublicKeyLength = 33"
definition secp256k1UncompressedPublicKeyLength :: i32 where "secp256k1UncompressedPublicKeyLength = 65"

definition hashInto :: "env \<Rightarrow> (bytes \<Rightarrow> err + bytes) \<Rightarrow> string \<Rightarrow> i32 \<Rightarrow> i32 \<Rightarrow> i32 \<Rightarrow> i32 hook" where
  \<comment> \<open>the body the three hashing hooks have in common\<close>
  "hashInto e hash cost dataOffset n resultOffset =
     useApiAndBytes cost DataCopyPerByte (scast n)
     (memLoad cryptoFail dataOffset n 1 (\<lambda>data.
      case hash data of
        Inl _ \<Rightarrow> ret 1
      | Inr result \<Rightarrow> memStore e cryptoFail resultOffset result 1 (ret 0)))"

definition v1_2_sha256 :: "env \<Rightarrow> i32 \<Rightarrow> i32 \<Rightarrow> i32 \<Rightarrow> i32 hook" where
  "v1_2_sha256 e = hashInto e (Sha256 e) ''CryptoAPICost.SHA256''"

definition v1_2_keccak256 :: "env \<Rightarrow> i32 \<Rightarrow> i32 \<Rightarrow> i32 \<Rightarrow> i32 hook" where
  "v1_2_keccak256 e = hashInto e (Keccak256 e) ''CryptoAPICost.Keccak256''"

definition v1_2_ripemd160 :: "env \<Rightarrow> i32 \<Rightarrow> i32 \<Rightarrow> i32 \<Rightarrow> i32 hook" where
  "v1_2_ripemd160 e = hashInto e (Ripemd160 e) ''CryptoAPICost.Ripemd160''"

definition v1_2_verifyBLS :: "env \<Rightarrow> i32 \<Rightarrow> i32 \<Rightarrow> i32 \<Rightarrow> i32 \<Rightarrow> i32 hook" where
  "v1_2_verifyBLS e keyOffset messageOffset messageLength sigOffset = useApi ''CryptoAPICost.VerifyBLS''
     (memLoad cryptoFail keyOffset blsPublicKeyLength 1 (\<lambda>key.
      thenH (useGasPerByte DataCopyPerByte (scast messageLength))
      (memLoad cryptoFail messageOffset messageLength 1 (\<lambda>message.
      memLoad cryptoFail sigOffset blsSignatureLength 1 (\<lambda>sig.
      if VerifyBLS e key message sig \<noteq> None then ret (- 1) else ret 0)))))"

definition v1_2_verifyEd25519 :: "env \<Rightarrow> i32 \<Rightarrow> i32 \<Rightarrow> i32 \<Rightarrow> i32 \<Rightarrow> i32 hook" where
  "v1_2_verifyEd25519 e keyOffset messageOffset messageLength sigOffset = useApi ''CryptoAPICost.VerifyEd25519''
     (memLoad cryptoFail keyOffset ed25519PublicKeyLength 1 (\<lambda>key.
      thenH (useGasPerByte DataCopyPerByte (scast messageLength))
      (memLoad cryptoFail messageOffset messageLength 1 (\<lambda>message.
      memLoad cryptoFail sigOffset ed25519SignatureLength 1 (\<lambda>sig.
      if VerifyEd25519 e key message sig \<noteq> None then ret (- 1) else ret 0)))))"

definition v1_2_verifySecp256k1 :: "env \<Rightarrow> i32 \<Rightarrow> i32 \<Rightarrow> i32 \<Rightarrow> i32 \<Rightarrow> i32 \<Rightarrow> i32 hook" where
  "v1_2_verifySecp256k1 e keyOffset keyLength messageOffset messageLength sigOffset = useApi ''CryptoAPICost.VerifySecp256k1''
     (if keyLength \<noteq> secp256k1CompressedPublicKeyLength \<and> keyLength \<noteq> secp256k1UncompressedPublicKeyLength
      then faultH baseFail (Some ErrInvalidPublicKeySize) 1 (ret 1)
      else
        memLoad cryptoFail keyOffset keyLength 1 (\<lambda>key.
        thenH (useGasPerByte DataCopyPerByte (scast messageLength))
        (memLoad cryptoFail messageOffset messageLength 1 (\<lambda>message.
        memLoad cryptoFail sigOffset 2 1 (\<lambda>sigHeader.
        needH (\<lambda>_. goIndex sigHeader 1) (\<lambda>b.
        memLoad cryptoFail sigOffset (of_nat (of_char b) + 2) 1 (\<lambda>sig.
        if VerifySecp256k1 e key message sig \<noteq> None then ret (- 1) else ret 0)))))))"

subsection \<open>Relations the hooks respect\<close>

context hook_relation
begin

lemma hook_hashInto [hook_rules]: "relates R (hashInto e hash cost dataOffset n resultOffset)"
  unfolding hashInto_def by (intro hook_rules)

lemma hash_hooks [hook_rules]:
  "relates R (v1_2_sha256 e a' b' c')" "relates R (v1_2_keccak256 e a' b' c')" "relates R (v1_2_ripemd160 e a' b' c')"
  unfolding v1_2_sha256_def v1_2_keccak256_def v1_2_ripemd160_def by (intro hook_rules)+

lemma signature_hooks [hook_rules]:
  "relates R (v1_2_verifyBLS e a' b' c' d')" "relates R (v1_2_verifyEd25519 e a' b' c' d')"
  "relates R (v1_2_verifySecp256k1 e a' b' c' d' f')"
  unfolding v1_2_verifyBLS_def v1_2_verifyEd25519_def v1_2_verifySecp256k1_def
  by (intro hook_rules)+

end

end
