(* ===== verification/VMImports.thy ===== *)
theory VMImports
  imports VMHooksExec SmallIntOps CryptoAPI
begin

text \<open>
  The table of functions a contract can import, as \<open>BaseOpsAPIImports\<close>, \<open>BigIntImports\<close>, \<open>SmallIntImports\<close> and
  \<open>CryptoImports\<close> build it and \<open>NewVMHost\<close> installs it, and what a contract can do with it.  The WebAssembly
  values of a call are 64-bit words, from which each hook takes as many of its parameters' width as it has;
  WebAssembly validation admits no other number of arguments, so the adapters give a panic there.
\<close>

subsection \<open>Calling conventions\<close>

type_synonym import_fn = "u64 list \<Rightarrow> u64 hook"

definition arg :: "('h \<Rightarrow> import_fn) \<Rightarrow> ('a::len word \<Rightarrow> 'h) \<Rightarrow> import_fn" where
  "arg g f args = (case args of [] \<Rightarrow> (\<lambda>_. None) | a # rest \<Rightarrow> g (f (ucast a)) rest)"

definition result :: "'r::len word hook \<Rightarrow> import_fn" where
  "result m args = (case args of [] \<Rightarrow> bindH m (\<lambda>x. ret (ucast x)) | _ \<Rightarrow> (\<lambda>_. None))"

definition void :: "unit hook \<Rightarrow> import_fn" where
  "void m args = (case args of [] \<Rightarrow> bindH m (\<lambda>_. ret 0) | _ \<Rightarrow> (\<lambda>_. None))"

subsection \<open>The tables\<close>

definition BaseOpsAPIImports :: "env \<Rightarrow> reentry \<Rightarrow> (string \<times> import_fn) list" where
  "BaseOpsAPIImports e re = [
     (''getSCAddress'', arg void (v1_2_getSCAddress e)),
     (''getOwnerAddress'', arg void (v1_2_getOwnerAddress e)),
     (''getShardOfAddress'', arg result (v1_2_getShardOfAddress e)),
     (''isSmartContract'', arg result (v1_2_isSmartContract e)),
     (''getExternalBalance'', arg (arg void) (v1_2_getExternalBalance e)),
     (''getBlockHash'', arg (arg result) (v1_2_blockHash e)),
     (''transferValue'', arg (arg (arg (arg result))) (v1_2_transferValue e)),
     (''transferDCDTExecute'', arg (arg (arg (arg (arg (arg (arg (arg (arg (arg result))))))))) (v1_2_transferDCDTExecute e re)),
     (''transferDCDTNFTExecute'', arg (arg (arg (arg (arg (arg (arg (arg (arg (arg (arg result)))))))))) (v1_2_transferDCDTNFTExecute e re)),
     (''transferDCDT'', arg (arg (arg (arg (arg (arg (arg result)))))) v1_2_transferDCDT),
     (''transferValueExecute'', arg (arg (arg (arg (arg (arg (arg (arg result))))))) (v1_2_transferValueExecute e re)),
     (''asyncCall'', arg (arg (arg (arg void))) (v1_2_asyncCall e)),
     (''getArgumentLength'', arg result v1_2_getArgumentLength),
     (''getArgument'', arg (arg result) (v1_2_getArgument e)),
     (''getFunction'', arg result (v1_2_getFunction e)),
     (''getNumArguments'', result v1_2_getNumArguments),
     (''storageStore'', arg (arg (arg (arg result))) (v1_2_storageStore e)),
     (''storageLoadLength'', arg (arg result) (v1_2_storageLoadLength e)),
     (''storageLoad'', arg (arg (arg result)) (v1_2_storageLoad e)),
     (''storageLoadFromAddress'', arg (arg (arg (arg result))) (v1_2_storageLoadFromAddress e)),
     (''getStorageLock'', arg (arg result) (v1_2_getStorageLock e)),
     (''setStorageLock'', arg (arg (arg result)) (v1_2_setStorageLock e)),
     (''isStorageLocked'', arg (arg result) (v1_2_isStorageLocked e)),
     (''clearStorageLock'', arg (arg result) (v1_2_clearStorageLock e)),
     (''getCaller'', arg void (v1_2_getCaller e)),
     (''checkNoPayment'', void v1_2_checkNoPayment),
     (''getCallValue'', arg result (v1_2_callValue e)),
     (''getDCDTValue'', arg result (v1_2_getDCDTValue e)),
     (''getDCDTTokenName'', arg result (v1_2_getDCDTTokenName e)),
     (''getDCDTTokenType'', result v1_2_getDCDTTokenType),
     (''getDCDTTokenNonce'', result v1_2_getDCDTTokenNonce),
     (''getCurrentDCDTNFTNonce'', arg (arg (arg result)) (v1_2_getCurrentDCDTNFTNonce e)),
     (''getCallValueTokenName'', arg (arg result) (v1_2_getCallValueTokenName e)),
     (''writeLog'', arg (arg (arg (arg void))) v1_2_writeLog),
     (''writeEventLog'', arg (arg (arg (arg (arg void)))) v1_2_writeEventLog),
     (''finish'', arg (arg void) v1_2_returnData),
     (''signalError'', arg (arg void) v1_2_signalError),
     (''getBlockTimestamp'', result (v1_2_getBlockTimestamp e)),
     (''getBlockNonce'', result (v1_2_getBlockNonce e)),
     (''getBlockRound'', result (v1_2_getBlockRound e)),
     (''getBlockEpoch'', result (v1_2_getBlockEpoch e)),
     (''getBlockRandomSeed'', arg void (v1_2_getBlockRandomSeed e)),
     (''getStateRootHash'', arg void (v1_2_getStateRootHash e)),
     (''getPrevBlockTimestamp'', result (v1_2_getPrevBlockTimestamp e)),
     (''getPrevBlockNonce'', result (v1_2_getPrevBlockNonce e)),
     (''getPrevBlockRound'', result (v1_2_getPrevBlockRound e)),
     (''getPrevBlockEpoch'', result (v1_2_getPrevBlockEpoch e)),
     (''getPrevBlockRandomSeed'', arg void (v1_2_getPrevBlockRandomSeed e)),
     (''getOriginalTxHash'', arg void (v1_2_getOriginalTxHash e)),
     (''getGasLeft'', result v1_2_getGasLeft),
     (''executeOnDestContext'', arg (arg (arg (arg (arg (arg (arg (arg result))))))) (v1_2_executeOnDestContext e re)),
     (''executeOnDestContextByCaller'', arg (arg (arg (arg (arg (arg (arg (arg result))))))) (v1_2_executeOnDestContextByCaller e re)),
     (''executeOnSameContext'', arg (arg (arg (arg (arg (arg (arg (arg result))))))) (v1_2_executeOnSameContext e re)),
     (''delegateExecution'', arg (arg (arg (arg (arg (arg (arg result)))))) (v1_2_delegateExecution e re)),
     (''createContract'', arg (arg (arg (arg (arg (arg (arg (arg (arg result)))))))) (v1_2_createContract e re)),
     (''upgradeContract'', arg (arg (arg (arg (arg (arg (arg (arg (arg void)))))))) v1_2_upgradeContract),
     (''executeReadOnly'', arg (arg (arg (arg (arg (arg (arg result)))))) (v1_2_executeReadOnly e re)),
     (''getNumReturnData'', result v1_2_getNumReturnData),
     (''getReturnDataSize'', arg result v1_2_getReturnDataSize),
     (''getReturnData'', arg (arg result) (v1_2_getReturnData e)),
     (''getDCDTBalance'', arg (arg (arg (arg (arg result)))) (v1_2_getDCDTBalance e)),
     (''getDCDTTokenData'', arg (arg (arg (arg (arg (arg (arg (arg (arg (arg (arg (arg result))))))))))) (v1_2_getDCDTTokenData e)),
     (''getDCDTNFTNameLength'', arg (arg (arg (arg result))) (v1_2_getDCDTNFTNameLength e)),
     (''getDCDTNFTAttributeLength'', arg (arg (arg (arg result))) (v1_2_getDCDTNFTAttributeLength e)),
     (''getDCDTNFTURILength'', arg (arg (arg (arg result))) (v1_2_getDCDTNFTURILength e))]"

definition BigIntImports :: "env \<Rightarrow> (string \<times> import_fn) list" where
  "BigIntImports e = [
     (''bigIntNew'', arg result v1_2_bigIntNew),
     (''bigIntUnsignedByteLength'', arg result v1_2_bigIntUnsignedByteLength),
     (''bigIntSignedByteLength'', arg result (v1_2_bigIntSignedByteLength e)),
     (''bigIntGetUnsignedBytes'', arg (arg result) (v1_2_bigIntGetUnsignedBytes e)),
     (''bigIntGetSignedBytes'', arg (arg result) (v1_2_bigIntGetSignedBytes e)),
     (''bigIntSetUnsignedBytes'', arg (arg (arg void)) v1_2_bigIntSetUnsignedBytes),
     (''bigIntSetSignedBytes'', arg (arg (arg void)) (v1_2_bigIntSetSignedBytes e)),
     (''bigIntIsInt64'', arg result v1_2_bigIntIsInt64),
     (''bigIntGetInt64'', arg result v1_2_bigIntGetInt64),
     (''bigIntSetInt64'', arg (arg void) v1_2_bigIntSetInt64),
     (''bigIntAdd'', arg (arg (arg void)) v1_2_bigIntAdd),
     (''bigIntSub'', arg (arg (arg void)) v1_2_bigIntSub),
     (''bigIntMul'', arg (arg (arg void)) v1_2_bigIntMul),
     (''bigIntTDiv'', arg (arg (arg void)) v1_2_bigIntTDiv),
     (''bigIntTMod'', arg (arg (arg void)) v1_2_bigIntTMod),
     (''bigIntEDiv'', arg (arg (arg void)) v1_2_bigIntEDiv),
     (''bigIntEMod'', arg (arg (arg void)) v1_2_bigIntEMod),
     (''bigIntAbs'', arg (arg void) v1_2_bigIntAbs),
     (''bigIntNeg'', arg (arg void) v1_2_bigIntNeg),
     (''bigIntSign'', arg result v1_2_bigIntSign),
     (''bigIntCmp'', arg (arg result) v1_2_bigIntCmp),
     (''bigIntNot'', arg (arg void) v1_2_bigIntNot),
     (''bigIntAnd'', arg (arg (arg void)) v1_2_bigIntAnd),
     (''bigIntOr'', arg (arg (arg void)) v1_2_bigIntOr),
     (''bigIntXor'', arg (arg (arg void)) v1_2_bigIntXor),
     (''bigIntShr'', arg (arg (arg void)) v1_2_bigIntShr),
     (''bigIntShl'', arg (arg (arg void)) v1_2_bigIntShl),
     (''bigIntFinishUnsigned'', arg void v1_2_bigIntFinishUnsigned),
     (''bigIntFinishSigned'', arg void (v1_2_bigIntFinishSigned e)),
     (''bigIntStorageStoreUnsigned'', arg (arg (arg result)) (v1_2_bigIntStorageStoreUnsigned e)),
     (''bigIntStorageLoadUnsigned'', arg (arg (arg result)) (v1_2_bigIntStorageLoadUnsigned e)),
     (''bigIntGetUnsignedArgument'', arg (arg void) v1_2_bigIntGetUnsignedArgument),
     (''bigIntGetSignedArgument'', arg (arg void) (v1_2_bigIntGetSignedArgument e)),
     (''bigIntGetCallValue'', arg void v1_2_bigIntGetCallValue),
     (''bigIntGetDCDTCallValue'', arg void v1_2_bigIntGetDCDTCallValue),
     (''bigIntGetDCDTExternalBalance'', arg (arg (arg (arg (arg void)))) (v1_2_bigIntGetDCDTExternalBalance e)),
     (''bigIntGetExternalBalance'', arg (arg void) (v1_2_bigIntGetExternalBalance e))]"

definition SmallIntImports :: "env \<Rightarrow> (string \<times> import_fn) list" where
  "SmallIntImports e = [
     (''smallIntGetUnsignedArgument'', arg result v1_2_smallIntGetUnsignedArgument),
     (''smallIntGetSignedArgument'', arg result (v1_2_smallIntGetSignedArgument e)),
     (''smallIntFinishUnsigned'', arg void v1_2_smallIntFinishUnsigned),
     (''smallIntFinishSigned'', arg void (v1_2_smallIntFinishSigned e)),
     (''smallIntStorageStoreUnsigned'', arg (arg (arg result)) (v1_2_smallIntStorageStoreUnsigned e)),
     (''smallIntStorageStoreSigned'', arg (arg (arg result)) (v1_2_smallIntStorageStoreSigned e)),
     (''smallIntStorageLoadUnsigned'', arg (arg result) (v1_2_smallIntStorageLoadUnsigned e)),
     (''smallIntStorageLoadSigned'', arg (arg result) (v1_2_smallIntStorageLoadSigned e)),
     (''int64getArgument'', arg result (v1_2_int64getArgument e)),
     (''int64storageStore'', arg (arg (arg result)) (v1_2_int64storageStore e)),
     (''int64storageLoad'', arg (arg result) (v1_2_int64storageLoad e)),
     (''int64finish'', arg void (v1_2_int64finish e))]"

definition CryptoImports :: "env \<Rightarrow> (string \<times> import_fn) list" where
  "CryptoImports e = [
     (''sha256'', arg (arg (arg result)) (v1_2_sha256 e)),
     (''keccak256'', arg (arg (arg result)) (v1_2_keccak256 e)),
     (''ripemd160'', arg (arg (arg result)) (v1_2_ripemd160 e)),
     (''verifyBLS'', arg (arg (arg (arg result))) (v1_2_verifyBLS e)),
     (''verifyEd25519'', arg (arg (arg (arg result))) (v1_2_verifyEd25519 e)),
     (''verifySecp256k1'', arg (arg (arg (arg (arg result)))) (v1_2_verifySecp256k1 e))]"

definition GetAPIMethods :: "env \<Rightarrow> reentry \<Rightarrow> (string \<times> import_fn) list" where
  "GetAPIMethods e re = BaseOpsAPIImports e re @ BigIntImports e @ SmallIntImports e @ CryptoImports e"

definition callingImports :: "string list" where
  \<comment> \<open>the imports that re-enter the host or move tokens\<close>
  "callingImports = [''transferDCDTExecute'', ''transferDCDTNFTExecute'', ''transferValueExecute'', ''executeOnDestContext'',
     ''executeOnDestContextByCaller'', ''executeOnSameContext'', ''delegateExecution'', ''createContract'', ''executeReadOnly'']"

subsection \<open>Relations the imports respect\<close>

definition relates_import :: "(vm \<Rightarrow> vm \<Rightarrow> bool) \<Rightarrow> import_fn \<Rightarrow> bool" where
  "relates_import R h \<longleftrightarrow> (\<forall>args. relates R (h args))"

lemma relates_importD: "relates_import R h \<Longrightarrow> h args s = Some (x, s') \<Longrightarrow> R s s'"
  by (auto simp: relates_import_def dest: relatesD)

lemma list_all_Nil: "list_all P []"
  by simp

lemma relates_panic: "relates R (\<lambda>_. None)"
  by (simp add: relates_def)

lemma relates_arg [hook_rules]: "(\<And>a. relates_import R (g (f a))) \<Longrightarrow> relates_import R (arg g f)"
  by (auto simp: relates_import_def arg_def relates_panic split: list.split)

context hook_relation
begin

lemma relates_result [hook_rules]: "relates R m \<Longrightarrow> relates_import R (result m)"
  by (auto simp: relates_import_def result_def relates_panic split: list.split intro!: relates_bindH relates_ret)

lemma relates_void [hook_rules]: "relates R m \<Longrightarrow> relates_import R (void m)"
  by (auto simp: relates_import_def void_def relates_panic split: list.split intro!: relates_bindH relates_ret)

end

context write_relation
begin

lemma plain_imports:
  "list_all (\<lambda>(name, h). name \<notin> set callingImports \<longrightarrow> relates_import R h) (BaseOpsAPIImports e re)"
  unfolding BaseOpsAPIImports_def list.pred_inject(2) prod.case
  by (intro conjI list_all_Nil; (intro impI hook_rules)?; simp add: callingImports_def)

lemma number_imports:
  "list_all (\<lambda>(name, h). relates_import R h) (BigIntImports e)"
  "list_all (\<lambda>(name, h). relates_import R h) (SmallIntImports e)"
  "list_all (\<lambda>(name, h). relates_import R h) (CryptoImports e)"
  unfolding BigIntImports_def SmallIntImports_def CryptoImports_def list.pred_inject(2) prod.case
  by (intro conjI list_all_Nil hook_rules)+

end

context call_relation
begin

lemma base_imports: "list_all (\<lambda>(name, h). relates_import R h) (BaseOpsAPIImports e re)"
  unfolding BaseOpsAPIImports_def list.pred_inject(2) prod.case by (intro conjI list_all_Nil hook_rules)

end

end
