(* ===== verification/HostStacks.thy ===== *)
theory HostStacks
  imports HostExecution
begin

text \<open>
  Nothing the host does between saving and restoring the contexts changes what was saved: every
  operation leaves the five state stacks, the instance stack and its limit as it found them, provided the
  contracts do (\<open>balancedEngine\<close>).
\<close>

definition stacks :: "vm \<Rightarrow> (i32, int) gomap list \<times> VMOutput list \<times> meteringState list \<times> address list \<times>
    runtimeState list \<times> inst_ref option list \<times> u64" where
  \<comment> \<open>with the limit on the instance stack\<close>
  "stacks s = (bigInt_stateStack (bigIntCtx s), output_stateStack (outputCtx s), metering_stateStack (meteringCtx s),
     storage_stateStack (storageCtx s), runtime_stateStack (runtimeCtx s), instanceStack (runtimeCtx s),
     maxWasmerInstances (runtimeCtx s))"

named_theorems stack_simps \<open>operations that leave the stacks alone\<close>
named_theorems stack_dest \<open>the same for operations that may panic\<close>

subsection \<open>Contexts\<close>

lemma stacks_upd [stack_simps]:
  "stacks (updInstance r f s) = stacks s" "stacks (s\<lparr>hookLog := l\<rparr>) = stacks s"
  "stacks (setInst i s) = stacks s" "stacks (allocInstance j s) = stacks s" "stacks (setWarm s) = stacks s"
  "stacks (CleanWasmerInstance s) = stacks s" "stacks (MustVerifyNextContractCode s) = stacks s"
  "stacks (SetCustomCallFunction g s) = stacks s" "stacks (SetAsyncCallInfo a s) = stacks s"
  "stacks (SetTotalUsedGas u s) = stacks s" "stacks (ForwardGas x y u s) = stacks s"
  "stacks (setAsyncContextInfo info s) = stacks s" "stacks (setStorageAddress s) = stacks s"
  "stacks (setReturnCode code s) = stacks s" "stacks (computeGasUsedBefore s) = stacks s"
  "stacks (host_setAccount b acc s) = stacks s" "stacks (setGasRemaining u s) = stacks s"
  by (simp_all add: stacks_def updInstance_def setInst_def allocInstance_def setWarm_def CleanWasmerInstance_def
    MustVerifyNextContractCode_def SetCustomCallFunction_def SetAsyncCallInfo_def SetTotalUsedGas_def
    setAsyncContextInfo_def setStorageAddress_def SetAddress_def setReturnCode_def SetReturnCode_def
    computeGasUsedBefore_def host_setAccount_def setAccount_def setGasRemaining_def split: option.splits)

lemma stacks_output [stack_simps]:
  "output_stateStack (f (outputCtx s)) = output_stateStack (outputCtx s) \<Longrightarrow> stacks (s\<lparr>outputCtx := f (outputCtx s)\<rparr>) = stacks s"
  by (simp add: stacks_def)

lemma output_stack_frame [simp]:
  "output_stateStack (SetReturnCode code c) = output_stateStack c"
  "output_stateStack (SetReturnMessage m c) = output_stateStack c"
  "output_stateStack (SetRefund g c) = output_stateStack c"
  "output_stateStack (Finish d c) = output_stateStack c"
  "output_stateStack (PrependFinish d c) = output_stateStack c"
  "output_stateStack (DeployCode i c) = output_stateStack c"
  "output_stateStack (DeleteOutputAccount a c) = output_stateStack c"
  "output_stateStack (snd (GetOutputAccount a c)) = output_stateStack c"
  by (simp_all add: SetReturnCode_def SetReturnMessage_def SetRefund_def Finish_def PrependFinish_def DeployCode_def
    DeleteOutputAccount_def GetOutputAccount_def setAccount_def Let_def split: option.splits prod.splits)

lemma stacks_SetPointsUsed [stack_dest]: "SetPointsUsed g s = Some s' \<Longrightarrow> stacks s' = stacks s"
  by (auto simp: SetPointsUsed_def bind_Some_iff Let_def stack_simps)

lemma stacks_UseGas [stack_dest]: "UseGas g s = Some s' \<Longrightarrow> stacks s' = stacks s"
  by (auto simp: UseGas_def dest: stack_dest)

lemma stacks_RestoreGas [stack_dest]: "RestoreGas g s = Some s' \<Longrightarrow> stacks s' = stacks s"
  by (auto simp: RestoreGas_def Let_def dest: stack_dest split: if_splits)

lemma stacks_FreeGas [stack_dest]: "FreeGas g s = Some s' \<Longrightarrow> stacks s' = stacks s"
  by (auto simp: FreeGas_def bind_Some_iff stacks_def)

lemma stacks_UseGasBounded [stack_dest]: "UseGasBounded g s = Some (r, s') \<Longrightarrow> stacks s' = stacks s"
  by (auto simp: UseGasBounded_def bind_Some_iff dest: stack_dest split: if_splits)

lemma stacks_breakpoint [stack_dest]: "SetRuntimeBreakpointValue b s = Some s' \<Longrightarrow> stacks s' = stacks s"
  by (auto simp: SetRuntimeBreakpointValue_def bind_Some_iff stack_simps)

lemma stacks_FailExecution [stack_dest]: "FailExecution err s = Some s' \<Longrightarrow> stacks s' = stacks s"
  by (auto simp: FailExecution_def Let_def stacks_def dest!: stacks_breakpoint)

lemma stacks_failWith [stack_dest]: "failWith err s = Some s' \<Longrightarrow> stacks s' = stacks s"
  by (auto simp: failWith_def bind_Some_iff dest!: stack_dest)

lemma stacks_SetVMInput [stack_dest]: "SetVMInput v s = Some s' \<Longrightarrow> stacks s' = stacks s"
  by (auto simp: SetVMInput_def bind_Some_iff stacks_def)

lemma stacks_InitStateFromContractCallInput [stack_dest]:
  "runtime_InitStateFromContractCallInput i s = Some s' \<Longrightarrow> stacks s' = stacks s"
  by (auto simp: runtime_InitStateFromContractCallInput_def SetVMInput_def bind_Some_iff stacks_def)

lemma stacks_ExtractCode [stack_dest]: "ExtractCodeUpgradeFromArgs s = (r, s') \<Longrightarrow> stacks s' = stacks s"
  by (auto simp: ExtractCodeUpgradeFromArgs_def stacks_def split: list.splits)

lemma stacks_only_accounts: "only_accounts s s' \<Longrightarrow> stacks s' = stacks s"
  by (simp add: stacks_def only_accounts_frame)

lemma stacks_GetOutputAccount [stack_dest]: "host_GetOutputAccount a s = (r, s') \<Longrightarrow> stacks s' = stacks s"
  using only_accounts_get [of s a] by (auto dest: stacks_only_accounts)

lemma stacks_GetBalanceBigInt [stack_dest]: "GetBalanceBigInt e a s = Some (r, s') \<Longrightarrow> stacks s' = stacks s"
  by (auto simp: GetBalanceBigInt_def bind_Some_iff Let_def stack_simps dest!: stack_dest
    split: prod.splits if_splits option.splits sum.splits)

lemma stacks_GetNonce [stack_dest]: "GetNonce e a s = (r, s') \<Longrightarrow> stacks s' = stacks s"
  by (auto simp: GetNonce_def Let_def stack_simps dest!: stack_dest
    split: prod.splits if_splits option.splits sum.splits)

lemma stacks_GetCode [stack_dest]: "GetCode e a s = (r, s') \<Longrightarrow> stacks s' = stacks s"
  by (auto simp: GetCode_def Let_def stack_simps dest!: stack_dest
    split: prod.splits if_splits option.splits sum.splits)

lemma stacks_NewAddress [stack_dest]: "NewAddress e a s = (r, s') \<Longrightarrow> stacks s' = stacks s"
  by (auto simp: NewAddress_def Let_def stack_simps dest!: stack_dest split: prod.splits option.splits)

lemma stacks_IncreaseNonce [stack_simps]: "stacks (IncreaseNonce e a s) = stacks s"
  by (auto simp: IncreaseNonce_def Let_def stack_simps dest!: stack_dest split: prod.splits)

lemma stacks_GetSCCode [stack_dest]: "GetSCCode e s = (r, s') \<Longrightarrow> stacks s' = stacks s"
  by (auto simp: GetSCCode_def dest!: stack_dest split: prod.splits sum.splits) (simp_all add: stacks_def)

lemma stacks_addToDelta [stack_dest]: "addToDelta a v s = Some s' \<Longrightarrow> stacks s' = stacks s"
  by (auto simp: addToDelta_def bind_Some_iff stack_simps)

lemma stacks_moveValue [stack_dest]: "moveValue d a v s = Some s' \<Longrightarrow> stacks s' = stacks s"
  by (auto simp: moveValue_def bind_Some_iff Let_def dest!: stack_dest split: prod.splits)

lemma stacks_TransferValueOnly [stack_dest]: "TransferValueOnly e d a v b s = Some (r, s') \<Longrightarrow> stacks s' = stacks s"
  by (auto dest!: TransferValueOnly_SomeD stack_dest)

lemma stacks_appendTransfer [stack_simps]: "stacks (appendTransfer a t s) = stacks s"
  by (auto simp: appendTransfer_def stack_simps dest!: stack_dest split: prod.splits)

lemma stacks_Transfer [stack_dest]: "Transfer e d a g l v i t s = Some (r, s') \<Longrightarrow> stacks s' = stacks s"
  by (auto simp: Transfer_def bind_Some_iff Let_def stack_simps dest!: stack_dest split: option.splits)

lemma stacks_GasUsedByContract [stack_dest]: "GasUsedByContract e s = (r, s') \<Longrightarrow> stacks s' = stacks s"
  using getTotalForwardedGas_frame(5) [of "scAddress (runtimeCtx s)" "meteringCtx s"]
  by (auto simp: GasUsedByContract_def Let_def stacks_def split: prod.splits)

lemma stacks_GasUsedForExecution [stack_dest]: "GasUsedForExecution e s = (r, s') \<Longrightarrow> stacks s' = stacks s"
  by (auto simp: GasUsedForExecution_def dest!: stack_dest split: prod.splits)

lemma stacks_checkGas [stack_dest]: "checkGas e g s = (r, s') \<Longrightarrow> stacks s' = stacks s"
  by (auto simp: checkGas_def Let_def stack_simps split: prod.splits if_splits)

lemma stacks_finishOutput [stack_dest]: "finishOutput e g s = (r, s') \<Longrightarrow> stacks s' = stacks s"
  by (auto simp: finishOutput_def Let_def dest!: stack_dest split: prod.splits option.splits) (simp_all add: stacks_def)

lemma stacks_GetVMOutput [stack_dest]: "GetVMOutput e s = (r, s') \<Longrightarrow> stacks s' = stacks s"
  by (auto simp: GetVMOutput_def Let_def stack_simps dest!: stack_dest split: prod.splits if_splits)

lemma stacks_AddToActiveState [stack_dest]:
  "AddToActiveState out c = Some c' \<Longrightarrow> output_stateStack c' = output_stateStack c"
  by (auto simp: AddToActiveState_def bind_Some_iff Let_def)

subsection \<open>Storage and instances\<close>

lemma stacks_GetStorageUpdates [stack_dest]: "GetStorageUpdates a s = (r, s') \<Longrightarrow> stacks s' = stacks s"
  by (auto simp: GetStorageUpdates_def dest!: stack_dest split: prod.splits)

lemma stacks_putStorageUpdate [stack_simps]: "stacks (putStorageUpdate a k u s) = stacks s"
  by (auto simp: putStorageUpdate_def stack_simps dest!: stack_dest split: prod.splits)

lemma stacks_GetStorageUnmetered [stack_dest]: "GetStorageUnmetered e k s = (r, s') \<Longrightarrow> stacks s' = stacks s"
  by (auto simp: GetStorageUnmetered_def getStorageFromAddressUnmetered_def Let_def stack_simps dest!: stack_dest
    split: prod.splits option.splits)

lemma stacks_useGasPerByte [stack_dest]: "useGasPerByte c n s = Some s' \<Longrightarrow> stacks s' = stacks s"
  by (auto simp: useGasPerByte_def dest: stack_dest)

lemma stacks_freeGasPerByte [stack_dest]: "freeGasPerByte c n s = Some s' \<Longrightarrow> stacks s' = stacks s"
  by (auto simp: freeGasPerByte_def dest: stack_dest)

lemma stacks_useGasForExtraKeyBytes [stack_dest]: "useGasForExtraKeyBytes key s = Some s' \<Longrightarrow> stacks s' = stacks s"
  by (auto simp: useGasForExtraKeyBytes_def dest: stack_dest split: if_splits)

lemma stacks_chargeModified [stack_dest]: "chargeModified n m s = Some s' \<Longrightarrow> stacks s' = stacks s"
  by (auto simp: chargeModified_def bind_Some_iff Let_def dest!: stack_dest split: if_splits)

lemma stacks_readOld [stack_dest]: "readOld e k s = (r, s') \<Longrightarrow> stacks s' = stacks s"
  by (auto simp: readOld_def Let_def stack_simps dest!: stack_dest split: prod.splits option.splits)

lemma stacks_writeNew [stack_dest]: "writeNew a k old v s = Some (r, s') \<Longrightarrow> stacks s' = stacks s"
  by (auto simp: writeNew_def bind_Some_iff Let_def stack_simps dest!: stack_dest split: if_splits)

lemmas stacks_readOld_snd [stack_simps] = stacks_readOld [OF surjective_pairing]

lemma stacks_SetStorage [stack_dest]:
  assumes "SetStorage e k v s = Some (r, s')"
  shows "stacks s' = stacks s"
proof (cases "mayWrite (storageConfig s) k")
  case True
  with assms show ?thesis
    by (auto simp: SetStorage_accepted bind_Some_iff case_prod_beta stack_simps dest!: stack_dest)
next
  case False
  with assms SetStorage_refused [of s k e v] show ?thesis by auto
qed

lemma stacks_SetProtectedStorage [stack_dest]: "SetProtectedStorage e k v s = Some (r, s') \<Longrightarrow> stacks s' = stacks s"
  by (auto simp: SetProtectedStorage_def bind_Some_iff dest!: stacks_SetStorage) (simp add: stacks_def)

lemma stacks_VerifyContractCode [stack_dest]: "VerifyContractCode e s = Some (r, s') \<Longrightarrow> stacks s' = stacks s"
  by (auto simp: VerifyContractCode_def bind_Some_iff Let_def split: if_splits option.splits) (simp_all add: stacks_def)

lemma stacks_setWarmInstance [stack_dest]: "setWarmInstanceWhenNeeded g s = Some (r, s') \<Longrightarrow> stacks s' = stacks s"
  by (auto simp: setWarmInstanceWhenNeeded_def bind_Some_iff Let_def stack_simps dest!: stack_dest split: if_splits)

lemma stacks_compiled [stack_dest]: "makeInstanceFromCompiledCode e h g b s = (r, s') \<Longrightarrow> stacks s' = stacks s"
  by (auto simp: makeInstanceFromCompiledCode_def Let_def split: if_splits option.splits sum.splits)
    (simp_all add: stacks_def allocInstance_def)

lemma stacks_saveCompiledCode [stack_dest]:
  assumes "saveCompiledCode e h s = Some s'"
  shows "stacks s' = stacks s"
proof -
  from assms obtain r where "inst (runtimeCtx s) = Some r" by (auto simp: saveCompiledCode_def bind_Some_iff)
  with assms show ?thesis
    by (cases "wasmer_Cache e (instances s r)") (auto simp: saveCompiledCode_def stack_simps)
qed

lemma stacks_byteCode [stack_dest]:
  assumes "makeInstanceFromContractByteCode e c h g b s = Some (r, s')"
  shows "stacks s' = stacks s"
proof (cases "wasmer_NewInstance e c g")
  case (Inl err)
  with assms show ?thesis by (auto simp: makeInstanceFromContractByteCode_def stack_simps)
next
  case (Inr i)
  show ?thesis
  proof (cases "if b \<or> length h = 0 then Sha256 e c else Inr h")
    case (Inl err)
    with assms Inr show ?thesis by (auto simp: makeInstanceFromContractByteCode_def Let_def stack_simps)
  next
    case h: (Inr h')
    with assms Inr show ?thesis
      by (auto simp: makeInstanceFromContractByteCode_def Let_def bind_Some_iff stack_simps dest!: stack_dest
        split: if_splits option.splits)
  qed
qed

lemma stacks_StartWasmerInstance [stack_dest]: "StartWasmerInstance e c g b s = Some (r, s') \<Longrightarrow> stacks s' = stacks s"
  by (auto simp: StartWasmerInstance_def bind_Some_iff Let_def stack_simps dest!: stack_dest
    split: if_splits prod.splits)

subsection \<open>Built-in functions\<close>

lemma stacks_ProcessBuiltInFunction [stack_dest]: "ProcessBuiltInFunction e i s = (r, s') \<Longrightarrow> stacks s' = stacks s"
  by (auto simp: ProcessBuiltInFunction_def stack_simps)

lemma stacks_computeGas [stack_dest]: "computeGasUsedInExecutionBeforeReset e i s = (r, s') \<Longrightarrow> stacks s' = stacks s"
  by (auto simp: computeGasUsedInExecutionBeforeReset_def dest!: stack_dest split: prod.splits)

lemma stacks_accountForwarded: "stacks (snd (accountForwarded i acc t)) = stacks (snd acc)"
  by (auto simp: accountForwarded_def Let_def stack_simps split: prod.splits)

lemma stacks_foldl_accountForwarded: "stacks (snd (foldl (accountForwarded i) acc ts)) = stacks (snd acc)"
  by (induction ts arbitrary: acc) (simp_all add: stacks_accountForwarded)

lemma stacks_foldl_forwarded [stack_dest]:
  "foldl (accountForwarded i) (g, s) ts = (g', s') \<Longrightarrow> stacks s' = stacks s"
  using stacks_foldl_accountForwarded [of i "(g, s)" ts] by simp

lemma stacks_finishBuiltinCall [stack_dest]:
  assumes "finishBuiltinCall e i g out s = Some (r, s')"
  shows "stacks s' = stacks s"
proof -
  from assms obtain n where "isSCExecutionAfterBuiltInFunc e i out = Some n"
    by (auto simp: finishBuiltinCall_def bind_Some_iff)
  with assms show ?thesis
    by (cases n) (auto simp: finishBuiltinCall_def bind_Some_iff Let_def stacks_def dest!: stacks_AddToActiveState)
qed

lemmas stacks_snd [stack_simps] = stacks_computeGas [OF surjective_pairing]
  stacks_ProcessBuiltInFunction [OF surjective_pairing] stacks_foldl_forwarded [OF surjective_pairing]

lemma stacks_callBuiltinFunction [stack_dest]: "callBuiltinFunction e i s = Some (r, s') \<Longrightarrow> stacks s' = stacks s"
  by (auto simp: callBuiltinFunction_def bind_Some_iff case_prod_beta stack_simps dest!: stack_dest
    split: option.splits if_splits)

lemma stacks_RevertDCDTTransfer [stack_dest]: "RevertDCDTTransfer e i s = Some s' \<Longrightarrow> stacks s' = stacks s"
  by (auto simp: RevertDCDTTransfer_def bind_Some_iff Let_def dest!: stack_dest
    split: if_splits prod.splits option.splits)

subsection \<open>Asynchronous calls\<close>

definition balancedCallee :: "callee \<Rightarrow> bool" where
  "balancedCallee k \<longleftrightarrow>
     (\<forall>f s r s'. run_function k f s = Some (r, s') \<longrightarrow> stacks s' = stacks s) \<and>
     (\<forall>i s r s'. exec_dest k i s = Some (r, s') \<longrightarrow> stacks s' = stacks s)"

lemma balanced_run: "balancedCallee k \<Longrightarrow> run_function k f s = Some (r, s') \<Longrightarrow> stacks s' = stacks s"
  by (simp add: balancedCallee_def)

lemma balanced_exec: "balancedCallee k \<Longrightarrow> exec_dest k i s = Some (r, s') \<Longrightarrow> stacks s' = stacks s"
  by (simp add: balancedCallee_def)

lemma stacks_determine [stack_dest]: "determineAsyncCallExecutionMode e i s = (r, s') \<Longrightarrow> stacks s' = stacks s"
  by (auto simp: determineAsyncCallExecutionMode_def Let_def dest!: stack_dest
    split: sum.splits prod.splits if_splits)

lemma stacks_canExecute [stack_dest]: "canExecuteSynchronously e a s = (r, s') \<Longrightarrow> stacks s' = stacks s"
  by (auto simp: canExecuteSynchronously_def dest!: stack_dest split: prod.splits)

lemmas stacks_snd2 [stack_simps] = stacks_canExecute [OF surjective_pairing] stacks_GetVMOutput [OF surjective_pairing]
  stacks_GetSCCode [OF surjective_pairing] stacks_ExtractCode [OF surjective_pairing] stacks_NewAddress [OF surjective_pairing]

lemma stacks_transferOrFail [stack_dest]: "transferOrFail e d g l v i t s = Some (r, s') \<Longrightarrow> stacks s' = stacks s"
  by (auto simp: transferOrFail_def bind_Some_iff dest!: stack_dest split: option.splits)

lemma stacks_sendAsyncCall [stack_dest]: "sendAsyncCallToDestination e i s = Some (r, s') \<Longrightarrow> stacks s' = stacks s"
  by (auto simp: sendAsyncCallToDestination_def bind_Some_iff Let_def stack_simps dest!: stack_dest split: option.splits)

lemma stacks_sendCallback [stack_dest]: "sendCallbackToCurrentCaller e s = Some (r, s') \<Longrightarrow> stacks s' = stacks s"
  by (auto simp: sendCallbackToCurrentCaller_def bind_Some_iff Let_def stack_simps dest!: stack_dest split: option.splits)

lemma stacks_sendStorageCallback [stack_dest]:
  "sendStorageCallbackToDestination e a d s = Some (r, s') \<Longrightarrow> stacks s' = stacks s"
  by (auto simp: sendStorageCallbackToDestination_def dest!: stack_dest)

lemma stacks_syncDestination:
  assumes "balancedCallee k" "executeSyncDestinationCall k e i s = Some (r, s')"
  shows "stacks s' = stacks s"
  using assms(2) by (cases "createDestinationContractCallInput e i s")
    (auto simp: executeSyncDestinationCall_def bind_Some_iff dest!: balanced_exec [OF assms(1)])

lemma stacks_syncCallback:
  assumes "balancedCallee k" "executeSyncCallbackCall k e i out err m s = Some (r, s')"
  shows "stacks s' = stacks s"
proof -
  from assms(2) obtain input where "createCallbackContractCallInput e (Some i) out (aci_Destination i)
      CallbackFunctionName err s = Some input" by (auto simp: executeSyncCallbackCall_def bind_Some_iff)
  with assms(2) show ?thesis
    by (cases input) (auto simp: executeSyncCallbackCall_def bind_Some_iff Let_def case_prod_beta stack_simps
      dest!: stack_dest balanced_exec [OF assms(1)] split: if_splits)
qed

lemma stacks_processCallbackVMOutput [stack_simps]: "stacks (processCallbackVMOutput e out err s) = stacks s"
  by (auto simp: processCallbackVMOutput_def Let_def stacks_def split: option.splits)

lemma stacks_handleAsyncCall:
  assumes "balancedCallee k" "handleAsyncCallBreakpoint k e s = Some (r, s')"
  shows "stacks s' = stacks s"
proof -
  from assms(2) obtain t i where t: "SetRuntimeBreakpointValue BreakpointNone s = Some t"
    and i: "asyncCallInfo (runtimeCtx t) = Some i" by (auto simp: handleAsyncCallBreakpoint_def bind_Some_iff)
  obtain m u where u: "determineAsyncCallExecutionMode e i t = (m, u)" by (metis prod.collapse)
  have su: "stacks u = stacks s" using t u by (auto dest!: stack_dest)
  show ?thesis
  proof (cases m)
    case (Inl err)
    with assms(2) t i u su show ?thesis by (simp add: handleAsyncCallBreakpoint_def)
  next
    case (Inr mode)
    with assms(2) t i u su show ?thesis
      by (auto simp: handleAsyncCallBreakpoint_def bind_Some_iff Let_def stack_simps
        dest!: stack_dest stacks_syncDestination [OF assms(1)] stacks_syncCallback [OF assms(1)] split: if_splits)
  qed
qed

lemma stacks_handleBreakpointIfAny:
  assumes "balancedCallee k" "handleBreakpointIfAny k e err s = Some (r, s')"
  shows "stacks s' = stacks s"
  using assms(2) by (auto simp: handleBreakpointIfAny_def handleBreakpoint_def bind_Some_iff
    dest!: stacks_handleAsyncCall [OF assms(1)] split: if_splits)

lemma stacks_savePending [stack_dest]:
  assumes "savePendingAsyncCalls e p s = Some (r, s')"
  shows "stacks s' = stacks s"
  using assms by (cases "json_Marshal e p")
    (auto simp: savePendingAsyncCalls_def bind_Some_iff dest!: stack_dest split: if_splits)

lemma stacks_callbackAsync:
  assumes "balancedCallee k" "callbackAsync k e c out err s = Some (r, s')"
  shows "stacks s' = stacks s"
proof -
  let ?c = "c\<lparr>Status := (if ReturnCode out = Ok then AsyncCallResolved else AsyncCallRejected)\<rparr>"
  from assms(2) obtain input where "createCallbackContractCallInput e (Some (generatedInfo ?c)) (Some out) (Destination ?c)
      (if ReturnCode out = Ok then SuccessCallback ?c else ErrorCallback ?c) err s = Some input"
    by (auto simp: callbackAsync_def bind_Some_iff Let_def)
  with assms(2) show ?thesis
    by (cases input) (auto simp: callbackAsync_def bind_Some_iff Let_def stack_simps dest!: balanced_exec [OF assms(1)])
qed

lemma stacks_processAsyncCall:
  assumes "balancedCallee k" "processAsyncCall k e c s = Some (r, s')"
  shows "stacks s' = stacks s"
  using assms(2) by (cases "createDestinationContractCallInput e (generatedInfo c) s")
    (auto simp: processAsyncCall_def bind_Some_iff dest!: balanced_exec [OF assms(1)] stacks_callbackAsync [OF assms(1)]
      split: if_splits)

lemma stacks_processCalls:
  assumes "balancedCallee k"
  shows "processCalls k e cs s = Some (r, s') \<Longrightarrow> stacks s' = stacks s"
proof (induction cs arbitrary: s r)
  case (Cons c cs)
  obtain can t where t: "canExecuteSynchronously e (Destination c) s = (can, t)" by (metis prod.collapse)
  from Cons.prems t obtain err c' u where
    u: "(if can then processAsyncCall k e c t else Some ((None, c), t)) = Some ((err, c'), u)"
    by (auto simp: bind_Some_iff)
  have "stacks u = stacks s"
    using t u by (auto dest!: stack_dest stacks_processAsyncCall [OF assms] split: if_splits)
  with Cons.prems t u Cons.IH show ?case by (auto simp: bind_Some_iff split: option.splits)
qed simp

lemma stacks_processContexts:
  assumes "balancedCallee k"
  shows "processContexts k e m s = Some (r, s') \<Longrightarrow> stacks s' = stacks s"
proof (induction m arbitrary: s r)
  case (Cons x m)
  obtain i ctx where x: "x = (i, ctx)" by (cases x)
  from Cons.prems x obtain err calls t where t: "processCalls k e (AsyncCalls ctx) s = Some ((err, calls), t)"
    by (auto simp: bind_Some_iff)
  have "stacks t = stacks s" using stacks_processCalls [OF assms t] .
  with Cons.prems x t Cons.IH show ?case by (auto simp: bind_Some_iff Let_def split: option.splits)
qed simp

lemma stacks_sendCalls [stack_dest]: "sendCalls e cs s = Some (r, s') \<Longrightarrow> stacks s' = stacks s"
proof (induction cs arbitrary: s r)
  case (Cons c cs)
  obtain can t where t: "canExecuteSynchronously e (Destination c) s = (can, t)" by (metis prod.collapse)
  from Cons.prems t obtain err u where
    u: "(if can then Some (None, t) else sendAsyncCallToDestination e (generatedInfo c) t) = Some (err, u)"
    by (auto simp: bind_Some_iff)
  have "stacks u = stacks s" using t u by (auto dest!: stack_dest split: if_splits)
  with Cons.prems t u Cons.IH show ?case by (auto simp: bind_Some_iff split: option.splits)
qed simp

lemma stacks_sendPendingCalls [stack_dest]: "sendPendingCalls e p s = Some (r, s') \<Longrightarrow> stacks s' = stacks s"
  by (auto simp: sendPendingCalls_def bind_Some_iff case_prod_beta dest!: stack_dest split: option.splits)

lemma stacks_processAsyncInfo:
  assumes "balancedCallee k" "processAsyncInfo k e info s = Some (r, s')"
  shows "stacks s' = stacks s"
  using assms(2)
  by (auto simp: processAsyncInfo_def bind_Some_iff Let_def case_prod_beta
    dest!: stack_dest stacks_processContexts [OF assms(1)] split: if_splits option.splits)

lemma stacks_getCurrentAsyncInfo [stack_dest]: "getCurrentAsyncInfo e s = (r, s') \<Longrightarrow> stacks s' = stacks s"
  by (auto simp: getCurrentAsyncInfo_def Let_def dest!: stack_dest split: prod.splits if_splits)

lemma stacks_getFunctionByCallType [stack_dest]:
  assumes "getFunctionByCallType e t s = Some (r, s')"
  shows "stacks s' = stacks s"
proof (cases "t = AsynchronousCallBack")
  case True
  obtain info u where u: "getCurrentAsyncInfo e s = (info, u)" by (metis prod.collapse)
  then have "stacks u = stacks s" by (auto dest: stack_dest)
  with True u assms show ?thesis
    by (cases info) (auto simp: getFunctionByCallType_def bind_Some_iff Let_def stack_simps split: option.splits)
next
  case False
  with assms show ?thesis by (auto simp: getFunctionByCallType_def bind_Some_iff)
qed

lemma stacks_processCallbackStack:
  assumes "balancedCallee k" "processCallbackStack k e s = Some (r, s')"
  shows "stacks s' = stacks s"
proof -
  obtain buff t where t: "GetStorageUnmetered e (asyncStorageKey s) s = (buff, t)" by (metis prod.collapse)
  then have st: "stacks t = stacks s" by (auto dest: stack_dest)
  show ?thesis
  proof (cases "buff = []")
    case True
    with assms(2) t st show ?thesis by (simp add: processCallbackStack_def Let_def)
  next
    case False
    show ?thesis
    proof (cases "json_Unmarshal e buff")
      case (Inl err)
      with assms(2) t st False show ?thesis by (simp add: processCallbackStack_def Let_def)
    next
      case (Inr info)
      with assms(2) t st False show ?thesis
        by (auto simp: processCallbackStack_def Let_def bind_Some_iff createCallbackContractCallInput_def
          case_prod_beta stack_simps dest!: stack_dest split: if_splits option.splits)
    qed
  qed
qed

subsection \<open>Execution\<close>

lemma stacks_runWithBreakpoints:
  assumes "balancedCallee k" "runWithBreakpoints k e f s = Some (r, s')"
  shows "stacks s' = stacks s"
  using assms(2) by (auto simp: runWithBreakpoints_def bind_Some_iff
    dest!: balanced_run [OF assms(1)] stacks_handleBreakpointIfAny [OF assms(1)] split: if_splits)

lemma stacks_callInitFunction:
  assumes "balancedCallee k" "callInitFunction k e s = Some (r, s')"
  shows "stacks s' = stacks s"
  using assms(2) by (auto simp: callInitFunction_def bind_Some_iff dest!: stacks_runWithBreakpoints [OF assms(1)]
    split: option.splits)

lemma stacks_callSCMethodIndirect:
  assumes "balancedCallee k" "callSCMethodIndirect k e s = Some (r, s')"
  shows "stacks s' = stacks s"
proof -
  from assms(2) obtain f where "GetFunctionToCall s = Some f" by (auto simp: callSCMethodIndirect_def bind_Some_iff)
  with assms(2) show ?thesis
    by (cases f) (auto simp: callSCMethodIndirect_def dest!: stacks_runWithBreakpoints [OF assms(1)])
qed

lemma stacks_processCurrentAsyncInfo:
  assumes "balancedCallee k" "processCurrentAsyncInfo k e s = Some (r, s')"
  shows "stacks s' = stacks s"
  using assms(2) by (auto simp: processCurrentAsyncInfo_def bind_Some_iff stack_simps
    dest!: stacks_processAsyncInfo [OF assms(1)])

lemma stacks_deduct [stack_dest]:
  "deductInitialGas c b p s = (r, s') \<Longrightarrow> stacks s' = stacks s"
  by (auto simp: deductInitialGas_def Let_def stacks_def split: if_splits)

lemma stacks_deduct_ops [stack_dest]:
  "DeductInitialGasForExecution e c s = (r, s') \<Longrightarrow> stacks s' = stacks s"
  "DeductInitialGasForDirectDeployment i s = (r, s') \<Longrightarrow> stacks s' = stacks s"
  "DeductInitialGasForIndirectDeployment i s = (r, s') \<Longrightarrow> stacks s' = stacks s"
  by (auto simp: DeductInitialGasForExecution_def DeductInitialGasForDirectDeployment_def
    DeductInitialGasForIndirectDeployment_def Let_def dest: stacks_deduct split: if_splits)

lemmas stacks_snd3 [stack_simps] = stacks_deduct_ops [OF surjective_pairing]

lemma stacks_executeUpgrade:
  assumes "balancedCallee k" "executeUpgrade k e i s = Some (r, s')"
  shows "stacks s' = stacks s"
proof (cases "checkUpgradePermission e i s")
  case None
  show ?thesis
  proof (cases "fst (ExtractCodeUpgradeFromArgs s)")
    case (Inl err)
    with assms(2) None show ?thesis by (auto simp: executeUpgrade_def case_prod_beta stack_simps)
  next
    case (Inr cm)
    with assms(2) None show ?thesis
      by (auto simp: executeUpgrade_def case_prod_beta stack_simps bind_Some_iff Let_def
        dest!: stack_dest stacks_callInitFunction [OF assms(1)] split: option.splits if_splits)
  qed
qed (use assms(2) in \<open>simp add: executeUpgrade_def\<close>)

lemma stacks_executeSmartContractCall:
  assumes "balancedCallee k" "executeSmartContractCall k e i b s = Some (r, s')"
  shows "stacks s' = stacks s"
proof (cases "isInitFunctionBeingCalled s \<and> \<not> AllowInitFunction i")
  case False
  with assms(2) obtain t where t: "UseGas (GasProvided (cci_VMInput i)) s = Some t"
    by (auto simp: executeSmartContractCall_def bind_Some_iff split: if_splits)
  then have st: "stacks t = stacks s" by (auto dest: stack_dest)
  show ?thesis
  proof (cases "Function i = UpgradeFunctionName")
    case True
    with False assms(2) t st show ?thesis
      by (auto simp: executeSmartContractCall_def dest!: stacks_executeUpgrade [OF assms(1)])
  next
    case no: False
    obtain code u where u: "GetSCCode e t = (code, u)" by (metis prod.collapse)
    then have su: "stacks u = stacks s" using st by (auto dest: stack_dest)
    show ?thesis
    proof (cases code)
      case (Inl err)
      with False no assms(2) t u su show ?thesis by (simp add: executeSmartContractCall_def split: if_splits)
    next
      case (Inr c)
      with False no assms(2) t u su show ?thesis
        by (auto simp: executeSmartContractCall_def case_prod_beta stack_simps bind_Some_iff
          dest!: stacks_StartWasmerInstance stacks_callSCMethodIndirect [OF assms(1)] split: if_splits)
    qed
  qed
qed (use assms(2) in \<open>simp add: executeSmartContractCall_def\<close>)

lemma stacks_initFromInput [stack_dest]: "initFromInput i s = Some (r, s') \<Longrightarrow> stacks s' = stacks s"
  by (auto simp: initFromInput_def metering_InitStateFromContractCallInput_def unlockGasIfAsyncCallback_def
    Let_def stacks_def split: if_splits prod.splits)

lemma stacks_execute:
  assumes "balancedCallee k" "execute k e i s = Some (r, s')"
  shows "stacks s' = stacks s"
proof (cases "IsBuiltinFunctionName e (callFunction (runtimeCtx s))")
  case True
  with assms(2) obtain b g t where t: "callBuiltinFunction e i s = Some ((b, g), t)"
    by (auto simp: execute_def bind_Some_iff)
  then have st: "stacks t = stacks s" by (auto dest: stack_dest)
  show ?thesis
  proof (cases b)
    case (Inl err)
    with True assms(2) t st show ?thesis by (simp add: execute_def)
  next
    case (Inr n)
    with True assms(2) t st show ?thesis
      by (auto simp: execute_def bind_Some_iff stack_simps
        dest!: stack_dest stacks_executeSmartContractCall [OF assms(1)] split: option.splits if_splits)
  qed
next
  case False
  with assms(2) show ?thesis
    by (auto simp: execute_def bind_Some_iff dest!: stacks_executeSmartContractCall [OF assms(1)])
qed

lemma stacks_bodyOnDestContext:
  assumes "balancedCallee k" "bodyOnDestContext k e i s = Some (r, s')"
  shows "stacks s' = stacks s"
  using assms(2)
  by (auto simp: bodyOnDestContext_def bind_Some_iff
    dest!: stack_dest stacks_execute [OF assms(1)] stacks_processCurrentAsyncInfo [OF assms(1)] split: if_splits)

subsection \<open>Entering and leaving a context\<close>

definition pushed :: "vm \<Rightarrow> (i32, int) gomap list \<times> VMOutput list \<times> meteringState list \<times> address list \<times>
    runtimeState list \<times> inst_ref option list \<times> u64" where
  \<comment> \<open>the stacks after every context has been saved\<close>
  "pushed s = (bi_values (bigIntCtx s) # bigInt_stateStack (bigIntCtx s),
     mergeVMOutputs newVMOutput (outputState (outputCtx s)) # output_stateStack (outputCtx s),
     savedMetering (meteringCtx s) # metering_stateStack (meteringCtx s),
     st_address (storageCtx s) # storage_stateStack (storageCtx s),
     savedRuntime (runtimeCtx s) # runtime_stateStack (runtimeCtx s),
     inst (runtimeCtx s) # instanceStack (runtimeCtx s), maxWasmerInstances (runtimeCtx s))"

definition restored :: "vm \<Rightarrow> vm \<Rightarrow> bool" where
  \<comment> \<open>everything that is saved, but for the output, is as it was\<close>
  "restored s s' \<longleftrightarrow> bi_values (bigIntCtx s') = bi_values (bigIntCtx s) \<and>
     savedMetering (meteringCtx s') = savedMetering (meteringCtx s) \<and>
     st_address (storageCtx s') = st_address (storageCtx s) \<and>
     savedRuntime (runtimeCtx s') = savedRuntime (runtimeCtx s) \<and> inst (runtimeCtx s') = inst (runtimeCtx s)"

lemma enterDestContext_pushed:
  assumes "enterDestContext e i s = Some (i', s')"
  shows "stacks s' = pushed s" "copyVMInput (vmInput (runtimeCtx s)) \<noteq> None"
    "fst ` set (outAccounts s') = fst ` set (outAccounts s)"
proof -
  let ?s = "s\<lparr>bigIntCtx := bigInt_InitState (bigInt_PushState (bigIntCtx s)),
    outputCtx := CensorVMOutput (output_PushState (outputCtx s))\<rparr>"
  let ?i = "copyTxHashesFromContext (IsDCDTFunctionsEnabled e) (vmInput (runtimeCtx ?s)) i"
  from assms obtain t where t: "runtime_PushState ?s = Some t" by (auto simp: enterDestContext_def Let_def bind_Some_iff)
  with assms obtain u where u: "runtime_InitStateFromContractCallInput ?i t = Some u"
    by (auto simp: enterDestContext_def Let_def bind_Some_iff)
  from t show cp: "copyVMInput (vmInput (runtimeCtx s)) \<noteq> None"
    using runtime_PushState_None [of ?s] by (auto simp: not_None_eq)
  have t': "t = ?s\<lparr>runtimeCtx := (runtimeCtx s)\<lparr>runtime_stateStack := savedRuntime (runtimeCtx s) # runtime_stateStack (runtimeCtx s),
      instanceStack := inst (runtimeCtx s) # instanceStack (runtimeCtx s)\<rparr>\<rparr>"
    using t runtime_PushState_eq [of ?s] cp by simp
  have s': "s' = setStorageAddress ((computeGasUsedBefore (snd (the (initFromInput ?i
      (u\<lparr>meteringCtx := metering_PushState (meteringCtx u)\<rparr>)))))\<lparr>storageCtx := storage_PushState (storageCtx u)\<rparr>)"
    using assms t u by (auto simp: enterDestContext_def Let_def initFromInput_def computeGasUsedBefore_def SetTotalUsedGas_def
      split: prod.splits)
  have u': "stacks u = stacks t" "bigIntCtx u = bigIntCtx t" "outputCtx u = outputCtx t" "meteringCtx u = meteringCtx t"
      "storageCtx u = storageCtx t"
    using u by (auto simp: runtime_InitStateFromContractCallInput_def SetVMInput_def bind_Some_iff stacks_def)
  show "stacks s' = pushed s" "fst ` set (outAccounts s') = fst ` set (outAccounts s)"
    using u' unfolding s' t'
    by (auto simp: stacks_def pushed_def setStorageAddress_def computeGasUsedBefore_def SetTotalUsedGas_def initFromInput_def
      metering_InitStateFromContractCallInput_def unlockGasIfAsyncCallback_def metering_PushState_def storage_PushState_def
      SetAddress_def bigInt_InitState_def bigInt_PushState_def CensorVMOutput_def output_PushState_def savedMetering_def
      outAccounts_def Let_def split: prod.splits if_splits)
qed

lemma runtime_PopSet_effect:
  assumes "runtime_PopSetActiveState t = Some u"
    "runtime_stateStack (runtimeCtx t) = savedRuntime rt # rest" "instanceStack (runtimeCtx t) = i # irest"
    "copyVMInput (vmInput rt) \<noteq> None"
  shows "savedRuntime (runtimeCtx u) = savedRuntime rt" "runtime_stateStack (runtimeCtx u) = rest"
    "instanceStack (runtimeCtx u) = irest" "inst (runtimeCtx u) = i" "bigIntCtx u = bigIntCtx t"
    "outputCtx u = outputCtx t" "meteringCtx u = meteringCtx t" "storageCtx u = storageCtx t"
    "scAddress (runtimeCtx u) = scAddress rt" "maxWasmerInstances (runtimeCtx u) = maxWasmerInstances (runtimeCtx t)"
  using assms copy_savedRuntime [OF assms(4)]
  by (auto simp: runtime_PopSetActiveState_def SetVMInput_def bind_Some_iff savedRuntime_def)

definition childOutput :: "env \<Rightarrow> err option \<Rightarrow> vm \<Rightarrow> VMOutput \<times> vm" where
  "childOutput e err s = (case err of Some err \<Rightarrow> (CreateVMOutputInCaseOfError err (outputCtx s), s) | None \<Rightarrow> GetVMOutput e s)"

lemma finishExecuteOnDestContext_effect:
  assumes "finishExecuteOnDestContext e err t = Some (out, u)" "stacks t = pushed s"
    "copyVMInput (vmInput (runtimeCtx s)) \<noteq> None"
  shows "stacks u = stacks s" "restored s u" "out = fst (childOutput e err t)"
    "ReturnCode out \<noteq> Ok \<Longrightarrow> outputState (outputCtx u) = mergeVMOutputs newVMOutput (outputState (outputCtx s))"
    "ReturnCode out = Ok \<Longrightarrow> outputState (outputCtx u) = mergeVMOutputs newVMOutput (mergeVMOutputs
       (mergeVMOutputs newVMOutput (outputState (outputCtx s))) (outputState (outputCtx (snd (childOutput e err t)))))"
proof -
  obtain o1 t1 where t1: "childOutput e err t = (o1, t1)" by (metis prod.collapse)
  have st1: "stacks t1 = pushed s"
    using t1 assms(2) stacks_GetVMOutput [of e t] by (auto simp: childOutput_def split: option.splits)
  let ?t2 = "t1\<lparr>bigIntCtx := bigInt_PopSetActiveState (bigIntCtx t1), meteringCtx := metering_PopSetActiveState (meteringCtx t1)\<rparr>"
  from assms(1) t1 obtain t3 where t3: "runtime_PopSetActiveState ?t2 = Some t3"
    by (auto simp: finishExecuteOnDestContext_def childOutput_def bind_Some_iff split: option.splits)
  from st1 have rstack: "runtime_stateStack (runtimeCtx ?t2) = savedRuntime (runtimeCtx s) # runtime_stateStack (runtimeCtx s)"
      "instanceStack (runtimeCtx ?t2) = inst (runtimeCtx s) # instanceStack (runtimeCtx s)"
    by (simp_all add: stacks_def pushed_def)
  note pop = runtime_PopSet_effect [OF t3 rstack assms(3)]
  let ?t4 = "t3\<lparr>storageCtx := storage_PopSetActiveState (storageCtx t3)\<rparr>"
  from assms(1) t1 t3 obtain t5 where t5: "RestoreGas (GasRemaining o1) ?t4 = Some t5"
    by (auto simp: finishExecuteOnDestContext_def childOutput_def bind_Some_iff split: option.splits)
  note fr = RestoreGas_frame [OF t5]
  have u: "u = (ForwardGas (scAddress (runtimeCtx t5)) (scAddress (runtimeCtx t1))
      (if ReturnCode o1 \<noteq> Ok then 0 else GasSpentByContract e t1) t5)\<lparr>outputCtx := (if ReturnCode out = Ok
      then output_PopMergeActiveState (outputCtx t5) else output_PopSetActiveState (outputCtx t5))\<rparr>" and out: "out = o1"
    using assms(1) t1 t3 t5
    by (auto simp: finishExecuteOnDestContext_def childOutput_def Let_def split: option.splits)
  show "out = fst (childOutput e err t)" using out t1 by simp
  have ctx: "bigIntCtx t5 = bigInt_PopSetActiveState (bigIntCtx t1)" "meteringCtx t5 = metering_PopSetActiveState (meteringCtx t1)"
      "storageCtx t5 = storage_PopSetActiveState (storageCtx t1)" "outputCtx t5 = outputCtx t1" "runtimeCtx t5 = runtimeCtx t3"
    using fr pop by simp_all
  have met: "savedMetering (meteringCtx t5) = savedMetering (meteringCtx s)"
      "metering_stateStack (meteringCtx t5) = metering_stateStack (meteringCtx s)"
    using st1 ctx(2) by (auto simp: stacks_def pushed_def metering_stack_defs savedMetering_def)
  show "stacks u = stacks s" "restored s u"
    using u st1 ctx(1,3-5) met pop
    by (auto simp: stacks_def pushed_def restored_def bigInt_stack_defs storage_stack_defs output_stack_defs
      output_PopMergeActiveState_def split: list.splits)
  show "ReturnCode out \<noteq> Ok \<Longrightarrow> outputState (outputCtx u) = mergeVMOutputs newVMOutput (outputState (outputCtx s))"
    using u st1 ctx by (auto simp: stacks_def pushed_def output_stack_defs)
  show "ReturnCode out = Ok \<Longrightarrow> outputState (outputCtx u) = mergeVMOutputs newVMOutput (mergeVMOutputs
       (mergeVMOutputs newVMOutput (outputState (outputCtx s))) (outputState (outputCtx (snd (childOutput e err t)))))"
    using u st1 ctx t1 by (auto simp: stacks_def pushed_def output_PopMergeActiveState_def)
qed

lemma ExecuteOnDestContext_phases:
  assumes "ExecuteOnDestContext k e i s = Some (r, s')"
  obtains i' t info g err u out v where "enterDestContext e i s = Some (i', t)"
    "bodyOnDestContext k e i' t = Some ((info, g, err), u)" "finishExecuteOnDestContext e err u = Some (out, v)"
    "s' = SetTotalUsedGas 0 v" "dr_output r = out" "dr_asyncInfo r = info"
    "dr_err r = (if err = None \<and> ReturnCode out \<noteq> Ok then Some ErrExecutionFailed else err)"
  using assms by (auto simp: ExecuteOnDestContext_def bind_Some_iff Let_def)

lemma restored_SetTotalUsedGas [simp]:
  "restored s (SetTotalUsedGas g s') = restored s s'" "outputCtx (SetTotalUsedGas g s') = outputCtx s'"
  by (simp_all add: restored_def SetTotalUsedGas_def savedMetering_def)

lemma ExecuteOnDestContext_restores:
  assumes "balancedCallee k" "ExecuteOnDestContext k e i s = Some (r, s')"
  shows "stacks s' = stacks s" "restored s s'"
    "wf_output (outputCtx s) \<Longrightarrow> dr_err r \<noteq> None \<Longrightarrow> outputCtx s' = (outputCtx s)\<lparr>codeUpdates := codeUpdates (outputCtx s')\<rparr>"
proof -
  from assms(2) obtain i' t info g err u out v where
    t: "enterDestContext e i s = Some (i', t)" and u: "bodyOnDestContext k e i' t = Some ((info, g, err), u)"
    and v: "finishExecuteOnDestContext e err u = Some (out, v)" and s': "s' = SetTotalUsedGas 0 v"
    and err: "dr_err r = (if err = None \<and> ReturnCode out \<noteq> Ok then Some ErrExecutionFailed else err)"
    by (rule ExecuteOnDestContext_phases)
  have su: "stacks u = pushed s"
    using enterDestContext_pushed(1) [OF t] stacks_bodyOnDestContext [OF assms(1) u] by simp
  note fin = finishExecuteOnDestContext_effect [OF v su enterDestContext_pushed(2) [OF t]]
  show st: "stacks s' = stacks s" and "restored s s'" using fin(1,2) s' by (simp_all add: stack_simps)
  assume wf: "wf_output (outputCtx s)" and "dr_err r \<noteq> None"
  then have "ReturnCode out \<noteq> Ok" using err fin(3) by (auto simp: childOutput_def split: if_splits)
  then have "outputState (outputCtx s') = outputState (outputCtx s)"
    using fin(4) wf s' by (simp add: mergeVMOutputs_new wf_output_def)
  moreover have "output_stateStack (outputCtx s') = output_stateStack (outputCtx s)" using st by (simp add: stacks_def)
  ultimately show "outputCtx s' = (outputCtx s)\<lparr>codeUpdates := codeUpdates (outputCtx s')\<rparr>" by simp
qed

subsection \<open>The same context, and new contracts\<close>

lemma stacks_finishExecuteOnSameContext:
  assumes "finishExecuteOnSameContext e err t = Some u"
    "stacks t = (case pushed s of (b, out, m, _, r, i) \<Rightarrow> (b, out, m, storage_stateStack (storageCtx s), r, i))"
    "copyVMInput (vmInput (runtimeCtx s)) \<noteq> None"
  shows "stacks u = stacks s"
proof (cases "outputReturnCode t \<noteq> Ok \<or> err \<noteq> None")
  case True
  let ?t = "t\<lparr>bigIntCtx := bigInt_PopSetActiveState (bigIntCtx t), meteringCtx := metering_PopSetActiveState (meteringCtx t),
    outputCtx := output_PopSetActiveState (outputCtx t)\<rparr>"
  have u: "runtime_PopSetActiveState ?t = Some u" using assms(1) True by (simp add: finishExecuteOnSameContext_def)
  have "runtime_stateStack (runtimeCtx ?t) = savedRuntime (runtimeCtx s) # runtime_stateStack (runtimeCtx s)"
      "instanceStack (runtimeCtx ?t) = inst (runtimeCtx s) # instanceStack (runtimeCtx s)"
    using assms(2) by (simp_all add: stacks_def pushed_def)
  from runtime_PopSet_effect [OF u this assms(3)] assms(2) show ?thesis
    by (auto simp: stacks_def pushed_def bigInt_stack_defs metering_stack_defs output_stack_defs)
next
  case False
  obtain out v where v: "GetVMOutput e t = (out, v)" by (metis prod.collapse)
  then have sv: "stacks v = stacks t" by (auto dest: stack_dest)
  let ?t = "v\<lparr>bigIntCtx := bigInt_PopDiscard (bigIntCtx v), outputCtx := output_PopDiscard (outputCtx v),
    meteringCtx := metering_PopSetActiveState (meteringCtx v)\<rparr>"
  from assms(1) False v obtain w x where w: "runtime_PopSetActiveState ?t = Some w"
      and x: "RestoreGas (GasRemaining out) w = Some x" and u: "stacks u = stacks x"
    by (auto simp: finishExecuteOnSameContext_def bind_Some_iff Let_def stack_simps)
  have "runtime_stateStack (runtimeCtx ?t) = savedRuntime (runtimeCtx s) # runtime_stateStack (runtimeCtx s)"
      "instanceStack (runtimeCtx ?t) = inst (runtimeCtx s) # instanceStack (runtimeCtx s)"
    using assms(2) sv by (simp_all add: stacks_def pushed_def)
  from runtime_PopSet_effect [OF w this assms(3)] assms(2) sv have "stacks w = stacks s"
    by (auto simp: stacks_def pushed_def bigInt_stack_defs metering_stack_defs output_stack_defs)
  with x u show ?thesis by (auto dest: stack_dest)
qed

lemma stacks_ExecuteOnSameContext:
  assumes "balancedCallee k" "ExecuteOnSameContext k e i s = Some (r, s')"
  shows "stacks s' = stacks s"
proof (cases "IsBuiltinFunctionName e (Function i)")
  case True
  with assms(2) show ?thesis by (simp add: ExecuteOnSameContext_def)
next
  case False
  let ?s = "s\<lparr>bigIntCtx := bigInt_PushState (bigIntCtx s), outputCtx := output_PushState (outputCtx s)\<rparr>"
  let ?i = "copyTxHashesFromContext (IsDCDTFunctionsEnabled e) (vmInput (runtimeCtx ?s)) i"
  from assms(2) False obtain t u i' v err w r1 x where
    t: "runtime_PushState ?s = Some t" and u: "runtime_InitStateFromContractCallInput ?i t = Some u"
    and v: "initFromInput ?i (u\<lparr>meteringCtx := metering_PushState (meteringCtx u)\<rparr>) = Some (i', v)"
    and w: "TransferValueOnly e (RecipientAddr i') (CallerAddr (cci_VMInput i')) (CallValue (cci_VMInput i')) False v = Some (err, w)"
    and x: "(if err \<noteq> None then Some ((None, err), w) else do {
            ((_, err), s) \<leftarrow> execute k e i' w;
            Some ((if err \<noteq> None then None else Some (asyncContextInfo (runtimeCtx s)), err), s) }) = Some (r1, x)"
    and y: "finishExecuteOnSameContext e (snd r1) x = Some s'"
    by (auto simp: ExecuteOnSameContext_def bind_Some_iff Let_def)
  have cp: "copyVMInput (vmInput (runtimeCtx s)) \<noteq> None"
    using t runtime_PushState_None [of ?s] by (auto simp: not_None_eq)
  have "t = ?s\<lparr>runtimeCtx := (runtimeCtx s)\<lparr>runtime_stateStack := savedRuntime (runtimeCtx s) # runtime_stateStack (runtimeCtx s),
      instanceStack := inst (runtimeCtx s) # instanceStack (runtimeCtx s)\<rparr>\<rparr>"
    using t runtime_PushState_eq [of ?s] cp by simp
  moreover have "stacks u = stacks t" "meteringCtx u = meteringCtx t"
    using u by (auto simp: runtime_InitStateFromContractCallInput_def SetVMInput_def bind_Some_iff stacks_def)
  moreover have "stacks v = stacks (u\<lparr>meteringCtx := metering_PushState (meteringCtx u)\<rparr>)"
    using v by (auto dest: stack_dest)
  ultimately have "stacks v = (case pushed s of (b, out, m, _, r, i) \<Rightarrow> (b, out, m, storage_stateStack (storageCtx s), r, i))"
    by (auto simp: stacks_def pushed_def metering_PushState_def bigInt_PushState_def output_PushState_def)
  moreover have "stacks x = stacks v"
    using w x by (auto simp: bind_Some_iff dest!: stack_dest stacks_execute [OF assms(1)] split: if_splits)
  ultimately show ?thesis using stacks_finishExecuteOnSameContext [OF y _ cp] by simp
qed

lemma stacks_CreateNewContract:
  assumes "balancedCallee k" "CreateNewContract k e i s = Some (r, s')"
  shows "stacks s' = stacks s"
proof -
  let ?d = "\<lparr>ContractCode = cri_ContractCode i, ContractCodeMetadata = cri_ContractCodeMetadata i, ContractAddress = [],
    CodeDeployer = CallerAddr (cri_VMInput i)\<rparr>"
  obtain err t where t: "DeductInitialGasForIndirectDeployment ?d s = (err, t)" by (metis prod.collapse)
  then have st: "stacks t = stacks s" by (auto dest: stack_dest)
  obtain n u where u: "NewAddress e (CallerAddr (cri_VMInput i)) t = (n, u)" by (metis prod.collapse)
  then have su: "stacks u = stacks s" using st by (auto dest: stack_dest)
  show ?thesis
  proof (cases n)
    case (Inl er)
    with assms(2) t u st su show ?thesis by (auto simp: CreateNewContract_def Let_def split: option.splits if_splits)
  next
    case (Inr a)
    have dep: "stacks (MustVerifyNextContractCode (u\<lparr>outputCtx := DeployCode d (outputCtx u)\<rparr>)) = stacks s" for d
      using su by (simp add: stack_simps)
    from assms(2) t u st su Inr show ?thesis
      by (auto simp: CreateNewContract_def Let_def bind_Some_iff stack_simps dep dest!: balanced_exec [OF assms(1)]
        split: option.splits if_splits)
  qed
qed

subsection \<open>All depths\<close>

definition balancedReentry :: "reentry \<Rightarrow> bool" where
  "balancedReentry re \<longleftrightarrow>
     (\<forall>i s r s'. re_ExecuteOnDestContext re i s = Some (r, s') \<longrightarrow> stacks s' = stacks s) \<and>
     (\<forall>i s r s'. re_ExecuteOnSameContext re i s = Some (r, s') \<longrightarrow> stacks s' = stacks s) \<and>
     (\<forall>i s r s'. re_CreateNewContract re i s = Some (r, s') \<longrightarrow> stacks s' = stacks s)"

definition balancedEngine :: "engine \<Rightarrow> bool" where
  \<comment> \<open>a contract cannot reach the stacks except through the entry points of the host\<close>
  "balancedEngine w \<longleftrightarrow>
     (\<forall>re f s r s'. balancedReentry re \<longrightarrow> w re f s = Some (r, s') \<longrightarrow> stacks s' = stacks s)"

lemma balancedReentry_reentryOf: "balancedCallee k \<Longrightarrow> balancedReentry (reentryOf k e)"
  by (auto simp: balancedReentry_def reentryOf_def ExecuteOnDestContext_restores(1) stacks_ExecuteOnSameContext
    stacks_CreateNewContract)

lemma balancedCallee_calleeAt:
  assumes "balancedEngine w"
  shows "balancedCallee (calleeAt w e n)"
proof (induction n)
  case 0
  then show ?case by (simp add: balancedCallee_def)
next
  case (Suc n)
  have "balancedReentry (reentryOf (calleeAt w e n) e)" using Suc by (rule balancedReentry_reentryOf)
  then have "\<forall>f s r s'. w (reentryOf (calleeAt w e n) e) f s = Some (r, s') \<longrightarrow> stacks s' = stacks s"
    using assms unfolding balancedEngine_def by blast
  then show ?case using ExecuteOnDestContext_restores(1) [OF Suc] by (simp add: balancedCallee_def)
qed

lemma GetVMOutput_state:
  assumes "GetVMOutput e t = (out, t')" "ReturnCode out = Ok"
  shows "out = outputState (outputCtx t')"
proof -
  have "out = outputState (outputCtx u')" if "finishOutput e g u = (out, u')" for g u u'
    using that assms(2) by (auto simp: finishOutput_def Let_def split: prod.splits option.splits)
  with assms show ?thesis by (auto simp: GetVMOutput_def Let_def split: prod.splits if_splits)
qed

lemma ExecuteOnDestContext_merges:
  assumes "balancedCallee k" "ExecuteOnDestContext k e i s = Some (r, s')" "wf_output (outputCtx s)" "dr_err r = None"
  shows "outputState (outputCtx s') = mergeVMOutputs (outputState (outputCtx s)) (dr_output r)" "ReturnCode (dr_output r) = Ok"
proof -
  from assms(2) obtain i' t info g err u out v where
    t: "enterDestContext e i s = Some (i', t)" and u: "bodyOnDestContext k e i' t = Some ((info, g, err), u)"
    and v: "finishExecuteOnDestContext e err u = Some (out, v)" and s': "s' = SetTotalUsedGas 0 v" and out: "dr_output r = out"
    and err: "dr_err r = (if err = None \<and> ReturnCode out \<noteq> Ok then Some ErrExecutionFailed else err)"
    by (rule ExecuteOnDestContext_phases)
  have su: "stacks u = pushed s"
    using enterDestContext_pushed(1) [OF t] stacks_bodyOnDestContext [OF assms(1) u] by simp
  note fin = finishExecuteOnDestContext_effect [OF v su enterDestContext_pushed(2) [OF t]]
  have ok: "err = None" "ReturnCode out = Ok" using err assms(4) by (auto split: if_splits)
  show "ReturnCode (dr_output r) = Ok" using ok out by simp
  have wf: "wf_VMOutput (outputState (outputCtx s))" using assms(3) by (simp add: wf_output_def)
  have "GetVMOutput e u = (out, snd (GetVMOutput e u))" using fin(3) ok by (simp add: childOutput_def)
  from GetVMOutput_state [OF this ok(2)] fin(5) [OF ok(2)] ok wf show
    "outputState (outputCtx s') = mergeVMOutputs (outputState (outputCtx s)) (dr_output r)"
    by (simp add: s' out childOutput_def mergeVMOutputs_new)
qed

subsection \<open>Properties\<close>

text \<open>C1: a nested call gives its caller everything back.  Whatever the called contract does, and
  however deep the calls it makes in turn, when \<open>ExecuteOnDestContext\<close> returns, the stacks of saved
  states and of instances are as before, and so are the caller's big integers, metering state, storage
  address, runtime state and running instance.  Contracts may do anything to the VM but reach the stacks
  other than through calls of the host.\<close>

theorem nested_call_restores:
  assumes "balancedEngine w" "ExecuteOnDestContext (calleeAt w e n) e i s = Some (r, s')"
  shows "stacks s' = stacks s \<and> bi_values (bigIntCtx s') = bi_values (bigIntCtx s) \<and>
    savedMetering (meteringCtx s') = savedMetering (meteringCtx s) \<and> st_address (storageCtx s') = st_address (storageCtx s) \<and>
    savedRuntime (runtimeCtx s') = savedRuntime (runtimeCtx s) \<and> inst (runtimeCtx s') = inst (runtimeCtx s)"
  using ExecuteOnDestContext_restores(1,2) [OF balancedCallee_calleeAt [OF assms(1)] assms(2)] by (simp add: restored_def)

lemma sampleEngine_balanced: "balancedEngine sampleEngine"
  by (auto simp: balancedEngine_def balancedReentry_def sampleEngine_def bind_Some_iff stack_simps dest!: stack_dest
    split: list.splits)

lemma sample_nested: "map_option (\<lambda>(r, s). (dr_err r, ReturnData (dr_output r), GasRemaining (dr_output r)))
    (ExecuteOnDestContext (calleeAt sampleEngine sampleEnv 1) sampleEnv (sampleCall []) sampleVM) = Some (None, [''data''], 82)"
  by code_simp

theorem nested_call_restores_witness:
  "\<exists>r s'. ExecuteOnDestContext (calleeAt sampleEngine sampleEnv 1) sampleEnv (sampleCall []) sampleVM = Some (r, s') \<and>
     dr_err r = None \<and> stacks s' = stacks sampleVM \<and> bi_values (bigIntCtx s') = [(0, 7)]"
proof -
  obtain r s' where r: "ExecuteOnDestContext (calleeAt sampleEngine sampleEnv 1) sampleEnv (sampleCall []) sampleVM = Some (r, s')"
    "dr_err r = None" using sample_nested by auto
  from nested_call_restores [OF sampleEngine_balanced r(1)] r show ?thesis by (auto simp: sampleVM_def)
qed

text \<open>C2: a nested call that fails leaves no trace in the output: the accounts, balance changes, storage
  updates, transfers, logs and return data recorded so far are exactly those from before the call.\<close>

theorem failed_call_undone:
  assumes "balancedEngine w" "wf_output (outputCtx s)"
    "ExecuteOnDestContext (calleeAt w e n) e i s = Some (r, s')" "dr_err r = Some err"
  shows "outputState (outputCtx s') = outputState (outputCtx s) \<and> output_stateStack (outputCtx s') = output_stateStack (outputCtx s)"
proof -
  have "outputCtx s' = (outputCtx s)\<lparr>codeUpdates := codeUpdates (outputCtx s')\<rparr>"
    using ExecuteOnDestContext_restores(3) [OF balancedCallee_calleeAt [OF assms(1)] assms(3,2)] assms(4) by simp
  then show ?thesis by (metis outputContext.select_convs(1,2) outputContext.surjective outputContext.update_convs(3))
qed

lemma sample_failing: "map_option (\<lambda>(r, s). dr_err r)
    (ExecuteOnDestContext (calleeAt sampleEngine sampleEnv 1) sampleEnv
      ((sampleCall [])\<lparr>cci_VMInput := sampleInput\<lparr>CallValue := Some 500\<rparr>\<rparr>) sampleVM) = Some (Some ErrTransferInsufficientFunds)"
  by code_simp

theorem failed_call_undone_witness:
  "\<exists>r s'. ExecuteOnDestContext (calleeAt sampleEngine sampleEnv 1) sampleEnv
      ((sampleCall [])\<lparr>cci_VMInput := sampleInput\<lparr>CallValue := Some 500\<rparr>\<rparr>) sampleVM = Some (r, s') \<and>
     dr_err r = Some ErrTransferInsufficientFunds \<and> outputState (outputCtx s') = sampleOutput"
proof -
  obtain r s' where r: "ExecuteOnDestContext (calleeAt sampleEngine sampleEnv 1) sampleEnv
      ((sampleCall [])\<lparr>cci_VMInput := sampleInput\<lparr>CallValue := Some 500\<rparr>\<rparr>) sampleVM = Some (r, s')"
    "dr_err r = Some ErrTransferInsufficientFunds" using sample_failing by auto
  from failed_call_undone [OF sampleEngine_balanced sample_wf_output r] r show ?thesis by (auto simp: sampleVM_def)
qed

text \<open>C24: a nested call that succeeds adds its output to its caller's: the caller's output afterwards is
  the merge of what it was before with the output of the call, which reports success.\<close>

theorem successful_call_merged:
  assumes "balancedEngine w" "wf_output (outputCtx s)"
    "ExecuteOnDestContext (calleeAt w e n) e i s = Some (r, s')" "dr_err r = None"
  shows "outputState (outputCtx s') = mergeVMOutputs (outputState (outputCtx s)) (dr_output r) \<and> ReturnCode (dr_output r) = Ok"
  using ExecuteOnDestContext_merges [OF balancedCallee_calleeAt [OF assms(1)] assms(3,2,4)] by blast

theorem successful_call_merged_witness:
  "\<exists>r s'. ExecuteOnDestContext (calleeAt sampleEngine sampleEnv 1) sampleEnv (sampleCall []) sampleVM = Some (r, s') \<and>
     ReturnData (outputState (outputCtx s')) = [''data'']"
proof -
  obtain r s' where r: "ExecuteOnDestContext (calleeAt sampleEngine sampleEnv 1) sampleEnv (sampleCall []) sampleVM = Some (r, s')"
    "dr_err r = None" "ReturnData (dr_output r) = [''data'']" using sample_nested by auto
  from successful_call_merged [OF sampleEngine_balanced sample_wf_output r(1,2)] r show ?thesis
    by (auto simp: mergeVMOutputs_def sampleVM_def sampleOutput_def)
qed

end
