(* ===== verification/HookRelations.thy ===== *)
theory HookRelations
  imports VMImports HostStacks
begin

text \<open>
  Three relations that the imports of a contract respect, each an interpretation of the interfaces of
  the theory \<open>HookOps\<close> on the operations of the contexts: the stacks of saved states stay as they
  were, the gas a contract has used never shrinks, and in read-only mode neither storage nor the log changes.
\<close>

subsection \<open>The stacks\<close>

lemma stacks_setMemory [stack_simps]: "stacks (setMemory m s) = stacks s"
  by (simp add: setMemory_def stack_simps split: option.splits)

lemma stacks_MemStore [stack_dest]: "MemStore e p d s = Some (r, s') \<Longrightarrow> stacks s' = stacks s"
  by (auto simp: MemStore_def Let_def bind_Some_iff stack_simps split: if_splits sum.splits)

lemma stacks_bigIntValues [stack_simps]: "stacks (s\<lparr>bigIntCtx := (bigIntCtx s)\<lparr>bi_values := v\<rparr>\<rparr>) = stacks s"
  by (simp add: stacks_def)

lemma stacks_getStorageFromAddress [stack_dest]:
  "getStorageFromAddressUnmetered e a k s = (v, s') \<Longrightarrow> stacks s' = stacks s"
  by (auto simp: getStorageFromAddressUnmetered_def Let_def stack_simps dest!: stack_dest split: prod.splits option.splits)

lemma stacks_WriteLog [stack_simps]: "stacks (WriteLog a topics data s) = stacks s"
  by (simp add: WriteLog_def Let_def stacks_def)

lemma stacks_SetReadOnly [stack_simps]: "stacks (SetReadOnly b s) = stacks s"
  by (simp add: SetReadOnly_def stacks_def)

lemma stacks_ExecuteAsyncCall [stack_dest]: "ExecuteAsyncCall e a d v s = Some (r, s') \<Longrightarrow> stacks s' = stacks s"
  by (auto simp: ExecuteAsyncCall_def UseGasForAsyncStep_def bind_Some_iff Let_def stack_simps dest!: stack_dest
    split: option.splits if_splits)

lemma stacks_ExecuteDCDTTransfer [stack_dest]:
  "ExecuteDCDTTransfer e d a tok n v ct b s = Some (r, s') \<Longrightarrow> stacks s' = stacks s"
  by (auto simp: ExecuteDCDTTransfer_def bind_Some_iff Let_def case_prod_beta stack_simps dest!: stacks_UseGas
    split: option.splits if_splits)

lemma stacks_TransferDCDT [stack_dest]:
  "TransferDCDT e d a tok n v c s = Some (r, s') \<Longrightarrow> stacks s' = stacks s"
  by (auto simp: TransferDCDT_def bind_Some_iff Let_def stack_simps dest!: stack_dest split: if_splits)

definition keepsStacks :: "reentry \<Rightarrow> vm \<Rightarrow> vm \<Rightarrow> bool" where
  "keepsStacks re s s' \<longleftrightarrow> (balancedReentry re \<longrightarrow> stacks s' = stacks s)"

interpretation stack: call_relation "keepsStacks re" e re for re e
  by unfold_locales
    (auto simp: keepsStacks_def balancedReentry_def stack_simps SetReturnCode_def SetReturnMessage_def dest: stack_dest)

subsection \<open>Gas\<close>

definition gasGrows :: "vm \<Rightarrow> vm \<Rightarrow> bool" where
  \<comment> \<open>the same instance runs, with the same gas for execution, and has used no less of it\<close>
  "gasGrows s s' \<longleftrightarrow> inst (runtimeCtx s') = inst (runtimeCtx s) \<and> gasForExecution (meteringCtx s') = gasForExecution (meteringCtx s) \<and>
     (GetPointsUsed s \<le> MaxInt64 \<longrightarrow> GetPointsUsed s \<le> GetPointsUsed s' \<and> GetPointsUsed s' \<le> MaxInt64)"

lemma gasGrows_refl: "gasGrows s s"
  by (simp add: gasGrows_def)

lemma gasGrows_trans: "gasGrows s t \<Longrightarrow> gasGrows t u \<Longrightarrow> gasGrows s u"
  by (auto simp: gasGrows_def)

lemma gasGrows_same: "instances s' = instances s \<Longrightarrow> inst (runtimeCtx s') = inst (runtimeCtx s) \<Longrightarrow>
    gasForExecution (meteringCtx s') = gasForExecution (meteringCtx s) \<Longrightarrow> gasGrows s s'"
  by (auto simp: gasGrows_def GetPointsUsed_def split: option.splits)

lemma gasGrows_accounts: "only_accounts s s' \<Longrightarrow> gasGrows s s'"
  by (simp add: gasGrows_same only_accounts_frame)

lemma gasGrows_GasLeft:
  assumes "gasGrows s s'" "GetPointsUsed s \<le> MaxInt64"
  shows "GasLeft s' \<le> GasLeft s"
  using assms by (auto simp: gasGrows_def GasLeft_def Let_def word_le_nat_alt word_less_nat_alt unat_sub_if')

lemma gasGrows_UseGas: "UseGas g s = Some s' \<Longrightarrow> gasGrows s s'"
proof -
  assume "UseGas g s = Some s'"
  then obtain r where r: "inst (runtimeCtx s) = Some r" and s': "s' = updInstance r (\<lambda>i. i\<lparr>inst_points :=
      (if AddUint64 (GetPointsUsed s) g > MaxInt64 then MaxInt64 else AddUint64 (GetPointsUsed s) g)\<rparr>) s"
    by (auto simp: UseGas_def SetPointsUsed_def Let_def bind_Some_iff)
  have le: "GetPointsUsed s \<le> AddUint64 (GetPointsUsed s) g" by (rule AddUint64_ge)
  show "gasGrows s s'" using r le unfolding s' by (auto simp: gasGrows_def GetPointsUsed_def)
qed

lemma gasGrows_breakpoint: "SetRuntimeBreakpointValue b s = Some s' \<Longrightarrow> gasGrows s s'"
  by (auto simp: SetRuntimeBreakpointValue_def bind_Some_iff gasGrows_def GetPointsUsed_def)

lemma gasGrows_MemStore: "MemStore e p d s = Some (r, s') \<Longrightarrow> gasGrows s s'"
proof -
  have set: "gasGrows s (setMemory m s)" for m s
    by (auto simp: setMemory_def gasGrows_def GetPointsUsed_def split: option.splits)
  assume "MemStore e p d s = Some (r, s')"
  then show ?thesis
    by (auto simp: MemStore_def Let_def bind_Some_iff gasGrows_refl intro: set gasGrows_trans [OF set set] split: if_splits sum.splits)
qed

subsection \<open>Operations on the accounts\<close>

lemma accounts_get: "host_GetOutputAccount a s = (r, s') \<Longrightarrow> only_accounts s s'"
  using only_accounts_get [of s a] by simp

lemma accounts_set: "only_accounts s t \<Longrightarrow> only_accounts s (host_setAccount a acc t)"
  by (rule only_accounts_trans [OF _ only_accounts_set])

lemma accounts_balance: "GetBalanceBigInt e a s = Some (x, s') \<Longrightarrow> only_accounts s s'"
  by (auto simp: GetBalanceBigInt_def Let_def bind_Some_iff dest!: accounts_get intro: accounts_set
    split: prod.splits if_splits option.splits sum.splits)

lemma accounts_updates: "GetStorageUpdates a s = (m, s') \<Longrightarrow> only_accounts s s'"
  by (auto simp: GetStorageUpdates_def Let_def dest!: accounts_get split: prod.splits)

lemma accounts_put: "only_accounts s t \<Longrightarrow> only_accounts s (putStorageUpdate a k u t)"
  by (auto simp: putStorageUpdate_def Let_def dest!: accounts_get intro: accounts_set only_accounts_trans split: prod.splits)

lemma accounts_storage: "getStorageFromAddressUnmetered e a k s = (v, s') \<Longrightarrow> only_accounts s s'"
  by (auto simp: getStorageFromAddressUnmetered_def Let_def dest!: accounts_updates intro: accounts_put
    split: prod.splits option.splits)

lemma accounts_readOld: "readOld e k s = (v, s') \<Longrightarrow> only_accounts s s'"
  by (auto simp: readOld_def GetStorageUnmetered_def Let_def dest!: accounts_updates accounts_storage
    intro!: accounts_put intro: only_accounts_trans split: prod.splits option.splits)

lemma accounts_moveValue: "moveValue d a v s = Some s' \<Longrightarrow> only_accounts s s'"
  by (auto simp: moveValue_def addToDelta_def bind_Some_iff Let_def dest!: accounts_get intro!: accounts_set
    intro: only_accounts_trans split: prod.splits)

lemma accounts_TransferValueOnly: "TransferValueOnly e d a v b s = Some (r, s') \<Longrightarrow> only_accounts s s'"
  by (auto dest!: TransferValueOnly_SomeD accounts_balance accounts_moveValue intro: only_accounts_trans)

lemma accounts_Transfer: "Transfer e d a g l v i t s = Some (r, s') \<Longrightarrow> only_accounts s s'"
  by (auto simp: Transfer_def appendTransfer_def bind_Some_iff Let_def dest!: accounts_TransferValueOnly accounts_get
    intro: accounts_set only_accounts_trans split: option.splits prod.splits)

lemma gasGrows_FreeGas: "FreeGas g s = Some s' \<Longrightarrow> gasGrows s s'"
  by (auto simp: FreeGas_def bind_Some_iff intro: gasGrows_same)

lemma gasGrows_perByte: "useGasPerByte c n s = Some s' \<Longrightarrow> gasGrows s s'" "freeGasPerByte c n s = Some s' \<Longrightarrow> gasGrows s s'"
  "useGasForExtraKeyBytes key s = Some s' \<Longrightarrow> gasGrows s s'"
  by (auto simp: useGasPerByte_def freeGasPerByte_def useGasForExtraKeyBytes_def gasGrows_refl dest: gasGrows_UseGas gasGrows_FreeGas
    split: if_splits)

lemma gasGrows_chargeModified: "chargeModified n m s = Some s' \<Longrightarrow> gasGrows s s'"
  by (auto simp: chargeModified_def bind_Some_iff Let_def gasGrows_refl dest!: gasGrows_UseGas gasGrows_perByte
    intro: gasGrows_trans split: if_splits)

lemma gasGrows_writeNew: "writeNew a k old v s = Some (r, s') \<Longrightarrow> gasGrows s s'"
  by (auto simp: writeNew_def bind_Some_iff Let_def dest!: gasGrows_perByte gasGrows_chargeModified
    intro: gasGrows_trans gasGrows_trans [OF gasGrows_accounts [OF accounts_put [OF only_accounts_refl]]] split: if_splits)

lemma gasGrows_SetStorage: "SetStorage e k v s = Some (r, s') \<Longrightarrow> gasGrows s s'"
proof (cases "mayWrite (storageConfig s) k")
  case False
  then show "SetStorage e k v s = Some (r, s') \<Longrightarrow> gasGrows s s'"
    using SetStorage_refused [of s k e v] by (auto simp: gasGrows_refl)
next
  case True
  then show "SetStorage e k v s = Some (r, s') \<Longrightarrow> gasGrows s s'"
    by (auto simp: SetStorage_accepted bind_Some_iff Let_def case_prod_beta dest!: gasGrows_perByte gasGrows_writeNew
      intro: gasGrows_trans [OF gasGrows_trans [OF _ gasGrows_accounts [OF accounts_readOld [OF surjective_pairing]]]])
qed

lemma gasGrows_protected: "SetProtectedStorage e k v s = Some (r, s') \<Longrightarrow> gasGrows s s'"
proof -
  have flag: "gasGrows t (t\<lparr>storageCtx := c\<rparr>)" for t c by (rule gasGrows_same) simp_all
  assume "SetProtectedStorage e k v s = Some (r, s')"
  then show ?thesis
    by (auto simp: SetProtectedStorage_def bind_Some_iff dest!: gasGrows_SetStorage
      intro: gasGrows_trans [OF gasGrows_trans [OF flag _] flag])
qed

lemma gasGrows_bounded: "UseGasBounded g s = Some (r, s') \<Longrightarrow> gasGrows s s'"
  by (auto simp: UseGasBounded_def bind_Some_iff gasGrows_refl dest: gasGrows_UseGas split: if_splits)

lemma gasGrows_asyncInfo: "gasGrows s (SetAsyncCallInfo info s)"
  by (rule gasGrows_same) (simp_all add: SetAsyncCallInfo_def)

lemma gasGrows_ExecuteAsyncCall: "ExecuteAsyncCall e a d v s = Some (r, s') \<Longrightarrow> gasGrows s s'"
  by (auto simp: ExecuteAsyncCall_def UseGasForAsyncStep_def bind_Some_iff Let_def dest!: gasGrows_bounded gasGrows_breakpoint
    intro: gasGrows_trans gasGrows_trans [OF gasGrows_asyncInfo] split: option.splits if_splits)

lemma gasGrows_fields: "gasGrows s (s\<lparr>outputCtx := c\<rparr>)" "gasGrows s (s\<lparr>bigIntCtx := d\<rparr>)" "gasGrows s (WriteLog a topics data s)"
  by (rule gasGrows_same; simp add: WriteLog_def Let_def)+

interpretation gas: write_relation gasGrows e for e
  by unfold_locales
    (rule gasGrows_refl gasGrows_asyncInfo gasGrows_fields | erule (1) gasGrows_trans |
     erule gasGrows_UseGas gasGrows_breakpoint gasGrows_MemStore gasGrows_SetStorage gasGrows_protected gasGrows_ExecuteAsyncCall |
     rule gasGrows_accounts, erule accounts_balance accounts_storage accounts_Transfer)+

subsection \<open>Read-only mode\<close>

definition updatesOf :: "address \<Rightarrow> vm \<Rightarrow> (bytes, StorageUpdate) gomap" where
  "updatesOf a s = (case go_get (outAccounts s) a of None \<Rightarrow> [] | Some acc \<Rightarrow> StorageUpdates acc)"

definition storageSafe :: "env \<Rightarrow> vm \<Rightarrow> vm \<Rightarrow> bool" where
  \<comment> \<open>the mode stays, and in read-only mode so do all storage and the log\<close>
  "storageSafe e s s' \<longleftrightarrow> hookLog s' = hookLog s \<and> readOnly (runtimeCtx s') = readOnly (runtimeCtx s) \<and>
     (readOnly (runtimeCtx s) \<longrightarrow> (\<forall>a. storageOf e a s' = storageOf e a s) \<and>
        Logs (outputState (outputCtx s')) = Logs (outputState (outputCtx s)))"

lemma storageSafe_refl: "storageSafe e s s"
  by (simp add: storageSafe_def)

lemma storageSafe_trans: "storageSafe e s t \<Longrightarrow> storageSafe e t u \<Longrightarrow> storageSafe e s u"
  by (auto simp: storageSafe_def)

lemma storageOf_updates: "storageOf e a s k =
    (case go_get (updatesOf a s) k of None \<Rightarrow> hook_GetStorageData e (hookLog s) a k | Some u \<Rightarrow> su_Data u)"
  by (simp add: storageOf_def updatesOf_def split: option.splits)

lemma updatesOf_get: "host_GetOutputAccount a s = ((acc, new), s') \<Longrightarrow> updatesOf b s' = updatesOf b s \<and> StorageUpdates acc = updatesOf a s"
  by (auto simp: host_GetOutputAccount_def GetOutputAccount_def updatesOf_def outAccounts_def setAccount_def NewVMOutputAccount_def
    go_simps split: option.splits prod.splits if_splits)

lemma updatesOf_set: "updatesOf b (host_setAccount a acc s) = (if b = a then StorageUpdates acc else updatesOf b s)"
  by (simp add: updatesOf_def host_setAccount_def setAccount_def outAccounts_def go_simps)

lemma storageSafe_output:
  assumes "outAccounts s' = outAccounts s" "Logs (outputState (outputCtx s')) = Logs (outputState (outputCtx s))"
    "hookLog s' = hookLog s" "readOnly (runtimeCtx s') = readOnly (runtimeCtx s)"
  shows "storageSafe e s s'"
  using assms by (simp add: storageSafe_def storageOf_def fun_eq_iff cong: option.case_cong)

lemma storageSafe_accounts:
  assumes "only_accounts s s'" "\<And>a. updatesOf a s' = updatesOf a s"
  shows "storageSafe e s s'"
  using assms(2) only_accounts_frame [OF assms(1)] by (simp add: storageSafe_def storageOf_updates fun_eq_iff cong: option.case_cong)

lemma storageSafe_instances: "storageSafe e s (updInstance r f s)"
  by (rule storageSafe_output) (simp_all add: outAccounts_def)

lemma storageSafe_gas: "UseGas g s = Some s' \<Longrightarrow> storageSafe e s s'"
  by (auto simp: UseGas_def SetPointsUsed_def Let_def bind_Some_iff storageSafe_instances)

lemma storageSafe_breakpoint: "SetRuntimeBreakpointValue b s = Some s' \<Longrightarrow> storageSafe e s s'"
  by (auto simp: SetRuntimeBreakpointValue_def bind_Some_iff storageSafe_instances)

lemma storageSafe_setMemory: "storageSafe e s (setMemory m s)"
  by (simp add: setMemory_def storageSafe_instances storageSafe_refl split: option.splits)

lemma storageSafe_MemStore: "MemStore e' p d s = Some (r, s') \<Longrightarrow> storageSafe e s s'"
  by (auto simp: MemStore_def Let_def bind_Some_iff storageSafe_refl storageSafe_setMemory
    intro: storageSafe_trans [OF storageSafe_setMemory storageSafe_setMemory] split: if_splits sum.splits)

lemma updatesOf_balance: "GetBalanceBigInt e' a s = Some (x, s') \<Longrightarrow> updatesOf b s' = updatesOf b s"
  by (auto simp: GetBalanceBigInt_def Let_def bind_Some_iff updatesOf_set dest!: updatesOf_get [where b = b]
    split: prod.splits if_splits option.splits sum.splits)

lemma updatesOf_moveValue: "moveValue d a v s = Some s' \<Longrightarrow> updatesOf b s' = updatesOf b s"
proof -
  have delta: "addToDelta c v t = Some t' \<Longrightarrow> updatesOf b t' = updatesOf b t" for c v t t'
    by (auto simp: addToDelta_def bind_Some_iff updatesOf_set) (simp add: updatesOf_def)
  have get: "updatesOf b (snd (host_GetOutputAccount c t)) = updatesOf b t" for c t
    using updatesOf_get by (metis prod.collapse)
  assume "moveValue d a v s = Some s'"
  then show ?thesis by (auto simp: moveValue_def bind_Some_iff Let_def case_prod_beta get dest!: delta)
qed

lemma updatesOf_TransferValueOnly: "TransferValueOnly e' d a v c s = Some (r, s') \<Longrightarrow> updatesOf b s' = updatesOf b s"
  by (auto dest!: TransferValueOnly_SomeD updatesOf_balance [where b = b] updatesOf_moveValue [where b = b])

lemma updatesOf_Transfer: "Transfer e' d a g l v i t s = Some (r, s') \<Longrightarrow> updatesOf b s' = updatesOf b s"
  by (auto simp: Transfer_def appendTransfer_def bind_Some_iff Let_def updatesOf_set dest!: updatesOf_TransferValueOnly [where b = b]
    updatesOf_get [where b = b] split: option.splits prod.splits)

lemma updatesOf_put: "updatesOf b (putStorageUpdate a k u s) = (if b = a then go_set k u (updatesOf a s) else updatesOf b s)"
  by (auto simp: putStorageUpdate_def Let_def updatesOf_set dest!: updatesOf_get split: prod.splits)

lemma storageSafe_read: "getStorageFromAddressUnmetered e a k s = (v, s') \<Longrightarrow> storageSafe e s s'"
proof -
  assume read: "getStorageFromAddressUnmetered e a k s = (v, s')"
  obtain m t where t: "GetStorageUpdates a s = (m, t)" by (metis prod.collapse)
  then obtain acc new where acc: "host_GetOutputAccount a s = ((acc, new), t)" "m = StorageUpdates acc"
    by (auto simp: GetStorageUpdates_def Let_def split: prod.splits)
  have up: "updatesOf b t = updatesOf b s" "m = updatesOf a s" for b using updatesOf_get [OF acc(1)] acc(2) by auto
  have log: "hookLog t = hookLog s" using only_accounts_frame [OF accounts_updates [OF t]] by simp
  note fr = only_accounts_frame [OF accounts_storage [OF read]]
  have "storageOf e b s' x = storageOf e b s x" for b x
  proof (cases "go_get m k")
    case None
    then have "s' = putStorageUpdate a k \<lparr>su_Offset = k, su_Data = hook_GetStorageData e (hookLog s) a k\<rparr> t"
      using read t log by (auto simp: getStorageFromAddressUnmetered_def Let_def)
    with None up fr show ?thesis by (auto simp: storageOf_updates updatesOf_put go_simps cong: option.case_cong)
  next
    case (Some u)
    then have "s' = t" using read t by (simp add: getStorageFromAddressUnmetered_def)
    with up fr show ?thesis by (simp add: storageOf_updates cong: option.case_cong)
  qed
  with fr show ?thesis by (simp add: storageSafe_def fun_eq_iff)
qed

lemma storageSafe_unchanged:
  assumes "hookLog s' = hookLog s" "readOnly (runtimeCtx s') = readOnly (runtimeCtx s)" "readOnly (runtimeCtx s) \<Longrightarrow> s' = s"
  shows "storageSafe e s s'"
  using assms by (auto simp: storageSafe_def)

text \<open>Writing storage leaves the mode, the node's log and the memory of the instance alone.\<close>

definition modeKept :: "vm \<Rightarrow> vm \<Rightarrow> bool" where
  "modeKept s s' \<longleftrightarrow> hookLog s' = hookLog s \<and> readOnly (runtimeCtx s') = readOnly (runtimeCtx s) \<and> instMemory s' = instMemory s"

lemma modeKept_trans: "modeKept s t \<Longrightarrow> modeKept t u \<Longrightarrow> modeKept s u"
  by (simp add: modeKept_def)

lemma modeKept_refl: "modeKept s s"
  by (simp add: modeKept_def)

lemma modeKept_accounts: "only_accounts s s' \<Longrightarrow> modeKept s s'"
  by (simp add: modeKept_def instMemory_def only_accounts_frame cong: option.case_cong)

lemma modeKept_gas: "UseGas g s = Some s' \<Longrightarrow> modeKept s s'" "FreeGas g s = Some s' \<Longrightarrow> modeKept s s'"
  by (auto simp: modeKept_def instMemory_def UseGas_def SetPointsUsed_def FreeGas_def Let_def bind_Some_iff)

lemma modeKept_perByte: "useGasPerByte c n s = Some s' \<Longrightarrow> modeKept s s'" "freeGasPerByte c n s = Some s' \<Longrightarrow> modeKept s s'"
  "useGasForExtraKeyBytes key s = Some s' \<Longrightarrow> modeKept s s'"
  by (auto simp: useGasPerByte_def freeGasPerByte_def useGasForExtraKeyBytes_def modeKept_refl dest: modeKept_gas split: if_splits)

lemma modeKept_put: "modeKept s (putStorageUpdate a k u s)"
  by (rule modeKept_accounts [OF accounts_put [OF only_accounts_refl]])

lemma modeKept_writeNew: "writeNew a k old v s = Some (r, s') \<Longrightarrow> modeKept s s'"
  by (auto simp: writeNew_def chargeModified_def bind_Some_iff Let_def modeKept_refl dest!: modeKept_gas modeKept_perByte
    intro: modeKept_trans modeKept_put modeKept_trans [OF modeKept_put] split: if_splits)

lemma modeKept_SetStorage: "SetStorage e k v s = Some (r, s') \<Longrightarrow> modeKept s s'"
proof (cases "mayWrite (storageConfig s) k")
  case False
  then show "SetStorage e k v s = Some (r, s') \<Longrightarrow> modeKept s s'"
    using SetStorage_refused [of s k e v] by (auto simp: modeKept_refl)
next
  case True
  then show "SetStorage e k v s = Some (r, s') \<Longrightarrow> modeKept s s'"
    by (auto simp: SetStorage_accepted bind_Some_iff Let_def case_prod_beta dest!: modeKept_perByte modeKept_writeNew
      intro: modeKept_trans [OF modeKept_trans [OF _ modeKept_accounts [OF accounts_readOld [OF surjective_pairing]]]])
qed

lemma storageSafe_SetStorage: "SetStorage e' k v s = Some (r, s') \<Longrightarrow> storageSafe e s s'"
  using modeKept_SetStorage [of e' k v s r s'] by (auto simp: modeKept_def SetStorage_def intro!: storageSafe_unchanged)

lemma storageSafe_protected: "SetProtectedStorage e' k v s = Some (r, s') \<Longrightarrow> storageSafe e s s'"
proof -
  have flag: "storageSafe e t (t\<lparr>storageCtx := c\<rparr>)" for t c by (rule storageSafe_output) (simp_all add: outAccounts_def)
  assume "SetProtectedStorage e' k v s = Some (r, s')"
  then show ?thesis
    by (auto simp: SetProtectedStorage_def bind_Some_iff dest!: storageSafe_SetStorage [where e = e]
      intro: storageSafe_trans [OF storageSafe_trans [OF flag _] flag])
qed

lemma storageSafe_asyncInfo: "storageSafe e s (SetAsyncCallInfo info s)"
  by (rule storageSafe_output) (simp_all add: SetAsyncCallInfo_def outAccounts_def)

lemma storageSafe_bounded: "UseGasBounded g s = Some (r, s') \<Longrightarrow> storageSafe e s s'"
  by (auto simp: UseGasBounded_def bind_Some_iff storageSafe_refl dest: storageSafe_gas split: if_splits)

lemma storageSafe_ExecuteAsyncCall: "ExecuteAsyncCall e' a d v s = Some (r, s') \<Longrightarrow> storageSafe e s s'"
  by (auto simp: ExecuteAsyncCall_def UseGasForAsyncStep_def bind_Some_iff Let_def
    dest!: storageSafe_bounded [where e = e] storageSafe_breakpoint [where e = e]
    intro: storageSafe_trans storageSafe_trans [OF storageSafe_asyncInfo] split: option.splits if_splits)

lemma storageSafe_fields:
  "storageSafe e s (s\<lparr>outputCtx := SetReturnMessage m (SetReturnCode c (outputCtx s))\<rparr>)"
  "storageSafe e s (s\<lparr>outputCtx := Finish d (outputCtx s)\<rparr>)" "storageSafe e s (s\<lparr>bigIntCtx := b\<rparr>)"
  by (rule storageSafe_output; simp add: outAccounts_def SetReturnMessage_def SetReturnCode_def Finish_def)+

lemma storageSafe_log: "storageSafe e s (WriteLog a topics data s)"
  by (rule storageSafe_unchanged) (simp_all add: WriteLog_def Let_def)

interpretation readOnlyMode: write_relation "storageSafe e" e for e
  by unfold_locales
    (rule storageSafe_refl storageSafe_asyncInfo storageSafe_fields storageSafe_log | erule (1) storageSafe_trans |
     erule storageSafe_gas storageSafe_breakpoint storageSafe_MemStore storageSafe_SetStorage storageSafe_protected
       storageSafe_ExecuteAsyncCall storageSafe_read |
     rule storageSafe_accounts, erule accounts_balance accounts_Transfer, erule updatesOf_balance updatesOf_Transfer)+

end
