(* ===== verification/HostDepth.thy ===== *)
theory HostDepth
  imports HookRelations
begin

text \<open>
  The recursion through contracts ends: a contract that calls another starts an instance, and the number of
  instances is limited, so beyond a certain depth of \<open>calleeAt\<close> nothing changes any more.  The proof
  compares two callees that agree on the states with the same stacks: each function of the host
  computes the same with both.
\<close>

subsection \<open>Callees that agree\<close>

definition agreeing :: "callee \<Rightarrow> callee \<Rightarrow> vm \<Rightarrow> bool" where
  \<comment> \<open>on the states with the stacks of a given state\<close>
  "agreeing k k' s \<longleftrightarrow> (\<forall>t. stacks t = stacks s \<longrightarrow>
     (\<forall>f. run_function k f t = run_function k' f t) \<and> (\<forall>i. exec_dest k i t = exec_dest k' i t))"

lemma agreeing_run: "agreeing k k' s \<Longrightarrow> run_function k f s = run_function k' f s"
  by (simp add: agreeing_def)

lemma agreeing_exec: "agreeing k k' s \<Longrightarrow> exec_dest k i s = exec_dest k' i s"
  by (simp add: agreeing_def)

lemma agreeing_stacks: "agreeing k k' s \<Longrightarrow> stacks t = stacks s \<Longrightarrow> agreeing k k' t"
  by (simp add: agreeing_def)

lemma bind_same: "(\<And>x. m = Some x \<Longrightarrow> f x = g x) \<Longrightarrow> Option.bind m f = Option.bind m g"
  by (cases m) simp_all

lemma bind_same2: "m = m' \<Longrightarrow> (\<And>x y. m' = Some (x, y) \<Longrightarrow> f x y = g x y) \<Longrightarrow>
    Option.bind m (\<lambda>(x, y). f x y) = Option.bind m' (\<lambda>(x, y). g x y)"
  by (cases m') auto

lemma same_syncDestination:
  "agreeing k k' s \<Longrightarrow> executeSyncDestinationCall k e i s = executeSyncDestinationCall k' e i s"
  by (simp add: executeSyncDestinationCall_def agreeing_exec split: sum.split)

lemma same_syncCallback:
  assumes "agreeing k k' s"
  shows "executeSyncCallbackCall k e i out err m s = executeSyncCallbackCall k' e i out err m s"
proof -
  have "exec_dest k j t = exec_dest k' j t" if "SetPointsUsed 0 (snd (computeGasUsedInExecutionBeforeReset e i' s)) = Some t" for j t i'
    using that assms by (intro agreeing_exec) (auto intro: agreeing_stacks simp: stack_simps dest!: stack_dest)
  then show ?thesis
    unfolding executeSyncCallbackCall_def
    by (auto simp: case_prod_beta Let_def cong: option.case_cong intro!: bind_same split: sum.split)
qed

lemma same_handleAsyncCall:
  assumes "agreeing k k' s" "balancedCallee k'"
  shows "handleAsyncCallBreakpoint k e s = handleAsyncCallBreakpoint k' e s"
proof -
  have dest: "executeSyncDestinationCall k e i t = executeSyncDestinationCall k' e i t" if "stacks t = stacks s" for i t
    using that assms(1) by (intro same_syncDestination) (rule agreeing_stacks)
  have callback: "executeSyncCallbackCall k e i out err m u = executeSyncCallbackCall k' e i out err m u"
    if "stacks t = stacks s" "executeSyncDestinationCall k' e i t = Some (r, u)" for i t out err m u r
    using that assms stacks_syncDestination [OF assms(2) that(2)] by (intro same_syncCallback) (auto intro: agreeing_stacks)
  have st: "stacks (snd (determineAsyncCallExecutionMode e i t)) = stacks s" if "SetRuntimeBreakpointValue BreakpointNone s = Some t" for t i
    using that stacks_determine [OF surjective_pairing] by (metis stacks_breakpoint)
  show ?thesis
    unfolding handleAsyncCallBreakpoint_def
    by (auto simp: case_prod_beta Let_def st dest callback [OF st] intro!: bind_same split: sum.split)
qed

lemma same_handleBreakpointIfAny:
  "agreeing k k' s \<Longrightarrow> balancedCallee k' \<Longrightarrow> handleBreakpointIfAny k e err s = handleBreakpointIfAny k' e err s"
  by (auto simp: handleBreakpointIfAny_def handleBreakpoint_def same_handleAsyncCall intro!: bind_same)

subsection \<open>Generated calls\<close>

lemma same_callbackAsync:
  "agreeing k k' s \<Longrightarrow> callbackAsync k e c out err s = callbackAsync k' e c out err s"
  by (auto simp: callbackAsync_def Let_def agreeing_exec intro!: bind_same split: sum.split)

lemma same_processAsyncCall:
  assumes "agreeing k k' s" "balancedCallee k'"
  shows "processAsyncCall k e c s = processAsyncCall k' e c s"
proof -
  have "callbackAsync k e c out err t = callbackAsync k' e c out err t" if "exec_dest k' i s = Some (r, t)" for i r t c out err
    using assms that by (intro same_callbackAsync) (auto intro: agreeing_stacks balanced_exec)
  then show ?thesis
    by (auto simp: processAsyncCall_def agreeing_exec [OF assms(1)] intro!: bind_same split: sum.split)
qed

lemma same_processCalls:
  assumes "balancedCallee k'"
  shows "agreeing k k' s \<Longrightarrow> processCalls k e cs s = processCalls k' e cs s"
proof (induction cs arbitrary: s)
  case (Cons c cs)
  let ?t = "snd (canExecuteSynchronously e (Destination c) s)"
  have t: "agreeing k k' ?t" using Cons.prems by (rule agreeing_stacks) (simp add: stack_simps)
  have "processCalls k e cs u = processCalls k' e cs u" if "processAsyncCall k' e c ?t = Some (r, u)" for r u
    using t stacks_processAsyncCall [OF assms that] by (intro Cons.IH) (rule agreeing_stacks)
  moreover have "processCalls k e cs ?t = processCalls k' e cs ?t" using t by (rule Cons.IH)
  ultimately show ?case
    by (auto simp: case_prod_beta Let_def same_processAsyncCall [OF t assms] intro!: bind_same split: option.split)
qed simp

lemma same_processContexts:
  assumes "balancedCallee k'"
  shows "agreeing k k' s \<Longrightarrow> processContexts k e m s = processContexts k' e m s"
proof (induction m arbitrary: s)
  case (Cons x m)
  obtain i ctx where x: "x = (i, ctx)" by (cases x)
  have "processContexts k e m t = processContexts k' e m t" if "processCalls k' e (AsyncCalls ctx) s = Some (r, t)" for r t
    using Cons.prems stacks_processCalls [OF assms that] by (intro Cons.IH) (rule agreeing_stacks)
  then show ?case
    by (auto simp: x Let_def same_processCalls [OF assms Cons.prems] intro!: bind_same split: option.split)
qed simp

lemma same_processAsyncInfo:
  "agreeing k k' s \<Longrightarrow> balancedCallee k' \<Longrightarrow> processAsyncInfo k e info s = processAsyncInfo k' e info s"
  by (auto simp: processAsyncInfo_def same_processContexts split: prod.split option.split)

lemma same_processCurrentAsyncInfo:
  "agreeing k k' s \<Longrightarrow> balancedCallee k' \<Longrightarrow> processCurrentAsyncInfo k e s = processCurrentAsyncInfo k' e s"
  by (simp add: processCurrentAsyncInfo_def same_processAsyncInfo)

lemma createCallback_nil: "createCallbackContractCallInput e None out d f err s = None"
  by (simp add: createCallbackContractCallInput_def)

lemma same_processCallbackStack: "processCallbackStack k e s = processCallbackStack k' e s"
  \<comment> \<open>the call it would make panics before\<close>
  unfolding processCallbackStack_def createCallback_nil Option.bind.simps by (rule refl)

subsection \<open>Execution\<close>

lemma same_runWithBreakpoints:
  assumes "agreeing k k' s" "balancedCallee k'"
  shows "runWithBreakpoints k e f s = runWithBreakpoints k' e f s"
proof -
  have "handleBreakpointIfAny k e err t = handleBreakpointIfAny k' e err t" if "run_function k' f s = Some (r, t)" for err r t
    using assms that by (intro same_handleBreakpointIfAny) (auto intro: agreeing_stacks balanced_run)
  then show ?thesis by (auto simp: runWithBreakpoints_def agreeing_run [OF assms(1)] intro!: bind_same)
qed

lemma same_callInitFunction:
  "agreeing k k' s \<Longrightarrow> balancedCallee k' \<Longrightarrow> callInitFunction k e s = callInitFunction k' e s"
  by (simp add: callInitFunction_def same_runWithBreakpoints cong: option.case_cong)

lemma same_callSCMethodIndirect:
  "agreeing k k' s \<Longrightarrow> balancedCallee k' \<Longrightarrow> callSCMethodIndirect k e s = callSCMethodIndirect k' e s"
  by (simp add: callSCMethodIndirect_def same_runWithBreakpoints cong: sum.case_cong)

lemma same_callSCMethod:
  assumes "agreeing k k' s" "balancedCallee k'"
  shows "callSCMethod k e s = callSCMethod k' e s"
proof -
  have f: "agreeing k k' t" if "getFunctionByCallType e c s = Some (r, t)" for c r t
    using assms(1) that by (auto intro: agreeing_stacks dest: stack_dest)
  have run: "runWithBreakpoints k e g t = runWithBreakpoints k' e g t" if "getFunctionByCallType e c s = Some (r, t)" for c r t g
    using same_runWithBreakpoints [OF f [OF that] assms(2)] .
  have async: "processCurrentAsyncInfo k e u = processCurrentAsyncInfo k' e u"
    if "getFunctionByCallType e c s = Some (r, t)" "runWithBreakpoints k' e g t = Some (r', u)" for c r t g r' u
    using f [OF that(1)] stacks_runWithBreakpoints [OF assms(2) that(2)] assms(2)
    by (intro same_processCurrentAsyncInfo) (auto intro: agreeing_stacks)
  show ?thesis
    unfolding callSCMethod_def same_processCallbackStack [of k e _ k']
    by (auto simp: Let_def run async intro!: bind_same split: option.split sum.split CallTypeT.split)
qed

lemma frame_builtin:
  \<comment> \<open>a built-in function does not make asynchronous calls\<close>
  assumes "callBuiltinFunction e i s = Some (r, s')"
  shows "runtimeCtx s' = runtimeCtx s"
proof -
  have points: "runtimeCtx u = runtimeCtx t" if "SetPointsUsed g t = Some u" for g t u
    using that by (auto simp: SetPointsUsed_def bind_Some_iff Let_def)
  have gas: "runtimeCtx u = runtimeCtx t" if "UseGas g t = Some u" for g t u
    using that points by (auto simp: UseGas_def)
  have comp: "runtimeCtx (snd (computeGasUsedInExecutionBeforeReset e i t)) = runtimeCtx t" for t
    by (auto simp: computeGasUsedInExecutionBeforeReset_def GasUsedForExecution_def GasUsedByContract_def Let_def split: prod.splits)
  have forw: "runtimeCtx (snd (foldl (accountForwarded i) acc ts)) = runtimeCtx (snd acc)" for acc ts
    by (induction ts arbitrary: acc) (auto simp: accountForwarded_def ForwardGas_def Let_def split: prod.splits)
  have fin: "runtimeCtx u = runtimeCtx t" if "finishBuiltinCall e i g out t = Some (x, u)" for g out t x u
  proof -
    from that obtain n where "isSCExecutionAfterBuiltInFunc e i out = Some n" by (auto simp: finishBuiltinCall_def bind_Some_iff)
    with that show ?thesis by (cases n) (auto simp: finishBuiltinCall_def bind_Some_iff Let_def)
  qed
  have proc: "runtimeCtx (snd (ProcessBuiltInFunction e i t)) = runtimeCtx t" for t
    by (simp add: ProcessBuiltInFunction_def)
  from assms show ?thesis
    by (auto simp: callBuiltinFunction_def bind_Some_iff case_prod_beta Let_def comp proc forw dest!: points gas fin
      split: option.splits if_splits)
qed

lemma frame_transfer: "TransferValueOnly e d a v b s = Some (r, s') \<Longrightarrow> runtimeCtx s' = runtimeCtx s"
  by (auto simp: only_accounts_frame dest!: TransferValueOnly_SomeD accounts_balance accounts_moveValue)

subsection \<open>The limit of instances\<close>

definition fullStack :: "vm \<Rightarrow> bool" where
  "fullStack s \<longleftrightarrow> RunningInstancesCount s \<ge> maxWasmerInstances (runtimeCtx s)"

definition alike :: "callee \<Rightarrow> callee \<Rightarrow> vm \<Rightarrow> bool" where
  \<comment> \<open>when no instance can be started, it does not matter what contracts do\<close>
  "alike k k' s \<longleftrightarrow> fullStack s \<or> agreeing k k' s"

lemma fullStack_stacks: "stacks t = stacks s \<Longrightarrow> fullStack t = fullStack s"
  by (simp add: fullStack_def stacks_def RunningInstancesCount_def)

lemma alike_stacks: "alike k k' s \<Longrightarrow> stacks t = stacks s \<Longrightarrow> alike k k' t"
  unfolding alike_def using fullStack_stacks agreeing_stacks by blast

lemma alike_started: "StartWasmerInstance e c g b s = Some (None, t) \<Longrightarrow> alike k k' s \<Longrightarrow> agreeing k k' t"
  using instance_limit [of s e c g b] stacks_StartWasmerInstance [of e c g b s]
  by (auto simp: alike_def fullStack_def intro: agreeing_stacks)

lemma same_executeUpgrade:
  assumes "alike k k' s" "balancedCallee k'"
  shows "executeUpgrade k e i s = executeUpgrade k' e i s"
proof -
  have "callInitFunction k e u = callInitFunction k' e u"
    if "StartWasmerInstance e c g b (MustVerifyNextContractCode (snd (DeductInitialGasForDirectDeployment d
      (snd (ExtractCodeUpgradeFromArgs s))))) = Some (None, u)" for c g b d u
    by (intro same_callInitFunction alike_started [OF that] alike_stacks [OF assms(1)] assms(2)) (simp add: stack_simps)
  then show ?thesis
    by (auto simp: executeUpgrade_def case_prod_beta Let_def intro!: bind_same split: option.split sum.split)
qed

lemma same_executeSmartContractCall:
  assumes "alike k k' s" "balancedCallee k'"
  shows "executeSmartContractCall k e i b s = executeSmartContractCall k' e i b s"
proof -
  have up: "executeUpgrade k e i t = executeUpgrade k' e i t" if "UseGas g s = Some t" for g t
    using assms that by (intro same_executeUpgrade) (auto intro: alike_stacks dest: stack_dest)
  have run: "callSCMethodIndirect k e u = callSCMethodIndirect k' e u"
    if "UseGas g s = Some t" "StartWasmerInstance e c g' b' (if b then snd (DeductInitialGasForExecution e c' (snd (GetSCCode e t)))
      else snd (GetSCCode e t)) = Some (None, u)" for g t c c' g' b' u
    using assms(2) that(1)
    by (intro same_callSCMethodIndirect alike_started [OF that(2)] alike_stacks [OF assms(1)])
      (auto simp: stack_simps dest!: stack_dest split: if_splits)
  have "callSCMethodIndirect k e u = callSCMethodIndirect k' e u"
    if "UseGas g s = Some t" "b" "StartWasmerInstance e c g' b' (snd (DeductInitialGasForExecution e c' (snd (GetSCCode e t)))) =
      Some (None, u)" for g t c c' g' b' u using run [of g t c g' b' c' u] that by simp
  moreover have "callSCMethodIndirect k e u = callSCMethodIndirect k' e u"
    if "UseGas g s = Some t" "\<not> b" "StartWasmerInstance e c g' b' (snd (GetSCCode e t)) = Some (None, u)" for g t c g' b' u
    using run [of g t c g' b' undefined u] that by simp
  ultimately show ?thesis
    by (auto simp: executeSmartContractCall_def case_prod_beta Let_def up intro!: bind_same split: sum.split)
qed

lemma same_execute:
  assumes "alike k k' s" "balancedCallee k'"
  shows "execute k e i s = execute k' e i s"
proof -
  have "executeSmartContractCall k e n b (setStorageAddress u) = executeSmartContractCall k' e n b (setStorageAddress u)"
    if "callBuiltinFunction e i s = Some (r, t)" "runtime_InitStateFromContractCallInput m t = Some v" "initFromInput m v = Some (n', u)"
    for r t m v n' n u b
    using assms that by (intro same_executeSmartContractCall) (auto intro!: alike_stacks [OF assms(1)] simp: stack_simps dest!: stack_dest)
  then show ?thesis
    by (auto simp: execute_def same_executeSmartContractCall [OF assms] intro!: bind_same split: sum.split option.split)
qed

lemma full_start: "fullStack s \<Longrightarrow> StartWasmerInstance e c g b s \<noteq> Some (None, t)"
  using instance_limit [of s e c g b] by (simp add: fullStack_def)

lemma full_call:
  assumes "fullStack s" "executeSmartContractCall k e i b s = Some (err, t)"
  shows "err \<noteq> None"
proof
  assume "err = None"
  from assms(2) obtain u where u: "UseGas (GasProvided (cci_VMInput i)) s = Some u"
    using \<open>err = None\<close> by (auto simp: executeSmartContractCall_def bind_Some_iff split: if_splits)
  have full: "fullStack v" if "stacks v = stacks u" for v
    using assms(1) u that fullStack_stacks [of v s] by (auto dest: stack_dest)
  show False
  proof (cases "Function i = UpgradeFunctionName")
    case True
    with assms(2) u \<open>err = None\<close> have "executeUpgrade k e i u = Some (None, t)"
      by (auto simp: executeSmartContractCall_def split: if_splits)
    then show False
      by (auto simp: executeUpgrade_def case_prod_beta Let_def bind_Some_iff stack_simps full_start [OF full]
        split: option.splits sum.splits if_splits)
  next
    case False
    with assms(2) u \<open>err = None\<close> show False
      by (auto simp: executeSmartContractCall_def case_prod_beta Let_def bind_Some_iff stack_simps full_start [OF full]
        split: sum.splits if_splits)
  qed
qed

lemma full_execute:
  assumes "fullStack s" "execute k e i s = Some ((g, None), t)"
  shows "runtimeCtx t = runtimeCtx s"
proof (cases "IsBuiltinFunctionName e (callFunction (runtimeCtx s))")
  case True
  with assms(2) obtain r g' u where u: "callBuiltinFunction e i s = Some ((r, g'), u)"
    by (auto simp: execute_def bind_Some_iff)
  have full: "fullStack v" if "stacks v = stacks u" for v
    using assms(1) u that fullStack_stacks [of v s] by (auto dest: stack_dest)
  show ?thesis
  proof (cases r)
    case (Inl err)
    with assms(2) True u show ?thesis by (simp add: execute_def)
  next
    case (Inr n)
    have "executeSmartContractCall k e m' b (setStorageAddress w) \<noteq> Some (None, x)"
      if "runtime_InitStateFromContractCallInput m u = Some v" "initFromInput m v = Some (m', w)" for m v m' w x b
    proof -
      have "stacks (setStorageAddress w) = stacks u" using that by (auto simp: stack_simps dest!: stack_dest)
      from full_call [OF full [OF this]] show ?thesis by blast
    qed
    with assms(2) True u Inr frame_builtin [OF u] show ?thesis
      by (auto simp: execute_def bind_Some_iff split: option.splits if_splits)
  qed
next
  case False
  with assms(2) have "executeSmartContractCall k e i True s = Some (None, t)" by (auto simp: execute_def bind_Some_iff)
  from full_call [OF assms(1) this] show ?thesis by simp
qed

lemma same_bodyOnDestContext:
  assumes "alike k k' s" "balancedCallee k'" "AsyncContextMap (asyncContextInfo (runtimeCtx s)) = []"
  shows "bodyOnDestContext k e i s = bodyOnDestContext k' e i s"
proof -
  have ex: "execute k e i t = execute k' e i t" if "stacks t = stacks s" for t
    using that by (intro same_execute alike_stacks [OF assms(1)] assms(2))
  have async: "processCurrentAsyncInfo k e u = processCurrentAsyncInfo k' e u"
    if "runtimeCtx t = runtimeCtx s" "stacks t = stacks s" "execute k' e i t = Some ((g, None), u)" for g t u
  proof (cases "fullStack s")
    case True
    have "runtimeCtx u = runtimeCtx s"
      using full_execute [OF _ that(3)] fullStack_stacks [OF that(2)] True that(1) by simp
    with assms(3) show ?thesis by (simp add: processCurrentAsyncInfo_def processAsyncInfo_def)
  next
    case False
    with assms(1) have "agreeing k k' s" by (simp add: alike_def)
    moreover have "stacks u = stacks s" using stacks_execute [OF assms(2) that(3)] that(2) by simp
    ultimately show ?thesis by (intro same_processCurrentAsyncInfo assms(2)) (rule agreeing_stacks)
  qed
  have transfer: "runtimeCtx t = runtimeCtx s \<and> stacks t = stacks s"
    if "(if b then TransferValueOnly e d a v False s else Some (None, s)) = Some (r, t)" for d a v b r t
    using that by (auto dest: frame_transfer stack_dest split: if_splits)
  show ?thesis
    unfolding bodyOnDestContext_def
    by (intro bind_same) (auto simp: ex async dest!: transfer intro!: bind_same)
qed

subsection \<open>The entry points of the host\<close>

definition room :: "vm \<Rightarrow> nat" where
  \<comment> \<open>how many instances may still be stacked\<close>
  "room s = unat (maxWasmerInstances (runtimeCtx s)) - length (instanceStack (runtimeCtx s))"

definition above :: "vm \<Rightarrow> vm \<Rightarrow> bool" where
  \<comment> \<open>a state in which one more instance is on the stack\<close>
  "above s t \<longleftrightarrow> length (instanceStack (runtimeCtx t)) = Suc (length (instanceStack (runtimeCtx s))) \<and>
     maxWasmerInstances (runtimeCtx t) = maxWasmerInstances (runtimeCtx s)"

lemma room_stacks: "stacks t = stacks s \<Longrightarrow> room t = room s"
  by (simp add: room_def stacks_def)

lemma room_above: "above s t \<Longrightarrow> room t = room s - 1"
  by (simp add: room_def above_def)

lemma above_stacks: "above s t \<Longrightarrow> stacks u = stacks t \<Longrightarrow> above s u"
  by (simp add: above_def stacks_def)

lemma full_above:
  assumes "above s t" "room s = 1"
  shows "fullStack t"
proof -
  have "length (instanceStack (runtimeCtx t)) = unat (maxWasmerInstances (runtimeCtx t))"
    using assms by (simp add: above_def room_def)
  then show ?thesis by (simp add: fullStack_def RunningInstancesCount_def len_def)
qed

lemma init_empty:
  "runtime_InitStateFromContractCallInput i s = Some t \<Longrightarrow> AsyncContextMap (asyncContextInfo (runtimeCtx t)) = []"
  by (auto simp: runtime_InitStateFromContractCallInput_def bind_Some_iff emptyAsyncContextInfo_def)

lemma initFromInput_runtime: "initFromInput i s = Some (r, t) \<Longrightarrow> runtimeCtx t = runtimeCtx s"
  by (auto simp: initFromInput_def split: prod.splits)

lemma enterDestContext_empty:
  "enterDestContext e i s = Some (i', t) \<Longrightarrow> AsyncContextMap (asyncContextInfo (runtimeCtx t)) = []"
  by (auto simp: enterDestContext_def bind_Some_iff Let_def setStorageAddress_def computeGasUsedBefore_def SetTotalUsedGas_def
    dest!: init_empty initFromInput_runtime)

lemma same_ExecuteOnDestContext:
  assumes "\<And>t. above s t \<Longrightarrow> alike k k' t" "balancedCallee k'"
  shows "ExecuteOnDestContext k e i s = ExecuteOnDestContext k' e i s"
proof -
  have "bodyOnDestContext k e i' t = bodyOnDestContext k' e i' t" if "enterDestContext e i s = Some (i', t)" for i' t
    using assms enterDestContext_pushed(1) [OF that] enterDestContext_empty [OF that]
    by (intro same_bodyOnDestContext) (auto simp: above_def stacks_def pushed_def)
  then show ?thesis by (auto simp: ExecuteOnDestContext_def intro!: bind_same)
qed

lemma above_PushState: "runtime_PushState s = Some t \<Longrightarrow> above s t"
  by (auto simp: runtime_PushState_def pushInstance_def bind_Some_iff Let_def above_def)

lemma same_ExecuteOnSameContext:
  assumes "\<And>t. above s t \<Longrightarrow> alike k k' t" "balancedCallee k'"
  shows "ExecuteOnSameContext k e i s = ExecuteOnSameContext k' e i s"
proof -
  have "execute k e i' w = execute k' e i' w"
    if "runtime_PushState (s\<lparr>bigIntCtx := b, outputCtx := out\<rparr>) = Some t" "runtime_InitStateFromContractCallInput j t = Some u"
      "initFromInput j (u\<lparr>meteringCtx := m\<rparr>) = Some (j', v)" "TransferValueOnly e d a x False v = Some (err, w)"
    for b out t j u m j' v d a x err w i'
  proof (rule same_execute [OF assms(1) assms(2)])
    have "above s t" using above_PushState [OF that(1)] by (simp add: above_def)
    moreover have "instanceStack (runtimeCtx w) = instanceStack (runtimeCtx t)" "maxWasmerInstances (runtimeCtx w) = maxWasmerInstances (runtimeCtx t)"
      using frame_transfer [OF that(4)] initFromInput_runtime [OF that(3)] stacks_InitStateFromContractCallInput [OF that(2)]
      by (simp_all add: stacks_def)
    ultimately show "above s w" by (simp add: above_def)
  qed
  then show ?thesis by (auto simp: ExecuteOnSameContext_def Let_def intro!: bind_same)
qed

lemma same_CreateNewContract:
  assumes "\<And>j t. stacks t = stacks s \<Longrightarrow> exec_dest k j t = exec_dest k' j t"
  shows "CreateNewContract k e i s = CreateNewContract k' e i s"
proof -
  have "exec_dest k j (MustVerifyNextContractCode (t\<lparr>outputCtx := DeployCode d (outputCtx t)\<rparr>)) =
      exec_dest k' j (MustVerifyNextContractCode (t\<lparr>outputCtx := DeployCode d (outputCtx t)\<rparr>))"
    if "t = snd (NewAddress e a (snd (DeductInitialGasForIndirectDeployment c s)))" for j t d a c
    using that by (intro assms) (simp add: stack_simps)
  then show ?thesis
    by (auto simp: CreateNewContract_def case_prod_beta Let_def split: option.split sum.split)
qed

subsection \<open>Enough depth\<close>

definition reentryAgree :: "reentry \<Rightarrow> reentry \<Rightarrow> vm \<Rightarrow> bool" where
  "reentryAgree re re' s \<longleftrightarrow> (\<forall>t. stacks t = stacks s \<longrightarrow>
     (\<forall>i. re_ExecuteOnDestContext re i t = re_ExecuteOnDestContext re' i t) \<and>
     (\<forall>i. re_ExecuteOnSameContext re i t = re_ExecuteOnSameContext re' i t) \<and>
     (\<forall>i. re_CreateNewContract re i t = re_CreateNewContract re' i t))"

definition localEngine :: "engine \<Rightarrow> bool" where
  \<comment> \<open>what a contract does depends only on the calls of the host it can make, from its own state on\<close>
  "localEngine w \<longleftrightarrow> (\<forall>re re' f s. balancedReentry re \<longrightarrow> balancedReentry re' \<longrightarrow> reentryAgree re re' s \<longrightarrow> w re f s = w re' f s)"

definition deepEnough :: "engine \<Rightarrow> env \<Rightarrow> nat \<Rightarrow> bool" where
  \<comment> \<open>one more level of recursion changes nothing where few enough instances can be started\<close>
  "deepEnough w e n \<longleftrightarrow>
     (\<forall>s i. 1 \<le> room s \<longrightarrow> 2 * room s \<le> n \<longrightarrow> exec_dest (calleeAt w e n) i s = exec_dest (calleeAt w e (Suc n)) i s) \<and>
     (\<forall>s f. 1 \<le> room s \<longrightarrow> Suc (2 * room s) \<le> n \<longrightarrow> run_function (calleeAt w e n) f s = run_function (calleeAt w e (Suc n)) f s)"

lemma deep_above:
  assumes "deepEnough w e n" "1 \<le> room s" "2 * room s \<le> Suc n" "above s t"
  shows "alike (calleeAt w e n) (calleeAt w e (Suc n)) t"
proof (cases "room s = 1")
  case True
  with assms(4) show ?thesis by (simp add: alike_def full_above)
next
  case False
  with assms(2,3) room_above [OF assms(4)] have "1 \<le> room t" "Suc (2 * room t) \<le> n" by auto
  then show ?thesis
    using assms(1) by (auto simp del: calleeAt.simps simp: alike_def agreeing_def deepEnough_def dest!: room_stacks)
qed

lemma deep_dest:
  assumes "balancedEngine w" "deepEnough w e n" "1 \<le> room s" "2 * room s \<le> Suc n"
  shows "ExecuteOnDestContext (calleeAt w e n) e i s = ExecuteOnDestContext (calleeAt w e (Suc n)) e i s"
  by (rule same_ExecuteOnDestContext [OF deep_above [OF assms(2-4)] balancedCallee_calleeAt [OF assms(1)]])

lemma deep_reentry:
  assumes "balancedEngine w" "deepEnough w e n" "1 \<le> room s" "2 * room s \<le> n"
  shows "reentryAgree (reentryOf (calleeAt w e n) e) (reentryOf (calleeAt w e (Suc n)) e) s"
proof -
  have r: "1 \<le> room t" "2 * room t \<le> n" if "stacks t = stacks s" for t using assms(3,4) room_stacks [OF that] by simp_all
  have "ExecuteOnSameContext (calleeAt w e n) e i t = ExecuteOnSameContext (calleeAt w e (Suc n)) e i t" if "stacks t = stacks s" for i t
    using r [OF that] by (intro same_ExecuteOnSameContext deep_above [OF assms(2)] balancedCallee_calleeAt [OF assms(1)]) simp_all
  moreover have "CreateNewContract (calleeAt w e n) e i t = CreateNewContract (calleeAt w e (Suc n)) e i t" if "stacks t = stacks s" for i t
    using r that assms(2) by (intro same_CreateNewContract) (simp add: deepEnough_def del: calleeAt.simps)
  moreover have "ExecuteOnDestContext (calleeAt w e n) e i t = ExecuteOnDestContext (calleeAt w e (Suc n)) e i t" if "stacks t = stacks s" for i t
    using r [OF that] by (intro deep_dest assms) simp_all
  ultimately show ?thesis by (simp add: reentryAgree_def reentryOf_def del: calleeAt.simps)
qed

lemma deepEnough_all:
  assumes "balancedEngine w" "localEngine w"
  shows "deepEnough w e n"
proof (induction n)
  case (Suc n)
  have "w (reentryOf (calleeAt w e n) e) f s = w (reentryOf (calleeAt w e (Suc n)) e) f s"
    if "1 \<le> room s" "2 * room s \<le> n" for f s
    using assms(2) deep_reentry [OF assms(1) Suc that] balancedReentry_reentryOf [OF balancedCallee_calleeAt [OF assms(1)]]
    unfolding localEngine_def by blast
  with deep_dest [OF assms(1) Suc] show ?case by (simp add: deepEnough_def)
qed (simp add: deepEnough_def)

lemma deep_any:
  assumes "balancedEngine w" "localEngine w" "1 \<le> room s" "Suc (2 * room s) \<le> n" "n \<le> m"
  shows "agreeing (calleeAt w e n) (calleeAt w e m) s"
  using assms(5)
proof (induction m rule: dec_induct)
  case (step m)
  have "agreeing (calleeAt w e m) (calleeAt w e (Suc m)) s"
    using deepEnough_all [OF assms(1,2), of e m] assms(3,4) step.hyps
    by (auto simp del: calleeAt.simps simp: agreeing_def deepEnough_def dest!: room_stacks)
  with step.IH show ?case by (simp add: agreeing_def del: calleeAt.simps)
qed (simp add: agreeing_def)

subsection \<open>Top-level execution\<close>

lemma same_performCodeDeployment:
  assumes "alike k k' s" "balancedCallee k'"
  shows "performCodeDeployment k e i s = performCodeDeployment k' e i s"
proof -
  have "callInitFunction k e u = callInitFunction k' e u"
    if "StartWasmerInstance e c g b (MustVerifyNextContractCode (snd (DeductInitialGasForDirectDeployment i s))) = Some (None, u)" for c g b u
    by (intro same_callInitFunction alike_started [OF that] alike_stacks [OF assms(1)] assms(2)) (simp add: stack_simps)
  then show ?thesis
    by (auto simp: performCodeDeployment_def case_prod_beta Let_def intro!: bind_same split: option.split)
qed

definition sameInstances :: "vm \<Rightarrow> vm \<Rightarrow> bool" where
  \<comment> \<open>starting a transaction clears the state stacks, but not the instance stack\<close>
  "sameInstances s t \<longleftrightarrow> instanceStack (runtimeCtx t) = instanceStack (runtimeCtx s) \<and>
     maxWasmerInstances (runtimeCtx t) = maxWasmerInstances (runtimeCtx s)"

lemma sameInstances_stacks: "sameInstances s t \<Longrightarrow> stacks u = stacks t \<Longrightarrow> sameInstances s u"
  by (simp add: sameInstances_def stacks_def)

lemma sameInstances_initContexts: "sameInstances s (initContexts s)"
  by (simp add: sameInstances_def initContexts_def Let_def runtime_InitState_def runtime_ClearStateStack_def)

lemma stacks_addTxValue [stack_dest]: "addTxValue a v s = Some t \<Longrightarrow> stacks t = stacks s"
  by (auto simp: addTxValue_def AddTxValueToAccount_def bind_Some_iff stacks_def setAccount_def GetOutputAccount_def Let_def
    split: prod.splits option.splits)

lemma sameInstances_enterTopLevel: "enterTopLevel i s = Some (i', t) \<Longrightarrow> sameInstances s t"
  by (rule sameInstances_stacks [OF sameInstances_initContexts])
    (auto simp: enterTopLevel_def bind_Some_iff stack_simps dest!: stack_dest)

lemma alike_deep:
  assumes "balancedEngine w" "localEngine w" "length (instanceStack (runtimeCtx s)) \<le> unat (maxWasmerInstances (runtimeCtx s))"
    "2 * room s < n" "n \<le> m" "sameInstances s t"
  shows "alike (calleeAt w e n) (calleeAt w e m) t"
proof (cases "room s = 0")
  case True
  with assms(3,6) have "length (instanceStack (runtimeCtx t)) = unat (maxWasmerInstances (runtimeCtx t))"
    by (simp add: room_def sameInstances_def)
  then show ?thesis by (simp add: alike_def fullStack_def RunningInstancesCount_def len_def)
next
  case False
  with assms(6) have "1 \<le> room t" "room t = room s" by (simp_all add: room_def sameInstances_def)
  with assms(4) show ?thesis by (simp add: alike_def deep_any [OF assms(1,2) _ _ assms(5)])
qed

lemma same_doRunSmartContractCreate:
  assumes "\<And>t. sameInstances s t \<Longrightarrow> alike k k' t" "balancedCallee k'"
  shows "doRunSmartContractCreate k e i s = doRunSmartContractCreate k' e i s"
proof -
  have "performCodeDeployment k e d (setStorageAddress u) = performCodeDeployment k' e d (setStorageAddress u)"
    if "SetVMInput v (snd (NewAddress e a (initContexts s))) = Some t" "addTxValue b x ((SetSCAddress b t)\<lparr>meteringCtx := c\<rparr>) = Some u"
    for v a t b x c u d
  proof -
    have "stacks t = stacks (initContexts s)" using that(1) by (auto simp: stack_simps dest!: stack_dest)
    then have "sameInstances s t" by (rule sameInstances_stacks [OF sameInstances_initContexts])
    then have "sameInstances s ((SetSCAddress b t)\<lparr>meteringCtx := c\<rparr>)" by (simp add: sameInstances_def SetSCAddress_def)
    from sameInstances_stacks [OF this] that(2) have "sameInstances s (setStorageAddress u)" by (auto simp: stack_simps dest!: stack_dest)
    then show ?thesis by (intro same_performCodeDeployment assms)
  qed
  then show ?thesis
    by (auto simp: doRunSmartContractCreate_def case_prod_beta Let_def intro!: bind_same split: sum.split)
qed

lemma same_doRunSmartContractUpgrade:
  assumes "\<And>t. sameInstances s t \<Longrightarrow> alike k k' t" "balancedCallee k'"
  shows "doRunSmartContractUpgrade k e i s = doRunSmartContractUpgrade k' e i s"
proof -
  have "performCodeDeployment k e d (snd (ExtractCodeUpgradeFromArgs t)) = performCodeDeployment k' e d (snd (ExtractCodeUpgradeFromArgs t))"
    if "enterTopLevel i s = Some (i', t)" for i' t d
    by (intro same_performCodeDeployment assms sameInstances_stacks [OF sameInstances_enterTopLevel [OF that]]) (simp add: stack_simps)
  then show ?thesis
    by (auto simp: doRunSmartContractUpgrade_def case_prod_beta Let_def intro!: bind_same split: sum.split)
qed

lemma same_doRunSmartContractCall:
  assumes "\<And>t. sameInstances s t \<Longrightarrow> alike k k' t" "balancedCallee k'"
  shows "doRunSmartContractCall k e i s = doRunSmartContractCall k' e i s"
proof -
  have "callSCMethod k e u = callSCMethod k' e u"
    if "enterTopLevel i s = Some (i', t)" "StartWasmerInstance e c g b (snd (DeductInitialGasForExecution e c' (snd (GetSCCode e t)))) = Some (None, u)"
    for i' t c c' g b u
    by (intro same_callSCMethod alike_started [OF that(2)] assms sameInstances_stacks [OF sameInstances_enterTopLevel [OF that(1)]])
      (simp add: stack_simps)
  then show ?thesis
    by (auto simp: doRunSmartContractCall_def case_prod_beta Let_def intro!: bind_same split: sum.split)
qed

lemma same_transaction:
  assumes "balancedEngine w" "localEngine w"
    and "length (instanceStack (runtimeCtx s)) \<le> unat (maxWasmerInstances (runtimeCtx s))" "2 * room s < n" "n \<le> m"
  shows "RunSmartContractCall (calleeAt w e n) e i s = RunSmartContractCall (calleeAt w e m) e i s \<and>
    RunSmartContractCreate (calleeAt w e n) e c s = RunSmartContractCreate (calleeAt w e m) e c s"
proof -
  note like = alike_deep [OF assms] and bal = balancedCallee_calleeAt [OF assms(1)]
  show ?thesis
    by (simp only: RunSmartContractCall_def RunSmartContractCreate_def same_doRunSmartContractCall [OF like bal]
      same_doRunSmartContractUpgrade [OF like bal] same_doRunSmartContractCreate [OF like bal] simp_thms)
qed

end
