(* ===== verification/ContractRuns.thy ===== *)
theory ContractRuns
  imports HookRelations
begin

text \<open>
  What a contract does to the VM, as a step relation: it changes the memory, the gas counter and the
  breakpoint of its own instance by executing WebAssembly, or calls one of the functions it imports, with any
  arguments.  The properties of the imports carry over to every run, whatever the contract's code.
\<close>

inductive contract_step :: "env \<Rightarrow> reentry \<Rightarrow> (string \<Rightarrow> bool) \<Rightarrow> vm \<Rightarrow> vm \<Rightarrow> bool" for e re allowed where
  wasm: "inst (runtimeCtx s) = Some r \<Longrightarrow> inst_points (instances s r) \<le> p \<Longrightarrow> p \<le> MaxInt64 \<Longrightarrow>
    contract_step e re allowed s (updInstance r (\<lambda>i. i\<lparr>inst_points := p, inst_memory := m, inst_breakpoint := b\<rparr>) s)"
| import_call: "(name, h) \<in> set (GetAPIMethods e re) \<Longrightarrow> allowed name \<Longrightarrow> h args s = Some (v, s') \<Longrightarrow>
    contract_step e re allowed s s'"

inductive_cases contract_stepE: "contract_step e re allowed s s'"

definition importsOnly :: "env \<Rightarrow> engine \<Rightarrow> bool" where
  \<comment> \<open>the contracts act on the VM by such steps\<close>
  "importsOnly e w \<longleftrightarrow> (\<forall>re f s r s'. w re f s = Some (r, s') \<longrightarrow> (contract_step e re (\<lambda>_. True))\<^sup>*\<^sup>* s s')"

definition callImport :: "env \<Rightarrow> reentry \<Rightarrow> string \<Rightarrow> import_fn" where
  "callImport e re name args s = do { h \<leftarrow> go_get (GetAPIMethods e re) name; h args s }"

lemma callImport_step: "callImport e re name args s = Some (v, s') \<Longrightarrow> allowed name \<Longrightarrow> contract_step e re allowed s s'"
  by (auto simp: callImport_def bind_Some_iff intro: import_call dest: map_of_SomeD)

lemma callImport_run: "callImport e re name args s = Some (v, s') \<Longrightarrow> allowed name \<Longrightarrow> (contract_step e re allowed)\<^sup>*\<^sup>* s s'"
  by (rule r_into_rtranclp) (rule callImport_step)

lemma run_invariant:
  assumes "(contract_step e re allowed)\<^sup>*\<^sup>* s s'"
    and "\<And>t. R t t" "\<And>t u v. R t u \<Longrightarrow> R u v \<Longrightarrow> R t v"
    and "\<And>t u. contract_step e re allowed t u \<Longrightarrow> R t u"
  shows "R s s'"
  using assms(1) by (induction rule: rtranclp_induct) (blast intro: assms(2-4))+

subsection \<open>Stacks\<close>

lemma import_keepsStacks: "(name, h) \<in> set (GetAPIMethods e re) \<Longrightarrow> relates_import (keepsStacks re) h"
  using stack.base_imports [where re = re and e = e] stack.number_imports [where re = re and e = e]
  by (auto simp: GetAPIMethods_def list_all_iff)

lemma step_keepsStacks: "contract_step e re allowed s s' \<Longrightarrow> keepsStacks re s s'"
  by (erule contract_stepE)
    (auto simp: keepsStacks_def stack_simps dest: relates_importD [OF import_keepsStacks, unfolded keepsStacks_def])

lemma run_keepsStacks: "(contract_step e re allowed)\<^sup>*\<^sup>* s s' \<Longrightarrow> balancedReentry re \<Longrightarrow> stacks s' = stacks s"
  using run_invariant [of e re allowed s s' "keepsStacks re"] step_keepsStacks by (auto simp: keepsStacks_def)

lemma importsOnly_balanced: "importsOnly e w \<Longrightarrow> balancedEngine w"
  unfolding importsOnly_def balancedEngine_def using run_keepsStacks by blast

subsection \<open>Gas and storage\<close>

lemma import_plain:
  assumes "(name, h) \<in> set (GetAPIMethods e re)" "name \<notin> set callingImports"
  shows "relates_import gasGrows h" "relates_import (storageSafe e) h"
  using assms gas.plain_imports [where re = re and e = e] gas.number_imports [where e = e]
    readOnlyMode.plain_imports [where re = re and e = e] readOnlyMode.number_imports [where e = e]
  by (auto simp: GetAPIMethods_def list_all_iff)

lemma gasGrows_wasm:
  "inst (runtimeCtx s) = Some r \<Longrightarrow> inst_points (instances s r) \<le> p \<Longrightarrow> p \<le> MaxInt64 \<Longrightarrow>
   gasGrows s (updInstance r (\<lambda>i. i\<lparr>inst_points := p, inst_memory := m, inst_breakpoint := b\<rparr>) s)"
  by (simp add: gasGrows_def GetPointsUsed_def)

lemma step_plain:
  assumes "contract_step e re (\<lambda>name. name \<notin> set callingImports) s s'"
  shows "gasGrows s s'" "storageSafe e s s'"
  using assms import_plain [THEN relates_importD]
  by (auto elim!: contract_stepE intro: gasGrows_wasm storageSafe_instances)

lemma run_plain:
  assumes "(contract_step e re (\<lambda>name. name \<notin> set callingImports))\<^sup>*\<^sup>* s s'"
  shows "gasGrows s s'" "storageSafe e s s'"
  using run_invariant [OF assms, of gasGrows] run_invariant [OF assms, of "storageSafe e"] step_plain
  by (blast intro: gasGrows_refl gasGrows_trans storageSafe_refl storageSafe_trans)+

subsection \<open>Properties\<close>

text \<open>C13: whatever a contract does, it cannot reach the states saved on the stacks.  Every run of a
  contract that executes WebAssembly code and calls imported functions in any order and with any
  arguments, among them those that call other contracts to any depth, leaves the stacks of the five
  contexts and of the instances exactly as it found them.\<close>

theorem contract_run_keeps_stacks:
  assumes "importsOnly e w" "(contract_step e (reentryOf (calleeAt w e n) e) (\<lambda>_. True))\<^sup>*\<^sup>* s s'"
  shows "stacks s' = stacks s"
  using run_keepsStacks [OF assms(2)] balancedReentry_reentryOf [OF balancedCallee_calleeAt [OF importsOnly_balanced [OF assms(1)]]]
  by blast

definition echoEngine :: engine where
  \<comment> \<open>a contract that returns the first bytes of its memory and then stores them\<close>
  "echoEngine re f s = do {
     (_, s) \<leftarrow> callImport sampleEnv re ''finish'' [0, 3] s;
     (_, s) \<leftarrow> callImport sampleEnv re ''storageStore'' [0, 2, 2, 3] s;
     Some (None, s) }"

lemma echoEngine_importsOnly: "importsOnly sampleEnv echoEngine"
  by (auto simp: importsOnly_def echoEngine_def bind_Some_iff intro: callImport_step converse_rtranclp_into_rtranclp)

lemma sample_echo:
  "map_option (\<lambda>(v, s). (v, ReturnData (outputState (outputCtx s))))
     (callImport sampleEnv (reentryOf (calleeAt echoEngine sampleEnv 1) sampleEnv) ''finish'' [0, 3] sampleVM) = Some (0, [''abc''])"
  by code_simp

theorem contract_run_keeps_stacks_witness:
  "\<exists>s'. callImport sampleEnv (reentryOf (calleeAt echoEngine sampleEnv 1) sampleEnv) ''finish'' [0, 3] sampleVM = Some (0, s') \<and>
     ReturnData (outputState (outputCtx s')) = [''abc''] \<and> stacks s' = stacks sampleVM"
proof -
  obtain s' where s': "callImport sampleEnv (reentryOf (calleeAt echoEngine sampleEnv 1) sampleEnv) ''finish'' [0, 3] sampleVM =
      Some (0, s')" "ReturnData (outputState (outputCtx s')) = [''abc'']" using sample_echo by auto
  from contract_run_keeps_stacks [OF echoEngine_importsOnly callImport_run [OF s'(1) TrueI]] s'
  show ?thesis by blast
qed

text \<open>C15: read-only mode protects storage and the log.  A contract that runs in read-only mode and calls none of
  the nine imports listed in \<open>callingImports\<close> stays in that mode, whatever else it does and whichever of the other imports it calls,
  changes no key of any account's storage and writes nothing to the log.  The nine are the imports that call, deploy or delegate
  to contracts (\<open>executeOnDestContext\<close>, \<open>executeOnDestContextByCaller\<close>, \<open>executeOnSameContext\<close>, \<open>delegateExecution\<close>, \<open>createContract\<close>,
  \<open>executeReadOnly\<close>) and those that transfer value or tokens and may run the receiver (\<open>transferValueExecute\<close>, \<open>transferDCDTExecute\<close>,
  \<open>transferDCDTNFTExecute\<close>).  Nothing is claimed of a contract that calls one of them: the token transfers do not look at the mode, and their built-in
  function writes storage.\<close>

theorem readOnly_run_keeps_storage:
  assumes "readOnly (runtimeCtx s)" "(contract_step e re (\<lambda>name. name \<notin> set callingImports))\<^sup>*\<^sup>* s s'"
  shows "readOnly (runtimeCtx s') \<and> (\<forall>a key. storageOf e a s' key = storageOf e a s key) \<and>
    Logs (outputState (outputCtx s')) = Logs (outputState (outputCtx s))"
  using run_plain(2) [OF assms(2)] assms(1) by (simp add: storageSafe_def)

lemma sample_readOnly_store:
  "map_option fst (callImport sampleEnv (reentryOf (calleeAt echoEngine sampleEnv 0) sampleEnv) ''storageStore'' [0, 2, 2, 3]
     (SetReadOnly True sampleVM)) = Some 0"
  by code_simp

theorem readOnly_run_keeps_storage_witness:
  "\<exists>s'. callImport sampleEnv (reentryOf (calleeAt echoEngine sampleEnv 0) sampleEnv) ''storageStore'' [0, 2, 2, 3]
     (SetReadOnly True sampleVM) = Some (0, s') \<and> readOnly (runtimeCtx s') \<and> storageOf sampleEnv ''contract'' s' ''ab'' = []"
proof -
  obtain s' where s': "callImport sampleEnv (reentryOf (calleeAt echoEngine sampleEnv 0) sampleEnv) ''storageStore'' [0, 2, 2, 3]
      (SetReadOnly True sampleVM) = Some (0, s')" using sample_readOnly_store by auto
  have "''storageStore'' \<notin> set callingImports" by (simp add: callingImports_def)
  with readOnly_run_keeps_storage [OF _ callImport_run [OF s']] s' show ?thesis
    by (auto simp: SetReadOnly_def storageOf_def outAccounts_def sample_defs)
qed

text \<open>C16: gas only goes down.  However a contract runs, as long as it calls none of the nine imports of \<open>callingImports\<close> (those
  that call, deploy or delegate to contracts, and the transfers of value and tokens that may run the receiver), it keeps
  running in the same instance and the gas it has left never grows: none of the other imports gives gas back.  The nine do, with the gas that the
  call left.  The gas used so far is below \<open>2 ^ 63\<close>, as the engine keeps it.\<close>

theorem gas_left_never_grows:
  assumes "unat (GetPointsUsed s) \<le> 2 ^ 63 - 1" "(contract_step e re (\<lambda>name. name \<notin> set callingImports))\<^sup>*\<^sup>* s s'"
  shows "inst (runtimeCtx s') = inst (runtimeCtx s) \<and> unat (GasLeft s') \<le> unat (GasLeft s)"
proof -
  have "GetPointsUsed s \<le> MaxInt64" using assms(1) unat_MaxInt64 by (simp only: u64_le_iff)
  with run_plain(1) [OF assms(2)] gasGrows_GasLeft show ?thesis
    unfolding u64_le_iff [symmetric] by (auto simp: gasGrows_def)
qed

lemma sample_gasLeft:
  "map_option fst (callImport sampleEnv (reentryOf (calleeAt echoEngine sampleEnv 0) sampleEnv) ''getGasLeft'' [] sampleVM) = Some 978"
  by code_simp

theorem gas_left_never_grows_witness:
  "\<exists>s'. callImport sampleEnv (reentryOf (calleeAt echoEngine sampleEnv 0) sampleEnv) ''getGasLeft'' [] sampleVM = Some (978, s') \<and>
     unat (GasLeft s') \<le> 979"
proof -
  obtain s' where s': "callImport sampleEnv (reentryOf (calleeAt echoEngine sampleEnv 0) sampleEnv) ''getGasLeft'' [] sampleVM =
      Some (978, s')" using sample_gasLeft by auto
  have "''getGasLeft'' \<notin> set callingImports" by (simp add: callingImports_def)
  with gas_left_never_grows [OF _ callImport_run [OF s']] s' show ?thesis
    using sample_gas by auto
qed

end
