(* ===== verification/ContractPrograms.thy ===== *)
theory ContractPrograms
  imports HostDepth ContractRuns
begin

text \<open>
  Contracts as programs: a strategy chooses, from the state of the VM and the results of its calls so
  far, the next call of an imported function, a change of the instance by WebAssembly code, or the end.  As
  every import depends on the host only through the calls it makes, such programs are engines to which the
  bound on the nesting of executions applies.
\<close>

subsection \<open>Imports depend only on the calls they make\<close>

definition sameHook :: "reentry \<Rightarrow> reentry \<Rightarrow> 'a hook \<Rightarrow> 'a hook \<Rightarrow> bool" where
  "sameHook re re' m m' \<longleftrightarrow> (\<forall>s. balancedReentry re \<longrightarrow> reentryAgree re re' s \<longrightarrow> m s = m' s)"

named_theorems same_rules \<open>hooks built alike from hooks that agree agree\<close>

lemma reentryAgree_stacks: "reentryAgree re re' s \<Longrightarrow> stacks t = stacks s \<Longrightarrow> reentryAgree re re' t"
  by (simp add: reentryAgree_def)

lemma keeps_agree:
  "balancedReentry re \<Longrightarrow> reentryAgree re re' s \<Longrightarrow> keepsStacks re s t \<Longrightarrow> reentryAgree re re' t"
  by (auto simp: keepsStacks_def intro: reentryAgree_stacks)

lemma same_refl [same_rules]: "sameHook re re' m m"
  by (simp add: sameHook_def)

lemma same_dest [same_rules]: "sameHook re re' (re_ExecuteOnDestContext re i) (re_ExecuteOnDestContext re' i)"
  "sameHook re re' (re_ExecuteOnSameContext re i) (re_ExecuteOnSameContext re' i)"
  "sameHook re re' (re_CreateNewContract re c) (re_CreateNewContract re' c)"
  by (simp_all add: sameHook_def reentryAgree_def)

lemma same_bindH [same_rules]:
  assumes "sameHook re re' m m'" "relates (keepsStacks re) m" "\<And>x. sameHook re re' (k x) (k' x)"
  shows "sameHook re re' (bindH m k) (bindH m' k')"
proof -
  have "bindH m k s = bindH m' k' s" if s: "balancedReentry re" "reentryAgree re re' s" for s
  proof -
    have m: "m s = m' s" using assms(1) s by (simp add: sameHook_def)
    have "k x t = k' x t" if "m' s = Some (x, t)" for x t
      using assms(3) s keeps_agree [OF s relatesD [OF assms(2)]] that m by (auto simp: sameHook_def)
    then show ?thesis by (auto simp: bindH_def m intro!: bind_same)
  qed
  then show ?thesis by (simp add: sameHook_def)
qed

lemma same_thenH [same_rules]:
  assumes "relates_step (keepsStacks re) m" "sameHook re re' k k'"
  shows "sameHook re re' (thenH m k) (thenH m k')"
proof -
  have "thenH m k s = thenH m k' s" if "balancedReentry re" "reentryAgree re re' s" for s
    using that assms(2) keeps_agree [OF that relates_stepD [OF assms(1)]] by (auto simp: thenH_def sameHook_def intro!: bind_same)
  then show ?thesis by (simp add: sameHook_def)
qed

lemma same_updH [same_rules]:
  "(\<And>s. keepsStacks re s (f s)) \<Longrightarrow> sameHook re re' k k' \<Longrightarrow> sameHook re re' (updH f k) (updH f k')"
  by (simp add: sameHook_def updH_def keeps_agree)

lemma same_reads [same_rules]:
  "(\<And>x. sameHook re re' (k x) (k' x)) \<Longrightarrow> sameHook re re' (readH g k) (readH g k')"
  "(\<And>x. sameHook re re' (k x) (k' x)) \<Longrightarrow> sameHook re re' (needH h k) (needH h k')"
  by (auto simp: sameHook_def readH_def needH_def intro!: bind_same)

lemma same_cases [same_rules]:
  "sameHook re re' m m' \<Longrightarrow> sameHook re re' n n' \<Longrightarrow> sameHook re re' (if b then m else n) (if b then m' else n')"
  "sameHook re re' m m' \<Longrightarrow> (\<And>x. sameHook re re' (k x) (k' x)) \<Longrightarrow>
     sameHook re re' (case y of None \<Rightarrow> m | Some x \<Rightarrow> k x) (case y of None \<Rightarrow> m' | Some x \<Rightarrow> k' x)"
  "(\<And>x z. sameHook re re' (g x z) (g' x z)) \<Longrightarrow> sameHook re re' (case p of (x, z) \<Rightarrow> g x z) (case p of (x, z) \<Rightarrow> g' x z)"
  "(\<And>x. sameHook re re' (h x) (h' x)) \<Longrightarrow> sameHook re re' (let x = v in h x) (let x = v in h' x)"
  by (simp_all split: option.split prod.split)

lemma same_faultH [same_rules]:
  assumes "sameHook re re' k k'"
  shows "sameHook re re' (faultH b err x k) (faultH b err x k')"
proof -
  have "faultH b err x k s = faultH b err x k' s" if "balancedReentry re" "reentryAgree re re' s" for s
    using that assms keeps_agree [OF that relatesD [OF stack.hook_WithFault]] by (auto simp: faultH_def sameHook_def intro!: bind_same)
  then show ?thesis by (simp add: sameHook_def)
qed

lemma same_checkH [same_rules]: "(\<And>y. sameHook re re' (k y) (k' y)) \<Longrightarrow> sameHook re re' (checkH b r x k) (checkH b r x k')"
  by (simp add: checkH_def same_refl split: sum.split)

lemma same_memLoad [same_rules]:
  "(\<And>y. sameHook re re' (k y) (k' y)) \<Longrightarrow> sameHook re re' (memLoad b p n x k) (memLoad b p n x k')"
  unfolding memLoad_def by (intro same_rules)

lemma same_memStore [same_rules]: "sameHook re re' k k' \<Longrightarrow> sameHook re re' (memStore e b p d x k) (memStore e b p d x k')"
  unfolding memStore_def by (intro same_rules hook_rules stack.hook_MemStore)

lemma same_useApi [same_rules]: "sameHook re re' k k' \<Longrightarrow> sameHook re re' (useApi name k) (useApi name k')"
  unfolding useApi_def by (intro same_rules stack.step_gas)

lemma same_optional [same_rules]:
  "relates (keepsStacks re) prepare \<Longrightarrow> (\<And>c. sameHook re re' (k c) (k' c)) \<Longrightarrow>
    sameHook re re' (withOptionalCall n prepare x k) (withOptionalCall n prepare x k')"
  unfolding withOptionalCall_def by (intro same_rules)

lemma same_dcdtSwitch [same_rules]:
  "(\<And>n v t i. sameHook re re' (k n v t i) (k' n v t i)) \<Longrightarrow> sameHook re re' (dcdtSwitch e d f args input k) (dcdtSwitch e d f args input k')"
  unfolding dcdtSwitch_def by (intro same_rules)

lemma same_doDCDT [same_rules]:
  "sameHook re re' (doDCDTTransferAndExecuteSynchronously e re d val f args g) (doDCDTTransferAndExecuteSynchronously e re' d val f args g)"
  unfolding doDCDTTransferAndExecuteSynchronously_def by (intro same_rules hook_rules)

lemma same_call_hooks [same_rules]:
  "sameHook re re' (v1_2_transferDCDTNFTExecute e re a b c d u v f g h i j) (v1_2_transferDCDTNFTExecute e re' a b c d u v f g h i j)"
  "sameHook re re' (v1_2_transferValueExecute e re a b u c d f g h) (v1_2_transferValueExecute e re' a b u c d f g h)"
  "sameHook re re' (v1_2_executeOnSameContext e re u a b c d f g h) (v1_2_executeOnSameContext e re' u a b c d f g h)"
  "sameHook re re' (v1_2_executeOnDestContext e re u a b c d f g h) (v1_2_executeOnDestContext e re' u a b c d f g h)"
  "sameHook re re' (v1_2_executeOnDestContextByCaller e re u a b c d f g h) (v1_2_executeOnDestContextByCaller e re' u a b c d f g h)"
  "sameHook re re' (v1_2_delegateExecution e re u a b c d f g) (v1_2_delegateExecution e re' u a b c d f g)"
  "sameHook re re' (v1_2_executeReadOnly e re u a b c d f g) (v1_2_executeReadOnly e re' u a b c d f g)"
  "sameHook re re' (v1_2_createContract e re u a b c d f g h i) (v1_2_createContract e re' u a b c d f g h i)"
  unfolding v1_2_transferDCDTNFTExecute_def v1_2_transferValueExecute_def v1_2_executeOnSameContext_def v1_2_executeOnDestContext_def
    v1_2_executeOnDestContextByCaller_def v1_2_delegateExecution_def v1_2_executeReadOnly_def v1_2_createContract_def
  by (intro same_rules hook_rules)+

lemma same_transferDCDT [same_rules]:
  "sameHook re re' (v1_2_transferDCDTExecute e re a b c d u f g h i j) (v1_2_transferDCDTExecute e re' a b c d u f g h i j)"
  unfolding v1_2_transferDCDTExecute_def by (rule same_call_hooks)

definition sameImport :: "reentry \<Rightarrow> reentry \<Rightarrow> import_fn \<Rightarrow> import_fn \<Rightarrow> bool" where
  "sameImport re re' h h' \<longleftrightarrow> (\<forall>args. sameHook re re' (h args) (h' args))"

lemma sameImport_refl: "sameImport re re' h h"
  by (simp add: sameImport_def same_refl)

lemma sameImport_arg: "(\<And>x. sameImport re re' (g (f x)) (g (f' x))) \<Longrightarrow> sameImport re re' (arg g f) (arg g f')"
  by (auto simp: sameImport_def arg_def same_refl split: list.split)

lemma sameImport_result:
  "sameHook re re' m m' \<Longrightarrow> relates (keepsStacks re) m \<Longrightarrow> sameImport re re' (result m) (result m')"
  by (auto simp: sameImport_def result_def same_refl split: list.split intro!: same_bindH)

lemma same_table:
  "list_all2 (\<lambda>(n, h) (n', h'). n = n' \<and> sameImport re re' h h') (BaseOpsAPIImports e re) (BaseOpsAPIImports e re')"
  unfolding BaseOpsAPIImports_def list.rel_inject(2) prod.case
  by (intro conjI list_all2_Nil [THEN iffD2] refl sameImport_refl sameImport_arg sameImport_result same_rules hook_rules)

lemma same_get:
  assumes "list_all2 (\<lambda>(n, h) (n', h'). n = n' \<and> sameImport re re' h h') xs ys" "go_get xs name = Some h"
  shows "\<exists>h'. go_get ys name = Some h' \<and> sameImport re re' h h'"
  using assms by (induction rule: list_all2_induct) (auto split: if_splits)

lemma same_get_None:
  assumes "list_all2 (\<lambda>(n, h) (n', h'). n = n' \<and> sameImport re re' h h') xs ys"
  shows "go_get xs name = None \<longleftrightarrow> go_get ys name = None"
  using assms by (induction rule: list_all2_induct) auto

lemma same_methods:
  "list_all2 (\<lambda>(n, h) (n', h'). n = n' \<and> sameImport re re' h h') (GetAPIMethods e re) (GetAPIMethods e re')"
  unfolding GetAPIMethods_def
  by (intro list_all2_appendI same_table) (auto intro!: list_all2_refl simp: sameImport_refl split: prod.split)

lemma same_callImport [same_rules]: "sameHook re re' (callImport e re name args) (callImport e re' name args)"
proof (cases "go_get (GetAPIMethods e re) name")
  case None
  with same_get_None [OF same_methods, of e re name re'] show ?thesis by (simp add: sameHook_def callImport_def)
next
  case (Some h)
  from same_get [OF same_methods Some, of re'] obtain h' where "go_get (GetAPIMethods e re') name = Some h'" "sameImport re re' h h'" by blast
  with Some show ?thesis by (simp add: sameHook_def sameImport_def callImport_def)
qed

subsection \<open>Programs\<close>

datatype action =
    Return "err option"                         \<comment> \<open>the function is over\<close>
  | Wasm u64 "bytes option" u64                 \<comment> \<open>new gas counter, memory and breakpoint of the instance\<close>
  | Import string "u64 list"

type_synonym program = "string \<Rightarrow> u64 list \<Rightarrow> vm \<Rightarrow> action"

fun runProgram :: "env \<Rightarrow> program \<Rightarrow> nat \<Rightarrow> u64 list \<Rightarrow> engine" where
  \<comment> \<open>every step costs gas, so there are only so many; the results of the calls so far are known to the program\<close>
  "runProgram e p 0 results re f s = Some (Some ErrNotEnoughGas, s)"
| "runProgram e p (Suc n) results re f s =
     (case p f results s of
        Return err \<Rightarrow> Some (err, s)
      | Wasm points memory breakpoint \<Rightarrow> do {
          r \<leftarrow> inst (runtimeCtx s);
          if inst_points (instances s r) \<le> points \<and> points \<le> MaxInt64
          then runProgram e p n results re f
            (updInstance r (\<lambda>i. i\<lparr>inst_points := points, inst_memory := memory, inst_breakpoint := breakpoint\<rparr>) s)
          else Some (Some ErrNotEnoughGas, s) }
      | Import name args \<Rightarrow> do {
          (v, s) \<leftarrow> callImport e re name args s;
          runProgram e p n (results @ [v]) re f s })"

definition programEngine :: "env \<Rightarrow> program \<Rightarrow> nat \<Rightarrow> engine" where
  "programEngine e p n = runProgram e p n []"

lemma runProgram_steps:
  "runProgram e p n results re f s = Some (r, s') \<Longrightarrow> (contract_step e re (\<lambda>_. True))\<^sup>*\<^sup>* s s'"
proof (induction n arbitrary: results s)
  case (Suc n)
  show ?case
  proof (cases "p f results s")
    case (Wasm points memory breakpoint)
    with Suc.prems obtain q where q: "inst (runtimeCtx s) = Some q" by (auto simp: bind_Some_iff)
    let ?t = "updInstance q (\<lambda>i. i\<lparr>inst_points := points, inst_memory := memory, inst_breakpoint := breakpoint\<rparr>) s"
    show ?thesis
    proof (cases "inst_points (instances s q) \<le> points \<and> points \<le> MaxInt64")
      case True
      with Suc.prems Wasm q have "runProgram e p n results re f ?t = Some (r, s')" by simp
      from Suc.IH [OF this] q True show ?thesis by (blast intro: contract_step.wasm converse_rtranclp_into_rtranclp)
    qed (use Suc.prems Wasm q in \<open>simp split: if_splits\<close>)
  next
    case (Import name args)
    with Suc.prems obtain v t where t: "callImport e re name args s = Some (v, t)" "runProgram e p n (results @ [v]) re f t = Some (r, s')"
      by (auto simp: bind_Some_iff)
    from callImport_step [OF t(1), of "\<lambda>_. True"] Suc.IH [OF t(2)] show ?thesis by (blast intro: converse_rtranclp_into_rtranclp)
  qed (use Suc.prems in simp)
qed simp

lemma programEngine_importsOnly: "importsOnly e (programEngine e p n)"
  by (auto simp: importsOnly_def programEngine_def intro: runProgram_steps)

lemma same_runProgram:
  assumes "balancedReentry re" "reentryAgree re re' s"
  shows "runProgram e p n results re f s = runProgram e p n results re' f s"
  using assms(2)
proof (induction n arbitrary: results s)
  case (Suc n)
  show ?case
  proof (cases "p f results s")
    case (Wasm points memory breakpoint)
    have "reentryAgree re re' (updInstance q g s)" for q g
      using Suc.prems by (rule reentryAgree_stacks) (simp add: stack_simps)
    with Wasm Suc.IH show ?thesis by (auto intro!: bind_same)
  next
    case (Import name args)
    have call: "callImport e re name args s = callImport e re' name args s"
      using same_callImport [of re re' e name args] assms(1) Suc.prems by (simp add: sameHook_def)
    have "reentryAgree re re' t" if "callImport e re' name args s = Some (v, t)" for v t
      using reentryAgree_stacks [OF Suc.prems] run_keepsStacks [OF callImport_run [where allowed = "\<lambda>_. True"] assms(1)] that call by metis
    with Import Suc.IH call show ?thesis by (auto intro!: bind_same)
  qed simp
qed simp

lemma programEngine_local: "localEngine (programEngine e p n)"
  by (simp add: localEngine_def programEngine_def same_runProgram)

lemmas program_engine = importsOnly_balanced [OF programEngine_importsOnly] programEngine_local

subsection \<open>Properties\<close>

text \<open>C14: the recursion through contracts always ends.  The model cuts the recursion at a depth and
  has no result beyond it; with a depth of more than twice the number of instances that may still be
  started, a larger depth never changes the result of a transaction, whichever programs the contracts are and
  however they call each other, directly, by deploying new ones or asynchronously.  So a transaction without
  result is one in which the code panics, and the limit on instances bounds the nesting of calls.\<close>

theorem nesting_is_bounded:
  assumes "length (instanceStack (runtimeCtx s)) \<le> unat (maxWasmerInstances (runtimeCtx s))" "2 * room s < n" "n \<le> m"
  shows "RunSmartContractCall (calleeAt (programEngine e p steps) e n) e i s = RunSmartContractCall (calleeAt (programEngine e p steps) e m) e i s \<and>
    RunSmartContractCreate (calleeAt (programEngine e p steps) e n) e c s = RunSmartContractCreate (calleeAt (programEngine e p steps) e m) e c s"
  using same_transaction [OF program_engine assms] by blast

definition finishProgram :: program where
  \<comment> \<open>return the first three bytes of the memory\<close>
  "finishProgram f results s = (if results = [] then Import ''finish'' [0, 3] else Return None)"

lemma sample_room: "room sampleVM = 10"
  by (simp add: room_def sampleVM_def)

theorem nesting_is_bounded_witness:
  "RunSmartContractCall (calleeAt (programEngine sampleEnv finishProgram 5) sampleEnv 21) sampleEnv (sampleCall [''x'']) sampleVM =
    RunSmartContractCall (calleeAt (programEngine sampleEnv finishProgram 5) sampleEnv 1000) sampleEnv (sampleCall [''x'']) sampleVM"
  using nesting_is_bounded [of sampleVM 21 1000] by (simp add: sample_room) (simp add: sampleVM_def)

end
