(* ===== verification/HookResults.thy ===== *)
theory HookResults
  imports HookRelations
begin

text \<open>
  What the hooks compute: the arithmetic on big integers, 64-bit values in storage, the arguments
  read from memory, and the behaviour of single hooks at their limits.
\<close>

subsection \<open>Big integers\<close>

definition bigValue :: "i32 \<Rightarrow> vm \<Rightarrow> int" where
  \<comment> \<open>the value of a handle; a handle that is not in the table stands for 0\<close>
  "bigValue h s = (case go_get (bi_values (bigIntCtx s)) h of None \<Rightarrow> 0 | Some v \<Rightarrow> v)"

lemma GetOne_value:
  "bigInt_GetOne h (bigIntCtx s) = (v, c) \<Longrightarrow> v = bigValue h s \<and> (\<forall>k. bigValue k (s\<lparr>bigIntCtx := c\<rparr>) = bigValue k s)"
  by (auto simp: bigInt_GetOne_def bigValue_def go_simps split: option.splits if_splits)

lemma GetThree_value:
  assumes "bigInt_GetThree h h' h'' (bigIntCtx s) = ((x, y, z), c)"
  shows "x = bigValue h s" "y = bigValue h' s" "z = bigValue h'' s" "bigValue k (s\<lparr>bigIntCtx := c\<rparr>) = bigValue k s"
proof -
  obtain c1 where 1: "bigInt_GetOne h (bigIntCtx s) = (x, c1)"
    using assms by (auto simp: bigInt_GetThree_def split: prod.splits)
  obtain c2 where 2: "bigInt_GetOne h' (bigIntCtx (s\<lparr>bigIntCtx := c1\<rparr>)) = (y, c2)"
    using assms 1 by (auto simp: bigInt_GetThree_def split: prod.splits)
  have 3: "bigInt_GetOne h'' (bigIntCtx (s\<lparr>bigIntCtx := c1\<rparr>\<lparr>bigIntCtx := c2\<rparr>)) = (z, c)"
    using assms 1 2 by (auto simp: bigInt_GetThree_def split: prod.splits)
  show "x = bigValue h s" "y = bigValue h' s" "z = bigValue h'' s" "bigValue k (s\<lparr>bigIntCtx := c\<rparr>) = bigValue k s"
    using GetOne_value [OF 1] GetOne_value [OF 2] GetOne_value [OF 3] by auto
qed

lemma bigValue_set: "bigValue k (s\<lparr>bigIntCtx := bigInt_Set h v (bigIntCtx s)\<rparr>) = (if k = h then v else bigValue k s)"
  by (simp add: bigValue_def bigInt_Set_def go_simps)

lemma useExtraGas_ok: "running s \<Longrightarrow> \<exists>s'. useExtraGasForOperations vs s = Some s' \<and> bigIntCtx s' = bigIntCtx s"
proof (induction vs arbitrary: s)
  case (Cons v vs)
  obtain t where t: "UseGas (MulUint64 (of_nat (BitLen v div 8)) (DataCopyPerByte (baseOperationCost (gasSchedule (meteringCtx s))))) s = Some t"
    using Cons.prems UseGas_no_panic by blast
  with Cons.prems have "running t" "bigIntCtx t = bigIntCtx s" by (simp_all add: running_def UseGas_frame [OF t])
  with Cons t show ?case by (fastforce simp: Let_def)
qed simp

text \<open>A binary operation writes its result at the destination and nothing else.\<close>

lemma binary_effect:
  assumes "running s" "g (bigValue d s) (bigValue a s) (bigValue b s) = setBigH d v (ret ())"
  shows "\<exists>s'. useApi name (getThreeH d a b (\<lambda>x y z. thenH (useExtraGasForOperations (l x y z)) (g x y z))) s = Some ((), s') \<and>
    bigValue d s' = v \<and> (\<forall>h. h \<noteq> d \<longrightarrow> bigValue h s' = bigValue h s)"
proof -
  obtain t where t: "UseGas (apiCost (gasSchedule (meteringCtx s)) name) s = Some t" using assms(1) UseGas_no_panic by blast
  have bt: "bigIntCtx t = bigIntCtx s" and rt: "running t" using assms(1) UseGas_frame [OF t] by (simp_all add: running_def)
  obtain x' y' z' c where three: "bigInt_GetThree d a b (bigIntCtx s) = ((x', y', z'), c)" by (metis prod.collapse)
  note val = GetThree_value [OF three]
  have "running (t\<lparr>bigIntCtx := c\<rparr>)" using rt by (simp add: running_def)
  then obtain u where u: "useExtraGasForOperations (l x' y' z') (t\<lparr>bigIntCtx := c\<rparr>) = Some u" "bigIntCtx u = c"
    using useExtraGas_ok by fastforce
  let ?s' = "u\<lparr>bigIntCtx := bigInt_Set d v (bigIntCtx u)\<rparr>"
  have run: "useApi name (getThreeH d a b (\<lambda>x y z. thenH (useExtraGasForOperations (l x y z)) (g x y z))) s = Some ((), ?s')"
    using t bt three val(1-3) u assms(2) by (simp add: useApi_def thenH_def getThreeH_def setBigH_def updH_def ret_def)
  have "bigValue h u = bigValue h s" for h
    using val(4) [of h] u(2) by (simp add: bigValue_def)
  then have "bigValue h ?s' = (if h = d then v else bigValue h s)" for h by (simp add: bigValue_set)
  with run show ?thesis by (intro exI [of _ ?s']) simp
qed

lemma Quo_Rem: "b \<noteq> 0 \<Longrightarrow> a = Quo a b * b + Rem a b \<and> \<bar>Rem a b\<bar> < \<bar>b\<bar> \<and> (Rem a b = 0 \<or> sgn (Rem a b) = sgn a)"
proof -
  assume b: "b \<noteq> 0"
  have m: "0 \<le> \<bar>a\<bar> mod \<bar>b\<bar>" "\<bar>a\<bar> mod \<bar>b\<bar> < \<bar>b\<bar>" using b by simp_all
  have "Quo a b * b = sgn a * (\<bar>a\<bar> div \<bar>b\<bar> * \<bar>b\<bar>)"
    by (simp add: Quo_def mult_ac sgn_mult_abs [symmetric] flip: abs_sgn) 
  then have "Quo a b * b + Rem a b = sgn a * (\<bar>a\<bar> div \<bar>b\<bar> * \<bar>b\<bar> + \<bar>a\<bar> mod \<bar>b\<bar>)" by (simp only: Rem_def distrib_left)
  also have "\<dots> = a" by (simp add: sgn_mult_abs)
  finally have "a = Quo a b * b + Rem a b" ..
  moreover have "\<bar>Rem a b\<bar> < \<bar>b\<bar>" using m by (cases "a = 0") (auto simp: Rem_def abs_mult b)
  moreover have "Rem a b = 0 \<or> sgn (Rem a b) = sgn a" using m by (auto simp: Rem_def sgn_mult sgn_if)
  ultimately show ?thesis by blast
qed

lemma Div_Mod: "b \<noteq> 0 \<Longrightarrow> a = Div a b * b + Mod a b \<and> 0 \<le> Mod a b \<and> Mod a b < \<bar>b\<bar>"
proof -
  assume b: "b \<noteq> 0"
  have "Div a b * b + Mod a b = a div \<bar>b\<bar> * \<bar>b\<bar> + a mod \<bar>b\<bar>"
    using div_mult_mod_eq [of a "- b"] by (auto simp: Div_def Mod_def abs_if)
  with b show ?thesis by (simp add: Mod_def)
qed

subsection \<open>Values in storage\<close>

lemma MemLoad_cong: "instMemory t = instMemory s \<Longrightarrow> MemLoad p n t = MemLoad p n s"
  by (simp add: MemLoad_def)

lemma useApi_kept:
  assumes "storage_inv s"
  obtains t where "UseGas (apiCost (gasSchedule (meteringCtx s)) name) s = Some t" "kept s t" "modeKept s t"
    "\<And>e b. storageOf e b t = storageOf e b s"
proof -
  from charges_UseGas_by [of "\<lambda>s. apiCost (gasSchedule (meteringCtx s)) name"] assms
  obtain t where t: "UseGas (apiCost (gasSchedule (meteringCtx s)) name) s = Some t" "kept s t" "outAccounts t = outAccounts s"
    by (rule chargesE)
  show thesis by (rule that [OF t(1,2) modeKept_gas(1) [OF t(1)] storageOf_cong [OF t(3) kept_D(5) [OF t(2)]]])
qed

lemma storing_hook:
  \<comment> \<open>the hooks that store encoded values\<close>
  assumes "storage_inv s" "mayWrite (storageConfig s) key" "MemLoad p n s = Some (Inr key)"
  shows "\<exists>r t. useApi name (memLoad baseFail p n (- 1) (\<lambda>key. bindH (SetStorage e key val) (\<lambda>(st, err).
      faultH baseFail err (- 1) (ret (storageStatus_int st))))) s = Some (r, t) \<and> r \<noteq> - 1 \<and> storage_inv t \<and>
    MemLoad p n t = Some (Inr key) \<and> st_address (storageCtx t) = st_address (storageCtx s) \<and>
    storageOf e (st_address (storageCtx s)) t key = val"
proof -
  obtain u where u: "UseGas (apiCost (gasSchedule (meteringCtx s)) name) s = Some u" "kept s u" "modeKept s u"
    "\<And>e b. storageOf e b u = storageOf e b s" using useApi_kept [OF assms(1), where name = name] by blast
  have w: "mayWrite (storageConfig u) key" using assms(2) kept_config [OF u(2)] by simp
  obtain t where t: "SetStorage e key val u = Some ((statusOf (storageOf e (st_address (storageCtx u)) u key) val, None), t)"
      "kept u t" "\<forall>b. storageOf e b t = (if b = st_address (storageCtx u) then (storageOf e b u)(key := val) else storageOf e b u)"
    using SetStorage_effect [OF kept_D(1) [OF u(2)] w] by blast
  have m: "MemLoad p n u = Some (Inr key)" "MemLoad p n t = Some (Inr key)"
    using assms(3) u(3) modeKept_SetStorage [OF t(1)] by (auto simp: modeKept_def cong: MemLoad_cong)
  have a: "st_address (storageCtx u) = st_address (storageCtx s)" "st_address (storageCtx t) = st_address (storageCtx u)"
    using kept_D(2) [OF u(2)] kept_D(2) [OF t(2)] by simp_all
  have st: "storageStatus_int x \<noteq> - 1" for x by (cases x) simp_all
  show ?thesis
    using u(1) m t(1,3) a kept_D(1) [OF t(2)] st
    by (simp add: useApi_def thenH_def memLoad_def needH_def checkH_def bindH_def faultH_def WithFault_def ret_def)
qed

lemma loading_hook:
  \<comment> \<open>and those that load and decode them\<close>
  assumes "storage_inv s" "MemLoad p n s = Some (Inr key)" "storageOf e (st_address (storageCtx s)) s key = val"
    "decode val = ret x"
  shows "\<exists>t. useApi name (memLoad baseFail p n y (\<lambda>key. bindH (GetStorage e key) decode)) s = Some (x, t)"
proof -
  obtain u where u: "UseGas (apiCost (gasSchedule (meteringCtx s)) name) s = Some u" "kept s u" "modeKept s u"
    "\<And>e b. storageOf e b u = storageOf e b s" using useApi_kept [OF assms(1), where name = name] by blast
  have m: "MemLoad p n u = Some (Inr key)" using assms(2) u(3) by (simp add: modeKept_def cong: MemLoad_cong)
  have "st_address (storageCtx u) = st_address (storageCtx s)" using kept_D(2) [OF u(2)] by simp
  then obtain t where "GetStorage e key u = Some (val, t)"
    using GetStorage_effect [OF kept_D(1) [OF u(2)], of e key] assms(3) u(4) by auto
  with u(1) m assms(4) show ?thesis
    by (simp add: useApi_def thenH_def memLoad_def needH_def checkH_def bindH_def ret_def)
qed

subsection \<open>Arguments in memory\<close>

lemma fillInts_Nil: "fillInts [] i ints = Some ints"
  by (simp add: fillInts.simps)

lemma length_fillInts: "fillInts raw i ints = Some r \<Longrightarrow> length r = length ints"
  by (induction raw i ints rule: fillInts.induct) (simp add: fillInts.simps split: if_splits)

lemma length_MemLoad: "MemLoad p n s = Some (Inr b) \<Longrightarrow> length b = unat n"
  by (auto simp: MemLoad_def copyInto_def Let_def bind_Some_iff split: if_splits)

lemma MemLoadMultiple_lengths: "MemLoadMultiple p ns s = Some (Inr args) \<Longrightarrow> map length args = map unat ns"
  by (induction ns arbitrary: p args) (auto dest!: length_MemLoad split: option.splits sum.splits)

lemma MemLoadMultiple_zeros: "MemLoadMultiple p (replicate n 0) s = Some (Inr (replicate n []))"
  by (induction n arbitrary: p) (simp_all add: MemLoad_def)

lemma sum_words: "foldl (+) x (ns :: i32 list) = x + of_nat (sum_list (map unat ns))"
  by (induction ns arbitrary: x) (simp_all add: add.assoc)

lemma getArguments_phases:
  assumes "getArgumentsFromMemory n lp dp s = Some (Inr (args, m))"
  obtains raw ints where "0 \<le> sint n" "MemLoad lp (n * 4) s = Some (Inr raw)" "createInt32Array raw n = Some ints"
    "MemLoadMultiple dp ints s = Some (Inr args)" "m = foldl (+) 0 ints"
proof -
  have n: "0 \<le> sint n" using assms by (auto simp: getArgumentsFromMemory_def split: if_splits)
  with assms obtain r where r: "MemLoad lp (n * 4) s = Some r" by (auto simp: getArgumentsFromMemory_def bind_Some_iff)
  with assms n obtain raw where raw: "r = Inr raw" by (cases r) (auto simp: getArgumentsFromMemory_def)
  with assms n r obtain ints where ints: "createInt32Array raw n = Some ints"
    by (auto simp: getArgumentsFromMemory_def bind_Some_iff)
  with assms n r raw obtain q where q: "MemLoadMultiple dp ints s = Some q"
    by (auto simp: getArgumentsFromMemory_def bind_Some_iff)
  with assms n r raw ints have "q = Inr args" "m = foldl (+) 0 ints" by (cases q; simp add: getArgumentsFromMemory_def)+
  with n r raw ints q that show thesis by blast
qed

lemma getArguments_lengths:
  assumes "getArgumentsFromMemory n lp dp s = Some (Inr (args, m))"
  shows "0 \<le> sint n" "length args = nat (sint n)" "unat m = sum_list (map length args) mod 2 ^ 32"
proof -
  from assms obtain raw ints where p: "0 \<le> sint n" "createInt32Array raw n = Some ints"
    "MemLoadMultiple dp ints s = Some (Inr args)" "m = foldl (+) 0 ints" by (rule getArguments_phases)
  show "0 \<le> sint n" by (rule p)
  have "length ints = unat n" using p(1,2) by (auto simp: createInt32Array_def dest!: length_fillInts split: if_splits)
  moreover have len: "map length args = map unat ints" using p(3) by (rule MemLoadMultiple_lengths)
  ultimately show "length args = nat (sint n)" using i32_nonneg [OF p(1)] by (metis length_map)
  show "unat m = sum_list (map length args) mod 2 ^ 32"
    unfolding p(4) sum_words len by (simp add: unat_of_nat take_bit_eq_mod)
qed

text \<open>The product \<open>numArguments*4\<close> wraps around: for two to the power of thirty arguments no length is
  read at all, and that many empty arguments are made.\<close>

lemma getArguments_overflow:
  "getArgumentsFromMemory (2 ^ 30) lp dp s = Some (Inr (replicate (2 ^ 30) [], foldl (+) 0 (replicate (2 ^ 30) 0)))"
proof -
  have "createInt32Array [] (2 ^ 30) = Some (replicate (2 ^ 30) 0)"
    by (simp add: createInt32Array_def fillInts_Nil)
  then show ?thesis
    by (simp add: getArgumentsFromMemory_def MemLoad_def MemLoadMultiple_zeros)
qed

subsection \<open>Single hooks\<close>

text \<open>\<open>getCallValueTokenName\<close> copies the name of the token into a slice of length 0: whatever was transferred, the
  name it stores is empty and the length it returns is 0.\<close>

lemma goCopy_Nil: "goCopy [] xs = []"
  by (simp add: goCopy_def)

lemma getCallValueTokenName_empty:
  assumes "v1_2_getCallValueTokenName e vp np s = Some (r, s')"
  shows "r = 0 \<or> r = - 1"
proof -
  have store: "memStore e b p d x k t = Some (y, t') \<Longrightarrow> y = x \<or> (\<exists>u. k u = Some (y, t'))" for b p d and x :: i32 and k t y t'
    by (auto simp: memStore_def bindH_def faultH_def bind_Some_iff split: if_splits)
  from assms show ?thesis
    by (auto simp: v1_2_getCallValueTokenName_def useApi_def thenH_def needH_def readH_def bind_Some_iff goCopy_Nil ret_def
      int32_len_def dest!: store split: if_splits)
qed

text \<open>\<open>executeReadOnly\<close> ends read-only mode for its caller, even one that was itself called in that mode.\<close>

lemma executeReadOnly_ends_mode:
  assumes "v1_2_executeReadOnly e re g p fp fl n lp dp s = Some (0, s')"
  shows "\<not> readOnly (runtimeCtx s')"
proof -
  have fault: "faultH b err (1 :: i32) (ret 0) t = Some (0, t') \<Longrightarrow> t' = t" for b err t t'
    by (auto simp: faultH_def ret_def WithFault_def bind_Some_iff split: if_splits)
  have check: "checkH b r (1 :: i32) k t = Some (0, t') \<Longrightarrow> \<exists>c. k c t = Some (0, t')" for b k t t' and r :: "err + ContractCallInput"
    by (auto simp: checkH_def faultH_def ret_def WithFault_def bind_Some_iff split: sum.splits if_splits)
  from assms show ?thesis
    by (auto simp: v1_2_executeReadOnly_def useApi_def thenH_def readH_def needH_def bindH_def updH_def bind_Some_iff ret_def
      SetReadOnly_def dest!: check fault split: if_splits)
qed

subsection \<open>Sample states\<close>

definition divisionVM :: vm where
  "divisionVM = sampleVM\<lparr>bigIntCtx := \<lparr>bi_values = [(0, 7), (1, - 30)], bigInt_stateStack = []\<rparr>\<rparr>"

definition argumentsVM :: vm where
  \<comment> \<open>the memory holds the lengths 2 and 1, and then the three bytes\<close>
  "argumentsVM = sampleVM\<lparr>instances := (\<lambda>_. sampleInstance\<lparr>inst_memory := Some
     ([CHR 0x02, CHR 0x00, CHR 0x00, CHR 0x00, CHR 0x01, CHR 0x00, CHR 0x00, CHR 0x00] @ ''abc'')\<rparr>)\<rparr>"

subsection \<open>Properties\<close>

text \<open>C40: division of big integers.  For a divisor that is not 0, the hooks \<open>bigIntTDiv\<close> and \<open>bigIntTMod\<close> compute
  the quotient and remainder that truncate towards zero, the remainder having the sign of the dividend, and
  \<open>bigIntEDiv\<close> and \<open>bigIntEMod\<close> the Euclidean ones, with a remainder that is never negative.  No handle but
  the destination changes, which may be one of the operands.\<close>

theorem bigInt_division:
  assumes "running s" "bigValue b s \<noteq> 0"
  shows "(\<exists>t u. v1_2_bigIntTDiv d a b s = Some ((), t) \<and> v1_2_bigIntTMod d a b s = Some ((), u) \<and>
      bigValue a s = bigValue d t * bigValue b s + bigValue d u \<and> \<bar>bigValue d u\<bar> < \<bar>bigValue b s\<bar> \<and>
      (bigValue d u = 0 \<or> sgn (bigValue d u) = sgn (bigValue a s)) \<and>
      (\<forall>h. h = d \<or> bigValue h t = bigValue h s \<and> bigValue h u = bigValue h s)) \<and>
    (\<exists>t u. v1_2_bigIntEDiv d a b s = Some ((), t) \<and> v1_2_bigIntEMod d a b s = Some ((), u) \<and>
      bigValue a s = bigValue d t * bigValue b s + bigValue d u \<and> 0 \<le> bigValue d u \<and> bigValue d u < \<bar>bigValue b s\<bar> \<and>
      (\<forall>h. h = d \<or> bigValue h t = bigValue h s \<and> bigValue h u = bigValue h s))"
proof -
  let ?a = "bigValue a s" and ?b = "bigValue b s"
  have "\<exists>t. v1_2_bigIntTDiv d a b s = Some ((), t) \<and> bigValue d t = Quo ?a ?b \<and> (\<forall>h. h \<noteq> d \<longrightarrow> bigValue h t = bigValue h s)"
    unfolding v1_2_bigIntTDiv_def by (rule binary_effect [OF assms(1)]) (simp add: assms(2))
  then obtain t where t: "v1_2_bigIntTDiv d a b s = Some ((), t)" "bigValue d t = Quo ?a ?b" "\<forall>h. h \<noteq> d \<longrightarrow> bigValue h t = bigValue h s"
    by blast
  have "\<exists>t. v1_2_bigIntTMod d a b s = Some ((), t) \<and> bigValue d t = Rem ?a ?b \<and> (\<forall>h. h \<noteq> d \<longrightarrow> bigValue h t = bigValue h s)"
    unfolding v1_2_bigIntTMod_def by (rule binary_effect [OF assms(1)]) (simp add: assms(2))
  then obtain u where u: "v1_2_bigIntTMod d a b s = Some ((), u)" "bigValue d u = Rem ?a ?b" "\<forall>h. h \<noteq> d \<longrightarrow> bigValue h u = bigValue h s"
    by blast
  have "\<exists>t. v1_2_bigIntEDiv d a b s = Some ((), t) \<and> bigValue d t = Div ?a ?b \<and> (\<forall>h. h \<noteq> d \<longrightarrow> bigValue h t = bigValue h s)"
    unfolding v1_2_bigIntEDiv_def by (rule binary_effect [OF assms(1)]) (simp add: assms(2))
  then obtain t' where t': "v1_2_bigIntEDiv d a b s = Some ((), t')" "bigValue d t' = Div ?a ?b" "\<forall>h. h \<noteq> d \<longrightarrow> bigValue h t' = bigValue h s"
    by blast
  have "\<exists>t. v1_2_bigIntEMod d a b s = Some ((), t) \<and> bigValue d t = Mod ?a ?b \<and> (\<forall>h. h \<noteq> d \<longrightarrow> bigValue h t = bigValue h s)"
    unfolding v1_2_bigIntEMod_def by (rule binary_effect [OF assms(1)]) (simp add: assms(2))
  then obtain u' where u': "v1_2_bigIntEMod d a b s = Some ((), u')" "bigValue d u' = Mod ?a ?b" "\<forall>h. h \<noteq> d \<longrightarrow> bigValue h u' = bigValue h s"
    by blast
  show ?thesis using t u t' u' Quo_Rem [OF assms(2), of ?a] Div_Mod [OF assms(2), of ?a] by auto
qed

theorem bigInt_division_witness:
  "(\<exists>t u. v1_2_bigIntTDiv 3 1 0 divisionVM = Some ((), t) \<and> v1_2_bigIntTMod 3 1 0 divisionVM = Some ((), u) \<and>
      - 30 = bigValue 3 t * 7 + bigValue 3 u \<and> \<bar>bigValue 3 u\<bar> < 7 \<and> (bigValue 3 u = 0 \<or> sgn (bigValue 3 u) = - 1)) \<and>
    (\<exists>t u. v1_2_bigIntEDiv 3 1 0 divisionVM = Some ((), t) \<and> v1_2_bigIntEMod 3 1 0 divisionVM = Some ((), u) \<and>
      - 30 = bigValue 3 t * 7 + bigValue 3 u \<and> 0 \<le> bigValue 3 u \<and> bigValue 3 u < 7)"
proof -
  have "running divisionVM" by (simp add: divisionVM_def running_def sample_defs)
  moreover have v: "bigValue 0 divisionVM = 7" "bigValue 1 divisionVM = - 30"
    by (simp_all add: divisionVM_def bigValue_def go_simps sample_defs)
  ultimately show ?thesis using bigInt_division [of divisionVM 0 3 1] by auto
qed

text \<open>64-bit values survive storage.  What \<open>smallIntStorageStoreUnsigned\<close> stored, \<open>smallIntStorageLoadUnsigned\<close>
  with the same key returns, for every 64-bit value, and so do the signed hooks when the two's complement
  encoding they use is undone by its decoding.  The store must be permitted, that is, outside read-only
  mode and on a key that is not protected.\<close>

lemma smallInt_storage_roundtrip:
  assumes "storage_inv s" "mayWrite (storageConfig s) key" "MemLoad p n s = Some (Inr key)"
    "twos_SetBytes e (twos_ToBytes e (sint v)) = sint v"
  shows "(\<exists>r t u. v1_2_smallIntStorageStoreUnsigned e p n v s = Some (r, t) \<and> r \<noteq> - 1 \<and>
      v1_2_smallIntStorageLoadUnsigned e p n t = Some (v, u)) \<and>
    (\<exists>r t u. v1_2_smallIntStorageStoreSigned e p n v s = Some (r, t) \<and> r \<noteq> - 1 \<and>
      v1_2_smallIntStorageLoadSigned e p n t = Some (v, u))"
proof
  have range: "IsUint64 (uint v)" "IsInt64 (sint v)"
    using unsigned_less [of v, where ?'a = int] sint_range_size [of v] by (auto simp: IsUint64_def IsInt64_def word_size)
  show "\<exists>r t u. v1_2_smallIntStorageStoreUnsigned e p n v s = Some (r, t) \<and> r \<noteq> - 1 \<and>
      v1_2_smallIntStorageLoadUnsigned e p n t = Some (v, u)"
  proof -
    obtain r t where t: "v1_2_smallIntStorageStoreUnsigned e p n v s = Some (r, t)" "r \<noteq> - 1" "storage_inv t"
        "MemLoad p n t = Some (Inr key)" "storageOf e (st_address (storageCtx t)) t key = Bytes (uint v)"
      using storing_hook [OF assms(1-3)] unfolding v1_2_smallIntStorageStoreUnsigned_def by metis
    have "\<exists>u. v1_2_smallIntStorageLoadUnsigned e p n t = Some (v, u)"
      unfolding v1_2_smallIntStorageLoadUnsigned_def using t(3-5)
      by (rule loading_hook) (simp add: Let_def SetBytes_Bytes range)
    with t(1,2) show ?thesis by blast
  qed
  show "\<exists>r t u. v1_2_smallIntStorageStoreSigned e p n v s = Some (r, t) \<and> r \<noteq> - 1 \<and>
      v1_2_smallIntStorageLoadSigned e p n t = Some (v, u)"
  proof -
    obtain r t where t: "v1_2_smallIntStorageStoreSigned e p n v s = Some (r, t)" "r \<noteq> - 1" "storage_inv t"
        "MemLoad p n t = Some (Inr key)" "storageOf e (st_address (storageCtx t)) t key = twos_ToBytes e (sint v)"
      using storing_hook [OF assms(1-3)] unfolding v1_2_smallIntStorageStoreSigned_def by metis
    have "\<exists>u. v1_2_smallIntStorageLoadSigned e p n t = Some (v, u)"
      unfolding v1_2_smallIntStorageLoadSigned_def using t(3-5)
      by (rule loading_hook) (simp add: Let_def assms(4) range)
    with t(1,2) show ?thesis by blast
  qed
qed

lemma smallInt_storage_roundtrip_example:
  "(\<exists>r t u. v1_2_smallIntStorageStoreUnsigned sampleEnv 0 2 (- 5) sampleVM = Some (r, t) \<and> r \<noteq> - 1 \<and>
      v1_2_smallIntStorageLoadUnsigned sampleEnv 0 2 t = Some (- 5, u)) \<and>
    (\<exists>r t u. v1_2_smallIntStorageStoreSigned sampleEnv 0 2 (- 5) sampleVM = Some (r, t) \<and> r \<noteq> - 1 \<and>
      v1_2_smallIntStorageLoadSigned sampleEnv 0 2 t = Some (- 5, u))"
proof (rule smallInt_storage_roundtrip [OF storage_inv_sample])
  show "mayWrite (storageConfig sampleVM) ''ab''" by code_simp
  show "MemLoad 0 2 sampleVM = Some (Inr ''ab'')" by code_simp
  show "twos_SetBytes sampleEnv (twos_ToBytes sampleEnv (sint (- 5 :: i64))) = sint (- 5 :: i64)" by code_simp
qed

text \<open>Arguments passed through memory.  When \<open>getArgumentsFromMemory\<close> succeeds, the number of arguments was not
  negative, exactly so many are returned, and the total it reports, from which the gas for copying
  them is computed, is the number of their bytes modulo two to the power of 32.\<close>

lemma arguments_from_memory:
  assumes "getArgumentsFromMemory numArguments lengths data s = Some (Inr (args, m))"
  shows "0 \<le> sint numArguments \<and> length args = nat (sint numArguments) \<and> unat m = sum_list (map length args) mod 2 ^ 32"
  using getArguments_lengths [OF assms] by blast

lemma arguments_from_memory_example:
  "getArgumentsFromMemory 2 0 8 argumentsVM = Some (Inr ([''ab'', ''c''], 3)) \<and> unat (3 :: i32) = sum_list (map length [''ab'', ''c'']) mod 2 ^ 32"
proof -
  let ?raw = "[CHR 0x02, CHR 0x00, CHR 0x00, CHR 0x00, CHR 0x01, CHR 0x00, CHR 0x00, CHR 0x00]"
  have "LittleEndian_Uint32 (take 4 ?raw) = 2" "LittleEndian_Uint32 (drop 4 ?raw) = 1" by (simp_all add: LittleEndian_Uint32_def SetBytes_def)
  moreover have "replicate 2 (0 :: u32) = [0, 0]" by (simp add: eval_nat_numeral)
  ultimately have "createInt32Array ?raw 2 = Some [2, 1]" by (simp add: createInt32Array_def fillInts.simps)
  moreover have "MemLoad 0 8 argumentsVM = Some (Inr ?raw)" by code_simp
  moreover have "MemLoadMultiple 8 [2, 1] argumentsVM = Some (Inr [''ab'', ''c''])" by code_simp
  ultimately have "getArgumentsFromMemory 2 0 8 argumentsVM = Some (Inr ([''ab'', ''c''], 3))"
    by (simp add: getArgumentsFromMemory_def)
  with arguments_from_memory [OF this] show ?thesis by simp
qed

end
