(* ===== verification/WorldAccounts.thy ===== *)
theory WorldAccounts
  imports VMTypes
begin

text \<open>
  The accounts of the mock world in which scenarios run (\<open>src/mock/world/worldAccount.go\<close>, \<open>worldAccountMap.go\<close>,
  \<open>mockDCDTAccount.go\<close>).  Tokens are kept in the storage of an account, under keys with the prefixes of the protocol and in the protobuf form
  of the core package; the prefixes and the codec are parameters (\<open>worldLib\<close>).
\<close>

record wAccount =
  wa_Exists :: bool
  wa_Address :: address
  wa_Nonce :: u64
  wa_Balance :: bigint
  wa_BalanceDelta :: bigint
  wa_Storage :: "(bytes, bytes) gomap"
  wa_RootHash :: bytes
  wa_Code :: bytes
  wa_CodeHash :: bytes
  wa_CodeMetadata :: bytes
  wa_OwnerAddress :: address
  wa_AsyncCallData :: string
  wa_Username :: bytes
  wa_DeveloperReward :: bigint
  wa_ShardID :: u32
  wa_IsSmartContract :: bool

type_synonym AccountMap = "(address, wAccount) gomap"

record wMetaData = MetaData +
  md_Nonce :: u64

record wToken =
  wt_Type :: u32
  wt_Value :: bigint
  wt_Properties :: bytes
  wt_TokenMetaData :: "wMetaData option"

record vmCodeMetadata =
  Payable :: bool
  Upgradeable :: bool
  Readable :: bool

record builtinContainer =
  c_Get :: "string \<Rightarrow> err + (wAccount option \<Rightarrow> wAccount option \<Rightarrow> ContractCallInput \<Rightarrow> AccountMap \<Rightarrow> (VMOutput option \<times> err option) \<times> AccountMap)"
  c_Keys :: "string set"

record worldLib =
  \<comment> \<open>flags, hashes and constants, shared with the VM\<close>
  wl_env :: env
  \<comment> \<open>key prefixes and metadata of the core and vm-common packages\<close>
  wl_DCDTKeyIdentifier :: string
  wl_DCDTRoleIdentifier :: string
  metadata_ToBytes :: "vmCodeMetadata \<Rightarrow> bytes"
  metadata_Payable :: "bytes \<Rightarrow> bool"
  MetadataPayable :: char
  userMetadata_ToBytes :: "bool \<Rightarrow> bytes"
  GetFirstDataItem :: "LogEntry \<Rightarrow> bytes"
  \<comment> \<open>protobuf\<close>
  MarshalToken :: "wToken \<Rightarrow> err + bytes"
  UnmarshalToken :: "bytes \<Rightarrow> err + wToken"
  MarshalRoles :: "bytes list \<Rightarrow> err + bytes"
  UnmarshalRoles :: "bytes \<Rightarrow> err + bytes list"
  \<comment> \<open>the built-in functions of the protocol, made for a gas schedule and the DNS addresses\<close>
  CreateBuiltInFunctionContainer :: "(string \<times> (string \<times> u64) list) list \<Rightarrow> bytes list \<Rightarrow> err + builtinContainer"

subsection \<open>Accounts\<close>

definition StorageValue :: "wAccount \<Rightarrow> bytes \<Rightarrow> bytes" where
  "StorageValue a key = (case go_get (wa_Storage a) key of None \<Rightarrow> [] | Some value \<Rightarrow> value)"

definition wa_hash :: "worldLib \<Rightarrow> bytes \<Rightarrow> bytes" where
  \<comment> \<open>an error leaves no hash\<close>
  "wa_hash lib code = (case Sha256 (wl_env lib) code of Inl _ \<Rightarrow> [] | Inr hash \<Rightarrow> hash)"

definition SetCodeAndMetadata :: "worldLib \<Rightarrow> bytes \<Rightarrow> vmCodeMetadata \<Rightarrow> wAccount \<Rightarrow> wAccount" where
  "SetCodeAndMetadata lib code codeMetadata a =
     a\<lparr>wa_Code := code, wa_CodeHash := wa_hash lib code, wa_IsSmartContract := True, wa_CodeMetadata := metadata_ToBytes lib codeMetadata\<rparr>"

definition wa_SetCode :: "worldLib \<Rightarrow> bytes \<Rightarrow> wAccount \<Rightarrow> wAccount" where
  "wa_SetCode lib code a = a\<lparr>wa_Code := code, wa_CodeHash := wa_hash lib code, wa_IsSmartContract := True\<rparr>"

definition ErrInsufficientFunds :: err where "ErrInsufficientFunds = ErrPlain ''insufficient funds''"
definition ErrOperationNotPermitted :: err where "ErrOperationNotPermitted = ErrPlain ''operation not permitted''"
definition ErrInvalidAddressLength :: err where "ErrInvalidAddressLength = ErrPlain ''invalid address length''"
definition ErrNegativeValue :: err where "ErrNegativeValue = ErrPlain ''negative value''"

definition AddToBalance :: "int \<Rightarrow> wAccount \<Rightarrow> (err option \<times> wAccount) option" where
  "AddToBalance value a = do {
     balance \<leftarrow> wa_Balance a;
     let newBalance = balance + value;
     Some (if newBalance < 0 then (Some ErrInsufficientFunds, a) else (None, a\<lparr>wa_Balance := Some newBalance\<rparr>)) }"

definition SubFromBalance :: "int \<Rightarrow> wAccount \<Rightarrow> (err option \<times> wAccount) option" where
  "SubFromBalance value a = do {
     balance \<leftarrow> wa_Balance a;
     let newBalance = balance - value;
     Some (if newBalance < 0 then (Some ErrInsufficientFunds, a) else (None, a\<lparr>wa_Balance := Some newBalance\<rparr>)) }"

definition ClaimDeveloperRewards :: "address \<Rightarrow> wAccount \<Rightarrow> ((err + int) \<times> wAccount) option" where
  "ClaimDeveloperRewards sender a =
     (if sender \<noteq> wa_OwnerAddress a then Some (Inl ErrOperationNotPermitted, a)
      else do {
        oldValue \<leftarrow> wa_DeveloperReward a;
        Some (Inr oldValue, a\<lparr>wa_DeveloperReward := Some 0\<rparr>) })"

definition AddToDeveloperReward :: "int \<Rightarrow> wAccount \<Rightarrow> wAccount option" where
  "AddToDeveloperReward value a = map_option (\<lambda>reward. a\<lparr>wa_DeveloperReward := Some (reward + value)\<rparr>) (wa_DeveloperReward a)"

definition ChangeOwnerAddress :: "address \<Rightarrow> address \<Rightarrow> wAccount \<Rightarrow> err option \<times> wAccount" where
  "ChangeOwnerAddress sender newAddress a =
     (if sender \<noteq> wa_OwnerAddress a then (Some ErrOperationNotPermitted, a)
      else if length newAddress \<noteq> length (wa_Address a) then (Some ErrInvalidAddressLength, a)
      else (None, a\<lparr>wa_OwnerAddress := newAddress\<rparr>))"

definition wa_SaveKeyValue :: "bytes \<Rightarrow> bytes \<Rightarrow> wAccount \<Rightarrow> wAccount" where
  "wa_SaveKeyValue key value a = a\<lparr>wa_Storage := go_set key value (wa_Storage a)\<rparr>"

definition wa_RetrieveValue :: "wAccount \<Rightarrow> bytes \<Rightarrow> bytes" where
  "wa_RetrieveValue a key = (case go_get (wa_Storage a) key of None \<Rightarrow> [] | Some value \<Rightarrow> value)"

definition wa_Clone :: "wAccount \<Rightarrow> wAccount option" where
  \<comment> \<open>a deep copy is the same value; \<open>Set\<close> panics on a nil number\<close>
  "wa_Clone a = (if wa_Balance a = None \<or> wa_BalanceDelta a = None \<or> wa_DeveloperReward a = None then None else Some a)"

subsection \<open>Maps of accounts\<close>

definition PutAccount :: "wAccount \<Rightarrow> AccountMap \<Rightarrow> AccountMap" where
  "PutAccount account am = go_set (wa_Address account) account am"

definition PutAccounts :: "wAccount list \<Rightarrow> AccountMap \<Rightarrow> AccountMap" where
  "PutAccounts accounts am = fold PutAccount accounts am"

definition emptyAccount :: "address \<Rightarrow> wAccount" where
  "emptyAccount address = \<lparr>wa_Exists = True, wa_Address = address, wa_Nonce = 0, wa_Balance = Some 0, wa_BalanceDelta = Some 0, wa_Storage = [],
     wa_RootHash = [], wa_Code = [], wa_CodeHash = [], wa_CodeMetadata = [], wa_OwnerAddress = [], wa_AsyncCallData = [], wa_Username = [],
     wa_DeveloperReward = Some 0, wa_ShardID = 0, wa_IsSmartContract = False\<rparr>"

definition CreateAccount :: "address \<Rightarrow> AccountMap \<Rightarrow> wAccount \<times> AccountMap" where
  "CreateAccount address am = (emptyAccount address, PutAccount (emptyAccount address) am)"

definition CreateSmartContractAccount :: "worldLib \<Rightarrow> address \<Rightarrow> address \<Rightarrow> bytes \<Rightarrow> AccountMap \<Rightarrow> wAccount \<times> AccountMap" where
  "CreateSmartContractAccount lib owner address code am =
     (let newAccount = (fst (CreateAccount address am))\<lparr>wa_Code := code, wa_IsSmartContract := True, wa_OwnerAddress := owner,
        wa_CodeMetadata := [CHR 0x00, MetadataPayable lib]\<rparr>
      in (newAccount, PutAccount newAccount am))"

definition wa_GetAccount :: "AccountMap \<Rightarrow> address \<Rightarrow> wAccount option" where
  "wa_GetAccount am address = go_get am address"

definition DeleteAccount :: "address \<Rightarrow> AccountMap \<Rightarrow> AccountMap" where
  "DeleteAccount address am = go_delete address am"

definition accounts_Clone :: "AccountMap \<Rightarrow> AccountMap option" where
  "accounts_Clone am = those (map (\<lambda>(address, account). map_option (Pair address) (wa_Clone account)) am)"

fun LoadAccountStorageFrom :: "AccountMap \<Rightarrow> AccountMap \<Rightarrow> err option \<times> AccountMap" where
  \<comment> \<open>the accounts before the first one that is missing in the other map have been changed already\<close>
  "LoadAccountStorageFrom [] otherAM = (None, [])"
| "LoadAccountStorageFrom ((address, account) # am) otherAM =
     (case go_get otherAM address of
        None \<Rightarrow> (Some (ErrPlain (''account '' @ EncodeToString address @ '' could not be loaded from AccountMap'')), (address, account) # am)
      | Some otherAccount \<Rightarrow>
          (case LoadAccountStorageFrom am otherAM of
             (err, am) \<Rightarrow> (err, (address, account\<lparr>wa_Storage := wa_Storage otherAccount\<rparr>) # am)))"

subsection \<open>Tokens in the storage\<close>

definition DCDTTokenKeyPrefix :: "worldLib \<Rightarrow> bytes" where
  "DCDTTokenKeyPrefix lib = core_ProtectedKeyPrefix (wl_env lib) @ wl_DCDTKeyIdentifier lib"
definition DCDTRoleKeyPrefix :: "worldLib \<Rightarrow> bytes" where
  "DCDTRoleKeyPrefix lib = core_ProtectedKeyPrefix (wl_env lib) @ wl_DCDTRoleIdentifier lib @ wl_DCDTKeyIdentifier lib"
definition DCDTNonceKeyPrefix :: "worldLib \<Rightarrow> bytes" where
  "DCDTNonceKeyPrefix lib = core_ProtectedKeyPrefix (wl_env lib) @ DCDTNFTLatestNonceIdentifier (wl_env lib)"

definition MakeTokenKey :: "worldLib \<Rightarrow> bytes \<Rightarrow> u64 \<Rightarrow> bytes" where
  "MakeTokenKey lib tokenName nonce = DCDTTokenKeyPrefix lib @ tokenName @ Bytes (uint nonce)"
definition MakeTokenRolesKey :: "worldLib \<Rightarrow> bytes \<Rightarrow> bytes" where
  "MakeTokenRolesKey lib tokenName = DCDTRoleKeyPrefix lib @ tokenName"
definition MakeLastNonceKey :: "worldLib \<Rightarrow> bytes \<Rightarrow> bytes" where
  "MakeLastNonceKey lib tokenName = DCDTNonceKeyPrefix lib @ tokenName"

definition IsTokenKey :: "worldLib \<Rightarrow> bytes \<Rightarrow> bool" where "IsTokenKey lib key \<longleftrightarrow> HasPrefix key (DCDTTokenKeyPrefix lib)"
definition IsRoleKey :: "worldLib \<Rightarrow> bytes \<Rightarrow> bool" where "IsRoleKey lib key \<longleftrightarrow> HasPrefix key (DCDTRoleKeyPrefix lib)"
definition IsNonceKey :: "worldLib \<Rightarrow> bytes \<Rightarrow> bool" where "IsNonceKey lib key \<longleftrightarrow> HasPrefix key (DCDTNonceKeyPrefix lib)"
definition IsDCDTKey :: "worldLib \<Rightarrow> bytes \<Rightarrow> bool" where
  "IsDCDTKey lib key \<longleftrightarrow> IsTokenKey lib key \<or> IsRoleKey lib key \<or> IsNonceKey lib key"

definition GetTokenNameFromKey :: "worldLib \<Rightarrow> bytes \<Rightarrow> bytes option" where
  \<comment> \<open>a key shorter than the prefix panics\<close>
  "GetTokenNameFromKey lib key =
     (if length key < length (DCDTTokenKeyPrefix lib) then None else Some (drop (length (DCDTTokenKeyPrefix lib)) key))"

definition fungibleMeta :: "bytes \<Rightarrow> wMetaData" where
  "fungibleMeta name = \<lparr>md_Name = name, md_Creator = [], md_Royalties = 0, md_Hash = [], md_URIs = [], md_Attributes = [], md_Nonce = 0\<rparr>"

definition GetTokenData :: "worldLib \<Rightarrow> wAccount \<Rightarrow> bytes \<Rightarrow> (err + wToken) option" where
  "GetTokenData lib a tokenKey = do {
     name \<leftarrow> GetTokenNameFromKey lib tokenKey;
     let dcdtData = \<lparr>wt_Type = Fungible (wl_env lib), wt_Value = Some 0, wt_Properties = [], wt_TokenMetaData = Some (fungibleMeta name)\<rparr>;
     let marshaledData = wa_RetrieveValue a tokenKey;
     Some (if length marshaledData = 0 then Inr dcdtData else UnmarshalToken lib marshaledData) }"

definition GetTokenBalance :: "worldLib \<Rightarrow> wAccount \<Rightarrow> bytes \<Rightarrow> (err + bigint) option" where
  "GetTokenBalance lib a tokenKey =
     map_option (\<lambda>r. case r of Inl err \<Rightarrow> Inl err | Inr tokenData \<Rightarrow> Inr (wt_Value tokenData)) (GetTokenData lib a tokenKey)"

definition GetTokenBalanceByName :: "worldLib \<Rightarrow> wAccount \<Rightarrow> bytes \<Rightarrow> (err + bigint) option" where
  "GetTokenBalanceByName lib a tokenName = GetTokenBalance lib a (MakeTokenKey lib tokenName 0)"

definition SetTokenData :: "worldLib \<Rightarrow> bytes \<Rightarrow> wToken \<Rightarrow> wAccount \<Rightarrow> err + wAccount" where
  "SetTokenData lib tokenKey tokenData a =
     (case MarshalToken lib tokenData of
        Inl err \<Rightarrow> Inl err
      | Inr marshaledData \<Rightarrow> Inr (wa_SaveKeyValue tokenKey marshaledData a))"

definition SetTokenBalance :: "worldLib \<Rightarrow> bytes \<Rightarrow> int \<Rightarrow> wAccount \<Rightarrow> (err + wAccount) option" where
  "SetTokenBalance lib tokenKey balance a =
     map_option (\<lambda>r. case r of
         Inl err \<Rightarrow> Inl err
       | Inr tokenData \<Rightarrow>
           if balance < 0 then Inl ErrNegativeValue else SetTokenData lib tokenKey (tokenData\<lparr>wt_Value := Some balance\<rparr>) a)
       (GetTokenData lib a tokenKey)"

definition SetTokenRoles :: "worldLib \<Rightarrow> bytes \<Rightarrow> bytes list \<Rightarrow> wAccount \<Rightarrow> err + wAccount" where
  "SetTokenRoles lib tokenName roles a =
     (case MarshalRoles lib roles of
        Inl err \<Rightarrow> Inl err
      | Inr marshaledData \<Rightarrow> Inr (wa_SaveKeyValue (MakeTokenRolesKey lib tokenName) marshaledData a))"

definition SetTokenRolesAsStrings :: "worldLib \<Rightarrow> bytes \<Rightarrow> string list \<Rightarrow> wAccount \<Rightarrow> err + wAccount" where
  "SetTokenRolesAsStrings lib tokenName rolesAsStrings a = SetTokenRoles lib tokenName rolesAsStrings a"

definition SetLastNonce :: "worldLib \<Rightarrow> bytes \<Rightarrow> u64 \<Rightarrow> wAccount \<Rightarrow> wAccount" where
  "SetLastNonce lib tokenName lastNonce a = wa_SaveKeyValue (MakeLastNonceKey lib tokenName) (Bytes (uint lastNonce)) a"

definition SetLastNonces :: "worldLib \<Rightarrow> (bytes, u64) gomap \<Rightarrow> wAccount \<Rightarrow> wAccount" where
  "SetLastNonces lib lastNonces a = fold (\<lambda>(tokenName, nonce). SetLastNonce lib tokenName nonce) lastNonces a"

definition GetTokenRoles :: "worldLib \<Rightarrow> wAccount \<Rightarrow> bytes \<Rightarrow> err + bytes list" where
  "GetTokenRoles lib a tokenName =
     (let marshaledData = wa_RetrieveValue a (MakeTokenRolesKey lib tokenName)
      in if length marshaledData = 0 then Inr [] else UnmarshalRoles lib marshaledData)"

definition GetTokenKeys :: "worldLib \<Rightarrow> wAccount \<Rightarrow> bytes list" where
  "GetTokenKeys lib a = filter (IsTokenKey lib) (map fst (wa_Storage a))"

record MockDCDTData =
  mdd_TokenIdentifier :: bytes
  mdd_Instances :: "wToken list"
  mdd_LastNonce :: u64
  mdd_Roles :: "bytes list"

definition loadMockDCDTDataInstance :: "worldLib \<Rightarrow> wAccount \<Rightarrow> bytes \<Rightarrow> (err + bytes \<times> wToken) option" where
  "loadMockDCDTDataInstance lib a tokenKey = do {
     r \<leftarrow> GetTokenData lib a tokenKey;
     case r of
       Inl err \<Rightarrow> Some (Inl err)
     | Inr tokenInstance \<Rightarrow> do {
         tokenNameFromKey \<leftarrow> GetTokenNameFromKey lib tokenKey;
         Some (Inr (case wt_TokenMetaData tokenInstance of
             None \<Rightarrow> (tokenNameFromKey, tokenInstance\<lparr>wt_TokenMetaData := Some (fungibleMeta tokenNameFromKey)\<rparr>)
           | Some metadata \<Rightarrow>
               if md_Nonce metadata = 0 then (tokenNameFromKey, tokenInstance\<lparr>wt_TokenMetaData := Some (fungibleMeta tokenNameFromKey)\<rparr>)
               else (md_Name metadata, tokenInstance))) } }"

definition getOrCreateMockDCDTData :: "bytes \<Rightarrow> (bytes, MockDCDTData) gomap \<Rightarrow> MockDCDTData" where
  \<comment> \<open>the caller puts what it makes of the object into the map\<close>
  "getOrCreateMockDCDTData tokenName resultMap =
     (case go_get resultMap tokenName of
        Some resultObj \<Rightarrow> resultObj
      | None \<Rightarrow> \<lparr>mdd_TokenIdentifier = tokenName, mdd_Instances = [], mdd_LastNonce = 0, mdd_Roles = []\<rparr>)"

definition mockDCDTEntry :: "worldLib \<Rightarrow> wAccount \<Rightarrow> bytes \<times> bytes \<Rightarrow> (bytes, MockDCDTData) gomap \<Rightarrow> (err + (bytes, MockDCDTData) gomap) option" where
  "mockDCDTEntry lib a entry resultMap =
     (let key = fst entry
      in if IsTokenKey lib key then do {
           r \<leftarrow> loadMockDCDTDataInstance lib a key;
           case r of
             Inl err \<Rightarrow> Some (Inl err)
           | Inr (tokenName, tokenInstance) \<Rightarrow> do {
               value \<leftarrow> wt_Value tokenInstance;
               Some (Inr (if value > 0 then
                   let resultObj = getOrCreateMockDCDTData tokenName resultMap
                   in go_set tokenName (resultObj\<lparr>mdd_Instances := mdd_Instances resultObj @ [tokenInstance]\<rparr>) resultMap
                 else resultMap)) } }
         else if IsNonceKey lib key then
           let tokenName = drop (length (DCDTNonceKeyPrefix lib)) key
           in Some (Inr (go_set tokenName ((getOrCreateMockDCDTData tokenName resultMap)\<lparr>mdd_LastNonce := uint64_of_int (SetBytes (snd entry))\<rparr>) resultMap))
         else if IsRoleKey lib key then
           let tokenName = drop (length (DCDTRoleKeyPrefix lib)) key
           in Some (case GetTokenRoles lib a tokenName of
                Inl err \<Rightarrow> Inl err
              | Inr roles \<Rightarrow> Inr (go_set tokenName ((getOrCreateMockDCDTData tokenName resultMap)\<lparr>mdd_Roles := roles\<rparr>) resultMap))
         else Some (Inr resultMap))"

fun foldEntries :: "('e \<Rightarrow> 's \<Rightarrow> (err + 's) option) \<Rightarrow> 'e list \<Rightarrow> 's \<Rightarrow> (err + 's) option" where
  \<comment> \<open>a loop that ends at the first error\<close>
  "foldEntries f [] s = Some (Inr s)"
| "foldEntries f (e # es) s = do { r \<leftarrow> f e s; case r of Inl err \<Rightarrow> Some (Inl err) | Inr s \<Rightarrow> foldEntries f es s }"

definition GetFullMockDCDTData :: "worldLib \<Rightarrow> wAccount \<Rightarrow> (err + (bytes, MockDCDTData) gomap) option" where
  "GetFullMockDCDTData lib a = foldEntries (mockDCDTEntry lib a) (wa_Storage a) []"

end
