(* ===== verification/GasSchedule.thy ===== *)
theory GasSchedule
  imports HostStacks
begin

text \<open>
  The gas schedule (\<open>src/config/gasCost.go\<close>, \<open>src/config/gasSchedule.go\<close>) and its change
  (\<open>GasScheduleChange\<close> of \<open>src/vmhost/hostCore/host.go\<close>, \<open>SetGasSchedule\<close> of \<open>src/vmhost/contexts/metering.go\<close>).

  A cost struct has only integer fields, which \<open>checkForZeroUint64Fields\<close> visits by reflection: it is
  the list of its fields, in order, with their values.  Decoding a map into a struct is done by
  the library \<open>mapstructure\<close>; it is a parameter here, a function of the names of the fields, the largest value they
  hold and the map.
\<close>

type_synonym gasSection = "(string, u64) gomap"
type_synonym GasScheduleMap = "(string, gasSection) gomap"
type_synonym costs = "(string \<times> u64) list"
type_synonym decoder = "string list \<Rightarrow> u64 \<Rightarrow> gasSection \<Rightarrow> err + costs"

subsection \<open>The cost structs\<close>

definition BaseOperationCost_fields :: "string list" where
  "BaseOperationCost_fields = [
     ''StorePerByte'', ''ReleasePerByte'', ''DataCopyPerByte'', ''PersistPerByte'', ''CompilePerByte'',
     ''AoTPreparePerByte'', ''GetCode'']"

definition BaseOpsAPICost_fields :: "string list" where
  "BaseOpsAPICost_fields = [
     ''GetSCAddress'', ''GetOwnerAddress'', ''IsSmartContract'', ''GetShardOfAddress'', ''GetExternalBalance'',
     ''GetBlockHash'', ''TransferValue'', ''GetArgument'', ''GetFunction'', ''GetNumArguments'', ''StorageStore'',
     ''StorageLoad'', ''GetCaller'', ''GetCallValue'', ''Log'', ''Finish'', ''SignalError'', ''GetBlockTimeStamp'',
     ''GetGasLeft'', ''Int64GetArgument'', ''Int64StorageStore'', ''Int64StorageLoad'', ''Int64Finish'',
     ''GetStateRootHash'', ''GetBlockNonce'', ''GetBlockEpoch'', ''GetBlockRound'', ''GetBlockRandomSeed'',
     ''ExecuteOnSameContext'', ''ExecuteOnDestContext'', ''DelegateExecution'', ''ExecuteReadOnly'', ''AsyncCallStep'',
     ''AsyncCallbackGasLock'', ''CreateContract'', ''GetReturnData'', ''GetNumReturnData'', ''GetReturnDataSize'']"

definition EthAPICost_fields :: "string list" where
  "EthAPICost_fields = [
     ''UseGas'', ''GetAddress'', ''GetExternalBalance'', ''GetBlockHash'', ''Call'', ''CallDataCopy'', ''GetCallDataSize'',
     ''CallCode'', ''CallDelegate'', ''CallStatic'', ''StorageStore'', ''StorageLoad'', ''GetCaller'', ''GetCallValue'',
     ''CodeCopy'', ''GetCodeSize'', ''GetBlockCoinbase'', ''Create'', ''GetBlockDifficulty'', ''ExternalCodeCopy'',
     ''GetExternalCodeSize'', ''GetGasLeft'', ''GetBlockGasLimit'', ''GetTxGasPrice'', ''Log'', ''GetBlockNumber'',
     ''GetTxOrigin'', ''Finish'', ''Revert'', ''GetReturnDataSize'', ''ReturnDataCopy'', ''SelfDestruct'',
     ''GetBlockTimeStamp'']"

definition BigIntAPICost_fields :: "string list" where
  "BigIntAPICost_fields = [
     ''BigIntNew'', ''BigIntUnsignedByteLength'', ''BigIntSignedByteLength'', ''BigIntGetUnsignedBytes'',
     ''BigIntGetSignedBytes'', ''BigIntSetUnsignedBytes'', ''BigIntSetSignedBytes'', ''BigIntIsInt64'', ''BigIntGetInt64'',
     ''BigIntSetInt64'', ''BigIntAdd'', ''BigIntSub'', ''BigIntMul'', ''BigIntTDiv'', ''BigIntTMod'', ''BigIntEDiv'',
     ''BigIntEMod'', ''BigIntAbs'', ''BigIntNeg'', ''BigIntSign'', ''BigIntCmp'', ''BigIntNot'', ''BigIntAnd'',
     ''BigIntOr'', ''BigIntXor'', ''BigIntShr'', ''BigIntShl'', ''BigIntFinishUnsigned'', ''BigIntFinishSigned'',
     ''BigIntStorageLoadUnsigned'', ''BigIntStorageStoreUnsigned'', ''BigIntGetUnsignedArgument'',
     ''BigIntGetSignedArgument'', ''BigIntGetCallValue'', ''BigIntGetExternalBalance'']"

definition CryptoAPICost_fields :: "string list" where
  "CryptoAPICost_fields = [
     ''SHA256'', ''Keccak256'', ''Ripemd160'', ''VerifyBLS'', ''VerifyEd25519'', ''VerifySecp256k1'']"

definition WASMOpcodeCost_fields :: "string list" where
  "WASMOpcodeCost_fields = [
     ''Unreachable'', ''Nop'', ''Block'', ''Loop'', ''If'', ''Else'', ''End'', ''Br'', ''BrIf'', ''BrTable'', ''Return'',
     ''Call'', ''CallIndirect'', ''Drop'', ''Select'', ''TypedSelect'', ''LocalGet'', ''LocalSet'', ''LocalTee'',
     ''GlobalGet'', ''GlobalSet'', ''I32Load'', ''I64Load'', ''F32Load'', ''F64Load'', ''I32Load8S'', ''I32Load8U'',
     ''I32Load16S'', ''I32Load16U'', ''I64Load8S'', ''I64Load8U'', ''I64Load16S'', ''I64Load16U'', ''I64Load32S'',
     ''I64Load32U'', ''I32Store'', ''I64Store'', ''F32Store'', ''F64Store'', ''I32Store8'', ''I32Store16'', ''I64Store8'',
     ''I64Store16'', ''I64Store32'', ''MemorySize'', ''MemoryGrow'', ''I32Const'', ''I64Const'', ''F32Const'', ''F64Const'',
     ''RefNull'', ''RefIsNull'', ''RefFunc'', ''I32Eqz'', ''I32Eq'', ''I32Ne'', ''I32LtS'', ''I32LtU'', ''I32GtS'',
     ''I32GtU'', ''I32LeS'', ''I32LeU'', ''I32GeS'', ''I32GeU'', ''I64Eqz'', ''I64Eq'', ''I64Ne'', ''I64LtS'', ''I64LtU'',
     ''I64GtS'', ''I64GtU'', ''I64LeS'', ''I64LeU'', ''I64GeS'', ''I64GeU'', ''F32Eq'', ''F32Ne'', ''F32Lt'', ''F32Gt'',
     ''F32Le'', ''F32Ge'', ''F64Eq'', ''F64Ne'', ''F64Lt'', ''F64Gt'', ''F64Le'', ''F64Ge'', ''I32Clz'', ''I32Ctz'',
     ''I32Popcnt'', ''I32Add'', ''I32Sub'', ''I32Mul'', ''I32DivS'', ''I32DivU'', ''I32RemS'', ''I32RemU'', ''I32And'',
     ''I32Or'', ''I32Xor'', ''I32Shl'', ''I32ShrS'', ''I32ShrU'', ''I32Rotl'', ''I32Rotr'', ''I64Clz'', ''I64Ctz'',
     ''I64Popcnt'', ''I64Add'', ''I64Sub'', ''I64Mul'', ''I64DivS'', ''I64DivU'', ''I64RemS'', ''I64RemU'', ''I64And'',
     ''I64Or'', ''I64Xor'', ''I64Shl'', ''I64ShrS'', ''I64ShrU'', ''I64Rotl'', ''I64Rotr'', ''F32Abs'', ''F32Neg'',
     ''F32Ceil'', ''F32Floor'', ''F32Trunc'', ''F32Nearest'', ''F32Sqrt'', ''F32Add'', ''F32Sub'', ''F32Mul'', ''F32Div'',
     ''F32Min'', ''F32Max'', ''F32Copysign'', ''F64Abs'', ''F64Neg'', ''F64Ceil'', ''F64Floor'', ''F64Trunc'',
     ''F64Nearest'', ''F64Sqrt'', ''F64Add'', ''F64Sub'', ''F64Mul'', ''F64Div'', ''F64Min'', ''F64Max'', ''F64Copysign'',
     ''I32WrapI64'', ''I32TruncF32S'', ''I32TruncF32U'', ''I32TruncF64S'', ''I32TruncF64U'', ''I64ExtendI32S'',
     ''I64ExtendI32U'', ''I64TruncF32S'', ''I64TruncF32U'', ''I64TruncF64S'', ''I64TruncF64U'', ''F32ConvertI32S'',
     ''F32ConvertI32U'', ''F32ConvertI64S'', ''F32ConvertI64U'', ''F32DemoteF64'', ''F64ConvertI32S'', ''F64ConvertI32U'',
     ''F64ConvertI64S'', ''F64ConvertI64U'', ''F64PromoteF32'', ''I32ReinterpretF32'', ''I64ReinterpretF64'',
     ''F32ReinterpretI32'', ''F64ReinterpretI64'', ''I32Extend8S'', ''I32Extend16S'', ''I64Extend8S'', ''I64Extend16S'',
     ''I64Extend32S'', ''I32TruncSatF32S'', ''I32TruncSatF32U'', ''I32TruncSatF64S'', ''I32TruncSatF64U'',
     ''I64TruncSatF32S'', ''I64TruncSatF32U'', ''I64TruncSatF64S'', ''I64TruncSatF64U'', ''MemoryInit'', ''DataDrop'',
     ''MemoryCopy'', ''MemoryFill'', ''TableInit'', ''ElemDrop'', ''TableCopy'', ''TableFill'', ''TableGet'', ''TableSet'',
     ''TableGrow'', ''TableSize'', ''AtomicNotify'', ''I32AtomicWait'', ''I64AtomicWait'', ''AtomicFence'',
     ''I32AtomicLoad'', ''I64AtomicLoad'', ''I32AtomicLoad8U'', ''I32AtomicLoad16U'', ''I64AtomicLoad8U'',
     ''I64AtomicLoad16U'', ''I64AtomicLoad32U'', ''I32AtomicStore'', ''I64AtomicStore'', ''I32AtomicStore8'',
     ''I32AtomicStore16'', ''I64AtomicStore8'', ''I64AtomicStore16'', ''I64AtomicStore32'', ''I32AtomicRmwAdd'',
     ''I64AtomicRmwAdd'', ''I32AtomicRmw8AddU'', ''I32AtomicRmw16AddU'', ''I64AtomicRmw8AddU'', ''I64AtomicRmw16AddU'',
     ''I64AtomicRmw32AddU'', ''I32AtomicRmwSub'', ''I64AtomicRmwSub'', ''I32AtomicRmw8SubU'', ''I32AtomicRmw16SubU'',
     ''I64AtomicRmw8SubU'', ''I64AtomicRmw16SubU'', ''I64AtomicRmw32SubU'', ''I32AtomicRmwAnd'', ''I64AtomicRmwAnd'',
     ''I32AtomicRmw8AndU'', ''I32AtomicRmw16AndU'', ''I64AtomicRmw8AndU'', ''I64AtomicRmw16AndU'', ''I64AtomicRmw32AndU'',
     ''I32AtomicRmwOr'', ''I64AtomicRmwOr'', ''I32AtomicRmw8OrU'', ''I32AtomicRmw16OrU'', ''I64AtomicRmw8OrU'',
     ''I64AtomicRmw16OrU'', ''I64AtomicRmw32OrU'', ''I32AtomicRmwXor'', ''I64AtomicRmwXor'', ''I32AtomicRmw8XorU'',
     ''I32AtomicRmw16XorU'', ''I64AtomicRmw8XorU'', ''I64AtomicRmw16XorU'', ''I64AtomicRmw32XorU'', ''I32AtomicRmwXchg'',
     ''I64AtomicRmwXchg'', ''I32AtomicRmw8XchgU'', ''I32AtomicRmw16XchgU'', ''I64AtomicRmw8XchgU'', ''I64AtomicRmw16XchgU'',
     ''I64AtomicRmw32XchgU'', ''I32AtomicRmwCmpxchg'', ''I64AtomicRmwCmpxchg'', ''I32AtomicRmw8CmpxchgU'',
     ''I32AtomicRmw16CmpxchgU'', ''I64AtomicRmw8CmpxchgU'', ''I64AtomicRmw16CmpxchgU'', ''I64AtomicRmw32CmpxchgU'',
     ''V128Load'', ''V128Store'', ''V128Const'', ''I8x16Splat'', ''I8x16ExtractLaneS'', ''I8x16ExtractLaneU'',
     ''I8x16ReplaceLane'', ''I16x8Splat'', ''I16x8ExtractLaneS'', ''I16x8ExtractLaneU'', ''I16x8ReplaceLane'',
     ''I32x4Splat'', ''I32x4ExtractLane'', ''I32x4ReplaceLane'', ''I64x2Splat'', ''I64x2ExtractLane'', ''I64x2ReplaceLane'',
     ''F32x4Splat'', ''F32x4ExtractLane'', ''F32x4ReplaceLane'', ''F64x2Splat'', ''F64x2ExtractLane'', ''F64x2ReplaceLane'',
     ''I8x16Eq'', ''I8x16Ne'', ''I8x16LtS'', ''I8x16LtU'', ''I8x16GtS'', ''I8x16GtU'', ''I8x16LeS'', ''I8x16LeU'',
     ''I8x16GeS'', ''I8x16GeU'', ''I16x8Eq'', ''I16x8Ne'', ''I16x8LtS'', ''I16x8LtU'', ''I16x8GtS'', ''I16x8GtU'',
     ''I16x8LeS'', ''I16x8LeU'', ''I16x8GeS'', ''I16x8GeU'', ''I32x4Eq'', ''I32x4Ne'', ''I32x4LtS'', ''I32x4LtU'',
     ''I32x4GtS'', ''I32x4GtU'', ''I32x4LeS'', ''I32x4LeU'', ''I32x4GeS'', ''I32x4GeU'', ''F32x4Eq'', ''F32x4Ne'',
     ''F32x4Lt'', ''F32x4Gt'', ''F32x4Le'', ''F32x4Ge'', ''F64x2Eq'', ''F64x2Ne'', ''F64x2Lt'', ''F64x2Gt'', ''F64x2Le'',
     ''F64x2Ge'', ''V128Not'', ''V128And'', ''V128AndNot'', ''V128Or'', ''V128Xor'', ''V128Bitselect'', ''I8x16Neg'',
     ''I8x16AnyTrue'', ''I8x16AllTrue'', ''I8x16Shl'', ''I8x16ShrS'', ''I8x16ShrU'', ''I8x16Add'', ''I8x16AddSaturateS'',
     ''I8x16AddSaturateU'', ''I8x16Sub'', ''I8x16SubSaturateS'', ''I8x16SubSaturateU'', ''I8x16MinS'', ''I8x16MinU'',
     ''I8x16MaxS'', ''I8x16MaxU'', ''I8x16Mul'', ''I16x8Neg'', ''I16x8AnyTrue'', ''I16x8AllTrue'', ''I16x8Shl'',
     ''I16x8ShrS'', ''I16x8ShrU'', ''I16x8Add'', ''I16x8AddSaturateS'', ''I16x8AddSaturateU'', ''I16x8Sub'',
     ''I16x8SubSaturateS'', ''I16x8SubSaturateU'', ''I16x8Mul'', ''I16x8MinS'', ''I16x8MinU'', ''I16x8MaxS'', ''I16x8MaxU'',
     ''I32x4Neg'', ''I32x4AnyTrue'', ''I32x4AllTrue'', ''I32x4Shl'', ''I32x4ShrS'', ''I32x4ShrU'', ''I32x4Add'',
     ''I32x4Sub'', ''I32x4Mul'', ''I32x4MinS'', ''I32x4MinU'', ''I32x4MaxS'', ''I32x4MaxU'', ''I64x2Neg'', ''I64x2AnyTrue'',
     ''I64x2AllTrue'', ''I64x2Shl'', ''I64x2ShrS'', ''I64x2ShrU'', ''I64x2Add'', ''I64x2Sub'', ''I64x2Mul'', ''F32x4Abs'',
     ''F32x4Neg'', ''F32x4Sqrt'', ''F32x4Add'', ''F32x4Sub'', ''F32x4Mul'', ''F32x4Div'', ''F32x4Min'', ''F32x4Max'',
     ''F64x2Abs'', ''F64x2Neg'', ''F64x2Sqrt'', ''F64x2Add'', ''F64x2Sub'', ''F64x2Mul'', ''F64x2Div'', ''F64x2Min'',
     ''F64x2Max'', ''I32x4TruncSatF32x4S'', ''I32x4TruncSatF32x4U'', ''I64x2TruncSatF64x2S'', ''I64x2TruncSatF64x2U'',
     ''F32x4ConvertI32x4S'', ''F32x4ConvertI32x4U'', ''F64x2ConvertI64x2S'', ''F64x2ConvertI64x2U'', ''V8x16Swizzle'',
     ''V8x16Shuffle'', ''V8x16LoadSplat'', ''V16x8LoadSplat'', ''V32x4LoadSplat'', ''V64x2LoadSplat'',
     ''I8x16NarrowI16x8S'', ''I8x16NarrowI16x8U'', ''I16x8NarrowI32x4S'', ''I16x8NarrowI32x4U'', ''I16x8WidenLowI8x16S'',
     ''I16x8WidenHighI8x16S'', ''I16x8WidenLowI8x16U'', ''I16x8WidenHighI8x16U'', ''I32x4WidenLowI16x8S'',
     ''I32x4WidenHighI16x8S'', ''I32x4WidenLowI16x8U'', ''I32x4WidenHighI16x8U'', ''I16x8Load8x8S'', ''I16x8Load8x8U'',
     ''I32x4Load16x4S'', ''I32x4Load16x4U'', ''I64x2Load32x2S'', ''I64x2Load32x2U'', ''I8x16RoundingAverageU'',
     ''I16x8RoundingAverageU'', ''LocalAllocate'', ''LocalsUnmetered'']"

record GasConfig =
  \<comment> \<open>the struct \<open>GasCost\<close>\<close>
  cfg_BaseOperationCost :: costs
  cfg_BigIntAPICost :: costs
  cfg_EthAPICost :: costs
  cfg_BaseOpsAPICost :: costs
  cfg_CryptoAPICost :: costs
  cfg_WASMOpcodeCost :: costs

subsection \<open>The opcode table\<close>

definition opcodes :: "string list" where
  \<comment> \<open>the constants \<open>Opcode...\<close> of \<open>src/wasmer/opcodes.go\<close>, numbered from 0 by \<open>iota\<close>\<close>
  "opcodes = [
     ''Unreachable'', ''Nop'', ''Block'', ''Loop'', ''If'', ''Else'', ''End'', ''Br'', ''BrIf'', ''BrTable'', ''Return'',
     ''Call'', ''CallIndirect'', ''Drop'', ''Select'', ''TypedSelect'', ''LocalGet'', ''LocalSet'', ''LocalTee'',
     ''GlobalGet'', ''GlobalSet'', ''I32Load'', ''I64Load'', ''F32Load'', ''F64Load'', ''I32Load8S'', ''I32Load8U'',
     ''I32Load16S'', ''I32Load16U'', ''I64Load8S'', ''I64Load8U'', ''I64Load16S'', ''I64Load16U'', ''I64Load32S'',
     ''I64Load32U'', ''I32Store'', ''I64Store'', ''F32Store'', ''F64Store'', ''I32Store8'', ''I32Store16'', ''I64Store8'',
     ''I64Store16'', ''I64Store32'', ''MemorySize'', ''MemoryGrow'', ''I32Const'', ''I64Const'', ''F32Const'', ''F64Const'',
     ''RefNull'', ''RefIsNull'', ''RefFunc'', ''I32Eqz'', ''I32Eq'', ''I32Ne'', ''I32LtS'', ''I32LtU'', ''I32GtS'',
     ''I32GtU'', ''I32LeS'', ''I32LeU'', ''I32GeS'', ''I32GeU'', ''I64Eqz'', ''I64Eq'', ''I64Ne'', ''I64LtS'', ''I64LtU'',
     ''I64GtS'', ''I64GtU'', ''I64LeS'', ''I64LeU'', ''I64GeS'', ''I64GeU'', ''F32Eq'', ''F32Ne'', ''F32Lt'', ''F32Gt'',
     ''F32Le'', ''F32Ge'', ''F64Eq'', ''F64Ne'', ''F64Lt'', ''F64Gt'', ''F64Le'', ''F64Ge'', ''I32Clz'', ''I32Ctz'',
     ''I32Popcnt'', ''I32Add'', ''I32Sub'', ''I32Mul'', ''I32DivS'', ''I32DivU'', ''I32RemS'', ''I32RemU'', ''I32And'',
     ''I32Or'', ''I32Xor'', ''I32Shl'', ''I32ShrS'', ''I32ShrU'', ''I32Rotl'', ''I32Rotr'', ''I64Clz'', ''I64Ctz'',
     ''I64Popcnt'', ''I64Add'', ''I64Sub'', ''I64Mul'', ''I64DivS'', ''I64DivU'', ''I64RemS'', ''I64RemU'', ''I64And'',
     ''I64Or'', ''I64Xor'', ''I64Shl'', ''I64ShrS'', ''I64ShrU'', ''I64Rotl'', ''I64Rotr'', ''F32Abs'', ''F32Neg'',
     ''F32Ceil'', ''F32Floor'', ''F32Trunc'', ''F32Nearest'', ''F32Sqrt'', ''F32Add'', ''F32Sub'', ''F32Mul'', ''F32Div'',
     ''F32Min'', ''F32Max'', ''F32Copysign'', ''F64Abs'', ''F64Neg'', ''F64Ceil'', ''F64Floor'', ''F64Trunc'',
     ''F64Nearest'', ''F64Sqrt'', ''F64Add'', ''F64Sub'', ''F64Mul'', ''F64Div'', ''F64Min'', ''F64Max'', ''F64Copysign'',
     ''I32WrapI64'', ''I32TruncF32S'', ''I32TruncF32U'', ''I32TruncF64S'', ''I32TruncF64U'', ''I64ExtendI32S'',
     ''I64ExtendI32U'', ''I64TruncF32S'', ''I64TruncF32U'', ''I64TruncF64S'', ''I64TruncF64U'', ''F32ConvertI32S'',
     ''F32ConvertI32U'', ''F32ConvertI64S'', ''F32ConvertI64U'', ''F32DemoteF64'', ''F64ConvertI32S'', ''F64ConvertI32U'',
     ''F64ConvertI64S'', ''F64ConvertI64U'', ''F64PromoteF32'', ''I32ReinterpretF32'', ''I64ReinterpretF64'',
     ''F32ReinterpretI32'', ''F64ReinterpretI64'', ''I32Extend8S'', ''I32Extend16S'', ''I64Extend8S'', ''I64Extend16S'',
     ''I64Extend32S'', ''I32TruncSatF32S'', ''I32TruncSatF32U'', ''I32TruncSatF64S'', ''I32TruncSatF64U'',
     ''I64TruncSatF32S'', ''I64TruncSatF32U'', ''I64TruncSatF64S'', ''I64TruncSatF64U'', ''MemoryInit'', ''DataDrop'',
     ''MemoryCopy'', ''MemoryFill'', ''TableInit'', ''ElemDrop'', ''TableCopy'', ''TableFill'', ''TableGet'', ''TableSet'',
     ''TableGrow'', ''TableSize'', ''AtomicNotify'', ''I32AtomicWait'', ''I64AtomicWait'', ''AtomicFence'',
     ''I32AtomicLoad'', ''I64AtomicLoad'', ''I32AtomicLoad8U'', ''I32AtomicLoad16U'', ''I64AtomicLoad8U'',
     ''I64AtomicLoad16U'', ''I64AtomicLoad32U'', ''I32AtomicStore'', ''I64AtomicStore'', ''I32AtomicStore8'',
     ''I32AtomicStore16'', ''I64AtomicStore8'', ''I64AtomicStore16'', ''I64AtomicStore32'', ''I32AtomicRmwAdd'',
     ''I64AtomicRmwAdd'', ''I32AtomicRmw8AddU'', ''I32AtomicRmw16AddU'', ''I64AtomicRmw8AddU'', ''I64AtomicRmw16AddU'',
     ''I64AtomicRmw32AddU'', ''I32AtomicRmwSub'', ''I64AtomicRmwSub'', ''I32AtomicRmw8SubU'', ''I32AtomicRmw16SubU'',
     ''I64AtomicRmw8SubU'', ''I64AtomicRmw16SubU'', ''I64AtomicRmw32SubU'', ''I32AtomicRmwAnd'', ''I64AtomicRmwAnd'',
     ''I32AtomicRmw8AndU'', ''I32AtomicRmw16AndU'', ''I64AtomicRmw8AndU'', ''I64AtomicRmw16AndU'', ''I64AtomicRmw32AndU'',
     ''I32AtomicRmwOr'', ''I64AtomicRmwOr'', ''I32AtomicRmw8OrU'', ''I32AtomicRmw16OrU'', ''I64AtomicRmw8OrU'',
     ''I64AtomicRmw16OrU'', ''I64AtomicRmw32OrU'', ''I32AtomicRmwXor'', ''I64AtomicRmwXor'', ''I32AtomicRmw8XorU'',
     ''I32AtomicRmw16XorU'', ''I64AtomicRmw8XorU'', ''I64AtomicRmw16XorU'', ''I64AtomicRmw32XorU'', ''I32AtomicRmwXchg'',
     ''I64AtomicRmwXchg'', ''I32AtomicRmw8XchgU'', ''I32AtomicRmw16XchgU'', ''I64AtomicRmw8XchgU'', ''I64AtomicRmw16XchgU'',
     ''I64AtomicRmw32XchgU'', ''I32AtomicRmwCmpxchg'', ''I64AtomicRmwCmpxchg'', ''I32AtomicRmw8CmpxchgU'',
     ''I32AtomicRmw16CmpxchgU'', ''I64AtomicRmw8CmpxchgU'', ''I64AtomicRmw16CmpxchgU'', ''I64AtomicRmw32CmpxchgU'',
     ''V128Load'', ''V128Store'', ''V128Const'', ''I8x16Splat'', ''I8x16ExtractLaneS'', ''I8x16ExtractLaneU'',
     ''I8x16ReplaceLane'', ''I16x8Splat'', ''I16x8ExtractLaneS'', ''I16x8ExtractLaneU'', ''I16x8ReplaceLane'',
     ''I32x4Splat'', ''I32x4ExtractLane'', ''I32x4ReplaceLane'', ''I64x2Splat'', ''I64x2ExtractLane'', ''I64x2ReplaceLane'',
     ''F32x4Splat'', ''F32x4ExtractLane'', ''F32x4ReplaceLane'', ''F64x2Splat'', ''F64x2ExtractLane'', ''F64x2ReplaceLane'',
     ''I8x16Eq'', ''I8x16Ne'', ''I8x16LtS'', ''I8x16LtU'', ''I8x16GtS'', ''I8x16GtU'', ''I8x16LeS'', ''I8x16LeU'',
     ''I8x16GeS'', ''I8x16GeU'', ''I16x8Eq'', ''I16x8Ne'', ''I16x8LtS'', ''I16x8LtU'', ''I16x8GtS'', ''I16x8GtU'',
     ''I16x8LeS'', ''I16x8LeU'', ''I16x8GeS'', ''I16x8GeU'', ''I32x4Eq'', ''I32x4Ne'', ''I32x4LtS'', ''I32x4LtU'',
     ''I32x4GtS'', ''I32x4GtU'', ''I32x4LeS'', ''I32x4LeU'', ''I32x4GeS'', ''I32x4GeU'', ''F32x4Eq'', ''F32x4Ne'',
     ''F32x4Lt'', ''F32x4Gt'', ''F32x4Le'', ''F32x4Ge'', ''F64x2Eq'', ''F64x2Ne'', ''F64x2Lt'', ''F64x2Gt'', ''F64x2Le'',
     ''F64x2Ge'', ''V128Not'', ''V128And'', ''V128AndNot'', ''V128Or'', ''V128Xor'', ''V128Bitselect'', ''I8x16Neg'',
     ''I8x16AnyTrue'', ''I8x16AllTrue'', ''I8x16Shl'', ''I8x16ShrS'', ''I8x16ShrU'', ''I8x16Add'', ''I8x16AddSaturateS'',
     ''I8x16AddSaturateU'', ''I8x16Sub'', ''I8x16SubSaturateS'', ''I8x16SubSaturateU'', ''I8x16MinS'', ''I8x16MinU'',
     ''I8x16MaxS'', ''I8x16MaxU'', ''I8x16Mul'', ''I16x8Neg'', ''I16x8AnyTrue'', ''I16x8AllTrue'', ''I16x8Shl'',
     ''I16x8ShrS'', ''I16x8ShrU'', ''I16x8Add'', ''I16x8AddSaturateS'', ''I16x8AddSaturateU'', ''I16x8Sub'',
     ''I16x8SubSaturateS'', ''I16x8SubSaturateU'', ''I16x8Mul'', ''I16x8MinS'', ''I16x8MinU'', ''I16x8MaxS'', ''I16x8MaxU'',
     ''I32x4Neg'', ''I32x4AnyTrue'', ''I32x4AllTrue'', ''I32x4Shl'', ''I32x4ShrS'', ''I32x4ShrU'', ''I32x4Add'',
     ''I32x4Sub'', ''I32x4Mul'', ''I32x4MinS'', ''I32x4MinU'', ''I32x4MaxS'', ''I32x4MaxU'', ''I64x2Neg'', ''I64x2AnyTrue'',
     ''I64x2AllTrue'', ''I64x2Shl'', ''I64x2ShrS'', ''I64x2ShrU'', ''I64x2Add'', ''I64x2Sub'', ''I64x2Mul'', ''F32x4Abs'',
     ''F32x4Neg'', ''F32x4Sqrt'', ''F32x4Add'', ''F32x4Sub'', ''F32x4Mul'', ''F32x4Div'', ''F32x4Min'', ''F32x4Max'',
     ''F64x2Abs'', ''F64x2Neg'', ''F64x2Sqrt'', ''F64x2Add'', ''F64x2Sub'', ''F64x2Mul'', ''F64x2Div'', ''F64x2Min'',
     ''F64x2Max'', ''I32x4TruncSatF32x4S'', ''I32x4TruncSatF32x4U'', ''I64x2TruncSatF64x2S'', ''I64x2TruncSatF64x2U'',
     ''F32x4ConvertI32x4S'', ''F32x4ConvertI32x4U'', ''F64x2ConvertI64x2S'', ''F64x2ConvertI64x2U'', ''V8x16Swizzle'',
     ''V8x16Shuffle'', ''V8x16LoadSplat'', ''V16x8LoadSplat'', ''V32x4LoadSplat'', ''V64x2LoadSplat'',
     ''I8x16NarrowI16x8S'', ''I8x16NarrowI16x8U'', ''I16x8NarrowI32x4S'', ''I16x8NarrowI32x4U'', ''I16x8WidenLowI8x16S'',
     ''I16x8WidenHighI8x16S'', ''I16x8WidenLowI8x16U'', ''I16x8WidenHighI8x16U'', ''I32x4WidenLowI16x8S'',
     ''I32x4WidenHighI16x8S'', ''I32x4WidenLowI16x8U'', ''I32x4WidenHighI16x8U'', ''I16x8Load8x8S'', ''I16x8Load8x8U'',
     ''I32x4Load16x4S'', ''I32x4Load16x4U'', ''I64x2Load32x2S'', ''I64x2Load32x2U'', ''I8x16RoundingAverageU'',
     ''I16x8RoundingAverageU'', ''LocalAllocate'']"

definition cost :: "costs \<Rightarrow> string \<Rightarrow> u64" where
  "cost c name = (case go_get c name of None \<Rightarrow> 0 | Some v \<Rightarrow> v)"

definition OPCODE_COUNT :: nat where "OPCODE_COUNT = 448"

definition ToOpcodeCostsArray :: "costs \<Rightarrow> u32 list" where
  \<comment> \<open>one assignment per opcode, from the field of the same name\<close>
  "ToOpcodeCostsArray opcode_costs_struct =
     foldl (\<lambda>opcode_costs (opcode, field). opcode_costs[opcode := ucast (cost opcode_costs_struct field)])
       (replicate OPCODE_COUNT 0) (enumerate 0 opcodes)"

subsection \<open>Decoding\<close>

fun checkForZeroUint64Fields :: "costs \<Rightarrow> err option" where
  "checkForZeroUint64Fields [] = None"
| "checkForZeroUint64Fields ((name, v) # c) =
     (if v = 0 then Some (ErrPlain (''Gas cost for operation '' @ name @ '' has been set to 0 or is not set.''))
      else checkForZeroUint64Fields c)"

definition sectionOf :: "GasScheduleMap \<Rightarrow> string \<Rightarrow> gasSection" where
  \<comment> \<open>\<open>gasMap[name]\<close>, a nil map when it is absent\<close>
  "sectionOf gasMap name = (case go_get gasMap name of None \<Rightarrow> [] | Some m \<Rightarrow> m)"

definition decodeSection :: "decoder \<Rightarrow> GasScheduleMap \<Rightarrow> string \<Rightarrow> string list \<Rightarrow> u64 \<Rightarrow> (costs \<Rightarrow> err + 'a) \<Rightarrow> err + 'a" where
  \<comment> \<open>the two steps \<open>CreateGasConfig\<close> repeats for every struct\<close>
  "decodeSection Decode gasMap name struct maxValue k =
     (case Decode struct maxValue (sectionOf gasMap name) of
        Inl err \<Rightarrow> Inl err
      | Inr c \<Rightarrow> (case checkForZeroUint64Fields c of Some err \<Rightarrow> Inl err | None \<Rightarrow> k c))"

definition MaxUint32 :: u64 where "MaxUint32 = 2 ^ 32 - 1"

definition CreateGasConfig :: "decoder \<Rightarrow> GasScheduleMap \<Rightarrow> err + GasConfig" where
  "CreateGasConfig Decode gasMap =
     decodeSection Decode gasMap ''BaseOperationCost'' BaseOperationCost_fields MaxUint64 (\<lambda>baseOps.
     decodeSection Decode gasMap ''BaseOpsAPICost'' BaseOpsAPICost_fields MaxUint64 (\<lambda>baseOpsAPI.
     decodeSection Decode gasMap ''BigIntAPICost'' BigIntAPICost_fields MaxUint64 (\<lambda>bigIntOps.
     decodeSection Decode gasMap ''EthAPICost'' EthAPICost_fields MaxUint64 (\<lambda>ethOps.
     decodeSection Decode gasMap ''CryptoAPICost'' CryptoAPICost_fields MaxUint64 (\<lambda>cryptOps.
     decodeSection Decode gasMap ''WASMOpcodeCost'' WASMOpcodeCost_fields MaxUint32 (\<lambda>opcodeCosts.
     Inr \<lparr>cfg_BaseOperationCost = baseOps, cfg_BigIntAPICost = bigIntOps, cfg_EthAPICost = ethOps,
       cfg_BaseOpsAPICost = baseOpsAPI, cfg_CryptoAPICost = cryptOps, cfg_WASMOpcodeCost = opcodeCosts\<rparr>))))))"

subsection \<open>Maps with the same cost everywhere\<close>

definition FillGasMap_BuiltInCosts :: "u64 \<Rightarrow> gasSection" where
  "FillGasMap_BuiltInCosts value = map (\<lambda>name. (name, value)) [
     ''ChangeOwnerAddress'', ''ClaimDeveloperRewards'', ''SaveUserName'', ''SaveKeyValue'', ''DCDTTransfer'', ''DCDTBurn'',
     ''DCDTLocalMint'', ''DCDTLocalBurn'', ''DCDTNFTCreate'', ''DCDTNFTAddQuantity'', ''DCDTNFTBurn'', ''DCDTNFTTransfer'',
     ''DCDTNFTChangeCreateOwner'', ''DCDTNFTAddUri'', ''DCDTNFTUpdateAttributes'', ''DCDTNFTMultiTransfer'',
     ''DCDTModifyRoyalties'', ''DCDTModifyCreator'', ''DCDTNFTRecreate'', ''DCDTNFTUpdate'', ''DCDTNFTSetNewURIs'',
     ''SetGuardian'', ''GuardAccount'', ''UnGuardAccount'', ''TrieLoadPerNode'', ''TrieStorePerNode'']"

definition FillGasMap_BaseOperationCosts :: "u64 \<Rightarrow> gasSection" where
  "FillGasMap_BaseOperationCosts value = map (\<lambda>name. (name, value)) [
     ''StorePerByte'', ''DataCopyPerByte'', ''ReleasePerByte'', ''PersistPerByte'', ''CompilePerByte'',
     ''AoTPreparePerByte'', ''GetCode'']"

definition FillGasMap_BaseOpsAPICosts :: "u64 \<Rightarrow> u64 \<Rightarrow> gasSection" where
  "FillGasMap_BaseOpsAPICosts value asyncCallbackGasLock = [
     (''GetSCAddress'', value), (''GetOwnerAddress'', value), (''IsSmartContract'', value), (''GetShardOfAddress'', value),
     (''GetExternalBalance'', value), (''GetBlockHash'', value), (''TransferValue'', value), (''GetArgument'', value),
     (''GetFunction'', value), (''GetNumArguments'', value), (''StorageStore'', value), (''StorageLoad'', value),
     (''GetCaller'', value), (''GetCallValue'', value), (''Log'', value), (''Finish'', value), (''SignalError'', value),
     (''GetBlockTimeStamp'', value), (''GetGasLeft'', value), (''Int64GetArgument'', value), (''Int64StorageStore'', value),
     (''Int64StorageLoad'', value), (''Int64Finish'', value), (''GetStateRootHash'', value), (''GetBlockNonce'', value),
     (''GetBlockEpoch'', value), (''GetBlockRound'', value), (''GetBlockRandomSeed'', value),
     (''ExecuteOnSameContext'', value), (''ExecuteOnDestContext'', value), (''DelegateExecution'', value),
     (''ExecuteReadOnly'', value), (''AsyncCallStep'', value), (''AsyncCallbackGasLock'', asyncCallbackGasLock),
     (''CreateContract'', value), (''GetReturnData'', value), (''GetNumReturnData'', value), (''GetReturnDataSize'', value)]"

definition FillGasMap_EthereumAPICosts :: "u64 \<Rightarrow> gasSection" where
  "FillGasMap_EthereumAPICosts value = map (\<lambda>name. (name, value)) [
     ''UseGas'', ''GetAddress'', ''GetExternalBalance'', ''GetBlockHash'', ''Call'', ''CallDataCopy'', ''GetCallDataSize'',
     ''CallCode'', ''CallDelegate'', ''CallStatic'', ''StorageStore'', ''StorageLoad'', ''GetCaller'', ''GetCallValue'',
     ''CodeCopy'', ''GetCodeSize'', ''GetBlockCoinbase'', ''Create'', ''GetBlockDifficulty'', ''ExternalCodeCopy'',
     ''GetExternalCodeSize'', ''GetGasLeft'', ''GetBlockGasLimit'', ''GetTxGasPrice'', ''Log'', ''GetBlockNumber'',
     ''GetTxOrigin'', ''Finish'', ''Revert'', ''GetReturnDataSize'', ''ReturnDataCopy'', ''SelfDestruct'',
     ''GetBlockTimeStamp'']"

definition FillGasMap_BigIntAPICosts :: "u64 \<Rightarrow> gasSection" where
  "FillGasMap_BigIntAPICosts value = map (\<lambda>name. (name, value)) [
     ''BigIntNew'', ''BigIntUnsignedByteLength'', ''BigIntSignedByteLength'', ''BigIntGetUnsignedBytes'',
     ''BigIntGetSignedBytes'', ''BigIntSetUnsignedBytes'', ''BigIntSetSignedBytes'', ''BigIntIsInt64'', ''BigIntGetInt64'',
     ''BigIntSetInt64'', ''BigIntAdd'', ''BigIntSub'', ''BigIntMul'', ''BigIntTDiv'', ''BigIntTMod'', ''BigIntEDiv'',
     ''BigIntEMod'', ''BigIntAbs'', ''BigIntNeg'', ''BigIntSign'', ''BigIntCmp'', ''BigIntNot'', ''BigIntAnd'',
     ''BigIntOr'', ''BigIntXor'', ''BigIntShr'', ''BigIntShl'', ''BigIntFinishUnsigned'', ''BigIntFinishSigned'',
     ''BigIntStorageLoadUnsigned'', ''BigIntStorageStoreUnsigned'', ''BigIntGetUnsignedArgument'',
     ''BigIntGetSignedArgument'', ''BigIntGetCallValue'', ''BigIntGetExternalBalance'']"

definition FillGasMap_CryptoAPICosts :: "u64 \<Rightarrow> gasSection" where
  "FillGasMap_CryptoAPICosts value = map (\<lambda>name. (name, value)) [
     ''SHA256'', ''Keccak256'', ''Ripemd160'', ''VerifyBLS'', ''VerifyEd25519'', ''VerifySecp256k1'']"

definition FillGasMap_WASMOpcodeValues :: "u64 \<Rightarrow> gasSection" where
  "FillGasMap_WASMOpcodeValues value = map (\<lambda>name. (name, value)) [
     ''Unreachable'', ''Nop'', ''Block'', ''Loop'', ''If'', ''Else'', ''End'', ''Br'', ''BrIf'', ''BrTable'', ''Return'',
     ''Call'', ''CallIndirect'', ''Drop'', ''Select'', ''TypedSelect'', ''LocalGet'', ''LocalSet'', ''LocalTee'',
     ''GlobalGet'', ''GlobalSet'', ''I32Load'', ''I64Load'', ''F32Load'', ''F64Load'', ''I32Load8S'', ''I32Load8U'',
     ''I32Load16S'', ''I32Load16U'', ''I64Load8S'', ''I64Load8U'', ''I64Load16S'', ''I64Load16U'', ''I64Load32S'',
     ''I64Load32U'', ''I32Store'', ''I64Store'', ''F32Store'', ''F64Store'', ''I32Store8'', ''I32Store16'', ''I64Store8'',
     ''I64Store16'', ''I64Store32'', ''MemorySize'', ''MemoryGrow'', ''I32Const'', ''I64Const'', ''F32Const'', ''F64Const'',
     ''RefNull'', ''RefIsNull'', ''RefFunc'', ''I32Eqz'', ''I32Eq'', ''I32Ne'', ''I32LtS'', ''I32LtU'', ''I32GtS'',
     ''I32GtU'', ''I32LeS'', ''I32LeU'', ''I32GeS'', ''I32GeU'', ''I64Eqz'', ''I64Eq'', ''I64Ne'', ''I64LtS'', ''I64LtU'',
     ''I64GtS'', ''I64GtU'', ''I64LeS'', ''I64LeU'', ''I64GeS'', ''I64GeU'', ''F32Eq'', ''F32Ne'', ''F32Lt'', ''F32Gt'',
     ''F32Le'', ''F32Ge'', ''F64Eq'', ''F64Ne'', ''F64Lt'', ''F64Gt'', ''F64Le'', ''F64Ge'', ''I32Clz'', ''I32Ctz'',
     ''I32Popcnt'', ''I32Add'', ''I32Sub'', ''I32Mul'', ''I32DivS'', ''I32DivU'', ''I32RemS'', ''I32RemU'', ''I32And'',
     ''I32Or'', ''I32Xor'', ''I32Shl'', ''I32ShrS'', ''I32ShrU'', ''I32Rotl'', ''I32Rotr'', ''I64Clz'', ''I64Ctz'',
     ''I64Popcnt'', ''I64Add'', ''I64Sub'', ''I64Mul'', ''I64DivS'', ''I64DivU'', ''I64RemS'', ''I64RemU'', ''I64And'',
     ''I64Or'', ''I64Xor'', ''I64Shl'', ''I64ShrS'', ''I64ShrU'', ''I64Rotl'', ''I64Rotr'', ''F32Abs'', ''F32Neg'',
     ''F32Ceil'', ''F32Floor'', ''F32Trunc'', ''F32Nearest'', ''F32Sqrt'', ''F32Add'', ''F32Sub'', ''F32Mul'', ''F32Div'',
     ''F32Min'', ''F32Max'', ''F32Copysign'', ''F64Abs'', ''F64Neg'', ''F64Ceil'', ''F64Floor'', ''F64Trunc'',
     ''F64Nearest'', ''F64Sqrt'', ''F64Add'', ''F64Sub'', ''F64Mul'', ''F64Div'', ''F64Min'', ''F64Max'', ''F64Copysign'',
     ''I32WrapI64'', ''I32TruncF32S'', ''I32TruncF32U'', ''I32TruncF64S'', ''I32TruncF64U'', ''I64ExtendI32S'',
     ''I64ExtendI32U'', ''I64TruncF32S'', ''I64TruncF32U'', ''I64TruncF64S'', ''I64TruncF64U'', ''F32ConvertI32S'',
     ''F32ConvertI32U'', ''F32ConvertI64S'', ''F32ConvertI64U'', ''F32DemoteF64'', ''F64ConvertI32S'', ''F64ConvertI32U'',
     ''F64ConvertI64S'', ''F64ConvertI64U'', ''F64PromoteF32'', ''I32ReinterpretF32'', ''I64ReinterpretF64'',
     ''F32ReinterpretI32'', ''F64ReinterpretI64'', ''I32Extend8S'', ''I32Extend16S'', ''I64Extend8S'', ''I64Extend16S'',
     ''I64Extend32S'', ''I32TruncSatF32S'', ''I32TruncSatF32U'', ''I32TruncSatF64S'', ''I32TruncSatF64U'',
     ''I64TruncSatF32S'', ''I64TruncSatF32U'', ''I64TruncSatF64S'', ''I64TruncSatF64U'', ''MemoryInit'', ''DataDrop'',
     ''MemoryCopy'', ''MemoryFill'', ''TableInit'', ''ElemDrop'', ''TableCopy'', ''TableFill'', ''TableGet'', ''TableSet'',
     ''TableGrow'', ''TableSize'', ''AtomicNotify'', ''I32AtomicWait'', ''I64AtomicWait'', ''AtomicFence'',
     ''I32AtomicLoad'', ''I64AtomicLoad'', ''I32AtomicLoad8U'', ''I32AtomicLoad16U'', ''I64AtomicLoad8U'',
     ''I64AtomicLoad16U'', ''I64AtomicLoad32U'', ''I32AtomicStore'', ''I64AtomicStore'', ''I32AtomicStore8'',
     ''I32AtomicStore16'', ''I64AtomicStore8'', ''I64AtomicStore16'', ''I64AtomicStore32'', ''I32AtomicRmwAdd'',
     ''I64AtomicRmwAdd'', ''I32AtomicRmw8AddU'', ''I32AtomicRmw16AddU'', ''I64AtomicRmw8AddU'', ''I64AtomicRmw16AddU'',
     ''I64AtomicRmw32AddU'', ''I32AtomicRmwSub'', ''I64AtomicRmwSub'', ''I32AtomicRmw8SubU'', ''I32AtomicRmw16SubU'',
     ''I64AtomicRmw8SubU'', ''I64AtomicRmw16SubU'', ''I64AtomicRmw32SubU'', ''I32AtomicRmwAnd'', ''I64AtomicRmwAnd'',
     ''I32AtomicRmw8AndU'', ''I32AtomicRmw16AndU'', ''I64AtomicRmw8AndU'', ''I64AtomicRmw16AndU'', ''I64AtomicRmw32AndU'',
     ''I32AtomicRmwOr'', ''I64AtomicRmwOr'', ''I32AtomicRmw8OrU'', ''I32AtomicRmw16OrU'', ''I64AtomicRmw8OrU'',
     ''I64AtomicRmw16OrU'', ''I64AtomicRmw32OrU'', ''I32AtomicRmwXor'', ''I64AtomicRmwXor'', ''I32AtomicRmw8XorU'',
     ''I32AtomicRmw16XorU'', ''I64AtomicRmw8XorU'', ''I64AtomicRmw16XorU'', ''I64AtomicRmw32XorU'', ''I32AtomicRmwXchg'',
     ''I64AtomicRmwXchg'', ''I32AtomicRmw8XchgU'', ''I32AtomicRmw16XchgU'', ''I64AtomicRmw8XchgU'', ''I64AtomicRmw16XchgU'',
     ''I64AtomicRmw32XchgU'', ''I32AtomicRmwCmpxchg'', ''I64AtomicRmwCmpxchg'', ''I32AtomicRmw8CmpxchgU'',
     ''I32AtomicRmw16CmpxchgU'', ''I64AtomicRmw8CmpxchgU'', ''I64AtomicRmw16CmpxchgU'', ''I64AtomicRmw32CmpxchgU'',
     ''V128Load'', ''V128Store'', ''V128Const'', ''I8x16Splat'', ''I8x16ExtractLaneS'', ''I8x16ExtractLaneU'',
     ''I8x16ReplaceLane'', ''I16x8Splat'', ''I16x8ExtractLaneS'', ''I16x8ExtractLaneU'', ''I16x8ReplaceLane'',
     ''I32x4Splat'', ''I32x4ExtractLane'', ''I32x4ReplaceLane'', ''I64x2Splat'', ''I64x2ExtractLane'', ''I64x2ReplaceLane'',
     ''F32x4Splat'', ''F32x4ExtractLane'', ''F32x4ReplaceLane'', ''F64x2Splat'', ''F64x2ExtractLane'', ''F64x2ReplaceLane'',
     ''I8x16Eq'', ''I8x16Ne'', ''I8x16LtS'', ''I8x16LtU'', ''I8x16GtS'', ''I8x16GtU'', ''I8x16LeS'', ''I8x16LeU'',
     ''I8x16GeS'', ''I8x16GeU'', ''I16x8Eq'', ''I16x8Ne'', ''I16x8LtS'', ''I16x8LtU'', ''I16x8GtS'', ''I16x8GtU'',
     ''I16x8LeS'', ''I16x8LeU'', ''I16x8GeS'', ''I16x8GeU'', ''I32x4Eq'', ''I32x4Ne'', ''I32x4LtS'', ''I32x4LtU'',
     ''I32x4GtS'', ''I32x4GtU'', ''I32x4LeS'', ''I32x4LeU'', ''I32x4GeS'', ''I32x4GeU'', ''F32x4Eq'', ''F32x4Ne'',
     ''F32x4Lt'', ''F32x4Gt'', ''F32x4Le'', ''F32x4Ge'', ''F64x2Eq'', ''F64x2Ne'', ''F64x2Lt'', ''F64x2Gt'', ''F64x2Le'',
     ''F64x2Ge'', ''V128Not'', ''V128And'', ''V128AndNot'', ''V128Or'', ''V128Xor'', ''V128Bitselect'', ''I8x16Neg'',
     ''I8x16AnyTrue'', ''I8x16AllTrue'', ''I8x16Shl'', ''I8x16ShrS'', ''I8x16ShrU'', ''I8x16Add'', ''I8x16AddSaturateS'',
     ''I8x16AddSaturateU'', ''I8x16Sub'', ''I8x16SubSaturateS'', ''I8x16SubSaturateU'', ''I8x16MinS'', ''I8x16MinU'',
     ''I8x16MaxS'', ''I8x16MaxU'', ''I8x16Mul'', ''I16x8Neg'', ''I16x8AnyTrue'', ''I16x8AllTrue'', ''I16x8Shl'',
     ''I16x8ShrS'', ''I16x8ShrU'', ''I16x8Add'', ''I16x8AddSaturateS'', ''I16x8AddSaturateU'', ''I16x8Sub'',
     ''I16x8SubSaturateS'', ''I16x8SubSaturateU'', ''I16x8Mul'', ''I16x8MinS'', ''I16x8MinU'', ''I16x8MaxS'', ''I16x8MaxU'',
     ''I32x4Neg'', ''I32x4AnyTrue'', ''I32x4AllTrue'', ''I32x4Shl'', ''I32x4ShrS'', ''I32x4ShrU'', ''I32x4Add'',
     ''I32x4Sub'', ''I32x4Mul'', ''I32x4MinS'', ''I32x4MinU'', ''I32x4MaxS'', ''I32x4MaxU'', ''I64x2Neg'', ''I64x2AnyTrue'',
     ''I64x2AllTrue'', ''I64x2Shl'', ''I64x2ShrS'', ''I64x2ShrU'', ''I64x2Add'', ''I64x2Sub'', ''I64x2Mul'', ''F32x4Abs'',
     ''F32x4Neg'', ''F32x4Sqrt'', ''F32x4Add'', ''F32x4Sub'', ''F32x4Mul'', ''F32x4Div'', ''F32x4Min'', ''F32x4Max'',
     ''F64x2Abs'', ''F64x2Neg'', ''F64x2Sqrt'', ''F64x2Add'', ''F64x2Sub'', ''F64x2Mul'', ''F64x2Div'', ''F64x2Min'',
     ''F64x2Max'', ''I32x4TruncSatF32x4S'', ''I32x4TruncSatF32x4U'', ''I64x2TruncSatF64x2S'', ''I64x2TruncSatF64x2U'',
     ''F32x4ConvertI32x4S'', ''F32x4ConvertI32x4U'', ''F64x2ConvertI64x2S'', ''F64x2ConvertI64x2U'', ''V8x16Swizzle'',
     ''V8x16Shuffle'', ''V8x16LoadSplat'', ''V16x8LoadSplat'', ''V32x4LoadSplat'', ''V64x2LoadSplat'',
     ''I8x16NarrowI16x8S'', ''I8x16NarrowI16x8U'', ''I16x8NarrowI32x4S'', ''I16x8NarrowI32x4U'', ''I16x8WidenLowI8x16S'',
     ''I16x8WidenHighI8x16S'', ''I16x8WidenLowI8x16U'', ''I16x8WidenHighI8x16U'', ''I32x4WidenLowI16x8S'',
     ''I32x4WidenHighI16x8S'', ''I32x4WidenLowI16x8U'', ''I32x4WidenHighI16x8U'', ''I16x8Load8x8S'', ''I16x8Load8x8U'',
     ''I32x4Load16x4S'', ''I32x4Load16x4U'', ''I64x2Load32x2S'', ''I64x2Load32x2U'', ''I8x16RoundingAverageU'',
     ''I16x8RoundingAverageU'', ''LocalAllocate''] @ [(''LocalsUnmetered'', 100)]"

definition FillGasMap :: "GasScheduleMap \<Rightarrow> u64 \<Rightarrow> u64 \<Rightarrow> GasScheduleMap" where
  "FillGasMap gasMap value asyncCallbackGasLock =
     foldl (\<lambda>m (name, section). go_set name section m) gasMap
      [(''BuiltInCost'', FillGasMap_BuiltInCosts value),
       (''BaseOperationCost'', FillGasMap_BaseOperationCosts value),
       (''BaseOpsAPICost'', FillGasMap_BaseOpsAPICosts value asyncCallbackGasLock),
       (''EthAPICost'', FillGasMap_EthereumAPICosts value),
       (''BigIntAPICost'', FillGasMap_BigIntAPICosts value),
       (''CryptoAPICost'', FillGasMap_CryptoAPICosts value),
       (''WASMOpcodeCost'', FillGasMap_WASMOpcodeValues value)]"

definition MakeGasMap :: "u64 \<Rightarrow> u64 \<Rightarrow> GasScheduleMap" where
  "MakeGasMap value asyncCallbackGasLock = FillGasMap [] value asyncCallbackGasLock"

definition MakeGasMapForTests :: GasScheduleMap where
  "MakeGasMapForTests = MakeGasMap 1 100000"

subsection \<open>Changing the schedule\<close>

definition apiCosts :: "string \<Rightarrow> costs \<Rightarrow> costs" where
  "apiCosts section c = map (\<lambda>(name, v). (section @ ''.'' @ name, v)) c"

definition gasCostOf :: "GasConfig \<Rightarrow> GasCost" where
  \<comment> \<open>the costs under the names by which the model of the contexts and hooks reads them\<close>
  "gasCostOf cfg =
     (let base = cost (cfg_BaseOperationCost cfg); api = cost (cfg_BaseOpsAPICost cfg)
      in \<lparr>baseOperationCost = \<lparr>StorePerByte = base ''StorePerByte'', ReleasePerByte = base ''ReleasePerByte'',
            DataCopyPerByte = base ''DataCopyPerByte'', PersistPerByte = base ''PersistPerByte'',
            CompilePerByte = base ''CompilePerByte'', AoTPreparePerByte = base ''AoTPreparePerByte'', GetCodeCost = base ''GetCode''\<rparr>,
          AsyncCallStep = api ''AsyncCallStep'', AsyncCallbackGasLock = api ''AsyncCallbackGasLock'',
          CreateContract = api ''CreateContract'',
          apiCost = cost (apiCosts ''BaseOpsAPICost'' (cfg_BaseOpsAPICost cfg) @ apiCosts ''BigIntAPICost'' (cfg_BigIntAPICost cfg) @
            apiCosts ''CryptoAPICost'' (cfg_CryptoAPICost cfg))\<rparr>)"

definition SetGasSchedule :: "decoder \<Rightarrow> GasScheduleMap \<Rightarrow> meteringContext \<Rightarrow> meteringContext" where
  "SetGasSchedule Decode gasMap c =
     (case CreateGasConfig Decode gasMap of Inl _ \<Rightarrow> c | Inr cfg \<Rightarrow> c\<lparr>gasSchedule := gasCostOf cfg\<rparr>)"

record schedule_state =
  \<comment> \<open>what a change of the schedule reaches: the field of the host, the costs set in Wasmer, the contexts\<close>
  host_gasSchedule :: GasScheduleMap
  wasmer_opcodeCosts :: "u32 list"
  sched_vm :: vm

definition GasScheduleChange :: "decoder \<Rightarrow> GasScheduleMap \<Rightarrow> schedule_state \<Rightarrow> schedule_state" where
  "GasScheduleChange Decode newGasSchedule h =
     (let h = h\<lparr>host_gasSchedule := newGasSchedule\<rparr>
      in case CreateGasConfig Decode newGasSchedule of
           Inl _ \<Rightarrow> h
         | Inr gasCostConfig \<Rightarrow>
             let h = h\<lparr>wasmer_opcodeCosts := ToOpcodeCostsArray (cfg_WASMOpcodeCost gasCostConfig)\<rparr>;
                 s = sched_vm h
             in h\<lparr>sched_vm := s\<lparr>meteringCtx := SetGasSchedule Decode newGasSchedule (meteringCtx s)\<rparr>\<rparr>)"

subsection \<open>Costs in force\<close>

definition keepsFields :: "decoder \<Rightarrow> bool" where
  \<comment> \<open>decoding fills the fields of the struct it is given, within their width\<close>
  "keepsFields Decode \<longleftrightarrow> (\<forall>struct maxValue m c. Decode struct maxValue m = Inr c \<longrightarrow>
     map fst c = struct \<and> (\<forall>(name, v) \<in> set c. v \<le> maxValue))"

definition decodesByName :: "decoder \<Rightarrow> bool" where
  \<comment> \<open>a map with a value for every field, none too large, is decoded field by field\<close>
  "decodesByName Decode \<longleftrightarrow> (\<forall>struct maxValue m. (\<forall>name \<in> set struct. \<exists>v. go_get m name = Some v \<and> v \<le> maxValue) \<longrightarrow>
     Decode struct maxValue m = Inr (map (\<lambda>name. (name, cost m name)) struct))"

lemma checkForZero_None: "checkForZeroUint64Fields c = None \<longleftrightarrow> (\<forall>(name, v) \<in> set c. v \<noteq> 0)"
  by (induction c rule: checkForZeroUint64Fields.induct) auto

lemma cost_positive:
  assumes "\<forall>(name, v) \<in> set c. v \<noteq> 0" "name \<in> set (map fst c)"
  shows "0 < cost c name"
proof -
  from assms(2) obtain v where v: "go_get c name = Some v" by (cases "go_get c name") (auto simp: map_of_eq_None_iff)
  then have "(name, v) \<in> set c" by (rule map_of_SomeD)
  with assms(1) v show ?thesis by (auto simp: cost_def word_gt_0)
qed

lemma cost_bound: "\<forall>(name, v) \<in> set c. v \<le> b \<Longrightarrow> cost c name \<le> b"
  by (auto simp: cost_def dest!: map_of_SomeD split: option.split)

definition sound :: "string list \<Rightarrow> u64 \<Rightarrow> costs \<Rightarrow> bool" where
  \<comment> \<open>the fields of the struct, all with a cost\<close>
  "sound struct b c \<longleftrightarrow> map fst c = struct \<and> (\<forall>(name, v) \<in> set c. v \<noteq> 0 \<and> v \<le> b)"

lemma sound_cost: "sound struct b c \<Longrightarrow> name \<in> set struct \<Longrightarrow> 0 < cost c name \<and> cost c name \<le> b"
  using cost_positive [of c name] cost_bound [of c b name] by (auto simp: sound_def)

lemma decodeSection_Inr:
  assumes "decodeSection Decode gasMap name struct b k = Inr x" "keepsFields Decode"
  obtains c where "sound struct b c" "k c = Inr x"
proof -
  from assms(1) obtain c where c: "Decode struct b (sectionOf gasMap name) = Inr c" "checkForZeroUint64Fields c = None" "k c = Inr x"
    by (auto simp: decodeSection_def split: sum.splits option.splits)
  with assms(2) that [of c] show thesis by (fastforce simp: keepsFields_def sound_def checkForZero_None)
qed

lemma CreateGasConfig_sound:
  assumes "CreateGasConfig Decode gasMap = Inr cfg" "keepsFields Decode"
  shows "sound BaseOperationCost_fields MaxUint64 (cfg_BaseOperationCost cfg)" "sound BaseOpsAPICost_fields MaxUint64 (cfg_BaseOpsAPICost cfg)"
    "sound BigIntAPICost_fields MaxUint64 (cfg_BigIntAPICost cfg)" "sound EthAPICost_fields MaxUint64 (cfg_EthAPICost cfg)"
    "sound CryptoAPICost_fields MaxUint64 (cfg_CryptoAPICost cfg)" "sound WASMOpcodeCost_fields MaxUint32 (cfg_WASMOpcodeCost cfg)"
  using assms unfolding CreateGasConfig_def by (auto elim!: decodeSection_Inr)

lemma updates_in_order:
  assumes "map fst ops = [k..<k + length ops]" "k + length ops \<le> length xs"
  shows "foldl (\<lambda>a (i, f). a[i := g f]) xs ops = take k xs @ map (g \<circ> snd) ops @ drop (k + length ops) xs"
  using assms
proof (induction ops arbitrary: k xs)
  case (Cons op ops)
  obtain f where op: "op = (k, f)" using Cons.prems(1) by (cases op) (simp add: upt_conv_Cons del: upt_Suc)
  have "map fst ops = [Suc k..<Suc k + length ops]"
    using Cons.prems(1) by (simp add: op upt_conv_Cons del: upt_Suc)
  from Cons.IH [OF this, of "xs[k := g f]"] Cons.prems(2) show ?case
    by (simp add: op take_Suc_conv_app_nth take_update_cancel drop_update_cancel)
qed simp

lemma length_opcodes: "length opcodes = OPCODE_COUNT"
  by (simp add: opcodes_def OPCODE_COUNT_def)

lemma ToOpcodeCostsArray_eq: "ToOpcodeCostsArray c = map (\<lambda>opcode. ucast (cost c opcode)) opcodes"
proof -
  have "map (\<lambda>x. f (snd x)) (enumerate 0 opcodes) = map f opcodes" for f :: "string \<Rightarrow> u32"
    by (metis (no_types, lifting) comp_apply map_eq_conv map_map map_snd_enumerate)
  with updates_in_order [of "enumerate 0 opcodes" 0 "replicate OPCODE_COUNT 0" "\<lambda>f. ucast (cost c f) :: u32"] show ?thesis
    by (simp add: ToOpcodeCostsArray_def comp_def length_opcodes)
qed

lemma opcodes_fields: "WASMOpcodeCost_fields = opcodes @ [''LocalsUnmetered'']"
  by (simp add: WASMOpcodeCost_fields_def opcodes_def)

lemma opcode_positive:
  assumes "sound WASMOpcodeCost_fields MaxUint32 c" "opcode \<in> set opcodes"
  shows "0 < (ucast (cost c opcode) :: u32)"
proof -
  have "0 < cost c opcode" "cost c opcode \<le> MaxUint32" using sound_cost [OF assms(1), of opcode] assms(2) by (auto simp: opcodes_fields)
  then have "0 < unat (cost c opcode)" "unat (cost c opcode) < 2 ^ 32"
    by (auto simp: MaxUint32_def word_less_nat_alt word_le_nat_alt)
  then show ?thesis by (simp add: word_less_nat_alt unsigned_ucast_eq take_bit_eq_mod)
qed

lemma api_positive:
  assumes "sound struct b c" "name \<in> set struct" "\<forall>(name, v) \<in> set xs \<union> set ys. v \<noteq> 0"
  shows "0 < cost (xs @ apiCosts section c @ ys) (section @ ''.'' @ name)"
proof (rule cost_positive)
  show "\<forall>(name, v) \<in> set (xs @ apiCosts section c @ ys). v \<noteq> 0"
    using assms(1,3) by (auto simp: apiCosts_def sound_def)
  obtain v where "(name, v) \<in> set c" using assms(1,2) by (auto simp: sound_def)
  then show "section @ ''.'' @ name \<in> set (map fst (xs @ apiCosts section c @ ys))"
    by (force simp: apiCosts_def image_iff)
qed

lemma apiCosts_nonzero: "sound struct b c \<Longrightarrow> \<forall>(name, v) \<in> set (apiCosts section c). v \<noteq> 0"
  by (auto simp: apiCosts_def sound_def)

lemma gasCostOf_positive:
  assumes "CreateGasConfig Decode gasMap = Inr cfg" "keepsFields Decode"
  shows "name \<in> set BaseOpsAPICost_fields \<Longrightarrow> 0 < apiCost (gasCostOf cfg) (''BaseOpsAPICost.'' @ name)"
    "name \<in> set BigIntAPICost_fields \<Longrightarrow> 0 < apiCost (gasCostOf cfg) (''BigIntAPICost.'' @ name)"
    "name \<in> set CryptoAPICost_fields \<Longrightarrow> 0 < apiCost (gasCostOf cfg) (''CryptoAPICost.'' @ name)"
proof -
  note ok = CreateGasConfig_sound [OF assms]
  let ?o = "apiCosts ''BaseOpsAPICost'' (cfg_BaseOpsAPICost cfg)" and ?b = "apiCosts ''BigIntAPICost'' (cfg_BigIntAPICost cfg)"
    and ?c = "apiCosts ''CryptoAPICost'' (cfg_CryptoAPICost cfg)"
  have nz: "\<forall>(name, v) \<in> set ?o. v \<noteq> 0" "\<forall>(name, v) \<in> set ?b. v \<noteq> 0" "\<forall>(name, v) \<in> set ?c. v \<noteq> 0"
    by (rule apiCosts_nonzero [OF ok(2)] apiCosts_nonzero [OF ok(3)] apiCosts_nonzero [OF ok(5)])+
  show "name \<in> set BaseOpsAPICost_fields \<Longrightarrow> 0 < apiCost (gasCostOf cfg) (''BaseOpsAPICost.'' @ name)"
    using api_positive [OF ok(2), of name "[]" "?b @ ?c" "''BaseOpsAPICost''"] nz by (simp add: gasCostOf_def Let_def ball_Un)
  show "name \<in> set BigIntAPICost_fields \<Longrightarrow> 0 < apiCost (gasCostOf cfg) (''BigIntAPICost.'' @ name)"
    using api_positive [OF ok(3), of name "?o" "?c" "''BigIntAPICost''"] nz by (simp add: gasCostOf_def Let_def ball_Un)
  show "name \<in> set CryptoAPICost_fields \<Longrightarrow> 0 < apiCost (gasCostOf cfg) (''CryptoAPICost.'' @ name)"
    using api_positive [OF ok(5), of name "?o @ ?b" "[]" "''CryptoAPICost''"] nz by (simp add: gasCostOf_def Let_def ball_Un)
qed

lemma base_positive:
  assumes "CreateGasConfig Decode gasMap = Inr cfg" "keepsFields Decode"
  shows "list_all (\<lambda>get. 0 < get (baseOperationCost (gasCostOf cfg)))
      [StorePerByte, ReleasePerByte, DataCopyPerByte, PersistPerByte, CompilePerByte, AoTPreparePerByte, GetCodeCost]"
    "0 < AsyncCallStep (gasCostOf cfg)" "0 < AsyncCallbackGasLock (gasCostOf cfg)" "0 < CreateContract (gasCostOf cfg)"
  using sound_cost [OF CreateGasConfig_sound(1) [OF assms]] sound_cost [OF CreateGasConfig_sound(2) [OF assms]]
  by (simp_all add: gasCostOf_def Let_def BaseOperationCost_fields_def BaseOpsAPICost_fields_def)

subsection \<open>Maps that are accepted\<close>

lemma decodeSection_full:
  assumes "decodesByName Decode" "\<forall>name \<in> set struct. \<exists>v. go_get (sectionOf gasMap section) name = Some v \<and> v \<noteq> 0 \<and> v \<le> b"
  shows "decodeSection Decode gasMap section struct b k = k (map (\<lambda>name. (name, cost (sectionOf gasMap section) name)) struct)"
proof -
  have "Decode struct b (sectionOf gasMap section) = Inr (map (\<lambda>name. (name, cost (sectionOf gasMap section) name)) struct)"
    using assms unfolding decodesByName_def by blast
  moreover have "checkForZeroUint64Fields (map (\<lambda>name. (name, cost (sectionOf gasMap section) name)) struct) = None"
    using assms(2) by (auto simp: checkForZero_None cost_def)
  ultimately show ?thesis by (simp add: decodeSection_def)
qed

lemma full_section:
  assumes "set struct \<subseteq> set (map fst m)" "\<forall>(name, v) \<in> set m. v \<noteq> 0 \<and> v \<le> b"
  shows "\<forall>name \<in> set struct. \<exists>v. go_get m name = Some v \<and> v \<noteq> 0 \<and> v \<le> b"
proof
  fix name assume "name \<in> set struct"
  with assms(1) obtain v where v: "go_get m name = Some v" by (cases "go_get m name") (auto simp: map_of_eq_None_iff)
  with assms(2) show "\<exists>v. go_get m name = Some v \<and> v \<noteq> 0 \<and> v \<le> b" by (auto dest!: map_of_SomeD)
qed

lemma sections_MakeGasMap:
  "sectionOf (MakeGasMap v l) ''BaseOperationCost'' = FillGasMap_BaseOperationCosts v"
  "sectionOf (MakeGasMap v l) ''BaseOpsAPICost'' = FillGasMap_BaseOpsAPICosts v l"
  "sectionOf (MakeGasMap v l) ''BigIntAPICost'' = FillGasMap_BigIntAPICosts v"
  "sectionOf (MakeGasMap v l) ''EthAPICost'' = FillGasMap_EthereumAPICosts v"
  "sectionOf (MakeGasMap v l) ''CryptoAPICost'' = FillGasMap_CryptoAPICosts v"
  "sectionOf (MakeGasMap v l) ''WASMOpcodeCost'' = FillGasMap_WASMOpcodeValues v"
  by (simp_all add: sectionOf_def MakeGasMap_def FillGasMap_def go_simps)

lemma names_MakeGasMap:
  "map fst (FillGasMap_BaseOpsAPICosts v l) = BaseOpsAPICost_fields"
  "map fst (FillGasMap_BigIntAPICosts v) = BigIntAPICost_fields"
  "map fst (FillGasMap_EthereumAPICosts v) = EthAPICost_fields"
  "map fst (FillGasMap_CryptoAPICosts v) = CryptoAPICost_fields"
  "map fst (FillGasMap_WASMOpcodeValues v) = WASMOpcodeCost_fields"
  "set (map fst (FillGasMap_BaseOperationCosts v)) = set BaseOperationCost_fields"
  unfolding FillGasMap_BaseOpsAPICosts_def FillGasMap_BigIntAPICosts_def FillGasMap_EthereumAPICosts_def FillGasMap_CryptoAPICosts_def
    FillGasMap_WASMOpcodeValues_def FillGasMap_BaseOperationCosts_def BaseOpsAPICost_fields_def BigIntAPICost_fields_def
    EthAPICost_fields_def CryptoAPICost_fields_def WASMOpcodeCost_fields_def BaseOperationCost_fields_def
  by (simp_all only: list.map map_append fst_conv append.simps list.set) auto

lemma values_MakeGasMap:
  assumes "v \<noteq> 0" "v \<le> MaxUint32" "l \<noteq> 0"
  shows "\<forall>(name, w) \<in> set (FillGasMap_BaseOperationCosts v). w \<noteq> 0 \<and> w \<le> MaxUint64"
    "\<forall>(name, w) \<in> set (FillGasMap_BaseOpsAPICosts v l). w \<noteq> 0 \<and> w \<le> MaxUint64"
    "\<forall>(name, w) \<in> set (FillGasMap_BigIntAPICosts v). w \<noteq> 0 \<and> w \<le> MaxUint64"
    "\<forall>(name, w) \<in> set (FillGasMap_EthereumAPICosts v). w \<noteq> 0 \<and> w \<le> MaxUint64"
    "\<forall>(name, w) \<in> set (FillGasMap_CryptoAPICosts v). w \<noteq> 0 \<and> w \<le> MaxUint64"
    "\<forall>(name, w) \<in> set (FillGasMap_WASMOpcodeValues v). w \<noteq> 0 \<and> w \<le> MaxUint32"
proof -
  have const: "\<forall>(name, w) \<in> set (map (\<lambda>name. (name, v)) names). w \<noteq> 0 \<and> w \<le> b" if "v \<le> b" for names b
    using assms(1) that by auto
  have max: "w \<le> MaxUint64" for w :: u64 by simp
  show "\<forall>(name, w) \<in> set (FillGasMap_BaseOperationCosts v). w \<noteq> 0 \<and> w \<le> MaxUint64"
    unfolding FillGasMap_BaseOperationCosts_def by (intro const max)
  show "\<forall>(name, w) \<in> set (FillGasMap_BaseOpsAPICosts v l). w \<noteq> 0 \<and> w \<le> MaxUint64"
    using assms by (simp add: FillGasMap_BaseOpsAPICosts_def max)
  show "\<forall>(name, w) \<in> set (FillGasMap_BigIntAPICosts v). w \<noteq> 0 \<and> w \<le> MaxUint64"
    unfolding FillGasMap_BigIntAPICosts_def by (intro const max)
  show "\<forall>(name, w) \<in> set (FillGasMap_EthereumAPICosts v). w \<noteq> 0 \<and> w \<le> MaxUint64"
    unfolding FillGasMap_EthereumAPICosts_def by (intro const max)
  show "\<forall>(name, w) \<in> set (FillGasMap_CryptoAPICosts v). w \<noteq> 0 \<and> w \<le> MaxUint64"
    unfolding FillGasMap_CryptoAPICosts_def by (intro const max)
  show "\<forall>(name, w) \<in> set (FillGasMap_WASMOpcodeValues v). w \<noteq> 0 \<and> w \<le> MaxUint32"
    unfolding FillGasMap_WASMOpcodeValues_def set_append ball_Un
    by (intro conjI const assms(2)) (simp add: MaxUint32_def)
qed

lemma MakeGasMap_accepted:
  assumes "decodesByName Decode" "v \<noteq> 0" "v \<le> MaxUint32" "l \<noteq> 0"
  shows "\<exists>cfg. CreateGasConfig Decode (MakeGasMap v l) = Inr cfg"
proof -
  have sub: "set struct \<subseteq> set (map fst m)" if "map fst m = struct" for struct and m :: gasSection using that by simp
  note vals = values_MakeGasMap [OF assms(2-4)] and dec = decodeSection_full [OF assms(1)]
  note full = full_section [OF eq_refl [OF names_MakeGasMap(6) [symmetric]] vals(1), folded sections_MakeGasMap(1) [where l = l]]
    full_section [OF sub [OF names_MakeGasMap(1)] vals(2), folded sections_MakeGasMap(2)]
    full_section [OF sub [OF names_MakeGasMap(2)] vals(3), folded sections_MakeGasMap(3) [where l = l]]
    full_section [OF sub [OF names_MakeGasMap(3)] vals(4), folded sections_MakeGasMap(4) [where l = l]]
    full_section [OF sub [OF names_MakeGasMap(4)] vals(5), folded sections_MakeGasMap(5) [where l = l]]
    full_section [OF sub [OF names_MakeGasMap(5)] vals(6), folded sections_MakeGasMap(6) [where l = l]]
  show ?thesis
    unfolding CreateGasConfig_def dec [OF full(1)] dec [OF full(2)] dec [OF full(3)] dec [OF full(4)] dec [OF full(5)] dec [OF full(6)]
    by blast
qed

subsection \<open>Properties\<close>

definition sampleDecoder :: decoder where
  \<comment> \<open>fields without a value stay 0, and values are cut to the width of their field\<close>
  "sampleDecoder struct maxValue m = Inr (map (\<lambda>name. (name, let v = cost m name in if v \<le> maxValue then v else 0)) struct)"

text \<open>C23: a change of the gas schedule is all or nothing for what is charged.  A schedule that \<open>CreateGasConfig\<close>
  refuses changes neither the costs in force nor the opcode costs of the engine; one that it accepts puts
  in force a positive cost for every operation: for each byte stored, copied, compiled and so on, for each call of an
  imported function, for asynchronous calls and deployments, and for every one of the 448 opcodes, at the
  opcode's own index.\<close>

theorem gas_schedule_change:
  assumes "keepsFields Decode"
  shows "let h' = GasScheduleChange Decode m h in case CreateGasConfig Decode m of
      Inl err \<Rightarrow> sched_vm h' = sched_vm h \<and> wasmer_opcodeCosts h' = wasmer_opcodeCosts h
    | Inr cfg \<Rightarrow> let g = gasSchedule (meteringCtx (sched_vm h')) in
        list_all (\<lambda>get. 0 < get (baseOperationCost g))
          [StorePerByte, ReleasePerByte, DataCopyPerByte, PersistPerByte, CompilePerByte, AoTPreparePerByte, GetCodeCost] \<and>
        0 < AsyncCallStep g \<and> 0 < AsyncCallbackGasLock g \<and> 0 < CreateContract g \<and>
        list_all (\<lambda>name. 0 < apiCost g (''BaseOpsAPICost.'' @ name)) BaseOpsAPICost_fields \<and>
        list_all (\<lambda>name. 0 < apiCost g (''BigIntAPICost.'' @ name)) BigIntAPICost_fields \<and>
        list_all (\<lambda>name. 0 < apiCost g (''CryptoAPICost.'' @ name)) CryptoAPICost_fields \<and>
        wasmer_opcodeCosts h' = map (\<lambda>opcode. ucast (cost (cfg_WASMOpcodeCost cfg) opcode)) opcodes \<and>
        length (wasmer_opcodeCosts h') = OPCODE_COUNT \<and> list_all (\<lambda>c. 0 < c) (wasmer_opcodeCosts h')"
proof (cases "CreateGasConfig Decode m")
  case (Inl err)
  then show ?thesis by (simp add: GasScheduleChange_def Let_def)
next
  case (Inr cfg)
  let ?h' = "GasScheduleChange Decode m h"
  have g: "gasSchedule (meteringCtx (sched_vm ?h')) = gasCostOf cfg" "wasmer_opcodeCosts ?h' = ToOpcodeCostsArray (cfg_WASMOpcodeCost cfg)"
    using Inr by (simp_all add: GasScheduleChange_def SetGasSchedule_def Let_def)
  have "list_all (\<lambda>c. 0 < c) (map (\<lambda>opcode. ucast (cost (cfg_WASMOpcodeCost cfg) opcode) :: u32) opcodes)"
    using opcode_positive [OF CreateGasConfig_sound(6) [OF Inr assms(1)]] by (simp add: list_all_iff)
  moreover have "list_all (\<lambda>name. 0 < apiCost (gasCostOf cfg) (''BaseOpsAPICost.'' @ name)) BaseOpsAPICost_fields"
    "list_all (\<lambda>name. 0 < apiCost (gasCostOf cfg) (''BigIntAPICost.'' @ name)) BigIntAPICost_fields"
    "list_all (\<lambda>name. 0 < apiCost (gasCostOf cfg) (''CryptoAPICost.'' @ name)) CryptoAPICost_fields"
    unfolding list_all_iff using gasCostOf_positive [OF Inr assms(1)] by blast+
  moreover have "length (map (\<lambda>opcode. ucast (cost (cfg_WASMOpcodeCost cfg) opcode) :: u32) opcodes) = OPCODE_COUNT"
    by (simp add: length_opcodes)
  ultimately show ?thesis
    unfolding Inr sum.case Let_def g ToOpcodeCostsArray_eq using base_positive [OF Inr assms(1)] by blast
qed

theorem gas_schedule_change_witness:
  "length (wasmer_opcodeCosts (GasScheduleChange sampleDecoder MakeGasMapForTests
      \<lparr>host_gasSchedule = [], wasmer_opcodeCosts = [], sched_vm = sampleVM\<rparr>)) = OPCODE_COUNT"
proof -
  have keeps: "keepsFields sampleDecoder" by (auto simp: keepsFields_def sampleDecoder_def Let_def comp_def)
  have "decodesByName sampleDecoder" by (fastforce simp: decodesByName_def sampleDecoder_def Let_def cost_def)
  then obtain cfg where cfg: "CreateGasConfig sampleDecoder MakeGasMapForTests = Inr cfg"
    using MakeGasMap_accepted [of sampleDecoder 1 100000] by (auto simp: MakeGasMapForTests_def MaxUint32_def)
  show ?thesis
    using gas_schedule_change [OF keeps, of MakeGasMapForTests "\<lparr>host_gasSchedule = [], wasmer_opcodeCosts = [], sched_vm = sampleVM\<rparr>"]
    unfolding cfg sum.case Let_def by blast
qed

end
