(* ===== verification/IpcMessages.thy ===== *)
theory IpcMessages
  imports GasSchedule
begin

text \<open>
  Messages between the node and a VM that runs in its own process (\<open>src/ipc/common\<close>): the errors, the kinds,
  the structs with their constructors, the factory that makes an empty message of a kind, the accounts, maps and
  outputs in the form in which they are sent.  A message is the embedded header and a body, whose
  constructor is the Go type of the struct.
\<close>

subsection \<open>Errors\<close>

datatype ipcError = CriticalError ipcError | PlainError err

primrec ipc_Error :: "ipcError \<Rightarrow> string" where
  "ipc_Error (CriticalError e) = ''critical error: '' @ ipc_Error e"
| "ipc_Error (PlainError e) = Error e"

definition WrapCriticalError :: "ipcError \<Rightarrow> ipcError" where
  "WrapCriticalError e = CriticalError e"

definition IsCriticalError :: "ipcError \<Rightarrow> bool" where
  "IsCriticalError e \<longleftrightarrow> (case e of CriticalError _ \<Rightarrow> True | PlainError _ \<Rightarrow> False)"

definition critical :: "string \<Rightarrow> ipcError" where
  "critical text = CriticalError (PlainError (ErrPlain text))"

definition ErrVMTimeExpired :: ipcError where "ErrVMTimeExpired = critical ''vm time expired''"
definition ErrInvalidMessageNonce :: ipcError where "ErrInvalidMessageNonce = critical ''invalid dialogue nonce''"
definition ErrStopPerNodeRequest :: ipcError where "ErrStopPerNodeRequest = critical ''vm will stop, as requested''"
definition ErrBadMessageFromVM :: ipcError where "ErrBadMessageFromVM = critical ''bad message from vm''"
definition ErrCannotSendContractRequest :: ipcError where "ErrCannotSendContractRequest = critical ''cannot send contract request''"
definition ErrCannotSendHookCallResponse :: ipcError where "ErrCannotSendHookCallResponse = critical ''cannot send hook call response''"
definition ErrCannotSendHookCallRequest :: ipcError where "ErrCannotSendHookCallRequest = critical ''cannot send hook call request''"
definition ErrCannotReceiveHookCallResponse :: ipcError where
  "ErrCannotReceiveHookCallResponse = critical ''cannot receive hook call response''"
definition ErrBadHookResponseFromNode :: ipcError where "ErrBadHookResponseFromNode = critical ''bad hook response from node''"

subsection \<open>Kinds\<close>

type_synonym MessageKind = u32

definition FirstKind :: MessageKind where "FirstKind = 0"
definition Initialize :: MessageKind where "Initialize = 1"
definition Stop :: MessageKind where "Stop = 2"
definition ContractDeployRequest :: MessageKind where "ContractDeployRequest = 3"
definition ContractCallRequest :: MessageKind where "ContractCallRequest = 4"
definition ContractResponse :: MessageKind where "ContractResponse = 5"
definition GasScheduleChangeRequest :: MessageKind where "GasScheduleChangeRequest = 6"
definition GasScheduleChangeResponse :: MessageKind where "GasScheduleChangeResponse = 7"
definition BlockchainNewAddressRequest :: MessageKind where "BlockchainNewAddressRequest = 8"
definition BlockchainNewAddressResponse :: MessageKind where "BlockchainNewAddressResponse = 9"
definition BlockchainGetStorageDataRequest :: MessageKind where "BlockchainGetStorageDataRequest = 10"
definition BlockchainGetStorageDataResponse :: MessageKind where "BlockchainGetStorageDataResponse = 11"
definition BlockchainGetBlockhashRequest :: MessageKind where "BlockchainGetBlockhashRequest = 12"
definition BlockchainGetBlockhashResponse :: MessageKind where "BlockchainGetBlockhashResponse = 13"
definition BlockchainLastNonceRequest :: MessageKind where "BlockchainLastNonceRequest = 14"
definition BlockchainLastNonceResponse :: MessageKind where "BlockchainLastNonceResponse = 15"
definition BlockchainLastRoundRequest :: MessageKind where "BlockchainLastRoundRequest = 16"
definition BlockchainLastRoundResponse :: MessageKind where "BlockchainLastRoundResponse = 17"
definition BlockchainLastTimeStampRequest :: MessageKind where "BlockchainLastTimeStampRequest = 18"
definition BlockchainLastTimeStampResponse :: MessageKind where "BlockchainLastTimeStampResponse = 19"
definition BlockchainLastRandomSeedRequest :: MessageKind where "BlockchainLastRandomSeedRequest = 20"
definition BlockchainLastRandomSeedResponse :: MessageKind where "BlockchainLastRandomSeedResponse = 21"
definition BlockchainLastEpochRequest :: MessageKind where "BlockchainLastEpochRequest = 22"
definition BlockchainLastEpochResponse :: MessageKind where "BlockchainLastEpochResponse = 23"
definition BlockchainGetStateRootHashRequest :: MessageKind where "BlockchainGetStateRootHashRequest = 24"
definition BlockchainGetStateRootHashResponse :: MessageKind where "BlockchainGetStateRootHashResponse = 25"
definition BlockchainCurrentNonceRequest :: MessageKind where "BlockchainCurrentNonceRequest = 26"
definition BlockchainCurrentNonceResponse :: MessageKind where "BlockchainCurrentNonceResponse = 27"
definition BlockchainCurrentRoundRequest :: MessageKind where "BlockchainCurrentRoundRequest = 28"
definition BlockchainCurrentRoundResponse :: MessageKind where "BlockchainCurrentRoundResponse = 29"
definition BlockchainCurrentTimeStampRequest :: MessageKind where "BlockchainCurrentTimeStampRequest = 30"
definition BlockchainCurrentTimeStampResponse :: MessageKind where "BlockchainCurrentTimeStampResponse = 31"
definition BlockchainCurrentRandomSeedRequest :: MessageKind where "BlockchainCurrentRandomSeedRequest = 32"
definition BlockchainCurrentRandomSeedResponse :: MessageKind where "BlockchainCurrentRandomSeedResponse = 33"
definition BlockchainCurrentEpochRequest :: MessageKind where "BlockchainCurrentEpochRequest = 34"
definition BlockchainCurrentEpochResponse :: MessageKind where "BlockchainCurrentEpochResponse = 35"
definition BlockchainProcessBuiltinFunctionRequest :: MessageKind where "BlockchainProcessBuiltinFunctionRequest = 36"
definition BlockchainProcessBuiltinFunctionResponse :: MessageKind where "BlockchainProcessBuiltinFunctionResponse = 37"
definition BlockchainGetDCDTTokenRequest :: MessageKind where "BlockchainGetDCDTTokenRequest = 38"
definition BlockchainGetDCDTTokenResponse :: MessageKind where "BlockchainGetDCDTTokenResponse = 39"
definition BlockchainGetBuiltinFunctionNamesRequest :: MessageKind where "BlockchainGetBuiltinFunctionNamesRequest = 40"
definition BlockchainGetBuiltinFunctionNamesResponse :: MessageKind where "BlockchainGetBuiltinFunctionNamesResponse = 41"
definition BlockchainGetAllStateRequest :: MessageKind where "BlockchainGetAllStateRequest = 42"
definition BlockchainGetAllStateResponse :: MessageKind where "BlockchainGetAllStateResponse = 43"
definition BlockchainGetUserAccountRequest :: MessageKind where "BlockchainGetUserAccountRequest = 44"
definition BlockchainGetUserAccountResponse :: MessageKind where "BlockchainGetUserAccountResponse = 45"
definition BlockchainGetCodeRequest :: MessageKind where "BlockchainGetCodeRequest = 46"
definition BlockchainGetCodeResponse :: MessageKind where "BlockchainGetCodeResponse = 47"
definition BlockchainGetShardOfAddressRequest :: MessageKind where "BlockchainGetShardOfAddressRequest = 48"
definition BlockchainGetShardOfAddressResponse :: MessageKind where "BlockchainGetShardOfAddressResponse = 49"
definition BlockchainIsPayableRequest :: MessageKind where "BlockchainIsPayableRequest = 50"
definition BlockchainIsPayableResponse :: MessageKind where "BlockchainIsPayableResponse = 51"
definition BlockchainIsSmartContractRequest :: MessageKind where "BlockchainIsSmartContractRequest = 52"
definition BlockchainIsSmartContractResponse :: MessageKind where "BlockchainIsSmartContractResponse = 53"
definition BlockchainSaveCompiledCodeRequest :: MessageKind where "BlockchainSaveCompiledCodeRequest = 54"
definition BlockchainSaveCompiledCodeResponse :: MessageKind where "BlockchainSaveCompiledCodeResponse = 55"
definition BlockchainGetCompiledCodeRequest :: MessageKind where "BlockchainGetCompiledCodeRequest = 56"
definition BlockchainGetCompiledCodeResponse :: MessageKind where "BlockchainGetCompiledCodeResponse = 57"
definition DiagnoseWaitRequest :: MessageKind where "DiagnoseWaitRequest = 58"
definition DiagnoseWaitResponse :: MessageKind where "DiagnoseWaitResponse = 59"
definition VersionRequest :: MessageKind where "VersionRequest = 60"
definition VersionResponse :: MessageKind where "VersionResponse = 61"
definition UndefinedRequestOrResponse :: MessageKind where "UndefinedRequestOrResponse = 62"
definition LastKind :: MessageKind where "LastKind = 63"

lemmas kind_defs = FirstKind_def Initialize_def Stop_def ContractDeployRequest_def ContractCallRequest_def
  ContractResponse_def GasScheduleChangeRequest_def GasScheduleChangeResponse_def BlockchainNewAddressRequest_def
  BlockchainNewAddressResponse_def BlockchainGetStorageDataRequest_def BlockchainGetStorageDataResponse_def
  BlockchainGetBlockhashRequest_def BlockchainGetBlockhashResponse_def BlockchainLastNonceRequest_def
  BlockchainLastNonceResponse_def BlockchainLastRoundRequest_def BlockchainLastRoundResponse_def
  BlockchainLastTimeStampRequest_def BlockchainLastTimeStampResponse_def BlockchainLastRandomSeedRequest_def
  BlockchainLastRandomSeedResponse_def BlockchainLastEpochRequest_def BlockchainLastEpochResponse_def
  BlockchainGetStateRootHashRequest_def BlockchainGetStateRootHashResponse_def BlockchainCurrentNonceRequest_def
  BlockchainCurrentNonceResponse_def BlockchainCurrentRoundRequest_def BlockchainCurrentRoundResponse_def
  BlockchainCurrentTimeStampRequest_def BlockchainCurrentTimeStampResponse_def BlockchainCurrentRandomSeedRequest_def
  BlockchainCurrentRandomSeedResponse_def BlockchainCurrentEpochRequest_def BlockchainCurrentEpochResponse_def
  BlockchainProcessBuiltinFunctionRequest_def BlockchainProcessBuiltinFunctionResponse_def
  BlockchainGetDCDTTokenRequest_def BlockchainGetDCDTTokenResponse_def BlockchainGetBuiltinFunctionNamesRequest_def
  BlockchainGetBuiltinFunctionNamesResponse_def BlockchainGetAllStateRequest_def BlockchainGetAllStateResponse_def
  BlockchainGetUserAccountRequest_def BlockchainGetUserAccountResponse_def BlockchainGetCodeRequest_def
  BlockchainGetCodeResponse_def BlockchainGetShardOfAddressRequest_def BlockchainGetShardOfAddressResponse_def
  BlockchainIsPayableRequest_def BlockchainIsPayableResponse_def BlockchainIsSmartContractRequest_def
  BlockchainIsSmartContractResponse_def BlockchainSaveCompiledCodeRequest_def BlockchainSaveCompiledCodeResponse_def
  BlockchainGetCompiledCodeRequest_def BlockchainGetCompiledCodeResponse_def DiagnoseWaitRequest_def
  DiagnoseWaitResponse_def VersionRequest_def VersionResponse_def UndefinedRequestOrResponse_def LastKind_def

definition messageKindNameByID :: "(MessageKind, string) gomap" where
  "messageKindNameByID = [(FirstKind, ''FirstKind''), (Initialize, ''Initialize''), (Stop, ''Stop''),
     (ContractDeployRequest, ''ContractDeployRequest''), (ContractCallRequest, ''ContractCallRequest''),
     (ContractResponse, ''ContractResponse''), (GasScheduleChangeRequest, ''GasScheduleChangeRequest''),
     (GasScheduleChangeResponse, ''GasScheduleChangeResponse''),
     (BlockchainNewAddressRequest, ''BlockchainNewAddressRequest''),
     (BlockchainNewAddressResponse, ''BlockchainNewAddressResponse''),
     (BlockchainGetStorageDataRequest, ''BlockchainGetStorageDataRequest''),
     (BlockchainGetStorageDataResponse, ''BlockchainGetStorageDataResponse''),
     (BlockchainGetBlockhashRequest, ''BlockchainGetBlockhashRequest''),
     (BlockchainGetBlockhashResponse, ''BlockchainGetBlockhashResponse''),
     (BlockchainLastNonceRequest, ''BlockchainLastNonceRequest''),
     (BlockchainLastNonceResponse, ''BlockchainLastNonceResponse''),
     (BlockchainLastRoundRequest, ''BlockchainLastRoundRequest''),
     (BlockchainLastRoundResponse, ''BlockchainLastRoundResponse''),
     (BlockchainLastTimeStampRequest, ''BlockchainLastTimeStampRequest''),
     (BlockchainLastTimeStampResponse, ''BlockchainLastTimeStampResponse''),
     (BlockchainLastRandomSeedRequest, ''BlockchainLastRandomSeedRequest''),
     (BlockchainLastRandomSeedResponse, ''BlockchainLastRandomSeedResponse''),
     (BlockchainLastEpochRequest, ''BlockchainLastEpochRequest''),
     (BlockchainLastEpochResponse, ''BlockchainLastEpochResponse''),
     (BlockchainGetStateRootHashRequest, ''BlockchainGetStateRootHashRequest''),
     (BlockchainGetStateRootHashResponse, ''BlockchainGetStateRootHashResponse''),
     (BlockchainCurrentNonceRequest, ''BlockchainCurrentNonceRequest''),
     (BlockchainCurrentNonceResponse, ''BlockchainCurrentNonceResponse''),
     (BlockchainCurrentRoundRequest, ''BlockchainCurrentRoundRequest''),
     (BlockchainCurrentRoundResponse, ''BlockchainCurrentRoundResponse''),
     (BlockchainCurrentTimeStampRequest, ''BlockchainCurrentTimeStampRequest''),
     (BlockchainCurrentTimeStampResponse, ''BlockchainCurrentTimeStampResponse''),
     (BlockchainCurrentRandomSeedRequest, ''BlockchainCurrentRandomSeedRequest''),
     (BlockchainCurrentRandomSeedResponse, ''BlockchainCurrentRandomSeedResponse''),
     (BlockchainCurrentEpochRequest, ''BlockchainCurrentEpochRequest''),
     (BlockchainCurrentEpochResponse, ''BlockchainCurrentEpochResponse''),
     (BlockchainProcessBuiltinFunctionRequest, ''BlockchainProcessBuiltinFunctionRequest''),
     (BlockchainProcessBuiltinFunctionResponse, ''BlockchainProcessBuiltinFunctionResponse''),
     (BlockchainGetDCDTTokenRequest, ''BlockchainGetDCDTTokenRequest''),
     (BlockchainGetDCDTTokenResponse, ''BlockchainGetDCDTTokenResponse''),
     (BlockchainGetBuiltinFunctionNamesRequest, ''BlockchainGetBuiltinFunctionNamesRequest''),
     (BlockchainGetBuiltinFunctionNamesResponse, ''BlockchainGetBuiltinFunctionNamesResponse''),
     (BlockchainGetAllStateRequest, ''BlockchainGetAllStateRequest''),
     (BlockchainGetAllStateResponse, ''BlockchainGetAllStateResponse''),
     (BlockchainGetUserAccountRequest, ''BlockchainGetUserAccountRequest''),
     (BlockchainGetUserAccountResponse, ''BlockchainGetUserAccountResponse''),
     (BlockchainGetCodeRequest, ''BlockchainGetCodeRequest''),
     (BlockchainGetCodeResponse, ''BlockchainGetCodeResponse''),
     (BlockchainGetShardOfAddressRequest, ''BlockchainGetShardOfAddressRequest''),
     (BlockchainGetShardOfAddressResponse, ''BlockchainGetShardOfAddressResponse''),
     (BlockchainIsPayableRequest, ''BlockchainIsPayableRequest''),
     (BlockchainIsPayableResponse, ''BlockchainIsPayableResponse''),
     (BlockchainIsSmartContractRequest, ''BlockchainIsSmartContractRequest''),
     (BlockchainIsSmartContractResponse, ''BlockchainIsSmartContractResponse''),
     (BlockchainSaveCompiledCodeRequest, ''BlockchainSaveCompiledCodeRequest''),
     (BlockchainSaveCompiledCodeResponse, ''BlockchainSaveCompiledCodeResponse''),
     (BlockchainGetCompiledCodeRequest, ''BlockchainGetCompiledCodeRequest''),
     (BlockchainGetCompiledCodeResponse, ''BlockchainGetCompiledCodeResponse''),
     (DiagnoseWaitRequest, ''DiagnoseWaitRequest''), (DiagnoseWaitResponse, ''DiagnoseWaitResponse''),
     (VersionRequest, ''VersionRequest''), (VersionResponse, ''VersionResponse''),
     (UndefinedRequestOrResponse, ''UndefinedRequestOrResponse''), (LastKind, ''LastKind'')]"

subsection \<open>Accounts\<close>

record Account =
  acc_Nonce :: u64
  acc_Balance :: bigint
  acc_CodeHash :: bytes
  acc_RootHash :: bytes
  acc_Address :: address
  acc_DeveloperReward :: bigint
  acc_OwnerAddress :: address
  acc_UserName :: bytes
  acc_CodeMetadata :: bytes

definition acc_GetBalance :: "Account \<Rightarrow> int" where
  "acc_GetBalance a = (case acc_Balance a of None \<Rightarrow> 0 | Some b \<Rightarrow> b)"

definition acc_GetDeveloperReward :: "Account \<Rightarrow> int" where
  "acc_GetDeveloperReward a = (case acc_DeveloperReward a of None \<Rightarrow> 0 | Some b \<Rightarrow> b)"

definition accountHandler :: "Account \<Rightarrow> userAccount" where
  \<comment> \<open>what the getters of an account return\<close>
  "accountHandler a = \<lparr>ua_Balance = acc_GetBalance a, ua_Nonce = acc_Nonce a, ua_CodeHash = acc_CodeHash a,
     ua_CodeMetadata = acc_CodeMetadata a, ua_OwnerAddress = acc_OwnerAddress a, ua_Address = acc_Address a,
     ua_RootHash = acc_RootHash a, ua_DeveloperReward = acc_GetDeveloperReward a, ua_UserName = acc_UserName a\<rparr>"

definition accountOf :: "userAccount \<Rightarrow> Account" where
  \<comment> \<open>the account filled from the getters of another\<close>
  "accountOf account = \<lparr>acc_Nonce = ua_Nonce account, acc_Balance = Some (ua_Balance account), acc_CodeHash = ua_CodeHash account,
     acc_RootHash = ua_RootHash account, acc_Address = ua_Address account, acc_DeveloperReward = Some (ua_DeveloperReward account),
     acc_OwnerAddress = ua_OwnerAddress account, acc_UserName = ua_UserName account, acc_CodeMetadata = ua_CodeMetadata account\<rparr>"

lemma accountHandler_accountOf [simp]: "accountHandler (accountOf a) = a"
  by (simp add: accountHandler_def accountOf_def acc_GetBalance_def acc_GetDeveloperReward_def)

subsection \<open>Maps and outputs in serializable form\<close>

record SerializableMapStringBytes =
  map_Keys :: "bytes list"
  map_Values :: "bytes list"

definition NewSerializableMapStringBytes :: "(bytes, bytes) gomap \<Rightarrow> SerializableMapStringBytes" where
  "NewSerializableMapStringBytes data =
     foldl (\<lambda>s (key, value). s\<lparr>map_Keys := map_Keys s @ [key], map_Values := map_Values s @ [value]\<rparr>)
       \<lparr>map_Keys = [], map_Values = []\<rparr> data"

definition ConvertToMap :: "SerializableMapStringBytes \<Rightarrow> (bytes, bytes) gomap option" where
  \<comment> \<open>\<open>None\<close>: fewer values than keys\<close>
  "ConvertToMap s =
     (if length (map_Values s) < length (map_Keys s) then None
      else Some (foldl (\<lambda>m i. go_set (map_Keys s ! i) (map_Values s ! i) m) [] [0..<length (map_Keys s)]))"

record SerializableOutputTransfer =
  st_Value :: bigint
  st_Data :: bytes
  st_GasLimit :: u64
  st_GasLocked :: u64
  st_CallType :: CallTypeT
  st_SenderAddress :: address

record SerializableOutputAccount =
  sa_Address :: address
  sa_Nonce :: u64
  sa_Balance :: bigint
  sa_BalanceDelta :: bigint
  sa_StorageUpdates :: "StorageUpdate list"
  sa_Code :: bytes
  sa_CodeMetadata :: bytes
  sa_GasUsed :: u64
  sa_Transfers :: "SerializableOutputTransfer list"
  sa_CodeDeployerAddress :: "address option"

record SerializableVMOutput =
  so_ReturnData :: "bytes list"
  so_ReturnCode :: ReturnCodeT
  so_ReturnMessage :: string
  so_GasRemaining :: u64
  so_GasRefund :: bigint
  so_CorrectedOutputAccounts :: "SerializableOutputAccount list"
  so_DeletedAccounts :: "address list"
  so_TouchedAccounts :: "address list"
  so_Logs :: "LogEntry list"

definition NewSerializableOutputAccount :: "OutputAccount \<Rightarrow> SerializableOutputAccount" where
  "NewSerializableOutputAccount account = \<lparr>sa_Address = Address account, sa_Nonce = Nonce account, sa_Balance = Balance account,
     sa_BalanceDelta = BalanceDelta account, sa_StorageUpdates = map snd (StorageUpdates account), sa_Code = Code account,
     sa_CodeMetadata = CodeMetadata account, sa_GasUsed = GasUsed account,
     sa_Transfers = map (\<lambda>transfer. \<lparr>st_Value = ot_Value transfer, st_Data = ot_Data transfer, st_GasLimit = ot_GasLimit transfer,
       st_GasLocked = ot_GasLocked transfer, st_CallType = ot_CallType transfer, st_SenderAddress = ot_SenderAddress transfer\<rparr>)
       (OutputTransfers account),
     sa_CodeDeployerAddress = CodeDeployerAddress account\<rparr>"

definition ConvertToOutputAccount :: "SerializableOutputAccount \<Rightarrow> OutputAccount" where
  "ConvertToOutputAccount a =
     (let updatesMap = foldl (\<lambda>m item. go_set (su_Offset item) item m) [] (sa_StorageUpdates a)
      in \<lparr>Address = sa_Address a, Nonce = sa_Nonce a, Balance = sa_Balance a, BalanceDelta = sa_BalanceDelta a,
           StorageUpdates = updatesMap, Code = sa_Code a, CodeMetadata = sa_CodeMetadata a,
           CodeDeployerAddress = sa_CodeDeployerAddress a,
           OutputTransfers = map (\<lambda>transfer. \<lparr>ot_Value = st_Value transfer, ot_GasLimit = st_GasLimit transfer,
             ot_GasLocked = st_GasLocked transfer, ot_Data = st_Data transfer, ot_CallType = st_CallType transfer,
             ot_SenderAddress = st_SenderAddress transfer\<rparr>) (sa_Transfers a),
           GasUsed = sa_GasUsed a\<rparr>)"

definition NewSerializableVMOutput :: "VMOutput option \<Rightarrow> SerializableVMOutput" where
  "NewSerializableVMOutput vmOutput =
     (case vmOutput of
        None \<Rightarrow> \<lparr>so_ReturnData = [], so_ReturnCode = Ok, so_ReturnMessage = [], so_GasRemaining = 0, so_GasRefund = None,
          so_CorrectedOutputAccounts = [], so_DeletedAccounts = [], so_TouchedAccounts = [], so_Logs = []\<rparr>
      | Some out \<Rightarrow> \<lparr>so_ReturnData = ReturnData out, so_ReturnCode = ReturnCode out, so_ReturnMessage = ReturnMessage out,
          so_GasRemaining = GasRemaining out, so_GasRefund = GasRefund out,
          so_CorrectedOutputAccounts = map (\<lambda>(_, account). NewSerializableOutputAccount account) (OutputAccounts out),
          so_DeletedAccounts = DeletedAccounts out, so_TouchedAccounts = TouchedAccounts out, so_Logs = Logs out\<rparr>)"

definition ConvertToVMOutput :: "SerializableVMOutput \<Rightarrow> VMOutput" where
  "ConvertToVMOutput out =
     (let accountsMap = foldl (\<lambda>m item. go_set (sa_Address item) (ConvertToOutputAccount item) m) [] (so_CorrectedOutputAccounts out)
      in \<lparr>ReturnData = so_ReturnData out, ReturnCode = so_ReturnCode out, ReturnMessage = so_ReturnMessage out,
           GasRemaining = so_GasRemaining out, GasRefund = so_GasRefund out, OutputAccounts = accountsMap,
           DeletedAccounts = so_DeletedAccounts out, TouchedAccounts = so_TouchedAccounts out, Logs = so_Logs out\<rparr>)"

subsection \<open>Structs\<close>

type_synonym FunctionNames = "string set"

datatype MarshalizerKind = JSON | Gob

record VMArguments =
  \<comment> \<open>the parameters of the host that can be sent, and the marshalizers\<close>
  arg_VMType :: bytes
  arg_BlockGasLimit :: u64
  arg_GasSchedule :: GasScheduleMap
  arg_ProtocolBuiltinFunctions :: FunctionNames
  arg_ProtectedKeyPrefix :: bytes
  arg_WasmerSIGSEGVPassthrough :: bool
  arg_UseWarmInstance :: bool
  arg_LogsMarshalizer :: MarshalizerKind
  arg_MessagesMarshalizer :: MarshalizerKind

datatype (plugins only: code size) hookRequest =
    MessageBlockchainNewAddressRequest bytes u64 bytes
  | MessageBlockchainGetStorageDataRequest bytes bytes
  | MessageBlockchainGetBlockhashRequest u64
  | MessageBlockchainLastNonceRequest
  | MessageBlockchainLastRoundRequest
  | MessageBlockchainLastTimeStampRequest
  | MessageBlockchainLastRandomSeedRequest
  | MessageBlockchainLastEpochRequest
  | MessageBlockchainGetStateRootHashRequest
  | MessageBlockchainCurrentNonceRequest
  | MessageBlockchainCurrentRoundRequest
  | MessageBlockchainCurrentTimeStampRequest
  | MessageBlockchainCurrentRandomSeedRequest
  | MessageBlockchainCurrentEpochRequest
  | MessageBlockchainProcessBuiltinFunctionRequest ContractCallInput
  | MessageBlockchainGetDCDTTokenRequest bytes bytes u64
  | MessageBlockchainGetBuiltinFunctionNamesRequest
  | MessageBlockchainGetAllStateRequest bytes
  | MessageBlockchainGetUserAccountRequest bytes
  | MessageBlockchainGetCodeRequest "Account option"
  | MessageBlockchainGetShardOfAddressRequest bytes
  | MessageBlockchainIsPayableRequest bytes
  | MessageBlockchainIsSmartContractRequest bytes
  | MessageBlockchainSaveCompiledCodeRequest bytes bytes
  | MessageBlockchainGetCompiledCodeRequest bytes

datatype (plugins only: code size) hookResponse =
    MessageBlockchainNewAddressResponse bytes
  | MessageBlockchainGetStorageDataResponse bytes
  | MessageBlockchainGetBlockhashResponse bytes
  | MessageBlockchainLastNonceResponse u64
  | MessageBlockchainLastRoundResponse u64
  | MessageBlockchainLastTimeStampResponse u64
  | MessageBlockchainLastRandomSeedResponse bytes
  | MessageBlockchainLastEpochResponse u32
  | MessageBlockchainGetStateRootHashResponse bytes
  | MessageBlockchainCurrentNonceResponse u64
  | MessageBlockchainCurrentRoundResponse u64
  | MessageBlockchainCurrentTimeStampResponse u64
  | MessageBlockchainCurrentRandomSeedResponse bytes
  | MessageBlockchainCurrentEpochResponse u32
  | MessageBlockchainProcessBuiltinFunctionResponse "SerializableVMOutput option"
  | MessageBlockchainGetDCDTTokenResponse "DCDigitalToken option"
  | MessageBlockchainGetBuiltinFunctionNamesResponse FunctionNames
  | MessageBlockchainGetAllStateResponse "SerializableMapStringBytes option"
  | MessageBlockchainGetUserAccountResponse "Account option"
  | MessageBlockchainGetCodeResponse bytes
  | MessageBlockchainGetShardOfAddressResponse u32
  | MessageBlockchainIsPayableResponse bool
  | MessageBlockchainIsSmartContractResponse bool
  | MessageBlockchainSaveCompiledCodeResponse
  | MessageBlockchainGetCompiledCodeResponse bool bytes

datatype (plugins only: code size) body =
    PlainMessage
  | MessageInitialize VMArguments
  | MessageStop
  | UndefinedMessage
  | MessageContractDeployRequest "ContractCreateInput option"
  | MessageContractCallRequest "ContractCallInput option"
  | MessageContractResponse "SerializableVMOutput option"
  | MessageVersionRequest
  | MessageVersionResponse string
  | MessageGasScheduleChangeRequest GasScheduleMap
  | MessageDiagnoseWaitRequest u32
  | MessageDiagnoseWaitResponse
  | HookRequest hookRequest
  | HookResponse hookResponse

record Message =
  DialogueNonce :: u32
  Kind :: MessageKind
  ErrorMessage :: string

record MessageHandler = Message +
  msgBody :: body

subsection \<open>The embedded message\<close>

definition message_GetNonce :: "MessageHandler \<Rightarrow> u32" where "message_GetNonce message = DialogueNonce message"

definition SetNonce :: "u32 \<Rightarrow> MessageHandler \<Rightarrow> MessageHandler" where "SetNonce nonce message = message\<lparr>DialogueNonce := nonce\<rparr>"

definition GetKind :: "MessageHandler \<Rightarrow> MessageKind" where "GetKind message = Kind message"

definition SetKind :: "MessageKind \<Rightarrow> MessageHandler \<Rightarrow> MessageHandler" where "SetKind kind message = message\<lparr>Kind := kind\<rparr>"

definition GetError :: "(string \<Rightarrow> string) \<Rightarrow> MessageHandler \<Rightarrow> err option" where
  \<comment> \<open>the text is the format of \<open>fmt.Errorf\<close>, which is the first argument\<close>
  "GetError Errorf message = (if length (ErrorMessage message) = 0 then None else Some (ErrExternal (Errorf (ErrorMessage message))))"

definition SetError :: "err option \<Rightarrow> MessageHandler \<Rightarrow> MessageHandler" where
  "SetError err message = (case err of None \<Rightarrow> message | Some e \<Rightarrow> message\<lparr>ErrorMessage := Error e\<rparr>)"

definition GetKindName :: "MessageHandler \<Rightarrow> string" where
  "GetKindName message = (case go_get messageKindNameByID (Kind message) of None \<Rightarrow> [] | Some name \<Rightarrow> name)"

definition DebugString :: "MessageHandler \<Rightarrow> string" where
  "DebugString message = ''[kind='' @ GetKindName message @ '' nonce='' @ decimal (uint (DialogueNonce message)) @ '' err='' @
     ErrorMessage message @ '']''"

definition newMessage :: "MessageKind \<Rightarrow> body \<Rightarrow> MessageHandler" where
  \<comment> \<open>a struct with zero values, and the kind set\<close>
  "newMessage kind b = \<lparr>DialogueNonce = 0, Kind = kind, ErrorMessage = [], msgBody = b\<rparr>"

subsection \<open>Constructors\<close>

definition NewMessageInitialize :: "VMArguments \<Rightarrow> MessageHandler" where
  "NewMessageInitialize arguments = newMessage Initialize (MessageInitialize arguments)"

definition NewMessageStop :: MessageHandler where "NewMessageStop = newMessage Stop MessageStop"

definition NewUndefinedMessage :: MessageHandler where
  "NewUndefinedMessage = SetNonce (2 ^ 32 - 1) (newMessage UndefinedRequestOrResponse UndefinedMessage)"

definition NewMessageContractDeployRequest :: "ContractCreateInput \<Rightarrow> MessageHandler" where
  "NewMessageContractDeployRequest input = newMessage ContractDeployRequest (MessageContractDeployRequest (Some input))"

definition NewMessageContractCallRequest :: "ContractCallInput \<Rightarrow> MessageHandler" where
  "NewMessageContractCallRequest input = newMessage ContractCallRequest (MessageContractCallRequest (Some input))"

definition NewMessageContractResponse :: "VMOutput option \<Rightarrow> err option \<Rightarrow> MessageHandler" where
  "NewMessageContractResponse vmOutput err =
     SetError err (newMessage ContractResponse (MessageContractResponse (Some (NewSerializableVMOutput vmOutput))))"

definition NewMessageVersionRequest :: MessageHandler where "NewMessageVersionRequest = newMessage VersionRequest MessageVersionRequest"

definition NewMessageVersionResponse :: "string \<Rightarrow> MessageHandler" where
  "NewMessageVersionResponse version = newMessage VersionResponse (MessageVersionResponse version)"

definition NewMessageGasScheduleChangeRequest :: "GasScheduleMap \<Rightarrow> MessageHandler" where
  "NewMessageGasScheduleChangeRequest schedule = newMessage GasScheduleChangeRequest (MessageGasScheduleChangeRequest schedule)"

definition NewGasScheduleChangeResponse :: MessageHandler where
  "NewGasScheduleChangeResponse = newMessage GasScheduleChangeResponse PlainMessage"

definition NewMessageDiagnoseWaitRequest :: "u32 \<Rightarrow> MessageHandler" where
  "NewMessageDiagnoseWaitRequest milliseconds = newMessage DiagnoseWaitRequest (MessageDiagnoseWaitRequest milliseconds)"

definition NewMessageDiagnoseWaitResponse :: MessageHandler where
  "NewMessageDiagnoseWaitResponse = newMessage DiagnoseWaitResponse MessageDiagnoseWaitResponse"

definition NewMessageBlockchainNewAddressRequest :: "bytes \<Rightarrow> u64 \<Rightarrow> bytes \<Rightarrow> MessageHandler" where
  "NewMessageBlockchainNewAddressRequest creatorAddress creatorNonce vmTypeArg =
     newMessage BlockchainNewAddressRequest (HookRequest (MessageBlockchainNewAddressRequest creatorAddress creatorNonce vmTypeArg))"

definition NewMessageBlockchainNewAddressResponse :: "bytes \<Rightarrow> err option \<Rightarrow> MessageHandler" where
  "NewMessageBlockchainNewAddressResponse result err =
     SetError err
       (newMessage BlockchainNewAddressResponse (HookResponse (MessageBlockchainNewAddressResponse result)))"

definition NewMessageBlockchainGetStorageDataRequest :: "bytes \<Rightarrow> bytes \<Rightarrow> MessageHandler" where
  "NewMessageBlockchainGetStorageDataRequest address index =
     newMessage BlockchainGetStorageDataRequest (HookRequest (MessageBlockchainGetStorageDataRequest address index))"

definition NewMessageBlockchainGetStorageDataResponse :: "bytes \<Rightarrow> err option \<Rightarrow> MessageHandler" where
  "NewMessageBlockchainGetStorageDataResponse data err =
     SetError err
       (newMessage BlockchainGetStorageDataResponse (HookResponse (MessageBlockchainGetStorageDataResponse data)))"

definition NewMessageBlockchainGetBlockhashRequest :: "u64 \<Rightarrow> MessageHandler" where
  "NewMessageBlockchainGetBlockhashRequest nonce =
     newMessage BlockchainGetBlockhashRequest (HookRequest (MessageBlockchainGetBlockhashRequest nonce))"

definition NewMessageBlockchainGetBlockhashResponse :: "bytes \<Rightarrow> err option \<Rightarrow> MessageHandler" where
  "NewMessageBlockchainGetBlockhashResponse result err =
     SetError err
       (newMessage BlockchainGetBlockhashResponse (HookResponse (MessageBlockchainGetBlockhashResponse result)))"

definition NewMessageBlockchainLastNonceRequest :: MessageHandler where
  "NewMessageBlockchainLastNonceRequest =
     newMessage BlockchainLastNonceRequest (HookRequest MessageBlockchainLastNonceRequest)"

definition NewMessageBlockchainLastNonceResponse :: "u64 \<Rightarrow> MessageHandler" where
  "NewMessageBlockchainLastNonceResponse result =
     newMessage BlockchainLastNonceResponse (HookResponse (MessageBlockchainLastNonceResponse result))"

definition NewMessageBlockchainLastRoundRequest :: MessageHandler where
  "NewMessageBlockchainLastRoundRequest =
     newMessage BlockchainLastRoundRequest (HookRequest MessageBlockchainLastRoundRequest)"

definition NewMessageBlockchainLastRoundResponse :: "u64 \<Rightarrow> MessageHandler" where
  "NewMessageBlockchainLastRoundResponse result =
     newMessage BlockchainLastRoundResponse (HookResponse (MessageBlockchainLastRoundResponse result))"

definition NewMessageBlockchainLastTimeStampRequest :: MessageHandler where
  "NewMessageBlockchainLastTimeStampRequest =
     newMessage BlockchainLastTimeStampRequest (HookRequest MessageBlockchainLastTimeStampRequest)"

definition NewMessageBlockchainLastTimeStampResponse :: "u64 \<Rightarrow> MessageHandler" where
  "NewMessageBlockchainLastTimeStampResponse result =
     newMessage BlockchainLastTimeStampResponse (HookResponse (MessageBlockchainLastTimeStampResponse result))"

definition NewMessageBlockchainLastRandomSeedRequest :: MessageHandler where
  "NewMessageBlockchainLastRandomSeedRequest =
     newMessage BlockchainLastRandomSeedRequest (HookRequest MessageBlockchainLastRandomSeedRequest)"

definition NewMessageBlockchainLastRandomSeedResponse :: "bytes \<Rightarrow> MessageHandler" where
  "NewMessageBlockchainLastRandomSeedResponse result =
     newMessage BlockchainLastRandomSeedResponse (HookResponse (MessageBlockchainLastRandomSeedResponse result))"

definition NewMessageBlockchainLastEpochRequest :: MessageHandler where
  "NewMessageBlockchainLastEpochRequest =
     newMessage BlockchainLastEpochRequest (HookRequest MessageBlockchainLastEpochRequest)"

definition NewMessageBlockchainLastEpochResponse :: "u32 \<Rightarrow> MessageHandler" where
  "NewMessageBlockchainLastEpochResponse result =
     newMessage BlockchainLastEpochResponse (HookResponse (MessageBlockchainLastEpochResponse result))"

definition NewMessageBlockchainGetStateRootHashRequest :: MessageHandler where
  "NewMessageBlockchainGetStateRootHashRequest =
     newMessage BlockchainGetStateRootHashRequest (HookRequest MessageBlockchainGetStateRootHashRequest)"

definition NewMessageBlockchainGetStateRootHashResponse :: "bytes \<Rightarrow> MessageHandler" where
  "NewMessageBlockchainGetStateRootHashResponse result =
     newMessage BlockchainGetStateRootHashResponse (HookResponse (MessageBlockchainGetStateRootHashResponse result))"

definition NewMessageBlockchainCurrentNonceRequest :: MessageHandler where
  "NewMessageBlockchainCurrentNonceRequest =
     newMessage BlockchainCurrentNonceRequest (HookRequest MessageBlockchainCurrentNonceRequest)"

definition NewMessageBlockchainCurrentNonceResponse :: "u64 \<Rightarrow> MessageHandler" where
  "NewMessageBlockchainCurrentNonceResponse result =
     newMessage BlockchainCurrentNonceResponse (HookResponse (MessageBlockchainCurrentNonceResponse result))"

definition NewMessageBlockchainCurrentRoundRequest :: MessageHandler where
  "NewMessageBlockchainCurrentRoundRequest =
     newMessage BlockchainCurrentRoundRequest (HookRequest MessageBlockchainCurrentRoundRequest)"

definition NewMessageBlockchainCurrentRoundResponse :: "u64 \<Rightarrow> MessageHandler" where
  "NewMessageBlockchainCurrentRoundResponse result =
     newMessage BlockchainCurrentRoundResponse (HookResponse (MessageBlockchainCurrentRoundResponse result))"

definition NewMessageBlockchainCurrentTimeStampRequest :: MessageHandler where
  "NewMessageBlockchainCurrentTimeStampRequest =
     newMessage BlockchainCurrentTimeStampRequest (HookRequest MessageBlockchainCurrentTimeStampRequest)"

definition NewMessageBlockchainCurrentTimeStampResponse :: "u64 \<Rightarrow> MessageHandler" where
  "NewMessageBlockchainCurrentTimeStampResponse result =
     newMessage BlockchainCurrentTimeStampResponse (HookResponse (MessageBlockchainCurrentTimeStampResponse result))"

definition NewMessageBlockchainCurrentRandomSeedRequest :: MessageHandler where
  "NewMessageBlockchainCurrentRandomSeedRequest =
     newMessage BlockchainCurrentRandomSeedRequest (HookRequest MessageBlockchainCurrentRandomSeedRequest)"

definition NewMessageBlockchainCurrentRandomSeedResponse :: "bytes \<Rightarrow> MessageHandler" where
  "NewMessageBlockchainCurrentRandomSeedResponse result =
     newMessage BlockchainCurrentRandomSeedResponse (HookResponse (MessageBlockchainCurrentRandomSeedResponse result))"

definition NewMessageBlockchainCurrentEpochRequest :: MessageHandler where
  "NewMessageBlockchainCurrentEpochRequest =
     newMessage BlockchainCurrentEpochRequest (HookRequest MessageBlockchainCurrentEpochRequest)"

definition NewMessageBlockchainCurrentEpochResponse :: "u32 \<Rightarrow> MessageHandler" where
  "NewMessageBlockchainCurrentEpochResponse result =
     newMessage BlockchainCurrentEpochResponse (HookResponse (MessageBlockchainCurrentEpochResponse result))"

definition NewMessageBlockchainProcessBuiltinFunctionRequest :: "ContractCallInput \<Rightarrow> MessageHandler" where
  "NewMessageBlockchainProcessBuiltinFunctionRequest callInput =
     newMessage BlockchainProcessBuiltinFunctionRequest (HookRequest (MessageBlockchainProcessBuiltinFunctionRequest callInput))"

definition NewMessageBlockchainProcessBuiltinFunctionResponse :: "VMOutput option \<Rightarrow> err option \<Rightarrow> MessageHandler" where
  "NewMessageBlockchainProcessBuiltinFunctionResponse vmOutput err =
     SetError err
       (newMessage BlockchainProcessBuiltinFunctionResponse (HookResponse (MessageBlockchainProcessBuiltinFunctionResponse (Some (NewSerializableVMOutput vmOutput)))))"

definition NewMessageBlockchainGetDCDTTokenRequest :: "bytes \<Rightarrow> bytes \<Rightarrow> u64 \<Rightarrow> MessageHandler" where
  "NewMessageBlockchainGetDCDTTokenRequest address tokenID nonce =
     newMessage BlockchainGetDCDTTokenRequest (HookRequest (MessageBlockchainGetDCDTTokenRequest address tokenID nonce))"

definition NewMessageBlockchainGetDCDTTokenResponse :: "DCDigitalToken option \<Rightarrow> err option \<Rightarrow> MessageHandler" where
  "NewMessageBlockchainGetDCDTTokenResponse dcdtData err =
     SetError err
       (newMessage BlockchainGetDCDTTokenResponse (HookResponse (MessageBlockchainGetDCDTTokenResponse dcdtData)))"

definition NewMessageBlockchainGetBuiltinFunctionNamesRequest :: MessageHandler where
  "NewMessageBlockchainGetBuiltinFunctionNamesRequest =
     newMessage BlockchainGetBuiltinFunctionNamesRequest (HookRequest MessageBlockchainGetBuiltinFunctionNamesRequest)"

definition NewMessageBlockchainGetBuiltinFunctionNamesResponse :: "FunctionNames \<Rightarrow> MessageHandler" where
  "NewMessageBlockchainGetBuiltinFunctionNamesResponse functionNames =
     newMessage BlockchainGetBuiltinFunctionNamesResponse (HookResponse (MessageBlockchainGetBuiltinFunctionNamesResponse functionNames))"

definition NewMessageBlockchainGetAllStateRequest :: "bytes \<Rightarrow> MessageHandler" where
  "NewMessageBlockchainGetAllStateRequest address =
     newMessage BlockchainGetAllStateRequest (HookRequest (MessageBlockchainGetAllStateRequest address))"

definition NewMessageBlockchainGetAllStateResponse :: "(bytes, bytes) gomap \<Rightarrow> err option \<Rightarrow> MessageHandler" where
  "NewMessageBlockchainGetAllStateResponse state err =
     SetError err
       (newMessage BlockchainGetAllStateResponse (HookResponse (MessageBlockchainGetAllStateResponse (Some (NewSerializableMapStringBytes state)))))"

definition NewMessageBlockchainGetUserAccountRequest :: "bytes \<Rightarrow> MessageHandler" where
  "NewMessageBlockchainGetUserAccountRequest address =
     newMessage BlockchainGetUserAccountRequest (HookRequest (MessageBlockchainGetUserAccountRequest address))"

definition NewMessageBlockchainGetUserAccountResponse :: "Account option \<Rightarrow> err option \<Rightarrow> MessageHandler" where
  "NewMessageBlockchainGetUserAccountResponse account err =
     SetError err
       (newMessage BlockchainGetUserAccountResponse (HookResponse (MessageBlockchainGetUserAccountResponse account)))"

definition NewMessageBlockchainGetCodeRequest :: "Account \<Rightarrow> MessageHandler" where
  "NewMessageBlockchainGetCodeRequest account = newMessage BlockchainGetCodeRequest (HookRequest (MessageBlockchainGetCodeRequest (Some account)))"

definition NewMessageBlockchainGetCodeResponse :: "bytes \<Rightarrow> MessageHandler" where
  "NewMessageBlockchainGetCodeResponse code =
     newMessage BlockchainGetCodeResponse (HookResponse (MessageBlockchainGetCodeResponse code))"

definition NewMessageBlockchainGetShardOfAddressRequest :: "bytes \<Rightarrow> MessageHandler" where
  "NewMessageBlockchainGetShardOfAddressRequest address =
     newMessage BlockchainGetShardOfAddressRequest (HookRequest (MessageBlockchainGetShardOfAddressRequest address))"

definition NewMessageBlockchainGetShardOfAddressResponse :: "u32 \<Rightarrow> MessageHandler" where
  "NewMessageBlockchainGetShardOfAddressResponse shard =
     newMessage BlockchainGetShardOfAddressResponse (HookResponse (MessageBlockchainGetShardOfAddressResponse shard))"

definition NewMessageBlockchainIsPayableRequest :: "bytes \<Rightarrow> MessageHandler" where
  "NewMessageBlockchainIsPayableRequest address =
     newMessage BlockchainIsPayableRequest (HookRequest (MessageBlockchainIsPayableRequest address))"

definition NewMessageBlockchainIsPayableResponse :: "bool \<Rightarrow> err option \<Rightarrow> MessageHandler" where
  "NewMessageBlockchainIsPayableResponse result err =
     SetError err
       (newMessage BlockchainIsPayableResponse (HookResponse (MessageBlockchainIsPayableResponse result)))"

definition NewMessageBlockchainIsSmartContractRequest :: "bytes \<Rightarrow> MessageHandler" where
  "NewMessageBlockchainIsSmartContractRequest address =
     newMessage BlockchainIsSmartContractRequest (HookRequest (MessageBlockchainIsSmartContractRequest address))"

definition NewMessageBlockchainIsSmartContractResponse :: "bool \<Rightarrow> MessageHandler" where
  "NewMessageBlockchainIsSmartContractResponse result =
     newMessage BlockchainIsSmartContractResponse (HookResponse (MessageBlockchainIsSmartContractResponse result))"

definition NewMessageBlockchainSaveCompiledCodeRequest :: "bytes \<Rightarrow> bytes \<Rightarrow> MessageHandler" where
  "NewMessageBlockchainSaveCompiledCodeRequest codeHash code =
     newMessage BlockchainSaveCompiledCodeRequest (HookRequest (MessageBlockchainSaveCompiledCodeRequest codeHash code))"

definition NewMessageBlockchainSaveCompiledCodeResponse :: MessageHandler where
  "NewMessageBlockchainSaveCompiledCodeResponse =
     newMessage BlockchainSaveCompiledCodeResponse (HookResponse MessageBlockchainSaveCompiledCodeResponse)"

definition NewMessageBlockchainGetCompiledCodeRequest :: "bytes \<Rightarrow> MessageHandler" where
  "NewMessageBlockchainGetCompiledCodeRequest codeHash =
     newMessage BlockchainGetCompiledCodeRequest (HookRequest (MessageBlockchainGetCompiledCodeRequest codeHash))"

definition NewMessageBlockchainGetCompiledCodeResponse :: "bool \<Rightarrow> bytes \<Rightarrow> MessageHandler" where
  "NewMessageBlockchainGetCompiledCodeResponse found code =
     newMessage BlockchainGetCompiledCodeResponse (HookResponse (MessageBlockchainGetCompiledCodeResponse found code))"

lemmas request_defs = NewMessageBlockchainNewAddressRequest_def NewMessageBlockchainGetStorageDataRequest_def
  NewMessageBlockchainGetBlockhashRequest_def NewMessageBlockchainLastNonceRequest_def
  NewMessageBlockchainLastRoundRequest_def NewMessageBlockchainLastTimeStampRequest_def
  NewMessageBlockchainLastRandomSeedRequest_def NewMessageBlockchainLastEpochRequest_def
  NewMessageBlockchainGetStateRootHashRequest_def NewMessageBlockchainCurrentNonceRequest_def
  NewMessageBlockchainCurrentRoundRequest_def NewMessageBlockchainCurrentTimeStampRequest_def
  NewMessageBlockchainCurrentRandomSeedRequest_def NewMessageBlockchainCurrentEpochRequest_def
  NewMessageBlockchainProcessBuiltinFunctionRequest_def NewMessageBlockchainGetDCDTTokenRequest_def
  NewMessageBlockchainGetBuiltinFunctionNamesRequest_def NewMessageBlockchainGetAllStateRequest_def
  NewMessageBlockchainGetUserAccountRequest_def NewMessageBlockchainGetCodeRequest_def
  NewMessageBlockchainGetShardOfAddressRequest_def NewMessageBlockchainIsPayableRequest_def
  NewMessageBlockchainIsSmartContractRequest_def NewMessageBlockchainSaveCompiledCodeRequest_def
  NewMessageBlockchainGetCompiledCodeRequest_def

lemmas response_defs = NewMessageBlockchainNewAddressResponse_def NewMessageBlockchainGetStorageDataResponse_def
  NewMessageBlockchainGetBlockhashResponse_def NewMessageBlockchainLastNonceResponse_def
  NewMessageBlockchainLastRoundResponse_def NewMessageBlockchainLastTimeStampResponse_def
  NewMessageBlockchainLastRandomSeedResponse_def NewMessageBlockchainLastEpochResponse_def
  NewMessageBlockchainGetStateRootHashResponse_def NewMessageBlockchainCurrentNonceResponse_def
  NewMessageBlockchainCurrentRoundResponse_def NewMessageBlockchainCurrentTimeStampResponse_def
  NewMessageBlockchainCurrentRandomSeedResponse_def NewMessageBlockchainCurrentEpochResponse_def
  NewMessageBlockchainProcessBuiltinFunctionResponse_def NewMessageBlockchainGetDCDTTokenResponse_def
  NewMessageBlockchainGetBuiltinFunctionNamesResponse_def NewMessageBlockchainGetAllStateResponse_def
  NewMessageBlockchainGetUserAccountResponse_def NewMessageBlockchainGetCodeResponse_def
  NewMessageBlockchainGetShardOfAddressResponse_def NewMessageBlockchainIsPayableResponse_def
  NewMessageBlockchainIsSmartContractResponse_def NewMessageBlockchainSaveCompiledCodeResponse_def
  NewMessageBlockchainGetCompiledCodeResponse_def

subsection \<open>The factory\<close>

definition zeroArguments :: VMArguments where
  "zeroArguments = \<lparr>arg_VMType = [], arg_BlockGasLimit = 0, arg_GasSchedule = [], arg_ProtocolBuiltinFunctions = {},
     arg_ProtectedKeyPrefix = [], arg_WasmerSIGSEGVPassthrough = False, arg_UseWarmInstance = False, arg_LogsMarshalizer = JSON,
     arg_MessagesMarshalizer = JSON\<rparr>"

definition zeroCallInput :: ContractCallInput where
  "zeroCallInput = \<lparr>cci_VMInput = \<lparr>CallerAddr = [], Arguments = [], CallValue = None, CallType = DirectCall, GasPrice = 0,
     GasProvided = 0, GasLocked = 0, OriginalTxHash = [], CurrentTxHash = [], PrevTxHash = [], DCDTTransfers = []\<rparr>,
     RecipientAddr = [], Function = [], AllowInitFunction = False\<rparr>"

definition createUndefinedMessage :: MessageHandler where "createUndefinedMessage = NewUndefinedMessage"

definition createMessageInitialize :: MessageHandler where "createMessageInitialize = newMessage FirstKind (MessageInitialize zeroArguments)"
definition createMessageStop :: MessageHandler where "createMessageStop = newMessage FirstKind MessageStop"
definition createMessageContractDeployRequest :: MessageHandler where "createMessageContractDeployRequest = newMessage FirstKind (MessageContractDeployRequest None)"
definition createMessageContractCallRequest :: MessageHandler where "createMessageContractCallRequest = newMessage FirstKind (MessageContractCallRequest None)"
definition createMessageContractResponse :: MessageHandler where "createMessageContractResponse = newMessage FirstKind (MessageContractResponse None)"
definition createMessageGasScheduleRequest :: MessageHandler where "createMessageGasScheduleRequest = newMessage FirstKind (MessageGasScheduleChangeRequest [])"
definition createMessageGasScheduleResponse :: MessageHandler where "createMessageGasScheduleResponse = newMessage FirstKind PlainMessage"
definition createMessageDiagnoseWaitRequest :: MessageHandler where "createMessageDiagnoseWaitRequest = newMessage FirstKind (MessageDiagnoseWaitRequest 0)"
definition createMessageDiagnoseWaitResponse :: MessageHandler where "createMessageDiagnoseWaitResponse = newMessage FirstKind MessageDiagnoseWaitResponse"
definition createMessageVersionRequest :: MessageHandler where "createMessageVersionRequest = newMessage FirstKind MessageVersionRequest"
definition createMessageVersionResponse :: MessageHandler where "createMessageVersionResponse = newMessage FirstKind (MessageVersionResponse [])"
definition createMessageBlockchainNewAddressRequest :: MessageHandler where
  "createMessageBlockchainNewAddressRequest = newMessage FirstKind (HookRequest (MessageBlockchainNewAddressRequest [] 0 []))"
definition createMessageBlockchainNewAddressResponse :: MessageHandler where
  "createMessageBlockchainNewAddressResponse = newMessage FirstKind (HookResponse (MessageBlockchainNewAddressResponse []))"
definition createMessageBlockchainGetStorageDataRequest :: MessageHandler where
  "createMessageBlockchainGetStorageDataRequest = newMessage FirstKind (HookRequest (MessageBlockchainGetStorageDataRequest [] []))"
definition createMessageBlockchainGetStorageDataResponse :: MessageHandler where
  "createMessageBlockchainGetStorageDataResponse = newMessage FirstKind (HookResponse (MessageBlockchainGetStorageDataResponse []))"
definition createMessageBlockchainGetBlockhashRequest :: MessageHandler where
  "createMessageBlockchainGetBlockhashRequest = newMessage FirstKind (HookRequest (MessageBlockchainGetBlockhashRequest 0))"
definition createMessageBlockchainGetBlockhashResponse :: MessageHandler where
  "createMessageBlockchainGetBlockhashResponse = newMessage FirstKind (HookResponse (MessageBlockchainGetBlockhashResponse []))"
definition createMessageBlockchainLastNonceRequest :: MessageHandler where
  "createMessageBlockchainLastNonceRequest = newMessage FirstKind (HookRequest MessageBlockchainLastNonceRequest)"
definition createMessageBlockchainLastNonceResponse :: MessageHandler where
  "createMessageBlockchainLastNonceResponse = newMessage FirstKind (HookResponse (MessageBlockchainLastNonceResponse 0))"
definition createMessageBlockchainLastRoundRequest :: MessageHandler where
  "createMessageBlockchainLastRoundRequest = newMessage FirstKind (HookRequest MessageBlockchainLastRoundRequest)"
definition createMessageBlockchainLastRoundResponse :: MessageHandler where
  "createMessageBlockchainLastRoundResponse = newMessage FirstKind (HookResponse (MessageBlockchainLastRoundResponse 0))"
definition createMessageBlockchainLastTimeStampRequest :: MessageHandler where
  "createMessageBlockchainLastTimeStampRequest = newMessage FirstKind (HookRequest MessageBlockchainLastTimeStampRequest)"
definition createMessageBlockchainLastTimeStampResponse :: MessageHandler where
  "createMessageBlockchainLastTimeStampResponse = newMessage FirstKind (HookResponse (MessageBlockchainLastTimeStampResponse 0))"
definition createMessageBlockchainLastRandomSeedRequest :: MessageHandler where
  "createMessageBlockchainLastRandomSeedRequest = newMessage FirstKind (HookRequest MessageBlockchainLastRandomSeedRequest)"
definition createMessageBlockchainLastRandomSeedResponse :: MessageHandler where
  "createMessageBlockchainLastRandomSeedResponse = newMessage FirstKind (HookResponse (MessageBlockchainLastRandomSeedResponse []))"
definition createMessageBlockchainLastEpochRequest :: MessageHandler where
  "createMessageBlockchainLastEpochRequest = newMessage FirstKind (HookRequest MessageBlockchainLastEpochRequest)"
definition createMessageBlockchainLastEpochResponse :: MessageHandler where
  "createMessageBlockchainLastEpochResponse = newMessage FirstKind (HookResponse (MessageBlockchainLastEpochResponse 0))"
definition createMessageBlockchainGetStateRootHashRequest :: MessageHandler where
  "createMessageBlockchainGetStateRootHashRequest = newMessage FirstKind (HookRequest MessageBlockchainGetStateRootHashRequest)"
definition createMessageBlockchainGetStateRootHashResponse :: MessageHandler where
  "createMessageBlockchainGetStateRootHashResponse = newMessage FirstKind (HookResponse (MessageBlockchainGetStateRootHashResponse []))"
definition createMessageBlockchainCurrentNonceRequest :: MessageHandler where
  "createMessageBlockchainCurrentNonceRequest = newMessage FirstKind (HookRequest MessageBlockchainCurrentNonceRequest)"
definition createMessageBlockchainCurrentNonceResponse :: MessageHandler where
  "createMessageBlockchainCurrentNonceResponse = newMessage FirstKind (HookResponse (MessageBlockchainCurrentNonceResponse 0))"
definition createMessageBlockchainCurrentRoundRequest :: MessageHandler where
  "createMessageBlockchainCurrentRoundRequest = newMessage FirstKind (HookRequest MessageBlockchainCurrentRoundRequest)"
definition createMessageBlockchainCurrentRoundResponse :: MessageHandler where
  "createMessageBlockchainCurrentRoundResponse = newMessage FirstKind (HookResponse (MessageBlockchainCurrentRoundResponse 0))"
definition createMessageBlockchainCurrentTimeStampRequest :: MessageHandler where
  "createMessageBlockchainCurrentTimeStampRequest = newMessage FirstKind (HookRequest MessageBlockchainCurrentTimeStampRequest)"
definition createMessageBlockchainCurrentTimeStampResponse :: MessageHandler where
  "createMessageBlockchainCurrentTimeStampResponse = newMessage FirstKind (HookResponse (MessageBlockchainCurrentTimeStampResponse 0))"
definition createMessageBlockchainCurrentRandomSeedRequest :: MessageHandler where
  "createMessageBlockchainCurrentRandomSeedRequest = newMessage FirstKind (HookRequest MessageBlockchainCurrentRandomSeedRequest)"
definition createMessageBlockchainCurrentRandomSeedResponse :: MessageHandler where
  "createMessageBlockchainCurrentRandomSeedResponse = newMessage FirstKind (HookResponse (MessageBlockchainCurrentRandomSeedResponse []))"
definition createMessageBlockchainCurrentEpochRequest :: MessageHandler where
  "createMessageBlockchainCurrentEpochRequest = newMessage FirstKind (HookRequest MessageBlockchainCurrentEpochRequest)"
definition createMessageBlockchainCurrentEpochResponse :: MessageHandler where
  "createMessageBlockchainCurrentEpochResponse = newMessage FirstKind (HookResponse (MessageBlockchainCurrentEpochResponse 0))"
definition createMessageBlockchainProcessBuiltinFunctionRequest :: MessageHandler where
  "createMessageBlockchainProcessBuiltinFunctionRequest = newMessage FirstKind (HookRequest (MessageBlockchainProcessBuiltinFunctionRequest zeroCallInput))"
definition createMessageBlockchainProcessBuiltinFunctionResponse :: MessageHandler where
  "createMessageBlockchainProcessBuiltinFunctionResponse = newMessage FirstKind (HookResponse (MessageBlockchainProcessBuiltinFunctionResponse None))"
definition createMessageBlockchainGetDCDTTokenRequest :: MessageHandler where
  "createMessageBlockchainGetDCDTTokenRequest = newMessage FirstKind (HookRequest (MessageBlockchainGetDCDTTokenRequest [] [] 0))"
definition createMessageBlockchainGetDCDTTokenResponse :: MessageHandler where
  "createMessageBlockchainGetDCDTTokenResponse = newMessage FirstKind (HookResponse (MessageBlockchainGetDCDTTokenResponse None))"
definition createMessageBlockchainGetBuiltinFunctionNamesRequest :: MessageHandler where
  "createMessageBlockchainGetBuiltinFunctionNamesRequest = newMessage FirstKind (HookRequest MessageBlockchainGetBuiltinFunctionNamesRequest)"
definition createMessageBlockchainGetBuiltinFunctionNamesResponse :: MessageHandler where
  "createMessageBlockchainGetBuiltinFunctionNamesResponse = newMessage FirstKind (HookResponse (MessageBlockchainGetBuiltinFunctionNamesResponse {}))"
definition createMessageBlockchainGetAllStateRequest :: MessageHandler where
  "createMessageBlockchainGetAllStateRequest = newMessage FirstKind (HookRequest (MessageBlockchainGetAllStateRequest []))"
definition createMessageBlockchainGetAllStateResponse :: MessageHandler where
  "createMessageBlockchainGetAllStateResponse = newMessage FirstKind (HookResponse (MessageBlockchainGetAllStateResponse None))"
definition createMessageBlockchainGetUserAccountRequest :: MessageHandler where
  "createMessageBlockchainGetUserAccountRequest = newMessage FirstKind (HookRequest (MessageBlockchainGetUserAccountRequest []))"
definition createMessageBlockchainGetUserAccountResponse :: MessageHandler where
  "createMessageBlockchainGetUserAccountResponse = newMessage FirstKind (HookResponse (MessageBlockchainGetUserAccountResponse None))"
definition createMessageBlockchainGetCodeRequest :: MessageHandler where
  "createMessageBlockchainGetCodeRequest = newMessage FirstKind (HookRequest (MessageBlockchainGetCodeRequest None))"
definition createMessageBlockchainGetCodeResponse :: MessageHandler where
  "createMessageBlockchainGetCodeResponse = newMessage FirstKind (HookResponse (MessageBlockchainGetCodeResponse []))"
definition createMessageBlockchainGetShardOfAddressRequest :: MessageHandler where
  "createMessageBlockchainGetShardOfAddressRequest = newMessage FirstKind (HookRequest (MessageBlockchainGetShardOfAddressRequest []))"
definition createMessageBlockchainGetShardOfAddressResponse :: MessageHandler where
  "createMessageBlockchainGetShardOfAddressResponse = newMessage FirstKind (HookResponse (MessageBlockchainGetShardOfAddressResponse 0))"
definition createMessageBlockchainIsPayableRequest :: MessageHandler where
  "createMessageBlockchainIsPayableRequest = newMessage FirstKind (HookRequest (MessageBlockchainIsPayableRequest []))"
definition createMessageBlockchainIsPayableResponse :: MessageHandler where
  "createMessageBlockchainIsPayableResponse = newMessage FirstKind (HookResponse (MessageBlockchainIsPayableResponse False))"
definition createMessageBlockchainIsSmartContractRequest :: MessageHandler where
  "createMessageBlockchainIsSmartContractRequest = newMessage FirstKind (HookRequest (MessageBlockchainIsSmartContractRequest []))"
definition createMessageBlockchainIsSmartContractResponse :: MessageHandler where
  "createMessageBlockchainIsSmartContractResponse = newMessage FirstKind (HookResponse (MessageBlockchainIsSmartContractResponse False))"
definition createMessageBlockchainSaveCompiledCodeRequest :: MessageHandler where
  "createMessageBlockchainSaveCompiledCodeRequest = newMessage FirstKind (HookRequest (MessageBlockchainSaveCompiledCodeRequest [] []))"
definition createMessageBlockchainSaveCompiledCodeResponse :: MessageHandler where
  "createMessageBlockchainSaveCompiledCodeResponse = newMessage FirstKind (HookResponse MessageBlockchainSaveCompiledCodeResponse)"
definition createMessageBlockchainGetCompiledCodeRequest :: MessageHandler where
  "createMessageBlockchainGetCompiledCodeRequest = newMessage FirstKind (HookRequest (MessageBlockchainGetCompiledCodeRequest []))"
definition createMessageBlockchainGetCompiledCodeResponse :: MessageHandler where
  "createMessageBlockchainGetCompiledCodeResponse = newMessage FirstKind (HookResponse (MessageBlockchainGetCompiledCodeResponse False []))"

definition messageCreators :: "(MessageKind, MessageHandler) gomap" where
  "messageCreators = [
     (Initialize, createMessageInitialize),
     (Stop, createMessageStop),
     (ContractDeployRequest, createMessageContractDeployRequest),
     (ContractCallRequest, createMessageContractCallRequest),
     (ContractResponse, createMessageContractResponse),
     (GasScheduleChangeRequest, createMessageGasScheduleRequest),
     (GasScheduleChangeResponse, createMessageGasScheduleResponse),
     (DiagnoseWaitRequest, createMessageDiagnoseWaitRequest),
     (DiagnoseWaitResponse, createMessageDiagnoseWaitResponse),
     (VersionRequest, createMessageVersionRequest),
     (VersionResponse, createMessageVersionResponse),
     (BlockchainNewAddressRequest, createMessageBlockchainNewAddressRequest),
     (BlockchainNewAddressResponse, createMessageBlockchainNewAddressResponse),
     (BlockchainGetStorageDataRequest, createMessageBlockchainGetStorageDataRequest),
     (BlockchainGetStorageDataResponse, createMessageBlockchainGetStorageDataResponse),
     (BlockchainGetBlockhashRequest, createMessageBlockchainGetBlockhashRequest),
     (BlockchainGetBlockhashResponse, createMessageBlockchainGetBlockhashResponse),
     (BlockchainLastNonceRequest, createMessageBlockchainLastNonceRequest),
     (BlockchainLastNonceResponse, createMessageBlockchainLastNonceResponse),
     (BlockchainLastRoundRequest, createMessageBlockchainLastRoundRequest),
     (BlockchainLastRoundResponse, createMessageBlockchainLastRoundResponse),
     (BlockchainLastTimeStampRequest, createMessageBlockchainLastTimeStampRequest),
     (BlockchainLastTimeStampResponse, createMessageBlockchainLastTimeStampResponse),
     (BlockchainLastRandomSeedRequest, createMessageBlockchainLastRandomSeedRequest),
     (BlockchainLastRandomSeedResponse, createMessageBlockchainLastRandomSeedResponse),
     (BlockchainLastEpochRequest, createMessageBlockchainLastEpochRequest),
     (BlockchainLastEpochResponse, createMessageBlockchainLastEpochResponse),
     (BlockchainGetStateRootHashRequest, createMessageBlockchainGetStateRootHashRequest),
     (BlockchainGetStateRootHashResponse, createMessageBlockchainGetStateRootHashResponse),
     (BlockchainCurrentNonceRequest, createMessageBlockchainCurrentNonceRequest),
     (BlockchainCurrentNonceResponse, createMessageBlockchainCurrentNonceResponse),
     (BlockchainCurrentRoundRequest, createMessageBlockchainCurrentRoundRequest),
     (BlockchainCurrentRoundResponse, createMessageBlockchainCurrentRoundResponse),
     (BlockchainCurrentTimeStampRequest, createMessageBlockchainCurrentTimeStampRequest),
     (BlockchainCurrentTimeStampResponse, createMessageBlockchainCurrentTimeStampResponse),
     (BlockchainCurrentRandomSeedRequest, createMessageBlockchainCurrentRandomSeedRequest),
     (BlockchainCurrentRandomSeedResponse, createMessageBlockchainCurrentRandomSeedResponse),
     (BlockchainCurrentEpochRequest, createMessageBlockchainCurrentEpochRequest),
     (BlockchainCurrentEpochResponse, createMessageBlockchainCurrentEpochResponse),
     (BlockchainProcessBuiltinFunctionRequest, createMessageBlockchainProcessBuiltinFunctionRequest),
     (BlockchainProcessBuiltinFunctionResponse, createMessageBlockchainProcessBuiltinFunctionResponse),
     (BlockchainGetDCDTTokenRequest, createMessageBlockchainGetDCDTTokenRequest),
     (BlockchainGetDCDTTokenResponse, createMessageBlockchainGetDCDTTokenResponse),
     (BlockchainGetBuiltinFunctionNamesRequest, createMessageBlockchainGetBuiltinFunctionNamesRequest),
     (BlockchainGetBuiltinFunctionNamesResponse, createMessageBlockchainGetBuiltinFunctionNamesResponse),
     (BlockchainGetAllStateRequest, createMessageBlockchainGetAllStateRequest),
     (BlockchainGetAllStateResponse, createMessageBlockchainGetAllStateResponse),
     (BlockchainGetUserAccountRequest, createMessageBlockchainGetUserAccountRequest),
     (BlockchainGetUserAccountResponse, createMessageBlockchainGetUserAccountResponse),
     (BlockchainGetCodeRequest, createMessageBlockchainGetCodeRequest),
     (BlockchainGetCodeResponse, createMessageBlockchainGetCodeResponse),
     (BlockchainGetShardOfAddressRequest, createMessageBlockchainGetShardOfAddressRequest),
     (BlockchainGetShardOfAddressResponse, createMessageBlockchainGetShardOfAddressResponse),
     (BlockchainIsPayableRequest, createMessageBlockchainIsPayableRequest),
     (BlockchainIsPayableResponse, createMessageBlockchainIsPayableResponse),
     (BlockchainIsSmartContractRequest, createMessageBlockchainIsSmartContractRequest),
     (BlockchainIsSmartContractResponse, createMessageBlockchainIsSmartContractResponse),
     (BlockchainSaveCompiledCodeRequest, createMessageBlockchainSaveCompiledCodeRequest),
     (BlockchainSaveCompiledCodeResponse, createMessageBlockchainSaveCompiledCodeResponse),
     (BlockchainGetCompiledCodeRequest, createMessageBlockchainGetCompiledCodeRequest),
     (BlockchainGetCompiledCodeResponse, createMessageBlockchainGetCompiledCodeResponse)]"

lemmas creator_defs = createMessageInitialize_def createMessageStop_def createMessageContractDeployRequest_def
  createMessageContractCallRequest_def createMessageContractResponse_def createMessageGasScheduleRequest_def
  createMessageGasScheduleResponse_def createMessageDiagnoseWaitRequest_def createMessageDiagnoseWaitResponse_def
  createMessageVersionRequest_def createMessageVersionResponse_def createMessageBlockchainNewAddressRequest_def
  createMessageBlockchainNewAddressResponse_def createMessageBlockchainGetStorageDataRequest_def
  createMessageBlockchainGetStorageDataResponse_def createMessageBlockchainGetBlockhashRequest_def
  createMessageBlockchainGetBlockhashResponse_def createMessageBlockchainLastNonceRequest_def
  createMessageBlockchainLastNonceResponse_def createMessageBlockchainLastRoundRequest_def
  createMessageBlockchainLastRoundResponse_def createMessageBlockchainLastTimeStampRequest_def
  createMessageBlockchainLastTimeStampResponse_def createMessageBlockchainLastRandomSeedRequest_def
  createMessageBlockchainLastRandomSeedResponse_def createMessageBlockchainLastEpochRequest_def
  createMessageBlockchainLastEpochResponse_def createMessageBlockchainGetStateRootHashRequest_def
  createMessageBlockchainGetStateRootHashResponse_def createMessageBlockchainCurrentNonceRequest_def
  createMessageBlockchainCurrentNonceResponse_def createMessageBlockchainCurrentRoundRequest_def
  createMessageBlockchainCurrentRoundResponse_def createMessageBlockchainCurrentTimeStampRequest_def
  createMessageBlockchainCurrentTimeStampResponse_def createMessageBlockchainCurrentRandomSeedRequest_def
  createMessageBlockchainCurrentRandomSeedResponse_def createMessageBlockchainCurrentEpochRequest_def
  createMessageBlockchainCurrentEpochResponse_def createMessageBlockchainProcessBuiltinFunctionRequest_def
  createMessageBlockchainProcessBuiltinFunctionResponse_def createMessageBlockchainGetDCDTTokenRequest_def
  createMessageBlockchainGetDCDTTokenResponse_def createMessageBlockchainGetBuiltinFunctionNamesRequest_def
  createMessageBlockchainGetBuiltinFunctionNamesResponse_def createMessageBlockchainGetAllStateRequest_def
  createMessageBlockchainGetAllStateResponse_def createMessageBlockchainGetUserAccountRequest_def
  createMessageBlockchainGetUserAccountResponse_def createMessageBlockchainGetCodeRequest_def
  createMessageBlockchainGetCodeResponse_def createMessageBlockchainGetShardOfAddressRequest_def
  createMessageBlockchainGetShardOfAddressResponse_def createMessageBlockchainIsPayableRequest_def
  createMessageBlockchainIsPayableResponse_def createMessageBlockchainIsSmartContractRequest_def
  createMessageBlockchainIsSmartContractResponse_def createMessageBlockchainSaveCompiledCodeRequest_def
  createMessageBlockchainSaveCompiledCodeResponse_def createMessageBlockchainGetCompiledCodeRequest_def
  createMessageBlockchainGetCompiledCodeResponse_def createUndefinedMessage_def

definition CreateMessage :: "MessageKind \<Rightarrow> MessageHandler" where
  \<comment> \<open>the table has a creator for every kind below \<open>LastKind\<close>, that of the undefined message unless it is replaced\<close>
  "CreateMessage kind =
     (if kind < LastKind
      then SetKind kind (case go_get messageCreators kind of Some message \<Rightarrow> message | None \<Rightarrow> createUndefinedMessage)
      else createUndefinedMessage)"

subsection \<open>Classification\<close>

definition IsHookCall :: "MessageHandler \<Rightarrow> bool" where
  "IsHookCall message \<longleftrightarrow> BlockchainNewAddressRequest \<le> GetKind message \<and> GetKind message \<le> BlockchainGetCompiledCodeResponse"

definition IsStopRequest :: "MessageHandler \<Rightarrow> bool" where "IsStopRequest message \<longleftrightarrow> GetKind message = Stop"

definition IsVersionResponse :: "MessageHandler \<Rightarrow> bool" where "IsVersionResponse message \<longleftrightarrow> GetKind message = VersionResponse"

definition IsContractResponse :: "MessageHandler \<Rightarrow> bool" where "IsContractResponse message \<longleftrightarrow> GetKind message = ContractResponse"

definition IsGasScheduleChangeResponse :: "MessageHandler \<Rightarrow> bool" where
  "IsGasScheduleChangeResponse message \<longleftrightarrow> GetKind message = GasScheduleChangeResponse"

definition IsDiagnose :: "MessageHandler \<Rightarrow> bool" where
  "IsDiagnose message \<longleftrightarrow> DiagnoseWaitRequest \<le> GetKind message \<and> GetKind message \<le> DiagnoseWaitResponse"

subsection \<open>Types of messages\<close>

primrec requestKind :: "hookRequest \<Rightarrow> MessageKind" where
  "requestKind (MessageBlockchainNewAddressRequest x0 x1 x2) = BlockchainNewAddressRequest"
| "requestKind (MessageBlockchainGetStorageDataRequest x0 x1) = BlockchainGetStorageDataRequest"
| "requestKind (MessageBlockchainGetBlockhashRequest x0) = BlockchainGetBlockhashRequest"
| "requestKind MessageBlockchainLastNonceRequest = BlockchainLastNonceRequest"
| "requestKind MessageBlockchainLastRoundRequest = BlockchainLastRoundRequest"
| "requestKind MessageBlockchainLastTimeStampRequest = BlockchainLastTimeStampRequest"
| "requestKind MessageBlockchainLastRandomSeedRequest = BlockchainLastRandomSeedRequest"
| "requestKind MessageBlockchainLastEpochRequest = BlockchainLastEpochRequest"
| "requestKind MessageBlockchainGetStateRootHashRequest = BlockchainGetStateRootHashRequest"
| "requestKind MessageBlockchainCurrentNonceRequest = BlockchainCurrentNonceRequest"
| "requestKind MessageBlockchainCurrentRoundRequest = BlockchainCurrentRoundRequest"
| "requestKind MessageBlockchainCurrentTimeStampRequest = BlockchainCurrentTimeStampRequest"
| "requestKind MessageBlockchainCurrentRandomSeedRequest = BlockchainCurrentRandomSeedRequest"
| "requestKind MessageBlockchainCurrentEpochRequest = BlockchainCurrentEpochRequest"
| "requestKind (MessageBlockchainProcessBuiltinFunctionRequest x0) = BlockchainProcessBuiltinFunctionRequest"
| "requestKind (MessageBlockchainGetDCDTTokenRequest x0 x1 x2) = BlockchainGetDCDTTokenRequest"
| "requestKind MessageBlockchainGetBuiltinFunctionNamesRequest = BlockchainGetBuiltinFunctionNamesRequest"
| "requestKind (MessageBlockchainGetAllStateRequest x0) = BlockchainGetAllStateRequest"
| "requestKind (MessageBlockchainGetUserAccountRequest x0) = BlockchainGetUserAccountRequest"
| "requestKind (MessageBlockchainGetCodeRequest x0) = BlockchainGetCodeRequest"
| "requestKind (MessageBlockchainGetShardOfAddressRequest x0) = BlockchainGetShardOfAddressRequest"
| "requestKind (MessageBlockchainIsPayableRequest x0) = BlockchainIsPayableRequest"
| "requestKind (MessageBlockchainIsSmartContractRequest x0) = BlockchainIsSmartContractRequest"
| "requestKind (MessageBlockchainSaveCompiledCodeRequest x0 x1) = BlockchainSaveCompiledCodeRequest"
| "requestKind (MessageBlockchainGetCompiledCodeRequest x0) = BlockchainGetCompiledCodeRequest"

primrec responseKind :: "hookResponse \<Rightarrow> MessageKind" where
  "responseKind (MessageBlockchainNewAddressResponse x0) = BlockchainNewAddressResponse"
| "responseKind (MessageBlockchainGetStorageDataResponse x0) = BlockchainGetStorageDataResponse"
| "responseKind (MessageBlockchainGetBlockhashResponse x0) = BlockchainGetBlockhashResponse"
| "responseKind (MessageBlockchainLastNonceResponse x0) = BlockchainLastNonceResponse"
| "responseKind (MessageBlockchainLastRoundResponse x0) = BlockchainLastRoundResponse"
| "responseKind (MessageBlockchainLastTimeStampResponse x0) = BlockchainLastTimeStampResponse"
| "responseKind (MessageBlockchainLastRandomSeedResponse x0) = BlockchainLastRandomSeedResponse"
| "responseKind (MessageBlockchainLastEpochResponse x0) = BlockchainLastEpochResponse"
| "responseKind (MessageBlockchainGetStateRootHashResponse x0) = BlockchainGetStateRootHashResponse"
| "responseKind (MessageBlockchainCurrentNonceResponse x0) = BlockchainCurrentNonceResponse"
| "responseKind (MessageBlockchainCurrentRoundResponse x0) = BlockchainCurrentRoundResponse"
| "responseKind (MessageBlockchainCurrentTimeStampResponse x0) = BlockchainCurrentTimeStampResponse"
| "responseKind (MessageBlockchainCurrentRandomSeedResponse x0) = BlockchainCurrentRandomSeedResponse"
| "responseKind (MessageBlockchainCurrentEpochResponse x0) = BlockchainCurrentEpochResponse"
| "responseKind (MessageBlockchainProcessBuiltinFunctionResponse x0) = BlockchainProcessBuiltinFunctionResponse"
| "responseKind (MessageBlockchainGetDCDTTokenResponse x0) = BlockchainGetDCDTTokenResponse"
| "responseKind (MessageBlockchainGetBuiltinFunctionNamesResponse x0) = BlockchainGetBuiltinFunctionNamesResponse"
| "responseKind (MessageBlockchainGetAllStateResponse x0) = BlockchainGetAllStateResponse"
| "responseKind (MessageBlockchainGetUserAccountResponse x0) = BlockchainGetUserAccountResponse"
| "responseKind (MessageBlockchainGetCodeResponse x0) = BlockchainGetCodeResponse"
| "responseKind (MessageBlockchainGetShardOfAddressResponse x0) = BlockchainGetShardOfAddressResponse"
| "responseKind (MessageBlockchainIsPayableResponse x0) = BlockchainIsPayableResponse"
| "responseKind (MessageBlockchainIsSmartContractResponse x0) = BlockchainIsSmartContractResponse"
| "responseKind MessageBlockchainSaveCompiledCodeResponse = BlockchainSaveCompiledCodeResponse"
| "responseKind (MessageBlockchainGetCompiledCodeResponse x0 x1) = BlockchainGetCompiledCodeResponse"

primrec structKind :: "body \<Rightarrow> MessageKind" where
  \<comment> \<open>the kind of message a struct is for\<close>
  "structKind PlainMessage = GasScheduleChangeResponse"
| "structKind (MessageInitialize a) = Initialize"
| "structKind MessageStop = Stop"
| "structKind UndefinedMessage = UndefinedRequestOrResponse"
| "structKind (MessageContractDeployRequest i) = ContractDeployRequest"
| "structKind (MessageContractCallRequest i) = ContractCallRequest"
| "structKind (MessageContractResponse out) = ContractResponse"
| "structKind MessageVersionRequest = VersionRequest"
| "structKind (MessageVersionResponse v) = VersionResponse"
| "structKind (MessageGasScheduleChangeRequest m) = GasScheduleChangeRequest"
| "structKind (MessageDiagnoseWaitRequest n) = DiagnoseWaitRequest"
| "structKind MessageDiagnoseWaitResponse = DiagnoseWaitResponse"
| "structKind (HookRequest r) = requestKind r"
| "structKind (HookResponse r) = responseKind r"

lemma creators_typed: "list_all (\<lambda>(k, m). structKind (msgBody m) = k \<and> k < LastKind) messageCreators"
  by (simp add: messageCreators_def creator_defs newMessage_def) (simp add: kind_defs)

lemma creator_of_struct: "b \<noteq> UndefinedMessage \<Longrightarrow> structKind b \<in> fst ` set messageCreators"
proof (cases b)
  case (HookRequest r)
  then show ?thesis by (cases r) (simp_all add: messageCreators_def)
next
  case (HookResponse r)
  then show ?thesis by (cases r) (simp_all add: messageCreators_def)
qed (simp_all add: messageCreators_def)

lemma CreateMessage_struct [simp]: "structKind (msgBody (CreateMessage (structKind b))) = structKind b"
proof (cases "go_get messageCreators (structKind b)")
  case None
  then have "b = UndefinedMessage" using creator_of_struct [of b] by (auto simp: map_of_eq_None_iff)
  with None show ?thesis
    by (simp add: CreateMessage_def SetKind_def createUndefinedMessage_def NewUndefinedMessage_def SetNonce_def newMessage_def)
next
  case (Some m)
  then have "(structKind b, m) \<in> set messageCreators" by (rule map_of_SomeD)
  with creators_typed have "structKind (msgBody m) = structKind b" "structKind b < LastKind" by (auto simp: list_all_iff)
  with Some show ?thesis by (simp add: CreateMessage_def SetKind_def)
qed

subsection \<open>Maps and outputs read back\<close>

lemma foldl_go_set:
  "wf_gomap (m @ n) \<Longrightarrow> foldl (\<lambda>m (k, v). go_set k v m) m n = m @ n"
proof (induction n arbitrary: m)
  case (Cons kv n)
  obtain k v where kv: "kv = (k, v)" by (cases kv)
  with Cons.prems have "go_get m k = None" by (auto simp: wf_gomap_def map_of_eq_None_iff)
  with Cons kv show ?case by (simp add: go_set_absent)
qed simp

lemma foldl_go_set_keyed:
  assumes "wf_gomap m" "\<forall>(k, v) \<in> set m. key (f v) = k \<and> g (f v) = v"
  shows "foldl (\<lambda>m item. go_set (key item) (g item) m) [] (map (f \<circ> snd) m) = m"
proof -
  have "foldl (\<lambda>n item. go_set (key item) (g item) n) acc (map (f \<circ> snd) l) = foldl (\<lambda>n (k, v). go_set k v n) acc l"
    if "\<forall>(k, v) \<in> set l. key (f v) = k \<and> g (f v) = v" for acc l
    using that by (induction l arbitrary: acc) auto
  with assms foldl_go_set [of "[]" m] show ?thesis by simp
qed

definition keyed_account :: "OutputAccount \<Rightarrow> bool" where
  \<comment> \<open>every update is stored under its offset\<close>
  "keyed_account acc \<longleftrightarrow> wf_gomap (StorageUpdates acc) \<and> list_all (\<lambda>(key, update). su_Offset update = key) (StorageUpdates acc)"

definition keyed_output :: "VMOutput \<Rightarrow> bool" where
  \<comment> \<open>every account is stored under its address\<close>
  "keyed_output out \<longleftrightarrow> wf_gomap (OutputAccounts out) \<and>
     list_all (\<lambda>(a, acc). Address acc = a \<and> keyed_account acc) (OutputAccounts out)"

lemma transfer_fields:
  "\<lparr>ot_Value = ot_Value t, ot_GasLimit = ot_GasLimit t, ot_GasLocked = ot_GasLocked t, ot_Data = ot_Data t,
    ot_CallType = ot_CallType t, ot_SenderAddress = ot_SenderAddress t\<rparr> = t"
  by (cases t) simp

lemma account_roundtrip: "keyed_account acc \<Longrightarrow> ConvertToOutputAccount (NewSerializableOutputAccount acc) = acc"
  using foldl_go_set_keyed [of "StorageUpdates acc" su_Offset id id]
  by (simp add: keyed_account_def ConvertToOutputAccount_def NewSerializableOutputAccount_def list_all_iff comp_def split_beta transfer_fields)

lemma output_roundtrip:
  assumes "keyed_output out"
  shows "ConvertToVMOutput (NewSerializableVMOutput (Some out)) = out"
proof -
  have "\<forall>(a, acc) \<in> set (OutputAccounts out).
      sa_Address (NewSerializableOutputAccount acc) = a \<and> ConvertToOutputAccount (NewSerializableOutputAccount acc) = acc"
    using assms by (auto simp: keyed_output_def list_all_iff account_roundtrip) (auto simp: NewSerializableOutputAccount_def)
  with assms foldl_go_set_keyed [of "OutputAccounts out" sa_Address NewSerializableOutputAccount ConvertToOutputAccount]
  show ?thesis
    by (simp add: keyed_output_def ConvertToVMOutput_def NewSerializableVMOutput_def comp_def case_prod_beta')
qed

lemma SerializableMap_lists:
  "map_Keys (NewSerializableMapStringBytes m) = map fst m" "map_Values (NewSerializableMapStringBytes m) = map snd m"
proof -
  have "foldl (\<lambda>s (key, value). s\<lparr>map_Keys := map_Keys s @ [key], map_Values := map_Values s @ [value]\<rparr>) \<lparr>map_Keys = ks, map_Values = vs\<rparr> m =
      \<lparr>map_Keys = ks @ map fst m, map_Values = vs @ map snd m\<rparr>" for ks vs
    by (induction m arbitrary: ks vs) auto
  then show "map_Keys (NewSerializableMapStringBytes m) = map fst m" "map_Values (NewSerializableMapStringBytes m) = map snd m"
    by (simp_all add: NewSerializableMapStringBytes_def)
qed

lemma map_roundtrip:
  assumes "wf_gomap m"
  shows "ConvertToMap (NewSerializableMapStringBytes m) = Some m"
proof -
  have "foldl (\<lambda>n i. go_set (map fst m ! i) (map snd m ! i) n) [] [0..<k] = foldl (\<lambda>n (key, value). go_set key value n) [] (take k m)"
    if "k \<le> length m" for k
    using that by (induction k) (auto simp: take_Suc_conv_app_nth case_prod_beta)
  from this [of "length m"] foldl_go_set [of "[]" m] assms show ?thesis
    by (simp add: ConvertToMap_def SerializableMap_lists)
qed

end
