(* ===== verification/IpcPipes.thy ===== *)
theory IpcPipes
  imports IpcMessages
begin

text \<open>
  Sending and receiving messages over pipes (\<open>sender.go\<close>, \<open>receiver.go\<close> and \<open>messenger.go\<close> of \<open>src/ipc/common\<close>).
  A message is sent as its length and its kind, four bytes each, and its marshalled form.  A pipe is the bytes in it and
  whether its other end has been closed.  The marshalizer and \<open>fmt.Errorf\<close> are the record \<open>ipcLib\<close>; what the
  code relies on of a marshalizer is \<open>survives\<close>, of a single message.
\<close>

record ipcLib =
  Marshal :: "MessageHandler \<Rightarrow> err + bytes"
  Unmarshal :: "MessageHandler \<Rightarrow> bytes \<Rightarrow> err + MessageHandler"  \<comment> \<open>into the message given\<close>
  Errorf :: "string \<Rightarrow> string"

record pipe =
  pipe_bytes :: bytes
  pipe_closed :: bool

datatype 'a reading = Blocks | Failed err pipe | Got 'a pipe  \<comment> \<open>\<open>Blocks\<close>: waits for more bytes\<close>

subsection \<open>Standard library\<close>

definition PutUint32 :: "u32 \<Rightarrow> bytes" where
  "PutUint32 v = map (\<lambda>i. char_of (unat v div 256 ^ i mod 256)) [0, 1, 2, 3]"

definition Uint32 :: "bytes \<Rightarrow> u32" where
  "Uint32 b = of_nat (foldr (\<lambda>c n. of_char c + 256 * n) b 0)"

definition pipe_Write :: "bytes \<Rightarrow> pipe \<Rightarrow> err option \<times> pipe" where
  "pipe_Write b p = (if pipe_closed p then (Some (ErrExternal ''broken pipe''), p) else (None, p\<lparr>pipe_bytes := pipe_bytes p @ b\<rparr>))"

definition ReadFull :: "nat \<Rightarrow> pipe \<Rightarrow> bytes reading" where
  "ReadFull n p =
     (if n \<le> length (pipe_bytes p) then Got (take n (pipe_bytes p)) (p\<lparr>pipe_bytes := drop n (pipe_bytes p)\<rparr>)
      else if pipe_closed p then Failed (ErrExternal (if pipe_bytes p = [] then ''EOF'' else ''unexpected EOF'')) (p\<lparr>pipe_bytes := []\<rparr>)
      else Blocks)"

subsection \<open>Sender and receiver\<close>

definition sendMessageLengthAndKind :: "nat \<Rightarrow> MessageKind \<Rightarrow> pipe \<Rightarrow> err option \<times> pipe" where
  \<comment> \<open>the length is cut to 32 bits\<close>
  "sendMessageLengthAndKind lengthN kind p = pipe_Write (PutUint32 (of_nat lengthN) @ PutUint32 kind) p"

definition sender_Send :: "ipcLib \<Rightarrow> MessageHandler \<Rightarrow> pipe \<Rightarrow> (err + nat) \<times> pipe" where
  "sender_Send lib message p =
     (case Marshal lib message of
        Inl err \<Rightarrow> (Inl err, p)
      | Inr dataBytes \<Rightarrow>
          let lengthN = length dataBytes;
              (err, p) = sendMessageLengthAndKind lengthN (GetKind message) p
          in (case err of
                Some err \<Rightarrow> (Inl err, p)
              | None \<Rightarrow> (case pipe_Write dataBytes p of (Some err, p) \<Rightarrow> (Inl err, p) | (None, p) \<Rightarrow> (Inr lengthN, p))))"

definition receiveMessageLengthAndKind :: "pipe \<Rightarrow> (nat \<times> MessageKind) reading" where
  "receiveMessageLengthAndKind p =
     (case ReadFull 8 p of
        Blocks \<Rightarrow> Blocks
      | Failed err p \<Rightarrow> Failed err p
      | Got buffer p \<Rightarrow> Got (unat (Uint32 (take 4 buffer)), Uint32 (drop 4 buffer)) p)"

definition readMessage :: "ipcLib \<Rightarrow> MessageKind \<Rightarrow> nat \<Rightarrow> pipe \<Rightarrow> MessageHandler reading" where
  "readMessage lib kind lengthN p =
     (case ReadFull lengthN p of
        Blocks \<Rightarrow> Blocks
      | Failed err p \<Rightarrow> Failed err p
      | Got buffer p \<Rightarrow> (case Unmarshal lib (CreateMessage kind) buffer of Inl err \<Rightarrow> Failed err p | Inr message \<Rightarrow> Got message p))"

definition receiver_Receive :: "ipcLib \<Rightarrow> pipe \<Rightarrow> (MessageHandler \<times> nat) reading" where
  \<comment> \<open>waiting for the rest of a message is waiting for the message: nothing else reads the pipe\<close>
  "receiver_Receive lib p =
     (case receiveMessageLengthAndKind p of
        Blocks \<Rightarrow> Blocks
      | Failed err p \<Rightarrow> Failed err p
      | Got (lengthN, kind) p \<Rightarrow>
          (case readMessage lib kind lengthN p of
             Blocks \<Rightarrow> Blocks
           | Failed err p \<Rightarrow> Failed err p
           | Got message p \<Rightarrow> Got (message, lengthN) p))"

subsection \<open>Messenger\<close>

record Messenger =
  messenger_Nonce :: u32

definition messenger_Send :: "ipcLib \<Rightarrow> MessageHandler \<Rightarrow> Messenger \<Rightarrow> pipe \<Rightarrow> err option \<times> Messenger \<times> pipe" where
  "messenger_Send lib message messenger p =
     (let messenger = messenger\<lparr>messenger_Nonce := messenger_Nonce messenger + 1\<rparr>;
          message = SetNonce (messenger_Nonce messenger) message;
          (result, p) = sender_Send lib message p
      in (case result of Inl err \<Rightarrow> Some err | Inr _ \<Rightarrow> None, messenger, p))"

definition messenger_Receive :: "ipcLib \<Rightarrow> Messenger \<Rightarrow> pipe \<Rightarrow> ((ipcError + MessageHandler) \<times> Messenger \<times> pipe) option" where
  \<comment> \<open>\<open>None\<close>: blocks\<close>
  "messenger_Receive lib messenger p =
     (case receiver_Receive lib p of
        Blocks \<Rightarrow> None
      | Failed err p \<Rightarrow> Some (Inl (PlainError err), messenger, p)
      | Got (message, lengthN) p \<Rightarrow>
          let messageNonce = message_GetNonce message
          in if messageNonce \<noteq> messenger_Nonce messenger + 1 then Some (Inl ErrInvalidMessageNonce, messenger, p)
             else Some (Inr message, messenger\<lparr>messenger_Nonce := messageNonce\<rparr>, p))"

definition messenger_ResetDialogue :: "Messenger \<Rightarrow> Messenger" where
  "messenger_ResetDialogue messenger = messenger\<lparr>messenger_Nonce := 0\<rparr>"

subsection \<open>Frames\<close>

definition wellTyped :: "MessageHandler \<Rightarrow> bool" where
  \<comment> \<open>the kind is that of the struct\<close>
  "wellTyped m \<longleftrightarrow> Kind m = structKind (msgBody m)"

definition survives :: "ipcLib \<Rightarrow> MessageHandler \<Rightarrow> bool" where
  \<comment> \<open>a message can be marshalled to less than 4 GiB, and unmarshalling fills a struct of the same type with it\<close>
  "survives lib m \<longleftrightarrow>
     (case Marshal lib m of
        Inl _ \<Rightarrow> False
      | Inr b \<Rightarrow> length b < 2 ^ 32 \<and>
          (\<forall>target. structKind (msgBody target) = structKind (msgBody m) \<longrightarrow> Unmarshal lib target b = Inr m))"

definition frame_of :: "ipcLib \<Rightarrow> MessageHandler \<Rightarrow> bytes" where
  "frame_of lib m = (case Marshal lib m of Inl _ \<Rightarrow> [] | Inr b \<Rightarrow> PutUint32 (of_nat (length b)) @ PutUint32 (Kind m) @ b)"

lemma length_PutUint32 [simp]: "length (PutUint32 v) = 4"
  by (simp add: PutUint32_def)

lemma digits_256: "(n :: nat) < 2 ^ 32 \<Longrightarrow> n mod 256 + 256 * (n div 256 mod 256 + 256 * (n div 256 ^ 2 mod 256 + 256 * (n div 256 ^ 3 mod 256))) = n"
proof -
  assume "n < 2 ^ 32"
  then have "n div 256 ^ 3 < 256" by (simp add: less_mult_imp_div_less)
  moreover have "n div 256 ^ 2 = n div 256 div 256" "n div 256 ^ 3 = n div 256 div 256 div 256"
    by (simp_all add: div_mult2_eq [symmetric])
  ultimately show ?thesis by (simp add: mult_div_mod_eq add.commute)
qed

lemma Uint32_PutUint32 [simp]: "Uint32 (PutUint32 v) = v"
proof -
  have c: "of_char (char_of (k mod 256) :: char) = k mod 256" for k :: nat by (simp add: of_char_of)
  have lt: "unat v < 2 ^ 32" using unsigned_less [of v] by simp
  have "foldr (\<lambda>c n. of_char c + 256 * n) (PutUint32 v) 0 = unat v"
    using digits_256 [OF lt] lt by (simp add: PutUint32_def c)
  then show ?thesis by (simp add: Uint32_def)
qed

lemma Send_frame:
  assumes "survives lib m" "\<not> pipe_closed p"
  shows "\<exists>n. sender_Send lib m p = (Inr n, p\<lparr>pipe_bytes := pipe_bytes p @ frame_of lib m\<rparr>)"
  using assms by (auto simp: survives_def sender_Send_def sendMessageLengthAndKind_def pipe_Write_def frame_of_def GetKind_def Let_def
      split: sum.splits)

lemma Receive_frame:
  assumes "survives lib m" "wellTyped m" "pipe_bytes p = frame_of lib m @ rest"
  shows "\<exists>n. receiver_Receive lib p = Got (m, n) (p\<lparr>pipe_bytes := rest\<rparr>)"
proof -
  obtain b where b: "Marshal lib m = Inr b" "length b < 2 ^ 32"
    and u: "\<And>target. structKind (msgBody target) = structKind (msgBody m) \<Longrightarrow> Unmarshal lib target b = Inr m"
    using assms(1) by (auto simp: survives_def split: sum.splits)
  have bytes: "pipe_bytes p = PutUint32 (of_nat (length b)) @ PutUint32 (Kind m) @ b @ rest" using assms(3) b by (simp add: frame_of_def)
  have n: "unat (of_nat (length b) :: u32) = length b" using b(2) by (simp add: unat_of_nat)
  have "receiveMessageLengthAndKind p = Got (length b, Kind m) (p\<lparr>pipe_bytes := b @ rest\<rparr>)"
    by (simp add: receiveMessageLengthAndKind_def ReadFull_def bytes n)
  moreover have "Unmarshal lib (CreateMessage (Kind m)) b = Inr m" using u assms(2) by (simp add: wellTyped_def)
  then have "readMessage lib (Kind m) (length b) (p\<lparr>pipe_bytes := b @ rest\<rparr>) = Got m (p\<lparr>pipe_bytes := rest\<rparr>)"
    by (simp add: readMessage_def ReadFull_def)
  ultimately show ?thesis by (simp add: receiver_Receive_def)
qed

lemma Receive_empty: "pipe_bytes p = [] \<Longrightarrow> \<not> pipe_closed p \<Longrightarrow> receiver_Receive lib p = Blocks"
  by (simp add: receiver_Receive_def receiveMessageLengthAndKind_def ReadFull_def)

fun sendAll :: "ipcLib \<Rightarrow> MessageHandler list \<Rightarrow> pipe \<Rightarrow> err option \<times> pipe" where
  "sendAll lib [] p = (None, p)"
| "sendAll lib (m # ms) p = (case sender_Send lib m p of (Inl err, p) \<Rightarrow> (Some err, p) | (Inr _, p) \<Rightarrow> sendAll lib ms p)"

fun receiveAll :: "ipcLib \<Rightarrow> nat \<Rightarrow> pipe \<Rightarrow> (MessageHandler list \<times> pipe) option" where
  "receiveAll lib 0 p = Some ([], p)"
| "receiveAll lib (Suc n) p =
     (case receiver_Receive lib p of
        Got (m, _) p \<Rightarrow> map_option (\<lambda>(ms, p). (m # ms, p)) (receiveAll lib n p)
      | _ \<Rightarrow> None)"

lemma sendAll_frames:
  "\<forall>m \<in> set ms. survives lib m \<Longrightarrow> \<not> pipe_closed p \<Longrightarrow>
    sendAll lib ms p = (None, p\<lparr>pipe_bytes := pipe_bytes p @ concat (map (frame_of lib) ms)\<rparr>)"
proof (induction ms arbitrary: p)
  case (Cons m ms)
  obtain n where "sender_Send lib m p = (Inr n, p\<lparr>pipe_bytes := pipe_bytes p @ frame_of lib m\<rparr>)"
    using Send_frame [of lib m p] Cons.prems by auto
  with Cons show ?case by simp
qed simp

lemma receiveAll_frames:
  "\<forall>m \<in> set ms. survives lib m \<and> wellTyped m \<Longrightarrow> pipe_bytes p = concat (map (frame_of lib) ms) @ rest \<Longrightarrow>
    receiveAll lib (length ms) p = Some (ms, p\<lparr>pipe_bytes := rest\<rparr>)"
proof (induction ms arbitrary: p)
  case (Cons m ms)
  obtain n where "receiver_Receive lib p = Got (m, n) (p\<lparr>pipe_bytes := concat (map (frame_of lib) ms) @ rest\<rparr>)"
    using Receive_frame [of lib m p] Cons.prems by fastforce
  with Cons show ?case by simp
next
  case Nil
  then show ?case by (cases p) simp
qed

text \<open>
  C21: messages survive the pipe.  Any sequence of messages that is sent over an open and empty pipe is
  received in the same order and unchanged, message by message, and what was in the pipe behind them is left there: the
  lengths and kinds in the frames tell the receiver where a message ends and which struct to fill.  This holds for messages that \<open>survive\<close> the
  marshalizer, a library: marshalling succeeds, gives less than \<open>2 ^ 32\<close> bytes, and unmarshalling into the struct of the message's
  kind gives the message back.  Not all messages do: JSON cannot read the arguments of the VM, and the
  length of a message of 4 GiB or more is cut.
\<close>

theorem pipe_roundtrip:
  assumes "\<forall>m \<in> set ms. wellTyped m \<and> survives lib m" "\<not> pipe_closed p" "pipe_bytes p = []"
  shows "\<exists>q. sendAll lib ms p = (None, q) \<and>
    receiveAll lib (length ms) (q\<lparr>pipe_bytes := pipe_bytes q @ later\<rparr>) = Some (ms, q\<lparr>pipe_bytes := later\<rparr>)"
  using sendAll_frames [of ms lib p] receiveAll_frames [of ms lib _ later] assms by simp

definition listLib :: "MessageHandler list \<Rightarrow> ipcLib" where
  \<comment> \<open>a marshalizer for the messages of a list, which writes the position of a message\<close>
  "listLib ms = \<lparr>
     Marshal = (\<lambda>m. if m \<in> set ms then Inr (replicate (length (takeWhile (\<lambda>x. x \<noteq> m) ms)) (CHR 0x00)) else Inl (ErrExternal ''marshal'')),
     Unmarshal = (\<lambda>t b. if length b < length ms then Inr (ms ! length b) else Inl (ErrExternal ''unmarshal'')),
     Errorf = id\<rparr>"

lemma listLib_survives: "m \<in> set ms \<Longrightarrow> length ms < 2 ^ 32 \<Longrightarrow> survives (listLib ms) m"
proof -
  assume m: "m \<in> set ms" and len: "length ms < 2 ^ 32"
  let ?i = "length (takeWhile (\<lambda>x. x \<noteq> m) ms)"
  have i: "?i < length ms" using m by (induction ms) auto
  then have "ms ! ?i = m" using nth_length_takeWhile [of "\<lambda>x. x \<noteq> m" ms] by simp
  with m len i show ?thesis by (simp add: survives_def listLib_def)
qed

lemmas control_defs = newMessage_def NewMessageInitialize_def NewMessageStop_def NewUndefinedMessage_def
  NewMessageContractDeployRequest_def NewMessageContractCallRequest_def NewMessageContractResponse_def NewMessageVersionRequest_def
  NewMessageVersionResponse_def NewMessageGasScheduleChangeRequest_def NewGasScheduleChangeResponse_def
  NewMessageDiagnoseWaitRequest_def NewMessageDiagnoseWaitResponse_def

theorem pipe_roundtrip_witness:
  "\<exists>q. sendAll (listLib [NewMessageVersionRequest, NewMessageStop]) [NewMessageStop, NewMessageVersionRequest, NewMessageStop]
      \<lparr>pipe_bytes = [], pipe_closed = False\<rparr> = (None, q) \<and>
    receiveAll (listLib [NewMessageVersionRequest, NewMessageStop]) 3 (q\<lparr>pipe_bytes := pipe_bytes q @ ''next''\<rparr>) =
      Some ([NewMessageStop, NewMessageVersionRequest, NewMessageStop], q\<lparr>pipe_bytes := ''next''\<rparr>)"
proof -
  have "\<forall>m \<in> set [NewMessageStop, NewMessageVersionRequest, NewMessageStop]. wellTyped m \<and> survives (listLib [NewMessageVersionRequest, NewMessageStop]) m"
    by (simp add: listLib_survives) (simp add: wellTyped_def control_defs)
  from pipe_roundtrip [OF this, of "\<lparr>pipe_bytes = [], pipe_closed = False\<rparr>"] show ?thesis by (simp add: numeral_3_eq_3)
qed

end
