(* ===== verification/IpcGateway.thy ===== *)
theory IpcGateway
  imports IpcPipes ContractPrograms
begin

text \<open>
  The blockchain hook across the two processes.  In the VM, the hook that the host calls is a gateway
  (\<open>src/ipc/vmpart/blockchainGateway.go\<close>) that sends every call to the node as a message; the node answers it with
  its own hook (\<open>src/ipc/nodepart/blockchainRepliers.go\<close>).  Both are hooks for the host: the record \<open>BlockchainHook\<close>, and
  \<open>envOf\<close>, the environment of the host that has it.  The history of the node is the list of hook calls that changed it.
\<close>

record BlockchainHook =
  bh_NewAddress :: "bytes \<Rightarrow> u64 \<Rightarrow> bytes \<Rightarrow> bytes \<times> err option"
  bh_GetStorageData :: "hookEvent list \<Rightarrow> bytes \<Rightarrow> bytes \<Rightarrow> bytes \<times> u32 \<times> err option"
  bh_GetBlockhash :: "u64 \<Rightarrow> bytes \<times> err option"
  bh_LastNonce :: u64
  bh_LastRound :: u64
  bh_LastTimeStamp :: u64
  bh_LastRandomSeed :: bytes
  bh_LastEpoch :: u32
  bh_GetStateRootHash :: bytes
  bh_CurrentNonce :: u64
  bh_CurrentRound :: u64
  bh_CurrentTimeStamp :: u64
  bh_CurrentRandomSeed :: bytes
  bh_CurrentEpoch :: u32
  bh_ProcessBuiltInFunction :: "hookEvent list \<Rightarrow> ContractCallInput \<Rightarrow> VMOutput option \<times> err option"
  bh_GetDCDTToken :: "hookEvent list \<Rightarrow> bytes \<Rightarrow> bytes \<Rightarrow> u64 \<Rightarrow> DCDigitalToken option \<times> err option"
  bh_GetBuiltinFunctionNames :: FunctionNames
  bh_GetAllState :: "hookEvent list \<Rightarrow> bytes \<Rightarrow> (bytes, bytes) gomap \<times> err option"
  bh_GetUserAccount :: "hookEvent list \<Rightarrow> bytes \<Rightarrow> userAccount option \<times> err option"
  bh_GetCode :: "userAccount \<Rightarrow> bytes"
  bh_GetShardOfAddress :: "bytes \<Rightarrow> u32"
  bh_IsSmartContract :: "bytes \<Rightarrow> bool"
  bh_IsPayable :: "hookEvent list \<Rightarrow> bytes \<Rightarrow> bytes \<Rightarrow> bool \<times> err option"
  bh_GetCompiledCode :: "hookEvent list \<Rightarrow> bytes \<Rightarrow> bool \<times> bytes"

definition orError :: "'a \<times> err option \<Rightarrow> err + 'a" where
  "orError r = (case snd r of Some err \<Rightarrow> Inl err | None \<Rightarrow> Inr (fst r))"

definition envOf :: "env \<Rightarrow> BlockchainHook \<Rightarrow> env" where
  \<comment> \<open>the environment with this hook; the host looks at the output of a built-in function only when there is no error, and
    not at the error of \<open>GetStorageData\<close>\<close>
  "envOf e blockchain = e\<lparr>
     hook_GetUserAccount := (\<lambda>log a. orError (bh_GetUserAccount blockchain log a)),
     hook_GetCode := bh_GetCode blockchain,
     hook_GetStorageData := (\<lambda>log a k. fst (bh_GetStorageData blockchain log a k)),
     hook_NewAddress := (\<lambda>a n t. orError (bh_NewAddress blockchain a n t)),
     hook_GetShardOfAddress := bh_GetShardOfAddress blockchain,
     hook_IsSmartContract := bh_IsSmartContract blockchain,
     hook_IsPayable := (\<lambda>log a. orError (bh_IsPayable blockchain log [] a)),
     hook_GetBlockhash := (\<lambda>n. orError (bh_GetBlockhash blockchain n)),
     hook_GetDCDTToken := (\<lambda>log a t n. orError (bh_GetDCDTToken blockchain log a t n)),
     hook_CurrentTimeStamp := bh_CurrentTimeStamp blockchain, hook_CurrentNonce := bh_CurrentNonce blockchain,
     hook_CurrentRound := bh_CurrentRound blockchain, hook_CurrentEpoch := bh_CurrentEpoch blockchain,
     hook_CurrentRandomSeed := bh_CurrentRandomSeed blockchain, hook_LastTimeStamp := bh_LastTimeStamp blockchain,
     hook_LastNonce := bh_LastNonce blockchain, hook_LastRound := bh_LastRound blockchain,
     hook_LastEpoch := bh_LastEpoch blockchain, hook_LastRandomSeed := bh_LastRandomSeed blockchain,
     hook_GetStateRootHash := bh_GetStateRootHash blockchain,
     hook_GetCompiledCode := (\<lambda>log h. case bh_GetCompiledCode blockchain log h of (found, code) \<Rightarrow> if found then Some code else None),
     hook_ProcessBuiltInFunction := (\<lambda>log i. case bh_ProcessBuiltInFunction blockchain log i of
       (_, Some err) \<Rightarrow> (Some err, None) | (out, None) \<Rightarrow> (None, out))\<rparr>"

subsection \<open>The gateway\<close>

definition asError :: "ipcError \<Rightarrow> err" where "asError e = ErrExternal (ipc_Error e)"

type_synonym 's channel = "MessageHandler \<Rightarrow> 's \<Rightarrow> (ipcError + MessageHandler) \<times> 's"
  \<comment> \<open>\<open>SendHookCallRequest\<close> of the messenger: an answer for the request, and what the request does to the state behind it\<close>

definition gateway_NewAddress :: "ipcLib \<Rightarrow> 's channel \<Rightarrow> bytes \<Rightarrow> u64 \<Rightarrow> bytes \<Rightarrow> 's \<Rightarrow> (bytes \<times> err option) option \<times> 's" where
  "gateway_NewAddress lib send creatorAddress creatorNonce vmTypeArg s =
     (case send (NewMessageBlockchainNewAddressRequest creatorAddress creatorNonce vmTypeArg) s of (reply, s) \<Rightarrow> (case reply of
        Inl err \<Rightarrow> Some ([], Some (asError err))
      | Inr rawResponse \<Rightarrow>
          if GetKind rawResponse \<noteq> BlockchainNewAddressResponse then Some ([], Some (asError ErrBadHookResponseFromNode))
          else (case msgBody rawResponse of
                  HookResponse (MessageBlockchainNewAddressResponse res) \<Rightarrow> Some (res, GetError (Errorf lib) rawResponse)
                | _ \<Rightarrow> None), s))"

definition gateway_GetStorageData :: "ipcLib \<Rightarrow> 's channel \<Rightarrow> bytes \<Rightarrow> bytes \<Rightarrow> 's \<Rightarrow> (bytes \<times> u32 \<times> err option) option \<times> 's" where
  "gateway_GetStorageData lib send address index s =
     (case send (NewMessageBlockchainGetStorageDataRequest address index) s of (reply, s) \<Rightarrow> (case reply of
        Inl err \<Rightarrow> Some ([], 0, Some (asError err))
      | Inr rawResponse \<Rightarrow>
          if GetKind rawResponse \<noteq> BlockchainGetStorageDataResponse then Some ([], 0, Some (asError ErrBadHookResponseFromNode))
          else (case msgBody rawResponse of
                  HookResponse (MessageBlockchainGetStorageDataResponse data) \<Rightarrow> Some (data, 0, GetError (Errorf lib) rawResponse)
                | _ \<Rightarrow> None), s))"

definition gateway_GetBlockhash :: "ipcLib \<Rightarrow> 's channel \<Rightarrow> u64 \<Rightarrow> 's \<Rightarrow> (bytes \<times> err option) option \<times> 's" where
  "gateway_GetBlockhash lib send nonce s =
     (case send (NewMessageBlockchainGetBlockhashRequest nonce) s of (reply, s) \<Rightarrow> (case reply of
        Inl err \<Rightarrow> Some ([], Some (asError err))
      | Inr rawResponse \<Rightarrow>
          if GetKind rawResponse \<noteq> BlockchainGetBlockhashResponse then Some ([], Some (asError ErrBadHookResponseFromNode))
          else (case msgBody rawResponse of
                  HookResponse (MessageBlockchainGetBlockhashResponse res) \<Rightarrow> Some (res, GetError (Errorf lib) rawResponse)
                | _ \<Rightarrow> None), s))"

definition gateway_LastNonce :: "'s channel \<Rightarrow> 's \<Rightarrow> u64 option \<times> 's" where
  "gateway_LastNonce send s =
     (case send NewMessageBlockchainLastNonceRequest s of (reply, s) \<Rightarrow> (case reply of
        Inl err \<Rightarrow> Some 0
      | Inr rawResponse \<Rightarrow>
          if GetKind rawResponse \<noteq> BlockchainLastNonceResponse then Some 0
          else (case msgBody rawResponse of
                  HookResponse (MessageBlockchainLastNonceResponse res) \<Rightarrow> Some res
                | _ \<Rightarrow> None), s))"

definition gateway_LastRound :: "'s channel \<Rightarrow> 's \<Rightarrow> u64 option \<times> 's" where
  "gateway_LastRound send s =
     (case send NewMessageBlockchainLastRoundRequest s of (reply, s) \<Rightarrow> (case reply of
        Inl err \<Rightarrow> Some 0
      | Inr rawResponse \<Rightarrow>
          if GetKind rawResponse \<noteq> BlockchainLastRoundResponse then Some 0
          else (case msgBody rawResponse of
                  HookResponse (MessageBlockchainLastRoundResponse res) \<Rightarrow> Some res
                | _ \<Rightarrow> None), s))"

definition gateway_LastTimeStamp :: "'s channel \<Rightarrow> 's \<Rightarrow> u64 option \<times> 's" where
  "gateway_LastTimeStamp send s =
     (case send NewMessageBlockchainLastTimeStampRequest s of (reply, s) \<Rightarrow> (case reply of
        Inl err \<Rightarrow> Some 0
      | Inr rawResponse \<Rightarrow>
          if GetKind rawResponse \<noteq> BlockchainLastTimeStampResponse then Some 0
          else (case msgBody rawResponse of
                  HookResponse (MessageBlockchainLastTimeStampResponse res) \<Rightarrow> Some res
                | _ \<Rightarrow> None), s))"

definition gateway_LastRandomSeed :: "'s channel \<Rightarrow> 's \<Rightarrow> bytes option \<times> 's" where
  "gateway_LastRandomSeed send s =
     (case send NewMessageBlockchainLastRandomSeedRequest s of (reply, s) \<Rightarrow> (case reply of
        Inl err \<Rightarrow> Some []
      | Inr rawResponse \<Rightarrow>
          if GetKind rawResponse \<noteq> BlockchainLastRandomSeedResponse then Some []
          else (case msgBody rawResponse of
                  HookResponse (MessageBlockchainLastRandomSeedResponse res) \<Rightarrow> Some res
                | _ \<Rightarrow> None), s))"

definition gateway_LastEpoch :: "'s channel \<Rightarrow> 's \<Rightarrow> u32 option \<times> 's" where
  "gateway_LastEpoch send s =
     (case send NewMessageBlockchainLastEpochRequest s of (reply, s) \<Rightarrow> (case reply of
        Inl err \<Rightarrow> Some 0
      | Inr rawResponse \<Rightarrow>
          if GetKind rawResponse \<noteq> BlockchainLastEpochResponse then Some 0
          else (case msgBody rawResponse of
                  HookResponse (MessageBlockchainLastEpochResponse res) \<Rightarrow> Some res
                | _ \<Rightarrow> None), s))"

definition gateway_GetStateRootHash :: "'s channel \<Rightarrow> 's \<Rightarrow> bytes option \<times> 's" where
  "gateway_GetStateRootHash send s =
     (case send NewMessageBlockchainGetStateRootHashRequest s of (reply, s) \<Rightarrow> (case reply of
        Inl err \<Rightarrow> Some []
      | Inr rawResponse \<Rightarrow>
          if GetKind rawResponse \<noteq> BlockchainGetStateRootHashResponse then Some []
          else (case msgBody rawResponse of
                  HookResponse (MessageBlockchainGetStateRootHashResponse res) \<Rightarrow> Some res
                | _ \<Rightarrow> None), s))"

definition gateway_CurrentNonce :: "'s channel \<Rightarrow> 's \<Rightarrow> u64 option \<times> 's" where
  "gateway_CurrentNonce send s =
     (case send NewMessageBlockchainCurrentNonceRequest s of (reply, s) \<Rightarrow> (case reply of
        Inl err \<Rightarrow> Some 0
      | Inr rawResponse \<Rightarrow>
          if GetKind rawResponse \<noteq> BlockchainCurrentNonceResponse then Some 0
          else (case msgBody rawResponse of
                  HookResponse (MessageBlockchainCurrentNonceResponse res) \<Rightarrow> Some res
                | _ \<Rightarrow> None), s))"

definition gateway_CurrentRound :: "'s channel \<Rightarrow> 's \<Rightarrow> u64 option \<times> 's" where
  "gateway_CurrentRound send s =
     (case send NewMessageBlockchainCurrentRoundRequest s of (reply, s) \<Rightarrow> (case reply of
        Inl err \<Rightarrow> Some 0
      | Inr rawResponse \<Rightarrow>
          if GetKind rawResponse \<noteq> BlockchainCurrentRoundResponse then Some 0
          else (case msgBody rawResponse of
                  HookResponse (MessageBlockchainCurrentRoundResponse res) \<Rightarrow> Some res
                | _ \<Rightarrow> None), s))"

definition gateway_CurrentTimeStamp :: "'s channel \<Rightarrow> 's \<Rightarrow> u64 option \<times> 's" where
  "gateway_CurrentTimeStamp send s =
     (case send NewMessageBlockchainCurrentTimeStampRequest s of (reply, s) \<Rightarrow> (case reply of
        Inl err \<Rightarrow> Some 0
      | Inr rawResponse \<Rightarrow>
          if GetKind rawResponse \<noteq> BlockchainCurrentTimeStampResponse then Some 0
          else (case msgBody rawResponse of
                  HookResponse (MessageBlockchainCurrentTimeStampResponse res) \<Rightarrow> Some res
                | _ \<Rightarrow> None), s))"

definition gateway_CurrentRandomSeed :: "'s channel \<Rightarrow> 's \<Rightarrow> bytes option \<times> 's" where
  "gateway_CurrentRandomSeed send s =
     (case send NewMessageBlockchainCurrentRandomSeedRequest s of (reply, s) \<Rightarrow> (case reply of
        Inl err \<Rightarrow> Some []
      | Inr rawResponse \<Rightarrow>
          if GetKind rawResponse \<noteq> BlockchainCurrentRandomSeedResponse then Some []
          else (case msgBody rawResponse of
                  HookResponse (MessageBlockchainCurrentRandomSeedResponse res) \<Rightarrow> Some res
                | _ \<Rightarrow> None), s))"

definition gateway_CurrentEpoch :: "'s channel \<Rightarrow> 's \<Rightarrow> u32 option \<times> 's" where
  "gateway_CurrentEpoch send s =
     (case send NewMessageBlockchainCurrentEpochRequest s of (reply, s) \<Rightarrow> (case reply of
        Inl err \<Rightarrow> Some 0
      | Inr rawResponse \<Rightarrow>
          if GetKind rawResponse \<noteq> BlockchainCurrentEpochResponse then Some 0
          else (case msgBody rawResponse of
                  HookResponse (MessageBlockchainCurrentEpochResponse res) \<Rightarrow> Some res
                | _ \<Rightarrow> None), s))"

definition gateway_ProcessBuiltInFunction :: "ipcLib \<Rightarrow> 's channel \<Rightarrow> ContractCallInput \<Rightarrow> 's \<Rightarrow> (VMOutput option \<times> err option) option \<times> 's" where
  "gateway_ProcessBuiltInFunction lib send callInput s =
     (case send (NewMessageBlockchainProcessBuiltinFunctionRequest callInput) s of (reply, s) \<Rightarrow> (case reply of
        Inl err \<Rightarrow> Some (None, Some (asError err))
      | Inr rawResponse \<Rightarrow>
          if GetKind rawResponse \<noteq> BlockchainProcessBuiltinFunctionResponse then Some (None, Some (asError ErrBadHookResponseFromNode))
          else (case msgBody rawResponse of
                  HookResponse (MessageBlockchainProcessBuiltinFunctionResponse (Some vmOutput)) \<Rightarrow> Some (Some (ConvertToVMOutput vmOutput), GetError (Errorf lib) rawResponse)
                | _ \<Rightarrow> None), s))"

definition gateway_GetDCDTToken :: "ipcLib \<Rightarrow> 's channel \<Rightarrow> bytes \<Rightarrow> bytes \<Rightarrow> u64 \<Rightarrow> 's \<Rightarrow> (DCDigitalToken option \<times> err option) option \<times> 's" where
  "gateway_GetDCDTToken lib send address tokenID nonce s =
     (case send (NewMessageBlockchainGetDCDTTokenRequest address tokenID nonce) s of (reply, s) \<Rightarrow> (case reply of
        Inl err \<Rightarrow> Some (None, Some (asError err))
      | Inr rawResponse \<Rightarrow>
          if GetKind rawResponse \<noteq> BlockchainGetDCDTTokenResponse then Some (None, Some (asError ErrBadHookResponseFromNode))
          else (case msgBody rawResponse of
                  HookResponse (MessageBlockchainGetDCDTTokenResponse dcdtData) \<Rightarrow> Some (dcdtData, GetError (Errorf lib) rawResponse)
                | _ \<Rightarrow> None), s))"

definition gateway_GetBuiltinFunctionNames :: "'s channel \<Rightarrow> 's \<Rightarrow> FunctionNames option \<times> 's" where
  "gateway_GetBuiltinFunctionNames send s =
     (case send NewMessageBlockchainGetBuiltinFunctionNamesRequest s of (reply, s) \<Rightarrow> (case reply of
        Inl err \<Rightarrow> Some {}
      | Inr rawResponse \<Rightarrow>
          if GetKind rawResponse \<noteq> BlockchainGetBuiltinFunctionNamesResponse then Some {}
          else (case msgBody rawResponse of
                  HookResponse (MessageBlockchainGetBuiltinFunctionNamesResponse functionNames) \<Rightarrow> Some functionNames
                | _ \<Rightarrow> None), s))"

definition gateway_GetAllState :: "ipcLib \<Rightarrow> 's channel \<Rightarrow> bytes \<Rightarrow> 's \<Rightarrow> ((bytes, bytes) gomap \<times> err option) option \<times> 's" where
  "gateway_GetAllState lib send address s =
     (case send (NewMessageBlockchainGetAllStateRequest address) s of (reply, s) \<Rightarrow> (case reply of
        Inl err \<Rightarrow> Some ([], Some (asError err))
      | Inr rawResponse \<Rightarrow>
          if GetKind rawResponse \<noteq> BlockchainGetAllStateResponse then Some ([], Some (asError ErrBadHookResponseFromNode))
          else (case msgBody rawResponse of
                  HookResponse (MessageBlockchainGetAllStateResponse (Some state)) \<Rightarrow> map_option (\<lambda>m. (m, GetError (Errorf lib) rawResponse)) (ConvertToMap state)
                | _ \<Rightarrow> None), s))"

definition gateway_GetUserAccount :: "ipcLib \<Rightarrow> 's channel \<Rightarrow> bytes \<Rightarrow> 's \<Rightarrow> (userAccount option \<times> err option) option \<times> 's" where
  "gateway_GetUserAccount lib send address s =
     (case send (NewMessageBlockchainGetUserAccountRequest address) s of (reply, s) \<Rightarrow> (case reply of
        Inl err \<Rightarrow> Some (None, Some (asError err))
      | Inr rawResponse \<Rightarrow>
          if GetKind rawResponse \<noteq> BlockchainGetUserAccountResponse then Some (None, Some (asError ErrBadHookResponseFromNode))
          else (case msgBody rawResponse of
                  HookResponse (MessageBlockchainGetUserAccountResponse account) \<Rightarrow> Some (map_option accountHandler account, GetError (Errorf lib) rawResponse)
                | _ \<Rightarrow> None), s))"

definition gateway_GetCode :: "'s channel \<Rightarrow> userAccount \<Rightarrow> 's \<Rightarrow> bytes option \<times> 's" where
  "gateway_GetCode send account s =
     (case send (NewMessageBlockchainGetCodeRequest (accountOf account)) s of (reply, s) \<Rightarrow> (case reply of
        Inl err \<Rightarrow> Some []
      | Inr rawResponse \<Rightarrow>
          if GetKind rawResponse \<noteq> BlockchainGetCodeResponse then Some []
          else (case msgBody rawResponse of
                  HookResponse (MessageBlockchainGetCodeResponse code) \<Rightarrow> Some code
                | _ \<Rightarrow> None), s))"

definition gateway_GetShardOfAddress :: "'s channel \<Rightarrow> bytes \<Rightarrow> 's \<Rightarrow> u32 option \<times> 's" where
  "gateway_GetShardOfAddress send address s =
     (case send (NewMessageBlockchainGetShardOfAddressRequest address) s of (reply, s) \<Rightarrow> (case reply of
        Inl err \<Rightarrow> Some 0
      | Inr rawResponse \<Rightarrow>
          if GetKind rawResponse \<noteq> BlockchainGetShardOfAddressResponse then Some 0
          else (case msgBody rawResponse of
                  HookResponse (MessageBlockchainGetShardOfAddressResponse shard) \<Rightarrow> Some shard
                | _ \<Rightarrow> None), s))"

definition gateway_IsPayable :: "ipcLib \<Rightarrow> 's channel \<Rightarrow> bytes \<Rightarrow> bytes \<Rightarrow> 's \<Rightarrow> (bool \<times> err option) option \<times> 's" where
  "gateway_IsPayable lib send sender rcvAddress s =
     (case send (NewMessageBlockchainIsPayableRequest rcvAddress) s of (reply, s) \<Rightarrow> (case reply of
        Inl err \<Rightarrow> Some (False, Some (asError err))
      | Inr rawResponse \<Rightarrow>
          if GetKind rawResponse \<noteq> BlockchainIsPayableResponse then Some (False, Some (asError ErrBadHookResponseFromNode))
          else (case msgBody rawResponse of
                  HookResponse (MessageBlockchainIsPayableResponse res) \<Rightarrow> Some (res, GetError (Errorf lib) rawResponse)
                | _ \<Rightarrow> None), s))"

definition gateway_IsSmartContract :: "'s channel \<Rightarrow> bytes \<Rightarrow> 's \<Rightarrow> bool option \<times> 's" where
  "gateway_IsSmartContract send address s =
     (case send (NewMessageBlockchainIsSmartContractRequest address) s of (reply, s) \<Rightarrow> (case reply of
        Inl err \<Rightarrow> Some False
      | Inr rawResponse \<Rightarrow>
          if GetKind rawResponse \<noteq> BlockchainIsSmartContractResponse then Some False
          else (case msgBody rawResponse of
                  HookResponse (MessageBlockchainIsSmartContractResponse res) \<Rightarrow> Some res
                | _ \<Rightarrow> None), s))"

definition gateway_SaveCompiledCode :: "'s channel \<Rightarrow> bytes \<Rightarrow> bytes \<Rightarrow> 's \<Rightarrow> unit option \<times> 's" where
  "gateway_SaveCompiledCode send codeHash code s =
     (case send (NewMessageBlockchainSaveCompiledCodeRequest codeHash code) s of (reply, s) \<Rightarrow> (case reply of Inl err \<Rightarrow> Some () | Inr rawResponse \<Rightarrow> Some (), s))"

definition gateway_GetCompiledCode :: "'s channel \<Rightarrow> bytes \<Rightarrow> 's \<Rightarrow> (bool \<times> bytes) option \<times> 's" where
  "gateway_GetCompiledCode send codeHash s =
     (case send (NewMessageBlockchainGetCompiledCodeRequest codeHash) s of (reply, s) \<Rightarrow> (case reply of
        Inl err \<Rightarrow> Some (False, [])
      | Inr rawResponse \<Rightarrow>
          if GetKind rawResponse \<noteq> BlockchainGetCompiledCodeResponse then Some (False, [])
          else (case msgBody rawResponse of
                  HookResponse (MessageBlockchainGetCompiledCodeResponse found code) \<Rightarrow> Some (found, code)
                | _ \<Rightarrow> None), s))"

lemmas gateway_defs = gateway_NewAddress_def gateway_GetStorageData_def gateway_GetBlockhash_def
  gateway_LastNonce_def gateway_LastRound_def gateway_LastTimeStamp_def gateway_LastRandomSeed_def
  gateway_LastEpoch_def gateway_GetStateRootHash_def gateway_CurrentNonce_def gateway_CurrentRound_def
  gateway_CurrentTimeStamp_def gateway_CurrentRandomSeed_def gateway_CurrentEpoch_def
  gateway_ProcessBuiltInFunction_def gateway_GetDCDTToken_def gateway_GetBuiltinFunctionNames_def
  gateway_GetAllState_def gateway_GetUserAccount_def gateway_GetCode_def gateway_GetShardOfAddress_def
  gateway_IsPayable_def gateway_IsSmartContract_def gateway_SaveCompiledCode_def gateway_GetCompiledCode_def

subsection \<open>The repliers of the node\<close>

definition replyToBlockchainNewAddress :: "BlockchainHook \<Rightarrow> MessageHandler \<Rightarrow> hookEvent list \<Rightarrow> (MessageHandler \<times> hookEvent list) option" where
  "replyToBlockchainNewAddress blockchain request log =
     (case msgBody request of
        HookRequest (MessageBlockchainNewAddressRequest creatorAddress creatorNonce vmTypeArg) \<Rightarrow>
          (case bh_NewAddress blockchain creatorAddress creatorNonce vmTypeArg of (res, err) \<Rightarrow> 
            Some (NewMessageBlockchainNewAddressResponse res err, log @ [AddressRequested creatorAddress creatorNonce vmTypeArg]))
      | _ \<Rightarrow> None)"

definition replyToBlockchainGetStorageData :: "BlockchainHook \<Rightarrow> MessageHandler \<Rightarrow> hookEvent list \<Rightarrow> (MessageHandler \<times> hookEvent list) option" where
  "replyToBlockchainGetStorageData blockchain request log =
     (case msgBody request of
        HookRequest (MessageBlockchainGetStorageDataRequest address index) \<Rightarrow>
          (case bh_GetStorageData blockchain log address index of (data, _, err) \<Rightarrow> Some (NewMessageBlockchainGetStorageDataResponse data err, log))
      | _ \<Rightarrow> None)"

definition replyToBlockchainGetBlockhash :: "BlockchainHook \<Rightarrow> MessageHandler \<Rightarrow> hookEvent list \<Rightarrow> (MessageHandler \<times> hookEvent list) option" where
  "replyToBlockchainGetBlockhash blockchain request log =
     (case msgBody request of
        HookRequest (MessageBlockchainGetBlockhashRequest nonce) \<Rightarrow>
          (case bh_GetBlockhash blockchain nonce of (res, err) \<Rightarrow> Some (NewMessageBlockchainGetBlockhashResponse res err, log))
      | _ \<Rightarrow> None)"

definition replyToBlockchainLastNonce :: "BlockchainHook \<Rightarrow> MessageHandler \<Rightarrow> hookEvent list \<Rightarrow> (MessageHandler \<times> hookEvent list) option" where
  "replyToBlockchainLastNonce blockchain request log = Some (NewMessageBlockchainLastNonceResponse (bh_LastNonce blockchain), log)"

definition replyToBlockchainLastRound :: "BlockchainHook \<Rightarrow> MessageHandler \<Rightarrow> hookEvent list \<Rightarrow> (MessageHandler \<times> hookEvent list) option" where
  "replyToBlockchainLastRound blockchain request log = Some (NewMessageBlockchainLastRoundResponse (bh_LastRound blockchain), log)"

definition replyToBlockchainLastTimeStamp :: "BlockchainHook \<Rightarrow> MessageHandler \<Rightarrow> hookEvent list \<Rightarrow> (MessageHandler \<times> hookEvent list) option" where
  "replyToBlockchainLastTimeStamp blockchain request log = Some (NewMessageBlockchainLastTimeStampResponse (bh_LastTimeStamp blockchain), log)"

definition replyToBlockchainLastRandomSeed :: "BlockchainHook \<Rightarrow> MessageHandler \<Rightarrow> hookEvent list \<Rightarrow> (MessageHandler \<times> hookEvent list) option" where
  "replyToBlockchainLastRandomSeed blockchain request log = Some (NewMessageBlockchainLastRandomSeedResponse (bh_LastRandomSeed blockchain), log)"

definition replyToBlockchainLastEpoch :: "BlockchainHook \<Rightarrow> MessageHandler \<Rightarrow> hookEvent list \<Rightarrow> (MessageHandler \<times> hookEvent list) option" where
  "replyToBlockchainLastEpoch blockchain request log = Some (NewMessageBlockchainLastEpochResponse (bh_LastEpoch blockchain), log)"

definition replyToBlockchainGetStateRootHash :: "BlockchainHook \<Rightarrow> MessageHandler \<Rightarrow> hookEvent list \<Rightarrow> (MessageHandler \<times> hookEvent list) option" where
  "replyToBlockchainGetStateRootHash blockchain request log = Some (NewMessageBlockchainGetStateRootHashResponse (bh_GetStateRootHash blockchain), log)"

definition replyToBlockchainCurrentNonce :: "BlockchainHook \<Rightarrow> MessageHandler \<Rightarrow> hookEvent list \<Rightarrow> (MessageHandler \<times> hookEvent list) option" where
  "replyToBlockchainCurrentNonce blockchain request log = Some (NewMessageBlockchainCurrentNonceResponse (bh_CurrentNonce blockchain), log)"

definition replyToBlockchainCurrentRound :: "BlockchainHook \<Rightarrow> MessageHandler \<Rightarrow> hookEvent list \<Rightarrow> (MessageHandler \<times> hookEvent list) option" where
  "replyToBlockchainCurrentRound blockchain request log = Some (NewMessageBlockchainCurrentRoundResponse (bh_CurrentRound blockchain), log)"

definition replyToBlockchainCurrentTimeStamp :: "BlockchainHook \<Rightarrow> MessageHandler \<Rightarrow> hookEvent list \<Rightarrow> (MessageHandler \<times> hookEvent list) option" where
  "replyToBlockchainCurrentTimeStamp blockchain request log = Some (NewMessageBlockchainCurrentTimeStampResponse (bh_CurrentTimeStamp blockchain), log)"

definition replyToBlockchainCurrentRandomSeed :: "BlockchainHook \<Rightarrow> MessageHandler \<Rightarrow> hookEvent list \<Rightarrow> (MessageHandler \<times> hookEvent list) option" where
  "replyToBlockchainCurrentRandomSeed blockchain request log = Some (NewMessageBlockchainCurrentRandomSeedResponse (bh_CurrentRandomSeed blockchain), log)"

definition replyToBlockchainCurrentEpoch :: "BlockchainHook \<Rightarrow> MessageHandler \<Rightarrow> hookEvent list \<Rightarrow> (MessageHandler \<times> hookEvent list) option" where
  "replyToBlockchainCurrentEpoch blockchain request log = Some (NewMessageBlockchainCurrentEpochResponse (bh_CurrentEpoch blockchain), log)"

definition replyToBlockchainProcessBuiltinFunction :: "BlockchainHook \<Rightarrow> MessageHandler \<Rightarrow> hookEvent list \<Rightarrow> (MessageHandler \<times> hookEvent list) option" where
  "replyToBlockchainProcessBuiltinFunction blockchain request log =
     (case msgBody request of
        HookRequest (MessageBlockchainProcessBuiltinFunctionRequest callInput) \<Rightarrow>
          (case bh_ProcessBuiltInFunction blockchain log callInput of
          (vmOutput, err) \<Rightarrow> Some (NewMessageBlockchainProcessBuiltinFunctionResponse vmOutput err, log @ [BuiltInCall callInput]))
      | _ \<Rightarrow> None)"

definition replyToBlockchainGetDCDTToken :: "BlockchainHook \<Rightarrow> MessageHandler \<Rightarrow> hookEvent list \<Rightarrow> (MessageHandler \<times> hookEvent list) option" where
  "replyToBlockchainGetDCDTToken blockchain request log =
     (case msgBody request of
        HookRequest (MessageBlockchainGetDCDTTokenRequest address tokenID nonce) \<Rightarrow>
          (case bh_GetDCDTToken blockchain log address tokenID nonce of (res, err) \<Rightarrow> Some (NewMessageBlockchainGetDCDTTokenResponse res err, log))
      | _ \<Rightarrow> None)"

definition replyToBlockchainGetBuiltinFunctionNames :: "BlockchainHook \<Rightarrow> MessageHandler \<Rightarrow> hookEvent list \<Rightarrow> (MessageHandler \<times> hookEvent list) option" where
  "replyToBlockchainGetBuiltinFunctionNames blockchain request log = Some (NewMessageBlockchainGetBuiltinFunctionNamesResponse (bh_GetBuiltinFunctionNames blockchain), log)"

definition replyToBlockchainGetAllState :: "BlockchainHook \<Rightarrow> MessageHandler \<Rightarrow> hookEvent list \<Rightarrow> (MessageHandler \<times> hookEvent list) option" where
  "replyToBlockchainGetAllState blockchain request log =
     (case msgBody request of
        HookRequest (MessageBlockchainGetAllStateRequest address) \<Rightarrow>
          (case bh_GetAllState blockchain log address of (res, err) \<Rightarrow> Some (NewMessageBlockchainGetAllStateResponse res err, log))
      | _ \<Rightarrow> None)"

definition replyToBlockchainGetUserAccount :: "BlockchainHook \<Rightarrow> MessageHandler \<Rightarrow> hookEvent list \<Rightarrow> (MessageHandler \<times> hookEvent list) option" where
  "replyToBlockchainGetUserAccount blockchain request log =
     (case msgBody request of
        HookRequest (MessageBlockchainGetUserAccountRequest address) \<Rightarrow>
          (case bh_GetUserAccount blockchain log address of
          (account, err) \<Rightarrow>
            (case (account, err) of
               (Some a, None) \<Rightarrow> Some (NewMessageBlockchainGetUserAccountResponse (Some (accountOf a)) err, log)
             | _ \<Rightarrow> Some (NewMessageBlockchainGetUserAccountResponse None err, log)))
      | _ \<Rightarrow> None)"

definition replyToBlockchainGetCode :: "BlockchainHook \<Rightarrow> MessageHandler \<Rightarrow> hookEvent list \<Rightarrow> (MessageHandler \<times> hookEvent list) option" where
  "replyToBlockchainGetCode blockchain request log =
     (case msgBody request of
        HookRequest (MessageBlockchainGetCodeRequest (Some account)) \<Rightarrow>
          Some (NewMessageBlockchainGetCodeResponse (bh_GetCode blockchain (accountHandler account)), log)
      | _ \<Rightarrow> None)"

definition replyToBlockchainGetShardOfAddress :: "BlockchainHook \<Rightarrow> MessageHandler \<Rightarrow> hookEvent list \<Rightarrow> (MessageHandler \<times> hookEvent list) option" where
  "replyToBlockchainGetShardOfAddress blockchain request log =
     (case msgBody request of
        HookRequest (MessageBlockchainGetShardOfAddressRequest address) \<Rightarrow>
          Some (NewMessageBlockchainGetShardOfAddressResponse (bh_GetShardOfAddress blockchain address), log)
      | _ \<Rightarrow> None)"

definition replyToBlockchainIsPayable :: "BlockchainHook \<Rightarrow> MessageHandler \<Rightarrow> hookEvent list \<Rightarrow> (MessageHandler \<times> hookEvent list) option" where
  "replyToBlockchainIsPayable blockchain request log =
     (case msgBody request of
        HookRequest (MessageBlockchainIsPayableRequest address) \<Rightarrow>
          (case bh_IsPayable blockchain log [] address of (res, err) \<Rightarrow> Some (NewMessageBlockchainIsPayableResponse res err, log))
      | _ \<Rightarrow> None)"

definition replyToBlockchainIsSmartContract :: "BlockchainHook \<Rightarrow> MessageHandler \<Rightarrow> hookEvent list \<Rightarrow> (MessageHandler \<times> hookEvent list) option" where
  "replyToBlockchainIsSmartContract blockchain request log =
     (case msgBody request of
        HookRequest (MessageBlockchainIsSmartContractRequest address) \<Rightarrow>
          Some (NewMessageBlockchainIsSmartContractResponse (bh_IsSmartContract blockchain address), log)
      | _ \<Rightarrow> None)"

definition replyToBlockchainSaveCompiledCode :: "BlockchainHook \<Rightarrow> MessageHandler \<Rightarrow> hookEvent list \<Rightarrow> (MessageHandler \<times> hookEvent list) option" where
  "replyToBlockchainSaveCompiledCode blockchain request log =
     (case msgBody request of
        HookRequest (MessageBlockchainSaveCompiledCodeRequest codeHash code) \<Rightarrow>
          Some (NewMessageBlockchainSaveCompiledCodeResponse, log @ [CompiledCodeSaved codeHash code])
      | _ \<Rightarrow> None)"

definition replyToBlockchainGetCompiledCode :: "BlockchainHook \<Rightarrow> MessageHandler \<Rightarrow> hookEvent list \<Rightarrow> (MessageHandler \<times> hookEvent list) option" where
  "replyToBlockchainGetCompiledCode blockchain request log =
     (case msgBody request of
        HookRequest (MessageBlockchainGetCompiledCodeRequest codeHash) \<Rightarrow>
          (case bh_GetCompiledCode blockchain log codeHash of (found, code) \<Rightarrow> Some (NewMessageBlockchainGetCompiledCodeResponse found code, log))
      | _ \<Rightarrow> None)"

definition node_Repliers :: "BlockchainHook \<Rightarrow> (MessageKind, MessageHandler \<Rightarrow> hookEvent list \<Rightarrow> (MessageHandler \<times> hookEvent list) option) gomap" where
  "node_Repliers blockchain = [
     (BlockchainNewAddressRequest, replyToBlockchainNewAddress blockchain),
     (BlockchainGetStorageDataRequest, replyToBlockchainGetStorageData blockchain),
     (BlockchainGetBlockhashRequest, replyToBlockchainGetBlockhash blockchain),
     (BlockchainLastNonceRequest, replyToBlockchainLastNonce blockchain),
     (BlockchainLastRoundRequest, replyToBlockchainLastRound blockchain),
     (BlockchainLastTimeStampRequest, replyToBlockchainLastTimeStamp blockchain),
     (BlockchainLastRandomSeedRequest, replyToBlockchainLastRandomSeed blockchain),
     (BlockchainLastEpochRequest, replyToBlockchainLastEpoch blockchain),
     (BlockchainGetStateRootHashRequest, replyToBlockchainGetStateRootHash blockchain),
     (BlockchainCurrentNonceRequest, replyToBlockchainCurrentNonce blockchain),
     (BlockchainCurrentRoundRequest, replyToBlockchainCurrentRound blockchain),
     (BlockchainCurrentTimeStampRequest, replyToBlockchainCurrentTimeStamp blockchain),
     (BlockchainCurrentRandomSeedRequest, replyToBlockchainCurrentRandomSeed blockchain),
     (BlockchainCurrentEpochRequest, replyToBlockchainCurrentEpoch blockchain),
     (BlockchainProcessBuiltinFunctionRequest, replyToBlockchainProcessBuiltinFunction blockchain),
     (BlockchainGetDCDTTokenRequest, replyToBlockchainGetDCDTToken blockchain),
     (BlockchainGetBuiltinFunctionNamesRequest, replyToBlockchainGetBuiltinFunctionNames blockchain),
     (BlockchainGetAllStateRequest, replyToBlockchainGetAllState blockchain),
     (BlockchainGetUserAccountRequest, replyToBlockchainGetUserAccount blockchain),
     (BlockchainGetCodeRequest, replyToBlockchainGetCode blockchain),
     (BlockchainGetShardOfAddressRequest, replyToBlockchainGetShardOfAddress blockchain),
     (BlockchainIsPayableRequest, replyToBlockchainIsPayable blockchain),
     (BlockchainIsSmartContractRequest, replyToBlockchainIsSmartContract blockchain),
     (BlockchainSaveCompiledCodeRequest, replyToBlockchainSaveCompiledCode blockchain),
     (BlockchainGetCompiledCodeRequest, replyToBlockchainGetCompiledCode blockchain)]"

lemmas replier_defs = replyToBlockchainNewAddress_def replyToBlockchainGetStorageData_def
  replyToBlockchainGetBlockhash_def replyToBlockchainLastNonce_def replyToBlockchainLastRound_def
  replyToBlockchainLastTimeStamp_def replyToBlockchainLastRandomSeed_def replyToBlockchainLastEpoch_def
  replyToBlockchainGetStateRootHash_def replyToBlockchainCurrentNonce_def replyToBlockchainCurrentRound_def
  replyToBlockchainCurrentTimeStamp_def replyToBlockchainCurrentRandomSeed_def replyToBlockchainCurrentEpoch_def
  replyToBlockchainProcessBuiltinFunction_def replyToBlockchainGetDCDTToken_def
  replyToBlockchainGetBuiltinFunctionNames_def replyToBlockchainGetAllState_def replyToBlockchainGetUserAccount_def
  replyToBlockchainGetCode_def replyToBlockchainGetShardOfAddress_def replyToBlockchainIsPayable_def
  replyToBlockchainIsSmartContract_def replyToBlockchainSaveCompiledCode_def replyToBlockchainGetCompiledCode_def

definition node_noopReplier :: MessageHandler where
  "node_noopReplier = CreateMessage UndefinedRequestOrResponse"

definition node_reply :: "BlockchainHook \<Rightarrow> MessageHandler \<Rightarrow> hookEvent list \<Rightarrow> (MessageHandler \<times> hookEvent list) option" where
  \<comment> \<open>\<open>part.Repliers[request.GetKind()](request)\<close>: the table has \<open>LastKind\<close> entries\<close>
  "node_reply blockchain request log =
     (if GetKind request < LastKind
      then (case go_get (node_Repliers blockchain) (GetKind request) of
              Some replier \<Rightarrow> replier request log
            | None \<Rightarrow> Some (node_noopReplier, log))
      else None)"

subsection \<open>A hook call through the node\<close>

definition sendThrough :: "BlockchainHook \<Rightarrow> u32 \<Rightarrow> hookEvent list channel" where
  \<comment> \<open>a hook call when nothing fails: the reply of the node, in a dialogue with this nonce, and the node's new history\<close>
  "sendThrough N nonce request log =
     (case node_reply N (SetNonce (nonce + 1) request) log of
        None \<Rightarrow> (Inl ErrCannotReceiveHookCallResponse, log)
      | Some (response, log) \<Rightarrow> (Inr (SetNonce (nonce + 2) response), log))"

definition wireError :: "ipcLib \<Rightarrow> err option \<Rightarrow> err option" where
  \<comment> \<open>an error is sent as its text\<close>
  "wireError lib err = (case err of None \<Rightarrow> None | Some e \<Rightarrow> if Error e = [] then None else Some (ErrExternal (Errorf lib (Error e))))"

lemma GetError_SetError: "GetError (Errorf lib) (SetNonce n (SetError err (newMessage k b))) = wireError lib err"
  by (cases err) (simp_all add: GetError_def SetError_def SetNonce_def newMessage_def wireError_def)

lemma header_simps [simp]:
  "Kind (newMessage k b) = k" "msgBody (newMessage k b) = b" "Kind (SetNonce n m) = Kind m" "msgBody (SetNonce n m) = msgBody m"
  "Kind (SetError err m) = Kind m" "msgBody (SetError err m) = msgBody m"
  "DialogueNonce (SetNonce n m) = n" "SetNonce n (SetNonce i m) = SetNonce n m"
  by (simp_all add: newMessage_def SetNonce_def SetError_def split: option.split)

lemma node_Repliers_distinct: "distinct (map fst (node_Repliers N))"
  by (simp add: node_Repliers_def kind_defs)

lemma node_Repliers_kinds: "list_all (\<lambda>k. k < LastKind) (map fst (node_Repliers N))"
  by (simp add: node_Repliers_def kind_defs)

lemma replier_found:
  assumes "(Kind m, replier) \<in> set (node_Repliers N)"
  shows "node_reply N m log = replier m log"
proof -
  have "go_get (node_Repliers N) (Kind m) = Some replier" using assms node_Repliers_distinct by simp
  moreover have "Kind m < LastKind" using assms node_Repliers_kinds [of N] by (force simp: list_all_iff)
  ultimately show ?thesis by (simp add: node_reply_def GetKind_def)
qed

lemma replier_of [simp]:
  "Kind m = BlockchainNewAddressRequest \<Longrightarrow> node_reply N m log = replyToBlockchainNewAddress N m log"
  "Kind m = BlockchainGetStorageDataRequest \<Longrightarrow> node_reply N m log = replyToBlockchainGetStorageData N m log"
  "Kind m = BlockchainGetBlockhashRequest \<Longrightarrow> node_reply N m log = replyToBlockchainGetBlockhash N m log"
  "Kind m = BlockchainLastNonceRequest \<Longrightarrow> node_reply N m log = replyToBlockchainLastNonce N m log"
  "Kind m = BlockchainLastRoundRequest \<Longrightarrow> node_reply N m log = replyToBlockchainLastRound N m log"
  "Kind m = BlockchainLastTimeStampRequest \<Longrightarrow> node_reply N m log = replyToBlockchainLastTimeStamp N m log"
  "Kind m = BlockchainLastRandomSeedRequest \<Longrightarrow> node_reply N m log = replyToBlockchainLastRandomSeed N m log"
  "Kind m = BlockchainLastEpochRequest \<Longrightarrow> node_reply N m log = replyToBlockchainLastEpoch N m log"
  "Kind m = BlockchainGetStateRootHashRequest \<Longrightarrow> node_reply N m log = replyToBlockchainGetStateRootHash N m log"
  "Kind m = BlockchainCurrentNonceRequest \<Longrightarrow> node_reply N m log = replyToBlockchainCurrentNonce N m log"
  "Kind m = BlockchainCurrentRoundRequest \<Longrightarrow> node_reply N m log = replyToBlockchainCurrentRound N m log"
  "Kind m = BlockchainCurrentTimeStampRequest \<Longrightarrow> node_reply N m log = replyToBlockchainCurrentTimeStamp N m log"
  "Kind m = BlockchainCurrentRandomSeedRequest \<Longrightarrow> node_reply N m log = replyToBlockchainCurrentRandomSeed N m log"
  "Kind m = BlockchainCurrentEpochRequest \<Longrightarrow> node_reply N m log = replyToBlockchainCurrentEpoch N m log"
  "Kind m = BlockchainProcessBuiltinFunctionRequest \<Longrightarrow> node_reply N m log = replyToBlockchainProcessBuiltinFunction N m log"
  "Kind m = BlockchainGetDCDTTokenRequest \<Longrightarrow> node_reply N m log = replyToBlockchainGetDCDTToken N m log"
  "Kind m = BlockchainGetBuiltinFunctionNamesRequest \<Longrightarrow> node_reply N m log = replyToBlockchainGetBuiltinFunctionNames N m log"
  "Kind m = BlockchainGetAllStateRequest \<Longrightarrow> node_reply N m log = replyToBlockchainGetAllState N m log"
  "Kind m = BlockchainGetUserAccountRequest \<Longrightarrow> node_reply N m log = replyToBlockchainGetUserAccount N m log"
  "Kind m = BlockchainGetCodeRequest \<Longrightarrow> node_reply N m log = replyToBlockchainGetCode N m log"
  "Kind m = BlockchainGetShardOfAddressRequest \<Longrightarrow> node_reply N m log = replyToBlockchainGetShardOfAddress N m log"
  "Kind m = BlockchainIsPayableRequest \<Longrightarrow> node_reply N m log = replyToBlockchainIsPayable N m log"
  "Kind m = BlockchainIsSmartContractRequest \<Longrightarrow> node_reply N m log = replyToBlockchainIsSmartContract N m log"
  "Kind m = BlockchainSaveCompiledCodeRequest \<Longrightarrow> node_reply N m log = replyToBlockchainSaveCompiledCode N m log"
  "Kind m = BlockchainGetCompiledCodeRequest \<Longrightarrow> node_reply N m log = replyToBlockchainGetCompiledCode N m log"
  by (rule replier_found, simp add: node_Repliers_def)+

lemmas through_simps = sendThrough_def gateway_defs request_defs response_defs replier_defs GetKind_def GetError_SetError

lemma through_NewAddress: "gateway_NewAddress lib (sendThrough N n) a b c log = (Some (fst (bh_NewAddress N a b c), wireError lib (snd (bh_NewAddress N a b c))), log @ [AddressRequested a b c])"
  by (simp add: through_simps case_prod_beta)

lemma through_GetStorageData: "gateway_GetStorageData lib (sendThrough N n) a b log = (Some (fst (bh_GetStorageData N log a b), 0, wireError lib (snd (snd (bh_GetStorageData N log a b)))), log)"
  by (simp add: through_simps case_prod_beta)

lemma through_GetBlockhash: "gateway_GetBlockhash lib (sendThrough N n) a log = (Some (fst (bh_GetBlockhash N a), wireError lib (snd (bh_GetBlockhash N a))), log)"
  by (simp add: through_simps case_prod_beta)

lemma through_LastNonce: "gateway_LastNonce (sendThrough N n) log = (Some (bh_LastNonce N), log)"
  by (simp add: through_simps)

lemma through_LastRound: "gateway_LastRound (sendThrough N n) log = (Some (bh_LastRound N), log)"
  by (simp add: through_simps)

lemma through_LastTimeStamp: "gateway_LastTimeStamp (sendThrough N n) log = (Some (bh_LastTimeStamp N), log)"
  by (simp add: through_simps)

lemma through_LastRandomSeed: "gateway_LastRandomSeed (sendThrough N n) log = (Some (bh_LastRandomSeed N), log)"
  by (simp add: through_simps)

lemma through_LastEpoch: "gateway_LastEpoch (sendThrough N n) log = (Some (bh_LastEpoch N), log)"
  by (simp add: through_simps)

lemma through_GetStateRootHash: "gateway_GetStateRootHash (sendThrough N n) log = (Some (bh_GetStateRootHash N), log)"
  by (simp add: through_simps)

lemma through_CurrentNonce: "gateway_CurrentNonce (sendThrough N n) log = (Some (bh_CurrentNonce N), log)"
  by (simp add: through_simps)

lemma through_CurrentRound: "gateway_CurrentRound (sendThrough N n) log = (Some (bh_CurrentRound N), log)"
  by (simp add: through_simps)

lemma through_CurrentTimeStamp: "gateway_CurrentTimeStamp (sendThrough N n) log = (Some (bh_CurrentTimeStamp N), log)"
  by (simp add: through_simps)

lemma through_CurrentRandomSeed: "gateway_CurrentRandomSeed (sendThrough N n) log = (Some (bh_CurrentRandomSeed N), log)"
  by (simp add: through_simps)

lemma through_CurrentEpoch: "gateway_CurrentEpoch (sendThrough N n) log = (Some (bh_CurrentEpoch N), log)"
  by (simp add: through_simps)

lemma through_ProcessBuiltInFunction: "gateway_ProcessBuiltInFunction lib (sendThrough N n) a log = (Some (Some (ConvertToVMOutput (NewSerializableVMOutput (fst (bh_ProcessBuiltInFunction N log a)))), wireError lib (snd (bh_ProcessBuiltInFunction N log a))), log @ [BuiltInCall a])"
  by (simp add: through_simps case_prod_beta)

lemma through_GetDCDTToken: "gateway_GetDCDTToken lib (sendThrough N n) a b c log = (Some (fst (bh_GetDCDTToken N log a b c), wireError lib (snd (bh_GetDCDTToken N log a b c))), log)"
  by (simp add: through_simps case_prod_beta)

lemma through_GetBuiltinFunctionNames: "gateway_GetBuiltinFunctionNames (sendThrough N n) log = (Some (bh_GetBuiltinFunctionNames N), log)"
  by (simp add: through_simps)

lemma through_GetAllState: "wf_gomap (fst (bh_GetAllState N log a)) \<Longrightarrow> gateway_GetAllState lib (sendThrough N n) a log = (Some (fst (bh_GetAllState N log a), wireError lib (snd (bh_GetAllState N log a))), log)"
  by (simp add: through_simps map_roundtrip case_prod_beta)

lemma history_GetAllState: "snd (gateway_GetAllState lib (sendThrough N n) a log) = log"
  by (simp add: through_simps case_prod_beta)

lemma through_GetUserAccount: "gateway_GetUserAccount lib (sendThrough N n) a log = (Some (if snd (bh_GetUserAccount N log a) = None then fst (bh_GetUserAccount N log a) else None, wireError lib (snd (bh_GetUserAccount N log a))), log)"
  by (cases "bh_GetUserAccount N log a") (auto simp: through_simps split: option.splits)

lemma through_GetCode: "gateway_GetCode (sendThrough N n) a log = (Some (bh_GetCode N a), log)"
  by (simp add: through_simps)

lemma through_GetShardOfAddress: "gateway_GetShardOfAddress (sendThrough N n) a log = (Some (bh_GetShardOfAddress N a), log)"
  by (simp add: through_simps)

lemma through_IsPayable: "gateway_IsPayable lib (sendThrough N n) s a log = (Some (fst (bh_IsPayable N log [] a), wireError lib (snd (bh_IsPayable N log [] a))), log)"
  by (simp add: through_simps case_prod_beta)

lemma through_IsSmartContract: "gateway_IsSmartContract (sendThrough N n) a log = (Some (bh_IsSmartContract N a), log)"
  by (simp add: through_simps)

lemma through_SaveCompiledCode: "gateway_SaveCompiledCode (sendThrough N n) a b log = (Some (), log @ [CompiledCodeSaved a b])"
  by (simp add: through_simps)

lemma through_GetCompiledCode: "gateway_GetCompiledCode (sendThrough N n) a log = (Some (bh_GetCompiledCode N log a), log)"
  by (simp add: through_simps case_prod_beta)

lemmas through_hooks = through_NewAddress through_GetStorageData through_GetBlockhash through_LastNonce
  through_LastRound through_LastTimeStamp through_LastRandomSeed through_LastEpoch through_GetStateRootHash
  through_CurrentNonce through_CurrentRound through_CurrentTimeStamp through_CurrentRandomSeed through_CurrentEpoch
  through_ProcessBuiltInFunction through_GetDCDTToken through_GetBuiltinFunctionNames through_GetUserAccount
  through_GetCode through_GetShardOfAddress through_IsPayable through_IsSmartContract through_SaveCompiledCode
  through_GetCompiledCode

subsection \<open>The gateway as the hook of the host\<close>

definition orZero :: "'a \<Rightarrow> 'a option \<Rightarrow> 'a" where
  \<comment> \<open>a value for calls that panic, which is shown not to happen\<close>
  "orZero z r = (case r of None \<Rightarrow> z | Some x \<Rightarrow> x)"

lemma orZero_Some [simp]: "orZero z (Some x) = x"
  by (simp add: orZero_def)

definition NewBlockchainHookGateway :: "ipcLib \<Rightarrow> hookEvent list channel \<Rightarrow> BlockchainHook" where
  \<comment> \<open>the answers of the gateway; the history of the node is the state behind the channel\<close>
  "NewBlockchainHookGateway lib send = \<lparr>
     bh_NewAddress = (\<lambda>a n t. orZero ([], None) (fst (gateway_NewAddress lib send a n t []))),
     bh_GetStorageData = (\<lambda>log a k. orZero ([], 0, None) (fst (gateway_GetStorageData lib send a k log))),
     bh_GetBlockhash = (\<lambda>n. orZero ([], None) (fst (gateway_GetBlockhash lib send n []))),
     bh_LastNonce = orZero 0 (fst (gateway_LastNonce send [])),
     bh_LastRound = orZero 0 (fst (gateway_LastRound send [])),
     bh_LastTimeStamp = orZero 0 (fst (gateway_LastTimeStamp send [])),
     bh_LastRandomSeed = orZero [] (fst (gateway_LastRandomSeed send [])),
     bh_LastEpoch = orZero 0 (fst (gateway_LastEpoch send [])),
     bh_GetStateRootHash = orZero [] (fst (gateway_GetStateRootHash send [])),
     bh_CurrentNonce = orZero 0 (fst (gateway_CurrentNonce send [])),
     bh_CurrentRound = orZero 0 (fst (gateway_CurrentRound send [])),
     bh_CurrentTimeStamp = orZero 0 (fst (gateway_CurrentTimeStamp send [])),
     bh_CurrentRandomSeed = orZero [] (fst (gateway_CurrentRandomSeed send [])),
     bh_CurrentEpoch = orZero 0 (fst (gateway_CurrentEpoch send [])),
     bh_ProcessBuiltInFunction = (\<lambda>log i. orZero (None, None) (fst (gateway_ProcessBuiltInFunction lib send i log))),
     bh_GetDCDTToken = (\<lambda>log a t n. orZero (None, None) (fst (gateway_GetDCDTToken lib send a t n log))),
     bh_GetBuiltinFunctionNames = orZero {} (fst (gateway_GetBuiltinFunctionNames send [])),
     bh_GetAllState = (\<lambda>log a. orZero ([], None) (fst (gateway_GetAllState lib send a log))),
     bh_GetUserAccount = (\<lambda>log a. orZero (None, None) (fst (gateway_GetUserAccount lib send a log))),
     bh_GetCode = (\<lambda>account. orZero [] (fst (gateway_GetCode send account []))),
     bh_GetShardOfAddress = (\<lambda>a. orZero 0 (fst (gateway_GetShardOfAddress send a []))),
     bh_IsSmartContract = (\<lambda>a. orZero False (fst (gateway_IsSmartContract send a []))),
     bh_IsPayable = (\<lambda>log sender a. orZero (False, None) (fst (gateway_IsPayable lib send sender a log))),
     bh_GetCompiledCode = (\<lambda>log h. orZero (False, []) (fst (gateway_GetCompiledCode send h log)))\<rparr>"

definition plainError :: "ipcLib \<Rightarrow> err option \<Rightarrow> bool" where
  \<comment> \<open>an error with a text that \<open>fmt.Errorf\<close> does not change\<close>
  "plainError lib err \<longleftrightarrow> (case err of None \<Rightarrow> True | Some e \<Rightarrow> \<exists>msg. e = ErrExternal msg \<and> msg \<noteq> [] \<and> Errorf lib msg = msg)"

definition regular :: "ipcLib \<Rightarrow> BlockchainHook \<Rightarrow> bool" where
  \<comment> \<open>the errors of the node are plain, and a built-in function without error has an output in which everything is stored under its key\<close>
  "regular lib N \<longleftrightarrow>
     (\<forall>a n t. plainError lib (snd (bh_NewAddress N a n t))) \<and> (\<forall>n. plainError lib (snd (bh_GetBlockhash N n))) \<and>
     (\<forall>log a t n. plainError lib (snd (bh_GetDCDTToken N log a t n))) \<and> (\<forall>log a. plainError lib (snd (bh_GetUserAccount N log a))) \<and>
     (\<forall>log s a. plainError lib (snd (bh_IsPayable N log s a))) \<and>
     (\<forall>log i. plainError lib (snd (bh_ProcessBuiltInFunction N log i)) \<and>
        (snd (bh_ProcessBuiltInFunction N log i) = None \<longrightarrow> (\<exists>out. fst (bh_ProcessBuiltInFunction N log i) = Some out \<and> keyed_output out)))"

lemma wireError_plain: "plainError lib err \<Longrightarrow> wireError lib err = err"
  by (auto simp: plainError_def wireError_def split: option.splits)

lemma orError_wire:
  "plainError lib (snd r) \<Longrightarrow> orError (fst r, wireError lib (snd r)) = orError r"
  by (simp add: wireError_plain)

lemma orError_account:
  "plainError lib (snd r) \<Longrightarrow> orError (if snd r = None then fst r else None, wireError lib (snd r)) = orError r"
  by (simp add: wireError_plain orError_def split: option.split)

lemma builtin_through:
  assumes "plainError lib (snd r)" "snd r = None \<longrightarrow> (\<exists>out. fst r = Some out \<and> keyed_output out)"
  shows "(case (Some (ConvertToVMOutput (NewSerializableVMOutput (fst r))), wireError lib (snd r)) of
      (_, Some err) \<Rightarrow> (Some err, None) | (out, None) \<Rightarrow> (None, out)) = (case r of (_, Some err) \<Rightarrow> (Some err, None) | (out, None) \<Rightarrow> (None, out))"
  using assms by (cases r) (auto simp: wireError_plain output_roundtrip split: option.splits)

lemma envOf_gateway:
  assumes "regular lib N"
  shows "envOf e (NewBlockchainHookGateway lib (sendThrough N n)) = envOf e N"
proof -
  note R = assms [unfolded regular_def]
  have 1: "(\<lambda>log a. orError (bh_GetUserAccount (NewBlockchainHookGateway lib (sendThrough N n)) log a)) = (\<lambda>log a. orError (bh_GetUserAccount N log a))"
    using R by (simp add: NewBlockchainHookGateway_def through_hooks orError_account fun_eq_iff)
  have 2: "(\<lambda>log i. case bh_ProcessBuiltInFunction (NewBlockchainHookGateway lib (sendThrough N n)) log i of
       (_, Some err) \<Rightarrow> (Some err, None) | (out, None) \<Rightarrow> (None, out)) =
     (\<lambda>log i. case bh_ProcessBuiltInFunction N log i of (_, Some err) \<Rightarrow> (Some err, None) | (out, None) \<Rightarrow> (None, out))"
  proof (intro ext)
    fix log i
    from R have "plainError lib (snd (bh_ProcessBuiltInFunction N log i))"
      "snd (bh_ProcessBuiltInFunction N log i) = None \<longrightarrow> (\<exists>out. fst (bh_ProcessBuiltInFunction N log i) = Some out \<and> keyed_output out)"
      by blast+
    from builtin_through [OF this] show "(case bh_ProcessBuiltInFunction (NewBlockchainHookGateway lib (sendThrough N n)) log i of
        (_, Some err) \<Rightarrow> (Some err, None) | (out, None) \<Rightarrow> (None, out)) =
      (case bh_ProcessBuiltInFunction N log i of (_, Some err) \<Rightarrow> (Some err, None) | (out, None) \<Rightarrow> (None, out))"
      by (simp add: NewBlockchainHookGateway_def through_hooks)
  qed
  show ?thesis
    unfolding envOf_def 1 2 using R by (simp add: NewBlockchainHookGateway_def through_hooks orError_wire)
qed

definition adds :: "hookEvent \<Rightarrow> (hookEvent list \<Rightarrow> 'a \<times> hookEvent list) \<Rightarrow> bool" where
  \<comment> \<open>a call leaves the node with one more event in its history\<close>
  "adds event call \<longleftrightarrow> (\<forall>log. snd (call log) = log @ [event])"

definition reads :: "(hookEvent list \<Rightarrow> 'a \<times> hookEvent list) \<Rightarrow> bool" where
  "reads call \<longleftrightarrow> (\<forall>log. snd (call log) = log)"

text \<open>
  C19: a VM in its own process computes the same.  Whatever contract is called or deployed, the host whose hook calls go
  through the gateway and the node's repliers returns the same output, and reaches the same state, as a host in the
  node that calls the hook directly; \<open>hookLog\<close>, the part of the state that is the history of the node, included.  The node behind the gateway does get this
  history: each of the calls that change it (for a new address, of a built-in function, to save compiled code) adds
  to it just the event that the host records, and no other call changes it.  So no call is lost or answered with the response of another, and no
  answer changes on the way.  This is for a node whose errors have a text without formatting verbs and whose built-in functions return
  outputs in which every account and every update is stored under its own key (\<open>regular\<close>).
\<close>

theorem gateway_transparent:
  assumes "regular lib N" "remote = envOf e (NewBlockchainHookGateway lib (sendThrough N n))" "local = envOf e N"
  shows "RunSmartContractCall (calleeAt engine remote depth) remote call s = RunSmartContractCall (calleeAt engine local depth) local call s \<and>
    RunSmartContractCreate (calleeAt engine remote depth) remote create s = RunSmartContractCreate (calleeAt engine local depth) local create s \<and>
    adds (AddressRequested a nonce t) (gateway_NewAddress lib (sendThrough N n) a nonce t) \<and>
    adds (BuiltInCall input) (gateway_ProcessBuiltInFunction lib (sendThrough N n) input) \<and>
    adds (CompiledCodeSaved h code) (gateway_SaveCompiledCode (sendThrough N n) h code) \<and>
    reads (gateway_GetStorageData lib (sendThrough N n) a key) \<and> reads (gateway_GetUserAccount lib (sendThrough N n) a) \<and>
    reads (gateway_GetCode (sendThrough N n) account) \<and> reads (gateway_GetAllState lib (sendThrough N n) a) \<and> reads (gateway_GetDCDTToken lib (sendThrough N n) a key nonce) \<and>
    reads (gateway_GetCompiledCode (sendThrough N n) h) \<and> reads (gateway_GetBlockhash lib (sendThrough N n) nonce) \<and>
    reads (gateway_IsPayable lib (sendThrough N n) a b) \<and> reads (gateway_IsSmartContract (sendThrough N n) a) \<and>
    reads (gateway_GetShardOfAddress (sendThrough N n) a) \<and> reads (gateway_GetBuiltinFunctionNames (sendThrough N n)) \<and>
    list_all reads [gateway_LastNonce (sendThrough N n), gateway_LastRound (sendThrough N n), gateway_LastTimeStamp (sendThrough N n),
      gateway_CurrentNonce (sendThrough N n), gateway_CurrentRound (sendThrough N n), gateway_CurrentTimeStamp (sendThrough N n)] \<and>
    list_all reads [gateway_LastRandomSeed (sendThrough N n), gateway_CurrentRandomSeed (sendThrough N n), gateway_GetStateRootHash (sendThrough N n)] \<and>
    list_all reads [gateway_LastEpoch (sendThrough N n), gateway_CurrentEpoch (sendThrough N n)]"
  using envOf_gateway [OF assms(1)] assms(2,3) by (simp add: adds_def reads_def through_hooks history_GetAllState)

definition sampleNode :: BlockchainHook where
  \<comment> \<open>the node of the sample world\<close>
  "sampleNode = \<lparr>bh_NewAddress = (\<lambda>a n t. (a @ ''-new'', None)), bh_GetStorageData = (\<lambda>log a k. (if k = ''counter'' then ''1'' else [], 4, None)),
     bh_GetBlockhash = (\<lambda>n. ([], Some (ErrExternal ''no block''))), bh_LastNonce = 76, bh_LastRound = 79, bh_LastTimeStamp = 4994,
     bh_LastRandomSeed = ''dees'', bh_LastEpoch = 2, bh_GetStateRootHash = ''root'', bh_CurrentNonce = 77, bh_CurrentRound = 80,
     bh_CurrentTimeStamp = 5000, bh_CurrentRandomSeed = ''seed'', bh_CurrentEpoch = 2,
     bh_ProcessBuiltInFunction = (\<lambda>log i. (Some sampleOutput, None)), bh_GetDCDTToken = (\<lambda>log a t n. (None, Some (ErrExternal ''token''))),
     bh_GetBuiltinFunctionNames = {''ClaimRewards''}, bh_GetAllState = (\<lambda>log a. ([], None)),
     bh_GetUserAccount = (\<lambda>log a. (if a = ''nobody'' then None else Some sampleAccount, None)), bh_GetCode = (\<lambda>_. ''code''),
     bh_GetShardOfAddress = (\<lambda>_. 0), bh_IsSmartContract = (\<lambda>a. a = ''contract''), bh_IsPayable = (\<lambda>log s a. (True, None)),
     bh_GetCompiledCode = (\<lambda>log h. (False, []))\<rparr>"

lemma sampleNode_regular: "regular (listLib []) sampleNode"
  by (simp add: regular_def sampleNode_def plainError_def listLib_def sampleOutput_def keyed_output_def)

theorem gateway_transparent_witness:
  "hook_GetBlockhash (envOf sampleEnv (NewBlockchainHookGateway (listLib []) (sendThrough sampleNode 0))) 5 = Inl (ErrExternal ''no block'') \<and>
   RunSmartContractCall (calleeAt sampleEngine (envOf sampleEnv (NewBlockchainHookGateway (listLib []) (sendThrough sampleNode 0))) 1)
     (envOf sampleEnv (NewBlockchainHookGateway (listLib []) (sendThrough sampleNode 0))) (sampleCall [])  sampleVM =
   RunSmartContractCall (calleeAt sampleEngine (envOf sampleEnv sampleNode) 1) (envOf sampleEnv sampleNode) (sampleCall []) sampleVM \<and>
   snd (gateway_SaveCompiledCode (sendThrough sampleNode 0) ''hash'' ''code'' [CompiledCodesCleared]) = [CompiledCodesCleared, CompiledCodeSaved ''hash'' ''code'']"
  using gateway_transparent [OF sampleNode_regular refl refl] envOf_gateway [OF sampleNode_regular]
  by (simp add: envOf_def sampleNode_def orError_def adds_def)

end
