(* ===== verification/OrderedJson.thy ===== *)
theory OrderedJson
  imports GoStd "HOL-Library.List_Lexorder" "HOL-Library.Char_ord"
begin

text \<open>
  Ordered JSON (\<open>src/scenarios/orderedjson\<close>), the format of the scenario files: the model
  (\<open>ojModel.go\<close>), the printer (\<open>ojToJson.go\<close>) and the parser (\<open>ojParse.go\<close>), a state machine with a stack
  that reads the input byte by byte.  An error of the parser is \<open>None\<close>.
\<close>

subsection \<open>Model\<close>

datatype ojson = OJsonString string | OJsonBool bool | OJsonList "ojson list" | OJsonMap "(string \<times> ojson) list"

definition oj_Put :: "string \<Rightarrow> ojson \<Rightarrow> (string \<times> ojson) list \<Rightarrow> (string \<times> ojson) list" where
  \<comment> \<open>the key set of the source is the set of the keys\<close>
  "oj_Put key value kvs = (if key \<in> fst ` set kvs then kvs else kvs @ [(key, value)])"

definition KeyValuePairsSortedByKey :: "(string \<times> ojson) list \<Rightarrow> (string \<times> ojson) list" where
  \<comment> \<open>\<open>sort.Slice\<close> is not stable, but the keys of a map differ\<close>
  "KeyValuePairsSortedByKey kvs = sort_key fst kvs"

subsection \<open>Printer\<close>

definition addIndent :: "nat \<Rightarrow> string" where
  "addIndent indent = concat (replicate indent ''    '')"

fun joinLines :: "string list \<Rightarrow> string" where
  \<comment> \<open>every item on a line, with a comma after all but the last\<close>
  "joinLines [] = []"
| "joinLines [x] = x"
| "joinLines (x # xs) = x @ '','' @ joinLines xs"

fun writeJSON :: "ojson \<Rightarrow> nat \<Rightarrow> string" where
  "writeJSON (OJsonString v) indent = [CHR 0x22] @ v @ [CHR 0x22]"
| "writeJSON (OJsonBool b) indent = (if b then ''true'' else ''false'')"
| "writeJSON (OJsonList collection) indent =
     (if length collection = 0 then ''[]''
      else ''['' @ joinLines (map (\<lambda>child. [CHR 0x0A] @ addIndent (indent + 1) @ writeJSON child (indent + 1)) collection) @
        [CHR 0x0A] @ addIndent indent @ '']'')"
| "writeJSON (OJsonMap kvs) indent =
     (if length kvs = 0 then ''{}''
      else ''{'' @ joinLines (map (\<lambda>(key, child). [CHR 0x0A] @ addIndent (indent + 1) @ [CHR 0x22] @ key @ [CHR 0x22] @ '': '' @
          writeJSON child (indent + 1)) kvs) @ [CHR 0x0A] @ addIndent indent @ ''}'')"

definition JSONString :: "ojson \<Rightarrow> string" where
  "JSONString j = writeJSON j 0 @ [CHR 0x0A]"

subsection \<open>Parser\<close>

definition isWhitespace :: "char \<Rightarrow> bool" where
  "isWhitespace c \<longleftrightarrow> c = CHR '' '' \<or> c = CHR 0x0A \<or> c = CHR 0x0D \<or> c = CHR 0x09"

datatype keyValueState = AtKey | AtColon | AtValue

datatype parserState =
    AnyObjPlaceholder
  | SingleValue string bool               \<comment> \<open>buffer, stringEscape\<close>
  | MapState "(string \<times> ojson) list"
  | MapKeyValue string keyValueState      \<comment> \<open>keyBuffer, state\<close>
  | ListState "ojson list"

type_synonym parser = "parserState list \<times> ojson option"  \<comment> \<open>the stack, its top first, and the pending result\<close>

definition quoted :: "string \<Rightarrow> bool" where
  \<comment> \<open>\<open>HasPrefix(s, "\"") && HasSuffix(s, "\"")\<close>\<close>
  "quoted s \<longleftrightarrow> s \<noteq> [] \<and> hd s = CHR 0x22 \<and> last s = CHR 0x22"

definition finalize :: "string \<Rightarrow> ojson option" where
  "finalize str =
     (if quoted str then (if length str < 2 then None else Some (OJsonString (butlast (tl str))))
      else if str = ''true'' then Some (OJsonBool True)
      else if str = ''false'' then Some (OJsonBool False)
      else None)"

fun cost_of :: "parserState list \<Rightarrow> nat" where
  \<comment> \<open>how often a byte can be looked at again\<close>
  "cost_of [] = 0"
| "cost_of (AnyObjPlaceholder # st) = 1"
| "cost_of (SingleValue b q # st) = (if b = [] then 0 else Suc (cost_of st))"
| "cost_of (MapState m # st) = 1"
| "cost_of (MapKeyValue b k # st) = (if k = AtValue then Suc (cost_of st) else 0)"
| "cost_of (ListState l # st) = 2"

function consume :: "char \<Rightarrow> char \<Rightarrow> parser \<Rightarrow> parser option" where
  \<comment> \<open>the loop \<open>for !done\<close> over one byte, with the byte before it (read only when there is one)\<close>
  "consume prevChar c (stateStack, pendingResult) =
     (case stateStack of
        [] \<Rightarrow> (if isWhitespace c then Some (stateStack, pendingResult) else None)
      | AnyObjPlaceholder # rest \<Rightarrow>
          if pendingResult \<noteq> None then None
          else if isWhitespace c then Some (stateStack, pendingResult)
          else if c = CHR ''{'' then Some (MapState [] # rest, pendingResult)
          else if c = CHR ''['' then Some (ListState [] # rest, pendingResult)
          else if c = CHR '']'' \<or> c = CHR ''}'' \<or> c = CHR '','' then None
          else consume prevChar c (SingleValue [] False # rest, pendingResult)
      | SingleValue buffer stringEscape # rest \<Rightarrow>
          if buffer = [] then Some (SingleValue [c] (c = CHR 0x22) # rest, pendingResult)
          else if stringEscape then
            (if c = CHR 0x22 \<and> prevChar \<noteq> CHR 0x5C
             then (case finalize (buffer @ [c]) of None \<Rightarrow> None | Some v \<Rightarrow> Some (rest, Some v))
             else Some (SingleValue (buffer @ [c]) stringEscape # rest, pendingResult))
          else if c = CHR '']'' \<or> c = CHR ''}'' \<or> c = CHR '','' \<or> isWhitespace c then
            (case finalize buffer of None \<Rightarrow> None | Some v \<Rightarrow> consume prevChar c (rest, Some v))
          else Some (SingleValue (buffer @ [c]) stringEscape # rest, pendingResult)
      | ListState items # rest \<Rightarrow>
          (let items = (case pendingResult of None \<Rightarrow> items | Some v \<Rightarrow> items @ [v])
           in if isWhitespace c then Some (ListState items # rest, None)
              else if c = CHR '']'' then Some (rest, Some (OJsonList items))
              else if items = [] then consume prevChar c (AnyObjPlaceholder # ListState items # rest, None)
              else if c = CHR '','' then Some (AnyObjPlaceholder # ListState items # rest, None)
              else Some (ListState items # rest, None))
      | MapState kvs # rest \<Rightarrow>
          if isWhitespace c then Some (stateStack, pendingResult)
          else if c = CHR ''}'' then Some (rest, Some (OJsonMap kvs))
          else if c = CHR '','' then Some (MapKeyValue [] AtKey # stateStack, pendingResult)
          else if kvs = [] then consume prevChar c (MapKeyValue [] AtKey # stateStack, pendingResult)
          else None
      | MapKeyValue keyBuffer AtKey # rest \<Rightarrow>
          if keyBuffer = [] then
            (if isWhitespace c then Some (stateStack, pendingResult)
             else if c \<noteq> CHR 0x22 then None
             else Some (MapKeyValue [c] AtKey # rest, pendingResult))
          else Some (MapKeyValue (keyBuffer @ [c]) (if c = CHR 0x22 \<and> prevChar \<noteq> CHR 0x5C then AtColon else AtKey) # rest, pendingResult)
      | MapKeyValue keyBuffer AtColon # rest \<Rightarrow>
          if isWhitespace c then Some (stateStack, pendingResult)
          else if c = CHR '':'' then Some (AnyObjPlaceholder # MapKeyValue keyBuffer AtValue # rest, pendingResult)
          else None
      | MapKeyValue keyBuffer AtValue # rest \<Rightarrow>
          (case pendingResult of
             None \<Rightarrow> None
           | Some v \<Rightarrow>
               if \<not> quoted keyBuffer \<or> length keyBuffer < 2 then None
               else (case rest of
                       MapState kvs # rest' \<Rightarrow> consume prevChar c (MapState (oj_Put (butlast (tl keyBuffer)) v kvs) # rest', None)
                     | _ \<Rightarrow> None)))"
  by pat_completeness auto
termination
  by (relation "measure (\<lambda>(_, _, st, _). cost_of st)") (auto split: list.splits parserState.splits)

fun parseBytes :: "char \<Rightarrow> string \<Rightarrow> parser \<Rightarrow> parser option" where
  "parseBytes prevChar [] p = Some p"
| "parseBytes prevChar (c # input) p = (case consume prevChar c p of None \<Rightarrow> None | Some p \<Rightarrow> parseBytes c input p)"

definition ParseOrderedJSON :: "bytes \<Rightarrow> ojson option option" where
  \<comment> \<open>the inner option is a nil object\<close>
  "ParseOrderedJSON input =
     (case parseBytes (CHR 0x00) input ([AnyObjPlaceholder], None) of
        Some ([], pendingResult) \<Rightarrow> Some pendingResult
      | _ \<Rightarrow> None)"

declare consume.simps [simp del]

subsection \<open>Reading back what was printed\<close>

fun plain :: "char \<Rightarrow> string \<Rightarrow> bool" where
  \<comment> \<open>a text that can stand between quotes: every quote in it is escaped, the closing one is not\<close>
  "plain prevChar [] \<longleftrightarrow> prevChar \<noteq> CHR 0x5C"
| "plain prevChar (c # s) \<longleftrightarrow> (c = CHR 0x22 \<longrightarrow> prevChar = CHR 0x5C) \<and> plain c s"

fun wf_ojson :: "ojson \<Rightarrow> bool" where
  "wf_ojson (OJsonString v) \<longleftrightarrow> plain (CHR 0x22) v"
| "wf_ojson (OJsonBool b) \<longleftrightarrow> True"
| "wf_ojson (OJsonList js) \<longleftrightarrow> list_all wf_ojson js"
| "wf_ojson (OJsonMap kvs) \<longleftrightarrow> distinct (map fst kvs) \<and> list_all (\<lambda>(k, j). plain (CHR 0x22) k \<and> wf_ojson j) kvs"

fun freshTop :: "parserState list \<Rightarrow> bool" where
  \<comment> \<open>not inside a quoted text, so the byte before does not matter\<close>
  "freshTop (SingleValue b q # st) \<longleftrightarrow> b = []"
| "freshTop (MapKeyValue b AtKey # st) \<longleftrightarrow> b = []"
| "freshTop st \<longleftrightarrow> True"

lemma consume_prev: "freshTop (fst p) \<Longrightarrow> consume x c p = consume y c p"
proof (induction x c p rule: consume.induct)
  case (1 x c st r)
  show ?case
  proof (cases st)
    case Nil
    then show ?thesis by (simp add: consume.simps)
  next
    case (Cons top rest)
    show ?thesis
    proof (cases top)
      case AnyObjPlaceholder
      with Cons 1 show ?thesis by (subst (1 2) consume.simps) (auto simp: isWhitespace_def)
    next
      case (MapKeyValue b k)
      with Cons 1 show ?thesis
        by (cases k; subst (1 2) consume.simps) (auto split: option.split list.split parserState.split)
    qed (use Cons 1 in \<open>subst (1 2) consume.simps, auto simp: Let_def split: option.split\<close>)+
  qed
qed

lemma parse_prev: "freshTop (fst p) \<Longrightarrow> parseBytes x input p = parseBytes y input p"
  using consume_prev [of p x _ y] by (cases input) simp_all

lemma quoted_wrap: "quoted ([CHR 0x22] @ s @ [CHR 0x22])"
  by (simp add: quoted_def)

lemma butlast_tl_wrap: "butlast (tl ([CHR 0x22] @ s @ [CHR 0x22])) = s"
  by simp

lemma finalize_quoted: "finalize ([CHR 0x22] @ s @ [CHR 0x22]) = Some (OJsonString s)"
  by (simp add: finalize_def quoted_wrap [simplified])

lemma parse_text:
  "plain x s \<Longrightarrow> parseBytes x (s @ CHR 0x22 # rest) (SingleValue (CHR 0x22 # b) True # st, r) =
     parseBytes (CHR 0x22) rest (st, Some (OJsonString (b @ s)))"
proof (induction s arbitrary: x b)
  case Nil
  then show ?case using finalize_quoted [of b] by (simp add: consume.simps)
next
  case (Cons c s)
  have "consume x c (SingleValue (CHR 0x22 # b) True # st, r) = Some (SingleValue (CHR 0x22 # b @ [c]) True # st, r)"
    using Cons.prems by (subst consume.simps) auto
  with Cons.IH [of c "b @ [c]"] Cons.prems show ?case by simp
qed

lemma parse_key:
  "plain x s \<Longrightarrow> parseBytes x (s @ CHR 0x22 # rest) (MapKeyValue (CHR 0x22 # b) AtKey # st, r) =
     parseBytes (CHR 0x22) rest (MapKeyValue (CHR 0x22 # b @ s @ [CHR 0x22]) AtColon # st, r)"
proof (induction s arbitrary: x b)
  case Nil
  then show ?case by (simp add: consume.simps)
next
  case (Cons c s)
  have "consume x c (MapKeyValue (CHR 0x22 # b) AtKey # st, r) = Some (MapKeyValue (CHR 0x22 # b @ [c]) AtKey # st, r)"
    using Cons.prems by (subst consume.simps) auto
  with Cons.IH [of c "b @ [c]"] Cons.prems show ?case by simp
qed

lemma parse_blank:
  \<comment> \<open>indentation is skipped where a value, an item or a closing bracket is expected\<close>
  assumes "list_all isWhitespace ws" "freshTop (fst p)" "\<And>x c. isWhitespace c \<Longrightarrow> consume x c p = Some p"
  shows "parseBytes x (ws @ rest) p = parseBytes x rest p"
  using assms(1)
proof (induction ws arbitrary: x)
  case (Cons c ws)
  then show ?case using assms(3) [of c x] parse_prev [OF assms(2), of c rest x] by simp
qed simp

lemma blank_states:
  "isWhitespace c \<Longrightarrow> consume x c (AnyObjPlaceholder # st, None) = Some (AnyObjPlaceholder # st, None)"
  "isWhitespace c \<Longrightarrow> consume x c (ListState js # st, None) = Some (ListState js # st, None)"
  "isWhitespace c \<Longrightarrow> consume x c (MapState kvs # st, r) = Some (MapState kvs # st, r)"
  "isWhitespace c \<Longrightarrow> consume x c (MapKeyValue [] AtKey # st, r) = Some (MapKeyValue [] AtKey # st, r)"
  by (simp_all add: consume.simps)

lemma addIndent_blank: "list_all isWhitespace (addIndent n)"
  by (induction n) (auto simp: addIndent_def isWhitespace_def)

lemmas parse_indent =
  parse_blank [OF addIndent_blank _ blank_states(1), simplified] parse_blank [OF addIndent_blank _ blank_states(2), simplified]
  parse_blank [OF addIndent_blank _ blank_states(3), simplified] parse_blank [OF addIndent_blank _ blank_states(4), simplified]

definition follows :: "char \<Rightarrow> bool" where
  \<comment> \<open>what the printer puts after a value\<close>
  "follows d \<longleftrightarrow> d = CHR '','' \<or> d = CHR 0x0A"

definition reads_back :: "ojson \<Rightarrow> bool" where
  "reads_back j \<longleftrightarrow> (\<forall>x st n d rest. freshTop st \<longrightarrow> follows d \<longrightarrow>
     parseBytes x (writeJSON j n @ d # rest) (AnyObjPlaceholder # st, None) = parseBytes x (d # rest) (st, Some j))"

lemma starts_value:
  \<comment> \<open>the first byte of a value\<close>
  "\<exists>c s. writeJSON j n = c # s \<and> \<not> isWhitespace c \<and> c \<noteq> CHR '']'' \<and> c \<noteq> CHR ''}'' \<and> c \<noteq> CHR '','' "
  by (cases j) (auto simp: isWhitespace_def)

lemma reads_back_string: "plain (CHR 0x22) v \<Longrightarrow> reads_back (OJsonString v)"
proof -
  assume v: "plain (CHR 0x22) v"
  have "parseBytes x (writeJSON (OJsonString v) n @ d # rest) (AnyObjPlaceholder # st, None) = parseBytes x (d # rest) (st, Some (OJsonString v))"
    if "freshTop st" for x st n d rest
  proof -
    have "consume x (CHR 0x22) (AnyObjPlaceholder # st, None) = Some (SingleValue [CHR 0x22] True # st, None)"
      by (simp add: consume.simps isWhitespace_def)
    then show ?thesis
      using parse_text [OF v, of "d # rest" "[]" st None] parse_prev [of "(st, Some (OJsonString v))" "CHR 0x22" "d # rest" x] that by simp
  qed
  then show ?thesis by (simp add: reads_back_def)
qed

lemma reads_back_bool: "reads_back (OJsonBool b)"
proof -
  have "parseBytes x (writeJSON (OJsonBool b) n @ d # rest) (AnyObjPlaceholder # st, None) = parseBytes x (d # rest) (st, Some (OJsonBool b))"
    if "freshTop st" "follows d" for x st n d rest
    using that consume_prev [of "(st, Some (OJsonBool b))" "CHR ''e''" d x]
    by (cases b) (auto simp: consume.simps isWhitespace_def finalize_def quoted_def follows_def)
  then show ?thesis by (simp add: reads_back_def)
qed

lemma newline: "isWhitespace (CHR 0x0A)"
  by (simp add: isWhitespace_def)

lemma parse_newline:
  "parseBytes x (CHR 0x0A # rest) (AnyObjPlaceholder # st, None) = parseBytes x rest (AnyObjPlaceholder # st, None)"
  "parseBytes x (CHR 0x0A # rest) (ListState js # st, None) = parseBytes x rest (ListState js # st, None)"
  "parseBytes x (CHR 0x0A # rest) (MapState kvs # st, r) = parseBytes x rest (MapState kvs # st, r)"
  "parseBytes x (CHR 0x0A # rest) (MapKeyValue [] AtKey # st, r) = parseBytes x rest (MapKeyValue [] AtKey # st, r)"
  by (simp_all add: blank_states newline parse_prev [of _ "CHR 0x0A" rest x])

lemma list_item:
  \<comment> \<open>a finished item is appended, and a comma announces the next one\<close>
  "consume x (CHR 0x0A) (ListState js # st, Some j) = Some (ListState (js @ [j]) # st, None)"
  "consume x (CHR '','') (ListState js # st, Some j) = Some (AnyObjPlaceholder # ListState (js @ [j]) # st, None)"
  by (simp_all add: consume.simps isWhitespace_def)

abbreviation itemLine :: "nat \<Rightarrow> ojson \<Rightarrow> string" where
  "itemLine n \<equiv> \<lambda>child. [CHR 0x0A] @ addIndent n @ writeJSON child n"

lemma parse_items:
  assumes "js \<noteq> []" "list_all reads_back js"
  shows "parseBytes x (joinLines (map (itemLine n) js) @ CHR 0x0A # rest) (AnyObjPlaceholder # ListState acc # st, None) =
    parseBytes x rest (ListState (acc @ js) # st, None)"
  using assms
proof (induction js arbitrary: acc x rule: induct_list012)
  case (2 j)
  have "parseBytes x (writeJSON j n @ CHR 0x0A # rest) (AnyObjPlaceholder # ListState acc # st, None) =
      parseBytes x (CHR 0x0A # rest) (ListState acc # st, Some j)"
    using 2 by (simp add: reads_back_def follows_def)
  moreover have "parseBytes x (CHR 0x0A # rest) (ListState acc # st, Some j) = parseBytes x rest (ListState (acc @ [j]) # st, None)"
    by (simp add: list_item parse_prev [of _ "CHR 0x0A" rest x])
  ultimately show ?case by (simp add: parse_newline parse_indent del: parseBytes.simps(2))
next
  case (3 j j' js)
  let ?rest = "joinLines (map (itemLine n) (j' # js)) @ CHR 0x0A # rest"
  have "parseBytes x (writeJSON j n @ CHR '','' # ?rest) (AnyObjPlaceholder # ListState acc # st, None) =
      parseBytes x (CHR '','' # ?rest) (ListState acc # st, Some j)"
    using 3 by (simp add: reads_back_def follows_def)
  also have "\<dots> = parseBytes (CHR '','') ?rest (AnyObjPlaceholder # ListState (acc @ [j]) # st, None)" by (simp add: list_item)
  also have "\<dots> = parseBytes x ?rest (AnyObjPlaceholder # ListState (acc @ [j]) # st, None)" by (rule parse_prev) simp
  also have "\<dots> = parseBytes x rest (ListState (acc @ j # j' # js) # st, None)" using "3.IH"(2) [of x "acc @ [j]"] "3.prems" by simp
  finally show ?case by (simp add: parse_newline parse_indent del: parseBytes.simps(2))
qed simp

lemma enter_list:
  assumes "js \<noteq> []"
  shows "parseBytes x (joinLines (map (itemLine n) js) @ rest) (ListState [] # st, None) =
    parseBytes x (joinLines (map (itemLine n) js) @ rest) (AnyObjPlaceholder # ListState [] # st, None)"
proof -
  from assms obtain j js' where js: "js = j # js'" by (cases js) auto
  obtain t where t: "joinLines (map (itemLine n) js) = CHR 0x0A # addIndent n @ writeJSON j n @ t" unfolding js by (cases js') auto
  obtain c s where c: "writeJSON j n = c # s" "\<not> isWhitespace c" "c \<noteq> CHR '']''" using starts_value by blast
  have "consume x c (ListState [] # st, None) = consume x c (AnyObjPlaceholder # ListState [] # st, None)" using c(2,3) by (subst consume.simps) simp
  then have "parseBytes x (writeJSON j n @ u) (ListState [] # st, None) = parseBytes x (writeJSON j n @ u) (AnyObjPlaceholder # ListState [] # st, None)" for u
    by (simp add: c(1))
  then show ?thesis unfolding t by (simp add: parse_newline parse_indent del: parseBytes.simps(2))
qed

lemma reads_back_list:
  assumes "list_all reads_back js"
  shows "reads_back (OJsonList js)"
proof -
  have "parseBytes x (writeJSON (OJsonList js) n @ d # rest) (AnyObjPlaceholder # st, None) = parseBytes x (d # rest) (st, Some (OJsonList js))"
    if "freshTop st" "follows d" for x st n d rest
  proof -
    have start: "consume x (CHR ''['') (AnyObjPlaceholder # st, None) = Some (ListState [] # st, None)" for x
      by (simp add: consume.simps isWhitespace_def)
    have stop: "consume x (CHR '']'') (ListState js # st, None) = Some (st, Some (OJsonList js))" for x
      by (simp add: consume.simps isWhitespace_def)
    have prev: "parseBytes y (d # rest) (st, Some (OJsonList js)) = parseBytes x (d # rest) (st, Some (OJsonList js))" for y
      using that(1) by (intro parse_prev) simp
    show ?thesis
    proof (cases "js = []")
      case True
      then show ?thesis using start stop prev by simp
    next
      case False
      let ?tail = "addIndent n @ CHR '']'' # d # rest"
      have "parseBytes x (writeJSON (OJsonList js) n @ d # rest) (AnyObjPlaceholder # st, None) =
          parseBytes (CHR ''['') (joinLines (map (itemLine (Suc n)) js) @ CHR 0x0A # ?tail) (AnyObjPlaceholder # ListState [] # st, None)"
        using False start enter_list [OF False] by simp
      also have "\<dots> = parseBytes (CHR ''['') ?tail (ListState js # st, None)"
        using parse_items [OF False assms, of _ _ ?tail "[]"] by simp
      finally show ?thesis using stop prev by (simp add: parse_indent)
    qed
  qed
  then show ?thesis by (simp add: reads_back_def)
qed

abbreviation entryLine :: "nat \<Rightarrow> string \<times> ojson \<Rightarrow> string" where
  "entryLine n \<equiv> \<lambda>(key, child). [CHR 0x0A] @ addIndent n @ [CHR 0x22] @ key @ [CHR 0x22] @ '': '' @ writeJSON child n"

lemma parse_entry:
  \<comment> \<open>from a key to the byte after its value\<close>
  assumes "plain (CHR 0x22) key" "reads_back j" "follows d"
  shows "parseBytes x (entryLine n (key, j) @ d # rest) (MapKeyValue [] AtKey # MapState kvs # st, None) =
    parseBytes x (d # rest) (MapState (oj_Put key j kvs) # st, None)"
proof -
  let ?k = "CHR 0x22 # key @ [CHR 0x22]" and ?st = "MapState kvs # st"
  have "parseBytes x (CHR 0x22 # key @ CHR 0x22 # u) (MapKeyValue [] AtKey # ?st, None) =
      parseBytes (CHR 0x22) u (MapKeyValue ?k AtColon # ?st, None)" for u
    using parse_key [OF assms(1), of u "[]" ?st None] by (simp add: consume.simps isWhitespace_def)
  moreover have "parseBytes y ('': '' @ u) (MapKeyValue ?k AtColon # ?st, None) = parseBytes (CHR '' '') u (AnyObjPlaceholder # MapKeyValue ?k AtValue # ?st, None)" for y u
    by (simp add: consume.simps isWhitespace_def)
  moreover have "parseBytes y (writeJSON j n @ d # rest) (AnyObjPlaceholder # MapKeyValue ?k AtValue # ?st, None) =
      parseBytes y (d # rest) (MapKeyValue ?k AtValue # ?st, Some j)" for y
    using assms(2,3) by (simp add: reads_back_def)
  moreover have "consume y d (MapKeyValue ?k AtValue # ?st, Some j) = consume y d (MapState (oj_Put key j kvs) # st, None)" for y
    using quoted_wrap [of key] by (subst consume.simps) simp
  moreover have "parseBytes y (d # rest) (MapState (oj_Put key j kvs) # st, None) = parseBytes x (d # rest) (MapState (oj_Put key j kvs) # st, None)" for y
    by (rule parse_prev) simp
  ultimately show ?thesis by (simp add: parse_newline parse_indent del: parseBytes.simps(2)) simp
qed

lemma map_entry:
  "parseBytes x (CHR '','' # rest) (MapState kvs # st, None) = parseBytes x rest (MapKeyValue [] AtKey # MapState kvs # st, None)"
proof -
  have "consume x (CHR '','') (MapState kvs # st, None) = Some (MapKeyValue [] AtKey # MapState kvs # st, None)"
    by (simp add: consume.simps isWhitespace_def)
  then show ?thesis by (simp add: parse_prev [of _ "CHR '',''" rest x])
qed

lemma parse_entries:
  assumes "kvs \<noteq> []" "list_all (\<lambda>(k, j). plain (CHR 0x22) k \<and> reads_back j) kvs" "distinct (map fst (acc @ kvs))"
  shows "parseBytes x (joinLines (map (entryLine n) kvs) @ CHR 0x0A # rest) (MapKeyValue [] AtKey # MapState acc # st, None) =
    parseBytes x rest (MapState (acc @ kvs) # st, None)"
  using assms
proof (induction kvs arbitrary: acc x rule: induct_list012)
  case (2 kv)
  obtain k j where kv: "kv = (k, j)" by (cases kv)
  have "oj_Put k j acc = acc @ [(k, j)]" using "2.prems"(3) by (auto simp: kv oj_Put_def)
  moreover have "parseBytes x (entryLine n (k, j) @ CHR 0x0A # rest) (MapKeyValue [] AtKey # MapState acc # st, None) =
      parseBytes x (CHR 0x0A # rest) (MapState (oj_Put k j acc) # st, None)"
    using "2.prems"(2) by (intro parse_entry) (simp_all add: kv follows_def)
  ultimately show ?case by (simp add: kv parse_newline del: parseBytes.simps(2))
next
  case (3 kv kv' kvs)
  obtain k j where kv: "kv = (k, j)" by (cases kv)
  let ?rest = "joinLines (map (entryLine n) (kv' # kvs)) @ CHR 0x0A # rest"
  have "oj_Put k j acc = acc @ [(k, j)]" using "3.prems"(3) by (auto simp: kv oj_Put_def)
  moreover have "parseBytes x (entryLine n (k, j) @ CHR '','' # ?rest) (MapKeyValue [] AtKey # MapState acc # st, None) =
      parseBytes x (CHR '','' # ?rest) (MapState (oj_Put k j acc) # st, None)"
    using "3.prems"(2) by (intro parse_entry) (simp_all add: kv follows_def)
  moreover have "parseBytes x ?rest (MapKeyValue [] AtKey # MapState (acc @ [(k, j)]) # st, None) = parseBytes x rest (MapState ((acc @ [(k, j)]) @ kv' # kvs) # st, None)"
    using "3.IH"(2) [of "acc @ [(k, j)]" x] "3.prems" by (simp add: kv)
  ultimately show ?case by (simp add: kv map_entry del: parseBytes.simps(2))
qed simp

lemma enter_map:
  assumes "kvs \<noteq> []"
  shows "parseBytes x (joinLines (map (entryLine n) kvs) @ rest) (MapState [] # st, None) =
    parseBytes x (joinLines (map (entryLine n) kvs) @ rest) (MapKeyValue [] AtKey # MapState [] # st, None)"
proof -
  from assms obtain k j kvs' where kvs: "kvs = (k, j) # kvs'" by (cases kvs) auto
  obtain t where t: "joinLines (map (entryLine n) kvs) = CHR 0x0A # addIndent n @ CHR 0x22 # t" unfolding kvs by (cases kvs') auto
  have "consume x (CHR 0x22) (MapState [] # st, None) = consume x (CHR 0x22) (MapKeyValue [] AtKey # MapState [] # st, None)"
    by (subst consume.simps) (simp add: isWhitespace_def)
  then have "parseBytes x (CHR 0x22 # u) (MapState [] # st, None) = parseBytes x (CHR 0x22 # u) (MapKeyValue [] AtKey # MapState [] # st, None)" for u
    by simp
  then show ?thesis unfolding t by (simp add: parse_newline parse_indent del: parseBytes.simps(2))
qed

lemma reads_back_map:
  assumes "distinct (map fst kvs)" "list_all (\<lambda>(k, j). plain (CHR 0x22) k \<and> reads_back j) kvs"
  shows "reads_back (OJsonMap kvs)"
proof -
  have "parseBytes x (writeJSON (OJsonMap kvs) n @ d # rest) (AnyObjPlaceholder # st, None) = parseBytes x (d # rest) (st, Some (OJsonMap kvs))"
    if "freshTop st" "follows d" for x st n d rest
  proof -
    have start: "consume x (CHR ''{'') (AnyObjPlaceholder # st, None) = Some (MapState [] # st, None)" for x
      by (simp add: consume.simps isWhitespace_def)
    have stop: "consume x (CHR ''}'') (MapState kvs # st, None) = Some (st, Some (OJsonMap kvs))" for x
      by (simp add: consume.simps isWhitespace_def)
    have prev: "parseBytes y (d # rest) (st, Some (OJsonMap kvs)) = parseBytes x (d # rest) (st, Some (OJsonMap kvs))" for y
      using that(1) by (intro parse_prev) simp
    show ?thesis
    proof (cases "kvs = []")
      case True
      then show ?thesis using start stop prev by simp
    next
      case False
      let ?tail = "addIndent n @ CHR ''}'' # d # rest"
      have "parseBytes x (writeJSON (OJsonMap kvs) n @ d # rest) (AnyObjPlaceholder # st, None) =
          parseBytes (CHR ''{'') (joinLines (map (entryLine (Suc n)) kvs) @ CHR 0x0A # ?tail) (MapKeyValue [] AtKey # MapState [] # st, None)"
        using False start enter_map [OF False] by simp
      also have "\<dots> = parseBytes (CHR ''{'') ?tail (MapState kvs # st, None)"
        using parse_entries [OF False assms(2), of "[]"] assms(1) by simp
      finally show ?thesis using stop prev by (simp add: parse_indent)
    qed
  qed
  then show ?thesis by (simp add: reads_back_def)
qed

lemma wf_reads_back: "wf_ojson j \<Longrightarrow> reads_back j"
proof (induction j)
  case (OJsonList js)
  then show ?case by (intro reads_back_list) (auto simp: list_all_iff)
next
  case (OJsonMap kvs)
  then show ?case by (intro reads_back_map) (fastforce simp: list_all_iff)+
qed (simp_all add: reads_back_string reads_back_bool)

lemma reads_back_parses: "reads_back j \<Longrightarrow> ParseOrderedJSON (JSONString j) = Some (Some j)"
  by (simp add: reads_back_def ParseOrderedJSON_def JSONString_def follows_def newline consume.simps)

subsection \<open>Properties\<close>

text \<open>C25: a scenario file that was written is read back.  Parsing the printed form of an ordered JSON value gives the same
  value, with the order of its map entries, provided that its strings and keys can stand between
  quotes (every quote in them is escaped, and the last character is not a backslash) and no map has a key twice.\<close>

theorem json_roundtrip:
  assumes "wf_ojson j"
  shows "ParseOrderedJSON (JSONString j) = Some (Some j)"
  by (rule reads_back_parses [OF wf_reads_back [OF assms]])

definition sampleJson :: ojson where
  "sampleJson = OJsonMap [(''name'', OJsonString ''test''), (''steps'', OJsonList [OJsonMap [], OJsonBool True, OJsonList [OJsonString []]])]"

theorem json_roundtrip_witness: "ParseOrderedJSON (JSONString sampleJson) = Some (Some sampleJson)"
  by (rule json_roundtrip) (simp add: sampleJson_def)

end
