(* ===== verification/ScenExpressions.thy ===== *)
theory ScenExpressions
  imports OrderedJson
begin

text \<open>
  Value expressions of scenario files: the interpreter (\<open>src/scenarios/expression/interpreter\<close>), which turns an
  expression into bytes, and the reconstructor (\<open>src/scenarios/expression/reconstructor\<close>), which writes bytes
  as an expression.  The hash, the reader of files, the two's complement library and \<open>strconv.Quote\<close> are
  parameters; a panic is \<open>None\<close>.
\<close>

datatype exprError =
    BadHex string | BadShardHex string | BadShardLength string | ManyShardSeparators string
  | BadBinary string | BadDecimal string | NegativeNumber string | TooWide string nat | TwosError string
  | NoFileResolver | FileError string | KeccakArgument exprError | CannotInterpret

record interpreter =
  FileResolver :: "(string \<Rightarrow> string + bytes) option"
  ei_Keccak256 :: "bytes \<Rightarrow> bytes"
  ei_ToBytes :: "int \<Rightarrow> bytes"
  ei_ToBytesOfLength :: "int \<Rightarrow> nat \<Rightarrow> string + bytes"
  ei_CopyAlignRight :: "bytes \<Rightarrow> nat \<Rightarrow> bytes"

subsection \<open>Standard library\<close>

fun splitOn :: "char \<Rightarrow> string \<Rightarrow> string list" where
  \<comment> \<open>\<open>strings.Split\<close> by a single character\<close>
  "splitOn d [] = [[]]"
| "splitOn d (c # s) = (if c = d then [] # splitOn d s else (c # hd (splitOn d s)) # tl (splitOn d s))"

definition digits :: "nat \<Rightarrow> string \<Rightarrow> nat option" where
  \<comment> \<open>a numeral to a base of at most ten\<close>
  "digits base s =
     (if s \<noteq> [] \<and> list_all (\<lambda>c. 48 \<le> (of_char c :: nat) \<and> of_char c < 48 + base) s
      then Some (foldl (\<lambda>acc c. acc * base + (of_char c - 48)) 0 s) else None)"

definition SetString :: "string \<Rightarrow> nat \<Rightarrow> int option" where
  \<comment> \<open>\<open>big.Int.SetString\<close>: an optional sign and digits\<close>
  "SetString s base =
     (case s of
        [] \<Rightarrow> None
      | c # t \<Rightarrow>
          if c = CHR ''-'' then map_option (\<lambda>n. - int n) (digits base t)
          else if c = CHR ''+'' then map_option int (digits base t)
          else map_option int (digits base s))"

definition fromHexChar :: "char \<Rightarrow> nat option" where
  "fromHexChar c =
     (let n = of_char c :: nat
      in if 48 \<le> n \<and> n \<le> 57 then Some (n - 48)
         else if 97 \<le> n \<and> n \<le> 102 then Some (n - 87)
         else if 65 \<le> n \<and> n \<le> 70 then Some (n - 55)
         else None)"

fun DecodeString :: "string \<Rightarrow> bytes option" where
  \<comment> \<open>\<open>hex.DecodeString\<close>\<close>
  "DecodeString [] = Some []"
| "DecodeString [a] = None"
| "DecodeString (a # b # s) = do { x \<leftarrow> fromHexChar a; y \<leftarrow> fromHexChar b; r \<leftarrow> DecodeString s; Some (char_of (16 * x + y) # r) }"

definition TrimRight :: "char \<Rightarrow> string \<Rightarrow> string" where
  "TrimRight d s = rev (dropWhile (\<lambda>c. c = d) (rev s))"

subsection \<open>Addresses\<close>

definition SCAddressNumLeadingZeros :: nat where "SCAddressNumLeadingZeros = 8"

definition decodeShardId :: "string \<Rightarrow> exprError + char" where
  "decodeShardId shardIdRaw =
     (case DecodeString shardIdRaw of
        None \<Rightarrow> Inl (BadShardHex shardIdRaw)
      | Some shardId \<Rightarrow> if length shardId \<noteq> 1 then Inl (BadShardLength shardIdRaw) else Inr (shardId ! 0))"

definition createAddressFromPrefix :: "string \<Rightarrow> nat \<Rightarrow> nat \<Rightarrow> bytes" where
  \<comment> \<open>an array of 32 zeros, filled from the start index with the prefix and underscores\<close>
  "createAddressFromPrefix pre startIndex endIndex =
     replicate startIndex (CHR 0x00) @ take (endIndex - startIndex) pre @
     replicate (endIndex - (length pre + startIndex)) (CHR ''_'') @ replicate (32 - endIndex) (CHR 0x00)"

definition createAddressOptionalShardId :: "string \<Rightarrow> nat \<Rightarrow> exprError + bytes" where
  "createAddressOptionalShardId input numLeadingZeros =
     (case splitOn (CHR ''#'') input of
        [name] \<Rightarrow> Inr (createAddressFromPrefix name numLeadingZeros 32)
      | [name, shard] \<Rightarrow>
          (case decodeShardId shard of
             Inl err \<Rightarrow> Inl err
           | Inr shardId \<Rightarrow> Inr ((createAddressFromPrefix name numLeadingZeros 32)[31 := shardId]))
      | _ \<Rightarrow> Inl (ManyShardSeparators input))"

definition addressExpression :: "string \<Rightarrow> exprError + bytes" where
  "addressExpression input = createAddressOptionalShardId input 0"

definition scExpression :: "string \<Rightarrow> exprError + bytes" where
  "scExpression input = createAddressOptionalShardId input SCAddressNumLeadingZeros"

subsection \<open>Numbers\<close>

definition interpretUnsignedNumber :: "string \<Rightarrow> exprError + bytes" where
  "interpretUnsignedNumber strRaw =
     (let str = filter (\<lambda>c. c \<noteq> CHR ''_'') strRaw;
          str = filter (\<lambda>c. c \<noteq> CHR '','') str
      in if HasPrefix strRaw ''0x'' \<or> HasPrefix strRaw ''0X'' then
           let str = drop 2 strRaw;
               str = (if length str mod 2 = 1 then CHR ''0'' # str else str)
           in (case DecodeString str of None \<Rightarrow> Inl (BadHex str) | Some b \<Rightarrow> Inr b)
         else if HasPrefix strRaw ''0b'' \<or> HasPrefix strRaw ''0B'' then
           (case SetString (drop 2 str) 2 of None \<Rightarrow> Inl (BadBinary strRaw) | Some n \<Rightarrow> Inr (Bytes n))
         else (case SetString str 10 of
                 None \<Rightarrow> Inl (BadDecimal strRaw)
               | Some n \<Rightarrow> if n < 0 then Inl (NegativeNumber strRaw) else Inr (Bytes n)))"

definition interpretUnsignedNumberFixedWidth :: "interpreter \<Rightarrow> string \<Rightarrow> nat \<Rightarrow> exprError + bytes" where
  "interpretUnsignedNumberFixedWidth ei strRaw targetWidth =
     (case interpretUnsignedNumber strRaw of
        Inl err \<Rightarrow> Inl err
      | Inr numberBytes \<Rightarrow>
          if targetWidth = 0 then Inr numberBytes
          else if length numberBytes > targetWidth then Inl (TooWide strRaw targetWidth)
          else Inr (ei_CopyAlignRight ei numberBytes targetWidth))"

definition interpretNumber :: "interpreter \<Rightarrow> string \<Rightarrow> nat \<Rightarrow> (exprError + bytes) option" where
  \<comment> \<open>the first character of an empty string panics\<close>
  "interpretNumber ei strRaw targetWidth =
     (case strRaw of
        [] \<Rightarrow> None
      | c # rest \<Rightarrow> Some (
          if c = CHR ''-'' \<or> c = CHR ''+'' then
            (case interpretUnsignedNumber rest of
               Inl err \<Rightarrow> Inl err
             | Inr numberBytes \<Rightarrow>
                 let number = SetBytes numberBytes;
                     number = (if c = CHR ''-'' then - number else number)
                 in if targetWidth = 0 then Inr (ei_ToBytes ei number)
                    else (case ei_ToBytesOfLength ei number targetWidth of Inl err \<Rightarrow> Inl (TwosError err) | Inr b \<Rightarrow> Inr b))
          else if targetWidth = 0 then interpretUnsignedNumber strRaw
          else interpretUnsignedNumberFixedWidth ei strRaw targetWidth))"

definition encodeLength :: "interpreter \<Rightarrow> bytes \<Rightarrow> bytes" where
  \<comment> \<open>\<open>append(twos.CopyAlignRight(lengthBytes, 4), value...)\<close>\<close>
  "encodeLength ei b = ei_CopyAlignRight ei (Bytes (int (length b))) 4 @ b"

subsection \<open>Expressions\<close>

fun firstPrefix :: "string list \<Rightarrow> string \<Rightarrow> string option" where
  \<comment> \<open>what follows the first of the prefixes a text has\<close>
  "firstPrefix [] s = None"
| "firstPrefix (p # ps) s = (if HasPrefix s p then Some (drop (length p) s) else firstPrefix ps s)"

definition strPrefixes :: "string list" where
  "strPrefixes = [''str:'', [CHR 0x60, CHR 0x60], [CHR 0x27, CHR 0x27]]"

lemma splitOn_nonempty: "splitOn d s \<noteq> []"
  by (induction s) auto

lemma length_splitOn_part: "p \<in> set (splitOn d s) \<Longrightarrow> length p + length (splitOn d s) \<le> Suc (length s)"
proof (induction s arbitrary: p)
  case (Cons c s)
  have ne: "splitOn d s = hd (splitOn d s) # tl (splitOn d s)" using splitOn_nonempty by simp
  have len: "length (hd (splitOn d s)) + length (splitOn d s) \<le> Suc (length s)"
    by (rule Cons.IH) (simp add: splitOn_nonempty)
  show ?case
  proof (cases "c = d")
    case True
    have "length (splitOn d s) \<le> Suc (length s)" using len by simp
    with True Cons show ?thesis by fastforce
  next
    case False
    have tl: "length q + length (splitOn d s) \<le> Suc (length s)" if "q \<in> set (tl (splitOn d s))" for q
      using that Cons.IH ne by (metis list.set_intros(2))
    have "Suc (length (tl (splitOn d s))) = length (splitOn d s)" using ne by (metis length_Cons)
    with False Cons.prems len tl show ?thesis by (auto simp: le_SucI)
  qed
qed simp

lemma splitOn_part_shorter: "length (splitOn d s) > 1 \<Longrightarrow> p \<in> set (splitOn d s) \<Longrightarrow> length p < length s"
  using length_splitOn_part [of p d s] by simp

fun concatParts :: "(exprError + bytes) option list \<Rightarrow> (exprError + bytes) option" where
  \<comment> \<open>the loop that appends the values of the parts, up to the first error\<close>
  "concatParts [] = Some (Inr [])"
| "concatParts (r # rs) =
     (case r of
        None \<Rightarrow> None
      | Some (Inl err) \<Rightarrow> Some (Inl err)
      | Some (Inr b) \<Rightarrow> (case concatParts rs of None \<Rightarrow> None | Some (Inl err) \<Rightarrow> Some (Inl err) | Some (Inr bs) \<Rightarrow> Some (Inr (b @ bs))))"

lemma concatParts_cong [fundef_cong]:
  "ps = qs \<Longrightarrow> (\<And>p. p \<in> set qs \<Longrightarrow> f p = g p) \<Longrightarrow> concatParts (map f ps) = concatParts (map g qs)"
  by (metis map_cong)

definition tryInterpretFixedWidth ::
  "interpreter \<Rightarrow> (string \<Rightarrow> (exprError + bytes) option) \<Rightarrow> string \<Rightarrow> (exprError + bytes) option option" where
  \<comment> \<open>\<open>None\<close> when nothing was parsed; the value nested in an expression is interpreted by \<open>interpret\<close>\<close>
  "tryInterpretFixedWidth ei interpret strRaw =
     (if HasPrefix strRaw ''u64:'' then Some (Some (interpretUnsignedNumberFixedWidth ei (drop 4 strRaw) 8))
      else if HasPrefix strRaw ''u32:'' then Some (Some (interpretUnsignedNumberFixedWidth ei (drop 4 strRaw) 4))
      else if HasPrefix strRaw ''u16:'' then Some (Some (interpretUnsignedNumberFixedWidth ei (drop 4 strRaw) 2))
      else if HasPrefix strRaw ''u8:'' then Some (Some (interpretUnsignedNumberFixedWidth ei (drop 3 strRaw) 1))
      else if HasPrefix strRaw ''i64:'' then Some (interpretNumber ei (drop 4 strRaw) 8)
      else if HasPrefix strRaw ''i32:'' then Some (interpretNumber ei (drop 4 strRaw) 4)
      else if HasPrefix strRaw ''i16:'' then Some (interpretNumber ei (drop 4 strRaw) 2)
      else if HasPrefix strRaw ''i8:'' then Some (interpretNumber ei (drop 3 strRaw) 1)
      else if HasPrefix strRaw ''biguint:'' then
        Some (Some (case interpretUnsignedNumber (drop 8 strRaw) of Inl err \<Rightarrow> Inl err | Inr biBytes \<Rightarrow> Inr (encodeLength ei biBytes)))
      else if HasPrefix strRaw ''nested:'' then
        Some (case interpret (drop 7 strRaw) of
           None \<Rightarrow> None | Some (Inl err) \<Rightarrow> Some (Inl err) | Some (Inr nestedBytes) \<Rightarrow> Some (Inr (encodeLength ei nestedBytes)))
      else None)"

lemma tryInterpretFixedWidth_cong [fundef_cong]:
  "s = t \<Longrightarrow> (HasPrefix t ''nested:'' \<Longrightarrow> f (drop 7 t) = g (drop 7 t)) \<Longrightarrow>
    tryInterpretFixedWidth ei f s = tryInterpretFixedWidth ei g t"
  by (simp add: tryInterpretFixedWidth_def)

function InterpretString :: "interpreter \<Rightarrow> string \<Rightarrow> (exprError + bytes) option" where
  "InterpretString ei strRaw =
     (if strRaw = [] then Some (Inr [])
      else if HasPrefix strRaw ''file:'' then
        (case FileResolver ei of
           None \<Rightarrow> Some (Inl NoFileResolver)
         | Some resolve \<Rightarrow> Some (case resolve (drop 5 strRaw) of Inl err \<Rightarrow> Inl (FileError err) | Inr fileContents \<Rightarrow> Inr fileContents))
      else if HasPrefix strRaw ''keccak256:'' then
        (case InterpretString ei (drop 10 strRaw) of
           None \<Rightarrow> None
         | Some (Inl err) \<Rightarrow> Some (Inl (KeccakArgument err))
         | Some (Inr arg) \<Rightarrow> Some (Inr (ei_Keccak256 ei arg)))
      else if length (splitOn (CHR ''|'') strRaw) > 1 then concatParts (map (InterpretString ei) (splitOn (CHR ''|'') strRaw))
      else if strRaw = ''false'' then Some (Inr [])
      else if strRaw = ''true'' then Some (Inr [CHR 0x01])
      else (case firstPrefix strPrefixes strRaw of
         Some str \<Rightarrow> Some (Inr str)
       | None \<Rightarrow>
      if HasPrefix strRaw ''address:'' then Some (addressExpression (drop 8 strRaw))
      else if HasPrefix strRaw ''sc:'' then Some (scExpression (drop 3 strRaw))
      else (case tryInterpretFixedWidth ei (InterpretString ei) strRaw of
         Some result \<Rightarrow> result
       | None \<Rightarrow> interpretNumber ei strRaw 0)))"
  by pat_completeness auto
termination
  by (relation "measure (\<lambda>(_, s). length s)") (auto simp: splitOn_part_shorter)

declare InterpretString.simps [simp del]

fun InterpretSubTree :: "interpreter \<Rightarrow> ojson \<Rightarrow> (exprError + bytes) option" where
  "InterpretSubTree ei (OJsonString v) = InterpretString ei v"
| "InterpretSubTree ei (OJsonList js) = concatParts (map (InterpretSubTree ei) js)"
  \<comment> \<open>the entries are sorted by their keys; their values do not depend on the order\<close>
| "InterpretSubTree ei (OJsonMap kvs) = concatParts (map snd (sort_key fst (map (\<lambda>(k, j). (k, InterpretSubTree ei j)) kvs)))"
| "InterpretSubTree ei (OJsonBool b) = Some (Inl CannotInterpret)"

lemma sort_key_map_snd: "sort_key fst (map (\<lambda>(k, j). (k, f j)) kvs) = map (\<lambda>(k, j). (k, f j)) (sort_key fst kvs)"
proof -
  have ins: "insort_key fst (k, f j) (map (\<lambda>(k, j). (k, f j)) xs) = map (\<lambda>(k, j). (k, f j)) (insort_key fst (k, j) xs)" for k j xs
    by (induction xs) auto
  show ?thesis
  proof (induction kvs)
    case (Cons kv kvs)
    obtain k j where "kv = (k, j)" by (cases kv)
    with Cons show ?case by (simp add: sort_key_def ins)
  qed simp
qed

lemma InterpretSubTree_map:
  "InterpretSubTree ei (OJsonMap kvs) = concatParts (map (InterpretSubTree ei \<circ> snd) (KeyValuePairsSortedByKey kvs))"
  by (simp add: sort_key_map_snd KeyValuePairsSortedByKey_def comp_def case_prod_beta)

subsection \<open>Reconstruction\<close>

datatype ExprReconstructorHint = NoHint | NumberHint | AddressHint | StrHint

definition maxBytesInterpretedAsNumber :: nat where "maxBytesInterpretedAsNumber = 15"

definition canInterpretAsString :: "bytes \<Rightarrow> bool" where
  "canInterpretAsString b \<longleftrightarrow> length b \<noteq> 0 \<and> list_all (\<lambda>c. \<not> ((of_char c :: nat) < 32 \<or> of_char c > (126 :: nat))) b"

definition unknownByteArrayPretty :: "(string \<Rightarrow> string) \<Rightarrow> bytes \<Rightarrow> string" where
  "unknownByteArrayPretty quote b =
     (if length b = 0 then ''[]''
      else if canInterpretAsString b then ''0x'' @ EncodeToString b @ '' (str:'' @ b @ '')''
      else if length b < maxBytesInterpretedAsNumber then ''0x'' @ EncodeToString b @ '' ('' @ decimal (SetBytes b) @ '')''
      else ''0x'' @ EncodeToString b @ '' (str:'' @ quote b @ '')'')"

definition hex_verb :: "char \<Rightarrow> string" where
  \<comment> \<open>\<open>%x\<close> of a byte: no leading zero\<close>
  "hex_verb c = (if (of_char c :: nat) < 16 then [hex_digit (of_char c)] else hex_byte c)"

definition addressPretty :: "(string \<Rightarrow> string) \<Rightarrow> bytes \<Rightarrow> string" where
  "addressPretty quote value =
     (if length value \<noteq> 32 then unknownByteArrayPretty quote value
      else if take SCAddressNumLeadingZeros value = replicate SCAddressNumLeadingZeros (CHR 0x00) then
        (if value ! 31 = CHR ''_'' then ''sc:'' @ TrimRight (CHR ''_'') (drop SCAddressNumLeadingZeros value)
         else ''sc:'' @ TrimRight (CHR ''_'') (drop SCAddressNumLeadingZeros (take 31 value)) @ ''#'' @ hex_verb (value ! 31))
      else if value ! 31 = CHR ''_'' then ''address:'' @ TrimRight (CHR ''_'') value
      else ''address:'' @ TrimRight (CHR ''_'') (take 31 value) @ ''#'' @ hex_byte (value ! 31))"

definition Reconstruct :: "(string \<Rightarrow> string) \<Rightarrow> bytes \<Rightarrow> ExprReconstructorHint \<Rightarrow> string" where
  "Reconstruct quote value hint =
     (case hint of
        NumberHint \<Rightarrow> decimal (SetBytes value)
      | StrHint \<Rightarrow> ''str:'' @ value
      | AddressHint \<Rightarrow> addressPretty quote value
      | NoHint \<Rightarrow> unknownByteArrayPretty quote value)"

definition ReconstructFromBigInt :: "(string \<Rightarrow> string) \<Rightarrow> int \<Rightarrow> string" where
  "ReconstructFromBigInt quote value = Reconstruct quote (Bytes value) NumberHint"

definition ReconstructFromUint64 :: "(string \<Rightarrow> string) \<Rightarrow> u64 \<Rightarrow> string" where
  "ReconstructFromUint64 quote value = Reconstruct quote (Bytes (uint value)) NumberHint"

subsection \<open>Numbers read back\<close>

lemma digits_nat_decimal: "digits 10 (nat_decimal n) = Some n"
proof -
  have "nat_decimal n \<noteq> [] \<and> list_all (\<lambda>c. 48 \<le> (of_char c :: nat) \<and> of_char c < (58 :: nat)) (nat_decimal n) \<and>
      foldl (\<lambda>acc c. acc * 10 + (of_char c - 48)) 0 (nat_decimal n) = n"
  proof (induction n rule: nat_decimal.induct)
    case (1 n)
    have c: "of_char (char_of (48 + m) :: char) = 48 + m" if "m < 10" for m :: nat
      using that by (simp add: of_char_of)
    show ?case
    proof (cases "n < 10")
      case True
      then show ?thesis by (simp add: nat_decimal.simps [of n] c)
    next
      case False
      with 1 show ?thesis by (simp add: nat_decimal.simps [of n] c)
    qed
  qed
  then show ?thesis by (simp add: digits_def)
qed

lemma HasPrefix_set: "HasPrefix s p \<Longrightarrow> set p \<subseteq> set s"
  by (metis HasPrefix_iff set_mono_prefix)

lemma splitOn_none: "d \<notin> set s \<Longrightarrow> splitOn d s = [s]"
  by (induction s) auto

lemma splitOn_one: "d \<notin> set x \<Longrightarrow> d \<notin> set y \<Longrightarrow> splitOn d (x @ d # y) = [x, y]"
  by (induction x) (auto simp: splitOn_none)

definition numeral_text :: "string \<Rightarrow> bool" where
  "numeral_text s \<longleftrightarrow> s \<noteq> [] \<and> set s \<subseteq> set ''0123456789''"

lemma no_prefix: "numeral_text s \<Longrightarrow> \<not> set p \<subseteq> set ''0123456789'' \<Longrightarrow> \<not> HasPrefix s p"
  using HasPrefix_set [of s p] unfolding numeral_text_def by blast

lemma Interpret_numeral:
  assumes "numeral_text s"
  shows "InterpretString ei s = Some (interpretUnsignedNumber s)"
proof -
  have sub: "set s \<subseteq> set ''0123456789''" and ne: "s \<noteq> []" using assms by (simp_all add: numeral_text_def)
  have "CHR ''|'' \<notin> set s" "CHR ''e'' \<notin> set s" "CHR ''-'' \<notin> set s" "CHR ''+'' \<notin> set s"
    by (rule contra_subsetD [OF sub], simp)+
  then have out: "splitOn (CHR ''|'') s = [s]" "s \<noteq> ''false''" "s \<noteq> ''true''" "hd s \<noteq> CHR ''-''" "hd s \<noteq> CHR ''+''"
    using hd_in_set [OF ne] by (auto simp: splitOn_none)
  have "interpretNumber ei s 0 = Some (interpretUnsignedNumber s)"
    using ne out(4,5) by (cases s) (simp_all add: interpretNumber_def)
  with ne out(1-3) show ?thesis
    by (subst InterpretString.simps) (simp add: no_prefix [OF assms] strPrefixes_def tryInterpretFixedWidth_def)
qed

lemma unsigned_numeral:
  assumes "numeral_text s" "digits 10 s = Some n"
  shows "interpretUnsignedNumber s = Inr (Bytes (int n))"
proof -
  have "filter (\<lambda>c. c \<noteq> CHR ''_'') s = s" "filter (\<lambda>c. c \<noteq> CHR '','') s = s"
    using assms(1) by (auto simp: numeral_text_def filter_id_conv)
  moreover have "SetString s 10 = Some (int n)"
  proof -
    have "s \<noteq> []" and sub: "set s \<subseteq> set ''0123456789''" using assms(1) unfolding numeral_text_def by blast+
    then have "hd s \<in> set ''0123456789''" by (meson hd_in_set subsetD)
    then have "hd s \<noteq> CHR ''-''" "hd s \<noteq> CHR ''+''" by auto
    with \<open>s \<noteq> []\<close> assms(2) show ?thesis by (cases s) (simp_all add: SetString_def)
  qed
  ultimately show ?thesis by (simp add: interpretUnsignedNumber_def no_prefix [OF assms(1)])
qed

lemma nat_decimal_text: "numeral_text (nat_decimal n)"
proof (induction n rule: nat_decimal.induct)
  case (1 n)
  have "char_of (48 + m) \<in> set ''0123456789''" if "m < 10" for m :: nat
  proof -
    have "list_all (\<lambda>m. char_of (48 + m) \<in> set ''0123456789'') [0::nat, 1, 2, 3, 4, 5, 6, 7, 8, 9]" by code_simp
    moreover have "m \<in> set [0, 1, 2, 3, 4, 5, 6, 7, 8, 9]" using that by auto
    ultimately show ?thesis unfolding list_all_iff by blast
  qed
  with 1 show ?case by (cases "n < 10") (auto simp: nat_decimal.simps [of n] numeral_text_def)
qed

lemma Interpret_decimal: "0 \<le> n \<Longrightarrow> InterpretString ei (decimal n) = Some (Inr (Bytes n))"
  by (simp add: decimal_def Interpret_numeral nat_decimal_text unsigned_numeral digits_nat_decimal)

subsection \<open>Addresses read back\<close>

lemma Interpret_address: "CHR ''|'' \<notin> set x \<Longrightarrow> InterpretString ei (''address:'' @ x) = Some (addressExpression x)"
  by (subst InterpretString.simps) (simp add: HasPrefix_def strPrefixes_def splitOn_none)

lemma Interpret_sc: "CHR ''|'' \<notin> set x \<Longrightarrow> InterpretString ei (''sc:'' @ x) = Some (scExpression x)"
  by (subst InterpretString.simps) (simp add: HasPrefix_def strPrefixes_def splitOn_none)

lemma TrimRight_snoc: "TrimRight d (s @ [c]) = (if c = d then TrimRight d s else s @ [c])"
  by (simp add: TrimRight_def)

lemma length_TrimRight: "length (TrimRight d s) \<le> length s"
  by (metis TrimRight_def length_rev length_dropWhile_le)

lemma TrimRight_pad: "TrimRight d s @ replicate (length s - length (TrimRight d s)) d = s"
proof (induction s rule: rev_induct)
  case (snoc c s)
  show ?case
  proof (cases "c = d")
    case True
    have "TrimRight d s @ replicate (Suc (length s) - length (TrimRight d s)) d = (TrimRight d s @ replicate (length s - length (TrimRight d s)) d) @ [d]"
      by (simp add: Suc_diff_le length_TrimRight flip: replicate_append_same)
    with True snoc.IH show ?thesis by (simp add: TrimRight_snoc)
  qed (simp add: TrimRight_snoc)
qed (simp add: TrimRight_def)

lemma set_TrimRight: "set (TrimRight d s) \<subseteq> set s"
  by (auto simp: TrimRight_def dest: set_dropWhileD)

lemma create_pad:
  \<comment> \<open>the padding that was cut off is put back\<close>
  assumes "take k a = replicate k (CHR 0x00)" "k \<le> length a" "length a \<le> 32"
  shows "createAddressFromPrefix (TrimRight (CHR ''_'') (drop k a)) k 32 = a @ replicate (32 - length a) (CHR ''_'')"
proof -
  let ?t = "TrimRight (CHR ''_'') (drop k a)"
  have len: "length ?t \<le> length a - k" using length_TrimRight [of "CHR ''_''" "drop k a"] by simp
  have "32 - (length ?t + k) = (length (drop k a) - length ?t) + (32 - length a)" using len assms(2,3) by simp
  then have "?t @ replicate (32 - (length ?t + k)) (CHR ''_'') = drop k a @ replicate (32 - length a) (CHR ''_'')"
    using TrimRight_pad [of "CHR ''_''" "drop k a"] by (simp only: replicate_add append_assoc [symmetric])
  moreover have "take (32 - k) ?t = ?t" using len assms(3) by simp
  moreover have "replicate k (CHR 0x00) @ drop k a = a" using append_take_drop_id [of k a] assms(1) by simp
  ultimately show ?thesis by (simp add: createAddressFromPrefix_def)
qed

lemma fromHex_digit: "n < 16 \<Longrightarrow> fromHexChar (hex_digit n) = Some n"
proof -
  assume "n < 16"
  moreover have "list_all (\<lambda>n. fromHexChar (hex_digit n) = Some n) [0..<16]" by code_simp
  ultimately show ?thesis by (simp add: list_all_iff)
qed

lemma byte_div: "(of_char c :: nat) div 16 < 16"
  by (simp add: less_mult_imp_div_less)

lemma decodeShard_byte: "decodeShardId (hex_byte c) = Inr c"
  by (simp add: decodeShardId_def hex_byte_def fromHex_digit byte_div)

lemma hex_digit_char: "n < 16 \<Longrightarrow> hex_digit n \<notin> set ''#|''"
proof -
  assume "n < 16"
  moreover have "list_all (\<lambda>n. hex_digit n \<notin> set ''#|'') [0..<16]" by code_simp
  ultimately show ?thesis unfolding list_all_iff by simp
qed

lemma hex_byte_chars: "CHR ''#'' \<notin> set (hex_byte c)" "CHR ''|'' \<notin> set (hex_byte c)"
  using hex_digit_char [OF byte_div [of c]] hex_digit_char [of "of_char c mod 16"] by (auto simp: hex_byte_def)

lemma last_byte: "length a = 32 \<Longrightarrow> take 31 a @ [a ! 31] = a"
  using take_Suc_conv_app_nth [of 31 a] by simp

lemma set_drop_take: "length a = 32 \<Longrightarrow> c \<notin> set (take 31 a) \<Longrightarrow> c \<notin> set (TrimRight d (drop k (take 31 a)))"
  using set_TrimRight set_drop_subset by fastforce

lemma set_whole: "length a = 32 \<Longrightarrow> c \<notin> set (take 31 a) \<Longrightarrow> c \<noteq> a ! 31 \<Longrightarrow> c \<notin> set (TrimRight d (drop k a))"
proof -
  assume "length a = 32" "c \<notin> set (take 31 a)" "c \<noteq> a ! 31"
  then have "c \<notin> set a" using last_byte [of a] by (metis Un_iff empty_iff insert_iff list.set set_append)
  then show ?thesis using set_TrimRight [of d "drop k a"] set_drop_subset [of k a] by blast
qed

lemma createAddress_plain:
  assumes "length a = 32" "k \<le> 31" "take k a = replicate k (CHR 0x00)" "CHR ''#'' \<notin> set (take 31 a)" "a ! 31 = CHR ''_''"
  shows "createAddressOptionalShardId (TrimRight (CHR ''_'') (drop k a)) k = Inr a"
proof -
  have "CHR ''#'' \<notin> set (TrimRight (CHR ''_'') (drop k a))" by (rule set_whole) (use assms in simp_all)
  with assms show ?thesis by (simp add: createAddressOptionalShardId_def splitOn_none create_pad)
qed

lemma createAddress_shard:
  assumes "length a = 32" "k \<le> 31" "take k a = replicate k (CHR 0x00)" "CHR ''#'' \<notin> set (take 31 a)"
  shows "createAddressOptionalShardId (TrimRight (CHR ''_'') (drop k (take 31 a)) @ CHR ''#'' # hex_byte (a ! 31)) k = Inr a"
proof -
  have "CHR ''#'' \<notin> set (TrimRight (CHR ''_'') (drop k (take 31 a)))" by (rule set_drop_take) (use assms in simp_all)
  moreover have "createAddressFromPrefix (TrimRight (CHR ''_'') (drop k (take 31 a))) k 32 = take 31 a @ [CHR ''_'']"
    using create_pad [of k "take 31 a"] assms(1-3) by (simp add: min_def)
  moreover have "(take 31 a @ [CHR ''_''])[31 := a ! 31] = a"
    using assms(1) last_byte [of a] by (simp add: list_update_append)
  ultimately show ?thesis
    by (simp add: createAddressOptionalShardId_def splitOn_one hex_byte_chars decodeShard_byte)
qed

lemma createAddress_digit:
  assumes "CHR ''#'' \<notin> set x" "n < 16"
  shows "createAddressOptionalShardId (x @ CHR ''#'' # [hex_digit n]) k = Inl (BadShardHex [hex_digit n])"
proof -
  have "splitOn (CHR ''#'') (x @ CHR ''#'' # [hex_digit n]) = [x, [hex_digit n]]"
    using assms hex_digit_char [of n] by (intro splitOn_one) auto
  then show ?thesis by (simp add: createAddressOptionalShardId_def decodeShardId_def)
qed

definition oneDigitShard :: "bytes \<Rightarrow> bool" where
  \<comment> \<open>the contract addresses whose shard byte is written with a single digit\<close>
  "oneDigitShard a \<longleftrightarrow>
     take SCAddressNumLeadingZeros a = replicate SCAddressNumLeadingZeros (CHR 0x00) \<and> a ! 31 \<noteq> CHR ''_'' \<and> (of_char (a ! 31) :: nat) < 16"

lemma sc_text:
  assumes "length a = 32" "CHR ''#'' \<notin> set (take 31 a)" "CHR ''|'' \<notin> set (take 31 a)"
    and zeros: "take 8 a = replicate 8 (CHR 0x00)"
  shows "InterpretString ei (addressPretty quote a) =
           Some (if oneDigitShard a then Inl (BadShardHex [hex_digit (of_char (a ! 31))]) else Inr a)"
proof (cases "a ! 31 = CHR ''_''")
  case True
  have "CHR ''|'' \<notin> set (TrimRight (CHR ''_'') (drop 8 a))" by (rule set_whole) (use assms True in simp_all)
  from Interpret_sc [OF this] True assms show ?thesis
    by (simp add: addressPretty_def SCAddressNumLeadingZeros_def oneDigitShard_def scExpression_def createAddress_plain)
next
  case False
  have bar: "CHR ''|'' \<notin> set (TrimRight (CHR ''_'') (drop 8 (take 31 a)))" and hash: "CHR ''#'' \<notin> set (TrimRight (CHR ''_'') (drop 8 (take 31 a)))"
    by (rule set_drop_take; use assms in simp)+
  let ?x = "TrimRight (CHR ''_'') (drop 8 (take 31 a))"
  have written: "addressPretty quote a = ''sc:'' @ (?x @ CHR ''#'' # hex_verb (a ! 31))"
    using False assms by (simp add: addressPretty_def SCAddressNumLeadingZeros_def)
  show ?thesis
  proof (cases "(of_char (a ! 31) :: nat) < 16")
    case True
    then have "CHR ''|'' \<notin> set (?x @ CHR ''#'' # hex_verb (a ! 31))"
      using bar hex_digit_char [OF True] by (auto simp: hex_verb_def)
    from Interpret_sc [OF this] True False zeros show ?thesis
      unfolding written by (simp add: hex_verb_def scExpression_def createAddress_digit [OF hash] oneDigitShard_def SCAddressNumLeadingZeros_def)
  next
    case wide: False
    then have "CHR ''|'' \<notin> set (?x @ CHR ''#'' # hex_verb (a ! 31))"
      using bar hex_byte_chars by (simp add: hex_verb_def)
    from Interpret_sc [OF this] wide assms show ?thesis
      unfolding written by (simp add: hex_verb_def scExpression_def createAddress_shard oneDigitShard_def SCAddressNumLeadingZeros_def)
  qed
qed

lemma address_text:
  assumes "length a = 32" "CHR ''#'' \<notin> set (take 31 a)" "CHR ''|'' \<notin> set (take 31 a)"
    and zeros: "take 8 a \<noteq> replicate 8 (CHR 0x00)"
  shows "InterpretString ei (addressPretty quote a) = Some (Inr a)"
proof (cases "a ! 31 = CHR ''_''")
  case True
  have "CHR ''|'' \<notin> set (TrimRight (CHR ''_'') (drop 0 a))" by (rule set_whole) (use assms True in simp_all)
  then have "CHR ''|'' \<notin> set (TrimRight (CHR ''_'') a)" by simp
  from Interpret_address [OF this] True assms show ?thesis
    using createAddress_plain [of a 0] by (simp add: addressPretty_def SCAddressNumLeadingZeros_def addressExpression_def)
next
  case False
  have "CHR ''|'' \<notin> set (TrimRight (CHR ''_'') (drop 0 (take 31 a)))" by (rule set_drop_take) (use assms in simp_all)
  then have "CHR ''|'' \<notin> set (TrimRight (CHR ''_'') (take 31 a) @ CHR ''#'' # hex_byte (a ! 31))"
    using hex_byte_chars by simp
  from Interpret_address [OF this] False assms show ?thesis
    using createAddress_shard [of a 0] by (simp add: addressPretty_def SCAddressNumLeadingZeros_def addressExpression_def)
qed

lemma Reconstruct_number: "InterpretString ei (Reconstruct quote v NumberHint) = Some (Inr (Bytes (SetBytes v)))"
  by (simp add: Reconstruct_def Interpret_decimal)

text \<open>
  C37: the text that the reconstructor writes for a 32 byte address reads back as that address, whatever the account
  or contract, its trailing underscores and its shard byte: provided the name has neither the separator of
  shards nor that of concatenations.  The one exception is a contract address whose shard byte is below 16 (and
  not an underscore), which is written with one hexadecimal digit: the interpreter refuses that text.
\<close>

theorem address_roundtrip:
  assumes "length a = 32" "CHR ''#'' \<notin> set (take 31 a)" "CHR ''|'' \<notin> set (take 31 a)"
  shows "InterpretString ei (Reconstruct quote a AddressHint) =
           Some (if oneDigitShard a then Inl (BadShardHex [hex_digit (of_char (a ! 31))]) else Inr a)"
proof (cases "take 8 a = replicate 8 (CHR 0x00)")
  case True
  from sc_text [OF assms this] show ?thesis by (simp add: Reconstruct_def)
next
  case False
  then have "\<not> oneDigitShard a" by (simp add: oneDigitShard_def SCAddressNumLeadingZeros_def)
  with address_text [OF assms False] show ?thesis by (simp add: Reconstruct_def)
qed

definition plainInterpreter :: interpreter where
  "plainInterpreter = \<lparr>FileResolver = None, ei_Keccak256 = rev, ei_ToBytes = Bytes,
     ei_ToBytesOfLength = (\<lambda>n w. Inr (Bytes n)), ei_CopyAlignRight = (\<lambda>b w. replicate (w - length b) (CHR 0x00) @ b)\<rparr>"

theorem address_roundtrip_witness:
  "InterpretString plainInterpreter (Reconstruct id (replicate 8 (CHR 0x00) @ ''adder'' @ replicate 18 (CHR ''_'') @ [CHR 0x1F]) AddressHint) =
     Some (Inr (replicate 8 (CHR 0x00) @ ''adder'' @ replicate 18 (CHR ''_'') @ [CHR 0x1F])) \<and>
   InterpretString plainInterpreter (Reconstruct id (replicate 8 (CHR 0x00) @ ''adder'' @ replicate 18 (CHR ''_'') @ [CHR 0x01]) AddressHint) =
     Some (Inl (BadShardHex ''1''))"
proof (rule conjI)
  show "InterpretString plainInterpreter (Reconstruct id (replicate 8 (CHR 0x00) @ ''adder'' @ replicate 18 (CHR ''_'') @ [CHR 0x1F]) AddressHint) =
     Some (Inr (replicate 8 (CHR 0x00) @ ''adder'' @ replicate 18 (CHR ''_'') @ [CHR 0x1F]))"
    by (subst address_roundtrip) (simp_all add: oneDigitShard_def SCAddressNumLeadingZeros_def nth_append)
  show "InterpretString plainInterpreter (Reconstruct id (replicate 8 (CHR 0x00) @ ''adder'' @ replicate 18 (CHR ''_'') @ [CHR 0x01]) AddressHint) =
     Some (Inl (BadShardHex ''1''))"
    by (subst address_roundtrip) (simp_all add: oneDigitShard_def SCAddressNumLeadingZeros_def nth_append hex_digit_def)
qed

end
