(* ===== verification/MockWorld.thy ===== *)
theory MockWorld
  imports WorldAccounts IpcGateway ScenExpressions
begin

text \<open>
  The mock world in which scenarios run (\<open>src/mock/world\<close>): accounts, blocks, the addresses of new contracts, backups of the state, and
  the blockchain hook of the VM (\<open>worldHook\<close>).  What the VM tells the node during a transaction, its hook log, is played
  back onto the world (\<open>playEvent\<close>), so that the answers of the hook depend on it.
\<close>

record wNewAddressMock =
  wnam_CreatorAddress :: address
  wnam_CreatorNonce :: u64
  wnam_NewAddress :: address

record wBlockInfo =
  wbi_BlockTimestamp :: u64
  wbi_BlockNonce :: u64
  wbi_BlockRound :: u64
  wbi_BlockEpoch :: u32
  wbi_RandomSeed :: "bytes option"

record world =
  SelfShardID :: u32
  AcctMap :: AccountMap
  Snapshots :: "AccountMap list"
  PreviousBlockInfo :: "wBlockInfo option"
  CurrentBlockInfo :: "wBlockInfo option"
  Blockhashes :: "bytes list"
  NewAddressMocks :: "wNewAddressMock list"
  StateRootHash :: bytes
  Err :: "err option"
  LastCreatedContractAddress :: address
  CompiledCode :: "(bytes, bytes) gomap"
  BuiltinFuncs :: "builtinContainer option"

definition NewMockWorld :: world where
  "NewMockWorld = \<lparr>SelfShardID = 0, AcctMap = [], Snapshots = [], PreviousBlockInfo = None, CurrentBlockInfo = None, Blockhashes = [],
     NewAddressMocks = [], StateRootHash = [], Err = None, LastCreatedContractAddress = [], CompiledCode = [], BuiltinFuncs = None\<rparr>"

definition makeDNSAddresses :: "worldLib \<Rightarrow> interpreter \<Rightarrow> nat \<Rightarrow> bytes list" where
  \<comment> \<open>the keys of the map; an error leaves an empty address\<close>
  "makeDNSAddresses lib ei numAddresses =
     map (\<lambda>i. case InterpretString ei (''sc:dns#'' @ hex_byte (char_of i)) of Some (Inr dnsAddress) \<Rightarrow> dnsAddress | _ \<Rightarrow> []) [0..<numAddresses]"

definition numDNSAddresses :: nat where "numDNSAddresses = 0xFF"

definition InitBuiltinFunctions :: "worldLib \<Rightarrow> interpreter \<Rightarrow> GasScheduleMap \<Rightarrow> world \<Rightarrow> err option \<times> world" where
  "InitBuiltinFunctions lib ei gasMap w =
     (case CreateBuiltInFunctionContainer lib gasMap (makeDNSAddresses lib ei numDNSAddresses) of
        Inl err \<Rightarrow> (Some err, w)
      | Inr container \<Rightarrow> (None, w\<lparr>BuiltinFuncs := Some container\<rparr>))"

definition world_Clear :: "world \<Rightarrow> world" where
  "world_Clear w = w\<lparr>AcctMap := [], Snapshots := [], PreviousBlockInfo := None, CurrentBlockInfo := None, Blockhashes := [], NewAddressMocks := [],
     CompiledCode := []\<rparr>"

definition SetCurrentBlockHash :: "bytes \<Rightarrow> world \<Rightarrow> world" where
  "SetCurrentBlockHash blockHash w =
     w\<lparr>CurrentBlockInfo := (case CurrentBlockInfo w of
         None \<Rightarrow> Some \<lparr>wbi_BlockTimestamp = 0, wbi_BlockNonce = 0, wbi_BlockRound = 0, wbi_BlockEpoch = 0, wbi_RandomSeed = None\<rparr>
       | Some info \<Rightarrow> Some info), Blockhashes := [blockHash]\<rparr>"

definition NumberOfShards :: "world \<Rightarrow> u32" where
  "NumberOfShards w = fold (\<lambda>(_, account) maxShardID. if wa_ShardID account > maxShardID then wa_ShardID account else maxShardID) (AcctMap w) 0 + 1"

definition ComputeId :: "world \<Rightarrow> address \<Rightarrow> u32 option" where
  \<comment> \<open>an account that is not there panics\<close>
  "ComputeId w address = map_option wa_ShardID (wa_GetAccount (AcctMap w) address)"

definition SameShard :: "world \<Rightarrow> address \<Rightarrow> address \<Rightarrow> bool option" where
  "SameShard w firstAddress secondAddress = do {
     firstAccount \<leftarrow> wa_GetAccount (AcctMap w) firstAddress;
     secondAccount \<leftarrow> wa_GetAccount (AcctMap w) secondAddress;
     Some (wa_ShardID firstAccount = wa_ShardID secondAccount) }"

definition CommunicationIdentifier :: "u32 \<Rightarrow> string" where
  "CommunicationIdentifier destShardID = ''commID-dest-'' @ decimal (uint destShardID)"

subsection \<open>Backups of the state\<close>

definition JournalLen :: "world \<Rightarrow> int" where "JournalLen w = int (length (Snapshots w)) - 1"

definition GetSnapshot :: "world \<Rightarrow> int" where "GetSnapshot w = JournalLen w"

definition SnapshotState :: "world \<Rightarrow> world option" where
  "SnapshotState w = map_option (\<lambda>snapshot. w\<lparr>Snapshots := Snapshots w @ [snapshot]\<rparr>) (accounts_Clone (AcctMap w))"

definition RevertToSnapshot :: "int \<Rightarrow> world \<Rightarrow> err option \<times> world" where
  "RevertToSnapshot snapshotIndex w =
     (if length (Snapshots w) = 0 then (Some (ErrPlain ''no snapshots''), w)
      else if snapshotIndex \<ge> int (length (Snapshots w)) \<or> snapshotIndex < 0 then
        (Some (ErrPlain (''snapshot '' @ decimal snapshotIndex @ '' out of bounds (min 0, max '' @ decimal (int (length (Snapshots w)) - 1) @ '')'')), w)
      else
        let snapshot = Snapshots w ! nat snapshotIndex;
            w = w\<lparr>Snapshots := take (nat snapshotIndex) (Snapshots w)\<rparr>
        in (case LoadAccountStorageFrom (AcctMap w) snapshot of (err, am) \<Rightarrow> (err, w\<lparr>AcctMap := am\<rparr>)))"

definition world_RevertToSnapshot :: "int \<Rightarrow> world \<Rightarrow> err option \<times> world" where
  "world_RevertToSnapshot snapshot w = RevertToSnapshot snapshot w"

definition Commit :: "world \<Rightarrow> world" where "Commit w = w\<lparr>Snapshots := []\<rparr>"

definition GetExistingAccount :: "world \<Rightarrow> address \<Rightarrow> err + wAccount" where
  "GetExistingAccount w address = (case go_get (AcctMap w) address of None \<Rightarrow> Inl ErrInvalidAccount | Some account \<Rightarrow> Inr account)"

definition LoadAccount :: "world \<Rightarrow> address \<Rightarrow> err + wAccount" where
  "LoadAccount w address = GetExistingAccount w address"

definition SaveAccount :: "wAccount \<Rightarrow> world \<Rightarrow> world" where
  "SaveAccount account w = w\<lparr>AcctMap := PutAccount account (AcctMap w)\<rparr>"

definition RemoveAccount :: "address \<Rightarrow> world \<Rightarrow> err option \<times> world" where
  "RemoveAccount address w =
     (case go_get (AcctMap w) address of
        None \<Rightarrow> (Some ErrInvalidAccount, w)
      | Some _ \<Rightarrow> (None, w\<lparr>AcctMap := DeleteAccount address (AcctMap w)\<rparr>))"

definition GetNumCheckpoints :: "world \<Rightarrow> u32" where
  "GetNumCheckpoints w = of_nat (length (Snapshots w))"

definition adapter_GetCode :: "world \<Rightarrow> bytes \<Rightarrow> bytes" where
  "adapter_GetCode w codeHash =
     (case find (\<lambda>(_, account). wa_CodeHash account = codeHash) (AcctMap w) of None \<Rightarrow> [] | Some (_, account) \<Rightarrow> wa_Code account)"

definition CreateStateBackup :: "world \<Rightarrow> world option" where "CreateStateBackup w = SnapshotState w"
definition CommitChanges :: "world \<Rightarrow> err option \<times> world" where "CommitChanges w = (None, Commit w)"
definition RollbackChanges :: "world \<Rightarrow> err option \<times> world" where "RollbackChanges w = RevertToSnapshot 0 w"

subsection \<open>Updates after a transaction\<close>

definition UpdateBalance :: "address \<Rightarrow> bigint \<Rightarrow> world \<Rightarrow> err option \<times> world" where
  "UpdateBalance address newBalance w =
     (case wa_GetAccount (AcctMap w) address of
        None \<Rightarrow> (Some (ErrPlain ''method UpdateBalance expects an existing address''), w)
      | Some acct \<Rightarrow> (None, w\<lparr>AcctMap := go_set address (acct\<lparr>wa_Balance := newBalance\<rparr>) (AcctMap w)\<rparr>))"

definition UpdateBalanceWithDelta :: "address \<Rightarrow> int \<Rightarrow> world \<Rightarrow> (err option \<times> world) option" where
  "UpdateBalanceWithDelta address balanceDelta w =
     (case wa_GetAccount (AcctMap w) address of
        None \<Rightarrow> Some (Some (ErrPlain ''method UpdateBalanceWithDelta expects an existing address''), w)
      | Some acct \<Rightarrow> map_option (\<lambda>balance. (None, w\<lparr>AcctMap := go_set address (acct\<lparr>wa_Balance := Some (balance + balanceDelta)\<rparr>) (AcctMap w)\<rparr>))
          (wa_Balance acct))"

definition UpdateWorldStateBefore :: "address \<Rightarrow> u64 \<Rightarrow> u64 \<Rightarrow> world \<Rightarrow> (err option \<times> world) option" where
  \<comment> \<open>the nonce has grown when the balance turns out to be too small\<close>
  "UpdateWorldStateBefore fromAddr gasLimit gasPrice w =
     (case wa_GetAccount (AcctMap w) fromAddr of
        None \<Rightarrow> Some (Some (ErrPlain ''method UpdateWorldStateBefore expects an existing address''), w)
      | Some acct \<Rightarrow> do {
          let acct = acct\<lparr>wa_Nonce := wa_Nonce acct + 1\<rparr>;
          let gasPayment = uint gasLimit * uint gasPrice;
          balance \<leftarrow> wa_Balance acct;
          Some (if balance < gasPayment
            then (Some (ErrPlain ''not enough balance to pay gas upfront''), w\<lparr>AcctMap := go_set fromAddr acct (AcctMap w)\<rparr>)
            else (None, w\<lparr>AcctMap := go_set fromAddr (acct\<lparr>wa_Balance := Some (balance - gasPayment)\<rparr>) (AcctMap w)\<rparr>)) })"

definition updatedAccount :: "worldLib \<Rightarrow> OutputAccount \<Rightarrow> wAccount \<Rightarrow> wAccount option" where
  \<comment> \<open>the fields set by an output account\<close>
  "updatedAccount lib modAcct acct = do {
     let acct = acct\<lparr>wa_Exists := True\<rparr>;
     acct \<leftarrow> (case BalanceDelta modAcct of
         Some balanceDelta \<Rightarrow> map_option (\<lambda>balance. acct\<lparr>wa_Balance := Some (balance + balanceDelta)\<rparr>) (wa_Balance acct)
       | None \<Rightarrow> Some (acct\<lparr>wa_Balance := Balance modAcct\<rparr>));
     let acct = (if Nonce modAcct > wa_Nonce acct then acct\<lparr>wa_Nonce := Nonce modAcct\<rparr> else acct);
     let acct = (if length (Code modAcct) > 0
       then SetCodeAndMetadata lib (Code modAcct) \<lparr>Payable = True, Upgradeable = True, Readable = True\<rparr> acct else acct);
     let acct = (case OutputTransfers modAcct of
         transfer # _ \<Rightarrow> if length (ot_Data transfer) > 0 then acct\<lparr>wa_AsyncCallData := ot_Data transfer\<rparr> else acct
       | [] \<Rightarrow> acct);
     Some (acct\<lparr>wa_Storage := fold (\<lambda>(_, stu). go_set (su_Offset stu) (su_Data stu)) (StorageUpdates modAcct) (wa_Storage acct)\<rparr>) }"

definition UpdateAccountFromOutputAccount :: "worldLib \<Rightarrow> OutputAccount \<Rightarrow> AccountMap \<Rightarrow> AccountMap option" where
  "UpdateAccountFromOutputAccount lib modAcct am =
     (let acct = (case wa_GetAccount am (Address modAcct) of
          None \<Rightarrow> (fst (CreateAccount (Address modAcct) am))\<lparr>wa_OwnerAddress := (case CodeDeployerAddress modAcct of None \<Rightarrow> [] | Some a \<Rightarrow> a)\<rparr>
        | Some acct \<Rightarrow> acct)
      in map_option (\<lambda>acct. go_set (Address modAcct) acct am) (updatedAccount lib modAcct acct))"

fun UpdateAll :: "worldLib \<Rightarrow> OutputAccount list \<Rightarrow> AccountMap \<Rightarrow> AccountMap option" where
  "UpdateAll lib [] am = Some am"
| "UpdateAll lib (modAcct # modAccts) am = do { am \<leftarrow> UpdateAccountFromOutputAccount lib modAcct am; UpdateAll lib modAccts am }"

definition UpdateAccounts :: "worldLib \<Rightarrow> (address, OutputAccount) gomap \<Rightarrow> address list \<Rightarrow> world \<Rightarrow> (err option \<times> world) option" where
  "UpdateAccounts lib outputAccounts accountsToDelete w =
     map_option (\<lambda>am. (None, w\<lparr>AcctMap := fold DeleteAccount accountsToDelete am\<rparr>)) (UpdateAll lib (map snd outputAccounts) (AcctMap w))"

subsection \<open>Callbacks of the VM\<close>

definition sliceCopy :: "bytes \<Rightarrow> nat \<Rightarrow> nat \<Rightarrow> bytes \<Rightarrow> bytes" where
  \<comment> \<open>\<open>copy(dst[a:b], src)\<close>\<close>
  "sliceCopy dst a b src = take a dst @ take (b - a) src @ drop (a + length (take (b - a) src)) dst"

definition GenerateMockAddress :: "address \<Rightarrow> u64 \<Rightarrow> address option" where
  \<comment> \<open>a creator of fewer than 30 bytes panics\<close>
  "GenerateMockAddress creatorAddress creatorNonce =
     (if length creatorAddress < 30 then None
      else
        let res = replicate 10 (CHR 0x00) @ replicate 4 (CHR 0x11) @ replicate 18 (CHR 0x00);
            res = sliceCopy res 14 29 creatorAddress;
            res = res[29 := char_of (unat creatorNonce mod 256)]
        in Some (sliceCopy res 30 32 (drop 30 creatorAddress)))"

definition world_NewAddress :: "address \<Rightarrow> u64 \<Rightarrow> world \<Rightarrow> ((err + address) \<times> world) option" where
  "world_NewAddress creatorAddress creatorNonce w =
     (case Err w of
        Some err \<Rightarrow> Some (Inl err, w)
      | None \<Rightarrow>
          (case find (\<lambda>m. creatorAddress = wnam_CreatorAddress m \<and> creatorNonce = wnam_CreatorNonce m) (NewAddressMocks w) of
             Some m \<Rightarrow> Some (Inr (wnam_NewAddress m), w\<lparr>LastCreatedContractAddress := wnam_NewAddress m\<rparr>)
           | None \<Rightarrow> map_option (\<lambda>res. (Inr res, w\<lparr>LastCreatedContractAddress := res\<rparr>)) (GenerateMockAddress creatorAddress creatorNonce)))"

definition world_GetStorageData :: "world \<Rightarrow> address \<Rightarrow> bytes \<Rightarrow> bytes \<times> u32 \<times> err option" where
  "world_GetStorageData w accountAddress key =
     (case Err w of
        Some err \<Rightarrow> ([], 0, Some err)
      | None \<Rightarrow> (case wa_GetAccount (AcctMap w) accountAddress of None \<Rightarrow> ([], 0, None) | Some acct \<Rightarrow> (StorageValue acct key, 0, None)))"

definition world_CurrentNonce :: "world \<Rightarrow> u64" where
  "world_CurrentNonce w = (case CurrentBlockInfo w of None \<Rightarrow> 0 | Some info \<Rightarrow> wbi_BlockNonce info)"
definition world_CurrentRound :: "world \<Rightarrow> u64" where
  "world_CurrentRound w = (case CurrentBlockInfo w of None \<Rightarrow> 0 | Some info \<Rightarrow> wbi_BlockRound info)"
definition world_CurrentTimeStamp :: "world \<Rightarrow> u64" where
  "world_CurrentTimeStamp w = (case CurrentBlockInfo w of None \<Rightarrow> 0 | Some info \<Rightarrow> wbi_BlockTimestamp info)"
definition world_CurrentEpoch :: "world \<Rightarrow> u32" where
  "world_CurrentEpoch w = (case CurrentBlockInfo w of None \<Rightarrow> 0 | Some info \<Rightarrow> wbi_BlockEpoch info)"
definition world_CurrentRandomSeed :: "world \<Rightarrow> bytes option" where
  \<comment> \<open>slicing a nil array panics\<close>
  "world_CurrentRandomSeed w = (case CurrentBlockInfo w of None \<Rightarrow> Some [] | Some info \<Rightarrow> wbi_RandomSeed info)"

definition world_LastNonce :: "world \<Rightarrow> u64" where
  "world_LastNonce w = (case PreviousBlockInfo w of None \<Rightarrow> 0 | Some info \<Rightarrow> wbi_BlockNonce info)"
definition world_LastRound :: "world \<Rightarrow> u64" where
  "world_LastRound w = (case PreviousBlockInfo w of None \<Rightarrow> 0 | Some info \<Rightarrow> wbi_BlockRound info)"
definition world_LastTimeStamp :: "world \<Rightarrow> u64" where
  "world_LastTimeStamp w = (case PreviousBlockInfo w of None \<Rightarrow> 0 | Some info \<Rightarrow> wbi_BlockTimestamp info)"
definition world_LastEpoch :: "world \<Rightarrow> u32" where
  "world_LastEpoch w = (case PreviousBlockInfo w of None \<Rightarrow> 0 | Some info \<Rightarrow> wbi_BlockEpoch info)"
definition world_LastRandomSeed :: "world \<Rightarrow> bytes option" where
  "world_LastRandomSeed w = (case PreviousBlockInfo w of None \<Rightarrow> Some [] | Some info \<Rightarrow> wbi_RandomSeed info)"

definition world_GetBlockhash :: "world \<Rightarrow> u64 \<Rightarrow> (err + bytes) option" where
  \<comment> \<open>a distance of 2^63 or more is a negative index\<close>
  "world_GetBlockhash w nonce =
     (case Err w of
        Some err \<Rightarrow> Some (Inl err)
      | None \<Rightarrow>
          let currentNonce = world_CurrentNonce w
          in if nonce > currentNonce then Some (Inl (ErrPlain ''requested nonce is greater than current nonce''))
             else
               let offsetInt32 = sint (currentNonce - nonce)
               in if offsetInt32 \<ge> int (length (Blockhashes w)) then
                    Some (Inl (ErrPlain ''requested nonce is older than the oldest available block nonce''))
                  else if offsetInt32 < 0 then None
                  else Some (Inr (Blockhashes w ! nat offsetInt32)))"

definition getAccountSharded :: "world \<Rightarrow> address \<Rightarrow> wAccount option option" where
  \<comment> \<open>the outer None: the account is not there, which panics\<close>
  "getAccountSharded w address = do {
     accountShard \<leftarrow> ComputeId w address;
     Some (if accountShard \<noteq> SelfShardID w then None else wa_GetAccount (AcctMap w) address) }"

definition wrapper_ProcessBuiltInFunction ::
  "builtinContainer \<Rightarrow> ContractCallInput \<Rightarrow> world \<Rightarrow> ((VMOutput option \<times> err option) \<times> world) option" where
  "wrapper_ProcessBuiltInFunction container input w = do {
     caller \<leftarrow> getAccountSharded w (CallerAddr (cci_VMInput input));
     recipient \<leftarrow> getAccountSharded w (RecipientAddr input);
     Some (case c_Get container (Function input) of
         Inl err \<Rightarrow> ((None, Some err), w)
       | Inr function1 \<Rightarrow> (case function1 caller recipient input (AcctMap w) of (res, am) \<Rightarrow> (res, w\<lparr>AcctMap := am\<rparr>))) }"

definition ErrBuiltinFuncWrapperNotInitialized :: err where
  "ErrBuiltinFuncWrapperNotInitialized = ErrPlain ''builtin function not found or container not initialized''"

definition world_ProcessBuiltInFunction :: "ContractCallInput \<Rightarrow> world \<Rightarrow> ((VMOutput option \<times> err option) \<times> world) option" where
  "world_ProcessBuiltInFunction input w =
     (case Err w of
        Some err \<Rightarrow> Some ((None, Some err), w)
      | None \<Rightarrow>
          (case BuiltinFuncs w of
             None \<Rightarrow> Some ((None, Some ErrBuiltinFuncWrapperNotInitialized), w)
           | Some container \<Rightarrow> wrapper_ProcessBuiltInFunction container input w))"

definition wrapper_GetTokenData :: "worldLib \<Rightarrow> world \<Rightarrow> address \<Rightarrow> bytes \<Rightarrow> (err + wToken) option" where
  "wrapper_GetTokenData lib w address tokenKey = do { account \<leftarrow> wa_GetAccount (AcctMap w) address; GetTokenData lib account tokenKey }"

definition wrapper_GetTokenBalance :: "worldLib \<Rightarrow> world \<Rightarrow> address \<Rightarrow> bytes \<Rightarrow> (err + bigint) option" where
  "wrapper_GetTokenBalance lib w address tokenKey = do { account \<leftarrow> wa_GetAccount (AcctMap w) address; GetTokenBalance lib account tokenKey }"

definition wrapper_SetTokenBalance :: "worldLib \<Rightarrow> address \<Rightarrow> bytes \<Rightarrow> int \<Rightarrow> world \<Rightarrow> (err option \<times> world) option" where
  "wrapper_SetTokenBalance lib address tokenKey balance w = do {
     account \<leftarrow> wa_GetAccount (AcctMap w) address;
     r \<leftarrow> SetTokenBalance lib tokenKey balance account;
     Some (case r of Inl err \<Rightarrow> (Some err, w) | Inr account \<Rightarrow> (None, w\<lparr>AcctMap := go_set address account (AcctMap w)\<rparr>)) }"

definition wrapper_SetTokenData :: "worldLib \<Rightarrow> address \<Rightarrow> bytes \<Rightarrow> wToken \<Rightarrow> world \<Rightarrow> (err option \<times> world) option" where
  "wrapper_SetTokenData lib address tokenKey tokenData w = do {
     account \<leftarrow> wa_GetAccount (AcctMap w) address;
     Some (case SetTokenData lib tokenKey tokenData account of
         Inl err \<Rightarrow> (Some err, w) | Inr account \<Rightarrow> (None, w\<lparr>AcctMap := go_set address account (AcctMap w)\<rparr>)) }"

definition world_GetDCDTToken :: "worldLib \<Rightarrow> world \<Rightarrow> address \<Rightarrow> bytes \<Rightarrow> u64 \<Rightarrow> (err + wToken) option" where
  "world_GetDCDTToken lib w address tokenName nonce =
     (case Err w of
        Some err \<Rightarrow> Some (Inl err)
      | None \<Rightarrow>
          (case BuiltinFuncs w of
             None \<Rightarrow> Some (Inl ErrBuiltinFuncWrapperNotInitialized)
           | Some _ \<Rightarrow> wrapper_GetTokenData lib w address (MakeTokenKey lib tokenName nonce)))"

definition world_GetBuiltinFunctionNames :: "world \<Rightarrow> FunctionNames option" where
  "world_GetBuiltinFunctionNames w = map_option c_Keys (BuiltinFuncs w)"

definition world_GetAllState :: "world \<Rightarrow> address \<Rightarrow> (bytes, bytes) gomap \<times> err option" where
  "world_GetAllState w accountAddress =
     (case wa_GetAccount (AcctMap w) accountAddress of
        None \<Rightarrow> ([], Some (ErrPlain (''account not found: '' @ EncodeToString accountAddress)))
      | Some account \<Rightarrow> (wa_Storage account, None))"

definition world_GetUserAccount :: "world \<Rightarrow> address \<Rightarrow> err + wAccount" where
  "world_GetUserAccount w address =
     (case Err w of
        Some err \<Rightarrow> Inl err
      | None \<Rightarrow>
          (case wa_GetAccount (AcctMap w) address of
             None \<Rightarrow> Inl (ErrPlain (''account not found: '' @ EncodeToString address))
           | Some account \<Rightarrow> Inr account))"

definition world_GetCode :: "world \<Rightarrow> address \<Rightarrow> bytes" where
  "world_GetCode w address = (case wa_GetAccount (AcctMap w) address of None \<Rightarrow> [] | Some account \<Rightarrow> wa_Code account)"

definition world_GetShardOfAddress :: "world \<Rightarrow> address \<Rightarrow> u32" where
  "world_GetShardOfAddress w address = (case wa_GetAccount (AcctMap w) address of None \<Rightarrow> 0 | Some account \<Rightarrow> wa_ShardID account)"

definition world_IsSmartContract :: "world \<Rightarrow> address \<Rightarrow> bool" where
  "world_IsSmartContract w address \<longleftrightarrow> (case wa_GetAccount (AcctMap w) address of None \<Rightarrow> False | Some account \<Rightarrow> wa_IsSmartContract account)"

definition world_IsPayable :: "worldLib \<Rightarrow> world \<Rightarrow> address \<Rightarrow> bool \<times> err option" where
  "world_IsPayable lib w address =
     (case wa_GetAccount (AcctMap w) address of
        None \<Rightarrow> (True, None)
      | Some account \<Rightarrow> if \<not> wa_IsSmartContract account then (True, None) else (metadata_Payable lib (wa_CodeMetadata account), None))"

definition world_SaveCompiledCode :: "bytes \<Rightarrow> bytes \<Rightarrow> world \<Rightarrow> world" where
  "world_SaveCompiledCode codeHash code w = w\<lparr>CompiledCode := go_set codeHash code (CompiledCode w)\<rparr>"

definition world_GetCompiledCode :: "world \<Rightarrow> bytes \<Rightarrow> bool \<times> bytes" where
  "world_GetCompiledCode w codeHash = (case go_get (CompiledCode w) codeHash of None \<Rightarrow> (False, []) | Some code \<Rightarrow> (True, code))"

definition world_ClearCompiledCodes :: "world \<Rightarrow> world" where
  "world_ClearCompiledCodes w = w\<lparr>CompiledCode := []\<rparr>"

subsection \<open>The hook\<close>

definition playEvent :: "hookEvent \<Rightarrow> world \<Rightarrow> world" where
  \<comment> \<open>a built-in function that panics leaves the world as it is\<close>
  "playEvent event w =
     (case event of
        BuiltInCall input \<Rightarrow> (case world_ProcessBuiltInFunction input w of None \<Rightarrow> w | Some (_, w) \<Rightarrow> w)
      | AddressRequested creatorAddress creatorNonce _ \<Rightarrow>
          (case world_NewAddress creatorAddress creatorNonce w of None \<Rightarrow> w | Some (_, w) \<Rightarrow> w)
      | CompiledCodeSaved codeHash code \<Rightarrow> world_SaveCompiledCode codeHash code w
      | CompiledCodesCleared \<Rightarrow> world_ClearCompiledCodes w)"

definition playEvents :: "hookEvent list \<Rightarrow> world \<Rightarrow> world" where
  "playEvents log w = fold playEvent log w"

definition handlerOf :: "wAccount \<Rightarrow> userAccount" where
  \<comment> \<open>the account through its getters\<close>
  "handlerOf a = \<lparr>ua_Balance = (case wa_Balance a of None \<Rightarrow> 0 | Some b \<Rightarrow> b), ua_Nonce = wa_Nonce a, ua_CodeHash = wa_CodeHash a,
     ua_CodeMetadata = wa_CodeMetadata a, ua_OwnerAddress = wa_OwnerAddress a, ua_Address = wa_Address a, ua_RootHash = wa_RootHash a,
     ua_DeveloperReward = 0, ua_UserName = wa_Username a\<rparr>"

definition tokenOf :: "wToken \<Rightarrow> DCDigitalToken" where
  "tokenOf t = \<lparr>dt_Value = wt_Value t, dt_Properties = wt_Properties t, dt_TokenMetaData = map_option MetaData.truncate (wt_TokenMetaData t)\<rparr>"

definition orNothing :: "'a \<Rightarrow> (err + 'a) option \<Rightarrow> 'a \<times> err option" where
  \<comment> \<open>a value or an error; a panic has neither\<close>
  "orNothing z r = (case r of None \<Rightarrow> (z, None) | Some (Inl err) \<Rightarrow> (z, Some err) | Some (Inr a) \<Rightarrow> (a, None))"

definition worldHook :: "worldLib \<Rightarrow> world \<Rightarrow> BlockchainHook" where
  \<comment> \<open>the answers that do not take the log are those of the world before the transaction\<close>
  "worldHook lib w = \<lparr>
     bh_NewAddress = (\<lambda>creator nonce _. orNothing [] (map_option fst (world_NewAddress creator nonce w))),
     bh_GetStorageData = (\<lambda>log a k. world_GetStorageData (playEvents log w) a k),
     bh_GetBlockhash = (\<lambda>nonce. orNothing [] (world_GetBlockhash w nonce)),
     bh_LastNonce = world_LastNonce w, bh_LastRound = world_LastRound w, bh_LastTimeStamp = world_LastTimeStamp w,
     bh_LastRandomSeed = (case world_LastRandomSeed w of None \<Rightarrow> [] | Some seed \<Rightarrow> seed), bh_LastEpoch = world_LastEpoch w,
     bh_GetStateRootHash = StateRootHash w,
     bh_CurrentNonce = world_CurrentNonce w, bh_CurrentRound = world_CurrentRound w, bh_CurrentTimeStamp = world_CurrentTimeStamp w,
     bh_CurrentRandomSeed = (case world_CurrentRandomSeed w of None \<Rightarrow> [] | Some seed \<Rightarrow> seed), bh_CurrentEpoch = world_CurrentEpoch w,
     bh_ProcessBuiltInFunction = (\<lambda>log input. case world_ProcessBuiltInFunction input (playEvents log w) of
       None \<Rightarrow> (None, None) | Some (res, _) \<Rightarrow> res),
     bh_GetDCDTToken = (\<lambda>log a t n. orNothing None
       (map_option (map_sum id (\<lambda>t. Some (tokenOf t))) (world_GetDCDTToken lib (playEvents log w) a t n))),
     bh_GetBuiltinFunctionNames = (case world_GetBuiltinFunctionNames w of None \<Rightarrow> {} | Some names \<Rightarrow> names),
     bh_GetAllState = (\<lambda>log a. world_GetAllState (playEvents log w) a),
     bh_GetUserAccount = (\<lambda>log a. orNothing None (Some (map_sum id (\<lambda>a. Some (handlerOf a)) (world_GetUserAccount (playEvents log w) a)))),
     bh_GetCode = (\<lambda>acc. world_GetCode w (ua_Address acc)),
     bh_GetShardOfAddress = world_GetShardOfAddress w, bh_IsSmartContract = world_IsSmartContract w,
     bh_IsPayable = (\<lambda>log _ a. world_IsPayable lib (playEvents log w) a),
     bh_GetCompiledCode = (\<lambda>log h. world_GetCompiledCode (playEvents log w) h)\<rparr>"

definition directTransferInput :: "worldLib \<Rightarrow> address \<Rightarrow> address \<Rightarrow> bytes \<Rightarrow> u64 \<Rightarrow> int \<Rightarrow> CallTypeT \<Rightarrow> u64 \<Rightarrow> u64 \<Rightarrow> ContractCallInput" where
  "directTransferInput lib sender receiver token nonce value callType gasLimit gasPrice =
     (let vmInput = \<lparr>CallerAddr = sender, Arguments = [], CallValue = Some 0, CallType = callType, GasPrice = gasPrice, GasProvided = gasLimit,
            GasLocked = 0, OriginalTxHash = [], CurrentTxHash = [], PrevTxHash = [], DCDTTransfers = []\<rparr>
      in if nonce > 0 then
           \<lparr>cci_VMInput = vmInput\<lparr>Arguments := [token, Bytes (uint nonce), Bytes value, receiver]\<rparr>, RecipientAddr = sender,
             Function = BuiltInFunctionDCDTNFTTransfer (wl_env lib), AllowInitFunction = False\<rparr>
         else
           \<lparr>cci_VMInput = vmInput\<lparr>Arguments := [token, Bytes value]\<rparr>, RecipientAddr = receiver,
             Function = BuiltInFunctionDCDTTransfer (wl_env lib), AllowInitFunction = False\<rparr>)"

definition PerformDirectDCDTTransfer ::
  "worldLib \<Rightarrow> builtinContainer \<Rightarrow> address \<Rightarrow> address \<Rightarrow> bytes \<Rightarrow> u64 \<Rightarrow> int \<Rightarrow> CallTypeT \<Rightarrow> u64 \<Rightarrow> u64 \<Rightarrow> world \<Rightarrow> ((err + u64) \<times> world) option" where
  \<comment> \<open>a function that returns neither output nor error panics here\<close>
  "PerformDirectDCDTTransfer lib container sender receiver token nonce value callType gasLimit gasPrice w = do {
     (res, w) \<leftarrow> wrapper_ProcessBuiltInFunction container
       (directTransferInput lib sender receiver token nonce value callType gasLimit gasPrice) w;
     case res of
       (_, Some err) \<Rightarrow> Some (Inl err, w)
     | (None, None) \<Rightarrow> None
     | (Some vmOutput, None) \<Rightarrow>
         Some (if ReturnCode vmOutput \<noteq> Ok
           then Inl (ErrPlain (''DCDTtransfer failed: retcode = '' @ decimal (ReturnCode_int (wl_env lib) (ReturnCode vmOutput)) @ '', msg = '' @ ReturnMessage vmOutput))
           else Inr (GasRemaining vmOutput), w) }"

end
