(* ===== verification/ScenModel.thy ===== *)
theory ScenModel
  imports ScenExpressions
begin

text \<open>
  The data of scenario and test files (\<open>src/scenarios/json/model\<close>): values together with the text they were written as, values
  to be checked, accounts, tokens, transactions, results, steps, scenarios and the older tests.  A nil pointer or interface is \<open>None\<close>.
  Field names have a prefix per struct.
\<close>

subsection \<open>Values\<close>

record JSONBytesFromString =
  jbs_Value :: bytes
  jbs_Original :: string

definition NewJSONBytesFromString :: "bytes \<Rightarrow> string \<Rightarrow> JSONBytesFromString" where
  "NewJSONBytesFromString value originalStr = \<lparr>jbs_Value = value, jbs_Original = originalStr\<rparr>"

record JSONBytesFromTree =
  jbt_Value :: bytes
  jbt_Original :: "ojson option"

definition emptyString :: "ojson option \<Rightarrow> bool" where
  "emptyString original \<longleftrightarrow> (case original of Some (OJsonString v) \<Rightarrow> length v = 0 | _ \<Rightarrow> False)"

definition jbt_OriginalEmpty :: "JSONBytesFromTree \<Rightarrow> bool" where
  "jbt_OriginalEmpty jb = emptyString (jbt_Original jb)"

record JSONBigInt =
  jbi_Value :: "int option"
  jbi_Original :: string

definition JSONBigIntZero :: JSONBigInt where
  "JSONBigIntZero = \<lparr>jbi_Value = Some 0, jbi_Original = []\<rparr>"

record JSONUint64 =
  ju_Value :: u64
  ju_Original :: string

subsection \<open>Values to check\<close>

record JSONCheckBytes =
  jcb_Value :: bytes
  jcb_IsStar :: bool
  jcb_Original :: "ojson option"
  jcb_Unspecified :: bool

definition JSONCheckBytesUnspecified :: JSONCheckBytes where
  "JSONCheckBytesUnspecified = \<lparr>jcb_Value = [], jcb_IsStar = False, jcb_Original = Some (OJsonString []), jcb_Unspecified = True\<rparr>"

definition JSONCheckBytesExplicitStar :: JSONCheckBytes where
  "JSONCheckBytesExplicitStar = \<lparr>jcb_Value = [], jcb_IsStar = True, jcb_Original = Some (OJsonString ''*''), jcb_Unspecified = False\<rparr>"

definition JSONCheckBytesReconstructed :: "bytes \<Rightarrow> JSONCheckBytes" where
  "JSONCheckBytesReconstructed value = \<lparr>jcb_Value = value, jcb_IsStar = False, jcb_Original = Some (OJsonString []), jcb_Unspecified = False\<rparr>"

definition jcb_OriginalEmpty :: "JSONCheckBytes \<Rightarrow> bool" where
  "jcb_OriginalEmpty jcbytes = emptyString (jcb_Original jcbytes)"

definition jcb_Check :: "JSONCheckBytes \<Rightarrow> bytes \<Rightarrow> bool" where
  "jcb_Check jcbytes other \<longleftrightarrow> (if jcb_IsStar jcbytes then True else jcb_Value jcbytes = other)"

record JSONCheckBigInt =
  jcbi_Value :: "int option"
  jcbi_IsStar :: bool
  jcbi_Original :: string
  jcbi_Unspecified :: bool

definition JSONCheckBigIntUnspecified :: JSONCheckBigInt where
  "JSONCheckBigIntUnspecified = \<lparr>jcbi_Value = Some 0, jcbi_IsStar = False, jcbi_Original = [], jcbi_Unspecified = True\<rparr>"

definition jcbi_Check :: "JSONCheckBigInt \<Rightarrow> int \<Rightarrow> bool option" where
  \<comment> \<open>a nil value panics\<close>
  "jcbi_Check jcbi other = (if jcbi_IsStar jcbi then Some True else map_option (\<lambda>v. v = other) (jcbi_Value jcbi))"

record JSONCheckUint64 =
  jcu_Value :: u64
  jcu_IsStar :: bool
  jcu_Original :: string
  jcu_Unspecified :: bool

definition JSONCheckUint64Unspecified :: JSONCheckUint64 where
  "JSONCheckUint64Unspecified = \<lparr>jcu_Value = 0, jcu_IsStar = False, jcu_Original = [], jcu_Unspecified = True\<rparr>"

definition jcu_Check :: "JSONCheckUint64 \<Rightarrow> u64 \<Rightarrow> bool" where
  "jcu_Check jcu other \<longleftrightarrow> (if jcu_IsStar jcu then True else jcu_Value jcu = other)"

definition jcu_CheckBool :: "JSONCheckUint64 \<Rightarrow> bool \<Rightarrow> bool" where
  "jcu_CheckBool jcu other \<longleftrightarrow> (if jcu_IsStar jcu then True else (jcu_Value jcu > 0) = other)"

subsection \<open>Zero values\<close>

definition zeroBytesFromString :: JSONBytesFromString where "zeroBytesFromString = \<lparr>jbs_Value = [], jbs_Original = []\<rparr>"
definition zeroBytesFromTree :: JSONBytesFromTree where "zeroBytesFromTree = \<lparr>jbt_Value = [], jbt_Original = None\<rparr>"
definition zeroBigInt :: JSONBigInt where "zeroBigInt = \<lparr>jbi_Value = None, jbi_Original = []\<rparr>"
definition zeroUint64 :: JSONUint64 where "zeroUint64 = \<lparr>ju_Value = 0, ju_Original = []\<rparr>"
definition zeroCheckBytes :: JSONCheckBytes where
  "zeroCheckBytes = \<lparr>jcb_Value = [], jcb_IsStar = False, jcb_Original = None, jcb_Unspecified = False\<rparr>"
definition zeroCheckBigInt :: JSONCheckBigInt where
  "zeroCheckBigInt = \<lparr>jcbi_Value = None, jcbi_IsStar = False, jcbi_Original = [], jcbi_Unspecified = False\<rparr>"
definition zeroCheckUint64 :: JSONCheckUint64 where
  "zeroCheckUint64 = \<lparr>jcu_Value = 0, jcu_IsStar = False, jcu_Original = [], jcu_Unspecified = False\<rparr>"

lemmas zero_defs = zeroBytesFromString_def zeroBytesFromTree_def zeroBigInt_def zeroUint64_def zeroCheckBytes_def zeroCheckBigInt_def
  zeroCheckUint64_def

subsection \<open>Tokens\<close>

record DCDTTxData =
  dtx_TokenIdentifier :: JSONBytesFromString
  dtx_Nonce :: JSONUint64
  dtx_Value :: JSONBigInt

record DCDTInstance =
  di_Nonce :: JSONUint64
  di_Balance :: JSONBigInt
  di_Uri :: JSONBytesFromTree

record DCDTData =
  dd_TokenIdentifier :: JSONBytesFromString
  dd_Instances :: "DCDTInstance list"
  dd_LastNonce :: JSONUint64
  dd_Roles :: "string list"
  dd_Frozen :: JSONUint64

record CheckDCDTInstance =
  cdi_Nonce :: JSONCheckUint64
  cdi_Balance :: JSONCheckBigInt
  cdi_Uri :: JSONCheckBytes

record CheckDCDTData =
  cdd_TokenIdentifier :: JSONBytesFromString
  cdd_Instances :: "CheckDCDTInstance list"
  cdd_LastNonce :: JSONCheckUint64
  cdd_Roles :: "string list"
  cdd_Frozen :: JSONCheckUint64

subsection \<open>Accounts\<close>

record StorageKeyValuePair =
  skv_Key :: JSONBytesFromString
  skv_Value :: JSONBytesFromTree

record mj_Account =
  ac_Address :: JSONBytesFromString
  ac_Shard :: JSONUint64
  ac_IsSmartContract :: bool
  ac_Comment :: string
  ac_Nonce :: JSONUint64
  ac_Balance :: JSONBigInt
  ac_Username :: JSONBytesFromString
  ac_Storage :: "StorageKeyValuePair list"
  ac_Code :: JSONBytesFromString
  ac_Owner :: JSONBytesFromString
  ac_AsyncCallData :: string
  ac_DCDTData :: "DCDTData list"

record CheckAccount =
  ca_Address :: JSONBytesFromString
  ca_Comment :: string
  ca_Nonce :: JSONCheckUint64
  ca_Balance :: JSONCheckBigInt
  ca_Username :: JSONCheckBytes
  ca_IgnoreStorage :: bool
  ca_CheckStorage :: "StorageKeyValuePair list"
  ca_Code :: JSONCheckBytes
  ca_Owner :: JSONCheckBytes
  ca_AsyncCallData :: JSONCheckBytes
  ca_IgnoreDCDT :: bool
  ca_CheckDCDTData :: "CheckDCDTData list"

record CheckAccounts =
  OtherAccountsAllowed :: bool
  Accounts :: "CheckAccount list"

definition FindAccount :: "mj_Account list \<Rightarrow> bytes \<Rightarrow> mj_Account option" where
  "FindAccount accounts address = find (\<lambda>acct. jbs_Value (ac_Address acct) = address) accounts"

definition FindCheckAccount :: "CheckAccount list \<Rightarrow> bytes \<Rightarrow> CheckAccount option" where
  "FindCheckAccount accounts address = find (\<lambda>acct. jbs_Value (ca_Address acct) = address) accounts"

subsection \<open>Transactions\<close>

datatype TransactionType = ScDeploy | ScCall | ScQuery | mj_Transfer | ValidatorReward

definition HasSender :: "TransactionType \<Rightarrow> bool" where "HasSender tt \<longleftrightarrow> tt \<noteq> ScQuery \<and> tt \<noteq> ValidatorReward"
definition HasReceiver :: "TransactionType \<Rightarrow> bool" where "HasReceiver tt \<longleftrightarrow> tt \<noteq> ScDeploy"
definition IsSmartContractTx :: "TransactionType \<Rightarrow> bool" where "IsSmartContractTx tt \<longleftrightarrow> tt = ScDeploy \<or> tt = ScCall \<or> tt = ScQuery"
definition HasValue :: "TransactionType \<Rightarrow> bool" where "HasValue tt \<longleftrightarrow> tt \<noteq> ScQuery"
definition HasDCDT :: "TransactionType \<Rightarrow> bool" where "HasDCDT tt \<longleftrightarrow> tt \<noteq> ScQuery \<and> tt \<noteq> ValidatorReward"
definition HasFunction :: "TransactionType \<Rightarrow> bool" where "HasFunction tt \<longleftrightarrow> tt = ScCall \<or> tt = ScQuery"
definition HasGas :: "TransactionType \<Rightarrow> bool" where "HasGas tt \<longleftrightarrow> tt = ScDeploy \<or> tt = ScCall \<or> HasDCDT tt"

lemmas type_defs = HasSender_def HasReceiver_def IsSmartContractTx_def HasValue_def HasDCDT_def HasFunction_def HasGas_def

record Transaction =
  tx_Type :: TransactionType
  tx_Nonce :: JSONUint64
  tx_Value :: JSONBigInt
  tx_DCDTValue :: "DCDTTxData option"
  tx_From :: JSONBytesFromString
  tx_To :: JSONBytesFromString
  tx_Function :: string
  tx_Code :: JSONBytesFromString
  tx_Arguments :: "JSONBytesFromTree list"
  tx_GasPrice :: JSONUint64
  tx_GasLimit :: JSONUint64

record mj_LogEntry =
  mle_Address :: JSONCheckBytes
  mle_Identifier :: JSONCheckBytes
  mle_Topics :: "JSONCheckBytes list"
  mle_Data :: JSONCheckBytes

record TransactionResult =
  tr_Out :: "JSONCheckBytes list"
  tr_Status :: JSONCheckBigInt
  tr_Message :: JSONCheckBytes
  tr_Gas :: JSONCheckUint64
  tr_Refund :: JSONCheckBigInt
  tr_LogsStar :: bool
  tr_LogsUnspecified :: bool
  tr_LogHash :: string
  tr_Logs :: "mj_LogEntry list"

subsection \<open>Scenarios\<close>

datatype mj_GasSchedule = GasScheduleDefault | GasScheduleDummy | GasScheduleV1 | GasScheduleV2 | GasScheduleV3

record NewAddressMock =
  nam_CreatorAddress :: JSONBytesFromString
  nam_CreatorNonce :: JSONUint64
  nam_NewAddress :: JSONBytesFromString

record BlockInfo =
  BlockTimestamp :: JSONUint64
  BlockNonce :: JSONUint64
  BlockRound :: JSONUint64
  BlockEpoch :: JSONUint64
  BlockRandomSeed :: "JSONBytesFromTree option"

record ExternalStepsStep =
  ext_Comment :: string
  ext_Path :: string

record SetStateStep =
  set_Comment :: string
  set_Accounts :: "mj_Account list"
  set_PreviousBlockInfo :: "BlockInfo option"
  set_CurrentBlockInfo :: "BlockInfo option"
  set_BlockHashes :: "JSONBytesFromString list"
  set_NewAddressMocks :: "NewAddressMock list"

record CheckStateStep =
  chk_Comment :: string
  chk_CheckAccounts :: "CheckAccounts option"

record DumpStateStep =
  dump_Comment :: string

record TxStep =
  txs_TxIdent :: string
  txs_Comment :: string
  txs_Tx :: "Transaction option"
  txs_ExpectedResult :: "TransactionResult option"

datatype Step =
    ExternalSteps ExternalStepsStep
  | SetState SetStateStep
  | CheckState CheckStateStep
  | DumpState DumpStateStep
  | Tx TxStep

record Scenario =
  sc_Name :: string
  sc_Comment :: string
  sc_CheckGas :: bool
  sc_GasSchedule :: mj_GasSchedule
  sc_Steps :: "Step list"

definition txTypeName :: "TransactionType \<Rightarrow> string" where
  "txTypeName tt =
     (case tt of
        ScCall \<Rightarrow> ''scCall'' | ScDeploy \<Rightarrow> ''scDeploy'' | ScQuery \<Rightarrow> ''scQuery'' | mj_Transfer \<Rightarrow> ''transfer''
      | ValidatorReward \<Rightarrow> ''validatorReward'')"

definition StepTypeName :: "Step \<Rightarrow> string option" where
  \<comment> \<open>the type of a missing transaction panics\<close>
  "StepTypeName step =
     (case step of
        ExternalSteps _ \<Rightarrow> Some ''externalSteps''
      | SetState _ \<Rightarrow> Some ''setState''
      | CheckState _ \<Rightarrow> Some ''checkState''
      | DumpState _ \<Rightarrow> Some ''dumpState''
      | Tx t \<Rightarrow> map_option (\<lambda>tx. txTypeName (tx_Type tx)) (txs_Tx t))"

subsection \<open>Tests\<close>

record BlockHeader =
  bh_Beneficiary :: JSONBigInt
  bh_Difficulty :: JSONBigInt
  bh_Number :: JSONBigInt
  bh_GasLimit :: JSONBigInt
  bh_Timestamp :: JSONUint64

record Block =
  bl_Results :: "TransactionResult list"
  bl_Transactions :: "Transaction list"
  bl_BlockHeader :: "BlockHeader option"

record Test =
  te_TestName :: string
  te_CheckGas :: bool
  te_Pre :: "mj_Account list"
  te_Blocks :: "Block list"
  te_Network :: string
  te_BlockHashes :: "JSONBytesFromString list"
  te_PostState :: "CheckAccounts option"

definition ConvertTestToScenario :: "Test list \<Rightarrow> string + Scenario" where
  "ConvertTestToScenario tests =
     (if length tests \<noteq> 1 then Inl ''only one test per test file supported''
      else
        let test = tests ! 0
        in if length (te_Blocks test) \<noteq> 1 then Inl ''only one block per test file supported''
           else
             let block = te_Blocks test ! 0
             in if length (bl_Transactions block) \<noteq> length (bl_Results block) then Inl ''transactions must match results''
                else Inr \<lparr>sc_Name = [], sc_Comment = [], sc_CheckGas = te_CheckGas test, sc_GasSchedule = GasScheduleDefault,
                  sc_Steps =
                    [SetState \<lparr>set_Comment = [], set_Accounts = te_Pre test, set_PreviousBlockInfo = None, set_CurrentBlockInfo = None,
                       set_BlockHashes = te_BlockHashes test, set_NewAddressMocks = []\<rparr>] @
                    map (\<lambda>(txIndex, tx, res). Tx \<lparr>txs_TxIdent = decimal (int txIndex + 1), txs_Comment = [], txs_Tx = Some tx,
                           txs_ExpectedResult = Some res\<rparr>)
                      (enumerate 0 (zip (bl_Transactions block) (bl_Results block))) @
                    [CheckState \<lparr>chk_Comment = [], chk_CheckAccounts = te_PostState test\<rparr>]\<rparr>)"

subsection \<open>Results\<close>

definition ResultEqual :: "JSONBytesFromString \<Rightarrow> bytes \<Rightarrow> bool" where
  "ResultEqual expected actual \<longleftrightarrow>
     (if jbs_Value expected = actual then True else SetBytes (jbs_Value expected) = SetBytes actual)"

fun joinHex :: "bytes list \<Rightarrow> string" where
  "joinHex [] = []"
| "joinHex [res] = ''0x'' @ EncodeToString res"
| "joinHex (res # rest) = ''0x'' @ EncodeToString res @ '', '' @ joinHex rest"

definition ResultAsString :: "bytes list \<Rightarrow> string" where
  "ResultAsString result1 = ''['' @ joinHex result1 @ '']''"

definition JSONBytesFromStringValues :: "JSONBytesFromString list \<Rightarrow> bytes list" where
  "JSONBytesFromStringValues jbs = map jbs_Value jbs"

definition JSONBytesFromTreeValues :: "JSONBytesFromTree list \<Rightarrow> bytes list" where
  "JSONBytesFromTreeValues jbs = map jbt_Value jbs"

end
