(* ===== verification/ScenWrite.thy ===== *)
theory ScenWrite
  imports ScenModel
begin

text \<open>
  Writing scenario and test files (\<open>src/scenarios/json/write\<close>): the model is turned into ordered JSON.  A value that was never read has
  no original; the writer then puts a nil interface into the tree, and printing the tree panics.  Such a tree
  is \<open>None\<close>, as is a panic of the writer itself.
\<close>

definition putAll :: "(string \<times> ojson) list \<Rightarrow> (string \<times> ojson) list" where
  \<comment> \<open>a loop that puts entries into a new map\<close>
  "putAll entries = foldl (\<lambda>m (key, v). oj_Put key v m) [] entries"

definition putIf :: "bool \<Rightarrow> string \<Rightarrow> ojson \<Rightarrow> (string \<times> ojson) list \<Rightarrow> (string \<times> ojson) list" where
  "putIf c key v m = (if c then oj_Put key v m else m)"

subsection \<open>Values\<close>

definition stringToOJ :: "string \<Rightarrow> ojson" where "stringToOJ str = OJsonString str"
definition bigIntToOJ :: "JSONBigInt \<Rightarrow> ojson" where "bigIntToOJ i = OJsonString (jbi_Original i)"
definition checkBigIntToOJ :: "JSONCheckBigInt \<Rightarrow> ojson" where "checkBigIntToOJ i = OJsonString (jcbi_Original i)"
definition uint64ToOJ :: "JSONUint64 \<Rightarrow> ojson" where "uint64ToOJ i = OJsonString (ju_Original i)"
definition checkUint64ToOJ :: "JSONCheckUint64 \<Rightarrow> ojson" where "checkUint64ToOJ i = OJsonString (jcu_Original i)"

definition intToString :: "int option \<Rightarrow> string" where
  \<comment> \<open>\<open>Text(16)\<close> is the hexadecimal form without leading zeros, here padded to whole bytes\<close>
  "intToString i =
     (case i of
        None \<Rightarrow> []
      | Some i \<Rightarrow> if i = 0 then ''0x00'' else (if i < 0 then ''-'' else []) @ ''0x'' @ EncodeToString (Bytes i))"

definition bytesFromStringToString :: "JSONBytesFromString \<Rightarrow> string" where
  "bytesFromStringToString b =
     (if length (jbs_Original b) = 0 \<and> length (jbs_Value b) > 0 then EncodeToString (jbs_Value b) else jbs_Original b)"

definition bytesFromStringToOJ :: "JSONBytesFromString \<Rightarrow> ojson" where
  "bytesFromStringToOJ b = OJsonString (bytesFromStringToString b)"

definition bytesFromTreeToOJ :: "JSONBytesFromTree \<Rightarrow> ojson option" where
  "bytesFromTreeToOJ b = (if jbt_OriginalEmpty b then Some (OJsonString (EncodeToString (jbt_Value b))) else jbt_Original b)"

definition checkBytesToOJ :: "JSONCheckBytes \<Rightarrow> ojson option" where
  "checkBytesToOJ checkBytes =
     (if jcb_OriginalEmpty checkBytes \<and> length (jcb_Value checkBytes) > 0 then Some (OJsonString (EncodeToString (jcb_Value checkBytes)))
      else jcb_Original checkBytes)"

subsection \<open>Tokens\<close>

definition dcdtTxDataToOJ :: "DCDTTxData \<Rightarrow> ojson" where
  "dcdtTxDataToOJ dcdtItem =
     (let m = [];
          m = putIf (length (jbs_Original (dtx_TokenIdentifier dcdtItem)) > 0) ''tokenIdentifier'' (bytesFromStringToOJ (dtx_TokenIdentifier dcdtItem)) m;
          m = putIf (length (ju_Original (dtx_Nonce dcdtItem)) > 0) ''nonce'' (uint64ToOJ (dtx_Nonce dcdtItem)) m;
          m = putIf (length (jbi_Original (dtx_Value dcdtItem)) > 0) ''value'' (bigIntToOJ (dtx_Value dcdtItem)) m
      in OJsonMap m)"

definition appendDCDTInstanceToOJ :: "DCDTInstance \<Rightarrow> (string \<times> ojson) list \<Rightarrow> (string \<times> ojson) list" where
  "appendDCDTInstanceToOJ dcdtInstance m =
     (let m = putIf (length (ju_Original (di_Nonce dcdtInstance)) > 0) ''nonce'' (uint64ToOJ (di_Nonce dcdtInstance)) m
      in putIf (length (jbi_Original (di_Balance dcdtInstance)) > 0) ''balance'' (bigIntToOJ (di_Balance dcdtInstance)) m)"

definition isCompactDCDT :: "DCDTData \<Rightarrow> bool" where
  "isCompactDCDT dcdtItem \<longleftrightarrow>
     (if length (dd_Instances dcdtItem) \<noteq> 1 then False
      else if length (ju_Original (di_Nonce (dd_Instances dcdtItem ! 0))) > 0 then False
      else if length (dd_Roles dcdtItem) > 0 then False
      else if length (ju_Original (dd_Frozen dcdtItem)) > 0 then False
      else True)"

definition dcdtItemToOJ :: "DCDTData \<Rightarrow> ojson" where
  "dcdtItemToOJ dcdtItem =
     (if isCompactDCDT dcdtItem then bigIntToOJ (di_Balance (dd_Instances dcdtItem ! 0))
      else
        let m = (if length (dd_Instances dcdtItem) = 1 then appendDCDTInstanceToOJ (dd_Instances dcdtItem ! 0) []
                 else oj_Put ''instances'' (OJsonList (map (\<lambda>i. OJsonMap (appendDCDTInstanceToOJ i [])) (dd_Instances dcdtItem))) []);
            m = putIf (length (ju_Original (dd_LastNonce dcdtItem)) > 0) ''lastNonce'' (uint64ToOJ (dd_LastNonce dcdtItem)) m;
            m = putIf (length (dd_Roles dcdtItem) > 0) ''roles'' (OJsonList (map OJsonString (dd_Roles dcdtItem))) m;
            m = putIf (length (ju_Original (dd_Frozen dcdtItem)) > 0) ''frozen'' (uint64ToOJ (dd_Frozen dcdtItem)) m
        in OJsonMap m)"

definition dcdtDataToOJ :: "DCDTData list \<Rightarrow> ojson" where
  "dcdtDataToOJ dcdtItems = OJsonMap (putAll (map (\<lambda>item. (jbs_Original (dd_TokenIdentifier item), dcdtItemToOJ item)) dcdtItems))"

definition appendCheckDCDTInstanceToOJ :: "CheckDCDTInstance \<Rightarrow> (string \<times> ojson) list \<Rightarrow> (string \<times> ojson) list" where
  "appendCheckDCDTInstanceToOJ dcdtInstance m =
     (let m = putIf (length (jcu_Original (cdi_Nonce dcdtInstance)) > 0) ''nonce'' (checkUint64ToOJ (cdi_Nonce dcdtInstance)) m
      in putIf (length (jcbi_Original (cdi_Balance dcdtInstance)) > 0) ''balance'' (checkBigIntToOJ (cdi_Balance dcdtInstance)) m)"

definition isCompactCheckDCDT :: "CheckDCDTData \<Rightarrow> bool" where
  "isCompactCheckDCDT dcdtItem \<longleftrightarrow>
     (if length (cdd_Instances dcdtItem) \<noteq> 1 then False
      else if length (jcu_Original (cdi_Nonce (cdd_Instances dcdtItem ! 0))) > 0 then False
      else if length (cdd_Roles dcdtItem) > 0 then False
      else if length (jcu_Original (cdd_Frozen dcdtItem)) > 0 then False
      else True)"

definition checkDCDTItemToOJ :: "CheckDCDTData \<Rightarrow> ojson" where
  "checkDCDTItemToOJ dcdtItem =
     (if isCompactCheckDCDT dcdtItem then checkBigIntToOJ (cdi_Balance (cdd_Instances dcdtItem ! 0))
      else
        let m = (if length (cdd_Instances dcdtItem) = 1 then appendCheckDCDTInstanceToOJ (cdd_Instances dcdtItem ! 0) []
                 else oj_Put ''instances'' (OJsonList (map (\<lambda>i. OJsonMap (appendCheckDCDTInstanceToOJ i [])) (cdd_Instances dcdtItem))) []);
            m = putIf (length (jcu_Original (cdd_LastNonce dcdtItem)) > 0) ''lastNonce'' (checkUint64ToOJ (cdd_LastNonce dcdtItem)) m;
            m = putIf (length (cdd_Roles dcdtItem) > 0) ''roles'' (OJsonList (map OJsonString (cdd_Roles dcdtItem))) m;
            m = putIf (length (jcu_Original (cdd_Frozen dcdtItem)) > 0) ''frozen'' (checkUint64ToOJ (cdd_Frozen dcdtItem)) m
        in OJsonMap m)"

definition checkDCDTDataToOJ :: "CheckDCDTData list \<Rightarrow> ojson" where
  "checkDCDTDataToOJ dcdtItems = OJsonMap (putAll (map (\<lambda>item. (jbs_Original (cdd_TokenIdentifier item), checkDCDTItemToOJ item)) dcdtItems))"

subsection \<open>Accounts\<close>

definition storageEntryToOJ :: "StorageKeyValuePair \<Rightarrow> (string \<times> ojson) option" where
  "storageEntryToOJ st = do { v \<leftarrow> bytesFromTreeToOJ (skv_Value st); Some (bytesFromStringToString (skv_Key st), v) }"

definition storageToOJ :: "StorageKeyValuePair list \<Rightarrow> ojson option" where
  "storageToOJ sts = do { entries \<leftarrow> those (map storageEntryToOJ sts); Some (OJsonMap (putAll entries)) }"

definition accountEntryToOJ :: "mj_Account \<Rightarrow> (string \<times> ojson) option" where
  "accountEntryToOJ account = do {
     storageOJ \<leftarrow> storageToOJ (ac_Storage account);
     let m = [];
     let m = putIf (length (ac_Comment account) > 0) ''comment'' (stringToOJ (ac_Comment account)) m;
     let m = oj_Put ''nonce'' (uint64ToOJ (ac_Nonce account)) m;
     let m = oj_Put ''balance'' (bigIntToOJ (ac_Balance account)) m;
     let m = putIf (length (ac_DCDTData account) > 0) ''dcdt'' (dcdtDataToOJ (ac_DCDTData account)) m;
     let m = putIf (length (jbs_Value (ac_Username account)) > 0) ''username'' (bytesFromStringToOJ (ac_Username account)) m;
     let m = oj_Put ''storage'' storageOJ m;
     let m = oj_Put ''code'' (bytesFromStringToOJ (ac_Code account)) m;
     let m = putIf (length (jbs_Value (ac_Owner account)) > 0) ''owner'' (bytesFromStringToOJ (ac_Owner account)) m;
     let m = putIf (length (ac_AsyncCallData account) > 0) ''asyncCallData'' (stringToOJ (ac_AsyncCallData account)) m;
     Some (bytesFromStringToString (ac_Address account), OJsonMap m) }"

definition AccountsToOJ :: "mj_Account list \<Rightarrow> ojson option" where
  "AccountsToOJ accounts = do { entries \<leftarrow> those (map accountEntryToOJ accounts); Some (OJsonMap (putAll entries)) }"

definition putUnless :: "bool \<Rightarrow> string \<Rightarrow> ojson option \<Rightarrow> (string \<times> ojson) list \<Rightarrow> (string \<times> ojson) list option" where
  \<comment> \<open>a value is written unless it is unspecified\<close>
  "putUnless unspecified key v m = (if unspecified then Some m else map_option (\<lambda>v. oj_Put key v m) v)"

definition checkAccountEntryToOJ :: "CheckAccount \<Rightarrow> (string \<times> ojson) option" where
  "checkAccountEntryToOJ checkAccount = do {
     let m = [];
     let m = putIf (length (ca_Comment checkAccount) > 0) ''comment'' (stringToOJ (ca_Comment checkAccount)) m;
     m \<leftarrow> putUnless (jcu_Unspecified (ca_Nonce checkAccount)) ''nonce'' (Some (checkUint64ToOJ (ca_Nonce checkAccount))) m;
     m \<leftarrow> putUnless (jcbi_Unspecified (ca_Balance checkAccount)) ''balance'' (Some (checkBigIntToOJ (ca_Balance checkAccount))) m;
     let m = putIf (ca_IgnoreDCDT checkAccount \<or> length (ca_CheckDCDTData checkAccount) > 0) ''dcdt''
       (if ca_IgnoreDCDT checkAccount then stringToOJ ''*'' else checkDCDTDataToOJ (ca_CheckDCDTData checkAccount)) m;
     m \<leftarrow> putUnless (jcb_Unspecified (ca_Username checkAccount)) ''username'' (checkBytesToOJ (ca_Username checkAccount)) m;
     storageOJ \<leftarrow> (if ca_IgnoreStorage checkAccount then Some (stringToOJ ''*'') else storageToOJ (ca_CheckStorage checkAccount));
     let m = oj_Put ''storage'' storageOJ m;
     m \<leftarrow> putUnless (jcb_Unspecified (ca_Code checkAccount)) ''code'' (checkBytesToOJ (ca_Code checkAccount)) m;
     m \<leftarrow> putUnless (jcb_Unspecified (ca_Owner checkAccount)) ''owner'' (checkBytesToOJ (ca_Owner checkAccount)) m;
     m \<leftarrow> putUnless (jcb_Unspecified (ca_AsyncCallData checkAccount)) ''asyncCallData'' (checkBytesToOJ (ca_AsyncCallData checkAccount)) m;
     Some (bytesFromStringToString (ca_Address checkAccount), OJsonMap m) }"

definition checkAccountsToOJ :: "CheckAccounts \<Rightarrow> ojson option" where
  "checkAccountsToOJ checkAccounts = do {
     entries \<leftarrow> those (map checkAccountEntryToOJ (Accounts checkAccounts));
     let m = putAll entries;
     Some (OJsonMap (putIf (OtherAccountsAllowed checkAccounts) ''+'' (stringToOJ []) m)) }"

subsection \<open>Transactions and results\<close>

definition blockHashesToOJ :: "JSONBytesFromString list \<Rightarrow> ojson" where
  "blockHashesToOJ blockHashes = OJsonList (map bytesFromStringToOJ blockHashes)"

definition logToOJ :: "mj_LogEntry \<Rightarrow> ojson option" where
  "logToOJ logEntry = do {
     address \<leftarrow> checkBytesToOJ (mle_Address logEntry);
     identifier \<leftarrow> checkBytesToOJ (mle_Identifier logEntry);
     topicsList \<leftarrow> those (map checkBytesToOJ (mle_Topics logEntry));
     data \<leftarrow> checkBytesToOJ (mle_Data logEntry);
     Some (OJsonMap (oj_Put ''data'' data (oj_Put ''topics'' (OJsonList topicsList)
       (oj_Put ''identifier'' identifier (oj_Put ''address'' address []))))) }"

definition LogToString :: "mj_LogEntry \<Rightarrow> string option" where
  "LogToString logEntry = map_option JSONString (logToOJ logEntry)"

definition logsToOJ :: "mj_LogEntry list \<Rightarrow> ojson option" where
  "logsToOJ logEntries = map_option OJsonList (those (map logToOJ logEntries))"

definition resultToOJ :: "TransactionResult \<Rightarrow> ojson option" where
  "resultToOJ res = do {
     outList \<leftarrow> those (map checkBytesToOJ (tr_Out res));
     let m = oj_Put ''out'' (OJsonList outList) [];
     m \<leftarrow> putUnless (jcbi_Unspecified (tr_Status res)) ''status'' (Some (checkBigIntToOJ (tr_Status res))) m;
     m \<leftarrow> putUnless (jcb_Unspecified (tr_Message res)) ''message'' (checkBytesToOJ (tr_Message res)) m;
     m \<leftarrow> putUnless (tr_LogsUnspecified res) ''logs''
       (if tr_LogsStar res then Some (stringToOJ ''*'')
        else if length (tr_LogHash res) > 0 then Some (stringToOJ (tr_LogHash res))
        else logsToOJ (tr_Logs res)) m;
     m \<leftarrow> putUnless (jcu_Unspecified (tr_Gas res)) ''gas'' (Some (checkUint64ToOJ (tr_Gas res))) m;
     m \<leftarrow> putUnless (jcbi_Unspecified (tr_Refund res)) ''refund'' (Some (checkBigIntToOJ (tr_Refund res))) m;
     Some (OJsonMap m) }"

definition transactionToScenarioOJ :: "Transaction \<Rightarrow> ojson option" where
  "transactionToScenarioOJ tx = do {
     argList \<leftarrow> those (map bytesFromTreeToOJ (if HasFunction (tx_Type tx) \<or> tx_Type tx = ScDeploy then tx_Arguments tx else []));
     let m = [];
     let m = putIf (HasSender (tx_Type tx)) ''from'' (bytesFromStringToOJ (tx_From tx)) m;
     let m = putIf (HasReceiver (tx_Type tx)) ''to'' (bytesFromStringToOJ (tx_To tx)) m;
     let m = putIf (HasValue (tx_Type tx)) ''value'' (bigIntToOJ (tx_Value tx)) m;
     let m = (case tx_DCDTValue tx of Some dcdt \<Rightarrow> oj_Put ''dcdt'' (dcdtTxDataToOJ dcdt) m | None \<Rightarrow> m);
     let m = putIf (HasFunction (tx_Type tx)) ''function'' (stringToOJ (tx_Function tx)) m;
     let m = putIf (tx_Type tx = ScDeploy) ''contractCode'' (bytesFromStringToOJ (tx_Code tx)) m;
     let m = putIf (HasFunction (tx_Type tx) \<or> tx_Type tx = ScDeploy) ''arguments'' (OJsonList argList) m;
     let m = putIf (HasGas (tx_Type tx)) ''gasLimit'' (uint64ToOJ (tx_GasLimit tx)) m;
     let m = putIf (HasGas (tx_Type tx)) ''gasPrice'' (uint64ToOJ (tx_GasPrice tx)) m;
     Some (OJsonMap m) }"

subsection \<open>Scenarios\<close>

definition newAddressMocksToOJ :: "NewAddressMock list \<Rightarrow> ojson" where
  "newAddressMocksToOJ newAddressMocks =
     OJsonList (map (\<lambda>namEntry. OJsonMap
       (oj_Put ''newAddress'' (bytesFromStringToOJ (nam_NewAddress namEntry))
         (oj_Put ''creatorNonce'' (uint64ToOJ (nam_CreatorNonce namEntry))
           (oj_Put ''creatorAddress'' (bytesFromStringToOJ (nam_CreatorAddress namEntry)) [])))) newAddressMocks)"

definition blockInfoToOJ :: "BlockInfo \<Rightarrow> ojson option" where
  "blockInfoToOJ blockInfo = do {
     let m = [];
     let m = putIf (length (ju_Original (BlockTimestamp blockInfo)) > 0) ''blockTimestamp'' (uint64ToOJ (BlockTimestamp blockInfo)) m;
     let m = putIf (length (ju_Original (BlockNonce blockInfo)) > 0) ''blockNonce'' (uint64ToOJ (BlockNonce blockInfo)) m;
     let m = putIf (length (ju_Original (BlockRound blockInfo)) > 0) ''blockRound'' (uint64ToOJ (BlockRound blockInfo)) m;
     let m = putIf (length (ju_Original (BlockEpoch blockInfo)) > 0) ''blockEpoch'' (uint64ToOJ (BlockEpoch blockInfo)) m;
     m \<leftarrow> (case BlockRandomSeed blockInfo of
            None \<Rightarrow> Some m
          | Some seed \<Rightarrow> map_option (\<lambda>v. oj_Put ''blockRandomSeed'' v m) (bytesFromTreeToOJ seed));
     Some (OJsonMap m) }"

definition gasScheduleToOJ :: "mj_GasSchedule \<Rightarrow> ojson" where
  "gasScheduleToOJ gasSchedule =
     (case gasSchedule of
        GasScheduleDefault \<Rightarrow> stringToOJ ''default'' | GasScheduleDummy \<Rightarrow> stringToOJ ''dummy'' | GasScheduleV1 \<Rightarrow> stringToOJ ''v1''
      | GasScheduleV2 \<Rightarrow> stringToOJ ''v2'' | GasScheduleV3 \<Rightarrow> stringToOJ ''v3'')"

definition stepToOJ :: "Step \<Rightarrow> ojson option" where
  "stepToOJ generalStep = do {
     name \<leftarrow> StepTypeName generalStep;
     let m = oj_Put ''step'' (stringToOJ name) [];
     m \<leftarrow> (case generalStep of
        ExternalSteps step \<Rightarrow> do {
          let m = putIf (length (ext_Comment step) > 0) ''comment'' (stringToOJ (ext_Comment step)) m;
          Some (oj_Put ''path'' (stringToOJ (ext_Path step)) m) }
      | SetState step \<Rightarrow> do {
          let m = putIf (length (set_Comment step) > 0) ''comment'' (stringToOJ (set_Comment step)) m;
          m \<leftarrow> putUnless (length (set_Accounts step) = 0) ''accounts'' (AccountsToOJ (set_Accounts step)) m;
          let m = putIf (length (set_NewAddressMocks step) > 0) ''newAddresses'' (newAddressMocksToOJ (set_NewAddressMocks step)) m;
          m \<leftarrow> (case set_PreviousBlockInfo step of
                 None \<Rightarrow> Some m | Some info \<Rightarrow> map_option (\<lambda>v. oj_Put ''previousBlockInfo'' v m) (blockInfoToOJ info));
          m \<leftarrow> (case set_CurrentBlockInfo step of
                 None \<Rightarrow> Some m | Some info \<Rightarrow> map_option (\<lambda>v. oj_Put ''currentBlockInfo'' v m) (blockInfoToOJ info));
          Some (putIf (length (set_BlockHashes step) > 0) ''blockHashes'' (blockHashesToOJ (set_BlockHashes step)) m) }
      | CheckState step \<Rightarrow> do {
          let m = putIf (length (chk_Comment step) > 0) ''comment'' (stringToOJ (chk_Comment step)) m;
          checkAccounts \<leftarrow> chk_CheckAccounts step;
          v \<leftarrow> checkAccountsToOJ checkAccounts;
          Some (oj_Put ''accounts'' v m) }
      | DumpState step \<Rightarrow>
          Some (putIf (length (dump_Comment step) > 0) ''comment'' (stringToOJ (dump_Comment step)) m)
      | Tx step \<Rightarrow> do {
          let m = putIf (length (txs_TxIdent step) > 0) ''txId'' (stringToOJ (txs_TxIdent step)) m;
          let m = putIf (length (txs_Comment step) > 0) ''comment'' (stringToOJ (txs_Comment step)) m;
          tx \<leftarrow> txs_Tx step;
          v \<leftarrow> transactionToScenarioOJ tx;
          let m = oj_Put ''tx'' v m;
          (case txs_ExpectedResult step of
             Some res \<Rightarrow> putUnless (\<not> IsSmartContractTx (tx_Type tx)) ''expect'' (resultToOJ res) m
           | None \<Rightarrow> Some m) });
     Some (OJsonMap m) }"

definition ScenarioToOrderedJSON :: "Scenario \<Rightarrow> ojson option" where
  "ScenarioToOrderedJSON scenario = do {
     stepOJList \<leftarrow> those (map stepToOJ (sc_Steps scenario));
     let m = [];
     let m = putIf (length (sc_Name scenario) > 0) ''name'' (stringToOJ (sc_Name scenario)) m;
     let m = putIf (length (sc_Comment scenario) > 0) ''comment'' (stringToOJ (sc_Comment scenario)) m;
     let m = putIf (\<not> sc_CheckGas scenario) ''checkGas'' (OJsonBool False) m;
     let m = oj_Put ''gasSchedule'' (gasScheduleToOJ (sc_GasSchedule scenario)) m;
     Some (OJsonMap (oj_Put ''steps'' (OJsonList stepOJList) m)) }"

definition ScenarioToJSONString :: "Scenario \<Rightarrow> string option" where
  "ScenarioToJSONString scenario = map_option JSONString (ScenarioToOrderedJSON scenario)"

subsection \<open>Tests\<close>

definition transactionToTestOJ :: "Transaction \<Rightarrow> ojson option" where
  "transactionToTestOJ tx = do {
     argList \<leftarrow> those (map bytesFromTreeToOJ (tx_Arguments tx));
     let m = oj_Put ''nonce'' (uint64ToOJ (tx_Nonce tx)) [];
     let m = oj_Put ''function'' (stringToOJ (tx_Function tx)) m;
     let m = oj_Put ''gasLimit'' (uint64ToOJ (tx_GasLimit tx)) m;
     let m = oj_Put ''value'' (bigIntToOJ (tx_Value tx)) m;
     let m = oj_Put ''to'' (bytesFromStringToOJ (tx_To tx)) m;
     let m = oj_Put ''arguments'' (OJsonList argList) m;
     let m = putIf (length (jbs_Original (tx_Code tx)) > 0) ''contractCode'' (bytesFromStringToOJ (tx_Code tx)) m;
     let m = oj_Put ''gasPrice'' (uint64ToOJ (tx_GasPrice tx)) m;
     Some (OJsonMap (oj_Put ''from'' (bytesFromStringToOJ (tx_From tx)) m)) }"

definition blockToOJ :: "Block \<Rightarrow> ojson option" where
  "blockToOJ block = do {
     resultList \<leftarrow> those (map resultToOJ (bl_Results block));
     txList \<leftarrow> those (map transactionToTestOJ (bl_Transactions block));
     blh \<leftarrow> bl_BlockHeader block;
     let h = oj_Put ''gasLimit'' (bigIntToOJ (bh_GasLimit blh)) [];
     let h = oj_Put ''number'' (bigIntToOJ (bh_Number blh)) h;
     let h = oj_Put ''difficulty'' (bigIntToOJ (bh_Difficulty blh)) h;
     let h = oj_Put ''timestamp'' (uint64ToOJ (bh_Timestamp blh)) h;
     let h = oj_Put ''coinbase'' (bigIntToOJ (bh_Beneficiary blh)) h;
     Some (OJsonMap (oj_Put ''blockHeader'' (OJsonMap h) (oj_Put ''transactions'' (OJsonList txList)
       (oj_Put ''results'' (OJsonList resultList) [])))) }"

definition testToOJ :: "Test \<Rightarrow> ojson option" where
  "testToOJ test = do {
     pre \<leftarrow> AccountsToOJ (te_Pre test);
     blockList \<leftarrow> those (map blockToOJ (te_Blocks test));
     post \<leftarrow> te_PostState test;
     postState \<leftarrow> checkAccountsToOJ post;
     let m = putIf (\<not> te_CheckGas test) ''checkGas'' (OJsonBool False) [];
     let m = oj_Put ''pre'' pre m;
     let m = oj_Put ''blocks'' (OJsonList blockList) m;
     let m = oj_Put ''network'' (stringToOJ (te_Network test)) m;
     let m = oj_Put ''blockHashes'' (blockHashesToOJ (te_BlockHashes test)) m;
     Some (OJsonMap (oj_Put ''postState'' postState m)) }"

definition TestToOrderedJSON :: "Test list \<Rightarrow> ojson option" where
  "TestToOrderedJSON testTopLevel = do {
     entries \<leftarrow> those (map (\<lambda>test. map_option (Pair (te_TestName test)) (testToOJ test)) testTopLevel);
     Some (OJsonMap (putAll entries)) }"

definition TestToJSONString :: "Test list \<Rightarrow> string option" where
  "TestToJSONString testTopLevel = map_option JSONString (TestToOrderedJSON testTopLevel)"

end
