(* ===== verification/ScenChecks.thy ===== *)
theory ScenChecks
  imports MockWorld ScenWrite
begin

text \<open>
  Comparing the world and the output of a transaction with what a scenario expects (\<open>src/scenarioexec/stepCheckAccounts.go\<close>,
  \<open>stepCheckTxResult.go\<close>).  An error carries what its message is made from; the order in which the Go maps are visited is that of the lists.
\<close>

datatype tokenError =
    BadTokenBalance bytes u64 string bigint
  | BadLastNonce bytes string u64
  | UnexpectedRole bytes string
  | MissingRole bytes string

datatype checkError =
    UnexpectedAccount address
  | AccountNotFound address
  | BadAddress address
  | BadNonce address string u64
  | BadBalance address string bigint
  | BadUsername address "ojson option" bytes
  | BadCode address "ojson option" bytes
  | BadAsyncCallData address "ojson option" string
  | WrongStorage string "(bytes \<times> bytes \<times> bytes) list"
  | TokenData err
  | TokenMismatch string "tokenError list"

datatype resultError =
    StatusMismatch string ReturnCodeT string
  | MessageMismatch string
  | OutLengthMismatch "bytes list"
  | OutMismatch "bytes list"
  | RefundMismatch string bigint
  | GasMismatch string u64
  | LogCountMismatch nat nat
  | BadLogAddress string string
  | BadLogIdentifier string string
  | BadLogTopicCount string string
  | BadLogTopic string string
  | BadLogData string string

definition checkBigInt :: "JSONCheckBigInt \<Rightarrow> bigint \<Rightarrow> bool option" where
  \<comment> \<open>\<open>Check\<close> of a number that may be nil, which panics in a comparison\<close>
  "checkBigInt jcbi other = (if jcbi_IsStar jcbi then Some True else do { v \<leftarrow> other; jcbi_Check jcbi v })"

subsection \<open>Storage\<close>

definition expectedStorageOf :: "StorageKeyValuePair list \<Rightarrow> (bytes, bytes) gomap" where
  "expectedStorageOf pairs = fold (\<lambda>stkvp. go_set (jbs_Value (skv_Key stkvp)) (jbt_Value (skv_Value stkvp))) pairs []"

definition storageDifferences :: "worldLib \<Rightarrow> StorageKeyValuePair list \<Rightarrow> wAccount \<Rightarrow> (bytes \<times> bytes \<times> bytes) list" where
  "storageDifferences lib pairs matchingAcct =
     (let expectedStorage = expectedStorageOf pairs;
          allKeys = remdups (map fst expectedStorage @ map fst (wa_Storage matchingAcct));
          want = (\<lambda>k. case go_get expectedStorage k of None \<Rightarrow> [] | Some v \<Rightarrow> v)
      in map (\<lambda>k. (k, want k, StorageValue matchingAcct k))
           (filter (\<lambda>k. want k \<noteq> StorageValue matchingAcct k \<and> \<not> IsDCDTKey lib k) allKeys))"

definition checkAccountStorage :: "worldLib \<Rightarrow> CheckAccount \<Rightarrow> wAccount \<Rightarrow> checkError option" where
  "checkAccountStorage lib expectedAcct matchingAcct =
     (if ca_IgnoreStorage expectedAcct then None
      else
        let differences = storageDifferences lib (ca_CheckStorage expectedAcct) matchingAcct
        in if differences \<noteq> [] then Some (WrongStorage (jbs_Original (ca_Address expectedAcct)) differences) else None)"

subsection \<open>Tokens\<close>

definition getExpectedTokens :: "CheckAccount \<Rightarrow> (bytes, CheckDCDTData) gomap" where
  "getExpectedTokens expectedAcct = fold (\<lambda>d. go_set (jbs_Value (cdd_TokenIdentifier d)) d) (ca_CheckDCDTData expectedAcct) []"

definition expectedInstancesOf :: "CheckDCDTInstance list \<Rightarrow> (u64, CheckDCDTInstance) gomap" where
  "expectedInstancesOf instances1 = fold (\<lambda>i. go_set (jcu_Value (cdi_Nonce i)) i) instances1 []"

fun accountInstancesOf :: "wToken list \<Rightarrow> (u64, wToken) gomap \<Rightarrow> (u64, wToken) gomap option" where
  \<comment> \<open>an instance without metadata panics\<close>
  "accountInstancesOf [] m = Some m"
| "accountInstancesOf (i # is) m = do { metadata \<leftarrow> wt_TokenMetaData i; accountInstancesOf is (go_set (md_Nonce metadata) i m) }"

definition checkTokenInstance :: "bytes \<Rightarrow> u64 \<Rightarrow> CheckDCDTInstance option \<Rightarrow> wToken option \<Rightarrow> tokenError list option" where
  \<comment> \<open>the balance is compared only when the instance is on both sides\<close>
  "checkTokenInstance tokenName nonce expectedInstance accountInstance =
     (case (expectedInstance, accountInstance) of
        (Some expected, Some account) \<Rightarrow>
          map_option (\<lambda>good. if \<not> good then [BadTokenBalance tokenName nonce (jcbi_Original (cdi_Balance expected)) (wt_Value account)] else [])
            (checkBigInt (cdi_Balance expected) (wt_Value account))
      | _ \<Rightarrow> Some [])"

definition checkTokenInstances :: "bytes \<Rightarrow> CheckDCDTData \<Rightarrow> MockDCDTData \<Rightarrow> tokenError list option" where
  "checkTokenInstances tokenName expectedToken accountToken = do {
     let expectedInstances = expectedInstancesOf (cdd_Instances expectedToken);
     accountInstances \<leftarrow> accountInstancesOf (mdd_Instances accountToken) [];
     let allNonces = remdups (map fst expectedInstances @ map fst accountInstances);
     map_option concat (those (map (\<lambda>nonce.
       checkTokenInstance tokenName nonce (go_get expectedInstances nonce) (go_get accountInstances nonce)) allNonces)) }"

definition checkTokenRoles :: "bytes \<Rightarrow> CheckDCDTData \<Rightarrow> MockDCDTData \<Rightarrow> tokenError list" where
  "checkTokenRoles tokenName expectedToken accountToken =
     concat (map (\<lambda>role.
         (if role \<notin> set (cdd_Roles expectedToken) then [UnexpectedRole tokenName role] else []) @
         (if role \<notin> set (mdd_Roles accountToken) then [MissingRole tokenName role] else []))
       (remdups (cdd_Roles expectedToken @ mdd_Roles accountToken)))"

definition checkTokenState :: "bytes \<Rightarrow> CheckDCDTData \<Rightarrow> MockDCDTData \<Rightarrow> tokenError list option" where
  "checkTokenState tokenName expectedToken accountToken = do {
     errors \<leftarrow> checkTokenInstances tokenName expectedToken accountToken;
     let errors = errors @ (if \<not> jcu_Check (cdd_LastNonce expectedToken) (mdd_LastNonce accountToken)
       then [BadLastNonce tokenName (jcu_Original (cdd_LastNonce expectedToken)) (mdd_LastNonce accountToken)] else []);
     Some (errors @ checkTokenRoles tokenName expectedToken accountToken) }"

definition checkAccountDCDT :: "worldLib \<Rightarrow> CheckAccount \<Rightarrow> wAccount \<Rightarrow> checkError option option" where
  \<comment> \<open>a token that only one side has is not looked at: the branches that make up for the missing side do not go on to the check\<close>
  "checkAccountDCDT lib expectedAcct matchingAcct =
     (if ca_IgnoreDCDT expectedAcct then Some None
      else do {
        let expectedTokens = getExpectedTokens expectedAcct;
        r \<leftarrow> GetFullMockDCDTData lib matchingAcct;
        case r of
          Inl err \<Rightarrow> Some (Some (TokenData err))
        | Inr accountTokens \<Rightarrow> do {
            errors \<leftarrow> those (map (\<lambda>tokenName.
                case (go_get expectedTokens tokenName, go_get accountTokens tokenName) of
                  (Some expectedToken, Some accountToken) \<Rightarrow> checkTokenState tokenName expectedToken accountToken
                | _ \<Rightarrow> Some [])
              (remdups (map fst expectedTokens @ map fst accountTokens)));
            Some (if concat errors \<noteq> [] then Some (TokenMismatch (jbs_Original (ca_Address expectedAcct)) (concat errors)) else None) } })"

subsection \<open>Accounts\<close>

definition checkAccount :: "worldLib \<Rightarrow> world \<Rightarrow> CheckAccount \<Rightarrow> checkError option option" where
  "checkAccount lib w expectedAcct =
     (case go_get (AcctMap w) (jbs_Value (ca_Address expectedAcct)) of
        None \<Rightarrow> Some (Some (AccountNotFound (jbs_Value (ca_Address expectedAcct))))
      | Some matchingAcct \<Rightarrow>
          if wa_Address matchingAcct \<noteq> jbs_Value (ca_Address expectedAcct) then Some (Some (BadAddress (wa_Address matchingAcct)))
          else if \<not> jcu_Check (ca_Nonce expectedAcct) (wa_Nonce matchingAcct) then
            Some (Some (BadNonce (wa_Address matchingAcct) (jcu_Original (ca_Nonce expectedAcct)) (wa_Nonce matchingAcct)))
          else do {
            balanceGood \<leftarrow> checkBigInt (ca_Balance expectedAcct) (wa_Balance matchingAcct);
            if \<not> balanceGood then
              Some (Some (BadBalance (wa_Address matchingAcct) (jcbi_Original (ca_Balance expectedAcct)) (wa_Balance matchingAcct)))
            else if \<not> jcb_Check (ca_Username expectedAcct) (wa_Username matchingAcct) then
              Some (Some (BadUsername (wa_Address matchingAcct) (jcb_Original (ca_Username expectedAcct)) (wa_Username matchingAcct)))
            else if \<not> jcb_Check (ca_Code expectedAcct) (wa_Code matchingAcct) then
              Some (Some (BadCode (wa_Address matchingAcct) (jcb_Original (ca_Code expectedAcct)) (wa_Code matchingAcct)))
            else if \<not> jcb_Unspecified (ca_AsyncCallData expectedAcct) \<and>
                \<not> jcb_Check (ca_AsyncCallData expectedAcct) (wa_AsyncCallData matchingAcct) then
              Some (Some (BadAsyncCallData (wa_Address matchingAcct) (jcb_Original (ca_AsyncCallData expectedAcct)) (wa_AsyncCallData matchingAcct)))
            else
              (case checkAccountStorage lib expectedAcct matchingAcct of
                 Some err \<Rightarrow> Some (Some err)
               | None \<Rightarrow> checkAccountDCDT lib expectedAcct matchingAcct) })"

fun firstError :: "('a \<Rightarrow> 'e option option) \<Rightarrow> 'a list \<Rightarrow> 'e option option" where
  \<comment> \<open>a loop that returns the first error\<close>
  "firstError f [] = Some None"
| "firstError f (x # xs) = do { r \<leftarrow> f x; case r of Some err \<Rightarrow> Some (Some err) | None \<Rightarrow> firstError f xs }"

definition checkAccounts :: "worldLib \<Rightarrow> CheckAccounts \<Rightarrow> world \<Rightarrow> checkError option option" where
  "checkAccounts lib c w = do {
     unexpected \<leftarrow> (if OtherAccountsAllowed c then Some None
       else firstError (\<lambda>(worldAcctAddr, _).
         Some (if FindCheckAccount (Accounts c) worldAcctAddr = None then Some (UnexpectedAccount worldAcctAddr) else None)) (AcctMap w));
     case unexpected of
       Some err \<Rightarrow> Some (Some err)
     | None \<Rightarrow> firstError (checkAccount lib w) (Accounts c) }"

subsection \<open>Results\<close>

definition convertLogToTestFormat :: "worldLib \<Rightarrow> LogEntry \<Rightarrow> mj_LogEntry" where
  "convertLogToTestFormat lib outputLog = \<lparr>mle_Address = JSONCheckBytesReconstructed (le_Address outputLog),
     mle_Identifier = JSONCheckBytesReconstructed (le_Identifier outputLog), mle_Topics = map JSONCheckBytesReconstructed (le_Topics outputLog),
     mle_Data = JSONCheckBytesReconstructed (GetFirstDataItem lib outputLog)\<rparr>"

definition badLog :: "worldLib \<Rightarrow> (string \<Rightarrow> string \<Rightarrow> resultError) \<Rightarrow> mj_LogEntry \<Rightarrow> LogEntry \<Rightarrow> resultError option option" where
  \<comment> \<open>both logs are printed; an expected log with a missing field cannot be\<close>
  "badLog lib f testLog outLog = do {
     want \<leftarrow> LogToString testLog;
     have1 \<leftarrow> LogToString (convertLogToTestFormat lib outLog);
     Some (Some (f want have1)) }"

definition checkLog :: "worldLib \<Rightarrow> mj_LogEntry \<times> LogEntry \<Rightarrow> resultError option option" where
  "checkLog lib = (\<lambda>(testLog, outLog).
     if \<not> jcb_Check (mle_Address testLog) (le_Address outLog) then badLog lib BadLogAddress testLog outLog
     else if \<not> jcb_Check (mle_Identifier testLog) (le_Identifier outLog) then badLog lib BadLogIdentifier testLog outLog
     else if length (le_Topics outLog) \<noteq> length (mle_Topics testLog) then badLog lib BadLogTopicCount testLog outLog
     else if \<not> list_all2 jcb_Check (mle_Topics testLog) (le_Topics outLog) then badLog lib BadLogTopic testLog outLog
     else if \<not> jcb_Check (mle_Data testLog) (GetFirstDataItem lib outLog) then badLog lib BadLogData testLog outLog
     else Some None)"

definition checkTxResults :: "worldLib \<Rightarrow> TransactionResult \<Rightarrow> bool \<Rightarrow> VMOutput \<Rightarrow> resultError option option" where
  "checkTxResults lib blResult gasChecked out = do {
     statusGood \<leftarrow> jcbi_Check (tr_Status blResult) (ReturnCode_int (wl_env lib) (ReturnCode out));
     if \<not> statusGood then Some (Some (StatusMismatch (jcbi_Original (tr_Status blResult)) (ReturnCode out) (ReturnMessage out)))
     else if \<not> jcb_Check (tr_Message blResult) (ReturnMessage out) then Some (Some (MessageMismatch (ReturnMessage out)))
     else if length (ReturnData out) \<noteq> length (tr_Out blResult) then Some (Some (OutLengthMismatch (ReturnData out)))
     else if \<not> list_all2 jcb_Check (tr_Out blResult) (ReturnData out) then Some (Some (OutMismatch (ReturnData out)))
     else do {
       refundGood \<leftarrow> checkBigInt (tr_Refund blResult) (GasRefund out);
       if \<not> refundGood then Some (Some (RefundMismatch (jcbi_Original (tr_Refund blResult)) (GasRefund out)))
       else if gasChecked \<and> \<not> jcu_Unspecified (tr_Gas blResult) \<and> \<not> jcu_Check (tr_Gas blResult) (GasRemaining out) then
         Some (Some (GasMismatch (jcu_Original (tr_Gas blResult)) (GasRemaining out)))
       else if tr_LogsStar blResult then Some None
       else if length (tr_Logs blResult) \<noteq> length (Logs out) then Some (Some (LogCountMismatch (length (tr_Logs blResult)) (length (Logs out))))
       else firstError (checkLog lib) (zip (tr_Logs blResult) (Logs out)) } }"

end
