(* ===== verification/ScenParse.thy ===== *)
theory ScenParse
  imports ScenModel
begin

text \<open>
  Reading scenario and test files (\<open>src/scenarios/json/parse\<close>): ordered JSON is turned into the model.  Every struct is filled by a
  loop over the entries of a map with a switch on the key, so that unknown keys are errors.  The two's complement library is a
  parameter of the parser.
\<close>

datatype parseError = Wrapped string parseError | NewError string | ExprError exprError | JsonError

datatype 'a parsed = Parsed 'a | Rejected parseError | Panicked

record Parser =
  ExprInterpreter :: interpreter
  twos_FromBytes :: "bytes \<Rightarrow> int"

definition parse_then :: "'a parsed \<Rightarrow> ('a \<Rightarrow> 'b parsed) \<Rightarrow> 'b parsed" where
  "parse_then x f = (case x of Parsed a \<Rightarrow> f a | Rejected e \<Rightarrow> Rejected e | Panicked \<Rightarrow> Panicked)"

definition wrapping :: "string \<Rightarrow> 'a parsed \<Rightarrow> 'a parsed" where
  \<comment> \<open>\<open>fmt.Errorf("...: %w", err)\<close>\<close>
  "wrapping msg x = (case x of Rejected e \<Rightarrow> Rejected (Wrapped msg e) | _ \<Rightarrow> x)"

definition renaming :: "string \<Rightarrow> 'a parsed \<Rightarrow> 'a parsed" where
  \<comment> \<open>another error in place of the one found\<close>
  "renaming msg x = (case x of Rejected e \<Rightarrow> Rejected (NewError msg) | _ \<Rightarrow> x)"

definition rejected :: "string \<Rightarrow> 'a parsed" where
  "rejected msg = Rejected (NewError msg)"

primrec foldFields :: "(string \<Rightarrow> ojson \<Rightarrow> 's \<Rightarrow> 's parsed) \<Rightarrow> (string \<times> ojson) list \<Rightarrow> 's \<Rightarrow> 's parsed" where
  \<comment> \<open>the loop over \<open>OrderedKV\<close>\<close>
  "foldFields f [] s = Parsed s"
| "foldFields f (kvp # kvps) s = parse_then (f (fst kvp) (snd kvp) s) (foldFields f kvps)"

primrec mapParsed :: "('a \<Rightarrow> 'b parsed) \<Rightarrow> 'a list \<Rightarrow> 'b list parsed" where
  \<comment> \<open>a loop that appends\<close>
  "mapParsed f [] = Parsed []"
| "mapParsed f (x # xs) = parse_then (f x) (\<lambda>y. parse_then (mapParsed f xs) (\<lambda>ys. Parsed (y # ys)))"

lemma parse_then_simps [simp]:
  "parse_then (Parsed a) f = f a" "parse_then (Rejected e) f = Rejected e" "parse_then Panicked f = Panicked"
  by (simp_all add: parse_then_def)

lemma wrapping_Parsed [simp]: "wrapping msg (Parsed a) = Parsed a" "renaming msg (Parsed a) = Parsed a"
  by (simp_all add: wrapping_def renaming_def)

lemma foldFields_append [simp]: "foldFields f (xs @ ys) s = parse_then (foldFields f xs s) (foldFields f ys)"
proof (induction xs arbitrary: s)
  case (Cons kvp xs)
  then show ?case by (cases "f (fst kvp) (snd kvp) s") simp_all
qed simp

lemma mapParsed_append: "mapParsed f (xs @ ys) = parse_then (mapParsed f xs) (\<lambda>a. parse_then (mapParsed f ys) (\<lambda>b. Parsed (a @ b)))"
proof (induction xs)
  case Nil
  then show ?case by (cases "mapParsed f ys") simp_all
next
  case (Cons x xs)
  then show ?case by (cases "f x"; cases "mapParsed f xs"; cases "mapParsed f ys") simp_all
qed

subsection \<open>Values\<close>

datatype bigIntParseFormat = bigIntSignedBytes | bigIntUnsignedBytes

definition evaluated :: "(exprError + bytes) option \<Rightarrow> bytes parsed" where
  "evaluated r = (case r of None \<Rightarrow> Panicked | Some (Inl e) \<Rightarrow> Rejected (ExprError e) | Some (Inr b) \<Rightarrow> Parsed b)"

definition IsStar :: "ojson \<Rightarrow> bool" where
  "IsStar obj \<longleftrightarrow> (case obj of OJsonString v \<Rightarrow> v = ''*'' | _ \<Rightarrow> False)"

definition parseString :: "ojson \<Rightarrow> string parsed" where
  "parseString obj = (case obj of OJsonString v \<Rightarrow> Parsed v | _ \<Rightarrow> rejected ''not a string value'')"

definition parseBigInt :: "Parser \<Rightarrow> string \<Rightarrow> bigIntParseFormat \<Rightarrow> int parsed" where
  "parseBigInt p strRaw format =
     parse_then (evaluated (InterpretString (ExprInterpreter p) strRaw))
       (\<lambda>b. Parsed (case format of bigIntSignedBytes \<Rightarrow> twos_FromBytes p b | bigIntUnsignedBytes \<Rightarrow> SetBytes b))"

definition processBigInt :: "Parser \<Rightarrow> ojson \<Rightarrow> bigIntParseFormat \<Rightarrow> JSONBigInt parsed" where
  "processBigInt p obj format =
     parse_then (parseString obj) (\<lambda>strVal.
       parse_then (parseBigInt p strVal format) (\<lambda>bi. Parsed \<lparr>jbi_Value = Some bi, jbi_Original = strVal\<rparr>))"

definition processCheckBigInt :: "Parser \<Rightarrow> ojson \<Rightarrow> bigIntParseFormat \<Rightarrow> JSONCheckBigInt parsed" where
  "processCheckBigInt p obj format =
     (if IsStar obj then Parsed \<lparr>jcbi_Value = None, jcbi_IsStar = True, jcbi_Original = ''*'', jcbi_Unspecified = False\<rparr>
      else parse_then (processBigInt p obj format) (\<lambda>jbi.
        Parsed \<lparr>jcbi_Value = jbi_Value jbi, jcbi_IsStar = False, jcbi_Original = jbi_Original jbi, jcbi_Unspecified = False\<rparr>))"

definition processUint64 :: "Parser \<Rightarrow> ojson \<Rightarrow> JSONUint64 parsed" where
  "processUint64 p obj =
     parse_then (processBigInt p obj bigIntUnsignedBytes) (\<lambda>bi.
       case jbi_Value bi of
         None \<Rightarrow> rejected ''value is not uint64''
       | Some v \<Rightarrow>
           if \<not> (0 \<le> v \<and> v < 2 ^ 64) then rejected ''value is not uint64''
           else Parsed \<lparr>ju_Value = of_int v, ju_Original = jbi_Original bi\<rparr>)"

definition processCheckUint64 :: "Parser \<Rightarrow> ojson \<Rightarrow> JSONCheckUint64 parsed" where
  "processCheckUint64 p obj =
     (if IsStar obj then Parsed \<lparr>jcu_Value = 0, jcu_IsStar = True, jcu_Original = ''*'', jcu_Unspecified = False\<rparr>
      else parse_then (processUint64 p obj) (\<lambda>ju.
        Parsed \<lparr>jcu_Value = ju_Value ju, jcu_IsStar = False, jcu_Original = ju_Original ju, jcu_Unspecified = False\<rparr>))"

definition processStringAsByteArray :: "Parser \<Rightarrow> ojson \<Rightarrow> JSONBytesFromString parsed" where
  "processStringAsByteArray p obj =
     parse_then (parseString obj) (\<lambda>strVal.
       parse_then (evaluated (InterpretString (ExprInterpreter p) strVal)) (\<lambda>b. Parsed (NewJSONBytesFromString b strVal)))"

definition processSubTreeAsByteArray :: "Parser \<Rightarrow> ojson \<Rightarrow> JSONBytesFromTree parsed" where
  "processSubTreeAsByteArray p obj =
     parse_then (evaluated (InterpretSubTree (ExprInterpreter p) obj)) (\<lambda>b. Parsed \<lparr>jbt_Value = b, jbt_Original = Some obj\<rparr>)"

definition parseCheckBytes :: "Parser \<Rightarrow> ojson \<Rightarrow> JSONCheckBytes parsed" where
  "parseCheckBytes p obj =
     (if IsStar obj then Parsed JSONCheckBytesExplicitStar
      else parse_then (processSubTreeAsByteArray p obj) (\<lambda>jb.
        Parsed \<lparr>jcb_Value = jbt_Value jb, jcb_IsStar = False, jcb_Original = jbt_Original jb, jcb_Unspecified = False\<rparr>))"

subsection \<open>Lists\<close>

definition asList :: "ojson \<Rightarrow> ojson list option" where
  "asList obj = (case obj of OJsonList l \<Rightarrow> Some l | _ \<Rightarrow> None)"

definition asMap :: "ojson \<Rightarrow> (string \<times> ojson) list option" where
  "asMap obj = (case obj of OJsonMap m \<Rightarrow> Some m | _ \<Rightarrow> None)"

definition listOf :: "string \<Rightarrow> (ojson \<Rightarrow> 'a parsed) \<Rightarrow> ojson \<Rightarrow> 'a list parsed" where
  \<comment> \<open>the items of a list, or the error that it is not one\<close>
  "listOf msg f obj = (case asList obj of None \<Rightarrow> rejected msg | Some l \<Rightarrow> mapParsed f l)"

definition fieldsOf :: "string \<Rightarrow> (string \<Rightarrow> ojson \<Rightarrow> 's \<Rightarrow> 's parsed) \<Rightarrow> 's \<Rightarrow> ojson \<Rightarrow> 's parsed" where
  \<comment> \<open>a struct filled from the entries of a map, or the error that it is not one\<close>
  "fieldsOf msg f s obj = (case asMap obj of None \<Rightarrow> rejected msg | Some kvps \<Rightarrow> foldFields f kvps s)"

definition processStringList :: "ojson \<Rightarrow> string list parsed" where
  "processStringList = listOf ''not a JSON list'' parseString"

definition parseByteArrayList :: "Parser \<Rightarrow> ojson \<Rightarrow> JSONBytesFromString list parsed" where
  "parseByteArrayList p = listOf ''not a JSON list'' (processStringAsByteArray p)"

definition parseSubTreeList :: "Parser \<Rightarrow> ojson \<Rightarrow> JSONBytesFromTree list parsed" where
  "parseSubTreeList p = listOf ''not a JSON list'' (processSubTreeAsByteArray p)"

definition parseCheckBytesList :: "Parser \<Rightarrow> ojson \<Rightarrow> JSONCheckBytes list parsed" where
  "parseCheckBytesList p = listOf ''not a JSON list'' (parseCheckBytes p)"

subsection \<open>Tokens\<close>

definition zeroInstance :: DCDTInstance where
  "zeroInstance = \<lparr>di_Nonce = zeroUint64, di_Balance = zeroBigInt, di_Uri = zeroBytesFromTree\<rparr>"

definition tryProcessDCDTInstanceField :: "Parser \<Rightarrow> string \<Rightarrow> ojson \<Rightarrow> DCDTInstance \<Rightarrow> (bool \<times> DCDTInstance) parsed" where
  "tryProcessDCDTInstanceField p key v targetInstance =
     (if key = ''nonce'' then
        parse_then (wrapping ''invalid account nonce'' (processUint64 p v)) (\<lambda>x. Parsed (True, targetInstance\<lparr>di_Nonce := x\<rparr>))
      else if key = ''balance'' then
        parse_then (wrapping ''invalid DCDT balance'' (processBigInt p v bigIntUnsignedBytes)) (\<lambda>x. Parsed (True, targetInstance\<lparr>di_Balance := x\<rparr>))
      else Parsed (False, targetInstance))"

definition processDCDTInstances :: "Parser \<Rightarrow> ojson \<Rightarrow> DCDTInstance list parsed" where
  "processDCDTInstances p =
     listOf ''dcdt instances object is not a list''
       (fieldsOf ''JSON map expected as dcdt instances list item'' (\<lambda>key v instance1.
          parse_then (wrapping ''invalid account DCDT instance field in instances list'' (tryProcessDCDTInstanceField p key v instance1))
            (\<lambda>(loaded, instance1). if loaded then Parsed instance1
               else rejected (''invalid account DCDT instance field in instances list: `'' @ key @ ''`''))) zeroInstance)"

definition processDCDTDataField :: "Parser \<Rightarrow> string \<Rightarrow> ojson \<Rightarrow> DCDTData \<times> DCDTInstance \<times> bool \<times> DCDTInstance list \<Rightarrow>
    (DCDTData \<times> DCDTInstance \<times> bool \<times> DCDTInstance list) parsed" where
  \<comment> \<open>the state: \<open>dcdtData\<close>, \<open>firstInstance\<close>, \<open>firstInstanceLoaded\<close>, \<open>explicitInstances\<close>\<close>
  "processDCDTDataField p key v = (\<lambda>(dcdtData, firstInstance, firstInstanceLoaded, explicitInstances).
     parse_then (wrapping ''invalid account DCDT instance field'' (tryProcessDCDTInstanceField p key v firstInstance))
       (\<lambda>(loaded, firstInstance).
          if loaded then Parsed (dcdtData, firstInstance, True, explicitInstances)
          else if key = ''instances'' then
            parse_then (wrapping ''invalid account DCDT instances'' (processDCDTInstances p v))
              (\<lambda>x. Parsed (dcdtData, firstInstance, firstInstanceLoaded, x))
          else if key = ''lastNonce'' then
            parse_then (wrapping ''invalid account DCDT lastNonce'' (processUint64 p v))
              (\<lambda>x. Parsed (dcdtData\<lparr>dd_LastNonce := x\<rparr>, firstInstance, firstInstanceLoaded, explicitInstances))
          else if key = ''roles'' then
            parse_then (wrapping ''invalid account DCDT roles'' (processStringList v))
              (\<lambda>x. Parsed (dcdtData\<lparr>dd_Roles := x\<rparr>, firstInstance, firstInstanceLoaded, explicitInstances))
          else if key = ''frozen'' then
            parse_then (wrapping ''invalid DCDT frozen flag'' (processUint64 p v))
              (\<lambda>x. Parsed (dcdtData\<lparr>dd_Frozen := x\<rparr>, firstInstance, firstInstanceLoaded, explicitInstances))
          else rejected (''unknown DCDT data field: '' @ key)))"

definition newDCDTData :: "JSONBytesFromString \<Rightarrow> DCDTData" where
  "newDCDTData tokenName = \<lparr>dd_TokenIdentifier = tokenName, dd_Instances = [], dd_LastNonce = zeroUint64, dd_Roles = [], dd_Frozen = zeroUint64\<rparr>"

definition processDCDTDataMap :: "Parser \<Rightarrow> JSONBytesFromString \<Rightarrow> (string \<times> ojson) list \<Rightarrow> DCDTData parsed" where
  "processDCDTDataMap p tokenName dcdtDataMap =
     parse_then (foldFields (processDCDTDataField p) dcdtDataMap (newDCDTData tokenName, zeroInstance, False, []))
       (\<lambda>(dcdtData, firstInstance, firstInstanceLoaded, explicitInstances).
          Parsed (dcdtData\<lparr>dd_Instances := (if firstInstanceLoaded then [firstInstance] else []) @ explicitInstances\<rparr>))"

definition processDCDTData :: "Parser \<Rightarrow> JSONBytesFromString \<Rightarrow> ojson \<Rightarrow> DCDTData parsed" where
  "processDCDTData p tokenName dcdtDataRaw =
     (case dcdtDataRaw of
        OJsonString _ \<Rightarrow>
          parse_then (wrapping ''invalid DCDT balance'' (processBigInt p dcdtDataRaw bigIntUnsignedBytes)) (\<lambda>balance.
            Parsed ((newDCDTData tokenName)\<lparr>dd_Instances := [zeroInstance\<lparr>di_Balance := balance\<rparr>]\<rparr>))
      | OJsonMap data \<Rightarrow> processDCDTDataMap p tokenName data
      | _ \<Rightarrow> rejected ''invalid JSON object for DCDT'')"

definition zeroCheckInstance :: CheckDCDTInstance where
  "zeroCheckInstance = \<lparr>cdi_Nonce = zeroCheckUint64, cdi_Balance = zeroCheckBigInt, cdi_Uri = zeroCheckBytes\<rparr>"

definition tryProcessCheckDCDTInstanceField :: "Parser \<Rightarrow> string \<Rightarrow> ojson \<Rightarrow> CheckDCDTInstance \<Rightarrow> (bool \<times> CheckDCDTInstance) parsed" where
  "tryProcessCheckDCDTInstanceField p key v targetInstance =
     (if key = ''nonce'' then
        parse_then (wrapping ''invalid account nonce'' (processCheckUint64 p v)) (\<lambda>x. Parsed (True, targetInstance\<lparr>cdi_Nonce := x\<rparr>))
      else if key = ''balance'' then
        parse_then (wrapping ''invalid DCDT balance'' (processCheckBigInt p v bigIntUnsignedBytes))
          (\<lambda>x. Parsed (True, targetInstance\<lparr>cdi_Balance := x\<rparr>))
      else Parsed (False, targetInstance))"

definition processCheckDCDTInstances :: "Parser \<Rightarrow> ojson \<Rightarrow> CheckDCDTInstance list parsed" where
  "processCheckDCDTInstances p =
     listOf ''dcdt instances object is not a list''
       (fieldsOf ''JSON map expected as dcdt instances list item'' (\<lambda>key v instance1.
          parse_then (wrapping ''invalid account DCDT instance field in instances list'' (tryProcessCheckDCDTInstanceField p key v instance1))
            (\<lambda>(loaded, instance1). if loaded then Parsed instance1
               else rejected (''invalid account DCDT instance field in instances list: `'' @ key @ ''`''))) zeroCheckInstance)"

definition processCheckDCDTDataField :: "Parser \<Rightarrow> string \<Rightarrow> ojson \<Rightarrow> CheckDCDTData \<times> CheckDCDTInstance \<times> bool \<times> CheckDCDTInstance list \<Rightarrow>
    (CheckDCDTData \<times> CheckDCDTInstance \<times> bool \<times> CheckDCDTInstance list) parsed" where
  "processCheckDCDTDataField p key v = (\<lambda>(dcdtData, firstInstance, firstInstanceLoaded, explicitInstances).
     parse_then (wrapping ''invalid account DCDT instance field'' (tryProcessCheckDCDTInstanceField p key v firstInstance))
       (\<lambda>(loaded, firstInstance).
          if loaded then Parsed (dcdtData, firstInstance, True, explicitInstances)
          else if key = ''instances'' then
            parse_then (wrapping ''invalid account DCDT instances'' (processCheckDCDTInstances p v))
              (\<lambda>x. Parsed (dcdtData, firstInstance, firstInstanceLoaded, x))
          else if key = ''lastNonce'' then
            parse_then (wrapping ''invalid account DCDT lastNonce'' (processCheckUint64 p v))
              (\<lambda>x. Parsed (dcdtData\<lparr>cdd_LastNonce := x\<rparr>, firstInstance, firstInstanceLoaded, explicitInstances))
          else if key = ''roles'' then
            parse_then (wrapping ''invalid account DCDT roles'' (processStringList v))
              (\<lambda>x. Parsed (dcdtData\<lparr>cdd_Roles := x\<rparr>, firstInstance, firstInstanceLoaded, explicitInstances))
          else if key = ''frozen'' then
            parse_then (wrapping ''invalid DCDT frozen flag'' (processCheckUint64 p v))
              (\<lambda>x. Parsed (dcdtData\<lparr>cdd_Frozen := x\<rparr>, firstInstance, firstInstanceLoaded, explicitInstances))
          else rejected (''unknown DCDT data field: '' @ key)))"

definition newCheckDCDTData :: "JSONBytesFromString \<Rightarrow> CheckDCDTData" where
  "newCheckDCDTData tokenName = \<lparr>cdd_TokenIdentifier = tokenName, cdd_Instances = [], cdd_LastNonce = zeroCheckUint64, cdd_Roles = [],
     cdd_Frozen = zeroCheckUint64\<rparr>"

definition processCheckDCDTDataMap :: "Parser \<Rightarrow> JSONBytesFromString \<Rightarrow> (string \<times> ojson) list \<Rightarrow> CheckDCDTData parsed" where
  "processCheckDCDTDataMap p tokenName dcdtDataMap =
     parse_then (foldFields (processCheckDCDTDataField p) dcdtDataMap (newCheckDCDTData tokenName, zeroCheckInstance, False, []))
       (\<lambda>(dcdtData, firstInstance, firstInstanceLoaded, explicitInstances).
          Parsed (dcdtData\<lparr>cdd_Instances := (if firstInstanceLoaded then [firstInstance] else []) @ explicitInstances\<rparr>))"

definition processCheckDCDTData :: "Parser \<Rightarrow> JSONBytesFromString \<Rightarrow> ojson \<Rightarrow> CheckDCDTData parsed" where
  "processCheckDCDTData p tokenName dcdtDataRaw =
     (case dcdtDataRaw of
        OJsonString _ \<Rightarrow>
          parse_then (wrapping ''invalid DCDT balance'' (processCheckBigInt p dcdtDataRaw bigIntUnsignedBytes)) (\<lambda>balance.
            Parsed ((newCheckDCDTData tokenName)\<lparr>cdd_Instances := [zeroCheckInstance\<lparr>cdi_Balance := balance\<rparr>]\<rparr>))
      | OJsonMap data \<Rightarrow> processCheckDCDTDataMap p tokenName data
      | _ \<Rightarrow> rejected ''invalid JSON object for DCDT'')"

definition processTxDCDTField :: "Parser \<Rightarrow> string \<Rightarrow> ojson \<Rightarrow> DCDTTxData \<Rightarrow> DCDTTxData parsed" where
  "processTxDCDTField p key v dcdtData =
     (if key = ''tokenIdentifier'' then
        parse_then (wrapping ''invalid DCDT token name'' (processStringAsByteArray p v)) (\<lambda>x. Parsed (dcdtData\<lparr>dtx_TokenIdentifier := x\<rparr>))
      else if key = ''nonce'' then
        parse_then (renaming ''invalid account nonce'' (processUint64 p v)) (\<lambda>x. Parsed (dcdtData\<lparr>dtx_Nonce := x\<rparr>))
      else if key = ''value'' then
        parse_then (wrapping ''invalid DCDT balance'' (processBigInt p v bigIntUnsignedBytes)) (\<lambda>x. Parsed (dcdtData\<lparr>dtx_Value := x\<rparr>))
      else rejected (''unknown transaction DCDT data field: '' @ key))"

definition processTxDCDT :: "Parser \<Rightarrow> ojson \<Rightarrow> DCDTTxData parsed" where
  "processTxDCDT p =
     fieldsOf ''unmarshalled account object is not a map'' (processTxDCDTField p)
       \<lparr>dtx_TokenIdentifier = zeroBytesFromString, dtx_Nonce = zeroUint64, dtx_Value = zeroBigInt\<rparr>"

subsection \<open>Accounts\<close>

definition parseAccountAddress :: "Parser \<Rightarrow> string \<Rightarrow> JSONBytesFromString parsed" where
  "parseAccountAddress p addrRaw =
     (if length addrRaw = 0 then rejected ''missing account address''
      else parse_then (evaluated (InterpretString (ExprInterpreter p) addrRaw)) (\<lambda>addrBytes.
        if length addrBytes \<noteq> 32 then rejected ''account addressis not 32 bytes in length''
        else Parsed (NewJSONBytesFromString addrBytes addrRaw)))"

definition processStorageEntry :: "Parser \<Rightarrow> string \<times> ojson \<Rightarrow> StorageKeyValuePair parsed" where
  "processStorageEntry p storageKvp =
     parse_then (wrapping ''invalid account storage key'' (evaluated (InterpretString (ExprInterpreter p) (fst storageKvp)))) (\<lambda>byteKey.
       parse_then (wrapping ''invalid account storage value'' (processSubTreeAsByteArray p (snd storageKvp))) (\<lambda>byteVal.
         Parsed \<lparr>skv_Key = NewJSONBytesFromString byteKey (fst storageKvp), skv_Value = byteVal\<rparr>))"

definition processDCDTEntry :: "Parser \<Rightarrow> string \<times> ojson \<Rightarrow> DCDTData parsed" where
  "processDCDTEntry p dcdtKvp =
     parse_then (wrapping ''invalid dcdt token identifer'' (evaluated (InterpretString (ExprInterpreter p) (fst dcdtKvp)))) (\<lambda>tokenNameStr.
       wrapping ''invalid dcdt value'' (processDCDTData p (NewJSONBytesFromString tokenNameStr (fst dcdtKvp)) (snd dcdtKvp)))"

definition processCheckDCDTEntry :: "Parser \<Rightarrow> string \<times> ojson \<Rightarrow> CheckDCDTData parsed" where
  "processCheckDCDTEntry p dcdtKvp =
     parse_then (wrapping ''invalid dcdt token identifer'' (evaluated (InterpretString (ExprInterpreter p) (fst dcdtKvp)))) (\<lambda>tokenNameStr.
       wrapping ''invalid dcdt value'' (processCheckDCDTData p (NewJSONBytesFromString tokenNameStr (fst dcdtKvp)) (snd dcdtKvp)))"

definition processAccountField :: "Parser \<Rightarrow> string \<Rightarrow> ojson \<Rightarrow> mj_Account \<Rightarrow> mj_Account parsed" where
  "processAccountField p key v acct =
     (if key = ''comment'' then
        parse_then (wrapping ''invalid account comment'' (parseString v)) (\<lambda>x. Parsed (acct\<lparr>ac_Comment := x\<rparr>))
      else if key = ''shard'' then
        parse_then (wrapping ''invalid shard number'' (processUint64 p v)) (\<lambda>x. Parsed (acct\<lparr>ac_Shard := x\<rparr>))
      else if key = ''nonce'' then
        parse_then (renaming ''invalid account nonce'' (processUint64 p v)) (\<lambda>x. Parsed (acct\<lparr>ac_Nonce := x\<rparr>))
      else if key = ''balance'' then
        parse_then (renaming ''invalid account balance'' (processBigInt p v bigIntUnsignedBytes)) (\<lambda>x. Parsed (acct\<lparr>ac_Balance := x\<rparr>))
      else if key = ''dcdt'' then
        (case asMap v of
           None \<Rightarrow> rejected ''invalid DCDT map''
         | Some dcdtMap \<Rightarrow>
             parse_then (mapParsed (processDCDTEntry p) dcdtMap) (\<lambda>x. Parsed (acct\<lparr>ac_DCDTData := ac_DCDTData acct @ x\<rparr>)))
      else if key = ''username'' then
        parse_then (wrapping ''invalid account username'' (processStringAsByteArray p v)) (\<lambda>x. Parsed (acct\<lparr>ac_Username := x\<rparr>))
      else if key = ''storage'' then
        (case asMap v of
           None \<Rightarrow> rejected ''invalid account storage''
         | Some storageMap \<Rightarrow>
             parse_then (mapParsed (processStorageEntry p) storageMap) (\<lambda>x. Parsed (acct\<lparr>ac_Storage := ac_Storage acct @ x\<rparr>)))
      else if key = ''code'' then
        parse_then (wrapping ''invalid account code'' (processStringAsByteArray p v)) (\<lambda>x. Parsed (acct\<lparr>ac_Code := x\<rparr>))
      else if key = ''owner'' then
        parse_then (wrapping ''invalid account owner'' (processStringAsByteArray p v)) (\<lambda>x. Parsed (acct\<lparr>ac_Owner := x\<rparr>))
      else if key = ''asyncCallData'' then
        parse_then (wrapping ''invalid asyncCallData string'' (parseString v)) (\<lambda>x. Parsed (acct\<lparr>ac_AsyncCallData := x\<rparr>))
      else rejected (''unknown account field: '' @ key))"

definition zeroAccount :: mj_Account where
  "zeroAccount = \<lparr>ac_Address = zeroBytesFromString, ac_Shard = zeroUint64, ac_IsSmartContract = False, ac_Comment = [], ac_Nonce = zeroUint64,
     ac_Balance = zeroBigInt, ac_Username = zeroBytesFromString, ac_Storage = [], ac_Code = zeroBytesFromString,
     ac_Owner = zeroBytesFromString, ac_AsyncCallData = [], ac_DCDTData = []\<rparr>"

definition processAccount :: "Parser \<Rightarrow> ojson \<Rightarrow> mj_Account parsed" where
  "processAccount p = fieldsOf ''unmarshalled account object is not a map'' (processAccountField p) zeroAccount"

definition processAccountMap :: "Parser \<Rightarrow> ojson \<Rightarrow> mj_Account list parsed" where
  "processAccountMap p acctMapRaw =
     (case asMap acctMapRaw of
        None \<Rightarrow> rejected ''unmarshalled account map object is not a map''
      | Some preMap \<Rightarrow> mapParsed (\<lambda>(key, v).
          parse_then (processAccount p v) (\<lambda>acct. parse_then (parseAccountAddress p key) (\<lambda>acctAddr. Parsed (acct\<lparr>ac_Address := acctAddr\<rparr>)))) preMap)"

definition processCheckAccountField :: "Parser \<Rightarrow> string \<Rightarrow> ojson \<Rightarrow> CheckAccount \<Rightarrow> CheckAccount parsed" where
  "processCheckAccountField p key v acct =
     (if key = ''comment'' then
        parse_then (wrapping ''invalid check account comment'' (parseString v)) (\<lambda>x. Parsed (acct\<lparr>ca_Comment := x\<rparr>))
      else if key = ''nonce'' then
        parse_then (renaming ''invalid account nonce'' (processCheckUint64 p v)) (\<lambda>x. Parsed (acct\<lparr>ca_Nonce := x\<rparr>))
      else if key = ''balance'' then
        parse_then (renaming ''invalid account balance'' (processCheckBigInt p v bigIntUnsignedBytes)) (\<lambda>x. Parsed (acct\<lparr>ca_Balance := x\<rparr>))
      else if key = ''dcdt'' then
        (let acct = acct\<lparr>ca_IgnoreDCDT := IsStar v\<rparr>
         in if ca_IgnoreDCDT acct then Parsed acct
            else (case asMap v of
                    None \<Rightarrow> rejected ''invalid DCDT map''
                  | Some dcdtMap \<Rightarrow> parse_then (mapParsed (processCheckDCDTEntry p) dcdtMap)
                      (\<lambda>x. Parsed (acct\<lparr>ca_CheckDCDTData := ca_CheckDCDTData acct @ x\<rparr>))))
      else if key = ''username'' then
        parse_then (wrapping ''invalid account username'' (parseCheckBytes p v)) (\<lambda>x. Parsed (acct\<lparr>ca_Username := x\<rparr>))
      else if key = ''storage'' then
        (let acct = acct\<lparr>ca_IgnoreStorage := IsStar v\<rparr>
         in if ca_IgnoreStorage acct then Parsed acct
            else (case asMap v of
                    None \<Rightarrow> rejected ''invalid account storage''
                  | Some storageMap \<Rightarrow> parse_then (mapParsed (processStorageEntry p) storageMap)
                      (\<lambda>x. Parsed (acct\<lparr>ca_CheckStorage := ca_CheckStorage acct @ x\<rparr>))))
      else if key = ''code'' then
        parse_then (wrapping ''invalid account code'' (parseCheckBytes p v)) (\<lambda>x. Parsed (acct\<lparr>ca_Code := x\<rparr>))
      else if key = ''owner'' then
        parse_then (wrapping ''invalid account owner'' (parseCheckBytes p v)) (\<lambda>x. Parsed (acct\<lparr>ca_Owner := x\<rparr>))
      else if key = ''asyncCallData'' then
        parse_then (wrapping ''invalid asyncCallData'' (parseCheckBytes p v)) (\<lambda>x. Parsed (acct\<lparr>ca_AsyncCallData := x\<rparr>))
      else rejected (''unknown account field: '' @ key))"

definition newCheckAccount :: CheckAccount where
  "newCheckAccount = \<lparr>ca_Address = zeroBytesFromString, ca_Comment = [], ca_Nonce = JSONCheckUint64Unspecified,
     ca_Balance = JSONCheckBigIntUnspecified, ca_Username = JSONCheckBytesUnspecified, ca_IgnoreStorage = True, ca_CheckStorage = [],
     ca_Code = JSONCheckBytesUnspecified, ca_Owner = JSONCheckBytesUnspecified, ca_AsyncCallData = JSONCheckBytesUnspecified,
     ca_IgnoreDCDT = False, ca_CheckDCDTData = []\<rparr>"

definition processCheckAccount :: "Parser \<Rightarrow> ojson \<Rightarrow> CheckAccount parsed" where
  "processCheckAccount p = fieldsOf ''unmarshalled account object is not a map'' (processCheckAccountField p) newCheckAccount"

definition processCheckAccountEntry :: "Parser \<Rightarrow> string \<Rightarrow> ojson \<Rightarrow> CheckAccounts \<Rightarrow> CheckAccounts parsed" where
  "processCheckAccountEntry p key v checkAccounts =
     (if key = ''+'' then Parsed (checkAccounts\<lparr>OtherAccountsAllowed := True\<rparr>)
      else parse_then (processCheckAccount p v) (\<lambda>acct. parse_then (parseAccountAddress p key) (\<lambda>acctAddr.
        Parsed (checkAccounts\<lparr>Accounts := Accounts checkAccounts @ [acct\<lparr>ca_Address := acctAddr\<rparr>]\<rparr>))))"

definition processCheckAccountMap :: "Parser \<Rightarrow> ojson \<Rightarrow> CheckAccounts parsed" where
  "processCheckAccountMap p =
     fieldsOf ''unmarshalled check account map object is not a map'' (processCheckAccountEntry p)
       \<lparr>OtherAccountsAllowed = False, Accounts = []\<rparr>"

subsection \<open>Transactions and results\<close>

definition processTxField :: "Parser \<Rightarrow> TransactionType \<Rightarrow> string \<Rightarrow> ojson \<Rightarrow> Transaction \<Rightarrow> Transaction parsed" where
  "processTxField p txType key v blt =
     (if key = ''nonce'' then
        parse_then (wrapping ''invalid transaction nonce'' (processUint64 p v)) (\<lambda>x. Parsed (blt\<lparr>tx_Nonce := x\<rparr>))
      else if key = ''from'' then
        (if \<not> HasSender txType then rejected ''`from` not allowed in transaction, it is always the zero address''
         else parse_then (wrapping ''invalid transaction from'' (parseString v)) (\<lambda>fromStr.
           parse_then (parseAccountAddress p fromStr) (\<lambda>x. Parsed (blt\<lparr>tx_From := x\<rparr>))))
      else if key = ''to'' then
        parse_then (wrapping ''invalid transaction to'' (parseString v)) (\<lambda>toStr.
          if txType = ScDeploy then
            (if length toStr > 0 then rejected ''transaction to field not allowed for scDeploy transactions'' else Parsed blt)
          else parse_then (parseAccountAddress p toStr) (\<lambda>x. Parsed (blt\<lparr>tx_To := x\<rparr>)))
      else if key = ''function'' then
        parse_then (wrapping ''invalid transaction function'' (parseString v)) (\<lambda>x.
          if \<not> HasFunction txType \<and> length x > 0 then rejected ''transaction function field not allowed in this context''
          else Parsed (blt\<lparr>tx_Function := x\<rparr>))
      else if key = ''value'' then
        (if \<not> HasValue txType then rejected ''`value` not allowed in this context''
         else parse_then (wrapping ''invalid transaction value'' (processBigInt p v bigIntUnsignedBytes)) (\<lambda>x. Parsed (blt\<lparr>tx_Value := x\<rparr>)))
      else if key = ''dcdt'' then
        (if \<not> HasDCDT txType then rejected ''`dcdt` not allowed in this context''
         else parse_then (wrapping ''invalid transaction DCDT value'' (processTxDCDT p v)) (\<lambda>x. Parsed (blt\<lparr>tx_DCDTValue := Some x\<rparr>)))
      else if key = ''arguments'' then
        parse_then (wrapping ''invalid transaction arguments'' (parseSubTreeList p v)) (\<lambda>x.
          if txType = mj_Transfer \<and> length x > 0 then rejected ''function arguments not allowed for transfer transactions''
          else Parsed (blt\<lparr>tx_Arguments := x\<rparr>))
      else if key = ''contractCode'' then
        parse_then (wrapping ''invalid transaction contract code'' (processStringAsByteArray p v)) (\<lambda>x.
          if txType \<noteq> ScDeploy \<and> length (jbs_Value x) > 0 then rejected ''transaction contractCode field only allowed int scDeploy transactions''
          else Parsed (blt\<lparr>tx_Code := x\<rparr>))
      else if key = ''gasPrice'' then
        (if \<not> HasGas txType then rejected ''`gasPrice` not allowed in this context''
         else parse_then (wrapping ''invalid transaction gasPrice'' (processUint64 p v)) (\<lambda>x. Parsed (blt\<lparr>tx_GasPrice := x\<rparr>)))
      else if key = ''gasLimit'' then
        (if \<not> HasGas txType then rejected ''`gasLimit` not allowed in this context''
         else parse_then (wrapping ''invalid transaction gasLimit'' (processUint64 p v)) (\<lambda>x. Parsed (blt\<lparr>tx_GasLimit := x\<rparr>)))
      else rejected (''unknown field in transaction: '' @ key))"

definition newTransaction :: "TransactionType \<Rightarrow> Transaction" where
  "newTransaction txType = \<lparr>tx_Type = txType, tx_Nonce = zeroUint64, tx_Value = JSONBigIntZero, tx_DCDTValue = None,
     tx_From = zeroBytesFromString, tx_To = zeroBytesFromString, tx_Function = [], tx_Code = zeroBytesFromString, tx_Arguments = [],
     tx_GasPrice = zeroUint64, tx_GasLimit = zeroUint64\<rparr>"

definition processTx :: "Parser \<Rightarrow> TransactionType \<Rightarrow> ojson \<Rightarrow> Transaction parsed" where
  "processTx p txType = fieldsOf ''unmarshalled transaction is not a map'' (processTxField p txType) (newTransaction txType)"

definition processLogField :: "Parser \<Rightarrow> string \<Rightarrow> ojson \<Rightarrow> mj_LogEntry \<Rightarrow> mj_LogEntry parsed" where
  "processLogField p key v logEntry =
     (if key = ''address'' then
        parse_then (wrapping ''invalid log address'' (parseCheckBytes p v)) (\<lambda>x. Parsed (logEntry\<lparr>mle_Address := x\<rparr>))
      else if key = ''identifier'' then
        parse_then (wrapping ''invalid log identifier'' (parseCheckBytes p v)) (\<lambda>x. Parsed (logEntry\<lparr>mle_Identifier := x\<rparr>))
      else if key = ''topics'' then
        parse_then (wrapping ''invalid log entry topics'' (parseCheckBytesList p v)) (\<lambda>x. Parsed (logEntry\<lparr>mle_Topics := x\<rparr>))
      else if key = ''data'' then
        parse_then (wrapping ''invalid log data'' (parseCheckBytes p v)) (\<lambda>x. Parsed (logEntry\<lparr>mle_Data := x\<rparr>))
      else rejected (''unknown log field: '' @ key))"

definition zeroLogEntry :: mj_LogEntry where
  "zeroLogEntry = \<lparr>mle_Address = zeroCheckBytes, mle_Identifier = zeroCheckBytes, mle_Topics = [], mle_Data = zeroCheckBytes\<rparr>"

definition processLogList :: "Parser \<Rightarrow> ojson \<Rightarrow> mj_LogEntry list parsed" where
  "processLogList p = listOf ''unmarshalled logs list is not a list''
     (fieldsOf ''unmarshalled log entry is not a map'' (processLogField p) zeroLogEntry)"

definition processTxExpectedResultField :: "Parser \<Rightarrow> string \<Rightarrow> ojson \<Rightarrow> TransactionResult \<Rightarrow> TransactionResult parsed" where
  "processTxExpectedResultField p key v blr =
     (if key = ''out'' then
        parse_then (wrapping ''invalid block result out'' (parseCheckBytesList p v)) (\<lambda>x. Parsed (blr\<lparr>tr_Out := x\<rparr>))
      else if key = ''status'' then
        parse_then (wrapping ''invalid block result status'' (processCheckBigInt p v bigIntSignedBytes)) (\<lambda>x. Parsed (blr\<lparr>tr_Status := x\<rparr>))
      else if key = ''message'' then
        parse_then (wrapping ''invalid block result message'' (parseCheckBytes p v)) (\<lambda>x. Parsed (blr\<lparr>tr_Message := x\<rparr>))
      else if key = ''logs'' then
        (let blr = blr\<lparr>tr_LogsUnspecified := False\<rparr>
         in if IsStar v then Parsed (blr\<lparr>tr_LogsStar := True\<rparr>)
            else
              let blr = blr\<lparr>tr_LogsStar := False\<rparr>
              in (case v of
                    OJsonString s \<Rightarrow> Parsed (blr\<lparr>tr_LogHash := s\<rparr>)
                  | _ \<Rightarrow> parse_then (processLogList p v) (\<lambda>x. Parsed (blr\<lparr>tr_LogHash := [], tr_Logs := x\<rparr>))))
      else if key = ''gas'' then
        parse_then (wrapping ''invalid block result gas'' (processCheckUint64 p v)) (\<lambda>x. Parsed (blr\<lparr>tr_Gas := x\<rparr>))
      else if key = ''refund'' then
        parse_then (wrapping ''invalid block result refund'' (processCheckBigInt p v bigIntUnsignedBytes)) (\<lambda>x. Parsed (blr\<lparr>tr_Refund := x\<rparr>))
      else rejected (''unknown tx result field: '' @ key))"

definition newTransactionResult :: TransactionResult where
  "newTransactionResult = \<lparr>tr_Out = [], tr_Status = JSONCheckBigIntUnspecified, tr_Message = JSONCheckBytesUnspecified,
     tr_Gas = JSONCheckUint64Unspecified, tr_Refund = JSONCheckBigIntUnspecified, tr_LogsStar = True, tr_LogsUnspecified = True,
     tr_LogHash = [], tr_Logs = []\<rparr>"

definition processTxExpectedResult :: "Parser \<Rightarrow> ojson \<Rightarrow> TransactionResult parsed" where
  "processTxExpectedResult p =
     fieldsOf ''unmarshalled block result is not a map'' (processTxExpectedResultField p) newTransactionResult"

subsection \<open>Steps\<close>

definition processBlockInfoField :: "Parser \<Rightarrow> string \<Rightarrow> ojson \<Rightarrow> BlockInfo \<Rightarrow> BlockInfo parsed" where
  "processBlockInfoField p key v blockInfo =
     (if key = ''blockTimestamp'' then
        parse_then (wrapping ''error parsing blockTimestamp'' (processUint64 p v)) (\<lambda>x. Parsed (blockInfo\<lparr>BlockTimestamp := x\<rparr>))
      else if key = ''blockNonce'' then
        parse_then (wrapping ''error parsing blockNonce'' (processUint64 p v)) (\<lambda>x. Parsed (blockInfo\<lparr>BlockNonce := x\<rparr>))
      else if key = ''blockRound'' then
        parse_then (wrapping ''error parsing blockRound'' (processUint64 p v)) (\<lambda>x. Parsed (blockInfo\<lparr>BlockRound := x\<rparr>))
      else if key = ''blockEpoch'' then
        parse_then (wrapping ''error parsing blockEpoch'' (processUint64 p v)) (\<lambda>x. Parsed (blockInfo\<lparr>BlockEpoch := x\<rparr>))
      else if key = ''blockRandomSeed'' then
        parse_then (wrapping ''error parsing blockEpoch'' (processSubTreeAsByteArray p v)) (\<lambda>x.
          if length (jbt_Value x) \<noteq> 48 then
            rejected (''blockRandomSeed must be 48 bytes long. Actual length: '' @ decimal (int (length (jbt_Value x))))
          else Parsed (blockInfo\<lparr>BlockRandomSeed := Some x\<rparr>))
      else rejected (''unknown block info field: '' @ key))"

definition processBlockInfo :: "Parser \<Rightarrow> ojson \<Rightarrow> BlockInfo parsed" where
  "processBlockInfo p =
     fieldsOf ''unmarshalled block info object is not a map'' (processBlockInfoField p)
       \<lparr>BlockTimestamp = zeroUint64, BlockNonce = zeroUint64, BlockRound = zeroUint64, BlockEpoch = zeroUint64, BlockRandomSeed = None\<rparr>"

definition processNewAddressMockField :: "Parser \<Rightarrow> string \<Rightarrow> ojson \<Rightarrow> NewAddressMock \<Rightarrow> NewAddressMock parsed" where
  "processNewAddressMockField p key v namEntry =
     (if key = ''creatorAddress'' then
        parse_then (wrapping ''creatorAddress is not a json string'' (parseString v)) (\<lambda>caStr.
          parse_then (parseAccountAddress p caStr) (\<lambda>x. Parsed (namEntry\<lparr>nam_CreatorAddress := x\<rparr>)))
      else if key = ''creatorNonce'' then
        parse_then (renaming ''invalid creatorNonce'' (processUint64 p v)) (\<lambda>x. Parsed (namEntry\<lparr>nam_CreatorNonce := x\<rparr>))
      else if key = ''newAddress'' then
        parse_then (wrapping ''newAddress is not a json string'' (parseString v)) (\<lambda>naStr.
          parse_then (parseAccountAddress p naStr) (\<lambda>x. Parsed (namEntry\<lparr>nam_NewAddress := x\<rparr>)))
      else rejected (''unknown nam field: '' @ key))"

definition processNewAddressMocks :: "Parser \<Rightarrow> ojson \<Rightarrow> NewAddressMock list parsed" where
  "processNewAddressMocks p = listOf ''newAddresses list is not a list''
     (fieldsOf ''new address mock entry is not a map'' (processNewAddressMockField p)
        \<lparr>nam_CreatorAddress = zeroBytesFromString, nam_CreatorNonce = zeroUint64, nam_NewAddress = zeroBytesFromString\<rparr>)"

definition parseTxStepField :: "Parser \<Rightarrow> TransactionType \<Rightarrow> string \<Rightarrow> ojson \<Rightarrow> TxStep \<Rightarrow> TxStep parsed" where
  "parseTxStepField p txType key v step =
     (if key = ''step'' then Parsed step
      else if key = ''txId'' then
        parse_then (wrapping ''bad tx step id'' (parseString v)) (\<lambda>x. Parsed (step\<lparr>txs_TxIdent := x\<rparr>))
      else if key = ''comment'' then
        parse_then (wrapping ''bad tx step comment'' (parseString v)) (\<lambda>x. Parsed (step\<lparr>txs_Comment := x\<rparr>))
      else if key = ''tx'' then
        parse_then (wrapping ''cannot parse tx step transaction'' (processTx p txType v)) (\<lambda>x. Parsed (step\<lparr>txs_Tx := Some x\<rparr>))
      else if key = ''expect'' then
        (case txs_Tx step of
           None \<Rightarrow> Panicked
         | Some tx \<Rightarrow>
             if \<not> IsSmartContractTx (tx_Type tx) then rejected (''no expected result allowed for step of type '' @ txTypeName (tx_Type tx))
             else parse_then (wrapping ''cannot parse tx expected result'' (processTxExpectedResult p v))
               (\<lambda>x. Parsed (step\<lparr>txs_ExpectedResult := Some x\<rparr>)))
      else rejected (''invalid tx step field: '' @ key))"

definition parseTxStep :: "Parser \<Rightarrow> TransactionType \<Rightarrow> (string \<times> ojson) list \<Rightarrow> Step parsed" where
  "parseTxStep p txType stepMap =
     parse_then (foldFields (parseTxStepField p txType) stepMap \<lparr>txs_TxIdent = [], txs_Comment = [], txs_Tx = None, txs_ExpectedResult = None\<rparr>)
       (\<lambda>step. Parsed (Tx step))"

definition parseStepType :: "(string \<times> ojson) list \<Rightarrow> string parsed" where
  "parseStepType stepMap =
     foldFields (\<lambda>key v stepTypeStr. if key = ''step'' then wrapping ''step type not a string'' (parseString v) else Parsed stepTypeStr) stepMap []"

definition externalStepsField :: "string \<Rightarrow> ojson \<Rightarrow> ExternalStepsStep \<Rightarrow> ExternalStepsStep parsed" where
  "externalStepsField key v step =
     (if key = ''step'' then Parsed step
      else if key = ''comment'' then
        parse_then (wrapping ''bad externalSteps step comment'' (parseString v)) (\<lambda>x. Parsed (step\<lparr>ext_Comment := x\<rparr>))
      else if key = ''path'' then
        parse_then (wrapping ''bad externalSteps path'' (parseString v)) (\<lambda>x. Parsed (step\<lparr>ext_Path := x\<rparr>))
      else rejected (''invalid externalSteps field: '' @ key))"

definition setStateField :: "Parser \<Rightarrow> string \<Rightarrow> ojson \<Rightarrow> SetStateStep \<Rightarrow> SetStateStep parsed" where
  "setStateField p key v step =
     (if key = ''step'' then Parsed step
      else if key = ''comment'' then
        parse_then (wrapping ''bad set state step comment'' (parseString v)) (\<lambda>x. Parsed (step\<lparr>set_Comment := x\<rparr>))
      else if key = ''accounts'' then
        parse_then (wrapping ''cannot parse set state step'' (processAccountMap p v)) (\<lambda>x. Parsed (step\<lparr>set_Accounts := x\<rparr>))
      else if key = ''newAddresses'' then
        parse_then (wrapping ''error parsing new addresses'' (processNewAddressMocks p v)) (\<lambda>x. Parsed (step\<lparr>set_NewAddressMocks := x\<rparr>))
      else if key = ''previousBlockInfo'' then
        parse_then (wrapping ''error parsing previousBlockInfo'' (processBlockInfo p v)) (\<lambda>x. Parsed (step\<lparr>set_PreviousBlockInfo := Some x\<rparr>))
      else if key = ''currentBlockInfo'' then
        parse_then (wrapping ''error parsing currentBlockInfo'' (processBlockInfo p v)) (\<lambda>x. Parsed (step\<lparr>set_CurrentBlockInfo := Some x\<rparr>))
      else if key = ''blockHashes'' then
        parse_then (wrapping ''error parsing block hashes'' (parseByteArrayList p v)) (\<lambda>x. Parsed (step\<lparr>set_BlockHashes := x\<rparr>))
      else rejected (''invalid set state field: '' @ key))"

definition checkStateField :: "Parser \<Rightarrow> string \<Rightarrow> ojson \<Rightarrow> CheckStateStep \<Rightarrow> CheckStateStep parsed" where
  "checkStateField p key v step =
     (if key = ''step'' then Parsed step
      else if key = ''comment'' then
        parse_then (wrapping ''bad check state step comment'' (parseString v)) (\<lambda>x. Parsed (step\<lparr>chk_Comment := x\<rparr>))
      else if key = ''accounts'' then
        parse_then (wrapping ''cannot parse check state step'' (processCheckAccountMap p v)) (\<lambda>x. Parsed (step\<lparr>chk_CheckAccounts := Some x\<rparr>))
      else rejected (''invalid check state field: '' @ key))"

definition dumpStateField :: "string \<Rightarrow> ojson \<Rightarrow> DumpStateStep \<Rightarrow> DumpStateStep parsed" where
  "dumpStateField key v step =
     (if key = ''step'' then Parsed step
      else if key = ''comment'' then
        parse_then (wrapping ''bad check state step comment'' (parseString v)) (\<lambda>x. Parsed (step\<lparr>dump_Comment := x\<rparr>))
      else rejected (''invalid check state field: '' @ key))"

definition processScenarioStep :: "Parser \<Rightarrow> ojson \<Rightarrow> Step parsed" where
  "processScenarioStep p stepObj =
     (case asMap stepObj of
        None \<Rightarrow> rejected ''unmarshalled step object is not a map''
      | Some stepMap \<Rightarrow>
          parse_then (parseStepType stepMap) (\<lambda>stepTypeStr.
            if stepTypeStr = [] then rejected ''no step type field provided''
            else if stepTypeStr = ''externalSteps'' then
              parse_then (foldFields externalStepsField stepMap \<lparr>ext_Comment = [], ext_Path = []\<rparr>) (\<lambda>step. Parsed (ExternalSteps step))
            else if stepTypeStr = ''setState'' then
              parse_then (foldFields (setStateField p) stepMap \<lparr>set_Comment = [], set_Accounts = [], set_PreviousBlockInfo = None,
                set_CurrentBlockInfo = None, set_BlockHashes = [], set_NewAddressMocks = []\<rparr>) (\<lambda>step. Parsed (SetState step))
            else if stepTypeStr = ''checkState'' then
              parse_then (foldFields (checkStateField p) stepMap \<lparr>chk_Comment = [], chk_CheckAccounts = None\<rparr>) (\<lambda>step. Parsed (CheckState step))
            else if stepTypeStr = ''dumpState'' then
              parse_then (foldFields dumpStateField stepMap \<lparr>dump_Comment = []\<rparr>) (\<lambda>step. Parsed (DumpState step))
            else if stepTypeStr = ''scCall'' then parseTxStep p ScCall stepMap
            else if stepTypeStr = ''scDeploy'' then parseTxStep p ScDeploy stepMap
            else if stepTypeStr = ''scQuery'' then parseTxStep p ScQuery stepMap
            else if stepTypeStr = ''transfer'' then parseTxStep p mj_Transfer stepMap
            else if stepTypeStr = ''validatorReward'' then parseTxStep p ValidatorReward stepMap
            else rejected (''unknown step type: '' @ stepTypeStr)))"

definition processScenarioStepList :: "Parser \<Rightarrow> ojson \<Rightarrow> Step list parsed" where
  "processScenarioStepList p = listOf ''steps not a JSON list'' (processScenarioStep p)"

subsection \<open>Files\<close>

definition parseGasSchedule :: "ojson \<Rightarrow> mj_GasSchedule parsed" where
  "parseGasSchedule v =
     parse_then (wrapping ''gasSchedule type not a string'' (parseString v)) (\<lambda>gasScheduleStr.
       if gasScheduleStr = ''default'' then Parsed GasScheduleDefault
       else if gasScheduleStr = ''dummy'' then Parsed GasScheduleDummy
       else if gasScheduleStr = ''v1'' then Parsed GasScheduleV1
       else if gasScheduleStr = ''v2'' then Parsed GasScheduleV2
       else if gasScheduleStr = ''v3'' then Parsed GasScheduleV3
       else rejected (''invalid gasSchedule: '' @ gasScheduleStr))"

definition scenarioField :: "Parser \<Rightarrow> string \<Rightarrow> ojson \<Rightarrow> Scenario \<Rightarrow> Scenario parsed" where
  "scenarioField p key v scenario =
     (if key = ''name'' then
        parse_then (wrapping ''bad scenario name'' (parseString v)) (\<lambda>x. Parsed (scenario\<lparr>sc_Name := x\<rparr>))
      else if key = ''comment'' then
        parse_then (wrapping ''bad scenario comment'' (parseString v)) (\<lambda>x. Parsed (scenario\<lparr>sc_Comment := x\<rparr>))
      else if key = ''checkGas'' then
        (case v of OJsonBool b \<Rightarrow> Parsed (scenario\<lparr>sc_CheckGas := b\<rparr>) | _ \<Rightarrow> rejected ''scenario checkGas flag is not boolean'')
      else if key = ''gasSchedule'' then
        parse_then (wrapping ''bad scenario gasSchedule'' (parseGasSchedule v)) (\<lambda>x. Parsed (scenario\<lparr>sc_GasSchedule := x\<rparr>))
      else if key = ''steps'' then
        parse_then (wrapping ''error processing steps'' (processScenarioStepList p v)) (\<lambda>x. Parsed (scenario\<lparr>sc_Steps := x\<rparr>))
      else rejected (''unknown scenario field: '' @ key))"

definition processScenario :: "Parser \<Rightarrow> ojson \<Rightarrow> Scenario parsed" where
  "processScenario p =
     fieldsOf ''unmarshalled test top level object is not a map'' (scenarioField p)
       \<lparr>sc_Name = [], sc_Comment = [], sc_CheckGas = True, sc_GasSchedule = GasScheduleDefault, sc_Steps = []\<rparr>"

definition ParseScenarioFile :: "Parser \<Rightarrow> bytes \<Rightarrow> Scenario parsed" where
  "ParseScenarioFile p jsonString =
     (case ParseOrderedJSON jsonString of
        None \<Rightarrow> Rejected JsonError
      | Some None \<Rightarrow> rejected ''unmarshalled test top level object is not a map''
      | Some (Some jobj) \<Rightarrow> processScenario p jobj)"

definition ParseScenarioStep :: "Parser \<Rightarrow> string \<Rightarrow> Step parsed" where
  "ParseScenarioStep p jsonSnippet =
     (case ParseOrderedJSON jsonSnippet of
        None \<Rightarrow> Rejected JsonError
      | Some None \<Rightarrow> rejected ''unmarshalled step object is not a map''
      | Some (Some jobj) \<Rightarrow> processScenarioStep p jobj)"

subsection \<open>Test files\<close>

definition txIsCreate :: "ojson \<Rightarrow> bool parsed" where
  "txIsCreate txRaw =
     (case asMap txRaw of
        None \<Rightarrow> rejected ''unmarshalled block transaction is not a map''
      | Some txRawMap \<Rightarrow>
          (case find (\<lambda>kvp. fst kvp = ''to'') txRawMap of
             None \<Rightarrow> Parsed False
           | Some kvp \<Rightarrow> parse_then (wrapping ''invalid block transaction to'' (parseString (snd kvp))) (\<lambda>toStr. Parsed (length toStr = 0))))"

definition processBlockHeaderField :: "Parser \<Rightarrow> string \<Rightarrow> ojson \<Rightarrow> BlockHeader \<Rightarrow> BlockHeader parsed" where
  "processBlockHeaderField p key v blh =
     (if key = ''gasLimit'' then
        parse_then (wrapping ''invalid block header gasLimit'' (processBigInt p v bigIntUnsignedBytes)) (\<lambda>x. Parsed (blh\<lparr>bh_GasLimit := x\<rparr>))
      else if key = ''number'' then
        parse_then (wrapping ''invalid block header number'' (processBigInt p v bigIntUnsignedBytes)) (\<lambda>x. Parsed (blh\<lparr>bh_Number := x\<rparr>))
      else if key = ''difficulty'' then
        parse_then (wrapping ''invalid block header difficulty'' (processBigInt p v bigIntUnsignedBytes)) (\<lambda>x. Parsed (blh\<lparr>bh_Difficulty := x\<rparr>))
      else if key = ''timestamp'' then
        parse_then (wrapping ''invalid block header timestamp'' (processUint64 p v)) (\<lambda>x. Parsed (blh\<lparr>bh_Timestamp := x\<rparr>))
      else if key = ''coinbase'' then
        parse_then (wrapping ''invalid block header coinbase'' (processBigInt p v bigIntUnsignedBytes)) (\<lambda>x. Parsed (blh\<lparr>bh_Beneficiary := x\<rparr>))
      else rejected (''unknown block header field: '' @ key))"

definition processBlockHeader :: "Parser \<Rightarrow> ojson \<Rightarrow> BlockHeader parsed" where
  "processBlockHeader p =
     fieldsOf ''unmarshalled block header is not a map'' (processBlockHeaderField p)
       \<lparr>bh_Beneficiary = zeroBigInt, bh_Difficulty = zeroBigInt, bh_Number = zeroBigInt, bh_GasLimit = zeroBigInt, bh_Timestamp = zeroUint64\<rparr>"

definition processBlockField :: "Parser \<Rightarrow> string \<Rightarrow> ojson \<Rightarrow> Block \<Rightarrow> Block parsed" where
  "processBlockField p key v bl =
     (if key = ''results'' then
        parse_then (listOf ''unmarshalled block results object is not a list'' (processTxExpectedResult p) v)
          (\<lambda>x. Parsed (bl\<lparr>bl_Results := bl_Results bl @ x\<rparr>))
      else if key = ''transactions'' then
        parse_then (listOf ''unmarshalled block transactions object is not a list''
            (\<lambda>trRaw. parse_then (txIsCreate trRaw) (\<lambda>isCreate. processTx p (if isCreate then ScDeploy else ScCall) trRaw)) v)
          (\<lambda>x. Parsed (bl\<lparr>bl_Transactions := bl_Transactions bl @ x\<rparr>))
      else if key = ''blockHeader'' then
        parse_then (processBlockHeader p v) (\<lambda>x. Parsed (bl\<lparr>bl_BlockHeader := Some x\<rparr>))
      else rejected (''unknown block field: '' @ key))"

definition processBlock :: "Parser \<Rightarrow> ojson \<Rightarrow> Block parsed" where
  "processBlock p blockRaw =
     parse_then (fieldsOf ''unmarshalled block object is not a map'' (processBlockField p)
         \<lparr>bl_Results = [], bl_Transactions = [], bl_BlockHeader = None\<rparr> blockRaw) (\<lambda>bl.
       if length (bl_Results bl) \<noteq> length (bl_Transactions bl) then rejected ''mismatched number of blocks and transactions''
       else Parsed bl)"

definition processTestField :: "Parser \<Rightarrow> string \<Rightarrow> ojson \<Rightarrow> Test \<Rightarrow> Test parsed" where
  "processTestField p key v test =
     (if key = ''checkGas'' then
        (case v of OJsonBool b \<Rightarrow> Parsed (test\<lparr>te_CheckGas := b\<rparr>) | _ \<Rightarrow> rejected ''unmarshalled test checkGas flag is not boolean'')
      else if key = ''pre'' then
        parse_then (wrapping ''cannot parse pre'' (processAccountMap p v)) (\<lambda>x. Parsed (test\<lparr>te_Pre := x\<rparr>))
      else if key = ''blocks'' then
        parse_then (listOf ''unmarshalled blocks object is not a list'' (processBlock p) v) (\<lambda>x. Parsed (test\<lparr>te_Blocks := te_Blocks test @ x\<rparr>))
      else if key = ''network'' then
        parse_then (wrapping ''test network value not a string'' (parseString v)) (\<lambda>x. Parsed (test\<lparr>te_Network := x\<rparr>))
      else if key = ''blockHashes'' then
        parse_then (wrapping ''unmarshalled blockHashes object is not a list'' (parseByteArrayList p v)) (\<lambda>x. Parsed (test\<lparr>te_BlockHashes := x\<rparr>))
      else if key = ''postState'' then
        parse_then (wrapping ''cannot parse postState'' (processCheckAccountMap p v)) (\<lambda>x. Parsed (test\<lparr>te_PostState := Some x\<rparr>))
      else rejected (''unknown test: '' @ key))"

definition processTest :: "Parser \<Rightarrow> ojson \<Rightarrow> Test parsed" where
  "processTest p =
     fieldsOf ''unmarshalled test object is not a map'' (processTestField p)
       \<lparr>te_TestName = [], te_CheckGas = True, te_Pre = [], te_Blocks = [], te_Network = [], te_BlockHashes = [], te_PostState = None\<rparr>"

definition ParseTestFile :: "Parser \<Rightarrow> bytes \<Rightarrow> Test list parsed" where
  "ParseTestFile p jsonString =
     (case ParseOrderedJSON jsonString of
        None \<Rightarrow> Rejected JsonError
      | Some (Some (OJsonMap topMap)) \<Rightarrow>
          mapParsed (\<lambda>(key, v). parse_then (processTest p v) (\<lambda>t. Parsed (t\<lparr>te_TestName := key\<rparr>))) topMap
      | _ \<Rightarrow> rejected ''unmarshalled test top level object is not a map'')"

end
