(* ===== verification/ScenTransactions.thy ===== *)
theory ScenTransactions
  imports ScenChecks ScenParse
begin

text \<open>
  Executing the transactions of a scenario (\<open>src/scenarioexec/util.go\<close>, \<open>stepRunTx.go\<close>): values of the scenario become
  accounts, blocks and inputs of the VM; a transaction runs on the VM over the world, and its effects are applied or taken back.
  The VM is the host of this development, in the environment whose hook is the world.  A panic is \<open>None\<close>.
\<close>

record fileResolver =
  fr_contextPath :: string
  fr_contractPathReplacements :: "(string, string) gomap"

record executor =
  ex_World :: world
  ex_vm :: schedule_state
  ex_checkGas :: bool
  ex_scenarioexecPath :: string
  ex_scenGasScheduleLoaded :: bool
  ex_fileResolver :: "fileResolver option"

datatype tomlValue = TomlInt int | TomlTable "(string, tomlValue) gomap" | TomlOther

record execLib =
  ex_worldLib :: worldLib
  \<comment> \<open>contracts as the VM runs them in an environment, and what is left of the VM after a panic in a transaction\<close>
  ex_callee :: "env \<Rightarrow> callee"
  ex_recovered :: "vm \<Rightarrow> err \<times> vm"
  ex_Decode :: decoder
  \<comment> \<open>files and paths\<close>
  path_Abs :: "string \<Rightarrow> string + string"
  path_Dir :: "string \<Rightarrow> string"
  path_Join :: "string \<Rightarrow> string \<Rightarrow> string"
  os_ReadFile :: "string \<Rightarrow> string + bytes"
  LoadTomlFileToMap :: "string \<Rightarrow> err + (string, tomlValue) gomap"
  \<comment> \<open>libraries of the parser and of the writer\<close>
  ex_ExprInterpreter :: interpreter
  ex_twos_FromBytes :: "bytes \<Rightarrow> int"
  ex_Quote :: "string \<Rightarrow> string"

datatype execError =
    BadAccountAddress
  | AccountError err
  | TxSetUp string err
  | NoRecipient address
  | RecipientNotContract address
  | BalanceDeltas int int
  | TransactionError err
  | ResultError resultError
  | StateError checkError
  | OsError string
  | ParsingError parseError
  | ScheduleError err
  | DumpError err

definition ex_ProtectedKeyPrefix :: string where "ex_ProtectedKeyPrefix = ''NUMBAT''"
definition RewardKey :: string where "RewardKey = ex_ProtectedKeyPrefix @ ''reward''"

subsection \<open>Values of the scenario\<close>

definition makeDCDTUserMetadataBytes :: "worldLib \<Rightarrow> bool \<Rightarrow> bytes" where
  "makeDCDTUserMetadataBytes lib frozen = userMetadata_ToBytes lib frozen"

definition setInstance :: "worldLib \<Rightarrow> DCDTData \<Rightarrow> DCDTInstance \<Rightarrow> wAccount \<Rightarrow> err + wAccount" where
  "setInstance lib scenDCDTData instance1 account =
     (let tokenName = jbs_Value (dd_TokenIdentifier scenDCDTData);
          isFrozen = ju_Value (dd_Frozen scenDCDTData) > 0;
          tokenNonce = ju_Value (di_Nonce instance1);
          tokenData = \<lparr>wt_Type = Fungible (wl_env lib), wt_Value = jbi_Value (di_Balance instance1),
            wt_Properties = makeDCDTUserMetadataBytes lib isFrozen, wt_TokenMetaData = Some ((fungibleMeta tokenName)\<lparr>md_Nonce := tokenNonce\<rparr>)\<rparr>
      in case SetTokenData lib (MakeTokenKey lib tokenName tokenNonce) tokenData account of
           Inl err \<Rightarrow> Inl err
         | Inr account \<Rightarrow> Inr (SetLastNonce lib tokenName (ju_Value (dd_LastNonce scenDCDTData)) account))"

fun setInstances :: "worldLib \<Rightarrow> DCDTData \<Rightarrow> DCDTInstance list \<Rightarrow> wAccount \<Rightarrow> err + wAccount" where
  "setInstances lib scenDCDTData [] account = Inr account"
| "setInstances lib scenDCDTData (i # is) account =
     (case setInstance lib scenDCDTData i account of Inl err \<Rightarrow> Inl err | Inr account \<Rightarrow> setInstances lib scenDCDTData is account)"

fun setTokens :: "worldLib \<Rightarrow> DCDTData list \<Rightarrow> wAccount \<Rightarrow> err + wAccount" where
  "setTokens lib [] account = Inr account"
| "setTokens lib (d # ds) account =
     (case setInstances lib d (dd_Instances d) account of
        Inl err \<Rightarrow> Inl err
      | Inr account \<Rightarrow>
          (case SetTokenRolesAsStrings lib (jbs_Value (dd_TokenIdentifier d)) (dd_Roles d) account of
             Inl err \<Rightarrow> Inl err
           | Inr account \<Rightarrow> setTokens lib ds account))"

definition convertAccount :: "worldLib \<Rightarrow> mj_Account \<Rightarrow> (execError + wAccount) option" where
  \<comment> \<open>an account without balance panics\<close>
  "convertAccount lib testAcct =
     (if length (jbs_Value (ac_Address testAcct)) \<noteq> 32 then Some (Inl BadAccountAddress)
      else do {
        balance \<leftarrow> jbi_Value (ac_Balance testAcct);
        let account = \<lparr>wa_Exists = False, wa_Address = jbs_Value (ac_Address testAcct), wa_Nonce = ju_Value (ac_Nonce testAcct),
          wa_Balance = Some balance, wa_BalanceDelta = Some 0, wa_Storage = expectedStorageOf (ac_Storage testAcct), wa_RootHash = [],
          wa_Code = jbs_Value (ac_Code testAcct), wa_CodeHash = [],
          wa_CodeMetadata = metadata_ToBytes lib \<lparr>Payable = True, Upgradeable = True, Readable = True\<rparr>,
          wa_OwnerAddress = jbs_Value (ac_Owner testAcct), wa_AsyncCallData = ac_AsyncCallData testAcct,
          wa_Username = jbs_Value (ac_Username testAcct), wa_DeveloperReward = Some 0, wa_ShardID = ucast (ju_Value (ac_Shard testAcct)),
          wa_IsSmartContract = (length (jbs_Value (ac_Code testAcct)) > 0)\<rparr>;
        Some (case setTokens lib (ac_DCDTData testAcct) account of Inl err \<Rightarrow> Inl (AccountError err) | Inr account \<Rightarrow> Inr account) })"

definition convertNewAddressMocks :: "NewAddressMock list \<Rightarrow> wNewAddressMock list" where
  "convertNewAddressMocks testNAMs = map (\<lambda>testNAM. \<lparr>wnam_CreatorAddress = jbs_Value (nam_CreatorAddress testNAM),
     wnam_CreatorNonce = ju_Value (nam_CreatorNonce testNAM), wnam_NewAddress = jbs_Value (nam_NewAddress testNAM)\<rparr>) testNAMs"

definition convertBlockInfo :: "BlockInfo option \<Rightarrow> wBlockInfo option" where
  "convertBlockInfo testBlockInfo = map_option (\<lambda>info.
     let randomSeed = replicate 48 (CHR 0x00)
     in \<lparr>wbi_BlockTimestamp = ju_Value (BlockTimestamp info), wbi_BlockNonce = ju_Value (BlockNonce info),
         wbi_BlockRound = ju_Value (BlockRound info), wbi_BlockEpoch = ucast (ju_Value (BlockEpoch info)),
         wbi_RandomSeed = Some (case BlockRandomSeed info of None \<Rightarrow> randomSeed | Some seed \<Rightarrow> sliceCopy randomSeed 0 48 (jbt_Value seed))\<rparr>)
     testBlockInfo"

definition generateTxHash :: "string \<Rightarrow> bytes" where
  "generateTxHash txIndex = (if length txIndex > 32 then take 32 txIndex else txIndex @ replicate (32 - length txIndex) (CHR ''.''))"

definition addDCDTToVMInput :: "env \<Rightarrow> DCDTTxData option \<Rightarrow> VMInput \<Rightarrow> VMInput" where
  "addDCDTToVMInput e dcdtData vmIn =
     (case dcdtData of
        None \<Rightarrow> vmIn
      | Some d \<Rightarrow> vmIn\<lparr>DCDTTransfers := [\<lparr>DCDTValue = jbi_Value (dtx_Value d), DCDTTokenName = jbs_Value (dtx_TokenIdentifier d),
          DCDTTokenType = (if ju_Value (dtx_Nonce d) \<noteq> 0 then NonFungible e else Fungible e), DCDTTokenNonce = ju_Value (dtx_Nonce d)\<rparr>]\<rparr>)"

subsection \<open>The VM over the world\<close>

definition hostEnv :: "execLib \<Rightarrow> world \<Rightarrow> env" where
  "hostEnv lib w = envOf (wl_env (ex_worldLib lib)) (worldHook (ex_worldLib lib) w)"

definition onHost :: "execLib \<Rightarrow> (env \<Rightarrow> vm \<Rightarrow> (VMOutput \<times> vm) option) \<Rightarrow> executor \<Rightarrow> (execError + VMOutput) \<times> executor" where
  \<comment> \<open>a call of the VM: its hook calls that change the world are played back; a panic is caught and becomes an error\<close>
  "onHost lib call ex =
     (let w = ex_World ex;
          s = (sched_vm (ex_vm ex))\<lparr>hookLog := []\<rparr>;
          after = (\<lambda>s. ex\<lparr>ex_vm := (ex_vm ex)\<lparr>sched_vm := s\<rparr>, ex_World := playEvents (hookLog s) w\<rparr>)
      in case call (hostEnv lib w) s of
           Some (out, s) \<Rightarrow> (Inr out, after s)
         | None \<Rightarrow> (case ex_recovered lib s of (err, s) \<Rightarrow> (Inl (TransactionError err), after s)))"

definition txVMInput :: "env \<Rightarrow> string \<Rightarrow> Transaction \<Rightarrow> u64 \<Rightarrow> VMInput" where
  "txVMInput e txIndex tx gasLimit =
     (let txHash = generateTxHash txIndex
      in addDCDTToVMInput e (tx_DCDTValue tx)
           \<lparr>CallerAddr = jbs_Value (tx_From tx), Arguments = JSONBytesFromTreeValues (tx_Arguments tx), CallValue = jbi_Value (tx_Value tx),
            CallType = DirectCall, GasPrice = ju_Value (tx_GasPrice tx), GasProvided = gasLimit, GasLocked = 0, OriginalTxHash = txHash,
            CurrentTxHash = txHash, PrevTxHash = [], DCDTTransfers = []\<rparr>)"

definition scCreate :: "execLib \<Rightarrow> string \<Rightarrow> Transaction \<Rightarrow> u64 \<Rightarrow> executor \<Rightarrow> (execError + VMOutput) \<times> executor" where
  "scCreate lib txIndex tx gasLimit ex =
     (let input = \<lparr>cri_VMInput = txVMInput (wl_env (ex_worldLib lib)) txIndex tx gasLimit, cri_ContractCode = jbs_Value (tx_Code tx),
        cri_ContractCodeMetadata = []\<rparr>
      in onHost lib (\<lambda>e s. RunSmartContractCreate (ex_callee lib e) e input s) ex)"

definition scCall :: "execLib \<Rightarrow> string \<Rightarrow> Transaction \<Rightarrow> u64 \<Rightarrow> executor \<Rightarrow> (execError + VMOutput) \<times> executor" where
  "scCall lib txIndex tx gasLimit ex =
     (case wa_GetAccount (AcctMap (ex_World ex)) (jbs_Value (tx_To tx)) of
        None \<Rightarrow> (Inl (NoRecipient (jbs_Value (tx_To tx))), ex)
      | Some recipient \<Rightarrow>
          if length (wa_Code recipient) = 0 then (Inl (RecipientNotContract (jbs_Value (tx_To tx))), ex)
          else
            let input = \<lparr>cci_VMInput = txVMInput (wl_env (ex_worldLib lib)) txIndex tx gasLimit, RecipientAddr = jbs_Value (tx_To tx),
              Function = tx_Function tx, AllowInitFunction = False\<rparr>
            in onHost lib (\<lambda>e s. RunSmartContractCall (ex_callee lib e) e input s) ex)"

subsection \<open>Outputs without the VM\<close>

definition plainOutput :: "ReturnCodeT \<Rightarrow> (address, OutputAccount) gomap \<Rightarrow> VMOutput" where
  "plainOutput code outputAccounts = \<lparr>ReturnData = [], ReturnCode = code, ReturnMessage = [], GasRemaining = 0, GasRefund = Some 0,
     OutputAccounts = outputAccounts, DeletedAccounts = [], TouchedAccounts = [], Logs = []\<rparr>"

definition deltaAccount :: "address \<Rightarrow> bigint \<Rightarrow> (bytes, StorageUpdate) gomap \<Rightarrow> OutputAccount" where
  "deltaAccount address delta storageUpdates = \<lparr>Address = address, Nonce = 0, Balance = None, BalanceDelta = delta,
     StorageUpdates = storageUpdates, Code = [], CodeMetadata = [], CodeDeployerAddress = None, OutputTransfers = [], GasUsed = 0\<rparr>"

definition simpleTransferOutput :: "Transaction \<Rightarrow> VMOutput" where
  "simpleTransferOutput tx =
     (let to1 = jbs_Value (tx_To tx) in plainOutput Ok [(to1, deltaAccount to1 (jbi_Value (tx_Value tx)) [])])"

definition validatorRewardOutput :: "Transaction \<Rightarrow> world \<Rightarrow> ((execError + VMOutput) \<times> world) option" where
  "validatorRewardOutput tx w =
     (let to1 = jbs_Value (tx_To tx)
      in case wa_GetAccount (AcctMap w) to1 of
           None \<Rightarrow> Some (Inl (NoRecipient to1), w)
         | Some recipient \<Rightarrow> do {
             reward \<leftarrow> jbi_Value (tx_Value tx);
             let w = w\<lparr>AcctMap := go_set to1 (recipient\<lparr>wa_BalanceDelta := Some reward\<rparr>) (AcctMap w)\<rparr>;
             let storageReward = Bytes (SetBytes (StorageValue recipient RewardKey) + reward);
             Some (Inr (plainOutput Ok [(to1, deltaAccount to1 (Some reward) [(RewardKey, \<lparr>su_Offset = RewardKey, su_Data = storageReward\<rparr>)])]), w) })"

definition outOfFundsResult :: VMOutput where
  "outOfFundsResult = plainOutput OutOfFunds []"

subsection \<open>Transactions\<close>

definition senderHasEnoughBalance :: "world \<Rightarrow> Transaction \<Rightarrow> bool option" where
  "senderHasEnoughBalance w tx =
     (if \<not> HasSender (tx_Type tx) then Some True
      else do {
        sender \<leftarrow> wa_GetAccount (AcctMap w) (jbs_Value (tx_From tx));
        balance \<leftarrow> wa_Balance sender;
        value \<leftarrow> jbi_Value (tx_Value tx);
        Some (balance \<ge> value) })"

definition directDCDTTransferFromTx :: "execLib \<Rightarrow> Transaction \<Rightarrow> DCDTTxData \<Rightarrow> world \<Rightarrow> ((err + u64) \<times> world) option" where
  "directDCDTTransferFromTx lib tx dcdt w = do {
     container \<leftarrow> BuiltinFuncs w;
     value \<leftarrow> jbi_Value (dtx_Value dcdt);
     PerformDirectDCDTTransfer (ex_worldLib lib) container (jbs_Value (tx_From tx)) (jbs_Value (tx_To tx))
       (jbs_Value (dtx_TokenIdentifier dcdt)) (ju_Value (dtx_Nonce dcdt)) value DirectCall (ju_Value (tx_GasLimit tx))
       (ju_Value (tx_GasPrice tx)) w }"

definition sumOfBalanceDeltas :: "OutputAccount list \<Rightarrow> int option" where
  \<comment> \<open>a nil number panics\<close>
  "sumOfBalanceDeltas oas = map_option sum_list (those (map BalanceDelta oas))"

definition updateStateAfterTx :: "execLib \<Rightarrow> Transaction \<Rightarrow> VMOutput \<Rightarrow> world \<Rightarrow> (execError option \<times> world) option" where
  "updateStateAfterTx lib tx output w = do {
     w \<leftarrow> (if HasSender (tx_Type tx)
       then do {
         value \<leftarrow> jbi_Value (tx_Value tx);
         (_, w) \<leftarrow> UpdateBalanceWithDelta (jbs_Value (tx_From tx)) (- value) w;
         Some w }
       else Some w);
     (updErr, w) \<leftarrow> UpdateAccounts (ex_worldLib lib) (OutputAccounts output) (DeletedAccounts output) w;
     case updErr of
       Some err \<Rightarrow> Some (Some (TransactionError err), w)
     | None \<Rightarrow>
         if HasSender (tx_Type tx) then do {
           sum1 \<leftarrow> sumOfBalanceDeltas (map snd (OutputAccounts output));
           value \<leftarrow> jbi_Value (tx_Value tx);
           Some (if sum1 \<noteq> value then Some (BalanceDeltas sum1 value) else None, w) }
         else Some (None, w) }"

definition prepareTx :: "execLib \<Rightarrow> string \<Rightarrow> Transaction \<Rightarrow> executor \<Rightarrow> (((execError \<times> bool) + u64) \<times> executor) option" where
  \<comment> \<open>what a transaction with a sender begins with, up to the gas for the execution; an error comes with whether the deferred
    function sees it, which the error of a token transfer, kept in another variable of the same name, is not\<close>
  "prepareTx lib txIndex tx ex =
     (if \<not> HasSender (tx_Type tx) then Some (Inr 0, ex)
      else do {
        (beforeErr, w) \<leftarrow> UpdateWorldStateBefore (jbs_Value (tx_From tx)) (ju_Value (tx_GasLimit tx)) (ju_Value (tx_GasPrice tx)) (ex_World ex);
        let ex = ex\<lparr>ex_World := w\<rparr>;
        case beforeErr of
          Some err \<Rightarrow> Some (Inl (TxSetUp txIndex err, True), ex)
        | None \<Rightarrow>
            (case tx_DCDTValue tx of
               None \<Rightarrow> Some (Inr (ju_Value (tx_GasLimit tx)), ex)
             | Some dcdt \<Rightarrow> do {
                 (r, w) \<leftarrow> directDCDTTransferFromTx lib tx dcdt w;
                 Some (case r of Inl err \<Rightarrow> Inl (TransactionError err, False) | Inr gasRemaining \<Rightarrow> Inr gasRemaining, ex\<lparr>ex_World := w\<rparr>) }) })"

definition queryTx :: "Transaction \<Rightarrow> Transaction" where
  \<comment> \<open>a query is sent by the contract itself, without limit on the gas\<close>
  "queryTx tx = tx\<lparr>tx_From := tx_To tx, tx_GasLimit := (tx_GasLimit tx)\<lparr>ju_Value := - 1\<rparr>\<rparr>"

definition runTx :: "execLib \<Rightarrow> string \<Rightarrow> Transaction \<Rightarrow> u64 \<Rightarrow> executor \<Rightarrow> ((execError + VMOutput) \<times> executor) option" where
  "runTx lib txIndex tx gasLeft ex =
     (case tx_Type tx of
        ScDeploy \<Rightarrow> Some (scCreate lib txIndex tx gasLeft ex)
      | ScQuery \<Rightarrow> Some (scCall lib txIndex (queryTx tx) (- 1) ex)
      | ScCall \<Rightarrow> Some (scCall lib txIndex tx gasLeft ex)
      | mj_Transfer \<Rightarrow> Some (Inr (simpleTransferOutput tx), ex)
      | ValidatorReward \<Rightarrow> map_option (\<lambda>(r, w). (r, ex\<lparr>ex_World := w\<rparr>)) (validatorRewardOutput tx (ex_World ex)))"

definition executeTxBody :: "execLib \<Rightarrow> string \<Rightarrow> Transaction \<Rightarrow> executor \<Rightarrow> ((execError + VMOutput) \<times> bool \<times> executor) option" where
  \<comment> \<open>with what the deferred function sees: whether the outer error is set.  An error of the update of the state is kept in another
    variable, and an output that is not ok sets the outer error without being returned as one\<close>
  "executeTxBody lib txIndex tx ex = do {
     (r, ex) \<leftarrow> prepareTx lib txIndex tx ex;
     case r of
       Inl (err, seen) \<Rightarrow> Some (Inl err, seen, ex)
     | Inr gasLeft \<Rightarrow> do {
         enough \<leftarrow> senderHasEnoughBalance (ex_World ex) tx;
         (r, ex) \<leftarrow> (if \<not> enough then Some (Inr outOfFundsResult, ex) else runTx lib txIndex tx gasLeft ex);
         case r of
           Inl err \<Rightarrow> Some (Inl err, True, ex)
         | Inr output \<Rightarrow>
             if ReturnCode output = Ok then do {
               (err, w) \<leftarrow> updateStateAfterTx lib tx output (ex_World ex);
               Some (case err of Some err \<Rightarrow> Inl err | None \<Rightarrow> Inr output, False, ex\<lparr>ex_World := w\<rparr>) }
             else Some (Inr output, True, ex) } }"

definition executeTx :: "execLib \<Rightarrow> string \<Rightarrow> Transaction \<Rightarrow> executor \<Rightarrow> ((execError + VMOutput) \<times> executor) option" where
  \<comment> \<open>the errors of commit and rollback end in a variable that is not returned\<close>
  "executeTx lib txIndex tx ex = do {
     w \<leftarrow> CreateStateBackup (ex_World ex);
     (r, failed, ex) \<leftarrow> executeTxBody lib txIndex tx (ex\<lparr>ex_World := w\<rparr>);
     Some (r, ex\<lparr>ex_World := snd (if failed then RollbackChanges (ex_World ex) else CommitChanges (ex_World ex))\<rparr>) }"

end
