(* ===== verification/ScenRun.thy ===== *)
theory ScenRun
  imports ScenTransactions
begin

text \<open>
  Running scenarios and tests (\<open>src/scenarioexec/execScenario.go\<close>, \<open>execTest.go\<close>, \<open>exec.go\<close>, \<open>stepDumpWorld.go\<close>; the files
  are read by \<open>src/scenarios/controller/scenarioOne.go\<close>, \<open>testOne.go\<close> and \<open>src/scenarios/fileresolver\<close>).  A step may be another
  scenario file, so that running a file is recursive; it is cut by fuel (\<open>NoFuel\<close>).
\<close>

datatype 'a ending = Returned 'a | Crashed | NoFuel

definition orCrash :: "'a option \<Rightarrow> 'a ending" where
  "orCrash r = (case r of None \<Rightarrow> Crashed | Some a \<Rightarrow> Returned a)"

definition ending_then :: "'a ending \<Rightarrow> ('a \<Rightarrow> 'b ending) \<Rightarrow> 'b ending" where
  "ending_then r f = (case r of Returned a \<Rightarrow> f a | Crashed \<Rightarrow> Crashed | NoFuel \<Rightarrow> NoFuel)"

subsection \<open>Files\<close>

definition NewDefaultFileResolver :: fileResolver where
  "NewDefaultFileResolver = \<lparr>fr_contextPath = [], fr_contractPathReplacements = []\<rparr>"

definition ReplacePath :: "string \<Rightarrow> string \<Rightarrow> fileResolver \<Rightarrow> fileResolver" where
  "ReplacePath pathInTest actualPath r = r\<lparr>fr_contractPathReplacements := go_set pathInTest actualPath (fr_contractPathReplacements r)\<rparr>"

definition fr_Clone :: "fileResolver \<Rightarrow> fileResolver" where
  "fr_Clone r = \<lparr>fr_contextPath = fr_contextPath r, fr_contractPathReplacements = fr_contractPathReplacements r\<rparr>"

definition SetContext :: "string \<Rightarrow> fileResolver \<Rightarrow> fileResolver" where
  "SetContext contextPath r = r\<lparr>fr_contextPath := contextPath\<rparr>"

definition ResolveAbsolutePath :: "execLib \<Rightarrow> fileResolver \<Rightarrow> string \<Rightarrow> string" where
  "ResolveAbsolutePath lib r value =
     (case go_get (fr_contractPathReplacements r) value of
        Some replacement \<Rightarrow> replacement
      | None \<Rightarrow> path_Join lib (path_Dir lib (fr_contextPath r)) value)"

definition ResolveFileValue :: "execLib \<Rightarrow> fileResolver \<Rightarrow> string \<Rightarrow> string + bytes" where
  "ResolveFileValue lib r value = (if length value = 0 then Inr [] else os_ReadFile lib (ResolveAbsolutePath lib r value))"

definition NewParser :: "execLib \<Rightarrow> fileResolver \<Rightarrow> Parser" where
  "NewParser lib r = \<lparr>ExprInterpreter = (ex_ExprInterpreter lib)\<lparr>FileResolver := Some (ResolveFileValue lib r)\<rparr>,
     twos_FromBytes = ex_twos_FromBytes lib\<rparr>"

subsection \<open>Gas schedules\<close>

fun tomlCosts :: "(string, tomlValue) gomap \<Rightarrow> gasSection option" where
  \<comment> \<open>a value of another type panics\<close>
  "tomlCosts [] = Some []"
| "tomlCosts ((operationName, TomlInt cost1) # costs) = map_option ((#) (operationName, uint64_of_int cost1)) (tomlCosts costs)"
| "tomlCosts ((operationName, _) # costs) = None"

fun flattenGasSchedule :: "(string, tomlValue) gomap \<Rightarrow> GasScheduleMap option" where
  "flattenGasSchedule [] = Some []"
| "flattenGasSchedule ((libType, TomlTable costs) # rest) = do {
     section1 \<leftarrow> tomlCosts costs;
     rest \<leftarrow> flattenGasSchedule rest;
     Some ((libType, section1) # rest) }"
| "flattenGasSchedule ((libType, _) # rest) = None"

definition LoadGasScheduleConfig :: "execLib \<Rightarrow> string \<Rightarrow> (err + GasScheduleMap) option" where
  "LoadGasScheduleConfig lib filepath =
     (case LoadTomlFileToMap lib filepath of
        Inl err \<Rightarrow> Some (Inl err)
      | Inr gasScheduleConfig \<Rightarrow> map_option Inr (flattenGasSchedule gasScheduleConfig))"

definition gasScheduleMapFromScenarios :: "execLib \<Rightarrow> mj_GasSchedule \<Rightarrow> executor \<Rightarrow> (err + GasScheduleMap) option" where
  "gasScheduleMapFromScenarios lib scenGasSchedule ex =
     (let load = (\<lambda>file. LoadGasScheduleConfig lib (path_Join lib (ex_scenarioexecPath ex) file))
      in case scenGasSchedule of
           GasScheduleDefault \<Rightarrow> load ''gasSchedules/gasScheduleV3.toml''
         | GasScheduleDummy \<Rightarrow> Some (Inr MakeGasMapForTests)
         | GasScheduleV1 \<Rightarrow> load ''gasSchedules/gasScheduleV1.toml''
         | GasScheduleV2 \<Rightarrow> load ''gasSchedules/gasScheduleV2.toml''
         | GasScheduleV3 \<Rightarrow> load ''gasSchedules/gasScheduleV3.toml'')"

definition SetScenariosGasSchedule :: "execLib \<Rightarrow> mj_GasSchedule \<Rightarrow> executor \<Rightarrow> (execError option \<times> executor) option" where
  "SetScenariosGasSchedule lib newGasSchedule ex =
     (if ex_scenGasScheduleLoaded ex then Some (None, ex)
      else do {
        let ex = ex\<lparr>ex_scenGasScheduleLoaded := True\<rparr>;
        r \<leftarrow> gasScheduleMapFromScenarios lib newGasSchedule ex;
        Some (case r of
            Inl err \<Rightarrow> (Some (ScheduleError err), ex)
          | Inr gasSchedule1 \<Rightarrow> (None, ex\<lparr>ex_vm := GasScheduleChange (ex_Decode lib) gasSchedule1 (ex_vm ex)\<rparr>)) })"

subsection \<open>Steps\<close>

fun putAccounts :: "worldLib \<Rightarrow> mj_Account list \<Rightarrow> world \<Rightarrow> (execError option \<times> world) option" where
  "putAccounts lib [] w = Some (None, w)"
| "putAccounts lib (acct # accts) w = do {
     r \<leftarrow> convertAccount lib acct;
     case r of
       Inl err \<Rightarrow> Some (Some err, w)
     | Inr account \<Rightarrow> putAccounts lib accts (w\<lparr>AcctMap := PutAccount account (AcctMap w)\<rparr>) }"

definition ExecuteSetStateStep :: "execLib \<Rightarrow> SetStateStep \<Rightarrow> executor \<Rightarrow> (execError option \<times> executor) option" where
  "ExecuteSetStateStep lib step ex = do {
     (err, w) \<leftarrow> putAccounts (ex_worldLib lib) (set_Accounts step) (ex_World ex);
     case err of
       Some err \<Rightarrow> Some (Some err, ex\<lparr>ex_World := w\<rparr>)
     | None \<Rightarrow> Some (None, ex\<lparr>ex_World := w\<lparr>PreviousBlockInfo := convertBlockInfo (set_PreviousBlockInfo step),
         CurrentBlockInfo := convertBlockInfo (set_CurrentBlockInfo step), Blockhashes := JSONBytesFromStringValues (set_BlockHashes step),
         NewAddressMocks := NewAddressMocks w @ convertNewAddressMocks (set_NewAddressMocks step)\<rparr>\<rparr>) }"

definition ExecuteTxStep :: "execLib \<Rightarrow> TxStep \<Rightarrow> executor \<Rightarrow> ((execError + VMOutput) \<times> executor) option" where
  \<comment> \<open>a step without transaction panics\<close>
  "ExecuteTxStep lib step ex = do {
     tx \<leftarrow> txs_Tx step;
     (r, ex) \<leftarrow> executeTx lib (txs_TxIdent step) tx ex;
     case r of
       Inl err \<Rightarrow> Some (Inl err, ex)
     | Inr output \<Rightarrow>
         (case txs_ExpectedResult step of
            None \<Rightarrow> Some (Inr output, ex)
          | Some expected \<Rightarrow> do {
              err \<leftarrow> checkTxResults (ex_worldLib lib) expected (ex_checkGas ex) output;
              Some (case err of Some err \<Rightarrow> Inl (ResultError err) | None \<Rightarrow> Inr output, ex) }) }"

definition ExecuteCheckStateStep :: "execLib \<Rightarrow> CheckStateStep \<Rightarrow> executor \<Rightarrow> execError option option" where
  "ExecuteCheckStateStep lib step ex = do {
     c \<leftarrow> chk_CheckAccounts step;
     map_option (map_option StateError) (checkAccounts (ex_worldLib lib) c (ex_World ex)) }"

subsection \<open>Dumps of the world\<close>

definition dumpStorage :: "execLib \<Rightarrow> wAccount \<Rightarrow> StorageKeyValuePair list" where
  "dumpStorage lib account =
     (let storageKeys = sort (map fst (wa_Storage account))
      in map (\<lambda>storageKey. \<lparr>skv_Key = \<lparr>jbs_Value = storageKey, jbs_Original = Reconstruct (ex_Quote lib) storageKey NoHint\<rparr>,
             skv_Value = \<lparr>jbt_Value = StorageValue account storageKey,
               jbt_Original = Some (OJsonString (Reconstruct (ex_Quote lib) (StorageValue account storageKey) NoHint))\<rparr>\<rparr>)
           (filter (\<lambda>storageKey. \<not> HasPrefix storageKey (core_ProtectedKeyPrefix (wl_env (ex_worldLib lib))) \<and>
              length (StorageValue account storageKey) > 0) storageKeys))"

definition dumpInstance :: "execLib \<Rightarrow> wToken \<Rightarrow> DCDTInstance option" where
  \<comment> \<open>a token without metadata or without value panics\<close>
  "dumpInstance lib mockInstance = do {
     metadata \<leftarrow> wt_TokenMetaData mockInstance;
     value \<leftarrow> wt_Value mockInstance;
     Some \<lparr>di_Nonce = \<lparr>ju_Value = md_Nonce metadata, ju_Original = ReconstructFromUint64 (ex_Quote lib) (md_Nonce metadata)\<rparr>,
       di_Balance = \<lparr>jbi_Value = Some value, jbi_Original = ReconstructFromBigInt (ex_Quote lib) value\<rparr>,
       di_Uri = (case md_URIs metadata of
           [] \<Rightarrow> zeroBytesFromTree
         | uri # _ \<Rightarrow> \<lparr>jbt_Value = uri, jbt_Original = Some (OJsonString (Reconstruct (ex_Quote lib) uri NoHint))\<rparr>)\<rparr> }"

definition dumpToken :: "execLib \<Rightarrow> MockDCDTData \<Rightarrow> DCDTData option" where
  "dumpToken lib dcdtObj = do {
     scenInstances \<leftarrow> those (map (dumpInstance lib) (mdd_Instances dcdtObj));
     Some \<lparr>dd_TokenIdentifier = \<lparr>jbs_Value = mdd_TokenIdentifier dcdtObj,
         jbs_Original = Reconstruct (ex_Quote lib) (mdd_TokenIdentifier dcdtObj) StrHint\<rparr>,
       dd_Instances = scenInstances,
       dd_LastNonce = \<lparr>ju_Value = mdd_LastNonce dcdtObj, ju_Original = ReconstructFromUint64 (ex_Quote lib) (mdd_LastNonce dcdtObj)\<rparr>,
       dd_Roles = mdd_Roles dcdtObj, dd_Frozen = zeroUint64\<rparr> }"

definition convertMockAccountToScenarioFormat :: "execLib \<Rightarrow> wAccount \<Rightarrow> (err + mj_Account) option" where
  "convertMockAccountToScenarioFormat lib account = do {
     r \<leftarrow> GetFullMockDCDTData (ex_worldLib lib) account;
     case r of
       Inl err \<Rightarrow> Some (Inl err)
     | Inr tokenData \<Rightarrow> do {
         scenDCDT \<leftarrow> those (map (dumpToken lib) (map snd (sort_key fst tokenData)));
         balance \<leftarrow> wa_Balance account;
         Some (Inr \<lparr>ac_Address = \<lparr>jbs_Value = wa_Address account, jbs_Original = Reconstruct (ex_Quote lib) (wa_Address account) AddressHint\<rparr>,
           ac_Shard = zeroUint64, ac_IsSmartContract = False, ac_Comment = [],
           ac_Nonce = \<lparr>ju_Value = wa_Nonce account, ju_Original = ReconstructFromUint64 (ex_Quote lib) (wa_Nonce account)\<rparr>,
           ac_Balance = \<lparr>jbi_Value = Some balance, jbi_Original = ReconstructFromBigInt (ex_Quote lib) balance\<rparr>,
           ac_Username = zeroBytesFromString, ac_Storage = dumpStorage lib account, ac_Code = zeroBytesFromString,
           ac_Owner = zeroBytesFromString, ac_AsyncCallData = [], ac_DCDTData = scenDCDT\<rparr>) } }"

fun dumpAccounts :: "execLib \<Rightarrow> wAccount list \<Rightarrow> (err + mj_Account list) option" where
  "dumpAccounts lib [] = Some (Inr [])"
| "dumpAccounts lib (account # accounts) = do {
     r \<leftarrow> convertMockAccountToScenarioFormat lib account;
     case r of
       Inl err \<Rightarrow> Some (Inl err)
     | Inr scenAccount \<Rightarrow>
         map_option (\<lambda>r. case r of Inl err \<Rightarrow> Inl err | Inr scenAccounts \<Rightarrow> Inr (scenAccount # scenAccounts)) (dumpAccounts lib accounts) }"

definition DumpWorld :: "execLib \<Rightarrow> executor \<Rightarrow> (err + string) option" where
  \<comment> \<open>the text that is printed\<close>
  "DumpWorld lib ex = do {
     r \<leftarrow> dumpAccounts lib (map snd (AcctMap (ex_World ex)));
     case r of
       Inl err \<Rightarrow> Some (Inl err)
     | Inr scenAccounts \<Rightarrow> map_option (\<lambda>ojAccount. Inr (JSONString ojAccount)) (AccountsToOJ scenAccounts) }"

subsection \<open>Scenarios\<close>

type_synonym fileRunner = "fileResolver \<Rightarrow> string \<Rightarrow> executor \<Rightarrow> (execError option \<times> executor) ending"

definition ExecuteExternalStep :: "fileRunner \<Rightarrow> execLib \<Rightarrow> ExternalStepsStep \<Rightarrow> executor \<Rightarrow> (execError option \<times> executor) ending" where
  "ExecuteExternalStep run lib step ex =
     (case ex_fileResolver ex of
        None \<Rightarrow> Crashed
      | Some fileResolverBackup \<Rightarrow>
          ending_then (run (fr_Clone fileResolverBackup) (ResolveAbsolutePath lib fileResolverBackup (ext_Path step)) ex)
            (\<lambda>(err, ex). Returned (case err of Some err \<Rightarrow> (Some err, ex) | None \<Rightarrow> (None, ex\<lparr>ex_fileResolver := Some fileResolverBackup\<rparr>))))"

definition ExecuteStep :: "fileRunner \<Rightarrow> execLib \<Rightarrow> Step \<Rightarrow> executor \<Rightarrow> (execError option \<times> executor) ending" where
  "ExecuteStep run lib generalStep ex =
     (case generalStep of
        ExternalSteps step \<Rightarrow> ExecuteExternalStep run lib step ex
      | SetState step \<Rightarrow> orCrash (ExecuteSetStateStep lib step ex)
      | CheckState step \<Rightarrow> orCrash (map_option (\<lambda>err. (err, ex)) (ExecuteCheckStateStep lib step ex))
      | Tx step \<Rightarrow> orCrash (map_option (\<lambda>(r, ex). (case r of Inl err \<Rightarrow> Some err | Inr _ \<Rightarrow> None, ex)) (ExecuteTxStep lib step ex))
      | DumpState _ \<Rightarrow> orCrash (map_option (\<lambda>r. (case r of Inl err \<Rightarrow> Some (DumpError err) | Inr _ \<Rightarrow> None, ex)) (DumpWorld lib ex)))"

fun executeSteps :: "fileRunner \<Rightarrow> execLib \<Rightarrow> Step list \<Rightarrow> executor \<Rightarrow> (execError option \<times> executor) ending" where
  "executeSteps run lib [] ex = Returned (None, ex)"
| "executeSteps run lib (step # steps) ex =
     ending_then (ExecuteStep run lib step ex)
       (\<lambda>(err, ex). case err of Some err \<Rightarrow> Returned (Some err, ex) | None \<Rightarrow> executeSteps run lib steps ex)"

definition ExecuteScenario :: "fileRunner \<Rightarrow> execLib \<Rightarrow> Scenario \<Rightarrow> fileResolver \<Rightarrow> executor \<Rightarrow> (execError option \<times> executor) ending" where
  "ExecuteScenario run lib scenario r ex =
     ending_then (orCrash (SetScenariosGasSchedule lib (sc_GasSchedule scenario) (ex\<lparr>ex_fileResolver := Some r, ex_checkGas := sc_CheckGas scenario\<rparr>)))
       (\<lambda>(err, ex). case err of Some err \<Rightarrow> Returned (Some err, ex) | None \<Rightarrow> executeSteps run lib (sc_Steps scenario) ex)"

definition readScenario :: "execLib \<Rightarrow> fileResolver \<Rightarrow> string \<Rightarrow> (execError + fileResolver \<times> Scenario) ending" where
  \<comment> \<open>the file with its context, up to the call of the executor\<close>
  "readScenario lib r contextPath =
     (case path_Abs lib contextPath of
        Inl err \<Rightarrow> Returned (Inl (OsError err))
      | Inr contextPath \<Rightarrow>
          (case os_ReadFile lib contextPath of
             Inl err \<Rightarrow> Returned (Inl (OsError err))
           | Inr byteValue \<Rightarrow>
               let r = SetContext contextPath r
               in case ParseScenarioFile (NewParser lib r) byteValue of
                    Panicked \<Rightarrow> Crashed
                  | Rejected parseErr \<Rightarrow> Returned (Inl (ParsingError parseErr))
                  | Parsed scenario \<Rightarrow> Returned (Inr (r, scenario))))"

definition RunSingleJSONScenario :: "fileRunner \<Rightarrow> execLib \<Rightarrow> fileRunner" where
  "RunSingleJSONScenario run lib r contextPath ex =
     ending_then (readScenario lib r contextPath)
       (\<lambda>res. case res of
          Inl err \<Rightarrow> Returned (Some err, ex)
        | Inr (r, scenario) \<Rightarrow> ExecuteScenario run lib scenario r ex)"

primrec runScenarioFile :: "nat \<Rightarrow> execLib \<Rightarrow> fileRunner" where
  "runScenarioFile 0 lib r contextPath ex = NoFuel"
| "runScenarioFile (Suc n) lib r contextPath ex = RunSingleJSONScenario (runScenarioFile n lib) lib r contextPath ex"

definition Reset :: "executor \<Rightarrow> executor" where
  "Reset ex = ex\<lparr>ex_World := world_Clear (ex_World ex)\<rparr>"

subsection \<open>Tests\<close>

fun runBlock :: "execLib \<Rightarrow> bool \<Rightarrow> TransactionResult list \<Rightarrow> nat \<Rightarrow> Transaction list \<Rightarrow> executor \<Rightarrow> (execError option \<times> executor) option" where
  \<comment> \<open>a transaction without result panics after it has run\<close>
  "runBlock lib gasChecked results1 txIndex [] ex = Some (None, ex)"
| "runBlock lib gasChecked results1 txIndex (tx # txs) ex = do {
     (r, ex) \<leftarrow> executeTx lib (decimal (int txIndex)) tx ex;
     case r of
       Inl err \<Rightarrow> Some (Some err, ex)
     | Inr output \<Rightarrow>
         if txIndex \<ge> length results1 then None
         else do {
           err \<leftarrow> checkTxResults (ex_worldLib lib) (results1 ! txIndex) gasChecked output;
           case err of
             Some err \<Rightarrow> Some (Some (ResultError err), ex)
           | None \<Rightarrow> runBlock lib gasChecked results1 (Suc txIndex) txs ex } }"

fun runBlocks :: "execLib \<Rightarrow> bool \<Rightarrow> Block list \<Rightarrow> executor \<Rightarrow> (execError option \<times> executor) option" where
  "runBlocks lib gasChecked [] ex = Some (None, ex)"
| "runBlocks lib gasChecked (block # blocks) ex = do {
     (err, ex) \<leftarrow> runBlock lib gasChecked (bl_Results block) 0 (bl_Transactions block) ex;
     case err of Some err \<Rightarrow> Some (Some err, ex) | None \<Rightarrow> runBlocks lib gasChecked blocks ex }"

definition ExecuteTest :: "execLib \<Rightarrow> Test \<Rightarrow> executor \<Rightarrow> (execError option \<times> executor) option" where
  "ExecuteTest lib test ex = do {
     let w = (world_Clear (ex_World ex))\<lparr>Blockhashes := JSONBytesFromStringValues (te_BlockHashes test)\<rparr>;
     (err, w) \<leftarrow> putAccounts (ex_worldLib lib) (te_Pre test) w;
     let ex = ex\<lparr>ex_World := w\<rparr>;
     case err of
       Some err \<Rightarrow> Some (Some err, ex)
     | None \<Rightarrow> do {
         (err, ex) \<leftarrow> runBlocks lib (te_CheckGas test) (te_Blocks test) ex;
         case err of
           Some err \<Rightarrow> Some (Some err, ex)
         | None \<Rightarrow> do {
             c \<leftarrow> te_PostState test;
             err \<leftarrow> checkAccounts (ex_worldLib lib) c (ex_World ex);
             Some (map_option StateError err, ex) } } }"

fun executeTests :: "execLib \<Rightarrow> Test list \<Rightarrow> executor \<Rightarrow> (execError option \<times> executor) option" where
  "executeTests lib [] ex = Some (None, ex)"
| "executeTests lib (test # tests) ex = do {
     (testErr, ex) \<leftarrow> ExecuteTest lib test ex;
     case testErr of Some err \<Rightarrow> Some (Some err, ex) | None \<Rightarrow> executeTests lib tests ex }"

definition RunSingleJSONTest :: "execLib \<Rightarrow> fileResolver \<Rightarrow> string \<Rightarrow> executor \<Rightarrow> (execError option \<times> executor) option" where
  "RunSingleJSONTest lib r contextPath ex =
     (case path_Abs lib contextPath of
        Inl err \<Rightarrow> Some (Some (OsError err), ex)
      | Inr contextPath \<Rightarrow>
          (case os_ReadFile lib contextPath of
             Inl err \<Rightarrow> Some (Some (OsError err), ex)
           | Inr byteValue \<Rightarrow>
               (case ParseTestFile (NewParser lib (SetContext contextPath r)) byteValue of
                  Panicked \<Rightarrow> None
                | Rejected parseErr \<Rightarrow> Some (Some (ParsingError parseErr), ex)
                | Parsed tests \<Rightarrow> executeTests lib tests ex)))"

end
