(* ===== verification/ScenLaws.thy ===== *)
theory ScenLaws
  imports ScenRun
begin

text \<open>
  What running scenarios keeps of the world.  A view of the accounts is what the operations between two points leave alone:
  the built-in functions are given (they are a parameter), and a hypothesis says which view they keep.  Invariants of the
  world, with their laws for the operations of a scenario, are the locale \<open>world_invariant\<close>; well-formedness of the world is one.
\<close>

lemma case_sum_eq_iff:
  "(case r of Inl x \<Rightarrow> f x | Inr y \<Rightarrow> g y) = z \<longleftrightarrow> (\<exists>x. r = Inl x \<and> f x = z) \<or> (\<exists>y. r = Inr y \<and> g y = z)"
  by (cases r) auto

subsection \<open>Views of the accounts\<close>

definition viewOf :: "(wAccount \<Rightarrow> 'v) \<Rightarrow> AccountMap \<Rightarrow> (address \<times> 'v) list" where
  "viewOf v am = map (\<lambda>(address, account). (address, v account)) am"

definition keepsView :: "(wAccount \<Rightarrow> 'v) \<Rightarrow> builtinContainer \<Rightarrow> bool" where
  "keepsView v c \<longleftrightarrow> (\<forall>f g caller recipient input am. c_Get c f = Inr g \<longrightarrow> viewOf v (snd (g caller recipient input am)) = viewOf v am)"

definition restrained :: "(wAccount \<Rightarrow> 'v) \<Rightarrow> world \<Rightarrow> bool" where
  \<comment> \<open>the built-in functions of the world keep the view\<close>
  "restrained v w \<longleftrightarrow> (\<forall>c. BuiltinFuncs w = Some c \<longrightarrow> keepsView v c)"

definition worldKeeps :: "(wAccount \<Rightarrow> 'v) \<Rightarrow> world \<Rightarrow> world \<Rightarrow> bool" where
  "worldKeeps v w w' \<longleftrightarrow> viewOf v (AcctMap w') = viewOf v (AcctMap w) \<and> Snapshots w' = Snapshots w \<and> BuiltinFuncs w' = BuiltinFuncs w"

lemma worldKeeps_refl [simp]: "worldKeeps v w w"
  by (simp add: worldKeeps_def)

lemma worldKeeps_trans: "worldKeeps v w w' \<Longrightarrow> worldKeeps v w' w'' \<Longrightarrow> worldKeeps v w w''"
  by (simp add: worldKeeps_def)

lemma worldKeeps_restrained: "worldKeeps v w w' \<Longrightarrow> restrained u w' = restrained u w"
  by (simp add: worldKeeps_def restrained_def)

lemma viewOf_keys: "viewOf v am = viewOf v am' \<Longrightarrow> map fst am = map fst am'"
  by (drule arg_cong [where f = "map fst"]) (simp add: viewOf_def comp_def case_prod_beta)

lemma viewOf_get: "viewOf v am = viewOf v am' \<Longrightarrow> map_option v (go_get am a) = map_option v (go_get am' a)"
  by (drule arg_cong [where f = "\<lambda>m. map_of m a"]) (simp add: viewOf_def go_get_map_snd)

lemma viewOf_compose: "viewOf v am = viewOf v am' \<Longrightarrow> viewOf (f \<circ> v) am = viewOf (f \<circ> v) am'"
  by (drule arg_cong [where f = "map (\<lambda>(a, x). (a, f x))"]) (simp add: viewOf_def comp_def case_prod_unfold)

lemma viewOf_set: "go_get am a = Some acct \<Longrightarrow> v acct' = v acct \<Longrightarrow> viewOf v (go_set a acct' am) = viewOf v am"
  by (induction am) (auto simp: viewOf_def)

lemma wrapper_ProcessBuiltInFunction_keeps:
  assumes "keepsView v c" "wrapper_ProcessBuiltInFunction c input w = Some (r, w')"
  shows "worldKeeps v w w'"
  using assms
  by (cases "c_Get c (Function input)")
    (auto simp: wrapper_ProcessBuiltInFunction_def bind_Some_iff worldKeeps_def keepsView_def case_prod_beta)

lemma playEvent_keeps:
  assumes "restrained v w"
  shows "worldKeeps v w (playEvent event w)"
proof (cases event)
  case (BuiltInCall input)
  then show ?thesis
  proof (cases "world_ProcessBuiltInFunction input w")
    case (Some rw)
    with assms show ?thesis
      by (cases rw) (auto simp: BuiltInCall playEvent_def world_ProcessBuiltInFunction_def restrained_def
          dest: wrapper_ProcessBuiltInFunction_keeps split: option.splits)
  qed (simp add: playEvent_def)
qed (auto simp: playEvent_def world_NewAddress_def worldKeeps_def world_SaveCompiledCode_def world_ClearCompiledCodes_def
    split: option.split)

lemma playEvents_keeps: "restrained v w \<Longrightarrow> worldKeeps v w (playEvents log w)"
  unfolding playEvents_def
proof (induction log arbitrary: w)
  case (Cons event log)
  from playEvent_keeps [OF Cons.prems, of event] have k: "worldKeeps v w (playEvent event w)" .
  with Cons.prems have "restrained v (playEvent event w)" by (simp add: worldKeeps_restrained)
  with Cons.IH k show ?case by (auto intro: worldKeeps_trans)
qed simp

lemma onHost_keeps: "restrained v (ex_World ex) \<Longrightarrow> onHost lib call ex = (r, ex') \<Longrightarrow> worldKeeps v (ex_World ex) (ex_World ex')"
  by (auto simp: onHost_def Let_def playEvents_keeps split: option.splits prod.splits)

lemma directDCDTTransfer_keeps:
  "restrained v w \<Longrightarrow> directDCDTTransferFromTx lib tx dcdt w = Some (r, w') \<Longrightarrow> worldKeeps v w w'"
  by (auto simp: directDCDTTransferFromTx_def PerformDirectDCDTTransfer_def bind_Some_iff restrained_def
      dest: wrapper_ProcessBuiltInFunction_keeps split: option.splits prod.splits if_splits)

definition ignoresDelta :: "(wAccount \<Rightarrow> 'v) \<Rightarrow> bool" where
  "ignoresDelta v \<longleftrightarrow> (\<forall>a d. v (a\<lparr>wa_BalanceDelta := d\<rparr>) = v a)"

lemma runTx_keeps:
  assumes "restrained v (ex_World ex)" "ignoresDelta v" "runTx lib txIndex tx gas ex = Some (r, ex')"
  shows "worldKeeps v (ex_World ex) (ex_World ex')"
proof (cases "tx_Type tx")
  case ValidatorReward
  with assms show ?thesis
    by (auto simp: runTx_def validatorRewardOutput_def Let_def bind_Some_iff worldKeeps_def ignoresDelta_def wa_GetAccount_def
        viewOf_set split: option.splits)
qed (use assms in \<open>auto simp: runTx_def scCreate_def scCall_def Let_def dest!: onHost_keeps [OF assms(1)] split: option.splits if_splits\<close>)

subsection \<open>Transactions\<close>

definition wellFormed :: "world \<Rightarrow> bool" where
  \<comment> \<open>between transactions: no backup is left, and every account is kept once, under its address\<close>
  "wellFormed w \<longleftrightarrow> Snapshots w = [] \<and> wf_gomap (AcctMap w) \<and> list_all (\<lambda>(a, acct). wa_Address acct = a) (AcctMap w)"

definition books :: "wAccount \<Rightarrow> address \<times> u64 \<times> bigint" where
  "books a = (wa_Address a, wa_Nonce a, wa_Balance a)"

definition chargeSender :: "Transaction \<Rightarrow> AccountMap \<Rightarrow> AccountMap" where
  \<comment> \<open>what a transaction costs its sender in any case\<close>
  "chargeSender tx am =
     (if \<not> HasSender (tx_Type tx) then am
      else case go_get am (jbs_Value (tx_From tx)) of
        None \<Rightarrow> am
      | Some acct \<Rightarrow> go_set (jbs_Value (tx_From tx))
          (acct\<lparr>wa_Nonce := wa_Nonce acct + 1,
            wa_Balance := map_option (\<lambda>b. b - uint (ju_Value (tx_GasLimit tx)) * uint (ju_Value (tx_GasPrice tx))) (wa_Balance acct)\<rparr>) am)"

lemma charge_sender:
  assumes "UpdateWorldStateBefore (jbs_Value (tx_From tx)) (ju_Value (tx_GasLimit tx)) (ju_Value (tx_GasPrice tx)) w = Some (None, w')"
    "HasSender (tx_Type tx)"
  shows "w' = w\<lparr>AcctMap := chargeSender tx (AcctMap w)\<rparr>"
  using assms
  by (auto simp: UpdateWorldStateBefore_def wa_GetAccount_def chargeSender_def bind_Some_iff Let_def split: option.splits if_splits)

lemma prepareTx_Inr:
  assumes "prepareTx lib txIndex tx ex = Some (Inr gas, ex')" "restrained v (ex_World ex)"
  shows "worldKeeps v ((ex_World ex)\<lparr>AcctMap := chargeSender tx (AcctMap (ex_World ex))\<rparr>) (ex_World ex')"
proof (cases "HasSender (tx_Type tx)")
  case True
  let ?w = "(ex_World ex)\<lparr>AcctMap := chargeSender tx (AcctMap (ex_World ex))\<rparr>"
  from assms(1) True obtain beforeErr w where u: "UpdateWorldStateBefore (jbs_Value (tx_From tx)) (ju_Value (tx_GasLimit tx))
      (ju_Value (tx_GasPrice tx)) (ex_World ex) = Some (beforeErr, w)"
    by (auto simp: prepareTx_def bind_Some_iff)
  with assms(1) True have "beforeErr = None" by (auto simp: prepareTx_def Let_def split: option.splits)
  with u charge_sender [OF _ True] have w: "beforeErr = None" "w = ?w" by blast+
  have "restrained v ?w" using assms(2) by (simp add: restrained_def)
  from directDCDTTransfer_keeps [OF this] assms(1) True u show ?thesis
    by (auto simp: w prepareTx_def bind_Some_iff Let_def case_sum_eq_iff split: option.split_asm)
qed (use assms in \<open>simp add: prepareTx_def chargeSender_def\<close>)

lemma books_ignores: "ignoresDelta books" "ignoresDelta wa_Address"
  by (simp_all add: ignoresDelta_def books_def)

lemma body_before_update:
  \<comment> \<open>the output of a transaction, and the world in which it is made\<close>
  assumes "prepareTx lib txIndex tx ex = Some (Inr gas, ex1)" "restrained v (ex_World ex)" "ignoresDelta v"
    "(if \<not> enough then Some (Inr outOfFundsResult, ex1) else runTx lib txIndex tx gas ex1) = Some (r, ex2)"
  shows "worldKeeps v ((ex_World ex)\<lparr>AcctMap := chargeSender tx (AcctMap (ex_World ex))\<rparr>) (ex_World ex2)"
proof -
  from prepareTx_Inr [OF assms(1,2)] have k: "worldKeeps v ((ex_World ex)\<lparr>AcctMap := chargeSender tx (AcctMap (ex_World ex))\<rparr>) (ex_World ex1)" .
  then have "restrained v (ex_World ex1)" using assms(2) by (simp add: worldKeeps_def restrained_def)
  from runTx_keeps [OF this assms(3)] assms(4) have "worldKeeps v (ex_World ex1) (ex_World ex2)" by (auto simp: bind_Some_iff split: if_splits)
  with k show ?thesis by (rule worldKeeps_trans)
qed

lemma executeTxBody_cases:
  assumes "executeTxBody lib txIndex tx ex = Some (r, failed, ex')"
  obtains (prepare) err seen where "prepareTx lib txIndex tx ex = Some (Inl (err, seen), ex')" "r = Inl err" "failed = seen"
  | (run) gas enough ex1 r2 ex2 where "prepareTx lib txIndex tx ex = Some (Inr gas, ex1)" "senderHasEnoughBalance (ex_World ex1) tx = Some enough"
      "(if \<not> enough then Some (Inr outOfFundsResult, ex1) else runTx lib txIndex tx gas ex1) = Some (r2, ex2)"
      "case r2 of Inl err \<Rightarrow> r = Inl err \<and> failed \<and> ex' = ex2
       | Inr output \<Rightarrow>
           if ReturnCode output = Ok then (\<exists>err w. updateStateAfterTx lib tx output (ex_World ex2) = Some (err, w) \<and>
             r = (case err of Some err \<Rightarrow> Inl err | None \<Rightarrow> Inr output) \<and> \<not> failed \<and> ex' = ex2\<lparr>ex_World := w\<rparr>)
           else r = Inr output \<and> failed \<and> ex' = ex2"
proof -
  from assms obtain p ex1 where p: "prepareTx lib txIndex tx ex = Some (p, ex1)" by (auto simp: executeTxBody_def bind_Some_iff)
  show thesis
  proof (cases p)
    case (Inl e)
    with p assms show ?thesis by (cases e) (auto simp: executeTxBody_def intro: prepare)
  next
    case (Inr gas)
    with p assms obtain enough where e: "senderHasEnoughBalance (ex_World ex1) tx = Some enough"
      by (auto simp: executeTxBody_def bind_Some_iff)
    with p assms Inr obtain r2 ex2 where t:
        "(if \<not> enough then Some (Inr outOfFundsResult, ex1) else runTx lib txIndex tx gas ex1) = Some (r2, ex2)"
      by (auto simp: executeTxBody_def bind_Some_iff simp del: if_bool_eq_conj cong del: if_weak_cong split del: if_split)
    have "case r2 of Inl err \<Rightarrow> r = Inl err \<and> failed \<and> ex' = ex2
       | Inr output \<Rightarrow>
           if ReturnCode output = Ok then (\<exists>err w. updateStateAfterTx lib tx output (ex_World ex2) = Some (err, w) \<and>
             r = (case err of Some err \<Rightarrow> Inl err | None \<Rightarrow> Inr output) \<and> \<not> failed \<and> ex' = ex2\<lparr>ex_World := w\<rparr>)
           else r = Inr output \<and> failed \<and> ex' = ex2"
      using assms p e t Inr by (simp add: executeTxBody_def bind_Some_iff del: if_bool_eq_conj split: sum.splits) (auto simp: bind_Some_iff split: if_splits)
    with p e t Inr show ?thesis by (intro run) auto
  qed
qed

subsection \<open>Rollback\<close>

lemma accounts_Clone_same: "accounts_Clone am = Some am' \<Longrightarrow> am' = am"
proof (induction am arbitrary: am')
  case (Cons x am)
  then show ?case
    by (cases x) (auto simp: accounts_Clone_def wa_Clone_def split: if_splits option.splits)
qed (simp add: accounts_Clone_def)

lemma backup: "CreateStateBackup w = Some w' \<Longrightarrow> w' = w\<lparr>Snapshots := Snapshots w @ [AcctMap w]\<rparr>"
  by (auto simp: CreateStateBackup_def SnapshotState_def dest: accounts_Clone_same)

definition withStorage :: "(wAccount \<Rightarrow> 'v) \<Rightarrow> wAccount \<Rightarrow> 'v \<times> (bytes, bytes) gomap" where
  "withStorage v a = (v a, wa_Storage a)"

definition ignoresStorage :: "(wAccount \<Rightarrow> 'v) \<Rightarrow> bool" where
  "ignoresStorage v \<longleftrightarrow> (\<forall>a s. v (a\<lparr>wa_Storage := s\<rparr>) = v a)"

lemma LoadAccountStorageFrom_restores:
  assumes "ignoresStorage v" "\<forall>(a, acct) \<in> set am. \<exists>other. go_get am' a = Some other"
  shows "LoadAccountStorageFrom am am' = (None, map (\<lambda>(a, acct). (a, acct\<lparr>wa_Storage := wa_Storage (the (go_get am' a))\<rparr>)) am)"
  using assms(2) by (induction am) (auto split: option.splits)

lemma restored_view:
  assumes "ignoresStorage v" "wf_gomap am" "viewOf v am3 = viewOf v am1" "viewOf wa_Storage am1 = viewOf wa_Storage am"
  shows "LoadAccountStorageFrom am3 am = (None, map (\<lambda>(a, acct). (a, acct\<lparr>wa_Storage := wa_Storage (the (go_get am a))\<rparr>)) am3) \<and>
    viewOf (withStorage v) (map (\<lambda>(a, acct). (a, acct\<lparr>wa_Storage := wa_Storage (the (go_get am a))\<rparr>)) am3) = viewOf (withStorage v) am1"
proof
  have keys: "map fst am3 = map fst am" "map fst am1 = map fst am" using viewOf_keys [OF assms(3)] viewOf_keys [OF assms(4)] by simp_all
  then have "\<exists>other. go_get am a = Some other" if "(a, acct) \<in> set am3" for a acct
    using that in_keys_iff [of a am] by (metis fst_conv image_eqI list.set_map not_None_eq)
  with LoadAccountStorageFrom_restores [OF assms(1)]
  show "LoadAccountStorageFrom am3 am = (None, map (\<lambda>(a, acct). (a, acct\<lparr>wa_Storage := wa_Storage (the (go_get am a))\<rparr>)) am3)" by blast
  have len: "length am3 = length am1" "length am = length am1" using keys by (metis length_map)+
  show "viewOf (withStorage v) (map (\<lambda>(a, acct). (a, acct\<lparr>wa_Storage := wa_Storage (the (go_get am a))\<rparr>)) am3) = viewOf (withStorage v) am1"
  proof (rule nth_equalityI)
    fix i assume "i < length (viewOf (withStorage v) (map (\<lambda>(a, acct). (a, acct\<lparr>wa_Storage := wa_Storage (the (go_get am a))\<rparr>)) am3))"
    then have i: "i < length am3" by (simp add: viewOf_def)
    obtain a acct where x: "am3 ! i = (a, acct)" by (cases "am3 ! i")
    obtain b acct1 where y: "am1 ! i = (b, acct1)" by (cases "am1 ! i")
    obtain c acct0 where z: "am ! i = (c, acct0)" by (cases "am ! i")
    have e: "viewOf v am3 ! i = viewOf v am1 ! i" "viewOf wa_Storage am1 ! i = viewOf wa_Storage am ! i" using assms(3,4) by simp_all
    with i len x y z have eq: "a = b" "c = b" "v acct = v acct1" "wa_Storage acct1 = wa_Storage acct0" by (simp_all add: viewOf_def)
    have "(c, acct0) \<in> set am" using i len z by (metis nth_mem)
    then have "go_get am c = Some acct0" using assms(2) by (simp add: wf_gomap_def)
    with eq assms(1) i len x y show "viewOf (withStorage v) (map (\<lambda>(a, acct). (a, acct\<lparr>wa_Storage := wa_Storage (the (go_get am a))\<rparr>)) am3) ! i =
        viewOf (withStorage v) am1 ! i"
      by (simp add: viewOf_def withStorage_def ignoresStorage_def)
  qed (simp add: viewOf_def len)
qed

lemma chargeSender_storage: "viewOf wa_Storage (chargeSender tx am) = viewOf wa_Storage am"
  by (auto simp: chargeSender_def viewOf_set split: option.splits)

lemma chargeSender_address: "viewOf wa_Address (chargeSender tx am) = viewOf wa_Address am"
  by (auto simp: chargeSender_def viewOf_set split: option.splits)

lemma Rollback_restores:
  assumes "Snapshots w' = [AcctMap w]" "wf_gomap (AcctMap w)" "ignoresStorage v" "viewOf v (AcctMap w') = viewOf v (chargeSender tx (AcctMap w))"
  shows "fst (RollbackChanges w') = None \<and> Snapshots (snd (RollbackChanges w')) = [] \<and>
    viewOf (withStorage v) (AcctMap (snd (RollbackChanges w'))) = viewOf (withStorage v) (chargeSender tx (AcctMap w)) \<and>
    BuiltinFuncs (snd (RollbackChanges w')) = BuiltinFuncs w'"
  using restored_view [OF assms(3,2,4) chargeSender_storage] assms(1)
  by (simp add: RollbackChanges_def RevertToSnapshot_def Let_def)

subsection \<open>Well-formed worlds\<close>

definition goodMap :: "AccountMap \<Rightarrow> bool" where
  "goodMap am \<longleftrightarrow> wf_gomap am \<and> list_all (\<lambda>(a, acct). wa_Address acct = a) am"

lemma wellFormed_iff: "wellFormed w \<longleftrightarrow> Snapshots w = [] \<and> goodMap (AcctMap w)"
  by (simp add: wellFormed_def goodMap_def)

lemma goodMap_view: "goodMap am \<longleftrightarrow> distinct (map fst (viewOf wa_Address am)) \<and> list_all (\<lambda>(a, b). b = a) (viewOf wa_Address am)"
  by (simp add: goodMap_def wf_gomap_def viewOf_def comp_def case_prod_beta list_all_iff)

lemma goodMap_same: "viewOf wa_Address am = viewOf wa_Address am' \<Longrightarrow> goodMap am = goodMap am'"
  by (simp add: goodMap_view)

lemma goodMap_set: "goodMap am \<Longrightarrow> wa_Address acct = a \<Longrightarrow> goodMap (go_set a acct am)"
  by (simp add: goodMap_def list_all_go_set)

lemma goodMap_get: "goodMap am \<Longrightarrow> go_get am a = Some acct \<Longrightarrow> wa_Address acct = a"
  by (auto simp: goodMap_def list_all_iff dest: map_of_SomeD)

lemma updatedAccount_address: "updatedAccount lib modAcct acct = Some acct' \<Longrightarrow> wa_Address acct' = wa_Address acct"
proof -
  assume r: "updatedAccount lib modAcct acct = Some acct'"
  have "updatedAccount lib modAcct acct = None \<or> wa_Address (the (updatedAccount lib modAcct acct)) = wa_Address acct"
    by (cases "wa_Balance acct") (simp_all add: updatedAccount_def SetCodeAndMetadata_def Let_def split: option.split list.split)
  with r show ?thesis by simp
qed

lemma goodMap_UpdateAccount: "goodMap am \<Longrightarrow> UpdateAccountFromOutputAccount lib modAcct am = Some am' \<Longrightarrow> goodMap am'"
  by (auto simp: UpdateAccountFromOutputAccount_def Let_def wa_GetAccount_def CreateAccount_def emptyAccount_def
      intro!: goodMap_set dest!: updatedAccount_address dest: goodMap_get split: option.splits)

lemma goodMap_UpdateAll: "goodMap am \<Longrightarrow> UpdateAll lib modAccts am = Some am' \<Longrightarrow> goodMap am'"
  by (induction modAccts arbitrary: am) (auto simp: bind_Some_iff dest: goodMap_UpdateAccount)

lemma goodMap_delete: "goodMap am \<Longrightarrow> goodMap (fold DeleteAccount as am)"
  by (induction as arbitrary: am) (simp_all add: DeleteAccount_def goodMap_def list_all_go_delete)

lemma updateStateAfterTx_good:
  assumes "updateStateAfterTx lib tx output w = Some (err, w')" "goodMap (AcctMap w)"
  shows "goodMap (AcctMap w') \<and> BuiltinFuncs w' = BuiltinFuncs w"
proof -
  from assms(1) obtain w1 where w1: "UpdateAccounts (ex_worldLib lib) (OutputAccounts output) (DeletedAccounts output) w1 = Some (None, w')"
      "w1 = w \<or> (\<exists>v r. UpdateBalanceWithDelta (jbs_Value (tx_From tx)) v w = Some (r, w1))"
    by (auto simp: updateStateAfterTx_def UpdateAccounts_def bind_Some_iff split: if_splits)
  have "goodMap (AcctMap w1) \<and> BuiltinFuncs w1 = BuiltinFuncs w"
    using w1(2) assms(2) goodMap_get [OF assms(2), of "jbs_Value (tx_From tx)"]
    by (auto simp: UpdateBalanceWithDelta_def wa_GetAccount_def intro!: goodMap_set split: option.splits)
  with w1(1) show ?thesis by (auto simp: UpdateAccounts_def intro!: goodMap_delete dest: goodMap_UpdateAll)
qed

lemma prepareTx_address:
  assumes "prepareTx lib txIndex tx ex = Some (r, ex')" "restrained wa_Address (ex_World ex)"
  shows "worldKeeps wa_Address (ex_World ex) (ex_World ex')"
proof (cases "HasSender (tx_Type tx)")
  case True
  with assms(1) obtain beforeErr w where u: "UpdateWorldStateBefore (jbs_Value (tx_From tx)) (ju_Value (tx_GasLimit tx))
      (ju_Value (tx_GasPrice tx)) (ex_World ex) = Some (beforeErr, w)"
    by (auto simp: prepareTx_def bind_Some_iff)
  then have k: "worldKeeps wa_Address (ex_World ex) w"
    by (auto simp: UpdateWorldStateBefore_def wa_GetAccount_def bind_Some_iff worldKeeps_def Let_def viewOf_set split: option.splits if_splits)
  then have "restrained wa_Address w" using assms(2) by (simp add: worldKeeps_def restrained_def)
  from directDCDTTransfer_keeps [OF this] k assms(1) True u show ?thesis
    by (auto simp: prepareTx_def bind_Some_iff Let_def intro: worldKeeps_trans split: option.split_asm)
qed (use assms in \<open>simp add: prepareTx_def\<close>)

lemma worldKeeps_good: "worldKeeps wa_Address w w' \<Longrightarrow> goodMap (AcctMap w) \<Longrightarrow> goodMap (AcctMap w') \<and> BuiltinFuncs w' = BuiltinFuncs w"
  using goodMap_same [of "AcctMap w'" "AcctMap w"] by (simp add: worldKeeps_def)

lemma executeTxBody_good:
  assumes "executeTxBody lib txIndex tx ex = Some (r, failed, ex')" "restrained wa_Address (ex_World ex)" "goodMap (AcctMap (ex_World ex))"
  shows "BuiltinFuncs (ex_World ex') = BuiltinFuncs (ex_World ex) \<and>
    goodMap (AcctMap (ex_World ex')) \<and> (failed \<longrightarrow> worldKeeps wa_Address (ex_World ex) (ex_World ex'))"
  using assms(1)
proof (cases rule: executeTxBody_cases)
  case (prepare err seen)
  from prepareTx_address [OF prepare(1) assms(2)] have "worldKeeps wa_Address (ex_World ex) (ex_World ex')" .
  from this worldKeeps_good [OF this assms(3)] show ?thesis by simp
next
  case (run gas enough ex1 r2 ex2)
  from body_before_update [OF run(1) assms(2) books_ignores(2) run(3)]
  have k: "worldKeeps wa_Address (ex_World ex) (ex_World ex2)" by (simp add: worldKeeps_def chargeSender_address)
  from worldKeeps_good [OF this assms(3)] k run(4) show ?thesis by (cases r2) (auto dest: updateStateAfterTx_good split: if_splits)
qed

lemma executeTx_wellFormed:
  assumes "wellFormed (ex_World ex)" "restrained wa_Address (ex_World ex)" "executeTx lib txIndex tx ex = Some (r, ex')"
  shows "wellFormed (ex_World ex') \<and> BuiltinFuncs (ex_World ex') = BuiltinFuncs (ex_World ex)"
proof -
  let ?w = "ex_World ex" and ?ex1 = "ex\<lparr>ex_World := (ex_World ex)\<lparr>Snapshots := [AcctMap (ex_World ex)]\<rparr>\<rparr>"
  have s: "Snapshots ?w = []" "goodMap (AcctMap ?w)" using assms(1) by (simp_all add: wellFormed_iff)
  from assms(3) s obtain failed ex2 where b: "executeTxBody lib txIndex tx ?ex1 = Some (r, failed, ex2)"
      "ex_World ex' = snd (if failed then RollbackChanges (ex_World ex2) else CommitChanges (ex_World ex2))"
    by (auto simp: executeTx_def bind_Some_iff dest!: backup)
  have "restrained wa_Address (ex_World ?ex1)" using assms(2) by (simp add: restrained_def)
  from executeTxBody_good [OF b(1) this] s have g: "BuiltinFuncs (ex_World ex2) = BuiltinFuncs ?w"
      "goodMap (AcctMap (ex_World ex2))" "failed \<longrightarrow> worldKeeps wa_Address (ex_World ?ex1) (ex_World ex2)" by simp_all
  show ?thesis
  proof (cases failed)
    case True
    with g(3) have k: "Snapshots (ex_World ex2) = [AcctMap ?w]" "viewOf wa_Address (AcctMap (ex_World ex2)) = viewOf wa_Address (chargeSender tx (AcctMap ?w))"
      by (simp_all add: worldKeeps_def chargeSender_address)
    have i: "ignoresStorage wa_Address" by (simp add: ignoresStorage_def)
    have f: "fst \<circ> withStorage wa_Address = wa_Address" by (simp add: fun_eq_iff withStorage_def)
    from Rollback_restores [OF k(1) _ i k(2)] s have r: "Snapshots (ex_World ex') = []" "BuiltinFuncs (ex_World ex') = BuiltinFuncs (ex_World ex2)"
        "viewOf (withStorage wa_Address) (AcctMap (ex_World ex')) = viewOf (withStorage wa_Address) (chargeSender tx (AcctMap ?w))"
      using True b(2) by (simp_all add: goodMap_def)
    from viewOf_compose [OF r(3), of fst] have "viewOf wa_Address (AcctMap (ex_World ex')) = viewOf wa_Address (AcctMap ?w)"
      by (simp add: f chargeSender_address)
    from goodMap_same [OF this] r g(1) s show ?thesis by (simp add: wellFormed_iff)
  qed (use g b(2) in \<open>simp add: CommitChanges_def Commit_def wellFormed_iff\<close>)
qed

subsection \<open>Invariants of scenarios\<close>

locale world_invariant =
  fixes inv :: "world \<Rightarrow> bool" and lib :: execLib
  assumes put_law: "inv w \<Longrightarrow> convertAccount (ex_worldLib lib) acct = Some (Inr account) \<Longrightarrow>
      inv (w\<lparr>AcctMap := PutAccount account (AcctMap w)\<rparr>)"
    and blocks_law: "inv w \<Longrightarrow>
      inv (w\<lparr>PreviousBlockInfo := previous, CurrentBlockInfo := current, Blockhashes := hashes, NewAddressMocks := mocks\<rparr>)"
    and tx_law: "inv (ex_World ex) \<Longrightarrow> executeTx lib txIndex tx ex = Some (r, ex') \<Longrightarrow> inv (ex_World ex')"
begin

lemma inv_put: "inv w \<Longrightarrow> putAccounts (ex_worldLib lib) accts w = Some (err, w') \<Longrightarrow> inv w'"
proof (induction accts arbitrary: w)
  case (Cons acct accts)
  then obtain r where r: "convertAccount (ex_worldLib lib) acct = Some r" by (auto simp: bind_Some_iff)
  with Cons put_law [OF Cons.prems(1)] show ?case by (cases r) auto
qed simp

lemma inv_setState:
  assumes "inv (ex_World ex)" "ExecuteSetStateStep lib step ex = Some (err, ex')"
  shows "inv (ex_World ex')"
proof -
  from assms(2) obtain r w where p: "putAccounts (ex_worldLib lib) (set_Accounts step) (ex_World ex) = Some (r, w)"
    by (auto simp: ExecuteSetStateStep_def bind_Some_iff)
  with assms(2) blocks_law [OF inv_put [OF assms(1) p]] inv_put [OF assms(1) p] show ?thesis
    by (auto simp: ExecuteSetStateStep_def split: option.splits)
qed

lemma inv_txStep:
  assumes "inv (ex_World ex)" "ExecuteTxStep lib step ex = Some (r, ex')"
  shows "inv (ex_World ex')"
proof -
  from assms(2) obtain tx r1 ex1 where p: "txs_Tx step = Some tx" "executeTx lib (txs_TxIdent step) tx ex = Some (r1, ex1)"
    by (auto simp: ExecuteTxStep_def bind_Some_iff)
  with assms(2) have "ex' = ex1" by (auto simp: ExecuteTxStep_def bind_Some_iff case_sum_eq_iff split: option.splits)
  with tx_law [OF assms(1) p(2)] show ?thesis by simp
qed

lemma inv_gasSchedule: "SetScenariosGasSchedule lib g ex = Some (err, ex') \<Longrightarrow> ex_World ex' = ex_World ex"
  by (auto simp: SetScenariosGasSchedule_def bind_Some_iff Let_def case_sum_eq_iff split: if_splits)

lemma inv_step:
  assumes run: "\<forall>r path ex err ex'. inv (ex_World ex) \<longrightarrow> run r path ex = Returned (err, ex') \<longrightarrow> inv (ex_World ex')"
    and "inv (ex_World ex)" "ExecuteStep run lib step ex = Returned (err, ex')"
  shows "inv (ex_World ex')"
proof (cases step)
  case (ExternalSteps e)
  with assms(3) obtain backup1 err1 ex1 where
      "run (fr_Clone backup1) (ResolveAbsolutePath lib backup1 (ext_Path e)) ex = Returned (err1, ex1)" "ex_World ex' = ex_World ex1"
    by (auto simp: ExecuteStep_def ExecuteExternalStep_def ending_then_def split: option.splits ending.splits)
  with run assms(2) show ?thesis by metis
next
  case (SetState e)
  with assms(2,3) show ?thesis by (auto simp: ExecuteStep_def orCrash_def dest: inv_setState split: option.splits)
next
  case (Tx e)
  with assms(2,3) show ?thesis by (auto simp: ExecuteStep_def orCrash_def dest: inv_txStep split: option.splits prod.splits)
qed (use assms in \<open>auto simp: ExecuteStep_def orCrash_def split: option.splits\<close>)

lemma inv_steps:
  assumes run: "\<forall>r path ex err ex'. inv (ex_World ex) \<longrightarrow> run r path ex = Returned (err, ex') \<longrightarrow> inv (ex_World ex')"
    and "inv (ex_World ex)" "executeSteps run lib steps ex = Returned (err, ex')"
  shows "inv (ex_World ex')"
  using assms(2,3)
proof (induction steps arbitrary: ex)
  case (Cons step steps)
  then obtain err1 ex1 where s: "ExecuteStep run lib step ex = Returned (err1, ex1)" by (auto simp: ending_then_def split: ending.splits)
  with Cons inv_step [OF run Cons.prems(1) s] show ?case by (cases err1) (auto simp: ending_then_def)
qed simp

lemma inv_scenario:
  assumes run: "\<forall>r path ex err ex'. inv (ex_World ex) \<longrightarrow> run r path ex = Returned (err, ex') \<longrightarrow> inv (ex_World ex')"
    and "inv (ex_World ex)" "ExecuteScenario run lib scenario r ex = Returned (err, ex')"
  shows "inv (ex_World ex')"
proof -
  from assms(3) obtain err1 ex1 where g: "SetScenariosGasSchedule lib (sc_GasSchedule scenario)
      (ex\<lparr>ex_fileResolver := Some r, ex_checkGas := sc_CheckGas scenario\<rparr>) = Some (err1, ex1)"
    by (auto simp: ExecuteScenario_def orCrash_def ending_then_def split: option.splits)
  from inv_gasSchedule [OF this] assms(2) have "inv (ex_World ex1)" by simp
  from inv_steps [OF run this] this g assms(3) show ?thesis
    by (cases err1) (auto simp: ExecuteScenario_def orCrash_def ending_then_def)
qed

lemma inv_file: "inv (ex_World ex) \<Longrightarrow> runScenarioFile n lib r path ex = Returned (err, ex') \<Longrightarrow> inv (ex_World ex')"
proof (induction n arbitrary: r path ex err ex')
  case (Suc n)
  then have run: "\<forall>r path ex err ex'. inv (ex_World ex) \<longrightarrow> runScenarioFile n lib r path ex = Returned (err, ex') \<longrightarrow> inv (ex_World ex')"
    by blast
  show ?case
  proof (cases "readScenario lib r path")
    case (Returned res)
    with Suc.prems inv_scenario [OF run Suc.prems(1)] show ?thesis
      by (cases res) (auto simp: RunSingleJSONScenario_def ending_then_def)
  qed (use Suc.prems in \<open>simp_all add: RunSingleJSONScenario_def ending_then_def\<close>)
qed simp

end

definition wellFormedRestrained :: "world \<Rightarrow> bool" where
  \<comment> \<open>and the built-in functions keep the addresses\<close>
  "wellFormedRestrained w \<longleftrightarrow> wellFormed w \<and> restrained wa_Address w"

interpretation wf: world_invariant wellFormedRestrained lib for lib
proof
  fix w :: world and acct account
  assume w: "wellFormedRestrained w"
  show "wellFormedRestrained (w\<lparr>AcctMap := PutAccount account (AcctMap w)\<rparr>)"
    using w by (simp add: wellFormedRestrained_def wellFormed_iff restrained_def PutAccount_def goodMap_set)
next
  fix w :: world and previous current hashes mocks
  assume "wellFormedRestrained w"
  then show "wellFormedRestrained (w\<lparr>PreviousBlockInfo := previous, CurrentBlockInfo := current, Blockhashes := hashes, NewAddressMocks := mocks\<rparr>)"
    by (simp add: wellFormedRestrained_def wellFormed_iff restrained_def)
next
  fix ex txIndex tx r ex'
  assume "wellFormedRestrained (ex_World ex)" "executeTx lib txIndex tx ex = Some (r, ex')"
  with executeTx_wellFormed [of ex lib txIndex tx r ex'] show "wellFormedRestrained (ex_World ex')"
    by (simp add: wellFormedRestrained_def restrained_def)
qed

subsection \<open>Failed transactions\<close>

lemma failed_world:
  assumes "wellFormed (ex_World ex)" "restrained books (ex_World ex)" "executeTx lib txIndex tx ex = Some (Inr out, ex')" "ReturnCode out \<noteq> Ok"
  shows "viewOf (withStorage books) (AcctMap (ex_World ex')) = viewOf (withStorage books) (chargeSender tx (AcctMap (ex_World ex)))"
proof -
  let ?w = "ex_World ex" and ?ex1 = "ex\<lparr>ex_World := (ex_World ex)\<lparr>Snapshots := [AcctMap (ex_World ex)]\<rparr>\<rparr>"
  have s: "Snapshots ?w = []" "wf_gomap (AcctMap ?w)" using assms(1) by (simp_all add: wellFormed_def)
  from assms(3) s obtain failed ex2 where b: "executeTxBody lib txIndex tx ?ex1 = Some (Inr out, failed, ex2)"
      "ex_World ex' = snd (if failed then RollbackChanges (ex_World ex2) else CommitChanges (ex_World ex2))"
    by (auto simp: executeTx_def bind_Some_iff dest!: backup)
  have r: "restrained books (ex_World ?ex1)" using assms(2) by (simp add: restrained_def)
  from b(1) have "failed \<and> worldKeeps books ((ex_World ?ex1)\<lparr>AcctMap := chargeSender tx (AcctMap ?w)\<rparr>) (ex_World ex2)"
  proof (cases rule: executeTxBody_cases)
    case (run gas enough ex1 r2 ex3)
    from body_before_update [OF run(1) r books_ignores(1) run(3)] run(4) assms(4) show ?thesis
      by (cases r2) (auto split: if_splits option.splits)
  qed simp
  then have k: "failed" "Snapshots (ex_World ex2) = [AcctMap ?w]" "viewOf books (AcctMap (ex_World ex2)) = viewOf books (chargeSender tx (AcctMap ?w))"
    by (simp_all add: worldKeeps_def)
  have "ignoresStorage books" by (simp add: ignoresStorage_def books_def)
  from Rollback_restores [OF k(2) s(2) this k(3)] b(2) k(1) show ?thesis by simp
qed

subsection \<open>Funds\<close>

definition totalFunds :: "AccountMap \<Rightarrow> int" where
  "totalFunds am = (\<Sum>(a, acct)\<leftarrow>am. case wa_Balance acct of None \<Rightarrow> 0 | Some b \<Rightarrow> b)"

lemma totalFunds_books: "viewOf books am = viewOf books am' \<Longrightarrow> totalFunds am = totalFunds am'"
proof -
  assume v: "viewOf books am = viewOf books am'"
  have "totalFunds am = (\<Sum>(a, _, _, b)\<leftarrow>viewOf books am. case b of None \<Rightarrow> 0 | Some b \<Rightarrow> b)" for am
    by (simp add: totalFunds_def viewOf_def books_def comp_def case_prod_unfold)
  with v show ?thesis by simp
qed

lemma totalFunds_set:
  "wf_gomap am \<Longrightarrow> totalFunds (go_set a acct am) = totalFunds am + (case wa_Balance acct of None \<Rightarrow> 0 | Some b \<Rightarrow> b) -
     (case go_get am a of None \<Rightarrow> 0 | Some old \<Rightarrow> (case wa_Balance old of None \<Rightarrow> 0 | Some b \<Rightarrow> b))"
  by (simp add: totalFunds_def sum_list_go_set [where f = "\<lambda>acct. case wa_Balance acct of None \<Rightarrow> 0 | Some b \<Rightarrow> b"])

lemma updatedAccount_balance:
  assumes "updatedAccount lib modAcct acct = Some acct'" "BalanceDelta modAcct = Some d"
  shows "\<exists>b. wa_Balance acct = Some b \<and> wa_Balance acct' = Some (b + d)"
proof -
  have "updatedAccount lib modAcct acct = None \<or> (\<exists>b. wa_Balance acct = Some b \<and> wa_Balance (the (updatedAccount lib modAcct acct)) = Some (b + d))"
    using assms(2) by (cases "wa_Balance acct") (simp_all add: updatedAccount_def SetCodeAndMetadata_def Let_def split: option.split list.split)
  with assms(1) show ?thesis by auto
qed

lemma totalFunds_UpdateAccount:
  assumes "UpdateAccountFromOutputAccount lib modAcct am = Some am'" "BalanceDelta modAcct = Some d" "wf_gomap am"
  shows "totalFunds am' = totalFunds am + d \<and> wf_gomap am'"
  using assms updatedAccount_balance [OF _ assms(2)]
  by (fastforce simp: UpdateAccountFromOutputAccount_def Let_def wa_GetAccount_def CreateAccount_def emptyAccount_def totalFunds_set
      split: option.splits)

lemma totalFunds_UpdateAll:
  "UpdateAll lib modAccts am = Some am' \<Longrightarrow> sumOfBalanceDeltas modAccts = Some d \<Longrightarrow> wf_gomap am \<Longrightarrow> totalFunds am' = totalFunds am + d"
proof (induction modAccts arbitrary: am d)
  case (Cons modAcct modAccts)
  then obtain d1 d2 am1 where d: "BalanceDelta modAcct = Some d1" "sumOfBalanceDeltas modAccts = Some d2" "d = d1 + d2"
      "UpdateAccountFromOutputAccount lib modAcct am = Some am1" "UpdateAll lib modAccts am1 = Some am'"
    by (auto simp: sumOfBalanceDeltas_def bind_Some_iff split: option.splits)
  from totalFunds_UpdateAccount [OF d(4,1) Cons.prems(3)] Cons.IH [OF d(5,2)] d(3) show ?case by simp
qed (simp add: sumOfBalanceDeltas_def)

lemma updateStateAfterTx_funds:
  assumes "updateStateAfterTx lib tx out w = Some (None, w')" "HasSender (tx_Type tx)" "DeletedAccounts out = []" "wf_gomap (AcctMap w)"
    "go_get (AcctMap w) (jbs_Value (tx_From tx)) \<noteq> None"
  shows "totalFunds (AcctMap w') = totalFunds (AcctMap w)"
proof -
  from assms(1,2,5) obtain amount acct b w1 where v: "jbi_Value (tx_Value tx) = Some amount"
      "go_get (AcctMap w) (jbs_Value (tx_From tx)) = Some acct" "wa_Balance acct = Some b"
      "w1 = w\<lparr>AcctMap := go_set (jbs_Value (tx_From tx)) (acct\<lparr>wa_Balance := Some (b - amount)\<rparr>) (AcctMap w)\<rparr>"
      "UpdateAccounts (ex_worldLib lib) (OutputAccounts out) [] w1 = Some (None, w')"
      "sumOfBalanceDeltas (map snd (OutputAccounts out)) = Some amount"
    by (auto simp: updateStateAfterTx_def UpdateBalanceWithDelta_def wa_GetAccount_def bind_Some_iff assms(3) UpdateAccounts_def split: option.splits if_splits)
  then have "totalFunds (AcctMap w') = totalFunds (AcctMap w1) + amount"
    using assms(4) by (auto simp: UpdateAccounts_def intro: totalFunds_UpdateAll)
  also have "totalFunds (AcctMap w1) = totalFunds (AcctMap w) - amount" using v assms(4) by (simp add: totalFunds_set)
  finally show ?thesis by simp
qed

lemma charged_funds:
  assumes "prepareTx lib txIndex tx ex = Some (Inr gas, ex')" "HasSender (tx_Type tx)" "wf_gomap (AcctMap (ex_World ex))"
  shows "totalFunds (chargeSender tx (AcctMap (ex_World ex))) =
      totalFunds (AcctMap (ex_World ex)) - uint (ju_Value (tx_GasLimit tx)) * uint (ju_Value (tx_GasPrice tx)) \<and>
    go_get (chargeSender tx (AcctMap (ex_World ex))) (jbs_Value (tx_From tx)) \<noteq> None"
proof -
  from assms(1,2) obtain beforeErr w where u: "UpdateWorldStateBefore (jbs_Value (tx_From tx)) (ju_Value (tx_GasLimit tx))
      (ju_Value (tx_GasPrice tx)) (ex_World ex) = Some (beforeErr, w)"
    by (auto simp: prepareTx_def bind_Some_iff)
  with assms(1,2) have "beforeErr = None" by (auto simp: prepareTx_def Let_def split: option.splits)
  with u assms(2,3) show ?thesis
    by (auto simp: UpdateWorldStateBefore_def wa_GetAccount_def chargeSender_def bind_Some_iff totalFunds_set go_simps Let_def split: option.splits)
qed

lemma funds_world:
  assumes "wellFormed (ex_World ex)" "restrained books (ex_World ex)" "executeTx lib txIndex tx ex = Some (Inr out, ex')"
    "HasSender (tx_Type tx)" "DeletedAccounts out = []"
  shows "totalFunds (AcctMap (ex_World ex')) =
    totalFunds (AcctMap (ex_World ex)) - uint (ju_Value (tx_GasLimit tx)) * uint (ju_Value (tx_GasPrice tx))"
proof -
  let ?w = "ex_World ex" and ?ex1 = "ex\<lparr>ex_World := (ex_World ex)\<lparr>Snapshots := [AcctMap (ex_World ex)]\<rparr>\<rparr>"
  have s: "Snapshots ?w = []" "wf_gomap (AcctMap ?w)" using assms(1) by (simp_all add: wellFormed_def)
  from assms(3) s obtain failed ex2 where b: "executeTxBody lib txIndex tx ?ex1 = Some (Inr out, failed, ex2)"
      "ex_World ex' = snd (if failed then RollbackChanges (ex_World ex2) else CommitChanges (ex_World ex2))"
    by (auto simp: executeTx_def bind_Some_iff dest!: backup)
  have r: "restrained books (ex_World ?ex1)" using assms(2) by (simp add: restrained_def)
  from b(1) show ?thesis
  proof (cases rule: executeTxBody_cases)
    case (run gas enough ex1 r2 ex3)
    from charged_funds [OF run(1) assms(4)] s have c: "totalFunds (chargeSender tx (AcctMap ?w)) =
          totalFunds (AcctMap ?w) - uint (ju_Value (tx_GasLimit tx)) * uint (ju_Value (tx_GasPrice tx))"
        "go_get (chargeSender tx (AcctMap ?w)) (jbs_Value (tx_From tx)) \<noteq> None" by simp_all
    show ?thesis
    proof (cases "ReturnCode out = Ok")
      case False
      have "fst \<circ> withStorage books = books" by (simp add: fun_eq_iff withStorage_def)
      with viewOf_compose [OF failed_world [OF assms(1,2,3) False], of fst]
      have "viewOf books (AcctMap (ex_World ex')) = viewOf books (chargeSender tx (AcctMap ?w))" by simp
      from totalFunds_books [OF this] c(1) show ?thesis by simp
    next
      case True
      from body_before_update [OF run(1) r books_ignores(1) run(3)]
      have k: "viewOf books (AcctMap (ex_World ex3)) = viewOf books (chargeSender tx (AcctMap ?w))" by (simp add: worldKeeps_def)
      from run(4) True obtain w where u: "updateStateAfterTx lib tx out (ex_World ex3) = Some (None, w)" "\<not> failed" "ex2 = ex3\<lparr>ex_World := w\<rparr>"
        by (cases r2) (auto split: if_splits option.splits)
      have "wf_gomap (chargeSender tx (AcctMap ?w))" using s(2) by (simp add: chargeSender_def split: option.split)
      with viewOf_keys [OF k] have wf: "wf_gomap (AcctMap (ex_World ex3))" by (simp add: wf_gomap_def)
      have from1: "go_get (AcctMap (ex_World ex3)) (jbs_Value (tx_From tx)) \<noteq> None"
        using viewOf_get [OF k, of "jbs_Value (tx_From tx)"] c(2) by auto
      from updateStateAfterTx_funds [OF u(1) assms(4,5) wf from1] totalFunds_books [OF k] c(1) u b(2) show ?thesis
        by (simp add: CommitChanges_def Commit_def)
    qed
  qed simp
qed

end
