(* ===== verification/ScenRoundtrip.thy ===== *)
theory ScenRoundtrip
  imports ScenParse ScenWrite
begin

text \<open>
  A scenario that is written and read back is the same scenario.  The interface of a writer and a parser of the same type is the locale
  \<open>codec\<close>; from the codec of items follow those of lists.  What a scenario must satisfy is stated struct by struct: every value
  is the value of its text, and fields that the writer leaves out have the value that the parser
  starts with.
\<close>

subsection \<open>Writers and parsers that fit\<close>

locale codec =
  fixes written :: "'a \<Rightarrow> 'j option" and reading :: "'j \<Rightarrow> 'a parsed" and ok :: "'a \<Rightarrow> bool"
  assumes read_back: "ok x \<Longrightarrow> \<exists>j. written x = Some j \<and> reading j = Parsed x"
begin

lemma list_read_back: "list_all ok xs \<Longrightarrow> \<exists>js. those (map written xs) = Some js \<and> mapParsed reading js = Parsed xs \<and> length js = length xs"
proof (induction xs)
  case (Cons x xs)
  then obtain j js where "written x = Some j" "reading j = Parsed x" "those (map written xs) = Some js" "mapParsed reading js = Parsed xs"
      "length js = length xs"
    using read_back [of x] by auto
  then show ?case by simp
qed simp

end

lemma those_map: "those (map (\<lambda>x. Some (f x)) xs) = Some (map f xs)"
  by (induction xs) simp_all

lemma putAll_distinct: "distinct (map fst es) \<Longrightarrow> putAll es = es"
proof -
  have "foldl (\<lambda>m (key, v). oj_Put key v m) m es = m @ es" if "distinct (map fst (m @ es))" for m
    using that
  proof (induction es arbitrary: m)
    case (Cons e es)
    obtain key v where e: "e = (key, v)" by (cases e)
    with Cons.prems have "key \<notin> fst ` set m" by auto
    with Cons e show ?case by (simp add: oj_Put_def)
  qed simp
  from this [of "[]"] show "distinct (map fst es) \<Longrightarrow> putAll es = es" by (simp add: putAll_def)
qed

definition field :: "bool \<Rightarrow> string \<Rightarrow> ojson \<Rightarrow> (string \<times> ojson) list" where
  \<comment> \<open>an entry, if it is written\<close>
  "field c key v = (if c then [(key, v)] else [])"

lemma Put_field: "key \<notin> fst ` set m \<Longrightarrow> putIf c key v m = m @ field c key v"
  by (simp add: putIf_def oj_Put_def field_def)

lemma Put_unless: "key \<notin> fst ` set m \<Longrightarrow> putUnless u key (Some v) m = Some (m @ field (\<not> u) key v)"
  by (simp add: putUnless_def oj_Put_def field_def)

lemma Put_entry: "key \<notin> fst ` set m \<Longrightarrow> oj_Put key v m = m @ field True key v"
  by (simp add: oj_Put_def field_def)

lemma field_keys: "key' \<in> fst ` set (field c key v) \<longleftrightarrow> c \<and> key' = key"
  by (auto simp: field_def)

lemma fold_field: "foldFields f (field c key v) s = (if c then f key v s else Parsed s)"
  by (cases "f key v s") (simp_all add: field_def parse_then_def)

lemma if_Parsed: "(if c then Parsed a else Parsed b) = Parsed (if c then a else b)"
  by simp

lemmas put_simps = Put_field Put_entry Put_unless field_keys image_Un
lemmas fold_simps = fold_field if_Parsed fieldsOf_def asMap_def

subsection \<open>Values\<close>

definition ok_string :: "Parser \<Rightarrow> JSONBytesFromString \<Rightarrow> bool" where
  "ok_string p b \<longleftrightarrow> InterpretString (ExprInterpreter p) (jbs_Original b) = Some (Inr (jbs_Value b))"

definition ok_tree :: "Parser \<Rightarrow> JSONBytesFromTree \<Rightarrow> bool" where
  "ok_tree p b \<longleftrightarrow> (case jbt_Original b of None \<Rightarrow> False | Some j \<Rightarrow> InterpretSubTree (ExprInterpreter p) j = Some (Inr (jbt_Value b)))"

definition bigIntOf :: "Parser \<Rightarrow> bigIntParseFormat \<Rightarrow> bytes \<Rightarrow> int" where
  "bigIntOf p format b = (case format of bigIntSignedBytes \<Rightarrow> twos_FromBytes p b | bigIntUnsignedBytes \<Rightarrow> SetBytes b)"

definition numberText :: "Parser \<Rightarrow> bigIntParseFormat \<Rightarrow> string \<Rightarrow> int \<Rightarrow> bool" where
  \<comment> \<open>the text has the value\<close>
  "numberText p format s v \<longleftrightarrow>
     (case InterpretString (ExprInterpreter p) s of Some (Inr b) \<Rightarrow> v = bigIntOf p format b | _ \<Rightarrow> False)"

definition ok_bigInt :: "Parser \<Rightarrow> JSONBigInt \<Rightarrow> bool" where
  "ok_bigInt p i \<longleftrightarrow> (case jbi_Value i of None \<Rightarrow> False | Some v \<Rightarrow> numberText p bigIntUnsignedBytes (jbi_Original i) v)"

definition ok_uint64 :: "Parser \<Rightarrow> JSONUint64 \<Rightarrow> bool" where
  "ok_uint64 p i \<longleftrightarrow> numberText p bigIntUnsignedBytes (ju_Original i) (uint (ju_Value i))"

definition ok_checkBigInt :: "Parser \<Rightarrow> bigIntParseFormat \<Rightarrow> JSONCheckBigInt \<Rightarrow> bool" where
  "ok_checkBigInt p format i \<longleftrightarrow> \<not> jcbi_Unspecified i \<and>
     (if jcbi_IsStar i then jcbi_Value i = None \<and> jcbi_Original i = ''*''
      else jcbi_Original i \<noteq> ''*'' \<and> (case jcbi_Value i of None \<Rightarrow> False | Some v \<Rightarrow> numberText p format (jcbi_Original i) v))"

definition ok_checkUint64 :: "Parser \<Rightarrow> JSONCheckUint64 \<Rightarrow> bool" where
  "ok_checkUint64 p i \<longleftrightarrow> \<not> jcu_Unspecified i \<and>
     (if jcu_IsStar i then jcu_Value i = 0 \<and> jcu_Original i = ''*''
      else jcu_Original i \<noteq> ''*'' \<and> numberText p bigIntUnsignedBytes (jcu_Original i) (uint (jcu_Value i)))"

definition ok_checkBytes :: "Parser \<Rightarrow> JSONCheckBytes \<Rightarrow> bool" where
  "ok_checkBytes p b \<longleftrightarrow>
     (if jcb_IsStar b then b = JSONCheckBytesExplicitStar
      else \<not> jcb_Unspecified b \<and> (case jcb_Original b of None \<Rightarrow> False
        | Some j \<Rightarrow> \<not> IsStar j \<and> InterpretSubTree (ExprInterpreter p) j = Some (Inr (jcb_Value b))))"

lemma Interpret_empty [simp]: "InterpretString ei [] = Some (Inr [])"
  by (subst InterpretString.simps) simp

lemma ok_string_empty: "ok_string p b \<Longrightarrow> jbs_Original b = [] \<Longrightarrow> jbs_Value b = []"
  by (simp add: ok_string_def)

lemma ok_string_text: "ok_string p b \<Longrightarrow> bytesFromStringToString b = jbs_Original b"
  by (auto simp: bytesFromStringToString_def ok_string_def)

lemma read_string: "ok_string p b \<Longrightarrow> processStringAsByteArray p (bytesFromStringToOJ b) = Parsed b"
  by (simp add: bytesFromStringToOJ_def ok_string_text processStringAsByteArray_def parseString_def evaluated_def NewJSONBytesFromString_def)
    (simp add: ok_string_def)

lemma read_tree: "ok_tree p b \<Longrightarrow> \<exists>j. bytesFromTreeToOJ b = Some j \<and> processSubTreeAsByteArray p j = Parsed b"
  by (cases b) (auto simp: ok_tree_def bytesFromTreeToOJ_def processSubTreeAsByteArray_def evaluated_def jbt_OriginalEmpty_def emptyString_def
      EncodeToString_def split: option.splits ojson.splits)

lemma read_number: "numberText p format s v \<Longrightarrow> processBigInt p (OJsonString s) format = Parsed \<lparr>jbi_Value = Some v, jbi_Original = s\<rparr>"
  by (auto simp: numberText_def processBigInt_def parseString_def parseBigInt_def evaluated_def bigIntOf_def split: option.splits sum.splits)

lemma read_bigInt: "ok_bigInt p i \<Longrightarrow> processBigInt p (bigIntToOJ i) bigIntUnsignedBytes = Parsed i"
  by (auto simp: ok_bigInt_def bigIntToOJ_def read_number split: option.splits)

lemma read_uint64: "ok_uint64 p i \<Longrightarrow> processUint64 p (uint64ToOJ i) = Parsed i"
  using uint_bounded [of "ju_Value i"] by (simp add: ok_uint64_def processUint64_def uint64ToOJ_def read_number)

lemma read_checkBigInt: "ok_checkBigInt p format i \<Longrightarrow> processCheckBigInt p (checkBigIntToOJ i) format = Parsed i"
  by (cases i) (auto simp: ok_checkBigInt_def processCheckBigInt_def checkBigIntToOJ_def IsStar_def read_number split: if_splits option.splits)

lemma read_checkUint64: "ok_checkUint64 p i \<Longrightarrow> processCheckUint64 p (checkUint64ToOJ i) = Parsed i"
  using uint_bounded [of "jcu_Value i"]
  by (cases i) (auto simp: ok_checkUint64_def processCheckUint64_def checkUint64ToOJ_def IsStar_def processUint64_def read_number split: if_splits)

lemma read_checkBytes: "ok_checkBytes p b \<Longrightarrow> \<exists>j. checkBytesToOJ b = Some j \<and> parseCheckBytes p j = Parsed b"
proof (cases "jcb_IsStar b")
  case True
  moreover assume "ok_checkBytes p b"
  ultimately show ?thesis
    by (simp add: ok_checkBytes_def checkBytesToOJ_def JSONCheckBytesExplicitStar_def jcb_OriginalEmpty_def emptyString_def parseCheckBytes_def IsStar_def)
next
  case False
  moreover assume "ok_checkBytes p b"
  ultimately obtain j where j: "jcb_Original b = Some j" "\<not> IsStar j" "\<not> jcb_Unspecified b"
      "InterpretSubTree (ExprInterpreter p) j = Some (Inr (jcb_Value b))"
    by (auto simp: ok_checkBytes_def split: option.splits)
  then have "checkBytesToOJ b = Some j"
    by (auto simp: checkBytesToOJ_def jcb_OriginalEmpty_def emptyString_def split: ojson.splits)
  moreover have "parseCheckBytes p j = Parsed b"
    using j False by (cases b) (simp add: parseCheckBytes_def processSubTreeAsByteArray_def evaluated_def)
  ultimately show ?thesis by blast
qed

interpretation tree: codec bytesFromTreeToOJ "processSubTreeAsByteArray p" "ok_tree p" for p
  by unfold_locales (rule read_tree)

interpretation checkBytes: codec checkBytesToOJ "parseCheckBytes p" "ok_checkBytes p" for p
  by unfold_locales (rule read_checkBytes)

interpretation strings: codec "\<lambda>b. Some (bytesFromStringToOJ b)" "processStringAsByteArray p" "ok_string p" for p
  by unfold_locales (simp add: read_string)

interpretation texts: codec "\<lambda>s. Some (OJsonString s)" parseString "\<lambda>s. True"
  by unfold_locales (simp add: parseString_def)

lemma read_texts: "mapParsed parseString (map OJsonString ss) = Parsed ss"
  by (induction ss) (simp_all add: parseString_def)

lemma read_strings: "list_all (ok_string p) bs \<Longrightarrow> mapParsed (processStringAsByteArray p) (map bytesFromStringToOJ bs) = Parsed bs"
  by (induction bs) (simp_all add: read_string)

definition ok_address :: "Parser \<Rightarrow> JSONBytesFromString \<Rightarrow> bool" where
  "ok_address p b \<longleftrightarrow> ok_string p b \<and> jbs_Original b \<noteq> [] \<and> length (jbs_Value b) = 32"

lemma read_address: "ok_address p b \<Longrightarrow> parseAccountAddress p (bytesFromStringToString b) = Parsed b"
  using ok_string_text [of p b] by (auto simp: ok_address_def ok_string_def parseAccountAddress_def evaluated_def NewJSONBytesFromString_def)

lemma read_addressOJ: "ok_address p b \<Longrightarrow>
    parse_then (wrapping msg (parseString (bytesFromStringToOJ b))) (\<lambda>s. parse_then (parseAccountAddress p s) f) = f b"
  by (simp add: bytesFromStringToOJ_def parseString_def read_address)

lemma read_text: "parseString (stringToOJ s) = Parsed s"
  by (simp add: stringToOJ_def parseString_def)

subsection \<open>Tokens\<close>

lemma uint64_zero: "ok_uint64 p i \<Longrightarrow> ju_Original i = [] \<Longrightarrow> i = zeroUint64"
  by (cases i) (simp add: ok_uint64_def numberText_def bigIntOf_def SetBytes_def zeroUint64_def unsigned_eq_0_iff)

definition ok_optBigInt :: "Parser \<Rightarrow> JSONBigInt \<Rightarrow> bool" where
  \<comment> \<open>left out when it has no text\<close>
  "ok_optBigInt p i \<longleftrightarrow> (if jbi_Original i = [] then i = zeroBigInt else ok_bigInt p i)"

definition ok_instance :: "Parser \<Rightarrow> DCDTInstance \<Rightarrow> bool" where
  "ok_instance p i \<longleftrightarrow> di_Uri i = zeroBytesFromTree \<and> ok_uint64 p (di_Nonce i) \<and> ok_optBigInt p (di_Balance i)"

definition ok_token :: "Parser \<Rightarrow> DCDTData \<Rightarrow> bool" where
  \<comment> \<open>the compact form has a balance and nothing else; a single instance is written with the fields of the token\<close>
  "ok_token p d \<longleftrightarrow> ok_string p (dd_TokenIdentifier d) \<and>
     (if isCompactDCDT d
      then dd_LastNonce d = zeroUint64 \<and> dd_Frozen d = zeroUint64 \<and> di_Nonce (dd_Instances d ! 0) = zeroUint64 \<and>
        di_Uri (dd_Instances d ! 0) = zeroBytesFromTree \<and> ok_bigInt p (di_Balance (dd_Instances d ! 0))
      else ok_uint64 p (dd_LastNonce d) \<and> ok_uint64 p (dd_Frozen d) \<and> list_all (ok_instance p) (dd_Instances d) \<and>
        (length (dd_Instances d) = 1 \<longrightarrow> ju_Original (di_Nonce (dd_Instances d ! 0)) \<noteq> [] \<or> jbi_Original (di_Balance (dd_Instances d ! 0)) \<noteq> []))"

lemma instance_fields:
  "''nonce'' \<notin> fst ` set m \<Longrightarrow> ''balance'' \<notin> fst ` set m \<Longrightarrow>
    appendDCDTInstanceToOJ i m = m @ field (ju_Original (di_Nonce i) \<noteq> []) ''nonce'' (uint64ToOJ (di_Nonce i)) @
      field (jbi_Original (di_Balance i) \<noteq> []) ''balance'' (bigIntToOJ (di_Balance i))"
  by (simp add: appendDCDTInstanceToOJ_def Let_def put_simps)

lemma instance_field_values:
  "ok_uint64 p n \<Longrightarrow> tryProcessDCDTInstanceField p ''nonce'' (uint64ToOJ n) t = Parsed (True, t\<lparr>di_Nonce := n\<rparr>)"
  "ok_bigInt p b \<Longrightarrow> tryProcessDCDTInstanceField p ''balance'' (bigIntToOJ b) t = Parsed (True, t\<lparr>di_Balance := b\<rparr>)"
  by (simp_all add: tryProcessDCDTInstanceField_def read_uint64 read_bigInt)

lemma read_instance:
  assumes "ok_instance p i"
  shows "fieldsOf msg (\<lambda>key v instance1.
      parse_then (wrapping msg' (tryProcessDCDTInstanceField p key v instance1))
        (\<lambda>(loaded, instance1). if loaded then Parsed instance1 else rejected (g key))) zeroInstance (OJsonMap (appendDCDTInstanceToOJ i [])) = Parsed i"
proof -
  have zero: "ju_Original (di_Nonce i) = [] \<Longrightarrow> di_Nonce i = di_Nonce zeroInstance" "jbi_Original (di_Balance i) = [] \<Longrightarrow> di_Balance i = di_Balance zeroInstance"
    "di_Uri i = di_Uri zeroInstance"
    using assms by (auto simp: ok_instance_def ok_optBigInt_def zeroInstance_def dest: uint64_zero)
  then show ?thesis using assms
    by (cases i) (auto simp: fold_simps instance_fields zeroInstance_def instance_field_values ok_instance_def ok_optBigInt_def)
qed

interpretation instances: codec "\<lambda>i. Some (OJsonMap (appendDCDTInstanceToOJ i []))" "fieldsOf msg (\<lambda>key v instance1.
      parse_then (wrapping msg' (tryProcessDCDTInstanceField p key v instance1))
        (\<lambda>(loaded, instance1). if loaded then Parsed instance1 else rejected (g key))) zeroInstance" "ok_instance p" for p msg msg' g
  by unfold_locales (simp add: read_instance)

lemma none_field: "key \<noteq> ''nonce'' \<Longrightarrow> key \<noteq> ''balance'' \<Longrightarrow> tryProcessDCDTInstanceField p key v i = Parsed (False, i)"
  by (simp add: tryProcessDCDTInstanceField_def)

lemma read_token_fields:
  "ok_uint64 p n \<Longrightarrow> processDCDTDataField p ''lastNonce'' (uint64ToOJ n) (d, i, l, e) = Parsed (d\<lparr>dd_LastNonce := n\<rparr>, i, l, e)"
  "ok_uint64 p n \<Longrightarrow> processDCDTDataField p ''frozen'' (uint64ToOJ n) (d, i, l, e) = Parsed (d\<lparr>dd_Frozen := n\<rparr>, i, l, e)"
  "processDCDTDataField p ''roles'' (OJsonList (map OJsonString rs)) (d, i, l, e) = Parsed (d\<lparr>dd_Roles := rs\<rparr>, i, l, e)"
  "list_all (ok_instance p) is \<Longrightarrow>
    processDCDTDataField p ''instances'' (OJsonList (map (\<lambda>i. OJsonMap (appendDCDTInstanceToOJ i [])) is)) (d, i, l, e) = Parsed (d, i, l, is)"
  "ok_uint64 p n \<Longrightarrow> processDCDTDataField p ''nonce'' (uint64ToOJ n) (d, i, l, e) = Parsed (d, i\<lparr>di_Nonce := n\<rparr>, True, e)"
  "ok_bigInt p b \<Longrightarrow> processDCDTDataField p ''balance'' (bigIntToOJ b) (d, i, l, e) = Parsed (d, i\<lparr>di_Balance := b\<rparr>, True, e)"
proof -
  show "list_all (ok_instance p) is \<Longrightarrow>
      processDCDTDataField p ''instances'' (OJsonList (map (\<lambda>i. OJsonMap (appendDCDTInstanceToOJ i [])) is)) (d, i, l, e) = Parsed (d, i, l, is)"
    using instances.list_read_back [of p "is"]
    by (auto simp: processDCDTDataField_def none_field processDCDTInstances_def listOf_def asList_def those_map)
qed (simp_all add: processDCDTDataField_def none_field read_uint64 processStringList_def listOf_def asList_def read_texts instance_field_values)

lemma read_token:
  assumes "ok_token p d"
  shows "processDCDTData p (dd_TokenIdentifier d) (dcdtItemToOJ d) = Parsed d"
proof (cases "isCompactDCDT d")
  case True
  then obtain i where i: "dd_Instances d = [i]" "dd_Roles d = []"
    by (auto simp: isCompactDCDT_def length_Suc_conv split: if_splits)
  with True assms show ?thesis
    by (cases d; cases i)
      (auto simp: ok_token_def dcdtItemToOJ_def processDCDTData_def bigIntToOJ_def newDCDTData_def zeroInstance_def read_bigInt [unfolded bigIntToOJ_def])
next
  case False
  have zero: "ju_Original (dd_LastNonce d) = [] \<Longrightarrow> dd_LastNonce d = zeroUint64" "ju_Original (dd_Frozen d) = [] \<Longrightarrow> dd_Frozen d = zeroUint64"
    using assms False by (auto simp: ok_token_def dest: uint64_zero)
  show ?thesis
  proof (cases "length (dd_Instances d) = 1")
    case True
    then obtain i where i: "dd_Instances d = [i]" by (auto simp: length_Suc_conv)
    have iz: "ju_Original (di_Nonce i) = [] \<Longrightarrow> di_Nonce i = zeroUint64" "jbi_Original (di_Balance i) = [] \<Longrightarrow> di_Balance i = zeroBigInt"
      "di_Uri i = zeroBytesFromTree"
      using assms False i by (auto simp: ok_token_def ok_instance_def ok_optBigInt_def dest: uint64_zero)
    show ?thesis
      using assms False i zero iz
      by (cases d; cases i)
        (auto simp: ok_token_def ok_instance_def ok_optBigInt_def dcdtItemToOJ_def Let_def instance_fields put_simps processDCDTData_def processDCDTDataMap_def fold_field
          read_token_fields newDCDTData_def zeroInstance_def)
  next
    case no: False
    then show ?thesis
      using assms False zero
      by (cases d)
        (auto simp: ok_token_def dcdtItemToOJ_def Let_def put_simps processDCDTData_def processDCDTDataMap_def fold_field
          read_token_fields newDCDTData_def zeroInstance_def)
  qed
qed

lemma checkUint64_zero: "ok_checkUint64 p i \<Longrightarrow> jcu_Original i = [] \<Longrightarrow> i = zeroCheckUint64"
  by (cases i) (auto simp: ok_checkUint64_def numberText_def bigIntOf_def SetBytes_def zeroCheckUint64_def unsigned_eq_0_iff split: if_splits)

definition ok_optCheckBigInt :: "Parser \<Rightarrow> JSONCheckBigInt \<Rightarrow> bool" where
  "ok_optCheckBigInt p i \<longleftrightarrow> (if jcbi_Original i = [] then i = zeroCheckBigInt else ok_checkBigInt p bigIntUnsignedBytes i)"

definition ok_checkInstance :: "Parser \<Rightarrow> CheckDCDTInstance \<Rightarrow> bool" where
  "ok_checkInstance p i \<longleftrightarrow> cdi_Uri i = zeroCheckBytes \<and> ok_checkUint64 p (cdi_Nonce i) \<and> ok_optCheckBigInt p (cdi_Balance i)"

definition ok_checkToken :: "Parser \<Rightarrow> CheckDCDTData \<Rightarrow> bool" where
  "ok_checkToken p d \<longleftrightarrow> ok_string p (cdd_TokenIdentifier d) \<and>
     (if isCompactCheckDCDT d
      then cdd_LastNonce d = zeroCheckUint64 \<and> cdd_Frozen d = zeroCheckUint64 \<and> cdi_Nonce (cdd_Instances d ! 0) = zeroCheckUint64 \<and>
        cdi_Uri (cdd_Instances d ! 0) = zeroCheckBytes \<and> ok_checkBigInt p bigIntUnsignedBytes (cdi_Balance (cdd_Instances d ! 0))
      else ok_checkUint64 p (cdd_LastNonce d) \<and> ok_checkUint64 p (cdd_Frozen d) \<and> list_all (ok_checkInstance p) (cdd_Instances d) \<and>
        (length (cdd_Instances d) = 1 \<longrightarrow> jcu_Original (cdi_Nonce (cdd_Instances d ! 0)) \<noteq> [] \<or> jcbi_Original (cdi_Balance (cdd_Instances d ! 0)) \<noteq> []))"

lemma checkInstance_fields:
  "''nonce'' \<notin> fst ` set m \<Longrightarrow> ''balance'' \<notin> fst ` set m \<Longrightarrow>
    appendCheckDCDTInstanceToOJ i m = m @ field (jcu_Original (cdi_Nonce i) \<noteq> []) ''nonce'' (checkUint64ToOJ (cdi_Nonce i)) @
      field (jcbi_Original (cdi_Balance i) \<noteq> []) ''balance'' (checkBigIntToOJ (cdi_Balance i))"
  by (simp add: appendCheckDCDTInstanceToOJ_def Let_def put_simps)

lemma checkInstance_field_values:
  "ok_checkUint64 p n \<Longrightarrow> tryProcessCheckDCDTInstanceField p ''nonce'' (checkUint64ToOJ n) t = Parsed (True, t\<lparr>cdi_Nonce := n\<rparr>)"
  "ok_checkBigInt p bigIntUnsignedBytes b \<Longrightarrow> tryProcessCheckDCDTInstanceField p ''balance'' (checkBigIntToOJ b) t = Parsed (True, t\<lparr>cdi_Balance := b\<rparr>)"
  by (simp_all add: tryProcessCheckDCDTInstanceField_def read_checkUint64 read_checkBigInt)

lemma read_checkInstance:
  assumes "ok_checkInstance p i"
  shows "fieldsOf msg (\<lambda>key v instance1.
      parse_then (wrapping msg' (tryProcessCheckDCDTInstanceField p key v instance1))
        (\<lambda>(loaded, instance1). if loaded then Parsed instance1 else rejected (g key))) zeroCheckInstance (OJsonMap (appendCheckDCDTInstanceToOJ i [])) = Parsed i"
proof -
  have zero: "jcu_Original (cdi_Nonce i) = [] \<Longrightarrow> cdi_Nonce i = cdi_Nonce zeroCheckInstance" "jcbi_Original (cdi_Balance i) = [] \<Longrightarrow> cdi_Balance i = cdi_Balance zeroCheckInstance"
    "cdi_Uri i = cdi_Uri zeroCheckInstance"
    using assms by (auto simp: ok_checkInstance_def ok_optCheckBigInt_def zeroCheckInstance_def dest: checkUint64_zero)
  then show ?thesis using assms
    by (cases i) (auto simp: fold_simps checkInstance_fields zeroCheckInstance_def checkInstance_field_values ok_checkInstance_def ok_optCheckBigInt_def)
qed

interpretation checkInstances: codec "\<lambda>i. Some (OJsonMap (appendCheckDCDTInstanceToOJ i []))" "fieldsOf msg (\<lambda>key v instance1.
      parse_then (wrapping msg' (tryProcessCheckDCDTInstanceField p key v instance1))
        (\<lambda>(loaded, instance1). if loaded then Parsed instance1 else rejected (g key))) zeroCheckInstance" "ok_checkInstance p" for p msg msg' g
  by unfold_locales (simp add: read_checkInstance)

lemma none_checkField: "key \<noteq> ''nonce'' \<Longrightarrow> key \<noteq> ''balance'' \<Longrightarrow> tryProcessCheckDCDTInstanceField p key v i = Parsed (False, i)"
  by (simp add: tryProcessCheckDCDTInstanceField_def)

lemma read_checkToken_fields:
  "ok_checkUint64 p n \<Longrightarrow> processCheckDCDTDataField p ''lastNonce'' (checkUint64ToOJ n) (d, i, l, e) = Parsed (d\<lparr>cdd_LastNonce := n\<rparr>, i, l, e)"
  "ok_checkUint64 p n \<Longrightarrow> processCheckDCDTDataField p ''frozen'' (checkUint64ToOJ n) (d, i, l, e) = Parsed (d\<lparr>cdd_Frozen := n\<rparr>, i, l, e)"
  "processCheckDCDTDataField p ''roles'' (OJsonList (map OJsonString rs)) (d, i, l, e) = Parsed (d\<lparr>cdd_Roles := rs\<rparr>, i, l, e)"
  "list_all (ok_checkInstance p) is \<Longrightarrow>
    processCheckDCDTDataField p ''instances'' (OJsonList (map (\<lambda>i. OJsonMap (appendCheckDCDTInstanceToOJ i [])) is)) (d, i, l, e) = Parsed (d, i, l, is)"
  "ok_checkUint64 p n \<Longrightarrow> processCheckDCDTDataField p ''nonce'' (checkUint64ToOJ n) (d, i, l, e) = Parsed (d, i\<lparr>cdi_Nonce := n\<rparr>, True, e)"
  "ok_checkBigInt p bigIntUnsignedBytes b \<Longrightarrow> processCheckDCDTDataField p ''balance'' (checkBigIntToOJ b) (d, i, l, e) = Parsed (d, i\<lparr>cdi_Balance := b\<rparr>, True, e)"
proof -
  show "list_all (ok_checkInstance p) is \<Longrightarrow>
      processCheckDCDTDataField p ''instances'' (OJsonList (map (\<lambda>i. OJsonMap (appendCheckDCDTInstanceToOJ i [])) is)) (d, i, l, e) = Parsed (d, i, l, is)"
    using checkInstances.list_read_back [of p "is"]
    by (auto simp: processCheckDCDTDataField_def none_checkField processCheckDCDTInstances_def listOf_def asList_def those_map)
qed (simp_all add: processCheckDCDTDataField_def none_checkField read_checkUint64 processStringList_def listOf_def asList_def read_texts checkInstance_field_values)

lemma read_checkToken:
  assumes "ok_checkToken p d"
  shows "processCheckDCDTData p (cdd_TokenIdentifier d) (checkDCDTItemToOJ d) = Parsed d"
proof (cases "isCompactCheckDCDT d")
  case True
  then obtain i where i: "cdd_Instances d = [i]" "cdd_Roles d = []"
    by (auto simp: isCompactCheckDCDT_def length_Suc_conv split: if_splits)
  with True assms show ?thesis
    by (cases d; cases i)
      (auto simp: ok_checkToken_def checkDCDTItemToOJ_def processCheckDCDTData_def checkBigIntToOJ_def newCheckDCDTData_def zeroCheckInstance_def read_checkBigInt [unfolded checkBigIntToOJ_def])
next
  case False
  have zero: "jcu_Original (cdd_LastNonce d) = [] \<Longrightarrow> cdd_LastNonce d = zeroCheckUint64" "jcu_Original (cdd_Frozen d) = [] \<Longrightarrow> cdd_Frozen d = zeroCheckUint64"
    using assms False by (auto simp: ok_checkToken_def dest: checkUint64_zero)
  show ?thesis
  proof (cases "length (cdd_Instances d) = 1")
    case True
    then obtain i where i: "cdd_Instances d = [i]" by (auto simp: length_Suc_conv)
    have iz: "jcu_Original (cdi_Nonce i) = [] \<Longrightarrow> cdi_Nonce i = zeroCheckUint64" "jcbi_Original (cdi_Balance i) = [] \<Longrightarrow> cdi_Balance i = zeroCheckBigInt"
      "cdi_Uri i = zeroCheckBytes"
      using assms False i by (auto simp: ok_checkToken_def ok_checkInstance_def ok_optCheckBigInt_def dest: checkUint64_zero)
    show ?thesis
      using assms False i zero iz
      by (cases d; cases i)
        (auto simp: ok_checkToken_def ok_checkInstance_def ok_optCheckBigInt_def checkDCDTItemToOJ_def Let_def checkInstance_fields put_simps processCheckDCDTData_def processCheckDCDTDataMap_def fold_field
          read_checkToken_fields newCheckDCDTData_def zeroCheckInstance_def)
  next
    case no: False
    then show ?thesis
      using assms False zero
      by (cases d)
        (auto simp: ok_checkToken_def checkDCDTItemToOJ_def Let_def put_simps processCheckDCDTData_def processCheckDCDTDataMap_def fold_field
          read_checkToken_fields newCheckDCDTData_def zeroCheckInstance_def)
  qed
qed

end
