(* ===== verification/ScenRoundtripAccounts.thy ===== *)
theory ScenRoundtripAccounts
  imports ScenRoundtrip
begin

text \<open>
  Accounts and the accounts to check that are written and read back.
\<close>

subsection \<open>Accounts\<close>

definition ok_storageEntry :: "Parser \<Rightarrow> StorageKeyValuePair \<Rightarrow> bool" where
  "ok_storageEntry p st \<longleftrightarrow> ok_string p (skv_Key st) \<and> ok_tree p (skv_Value st)"

definition ok_storage :: "Parser \<Rightarrow> StorageKeyValuePair list \<Rightarrow> bool" where
  "ok_storage p sts \<longleftrightarrow> list_all (ok_storageEntry p) sts \<and> distinct (map (jbs_Original \<circ> skv_Key) sts)"

definition ok_tokens :: "Parser \<Rightarrow> DCDTData list \<Rightarrow> bool" where
  "ok_tokens p ds \<longleftrightarrow> list_all (ok_token p) ds \<and> distinct (map (jbs_Original \<circ> dd_TokenIdentifier) ds)"

definition ok_checkTokens :: "Parser \<Rightarrow> CheckDCDTData list \<Rightarrow> bool" where
  "ok_checkTokens p ds \<longleftrightarrow> list_all (ok_checkToken p) ds \<and> distinct (map (jbs_Original \<circ> cdd_TokenIdentifier) ds)"

definition ok_account :: "Parser \<Rightarrow> mj_Account \<Rightarrow> bool" where
  \<comment> \<open>the shard is not written\<close>
  "ok_account p a \<longleftrightarrow> ok_address p (ac_Address a) \<and> ac_Shard a = zeroUint64 \<and> \<not> ac_IsSmartContract a \<and>
     ok_uint64 p (ac_Nonce a) \<and> ok_bigInt p (ac_Balance a) \<and> ok_tokens p (ac_DCDTData a) \<and> ok_storage p (ac_Storage a) \<and>
     ok_string p (ac_Code a) \<and>
     (if jbs_Value (ac_Username a) = [] then ac_Username a = zeroBytesFromString else ok_string p (ac_Username a)) \<and>
     (if jbs_Value (ac_Owner a) = [] then ac_Owner a = zeroBytesFromString else ok_string p (ac_Owner a))"

definition ok_accounts :: "Parser \<Rightarrow> mj_Account list \<Rightarrow> bool" where
  "ok_accounts p as \<longleftrightarrow> list_all (ok_account p) as \<and> distinct (map (jbs_Original \<circ> ac_Address) as)"

definition ok_optCheckBytes :: "Parser \<Rightarrow> JSONCheckBytes \<Rightarrow> bool" where
  "ok_optCheckBytes p b \<longleftrightarrow> (if jcb_Unspecified b then b = JSONCheckBytesUnspecified else ok_checkBytes p b)"

definition ok_optUint64 :: "Parser \<Rightarrow> JSONCheckUint64 \<Rightarrow> bool" where
  "ok_optUint64 p i \<longleftrightarrow> (if jcu_Unspecified i then i = JSONCheckUint64Unspecified else ok_checkUint64 p i)"

definition ok_optBig :: "Parser \<Rightarrow> bigIntParseFormat \<Rightarrow> JSONCheckBigInt \<Rightarrow> bool" where
  "ok_optBig p format i \<longleftrightarrow> (if jcbi_Unspecified i then i = JSONCheckBigIntUnspecified else ok_checkBigInt p format i)"

lemmas ok_opt_defs = ok_optCheckBytes_def ok_optUint64_def ok_optBig_def

definition ok_checkAccount :: "Parser \<Rightarrow> CheckAccount \<Rightarrow> bool" where
  \<comment> \<open>the key \<open>+\<close> allows other accounts\<close>
  "ok_checkAccount p a \<longleftrightarrow> ok_address p (ca_Address a) \<and> jbs_Original (ca_Address a) \<noteq> ''+'' \<and> ok_optUint64 p (ca_Nonce a) \<and> ok_optBig p bigIntUnsignedBytes (ca_Balance a) \<and>
     ok_optCheckBytes p (ca_Username a) \<and> ok_optCheckBytes p (ca_Code a) \<and> ok_optCheckBytes p (ca_Owner a) \<and> ok_optCheckBytes p (ca_AsyncCallData a) \<and>
     (if ca_IgnoreDCDT a then ca_CheckDCDTData a = [] else ok_checkTokens p (ca_CheckDCDTData a)) \<and>
     (if ca_IgnoreStorage a then ca_CheckStorage a = [] else ok_storage p (ca_CheckStorage a))"

definition ok_checkAccounts :: "Parser \<Rightarrow> CheckAccounts \<Rightarrow> bool" where
  "ok_checkAccounts p c \<longleftrightarrow> list_all (ok_checkAccount p) (Accounts c) \<and> distinct (map (jbs_Original \<circ> ca_Address) (Accounts c))"

interpretation storageEntries: codec storageEntryToOJ "processStorageEntry p" "ok_storageEntry p" for p
proof unfold_locales
  fix st assume st: "ok_storageEntry p st"
  then obtain j where "bytesFromTreeToOJ (skv_Value st) = Some j" "processSubTreeAsByteArray p j = Parsed (skv_Value st)"
    using read_tree by (auto simp: ok_storageEntry_def)
  moreover have "evaluated (InterpretString (ExprInterpreter p) (jbs_Original (skv_Key st))) = Parsed (jbs_Value (skv_Key st))"
    using st by (simp add: ok_storageEntry_def ok_string_def evaluated_def)
  ultimately show "\<exists>j. storageEntryToOJ st = Some j \<and> processStorageEntry p j = Parsed st"
    using st by (cases st; cases "skv_Key st")
      (auto simp: storageEntryToOJ_def processStorageEntry_def ok_storageEntry_def ok_string_text NewJSONBytesFromString_def)
qed

lemma those_keys:
  "those (map f xs) = Some es \<Longrightarrow> (\<And>x e. x \<in> set xs \<Longrightarrow> f x = Some e \<Longrightarrow> fst e = key x) \<Longrightarrow> map fst es = map key xs"
proof (induction xs arbitrary: es)
  case (Cons x xs)
  then obtain e es' where "f x = Some e" "those (map f xs) = Some es'" "es = e # es'" by (auto split: option.splits)
  with Cons show ?case by simp
qed simp

lemma read_storage:
  assumes "ok_storage p sts"
  shows "\<exists>es. storageToOJ sts = Some (OJsonMap es) \<and> mapParsed (processStorageEntry p) es = Parsed sts"
proof -
  obtain es where es: "those (map storageEntryToOJ sts) = Some es" "mapParsed (processStorageEntry p) es = Parsed sts"
    using storageEntries.list_read_back [of p sts] assms by (auto simp: ok_storage_def)
  have "map fst es = map (jbs_Original \<circ> skv_Key) sts"
    by (rule those_keys [OF es(1)])
      (use assms in \<open>auto simp: ok_storage_def list_all_iff ok_storageEntry_def storageEntryToOJ_def ok_string_text bind_eq_Some_conv\<close>)
  with assms es show ?thesis by (simp add: storageToOJ_def ok_storage_def putAll_distinct)
qed

lemma read_entry: "ok_string p s \<Longrightarrow> parse_then (wrapping msg (evaluated (InterpretString (ExprInterpreter p) (jbs_Original s)))) f = f (jbs_Value s)"
  by (simp add: ok_string_def evaluated_def)

lemma token_name: "ok_token p d \<Longrightarrow> ok_string p (dd_TokenIdentifier d)" by (simp add: ok_token_def)
lemma checkToken_name: "ok_checkToken p d \<Longrightarrow> ok_string p (cdd_TokenIdentifier d)" by (simp add: ok_checkToken_def)

lemma NewJSON_same [simp]: "NewJSONBytesFromString (jbs_Value s) (jbs_Original s) = s"
  by (simp add: NewJSONBytesFromString_def)

lemma read_tokens:
  assumes "ok_tokens p ds"
  shows "\<exists>es. dcdtDataToOJ ds = OJsonMap es \<and> mapParsed (processDCDTEntry p) es = Parsed ds"
proof -
  have "mapParsed (processDCDTEntry p) (map (\<lambda>item. (jbs_Original (dd_TokenIdentifier item), dcdtItemToOJ item)) ds) = Parsed ds"
    if "list_all (ok_token p) ds"
    using that
  proof (induction ds)
    case (Cons d ds)
    then have "processDCDTEntry p (jbs_Original (dd_TokenIdentifier d), dcdtItemToOJ d) = Parsed d"
      by (simp add: processDCDTEntry_def read_token read_entry [OF token_name])
    with Cons show ?case by simp
  qed simp
  with assms show ?thesis by (simp add: dcdtDataToOJ_def ok_tokens_def putAll_distinct comp_def)
qed

lemma read_checkTokens:
  assumes "ok_checkTokens p ds"
  shows "\<exists>es. checkDCDTDataToOJ ds = OJsonMap es \<and> mapParsed (processCheckDCDTEntry p) es = Parsed ds"
proof -
  have "mapParsed (processCheckDCDTEntry p) (map (\<lambda>item. (jbs_Original (cdd_TokenIdentifier item), checkDCDTItemToOJ item)) ds) = Parsed ds"
    if "list_all (ok_checkToken p) ds"
    using that
  proof (induction ds)
    case (Cons d ds)
    then have "processCheckDCDTEntry p (jbs_Original (cdd_TokenIdentifier d), checkDCDTItemToOJ d) = Parsed d"
      by (simp add: processCheckDCDTEntry_def read_checkToken read_entry [OF checkToken_name])
    with Cons show ?case by simp
  qed simp
  with assms show ?thesis by (simp add: checkDCDTDataToOJ_def ok_checkTokens_def putAll_distinct comp_def)
qed

lemma account_fields:
  "foldFields (processAccountField p) (field c ''comment'' (stringToOJ x)) a = Parsed (a\<lparr>ac_Comment := if c then x else ac_Comment a\<rparr>)"
  "ok_uint64 p n \<Longrightarrow> foldFields (processAccountField p) (field True ''nonce'' (uint64ToOJ n)) a = Parsed (a\<lparr>ac_Nonce := n\<rparr>)"
  "ok_bigInt p b \<Longrightarrow> foldFields (processAccountField p) (field True ''balance'' (bigIntToOJ b)) a = Parsed (a\<lparr>ac_Balance := b\<rparr>)"
  "ok_tokens p ds \<Longrightarrow> foldFields (processAccountField p) (field (ds \<noteq> []) ''dcdt'' (dcdtDataToOJ ds)) a =
    Parsed (a\<lparr>ac_DCDTData := ac_DCDTData a @ ds\<rparr>)"
  "c \<longrightarrow> ok_string p s \<Longrightarrow> foldFields (processAccountField p) (field c ''username'' (bytesFromStringToOJ s)) a =
    Parsed (a\<lparr>ac_Username := if c then s else ac_Username a\<rparr>)"
  "mapParsed (processStorageEntry p) es = Parsed sts \<Longrightarrow>
    foldFields (processAccountField p) (field True ''storage'' (OJsonMap es)) a = Parsed (a\<lparr>ac_Storage := ac_Storage a @ sts\<rparr>)"
  "ok_string p s \<Longrightarrow> foldFields (processAccountField p) (field True ''code'' (bytesFromStringToOJ s)) a = Parsed (a\<lparr>ac_Code := s\<rparr>)"
  "c \<longrightarrow> ok_string p s \<Longrightarrow> foldFields (processAccountField p) (field c ''owner'' (bytesFromStringToOJ s)) a =
    Parsed (a\<lparr>ac_Owner := if c then s else ac_Owner a\<rparr>)"
  "foldFields (processAccountField p) (field c ''asyncCallData'' (stringToOJ x)) a = Parsed (a\<lparr>ac_AsyncCallData := if c then x else ac_AsyncCallData a\<rparr>)"
proof -
  show "ok_tokens p ds \<Longrightarrow> foldFields (processAccountField p) (field (ds \<noteq> []) ''dcdt'' (dcdtDataToOJ ds)) a =
      Parsed (a\<lparr>ac_DCDTData := ac_DCDTData a @ ds\<rparr>)"
    using read_tokens [of p ds] by (auto simp: fold_field processAccountField_def asMap_def)
qed (simp_all add: fold_field processAccountField_def read_text read_uint64 read_bigInt read_string asMap_def)

lemma read_account:
  assumes "ok_account p a"
  shows "\<exists>j. accountEntryToOJ a = Some (jbs_Original (ac_Address a), j) \<and> processAccount p j = Parsed (a\<lparr>ac_Address := zeroBytesFromString\<rparr>)"
proof -
  obtain es where es: "storageToOJ (ac_Storage a) = Some (OJsonMap es)" "mapParsed (processStorageEntry p) es = Parsed (ac_Storage a)"
    using read_storage [of p "ac_Storage a"] assms by (auto simp: ok_account_def)
  have address: "bytesFromStringToString (ac_Address a) = jbs_Original (ac_Address a)"
    using assms ok_string_text [of p] by (simp add: ok_account_def ok_address_def)
  have j: "accountEntryToOJ a = Some (jbs_Original (ac_Address a), OJsonMap (
      field (ac_Comment a \<noteq> []) ''comment'' (stringToOJ (ac_Comment a)) @ field True ''nonce'' (uint64ToOJ (ac_Nonce a)) @
      field True ''balance'' (bigIntToOJ (ac_Balance a)) @ field (ac_DCDTData a \<noteq> []) ''dcdt'' (dcdtDataToOJ (ac_DCDTData a)) @
      field (jbs_Value (ac_Username a) \<noteq> []) ''username'' (bytesFromStringToOJ (ac_Username a)) @ field True ''storage'' (OJsonMap es) @
      field True ''code'' (bytesFromStringToOJ (ac_Code a)) @ field (jbs_Value (ac_Owner a) \<noteq> []) ''owner'' (bytesFromStringToOJ (ac_Owner a)) @
      field (ac_AsyncCallData a \<noteq> []) ''asyncCallData'' (stringToOJ (ac_AsyncCallData a))))"
    by (simp add: accountEntryToOJ_def es put_simps address)
  have ok: "jbs_Value (ac_Username a) \<noteq> [] \<longrightarrow> ok_string p (ac_Username a)" "jbs_Value (ac_Owner a) \<noteq> [] \<longrightarrow> ok_string p (ac_Owner a)"
    "ok_uint64 p (ac_Nonce a)" "ok_bigInt p (ac_Balance a)" "ok_tokens p (ac_DCDTData a)" "ok_string p (ac_Code a)"
    using assms by (simp_all add: ok_account_def)
  have "processAccount p (snd (the (accountEntryToOJ a))) = Parsed (zeroAccount\<lparr>
      ac_Comment := if ac_Comment a \<noteq> [] then ac_Comment a else [], ac_Nonce := ac_Nonce a, ac_Balance := ac_Balance a, ac_DCDTData := ac_DCDTData a,
      ac_Username := if jbs_Value (ac_Username a) \<noteq> [] then ac_Username a else zeroBytesFromString, ac_Storage := ac_Storage a, ac_Code := ac_Code a,
      ac_Owner := if jbs_Value (ac_Owner a) \<noteq> [] then ac_Owner a else zeroBytesFromString,
      ac_AsyncCallData := if ac_AsyncCallData a \<noteq> [] then ac_AsyncCallData a else []\<rparr>)"
    unfolding j processAccount_def fieldsOf_def asMap_def option.sel option.case ojson.case snd_conv
      foldFields_append
    by (simp only: foldFields_append account_fields account_fields(5) [OF ok(1)] account_fields(8) [OF ok(2)] ok es(2) parse_then_simps)
      (simp add: zeroAccount_def)
  also have "\<dots> = Parsed (a\<lparr>ac_Address := zeroBytesFromString\<rparr>)"
    using assms by (cases a) (auto simp: ok_account_def zeroAccount_def)
  finally show ?thesis using j by simp
qed

end
