(* ===== verification/ScenRoundtripChecks.thy ===== *)
theory ScenRoundtripChecks
  imports ScenRoundtripAccounts
begin

text \<open>
  Lists of accounts, and the accounts to check, with the fields that may be left open.
\<close>

definition readAccountEntry :: "Parser \<Rightarrow> string \<times> ojson \<Rightarrow> mj_Account parsed" where
  "readAccountEntry p = (\<lambda>(key, v). parse_then (processAccount p v) (\<lambda>acct. parse_then (parseAccountAddress p key) (\<lambda>acctAddr. Parsed (acct\<lparr>ac_Address := acctAddr\<rparr>))))"

interpretation accounts: codec accountEntryToOJ "readAccountEntry p" "ok_account p" for p
proof unfold_locales
  fix a assume a: "ok_account p a"
  then obtain j where j: "accountEntryToOJ a = Some (jbs_Original (ac_Address a), j)" "processAccount p j = Parsed (a\<lparr>ac_Address := zeroBytesFromString\<rparr>)"
    using read_account by blast
  have "parseAccountAddress p (jbs_Original (ac_Address a)) = Parsed (ac_Address a)"
    using a read_address [of p "ac_Address a"] ok_string_text [of p] by (simp add: ok_account_def ok_address_def)
  with j show "\<exists>j. accountEntryToOJ a = Some j \<and> readAccountEntry p j = Parsed a"
    by (simp add: readAccountEntry_def)
qed

lemma read_accounts:
  assumes "ok_accounts p as"
  shows "\<exists>j. AccountsToOJ as = Some j \<and> processAccountMap p j = Parsed as"
proof -
  obtain es where es: "those (map accountEntryToOJ as) = Some es" "mapParsed (readAccountEntry p) es = Parsed as"
    using accounts.list_read_back [of p as] assms by (auto simp: ok_accounts_def)
  have "map fst es = map (jbs_Original \<circ> ac_Address) as"
  proof (rule those_keys [OF es(1)])
    fix a e assume "a \<in> set as" "accountEntryToOJ a = Some e"
    then show "fst e = (jbs_Original \<circ> ac_Address) a"
      using read_account [of p a] assms by (auto simp: ok_accounts_def list_all_iff)
  qed
  with assms es show ?thesis
    by (simp add: AccountsToOJ_def ok_accounts_def putAll_distinct processAccountMap_def asMap_def readAccountEntry_def [symmetric])
qed

subsection \<open>Accounts to check\<close>

lemma read_optCheckBytes:
  assumes "ok_optCheckBytes p b"
  shows "\<exists>j. checkBytesToOJ b = Some j \<and> (\<not> jcb_Unspecified b \<longrightarrow> parseCheckBytes p j = Parsed b)"
proof (cases "jcb_Unspecified b")
  case True
  with assms show ?thesis
    by (simp add: ok_optCheckBytes_def checkBytesToOJ_def JSONCheckBytesUnspecified_def)
qed (use assms read_checkBytes [of p b] in \<open>auto simp: ok_optCheckBytes_def\<close>)

lemma checkAccount_fields:
  "foldFields (processCheckAccountField p) (field c ''comment'' (stringToOJ x)) a = Parsed (a\<lparr>ca_Comment := if c then x else ca_Comment a\<rparr>)"
  "c \<longrightarrow> ok_checkUint64 p n \<Longrightarrow> foldFields (processCheckAccountField p) (field c ''nonce'' (checkUint64ToOJ n)) a =
    Parsed (a\<lparr>ca_Nonce := if c then n else ca_Nonce a\<rparr>)"
  "c \<longrightarrow> ok_checkBigInt p bigIntUnsignedBytes b \<Longrightarrow> foldFields (processCheckAccountField p) (field c ''balance'' (checkBigIntToOJ b)) a =
    Parsed (a\<lparr>ca_Balance := if c then b else ca_Balance a\<rparr>)"
  "c \<longrightarrow> parseCheckBytes p j = Parsed t \<Longrightarrow> foldFields (processCheckAccountField p) (field c ''username'' j) a =
    Parsed (a\<lparr>ca_Username := if c then t else ca_Username a\<rparr>)"
  "c \<longrightarrow> parseCheckBytes p j = Parsed t \<Longrightarrow> foldFields (processCheckAccountField p) (field c ''code'' j) a =
    Parsed (a\<lparr>ca_Code := if c then t else ca_Code a\<rparr>)"
  "c \<longrightarrow> parseCheckBytes p j = Parsed t \<Longrightarrow> foldFields (processCheckAccountField p) (field c ''owner'' j) a =
    Parsed (a\<lparr>ca_Owner := if c then t else ca_Owner a\<rparr>)"
  "c \<longrightarrow> parseCheckBytes p j = Parsed t \<Longrightarrow> foldFields (processCheckAccountField p) (field c ''asyncCallData'' j) a =
    Parsed (a\<lparr>ca_AsyncCallData := if c then t else ca_AsyncCallData a\<rparr>)"
  by (simp_all add: fold_field processCheckAccountField_def read_text read_checkUint64 read_checkBigInt)

lemma checkAccount_dcdt:
  assumes "if ignored then ds = [] else ok_checkTokens p ds"
  shows "foldFields (processCheckAccountField p) (field (ignored \<or> ds \<noteq> []) ''dcdt'' (if ignored then stringToOJ ''*'' else checkDCDTDataToOJ ds)) a =
    Parsed (a\<lparr>ca_IgnoreDCDT := if ignored \<or> ds \<noteq> [] then ignored else ca_IgnoreDCDT a, ca_CheckDCDTData := ca_CheckDCDTData a @ ds\<rparr>)"
  using assms read_checkTokens [of p ds]
  by (cases ignored) (auto simp: fold_field processCheckAccountField_def asMap_def stringToOJ_def IsStar_def)

lemma checkAccount_storage:
  assumes "if ignored then v = stringToOJ ''*'' \<and> sts = [] else (\<exists>es. v = OJsonMap es \<and> mapParsed (processStorageEntry p) es = Parsed sts)"
  shows "foldFields (processCheckAccountField p) (field True ''storage'' v) a =
    Parsed (a\<lparr>ca_IgnoreStorage := ignored, ca_CheckStorage := ca_CheckStorage a @ sts\<rparr>)"
  using assms by (cases ignored) (auto simp: fold_field processCheckAccountField_def asMap_def stringToOJ_def IsStar_def)

lemma read_checkAccount:
  assumes "ok_checkAccount p a"
  shows "\<exists>j. checkAccountEntryToOJ a = Some (jbs_Original (ca_Address a), j) \<and> processCheckAccount p j = Parsed (a\<lparr>ca_Address := zeroBytesFromString\<rparr>)"
proof -
  obtain u c w y where bytes: "checkBytesToOJ (ca_Username a) = Some u" "checkBytesToOJ (ca_Code a) = Some c"
      "checkBytesToOJ (ca_Owner a) = Some w" "checkBytesToOJ (ca_AsyncCallData a) = Some y"
    and parsed: "\<not> jcb_Unspecified (ca_Username a) \<longrightarrow> parseCheckBytes p u = Parsed (ca_Username a)"
      "\<not> jcb_Unspecified (ca_Code a) \<longrightarrow> parseCheckBytes p c = Parsed (ca_Code a)"
      "\<not> jcb_Unspecified (ca_Owner a) \<longrightarrow> parseCheckBytes p w = Parsed (ca_Owner a)"
      "\<not> jcb_Unspecified (ca_AsyncCallData a) \<longrightarrow> parseCheckBytes p y = Parsed (ca_AsyncCallData a)"
    using assms read_optCheckBytes [of p] unfolding ok_checkAccount_def by metis
  have numbers: "\<not> jcu_Unspecified (ca_Nonce a) \<longrightarrow> ok_checkUint64 p (ca_Nonce a)"
      "\<not> jcbi_Unspecified (ca_Balance a) \<longrightarrow> ok_checkBigInt p bigIntUnsignedBytes (ca_Balance a)"
    using assms by (simp_all add: ok_checkAccount_def ok_opt_defs)
  obtain v where v: "(if ca_IgnoreStorage a then Some (stringToOJ ''*'') else storageToOJ (ca_CheckStorage a)) = Some v"
    and storage: "if ca_IgnoreStorage a then v = stringToOJ ''*'' \<and> ca_CheckStorage a = []
      else (\<exists>es. v = OJsonMap es \<and> mapParsed (processStorageEntry p) es = Parsed (ca_CheckStorage a))"
    using assms read_storage [of p "ca_CheckStorage a"] by (auto simp: ok_checkAccount_def split: if_splits)
  have dcdt: "if ca_IgnoreDCDT a then ca_CheckDCDTData a = [] else ok_checkTokens p (ca_CheckDCDTData a)"
    using assms by (simp add: ok_checkAccount_def)
  have address: "bytesFromStringToString (ca_Address a) = jbs_Original (ca_Address a)"
    using assms ok_string_text [of p] by (simp add: ok_checkAccount_def ok_address_def)
  let ?fields = "field (ca_Comment a \<noteq> []) ''comment'' (stringToOJ (ca_Comment a)) @
      field (\<not> jcu_Unspecified (ca_Nonce a)) ''nonce'' (checkUint64ToOJ (ca_Nonce a)) @
      field (\<not> jcbi_Unspecified (ca_Balance a)) ''balance'' (checkBigIntToOJ (ca_Balance a)) @
      field (ca_IgnoreDCDT a \<or> ca_CheckDCDTData a \<noteq> []) ''dcdt'' (if ca_IgnoreDCDT a then stringToOJ ''*'' else checkDCDTDataToOJ (ca_CheckDCDTData a)) @
      field (\<not> jcb_Unspecified (ca_Username a)) ''username'' u @ field True ''storage'' v @ field (\<not> jcb_Unspecified (ca_Code a)) ''code'' c @
      field (\<not> jcb_Unspecified (ca_Owner a)) ''owner'' w @ field (\<not> jcb_Unspecified (ca_AsyncCallData a)) ''asyncCallData'' y"
  have j: "checkAccountEntryToOJ a = Some (jbs_Original (ca_Address a), OJsonMap ?fields)"
    by (simp add: checkAccountEntryToOJ_def v bytes put_simps address split del: if_split)
  have "processCheckAccount p (OJsonMap ?fields) = Parsed (newCheckAccount\<lparr>
      ca_Comment := if ca_Comment a \<noteq> [] then ca_Comment a else [],
      ca_Nonce := if \<not> jcu_Unspecified (ca_Nonce a) then ca_Nonce a else JSONCheckUint64Unspecified,
      ca_Balance := if \<not> jcbi_Unspecified (ca_Balance a) then ca_Balance a else JSONCheckBigIntUnspecified,
      ca_IgnoreDCDT := if ca_IgnoreDCDT a \<or> ca_CheckDCDTData a \<noteq> [] then ca_IgnoreDCDT a else False, ca_CheckDCDTData := ca_CheckDCDTData a,
      ca_Username := if \<not> jcb_Unspecified (ca_Username a) then ca_Username a else JSONCheckBytesUnspecified,
      ca_IgnoreStorage := ca_IgnoreStorage a, ca_CheckStorage := ca_CheckStorage a,
      ca_Code := if \<not> jcb_Unspecified (ca_Code a) then ca_Code a else JSONCheckBytesUnspecified,
      ca_Owner := if \<not> jcb_Unspecified (ca_Owner a) then ca_Owner a else JSONCheckBytesUnspecified,
      ca_AsyncCallData := if \<not> jcb_Unspecified (ca_AsyncCallData a) then ca_AsyncCallData a else JSONCheckBytesUnspecified\<rparr>)"
    unfolding processCheckAccount_def fieldsOf_def asMap_def option.case ojson.case
    by (simp only: foldFields_append checkAccount_fields(1) checkAccount_fields(2) [OF numbers(1)] checkAccount_fields(3) [OF numbers(2)]
        checkAccount_dcdt [OF dcdt] checkAccount_fields(4) [OF parsed(1)] checkAccount_storage [OF storage] checkAccount_fields(5) [OF parsed(2)]
        checkAccount_fields(6) [OF parsed(3)] checkAccount_fields(7) [OF parsed(4)] parse_then_simps)
      (simp add: newCheckAccount_def cong del: if_weak_cong split del: if_split)
  also have "\<dots> = Parsed (a\<lparr>ca_Address := zeroBytesFromString\<rparr>)"
    using assms by (cases a) (auto simp: ok_checkAccount_def newCheckAccount_def ok_opt_defs split: if_splits)
  finally show ?thesis using j by simp
qed

definition readCheckEntry :: "Parser \<Rightarrow> string \<times> ojson \<Rightarrow> CheckAccount parsed" where
  "readCheckEntry p = (\<lambda>(key, v). parse_then (processCheckAccount p v) (\<lambda>acct. parse_then (parseAccountAddress p key) (\<lambda>acctAddr. Parsed (acct\<lparr>ca_Address := acctAddr\<rparr>))))"

interpretation checkAccounts: codec checkAccountEntryToOJ "readCheckEntry p" "ok_checkAccount p" for p
proof unfold_locales
  fix a assume a: "ok_checkAccount p a"
  then obtain j where j: "checkAccountEntryToOJ a = Some (jbs_Original (ca_Address a), j)" "processCheckAccount p j = Parsed (a\<lparr>ca_Address := zeroBytesFromString\<rparr>)"
    using read_checkAccount by blast
  have "parseAccountAddress p (jbs_Original (ca_Address a)) = Parsed (ca_Address a)"
    using a read_address [of p "ca_Address a"] ok_string_text [of p] by (simp add: ok_checkAccount_def ok_address_def)
  with j show "\<exists>j. checkAccountEntryToOJ a = Some j \<and> readCheckEntry p j = Parsed a"
    by (simp add: readCheckEntry_def)
qed

lemma fold_checkEntries:
  "mapParsed (readCheckEntry p) es = Parsed as \<Longrightarrow> ''+'' \<notin> fst ` set es \<Longrightarrow>
    foldFields (processCheckAccountEntry p) es c = Parsed (c\<lparr>Accounts := Accounts c @ as\<rparr>)"
proof (induction es arbitrary: as c)
  case (Cons e es)
  then obtain a as' where a: "readCheckEntry p e = Parsed a" "mapParsed (readCheckEntry p) es = Parsed as'" "as = a # as'"
    by (auto simp: parse_then_def split: parsed.splits)
  then have "processCheckAccountEntry p (fst e) (snd e) c = Parsed (c\<lparr>Accounts := Accounts c @ [a]\<rparr>)"
    using Cons.prems by (auto simp: processCheckAccountEntry_def readCheckEntry_def parse_then_def split: prod.splits parsed.splits)
  with Cons a show ?case by simp
qed simp

lemma read_checkAccounts:
  assumes "ok_checkAccounts p c"
  shows "\<exists>j. checkAccountsToOJ c = Some j \<and> processCheckAccountMap p j = Parsed c"
proof -
  obtain es where es: "those (map checkAccountEntryToOJ (Accounts c)) = Some es" "mapParsed (readCheckEntry p) es = Parsed (Accounts c)"
    using checkAccounts.list_read_back [of p "Accounts c"] assms by (auto simp: ok_checkAccounts_def)
  have keys: "map fst es = map (jbs_Original \<circ> ca_Address) (Accounts c)"
  proof (rule those_keys [OF es(1)])
    fix a e assume "a \<in> set (Accounts c)" "checkAccountEntryToOJ a = Some e"
    then show "fst e = (jbs_Original \<circ> ca_Address) a"
      using read_checkAccount [of p a] assms by (auto simp: ok_checkAccounts_def list_all_iff)
  qed
  then have "fst ` set es = (jbs_Original \<circ> ca_Address) ` set (Accounts c)"
    by (metis list.set_map)
  with assms have plus: "''+'' \<notin> fst ` set es"
    by (auto simp: ok_checkAccounts_def ok_checkAccount_def list_all_iff)
  have "checkAccountsToOJ c = Some (OJsonMap (es @ field (OtherAccountsAllowed c) ''+'' (stringToOJ [])))"
    using assms keys plus es by (simp add: checkAccountsToOJ_def ok_checkAccounts_def putAll_distinct Put_field)
  moreover have "processCheckAccountMap p (OJsonMap (es @ field (OtherAccountsAllowed c) ''+'' (stringToOJ []))) = Parsed c"
    by (cases c) (simp add: processCheckAccountMap_def fieldsOf_def asMap_def fold_checkEntries [OF es(2) plus] fold_field processCheckAccountEntry_def)
  ultimately show ?thesis by blast
qed

end
