(* ===== verification/ScenRoundtripTx.thy ===== *)
theory ScenRoundtripTx
  imports ScenRoundtripChecks
begin

text \<open>
  Transactions that are written and read back.
\<close>

subsection \<open>Transactions\<close>

definition ok_txToken :: "Parser \<Rightarrow> DCDTTxData \<Rightarrow> bool" where
  "ok_txToken p d \<longleftrightarrow> ok_string p (dtx_TokenIdentifier d) \<and> ok_uint64 p (dtx_Nonce d) \<and> ok_optBigInt p (dtx_Value d)"

definition ok_unless :: "bool \<Rightarrow> bool \<Rightarrow> bool \<Rightarrow> bool" where
  \<comment> \<open>a field that is written is fit to be read back, one that is not has the first value\<close>
  "ok_unless written fit first \<longleftrightarrow> (if written then fit else first)"

definition ok_tx :: "Parser \<Rightarrow> Transaction \<Rightarrow> bool" where
  \<comment> \<open>the nonce is not written\<close>
  "ok_tx p tx \<longleftrightarrow> tx_Nonce tx = zeroUint64 \<and>
     ok_unless (HasSender (tx_Type tx)) (ok_address p (tx_From tx)) (tx_From tx = zeroBytesFromString) \<and>
     ok_unless (HasReceiver (tx_Type tx)) (ok_address p (tx_To tx)) (tx_To tx = zeroBytesFromString) \<and>
     ok_unless (HasValue (tx_Type tx)) (ok_bigInt p (tx_Value tx)) (tx_Value tx = JSONBigIntZero) \<and>
     (case tx_DCDTValue tx of None \<Rightarrow> True | Some d \<Rightarrow> HasDCDT (tx_Type tx) \<and> ok_txToken p d) \<and>
     (HasFunction (tx_Type tx) \<or> tx_Function tx = []) \<and>
     ok_unless (tx_Type tx = ScDeploy) (ok_string p (tx_Code tx)) (tx_Code tx = zeroBytesFromString) \<and>
     ok_unless (HasFunction (tx_Type tx) \<or> tx_Type tx = ScDeploy) (list_all (ok_tree p) (tx_Arguments tx)) (tx_Arguments tx = []) \<and>
     ok_unless (HasGas (tx_Type tx)) (ok_uint64 p (tx_GasPrice tx) \<and> ok_uint64 p (tx_GasLimit tx))
       (tx_GasPrice tx = zeroUint64 \<and> tx_GasLimit tx = zeroUint64)"

lemma string_zero: "ok_string p b \<Longrightarrow> jbs_Original b = [] \<Longrightarrow> b = zeroBytesFromString"
  by (cases b) (simp add: ok_string_def zeroBytesFromString_def)

lemma txToken_fields:
  "ok_string p s \<Longrightarrow> foldFields (processTxDCDTField p) (field (jbs_Original s \<noteq> []) ''tokenIdentifier'' (bytesFromStringToOJ s)) d =
    Parsed (d\<lparr>dtx_TokenIdentifier := if jbs_Original s \<noteq> [] then s else dtx_TokenIdentifier d\<rparr>)"
  "ok_uint64 p n \<Longrightarrow> foldFields (processTxDCDTField p) (field (ju_Original n \<noteq> []) ''nonce'' (uint64ToOJ n)) d =
    Parsed (d\<lparr>dtx_Nonce := if ju_Original n \<noteq> [] then n else dtx_Nonce d\<rparr>)"
  "ok_optBigInt p b \<Longrightarrow> foldFields (processTxDCDTField p) (field (jbi_Original b \<noteq> []) ''value'' (bigIntToOJ b)) d =
    Parsed (d\<lparr>dtx_Value := if jbi_Original b \<noteq> [] then b else dtx_Value d\<rparr>)"
  by (simp_all add: fold_field processTxDCDTField_def read_string read_uint64 read_bigInt ok_optBigInt_def)

lemma read_txToken:
  assumes "ok_txToken p d"
  shows "processTxDCDT p (dcdtTxDataToOJ d) = Parsed d"
proof -
  have ok: "ok_string p (dtx_TokenIdentifier d)" "ok_uint64 p (dtx_Nonce d)" "ok_optBigInt p (dtx_Value d)"
    using assms by (simp_all add: ok_txToken_def)
  have "processTxDCDT p (dcdtTxDataToOJ d) = Parsed \<lparr>
      dtx_TokenIdentifier = if jbs_Original (dtx_TokenIdentifier d) \<noteq> [] then dtx_TokenIdentifier d else zeroBytesFromString,
      dtx_Nonce = if ju_Original (dtx_Nonce d) \<noteq> [] then dtx_Nonce d else zeroUint64,
      dtx_Value = if jbi_Original (dtx_Value d) \<noteq> [] then dtx_Value d else zeroBigInt\<rparr>"
    by (simp add: processTxDCDT_def fieldsOf_def asMap_def dcdtTxDataToOJ_def put_simps txToken_fields ok cong del: if_weak_cong split del: if_split)
  also have "\<dots> = Parsed d"
    using ok by (cases d) (auto simp: ok_optBigInt_def dest: string_zero uint64_zero)
  finally show ?thesis .
qed

lemma tx_fields:
  "c \<longrightarrow> HasSender tt \<and> ok_address p s \<Longrightarrow> foldFields (processTxField p tt) (field c ''from'' (bytesFromStringToOJ s)) t =
    Parsed (t\<lparr>tx_From := if c then s else tx_From t\<rparr>)"
  "c \<longrightarrow> HasReceiver tt \<and> ok_address p s \<Longrightarrow> foldFields (processTxField p tt) (field c ''to'' (bytesFromStringToOJ s)) t =
    Parsed (t\<lparr>tx_To := if c then s else tx_To t\<rparr>)"
  "c \<longrightarrow> HasValue tt \<and> ok_bigInt p b \<Longrightarrow> foldFields (processTxField p tt) (field c ''value'' (bigIntToOJ b)) t =
    Parsed (t\<lparr>tx_Value := if c then b else tx_Value t\<rparr>)"
  "c \<longrightarrow> HasDCDT tt \<and> ok_txToken p d \<Longrightarrow> foldFields (processTxField p tt) (field c ''dcdt'' (dcdtTxDataToOJ d)) t =
    Parsed (t\<lparr>tx_DCDTValue := if c then Some d else tx_DCDTValue t\<rparr>)"
  "c \<longrightarrow> HasFunction tt \<Longrightarrow> foldFields (processTxField p tt) (field c ''function'' (stringToOJ x)) t =
    Parsed (t\<lparr>tx_Function := if c then x else tx_Function t\<rparr>)"
  "c \<longrightarrow> tt = ScDeploy \<and> ok_string p s \<Longrightarrow> foldFields (processTxField p tt) (field c ''contractCode'' (bytesFromStringToOJ s)) t =
    Parsed (t\<lparr>tx_Code := if c then s else tx_Code t\<rparr>)"
  "c \<longrightarrow> tt \<noteq> mj_Transfer \<and> mapParsed (processSubTreeAsByteArray p) l = Parsed ts \<Longrightarrow>
    foldFields (processTxField p tt) (field c ''arguments'' (OJsonList l)) t = Parsed (t\<lparr>tx_Arguments := if c then ts else tx_Arguments t\<rparr>)"
  "c \<longrightarrow> HasGas tt \<and> ok_uint64 p n \<Longrightarrow> foldFields (processTxField p tt) (field c ''gasLimit'' (uint64ToOJ n)) t =
    Parsed (t\<lparr>tx_GasLimit := if c then n else tx_GasLimit t\<rparr>)"
  "c \<longrightarrow> HasGas tt \<and> ok_uint64 p n \<Longrightarrow> foldFields (processTxField p tt) (field c ''gasPrice'' (uint64ToOJ n)) t =
    Parsed (t\<lparr>tx_GasPrice := if c then n else tx_GasPrice t\<rparr>)"
  by (simp_all add: fold_field processTxField_def read_text read_string read_uint64 read_bigInt read_addressOJ read_txToken parseSubTreeList_def listOf_def
      asList_def HasReceiver_def)

lemma read_transaction:
  assumes "ok_tx p tx"
  shows "\<exists>j. transactionToScenarioOJ tx = Some j \<and> processTx p (tx_Type tx) j = Parsed tx"
proof -
  let ?tt = "tx_Type tx" and ?args = "HasFunction (tx_Type tx) \<or> tx_Type tx = ScDeploy"
  let ?d = "tx_DCDTValue tx"
  have "list_all (ok_tree p) (if ?args then tx_Arguments tx else [])"
    using assms by (simp add: ok_tx_def ok_unless_def)
  then obtain l where l: "those (map bytesFromTreeToOJ (if ?args then tx_Arguments tx else [])) = Some l"
    and args: "mapParsed (processSubTreeAsByteArray p) l = Parsed (if ?args then tx_Arguments tx else [])"
    using tree.list_read_back by blast
  have ok: "HasSender ?tt \<longrightarrow> HasSender ?tt \<and> ok_address p (tx_From tx)" "HasReceiver ?tt \<longrightarrow> HasReceiver ?tt \<and> ok_address p (tx_To tx)"
    "HasValue ?tt \<longrightarrow> HasValue ?tt \<and> ok_bigInt p (tx_Value tx)" "?d \<noteq> None \<longrightarrow> HasDCDT ?tt \<and> ok_txToken p (the ?d)"
    "HasFunction ?tt \<longrightarrow> HasFunction ?tt" "?tt = ScDeploy \<longrightarrow> ?tt = ScDeploy \<and> ok_string p (tx_Code tx)"
    "?args \<longrightarrow> ?tt \<noteq> mj_Transfer \<and> mapParsed (processSubTreeAsByteArray p) l = Parsed (if ?args then tx_Arguments tx else [])"
    "HasGas ?tt \<longrightarrow> HasGas ?tt \<and> ok_uint64 p (tx_GasLimit tx)" "HasGas ?tt \<longrightarrow> HasGas ?tt \<and> ok_uint64 p (tx_GasPrice tx)"
    using assms args by (auto simp: ok_tx_def ok_unless_def HasFunction_def split: option.splits)
  let ?fields = "field (HasSender ?tt) ''from'' (bytesFromStringToOJ (tx_From tx)) @ field (HasReceiver ?tt) ''to'' (bytesFromStringToOJ (tx_To tx)) @
      field (HasValue ?tt) ''value'' (bigIntToOJ (tx_Value tx)) @ field (?d \<noteq> None) ''dcdt'' (dcdtTxDataToOJ (the ?d)) @
      field (HasFunction ?tt) ''function'' (stringToOJ (tx_Function tx)) @ field (?tt = ScDeploy) ''contractCode'' (bytesFromStringToOJ (tx_Code tx)) @
      field ?args ''arguments'' (OJsonList l) @ field (HasGas ?tt) ''gasLimit'' (uint64ToOJ (tx_GasLimit tx)) @
      field (HasGas ?tt) ''gasPrice'' (uint64ToOJ (tx_GasPrice tx))"
  have dcdt: "(case ?d of Some dcdt \<Rightarrow> oj_Put ''dcdt'' (dcdtTxDataToOJ dcdt) m | None \<Rightarrow> m) = putIf (?d \<noteq> None) ''dcdt'' (dcdtTxDataToOJ (the ?d)) m" for m
    by (simp add: putIf_def split: option.splits)
  have j: "transactionToScenarioOJ tx = Some (OJsonMap ?fields)"
    unfolding transactionToScenarioOJ_def dcdt l by (simp add: put_simps split del: if_split)
  have "processTx p ?tt (OJsonMap ?fields) = Parsed ((newTransaction ?tt)\<lparr>
      tx_From := if HasSender ?tt then tx_From tx else zeroBytesFromString, tx_To := if HasReceiver ?tt then tx_To tx else zeroBytesFromString,
      tx_Value := if HasValue ?tt then tx_Value tx else JSONBigIntZero, tx_DCDTValue := if ?d \<noteq> None then Some (the ?d) else None,
      tx_Function := if HasFunction ?tt then tx_Function tx else [], tx_Code := if ?tt = ScDeploy then tx_Code tx else zeroBytesFromString,
      tx_Arguments := if ?args then if ?args then tx_Arguments tx else [] else [], tx_GasLimit := if HasGas ?tt then tx_GasLimit tx else zeroUint64,
      tx_GasPrice := if HasGas ?tt then tx_GasPrice tx else zeroUint64\<rparr>)"
    unfolding processTx_def fieldsOf_def asMap_def option.case ojson.case
    by (simp only: foldFields_append tx_fields(1) [OF ok(1)] tx_fields(2) [OF ok(2)] tx_fields(3) [OF ok(3)] tx_fields(4) [OF ok(4)]
        tx_fields(5) [OF ok(5)] tx_fields(6) [OF ok(6)] tx_fields(7) [OF ok(7)] tx_fields(8) [OF ok(8)] tx_fields(9) [OF ok(9)] parse_then_simps)
      (simp add: newTransaction_def cong del: if_weak_cong split del: if_split)
  also have "\<dots> = Parsed tx"
    using assms by (cases tx) (auto simp: ok_tx_def ok_unless_def newTransaction_def split: if_splits)
  finally show ?thesis using j by blast
qed

end
