(* ===== verification/ScenRoundtripSteps.thy ===== *)
theory ScenRoundtripSteps
  imports ScenRoundtripTx
begin

text \<open>
  Expected results, block information, mocked addresses, steps and whole scenarios that are written and read back.
\<close>

subsection \<open>Results\<close>

definition ok_log :: "Parser \<Rightarrow> mj_LogEntry \<Rightarrow> bool" where
  "ok_log p l \<longleftrightarrow> ok_checkBytes p (mle_Address l) \<and> ok_checkBytes p (mle_Identifier l) \<and> list_all (ok_checkBytes p) (mle_Topics l) \<and>
     ok_checkBytes p (mle_Data l)"

definition ok_logs :: "Parser \<Rightarrow> TransactionResult \<Rightarrow> bool" where
  \<comment> \<open>one of: not written, a star, a hash, a list\<close>
  "ok_logs p r \<longleftrightarrow>
     (if tr_LogsUnspecified r then tr_LogsStar r \<and> tr_LogHash r = [] \<and> tr_Logs r = []
      else if tr_LogsStar r then tr_LogHash r = [] \<and> tr_Logs r = []
      else if tr_LogHash r \<noteq> [] then tr_LogHash r \<noteq> ''*'' \<and> tr_Logs r = []
      else list_all (ok_log p) (tr_Logs r))"

definition ok_result :: "Parser \<Rightarrow> TransactionResult \<Rightarrow> bool" where
  "ok_result p r \<longleftrightarrow> list_all (ok_checkBytes p) (tr_Out r) \<and> ok_optBig p bigIntSignedBytes (tr_Status r) \<and> ok_optCheckBytes p (tr_Message r) \<and>
     ok_logs p r \<and> ok_optUint64 p (tr_Gas r) \<and> ok_optBig p bigIntUnsignedBytes (tr_Refund r)"

lemma log_fields:
  "parseCheckBytes p j = Parsed b \<Longrightarrow> processLogField p ''address'' j l = Parsed (l\<lparr>mle_Address := b\<rparr>)"
  "parseCheckBytes p j = Parsed b \<Longrightarrow> processLogField p ''identifier'' j l = Parsed (l\<lparr>mle_Identifier := b\<rparr>)"
  "parseCheckBytes p j = Parsed b \<Longrightarrow> processLogField p ''data'' j l = Parsed (l\<lparr>mle_Data := b\<rparr>)"
  "mapParsed (parseCheckBytes p) js = Parsed bs \<Longrightarrow> processLogField p ''topics'' (OJsonList js) l = Parsed (l\<lparr>mle_Topics := bs\<rparr>)"
  by (simp_all add: processLogField_def parseCheckBytesList_def listOf_def asList_def)

interpretation logs: codec logToOJ "fieldsOf ''unmarshalled log entry is not a map'' (processLogField p) zeroLogEntry" "ok_log p" for p
proof unfold_locales
  fix l assume l: "ok_log p l"
  then obtain a i d where "checkBytesToOJ (mle_Address l) = Some a" "checkBytesToOJ (mle_Identifier l) = Some i" "checkBytesToOJ (mle_Data l) = Some d"
    and read: "parseCheckBytes p a = Parsed (mle_Address l)" "parseCheckBytes p i = Parsed (mle_Identifier l)" "parseCheckBytes p d = Parsed (mle_Data l)"
    using read_checkBytes [of p] unfolding ok_log_def by metis
  moreover obtain ts where "those (map checkBytesToOJ (mle_Topics l)) = Some ts" and topics: "mapParsed (parseCheckBytes p) ts = Parsed (mle_Topics l)"
    using l checkBytes.list_read_back [of p "mle_Topics l"] by (auto simp: ok_log_def)
  ultimately have "logToOJ l = Some (OJsonMap [(''address'', a), (''identifier'', i), (''topics'', OJsonList ts), (''data'', d)])"
    by (simp add: logToOJ_def oj_Put_def)
  moreover have "fieldsOf ''unmarshalled log entry is not a map'' (processLogField p) zeroLogEntry
      (OJsonMap [(''address'', a), (''identifier'', i), (''topics'', OJsonList ts), (''data'', d)]) = Parsed l"
    using read topics by (simp add: fieldsOf_def asMap_def log_fields zeroLogEntry_def)
  ultimately show "\<exists>j. logToOJ l = Some j \<and> fieldsOf ''unmarshalled log entry is not a map'' (processLogField p) zeroLogEntry j = Parsed l"
    by blast
qed

definition logsJson :: "TransactionResult \<Rightarrow> ojson option" where
  "logsJson r = (if tr_LogsStar r then Some (stringToOJ ''*'') else if length (tr_LogHash r) > 0 then Some (stringToOJ (tr_LogHash r)) else logsToOJ (tr_Logs r))"

lemma read_logs:
  assumes "ok_logs p r"
  shows "\<exists>j. logsJson r = Some j \<and> (\<not> tr_LogsUnspecified r \<longrightarrow> tr_LogHash s = [] \<longrightarrow> tr_Logs s = [] \<longrightarrow>
    processTxExpectedResultField p ''logs'' j s =
      Parsed (s\<lparr>tr_LogsUnspecified := False, tr_LogsStar := tr_LogsStar r, tr_LogHash := tr_LogHash r, tr_Logs := tr_Logs r\<rparr>))"
proof (cases "tr_LogsUnspecified r \<or> tr_LogsStar r \<or> tr_LogHash r \<noteq> []")
  case True
  with assms show ?thesis
    by (cases s) (auto simp: ok_logs_def logsJson_def processTxExpectedResultField_def IsStar_def stringToOJ_def Let_def split: if_splits)
next
  case False
  with assms obtain js where js: "those (map logToOJ (tr_Logs r)) = Some js" "processLogList p (OJsonList js) = Parsed (tr_Logs r)"
    using logs.list_read_back [of p "tr_Logs r"] by (auto simp: ok_logs_def processLogList_def listOf_def asList_def)
  with False show ?thesis
    by (auto simp: logsJson_def logsToOJ_def processTxExpectedResultField_def IsStar_def Let_def)
qed

lemma result_fields:
  "mapParsed (parseCheckBytes p) js = Parsed bs \<Longrightarrow> foldFields (processTxExpectedResultField p) (field True ''out'' (OJsonList js)) r =
    Parsed (r\<lparr>tr_Out := bs\<rparr>)"
  "c \<longrightarrow> ok_checkBigInt p bigIntSignedBytes b \<Longrightarrow> foldFields (processTxExpectedResultField p) (field c ''status'' (checkBigIntToOJ b)) r =
    Parsed (r\<lparr>tr_Status := if c then b else tr_Status r\<rparr>)"
  "c \<longrightarrow> parseCheckBytes p j = Parsed t \<Longrightarrow> foldFields (processTxExpectedResultField p) (field c ''message'' j) r =
    Parsed (r\<lparr>tr_Message := if c then t else tr_Message r\<rparr>)"
  "c \<longrightarrow> ok_checkUint64 p n \<Longrightarrow> foldFields (processTxExpectedResultField p) (field c ''gas'' (checkUint64ToOJ n)) r =
    Parsed (r\<lparr>tr_Gas := if c then n else tr_Gas r\<rparr>)"
  "c \<longrightarrow> ok_checkBigInt p bigIntUnsignedBytes b \<Longrightarrow> foldFields (processTxExpectedResultField p) (field c ''refund'' (checkBigIntToOJ b)) r =
    Parsed (r\<lparr>tr_Refund := if c then b else tr_Refund r\<rparr>)"
  by (simp_all add: fold_field processTxExpectedResultField_def read_checkUint64 read_checkBigInt parseCheckBytesList_def listOf_def asList_def)

lemma read_result:
  assumes "ok_result p r"
  shows "\<exists>j. resultToOJ r = Some j \<and> processTxExpectedResult p j = Parsed r"
proof -
  obtain js where js: "those (map checkBytesToOJ (tr_Out r)) = Some js" and out: "mapParsed (parseCheckBytes p) js = Parsed (tr_Out r)"
    using assms checkBytes.list_read_back [of p "tr_Out r"] by (auto simp: ok_result_def)
  obtain m where m: "checkBytesToOJ (tr_Message r) = Some m" and message: "\<not> jcb_Unspecified (tr_Message r) \<longrightarrow> parseCheckBytes p m = Parsed (tr_Message r)"
    using assms read_optCheckBytes [of p "tr_Message r"] by (auto simp: ok_result_def)
  let ?s = "newTransactionResult\<lparr>tr_Out := tr_Out r, tr_Status := if \<not> jcbi_Unspecified (tr_Status r) then tr_Status r else JSONCheckBigIntUnspecified,
      tr_Message := if \<not> jcb_Unspecified (tr_Message r) then tr_Message r else JSONCheckBytesUnspecified\<rparr>"
  obtain l where l: "logsJson r = Some l" and logs: "\<not> tr_LogsUnspecified r \<longrightarrow> processTxExpectedResultField p ''logs'' l ?s =
      Parsed (?s\<lparr>tr_LogsUnspecified := False, tr_LogsStar := tr_LogsStar r, tr_LogHash := tr_LogHash r, tr_Logs := tr_Logs r\<rparr>)"
    using assms read_logs [of p r ?s] by (auto simp: ok_result_def newTransactionResult_def)
  have numbers: "\<not> jcbi_Unspecified (tr_Status r) \<longrightarrow> ok_checkBigInt p bigIntSignedBytes (tr_Status r)"
      "\<not> jcu_Unspecified (tr_Gas r) \<longrightarrow> ok_checkUint64 p (tr_Gas r)"
      "\<not> jcbi_Unspecified (tr_Refund r) \<longrightarrow> ok_checkBigInt p bigIntUnsignedBytes (tr_Refund r)"
    using assms by (simp_all add: ok_result_def ok_opt_defs)
  let ?first = "field True ''out'' (OJsonList js) @ field (\<not> jcbi_Unspecified (tr_Status r)) ''status'' (checkBigIntToOJ (tr_Status r)) @
      field (\<not> jcb_Unspecified (tr_Message r)) ''message'' m"
  let ?last = "field (\<not> jcu_Unspecified (tr_Gas r)) ''gas'' (checkUint64ToOJ (tr_Gas r)) @
      field (\<not> jcbi_Unspecified (tr_Refund r)) ''refund'' (checkBigIntToOJ (tr_Refund r))"
  have j: "resultToOJ r = Some (OJsonMap (?first @ field (\<not> tr_LogsUnspecified r) ''logs'' l @ ?last))"
    unfolding resultToOJ_def js m by (simp only: l [unfolded logsJson_def]) (simp add: put_simps split del: if_split)
  have "foldFields (processTxExpectedResultField p) ?first newTransactionResult = Parsed ?s"
    by (simp only: foldFields_append result_fields(1) [OF out] result_fields(2) [OF numbers(1)] result_fields(3) [OF message] parse_then_simps)
      (simp add: newTransactionResult_def cong del: if_weak_cong split del: if_split)
  moreover have "foldFields (processTxExpectedResultField p) (field (\<not> tr_LogsUnspecified r) ''logs'' l) ?s =
      Parsed (?s\<lparr>tr_LogsUnspecified := tr_LogsUnspecified r, tr_LogsStar := tr_LogsStar r, tr_LogHash := tr_LogHash r, tr_Logs := tr_Logs r\<rparr>)"
    using logs assms by (simp add: fold_field ok_result_def ok_logs_def newTransactionResult_def)
  moreover have "foldFields (processTxExpectedResultField p) ?last
      (?s\<lparr>tr_LogsUnspecified := tr_LogsUnspecified r, tr_LogsStar := tr_LogsStar r, tr_LogHash := tr_LogHash r, tr_Logs := tr_Logs r\<rparr>) = Parsed r"
    unfolding foldFields_append result_fields(4) [OF numbers(2)] result_fields(5) [OF numbers(3)] parse_then_simps
    using assms by (cases r) (auto simp: newTransactionResult_def ok_result_def ok_opt_defs split: if_splits)
  ultimately have "processTxExpectedResult p (OJsonMap (?first @ field (\<not> tr_LogsUnspecified r) ''logs'' l @ ?last)) = Parsed r"
    by (simp only: processTxExpectedResult_def fieldsOf_def asMap_def option.case ojson.case foldFields_append parse_then_simps)
  with j show ?thesis by blast
qed

subsection \<open>Block information and mocked addresses\<close>

definition ok_blockInfo :: "Parser \<Rightarrow> BlockInfo \<Rightarrow> bool" where
  "ok_blockInfo p i \<longleftrightarrow> ok_uint64 p (BlockTimestamp i) \<and> ok_uint64 p (BlockNonce i) \<and> ok_uint64 p (BlockRound i) \<and> ok_uint64 p (BlockEpoch i) \<and>
     (case BlockRandomSeed i of None \<Rightarrow> True | Some seed \<Rightarrow> ok_tree p seed \<and> length (jbt_Value seed) = 48)"

definition ok_mock :: "Parser \<Rightarrow> NewAddressMock \<Rightarrow> bool" where
  "ok_mock p n \<longleftrightarrow> ok_address p (nam_CreatorAddress n) \<and> ok_uint64 p (nam_CreatorNonce n) \<and> ok_address p (nam_NewAddress n)"

lemma blockInfo_fields:
  "ok_uint64 p n \<Longrightarrow> foldFields (processBlockInfoField p) (field (ju_Original n \<noteq> []) ''blockTimestamp'' (uint64ToOJ n)) i =
    Parsed (i\<lparr>BlockTimestamp := if ju_Original n \<noteq> [] then n else BlockTimestamp i\<rparr>)"
  "ok_uint64 p n \<Longrightarrow> foldFields (processBlockInfoField p) (field (ju_Original n \<noteq> []) ''blockNonce'' (uint64ToOJ n)) i =
    Parsed (i\<lparr>BlockNonce := if ju_Original n \<noteq> [] then n else BlockNonce i\<rparr>)"
  "ok_uint64 p n \<Longrightarrow> foldFields (processBlockInfoField p) (field (ju_Original n \<noteq> []) ''blockRound'' (uint64ToOJ n)) i =
    Parsed (i\<lparr>BlockRound := if ju_Original n \<noteq> [] then n else BlockRound i\<rparr>)"
  "ok_uint64 p n \<Longrightarrow> foldFields (processBlockInfoField p) (field (ju_Original n \<noteq> []) ''blockEpoch'' (uint64ToOJ n)) i =
    Parsed (i\<lparr>BlockEpoch := if ju_Original n \<noteq> [] then n else BlockEpoch i\<rparr>)"
  by (simp_all add: fold_field processBlockInfoField_def read_uint64)

lemma read_blockInfo:
  assumes "ok_blockInfo p i"
  shows "\<exists>j. blockInfoToOJ i = Some j \<and> processBlockInfo p j = Parsed i"
proof -
  have ok: "ok_uint64 p (BlockTimestamp i)" "ok_uint64 p (BlockNonce i)" "ok_uint64 p (BlockRound i)" "ok_uint64 p (BlockEpoch i)"
    using assms by (simp_all add: ok_blockInfo_def)
  let ?first = "field (ju_Original (BlockTimestamp i) \<noteq> []) ''blockTimestamp'' (uint64ToOJ (BlockTimestamp i)) @
      field (ju_Original (BlockNonce i) \<noteq> []) ''blockNonce'' (uint64ToOJ (BlockNonce i)) @
      field (ju_Original (BlockRound i) \<noteq> []) ''blockRound'' (uint64ToOJ (BlockRound i)) @
      field (ju_Original (BlockEpoch i) \<noteq> []) ''blockEpoch'' (uint64ToOJ (BlockEpoch i))"
  have first: "foldFields (processBlockInfoField p) ?first
      \<lparr>BlockTimestamp = zeroUint64, BlockNonce = zeroUint64, BlockRound = zeroUint64, BlockEpoch = zeroUint64, BlockRandomSeed = None\<rparr> =
    Parsed (i\<lparr>BlockRandomSeed := None\<rparr>)"
    unfolding foldFields_append blockInfo_fields(1) [OF ok(1)] blockInfo_fields(2) [OF ok(2)] blockInfo_fields(3) [OF ok(3)]
      blockInfo_fields(4) [OF ok(4)] parse_then_simps
    using ok by (cases i) (auto dest: uint64_zero)
  show ?thesis
  proof (cases "BlockRandomSeed i")
    case None
    then have "blockInfoToOJ i = Some (OJsonMap ?first)"
      by (simp add: blockInfoToOJ_def put_simps split del: if_split)
    moreover have "processBlockInfo p (OJsonMap ?first) = Parsed i"
      using None by (simp only: processBlockInfo_def fieldsOf_def asMap_def option.case ojson.case first) (cases i; simp)
    ultimately show ?thesis by blast
  next
    case (Some seed)
    with assms obtain j where j: "bytesFromTreeToOJ seed = Some j" "processSubTreeAsByteArray p j = Parsed seed"
      using read_tree [of p seed] by (auto simp: ok_blockInfo_def)
    with Some have "blockInfoToOJ i = Some (OJsonMap (?first @ field True ''blockRandomSeed'' j))"
      by (simp add: blockInfoToOJ_def put_simps split del: if_split)
    moreover have "foldFields (processBlockInfoField p) (field True ''blockRandomSeed'' j) (i\<lparr>BlockRandomSeed := None\<rparr>) = Parsed i"
      using assms Some j(2) by (cases i) (simp add: fold_field processBlockInfoField_def ok_blockInfo_def)
    then have "processBlockInfo p (OJsonMap (?first @ field True ''blockRandomSeed'' j)) = Parsed i"
      by (simp only: processBlockInfo_def fieldsOf_def asMap_def option.case ojson.case foldFields_append [of _ ?first] first parse_then_simps)
    ultimately show ?thesis by blast
  qed
qed

lemma read_mocks:
  assumes "list_all (ok_mock p) ns"
  shows "processNewAddressMocks p (newAddressMocksToOJ ns) = Parsed ns"
  using assms
proof (induction ns)
  case (Cons n ns)
  then show ?case
    by (cases n) (simp add: processNewAddressMocks_def newAddressMocksToOJ_def listOf_def asList_def fieldsOf_def asMap_def oj_Put_def ok_mock_def
        processNewAddressMockField_def read_addressOJ read_uint64)
qed (simp add: processNewAddressMocks_def newAddressMocksToOJ_def listOf_def asList_def)

subsection \<open>Steps\<close>

definition ok_setState :: "Parser \<Rightarrow> SetStateStep \<Rightarrow> bool" where
  "ok_setState p s \<longleftrightarrow> ok_accounts p (set_Accounts s) \<and> list_all (ok_mock p) (set_NewAddressMocks s) \<and>
     (case set_PreviousBlockInfo s of None \<Rightarrow> True | Some i \<Rightarrow> ok_blockInfo p i) \<and>
     (case set_CurrentBlockInfo s of None \<Rightarrow> True | Some i \<Rightarrow> ok_blockInfo p i) \<and> list_all (ok_string p) (set_BlockHashes s)"

definition ok_txStep :: "Parser \<Rightarrow> TxStep \<Rightarrow> bool" where
  "ok_txStep p s \<longleftrightarrow> (case txs_Tx s of None \<Rightarrow> False | Some tx \<Rightarrow> ok_tx p tx \<and>
     (case txs_ExpectedResult s of None \<Rightarrow> True | Some r \<Rightarrow> IsSmartContractTx (tx_Type tx) \<and> ok_result p r))"

definition ok_step :: "Parser \<Rightarrow> Step \<Rightarrow> bool" where
  "ok_step p step = (case step of
     ExternalSteps s \<Rightarrow> True
   | SetState s \<Rightarrow> ok_setState p s
   | CheckState s \<Rightarrow> (case chk_CheckAccounts s of None \<Rightarrow> False | Some c \<Rightarrow> ok_checkAccounts p c)
   | DumpState s \<Rightarrow> True
   | Tx s \<Rightarrow> ok_txStep p s)"

lemma step_type: "''step'' \<notin> fst ` set m \<Longrightarrow> parseStepType (field True ''step'' (stringToOJ name) @ m) = Parsed name"
proof -
  have "foldFields (\<lambda>key v name. if key = ''step'' then wrapping ''step type not a string'' (parseString v) else Parsed name) m name = Parsed name"
    if "''step'' \<notin> fst ` set m" for name
    using that by (induction m) auto
  then show "''step'' \<notin> fst ` set m \<Longrightarrow> ?thesis"
    by (simp add: parseStepType_def fold_field read_text)
qed

lemma external_fields:
  "foldFields externalStepsField (field True ''step'' j) s = Parsed s"
  "foldFields externalStepsField (field c ''comment'' (stringToOJ x)) s = Parsed (s\<lparr>ext_Comment := if c then x else ext_Comment s\<rparr>)"
  "foldFields externalStepsField (field True ''path'' (stringToOJ x)) s = Parsed (s\<lparr>ext_Path := x\<rparr>)"
  by (simp_all add: fold_field externalStepsField_def read_text)

lemma setState_fields:
  "foldFields (setStateField p) (field True ''step'' j) s = Parsed s"
  "foldFields (setStateField p) (field c ''comment'' (stringToOJ x)) s = Parsed (s\<lparr>set_Comment := if c then x else set_Comment s\<rparr>)"
  "c \<longrightarrow> processAccountMap p j = Parsed as \<Longrightarrow> foldFields (setStateField p) (field c ''accounts'' j) s =
    Parsed (s\<lparr>set_Accounts := if c then as else set_Accounts s\<rparr>)"
  "list_all (ok_mock p) ns \<Longrightarrow> foldFields (setStateField p) (field c ''newAddresses'' (newAddressMocksToOJ ns)) s =
    Parsed (s\<lparr>set_NewAddressMocks := if c then ns else set_NewAddressMocks s\<rparr>)"
  "info \<noteq> None \<longrightarrow> processBlockInfo p j = Parsed (the info) \<Longrightarrow> foldFields (setStateField p) (field (info \<noteq> None) ''previousBlockInfo'' j) s =
    Parsed (s\<lparr>set_PreviousBlockInfo := if info \<noteq> None then info else set_PreviousBlockInfo s\<rparr>)"
  "info \<noteq> None \<longrightarrow> processBlockInfo p j = Parsed (the info) \<Longrightarrow> foldFields (setStateField p) (field (info \<noteq> None) ''currentBlockInfo'' j) s =
    Parsed (s\<lparr>set_CurrentBlockInfo := if info \<noteq> None then info else set_CurrentBlockInfo s\<rparr>)"
  "list_all (ok_string p) hs \<Longrightarrow> foldFields (setStateField p) (field c ''blockHashes'' (blockHashesToOJ hs)) s =
    Parsed (s\<lparr>set_BlockHashes := if c then hs else set_BlockHashes s\<rparr>)"
  by (auto simp: fold_field setStateField_def read_text read_mocks blockHashesToOJ_def parseByteArrayList_def listOf_def asList_def read_strings)

lemma read_optInfo:
  assumes "case info of None \<Rightarrow> True | Some i \<Rightarrow> ok_blockInfo p i"
  obtains j where "\<And>m. (case info of None \<Rightarrow> Some m | Some i \<Rightarrow> map_option (\<lambda>v. oj_Put key v m) (blockInfoToOJ i)) = Some (putIf (info \<noteq> None) key j m)"
    "info \<noteq> None \<longrightarrow> processBlockInfo p j = Parsed (the info)"
proof (cases info)
  case None
  then show ?thesis by (intro that [of undefined]) (simp_all add: putIf_def)
next
  case (Some i)
  with assms obtain j where "blockInfoToOJ i = Some j" "processBlockInfo p j = Parsed i"
    using read_blockInfo [of p i] by auto
  with Some show ?thesis by (intro that [of j]) (simp_all add: putIf_def)
qed

lemma read_setState:
  assumes "ok_setState p s"
  shows "\<exists>j. stepToOJ (SetState s) = Some j \<and> processScenarioStep p j = Parsed (SetState s)"
proof -
  obtain a where a: "AccountsToOJ (set_Accounts s) = Some a" and accounts: "set_Accounts s \<noteq> [] \<longrightarrow> processAccountMap p a = Parsed (set_Accounts s)"
    using assms read_accounts [of p "set_Accounts s"] by (auto simp: ok_setState_def)
  have infos: "case set_PreviousBlockInfo s of None \<Rightarrow> True | Some i \<Rightarrow> ok_blockInfo p i" "case set_CurrentBlockInfo s of None \<Rightarrow> True | Some i \<Rightarrow> ok_blockInfo p i"
    and mocks: "list_all (ok_mock p) (set_NewAddressMocks s)" and hashes: "list_all (ok_string p) (set_BlockHashes s)"
    using assms by (simp_all add: ok_setState_def)
  obtain v where v: "\<And>m. (case set_PreviousBlockInfo s of None \<Rightarrow> Some m | Some i \<Rightarrow> map_option (\<lambda>v. oj_Put ''previousBlockInfo'' v m) (blockInfoToOJ i)) =
      Some (putIf (set_PreviousBlockInfo s \<noteq> None) ''previousBlockInfo'' v m)"
    and previous: "set_PreviousBlockInfo s \<noteq> None \<longrightarrow> processBlockInfo p v = Parsed (the (set_PreviousBlockInfo s))"
    using read_optInfo [OF infos(1)] by blast
  obtain w where w: "\<And>m. (case set_CurrentBlockInfo s of None \<Rightarrow> Some m | Some i \<Rightarrow> map_option (\<lambda>v. oj_Put ''currentBlockInfo'' v m) (blockInfoToOJ i)) =
      Some (putIf (set_CurrentBlockInfo s \<noteq> None) ''currentBlockInfo'' w m)"
    and current: "set_CurrentBlockInfo s \<noteq> None \<longrightarrow> processBlockInfo p w = Parsed (the (set_CurrentBlockInfo s))"
    using read_optInfo [OF infos(2)] by blast
  let ?rest = "field (set_Comment s \<noteq> []) ''comment'' (stringToOJ (set_Comment s)) @ field (set_Accounts s \<noteq> []) ''accounts'' a @
      field (set_NewAddressMocks s \<noteq> []) ''newAddresses'' (newAddressMocksToOJ (set_NewAddressMocks s)) @
      field (set_PreviousBlockInfo s \<noteq> None) ''previousBlockInfo'' v @ field (set_CurrentBlockInfo s \<noteq> None) ''currentBlockInfo'' w @
      field (set_BlockHashes s \<noteq> []) ''blockHashes'' (blockHashesToOJ (set_BlockHashes s))"
  let ?m = "field True ''step'' (stringToOJ ''setState'') @ ?rest"
  have j: "stepToOJ (SetState s) = Some (OJsonMap ?m)"
    unfolding stepToOJ_def StepTypeName_def Step.case a v w by (simp add: put_simps split del: if_split)
  have "foldFields (setStateField p) ?m \<lparr>set_Comment = [], set_Accounts = [], set_PreviousBlockInfo = None, set_CurrentBlockInfo = None,
      set_BlockHashes = [], set_NewAddressMocks = []\<rparr> = Parsed s"
    unfolding foldFields_append setState_fields(1) setState_fields(2) setState_fields(3) [OF accounts] setState_fields(4) [OF mocks]
      setState_fields(5) [OF previous] setState_fields(6) [OF current] setState_fields(7) [OF hashes] parse_then_simps
    by (cases s) auto
  moreover have "parseStepType ?m = Parsed ''setState''"
    by (rule step_type) (simp add: image_Un field_keys)
  ultimately have "processScenarioStep p (OJsonMap ?m) = Parsed (SetState s)"
    by (simp only: processScenarioStep_def asMap_def option.case ojson.case parse_then_simps) simp
  with j show ?thesis by blast
qed

lemma read_external: "\<exists>j. stepToOJ (ExternalSteps s) = Some j \<and> processScenarioStep p j = Parsed (ExternalSteps s)"
proof -
  let ?rest = "field (ext_Comment s \<noteq> []) ''comment'' (stringToOJ (ext_Comment s)) @ field True ''path'' (stringToOJ (ext_Path s))"
  let ?m = "field True ''step'' (stringToOJ ''externalSteps'') @ ?rest"
  have j: "stepToOJ (ExternalSteps s) = Some (OJsonMap ?m)"
    unfolding stepToOJ_def StepTypeName_def Step.case by (simp add: put_simps)
  have "foldFields externalStepsField ?m \<lparr>ext_Comment = [], ext_Path = []\<rparr> = Parsed s"
    unfolding foldFields_append external_fields parse_then_simps by (cases s) auto
  moreover have "parseStepType ?m = Parsed ''externalSteps''"
    by (rule step_type) (simp add: image_Un field_keys)
  ultimately have "processScenarioStep p (OJsonMap ?m) = Parsed (ExternalSteps s)"
    by (simp only: processScenarioStep_def asMap_def option.case ojson.case parse_then_simps) simp
  with j show ?thesis by blast
qed

lemma read_dump: "\<exists>j. stepToOJ (DumpState s) = Some j \<and> processScenarioStep p j = Parsed (DumpState s)"
proof -
  let ?m = "field True ''step'' (stringToOJ ''dumpState'') @ field (dump_Comment s \<noteq> []) ''comment'' (stringToOJ (dump_Comment s))"
  have j: "stepToOJ (DumpState s) = Some (OJsonMap ?m)"
    unfolding stepToOJ_def StepTypeName_def Step.case by (simp add: put_simps)
  have "foldFields dumpStateField ?m \<lparr>dump_Comment = []\<rparr> = Parsed s"
    by (cases s) (simp add: fold_field dumpStateField_def read_text)
  moreover have "parseStepType ?m = Parsed ''dumpState''"
    by (rule step_type) (simp add: field_keys)
  ultimately have "processScenarioStep p (OJsonMap ?m) = Parsed (DumpState s)"
    by (simp only: processScenarioStep_def asMap_def option.case ojson.case parse_then_simps) simp
  with j show ?thesis by blast
qed

lemma read_checkState:
  assumes "chk_CheckAccounts s = Some c" "ok_checkAccounts p c"
  shows "\<exists>j. stepToOJ (CheckState s) = Some j \<and> processScenarioStep p j = Parsed (CheckState s)"
proof -
  obtain a where a: "checkAccountsToOJ c = Some a" "processCheckAccountMap p a = Parsed c"
    using assms(2) read_checkAccounts by blast
  let ?rest = "field (chk_Comment s \<noteq> []) ''comment'' (stringToOJ (chk_Comment s)) @ field True ''accounts'' a"
  let ?m = "field True ''step'' (stringToOJ ''checkState'') @ ?rest"
  have j: "stepToOJ (CheckState s) = Some (OJsonMap ?m)"
    unfolding stepToOJ_def StepTypeName_def Step.case by (simp add: assms(1) a put_simps)
  have "foldFields (checkStateField p) ?m \<lparr>chk_Comment = [], chk_CheckAccounts = None\<rparr> = Parsed s"
    using assms(1) by (cases s) (simp add: fold_field checkStateField_def read_text a)
  moreover have "parseStepType ?m = Parsed ''checkState''"
    by (rule step_type) (simp add: image_Un field_keys)
  ultimately have "processScenarioStep p (OJsonMap ?m) = Parsed (CheckState s)"
    by (simp only: processScenarioStep_def asMap_def option.case ojson.case parse_then_simps) simp
  with j show ?thesis by blast
qed

lemma txStep_fields:
  "foldFields (parseTxStepField p tt) (field True ''step'' j) s = Parsed s"
  "foldFields (parseTxStepField p tt) (field c ''txId'' (stringToOJ x)) s = Parsed (s\<lparr>txs_TxIdent := if c then x else txs_TxIdent s\<rparr>)"
  "foldFields (parseTxStepField p tt) (field c ''comment'' (stringToOJ x)) s = Parsed (s\<lparr>txs_Comment := if c then x else txs_Comment s\<rparr>)"
  "processTx p tt j = Parsed tx \<Longrightarrow> foldFields (parseTxStepField p tt) (field True ''tx'' j) s = Parsed (s\<lparr>txs_Tx := Some tx\<rparr>)"
  "processTxExpectedResult p j = Parsed r \<Longrightarrow> IsSmartContractTx (tx_Type tx) \<Longrightarrow> txs_Tx s = Some tx \<Longrightarrow>
    foldFields (parseTxStepField p tt) (field True ''expect'' j) s = Parsed (s\<lparr>txs_ExpectedResult := Some r\<rparr>)"
  by (simp_all add: fold_field parseTxStepField_def read_text)

lemma typed_step:
  "parseStepType m = Parsed (txTypeName tt) \<Longrightarrow> processScenarioStep p (OJsonMap m) = parseTxStep p tt m"
  by (cases tt) (simp_all add: processScenarioStep_def asMap_def txTypeName_def)

lemma read_txStep:
  assumes "ok_txStep p s"
  shows "\<exists>j. stepToOJ (Tx s) = Some j \<and> processScenarioStep p j = Parsed (Tx s)"
proof -
  from assms obtain tx where tx: "txs_Tx s = Some tx" "ok_tx p tx"
    and result: "case txs_ExpectedResult s of None \<Rightarrow> True | Some r \<Rightarrow> IsSmartContractTx (tx_Type tx) \<and> ok_result p r"
    by (auto simp: ok_txStep_def split: option.splits)
  obtain v where v: "transactionToScenarioOJ tx = Some v" "processTx p (tx_Type tx) v = Parsed tx"
    using tx(2) read_transaction by blast
  let ?start = "\<lparr>txs_TxIdent = [], txs_Comment = [], txs_Tx = None, txs_ExpectedResult = None\<rparr>"
  let ?rest = "field (txs_TxIdent s \<noteq> []) ''txId'' (stringToOJ (txs_TxIdent s)) @ field (txs_Comment s \<noteq> []) ''comment'' (stringToOJ (txs_Comment s)) @
      field True ''tx'' v"
  let ?m = "field True ''step'' (stringToOJ (txTypeName (tx_Type tx))) @ ?rest"
  have read: "foldFields (parseTxStepField p (tx_Type tx)) ?m ?start = Parsed (s\<lparr>txs_ExpectedResult := None\<rparr>)"
    unfolding foldFields_append txStep_fields(1-3) txStep_fields(4) [OF v(2)] parse_then_simps using tx(1) by (cases s) auto
  have kind: "parseStepType (?m @ ms) = Parsed (txTypeName (tx_Type tx))" if "''step'' \<notin> fst ` set ms" for ms
    using that step_type [of "?rest @ ms" "txTypeName (tx_Type tx)"] by (simp add: image_Un field_keys)
  show ?thesis
  proof (cases "txs_ExpectedResult s")
    case None
    then have "stepToOJ (Tx s) = Some (OJsonMap ?m)"
      unfolding stepToOJ_def StepTypeName_def Step.case by (simp add: tx(1) v put_simps)
    moreover have "processScenarioStep p (OJsonMap ?m) = Parsed (Tx s)"
      unfolding typed_step [OF kind [of "[]", simplified append_Nil2], simplified] parseTxStep_def read using None by (cases s) simp
    ultimately show ?thesis by blast
  next
    case (Some r)
    then obtain e where e: "resultToOJ r = Some e" "processTxExpectedResult p e = Parsed r" and sc: "IsSmartContractTx (tx_Type tx)"
      using result read_result [of p r] by auto
    let ?e = "field True ''expect'' e"
    have "stepToOJ (Tx s) = Some (OJsonMap (?m @ ?e))"
      unfolding stepToOJ_def StepTypeName_def Step.case using Some sc by (simp add: tx(1) v e put_simps)
    moreover have "foldFields (parseTxStepField p (tx_Type tx)) (?m @ ?e) ?start = Parsed s"
      using tx(1) Some unfolding foldFields_append [of _ ?m ?e] read parse_then_simps
      by (subst txStep_fields(5) [OF e(2) sc]) (cases s; simp)+
    then have "processScenarioStep p (OJsonMap (?m @ ?e)) = Parsed (Tx s)"
      by (subst typed_step [OF kind]) (simp_all add: field_keys parseTxStep_def)
    ultimately show ?thesis by blast
  qed
qed

interpretation steps: codec stepToOJ "processScenarioStep p" "ok_step p" for p
proof unfold_locales
  fix step assume "ok_step p step"
  then show "\<exists>j. stepToOJ step = Some j \<and> processScenarioStep p j = Parsed step"
    by (cases step) (auto simp: ok_step_def read_external read_dump read_setState read_txStep split: option.splits intro: read_checkState)
qed

end
