(* ===== verification/ScenarioFiles.thy ===== *)
theory ScenarioFiles
  imports ScenRoundtripSteps
begin

text \<open>
  Whole scenario files: what a scenario must satisfy to be read back from its own text, and the round trip.
\<close>

definition ok_scenario :: "Parser \<Rightarrow> Scenario \<Rightarrow> bool" where
  "ok_scenario p s \<longleftrightarrow> list_all (ok_step p) (sc_Steps s)"

definition printable :: "Scenario \<Rightarrow> bool" where
  \<comment> \<open>the strings of the tree can stand between quotes\<close>
  "printable s \<longleftrightarrow> (case ScenarioToOrderedJSON s of None \<Rightarrow> True | Some j \<Rightarrow> wf_ojson j)"

lemma scenario_fields:
  "foldFields (scenarioField p) (field c ''name'' (stringToOJ x)) s = Parsed (s\<lparr>sc_Name := if c then x else sc_Name s\<rparr>)"
  "foldFields (scenarioField p) (field c ''comment'' (stringToOJ x)) s = Parsed (s\<lparr>sc_Comment := if c then x else sc_Comment s\<rparr>)"
  "foldFields (scenarioField p) (field c ''checkGas'' (OJsonBool b)) s = Parsed (s\<lparr>sc_CheckGas := if c then b else sc_CheckGas s\<rparr>)"
  "foldFields (scenarioField p) (field True ''gasSchedule'' (gasScheduleToOJ g)) s = Parsed (s\<lparr>sc_GasSchedule := g\<rparr>)"
  "mapParsed (processScenarioStep p) js = Parsed ss \<Longrightarrow>
    foldFields (scenarioField p) (field True ''steps'' (OJsonList js)) s = Parsed (s\<lparr>sc_Steps := ss\<rparr>)"
  by (simp_all add: fold_field scenarioField_def read_text processScenarioStepList_def listOf_def asList_def)
    (cases g; simp add: gasScheduleToOJ_def parseGasSchedule_def read_text)

lemma read_scenario:
  assumes "ok_scenario p s"
  shows "\<exists>j. ScenarioToOrderedJSON s = Some j \<and> processScenario p j = Parsed s"
proof -
  obtain js where js: "those (map stepToOJ (sc_Steps s)) = Some js" "mapParsed (processScenarioStep p) js = Parsed (sc_Steps s)"
    using assms steps.list_read_back [of p "sc_Steps s"] by (auto simp: ok_scenario_def)
  let ?m = "field (sc_Name s \<noteq> []) ''name'' (stringToOJ (sc_Name s)) @ field (sc_Comment s \<noteq> []) ''comment'' (stringToOJ (sc_Comment s)) @
      field (\<not> sc_CheckGas s) ''checkGas'' (OJsonBool False) @ field True ''gasSchedule'' (gasScheduleToOJ (sc_GasSchedule s)) @
      field True ''steps'' (OJsonList js)"
  have "ScenarioToOrderedJSON s = Some (OJsonMap ?m)"
    by (simp add: ScenarioToOrderedJSON_def js put_simps split del: if_split)
  moreover have "processScenario p (OJsonMap ?m) = Parsed s"
    unfolding processScenario_def fieldsOf_def asMap_def option.case ojson.case foldFields_append scenario_fields(1-4) scenario_fields(5) [OF js(2)]
      parse_then_simps
    by (cases s) auto
  ultimately show ?thesis by blast
qed

subsection \<open>The round trip\<close>

text \<open>C26: a scenario file that was written is read back as the same scenario, whatever its steps are: for a scenario whose values have
  the value of their text (and whose fields that the writer leaves out have the value the parser starts with), the writer produces a text
  without a panic, and parsing that text gives the scenario, with every account, token, transaction, expected
  result, log and block information in its place.  The strings must be printable between quotes.\<close>

theorem scenario_roundtrip:
  assumes "ok_scenario p s" "printable s"
  shows "\<exists>jsonString. ScenarioToJSONString s = Some jsonString \<and> ParseScenarioFile p jsonString = Parsed s"
proof -
  obtain j where j: "ScenarioToOrderedJSON s = Some j" "processScenario p j = Parsed s"
    using read_scenario [OF assms(1)] by blast
  with assms(2) have "ParseOrderedJSON (JSONString j) = Some (Some j)"
    by (simp add: printable_def wf_reads_back reads_back_parses)
  with j show ?thesis by (simp add: ScenarioToJSONString_def ParseScenarioFile_def)
qed

definition fromTwos :: "bytes \<Rightarrow> int" where
  "fromTwos b = (if b \<noteq> [] \<and> (of_char (hd b) :: nat) \<ge> 128 then SetBytes b - 256 ^ length b else SetBytes b)"

definition sampleParser :: Parser where
  "sampleParser = \<lparr>ExprInterpreter = plainInterpreter, twos_FromBytes = fromTwos\<rparr>"

definition alice :: JSONBytesFromString where
  "alice = \<lparr>jbs_Value = ''alice'' @ replicate 27 (CHR ''_''), jbs_Original = ''address:alice''\<rparr>"

definition contractAddress :: JSONBytesFromString where
  "contractAddress = \<lparr>jbs_Value = replicate 8 (CHR 0x00) @ ''adder'' @ replicate 19 (CHR ''_''), jbs_Original = ''sc:adder''\<rparr>"

definition hundred :: JSONBigInt where "hundred = \<lparr>jbi_Value = Some 100, jbi_Original = ''1_00''\<rparr>"

definition aliceAccount :: mj_Account where
  "aliceAccount = zeroAccount\<lparr>ac_Address := alice, ac_Nonce := \<lparr>ju_Value = 5, ju_Original = ''5''\<rparr>, ac_Balance := hundred,
     ac_Storage := [\<lparr>skv_Key = \<lparr>jbs_Value = ''k'', jbs_Original = ''str:k''\<rparr>,
       skv_Value = \<lparr>jbt_Value = ''xy'', jbt_Original = Some (OJsonList [OJsonString ''str:x'', OJsonString ''str:y''])\<rparr>\<rparr>],
     ac_DCDTData := [(newDCDTData \<lparr>jbs_Value = ''TOK'', jbs_Original = ''str:TOK''\<rparr>)\<lparr>dd_Instances := [zeroInstance\<lparr>di_Balance := hundred\<rparr>]\<rparr>]\<rparr>"

definition sampleCall :: Transaction where
  "sampleCall = (newTransaction ScCall)\<lparr>tx_From := alice, tx_To := contractAddress, tx_Value := hundred, tx_Function := ''add'',
     tx_Arguments := [\<lparr>jbt_Value = ''x'', jbt_Original = Some (OJsonString ''str:x'')\<rparr>], tx_GasLimit := \<lparr>ju_Value = 5, ju_Original = ''5''\<rparr>\<rparr>"

definition sampleScenario :: Scenario where
  "sampleScenario = \<lparr>sc_Name = ''add'', sc_Comment = [], sc_CheckGas = False, sc_GasSchedule = GasScheduleV3, sc_Steps = [
     SetState \<lparr>set_Comment = [], set_Accounts = [aliceAccount], set_PreviousBlockInfo = None, set_CurrentBlockInfo = None, set_BlockHashes = [],
       set_NewAddressMocks = []\<rparr>,
     Tx \<lparr>txs_TxIdent = ''1'', txs_Comment = [], txs_Tx = Some sampleCall,
       txs_ExpectedResult = Some (newTransactionResult\<lparr>tr_Out := [JSONCheckBytesExplicitStar],
         tr_Gas := \<lparr>jcu_Value = 5, jcu_IsStar = False, jcu_Original = ''5'', jcu_Unspecified = False\<rparr>\<rparr>)\<rparr>,
     CheckState \<lparr>chk_Comment = [], chk_CheckAccounts = Some \<lparr>OtherAccountsAllowed = True, Accounts = [newCheckAccount\<lparr>ca_Address := alice,
       ca_Balance := \<lparr>jcbi_Value = Some 100, jcbi_IsStar = False, jcbi_Original = ''1_00'', jcbi_Unspecified = False\<rparr>\<rparr>]\<rparr>\<rparr>]\<rparr>"

lemma sample_texts:
  "InterpretString plainInterpreter ''address:alice'' = Some (Inr (''alice'' @ replicate 27 (CHR ''_'')))"
  "InterpretString plainInterpreter ''sc:adder'' = Some (Inr (replicate 8 (CHR 0x00) @ ''adder'' @ replicate 19 (CHR ''_'')))"
  "InterpretString plainInterpreter ''5'' = Some (Inr [CHR 0x05])"
  "InterpretString plainInterpreter ''1_00'' = Some (Inr ''d'')"
  "InterpretString plainInterpreter ''str:k'' = Some (Inr ''k'')"
  "InterpretString plainInterpreter ''str:x'' = Some (Inr ''x'')"
  "InterpretString plainInterpreter ''str:y'' = Some (Inr ''y'')"
  "InterpretString plainInterpreter ''str:TOK'' = Some (Inr ''TOK'')"
  by (subst InterpretString.simps, code_simp)+

lemma sample_steps_ok:
  "ok_address sampleParser alice" "ok_address sampleParser contractAddress" "ok_account sampleParser aliceAccount" "ok_tx sampleParser sampleCall"
proof -
  have number: "numberText sampleParser bigIntUnsignedBytes ''1_00'' 100" "numberText sampleParser bigIntUnsignedBytes ''5'' 5"
      "numberText sampleParser bigIntUnsignedBytes [] 0"
    by (simp_all add: numberText_def sampleParser_def sample_texts bigIntOf_def SetBytes_def)
  show address: "ok_address sampleParser alice" "ok_address sampleParser contractAddress"
    by (simp_all add: ok_address_def ok_string_def sampleParser_def alice_def contractAddress_def sample_texts)
  show "ok_account sampleParser aliceAccount"
    using number address
    by (simp add: ok_account_def aliceAccount_def zeroAccount_def zero_defs ok_uint64_def ok_bigInt_def hundred_def ok_tokens_def ok_token_def isCompactDCDT_def
        newDCDTData_def zeroInstance_def ok_storage_def ok_storageEntry_def ok_string_def ok_tree_def) (simp add: sampleParser_def sample_texts)
  show "ok_tx sampleParser sampleCall"
    using number address
    by (simp add: ok_tx_def ok_unless_def sampleCall_def newTransaction_def type_defs zero_defs ok_bigInt_def ok_uint64_def hundred_def ok_tree_def)
      (simp add: sampleParser_def sample_texts)
qed

lemma sample_ok: "ok_scenario sampleParser sampleScenario" "printable sampleScenario"
proof -
  show "ok_scenario sampleParser sampleScenario"
    using sample_steps_ok
    by (simp add: ok_scenario_def sampleScenario_def ok_step_def ok_setState_def ok_accounts_def ok_txStep_def ok_result_def newTransactionResult_def ok_opt_defs
        ok_logs_def ok_checkBytes_def JSONCheckBytesExplicitStar_def JSONCheckBytesUnspecified_def JSONCheckBigIntUnspecified_def
        JSONCheckUint64Unspecified_def ok_checkUint64_def ok_checkAccounts_def ok_checkAccount_def newCheckAccount_def ok_checkTokens_def ok_checkBigInt_def)
      (simp add: sampleCall_def newTransaction_def type_defs numberText_def sampleParser_def sample_texts bigIntOf_def SetBytes_def alice_def)
  show "printable sampleScenario" by code_simp
qed

theorem scenario_roundtrip_witness:
  "\<exists>jsonString. ScenarioToJSONString sampleScenario = Some jsonString \<and> ParseScenarioFile sampleParser jsonString = Parsed sampleScenario"
  by (rule scenario_roundtrip [OF sample_ok])

end
