(* ===== verification/ScenSample.thy ===== *)
theory ScenSample
  imports ScenLaws ScenarioFiles
begin

text \<open>
  A small concrete world of accounts and an executor over it, on which the properties of scenarios are exercised.  The built-in function
  \<open>touch\<close> writes into the storage of every account; the contract is the one of the sample host.
\<close>

definition sampleContainer :: builtinContainer where
  "sampleContainer = \<lparr>
     c_Get = (\<lambda>f. if f = ''touch'' then Inr (\<lambda>_ _ _ am. ((Some sampleOutput, None), map (\<lambda>(a, acct). (a, wa_SaveKeyValue ''touched'' ''1'' acct)) am))
       else Inl (ErrExternal ''no such function'')),
     c_Keys = {''touch''}\<rparr>"

definition sampleToken :: "int \<Rightarrow> wToken" where
  "sampleToken v = \<lparr>wt_Type = 0, wt_Value = Some v, wt_Properties = [], wt_TokenMetaData = Some (fungibleMeta ''TOK'')\<rparr>"

definition sampleWorldLib :: worldLib where
  "sampleWorldLib = \<lparr>wl_env = sampleEnv, wl_DCDTKeyIdentifier = ''dcdt'', wl_DCDTRoleIdentifier = ''role'', metadata_ToBytes = (\<lambda>_. ''m''),
     metadata_Payable = (\<lambda>_. True), MetadataPayable = CHR 0x02, userMetadata_ToBytes = (\<lambda>frozen. if frozen then ''f'' else []),
     GetFirstDataItem = (\<lambda>l. case le_Data l of [] \<Rightarrow> [] | d # _ \<Rightarrow> d), MarshalToken = (\<lambda>t. Inr (case wt_Value t of None \<Rightarrow> [] | Some v \<Rightarrow> Bytes v)),
     UnmarshalToken = (\<lambda>b. Inr (sampleToken (SetBytes b))), MarshalRoles = (\<lambda>r. Inr (concat r)), UnmarshalRoles = (\<lambda>b. Inr [b]),
     CreateBuiltInFunctionContainer = (\<lambda>_ _. Inr sampleContainer)\<rparr>"

definition sampleContract :: wAccount where
  "sampleContract = (emptyAccount ''contract'')\<lparr>wa_Code := ''code'', wa_IsSmartContract := True\<rparr>"

definition sampleUser :: wAccount where
  "sampleUser = (emptyAccount ''alice'')\<lparr>wa_Nonce := 3, wa_Balance := Some 5000, wa_Storage := [(''counter'', ''1'')]\<rparr>"

definition sampleWorld :: world where
  "sampleWorld = NewMockWorld\<lparr>AcctMap := [(''alice'', sampleUser), (''contract'', sampleContract)], BuiltinFuncs := Some sampleContainer\<rparr>"

definition sampleExecutor :: executor where
  "sampleExecutor = \<lparr>ex_World = sampleWorld, ex_vm = \<lparr>host_gasSchedule = [], wasmer_opcodeCosts = [], sched_vm = sampleVM\<rparr>, ex_checkGas = True,
     ex_scenarioexecPath = ''src'', ex_scenGasScheduleLoaded = True, ex_fileResolver = None\<rparr>"

definition outerText :: bytes where
  "outerText = ''{\"steps\":[{\"step\":\"externalSteps\",\"path\":\"inner\"},{\"step\":\"setState\"}]}''"
definition innerText :: bytes where
  "innerText = ''{\"checkGas\":false,\"steps\":[]}''"

definition sampleFiles :: "(string \<times> bytes) list" where
  "sampleFiles = [(''/outer'', outerText), (''/inner'', innerText)]"

definition sampleExecLib :: execLib where
  "sampleExecLib = \<lparr>ex_worldLib = sampleWorldLib, ex_callee = (\<lambda>e. calleeAt sampleEngine e 5), ex_recovered = (\<lambda>s. (ErrExternal ''panic'', s)),
     ex_Decode = sampleDecoder, path_Abs = Inr, path_Dir = (\<lambda>_. ''/''), path_Join = (@),
     os_ReadFile = (\<lambda>f. case map_of sampleFiles f of None \<Rightarrow> Inl ''no such file'' | Some text1 \<Rightarrow> Inr text1),
     LoadTomlFileToMap = (\<lambda>_. Inl (ErrExternal ''no such file'')), ex_ExprInterpreter = plainInterpreter, ex_twos_FromBytes = SetBytes, ex_Quote = id\<rparr>"

definition sampleTx :: "TransactionType \<Rightarrow> int \<Rightarrow> u64 \<Rightarrow> Transaction" where
  "sampleTx txType amount gas = \<lparr>tx_Type = txType, tx_Nonce = zeroUint64, tx_Value = \<lparr>jbi_Value = Some amount, jbi_Original = []\<rparr>, tx_DCDTValue = None,
     tx_From = \<lparr>jbs_Value = ''alice'', jbs_Original = []\<rparr>, tx_To = \<lparr>jbs_Value = ''contract'', jbs_Original = []\<rparr>, tx_Function = ''get'',
     tx_Code = zeroBytesFromString, tx_Arguments = [], tx_GasPrice = \<lparr>ju_Value = 2, ju_Original = []\<rparr>, tx_GasLimit = \<lparr>ju_Value = gas, ju_Original = []\<rparr>\<rparr>"

lemmas exec_sample_defs = sampleContainer_def sampleToken_def sampleWorldLib_def sampleContract_def sampleUser_def sampleWorld_def sampleExecutor_def
  sampleExecLib_def sampleTx_def

definition summary :: "((execError + VMOutput) \<times> executor) option \<Rightarrow> (ReturnCodeT \<times> address list \<times> (address \<times> u64 \<times> bigint) list) option" where
  "summary r = (case r of
     Some (Inr out, ex) \<Rightarrow> Some (ReturnCode out, DeletedAccounts out, map snd (viewOf books (AcctMap (ex_World ex)))) | _ \<Rightarrow> None)"

lemma summary_Some: "summary r = Some (c, d, b) \<Longrightarrow> \<exists>out ex'. r = Some (Inr out, ex') \<and> ReturnCode out = c \<and> DeletedAccounts out = d"
  by (auto simp: summary_def split: option.splits sum.splits)

lemma sample_wellFormed: "wellFormed (ex_World sampleExecutor)" "restrained books (ex_World sampleExecutor)" "restrained wa_Address (ex_World sampleExecutor)"
  by (auto simp: exec_sample_defs NewMockWorld_def wellFormed_def wf_gomap_def emptyAccount_def restrained_def keepsView_def viewOf_def comp_def
      case_prod_unfold books_def wa_SaveKeyValue_def)

lemma sample_moves: "summary (executeTx sampleExecLib ''1'' (sampleTx mj_Transfer 7 1000) sampleExecutor) =
    Some (Ok, [], [(''alice'', 4, Some 2993), (''contract'', 0, Some 7)])"
  by code_simp

lemma sample_failure: "summary (executeTx sampleExecLib ''1'' (sampleTx mj_Transfer 4999 1000) sampleExecutor) =
    Some (OutOfFunds, [], [(''alice'', 4, Some 3000), (''contract'', 0, Some 0)])"
  by code_simp

end
