(* ===== verification/ScenProperties.thy ===== *)
theory ScenProperties
  imports ScenSample
begin

text \<open>
  Properties of running scenarios: it ends when no file includes itself, whatever a scenario sets it finds when it checks it, the check of
  the storage is exact and the one of tokens is not, a transaction that fails costs its gas and nothing else, funds are conserved, and the world stays
  well-formed.
\<close>

subsection \<open>Fuel\<close>

definition ranked :: "execLib \<Rightarrow> (string, string) gomap \<Rightarrow> (string \<Rightarrow> nat) \<Rightarrow> bool" where
  \<comment> \<open>a file that is an external step of another has a lower rank\<close>
  "ranked lib replacements rank \<longleftrightarrow> (\<forall>r path r' scenario step. fr_contractPathReplacements r = replacements \<longrightarrow>
     readScenario lib r path = Returned (Inr (r', scenario)) \<longrightarrow> ExternalSteps step \<in> set (sc_Steps scenario) \<longrightarrow>
     rank (ResolveAbsolutePath lib r' (ext_Path step)) < rank path)"

lemma readScenario_replacements:
  "readScenario lib r path = Returned (Inr (r', scenario)) \<Longrightarrow> fr_contractPathReplacements r' = fr_contractPathReplacements r"
  by (auto simp: readScenario_def SetContext_def Let_def split: sum.split_asm parsed.split_asm)

lemma readScenario_fuel: "readScenario lib r path \<noteq> NoFuel"
  by (simp add: readScenario_def Let_def split: sum.split parsed.split)

lemma onHost_resolver: "onHost lib call ex = (r, ex') \<Longrightarrow> ex_fileResolver ex' = ex_fileResolver ex"
  by (auto simp: onHost_def Let_def split: option.splits prod.splits)

lemma prepareTx_resolver: "prepareTx lib txIndex tx ex = Some (r, ex') \<Longrightarrow> ex_fileResolver ex' = ex_fileResolver ex"
  by (auto simp: prepareTx_def bind_Some_iff Let_def split: option.split_asm if_splits)

lemma runTx_resolver: "runTx lib txIndex tx gas ex = Some (r, ex') \<Longrightarrow> ex_fileResolver ex' = ex_fileResolver ex"
  by (auto simp: runTx_def scCreate_def scCall_def Let_def dest: onHost_resolver split: TransactionType.split_asm option.split_asm if_splits)

lemma executeTx_resolver:
  assumes "executeTx lib txIndex tx ex = Some (r, ex')"
  shows "ex_fileResolver ex' = ex_fileResolver ex"
proof -
  from assms obtain w failed ex2 where b: "executeTxBody lib txIndex tx (ex\<lparr>ex_World := w\<rparr>) = Some (r, failed, ex2)" "ex_fileResolver ex' = ex_fileResolver ex2"
    by (auto simp: executeTx_def bind_Some_iff)
  from b(1) have "ex_fileResolver ex2 = ex_fileResolver ex"
  proof (cases rule: executeTxBody_cases)
    case (run gas enough ex1 r2 ex3)
    from prepareTx_resolver [OF run(1)] run(3) have "ex_fileResolver ex3 = ex_fileResolver ex" by (auto dest: runTx_resolver split: if_splits)
    with run(4) show ?thesis by (cases r2) (auto split: if_splits)
  qed (auto dest: prepareTx_resolver)
  with b(2) show ?thesis by simp
qed

lemma step_resolver:
  assumes "ExecuteStep run lib step ex = Returned (None, ex')" "ex_fileResolver ex = Some r"
  shows "ex_fileResolver ex' = Some r"
proof (cases step)
  case (ExternalSteps e)
  with assms show ?thesis
    by (auto simp: ExecuteStep_def ExecuteExternalStep_def ending_then_def split: ending.split_asm option.split_asm prod.split_asm)
next
  case (SetState e)
  with assms show ?thesis
    by (auto simp: ExecuteStep_def ExecuteSetStateStep_def orCrash_def bind_Some_iff split: option.split_asm)
next
  case (Tx e)
  with assms obtain out where "ExecuteTxStep lib e ex = Some (Inr out, ex')"
    by (auto simp: ExecuteStep_def orCrash_def split: option.split_asm sum.split_asm prod.split_asm)
  then obtain i tx r1 where "executeTx lib i tx ex = Some (r1, ex')"
    by (auto simp: ExecuteTxStep_def bind_Some_iff case_sum_eq_iff split: option.split_asm)
  from executeTx_resolver [OF this] assms(2) show ?thesis by simp
qed (use assms in \<open>auto simp: ExecuteStep_def orCrash_def split: option.splits\<close>)

lemma steps_fuel:
  assumes "\<forall>e. ExternalSteps e \<in> set steps \<longrightarrow> (\<forall>ex. run (fr_Clone r) (ResolveAbsolutePath lib r (ext_Path e)) ex \<noteq> NoFuel)"
    "ex_fileResolver ex = Some r"
  shows "executeSteps run lib steps ex \<noteq> NoFuel"
  using assms
proof (induction steps arbitrary: ex)
  case (Cons step steps)
  have "ExecuteStep run lib step ex \<noteq> NoFuel"
  proof (cases step)
    case (ExternalSteps e)
    with Cons.prems show ?thesis by (auto simp: ExecuteStep_def ExecuteExternalStep_def ending_then_def split: ending.split)
  qed (simp_all add: ExecuteStep_def orCrash_def split: option.split)
  then show ?case
  proof (cases "ExecuteStep run lib step ex")
    case (Returned res)
    obtain err ex1 where res: "res = (err, ex1)" by (cases res)
    with Cons step_resolver [of run lib step ex ex1 r] Returned show ?thesis by (cases err) (auto simp: ending_then_def)
  qed (simp_all add: ending_then_def)
qed simp

lemma scenario_fuel:
  assumes "\<forall>e. ExternalSteps e \<in> set (sc_Steps scenario) \<longrightarrow> (\<forall>ex. run (fr_Clone r) (ResolveAbsolutePath lib r (ext_Path e)) ex \<noteq> NoFuel)"
  shows "ExecuteScenario run lib scenario r ex \<noteq> NoFuel"
proof (cases "SetScenariosGasSchedule lib (sc_GasSchedule scenario) (ex\<lparr>ex_fileResolver := Some r, ex_checkGas := sc_CheckGas scenario\<rparr>)")
  case (Some res)
  obtain err ex1 where res: "res = (err, ex1)" by (cases res)
  with Some have "ex_fileResolver ex1 = Some r"
    by (auto simp: SetScenariosGasSchedule_def bind_Some_iff Let_def case_sum_eq_iff split: if_splits)
  from steps_fuel [of "sc_Steps scenario" run r lib ex1, OF assms this] Some res show ?thesis by (auto simp: ExecuteScenario_def orCrash_def ending_then_def split: option.split)
qed (simp add: ExecuteScenario_def orCrash_def ending_then_def)

lemma ranked_fuel:
  assumes "ranked lib replacements rank"
  shows "fr_contractPathReplacements r = replacements \<Longrightarrow> rank path < n \<Longrightarrow> runScenarioFile n lib r path ex \<noteq> NoFuel"
proof (induction n arbitrary: r path ex)
  case (Suc n)
  show ?case
  proof (cases "readScenario lib r path")
    case (Returned res)
    show ?thesis
    proof (cases res)
      case (Inr rs)
      obtain r' scenario where rs: "rs = (r', scenario)" by (cases rs)
      have read: "readScenario lib r path = Returned (Inr (r', scenario))" using Returned Inr rs by simp
      have "rank (ResolveAbsolutePath lib r' (ext_Path e)) < rank path" if "ExternalSteps e \<in> set (sc_Steps scenario)" for e
        using assms Suc.prems(1) read that unfolding ranked_def by blast
      then have "runScenarioFile n lib (fr_Clone r') (ResolveAbsolutePath lib r' (ext_Path e)) ex \<noteq> NoFuel"
        if "ExternalSteps e \<in> set (sc_Steps scenario)" for e ex
        using that Suc.IH Suc.prems readScenario_replacements [OF read] by (fastforce simp: fr_Clone_def)
      with scenario_fuel [of scenario "runScenarioFile n lib" r' lib] read show ?thesis by (simp add: RunSingleJSONScenario_def ending_then_def)
    qed (simp add: Returned RunSingleJSONScenario_def ending_then_def)
  qed (simp_all add: RunSingleJSONScenario_def ending_then_def readScenario_fuel)
qed simp

definition extends :: "fileRunner \<Rightarrow> fileRunner \<Rightarrow> bool" where
  \<comment> \<open>more fuel: the same result wherever there is one\<close>
  "extends run' run \<longleftrightarrow> (\<forall>r path ex. run r path ex \<noteq> NoFuel \<longrightarrow> run' r path ex = run r path ex)"

lemma step_extends: "extends run' run \<Longrightarrow> ExecuteStep run lib step ex \<noteq> NoFuel \<Longrightarrow> ExecuteStep run' lib step ex = ExecuteStep run lib step ex"
  by (cases step) (auto simp: ExecuteStep_def ExecuteExternalStep_def ending_then_def extends_def split: option.split ending.split_asm)

lemma steps_extends:
  assumes "extends run' run"
  shows "executeSteps run lib steps ex \<noteq> NoFuel \<Longrightarrow> executeSteps run' lib steps ex = executeSteps run lib steps ex"
proof (induction steps arbitrary: ex)
  case (Cons step steps)
  then have "ExecuteStep run lib step ex \<noteq> NoFuel" by (auto simp: ending_then_def)
  from step_extends [OF assms this] Cons show ?case
    by (auto simp: ending_then_def split: ending.split prod.split option.split)
qed simp

lemma run_extends: "extends run' run \<Longrightarrow> extends (RunSingleJSONScenario run' lib) (RunSingleJSONScenario run lib)"
  by (auto simp: extends_def [of "RunSingleJSONScenario run' lib"] RunSingleJSONScenario_def ExecuteScenario_def ending_then_def orCrash_def
      steps_extends split: ending.split sum.split option.split)

lemma file_Suc: "runScenarioFile (Suc n) lib = RunSingleJSONScenario (runScenarioFile n lib) lib"
  by (simp add: fun_eq_iff)

lemma file_extends: "extends (runScenarioFile (Suc n) lib) (runScenarioFile n lib)"
proof (induction n)
  case 0
  then show ?case by (simp add: extends_def)
next
  case (Suc n)
  then show ?case by (subst (1 2) file_Suc) (rule run_extends)
qed

lemma file_more_fuel: "n \<le> m \<Longrightarrow> runScenarioFile n lib r path ex \<noteq> NoFuel \<Longrightarrow> runScenarioFile m lib r path ex = runScenarioFile n lib r path ex"
  by (induction rule: dec_induct) (use file_extends in \<open>auto simp: extends_def simp del: runScenarioFile.simps\<close>)

subsection \<open>The check of the storage\<close>

definition expectedValue :: "CheckAccount \<Rightarrow> bytes \<Rightarrow> bytes" where
  "expectedValue c k = (case go_get (expectedStorageOf (ca_CheckStorage c)) k of None \<Rightarrow> [] | Some v \<Rightarrow> v)"

lemma storageDifferences_Nil:
  "storageDifferences lib (ca_CheckStorage c) a = [] \<longleftrightarrow> (\<forall>k. IsDCDTKey lib k \<or> StorageValue a k = expectedValue c k)"
proof -
  let ?keys = "fst ` set (expectedStorageOf (ca_CheckStorage c)) \<union> fst ` set (wa_Storage a)"
  have "storageDifferences lib (ca_CheckStorage c) a = [] \<longleftrightarrow> (\<forall>k \<in> ?keys. expectedValue c k = StorageValue a k \<or> IsDCDTKey lib k)"
    unfolding storageDifferences_def Let_def expectedValue_def [symmetric] by (simp add: filter_empty_conv)
  moreover have "expectedValue c k = StorageValue a k" if "k \<notin> ?keys" for k
    using that by (auto simp: in_keys_iff StorageValue_def expectedValue_def)
  ultimately show ?thesis by metis
qed

lemma checkAccountStorage_None:
  "checkAccountStorage lib c a = None \<longleftrightarrow> ca_IgnoreStorage c \<or> (\<forall>k. IsDCDTKey lib k \<or> StorageValue a k = expectedValue c k)"
  by (simp add: checkAccountStorage_def Let_def storageDifferences_Nil)

subsection \<open>What was set is found\<close>

definition checkUint64Of :: "JSONUint64 \<Rightarrow> JSONCheckUint64" where
  "checkUint64Of j = \<lparr>jcu_Value = ju_Value j, jcu_IsStar = False, jcu_Original = ju_Original j, jcu_Unspecified = False\<rparr>"

definition checkBigIntOf :: "JSONBigInt \<Rightarrow> JSONCheckBigInt" where
  "checkBigIntOf j = \<lparr>jcbi_Value = jbi_Value j, jcbi_IsStar = False, jcbi_Original = jbi_Original j, jcbi_Unspecified = False\<rparr>"

definition checkBytesOf :: "bytes \<Rightarrow> JSONCheckBytes" where
  "checkBytesOf b = \<lparr>jcb_Value = b, jcb_IsStar = False, jcb_Original = Some (OJsonString b), jcb_Unspecified = False\<rparr>"

definition checkOf :: "mj_Account \<Rightarrow> CheckAccount" where
  \<comment> \<open>the account as the expectation of a check, without its tokens\<close>
  "checkOf acct = \<lparr>ca_Address = ac_Address acct, ca_Comment = ac_Comment acct, ca_Nonce = checkUint64Of (ac_Nonce acct),
     ca_Balance = checkBigIntOf (ac_Balance acct), ca_Username = checkBytesOf (jbs_Value (ac_Username acct)), ca_IgnoreStorage = False,
     ca_CheckStorage = ac_Storage acct, ca_Code = checkBytesOf (jbs_Value (ac_Code acct)), ca_Owner = checkBytesOf (jbs_Value (ac_Owner acct)),
     ca_AsyncCallData = checkBytesOf (ac_AsyncCallData acct), ca_IgnoreDCDT = True, ca_CheckDCDTData = []\<rparr>"

definition plainPart :: "worldLib \<Rightarrow> wAccount \<Rightarrow> wAccount \<times> (bytes \<Rightarrow> bytes)" where
  \<comment> \<open>the account but for its tokens\<close>
  "plainPart lib a = (a\<lparr>wa_Storage := []\<rparr>, \<lambda>k. if IsDCDTKey lib k then [] else StorageValue a k)"

lemma HasPrefix_append [simp]: "HasPrefix (p @ s) p"
  by (simp add: HasPrefix_def)

lemma plainPart_Save: "IsDCDTKey lib k \<Longrightarrow> plainPart lib (wa_SaveKeyValue k v a) = plainPart lib a"
  by (auto simp: plainPart_def wa_SaveKeyValue_def StorageValue_def go_simps fun_eq_iff)

lemma token_keys: "IsDCDTKey lib (MakeTokenKey lib n i)" "IsDCDTKey lib (MakeLastNonceKey lib n)" "IsDCDTKey lib (MakeTokenRolesKey lib n)"
  by (simp_all add: IsDCDTKey_def IsTokenKey_def IsNonceKey_def IsRoleKey_def MakeTokenKey_def MakeLastNonceKey_def MakeTokenRolesKey_def)

lemma setInstances_plain: "setInstances lib d is a = Inr a' \<Longrightarrow> plainPart lib a' = plainPart lib a"
  by (induction "is" arbitrary: a)
    (auto simp: setInstance_def SetTokenData_def SetLastNonce_def Let_def plainPart_Save token_keys split: sum.split_asm)

lemma setTokens_plain: "setTokens lib ds a = Inr a' \<Longrightarrow> plainPart lib a' = plainPart lib a"
  by (induction ds arbitrary: a)
    (auto simp: SetTokenRolesAsStrings_def SetTokenRoles_def plainPart_Save token_keys dest: setInstances_plain split: sum.split_asm)

definition agreesWith :: "worldLib \<Rightarrow> mj_Account \<Rightarrow> wAccount \<Rightarrow> bool" where
  "agreesWith lib acct a \<longleftrightarrow> wa_Address a = jbs_Value (ac_Address acct) \<and> wa_Nonce a = ju_Value (ac_Nonce acct) \<and>
     (\<exists>b. wa_Balance a = Some b \<and> jbi_Value (ac_Balance acct) = Some b) \<and> wa_Username a = jbs_Value (ac_Username acct) \<and> wa_Code a = jbs_Value (ac_Code acct) \<and>
     wa_AsyncCallData a = ac_AsyncCallData acct \<and> (\<forall>k. IsDCDTKey lib k \<or> StorageValue a k = expectedValue (checkOf acct) k)"

lemma agrees_plain:
  assumes "plainPart lib a = plainPart lib a'" "agreesWith lib acct a'"
  shows "agreesWith lib acct a"
proof -
  from assms(1) have "f (a\<lparr>wa_Storage := []\<rparr>) = f (a'\<lparr>wa_Storage := []\<rparr>)" for f :: "wAccount \<Rightarrow> 'x" by (simp add: plainPart_def)
  from this [of wa_Address] this [of wa_Nonce] this [of wa_Balance] this [of wa_Username] this [of wa_Code] this [of wa_AsyncCallData]
  have "wa_Address a = wa_Address a' \<and> wa_Nonce a = wa_Nonce a' \<and> wa_Balance a = wa_Balance a' \<and> wa_Username a = wa_Username a' \<and>
      wa_Code a = wa_Code a' \<and> wa_AsyncCallData a = wa_AsyncCallData a'" by simp
  moreover have "IsDCDTKey lib k \<or> StorageValue a k = StorageValue a' k" for k
    using fun_cong [where x = k, OF arg_cong [where f = snd, OF assms(1)]] by (simp add: plainPart_def split: if_splits)
  ultimately show ?thesis using assms(2) unfolding agreesWith_def by metis
qed

lemma convertAccount_agrees:
  assumes "convertAccount lib acct = Some (Inr a)"
  shows "agreesWith lib acct a"
proof -
  from assms obtain balance a0 where a0: "jbi_Value (ac_Balance acct) = Some balance" "setTokens lib (ac_DCDTData acct) a0 = Inr a"
      "wa_Address a0 = jbs_Value (ac_Address acct)" "wa_Nonce a0 = ju_Value (ac_Nonce acct)" "wa_Balance a0 = Some balance"
      "wa_Username a0 = jbs_Value (ac_Username acct)" "wa_Code a0 = jbs_Value (ac_Code acct)" "wa_AsyncCallData a0 = ac_AsyncCallData acct"
      "wa_Storage a0 = expectedStorageOf (ac_Storage acct)"
    by (auto simp: convertAccount_def bind_Some_iff Let_def case_sum_eq_iff split: if_splits)
  then have "agreesWith lib acct a0" by (simp add: agreesWith_def StorageValue_def expectedValue_def checkOf_def)
  with setTokens_plain [OF a0(2)] agrees_plain show ?thesis by blast
qed

lemma checkOf_simps:
  "ca_Address (checkOf acct) = ac_Address acct" "ca_Nonce (checkOf acct) = checkUint64Of (ac_Nonce acct)"
  "ca_Balance (checkOf acct) = checkBigIntOf (ac_Balance acct)" "ca_Username (checkOf acct) = checkBytesOf (jbs_Value (ac_Username acct))"
  "ca_Code (checkOf acct) = checkBytesOf (jbs_Value (ac_Code acct))" "ca_AsyncCallData (checkOf acct) = checkBytesOf (ac_AsyncCallData acct)"
  "ca_IgnoreDCDT (checkOf acct)"
  by (simp_all add: checkOf_def)

lemma checkAccount_agrees:
  assumes "agreesWith lib acct a" "go_get (AcctMap w) (jbs_Value (ac_Address acct)) = Some a"
  shows "checkAccount lib w (checkOf acct) = Some None"
proof -
  have "checkAccountStorage lib (checkOf acct) a = None" using assms(1) by (simp add: checkAccountStorage_None agreesWith_def)
  moreover have "checkAccountDCDT lib (checkOf acct) a = Some None" by (simp add: checkAccountDCDT_def checkOf_simps)
  moreover obtain b where "wa_Balance a = Some b" "jbi_Value (ac_Balance acct) = Some b" using assms(1) by (auto simp: agreesWith_def)
  ultimately show ?thesis
    using assms by (simp add: checkAccount_def agreesWith_def checkOf_simps checkUint64Of_def checkBigIntOf_def checkBytesOf_def jcu_Check_def jcb_Check_def
        checkBigInt_def jcbi_Check_def)
qed

lemma putAccounts_found:
  assumes "putAccounts lib accts w = Some (None, w')" "distinct (map (jbs_Value \<circ> ac_Address) accts)"
  shows "(\<forall>acct \<in> set accts. \<exists>a. agreesWith lib acct a \<and> go_get (AcctMap w') (jbs_Value (ac_Address acct)) = Some a) \<and>
    (\<forall>k. k \<notin> (jbs_Value \<circ> ac_Address) ` set accts \<longrightarrow> go_get (AcctMap w') k = go_get (AcctMap w) k)"
  using assms
proof (induction accts arbitrary: w)
  case (Cons acct accts)
  then obtain a where a: "convertAccount lib acct = Some (Inr a)" "putAccounts lib accts (w\<lparr>AcctMap := PutAccount a (AcctMap w)\<rparr>) = Some (None, w')"
    by (auto simp: bind_Some_iff case_sum_eq_iff)
  from convertAccount_agrees [OF a(1)] have ag: "agreesWith lib acct a" "wa_Address a = jbs_Value (ac_Address acct)" by (simp_all add: agreesWith_def)
  from Cons.prems(2) have "jbs_Value (ac_Address acct) \<notin> (jbs_Value \<circ> ac_Address) ` set accts" by simp
  with Cons.IH [OF a(2)] Cons.prems(2) ag show ?case by (auto simp: PutAccount_def go_simps)
qed simp

lemma firstError_None: "(\<forall>x \<in> set xs. f x = Some None) \<Longrightarrow> firstError f xs = Some None"
  by (induction xs) auto

subsection \<open>Properties\<close>

text \<open>C28: a scenario always ends when no file includes itself, directly or through others.  With a rank that falls from each
  file to the files of its external steps, a run of a scenario file with more fuel than the rank of the file gets to a result (or to a panic), and more fuel never changes
  that result: the recursion through external steps is the only one, and every other step takes a bounded time.\<close>

theorem scenario_terminates:
  assumes "ranked lib (fr_contractPathReplacements r) rank" "rank path < n" "n \<le> m"
  shows "runScenarioFile n lib r path ex \<noteq> NoFuel \<and> runScenarioFile m lib r path ex = runScenarioFile n lib r path ex"
  using ranked_fuel [OF assms(1) refl assms(2), of ex] file_more_fuel [OF assms(3)] by blast

lemma sample_scenarios:
  "ParseScenarioFile (NewParser sampleExecLib (SetContext ''/outer'' r)) outerText =
    Parsed \<lparr>sc_Name = [], sc_Comment = [], sc_CheckGas = True, sc_GasSchedule = GasScheduleDefault,
      sc_Steps = [ExternalSteps \<lparr>ext_Comment = [], ext_Path = ''inner''\<rparr>, SetState \<lparr>set_Comment = [], set_Accounts = [], set_PreviousBlockInfo = None, set_CurrentBlockInfo = None, set_BlockHashes = [], set_NewAddressMocks = []\<rparr>]\<rparr>"
  "ParseScenarioFile (NewParser sampleExecLib (SetContext ''/inner'' r)) innerText =
    Parsed \<lparr>sc_Name = [], sc_Comment = [], sc_CheckGas = False, sc_GasSchedule = GasScheduleDefault, sc_Steps = []\<rparr>"
  by code_simp+

text \<open>C12: a transaction that fails costs its gas and nothing else.  When the output of an executed transaction is not ok (out of funds, out of
  gas, an error of the contract), every account keeps its balance, its nonce and its whole storage, but for the sender, who has paid the
  gas and whose nonce has grown by one; whatever the contract or the transfer of tokens before it wrote is taken back.  The
  built-in functions are those that move no native funds.\<close>

theorem failed_transaction_costs_gas:
  assumes "wellFormed (ex_World ex)" "restrained books (ex_World ex)" "executeTx lib txIndex tx ex = Some (Inr out, ex')" "ReturnCode out \<noteq> Ok"
  shows "viewOf (withStorage books) (AcctMap (ex_World ex')) = viewOf (withStorage books) (chargeSender tx (AcctMap (ex_World ex)))"
  using assms by (rule failed_world)

text \<open>C11: transactions conserve the funds, as long as the built-in functions leave them alone and no account is deleted.  In a world whose
  built-in functions, a library, neither make accounts nor change the address, nonce or balance of one (\<open>restrained books\<close>: they may move tokens; one that pays
  out rewards is not of this kind), a transaction with a sender that is executed without error, and whose output lists no account to delete, changes the sum
  of all balances by exactly the gas that the sender pays, whatever else the VM and the contracts do: what the contracts move between accounts,
  to new accounts and out of the value of the call adds up.\<close>

theorem funds_conserved:
  assumes "wellFormed (ex_World ex)" "restrained books (ex_World ex)" "executeTx lib txIndex tx ex = Some (Inr out, ex')"
    "HasSender (tx_Type tx)" "DeletedAccounts out = []"
  shows "totalFunds (AcctMap (ex_World ex')) =
    totalFunds (AcctMap (ex_World ex)) - uint (ju_Value (tx_GasLimit tx)) * uint (ju_Value (tx_GasPrice tx))"
  using assms by (rule funds_world)

text \<open>C27: a scenario keeps the world well-formed.  Whatever the steps of a scenario file and of the files it includes are, whether they
  succeed or fail, when the run comes back no backup of the state is left behind, no account is there twice, and each is stored under its
  own address.\<close>

theorem scenario_keeps_world:
  assumes "wellFormed (ex_World ex)" "restrained wa_Address (ex_World ex)" "runScenarioFile n lib r path ex = Returned (err, ex')"
  shows "wellFormed (ex_World ex')"
  using wf.inv_file [OF _ assms(3)] assms(1,2) by (simp add: wellFormedRestrained_def)

text \<open>The check of the storage is exact.  It passes if and only if it is told to ignore the storage or every key outside of the token keys of the
  protocol has the expected value, where a key that is missing on either side counts as empty.\<close>

lemma storage_check_exact:
  "checkAccountStorage lib c a = None \<longleftrightarrow> ca_IgnoreStorage c \<or> (\<forall>k. IsDCDTKey lib k \<or> StorageValue a k = expectedValue c k)"
  by (rule checkAccountStorage_None)

text \<open>C36: the check of the tokens misses what only one side has.  An account passes whatever tokens it has and whatever tokens are expected, as
  long as no token is on both sides: neither a missing token nor an unexpected one is an error.\<close>

theorem one_sided_tokens_pass:
  assumes "GetFullMockDCDTData lib a = Some (Inr tokens)"
    "\<forall>t. go_get (getExpectedTokens c) t = None \<or> go_get tokens t = None"
  shows "checkAccountDCDT lib c a = Some None"
proof -
  have "those (map (\<lambda>t. case (go_get (getExpectedTokens c) t, go_get tokens t) of
      (Some e, Some f) \<Rightarrow> checkTokenState t e f | _ \<Rightarrow> Some []) ts) = Some (replicate (length ts) [])" for ts
  proof (induction ts)
    case (Cons t ts)
    with spec [OF assms(2), of t] show ?case by (auto split: option.split)
  qed simp
  with assms(1) show ?thesis by (simp add: checkAccountDCDT_def Let_def)
qed

text \<open>C35: what a step sets, a check finds.  After a step that sets accounts with different addresses has succeeded, the check that expects
  exactly these accounts (balance, nonce, name, code, data of asynchronous calls and storage, tokens aside) passes; it may even exclude other accounts when there were none before.\<close>

theorem set_then_check:
  assumes "ExecuteSetStateStep lib step ex = Some (None, ex')" "distinct (map (jbs_Value \<circ> ac_Address) (set_Accounts step))"
    "others \<or> AcctMap (ex_World ex) = []"
  shows "ExecuteCheckStateStep lib \<lparr>chk_Comment = [], chk_CheckAccounts = Some \<lparr>OtherAccountsAllowed = others,
    Accounts = map checkOf (set_Accounts step)\<rparr>\<rparr> ex' = Some None"
proof -
  from assms(1) obtain w where w: "putAccounts (ex_worldLib lib) (set_Accounts step) (ex_World ex) = Some (None, w)" "AcctMap (ex_World ex') = AcctMap w"
    by (auto simp: ExecuteSetStateStep_def bind_Some_iff split: option.split_asm)
  from putAccounts_found [OF w(1) assms(2)] have found:
    "\<forall>acct \<in> set (set_Accounts step). \<exists>a. agreesWith (ex_worldLib lib) acct a \<and> go_get (AcctMap (ex_World ex')) (jbs_Value (ac_Address acct)) = Some a"
    "\<forall>k. k \<notin> (jbs_Value \<circ> ac_Address) ` set (set_Accounts step) \<longrightarrow> go_get (AcctMap (ex_World ex')) k = go_get (AcctMap (ex_World ex)) k"
    using w(2) by simp_all
  have "FindCheckAccount (map checkOf (set_Accounts step)) k \<noteq> None" if "(k, a) \<in> set (AcctMap (ex_World ex'))" "\<not> others" for k a
  proof -
    have "go_get (AcctMap (ex_World ex')) k \<noteq> None" using that(1) in_keys_iff [of k "AcctMap (ex_World ex')"] by force
    with found(2) that(2) assms(3) have "k \<in> (jbs_Value \<circ> ac_Address) ` set (set_Accounts step)" by auto
    then show ?thesis by (auto simp: FindCheckAccount_def find_None_iff checkOf_def)
  qed
  then have "firstError (\<lambda>(worldAcctAddr, _). Some (if FindCheckAccount (map checkOf (set_Accounts step)) worldAcctAddr = None
      then Some (UnexpectedAccount worldAcctAddr) else None)) (AcctMap (ex_World ex')) = Some None" if "\<not> others"
    using that by (intro firstError_None) auto
  moreover have "firstError (checkAccount (ex_worldLib lib) (ex_World ex')) (map checkOf (set_Accounts step)) = Some None"
    using found(1) checkAccount_agrees by (intro firstError_None) fastforce
  ultimately show ?thesis by (cases others) (simp_all add: ExecuteCheckStateStep_def checkAccounts_def)
qed

subsection \<open>Witnesses\<close>

lemma sample_lib:
  "path_Abs sampleExecLib = Inr" "os_ReadFile sampleExecLib path = (case map_of sampleFiles path of None \<Rightarrow> Inl ''no such file'' | Some text1 \<Rightarrow> Inr text1)"
  "path_Dir sampleExecLib path = ''/''" "path_Join sampleExecLib dir path = dir @ path"
  by (simp_all add: sampleExecLib_def)

lemma sample_read:
  "readScenario sampleExecLib r path = (case map_of sampleFiles path of None \<Rightarrow> Returned (Inl (OsError ''no such file''))
    | Some text1 \<Rightarrow> (case ParseScenarioFile (NewParser sampleExecLib (SetContext path r)) text1 of
        Panicked \<Rightarrow> Crashed | Rejected e \<Rightarrow> Returned (Inl (ParsingError e)) | Parsed scenario \<Rightarrow> Returned (Inr (SetContext path r, scenario))))"
  by (simp add: readScenario_def sample_lib Let_def split: option.split)

lemma sample_readScenario:
  "readScenario sampleExecLib r ''/outer'' = Returned (Inr (SetContext ''/outer'' r, \<lparr>sc_Name = [], sc_Comment = [], sc_CheckGas = True,
     sc_GasSchedule = GasScheduleDefault, sc_Steps = [ExternalSteps \<lparr>ext_Comment = [], ext_Path = ''inner''\<rparr>, SetState \<lparr>set_Comment = [], set_Accounts = [], set_PreviousBlockInfo = None, set_CurrentBlockInfo = None, set_BlockHashes = [], set_NewAddressMocks = []\<rparr>]\<rparr>))"
  "readScenario sampleExecLib r ''/inner'' = Returned (Inr (SetContext ''/inner'' r, \<lparr>sc_Name = [], sc_Comment = [], sc_CheckGas = False,
     sc_GasSchedule = GasScheduleDefault, sc_Steps = []\<rparr>))"
  "path \<noteq> ''/outer'' \<Longrightarrow> path \<noteq> ''/inner'' \<Longrightarrow> readScenario sampleExecLib r path = Returned (Inl (OsError ''no such file''))"
  by (simp_all add: sample_read sampleFiles_def sample_scenarios)

lemma sample_ranked: "ranked sampleExecLib [] (\<lambda>path. if path = ''/outer'' then 1 else 0)"
  unfolding ranked_def
proof (intro allI impI)
  fix r path r' scenario step
  assume r: "fr_contractPathReplacements r = []" and read: "readScenario sampleExecLib r path = Returned (Inr (r', scenario))"
    and step: "ExternalSteps step \<in> set (sc_Steps scenario)"
  have "path = ''/outer''" using read step sample_readScenario(2) [of r] sample_readScenario(3) [of path r] by fastforce
  with read step sample_readScenario(1) [of r] readScenario_replacements [OF read] r
  show "(if ResolveAbsolutePath sampleExecLib r' (ext_Path step) = ''/outer'' then 1 else 0 :: nat) < (if path = ''/outer'' then 1 else 0)"
    by (auto simp: ResolveAbsolutePath_def sample_lib)
qed

theorem scenario_terminates_witness:
  "runScenarioFile 2 sampleExecLib NewDefaultFileResolver ''/outer'' sampleExecutor \<noteq> NoFuel \<and>
   runScenarioFile 1000 sampleExecLib NewDefaultFileResolver ''/outer'' sampleExecutor = runScenarioFile 2 sampleExecLib NewDefaultFileResolver ''/outer'' sampleExecutor"
  by (rule scenario_terminates [where rank = "\<lambda>path. if path = ''/outer'' then 1 else 0"]) (simp_all add: sample_ranked NewDefaultFileResolver_def)

theorem failed_transaction_costs_gas_witness:
  "\<exists>out ex'. executeTx sampleExecLib ''1'' (sampleTx mj_Transfer 4999 1000) sampleExecutor = Some (Inr out, ex') \<and> ReturnCode out = OutOfFunds \<and>
     viewOf (withStorage books) (AcctMap (ex_World ex')) =
       viewOf (withStorage books) (chargeSender (sampleTx mj_Transfer 4999 1000) (AcctMap (ex_World sampleExecutor)))"
  using summary_Some [OF sample_failure] failed_transaction_costs_gas [OF sample_wellFormed(1,2)] by fastforce

theorem funds_conserved_witness:
  "\<exists>out ex'. executeTx sampleExecLib ''1'' (sampleTx mj_Transfer 7 1000) sampleExecutor = Some (Inr out, ex') \<and> ReturnCode out = Ok \<and>
     totalFunds (AcctMap (ex_World ex')) = 3000"
proof -
  obtain out ex' where r: "executeTx sampleExecLib ''1'' (sampleTx mj_Transfer 7 1000) sampleExecutor = Some (Inr out, ex')" "ReturnCode out = Ok"
      "DeletedAccounts out = []" using summary_Some [OF sample_moves] by blast
  have "HasSender (tx_Type (sampleTx mj_Transfer 7 1000))" by (simp add: sampleTx_def HasSender_def)
  from funds_conserved [OF sample_wellFormed(1,2) r(1) this r(3)] have "totalFunds (AcctMap (ex_World ex')) = 3000"
    by (simp add: exec_sample_defs NewMockWorld_def totalFunds_def emptyAccount_def)
  with r show ?thesis by blast
qed

lemma sample_run: "\<exists>ex'. runScenarioFile 2 sampleExecLib NewDefaultFileResolver ''/outer'' sampleExecutor = Returned (None, ex') \<and> \<not> ex_checkGas ex'"
proof -
  have inner: "runScenarioFile (Suc 0) sampleExecLib r ''/inner'' ex =
      Returned (None, ex\<lparr>ex_fileResolver := Some (SetContext ''/inner'' r), ex_checkGas := False\<rparr>)" if "ex_scenGasScheduleLoaded ex" for r ex
    using that by (simp add: RunSingleJSONScenario_def sample_readScenario ExecuteScenario_def SetScenariosGasSchedule_def orCrash_def ending_then_def)
  have two: "(2 :: nat) = Suc (Suc 0)" by simp
  show ?thesis
    unfolding two runScenarioFile.simps(2) [of "Suc 0"]
    by (simp add: RunSingleJSONScenario_def sample_readScenario ExecuteScenario_def SetScenariosGasSchedule_def orCrash_def ending_then_def
        ExecuteStep_def ExecuteExternalStep_def ResolveAbsolutePath_def sample_lib SetContext_def NewDefaultFileResolver_def inner sampleExecutor_def
        ExecuteSetStateStep_def del: runScenarioFile.simps)
qed

theorem scenario_keeps_world_witness:
  "\<exists>ex'. runScenarioFile 2 sampleExecLib NewDefaultFileResolver ''/outer'' sampleExecutor = Returned (None, ex') \<and> wellFormed (ex_World ex')"
proof -
  from sample_run obtain ex' where "runScenarioFile 2 sampleExecLib NewDefaultFileResolver ''/outer'' sampleExecutor = Returned (None, ex')"
    by blast
  with scenario_keeps_world [OF sample_wellFormed(1,3) this] show ?thesis by blast
qed

definition sampleExpectation :: CheckAccount where
  "sampleExpectation = newCheckAccount\<lparr>ca_CheckStorage := [\<lparr>skv_Key = \<lparr>jbs_Value = ''counter'', jbs_Original = []\<rparr>, skv_Value = \<lparr>jbt_Value = ''1'', jbt_Original = None\<rparr>\<rparr>],
     ca_CheckDCDTData := [\<lparr>cdd_TokenIdentifier = \<lparr>jbs_Value = ''TOK'', jbs_Original = []\<rparr>, cdd_Instances = [], cdd_LastNonce = zeroCheckUint64, cdd_Roles = [],
       cdd_Frozen = zeroCheckUint64\<rparr>]\<rparr>"

lemma storage_check_exact_example:
  "checkAccountStorage sampleWorldLib sampleExpectation sampleUser = None"
  using storage_check_exact [of sampleWorldLib sampleExpectation sampleUser]
  by (auto simp: sampleExpectation_def expectedValue_def expectedStorageOf_def sampleUser_def StorageValue_def)

theorem one_sided_tokens_pass_witness:
  "map fst (getExpectedTokens sampleExpectation) = [''TOK''] \<and> checkAccountDCDT sampleWorldLib sampleExpectation sampleUser = Some None"
proof
  have "GetFullMockDCDTData sampleWorldLib sampleUser = Some (Inr [])" by code_simp
  then show "checkAccountDCDT sampleWorldLib sampleExpectation sampleUser = Some None" by (rule one_sided_tokens_pass) simp
qed code_simp

definition sampleSetState :: SetStateStep where
  "sampleSetState = \<lparr>set_Comment = [], set_Accounts = [zeroAccount\<lparr>ac_Address := \<lparr>jbs_Value = replicate 32 (CHR ''a''), jbs_Original = []\<rparr>,
     ac_Balance := \<lparr>jbi_Value = Some 9, jbi_Original = []\<rparr>\<rparr>], set_PreviousBlockInfo = None, set_CurrentBlockInfo = None, set_BlockHashes = [], set_NewAddressMocks = []\<rparr>"

theorem set_then_check_witness:
  "\<exists>ex'. ExecuteSetStateStep sampleExecLib sampleSetState sampleExecutor = Some (None, ex') \<and>
     ExecuteCheckStateStep sampleExecLib \<lparr>chk_Comment = [], chk_CheckAccounts = Some \<lparr>OtherAccountsAllowed = True,
       Accounts = map checkOf (set_Accounts sampleSetState)\<rparr>\<rparr> ex' = Some None"
proof -
  have "map_option fst (ExecuteSetStateStep sampleExecLib sampleSetState sampleExecutor) = Some None" by code_simp
  then obtain ex' where "ExecuteSetStateStep sampleExecLib sampleSetState sampleExecutor = Some (None, ex')" by auto
  with set_then_check [OF this] show ?thesis by (simp add: sampleSetState_def)
qed

end
