(* ===== verification/IpcDialogue.thy ===== *)
theory IpcDialogue
  imports IpcGateway
begin

text \<open>
  The dialogue of the two processes (\<open>part.go\<close> and \<open>messenger.go\<close> of \<open>src/ipc/nodepart\<close> and \<open>src/ipc/vmpart\<close>).  The node
  sends a request and serves hook calls until it gets the response; the VM runs the host, which asks hooks on the way.  What
  a host does with a request is a tree of hook calls (\<open>run\<close>).  The two processes and the two pipes between them are a
  state machine: each step is one iteration of a loop, in any order, and there are steps for what
  can go wrong outside: time runs out, or the process of the VM ends.
\<close>

datatype ('r, 'h) run = Done 'r 'h | Ask MessageHandler "ipcError + MessageHandler \<Rightarrow> ('r, 'h) run"
  \<comment> \<open>the result and the new state of the host, or a hook call and how to go on with its answer\<close>

record 'h VMHost =
  host_RunSmartContractCreate :: "'h \<Rightarrow> ContractCreateInput \<Rightarrow> (VMOutput option \<times> err option, 'h) run"
  host_RunSmartContractCall :: "'h \<Rightarrow> ContractCallInput \<Rightarrow> (VMOutput option \<times> err option, 'h) run"
  host_GasScheduleChange :: "'h \<Rightarrow> GasScheduleMap \<Rightarrow> 'h"
  vmpart_Version :: string

subsection \<open>The repliers of the VM\<close>

definition replyToRunSmartContractCreate :: "'h VMHost \<Rightarrow> 'h \<Rightarrow> MessageHandler \<Rightarrow> (MessageHandler, 'h) run option" where
  "replyToRunSmartContractCreate H h request =
     (case msgBody request of
        MessageContractDeployRequest (Some createInput) \<Rightarrow>
          Some (map_run (\<lambda>(vmOutput, err). NewMessageContractResponse vmOutput err) id (host_RunSmartContractCreate H h createInput))
      | _ \<Rightarrow> None)"

definition replyToRunSmartContractCall :: "'h VMHost \<Rightarrow> 'h \<Rightarrow> MessageHandler \<Rightarrow> (MessageHandler, 'h) run option" where
  "replyToRunSmartContractCall H h request =
     (case msgBody request of
        MessageContractCallRequest (Some callInput) \<Rightarrow>
          Some (map_run (\<lambda>(vmOutput, err). NewMessageContractResponse vmOutput err) id (host_RunSmartContractCall H h callInput))
      | _ \<Rightarrow> None)"

definition replyToDiagnoseWait :: "'h VMHost \<Rightarrow> 'h \<Rightarrow> MessageHandler \<Rightarrow> (MessageHandler, 'h) run option" where
  "replyToDiagnoseWait H h request =
     (case msgBody request of MessageDiagnoseWaitRequest milliseconds \<Rightarrow> Some (Done NewMessageDiagnoseWaitResponse h) | _ \<Rightarrow> None)"

definition replyToVersionRequest :: "'h VMHost \<Rightarrow> 'h \<Rightarrow> MessageHandler \<Rightarrow> (MessageHandler, 'h) run option" where
  "replyToVersionRequest H h request = Some (Done (NewMessageVersionResponse (vmpart_Version H)) h)"

definition replyToGasScheduleChange :: "'h VMHost \<Rightarrow> 'h \<Rightarrow> MessageHandler \<Rightarrow> (MessageHandler, 'h) run option" where
  "replyToGasScheduleChange H h request =
     (case msgBody request of
        MessageGasScheduleChangeRequest schedule \<Rightarrow> Some (Done NewGasScheduleChangeResponse (host_GasScheduleChange H h schedule))
      | _ \<Rightarrow> None)"

definition vm_Repliers :: "(MessageKind, 'h VMHost \<Rightarrow> 'h \<Rightarrow> MessageHandler \<Rightarrow> (MessageHandler, 'h) run option) gomap" where
  "vm_Repliers = [(ContractDeployRequest, replyToRunSmartContractCreate), (ContractCallRequest, replyToRunSmartContractCall),
     (DiagnoseWaitRequest, replyToDiagnoseWait), (VersionRequest, replyToVersionRequest), (GasScheduleChangeRequest, replyToGasScheduleChange)]"

definition vm_noopReplier :: MessageHandler where
  "vm_noopReplier = CreateMessage UndefinedRequestOrResponse"

definition replyToNodeRequest :: "'h VMHost \<Rightarrow> 'h \<Rightarrow> MessageHandler \<Rightarrow> (MessageHandler, 'h) run option" where
  "replyToNodeRequest H h request =
     (if GetKind request < LastKind
      then (case go_get vm_Repliers (GetKind request) of Some replier \<Rightarrow> replier H h request | None \<Rightarrow> Some (Done vm_noopReplier h))
      else None)"

subsection \<open>The processes\<close>

datatype nodeProc =
    NodeIdle
  | NodeLoop int                                  \<comment> \<open>in \<open>doLoop\<close>, with the milliseconds that remain\<close>
  | NodeReturned "ipcError + MessageHandler"      \<comment> \<open>\<open>StartLoop\<close> has returned\<close>
  | NodePanicked

datatype 'h vmProc =
    VMWaiting 'h                                                       \<comment> \<open>for a request of the node\<close>
  | VMRunning "(MessageHandler, 'h) run"
  | VMAwaiting "ipcError + MessageHandler \<Rightarrow> (MessageHandler, 'h) run"  \<comment> \<open>the answer of a hook call\<close>
  | VMEnded ipcError
  | VMPanicked

record 'h ipc =
  nodeProc :: nodeProc
  nodeMessenger :: Messenger
  nodeLog :: "hookEvent list"
  vmProc :: "'h vmProc"
  vmMessenger :: Messenger
  toVM :: pipe
  toNode :: pipe

definition node_StartLoop :: "ipcLib \<Rightarrow> int \<Rightarrow> MessageHandler \<Rightarrow> 'h ipc \<Rightarrow> 'h ipc" where
  \<comment> \<open>up to the first iteration of the loop\<close>
  "node_StartLoop lib maxLoopTime request c =
     (case messenger_Send lib request (nodeMessenger c) (toVM c) of
        (Some err, messenger, p) \<Rightarrow>
          c\<lparr>nodeMessenger := messenger, toVM := p, nodeProc := NodeReturned (Inl ErrCannotSendContractRequest)\<rparr>
      | (None, messenger, p) \<Rightarrow> c\<lparr>nodeMessenger := messenger, toVM := p, nodeProc := NodeLoop maxLoopTime\<rparr>)"

definition node_return :: "ipcError + MessageHandler \<Rightarrow> 'h ipc \<Rightarrow> 'h ipc" where
  "node_return outcome c = c\<lparr>nodeProc := NodeReturned outcome, nodeMessenger := messenger_ResetDialogue (nodeMessenger c)\<rparr>"

definition node_replyToHookCallRequest :: "ipcLib \<Rightarrow> BlockchainHook \<Rightarrow> int \<Rightarrow> MessageHandler \<Rightarrow> 'h ipc \<Rightarrow> 'h ipc" where
  "node_replyToHookCallRequest lib N remaining request c =
     (case node_reply N request (nodeLog c) of
        None \<Rightarrow> c\<lparr>nodeProc := NodePanicked\<rparr>
      | Some (hookResponse, log) \<Rightarrow>
          (case messenger_Send lib hookResponse (nodeMessenger c) (toVM c) of
             (Some err, messenger, p) \<Rightarrow>
               node_return (Inl ErrCannotSendHookCallResponse) (c\<lparr>nodeLog := log, nodeMessenger := messenger, toVM := p\<rparr>)
           | (None, messenger, p) \<Rightarrow> c\<lparr>nodeLog := log, nodeMessenger := messenger, toVM := p, nodeProc := NodeLoop remaining\<rparr>))"

definition node_doLoop :: "ipcLib \<Rightarrow> BlockchainHook \<Rightarrow> int \<Rightarrow> 'h ipc \<Rightarrow> 'h ipc option" where
  \<comment> \<open>an iteration of the loop that takes \<open>duration\<close> milliseconds; \<open>None\<close>: it waits\<close>
  "node_doLoop lib N duration c =
     (case nodeProc c of
        NodeLoop remaining \<Rightarrow>
          (case messenger_Receive lib (nodeMessenger c) (toNode c) of
             None \<Rightarrow> None
           | Some (Inl err, messenger, p) \<Rightarrow> Some (node_return (Inl err) (c\<lparr>nodeMessenger := messenger, toNode := p\<rparr>))
           | Some (Inr message, messenger, p) \<Rightarrow>
               let c = c\<lparr>nodeMessenger := messenger, toNode := p\<rparr>;
                   remaining = remaining - duration
               in Some (if remaining < 0 then node_return (Inl ErrVMTimeExpired) c
                  else if IsHookCall message then node_replyToHookCallRequest lib N remaining message c
                  else if IsVersionResponse message \<or> IsContractResponse message \<or> IsDiagnose message \<or> IsGasScheduleChangeResponse message
                  then node_return (Inr message) c
                  else node_return (Inl ErrBadMessageFromVM) c))
      | _ \<Rightarrow> None)"

definition deadlineExceeded :: ipcError where "deadlineExceeded = PlainError (ErrExternal ''i/o timeout'')"

definition node_timeout :: "ipcLib \<Rightarrow> 'h ipc \<Rightarrow> 'h ipc option" where
  \<comment> \<open>a deadline is set only when milliseconds remain\<close>
  "node_timeout lib c =
     (case nodeProc c of
        NodeLoop remaining \<Rightarrow>
          if remaining > 0 \<and> messenger_Receive lib (nodeMessenger c) (toNode c) = None then Some (node_return (Inl deadlineExceeded) c) else None
      | _ \<Rightarrow> None)"

definition vm_doLoop :: "ipcLib \<Rightarrow> 'h VMHost \<Rightarrow> 'h ipc \<Rightarrow> 'h ipc option" where
  \<comment> \<open>a step of the loop of the VM: receiving a request, sending a hook call, receiving its answer, or sending the response\<close>
  "vm_doLoop lib H c =
     (case vmProc c of
        VMWaiting h \<Rightarrow>
          (case messenger_Receive lib (vmMessenger c) (toVM c) of
             None \<Rightarrow> None
           | Some (Inl err, messenger, p) \<Rightarrow> Some (c\<lparr>vmMessenger := messenger, toVM := p, vmProc := VMEnded err\<rparr>)
           | Some (Inr request, messenger, p) \<Rightarrow>
               Some (c\<lparr>vmMessenger := messenger, toVM := p,
                 vmProc := (if IsStopRequest request then VMEnded ErrStopPerNodeRequest
                   else (case replyToNodeRequest H h request of None \<Rightarrow> VMPanicked | Some t \<Rightarrow> VMRunning t))\<rparr>))
      | VMRunning (Done response h) \<Rightarrow>
          (case messenger_Send lib response (vmMessenger c) (toNode c) of
             (Some err, messenger, p) \<Rightarrow> Some (c\<lparr>vmMessenger := messenger, toNode := p, vmProc := VMEnded (PlainError err)\<rparr>)
           | (None, messenger, p) \<Rightarrow> Some (c\<lparr>vmMessenger := messenger_ResetDialogue messenger, toNode := p, vmProc := VMWaiting h\<rparr>))
      | VMRunning (Ask request k) \<Rightarrow>
          (case messenger_Send lib request (vmMessenger c) (toNode c) of
             (Some err, messenger, p) \<Rightarrow> Some (c\<lparr>vmMessenger := messenger, toNode := p, vmProc := VMRunning (k (Inl ErrCannotSendHookCallRequest))\<rparr>)
           | (None, messenger, p) \<Rightarrow> Some (c\<lparr>vmMessenger := messenger, toNode := p, vmProc := VMAwaiting k\<rparr>))
      | VMAwaiting k \<Rightarrow>
          (case messenger_Receive lib (vmMessenger c) (toVM c) of
             None \<Rightarrow> None
           | Some (Inl err, messenger, p) \<Rightarrow>
               Some (c\<lparr>vmMessenger := messenger, toVM := p, vmProc := VMRunning (k (Inl ErrCannotReceiveHookCallResponse))\<rparr>)
           | Some (Inr response, messenger, p) \<Rightarrow> Some (c\<lparr>vmMessenger := messenger, toVM := p, vmProc := VMRunning (k (Inr response))\<rparr>))
      | _ \<Rightarrow> None)"

inductive ipc_step :: "ipcLib \<Rightarrow> BlockchainHook \<Rightarrow> 'h VMHost \<Rightarrow> 'h ipc \<Rightarrow> 'h ipc \<Rightarrow> bool" for lib N H where
  node: "node_doLoop lib N duration c = Some c' \<Longrightarrow> 0 \<le> duration \<Longrightarrow> ipc_step lib N H c c'"
| vm: "vm_doLoop lib H c = Some c' \<Longrightarrow> ipc_step lib N H c c'"
| timeout: "node_timeout lib c = Some c' \<Longrightarrow> ipc_step lib N H c c'"
| ends: "ipc_step lib N H c (c\<lparr>vmProc := VMEnded reason\<rparr>)"

inductive quiet_step :: "ipcLib \<Rightarrow> BlockchainHook \<Rightarrow> 'h VMHost \<Rightarrow> 'h ipc \<Rightarrow> 'h ipc \<Rightarrow> bool" for lib N H where
  \<comment> \<open>the steps of the two programs, in time\<close>
  quiet_node: "node_doLoop lib N duration c = Some c' \<Longrightarrow> nodeProc c = NodeLoop r \<Longrightarrow> 0 \<le> duration \<Longrightarrow> duration \<le> r \<Longrightarrow> quiet_step lib N H c c'"
| quiet_vm: "vm_doLoop lib H c = Some c' \<Longrightarrow> quiet_step lib N H c c'"

subsection \<open>The dialogue as a single program\<close>

primrec serve :: "BlockchainHook \<Rightarrow> (MessageHandler, 'h) run \<Rightarrow> u32 \<Rightarrow> hookEvent list \<Rightarrow> (MessageHandler \<times> 'h \<times> hookEvent list) option" where
  \<comment> \<open>the host with its hook calls answered by the node at once\<close>
  "serve N (Done response h) n log = Some (SetNonce (n + 1) response, h, log)"
| "serve N (Ask request k) n log =
     (case node_reply N (SetNonce (n + 1) request) log of
        None \<Rightarrow> None
      | Some (response, log) \<Rightarrow> serve N (k (Inr (SetNonce (n + 2) response))) (n + 2) log)"

primrec exchanged :: "BlockchainHook \<Rightarrow> (MessageHandler, 'h) run \<Rightarrow> u32 \<Rightarrow> hookEvent list \<Rightarrow> MessageHandler list" where
  \<comment> \<open>the messages of such a run\<close>
  "exchanged N (Done response h) n log = [SetNonce (n + 1) response]"
| "exchanged N (Ask request k) n log =
     (case node_reply N (SetNonce (n + 1) request) log of
        None \<Rightarrow> []
      | Some (response, log) \<Rightarrow>
          SetNonce (n + 1) request # SetNonce (n + 2) response # exchanged N (k (Inr (SetNonce (n + 2) response))) (n + 2) log)"

definition hookRequestMsg :: "MessageHandler \<Rightarrow> bool" where
  "hookRequestMsg m \<longleftrightarrow> (\<exists>r. msgBody m = HookRequest r \<and> Kind m = requestKind r \<and> r \<noteq> MessageBlockchainGetCodeRequest None)"

primrec asksHooks :: "('r, 'h) run \<Rightarrow> bool" where
  \<comment> \<open>every message the host sends is a request of the gateway\<close>
  "asksHooks (Done r h) \<longleftrightarrow> True"
| "asksHooks (Ask request k) \<longleftrightarrow> hookRequestMsg request \<and> (\<forall>x. asksHooks (k x))"

definition hostAsks :: "'h VMHost \<Rightarrow> bool" where
  "hostAsks H \<longleftrightarrow> (\<forall>h i. asksHooks (host_RunSmartContractCreate H h i)) \<and> (\<forall>h i. asksHooks (host_RunSmartContractCall H h i))"

subsection \<open>Requests and responses\<close>

definition hookResponseMsg :: "MessageKind \<Rightarrow> MessageHandler \<Rightarrow> bool" where
  \<comment> \<open>a response of the kind that goes with a request\<close>
  "hookResponseMsg k m \<longleftrightarrow> (\<exists>r. msgBody m = HookResponse r \<and> Kind m = responseKind r \<and> responseKind r = k + 1)"

lemma node_reply_ok:
  assumes "hookRequestMsg m"
  shows "\<exists>response log'. node_reply N m log = Some (response, log') \<and> hookResponseMsg (Kind m) response"
proof -
  obtain r where r: "msgBody m = HookRequest r" "Kind m = requestKind r" "r \<noteq> MessageBlockchainGetCodeRequest None"
    using assms by (auto simp: hookRequestMsg_def)
  have "case node_reply N m log of None \<Rightarrow> False | Some (response, log') \<Rightarrow>
      case msgBody response of HookResponse q \<Rightarrow> Kind response = responseKind q \<and> Kind response = Kind m + 1 | _ \<Rightarrow> False"
    using r by (cases r; simp add: replier_defs response_defs split: prod.split option.split; simp add: kind_defs)
  then show ?thesis by (auto simp: hookResponseMsg_def split: option.splits body.splits)
qed

lemma hookRequest_kind: "hookRequestMsg m \<Longrightarrow> wellTyped m \<and> IsHookCall m"
proof -
  assume "hookRequestMsg m"
  then obtain r where r: "msgBody m = HookRequest r" "Kind m = requestKind r" by (auto simp: hookRequestMsg_def)
  have "BlockchainNewAddressRequest \<le> requestKind r \<and> requestKind r \<le> BlockchainGetCompiledCodeResponse"
    by (cases r) (simp_all add: kind_defs)
  with r show ?thesis by (simp add: wellTyped_def IsHookCall_def GetKind_def)
qed

lemma hookResponse_typed: "hookResponseMsg k m \<Longrightarrow> wellTyped m"
  by (auto simp: hookResponseMsg_def wellTyped_def)

lemma SetNonce_simps [simp]:
  "hookRequestMsg (SetNonce n m) = hookRequestMsg m" "hookResponseMsg k (SetNonce n m) = hookResponseMsg k m"
  "wellTyped (SetNonce n m) = wellTyped m" "IsHookCall (SetNonce n m) = IsHookCall m"
  by (simp_all add: hookRequestMsg_def hookResponseMsg_def wellTyped_def IsHookCall_def GetKind_def)

text \<open>
  Every hook call is answered with the right struct.  Whatever the node's hooks return, the node answers a request of the gateway
  without panic, the response has the kind that follows that of the request, its struct is that of its kind, and it is the struct that
  the receiver of the VM makes for this kind.
\<close>

lemma hook_replies_typed:
  assumes "hookRequestMsg m"
  shows "\<exists>response log'. node_reply N m log = Some (response, log') \<and> Kind response = Kind m + 1 \<and> wellTyped response \<and>
    structKind (msgBody (CreateMessage (Kind response))) = Kind response"
proof -
  obtain response log' where r: "node_reply N m log = Some (response, log')" "hookResponseMsg (Kind m) response"
    using node_reply_ok [OF assms] by blast
  then have "wellTyped response" "Kind response = Kind m + 1" by (auto simp: hookResponseMsg_def wellTyped_def)
  moreover from this have "structKind (msgBody (CreateMessage (Kind response))) = Kind response" by (simp add: wellTyped_def)
  ultimately show ?thesis using r by blast
qed

lemma hook_replies_typed_example:
  "\<exists>response log'. node_reply sampleNode (NewMessageBlockchainGetCompiledCodeRequest ''hash'') [] = Some (response, log') \<and>
    Kind response = BlockchainGetCompiledCodeResponse"
  using hook_replies_typed [of "NewMessageBlockchainGetCompiledCodeRequest ''hash''" sampleNode "[]"]
  by (auto simp: hookRequestMsg_def NewMessageBlockchainGetCompiledCodeRequest_def newMessage_def kind_defs)

definition requestMsg :: "MessageHandler \<Rightarrow> bool" where
  \<comment> \<open>the requests of the driver\<close>
  "requestMsg m \<longleftrightarrow> wellTyped m \<and>
     (case msgBody m of
        MessageContractDeployRequest i \<Rightarrow> i \<noteq> None | MessageContractCallRequest i \<Rightarrow> i \<noteq> None
      | MessageVersionRequest \<Rightarrow> True | MessageGasScheduleChangeRequest _ \<Rightarrow> True | MessageDiagnoseWaitRequest _ \<Rightarrow> True | _ \<Rightarrow> False)"

definition responseMsg :: "MessageHandler \<Rightarrow> bool" where
  "responseMsg m \<longleftrightarrow> wellTyped m \<and>
     (case msgBody m of
        MessageContractResponse _ \<Rightarrow> True | MessageVersionResponse _ \<Rightarrow> True | PlainMessage \<Rightarrow> True
      | MessageDiagnoseWaitResponse \<Rightarrow> True | _ \<Rightarrow> False)"

primrec allDone :: "('r \<Rightarrow> bool) \<Rightarrow> ('r, 'h) run \<Rightarrow> bool" where
  "allDone P (Done r h) \<longleftrightarrow> P r"
| "allDone P (Ask request k) \<longleftrightarrow> (\<forall>x. allDone P (k x))"

lemma map_run_asks: "asksHooks (map_run f g t) = asksHooks t"
  by (induction t) auto

lemma map_run_done: "allDone P (map_run f g t) = allDone (P \<circ> f) t"
  by (induction t) auto

lemma allDone_True: "(\<And>r. P r) \<Longrightarrow> allDone P t"
  by (induction t) auto

lemma contractResponse: "responseMsg (NewMessageContractResponse vmOutput err)"
  by (simp add: responseMsg_def wellTyped_def NewMessageContractResponse_def)

lemma otherResponses:
  "responseMsg NewMessageDiagnoseWaitResponse" "responseMsg (NewMessageVersionResponse v)" "responseMsg NewGasScheduleChangeResponse"
  by (simp_all add: responseMsg_def wellTyped_def control_defs)

lemma reply_contract:
  "hostAsks H \<Longrightarrow> asksHooks (map_run f id (host_RunSmartContractCreate H h i)) \<and> asksHooks (map_run f id (host_RunSmartContractCall H h j))"
  by (simp add: hostAsks_def map_run_asks)

lemma replyToNodeRequest_ok:
  assumes "requestMsg m" "hostAsks H"
  shows "\<exists>t. replyToNodeRequest H h m = Some t \<and> asksHooks t \<and> allDone responseMsg t"
proof -
  have finishes: "allDone responseMsg (map_run (\<lambda>(vmOutput, err). NewMessageContractResponse vmOutput err) id t)" for t :: "(VMOutput option \<times> err option, _) run"
    by (auto simp: map_run_done contractResponse intro: allDone_True)
  from assms show ?thesis
    by (auto simp: requestMsg_def wellTyped_def replyToNodeRequest_def GetKind_def vm_Repliers_def replyToRunSmartContractCreate_def
      replyToRunSmartContractCall_def replyToDiagnoseWait_def replyToVersionRequest_def replyToGasScheduleChange_def finishes otherResponses
      reply_contract kind_defs split: body.splits)
qed

subsection \<open>Messengers\<close>

lemma messenger_Send_ok:
  assumes "survives lib (SetNonce (n + 1) m)"
  shows "messenger_Send lib m \<lparr>messenger_Nonce = n\<rparr> \<lparr>pipe_bytes = b, pipe_closed = False\<rparr> =
    (None, \<lparr>messenger_Nonce = n + 1\<rparr>, \<lparr>pipe_bytes = b @ frame_of lib (SetNonce (n + 1) m), pipe_closed = False\<rparr>)"
  using Send_frame [OF assms, of "\<lparr>pipe_bytes = b, pipe_closed = False\<rparr>"] by (auto simp: messenger_Send_def Let_def)

lemma messenger_Receive_ok:
  assumes "survives lib m" "wellTyped m" "DialogueNonce m = n + 1"
  shows "messenger_Receive lib \<lparr>messenger_Nonce = n\<rparr> \<lparr>pipe_bytes = frame_of lib m, pipe_closed = False\<rparr> =
    Some (Inr m, \<lparr>messenger_Nonce = n + 1\<rparr>, \<lparr>pipe_bytes = [], pipe_closed = False\<rparr>)"
  using Receive_frame [OF assms(1,2), of "\<lparr>pipe_bytes = frame_of lib m, pipe_closed = False\<rparr>" "[]"] assms(3)
  by (auto simp: messenger_Receive_def message_GetNonce_def)

lemma messenger_Receive_empty: "messenger_Receive lib m \<lparr>pipe_bytes = [], pipe_closed = False\<rparr> = None"
  by (simp add: messenger_Receive_def Receive_empty)

subsection \<open>The phases of a dialogue\<close>

definition ipcState :: "nodeProc \<Rightarrow> u32 \<Rightarrow> hookEvent list \<Rightarrow> 'h vmProc \<Rightarrow> u32 \<Rightarrow> bytes \<Rightarrow> bytes \<Rightarrow> 'h ipc" where
  \<comment> \<open>the processes, their nonces, and what is in the pipes to the VM and to the node\<close>
  "ipcState np nn log vp vn b1 b2 = \<lparr>nodeProc = np, nodeMessenger = \<lparr>messenger_Nonce = nn\<rparr>, nodeLog = log, vmProc = vp,
     vmMessenger = \<lparr>messenger_Nonce = vn\<rparr>, toVM = \<lparr>pipe_bytes = b1, pipe_closed = False\<rparr>, toNode = \<lparr>pipe_bytes = b2, pipe_closed = False\<rparr>\<rparr>"

primrec asks :: "BlockchainHook \<Rightarrow> (MessageHandler, 'h) run \<Rightarrow> u32 \<Rightarrow> hookEvent list \<Rightarrow> nat" where
  \<comment> \<open>the number of hook calls\<close>
  "asks N (Done response h) n log = 0"
| "asks N (Ask request k) n log =
     (case node_reply N (SetNonce (n + 1) request) log of
        None \<Rightarrow> 0
      | Some (response, log) \<Rightarrow> Suc (asks N (k (Inr (SetNonce (n + 2) response))) (n + 2) log))"

definition promise :: "ipcLib \<Rightarrow> BlockchainHook \<Rightarrow> (MessageHandler \<times> 'h \<times> hookEvent list) \<Rightarrow> (MessageHandler, 'h) run \<Rightarrow> u32 \<Rightarrow> hookEvent list \<Rightarrow> bool" where
  \<comment> \<open>the host in this state will come to that end, and its messages can be sent\<close>
  "promise lib N fin t n log \<longleftrightarrow> asksHooks t \<and> allDone responseMsg t \<and> serve N t n log = Some fin \<and> (\<forall>m \<in> set (exchanged N t n log). survives lib m)"

inductive phase :: "ipcLib \<Rightarrow> BlockchainHook \<Rightarrow> 'h VMHost \<Rightarrow> (MessageHandler \<times> 'h \<times> hookEvent list) \<Rightarrow> 'h ipc \<Rightarrow> nat \<Rightarrow> bool"
  for lib N H fin where
  \<comment> \<open>with the number of steps that are left\<close>
  requested: "requestMsg m \<Longrightarrow> DialogueNonce m = 1 \<Longrightarrow> survives lib m \<Longrightarrow> replyToNodeRequest H h m = Some t \<Longrightarrow> promise lib N fin t 1 log \<Longrightarrow> 0 \<le> r \<Longrightarrow>
    phase lib N H fin (ipcState (NodeLoop r) 1 log (VMWaiting h) 0 (frame_of lib m) []) (4 * asks N t 1 log + 3)"
| running: "promise lib N fin t n log \<Longrightarrow> 0 \<le> r \<Longrightarrow> phase lib N H fin (ipcState (NodeLoop r) n log (VMRunning t) n [] []) (4 * asks N t n log + 2)"
| asked: "promise lib N fin (Ask request k) n log \<Longrightarrow> 0 \<le> r \<Longrightarrow>
    phase lib N H fin (ipcState (NodeLoop r) n log (VMAwaiting k) (n + 1) [] (frame_of lib (SetNonce (n + 1) request))) (4 * asks N (Ask request k) n log + 1)"
| answered: "hookResponseMsg kind response \<Longrightarrow> survives lib (SetNonce (n + 2) response) \<Longrightarrow>
    promise lib N fin (k (Inr (SetNonce (n + 2) response))) (n + 2) log \<Longrightarrow> 0 \<le> r \<Longrightarrow>
    phase lib N H fin (ipcState (NodeLoop r) (n + 2) log (VMAwaiting k) (n + 1) (frame_of lib (SetNonce (n + 2) response)) [])
      (4 * asks N (k (Inr (SetNonce (n + 2) response))) (n + 2) log + 3)"
| responded: "fin = (m, h, log) \<Longrightarrow> responseMsg m \<Longrightarrow> survives lib m \<Longrightarrow> DialogueNonce m = n + 1 \<Longrightarrow> 0 \<le> r \<Longrightarrow>
    phase lib N H fin (ipcState (NodeLoop r) n log (VMWaiting h) 0 [] (frame_of lib m)) 1"
| finished: "fin = (m, h, log) \<Longrightarrow> phase lib N H fin (ipcState (NodeReturned (Inr m)) 0 log (VMWaiting h) 0 [] []) 0"

lemmas node_defs = node_doLoop_def node_return_def node_replyToHookCallRequest_def messenger_ResetDialogue_def ipcState_def

lemma node_waits: "node_doLoop lib N d (ipcState np nn log vp vn b []) = None"
  by (simp add: node_doLoop_def ipcState_def messenger_Receive_empty split: nodeProc.split)

lemma node_returned: "nodeProc c = NodeReturned x \<Longrightarrow> node_doLoop lib N d c = None \<and> node_timeout lib c = None"
  by (simp add: node_doLoop_def node_timeout_def)

lemma responseMsg_kinds:
  "responseMsg m \<Longrightarrow> wellTyped m \<and> \<not> IsHookCall m \<and> (IsVersionResponse m \<or> IsContractResponse m \<or> IsDiagnose m \<or> IsGasScheduleChangeResponse m)"
  by (auto simp: responseMsg_def wellTyped_def IsHookCall_def IsVersionResponse_def IsContractResponse_def IsDiagnose_def
      IsGasScheduleChangeResponse_def GetKind_def kind_defs split: body.splits)

lemma requestMsg_kinds: "requestMsg m \<Longrightarrow> wellTyped m \<and> \<not> IsStopRequest m"
  by (auto simp: requestMsg_def wellTyped_def IsStopRequest_def GetKind_def kind_defs split: body.splits)

lemma node_step_responded:
  assumes "responseMsg m" "survives lib m" "DialogueNonce m = n + 1"
  shows "node_doLoop lib N d (ipcState (NodeLoop r) n log vp vn b (frame_of lib m)) =
    Some (ipcState (NodeReturned (if r - d < 0 then Inl ErrVMTimeExpired else Inr m)) 0 log vp vn b [])"
  using responseMsg_kinds [OF assms(1)] messenger_Receive_ok [OF assms(2) _ assms(3)] by (auto simp: node_defs Let_def)

lemma node_step_asked:
  assumes "hookRequestMsg request" "survives lib (SetNonce (n + 1) request)" "node_reply N (SetNonce (n + 1) request) log = Some (response, log')"
    "survives lib (SetNonce (n + 2) response)"
  shows "node_doLoop lib N d (ipcState (NodeLoop r) n log vp vn [] (frame_of lib (SetNonce (n + 1) request))) =
    Some (if r - d < 0 then ipcState (NodeReturned (Inl ErrVMTimeExpired)) 0 log vp vn [] []
      else ipcState (NodeLoop (r - d)) (n + 2) log' vp vn (frame_of lib (SetNonce (n + 2) response)) [])"
  using hookRequest_kind [OF assms(1)] messenger_Receive_ok [OF assms(2)] messenger_Send_ok [of lib "n + 1" response "[]"] assms(3,4)
  by (auto simp: node_defs Let_def add.assoc)

lemma vm_step_requested:
  assumes "requestMsg m" "DialogueNonce m = 1" "survives lib m" "replyToNodeRequest H h m = Some t"
  shows "vm_doLoop lib H (ipcState np nn log (VMWaiting h) 0 (frame_of lib m) b) = Some (ipcState np nn log (VMRunning t) 1 [] b)"
  using requestMsg_kinds [OF assms(1)] messenger_Receive_ok [OF assms(3), of 0] assms by (simp add: vm_doLoop_def ipcState_def)

lemma vm_step_done:
  "survives lib (SetNonce (n + 1) response) \<Longrightarrow>
    vm_doLoop lib H (ipcState np nn log (VMRunning (Done response h)) n b []) =
      Some (ipcState np nn log (VMWaiting h) 0 b (frame_of lib (SetNonce (n + 1) response)))"
  by (simp add: vm_doLoop_def ipcState_def messenger_Send_ok messenger_ResetDialogue_def)

lemma vm_step_ask:
  "survives lib (SetNonce (n + 1) request) \<Longrightarrow>
    vm_doLoop lib H (ipcState np nn log (VMRunning (Ask request k)) n b []) =
      Some (ipcState np nn log (VMAwaiting k) (n + 1) b (frame_of lib (SetNonce (n + 1) request)))"
  by (simp add: vm_doLoop_def ipcState_def messenger_Send_ok)

lemma vm_step_answered:
  "hookResponseMsg kind response \<Longrightarrow> survives lib (SetNonce (n + 2) response) \<Longrightarrow>
    vm_doLoop lib H (ipcState np nn log (VMAwaiting k) (n + 1) (frame_of lib (SetNonce (n + 2) response)) b) =
      Some (ipcState np nn log (VMRunning (k (Inr (SetNonce (n + 2) response)))) (n + 2) [] b)"
  using messenger_Receive_ok [of lib "SetNonce (n + 2) response" "n + 1"] hookResponse_typed [of kind response]
  by (simp add: vm_doLoop_def ipcState_def add.assoc)

lemma vm_waits:
  "vm_doLoop lib H (ipcState np nn log (VMWaiting h) vn [] b) = None" "vm_doLoop lib H (ipcState np nn log (VMAwaiting k) vn [] b) = None"
  "vm_doLoop lib H (ipcState np nn log (VMEnded e) vn b1 b) = None"
  by (simp_all add: vm_doLoop_def ipcState_def messenger_Receive_empty)

lemma promise_Done: "promise lib N fin (Done response h) n log \<longleftrightarrow> responseMsg response \<and> fin = (SetNonce (n + 1) response, h, log) \<and> survives lib (SetNonce (n + 1) response)"
  by (auto simp: promise_def)

lemma promise_Ask:
  assumes "promise lib N fin (Ask request k) n log"
  obtains response log' where "hookRequestMsg request" "survives lib (SetNonce (n + 1) request)"
    "node_reply N (SetNonce (n + 1) request) log = Some (response, log')" "hookResponseMsg (Kind request) response"
    "survives lib (SetNonce (n + 2) response)" "promise lib N fin (k (Inr (SetNonce (n + 2) response))) (n + 2) log'"
    "asks N (Ask request k) n log = Suc (asks N (k (Inr (SetNonce (n + 2) response))) (n + 2) log')"
proof -
  have req: "hookRequestMsg request" using assms by (simp add: promise_def)
  then obtain response log' where reply: "node_reply N (SetNonce (n + 1) request) log = Some (response, log')" "hookResponseMsg (Kind request) response"
    using node_reply_ok [of "SetNonce (n + 1) request" N log] by auto
  with assms have "survives lib (SetNonce (n + 1) request)" "survives lib (SetNonce (n + 2) response)"
    "promise lib N fin (k (Inr (SetNonce (n + 2) response))) (n + 2) log'"
    by (auto simp: promise_def)
  with reply req show thesis by (intro that) auto
qed

subsection \<open>Steps between phases\<close>

lemma responseMsg_SetNonce [simp]: "responseMsg (SetNonce n m) = responseMsg m"
  by (simp add: responseMsg_def)

lemma fewer_add: "phase lib N H fin c (a + i) \<Longrightarrow> c = c' \<Longrightarrow> k = a + j \<Longrightarrow> i < j \<Longrightarrow> \<exists>k'<k. phase lib N H fin c' k'"
  by (metis add_strict_left_mono)

lemma phase_vm:
  assumes "phase lib N H fin c k" "vm_doLoop lib H c = Some c'"
  shows "\<exists>k'<k. phase lib N H fin c' k'"
  using assms(1)
proof cases
  case (requested m h t log r)
  with assms(2) have "c' = ipcState (NodeLoop r) 1 log (VMRunning t) 1 [] []" by (simp add: vm_step_requested)
  then show ?thesis by (intro fewer_add [OF phase.running [OF requested(7,8), of H] _ requested(2)]) simp_all
next
  case (running t n log r)
  show ?thesis
  proof (cases t)
    case (Done response h)
    with running have fin: "fin = (SetNonce (n + 1) response, h, log)" "responseMsg response" "survives lib (SetNonce (n + 1) response)"
      by (simp_all add: promise_Done)
    with assms(2) running Done have "c' = ipcState (NodeLoop r) n log (VMWaiting h) 0 [] (frame_of lib (SetNonce (n + 1) response))"
      by (simp add: vm_step_done)
    moreover have "phase lib N H fin (ipcState (NodeLoop r) n log (VMWaiting h) 0 [] (frame_of lib (SetNonce (n + 1) response))) 1"
      using fin running(4) by (intro phase.responded) simp_all
    moreover have "1 < k" using running(2) by simp
    ultimately show ?thesis by blast
  next
    case (Ask request f)
    with running have "survives lib (SetNonce (n + 1) request)" by (metis promise_Ask)
    with assms(2) running Ask have "c' = ipcState (NodeLoop r) n log (VMAwaiting f) (n + 1) [] (frame_of lib (SetNonce (n + 1) request))"
      by (simp add: vm_step_ask)
    moreover have "phase lib N H fin (ipcState (NodeLoop r) n log (VMAwaiting f) (n + 1) [] (frame_of lib (SetNonce (n + 1) request))) (4 * asks N t n log + 1)"
      using running(3,4) unfolding Ask by (rule phase.asked)
    moreover have "4 * asks N t n log + 1 < k" using running(2) by simp
    ultimately show ?thesis by blast
  qed
next
  case (answered kind response n f log r)
  with assms(2) have "c' = ipcState (NodeLoop r) (n + 2) log (VMRunning (f (Inr (SetNonce (n + 2) response)))) (n + 2) [] []"
    by (simp add: vm_step_answered)
  then show ?thesis by (intro fewer_add [OF phase.running [OF answered(5,6), of H] _ answered(2)]) simp_all
qed (use assms(2) in \<open>simp_all add: vm_waits\<close>)

lemma phase_node:
  assumes "phase lib N H fin c k" "node_doLoop lib N d c = Some c'" "0 \<le> d"
  shows "(\<exists>k'<k. phase lib N H fin c' k') \<or> nodeProc c' = NodeReturned (Inl ErrVMTimeExpired) \<and> (\<forall>r. nodeProc c = NodeLoop r \<longrightarrow> r < d)"
  using assms(1)
proof cases
  case (asked request f n log r)
  from asked(3) obtain response log' where a: "hookRequestMsg request" "survives lib (SetNonce (n + 1) request)"
    "node_reply N (SetNonce (n + 1) request) log = Some (response, log')" "hookResponseMsg (Kind request) response"
    "survives lib (SetNonce (n + 2) response)" "promise lib N fin (f (Inr (SetNonce (n + 2) response))) (n + 2) log'"
    "asks N (Ask request f) n log = Suc (asks N (f (Inr (SetNonce (n + 2) response))) (n + 2) log')"
    by (rule promise_Ask)
  with assms(2) asked have c': "c' = (if r - d < 0 then ipcState (NodeReturned (Inl ErrVMTimeExpired)) 0 log (VMAwaiting f) (n + 1) [] []
      else ipcState (NodeLoop (r - d)) (n + 2) log' (VMAwaiting f) (n + 1) (frame_of lib (SetNonce (n + 2) response)) [])"
    using node_step_asked [OF a(1,2,3,5), of d r "VMAwaiting f" "n + 1"] by simp
  show ?thesis
  proof (cases "r - d < 0")
    case True
    with c' asked show ?thesis by (simp add: ipcState_def)
  next
    case False
    then have "c' = ipcState (NodeLoop (r - d)) (n + 2) log' (VMAwaiting f) (n + 1) (frame_of lib (SetNonce (n + 2) response)) []" "0 \<le> r - d"
      using c' by simp_all
    moreover have "k = 4 * asks N (f (Inr (SetNonce (n + 2) response))) (n + 2) log' + 5" using asked(2) a(7) by simp
    ultimately show ?thesis
      using phase.answered [of "Kind request" response lib n N fin f log' "r - d" H] a(4,5,6) by (intro disjI1 fewer_add [of lib N H fin _ _ 3 _ _ 5]) simp_all
  qed
next
  case (responded m h log n r)
  with assms(2) have c': "c' = ipcState (NodeReturned (if r - d < 0 then Inl ErrVMTimeExpired else Inr m)) 0 log (VMWaiting h) 0 [] []"
    using node_step_responded [OF responded(4,5,6), of N d r log "VMWaiting h" 0 "[]"] by simp
  with responded phase.finished [OF responded(3), of lib N H] show ?thesis by (auto simp: ipcState_def)
qed (use assms(2) in \<open>simp_all add: node_waits\<close>)

lemma phase_quiet:
  assumes "phase lib N H fin c k" "quiet_step lib N H c c'"
  shows "\<exists>k'<k. phase lib N H fin c' k'"
  using assms(2)
proof cases
  case (quiet_node duration r)
  with phase_node [OF assms(1) quiet_node(1,3)] show ?thesis by force
next
  case quiet_vm
  with phase_vm [OF assms(1)] show ?thesis by blast
qed

lemma phase_progress:
  assumes "phase lib N H fin c k" "0 < k"
  shows "\<exists>c'. quiet_step lib N H c c'"
  using assms(1)
proof cases
  case (requested m h t log r)
  then show ?thesis by (metis quiet_vm vm_step_requested)
next
  case (running t n log r)
  then show ?thesis by (cases t) (metis promise_Done quiet_vm vm_step_done, metis promise_Ask quiet_vm vm_step_ask)
next
  case (asked request f n log r)
  from asked(3) obtain response log' where a: "hookRequestMsg request" "survives lib (SetNonce (n + 1) request)"
    "node_reply N (SetNonce (n + 1) request) log = Some (response, log')" "survives lib (SetNonce (n + 2) response)"
    by (rule promise_Ask)
  have "nodeProc c = NodeLoop r" using asked(1) by (simp add: ipcState_def)
  with node_step_asked [OF a, of 0 r] asked show ?thesis by (metis order_refl quiet_node)
next
  case (answered kind response n f log r)
  then show ?thesis by (metis quiet_vm vm_step_answered)
next
  case (responded m h log n r)
  have "nodeProc c = NodeLoop r" using responded(1) by (simp add: ipcState_def)
  with node_step_responded [OF responded(4,5,6), of N 0 r] responded show ?thesis by (metis order_refl quiet_node)
qed (use assms(2) in simp)

subsection \<open>Whole dialogues\<close>

definition quiescent :: "'h \<Rightarrow> 'h ipc \<Rightarrow> bool" where
  \<comment> \<open>between two dialogues: the VM waits, the nonces are 0 and the pipes empty\<close>
  "quiescent h c \<longleftrightarrow> nodeMessenger c = \<lparr>messenger_Nonce = 0\<rparr> \<and> vmMessenger c = \<lparr>messenger_Nonce = 0\<rparr> \<and> vmProc c = VMWaiting h \<and>
     toVM c = \<lparr>pipe_bytes = [], pipe_closed = False\<rparr> \<and> toNode c = \<lparr>pipe_bytes = [], pipe_closed = False\<rparr>"

lemma StartLoop_phase:
  assumes "quiescent h c" "requestMsg request" "survives lib (SetNonce 1 request)" "replyToNodeRequest H h (SetNonce 1 request) = Some t"
    "promise lib N fin t 1 (nodeLog c)" "0 \<le> maxLoopTime"
  shows "phase lib N H fin (node_StartLoop lib maxLoopTime request c) (4 * asks N t 1 (nodeLog c) + 3)"
proof -
  have "node_StartLoop lib maxLoopTime request c =
      ipcState (NodeLoop maxLoopTime) 1 (nodeLog c) (VMWaiting h) 0 (frame_of lib (SetNonce 1 request)) []"
    using assms(1,3) messenger_Send_ok [of lib 0 request "[]"] by (cases c) (simp add: node_StartLoop_def quiescent_def ipcState_def)
  moreover have "requestMsg (SetNonce 1 request)" using assms(2) by (simp add: requestMsg_def)
  ultimately show ?thesis using assms by (auto intro: phase.requested)
qed

lemma serve_total: "asksHooks t \<Longrightarrow> serve N t n log \<noteq> None"
proof (induction t arbitrary: n log)
  case (Ask request k)
  obtain response log' where "node_reply N (SetNonce (n + 1) request) log = Some (response, log')"
    using node_reply_ok [of "SetNonce (n + 1) request" N log] Ask.prems by auto
  with Ask show ?case by auto
qed simp

lemma dialogue_phase:
  assumes "quiescent h c" "requestMsg request" "hostAsks H" "0 \<le> maxLoopTime"
    "replyToNodeRequest H h (SetNonce 1 request) = Some t"
    "\<forall>m \<in> set (SetNonce 1 request # exchanged N t 1 (nodeLog c)). survives lib m"
  obtains fin where "serve N t 1 (nodeLog c) = Some fin"
    "phase lib N H fin (node_StartLoop lib maxLoopTime request c) (4 * asks N t 1 (nodeLog c) + 3)"
proof -
  have "requestMsg (SetNonce 1 request)" using assms(2) by (simp add: requestMsg_def)
  with replyToNodeRequest_ok [OF this assms(3), of h] assms(5) have t: "asksHooks t" "allDone responseMsg t" by auto
  then obtain fin where fin: "serve N t 1 (nodeLog c) = Some fin" using serve_total by fast
  with t assms(6) have "promise lib N fin t 1 (nodeLog c)" by (simp add: promise_def)
  moreover have "survives lib (SetNonce 1 request)" using assms(6) by simp
  ultimately show thesis using fin StartLoop_phase [OF assms(1,2) _ assms(5) _ assms(4)] by (intro that)
qed

definition safe :: "ipcLib \<Rightarrow> BlockchainHook \<Rightarrow> 'h VMHost \<Rightarrow> (MessageHandler \<times> 'h \<times> hookEvent list) \<Rightarrow> 'h ipc \<Rightarrow> bool" where
  \<comment> \<open>in some phase, possibly with the process of the VM gone, or out of time\<close>
  "safe lib N H fin c \<longleftrightarrow>
     (\<exists>c0 k. phase lib N H fin c0 k \<and> (c = c0 \<or> (\<exists>e. c = c0\<lparr>vmProc := VMEnded e\<rparr>))) \<or>
     nodeProc c = NodeReturned (Inl ErrVMTimeExpired) \<or> nodeProc c = NodeReturned (Inl deadlineExceeded)"

lemma safeI: "phase lib N H fin c0 k \<Longrightarrow> c = c0 \<or> (\<exists>e. c = c0\<lparr>vmProc := VMEnded e\<rparr>) \<Longrightarrow> safe lib N H fin c"
  unfolding safe_def by blast

lemma safe_outcome: "nodeProc c = NodeReturned (Inl ErrVMTimeExpired) \<or> nodeProc c = NodeReturned (Inl deadlineExceeded) \<Longrightarrow> safe lib N H fin c"
  unfolding safe_def by blast

lemma node_doLoop_ended:
  "node_doLoop lib N d (c\<lparr>vmProc := v\<rparr>) = map_option (\<lambda>c. c\<lparr>vmProc := v\<rparr>) (node_doLoop lib N d c)"
  by (auto simp: node_doLoop_def node_return_def node_replyToHookCallRequest_def Let_def split: nodeProc.splits option.splits sum.splits prod.splits)

lemma timeout_outcome: "node_timeout lib c = Some c' \<Longrightarrow> nodeProc c' = NodeReturned (Inl deadlineExceeded)"
  by (auto simp: node_timeout_def node_return_def split: nodeProc.splits if_splits)

lemma vm_doLoop_node: "vm_doLoop lib H c = Some c' \<Longrightarrow> nodeProc c' = nodeProc c"
  by (auto simp: vm_doLoop_def split: vmProc.splits run.splits option.splits sum.splits prod.splits)

lemma safe_node:
  assumes "phase lib N H fin c0 k" "c = c0 \<or> (\<exists>e. c = c0\<lparr>vmProc := VMEnded e\<rparr>)" "node_doLoop lib N d c = Some c'" "0 \<le> d"
  shows "safe lib N H fin c'"
proof -
  obtain c1 where c1: "node_doLoop lib N d c0 = Some c1" "c' = c1 \<or> (\<exists>e. c' = c1\<lparr>vmProc := VMEnded e\<rparr>)"
    using assms(2,3) node_doLoop_ended [where c = c0 and lib = lib and N = N and d = d] by (metis map_option_eq_Some)
  from phase_node [OF assms(1) c1(1) assms(4)] show ?thesis
  proof
    assume "\<exists>k'<k. phase lib N H fin c1 k'"
    with c1(2) show ?thesis by (metis safeI)
  next
    assume "nodeProc c1 = NodeReturned (Inl ErrVMTimeExpired) \<and> (\<forall>r. nodeProc c0 = NodeLoop r \<longrightarrow> r < d)"
    with c1(2) show ?thesis by (intro safe_outcome) auto
  qed
qed

lemma safe_step:
  assumes "safe lib N H fin c" "ipc_step lib N H c c'"
  shows "safe lib N H fin c'"
proof (cases "\<exists>c0 k. phase lib N H fin c0 k \<and> (c = c0 \<or> (\<exists>e. c = c0\<lparr>vmProc := VMEnded e\<rparr>))")
  case True
  then obtain c0 k where c0: "phase lib N H fin c0 k" "c = c0 \<or> (\<exists>e. c = c0\<lparr>vmProc := VMEnded e\<rparr>)" by blast
  from assms(2) show ?thesis
  proof cases
    case (node d)
    with safe_node [OF c0] show ?thesis by blast
  next
    case vm
    with c0 have "c = c0" by (auto simp: vm_doLoop_def)
    with vm phase_vm c0 show ?thesis by (metis safeI)
  next
    case timeout
    then show ?thesis by (intro safe_outcome) (simp add: timeout_outcome)
  next
    case (ends e)
    with c0 have "c' = c0\<lparr>vmProc := VMEnded e\<rparr>" by auto
    with c0(1) show ?thesis by (metis safeI)
  qed
next
  case False
  with assms(1) obtain x where "nodeProc c = NodeReturned (Inl x)" "x = ErrVMTimeExpired \<or> x = deadlineExceeded" by (auto simp: safe_def)
  with assms(2) show ?thesis by cases (auto intro!: safe_outcome simp: node_returned vm_doLoop_node)
qed

lemma safe_steps: "(ipc_step lib N H)\<^sup>*\<^sup>* c c' \<Longrightarrow> safe lib N H fin c \<Longrightarrow> safe lib N H fin c'"
  by (induction rule: rtranclp_induct) (auto intro: safe_step)

definition agrees :: "(MessageHandler \<times> 'h \<times> hookEvent list) \<Rightarrow> 'h ipc \<Rightarrow> bool" where
  \<comment> \<open>the node has not panicked, and if it has returned then with an error about time or with that end\<close>
  "agrees fin c \<longleftrightarrow>
     (case nodeProc c of
        NodeLoop _ \<Rightarrow> True
      | NodeReturned (Inl e) \<Rightarrow> e = ErrVMTimeExpired \<or> e = deadlineExceeded
      | NodeReturned (Inr response) \<Rightarrow>
          (case fin of (m, h, log) \<Rightarrow> response = m \<and> nodeLog c = log \<and> (quiescent h c \<or> (\<exists>e. quiescent h (c\<lparr>vmProc := VMWaiting h\<rparr>) \<and> vmProc c = VMEnded e)))
      | _ \<Rightarrow> False)"

lemma phase_agrees: "phase lib N H fin c0 k \<Longrightarrow> c = c0 \<or> (\<exists>e. c = c0\<lparr>vmProc := VMEnded e\<rparr>) \<Longrightarrow> agrees fin c"
  by (induction rule: phase.cases) (auto simp: agrees_def ipcState_def quiescent_def)

lemma safe_agrees:
  assumes "safe lib N H fin c"
  shows "agrees fin c"
  using assms
  unfolding safe_def
proof (elim disjE [of "\<exists>c0 k. _ c0 k"] exE)
  fix c0 k assume "phase lib N H fin c0 k \<and> (c = c0 \<or> (\<exists>e. c = c0\<lparr>vmProc := VMEnded e\<rparr>))"
  then show ?thesis by (auto intro: phase_agrees)
qed (auto simp: agrees_def)

lemma dialogue_outcome:
  assumes "quiescent h c" "requestMsg request" "hostAsks H" "0 \<le> maxLoopTime"
    and "replyToNodeRequest H h (SetNonce 1 request) = Some t"
    and "\<forall>m \<in> set (SetNonce 1 request # exchanged N t 1 (nodeLog c)). survives lib m"
    and "(ipc_step lib N H)\<^sup>*\<^sup>* (node_StartLoop lib maxLoopTime request c) c'"
  shows "\<exists>fin. serve N t 1 (nodeLog c) = Some fin \<and> agrees fin c'"
proof -
  obtain fin where fin: "serve N t 1 (nodeLog c) = Some fin"
    and ph: "phase lib N H fin (node_StartLoop lib maxLoopTime request c) (4 * asks N t 1 (nodeLog c) + 3)"
    using dialogue_phase [OF assms(1-6)] .
  from ph have "safe lib N H fin (node_StartLoop lib maxLoopTime request c)" by (rule safeI) simp
  with fin safe_agrees safe_steps [OF assms(7)] show ?thesis by blast
qed

text \<open>
  C17: the node gets the right response or none.  Two processes and two pipes, whose steps interleave in any order, with a
  VM process that may end at any moment and a clock that may run out: whatever happens after the node has sent a
  request, it never panics, and when its loop returns a message, that message is the response that the host
  computes with its hook calls answered by the node one by one; the node's history is that of this computation, both nonces are
  reset, nothing is left in the pipes, and unless its process has ended the VM waits for the next request.  Otherwise the
  loop returns that time ran out.
\<close>

theorem dialogue_agreement:
  assumes "quiescent h c" "requestMsg request" "hostAsks H" "0 \<le> maxLoopTime"
    and "replyToNodeRequest H h (SetNonce 1 request) = Some t"
    and "\<forall>m \<in> set (SetNonce 1 request # exchanged N t 1 (nodeLog c)). survives lib m"
    and "(ipc_step lib N H)\<^sup>*\<^sup>* (node_StartLoop lib maxLoopTime request c) c'"
  shows "\<exists>fin. serve N t 1 (nodeLog c) = Some fin \<and> agrees fin c'"
  using assms by (rule dialogue_outcome)

lemma quiet_steps_phase: "(quiet_step lib N H ^^ i) c c' \<Longrightarrow> phase lib N H fin c k \<Longrightarrow> \<exists>j. j + i \<le> k \<and> phase lib N H fin c' j"
proof (induction i arbitrary: c')
  case (Suc i)
  from Suc.prems(1) obtain c1 where c1: "(quiet_step lib N H ^^ i) c c1" "quiet_step lib N H c1 c'" by auto
  with Suc obtain j where "j + i \<le> k" "phase lib N H fin c1 j" by blast
  with phase_quiet c1(2) obtain j' where "j' < j" "phase lib N H fin c' j'" by metis
  with \<open>j + i \<le> k\<close> show ?case by (intro exI [of _ j']) simp
qed auto

lemma phase_end: "phase lib N H fin c 0 \<Longrightarrow> nodeProc c = NodeReturned (Inr (fst fin))"
  by (cases rule: phase.cases) (auto simp: ipcState_def)

lemma quiet_run: "phase lib N H fin c k \<Longrightarrow> \<exists>c'. (quiet_step lib N H)\<^sup>*\<^sup>* c c' \<and> nodeProc c' = NodeReturned (Inr (fst fin))"
proof (induction k arbitrary: c rule: less_induct)
  case (less k)
  show ?case
  proof (cases "k = 0")
    case True
    with less.prems phase_end show ?thesis by blast
  next
    case False
    with less.prems phase_progress obtain c' where "quiet_step lib N H c c'" by blast
    with less phase_quiet show ?thesis by (meson converse_rtranclp_into_rtranclp)
  qed
qed

text \<open>
  C18: a dialogue always comes to its end.  As long as neither time runs out nor the process of the VM ends, the two
  processes cannot wait for each other: in whatever order they run, a step is possible until the node has
  returned the response of the host, and there are at most four steps for every hook call, and three.
\<close>

theorem dialogue_completes:
  assumes "quiescent h c" "requestMsg request" "hostAsks H" "0 \<le> maxLoopTime"
    and "replyToNodeRequest H h (SetNonce 1 request) = Some t"
    and "\<forall>m \<in> set (SetNonce 1 request # exchanged N t 1 (nodeLog c)). survives lib m"
  shows "\<exists>fin. serve N t 1 (nodeLog c) = Some fin \<and>
    (\<forall>i c'. (quiet_step lib N H ^^ i) (node_StartLoop lib maxLoopTime request c) c' \<longrightarrow>
      i \<le> 4 * asks N t 1 (nodeLog c) + 3 \<and>
      (nodeProc c' = NodeReturned (Inr (fst fin)) \<or> (\<exists>c''. quiet_step lib N H c' c'')))"
proof -
  let ?c = "node_StartLoop lib maxLoopTime request c"
  obtain fin where fin: "serve N t 1 (nodeLog c) = Some fin" and ph: "phase lib N H fin ?c (4 * asks N t 1 (nodeLog c) + 3)"
    using dialogue_phase [OF assms] .
  have "i \<le> 4 * asks N t 1 (nodeLog c) + 3 \<and> (nodeProc c' = NodeReturned (Inr (fst fin)) \<or> (\<exists>c''. quiet_step lib N H c' c''))"
    if run: "(quiet_step lib N H ^^ i) ?c c'" for i c'
  proof -
    from quiet_steps_phase [OF run ph] obtain j where j: "j + i \<le> 4 * asks N t 1 (nodeLog c) + 3" "phase lib N H fin c' j" by blast
    with phase_progress [OF j(2)] phase_end [of lib N H fin c'] show ?thesis by (cases "j = 0") auto
  qed
  with fin show ?thesis by blast
qed

subsection \<open>An example\<close>

definition countingHost :: "nat VMHost" where
  \<comment> \<open>a host that asks for the nonce of the last block in a call, and counts its calls\<close>
  "countingHost = \<lparr>host_RunSmartContractCreate = (\<lambda>h i. Done (Some sampleOutput, None) h),
     host_RunSmartContractCall = (\<lambda>h i. Ask NewMessageBlockchainLastNonceRequest (\<lambda>answer. Done (Some sampleOutput, None) (h + 1))),
     host_GasScheduleChange = (\<lambda>h schedule. h), vmpart_Version = ''v1''\<rparr>"

definition sampleRequest :: MessageHandler where
  "sampleRequest = NewMessageContractCallRequest (sampleCall [])"

definition sampleRun :: "(MessageHandler, nat) run" where
  "sampleRun = Ask NewMessageBlockchainLastNonceRequest (\<lambda>answer. Done (NewMessageContractResponse (Some sampleOutput) None) 1)"

definition sampleLib :: ipcLib where
  "sampleLib = listLib (SetNonce 1 sampleRequest # exchanged sampleNode sampleRun 1 [])"

definition sampleIpc :: "nat ipc" where
  "sampleIpc = ipcState NodeIdle 0 [] (VMWaiting 0) 0 [] []"

lemma sample_reply:
  "node_reply sampleNode (SetNonce n NewMessageBlockchainLastNonceRequest) log = Some (NewMessageBlockchainLastNonceResponse 76, log)"
  by (simp add: replier_defs NewMessageBlockchainLastNonceRequest_def sampleNode_def)

lemma sample_dialogue:
  "quiescent 0 sampleIpc" "requestMsg sampleRequest" "hostAsks countingHost"
  "replyToNodeRequest countingHost 0 (SetNonce 1 sampleRequest) = Some sampleRun"
  "\<forall>m \<in> set (SetNonce 1 sampleRequest # exchanged sampleNode sampleRun 1 (nodeLog sampleIpc)). survives sampleLib m"
proof -
  show "quiescent 0 sampleIpc" by (simp add: quiescent_def sampleIpc_def ipcState_def)
  show "requestMsg sampleRequest" by (simp add: requestMsg_def sampleRequest_def control_defs wellTyped_def)
  show "hostAsks countingHost" by (simp add: hostAsks_def countingHost_def hookRequestMsg_def NewMessageBlockchainLastNonceRequest_def)
  show "replyToNodeRequest countingHost 0 (SetNonce 1 sampleRequest) = Some sampleRun"
    by (simp add: replyToNodeRequest_def GetKind_def vm_Repliers_def replyToRunSmartContractCall_def sampleRequest_def control_defs kind_defs
      countingHost_def sampleRun_def comp_def)
  have "length (exchanged sampleNode sampleRun 1 []) = 3" by (simp add: sampleRun_def sample_reply)
  then show "\<forall>m \<in> set (SetNonce 1 sampleRequest # exchanged sampleNode sampleRun 1 (nodeLog sampleIpc)). survives sampleLib m"
    unfolding sampleLib_def by (intro ballI listLib_survives) (simp_all add: sampleIpc_def ipcState_def)
qed

lemma quiet_is_step: "(quiet_step lib N H)\<^sup>*\<^sup>* c c' \<Longrightarrow> (ipc_step lib N H)\<^sup>*\<^sup>* c c'"
  by (rule rtranclp_mono [THEN predicate2D]) (auto elim!: quiet_step.cases intro: ipc_step.intros)

theorem dialogue_agreement_witness:
  "\<exists>fin c'. (ipc_step sampleLib sampleNode countingHost)\<^sup>*\<^sup>* (node_StartLoop sampleLib 1000 sampleRequest sampleIpc) c' \<and>
    nodeProc c' = NodeReturned (Inr (SetNonce 4 (NewMessageContractResponse (Some sampleOutput) None))) \<and>
    serve sampleNode sampleRun 1 [] = Some fin \<and> agrees fin c'"
proof -
  obtain fin where fin: "serve sampleNode sampleRun 1 [] = Some fin"
    and ph: "phase sampleLib sampleNode countingHost fin (node_StartLoop sampleLib 1000 sampleRequest sampleIpc) (4 * asks sampleNode sampleRun 1 [] + 3)"
    using dialogue_phase [OF sample_dialogue(1-3) _ sample_dialogue(4-5), of 1000] by (auto simp: sampleIpc_def ipcState_def)
  obtain c' where c': "(ipc_step sampleLib sampleNode countingHost)\<^sup>*\<^sup>* (node_StartLoop sampleLib 1000 sampleRequest sampleIpc) c'"
      "nodeProc c' = NodeReturned (Inr (fst fin))"
    using quiet_run [OF ph] quiet_is_step by blast
  from dialogue_agreement [OF sample_dialogue(1-3) _ sample_dialogue(4-5) c'(1)] fin have "agrees fin c'" by (simp add: sampleIpc_def ipcState_def)
  moreover have "fst fin = SetNonce 4 (NewMessageContractResponse (Some sampleOutput) None)" using fin by (auto simp: sampleRun_def sample_reply)
  ultimately show ?thesis using c' fin by (intro exI [of _ fin] exI [of _ c']) simp
qed

theorem dialogue_completes_witness:
  "(\<exists>c'. quiet_step sampleLib sampleNode countingHost (node_StartLoop sampleLib 1000 sampleRequest sampleIpc) c') \<and> asks sampleNode sampleRun 1 [] = 1"
proof -
  have "messenger_Send sampleLib sampleRequest \<lparr>messenger_Nonce = 0\<rparr> \<lparr>pipe_bytes = [], pipe_closed = False\<rparr> =
      (None, \<lparr>messenger_Nonce = 1\<rparr>, \<lparr>pipe_bytes = frame_of sampleLib (SetNonce 1 sampleRequest), pipe_closed = False\<rparr>)"
    using messenger_Send_ok [of sampleLib 0 sampleRequest "[]"] sample_dialogue(5) by simp
  then have "nodeProc (node_StartLoop sampleLib 1000 sampleRequest sampleIpc) = NodeLoop 1000"
    by (simp add: node_StartLoop_def sampleIpc_def ipcState_def)
  with dialogue_completes [OF sample_dialogue(1-3) _ sample_dialogue(4-5), of 1000] show ?thesis
    by (auto simp: sampleRun_def sample_reply dest: spec [of _ 0])
qed

end
