(* ===== verification/IpcDriver.thy ===== *)
theory IpcDriver
  imports IpcDialogue
begin

text \<open>
  The driver on the node's side (\<open>vmDriver.go\<close> and \<open>vmPath.go\<close> of \<open>src/ipc/nodepart\<close>, \<open>arguments.go\<close> of \<open>src/ipc/common\<close>).  It starts the process
  of the VM, sends it its arguments, passes on the requests of the node, stops the process when a dialogue fails and starts it again
  for the next request.  What the system answers to the calls of an operation is the record \<open>osAnswers\<close>; in which order the
  processes run during a dialogue, and when it stops, is a function \<open>run\<close> on their states.  An operation returns, panics, or
  still waits.
\<close>

datatype 'a outcome = Returns 'a | Panics | Waits

definition andThen :: "'a outcome \<Rightarrow> ('a \<Rightarrow> 'b outcome) \<Rightarrow> 'b outcome" where
  "andThen x f = (case x of Returns a \<Rightarrow> f a | Panics \<Rightarrow> Panics | Waits \<Rightarrow> Waits)"

lemma andThen_simps [simp]: "andThen (Returns a) f = f a" "andThen Panics f = Panics" "andThen Waits f = Waits"
  by (simp_all add: andThen_def)

datatype fileInfo = NotExist | StatFails | Directory | RegularFile

record osAnswers =
  os_NewParentPart :: "err option"
  os_Pipe :: "nat \<Rightarrow> err option"
  os_Getwd :: "err + string"
  os_Getenv :: "string \<Rightarrow> string"
  os_Stat :: "string \<Rightarrow> fileInfo"
  os_StdoutPipe :: "err option"
  os_StderrPipe :: "err option"
  os_Start :: "err option"
  os_LogsStartLoop :: "err option"
  os_Kill :: "err option"
  os_Wait :: "err option"

datatype vmCommand =
    NotStarted      \<comment> \<open>a command without a process\<close>
  | Started         \<comment> \<open>a process, which may have ended but has not been waited for\<close>
  | Reaped

record 'h driverEnv =
  de_MaxLoopTime :: int
  de_messages :: ipcLib   \<comment> \<open>the marshalizer of the messages\<close>
  de_json :: ipcLib       \<comment> \<open>that of the arguments\<close>
  de_node :: BlockchainHook
  de_host :: "'h VMHost"
  de_NewVMHost :: "VMArguments \<Rightarrow> ipcError + 'h"

record 'h VMDriver =
  vmArguments :: VMArguments
  counterDeploy :: u64
  counterCall :: u64
  command :: vmCommand
  part :: "'h ipc"

subsection \<open>The path of the VM\<close>

definition ErrVMNotFound :: ipcError where "ErrVMNotFound = critical ''vm binary not found''"

definition EnvVarVMPath :: string where "EnvVarVMPath = ''VM_PATH''"

definition fileExists :: "osAnswers \<Rightarrow> string \<Rightarrow> bool outcome" where
  \<comment> \<open>a file that cannot be examined has no info\<close>
  "fileExists sys filename =
     (case os_Stat sys filename of NotExist \<Rightarrow> Returns False | StatFails \<Rightarrow> Panics | Directory \<Rightarrow> Returns False | RegularFile \<Rightarrow> Returns True)"

definition getVMPathInCurrentDirectory :: "osAnswers \<Rightarrow> (ipcError + string) outcome" where
  "getVMPathInCurrentDirectory sys =
     (case os_Getwd sys of
        Inl err \<Rightarrow> Returns (Inl (PlainError err))
      | Inr cwd \<Rightarrow>
          let vmPath = (if cwd = ''/'' then ''/vm'' else cwd @ ''/vm'')
          in andThen (fileExists sys vmPath) (\<lambda>found. Returns (if found then Inr vmPath else Inl ErrVMNotFound)))"

definition getVMPathFromEnvironment :: "osAnswers \<Rightarrow> (ipcError + string) outcome" where
  "getVMPathFromEnvironment sys =
     (let vmPath = os_Getenv sys EnvVarVMPath
      in andThen (fileExists sys vmPath) (\<lambda>found. Returns (if found then Inr vmPath else Inl ErrVMNotFound)))"

definition getVMPath :: "osAnswers \<Rightarrow> (ipcError + string) outcome" where
  "getVMPath sys =
     andThen (getVMPathInCurrentDirectory sys)
       (\<lambda>found. case found of
           Inr vmPath \<Rightarrow> Returns (Inr vmPath)
         | Inl _ \<Rightarrow> andThen (getVMPathFromEnvironment sys)
             (\<lambda>found. case found of Inr vmPath \<Rightarrow> Returns (Inr vmPath) | Inl _ \<Rightarrow> Returns (Inl ErrVMNotFound)))"

subsection \<open>Starting the VM\<close>

definition emptyPipe :: pipe where "emptyPipe = \<lparr>pipe_bytes = [], pipe_closed = False\<rparr>"

definition SendVMArguments :: "ipcLib \<Rightarrow> VMArguments \<Rightarrow> pipe \<Rightarrow> err option \<times> pipe" where
  "SendVMArguments json pipeArguments p =
     (case sender_Send json (NewMessageInitialize pipeArguments) p of (Inl err, p) \<Rightarrow> (Some err, p) | (Inr _, p) \<Rightarrow> (None, p))"

definition GetVMArguments :: "ipcLib \<Rightarrow> pipe \<Rightarrow> (ipcError + VMArguments) outcome" where
  "GetVMArguments json p =
     (case receiver_Receive json p of
        Blocks \<Rightarrow> Waits
      | Failed err _ \<Rightarrow> Returns (Inl (PlainError err))
      | Got (message, _) _ \<Rightarrow> (case msgBody message of MessageInitialize arguments \<Rightarrow> Returns (Inr arguments) | _ \<Rightarrow> Panics))"

definition NewVMPart :: "'h driverEnv \<Rightarrow> pipe \<Rightarrow> 'h vmProc" where
  \<comment> \<open>the process of the VM: its arguments, its host, and then its loop with a messenger at nonce 0\<close>
  "NewVMPart E p =
     (case GetVMArguments (de_json E) p of
        Returns (Inr arguments) \<Rightarrow> (case de_NewVMHost E arguments of Inr h \<Rightarrow> VMWaiting h | Inl err \<Rightarrow> VMEnded err)
      | Returns (Inl err) \<Rightarrow> VMEnded err
      | _ \<Rightarrow> VMPanicked)"

definition NewNodePart :: "hookEvent list \<Rightarrow> 'h vmProc \<Rightarrow> 'h ipc" where
  "NewNodePart log vm = \<lparr>nodeProc = NodeIdle, nodeMessenger = \<lparr>messenger_Nonce = 0\<rparr>, nodeLog = log, vmProc = vm,
     vmMessenger = \<lparr>messenger_Nonce = 0\<rparr>, toVM = emptyPipe, toNode = emptyPipe\<rparr>"

definition resetPipeStreams :: "osAnswers \<Rightarrow> 'h ipc \<Rightarrow> err option \<times> 'h ipc" where
  \<comment> \<open>closes the old pipes, and makes three new ones\<close>
  "resetPipeStreams sys c =
     (let c = c\<lparr>toVM := (toVM c)\<lparr>pipe_closed := True\<rparr>, toNode := (toNode c)\<lparr>pipe_closed := True\<rparr>\<rparr>
      in (case os_Pipe sys 0 of
            Some err \<Rightarrow> (Some err, c)
          | None \<Rightarrow> (case os_Pipe sys 1 of
              Some err \<Rightarrow> (Some err, c)
            | None \<Rightarrow> (os_Pipe sys 2, c))))"

definition launch :: "osAnswers \<Rightarrow> err option" where
  "launch sys =
     (case os_StdoutPipe sys of
        Some err \<Rightarrow> Some err
      | None \<Rightarrow> (case os_StderrPipe sys of
          Some err \<Rightarrow> Some err
        | None \<Rightarrow> os_Start sys))"

definition startVM :: "'h driverEnv \<Rightarrow> osAnswers \<Rightarrow> 'h VMDriver \<Rightarrow> (ipcError option \<times> 'h VMDriver) outcome" where
  "startVM E sys driver =
     (case os_NewParentPart sys of
        Some err \<Rightarrow> Returns (Some (PlainError err), driver)
      | None \<Rightarrow>
          (case resetPipeStreams sys (part driver) of
             (Some err, c) \<Rightarrow> Returns (Some (PlainError err), driver\<lparr>part := c\<rparr>)
           | (None, c) \<Rightarrow>
               let driver = driver\<lparr>part := c\<rparr>
               in andThen (getVMPath sys)
                 (\<lambda>found. case found of
                     Inl err \<Rightarrow> Returns (Some err, driver)
                   | Inr vmPath \<Rightarrow>
                       (case launch sys of
                          Some err \<Rightarrow> Returns (Some (PlainError err), driver\<lparr>command := NotStarted\<rparr>)
                        | None \<Rightarrow>
                            let driver = driver\<lparr>command := Started\<rparr>
                            in (case SendVMArguments (de_json E) (vmArguments driver) emptyPipe of
                                  (Some err, _) \<Rightarrow> Returns (Some (PlainError err), driver)
                                | (None, vmInit) \<Rightarrow>
                                    let log = nodeLog (part driver) @ [CompiledCodesCleared];
                                        driver = driver\<lparr>part := NewNodePart log (NewVMPart E vmInit)\<rparr>
                                    in Returns (map_option PlainError (os_LogsStartLoop sys), driver))))))"

definition driver_IsClosed :: "'h VMDriver \<Rightarrow> bool outcome" where
  \<comment> \<open>a signal can be sent to a process that has not been waited for\<close>
  "driver_IsClosed driver = (case command driver of NotStarted \<Rightarrow> Panics | Started \<Rightarrow> Returns False | Reaped \<Rightarrow> Returns True)"

definition RestartVMIfNecessary :: "'h driverEnv \<Rightarrow> osAnswers \<Rightarrow> 'h VMDriver \<Rightarrow> (ipcError option \<times> 'h VMDriver) outcome" where
  "RestartVMIfNecessary E sys driver =
     andThen (driver_IsClosed driver) (\<lambda>closed. if \<not> closed then Returns (None, driver) else startVM E sys driver)"

definition stopVM :: "osAnswers \<Rightarrow> 'h VMDriver \<Rightarrow> (err option \<times> 'h VMDriver) outcome" where
  "stopVM sys driver =
     (case command driver of
        NotStarted \<Rightarrow> Panics
      | Reaped \<Rightarrow> Returns (Some (ErrExternal ''os: process already finished''), driver)
      | Started \<Rightarrow>
          (case os_Kill sys of
             Some err \<Rightarrow> Returns (Some err, driver)
           | None \<Rightarrow>
               let driver = driver\<lparr>part := (part driver)\<lparr>vmProc := VMEnded (PlainError (ErrExternal ''signal: killed''))\<rparr>\<rparr>
               in (case os_Wait sys of Some err \<Rightarrow> Returns (Some err, driver) | None \<Rightarrow> Returns (None, driver\<lparr>command := Reaped\<rparr>))))"

definition driver_Close :: "osAnswers \<Rightarrow> 'h VMDriver \<Rightarrow> (err option \<times> 'h VMDriver) outcome" where
  "driver_Close sys driver = stopVM sys driver"

definition NewVMDriver :: "'h driverEnv \<Rightarrow> osAnswers \<Rightarrow> VMArguments \<Rightarrow> hookEvent list \<Rightarrow> (ipcError + 'h VMDriver) outcome" where
  "NewVMDriver E sys arguments log =
     (let driver = \<lparr>vmArguments = arguments, counterDeploy = 0, counterCall = 0, command = NotStarted,
                     part = NewNodePart log VMPanicked\<rparr>
      in andThen (startVM E sys driver) (\<lambda>(err, driver). Returns (case err of Some err \<Rightarrow> Inl err | None \<Rightarrow> Inr driver)))"

subsection \<open>The requests of the node\<close>

definition driver_StartLoop :: "'h driverEnv \<Rightarrow> ('h ipc \<Rightarrow> 'h ipc) \<Rightarrow> MessageHandler \<Rightarrow> 'h VMDriver \<Rightarrow> ((ipcError + MessageHandler) \<times> 'h VMDriver) outcome" where
  "driver_StartLoop E run request driver =
     (let c = run (node_StartLoop (de_messages E) (de_MaxLoopTime E) request (part driver))
      in (case nodeProc c of
            NodeReturned response \<Rightarrow> Returns (response, driver\<lparr>part := c\<rparr>)
          | NodePanicked \<Rightarrow> Panics
          | _ \<Rightarrow> Waits))"

definition driver_GetVersion :: "'h driverEnv \<Rightarrow> osAnswers \<Rightarrow> ('h ipc \<Rightarrow> 'h ipc) \<Rightarrow> 'h VMDriver \<Rightarrow> (string \<times> 'h VMDriver) outcome" where
  "driver_GetVersion E sys run driver =
     andThen (RestartVMIfNecessary E sys driver) (\<lambda>(err, driver).
       case err of
         Some _ \<Rightarrow> Returns ('''', driver)
       | None \<Rightarrow> andThen (driver_StartLoop E run NewMessageVersionRequest driver) (\<lambda>(response, driver).
           case response of
             Inl _ \<Rightarrow> andThen (driver_Close sys driver) (\<lambda>(_, driver). Returns ('''', driver))
           | Inr response \<Rightarrow> (case msgBody response of MessageVersionResponse version \<Rightarrow> Returns (version, driver) | _ \<Rightarrow> Panics)))"

definition driver_GasScheduleChange :: "'h driverEnv \<Rightarrow> osAnswers \<Rightarrow> ('h ipc \<Rightarrow> 'h ipc) \<Rightarrow> GasScheduleMap \<Rightarrow> 'h VMDriver \<Rightarrow> (unit \<times> 'h VMDriver) outcome" where
  "driver_GasScheduleChange E sys run newGasSchedule driver =
     (let driver = driver\<lparr>vmArguments := (vmArguments driver)\<lparr>arg_GasSchedule := newGasSchedule\<rparr>\<rparr>
      in andThen (RestartVMIfNecessary E sys driver) (\<lambda>(err, driver).
        case err of
          Some _ \<Rightarrow> Returns ((), driver)
        | None \<Rightarrow> andThen (driver_StartLoop E run (NewMessageGasScheduleChangeRequest newGasSchedule) driver) (\<lambda>(response, driver).
            case response of
              Inl _ \<Rightarrow> andThen (driver_Close sys driver) (\<lambda>(_, driver). Returns ((), driver))
            | Inr response \<Rightarrow>
                (case GetError (Errorf (de_messages E)) response of
                   Some _ \<Rightarrow> andThen (driver_Close sys driver) (\<lambda>(_, driver). Returns ((), driver))
                 | None \<Rightarrow> Returns ((), driver)))))"

definition contractResult :: "ipcLib \<Rightarrow> MessageHandler \<Rightarrow> (ipcError + VMOutput) outcome" where
  "contractResult lib response =
     (case msgBody response of
        MessageContractResponse (Some out) \<Rightarrow>
          let vmOutput = ConvertToVMOutput out
          in Returns (case GetError (Errorf lib) response of Some err \<Rightarrow> Inl (PlainError err) | None \<Rightarrow> Inr vmOutput)
      | _ \<Rightarrow> Panics)"

definition driver_RunSmartContractCreate ::
  "'h driverEnv \<Rightarrow> osAnswers \<Rightarrow> ('h ipc \<Rightarrow> 'h ipc) \<Rightarrow> ContractCreateInput \<Rightarrow> 'h VMDriver \<Rightarrow> ((ipcError + VMOutput) \<times> 'h VMDriver) outcome" where
  "driver_RunSmartContractCreate E sys run input driver =
     (let driver = driver\<lparr>counterDeploy := counterDeploy driver + 1\<rparr>
      in andThen (RestartVMIfNecessary E sys driver) (\<lambda>(err, driver).
        case err of
          Some err \<Rightarrow> Returns (Inl (WrapCriticalError err), driver)
        | None \<Rightarrow> andThen (driver_StartLoop E run (NewMessageContractDeployRequest input) driver) (\<lambda>(response, driver).
            case response of
              Inl err \<Rightarrow> andThen (driver_Close sys driver) (\<lambda>(_, driver). Returns (Inl (WrapCriticalError err), driver))
            | Inr response \<Rightarrow> andThen (contractResult (de_messages E) response) (\<lambda>x. Returns (x, driver)))))"

definition driver_RunSmartContractCall ::
  "'h driverEnv \<Rightarrow> osAnswers \<Rightarrow> ('h ipc \<Rightarrow> 'h ipc) \<Rightarrow> ContractCallInput \<Rightarrow> 'h VMDriver \<Rightarrow> ((ipcError + VMOutput) \<times> 'h VMDriver) outcome" where
  "driver_RunSmartContractCall E sys run input driver =
     (let driver = driver\<lparr>counterCall := counterCall driver + 1\<rparr>
      in andThen (RestartVMIfNecessary E sys driver) (\<lambda>(err, driver).
        case err of
          Some err \<Rightarrow> Returns (Inl (WrapCriticalError err), driver)
        | None \<Rightarrow> andThen (driver_StartLoop E run (NewMessageContractCallRequest input) driver) (\<lambda>(response, driver).
            case response of
              Inl err \<Rightarrow> andThen (driver_Close sys driver) (\<lambda>(_, driver). Returns (Inl (WrapCriticalError err), driver))
            | Inr response \<Rightarrow> andThen (contractResult (de_messages E) response) (\<lambda>x. Returns (x, driver)))))"

definition driver_DiagnoseWait :: "'h driverEnv \<Rightarrow> osAnswers \<Rightarrow> ('h ipc \<Rightarrow> 'h ipc) \<Rightarrow> u32 \<Rightarrow> 'h VMDriver \<Rightarrow> (ipcError option \<times> 'h VMDriver) outcome" where
  "driver_DiagnoseWait E sys run milliseconds driver =
     andThen (RestartVMIfNecessary E sys driver) (\<lambda>(err, driver).
       case err of
         Some err \<Rightarrow> Returns (Some (WrapCriticalError err), driver)
       | None \<Rightarrow> andThen (driver_StartLoop E run (NewMessageDiagnoseWaitRequest milliseconds) driver) (\<lambda>(response, driver).
           case response of
             Inl err \<Rightarrow> andThen (driver_Close sys driver) (\<lambda>(_, driver). Returns (Some (WrapCriticalError err), driver))
           | Inr response \<Rightarrow> Returns (map_option PlainError (GetError (Errorf (de_messages E)) response), driver)))"

subsection \<open>Dialogues of the driver\<close>

definition deaf :: "'h ipc \<Rightarrow> bool" where
  \<comment> \<open>no answer can come any more\<close>
  "deaf c \<longleftrightarrow> pipe_closed (toVM c) \<or> ((vmProc c = VMPanicked \<or> (\<exists>e. vmProc c = VMEnded e)) \<and> toNode c = emptyPipe)"

definition driver_ok :: "'h VMDriver \<Rightarrow> bool" where
  \<comment> \<open>between two operations: a process that has not been stopped waits for a request, or will never answer\<close>
  "driver_ok driver \<longleftrightarrow> command driver \<noteq> NotStarted \<and>
     (command driver = Started \<longrightarrow> (\<exists>h. quiescent h (part driver)) \<or> deaf (part driver))"

definition reliable :: "osAnswers \<Rightarrow> bool" where
  \<comment> \<open>files can be examined, and processes started and stopped\<close>
  "reliable sys \<longleftrightarrow> (\<forall>f. os_Stat sys f \<noteq> StatFails) \<and> launch sys = None \<and> os_Kill sys = None \<and> os_Wait sys = None"

definition possibleRun :: "'h driverEnv \<Rightarrow> ('h ipc \<Rightarrow> 'h ipc) \<Rightarrow> bool" where
  "possibleRun E run \<longleftrightarrow> (\<forall>c. (ipc_step (de_messages E) (de_node E) (de_host E))\<^sup>*\<^sup>* c (run c))"

definition dialogueSurvives :: "'h driverEnv \<Rightarrow> MessageHandler \<Rightarrow> 'h ipc \<Rightarrow> bool" where
  \<comment> \<open>the messages of the dialogue can be marshalled\<close>
  "dialogueSurvives E request c \<longleftrightarrow>
     (\<forall>h t. quiescent h c \<longrightarrow> replyToNodeRequest (de_host E) h (SetNonce 1 request) = Some t \<longrightarrow>
        (\<forall>m \<in> set (SetNonce 1 request # exchanged (de_node E) t 1 (nodeLog c)). survives (de_messages E) m))"

lemma fileExists_reliable: "reliable sys \<Longrightarrow> \<exists>b. fileExists sys f = Returns b"
  by (auto simp: fileExists_def reliable_def split: fileInfo.split)

lemma getVMPath_reliable: "reliable sys \<Longrightarrow> \<exists>found. getVMPath sys = Returns found"
proof -
  assume r: "reliable sys"
  have "\<exists>found. getVMPathInCurrentDirectory sys = Returns found" "\<exists>found. getVMPathFromEnvironment sys = Returns found"
    using fileExists_reliable [OF r] by (auto simp: getVMPathInCurrentDirectory_def getVMPathFromEnvironment_def Let_def andThen_def
      split: sum.split outcome.split) (metis outcome.distinct)+
  then show ?thesis by (auto simp: getVMPath_def split: sum.split)
qed

lemma NewNodePart_ok: "(\<exists>h. quiescent h (NewNodePart log (NewVMPart E p))) \<or> deaf (NewNodePart log (NewVMPart E p))"
  by (auto simp: NewNodePart_def NewVMPart_def quiescent_def deaf_def emptyPipe_def split: outcome.split sum.split)

lemma resetPipeStreams_deaf: "deaf (snd (resetPipeStreams sys c))"
  by (simp add: resetPipeStreams_def deaf_def Let_def split: option.split)

lemma startVM_ok:
  assumes "driver_ok driver" "reliable sys"
  shows "\<exists>err driver'. startVM E sys driver = Returns (err, driver') \<and> driver_ok driver' \<and> (err = None \<longrightarrow> command driver' = Started)"
proof (cases "os_NewParentPart sys")
  case None
  obtain err c where c: "resetPipeStreams sys (part driver) = (err, c)" by (cases "resetPipeStreams sys (part driver)")
  then have d: "deaf c" using resetPipeStreams_deaf [of sys "part driver"] by simp
  obtain found where found: "getVMPath sys = Returns found" using getVMPath_reliable [OF assms(2)] by blast
  show ?thesis
  proof (cases err)
    case None
    with c d found assms \<open>os_NewParentPart sys = None\<close> NewNodePart_ok show ?thesis
      by (auto simp: startVM_def Let_def driver_ok_def reliable_def split: sum.split option.split prod.split)
  next
    case (Some e)
    with c d assms \<open>os_NewParentPart sys = None\<close> show ?thesis by (auto simp: startVM_def driver_ok_def)
  qed
qed (use assms in \<open>simp add: startVM_def\<close>)

lemma restart_ok:
  assumes "driver_ok driver" "reliable sys"
  shows "\<exists>err driver'. RestartVMIfNecessary E sys driver = Returns (err, driver') \<and> driver_ok driver' \<and> (err = None \<longrightarrow> command driver' = Started)"
  using startVM_ok [OF assms] assms(1)
  by (cases "command driver") (auto simp: RestartVMIfNecessary_def driver_IsClosed_def driver_ok_def)

lemma close_ok:
  assumes "command driver = Started" "reliable sys"
  shows "\<exists>driver'. driver_Close sys driver = Returns (None, driver') \<and> driver_ok driver' \<and> command driver' = Reaped"
  using assms by (simp add: driver_Close_def stopVM_def reliable_def driver_ok_def)

lemma Send_closed: "pipe_closed p \<Longrightarrow> \<exists>err m'. messenger_Send lib request m p = (Some err, m', p)"
  by (auto simp: messenger_Send_def sender_Send_def sendMessageLengthAndKind_def pipe_Write_def Let_def split: sum.split)

definition unanswered :: "'h ipc \<Rightarrow> bool" where
  "unanswered c \<longleftrightarrow> (\<exists>e. nodeProc c = NodeReturned (Inl e)) \<or>
     ((\<exists>r. nodeProc c = NodeLoop r) \<and> toNode c = emptyPipe \<and> (vmProc c = VMPanicked \<or> (\<exists>e. vmProc c = VMEnded e)))"

lemma unanswered_StartLoop: "deaf c \<Longrightarrow> unanswered (node_StartLoop lib maxLoopTime request c)"
  using Send_closed [of "toVM c" lib request "nodeMessenger c"]
  by (auto simp: deaf_def unanswered_def node_StartLoop_def split: prod.split option.split)

lemma unanswered_step: "ipc_step lib N H c c' \<Longrightarrow> unanswered c \<Longrightarrow> unanswered c'"
  by (cases rule: ipc_step.cases, assumption)
    (auto simp: unanswered_def node_returned vm_doLoop_node node_doLoop_def vm_doLoop_def emptyPipe_def messenger_Receive_empty
      dest: timeout_outcome)

lemma unanswered_steps: "(ipc_step lib N H)\<^sup>*\<^sup>* c c' \<Longrightarrow> unanswered c \<Longrightarrow> unanswered c'"
  by (induction rule: rtranclp_induct) (auto intro: unanswered_step)

lemma StartLoop_ok:
  assumes "driver_ok driver" "command driver = Started" "requestMsg request" "possibleRun E run" "hostAsks (de_host E)" "0 \<le> de_MaxLoopTime E"
    "dialogueSurvives E request (part driver)"
  shows "driver_StartLoop E run request driver = Waits \<or>
    (\<exists>e driver'. driver_StartLoop E run request driver = Returns (Inl e, driver') \<and> command driver' = Started) \<or>
    (\<exists>h t response h' log driver'. driver_StartLoop E run request driver = Returns (Inr response, driver') \<and> driver_ok driver' \<and>
      quiescent h (part driver) \<and> replyToNodeRequest (de_host E) h (SetNonce 1 request) = Some t \<and>
      serve (de_node E) t 1 (nodeLog (part driver)) = Some (response, h', log) \<and> nodeLog (part driver') = log \<and>
      (quiescent h' (part driver') \<or> deaf (part driver')))"
proof -
  let ?c = "node_StartLoop (de_messages E) (de_MaxLoopTime E) request (part driver)"
  have run: "(ipc_step (de_messages E) (de_node E) (de_host E))\<^sup>*\<^sup>* ?c (run ?c)" using assms(4) by (simp add: possibleRun_def)
  consider h where "quiescent h (part driver)" | "deaf (part driver)" using assms(1,2) by (auto simp: driver_ok_def)
  then show ?thesis
  proof cases
    case 1
    have "requestMsg (SetNonce 1 request)" using assms(3) by (simp add: requestMsg_def)
    with replyToNodeRequest_ok [OF this assms(5)] obtain t where t: "replyToNodeRequest (de_host E) h (SetNonce 1 request) = Some t" by blast
    with assms(7) 1 have "\<forall>m \<in> set (SetNonce 1 request # exchanged (de_node E) t 1 (nodeLog (part driver))). survives (de_messages E) m"
      by (simp add: dialogueSurvives_def)
    with dialogue_outcome [OF 1 assms(3,5,6) t _ run] obtain fin
      where fin: "serve (de_node E) t 1 (nodeLog (part driver)) = Some fin" "agrees fin (run ?c)" by blast
    have "quiescent h' (run ?c) \<or> deaf (run ?c)" if "quiescent h' (run ?c) \<or> (\<exists>e. quiescent h' ((run ?c)\<lparr>vmProc := VMWaiting h'\<rparr>) \<and> vmProc (run ?c) = VMEnded e)" for h'
      using that by (auto simp: quiescent_def deaf_def emptyPipe_def)
    with fin 1 t assms(2) show ?thesis
      by (auto simp: driver_StartLoop_def agrees_def driver_ok_def Let_def split: nodeProc.splits sum.splits prod.splits)
  next
    case 2
    from unanswered_steps [OF run unanswered_StartLoop [OF 2]] assms(2) show ?thesis
      by (auto simp: driver_StartLoop_def unanswered_def Let_def)
  qed
qed

primrec answered :: "BlockchainHook \<Rightarrow> ('r, 'h) run \<Rightarrow> u32 \<Rightarrow> hookEvent list \<Rightarrow> ('r \<times> 'h \<times> hookEvent list) option" where
  \<comment> \<open>the host with its hook calls answered by the node\<close>
  "answered N (Done r h) n log = Some (r, h, log)"
| "answered N (Ask request k) n log =
     (case node_reply N (SetNonce (n + 1) request) log of
        None \<Rightarrow> None
      | Some (response, log) \<Rightarrow> answered N (k (Inr (SetNonce (n + 2) response))) (n + 2) log)"

lemma serve_answered:
  "serve N (map_run f id t) n log = Some (response, h, log') \<Longrightarrow>
    \<exists>r n'. answered N t n log = Some (r, h, log') \<and> response = SetNonce n' (f r)"
  by (induction t arbitrary: n log) (auto split: option.splits)

definition contractAnswer :: "ipcLib \<Rightarrow> VMOutput option \<times> err option \<Rightarrow> ipcError + VMOutput" where
  \<comment> \<open>what the node gets of a result of the host\<close>
  "contractAnswer lib r =
     (case wireError lib (snd r) of Some e \<Rightarrow> Inl (PlainError e) | None \<Rightarrow> Inr (ConvertToVMOutput (NewSerializableVMOutput (fst r))))"

lemma contractResult_response:
  "contractResult lib (SetNonce n (case r of (vmOutput, err) \<Rightarrow> NewMessageContractResponse vmOutput err)) = Returns (contractAnswer lib r)"
  by (cases r) (simp add: contractResult_def contractAnswer_def NewMessageContractResponse_def GetError_SetError split: option.split)

definition correctResult :: "'h driverEnv \<Rightarrow> ('h \<Rightarrow> (VMOutput option \<times> err option, 'h) run) \<Rightarrow> (ipcError option \<times> 'h VMDriver) outcome \<Rightarrow>
    ((ipcError + VMOutput) \<times> 'h VMDriver) outcome \<Rightarrow> bool" where
  \<comment> \<open>of an operation that the VM, once it has been restarted where necessary, carries out by a run of its host\<close>
  "correctResult E hostRun restarted result1 \<longleftrightarrow>
     result1 = Waits \<or>
     (\<exists>e driver'. result1 = Returns (Inl (CriticalError e), driver') \<and> driver_ok driver') \<or>
     (\<exists>driver h r h' log driver'. restarted = Returns (None, driver) \<and> quiescent h (part driver) \<and>
        answered (de_node E) (hostRun h) 1 (nodeLog (part driver)) = Some (r, h', log) \<and>
        result1 = Returns (contractAnswer (de_messages E) r, driver') \<and> driver_ok driver' \<and>
        nodeLog (part driver') = log \<and> (quiescent h' (part driver') \<or> deaf (part driver')))"

lemma contract_operation:
  assumes "driver_ok driver" "reliable sys" "possibleRun E run" "hostAsks (de_host E)" "0 \<le> de_MaxLoopTime E" "requestMsg request"
    and "\<And>driver'. RestartVMIfNecessary E sys driver = Returns (None, driver') \<Longrightarrow> dialogueSurvives E request (part driver')"
    and "\<And>h. replyToNodeRequest (de_host E) h (SetNonce 1 request) =
      Some (map_run (\<lambda>(vmOutput, err). NewMessageContractResponse vmOutput err) id (hostRun h))"
  shows "correctResult E hostRun (RestartVMIfNecessary E sys driver)
    (andThen (RestartVMIfNecessary E sys driver) (\<lambda>(err, driver).
        case err of
          Some err \<Rightarrow> Returns (Inl (WrapCriticalError err), driver)
        | None \<Rightarrow> andThen (driver_StartLoop E run request driver) (\<lambda>(response, driver).
            case response of
              Inl err \<Rightarrow> andThen (driver_Close sys driver) (\<lambda>(_, driver). Returns (Inl (WrapCriticalError err), driver))
            | Inr response \<Rightarrow> andThen (contractResult (de_messages E) response) (\<lambda>x. Returns (x, driver)))))"
proof -
  obtain err d where r: "RestartVMIfNecessary E sys driver = Returns (err, d)" "driver_ok d" "err = None \<longrightarrow> command d = Started"
    using restart_ok [OF assms(1,2)] by blast
  show ?thesis
  proof (cases err)
    case None
    from StartLoop_ok [OF r(2) _ assms(6,3,4,5)] r None assms(7)
    consider "driver_StartLoop E run request d = Waits"
      | e d' where "driver_StartLoop E run request d = Returns (Inl e, d')" "command d' = Started"
      | h t response h' log d' where "driver_StartLoop E run request d = Returns (Inr response, d')" "driver_ok d'" "quiescent h (part d)"
        "replyToNodeRequest (de_host E) h (SetNonce 1 request) = Some t" "serve (de_node E) t 1 (nodeLog (part d)) = Some (response, h', log)"
        "nodeLog (part d') = log" "quiescent h' (part d') \<or> deaf (part d')"
      by blast
    then show ?thesis
    proof cases
      case 1
      with r None show ?thesis by (simp add: correctResult_def)
    next
      case 2
      with r None close_ok [OF 2(2) assms(2)] show ?thesis by (auto simp: correctResult_def WrapCriticalError_def)
    next
      case 3
      obtain x n where x: "answered (de_node E) (hostRun h) 1 (nodeLog (part d)) = Some (x, h', log)"
          "response = SetNonce n (case x of (vmOutput, err) \<Rightarrow> NewMessageContractResponse vmOutput err)"
        using serve_answered 3(4,5) assms(8) by fastforce
      then have "contractResult (de_messages E) response = Returns (contractAnswer (de_messages E) x)" by (simp only: contractResult_response)
      then show ?thesis unfolding correctResult_def using 3 x r None
        by (intro disjI2 exI [of _ d] exI [of _ h] exI [of _ x] exI [of _ h'] exI [of _ log] exI [of _ d']) simp
    qed
  next
    case (Some e)
    with r show ?thesis by (auto simp: correctResult_def WrapCriticalError_def)
  qed
qed

lemma restart_counters:
  "RestartVMIfNecessary E sys (driver\<lparr>counterCall := n\<rparr>) =
     (case RestartVMIfNecessary E sys driver of Returns (err, d) \<Rightarrow> Returns (err, d\<lparr>counterCall := n\<rparr>) | Panics \<Rightarrow> Panics | Waits \<Rightarrow> Waits)"
  "RestartVMIfNecessary E sys (driver\<lparr>counterDeploy := n\<rparr>) =
     (case RestartVMIfNecessary E sys driver of Returns (err, d) \<Rightarrow> Returns (err, d\<lparr>counterDeploy := n\<rparr>) | Panics \<Rightarrow> Panics | Waits \<Rightarrow> Waits)"
  by (simp_all add: RestartVMIfNecessary_def driver_IsClosed_def startVM_def andThen_def Let_def split: vmCommand.split option.split prod.split outcome.split sum.split)

lemma driver_ok_counters [simp]: "driver_ok (d\<lparr>counterCall := n\<rparr>) = driver_ok d" "driver_ok (d\<lparr>counterDeploy := n\<rparr>) = driver_ok d"
  by (simp_all add: driver_ok_def)

lemma contract_requests: "requestMsg (NewMessageContractCallRequest call)" "requestMsg (NewMessageContractDeployRequest create)"
  by (simp_all add: requestMsg_def wellTyped_def control_defs)

lemma contract_replies:
  "replyToNodeRequest H h (SetNonce n (NewMessageContractCallRequest call)) =
     Some (map_run (\<lambda>(vmOutput, err). NewMessageContractResponse vmOutput err) id (host_RunSmartContractCall H h call))"
  "replyToNodeRequest H h (SetNonce n (NewMessageContractDeployRequest create)) =
     Some (map_run (\<lambda>(vmOutput, err). NewMessageContractResponse vmOutput err) id (host_RunSmartContractCreate H h create))"
  by (simp_all add: NewMessageContractCallRequest_def NewMessageContractDeployRequest_def newMessage_def replyToNodeRequest_def GetKind_def
      vm_Repliers_def kind_defs replyToRunSmartContractCall_def replyToRunSmartContractCreate_def)

text \<open>
  C20: a call through the driver, on a system that does what is asked of it and with a marshalizer that carries the messages.  That is:
  files can be examined, the process of the VM can be started, killed and waited for (\<open>reliable\<close>), and all messages of the
  dialogue can be marshalled and read back (\<open>dialogueSurvives\<close>).  Then, between two operations (\<open>driver_ok\<close>: the process was started
  once, and if it was not stopped since, it waits for a request with nothing in the pipes or will never answer), in whatever order the processes run
  and whenever the VM ends or time runs out, a call or a deployment on the driver does not panic, and when it returns, then either with a critical
  error, or with the answer that the host of the VM gives to this input with its hook calls answered by the node, whose state has
  changed accordingly.  In both cases the driver is again as between two operations.  Without a reliable system it need not be: after a process that could not be
  started the next operation panics (\<open>start_failure_panics\<close>).
\<close>

theorem driver_correct:
  assumes "driver_ok driver" "reliable sys" "possibleRun E run" "hostAsks (de_host E)" "0 \<le> de_MaxLoopTime E"
    and "\<forall>d. RestartVMIfNecessary E sys driver = Returns (None, d) \<longrightarrow>
      dialogueSurvives E (NewMessageContractCallRequest call) (part d) \<and> dialogueSurvives E (NewMessageContractDeployRequest create) (part d)"
  shows "correctResult E (\<lambda>h. host_RunSmartContractCall (de_host E) h call)
      (RestartVMIfNecessary E sys (driver\<lparr>counterCall := counterCall driver + 1\<rparr>)) (driver_RunSmartContractCall E sys run call driver) \<and>
    correctResult E (\<lambda>h. host_RunSmartContractCreate (de_host E) h create)
      (RestartVMIfNecessary E sys (driver\<lparr>counterDeploy := counterDeploy driver + 1\<rparr>)) (driver_RunSmartContractCreate E sys run create driver)"
proof
  show "correctResult E (\<lambda>h. host_RunSmartContractCall (de_host E) h call)
      (RestartVMIfNecessary E sys (driver\<lparr>counterCall := counterCall driver + 1\<rparr>)) (driver_RunSmartContractCall E sys run call driver)"
    unfolding driver_RunSmartContractCall_def Let_def
    by (rule contract_operation) (use assms in \<open>auto simp: restart_counters contract_requests contract_replies split: outcome.splits\<close>)
  show "correctResult E (\<lambda>h. host_RunSmartContractCreate (de_host E) h create)
      (RestartVMIfNecessary E sys (driver\<lparr>counterDeploy := counterDeploy driver + 1\<rparr>)) (driver_RunSmartContractCreate E sys run create driver)"
    unfolding driver_RunSmartContractCreate_def Let_def
    by (rule contract_operation) (use assms in \<open>auto simp: restart_counters contract_requests contract_replies split: outcome.splits\<close>)
qed

lemma contractAnswer_regular:
  "plainError lib err \<Longrightarrow> (err = None \<Longrightarrow> \<exists>out. vmOutput = Some out \<and> keyed_output out) \<Longrightarrow>
    contractAnswer lib (vmOutput, err) = (case err of Some e \<Rightarrow> Inl (PlainError e) | None \<Rightarrow> Inr (the vmOutput))"
  by (auto simp: contractAnswer_def wireError_plain output_roundtrip split: option.split)

lemma restart_fresh:
  \<comment> \<open>after a failure the VM starts again with the arguments of the driver, the gas schedule included, and the node forgets its compiled codes\<close>
  assumes "command driver = Reaped" "reliable sys" "os_NewParentPart sys = None" "\<forall>i. os_Pipe sys i = None" "getVMPath sys = Returns (Inr path)"
    "os_LogsStartLoop sys = None" "survives (de_json E) (NewMessageInitialize (vmArguments driver))" "de_NewVMHost E (vmArguments driver) = Inr h"
  shows "\<exists>driver'. RestartVMIfNecessary E sys driver = Returns (None, driver') \<and> quiescent h (part driver') \<and>
    nodeLog (part driver') = nodeLog (part driver) @ [CompiledCodesCleared]"
proof -
  obtain n where s: "sender_Send (de_json E) (NewMessageInitialize (vmArguments driver)) emptyPipe =
      (Inr n, emptyPipe\<lparr>pipe_bytes := frame_of (de_json E) (NewMessageInitialize (vmArguments driver))\<rparr>)"
    using Send_frame [OF assms(7), of emptyPipe] by (auto simp: emptyPipe_def)
  obtain k where "receiver_Receive (de_json E) (emptyPipe\<lparr>pipe_bytes := frame_of (de_json E) (NewMessageInitialize (vmArguments driver))\<rparr>) =
      Got (NewMessageInitialize (vmArguments driver), k) emptyPipe"
    using Receive_frame [OF assms(7), of "emptyPipe\<lparr>pipe_bytes := frame_of (de_json E) (NewMessageInitialize (vmArguments driver))\<rparr>" "[]"]
    by (auto simp: emptyPipe_def wellTyped_def control_defs)
  with s assms show ?thesis
    by (auto simp: RestartVMIfNecessary_def driver_IsClosed_def startVM_def resetPipeStreams_def Let_def reliable_def SendVMArguments_def
      NewVMPart_def GetVMArguments_def NewNodePart_def quiescent_def emptyPipe_def control_defs)
qed

lemma start_failure_panics:
  \<comment> \<open>when the process cannot be started, the command has no process, and the next operation dereferences it\<close>
  assumes "command driver = Reaped" "os_NewParentPart sys = None" "\<forall>i. os_Pipe sys i = None" "getVMPath sys = Returns (Inr path)" "launch sys = Some err"
  shows "\<exists>driver'. driver_RunSmartContractCall E sys run call driver = Returns (Inl (CriticalError (PlainError err)), driver') \<and>
    driver_RunSmartContractCall E sys' run' call' driver' = Panics"
  using assms by (simp add: driver_RunSmartContractCall_def RestartVMIfNecessary_def driver_IsClosed_def startVM_def resetPipeStreams_def
      Let_def WrapCriticalError_def)

subsection \<open>An example\<close>

definition sampleSystem :: osAnswers where
  "sampleSystem = \<lparr>os_NewParentPart = None, os_Pipe = (\<lambda>_. None), os_Getwd = Inr ''/home'', os_Getenv = (\<lambda>_. []), os_Stat = (\<lambda>_. RegularFile),
     os_StdoutPipe = None, os_StderrPipe = None, os_Start = None, os_LogsStartLoop = None, os_Kill = None, os_Wait = None\<rparr>"

definition sampleCreate :: ContractCreateInput where
  "sampleCreate = \<lparr>cri_VMInput = cci_VMInput (sampleCall []), cri_ContractCode = ''code'', cri_ContractCodeMetadata = []\<rparr>"

fun schedule :: "ipcLib \<Rightarrow> BlockchainHook \<Rightarrow> 'h VMHost \<Rightarrow> nat \<Rightarrow> 'h ipc \<Rightarrow> 'h ipc" where
  \<comment> \<open>the VM first, and the node, at no time, when the VM has nothing to do\<close>
  "schedule lib N H 0 c = c"
| "schedule lib N H (Suc n) c =
     (case vm_doLoop lib H c of
        Some c' \<Rightarrow> schedule lib N H n c'
      | None \<Rightarrow> (case node_doLoop lib N 0 c of Some c' \<Rightarrow> schedule lib N H n c' | None \<Rightarrow> c))"

lemma schedule_steps: "(ipc_step lib N H)\<^sup>*\<^sup>* c (schedule lib N H n c)"
proof (induction n arbitrary: c)
  case (Suc n)
  then show ?case
    by (auto split: option.split intro: converse_rtranclp_into_rtranclp ipc_step.vm ipc_step.node [of _ _ 0])
qed simp

lemma schedule_possible: "possibleRun E (schedule (de_messages E) (de_node E) (de_host E) n)"
  by (simp add: possibleRun_def schedule_steps)

definition sampleDriverEnv :: "nat driverEnv" where
  "sampleDriverEnv = \<lparr>de_MaxLoopTime = 1000,
     de_messages = listLib (concat (map (\<lambda>m. SetNonce 1 m # exchanged sampleNode (the (replyToNodeRequest countingHost 0 (SetNonce 1 m))) 1 [CompiledCodesCleared])
       [NewMessageContractCallRequest (sampleCall []), NewMessageContractDeployRequest sampleCreate])),
     de_json = listLib [NewMessageInitialize zeroArguments], de_node = sampleNode, de_host = countingHost,
     de_NewVMHost = (\<lambda>arguments. Inr 0)\<rparr>"

definition sampleDriver :: "nat VMDriver" where
  \<comment> \<open>after the VM has been stopped\<close>
  "sampleDriver = \<lparr>vmArguments = zeroArguments, counterDeploy = 0, counterCall = 0, command = Reaped, part = NewNodePart [] VMPanicked\<rparr>"

lemma sampleDriver_restart:
  "RestartVMIfNecessary sampleDriverEnv sampleSystem sampleDriver = Returns (None, d) \<Longrightarrow>
    quiescent 0 (part d) \<and> nodeLog (part d) = [CompiledCodesCleared]"
  using restart_fresh [of sampleDriver sampleSystem "''/home/vm''" sampleDriverEnv 0]
  by (auto simp: sampleDriver_def sampleSystem_def reliable_def launch_def getVMPath_def getVMPathInCurrentDirectory_def fileExists_def
      sampleDriverEnv_def listLib_survives NewNodePart_def)

lemma sampleDriver_survives:
  assumes "quiescent 0 c" "nodeLog c = [CompiledCodesCleared]"
  shows "dialogueSurvives sampleDriverEnv (NewMessageContractCallRequest (sampleCall [])) c" (is ?call)
    and "dialogueSurvives sampleDriverEnv (NewMessageContractDeployRequest sampleCreate) c" (is ?create)
proof -
  have same: "h = 0" if "quiescent h c" for h using assms(1) that by (simp add: quiescent_def)
  show ?call ?create
    unfolding dialogueSurvives_def using assms(2)
    by (auto dest!: same simp: sampleDriverEnv_def contract_replies countingHost_def sample_reply intro!: listLib_survives)
qed

theorem driver_correct_witness:
  "correctResult sampleDriverEnv (\<lambda>h. host_RunSmartContractCall countingHost h (sampleCall []))
     (RestartVMIfNecessary sampleDriverEnv sampleSystem (sampleDriver\<lparr>counterCall := 1\<rparr>))
     (driver_RunSmartContractCall sampleDriverEnv sampleSystem
       (schedule (de_messages sampleDriverEnv) (de_node sampleDriverEnv) (de_host sampleDriverEnv) 10) (sampleCall []) sampleDriver)"
proof -
  have "driver_ok sampleDriver" "reliable sampleSystem" "0 \<le> de_MaxLoopTime sampleDriverEnv" "hostAsks (de_host sampleDriverEnv)"
    by (simp_all add: sampleDriver_def driver_ok_def sampleSystem_def reliable_def launch_def sampleDriverEnv_def sample_dialogue)
  moreover have "\<forall>d. RestartVMIfNecessary sampleDriverEnv sampleSystem sampleDriver = Returns (None, d) \<longrightarrow>
      dialogueSurvives sampleDriverEnv (NewMessageContractCallRequest (sampleCall [])) (part d) \<and>
      dialogueSurvives sampleDriverEnv (NewMessageContractDeployRequest sampleCreate) (part d)"
    using sampleDriver_restart sampleDriver_survives by blast
  moreover have "counterCall sampleDriver + 1 = 1" "de_host sampleDriverEnv = countingHost" by (simp_all add: sampleDriver_def sampleDriverEnv_def)
  ultimately show ?thesis
    using driver_correct [of sampleDriver sampleSystem sampleDriverEnv, OF _ _ schedule_possible [of _ 10], of "sampleCall []" sampleCreate] by auto
qed

end
