(* ===== verification/WasmImports.thy ===== *)
theory WasmImports
  imports VMImports
begin

text \<open>
  The table of imported functions as it is registered with the WebAssembly engine (\<open>src/wasmer/import.go\<close>): the Go
  type of every function is inspected by reflection and becomes a signature of WebAssembly.  The types are those of the functions that
  \<open>BaseOpsAPIImports\<close>, \<open>BigIntImports\<close>, \<open>SmallIntImports\<close> and \<open>CryptoImports\<close> append.  That what they compute takes as many
  arguments as the signatures say is proved here.
\<close>

subsection \<open>Go types and signatures\<close>

datatype goKind = Int32 | Int64 | UnsafePointer | OtherKind string

datatype goType = GoFunc "goKind list" "goKind list" | NoFunc string

datatype wasmTag = cWasmI32 | cWasmI64

record Import =
  wasmInputs :: "wasmTag list"
  wasmOutputs :: "wasmTag list"
  import_namespace :: string

record Imports =
  imports_of :: "(string, (string, Import) gomap) gomap"
  currentNamespace :: string

fun Kind_String :: "goKind \<Rightarrow> string" where
  "Kind_String Int32 = ''int32''"
| "Kind_String Int64 = ''int64''"
| "Kind_String UnsafePointer = ''unsafe.Pointer''"
| "Kind_String (OtherKind name) = name"

definition importError :: "string \<Rightarrow> string \<Rightarrow> string \<Rightarrow> err" where
  \<comment> \<open>the message of an \<open>ImportedFunctionError\<close>, with the name of the function in it\<close>
  "importError before functionName after = ErrPlain (before @ functionName @ after)"

definition badKind :: "string \<Rightarrow> string \<Rightarrow> goKind \<Rightarrow> err" where
  "badKind what importName kind =
     importError (''Invalid '' @ what @ '' type for the `'') importName
       (''` imported function; given `'' @ Kind_String kind @ ''`; only accept `int32`, `int64`, `float32`, and `float64`.'')"

definition tagOf :: "string \<Rightarrow> string \<Rightarrow> goKind \<Rightarrow> err + wasmTag" where
  "tagOf what importName kind = (case kind of Int32 \<Rightarrow> Inr cWasmI32 | Int64 \<Rightarrow> Inr cWasmI64 | _ \<Rightarrow> Inl (badKind what importName kind))"

fun tagsOf :: "string \<Rightarrow> string \<Rightarrow> goKind list \<Rightarrow> err + wasmTag list" where
  "tagsOf what importName [] = Inr []"
| "tagsOf what importName (kind # kinds) =
     (case tagOf what importName kind of
        Inl err \<Rightarrow> Inl err
      | Inr tag \<Rightarrow> (case tagsOf what importName kinds of Inl err \<Rightarrow> Inl err | Inr tags \<Rightarrow> Inr (tag # tags)))"

subsection \<open>The set of imports\<close>

definition NewImports :: Imports where
  "NewImports = \<lparr>imports_of = [], currentNamespace = ''env''\<rparr>"

definition Namespace :: "string \<Rightarrow> Imports \<Rightarrow> Imports" where
  "Namespace namespace imports1 = imports1\<lparr>currentNamespace := namespace\<rparr>"

definition imports_Count :: "Imports \<Rightarrow> nat" where
  "imports_Count imports1 = sum_list (map (\<lambda>(_, namespacedImports). length namespacedImports) (imports_of imports1))"

definition imports_Names :: "Imports \<Rightarrow> string set" where
  "imports_Names imports1 = (\<Union>(_, env1) \<in> set (imports_of imports1). fst ` set env1)"

definition imports_Append :: "string \<Rightarrow> goType \<Rightarrow> Imports \<Rightarrow> err + Imports" where
  "imports_Append importName importType imports1 =
     (case importType of
        NoFunc kind \<Rightarrow> Inl (importError ''Imported function `'' importName (''` must be a function; given `'' @ kind @ ''`.''))
      | GoFunc [] _ \<Rightarrow> Inl (importError ''Imported function `'' importName ''` must at least have one argument for the instance context.'')
      | GoFunc (context1 # ins) outs \<Rightarrow>
          if context1 \<noteq> UnsafePointer then
            Inl (importError ''The instance context of the `'' importName
              (''` imported function must be of kind `unsafe.Pointer`; given `'' @ Kind_String context1 @ ''`; is it missing?''))
          else
            (case tagsOf ''input'' importName ins of
               Inl err \<Rightarrow> Inl err
             | Inr inputs \<Rightarrow>
                 if length outs > 1 then Inl (importError ''The `'' importName ''` imported function must have at most one output value.'')
                 else (case tagsOf ''output'' importName outs of
                     Inl err \<Rightarrow> Inl err
                   | Inr outputs \<Rightarrow>
                       let namespace = currentNamespace imports1;
                           namespaced = (case go_get (imports_of imports1) namespace of None \<Rightarrow> [] | Some m \<Rightarrow> m);
                           import1 = \<lparr>wasmInputs = inputs, wasmOutputs = outputs, import_namespace = namespace\<rparr>
                       in Inr (imports1\<lparr>imports_of := go_set namespace (go_set importName import1 namespaced) (imports_of imports1)\<rparr>))))"

type_synonym signature = "string \<times> goKind list \<times> goKind list"

fun appendAll :: "signature list \<Rightarrow> Imports \<Rightarrow> err + Imports" where
  \<comment> \<open>one function after the other, up to the first error\<close>
  "appendAll [] imports1 = Inr imports1"
| "appendAll ((name, ins, outs) # sigs) imports1 =
     (case imports_Append name (GoFunc ins outs) imports1 of Inl err \<Rightarrow> Inl err | Inr imports1 \<Rightarrow> appendAll sigs imports1)"

subsection \<open>The types of the functions\<close>

definition BaseOpsAPISignatures :: "signature list" where
  "BaseOpsAPISignatures = [
     (''getSCAddress'', [UnsafePointer, Int32], []),
     (''getOwnerAddress'', [UnsafePointer, Int32], []),
     (''getShardOfAddress'', [UnsafePointer, Int32], [Int32]),
     (''isSmartContract'', [UnsafePointer, Int32], [Int32]),
     (''getExternalBalance'', [UnsafePointer, Int32, Int32], []),
     (''getBlockHash'', [UnsafePointer, Int64, Int32], [Int32]),
     (''transferValue'', [UnsafePointer, Int32, Int32, Int32, Int32], [Int32]),
     (''transferDCDTExecute'', [UnsafePointer, Int32, Int32, Int32, Int32, Int64, Int32, Int32, Int32, Int32, Int32], [Int32]),
     (''transferDCDTNFTExecute'', [UnsafePointer, Int32, Int32, Int32, Int32, Int64, Int64, Int32, Int32, Int32, Int32, Int32], [Int32]),
     (''transferDCDT'', [UnsafePointer, Int32, Int32, Int32, Int32, Int64, Int32, Int32], [Int32]),
     (''transferValueExecute'', [UnsafePointer, Int32, Int32, Int64, Int32, Int32, Int32, Int32, Int32], [Int32]),
     (''asyncCall'', [UnsafePointer, Int32, Int32, Int32, Int32], []),
     (''getArgumentLength'', [UnsafePointer, Int32], [Int32]),
     (''getArgument'', [UnsafePointer, Int32, Int32], [Int32]),
     (''getFunction'', [UnsafePointer, Int32], [Int32]),
     (''getNumArguments'', [UnsafePointer], [Int32]),
     (''storageStore'', [UnsafePointer, Int32, Int32, Int32, Int32], [Int32]),
     (''storageLoadLength'', [UnsafePointer, Int32, Int32], [Int32]),
     (''storageLoad'', [UnsafePointer, Int32, Int32, Int32], [Int32]),
     (''storageLoadFromAddress'', [UnsafePointer, Int32, Int32, Int32, Int32], [Int32]),
     (''getStorageLock'', [UnsafePointer, Int32, Int32], [Int64]),
     (''setStorageLock'', [UnsafePointer, Int32, Int32, Int64], [Int32]),
     (''isStorageLocked'', [UnsafePointer, Int32, Int32], [Int32]),
     (''clearStorageLock'', [UnsafePointer, Int32, Int32], [Int32]),
     (''getCaller'', [UnsafePointer, Int32], []),
     (''checkNoPayment'', [UnsafePointer], []),
     (''getCallValue'', [UnsafePointer, Int32], [Int32]),
     (''getDCDTValue'', [UnsafePointer, Int32], [Int32]),
     (''getDCDTTokenName'', [UnsafePointer, Int32], [Int32]),
     (''getDCDTTokenType'', [UnsafePointer], [Int32]),
     (''getDCDTTokenNonce'', [UnsafePointer], [Int64]),
     (''getCurrentDCDTNFTNonce'', [UnsafePointer, Int32, Int32, Int32], [Int64]),
     (''getCallValueTokenName'', [UnsafePointer, Int32, Int32], [Int32]),
     (''writeLog'', [UnsafePointer, Int32, Int32, Int32, Int32], []),
     (''writeEventLog'', [UnsafePointer, Int32, Int32, Int32, Int32, Int32], []),
     (''finish'', [UnsafePointer, Int32, Int32], []),
     (''signalError'', [UnsafePointer, Int32, Int32], []),
     (''getBlockTimestamp'', [UnsafePointer], [Int64]),
     (''getBlockNonce'', [UnsafePointer], [Int64]),
     (''getBlockRound'', [UnsafePointer], [Int64]),
     (''getBlockEpoch'', [UnsafePointer], [Int64]),
     (''getBlockRandomSeed'', [UnsafePointer, Int32], []),
     (''getStateRootHash'', [UnsafePointer, Int32], []),
     (''getPrevBlockTimestamp'', [UnsafePointer], [Int64]),
     (''getPrevBlockNonce'', [UnsafePointer], [Int64]),
     (''getPrevBlockRound'', [UnsafePointer], [Int64]),
     (''getPrevBlockEpoch'', [UnsafePointer], [Int64]),
     (''getPrevBlockRandomSeed'', [UnsafePointer, Int32], []),
     (''getOriginalTxHash'', [UnsafePointer, Int32], []),
     (''getGasLeft'', [UnsafePointer], [Int64]),
     (''executeOnDestContext'', [UnsafePointer, Int64, Int32, Int32, Int32, Int32, Int32, Int32, Int32], [Int32]),
     (''executeOnDestContextByCaller'', [UnsafePointer, Int64, Int32, Int32, Int32, Int32, Int32, Int32, Int32], [Int32]),
     (''executeOnSameContext'', [UnsafePointer, Int64, Int32, Int32, Int32, Int32, Int32, Int32, Int32], [Int32]),
     (''delegateExecution'', [UnsafePointer, Int64, Int32, Int32, Int32, Int32, Int32, Int32], [Int32]),
     (''createContract'', [UnsafePointer, Int64, Int32, Int32, Int32, Int32, Int32, Int32, Int32, Int32], [Int32]),
     (''upgradeContract'', [UnsafePointer, Int32, Int64, Int32, Int32, Int32, Int32, Int32, Int32, Int32], []),
     (''executeReadOnly'', [UnsafePointer, Int64, Int32, Int32, Int32, Int32, Int32, Int32], [Int32]),
     (''getNumReturnData'', [UnsafePointer], [Int32]),
     (''getReturnDataSize'', [UnsafePointer, Int32], [Int32]),
     (''getReturnData'', [UnsafePointer, Int32, Int32], [Int32]),
     (''getDCDTBalance'', [UnsafePointer, Int32, Int32, Int32, Int64, Int32], [Int32]),
     (''getDCDTTokenData'', [UnsafePointer, Int32, Int32, Int32, Int64, Int32, Int32, Int32, Int32, Int32, Int32, Int32, Int32], [Int32]),
     (''getDCDTNFTNameLength'', [UnsafePointer, Int32, Int32, Int32, Int64], [Int32]),
     (''getDCDTNFTAttributeLength'', [UnsafePointer, Int32, Int32, Int32, Int64], [Int32]),
     (''getDCDTNFTURILength'', [UnsafePointer, Int32, Int32, Int32, Int64], [Int32])]"

definition BigIntSignatures :: "signature list" where
  "BigIntSignatures = [
     (''bigIntNew'', [UnsafePointer, Int64], [Int32]),
     (''bigIntUnsignedByteLength'', [UnsafePointer, Int32], [Int32]),
     (''bigIntSignedByteLength'', [UnsafePointer, Int32], [Int32]),
     (''bigIntGetUnsignedBytes'', [UnsafePointer, Int32, Int32], [Int32]),
     (''bigIntGetSignedBytes'', [UnsafePointer, Int32, Int32], [Int32]),
     (''bigIntSetUnsignedBytes'', [UnsafePointer, Int32, Int32, Int32], []),
     (''bigIntSetSignedBytes'', [UnsafePointer, Int32, Int32, Int32], []),
     (''bigIntIsInt64'', [UnsafePointer, Int32], [Int32]),
     (''bigIntGetInt64'', [UnsafePointer, Int32], [Int64]),
     (''bigIntSetInt64'', [UnsafePointer, Int32, Int64], []),
     (''bigIntAdd'', [UnsafePointer, Int32, Int32, Int32], []),
     (''bigIntSub'', [UnsafePointer, Int32, Int32, Int32], []),
     (''bigIntMul'', [UnsafePointer, Int32, Int32, Int32], []),
     (''bigIntTDiv'', [UnsafePointer, Int32, Int32, Int32], []),
     (''bigIntTMod'', [UnsafePointer, Int32, Int32, Int32], []),
     (''bigIntEDiv'', [UnsafePointer, Int32, Int32, Int32], []),
     (''bigIntEMod'', [UnsafePointer, Int32, Int32, Int32], []),
     (''bigIntAbs'', [UnsafePointer, Int32, Int32], []),
     (''bigIntNeg'', [UnsafePointer, Int32, Int32], []),
     (''bigIntSign'', [UnsafePointer, Int32], [Int32]),
     (''bigIntCmp'', [UnsafePointer, Int32, Int32], [Int32]),
     (''bigIntNot'', [UnsafePointer, Int32, Int32], []),
     (''bigIntAnd'', [UnsafePointer, Int32, Int32, Int32], []),
     (''bigIntOr'', [UnsafePointer, Int32, Int32, Int32], []),
     (''bigIntXor'', [UnsafePointer, Int32, Int32, Int32], []),
     (''bigIntShr'', [UnsafePointer, Int32, Int32, Int32], []),
     (''bigIntShl'', [UnsafePointer, Int32, Int32, Int32], []),
     (''bigIntFinishUnsigned'', [UnsafePointer, Int32], []),
     (''bigIntFinishSigned'', [UnsafePointer, Int32], []),
     (''bigIntStorageStoreUnsigned'', [UnsafePointer, Int32, Int32, Int32], [Int32]),
     (''bigIntStorageLoadUnsigned'', [UnsafePointer, Int32, Int32, Int32], [Int32]),
     (''bigIntGetUnsignedArgument'', [UnsafePointer, Int32, Int32], []),
     (''bigIntGetSignedArgument'', [UnsafePointer, Int32, Int32], []),
     (''bigIntGetCallValue'', [UnsafePointer, Int32], []),
     (''bigIntGetDCDTCallValue'', [UnsafePointer, Int32], []),
     (''bigIntGetDCDTExternalBalance'', [UnsafePointer, Int32, Int32, Int32, Int64, Int32], []),
     (''bigIntGetExternalBalance'', [UnsafePointer, Int32, Int32], [])]"

definition SmallIntSignatures :: "signature list" where
  "SmallIntSignatures = [
     (''smallIntGetUnsignedArgument'', [UnsafePointer, Int32], [Int64]),
     (''smallIntGetSignedArgument'', [UnsafePointer, Int32], [Int64]),
     (''smallIntFinishUnsigned'', [UnsafePointer, Int64], []),
     (''smallIntFinishSigned'', [UnsafePointer, Int64], []),
     (''smallIntStorageStoreUnsigned'', [UnsafePointer, Int32, Int32, Int64], [Int32]),
     (''smallIntStorageStoreSigned'', [UnsafePointer, Int32, Int32, Int64], [Int32]),
     (''smallIntStorageLoadUnsigned'', [UnsafePointer, Int32, Int32], [Int64]),
     (''smallIntStorageLoadSigned'', [UnsafePointer, Int32, Int32], [Int64]),
     (''int64getArgument'', [UnsafePointer, Int32], [Int64]),
     (''int64storageStore'', [UnsafePointer, Int32, Int32, Int64], [Int32]),
     (''int64storageLoad'', [UnsafePointer, Int32, Int32], [Int64]),
     (''int64finish'', [UnsafePointer, Int64], [])]"

definition CryptoSignatures :: "signature list" where
  "CryptoSignatures = [
     (''sha256'', [UnsafePointer, Int32, Int32, Int32], [Int32]),
     (''keccak256'', [UnsafePointer, Int32, Int32, Int32], [Int32]),
     (''ripemd160'', [UnsafePointer, Int32, Int32, Int32], [Int32]),
     (''verifyBLS'', [UnsafePointer, Int32, Int32, Int32, Int32], [Int32]),
     (''verifyEd25519'', [UnsafePointer, Int32, Int32, Int32, Int32], [Int32]),
     (''verifySecp256k1'', [UnsafePointer, Int32, Int32, Int32, Int32, Int32], [Int32])]"

definition apiSignatures :: "signature list" where
  "apiSignatures = BaseOpsAPISignatures @ BigIntSignatures @ SmallIntSignatures @ CryptoSignatures"

lemmas signature_defs = BaseOpsAPISignatures_def BigIntSignatures_def SmallIntSignatures_def CryptoSignatures_def

definition registerImports :: "err + Imports" where
  \<comment> \<open>the four functions in the order in which \<open>NewVMHost\<close> calls them; each but the first continues in its namespace\<close>
  "registerImports =
     (case appendAll BaseOpsAPISignatures (Namespace ''env'' NewImports) of
        Inl err \<Rightarrow> Inl err
      | Inr imports1 \<Rightarrow> (case appendAll BigIntSignatures (Namespace ''env'' imports1) of
          Inl err \<Rightarrow> Inl err
        | Inr imports1 \<Rightarrow> (case appendAll SmallIntSignatures (Namespace ''env'' imports1) of
            Inl err \<Rightarrow> Inl err
          | Inr imports1 \<Rightarrow> appendAll CryptoSignatures (Namespace ''env'' imports1))))"

subsection \<open>What is registered\<close>

definition plainKind :: "goKind \<Rightarrow> bool" where "plainKind kind \<longleftrightarrow> kind = Int32 \<or> kind = Int64"

definition wellTypedSig :: "signature \<Rightarrow> bool" where
  \<comment> \<open>the shape that \<open>Append\<close> asks for\<close>
  "wellTypedSig s = (case s of (_, ins, outs) \<Rightarrow> ins \<noteq> [] \<and> hd ins = UnsafePointer \<and> list_all plainKind (tl ins) \<and> length outs \<le> 1 \<and> list_all plainKind outs)"

definition plainTag :: "goKind \<Rightarrow> wasmTag" where "plainTag kind = (if kind = Int32 then cWasmI32 else cWasmI64)"

definition importOf :: "string \<Rightarrow> signature \<Rightarrow> Import" where
  "importOf namespace s = \<lparr>wasmInputs = map plainTag (tl (fst (snd s))), wasmOutputs = map plainTag (snd (snd s)), import_namespace = namespace\<rparr>"

lemma tagsOf_plain: "list_all plainKind kinds \<Longrightarrow> tagsOf what name kinds = Inr (map plainTag kinds)"
  by (induction kinds) (auto simp: plainKind_def plainTag_def tagOf_def)

lemma append_wellTypedSig:
  assumes "wellTypedSig s"
  shows "imports_Append (fst s) (GoFunc (fst (snd s)) (snd (snd s))) \<lparr>imports_of = [(n, m)], currentNamespace = n\<rparr> =
    Inr \<lparr>imports_of = [(n, go_set (fst s) (importOf n s) m)], currentNamespace = n\<rparr>"
  using assms
  by (cases "fst (snd s)") (auto simp: wellTypedSig_def imports_Append_def tagsOf_plain importOf_def go_simps split: prod.splits)

lemma appendAll_wellTypedSig:
  assumes "list_all wellTypedSig sigs"
  shows "appendAll sigs \<lparr>imports_of = [(n, m)], currentNamespace = n\<rparr> =
    Inr \<lparr>imports_of = [(n, fold (\<lambda>s. go_set (fst s) (importOf n s)) sigs m)], currentNamespace = n\<rparr>"
  using assms
proof (induction sigs arbitrary: m)
  case (Cons s sigs)
  obtain name ins outs where s: "s = (name, ins, outs)" by (metis prod.exhaust)
  show ?case using append_wellTypedSig [of s n m] Cons by (simp add: s)
qed simp

lemma appendAll_append:
  "appendAll (xs @ ys) imports1 = (case appendAll xs imports1 of Inl err \<Rightarrow> Inl err | Inr imports1 \<Rightarrow> appendAll ys imports1)"
  by (induction xs imports1 rule: appendAll.induct) (auto split: sum.split)

subsection \<open>Arguments\<close>

definition hasArity :: "nat \<Rightarrow> import_fn \<Rightarrow> bool" where
  "hasArity n h \<longleftrightarrow> (\<forall>args. length args \<noteq> n \<longrightarrow> h args = (\<lambda>_. None))"

lemma hasArity_result: "hasArity 0 (result m)"
  by (auto simp: hasArity_def result_def split: list.split)

lemma hasArity_void: "hasArity 0 (void m)"
  by (auto simp: hasArity_def void_def split: list.split)

lemma hasArity_arg: "(\<And>a. hasArity n (g (f a))) \<Longrightarrow> hasArity (Suc n) (arg g f)"
  by (auto simp: hasArity_def arg_def split: list.split)

lemmas arity_rules = hasArity_result hasArity_void hasArity_arg

definition implements :: "signature \<Rightarrow> string \<times> import_fn \<Rightarrow> bool" where
  "implements s i \<longleftrightarrow> fst s = fst i \<and> hasArity (length (tl (fst (snd s)))) (snd i)"

lemma implements_intro: "hasArity (length (tl ins)) h \<Longrightarrow> implements (name, ins, outs) (name, h)"
  by (simp add: implements_def)

lemma base_implements: "list_all2 implements BaseOpsAPISignatures (BaseOpsAPIImports e re)"
  unfolding BaseOpsAPISignatures_def BaseOpsAPIImports_def list_all2_Cons
  by (intro conjI list_all2_Nil [THEN iffD2] refl implements_intro; (simp only: list.sel list.size add_0_right add_Suc_right add_0_left)?; intro arity_rules)

lemma number_implements:
  "list_all2 implements BigIntSignatures (BigIntImports e)"
  "list_all2 implements SmallIntSignatures (SmallIntImports e)"
  "list_all2 implements CryptoSignatures (CryptoImports e)"
  unfolding signature_defs BigIntImports_def SmallIntImports_def CryptoImports_def list_all2_Cons
  by (intro conjI list_all2_Nil [THEN iffD2] refl implements_intro; (simp only: list.sel list.size add_0_right add_Suc_right add_0_left)?; intro arity_rules)+

lemma api_implements: "list_all2 implements apiSignatures (GetAPIMethods e re)"
  unfolding apiSignatures_def GetAPIMethods_def by (intro list_all2_appendI base_implements number_implements)

lemma implements_names: "list_all2 implements sigs is \<Longrightarrow> map fst sigs = map fst is"
  by (induction rule: list_all2_induct) (auto simp: implements_def)

lemma api_wellTypedSig: "list_all wellTypedSig apiSignatures"
  unfolding apiSignatures_def signature_defs by (simp add: wellTypedSig_def plainKind_def)

lemma api_distinct: "distinct (map fst apiSignatures)"
  unfolding apiSignatures_def signature_defs by (simp add: distinct_map)

lemma go_set_new: "k \<notin> fst ` set m \<Longrightarrow> go_set k v m = m @ [(k, v)]"
  by (induction m) auto

lemma fold_set_distinct:
  "distinct (map f xs @ map fst m) \<Longrightarrow> fold (\<lambda>x. go_set (f x) (g x)) xs m = m @ map (\<lambda>x. (f x, g x)) xs"
proof (induction xs arbitrary: m)
  case (Cons x xs)
  have "go_set (f x) (g x) m = m @ [(f x, g x)]" using Cons.prems by (intro go_set_new) auto
  with Cons show ?case by simp
qed simp


lemma appendAll_first:
  "sigs \<noteq> [] \<Longrightarrow> appendAll sigs \<lparr>imports_of = [], currentNamespace = n\<rparr> = appendAll sigs \<lparr>imports_of = [(n, [])], currentNamespace = n\<rparr>"
proof (cases sigs)
  case (Cons s rest)
  have "imports_Append name ty \<lparr>imports_of = [], currentNamespace = n\<rparr> = imports_Append name ty \<lparr>imports_of = [(n, [])], currentNamespace = n\<rparr>" for name ty
    by (cases ty) (auto simp: imports_Append_def split: list.split sum.split)
  then show ?thesis by (cases s) (simp add: Cons)
qed simp

lemma registerImports_eq:
  "registerImports = Inr \<lparr>imports_of = [(''env'', map (\<lambda>s. (fst s, importOf ''env'' s)) apiSignatures)], currentNamespace = ''env''\<rparr>"
proof -
  have ns: "Namespace ''env'' \<lparr>imports_of = [(''env'', m)], currentNamespace = ''env''\<rparr> = \<lparr>imports_of = [(''env'', m)], currentNamespace = ''env''\<rparr>" for m
    by (simp add: Namespace_def)
  have typed: "list_all wellTypedSig BaseOpsAPISignatures" "list_all wellTypedSig BigIntSignatures" "list_all wellTypedSig SmallIntSignatures"
    "list_all wellTypedSig CryptoSignatures"
    using api_wellTypedSig by (simp_all add: apiSignatures_def)
  have "appendAll BaseOpsAPISignatures (Namespace ''env'' NewImports) = appendAll BaseOpsAPISignatures \<lparr>imports_of = [(''env'', [])], currentNamespace = ''env''\<rparr>"
    using appendAll_first [of BaseOpsAPISignatures] by (simp add: NewImports_def Namespace_def BaseOpsAPISignatures_def del: appendAll.simps)
  then have "registerImports = Inr \<lparr>imports_of = [(''env'', fold (\<lambda>s. go_set (fst s) (importOf ''env'' s)) apiSignatures [])], currentNamespace = ''env''\<rparr>"
    unfolding registerImports_def apiSignatures_def by (simp add: appendAll_wellTypedSig typed ns)
  then show ?thesis using fold_set_distinct [of fst apiSignatures "[]" "importOf ''env''"] api_distinct by simp
qed

lemma registered_names: "registerImports = Inr imports1 \<Longrightarrow> imports_Names imports1 = fst ` set (GetAPIMethods e re)"
  using implements_names [OF api_implements, of e re] unfolding registerImports_eq imports_Names_def by (force simp: image_image dest: arg_cong [where f = set])

text \<open>C34: the table of functions that a contract can import is registered as it is implemented.  Every function that
  \<open>BaseOpsAPIImports\<close>, \<open>BigIntImports\<close>, \<open>SmallIntImports\<close> and \<open>CryptoImports\<close> append is accepted by \<open>Append\<close>, none overwrites another, the names
  are those of the functions that the VM has, and each takes exactly as many arguments as the WebAssembly signature made of
  its Go type says: with any other number it does nothing but panic.\<close>

theorem imports_registered:
  "\<exists>imports1. registerImports = Inr imports1 \<and> imports_Names imports1 = fst ` set (GetAPIMethods e re) \<and>
     imports_Count imports1 = length (GetAPIMethods e re) \<and>
     list_all (\<lambda>(name, h). \<exists>m import1. go_get (imports_of imports1) ''env'' = Some m \<and> go_get m name = Some import1 \<and>
       hasArity (length (wasmInputs import1)) h) (GetAPIMethods e re)"
proof -
  let ?m = "map (\<lambda>s. (fst s, importOf ''env'' s)) apiSignatures"
  have "go_get ?m name = Some (importOf ''env'' s)" if "s \<in> set apiSignatures" "name = fst s" for s name
    using that api_distinct by (intro map_of_is_SomeI) (auto simp: comp_def)
  moreover have "\<exists>s \<in> set apiSignatures. implements s i" if "i \<in> set (GetAPIMethods e re)" for i
    using api_implements [of e re] that unfolding list_all2_conv_all_nth by (metis in_set_conv_nth)
  ultimately have "list_all (\<lambda>(name, h). \<exists>import1. go_get ?m name = Some import1 \<and> hasArity (length (wasmInputs import1)) h) (GetAPIMethods e re)"
    unfolding list_all_iff implements_def by (fastforce simp: importOf_def)
  moreover have "length ?m = length (GetAPIMethods e re)" using list_all2_lengthD [OF api_implements [of e re]] by simp
  ultimately show ?thesis
    using registered_names [OF registerImports_eq, of e re] unfolding registerImports_eq by (simp add: imports_Count_def)
qed

end
