(* ===== verification/HostConstruction.thy ===== *)
theory HostConstruction
  imports GasSchedule WasmImports
begin

text \<open>
  The construction of a host: \<open>NewVMHost\<close> of \<open>src/vmhost/hostCore/host.go\<close> with the constructors of the contexts
  (\<open>src/vmhost/contexts\<close>).  The WebAssembly engine has one state for the process, \<open>wasmerGlobals\<close>, which a construction changes even when
  it fails later.  The native function that registers imports and the check of the core package that a handler of
  epochs knows the flags are fields of \<open>hostLib\<close>.
\<close>

record enableEpochsHandler =
  handler_IsFlagDefined :: "string \<Rightarrow> bool"
  handler_IsFlagEnabled :: "string \<Rightarrow> bool"

record VMHostParameters =
  hp_VMType :: bytes
  hp_BlockGasLimit :: u64
  hp_GasSchedule :: GasScheduleMap
  hp_ProtocolBuiltinFunctions :: "string set"
  hp_ProtectedKeyPrefix :: bytes
  hp_WasmerSIGSEGVPassthrough :: bool
  hp_UseWarmInstance :: bool
  hp_EnableEpochsHandler :: "enableEpochsHandler option"

datatype lastError = NoLastError | UnreadableLastError | LastError string

record hostLib =
  CheckHandlerCompatibility :: "enableEpochsHandler \<Rightarrow> string list \<Rightarrow> err option"
  cWasmerCacheImports :: "Imports \<Rightarrow> lastError option"
  hl_Decode :: decoder

record wasmerGlobals =
  wg_imports :: "Imports option"
  wg_opcodeCosts :: "u32 list"
  wg_SIGSEGVPassthrough :: bool
  wg_sighandlers :: bool

record vmHost = schedule_state +
  host_env :: env
  scAPIMethods :: Imports

definition allFlags :: "string list" where
  "allFlags = [''SCDeployFlag'', ''BuiltInFunctionsFlag'', ''RepairCallbackFlag'', ''AheadOfTimeGasUsageFlag'']"

definition MaximumWasmerInstanceCount :: u64 where "MaximumWasmerInstanceCount = 10"

subsection \<open>The engine\<close>

definition ErrFailedCacheImports :: err where "ErrFailedCacheImports = ErrPlain ''could not cache imports''"

definition GetLastError :: "lastError \<Rightarrow> err + string" where
  "GetLastError l =
     (case l of NoLastError \<Rightarrow> Inr [] | UnreadableLastError \<Rightarrow> Inl (ErrPlain ''Cannot read last error'') | LastError message \<Rightarrow> Inr message)"

definition newWrappedError :: "lastError \<Rightarrow> err \<Rightarrow> err" where
  "newWrappedError l target = ErrWithSuffix target (case GetLastError l of Inl _ \<Rightarrow> ''unknown details'' | Inr lastError \<Rightarrow> lastError)"

definition SetImports :: "hostLib \<Rightarrow> Imports \<Rightarrow> wasmerGlobals \<Rightarrow> err option \<times> wasmerGlobals" where
  "SetImports lib imports1 g =
     (case cWasmerCacheImports lib imports1 of
        Some l \<Rightarrow> (Some (newWrappedError l ErrFailedCacheImports), g)
      | None \<Rightarrow> (None, g\<lparr>wg_imports := Some imports1\<rparr>))"

definition SetOpcodeCosts :: "u32 list \<Rightarrow> wasmerGlobals \<Rightarrow> wasmerGlobals" where
  "SetOpcodeCosts opcode_costs g = g\<lparr>wg_opcodeCosts := opcode_costs\<rparr>"

definition SetSIGSEGVPassthrough :: "wasmerGlobals \<Rightarrow> wasmerGlobals" where
  "SetSIGSEGVPassthrough g = g\<lparr>wg_SIGSEGVPassthrough := True\<rparr>"

definition ForceInstallSighandlers :: "wasmerGlobals \<Rightarrow> wasmerGlobals" where
  "ForceInstallSighandlers g = g\<lparr>wg_sighandlers := True\<rparr>"

subsection \<open>The contexts\<close>

definition NewBigIntContext :: bigIntContext where
  "NewBigIntContext = \<lparr>bi_values = [], bigInt_stateStack = []\<rparr>"

definition NewOutputContext :: outputContext where
  "NewOutputContext = output_InitState \<lparr>outputState = newVMOutput, output_stateStack = [], codeUpdates = {}\<rparr>"

definition NewMeteringContext :: "decoder \<Rightarrow> GasScheduleMap \<Rightarrow> u64 \<Rightarrow> err + meteringContext" where
  "NewMeteringContext Decode gasMap blockGasLimit1 =
     (case CreateGasConfig Decode gasMap of
        Inl err \<Rightarrow> Inl err
      | Inr cfg \<Rightarrow> Inr (metering_InitState \<lparr>metering_stateStack = [], gasSchedule = gasCostOf cfg, blockGasLimit = blockGasLimit1,
          initialGasProvided = 0, initialCost = 0, gasForExecution = 0, gasStates = [], totalUsedGas = 0\<rparr>))"

definition ErrEmptyProtectedKeyPrefix :: err where
  "ErrEmptyProtectedKeyPrefix = ErrPlain ''ProtectedKeyPrefix cannot be empty''"

definition NewStorageContext :: "bytes \<Rightarrow> err + storageContext" where
  "NewStorageContext keyPrefix =
     (if length keyPrefix = 0 then Inl ErrEmptyProtectedKeyPrefix
      else Inr \<lparr>st_address = [], storage_stateStack = [], ProtectedKeyPrefix = keyPrefix, vmStorageProtectionEnabled = True\<rparr>)"

definition NewRuntimeContext :: "string set \<Rightarrow> string set \<Rightarrow> bytes \<Rightarrow> bool \<Rightarrow> runtimeContext" where
  \<comment> \<open>with what \<open>InitState\<close> sets at the end of it\<close>
  "NewRuntimeContext scAPINames protocolBuiltinFunctions1 vmType1 useWarmInstance1 =
     \<lparr>inst = None, vmInput = emptyVMInput, scAddress = [], codeSize = 0, callFunction = [], vmType = vmType1, readOnly = False,
      verifyCode = False, runtime_stateStack = [], instanceStack = [], maxWasmerInstances = 0, asyncCallInfo = None,
      asyncContextInfo = emptyAsyncContextInfo, reserved = NewReservedFunctions scAPINames protocolBuiltinFunctions1,
      useWarmInstance = useWarmInstance1, warmInstanceAddress = None, warmInstance = None\<rparr>"

subsection \<open>The host\<close>

definition noInstance :: instance_t where
  \<comment> \<open>what is at a reference where no instance was made\<close>
  "noInstance = \<lparr>inst_code = [], inst_points = 0, inst_breakpoint = 0, inst_gasLimit = 0, inst_memory = None, inst_exports = [],
     inst_signatures = [], inst_imports = [], inst_cleaned = True\<rparr>"

definition hostEnvOf :: "env \<Rightarrow> VMHostParameters \<Rightarrow> enableEpochsHandler \<Rightarrow> env" where
  "hostEnvOf node hostParameters handler = node\<lparr>IsFlagEnabled := handler_IsFlagEnabled handler,
     protocolBuiltinFunctions := hp_ProtocolBuiltinFunctions hostParameters\<rparr>"

definition newContexts :: "hostLib \<Rightarrow> VMHostParameters \<Rightarrow> Imports \<Rightarrow> err + vm" where
  \<comment> \<open>the contexts of the host, in the order in which they are made\<close>
  "newContexts lib hostParameters imports1 =
     (let runtime = NewRuntimeContext (imports_Names imports1) (hp_ProtocolBuiltinFunctions hostParameters) (hp_VMType hostParameters)
        (hp_UseWarmInstance hostParameters)
      in case NewMeteringContext (hl_Decode lib) (hp_GasSchedule hostParameters) (hp_BlockGasLimit hostParameters) of
           Inl err \<Rightarrow> Inl err
         | Inr metering \<Rightarrow>
             (case NewStorageContext (hp_ProtectedKeyPrefix hostParameters) of
                Inl err \<Rightarrow> Inl err
              | Inr storage \<Rightarrow>
                  Inr \<lparr>bigIntCtx = NewBigIntContext, outputCtx = NewOutputContext, meteringCtx = metering, runtimeCtx = runtime,
                    storageCtx = storage, instances = (\<lambda>_. noInstance), nextInstance = 0, hookLog = []\<rparr>))"

definition NewVMHost :: "hostLib \<Rightarrow> env \<Rightarrow> VMHostParameters \<Rightarrow> wasmerGlobals \<Rightarrow> (err + vmHost) \<times> wasmerGlobals" where
  "NewVMHost lib node hostParameters g =
     (case hp_EnableEpochsHandler hostParameters of
        None \<Rightarrow> (Inl ErrNilEnableEpochsHandler, g)
      | Some handler \<Rightarrow>
          (case CheckHandlerCompatibility lib handler allFlags of
             Some err \<Rightarrow> (Inl err, g)
           | None \<Rightarrow>
               (case registerImports of
                  Inl err \<Rightarrow> (Inl err, g)
                | Inr imports1 \<Rightarrow>
                    (case SetImports lib imports1 g of
                       (Some err, g) \<Rightarrow> (Inl err, g)
                     | (None, g) \<Rightarrow>
                         (case newContexts lib hostParameters imports1 of
                            Inl err \<Rightarrow> (Inl err, g)
                          | Inr s \<Rightarrow>
                              (case CreateGasConfig (hl_Decode lib) (hp_GasSchedule hostParameters) of
                                 Inl err \<Rightarrow> (Inl err, g)
                               | Inr gasCostConfig \<Rightarrow>
                                   let s = SetMaxInstanceCount MaximumWasmerInstanceCount s;
                                       opcodeCosts = ToOpcodeCostsArray (cfg_WASMOpcodeCost gasCostConfig);
                                       g = SetOpcodeCosts opcodeCosts g;
                                       g = (if hp_WasmerSIGSEGVPassthrough hostParameters then SetSIGSEGVPassthrough g else g);
                                       g = ForceInstallSighandlers g
                                   in (Inr \<lparr>host_gasSchedule = hp_GasSchedule hostParameters, wasmer_opcodeCosts = wg_opcodeCosts g,
                                        sched_vm = initContexts s, host_env = hostEnvOf node hostParameters handler,
                                        scAPIMethods = imports1\<rparr>, g)))))))"


subsection \<open>New hosts\<close>

definition quiet :: "vm \<Rightarrow> bool" where
  \<comment> \<open>no execution has begun: the stacks are empty, there is no instance, and nothing has been asked of the node\<close>
  "quiet s \<longleftrightarrow> stacks s = ([], [], [], [], [], [], MaximumWasmerInstanceCount) \<and> inst (runtimeCtx s) = None \<and> warmInstance (runtimeCtx s) = None \<and>
     bi_values (bigIntCtx s) = [] \<and> outputState (outputCtx s) = newVMOutput \<and> hookLog s = []"

definition constructible :: "hostLib \<Rightarrow> VMHostParameters \<Rightarrow> bool" where
  \<comment> \<open>what the parameters and the engine have to satisfy\<close>
  "constructible lib hostParameters \<longleftrightarrow>
     (\<exists>handler. hp_EnableEpochsHandler hostParameters = Some handler \<and> CheckHandlerCompatibility lib handler allFlags = None) \<and>
     (\<exists>imports1. registerImports = Inr imports1 \<and> cWasmerCacheImports lib imports1 = None) \<and>
     (\<exists>cfg. CreateGasConfig (hl_Decode lib) (hp_GasSchedule hostParameters) = Inr cfg) \<and> hp_ProtectedKeyPrefix hostParameters \<noteq> []"


lemma newContexts_Inr:
  "newContexts lib params imports1 = Inr s \<longleftrightarrow>
    (\<exists>cfg. CreateGasConfig (hl_Decode lib) (hp_GasSchedule params) = Inr cfg \<and> hp_ProtectedKeyPrefix params \<noteq> [] \<and>
      s = \<lparr>bigIntCtx = NewBigIntContext, outputCtx = NewOutputContext,
        meteringCtx = metering_InitState \<lparr>metering_stateStack = [], gasSchedule = gasCostOf cfg, blockGasLimit = hp_BlockGasLimit params,
          initialGasProvided = 0, initialCost = 0, gasForExecution = 0, gasStates = [], totalUsedGas = 0\<rparr>,
        runtimeCtx = NewRuntimeContext (imports_Names imports1) (hp_ProtocolBuiltinFunctions params) (hp_VMType params) (hp_UseWarmInstance params),
        storageCtx = \<lparr>st_address = [], storage_stateStack = [], ProtectedKeyPrefix = hp_ProtectedKeyPrefix params, vmStorageProtectionEnabled = True\<rparr>,
        instances = (\<lambda>_. noInstance), nextInstance = 0, hookLog = []\<rparr>)"
  by (auto simp: newContexts_def NewMeteringContext_def NewStorageContext_def Let_def split: sum.split)

lemma NewVMHost_Inr:
  assumes "NewVMHost lib node params g = (Inr host, g')"
  obtains handler imports1 s cfg where "hp_EnableEpochsHandler params = Some handler" "CheckHandlerCompatibility lib handler allFlags = None"
    "registerImports = Inr imports1" "cWasmerCacheImports lib imports1 = None" "newContexts lib params imports1 = Inr s"
    "CreateGasConfig (hl_Decode lib) (hp_GasSchedule params) = Inr cfg"
    "host = \<lparr>host_gasSchedule = hp_GasSchedule params, wasmer_opcodeCosts = ToOpcodeCostsArray (cfg_WASMOpcodeCost cfg),
       sched_vm = initContexts (SetMaxInstanceCount MaximumWasmerInstanceCount s), host_env = hostEnvOf node params handler, scAPIMethods = imports1\<rparr>"
  using assms
  by (auto simp: NewVMHost_def SetImports_def Let_def ForceInstallSighandlers_def SetSIGSEGVPassthrough_def SetOpcodeCosts_def
      split: option.splits sum.splits prod.splits if_splits)

lemma NewVMHost_constructible:
  "(\<exists>host g'. NewVMHost lib node params g = (Inr host, g')) \<longleftrightarrow> constructible lib params"
proof
  assume "\<exists>host g'. NewVMHost lib node params g = (Inr host, g')"
  then show "constructible lib params" by (auto simp: constructible_def newContexts_Inr elim!: NewVMHost_Inr)
next
  assume "constructible lib params"
  then obtain handler imports1 cfg where c: "hp_EnableEpochsHandler params = Some handler" "CheckHandlerCompatibility lib handler allFlags = None"
    "registerImports = Inr imports1" "cWasmerCacheImports lib imports1 = None"
    "CreateGasConfig (hl_Decode lib) (hp_GasSchedule params) = Inr cfg" "hp_ProtectedKeyPrefix params \<noteq> []"
    by (auto simp: constructible_def)
  obtain s where s: "newContexts lib params imports1 = Inr s" using c(5,6) by (simp add: newContexts_Inr)
  show "\<exists>host g'. NewVMHost lib node params g = (Inr host, g')"
    by (simp only: NewVMHost_def c option.case sum.case) (simp add: SetImports_def c s Let_def)
qed

lemma NewVMHost_refused:
  "NewVMHost lib node params g = (Inl err, g') \<Longrightarrow> wg_opcodeCosts g' = wg_opcodeCosts g \<and> wg_SIGSEGVPassthrough g' = wg_SIGSEGVPassthrough g"
  by (auto simp: NewVMHost_def SetImports_def Let_def split: option.splits sum.splits prod.splits if_splits)

lemma quiet_new:
  assumes "newContexts lib params imports1 = Inr s"
  shows "quiet (initContexts (SetMaxInstanceCount MaximumWasmerInstanceCount s))"
proof -
  from assms obtain cfg where "s = \<lparr>bigIntCtx = NewBigIntContext, outputCtx = NewOutputContext,
        meteringCtx = metering_InitState \<lparr>metering_stateStack = [], gasSchedule = gasCostOf cfg, blockGasLimit = hp_BlockGasLimit params,
          initialGasProvided = 0, initialCost = 0, gasForExecution = 0, gasStates = [], totalUsedGas = 0\<rparr>,
        runtimeCtx = NewRuntimeContext (imports_Names imports1) (hp_ProtocolBuiltinFunctions params) (hp_VMType params) (hp_UseWarmInstance params),
        storageCtx = \<lparr>st_address = [], storage_stateStack = [], ProtectedKeyPrefix = hp_ProtectedKeyPrefix params, vmStorageProtectionEnabled = True\<rparr>,
        instances = (\<lambda>_. noInstance), nextInstance = 0, hookLog = []\<rparr>"
    by (auto simp: newContexts_Inr)
  then show ?thesis
    by (simp add: quiet_def stacks_def initContexts_def Let_def SetMaxInstanceCount_def NewBigIntContext_def NewOutputContext_def
        NewRuntimeContext_def metering_InitState_def output_InitState_def bigInt_InitState_def runtime_InitState_def
        bigInt_ClearStateStack_def output_ClearStateStack_def metering_ClearStateStack_def runtime_ClearStateStack_def storage_ClearStateStack_def)
qed

lemma fields_new:
  "reserved (runtimeCtx (initContexts s)) = reserved (runtimeCtx s)" "vmType (runtimeCtx (initContexts s)) = vmType (runtimeCtx s)"
  "useWarmInstance (runtimeCtx (initContexts s)) = useWarmInstance (runtimeCtx s)"
  "gasSchedule (meteringCtx (initContexts s)) = gasSchedule (meteringCtx s)" "blockGasLimit (meteringCtx (initContexts s)) = blockGasLimit (meteringCtx s)"
  "ProtectedKeyPrefix (storageCtx (initContexts s)) = ProtectedKeyPrefix (storageCtx s)"
  "vmStorageProtectionEnabled (storageCtx (initContexts s)) = vmStorageProtectionEnabled (storageCtx s)"
  by (simp_all add: initContexts_def Let_def runtime_InitState_def runtime_ClearStateStack_def metering_InitState_def metering_ClearStateStack_def
      storage_ClearStateStack_def)


definition positiveCosts :: "GasCost \<Rightarrow> bool" where
  \<comment> \<open>no operation is free: not a byte that is stored, copied or compiled, no step of an asynchronous call, and no function that can be imported\<close>
  "positiveCosts g \<longleftrightarrow>
     list_all (\<lambda>get. 0 < get (baseOperationCost g)) [StorePerByte, ReleasePerByte, DataCopyPerByte, PersistPerByte, CompilePerByte, AoTPreparePerByte, GetCodeCost] \<and>
     0 < AsyncCallStep g \<and> 0 < AsyncCallbackGasLock g \<and> 0 < CreateContract g \<and>
     list_all (\<lambda>name. 0 < apiCost g (''BaseOpsAPICost.'' @ name)) BaseOpsAPICost_fields \<and>
     list_all (\<lambda>name. 0 < apiCost g (''BigIntAPICost.'' @ name)) BigIntAPICost_fields \<and>
     list_all (\<lambda>name. 0 < apiCost g (''CryptoAPICost.'' @ name)) CryptoAPICost_fields"

lemma gasCostOf_positiveCosts: "CreateGasConfig Decode m = Inr cfg \<Longrightarrow> keepsFields Decode \<Longrightarrow> positiveCosts (gasCostOf cfg)"
  unfolding positiveCosts_def using base_positive gasCostOf_positive by (simp add: list_all_iff)

text \<open>C29: a host that \<open>NewVMHost\<close> makes is ready.  Nothing is on the stacks of its contexts, no instance runs, nothing has been asked of the
  node, and ten instances may nest.  The costs that it charges are those of the schedule, and all of them positive; the costs that it gives to
  the engine are those that the schedule has for the 448 opcodes, each at the index of its opcode, and positive too.
  A contract that exports the name of a function it could import, of a built-in function of the protocol or
  \<open>upgradeContract\<close> is refused.  The library that fills the structs of the schedule is taken to give them the fields they have (\<open>keepsFields\<close>).\<close>

theorem new_host_ready:
  assumes "NewVMHost lib node params g = (Inr host, g')" "keepsFields (hl_Decode lib)"
  shows "quiet (sched_vm host) \<and> wf_output (outputCtx (sched_vm host)) \<and>
    (\<exists>cfg. CreateGasConfig (hl_Decode lib) (hp_GasSchedule params) = Inr cfg \<and> gasSchedule (meteringCtx (sched_vm host)) = gasCostOf cfg \<and>
      wasmer_opcodeCosts host = map (\<lambda>opcode. ucast (cost (cfg_WASMOpcodeCost cfg) opcode)) opcodes) \<and>
    positiveCosts (gasSchedule (meteringCtx (sched_vm host))) \<and>
    length (wasmer_opcodeCosts host) = OPCODE_COUNT \<and> list_all (\<lambda>c. 0 < c) (wasmer_opcodeCosts host) \<and>
    (\<forall>f \<in> fst ` set (GetAPIMethods e re) \<union> hp_ProtocolBuiltinFunctions params \<union> {UpgradeFunctionName}. \<forall>i.
       f \<in> set (inst_exports i) \<longrightarrow> verifyFunctions (reserved (runtimeCtx (sched_vm host))) i \<noteq> None)"
proof -
  from assms(1) obtain handler imports1 s cfg where c: "registerImports = Inr imports1" "newContexts lib params imports1 = Inr s"
    "CreateGasConfig (hl_Decode lib) (hp_GasSchedule params) = Inr cfg"
    "host = \<lparr>host_gasSchedule = hp_GasSchedule params, wasmer_opcodeCosts = ToOpcodeCostsArray (cfg_WASMOpcodeCost cfg),
       sched_vm = initContexts (SetMaxInstanceCount MaximumWasmerInstanceCount s), host_env = hostEnvOf node params handler, scAPIMethods = imports1\<rparr>"
    by (rule NewVMHost_Inr)
  have q: "quiet (sched_vm host)" using quiet_new [OF c(2)] by (simp add: c(4))
  moreover have "wf_output (outputCtx (sched_vm host))"
    using q by (simp add: quiet_def stacks_def wf_output_def)
  moreover have "gasSchedule (meteringCtx (sched_vm host)) = gasCostOf cfg"
    using c(2,3) by (auto simp: c(4) fields_new newContexts_Inr SetMaxInstanceCount_def metering_InitState_def)
  moreover have "positiveCosts (gasCostOf cfg)" by (rule gasCostOf_positiveCosts [OF c(3) assms(2)])
  moreover have "wasmer_opcodeCosts host = map (\<lambda>opcode. ucast (cost (cfg_WASMOpcodeCost cfg) opcode)) opcodes"
    by (simp add: c(4) ToOpcodeCostsArray_eq)
  moreover have "list_all (\<lambda>c. 0 < c) (wasmer_opcodeCosts host)" "length (wasmer_opcodeCosts host) = OPCODE_COUNT"
    using opcode_positive [OF CreateGasConfig_sound(6) [OF c(3) assms(2)]] by (simp_all add: c(4) ToOpcodeCostsArray_eq list_all_iff length_opcodes)
  moreover have "reserved (runtimeCtx (sched_vm host)) = NewReservedFunctions (fst ` set (GetAPIMethods e re)) (hp_ProtocolBuiltinFunctions params)"
    using c(2) registered_names [OF c(1), of e re] by (auto simp: c(4) fields_new newContexts_Inr SetMaxInstanceCount_def NewRuntimeContext_def)
  ultimately show ?thesis
    using c(3) by (auto simp: verifyFunctions_def verifyFunctionList_iff valid_export_def NewReservedFunctions_def list_all_iff)
qed


definition sampleHostLib :: hostLib where
  "sampleHostLib = \<lparr>CheckHandlerCompatibility = (\<lambda>handler flags. if list_all (handler_IsFlagDefined handler) flags then None else Some (ErrExternal ''flags'')),
     cWasmerCacheImports = (\<lambda>_. None), hl_Decode = sampleDecoder\<rparr>"

definition sampleParameters :: VMHostParameters where
  "sampleParameters = \<lparr>hp_VMType = ''vm'', hp_BlockGasLimit = 10000, hp_GasSchedule = MakeGasMap 1 1, hp_ProtocolBuiltinFunctions = {''ClaimRewards''},
     hp_ProtectedKeyPrefix = ''NUMBAT'', hp_WasmerSIGSEGVPassthrough = False, hp_UseWarmInstance = False,
     hp_EnableEpochsHandler = Some \<lparr>handler_IsFlagDefined = (\<lambda>_. True), handler_IsFlagEnabled = (\<lambda>_. True)\<rparr>\<rparr>"

definition newGlobals :: wasmerGlobals where
  "newGlobals = \<lparr>wg_imports = None, wg_opcodeCosts = [], wg_SIGSEGVPassthrough = False, wg_sighandlers = False\<rparr>"

lemma sampleDecoder_laws: "keepsFields sampleDecoder" "decodesByName sampleDecoder"
  by (auto simp: keepsFields_def sampleDecoder_def Let_def comp_def) (fastforce simp: decodesByName_def sampleDecoder_def Let_def cost_def)

lemma sample_constructible: "constructible sampleHostLib sampleParameters"
  using MakeGasMap_accepted [OF sampleDecoder_laws(2), of 1 1] registerImports_eq
  by (auto simp: constructible_def sampleHostLib_def sampleParameters_def allFlags_def MaxUint32_def)

theorem new_host_ready_witness:
  "\<exists>host g'. NewVMHost sampleHostLib sampleEnv sampleParameters newGlobals = (Inr host, g') \<and> quiet (sched_vm host)"
proof -
  obtain host g' where h: "NewVMHost sampleHostLib sampleEnv sampleParameters newGlobals = (Inr host, g')"
    using NewVMHost_constructible [THEN iffD2, OF sample_constructible] by blast
  from new_host_ready [OF h] show ?thesis using h sampleDecoder_laws(1) by (auto simp: sampleHostLib_def)
qed

end
