(* ===== verification/ScenExecutor.thy ===== *)
theory ScenExecutor
  imports HostConstruction ScenRun
begin

text \<open>
  The executor in which scenarios run, as it is made (\<open>NewVMTestExecutor\<close> of \<open>src/scenarioexec/exec.go\<close>): a new world with the built-in
  functions of the protocol, and a new host over it.  The flags and the names of built-in functions that the host gets are returned as its
  environment.
\<close>

definition TestVMType :: bytes where "TestVMType = [CHR 0x00, CHR 0x00]"

definition testParameters :: "world \<Rightarrow> VMHostParameters" where
  "testParameters w = \<lparr>hp_VMType = TestVMType, hp_BlockGasLimit = 10000000, hp_GasSchedule = MakeGasMapForTests,
     hp_ProtocolBuiltinFunctions = (case world_GetBuiltinFunctionNames w of None \<Rightarrow> {} | Some names \<Rightarrow> names),
     hp_ProtectedKeyPrefix = ex_ProtectedKeyPrefix, hp_WasmerSIGSEGVPassthrough = False, hp_UseWarmInstance = False,
     hp_EnableEpochsHandler = Some \<lparr>handler_IsFlagDefined = (\<lambda>_. True),
       handler_IsFlagEnabled = (\<lambda>flag. flag = ''SCDeployFlag'' \<or> flag = ''AheadOfTimeGasUsageFlag'' \<or> flag = ''RepairCallbackFlag'' \<or>
         flag = ''BuiltInFunctionsFlag'')\<rparr>\<rparr>"

definition NewVMTestExecutor :: "hostLib \<Rightarrow> execLib \<Rightarrow> string \<Rightarrow> wasmerGlobals \<Rightarrow> (err + executor \<times> env) \<times> wasmerGlobals" where
  "NewVMTestExecutor hostLib1 lib scenarioexecPath g =
     (case InitBuiltinFunctions (ex_worldLib lib) (ex_ExprInterpreter lib) MakeGasMapForTests NewMockWorld of
        (Some err, _) \<Rightarrow> (Inl err, g)
      | (None, w) \<Rightarrow>
          (case NewVMHost hostLib1 (wl_env (ex_worldLib lib)) (testParameters w) g of
             (Inl err, g) \<Rightarrow> (Inl err, g)
           | (Inr vm1, g) \<Rightarrow>
               (Inr (\<lparr>ex_World = w, ex_vm = schedule_state.truncate vm1, ex_checkGas = True, ex_scenarioexecPath = scenarioexecPath,
                  ex_scenGasScheduleLoaded = False, ex_fileResolver = None\<rparr>, host_env vm1), g)))"

lemma new_executor:
  assumes "NewVMTestExecutor hostLib1 lib path1 g = (Inr (ex, e), g')"
  shows "quiet (sched_vm (ex_vm ex))" "AcctMap (ex_World ex) = []" "IsVMV2Enabled e" "IsVMV3Enabled e" "IsAheadOfTimeCompileEnabled e"
    "IsDCDTFunctionsEnabled e" "\<exists>container. BuiltinFuncs (ex_World ex) = Some container \<and> protocolBuiltinFunctions e = c_Keys container"
proof -
  from assms obtain w vm1 where w: "InitBuiltinFunctions (ex_worldLib lib) (ex_ExprInterpreter lib) MakeGasMapForTests NewMockWorld = (None, w)"
    and v: "NewVMHost hostLib1 (wl_env (ex_worldLib lib)) (testParameters w) g = (Inr vm1, g')"
    and ex: "ex = \<lparr>ex_World = w, ex_vm = schedule_state.truncate vm1, ex_checkGas = True, ex_scenarioexecPath = path1,
      ex_scenGasScheduleLoaded = False, ex_fileResolver = None\<rparr>" and e: "e = host_env vm1"
    by (auto simp: NewVMTestExecutor_def split: prod.splits option.splits sum.splits)
  from v obtain handler imports1 s and cfg :: GasConfig where h: "hp_EnableEpochsHandler (testParameters w) = Some handler" "newContexts hostLib1 (testParameters w) imports1 = Inr s"
    "vm1 = \<lparr>host_gasSchedule = hp_GasSchedule (testParameters w), wasmer_opcodeCosts = ToOpcodeCostsArray (cfg_WASMOpcodeCost cfg),
       sched_vm = initContexts (SetMaxInstanceCount MaximumWasmerInstanceCount s),
       host_env = hostEnvOf (wl_env (ex_worldLib lib)) (testParameters w) handler, scAPIMethods = imports1\<rparr>"
    by (rule NewVMHost_Inr)
  show "quiet (sched_vm (ex_vm ex))" using quiet_new [OF h(2)] by (simp add: ex h(3) schedule_state.truncate_def)
  from w show "AcctMap (ex_World ex) = []" "\<exists>container. BuiltinFuncs (ex_World ex) = Some container \<and> protocolBuiltinFunctions e = c_Keys container"
    by (auto simp: InitBuiltinFunctions_def NewMockWorld_def ex e h(3) hostEnvOf_def testParameters_def world_GetBuiltinFunctionNames_def split: sum.splits)
  show "IsVMV2Enabled e" "IsVMV3Enabled e" "IsAheadOfTimeCompileEnabled e" "IsDCDTFunctionsEnabled e"
    using h(1) by (auto simp: e h(3) hostEnvOf_def testParameters_def IsVMV2Enabled_def IsVMV3Enabled_def IsAheadOfTimeCompileEnabled_def IsDCDTFunctionsEnabled_def)
qed

end
