(* ===== verification/GoText.thy ===== *)
theory GoText
  imports ScenExpressions
begin

text \<open>
  Standard library used by the debugging server: \<open>path.Join\<close>, and what \<open>encoding/json\<close> does to a Go string.  A Go string is
  any sequence of bytes, a JSON string is text: a byte that is not part of the UTF-8 encoding of a character is written as the
  replacement character U+FFFD.
\<close>

subsection \<open>Paths\<close>

fun cleanSegs :: "bool \<Rightarrow> string list \<Rightarrow> string list \<Rightarrow> string list" where
  \<comment> \<open>the elements of a path without empty ones, dots and the pairs of an element and two dots; the second argument is reversed\<close>
  "cleanSegs rooted acc [] = rev acc"
| "cleanSegs rooted acc (seg # segs) =
     (if seg = [] \<or> seg = ''.'' then cleanSegs rooted acc segs
      else if seg = ''..'' then
        (case acc of
           [] \<Rightarrow> cleanSegs rooted (if rooted then [] else [''..'']) segs
         | a # as \<Rightarrow> cleanSegs rooted (if a = ''..'' then ''..'' # acc else as) segs)
      else cleanSegs rooted (seg # acc) segs)"

fun joinSlash :: "string list \<Rightarrow> string" where
  "joinSlash [] = []"
| "joinSlash [seg] = seg"
| "joinSlash (seg # segs) = seg @ ''/'' @ joinSlash segs"

definition path_Clean :: "string \<Rightarrow> string" where
  "path_Clean p =
     (case p of
        [] \<Rightarrow> ''.''
      | c # _ \<Rightarrow>
          let rooted = (c = CHR ''/''); body = joinSlash (cleanSegs rooted [] (splitOn (CHR ''/'') p))
          in if rooted then ''/'' @ body else if body = [] then ''.'' else body)"

definition path_JoinAll :: "string list \<Rightarrow> string" where
  "path_JoinAll elems =
     (let nonempty = filter (\<lambda>e. e \<noteq> []) elems in if nonempty = [] then [] else path_Clean (joinSlash nonempty))"

lemma splitOn_code [code]:
  "splitOn d [] = [[]]"
  "splitOn d (c # s) = (if c = d then [] # splitOn d s else (case splitOn d s of [] \<Rightarrow> [[c]] | x # xs \<Rightarrow> (c # x) # xs))"
  using splitOn_nonempty [of d s] by (auto split: list.split)

subsection \<open>UTF-8\<close>

definition leadingSize :: "nat \<Rightarrow> nat" where
  \<comment> \<open>the length of a sequence by its first byte; 0 when no sequence begins with it\<close>
  "leadingSize a = (if a < 0x80 then 1 else if 0xC2 \<le> a \<and> a \<le> 0xDF then 2 else if 0xE0 \<le> a \<and> a \<le> 0xEF then 3
     else if 0xF0 \<le> a \<and> a \<le> 0xF4 then 4 else 0)"

definition secondByte :: "nat \<Rightarrow> nat \<Rightarrow> bool" where
  \<comment> \<open>the bytes that may follow the first\<close>
  "secondByte a b \<longleftrightarrow> (if a = 0xE0 then 0xA0 else if a = 0xF0 then 0x90 else 0x80) \<le> b \<and> b \<le> (if a = 0xED then 0x9F else if a = 0xF4 then 0x8F else 0xBF)"

definition isTrailing :: "char \<Rightarrow> bool" where
  "isTrailing c \<longleftrightarrow> 0x80 \<le> (of_char c :: nat) \<and> (of_char c :: nat) \<le> 0xBF"

definition seqLen :: "char \<Rightarrow> bytes \<Rightarrow> nat" where
  \<comment> \<open>how many bytes encode the first character; 0 when they encode none\<close>
  "seqLen c s =
     (let a = of_char c; n = leadingSize a
      in if n \<le> 1 then n
         else if length s < n - 1 then 0
         else if secondByte a (of_char (s ! 0)) \<and> list_all isTrailing (take (n - 2) (drop 1 s)) then n
         else 0)"

definition RuneError :: bytes where
  "RuneError = [CHR 0xEF, CHR 0xBF, CHR 0xBD]"

fun jsonText :: "bytes \<Rightarrow> bytes" where
  \<comment> \<open>a string after it was encoded as JSON and decoded\<close>
  "jsonText [] = []"
| "jsonText (c # s) =
     (if seqLen c s = 0 then RuneError @ jsonText s
      else c # take (seqLen c s - 1) s @ jsonText (drop (seqLen c s - 1) s))"

fun validUTF8 :: "bytes \<Rightarrow> bool" where
  "validUTF8 [] = True"
| "validUTF8 (c # s) \<longleftrightarrow> seqLen c s \<noteq> 0 \<and> validUTF8 (drop (seqLen c s - 1) s)"

lemma jsonText_valid: "validUTF8 s \<Longrightarrow> jsonText s = s"
  by (induction s rule: jsonText.induct) auto

lemma seqLen_length: "seqLen c s \<noteq> 0 \<Longrightarrow> seqLen c s - 1 \<le> length s"
  by (auto simp: seqLen_def Let_def split: if_splits)

lemma seqLen_take:
  assumes "seqLen c s \<noteq> 0"
  shows "seqLen c (take (seqLen c s - 1) s @ t) = seqLen c s"
proof (cases "leadingSize (of_char c) \<le> 1")
  case False
  let ?n = "leadingSize (of_char c)"
  have n: "seqLen c s = ?n" "?n - 1 \<le> length s" "secondByte (of_char c) (of_char (s ! 0))" "list_all isTrailing (take (?n - 2) (drop 1 s))"
    using assms False by (auto simp: seqLen_def Let_def split: if_splits)
  have "(take (?n - 1) s @ t) ! 0 = s ! 0" using False n(2) by (simp add: nth_append)
  moreover have "take (?n - 2) (drop 1 (take (?n - 1) s @ t)) = take (?n - 2) (drop 1 s)"
    using False n(2) by (auto simp: drop_take min_def numeral_2_eq_2)
  ultimately show ?thesis using False n by (simp add: seqLen_def Let_def)
qed (simp add: seqLen_def)

lemma RuneError_valid: "validUTF8 (RuneError @ s) = validUTF8 s"
  by (simp add: RuneError_def seqLen_def leadingSize_def secondByte_def isTrailing_def)

lemma jsonText_is_valid: "validUTF8 (jsonText s)"
proof (induction s rule: jsonText.induct)
  case (2 c s)
  show ?case
  proof (cases "seqLen c s = 0")
    case False
    then show ?thesis using 2(2) [OF False] seqLen_take [OF False] seqLen_length [OF False] by simp
  qed (use 2(1) in \<open>simp add: RuneError_valid\<close>)
qed simp

lemma jsonText_stable: "jsonText (jsonText s) = jsonText s"
  by (rule jsonText_valid [OF jsonText_is_valid])

lemma ascii_valid: "list_all (\<lambda>c. (of_char c :: nat) < 128) s \<Longrightarrow> validUTF8 s"
  by (induction s) (auto simp: seqLen_def leadingSize_def)

subsection \<open>Maps\<close>

definition jsonMap :: "(string, 'v) gomap \<Rightarrow> (string, 'v) gomap" where
  \<comment> \<open>the entries are written sorted by their keys; of entries whose keys are written alike the last one is read\<close>
  "jsonMap m = fold (\<lambda>(k, v). go_set (jsonText k) v) (sort_key fst m) []"

lemma fold_set_keys: "fst ` set (fold (\<lambda>(k, v). go_set (f k) v) xs m) = fst ` set m \<union> f ` fst ` set xs"
  by (induction xs arbitrary: m) (auto simp: dom_update case_prod_beta)

lemma fold_set_get:
  assumes "\<forall>k \<in> fst ` set xs. f k = k" "distinct (map fst xs)"
  shows "go_get (fold (\<lambda>(k, v). go_set (f k) v) xs m) k = (case go_get xs k of None \<Rightarrow> go_get m k | Some v \<Rightarrow> Some v)"
  using assms
proof (induction xs arbitrary: m)
  case (Cons x xs)
  obtain a v where x: "x = (a, v)" by (metis prod.exhaust)
  have none: "go_get xs a = None" using Cons.prems by (simp add: x map_of_eq_None_iff)
  show ?case using Cons.prems by (simp add: x go_simps Cons.IH none split: option.split)
qed simp

lemma jsonMap_keys: "a \<in> fst ` set (jsonMap m) \<Longrightarrow> validUTF8 a"
  by (auto simp: jsonMap_def fold_set_keys image_image intro: jsonText_is_valid)

lemma jsonMap_get:
  assumes "wf_gomap m" "\<forall>k \<in> fst ` set m. validUTF8 k"
  shows "go_get (jsonMap m) k = go_get m k"
proof -
  let ?xs = "sort_key fst m"
  have d: "distinct (map fst ?xs)" using assms(1) by (simp add: wf_gomap_def distinct_map inj_on_def)
  have "go_get ?xs k = Some v \<longleftrightarrow> go_get m k = Some v" for v
    using map_of_eq_Some_iff [OF d] map_of_eq_Some_iff [OF assms(1) [unfolded wf_gomap_def]] by simp
  then have "go_get ?xs k = go_get m k" by (metis not_None_eq)
  then show ?thesis
    unfolding jsonMap_def using fold_set_get [of ?xs jsonText "[]" k] assms(2) d by (simp add: jsonText_valid split: option.split)
qed

end
