(* ===== verification/ServerRequests.thy ===== *)
theory ServerRequests
  imports GoText MockWorld
begin

text \<open>
  The requests to the debugging server (\<open>src/vmserver/messages*.go\<close>, \<open>common.go\<close>, \<open>errors.go\<close>), which arrive as text and are
  digested into values, and the command line (\<open>src/cmd/vmserver/cliArguments.go\<close>), which makes the same requests.  The texts of the
  errors of \<open>encoding/hex\<close>, of files and of JSON are left out.
\<close>

datatype serverError =
    RequestError string "serverError option"
  | HexError string
  | ErrInvalidArgumentEncoding
  | FileProblem string
  | JsonProblem string
  | HostProblem err

fun serverError_Unwrap :: "serverError \<Rightarrow> serverError option" where
  "serverError_Unwrap (RequestError message inner) = inner"
| "serverError_Unwrap _ = None"

definition NewRequestError :: "string \<Rightarrow> serverError" where
  "NewRequestError message = RequestError message None"

definition NewRequestErrorInner :: "serverError \<Rightarrow> serverError" where
  "NewRequestErrorInner err = RequestError [] (Some err)"

definition NewRequestErrorMessageInner :: "string \<Rightarrow> serverError option \<Rightarrow> serverError" where
  "NewRequestErrorMessageInner message err = RequestError message err"

subsection \<open>Values\<close>

definition server_fromHex :: "string \<Rightarrow> serverError + bytes" where
  "server_fromHex encoded = (case DecodeString encoded of None \<Rightarrow> Inl (HexError encoded) | Some b \<Rightarrow> Inr b)"

definition fromHexNoError :: "string \<Rightarrow> bytes" where
  "fromHexNoError encoded = (case DecodeString encoded of None \<Rightarrow> [] | Some b \<Rightarrow> b)"

definition toHex :: "bytes \<Rightarrow> string" where "toHex b = EncodeToString b"

fun decodeArguments :: "string list \<Rightarrow> serverError + bytes list" where
  "decodeArguments [] = Inr []"
| "decodeArguments (argument # arguments) =
     (case server_fromHex argument of
        Inl _ \<Rightarrow> Inl ErrInvalidArgumentEncoding
      | Inr decoded \<Rightarrow> (case decodeArguments arguments of Inl err \<Rightarrow> Inl err | Inr result1 \<Rightarrow> Inr (decoded # result1)))"

definition server_parseValue :: "string \<Rightarrow> serverError + int" where
  "server_parseValue text1 =
     (if length text1 > 0 then (case SetString text1 10 of None \<Rightarrow> Inl (NewRequestError ''invalid value'') | Some n \<Rightarrow> Inr n)
      else Inr 0)"

definition DefaultGasPrice :: u64 where "DefaultGasPrice = 200000000000"

subsection \<open>Requests\<close>

record RequestBase =
  rq_DatabasePath :: string
  rq_World :: string
  rq_Outcome :: string

record ContractRequestBase = RequestBase +
  rq_ImpersonatedHex :: string
  rq_Impersonated :: bytes
  rq_Value :: string
  rq_ValueAsBigInt :: bigint
  rq_GasPrice :: u64
  rq_GasLimit :: u64

record DeployRequest = ContractRequestBase +
  rq_CodeHex :: string
  rq_Code :: bytes
  rq_CodePath :: string
  rq_CodeMetadata :: string
  rq_CodeMetadataBytes :: bytes
  rq_ArgumentsHex :: "string list"
  rq_Arguments :: "bytes list"

record UpgradeRequest = DeployRequest +
  uq_ContractAddressHex :: string
  uq_ContractAddress :: bytes

record RunRequest = ContractRequestBase +
  rr_ContractAddressHex :: string
  rr_ContractAddress :: bytes
  rr_Function :: string
  rr_ArgumentsHex :: "string list"
  rr_Arguments :: "bytes list"

record CreateAccountRequest = RequestBase +
  cq_AddressHex :: string
  cq_Address :: bytes
  cq_Balance :: string
  cq_BalanceAsBigInt :: bigint
  cq_Nonce :: u64

definition base_digest :: "'a RequestBase_scheme \<Rightarrow> 'a RequestBase_scheme" where
  \<comment> \<open>it never fails\<close>
  "base_digest r =
     (let r = (if rq_DatabasePath r = [] then r\<lparr>rq_DatabasePath := ''./db''\<rparr> else r)
      in if rq_World r = [] then r\<lparr>rq_World := ''default''\<rparr> else r)"

definition contract_digest :: "'a ContractRequestBase_scheme \<Rightarrow> serverError + 'a ContractRequestBase_scheme" where
  "contract_digest r =
     (let r = base_digest r
      in if rq_ImpersonatedHex r = [] then Inl (NewRequestError ''empty impersonated address'')
         else
           (case server_fromHex (rq_ImpersonatedHex r) of
              Inl err \<Rightarrow> Inl (NewRequestErrorMessageInner ''invalid impersonated address'' (Some err))
            | Inr impersonated \<Rightarrow>
                let r = r\<lparr>rq_Impersonated := impersonated\<rparr>;
                    r = (if rq_GasPrice r = 0 then r\<lparr>rq_GasPrice := DefaultGasPrice\<rparr> else r)
                in if rq_GasLimit r = 0 then Inl (NewRequestError ''invalid gas limit'')
                   else
                     (case server_parseValue (rq_Value r) of
                        Inl err \<Rightarrow> Inl err
                      | Inr amount \<Rightarrow> Inr (r\<lparr>rq_ValueAsBigInt := Some amount\<rparr>))))"

definition digestCode :: "(string \<Rightarrow> string + bytes) \<Rightarrow> 'a DeployRequest_scheme \<Rightarrow> serverError + 'a DeployRequest_scheme" where
  \<comment> \<open>a file takes precedence over code in the request, which must be well formed all the same\<close>
  "digestCode readFile r =
     (case (if length (rq_CodeHex r) > 0 then map_sum id (\<lambda>code. r\<lparr>rq_Code := code\<rparr>) (server_fromHex (rq_CodeHex r)) else Inr r) of
        Inl err \<Rightarrow> Inl (NewRequestErrorMessageInner ''invalid contract code'' (Some err))
      | Inr r \<Rightarrow>
          (case (if length (rq_CodePath r) > 0 then map_sum FileProblem (\<lambda>code. r\<lparr>rq_Code := code\<rparr>) (readFile (rq_CodePath r)) else Inr r) of
             Inl err \<Rightarrow> Inl err
           | Inr r \<Rightarrow> if length (rq_Code r) = 0 then Inl (NewRequestError ''invalid contract code'') else Inr r))"

definition deploy_digest :: "worldLib \<Rightarrow> (string \<Rightarrow> string + bytes) \<Rightarrow> 'a DeployRequest_scheme \<Rightarrow> serverError + 'a DeployRequest_scheme" where
  "deploy_digest lib readFile r =
     (case contract_digest r of
        Inl err \<Rightarrow> Inl err
      | Inr r \<Rightarrow>
          (case digestCode readFile r of
             Inl err \<Rightarrow> Inl err
           | Inr r \<Rightarrow>
               let r = r\<lparr>rq_CodeMetadataBytes := metadata_ToBytes lib \<lparr>Payable = False, Upgradeable = True, Readable = False\<rparr>\<rparr>
               in (case (if length (rq_CodeMetadata r) > 0
                         then map_sum id (\<lambda>b. r\<lparr>rq_CodeMetadataBytes := b\<rparr>) (server_fromHex (rq_CodeMetadata r)) else Inr r) of
                     Inl err \<Rightarrow> Inl err
                   | Inr r \<Rightarrow>
                       (case decodeArguments (rq_ArgumentsHex r) of
                          Inl err \<Rightarrow> Inl err
                        | Inr arguments \<Rightarrow> Inr (r\<lparr>rq_Arguments := arguments\<rparr>)))))"

definition upgrade_digest :: "worldLib \<Rightarrow> (string \<Rightarrow> string + bytes) \<Rightarrow> UpgradeRequest \<Rightarrow> serverError + UpgradeRequest" where
  "upgrade_digest lib readFile r =
     (case deploy_digest lib readFile r of
        Inl err \<Rightarrow> Inl err
      | Inr r \<Rightarrow>
          (case server_fromHex (uq_ContractAddressHex r) of
             Inl err \<Rightarrow> Inl err
           | Inr address \<Rightarrow> Inr (r\<lparr>uq_ContractAddress := address\<rparr>)))"

definition run_digest :: "RunRequest \<Rightarrow> serverError + RunRequest" where
  "run_digest r =
     (case contract_digest r of
        Inl err \<Rightarrow> Inl err
      | Inr r \<Rightarrow>
          (case decodeArguments (rr_ArgumentsHex r) of
             Inl err \<Rightarrow> Inl err
           | Inr arguments \<Rightarrow>
               (case server_fromHex (rr_ContractAddressHex r) of
                  Inl err \<Rightarrow> Inl err
                | Inr address \<Rightarrow> Inr (r\<lparr>rr_Arguments := arguments, rr_ContractAddress := address\<rparr>))))"

definition account_digest :: "CreateAccountRequest \<Rightarrow> serverError + CreateAccountRequest" where
  "account_digest r =
     (let r = base_digest r
      in if length (cq_AddressHex r) = 0 then Inl (NewRequestErrorMessageInner ''empty account address'' None)
         else
           (case server_fromHex (cq_AddressHex r) of
              Inl err \<Rightarrow> Inl (NewRequestErrorMessageInner ''invalid account address'' (Some err))
            | Inr address \<Rightarrow>
                (case server_parseValue (cq_Balance r) of
                   Inl err \<Rightarrow> Inl err
                 | Inr balance \<Rightarrow> Inr (r\<lparr>cq_Address := address, cq_BalanceAsBigInt := Some balance\<rparr>))))"

subsection \<open>Inputs of the VM\<close>

definition requestInput :: "'a ContractRequestBase_scheme \<Rightarrow> bytes list \<Rightarrow> VMInput" where
  \<comment> \<open>the fields that the three functions set; the others keep their zero values\<close>
  "requestInput r arguments = \<lparr>CallerAddr = rq_Impersonated r, Arguments = arguments, CallValue = rq_ValueAsBigInt r, CallType = DirectCall,
     GasPrice = rq_GasPrice r, GasProvided = rq_GasLimit r, GasLocked = 0, OriginalTxHash = [], CurrentTxHash = [], PrevTxHash = [],
     DCDTTransfers = []\<rparr>"

definition prepareDeployInput :: "DeployRequest \<Rightarrow> ContractCreateInput" where
  "prepareDeployInput r = \<lparr>cri_VMInput = requestInput r (rq_Arguments r), cri_ContractCode = rq_Code r,
     cri_ContractCodeMetadata = rq_CodeMetadataBytes r\<rparr>"

definition prepareUpgradeInput :: "UpgradeRequest \<Rightarrow> ContractCallInput" where
  "prepareUpgradeInput r = \<lparr>cci_VMInput = requestInput r ([rq_Code r, rq_CodeMetadataBytes r] @ rq_Arguments r),
     RecipientAddr = uq_ContractAddress r, Function = UpgradeFunctionName, AllowInitFunction = False\<rparr>"

definition prepareCallInput :: "RunRequest \<Rightarrow> ContractCallInput" where
  "prepareCallInput r = \<lparr>cci_VMInput = requestInput r (rr_Arguments r), RecipientAddr = rr_ContractAddress r,
     Function = rr_Function r, AllowInitFunction = False\<rparr>"

subsection \<open>The command line\<close>

record cliArguments =
  cli_ServerAddress :: string
  cli_Database :: string
  cli_World :: string
  cli_Outcome :: string
  cli_Impersonated :: string
  cli_ContractAddress :: string
  cli_Action :: string
  cli_Function :: string
  cli_Arguments :: "string list"
  cli_Code :: string
  cli_CodePath :: string
  cli_CodeMetadata :: string
  cli_Value :: string
  cli_GasLimit :: u64
  cli_GasPrice :: u64
  cli_AccountAddress :: string
  cli_AccountBalance :: string
  cli_AccountNonce :: u64

definition emptyDeployRequest :: DeployRequest where
  "emptyDeployRequest = \<lparr>rq_DatabasePath = [], rq_World = [], rq_Outcome = [], rq_ImpersonatedHex = [], rq_Impersonated = [], rq_Value = [],
     rq_ValueAsBigInt = None, rq_GasPrice = 0, rq_GasLimit = 0, rq_CodeHex = [], rq_Code = [], rq_CodePath = [], rq_CodeMetadata = [],
     rq_CodeMetadataBytes = [], rq_ArgumentsHex = [], rq_Arguments = []\<rparr>"

definition emptyUpgradeRequest :: UpgradeRequest where
  "emptyUpgradeRequest = DeployRequest.extend emptyDeployRequest \<lparr>uq_ContractAddressHex = [], uq_ContractAddress = []\<rparr>"

definition emptyRunRequest :: RunRequest where
  "emptyRunRequest = \<lparr>rq_DatabasePath = [], rq_World = [], rq_Outcome = [], rq_ImpersonatedHex = [], rq_Impersonated = [], rq_Value = [],
     rq_ValueAsBigInt = None, rq_GasPrice = 0, rq_GasLimit = 0, rr_ContractAddressHex = [], rr_ContractAddress = [], rr_Function = [],
     rr_ArgumentsHex = [], rr_Arguments = []\<rparr>"

definition populateRequestBase :: "cliArguments \<Rightarrow> 'a RequestBase_scheme \<Rightarrow> 'a RequestBase_scheme" where
  "populateRequestBase args r = r\<lparr>rq_DatabasePath := cli_Database args, rq_World := cli_World args, rq_Outcome := cli_Outcome args\<rparr>"

definition populateContractRequestBase :: "cliArguments \<Rightarrow> 'a ContractRequestBase_scheme \<Rightarrow> 'a ContractRequestBase_scheme" where
  "populateContractRequestBase args r = (populateRequestBase args r)\<lparr>rq_ImpersonatedHex := cli_Impersonated args, rq_Value := cli_Value args,
     rq_GasLimit := cli_GasLimit args, rq_GasPrice := cli_GasPrice args\<rparr>"

definition populateDeployRequest :: "cliArguments \<Rightarrow> 'a DeployRequest_scheme \<Rightarrow> 'a DeployRequest_scheme" where
  "populateDeployRequest args r = (populateContractRequestBase args r)\<lparr>rq_CodeHex := cli_Code args, rq_CodePath := cli_CodePath args,
     rq_CodeMetadata := cli_CodeMetadata args, rq_ArgumentsHex := cli_Arguments args\<rparr>"

definition populateRunRequest :: "cliArguments \<Rightarrow> RunRequest \<Rightarrow> RunRequest" where
  "populateRunRequest args r = (populateContractRequestBase args r)\<lparr>rr_ContractAddressHex := cli_ContractAddress args,
     rr_Function := cli_Function args, rr_ArgumentsHex := cli_Arguments args\<rparr>"

definition toDeployRequest :: "cliArguments \<Rightarrow> DeployRequest" where
  "toDeployRequest args = populateDeployRequest args emptyDeployRequest"

definition toUpgradeRequest :: "cliArguments \<Rightarrow> UpgradeRequest" where
  "toUpgradeRequest args = (populateDeployRequest args emptyUpgradeRequest)\<lparr>uq_ContractAddressHex := cli_ContractAddress args\<rparr>"

definition toRunRequest :: "cliArguments \<Rightarrow> RunRequest" where
  "toRunRequest args = populateRunRequest args emptyRunRequest"

definition toQueryRequest :: "cliArguments \<Rightarrow> RunRequest" where
  "toQueryRequest args = populateRunRequest args emptyRunRequest"

definition toCreateAccountRequest :: "cliArguments \<Rightarrow> CreateAccountRequest" where
  "toCreateAccountRequest args = (populateRequestBase args \<lparr>rq_DatabasePath = [], rq_World = [], rq_Outcome = [], cq_AddressHex = [],
     cq_Address = [], cq_Balance = [], cq_BalanceAsBigInt = None, cq_Nonce = 0\<rparr>)\<lparr>cq_AddressHex := cli_AccountAddress args,
     cq_Balance := cli_AccountBalance args, cq_Nonce := cli_AccountNonce args\<rparr>"

end
