(* ===== verification/DebugServer.thy ===== *)
theory DebugServer
  imports ServerRequests HostConstruction ScenRun
begin

text \<open>
  The debugging server (\<open>src/vmserver\<close>): worlds kept as JSON files in a folder, on which contracts are deployed, upgraded, run and queried.  A
  request loads its world, works on it and stores it, so that the file is the state between requests.  The files are the record
  \<open>disk\<close>; what a file holds that the server has not written is read by the parameter \<open>json_Unmarshal_world\<close>.  A panic is \<open>None\<close>.
  Go maps that are nil, which can be read but not written, are kept apart (\<open>nils\<close>).
\<close>

subsection \<open>Worlds\<close>

record nils =
  nil_Accounts :: bool
  nil_Storages :: "address set"

record worldDataModel =
  wdm_ID :: string
  wdm_Accounts :: AccountMap
  wdm_nils :: nils

record debugWorld =
  dw_id :: string
  dw_blockchainHook :: world
  dw_vm :: vmHost
  dw_nils :: nils

record contractResponse =
  res_Error :: "err option"
  res_Input :: VMInput
  res_Output :: "VMOutput option"
  res_ReturnCodeString :: string

record deployResponse = contractResponse +
  res_ContractAddress :: bytes
  res_ContractAddressHex :: string

datatype outcomeFile = DeployOutcome deployResponse | ContractOutcome contractResponse | AccountOutcome wAccount

datatype fileContent = WorldFile worldDataModel | OutcomeFile outcomeFile | OtherFile bytes

record disk =
  files :: "(string, fileContent) gomap"
  globals :: wasmerGlobals

record serverLib =
  srv_exec :: execLib
  srv_host :: hostLib
  \<comment> \<open>the error of writing a file, and the world in a file that the server has not written\<close>
  os_WriteFile :: "string \<Rightarrow> string option"
  json_Unmarshal_world :: "bytes \<Rightarrow> string + worldDataModel"

definition newWorldDataModel :: "string \<Rightarrow> worldDataModel" where
  "newWorldDataModel worldID = \<lparr>wdm_ID = worldID, wdm_Accounts = [], wdm_nils = \<lparr>nil_Accounts = False, nil_Storages = {}\<rparr>\<rparr>"

definition getHostParameters :: VMHostParameters where
  "getHostParameters = \<lparr>hp_VMType = [CHR 0x05, CHR 0x00], hp_BlockGasLimit = 10000000, hp_GasSchedule = MakeGasMap 1 1,
     hp_ProtocolBuiltinFunctions = {}, hp_ProtectedKeyPrefix = ''NUMBAT'', hp_WasmerSIGSEGVPassthrough = False, hp_UseWarmInstance = False,
     hp_EnableEpochsHandler = Some \<lparr>handler_IsFlagDefined = (\<lambda>_. True),
       handler_IsFlagEnabled = (\<lambda>flag. flag = ''SCDeployFlag'' \<or> flag = ''AheadOfTimeGasUsageFlag'' \<or> flag = ''RepairCallbackFlag'' \<or>
         flag = ''BuiltInFunctionsFlag'')\<rparr>\<rparr>"

definition newWorld :: "serverLib \<Rightarrow> worldDataModel \<Rightarrow> wasmerGlobals \<Rightarrow> (serverError + debugWorld) \<times> wasmerGlobals" where
  "newWorld lib dataModel g =
     (let blockchainHook = NewMockWorld\<lparr>AcctMap := wdm_Accounts dataModel\<rparr>
      in case NewVMHost (srv_host lib) (wl_env (ex_worldLib (srv_exec lib))) getHostParameters g of
           (Inl err, g) \<Rightarrow> (Inl (HostProblem err), g)
         | (Inr vm1, g) \<Rightarrow> (Inr \<lparr>dw_id = wdm_ID dataModel, dw_blockchainHook = blockchainHook, dw_vm = vm1, dw_nils = wdm_nils dataModel\<rparr>, g))"

definition toDataModel :: "debugWorld \<Rightarrow> worldDataModel" where
  "toDataModel w = \<lparr>wdm_ID = dw_id w, wdm_Accounts = AcctMap (dw_blockchainHook w), wdm_nils = dw_nils w\<rparr>"

subsection \<open>Contracts in a world\<close>

definition debugEnv :: "serverLib \<Rightarrow> debugWorld \<Rightarrow> env" where
  "debugEnv lib w = envOf (host_env (dw_vm w)) (worldHook (ex_worldLib (srv_exec lib)) (dw_blockchainHook w))"

definition onDebugHost :: "serverLib \<Rightarrow> (callee \<Rightarrow> env \<Rightarrow> vm \<Rightarrow> (VMOutput \<times> vm) option) \<Rightarrow> debugWorld \<Rightarrow> (err + VMOutput) \<times> debugWorld" where
  \<comment> \<open>a call of the VM: the hook calls that change the world are played back; a panic is caught and becomes an error\<close>
  "onDebugHost lib call w =
     (let e = debugEnv lib w;
          s = (sched_vm (dw_vm w))\<lparr>hookLog := []\<rparr>;
          after = (\<lambda>s. w\<lparr>dw_vm := (dw_vm w)\<lparr>sched_vm := s\<rparr>, dw_blockchainHook := playEvents (hookLog s) (dw_blockchainHook w)\<rparr>)
      in case call (ex_callee (srv_exec lib) e) e s of
           Some (out, s) \<Rightarrow> (Inr out, after s)
         | None \<Rightarrow> (case ex_recovered (srv_exec lib) s of (err, s) \<Rightarrow> (Inl err, after s)))"

definition assignsNil :: "nils \<Rightarrow> VMOutput \<Rightarrow> bool" where
  \<comment> \<open>the update of the accounts would assign to a nil map: that of the accounts, or the storage of one of them\<close>
  "assignsNil n vmOutput \<longleftrightarrow> (nil_Accounts n \<and> OutputAccounts vmOutput \<noteq> []) \<or>
     list_ex (\<lambda>(_, modAcct). StorageUpdates modAcct \<noteq> [] \<and> Address modAcct \<in> nil_Storages n) (OutputAccounts vmOutput)"

definition applyOutput :: "serverLib \<Rightarrow> VMOutput \<Rightarrow> debugWorld \<Rightarrow> debugWorld option" where
  \<comment> \<open>\<open>UpdateAccounts(vmOutput.OutputAccounts, nil)\<close>\<close>
  "applyOutput lib vmOutput w =
     (if assignsNil (dw_nils w) vmOutput then None
      else map_option (\<lambda>(_, hook). w\<lparr>dw_blockchainHook := hook\<rparr>)
        (UpdateAccounts (ex_worldLib (srv_exec lib)) (OutputAccounts vmOutput) [] (dw_blockchainHook w)))"

definition createContractResponseBase :: "serverLib \<Rightarrow> err option \<Rightarrow> VMInput \<Rightarrow> VMOutput option \<Rightarrow> contractResponse" where
  "createContractResponseBase lib err input output1 = \<lparr>res_Error = err, res_Input = input, res_Output = output1,
     res_ReturnCodeString = (case output1 of None \<Rightarrow> [] | Some out \<Rightarrow> ReturnCode_String (wl_env (ex_worldLib (srv_exec lib))) (ReturnCode out))\<rparr>"

definition runAndUpdate :: "serverLib \<Rightarrow> VMInput \<Rightarrow> (callee \<Rightarrow> env \<Rightarrow> vm \<Rightarrow> (VMOutput \<times> vm) option) \<Rightarrow> debugWorld \<Rightarrow>
    (contractResponse \<times> debugWorld) option" where
  \<comment> \<open>what deploying, upgrading and running have in common\<close>
  "runAndUpdate lib input call w =
     (case onDebugHost lib call w of
        (Inl err, w) \<Rightarrow> Some (createContractResponseBase lib (Some err) input None, w)
      | (Inr vmOutput, w) \<Rightarrow> map_option (Pair (createContractResponseBase lib None input (Some vmOutput))) (applyOutput lib vmOutput w))"

definition deploySmartContract :: "serverLib \<Rightarrow> DeployRequest \<Rightarrow> debugWorld \<Rightarrow> (deployResponse \<times> debugWorld) option" where
  "deploySmartContract lib request w = do {
     let input = prepareDeployInput request;
     (response, w) \<leftarrow> runAndUpdate lib (cri_VMInput input) (\<lambda>k e. RunSmartContractCreate k e input) w;
     let address = LastCreatedContractAddress (dw_blockchainHook w);
     Some (contractResponse.extend response \<lparr>res_ContractAddress = address, res_ContractAddressHex = toHex address\<rparr>, w) }"

definition upgradeSmartContract :: "serverLib \<Rightarrow> UpgradeRequest \<Rightarrow> debugWorld \<Rightarrow> (contractResponse \<times> debugWorld) option" where
  "upgradeSmartContract lib request w =
     (let input = prepareUpgradeInput request in runAndUpdate lib (cci_VMInput input) (\<lambda>k e. RunSmartContractCall k e input) w)"

definition runSmartContract :: "serverLib \<Rightarrow> RunRequest \<Rightarrow> debugWorld \<Rightarrow> (contractResponse \<times> debugWorld) option" where
  "runSmartContract lib request w =
     (let input = prepareCallInput request in runAndUpdate lib (cci_VMInput input) (\<lambda>k e. RunSmartContractCall k e input) w)"

definition querySmartContract :: "serverLib \<Rightarrow> RunRequest \<Rightarrow> debugWorld \<Rightarrow> contractResponse \<times> debugWorld" where
  "querySmartContract lib request w =
     (let input = prepareCallInput request
      in case onDebugHost lib (\<lambda>k e. RunSmartContractCall k e input) w of
           (Inl err, w) \<Rightarrow> (createContractResponseBase lib (Some err) (cci_VMInput input) None, w)
         | (Inr vmOutput, w) \<Rightarrow> (createContractResponseBase lib None (cci_VMInput input) (Some vmOutput), w))"

definition createAccount :: "CreateAccountRequest \<Rightarrow> debugWorld \<Rightarrow> (wAccount \<times> debugWorld) option" where
  \<comment> \<open>the account has no storage map\<close>
  "createAccount request w =
     (let account = \<lparr>wa_Exists = False, wa_Address = cq_Address request, wa_Nonce = cq_Nonce request, wa_Balance = cq_BalanceAsBigInt request,
        wa_BalanceDelta = None, wa_Storage = [], wa_RootHash = [], wa_Code = [], wa_CodeHash = [], wa_CodeMetadata = [], wa_OwnerAddress = [],
        wa_AsyncCallData = [], wa_Username = [], wa_DeveloperReward = None, wa_ShardID = 0, wa_IsSmartContract = False\<rparr>;
          hook = dw_blockchainHook w
      in if nil_Accounts (dw_nils w) then None
         else Some (account, w\<lparr>dw_blockchainHook := hook\<lparr>AcctMap := PutAccount account (AcctMap hook)\<rparr>,
           dw_nils := (dw_nils w)\<lparr>nil_Storages := insert (wa_Address account) (nil_Storages (dw_nils w))\<rparr>\<rparr>))"

subsection \<open>The database\<close>

definition jsonAccount :: "wAccount \<Rightarrow> wAccount" where
  \<comment> \<open>an account written as JSON and read: its byte strings are in base 64, the keys of its storage are text\<close>
  "jsonAccount a = a\<lparr>wa_Storage := jsonMap (wa_Storage a), wa_AsyncCallData := jsonText (wa_AsyncCallData a)\<rparr>"

definition jsonWorld :: "worldDataModel \<Rightarrow> worldDataModel" where
  \<comment> \<open>of accounts whose addresses are written alike, the storage that is read is that of the last\<close>
  "jsonWorld m =
     (let lastKey = (\<lambda>k. fst (last (filter (\<lambda>(k', _). jsonText k' = k) (sort_key fst (wdm_Accounts m)))))
      in \<lparr>wdm_ID = jsonText (wdm_ID m), wdm_Accounts = map (\<lambda>(k, a). (k, jsonAccount a)) (jsonMap (wdm_Accounts m)),
          wdm_nils = (wdm_nils m)\<lparr>nil_Storages := {k \<in> fst ` set (jsonMap (wdm_Accounts m)). lastKey k \<in> nil_Storages (wdm_nils m)}\<rparr>\<rparr>)"

definition getWorldFile :: "string \<Rightarrow> string \<Rightarrow> string" where
  "getWorldFile rootPath worldID = path_JoinAll [rootPath, ''worlds'', worldID @ ''.json'']"

definition getOutcomeFile :: "string \<Rightarrow> string \<Rightarrow> string" where
  "getOutcomeFile rootPath uniqueID = path_JoinAll [rootPath, ''out'', uniqueID @ ''.json'']"

definition marshalDataModel :: "serverLib \<Rightarrow> string \<Rightarrow> fileContent \<Rightarrow> disk \<Rightarrow> serverError option \<times> disk" where
  "marshalDataModel lib filePath content d =
     (case os_WriteFile lib filePath of
        Some err \<Rightarrow> (Some (FileProblem err), d)
      | None \<Rightarrow> (None, d\<lparr>files := go_set filePath content (files d)\<rparr>))"

definition readWorldDataModel :: "serverLib \<Rightarrow> fileContent \<Rightarrow> serverError + worldDataModel" where
  \<comment> \<open>an outcome has none of the fields of a world\<close>
  "readWorldDataModel lib content =
     (case content of
        WorldFile m \<Rightarrow> Inr m
      | OutcomeFile _ \<Rightarrow> Inr \<lparr>wdm_ID = [], wdm_Accounts = [], wdm_nils = \<lparr>nil_Accounts = True, nil_Storages = {}\<rparr>\<rparr>
      | OtherFile text1 \<Rightarrow> map_sum JsonProblem id (json_Unmarshal_world lib text1))"

definition loadWorld :: "serverLib \<Rightarrow> string \<Rightarrow> string \<Rightarrow> disk \<Rightarrow> (serverError + debugWorld) \<times> disk" where
  "loadWorld lib rootPath worldID d =
     (case (case go_get (files d) (getWorldFile rootPath worldID) of
              None \<Rightarrow> Inr (newWorldDataModel worldID) | Some content \<Rightarrow> readWorldDataModel lib content) of
        Inl err \<Rightarrow> (Inl err, d)
      | Inr dataModel \<Rightarrow> (case newWorld lib dataModel (globals d) of (r, g) \<Rightarrow> (r, d\<lparr>globals := g\<rparr>)))"

definition storeWorld :: "serverLib \<Rightarrow> string \<Rightarrow> debugWorld \<Rightarrow> disk \<Rightarrow> serverError option \<times> disk" where
  "storeWorld lib rootPath w d =
     marshalDataModel lib (getWorldFile rootPath (dw_id w)) (WorldFile (jsonWorld (toDataModel w))) d"

definition storeOutcome :: "serverLib \<Rightarrow> string \<Rightarrow> string \<Rightarrow> outcomeFile \<Rightarrow> disk \<Rightarrow> serverError option \<times> disk" where
  "storeOutcome lib rootPath key outcome1 d =
     (if length key = 0 then (None, d) else marshalDataModel lib (getOutcomeFile rootPath key) (OutcomeFile outcome1) d)"

subsection \<open>The facade\<close>

definition storeBoth :: "serverLib \<Rightarrow> 'a RequestBase_scheme \<Rightarrow> outcomeFile \<Rightarrow> debugWorld \<Rightarrow> disk \<Rightarrow> (serverError + outcomeFile) \<times> disk" where
  \<comment> \<open>the end of every request but the query\<close>
  "storeBoth lib request outcome1 w d =
     (case storeWorld lib (rq_DatabasePath request) w d of
        (Some err, d) \<Rightarrow> (Inl err, d)
      | (None, d) \<Rightarrow>
          (case storeOutcome lib (rq_DatabasePath request) (rq_Outcome request) outcome1 d of
             (Some err, d) \<Rightarrow> (Inl err, d)
           | (None, d) \<Rightarrow> (Inr outcome1, d)))"

definition inWorld :: "serverLib \<Rightarrow> serverError + 'a RequestBase_scheme \<Rightarrow>
    ('a RequestBase_scheme \<Rightarrow> debugWorld \<Rightarrow> disk \<Rightarrow> ((serverError + outcomeFile) \<times> disk) option) \<Rightarrow> disk \<Rightarrow> ((serverError + outcomeFile) \<times> disk) option" where
  \<comment> \<open>the beginning of every request: digest it, load its world\<close>
  "inWorld lib digested act d =
     (case digested of
        Inl err \<Rightarrow> Some (Inl err, d)
      | Inr request \<Rightarrow>
          (case loadWorld lib (rq_DatabasePath request) (rq_World request) d of
             (Inl err, d) \<Rightarrow> Some (Inl err, d)
           | (Inr w, d) \<Rightarrow> act request w d))"

definition facade_DeploySmartContract :: "serverLib \<Rightarrow> DeployRequest \<Rightarrow> disk \<Rightarrow> ((serverError + outcomeFile) \<times> disk) option" where
  "facade_DeploySmartContract lib request = inWorld lib (deploy_digest (ex_worldLib (srv_exec lib)) (os_ReadFile (srv_exec lib)) request) (\<lambda>request w d.
     map_option (\<lambda>(response, w). storeBoth lib request (DeployOutcome response) w d) (deploySmartContract lib request w))"

definition facade_UpgradeSmartContract :: "serverLib \<Rightarrow> UpgradeRequest \<Rightarrow> disk \<Rightarrow> ((serverError + outcomeFile) \<times> disk) option" where
  "facade_UpgradeSmartContract lib request = inWorld lib (upgrade_digest (ex_worldLib (srv_exec lib)) (os_ReadFile (srv_exec lib)) request) (\<lambda>request w d.
     map_option (\<lambda>(response, w). storeBoth lib request (ContractOutcome response) w d) (upgradeSmartContract lib request w))"

definition facade_RunSmartContract :: "serverLib \<Rightarrow> RunRequest \<Rightarrow> disk \<Rightarrow> ((serverError + outcomeFile) \<times> disk) option" where
  "facade_RunSmartContract lib request = inWorld lib (run_digest request) (\<lambda>request w d.
     map_option (\<lambda>(response, w). storeBoth lib request (ContractOutcome response) w d) (runSmartContract lib request w))"

definition facade_QuerySmartContract :: "serverLib \<Rightarrow> RunRequest \<Rightarrow> disk \<Rightarrow> ((serverError + outcomeFile) \<times> disk) option" where
  "facade_QuerySmartContract lib request = inWorld lib (run_digest request) (\<lambda>request w d.
     case querySmartContract lib request w of
       (response, _) \<Rightarrow>
         Some (case storeOutcome lib (rq_DatabasePath request) (rq_Outcome request) (ContractOutcome response) d of
             (Some err, d) \<Rightarrow> (Inl err, d)
           | (None, d) \<Rightarrow> (Inr (ContractOutcome response), d)))"

definition facade_CreateAccount :: "serverLib \<Rightarrow> CreateAccountRequest \<Rightarrow> disk \<Rightarrow> ((serverError + outcomeFile) \<times> disk) option" where
  "facade_CreateAccount lib request = inWorld lib (account_digest request) (\<lambda>request w d.
     map_option (\<lambda>(account, w). storeBoth lib request (AccountOutcome account) w d) (createAccount request w))"

subsection \<open>The server\<close>

record httpResponse =
  http_Status :: nat
  http_error :: "serverError option"
  http_errorScope :: "string option"
  http_data :: "outcomeFile option"

definition returnBadRequest :: "string \<Rightarrow> serverError \<Rightarrow> httpResponse" where
  "returnBadRequest errScope err = \<lparr>http_Status = 400, http_error = Some err, http_errorScope = Some errScope, http_data = None\<rparr>"

definition returnOkResponse :: "outcomeFile \<Rightarrow> httpResponse" where
  "returnOkResponse response = \<lparr>http_Status = 200, http_error = None, http_errorScope = None, http_data = Some response\<rparr>"

definition handle :: "string \<Rightarrow> string \<Rightarrow> ('r \<Rightarrow> disk \<Rightarrow> ((serverError + outcomeFile) \<times> disk) option) \<Rightarrow> serverError + 'r \<Rightarrow> disk \<Rightarrow>
    (httpResponse \<times> disk) option" where
  \<comment> \<open>the request is what the web framework made of the body, or its error\<close>
  "handle bindScope errScope serve bound d =
     (case bound of
        Inl err \<Rightarrow> Some (returnBadRequest bindScope err, d)
      | Inr request \<Rightarrow>
          map_option (\<lambda>(r, d). (case r of Inl err \<Rightarrow> returnBadRequest errScope err | Inr response \<Rightarrow> returnOkResponse response, d)) (serve request d))"

definition handleCreateAccount :: "serverLib \<Rightarrow> serverError + CreateAccountRequest \<Rightarrow> disk \<Rightarrow> (httpResponse \<times> disk) option" where
  "handleCreateAccount lib = handle ''handleCreateAccount.ShouldBindJSON'' ''handleCreateAccount.CreateAccount'' (facade_CreateAccount lib)"
definition handleDeploy :: "serverLib \<Rightarrow> serverError + DeployRequest \<Rightarrow> disk \<Rightarrow> (httpResponse \<times> disk) option" where
  "handleDeploy lib = handle ''handleDeploy.ShouldBindJSON'' ''handleDeploy.DeploySmartContract'' (facade_DeploySmartContract lib)"
definition handleUpgrade :: "serverLib \<Rightarrow> serverError + UpgradeRequest \<Rightarrow> disk \<Rightarrow> (httpResponse \<times> disk) option" where
  "handleUpgrade lib = handle ''handleUpgrade.ShouldBindJSON'' ''handleUpgrade.UpgradeSmartContract'' (facade_UpgradeSmartContract lib)"
definition handleRun :: "serverLib \<Rightarrow> serverError + RunRequest \<Rightarrow> disk \<Rightarrow> (httpResponse \<times> disk) option" where
  "handleRun lib = handle ''handleRun.ShouldBindJSON'' ''handleRun.UpgradeSmartContract'' (facade_RunSmartContract lib)"
definition handleQuery :: "serverLib \<Rightarrow> serverError + RunRequest \<Rightarrow> disk \<Rightarrow> (httpResponse \<times> disk) option" where
  "handleQuery lib = handle ''handleQuery.ShouldBindJSON'' ''handleQuery.UpgradeSmartContract'' (facade_QuerySmartContract lib)"

end
