(* ===== verification/ServerProperties.thy ===== *)
theory ServerProperties
  imports DebugServer ScenSample
begin

text \<open>
  What the debugging server keeps of the worlds it stores: the invariant of its files, what survives a request, and
  what does not.
\<close>

subsection \<open>Stored worlds\<close>

definition wellStored :: "worldDataModel \<Rightarrow> bool" where
  \<comment> \<open>accounts under distinct addresses that are text\<close>
  "wellStored m \<longleftrightarrow> wf_gomap (wdm_Accounts m) \<and> (\<forall>a \<in> fst ` set (wdm_Accounts m). validUTF8 a)"

definition worldFile_ok :: "string \<Rightarrow> string \<Rightarrow> disk \<Rightarrow> bool" where
  \<comment> \<open>the world has no file yet, or one with well stored accounts that has a name of this world: one that leads to the same file\<close>
  "worldFile_ok root worldID d \<longleftrightarrow>
     (case go_get (files d) (getWorldFile root worldID) of
        None \<Rightarrow> True
      | Some (WorldFile m) \<Rightarrow> wellStored m \<and> validUTF8 (wdm_ID m) \<and> getWorldFile root (wdm_ID m) = getWorldFile root worldID
      | Some _ \<Rightarrow> False)"

definition accountsIn :: "string \<Rightarrow> string \<Rightarrow> disk \<Rightarrow> address set" where
  \<comment> \<open>the addresses of the accounts in the file of a world\<close>
  "accountsIn root worldID d =
     (case go_get (files d) (getWorldFile root worldID) of Some (WorldFile m) \<Rightarrow> fst ` set (wdm_Accounts m) | _ \<Rightarrow> {})"

lemma wf_fold_set: "wf_gomap m \<Longrightarrow> wf_gomap (fold (\<lambda>(k, v). go_set (f k) v) xs m)"
  by (induction xs arbitrary: m) (auto simp: case_prod_beta)

lemma map_snd_keys: "fst ` set (map (\<lambda>(k, a). (k, f a)) m) = fst ` set m"
  by (force simp: case_prod_beta)

lemma wf_map_snd: "wf_gomap (map (\<lambda>(k, a). (k, f a)) m) \<longleftrightarrow> wf_gomap m"
  by (simp add: wf_gomap_def comp_def case_prod_beta)

lemma jsonWorld_wellStored: "wellStored (jsonWorld m)"
proof -
  have "wf_gomap (jsonMap (wdm_Accounts m))" unfolding jsonMap_def by (rule wf_fold_set) simp
  then show ?thesis
    using jsonMap_keys [of _ "wdm_Accounts m"] unfolding wellStored_def jsonWorld_def Let_def worldDataModel.simps map_snd_keys wf_map_snd by blast
qed

lemma jsonWorld_accounts:
  assumes "wellStored m"
  shows "go_get (wdm_Accounts (jsonWorld m)) a = map_option jsonAccount (go_get (wdm_Accounts m) a)"
proof -
  have "go_get (map (\<lambda>(k, a). (k, jsonAccount a)) (jsonMap (wdm_Accounts m))) a = map_option jsonAccount (go_get (jsonMap (wdm_Accounts m)) a)"
    using go_get_map_snd [of "\<lambda>_. jsonAccount"] by (simp add: case_prod_beta')
  then show ?thesis using assms jsonMap_get [of "wdm_Accounts m" a] by (simp add: wellStored_def jsonWorld_def Let_def)
qed

lemma jsonWorld_keys: "fst ` set (wdm_Accounts (jsonWorld m)) = jsonText ` fst ` set (wdm_Accounts m)"
  unfolding jsonWorld_def Let_def worldDataModel.simps map_snd_keys jsonMap_def fold_set_keys by simp

lemma jsonAccount_storage:
  assumes "wf_gomap (wa_Storage a)" "\<forall>k \<in> fst ` set (wa_Storage a). validUTF8 k"
  shows "StorageValue (jsonAccount a) k = StorageValue a k"
  using jsonMap_get [OF assms] by (simp add: StorageValue_def jsonAccount_def)

subsection \<open>Requests and files\<close>

lemma marshal_files: "marshalDataModel lib p content d = (r, d') \<Longrightarrow> go_get (files d') q \<noteq> go_get (files d) q \<Longrightarrow> q = p \<and> r = None \<and> go_get (files d') q = Some content"
  by (auto simp: marshalDataModel_def go_simps split: option.splits if_splits)

lemma marshal_done: "marshalDataModel lib p content d = (None, d') \<Longrightarrow> files d' = go_set p content (files d)"
  by (auto simp: marshalDataModel_def split: option.splits)

lemma loadWorld_files: "loadWorld lib root worldID d = (r, d') \<Longrightarrow> files d' = files d"
  by (auto simp: loadWorld_def split: sum.splits prod.splits option.splits)

lemma storeOutcome_files:
  "storeOutcome lib root key out d = (r, d') \<Longrightarrow> go_get (files d') q \<noteq> go_get (files d) q \<Longrightarrow>
    key \<noteq> [] \<and> q = getOutcomeFile root key \<and> go_get (files d') q = Some (OutcomeFile out)"
  by (auto simp: storeOutcome_def split: if_splits dest: marshal_files)


subsection \<open>Loading\<close>

lemma NewVMHost_result: "fst (NewVMHost lib node params g) = fst (NewVMHost lib node params g')"
  unfolding NewVMHost_def registerImports_eq sum.case
  by (auto simp: SetImports_def Let_def SetOpcodeCosts_def SetSIGSEGVPassthrough_def ForceInstallSighandlers_def
      split: option.split sum.split)

lemma newWorld_result: "fst (newWorld lib m g) = fst (newWorld lib m g')"
  using NewVMHost_result [of "srv_host lib" "wl_env (ex_worldLib (srv_exec lib))" getHostParameters g g']
  by (auto simp: newWorld_def Let_def split: sum.splits prod.splits)

lemma newWorld_fields:
  "newWorld lib m g = (Inr w, g') \<Longrightarrow> dw_id w = wdm_ID m \<and> AcctMap (dw_blockchainHook w) = wdm_Accounts m \<and> dw_nils w = wdm_nils m"
  by (auto simp: newWorld_def Let_def split: sum.splits prod.splits)

lemma loadWorld_result:
  assumes "go_get (files d) (getWorldFile root worldID) = go_get (files d') (getWorldFile root worldID)"
  shows "fst (loadWorld lib root worldID d) = fst (loadWorld lib root worldID d')"
  using newWorld_result [of lib _ "globals d" "globals d'"] assms
  by (auto simp: loadWorld_def split: sum.split prod.split) (metis fst_conv)+

lemma loadWorld_stored:
  assumes "loadWorld lib root worldID d = (Inr w, d')" "go_get (files d) (getWorldFile root worldID) = Some (WorldFile m)"
  shows "dw_id w = wdm_ID m" "AcctMap (dw_blockchainHook w) = wdm_Accounts m" "dw_nils w = wdm_nils m"
  using assms by (auto simp: loadWorld_def readWorldDataModel_def split: prod.splits dest: newWorld_fields)

lemma contract_digest_base: "contract_digest r = Inr r' \<Longrightarrow> rq_DatabasePath r' = rq_DatabasePath (base_digest r) \<and> rq_World r' = rq_World (base_digest r) \<and> rq_Outcome r' = rq_Outcome r"
  by (auto simp: contract_digest_def base_digest_def Let_def split: sum.splits if_splits)

lemma run_digest_base: "run_digest r = Inr r' \<Longrightarrow> rq_DatabasePath r' = rq_DatabasePath (base_digest r) \<and> rq_World r' = rq_World (base_digest r) \<and> rq_Outcome r' = rq_Outcome r"
  by (auto simp: run_digest_def split: sum.splits dest: contract_digest_base)

lemma account_digest_base:
  "account_digest r = Inr r' \<Longrightarrow> rq_DatabasePath r' = rq_DatabasePath (base_digest r) \<and> rq_World r' = rq_World (base_digest r) \<and>
    rq_Outcome r' = rq_Outcome r \<and> DecodeString (cq_AddressHex r) = Some (cq_Address r')"
  by (auto simp: account_digest_def base_digest_def server_fromHex_def Let_def split: sum.splits if_splits option.splits)





lemma loadWorld_ok:
  assumes "loadWorld lib root worldID d = (Inr w, d1)" "worldFile_ok root worldID d"
  shows "getWorldFile root (dw_id w) = getWorldFile root worldID" "fst ` set (AcctMap (dw_blockchainHook w)) = accountsIn root worldID d"
    "wellStored (toDataModel w)" "BuiltinFuncs (dw_blockchainHook w) = None" "validUTF8 worldID \<Longrightarrow> validUTF8 (dw_id w)"
proof -
  have "BuiltinFuncs (dw_blockchainHook w) = None" if "newWorld lib m g = (Inr w, g')" for m g g'
    using that by (auto simp: newWorld_def NewMockWorld_def Let_def split: sum.splits prod.splits)
  then show "BuiltinFuncs (dw_blockchainHook w) = None" using assms(1) by (auto simp: loadWorld_def split: sum.splits prod.splits)
  have "getWorldFile root (dw_id w) = getWorldFile root worldID \<and> fst ` set (AcctMap (dw_blockchainHook w)) = accountsIn root worldID d \<and>
    wellStored (toDataModel w) \<and> (validUTF8 worldID \<longrightarrow> validUTF8 (dw_id w))"
  proof (cases "go_get (files d) (getWorldFile root worldID)")
    case None
    with assms(1) show ?thesis
      by (auto simp: loadWorld_def newWorldDataModel_def wellStored_def toDataModel_def accountsIn_def split: prod.splits dest!: newWorld_fields)
  next
    case (Some content)
    with assms(2) obtain m where m: "content = WorldFile m" "wellStored m" "validUTF8 (wdm_ID m)" "getWorldFile root (wdm_ID m) = getWorldFile root worldID"
      by (cases content) (auto simp: worldFile_ok_def)
    from loadWorld_stored [OF assms(1) Some [unfolded m(1)]] m Some show ?thesis by (simp add: wellStored_def toDataModel_def accountsIn_def)
  qed
  then show "getWorldFile root (dw_id w) = getWorldFile root worldID" "fst ` set (AcctMap (dw_blockchainHook w)) = accountsIn root worldID d"
    "wellStored (toDataModel w)" "validUTF8 worldID \<Longrightarrow> validUTF8 (dw_id w)" by blast+
qed

subsection \<open>Requests keep the accounts\<close>





















subsection \<open>A sample server\<close>

definition sampleServerLib :: serverLib where
  "sampleServerLib = \<lparr>srv_exec = sampleExecLib, srv_host = sampleHostLib, os_WriteFile = (\<lambda>_. None),
     json_Unmarshal_world = (\<lambda>_. Inl ''no world'')\<rparr>"

definition emptyDisk :: disk where "emptyDisk = \<lparr>files = [], globals = newGlobals\<rparr>"

definition sampleAccountRequest :: "string \<Rightarrow> CreateAccountRequest" where
  "sampleAccountRequest hex = \<lparr>rq_DatabasePath = [], rq_World = [], rq_Outcome = [], cq_AddressHex = hex, cq_Address = [], cq_Balance = ''42'',
     cq_BalanceAsBigInt = None, cq_Nonce = 7\<rparr>"

definition sampleQuery :: RunRequest where
  "sampleQuery = emptyRunRequest\<lparr>rq_ImpersonatedHex := ''61'', rq_GasLimit := 1000, rq_Outcome := ''answer'', rr_ContractAddressHex := ''62'', rr_Function := ''get''\<rparr>"

lemma debug_constructible: "constructible sampleHostLib getHostParameters"
  using MakeGasMap_accepted [OF sampleDecoder_laws(2), of 1 1] registerImports_eq
  by (auto simp: constructible_def sampleHostLib_def getHostParameters_def MaxUint32_def list_all_iff)

lemma sample_writes: "os_WriteFile sampleServerLib p = None"
  by (simp add: sampleServerLib_def)

lemma sample_newWorld: "\<exists>w g'. newWorld sampleServerLib m g = (Inr w, g')"
proof -
  obtain host g' where "NewVMHost sampleHostLib (wl_env (ex_worldLib sampleExecLib)) getHostParameters g = (Inr host, g')"
    using NewVMHost_constructible [THEN iffD2, OF debug_constructible] by blast
  then show ?thesis by (simp add: newWorld_def sampleServerLib_def Let_def)
qed

lemma sample_load:
  assumes "go_get (files d) (getWorldFile root worldID) = None \<or> (\<exists>m. go_get (files d) (getWorldFile root worldID) = Some (WorldFile m))"
  shows "\<exists>w d'. loadWorld sampleServerLib root worldID d = (Inr w, d')"
  using assms sample_newWorld [of _ "globals d"] by (auto simp: loadWorld_def readWorldDataModel_def split: prod.split) (metis Pair_inject)+

subsection \<open>Queries\<close>

text \<open>C33: a query changes nothing but the file in which its outcome is kept, if it has one; and when that is not the file of the world that was asked,
  asking again gives the same answer.  (It can be: the outcome \<open>../worlds/default\<close> is kept in the file of the world \<open>default\<close>, which is then
  lost.)\<close>

theorem queries_repeat:
  assumes "facade_QuerySmartContract lib request d = Some (r, d')"
    "rq_Outcome request = [] \<or> getOutcomeFile (rq_DatabasePath (base_digest request)) (rq_Outcome request) \<noteq>
       getWorldFile (rq_DatabasePath (base_digest request)) (rq_World (base_digest request))"
  shows "(\<forall>p. rq_Outcome request = [] \<or> p \<noteq> getOutcomeFile (rq_DatabasePath (base_digest request)) (rq_Outcome request) \<longrightarrow>
      go_get (files d') p = go_get (files d) p) \<and> (\<exists>d''. facade_QuerySmartContract lib request d' = Some (r, d''))"
proof (cases "run_digest request")
  case (Inl err)
  with assms(1) show ?thesis by (auto simp: facade_QuerySmartContract_def inWorld_def)
next
  case (Inr rq)
  let ?root = "rq_DatabasePath (base_digest request)" and ?id = "rq_World (base_digest request)" and ?key = "rq_Outcome request"
  note b = run_digest_base [OF Inr]
  obtain l d1 where l: "loadWorld lib ?root ?id d = (l, d1)" by (metis prod.exhaust)
  have kept: "go_get (files d') p = go_get (files d) p" if "?key = [] \<or> p \<noteq> getOutcomeFile ?root ?key" for p
  proof (rule ccontr)
    assume "go_get (files d') p \<noteq> go_get (files d) p"
    with assms(1) Inr b l loadWorld_files [OF l] that show False
      by (auto simp: facade_QuerySmartContract_def inWorld_def split: sum.splits prod.splits option.splits dest!: storeOutcome_files)
  qed
  obtain l' d1' where l': "loadWorld lib ?root ?id d' = (l', d1')" by (metis prod.exhaust)
  have "l' = l" using loadWorld_result [of d "?root" "?id" d' lib] kept [of "getWorldFile ?root ?id"] assms(2) l l' by force
  have out: "fst (storeOutcome lib ?root ?key out x) = fst (storeOutcome lib ?root ?key out y)" for out x y
    by (simp add: storeOutcome_def marshalDataModel_def split: option.split)
  have "\<exists>d''. facade_QuerySmartContract lib request d' = Some (r, d'')"
    using assms(1) Inr b l l' \<open>l' = l\<close> out [of _ d1 d1']
    by (auto simp: facade_QuerySmartContract_def inWorld_def split: sum.splits prod.splits option.splits) (metis fst_conv option.distinct(1) option.inject)+
  with kept show ?thesis by blast
qed


subsection \<open>What survives being stored\<close>

lemma stored_loaded:
  assumes "storeWorld lib root w d = (None, d')" "loadWorld lib root (dw_id w) d' = (Inr w', d'')"
  shows "AcctMap (dw_blockchainHook w') = wdm_Accounts (jsonWorld (toDataModel w))" "dw_nils w' = wdm_nils (jsonWorld (toDataModel w))"
proof -
  have "go_get (files d') (getWorldFile root (dw_id w)) = Some (WorldFile (jsonWorld (toDataModel w)))"
    using marshal_done [OF assms(1) [unfolded storeWorld_def]] by (simp add: go_simps)
  from loadWorld_stored [OF assms(2) this]
  show "AcctMap (dw_blockchainHook w') = wdm_Accounts (jsonWorld (toDataModel w))" "dw_nils w' = wdm_nils (jsonWorld (toDataModel w))" by blast+
qed

lemma jsonWorld_text: "go_get (wdm_Accounts (jsonWorld m)) a = Some acct \<Longrightarrow> validUTF8 a"
  using jsonWorld_wellStored [of m] by (auto simp: wellStored_def dest!: map_of_SomeD intro: imageI)

definition textual :: "wAccount \<Rightarrow> bool" where
  \<comment> \<open>the strings of an account are text\<close>
  "textual a \<longleftrightarrow> wf_gomap (wa_Storage a) \<and> (\<forall>k \<in> fst ` set (wa_Storage a). validUTF8 k) \<and> validUTF8 (wa_AsyncCallData a)"

definition sameContent :: "wAccount \<Rightarrow> wAccount \<Rightarrow> bool" where
  "sameContent a b \<longleftrightarrow> a\<lparr>wa_Storage := []\<rparr> = b\<lparr>wa_Storage := []\<rparr> \<and> (\<forall>k. StorageValue a k = StorageValue b k)"

lemma jsonAccount_same: "textual a \<Longrightarrow> sameContent (jsonAccount a) a"
  using jsonAccount_storage [of a] by (auto simp: textual_def sameContent_def jsonAccount_def jsonText_valid)

text \<open>C31: a world that is stored and loaded again keeps its accounts, with all they have, when their addresses, the keys of their storage and their
  call data are text.  An account whose address is not text is not found again, whatever it has: addresses are the keys of a JSON
  object.\<close>

theorem stored_world_survives:
  assumes "storeWorld lib root w d = (None, d')" "loadWorld lib root (dw_id w) d' = (Inr w', d'')"
  shows "(\<forall>a. \<not> validUTF8 a \<longrightarrow> go_get (AcctMap (dw_blockchainHook w')) a = None) \<and>
    (wellStored (toDataModel w) \<longrightarrow> (\<forall>a. (go_get (AcctMap (dw_blockchainHook w')) a = None \<longleftrightarrow> go_get (AcctMap (dw_blockchainHook w)) a = None) \<and>
      (\<forall>acct. go_get (AcctMap (dw_blockchainHook w)) a = Some acct \<and> textual acct \<longrightarrow>
        (\<exists>acct'. go_get (AcctMap (dw_blockchainHook w')) a = Some acct' \<and> sameContent acct' acct))))"
proof -
  note l = stored_loaded(1) [OF assms]
  have "go_get (AcctMap (dw_blockchainHook w')) a = None" if "\<not> validUTF8 a" for a
    using that jsonWorld_text by (cases "go_get (AcctMap (dw_blockchainHook w')) a") (auto simp: l)
  moreover have "go_get (AcctMap (dw_blockchainHook w')) a = map_option jsonAccount (go_get (AcctMap (dw_blockchainHook w)) a)"
    if "wellStored (toDataModel w)" for a
    using jsonWorld_accounts [OF that] by (simp add: l) (simp add: toDataModel_def)
  ultimately show ?thesis by (auto intro: jsonAccount_same)
qed

text \<open>C30: an account created over the server is found by the next request, with its nonce and balance, when its address is text, and the accounts
  that the world had are still there; when its address is not text the request succeeds all the same, but no account is found under it.  This is
  for a world without a file or with one that the server has written (\<open>worldFile_ok\<close>), and a request whose outcome is not kept in the file of the world, which
  would overwrite it.\<close>

theorem created_account_found:
  assumes "facade_CreateAccount lib request d = Some (Inr out, d')" "DecodeString (cq_AddressHex request) = Some a"
    "worldFile_ok root worldID d"
    "root = rq_DatabasePath (base_digest request)" "worldID = rq_World (base_digest request)"
    "rq_Outcome request = [] \<or> getOutcomeFile root (rq_Outcome request) \<noteq> getWorldFile root worldID"
    "loadWorld lib root worldID d' = (Inr w, d'')" "loadWorld lib root worldID d = (Inr v, d0)"
  shows "if validUTF8 a
    then (\<exists>acct. go_get (AcctMap (dw_blockchainHook w)) a = Some acct \<and> wa_Nonce acct = cq_Nonce request \<and>
        Inr (the (wa_Balance acct)) = server_parseValue (cq_Balance request)) \<and>
      (\<forall>b. b \<noteq> a \<longrightarrow> go_get (AcctMap (dw_blockchainHook w)) b = map_option jsonAccount (go_get (AcctMap (dw_blockchainHook v)) b))
    else go_get (AcctMap (dw_blockchainHook w)) a = None"
proof -
  from assms(1) obtain rq where rq: "account_digest request = Inr rq" by (auto simp: facade_CreateAccount_def inWorld_def split: sum.splits)
  note b = account_digest_base [OF rq]
  have a: "cq_Address rq = a" using b assms(2) by simp
  have nb: "cq_Nonce rq = cq_Nonce request" "\<exists>n. cq_BalanceAsBigInt rq = Some n \<and> server_parseValue (cq_Balance request) = Inr n"
    using rq by (auto simp: account_digest_def base_digest_def Let_def split: sum.splits if_splits)
  from assms(1) rq b assms(4,5,8) obtain acct v1 where c: "createAccount rq v = Some (acct, v1)" "storeBoth lib rq (AccountOutcome acct) v1 d0 = (Inr out, d')"
    by (auto simp: facade_CreateAccount_def inWorld_def)
  then obtain d1 where s: "storeWorld lib root v1 d0 = (None, d1)" "storeOutcome lib root (rq_Outcome request) (AccountOutcome acct) d1 = (None, d')"
    using b assms(4) by (auto simp: storeBoth_def split: prod.splits option.splits)
  note v = loadWorld_ok [OF assms(8,3)]
  have v1: "getWorldFile root (dw_id v1) = getWorldFile root worldID" "AcctMap (dw_blockchainHook v1) = go_set a acct (AcctMap (dw_blockchainHook v))" "wa_Nonce acct = cq_Nonce request"
    "wa_Balance acct = cq_BalanceAsBigInt rq"
    using c(1) v(1) a nb by (auto simp: createAccount_def PutAccount_def Let_def split: if_splits)
  have "go_get (files d') (getWorldFile root worldID) = go_get (files d1) (getWorldFile root worldID)"
    using storeOutcome_files [OF s(2), of "getWorldFile root worldID"] assms(6) by metis
  then have "go_get (files d') (getWorldFile root worldID) = Some (WorldFile (jsonWorld (toDataModel v1)))"
    using marshal_done [OF s(1) [unfolded storeWorld_def]] v1(1) by (simp add: go_simps)
  from loadWorld_stored(2) [OF assms(7) this] have w: "AcctMap (dw_blockchainHook w) = wdm_Accounts (jsonWorld (toDataModel v1))" .
  show ?thesis
  proof (cases "validUTF8 a")
    case True
    then have "wellStored (toDataModel v1)" using v(3) by (simp add: wellStored_def toDataModel_def v1(2) dom_update)
    from jsonWorld_accounts [OF this] have get: "go_get (AcctMap (dw_blockchainHook w)) x =
        map_option jsonAccount (go_get (go_set a acct (AcctMap (dw_blockchainHook v))) x)" for x
      by (simp add: w) (simp add: toDataModel_def v1(2))
    show ?thesis using True nb by (auto simp: get go_simps v1 jsonAccount_def)
  next
    case False
    with jsonWorld_text [of "toDataModel v1" a] show ?thesis by (cases "go_get (AcctMap (dw_blockchainHook w)) a") (auto simp: w)
  qed
qed


subsection \<open>Witnesses\<close>

lemma empty_ok: "worldFile_ok root worldID emptyDisk"
  by (simp add: worldFile_ok_def emptyDisk_def)

lemma sample_load_empty: "\<exists>w d'. loadWorld sampleServerLib root worldID emptyDisk = (Inr w, d')"
  by (rule sample_load) (simp add: emptyDisk_def)

lemma sample_create_in:
  assumes "loadWorld sampleServerLib ''./db'' ''default'' d = (Inr w, d1)" "\<not> nil_Accounts (dw_nils w)" "DecodeString hex = Some a" "hex \<noteq> []"
  obtains out d' m where "facade_CreateAccount sampleServerLib (sampleAccountRequest hex) d = Some (Inr out, d')"
    "go_get (files d') (getWorldFile ''./db'' (dw_id w)) = Some (WorldFile m)" "\<not> nil_Accounts (wdm_nils m)"
    "fst ` set (wdm_Accounts m) = jsonText ` insert a (fst ` set (AcctMap (dw_blockchainHook w)))" "wdm_ID m = jsonText (dw_id w)"
proof -
  have "server_parseValue ''42'' = Inr 42" by code_simp
  with assms(3,4) have "\<exists>rq. account_digest (sampleAccountRequest hex) = Inr rq"
    by (simp add: account_digest_def base_digest_def sampleAccountRequest_def server_fromHex_def Let_def)
  then obtain rq where rq: "account_digest (sampleAccountRequest hex) = Inr rq" by blast
  from account_digest_base [OF rq] assms(3) have b: "rq_DatabasePath rq = ''./db''" "rq_World rq = ''default''" "rq_Outcome rq = []" "cq_Address rq = a"
    by (simp_all add: base_digest_def sampleAccountRequest_def)
  obtain acct w' where c: "createAccount rq w = Some (acct, w')" using assms(2) by (simp add: createAccount_def Let_def)
  then have w': "dw_id w' = dw_id w" "\<not> nil_Accounts (dw_nils w')" "AcctMap (dw_blockchainHook w') = go_set a acct (AcctMap (dw_blockchainHook w))"
    using assms(2) b(4) by (auto simp: createAccount_def PutAccount_def Let_def)
  obtain d' where d': "storeWorld sampleServerLib ''./db'' w' d1 = (None, d')" by (simp add: storeWorld_def marshalDataModel_def sample_writes)
  have "facade_CreateAccount sampleServerLib (sampleAccountRequest hex) d = Some (Inr (AccountOutcome acct), d')"
    using assms(1) rq b c d' by (simp add: facade_CreateAccount_def inWorld_def storeBoth_def storeOutcome_def)
  moreover have "go_get (files d') (getWorldFile ''./db'' (dw_id w)) = Some (WorldFile (jsonWorld (toDataModel w')))"
    using marshal_done [OF d' [unfolded storeWorld_def]] w'(1) by (simp add: go_simps)
  moreover have "fst ` set (wdm_Accounts (jsonWorld (toDataModel w'))) = jsonText ` insert a (fst ` set (AcctMap (dw_blockchainHook w)))"
    unfolding jsonWorld_keys by (simp add: toDataModel_def w'(3) dom_update)
  moreover have "\<not> nil_Accounts (wdm_nils (jsonWorld (toDataModel w')))" "wdm_ID (jsonWorld (toDataModel w')) = jsonText (dw_id w)"
    using w'(1,2) by (simp_all add: jsonWorld_def toDataModel_def Let_def)
  ultimately show ?thesis using that by blast
qed

lemma sample_world:
  obtains w d1 where "loadWorld sampleServerLib ''./db'' ''default'' emptyDisk = (Inr w, d1)" "\<not> nil_Accounts (dw_nils w)" "dw_id w = ''default''"
    "AcctMap (dw_blockchainHook w) = []"
proof -
  obtain w d1 where w: "loadWorld sampleServerLib ''./db'' ''default'' emptyDisk = (Inr w, d1)" using sample_load_empty by blast
  then have "\<not> nil_Accounts (dw_nils w)" "dw_id w = ''default''" "AcctMap (dw_blockchainHook w) = []"
    by (auto simp: loadWorld_def emptyDisk_def newWorldDataModel_def split: prod.splits dest!: newWorld_fields)
  with w that show ?thesis by blast
qed


theorem queries_repeat_witness:
  "\<exists>out d' d''. facade_QuerySmartContract sampleServerLib sampleQuery emptyDisk = Some (Inr out, d') \<and>
    facade_QuerySmartContract sampleServerLib sampleQuery d' = Some (Inr out, d'')"
proof -
  obtain w d1 where w: "loadWorld sampleServerLib ''./db'' ''default'' emptyDisk = (Inr w, d1)"
    using sample_load_empty by blast
  have "\<exists>rq. run_digest sampleQuery = Inr rq"
    by (simp add: run_digest_def contract_digest_def base_digest_def sampleQuery_def emptyRunRequest_def server_fromHex_def server_parseValue_def fromHexChar_def Let_def)
  then obtain rq where rq: "run_digest sampleQuery = Inr rq" by blast
  have b: "rq_DatabasePath (base_digest sampleQuery) = ''./db''" "rq_World (base_digest sampleQuery) = ''default''" "rq_Outcome sampleQuery = ''answer''"
    by (simp_all add: base_digest_def sampleQuery_def emptyRunRequest_def)
  obtain response w1 where r: "querySmartContract sampleServerLib rq w = (response, w1)" by (metis prod.exhaust)
  obtain d' where q: "facade_QuerySmartContract sampleServerLib sampleQuery emptyDisk = Some (Inr (ContractOutcome response), d')"
    using w rq run_digest_base [OF rq] b r by (simp add: facade_QuerySmartContract_def inWorld_def storeOutcome_def marshalDataModel_def sample_writes)
  have "getOutcomeFile ''./db'' ''answer'' \<noteq> getWorldFile ''./db'' ''default''" by code_simp
  then have "\<exists>d''. facade_QuerySmartContract sampleServerLib sampleQuery d' = Some (Inr (ContractOutcome response), d'')"
    using queries_repeat [OF q, unfolded b] by blast
  with q show ?thesis by blast
qed

theorem stored_world_survives_witness:
  "\<exists>w w' d' d'' acct. storeWorld sampleServerLib ''db'' w emptyDisk = (None, d') \<and> loadWorld sampleServerLib ''db'' (dw_id w) d' = (Inr w', d'') \<and>
    go_get (AcctMap (dw_blockchainHook w')) ''alice'' = Some acct \<and> wa_Balance acct = Some 5000 \<and> StorageValue acct ''counter'' = ''1''"
proof -
  let ?m = "(newWorldDataModel ''test'')\<lparr>wdm_Accounts := AcctMap sampleWorld\<rparr>"
  obtain w g where w: "newWorld sampleServerLib ?m newGlobals = (Inr w, g)" using sample_newWorld by blast
  note f = newWorld_fields [OF w]
  obtain d' where d': "storeWorld sampleServerLib ''db'' w emptyDisk = (None, d')"
    by (simp add: storeWorld_def marshalDataModel_def sampleServerLib_def)
  then obtain w' d'' where w': "loadWorld sampleServerLib ''db'' (dw_id w) d' = (Inr w', d'')"
    using sample_load [of d' "''db''" "dw_id w"] marshal_done [OF d' [unfolded storeWorld_def]] by (auto simp: go_simps)
  have "wellStored (toDataModel w)"
    by (simp add: wellStored_def toDataModel_def f newWorldDataModel_def sampleWorld_def wf_gomap_def ascii_valid del: validUTF8.simps)
  moreover have "go_get (AcctMap (dw_blockchainHook w)) ''alice'' = Some sampleUser" by (simp add: f newWorldDataModel_def sampleWorld_def)
  moreover have "textual sampleUser" by (simp add: textual_def sampleUser_def emptyAccount_def wf_gomap_def ascii_valid del: validUTF8.simps)
  ultimately obtain acct where "go_get (AcctMap (dw_blockchainHook w')) ''alice'' = Some acct" "sameContent acct sampleUser"
    using stored_world_survives [OF d' w'] by blast
  moreover from this(2) have "wa_Balance acct = Some 5000" "StorageValue acct ''counter'' = ''1''"
    by (auto simp: sameContent_def sampleUser_def StorageValue_def emptyAccount_def dest: arg_cong [where f = wa_Balance])
  ultimately show ?thesis using d' w' by blast
qed

lemma sample_created:
  assumes "DecodeString hex = Some a" "hex \<noteq> []"
  obtains out d' w d'' v d0 where "facade_CreateAccount sampleServerLib (sampleAccountRequest hex) emptyDisk = Some (Inr out, d')"
    "loadWorld sampleServerLib ''./db'' ''default'' d' = (Inr w, d'')" "loadWorld sampleServerLib ''./db'' ''default'' emptyDisk = (Inr v, d0)"
proof -
  obtain v d1 where v: "loadWorld sampleServerLib ''./db'' ''default'' emptyDisk = (Inr v, d1)" "\<not> nil_Accounts (dw_nils v)" "dw_id v = ''default''"
    by (rule sample_world)
  obtain out d' m where c: "facade_CreateAccount sampleServerLib (sampleAccountRequest hex) emptyDisk = Some (Inr out, d')"
    "go_get (files d') (getWorldFile ''./db'' (dw_id v)) = Some (WorldFile m)"
    by (rule sample_create_in [OF v(1,2) assms])
  moreover obtain w d'' where "loadWorld sampleServerLib ''./db'' ''default'' d' = (Inr w, d'')" using sample_load c(2) v(3) by metis
  ultimately show ?thesis using that v(1) by blast
qed

lemma sample_base: "rq_DatabasePath (base_digest (sampleAccountRequest hex)) = ''./db''" "rq_World (base_digest (sampleAccountRequest hex)) = ''default''"
  "rq_Outcome (sampleAccountRequest hex) = []" "cq_AddressHex (sampleAccountRequest hex) = hex" "cq_Nonce (sampleAccountRequest hex) = 7"
  "cq_Balance (sampleAccountRequest hex) = ''42''"
  by (simp_all add: base_digest_def sampleAccountRequest_def)

theorem created_account_found_witness:
  "\<exists>out d' w d'' acct out2 d2 w2 d2'. facade_CreateAccount sampleServerLib (sampleAccountRequest ''61'') emptyDisk = Some (Inr out, d') \<and>
    loadWorld sampleServerLib ''./db'' ''default'' d' = (Inr w, d'') \<and> go_get (AcctMap (dw_blockchainHook w)) ''a'' = Some acct \<and> wa_Nonce acct = 7 \<and>
    facade_CreateAccount sampleServerLib (sampleAccountRequest ''ff'') emptyDisk = Some (Inr out2, d2) \<and>
    loadWorld sampleServerLib ''./db'' ''default'' d2 = (Inr w2, d2') \<and> go_get (AcctMap (dw_blockchainHook w2)) [CHR 0xFF] = None"
proof -
  have dec: "DecodeString ''61'' = Some ''a''" "DecodeString ''ff'' = Some [CHR 0xFF]" by code_simp+
  have valid: "validUTF8 ''a''" "\<not> validUTF8 [CHR 0xFF]" by code_simp+
  obtain out d' w d'' v d0 where c: "facade_CreateAccount sampleServerLib (sampleAccountRequest ''61'') emptyDisk = Some (Inr out, d')"
    "loadWorld sampleServerLib ''./db'' ''default'' d' = (Inr w, d'')" "loadWorld sampleServerLib ''./db'' ''default'' emptyDisk = (Inr v, d0)"
    by (rule sample_created [OF dec(1)]) simp_all
  obtain out2 d2 w2 d2' where c2: "facade_CreateAccount sampleServerLib (sampleAccountRequest ''ff'') emptyDisk = Some (Inr out2, d2)"
    "loadWorld sampleServerLib ''./db'' ''default'' d2 = (Inr w2, d2')"
    by (rule sample_created [OF dec(2)]) simp_all
  note found = created_account_found [OF _ _ empty_ok _ _ _ _ c(3)]
  have "if validUTF8 ''a'' then (\<exists>acct. go_get (AcctMap (dw_blockchainHook w)) ''a'' = Some acct \<and> wa_Nonce acct = cq_Nonce (sampleAccountRequest ''61'') \<and>
        Inr (the (wa_Balance acct)) = server_parseValue (cq_Balance (sampleAccountRequest ''61''))) \<and>
      (\<forall>b. b \<noteq> ''a'' \<longrightarrow> go_get (AcctMap (dw_blockchainHook w)) b = map_option jsonAccount (go_get (AcctMap (dw_blockchainHook v)) b))
    else go_get (AcctMap (dw_blockchainHook w)) ''a'' = None"
    by (rule found [OF c(1) _ _ _ _ c(2)]) (simp_all only: sample_base dec simp_thms)
  then obtain acct where "go_get (AcctMap (dw_blockchainHook w)) ''a'' = Some acct" "wa_Nonce acct = 7"
    unfolding if_P [OF valid(1)] sample_base by blast
  moreover have "if validUTF8 [CHR 0xFF] then (\<exists>acct. go_get (AcctMap (dw_blockchainHook w2)) [CHR 0xFF] = Some acct \<and>
        wa_Nonce acct = cq_Nonce (sampleAccountRequest ''ff'') \<and>
        Inr (the (wa_Balance acct)) = server_parseValue (cq_Balance (sampleAccountRequest ''ff''))) \<and>
      (\<forall>b. b \<noteq> [CHR 0xFF] \<longrightarrow> go_get (AcctMap (dw_blockchainHook w2)) b = map_option jsonAccount (go_get (AcctMap (dw_blockchainHook v)) b))
    else go_get (AcctMap (dw_blockchainHook w2)) [CHR 0xFF] = None"
    by (rule found [OF c2(1) _ _ _ _ c2(2)]) (simp_all only: sample_base dec simp_thms)
  then have "go_get (AcctMap (dw_blockchainHook w2)) [CHR 0xFF] = None" unfolding if_not_P [OF valid(2)] .
  ultimately show ?thesis using c c2 by blast
qed

end
