(* ===== verification/Spec2Isabelle.thy ===== *)
theory Spec2Isabelle
  imports Helpers ContractPrograms HookResults ScenProperties IpcDriver ScenExecutor ServerProperties
begin

text \<open>
  Verification development for the TerraDharitri WebAssembly virtual machine.

  \<^bold>\<open>The program.\<close>  The VM runs smart contracts for a blockchain node.  A host (\<open>src/vmhost/hostCore\<close>)
  owns six contexts (\<open>src/vmhost/contexts\<close>): the blockchain context asks the node for accounts and code,
  the runtime context holds the call being executed, the WebAssembly instance and its memory, the
  metering context charges gas, the storage context reads and writes the storage of the contract,
  the output context collects the effects of a transaction, and the big integer context holds the
  big integers a contract works with.  A contract acts on the world only through the functions it
  imports (\<open>src/vmhost/vmhooks\<close>, \<open>src/vmhost/cryptoapi\<close>); some of these call the host again, to execute another
  contract, to deploy one or to run a built-in function of the protocol.  Each context keeps a stack
  of states, pushed when such a nested execution starts and popped when it ends.  The VM may run in a process of its own
  (\<open>src/ipc\<close>): then the node sends it requests over a pipe, and the VM asks the hooks of the node by messages.

  \<^bold>\<open>State and effects.\<close>  The record \<open>vm\<close> of \<open>VMTypes\<close> has the state of every context.  An operation is a function
  of it, with result type \<open>vm option\<close>, or \<open>('a \<times> vm) option\<close>; \<open>None\<close> stands for a Go panic (a nil dereference, an
  index out of range).  Errors are values of the datatype \<open>err\<close>, with their wrapping chains, and an operation that may
  fail returns an \<open>err option\<close> or a sum.  Integers have their Go width, as words; \<open>*big.Int\<close> is
  \<open>int option\<close>, with \<open>None\<close> for nil, or \<open>int\<close> where nil cannot occur.  Go maps are association lists
  with one entry per key (\<open>Prelude\<close>).

  \<^bold>\<open>What is outside.\<close>  The record \<open>env\<close> has a field for every function of code that is not part of the
  repository or is native: the hooks of the node, the WebAssembly compiler, the cryptographic primitives, the
  JSON encoder, the two's complement encoder, constants of the shared libraries.  Where a property relies on one, the
  assumption is written in it: \<open>zeroGrow\<close> (growing memory keeps its content and adds zeros, as \<open>memory.grow\<close> does), and
  that two's complement decoding undoes encoding.  What the code of a contract computes is the parameter
  \<open>engine\<close> of the host: it gets the operations by which a contract can re-enter the
  host (\<open>reentry\<close>).  The depth of nested executions is the argument of \<open>calleeAt\<close>; a
  call deeper than it is \<open>None\<close>, and every property that speaks about executions holds for all depths.  Depth is enough:
  an execution can nest at most as deep as there is room for instances on the stack of the runtime, and beyond
  twice that room the depth no longer changes the result (\<open>HostDepth\<close>, \<open>ContractPrograms\<close>).
  \<open>ContractRuns\<close> gives the engine its meaning: an \<open>inductive\<close> step relation whose steps are calls of imported functions
  with arbitrary arguments, so that the properties proved there hold for every contract.

  \<^bold>\<open>Theories.\<close>
  \<^item> \<open>Prelude\<close>, \<open>KeyValue\<close>, \<open>StateStack\<close>, \<open>GoStd\<close>: shared lemmas and Go maps, the interfaces of a key-value
    store and of a context's stack, byte strings, hexadecimal and decimal text.
  \<^item> \<open>GoMath\<close>: \<open>src/math/overflow.go\<close>; saturating and checked arithmetic.
  \<^item> \<open>VMTypes\<close>, \<open>SampleState\<close>: \<open>src/vmhost/common.go\<close>, \<open>errors.go\<close>, the structs of the contexts; a small
    concrete world for the witnesses.
  \<^item> \<open>Helpers\<close>: \<open>src/vmhost/helpers.go\<close>.
  \<^item> \<open>BigIntContext\<close>, \<open>OutputContext\<close>, \<open>OutputTransfers\<close>, \<open>MeteringContext\<close>, \<open>RuntimeContext\<close>, \<open>RuntimeMemory\<close>,
    \<open>RuntimeExec\<close>, \<open>BlockchainContext\<close>, \<open>StorageContext\<close>, \<open>Validator\<close>: the files of \<open>src/vmhost/contexts\<close>.
  \<^item> \<open>HostBuiltin\<close>, \<open>HostAsync\<close>, \<open>HostExecution\<close>, \<open>HostStacks\<close>: \<open>execution.go\<close>, \<open>asyncCall.go\<close>, \<open>breakpoints.go\<close> and
    \<open>host.go\<close> of \<open>src/vmhost/hostCore\<close>, and what they do to the stacks.
  \<^item> \<open>HookOps\<close>, \<open>VMHooks\<close>, \<open>VMHooksExec\<close>, \<open>BigIntOps\<close>, \<open>SmallIntOps\<close>, \<open>CryptoAPI\<close>, \<open>VMImports\<close>: the functions a
    contract imports, and the table of them that the host builds.
  \<^item> \<open>HookRelations\<close>, \<open>ContractRuns\<close>, \<open>HookResults\<close>: what no run of imported functions can
    violate, and what single hooks compute.
  \<^item> \<open>HostDepth\<close>, \<open>ContractPrograms\<close>: contracts as programs that call imported functions, and the bound on the
    nesting of their executions.
  \<^item> \<open>GasSchedule\<close>: \<open>src/config\<close>, the opcodes of \<open>src/wasmer/opcodes.go\<close>, \<open>SetGasSchedule\<close> and \<open>GasScheduleChange\<close>.  The
    library that fills a struct from a map is the parameter \<open>Decode\<close>, with the hypotheses \<open>keepsFields\<close> and \<open>decodesByName\<close>.
  \<^item> \<open>OrderedJson\<close>, \<open>ScenExpressions\<close>: \<open>src/scenarios/orderedjson\<close> and \<open>src/scenarios/expression\<close>, the format of the
    scenario files and of the values in them.
  \<^item> \<open>ScenModel\<close>, \<open>ScenParse\<close>, \<open>ScenWrite\<close>: \<open>src/scenarios/json\<close>, scenario and test files; \<open>ScenRoundtrip\<close>, \<open>ScenRoundtripAccounts\<close>,
    \<open>ScenRoundtripChecks\<close>, \<open>ScenRoundtripTx\<close>, \<open>ScenRoundtripSteps\<close>, \<open>ScenarioFiles\<close>: what was written is read back, struct by struct.  The
    two's complement library is a field of \<open>Parser\<close>; the conditions \<open>ok_...\<close> state what each struct needs to be read back.
  \<^item> \<open>WorldAccounts\<close>, \<open>MockWorld\<close>: \<open>src/mock/world\<close>, the world in which scenarios run, with its accounts, their tokens, backups of the
    state and the blockchain hook.  The protobuf codec and the built-in functions are fields of \<open>worldLib\<close>.  What the VM makes the
    hook change during a transaction is its \<open>hookLog\<close>, played back onto the world after it (\<open>playEvents\<close>).
  \<^item> \<open>ScenChecks\<close>, \<open>ScenTransactions\<close>, \<open>ScenRun\<close>: \<open>src/scenarioexec\<close> with \<open>src/scenarios/controller\<close> and \<open>src/scenarios/fileresolver\<close>; the
    host of this development runs over the mock world.  A scenario file that is a step of another is run with less fuel; fuel above the
    rank of a file is enough.  \<open>ScenLaws\<close>, \<open>ScenSample\<close>, \<open>ScenProperties\<close>: what runs keep, a sample, the properties.  The hypothesis
    \<open>restrained\<close> says which part of the accounts the built-in functions leave alone, and \<open>ranked\<close> that no file includes itself.
  \<^item> \<open>WasmImports\<close>, \<open>HostConstruction\<close>, \<open>ScenExecutor\<close>: how a host is made.  \<open>src/wasmer/import.go\<close> registers the imported functions by
    their Go types; \<open>NewVMHost\<close> of \<open>host.go\<close> makes the contexts and sets the costs of the engine, whose state, one for the process, is
    \<open>wasmerGlobals\<close>; \<open>NewVMTestExecutor\<close> of \<open>src/scenarioexec/exec.go\<close> makes a host over a new world.
  \<^item> \<open>GoText\<close>, \<open>ServerRequests\<close>, \<open>DebugServer\<close>, \<open>ServerProperties\<close>: \<open>src/vmserver\<close> and the requests of \<open>src/cmd/vmserver\<close>.  The state
    between requests is the record \<open>disk\<close>, with the files of the database.  A stored world is what \<open>encoding/json\<close> reads back of it
    (\<open>jsonWorld\<close>): keys of maps are text, so that bytes that are not UTF-8 are replaced (\<open>jsonText\<close>).  Maps that are nil, to which an
    assignment panics, are recorded in \<open>nils\<close>.

  \<^item> \<open>IpcMessages\<close>, \<open>IpcPipes\<close>, \<open>IpcGateway\<close>, \<open>IpcDialogue\<close>, \<open>IpcDriver\<close>: \<open>src/ipc\<close>; the messages, their framing on
    pipes, the hooks of the node over messages, the loops of both processes as a state machine whose steps interleave
    in any order, and the driver that starts and stops the VM.  The marshalizer is a parameter, with the hypothesis \<open>survives\<close> (unmarshalling
    a marshalled message gives it back) for the messages that are sent; what a host does with a request is a tree of hook calls
    (\<open>run\<close>), with the hypothesis \<open>hostAsks\<close> (it sends requests of the gateway only); the answers of
    the operating system are a parameter of the driver's operations, with the hypothesis \<open>reliable\<close> where a process can be started and stopped.

  \<^bold>\<open>What is shown.\<close>
  \<^item> Isolation of calls: every context's stack is as it was after a nested execution, however deep,
    a failed call leaves nothing in the caller's output, and no run of a contract breaks this.
  \<^item> Storage refines a map per account; writes are refused in read-only mode and on protected keys, also
    for whole runs of contracts that call none of the nine imports which call contracts or move tokens (\<open>callingImports\<close>); the gas charged is given by a formula.
  \<^item> Gas: charging, forwarding and refunding are additive below the limits of 64 bits; the gas left never grows
    during a run of the other imports; the final output does not account for more gas than there was, below the limit of saturation; the limits of
    asynchronous calls are given by a formula and bounded.
  \<^item> Transfers conserve value.  Merging outputs, totals of gas and the data of token transfers agree with reference definitions.
  \<^item> Code: code that is started as new is verified (that of a contract deployed by a contract is not started as new), only the owner upgrades, reserved functions are not run.
  \<^item> Memory: loads and stores stay inside their range; a store that ends below 2 GiB is read back.
  \<^item> Configuration: a gas schedule is refused as a whole or applied as a whole, and no cost in force is 0.
  \<^item> A VM in its own process: messages that can be marshalled and read back survive the pipe, a dialogue ends and gives the node the response of the host or an error, whatever
    the interleaving and whenever the VM ends, contracts run as they do with direct hooks and leave the node with the same history, and on a reliable system the driver is ready for the next request.
  \<^item> Scenario files: printed JSON, printed addresses and written scenarios are read back.
  \<^item> Scenario runs: with built-in functions that move tokens only, funds are conserved and a failed transaction costs its gas and nothing else; the world stays well-formed, what was set is
    found by a check, the check of the storage is exact and the one of the tokens is not, and a run ends if no file includes itself.
  \<^item> New hosts: the imported functions take the arguments that their signatures say; a new host is idle, its costs are positive, and
    contracts cannot export the names of imported or built-in functions.
  \<^item> The debugging server: whatever is asked of its worlds, they lose no account, a query changes nothing and gives the same answer again, and a stored world
    survives exactly as far as its keys are text; all this unless the name of an outcome leads to the file of a world.
  \<^item> Arithmetic, encodings and handles: saturation, LEB128, truncated and Euclidean division, fresh handles (the
    search for a free handle uses as much fuel as the table has entries, plus one, which is proved to suffice).

  \<^bold>\<open>Interfaces.\<close>  The locales \<open>state_stack\<close> (\<open>StateStack\<close>, by every context), \<open>key_value\<close> (\<open>KeyValue\<close>, by the storage), \<open>hook_relation\<close> and \<open>write_relation\<close>
  (\<open>HookOps\<close>), \<open>call_relation\<close> (\<open>VMHooksExec\<close>), \<open>codec\<close> (\<open>ScenRoundtrip\<close>, by every struct of a scenario) and \<open>world_invariant\<close> (\<open>ScenLaws\<close>, by the well-formed worlds) are interpreted on the model's own definitions.

  \<^bold>\<open>Not modelled.\<close>  The cgo bindings of the WebAssembly engine (\<open>src/wasmer\<close>), the hash functions
  of the VM process, the routes of the debugging server and its command line flags, the fuzzers (\<open>src/fuzz\<close>), the stubs for Go tests (\<open>src/mock/context\<close>),
  walks over directories of scenarios; loggers and getters that return a field; \<open>saveCrossShardCalls\<close>, which has no caller.
\<close>

end
